(* ===== verification/Prelude.thy ===== *)
theory Prelude
  imports Main "HOL-Library.AList"
begin

text \<open>
  Shared vocabulary of the development.

  \<^item> Results: a TypeScript function that may \<open>throw new Error(msg)\<close> returns a value of
    type \<open>'a result\<close>, \<open>Inl (Error msg)\<close> for the exception and \<open>Inr v\<close> for the value.
    \<open>throw_if c msg k\<close> is \<open>if (c) throw new Error(msg); k\<close>, \<open>bnd m f\<close> is sequencing.
    The collection \<open>result_simps\<close> inverts a successful result into the facts it rests on.
  \<^item> Objects: a \<open>Record<string, T>\<close> or \<open>Map<string, T>\<close> is an association list in
    insertion order; writing an existing key keeps its place.
  \<^item> Strings: character classes, ASCII lower-casing, decimal printing and parsing.
\<close>

section \<open>Results\<close>

datatype js_error = Error string

type_synonym 'a result = "js_error + 'a"

named_theorems result_simps \<open>inversion of successful results\<close>

definition bnd :: "'a result \<Rightarrow> ('a \<Rightarrow> 'b result) \<Rightarrow> 'b result" where
  "bnd m f = (case m of Inl e \<Rightarrow> Inl e | Inr x \<Rightarrow> f x)"

definition throw_if :: "bool \<Rightarrow> string \<Rightarrow> 'a result \<Rightarrow> 'a result" where
  "throw_if c msg k = (if c then Inl (Error msg) else k)"

definition thn :: "unit result \<Rightarrow> 'a result \<Rightarrow> 'a result" where
  "thn m k = bnd m (\<lambda>_. k)"

definition require :: "'a option \<Rightarrow> string \<Rightarrow> 'a result" where
  "require v msg = (case v of None \<Rightarrow> Inl (Error msg) | Some x \<Rightarrow> Inr x)"

lemma bnd_simps [simp]:
  "bnd (Inl e) f = Inl e"
  "bnd (Inr x) f = f x"
  by (simp_all add: bnd_def)

lemma throw_if_simps [simp]:
  "throw_if True msg k = Inl (Error msg)"
  "throw_if False msg k = k"
  by (simp_all add: throw_if_def)

lemma thn_simps [simp]:
  "thn (Inl e) k = Inl e"
  "thn (Inr u) k = k"
  by (simp_all add: thn_def)

lemma require_simps [simp]:
  "require None msg = Inl (Error msg)"
  "require (Some x) msg = Inr x"
  by (simp_all add: require_def)

lemma bnd_Inr_iff [result_simps]: "bnd m f = Inr y \<longleftrightarrow> (\<exists>x. m = Inr x \<and> f x = Inr y)"
  by (cases m) auto

lemma throw_if_Inr_iff [result_simps]: "throw_if c msg k = Inr y \<longleftrightarrow> \<not> c \<and> k = Inr y"
  by (simp add: throw_if_def)

lemma thn_Inr_iff [result_simps]: "thn m k = Inr y \<longleftrightarrow> m = Inr () \<and> k = Inr y"
  by (cases m) auto

lemma require_Inr_iff [result_simps]: "require v msg = Inr x \<longleftrightarrow> v = Some x"
  by (cases v) auto

lemma bnd_assoc: "bnd (bnd m f) g = bnd m (\<lambda>x. bnd (f x) g)"
  by (cases m) auto

lemma bnd_Inr_right: "bnd m Inr = m"
  by (cases m) auto

text \<open>Whether a check passes; used to state a guard of the code as a proposition.\<close>

definition passes :: "'a result \<Rightarrow> bool" where
  "passes m \<longleftrightarrow> (case m of Inl _ \<Rightarrow> False | Inr _ \<Rightarrow> True)"

lemma passes_iff: "passes m \<longleftrightarrow> (\<exists>x. m = Inr x)"
  by (auto simp: passes_def split: sum.splits)

lemma passes_unit: "passes (m :: unit result) \<longleftrightarrow> m = Inr ()"
  by (auto simp: passes_iff)

section \<open>Objects keyed by strings\<close>

type_synonym 'v obj = "(string \<times> 'v) list"

abbreviation oget :: "'v obj \<Rightarrow> string \<Rightarrow> 'v option" where
  "oget ob k \<equiv> map_of ob k"

abbreviation oset :: "string \<Rightarrow> 'v \<Rightarrow> 'v obj \<Rightarrow> 'v obj" where
  "oset k v ob \<equiv> AList.update k v ob"

definition ovals :: "'v obj \<Rightarrow> 'v list" where
  "ovals ob = map snd ob"

definition okeys :: "'v obj \<Rightarrow> string list" where
  "okeys ob = map fst ob"

lemma ovals_simps [simp]: "ovals [] = []" "ovals (p # ob) = snd p # ovals ob"
  by (simp_all add: ovals_def)

lemma okeys_simps [simp]: "okeys [] = []" "okeys (p # ob) = fst p # okeys ob"
  by (simp_all add: okeys_def)

lemma oget_oset [simp]: "oget (oset k v ob) k' = (if k' = k then Some v else oget ob k')"
  by (simp add: update_conv')

lemma oget_oset_map: "map_of (oset k v ob) = (map_of ob)(k \<mapsto> v)"
  by (simp add: update_conv')

lemma oset_fresh: "oget ob k = None \<Longrightarrow> oset k v ob = ob @ [(k, v)]"
  by (induction ob) (auto split: if_splits)

lemma ovals_oset_fresh: "oget ob k = None \<Longrightarrow> ovals (oset k v ob) = ovals ob @ [v]"
  by (simp add: oset_fresh ovals_def)

lemma okeys_oset: "okeys (oset k v ob) = (if k \<in> set (okeys ob) then okeys ob else okeys ob @ [k])"
  by (simp add: okeys_def update_keys)

lemma oget_keys: "oget ob k = None \<longleftrightarrow> k \<notin> set (okeys ob)"
  by (simp add: okeys_def map_of_eq_None_iff)

lemma distinct_okeys_oset: "distinct (okeys ob) \<Longrightarrow> distinct (okeys (oset k v ob))"
  by (auto simp: okeys_oset)

lemma oget_in_ovals: "oget ob k = Some v \<Longrightarrow> v \<in> set (ovals ob)"
  by (auto simp: ovals_def dest: map_of_SomeD intro: rev_image_eqI)

lemma set_ovals: "distinct (okeys ob) \<Longrightarrow> set (ovals ob) = ran (map_of ob)"
  by (simp add: ovals_def okeys_def ran_distinct)

lemma ovals_oset_split:
  assumes "oget ob k = Some u"
  obtains xs ys where "ovals ob = xs @ u # ys" "\<And>v. ovals (oset k v ob) = xs @ v # ys"
proof -
  from assms have "\<exists>xs ys. ovals ob = xs @ u # ys \<and> (\<forall>v. ovals (oset k v ob) = xs @ v # ys)"
  proof (induction ob)
    case Nil
    then show ?case by simp
  next
    case (Cons p ob)
    show ?case
    proof (cases "fst p = k")
      case True
      with Cons.prems have "snd p = u" by (cases p) simp
      with True show ?thesis by (intro exI [of _ "[]"] exI [of _ "ovals ob"]) simp
    next
      case False
      with Cons.prems have "oget ob k = Some u" by (cases p) auto
      with Cons.IH obtain xs ys where
        "ovals ob = xs @ u # ys" "\<forall>v. ovals (oset k v ob) = xs @ v # ys" by blast
      with False show ?thesis by (intro exI [of _ "snd p # xs"] exI [of _ ys]) simp
    qed
  qed
  then show ?thesis using that by blast
qed

section \<open>Strings\<close>

definition code_in :: "nat \<Rightarrow> nat \<Rightarrow> char \<Rightarrow> bool" where
  "code_in lo hi c \<longleftrightarrow> lo \<le> of_char c \<and> of_char c \<le> hi"

definition is_digit :: "char \<Rightarrow> bool" where
  "is_digit c \<longleftrightarrow> code_in 48 57 c"

definition is_lower :: "char \<Rightarrow> bool" where
  "is_lower c \<longleftrightarrow> code_in 97 122 c"

definition is_upper :: "char \<Rightarrow> bool" where
  "is_upper c \<longleftrightarrow> code_in 65 90 c"

definition is_hex_digit :: "char \<Rightarrow> bool" where
  "is_hex_digit c \<longleftrightarrow> is_digit c \<or> code_in 97 102 c \<or> code_in 65 70 c"

text \<open>\<open>String.prototype.toLowerCase\<close> on ASCII text.\<close>

definition lower_char :: "char \<Rightarrow> char" where
  "lower_char c = (if is_upper c then char_of (of_char c + 32 :: nat) else c)"

definition lower :: "string \<Rightarrow> string" where
  "lower s = map lower_char s"

lemma of_char_lower: "is_upper c \<Longrightarrow> of_char (lower_char c) = (of_char c + 32 :: nat)"
  by (simp add: lower_char_def is_upper_def code_in_def)

lemma lower_char_idem [simp]: "lower_char (lower_char c) = lower_char c"
proof (cases "is_upper c")
  case True
  then have "of_char (lower_char c) = (of_char c + 32 :: nat)" by (rule of_char_lower)
  with True have "\<not> is_upper (lower_char c)" by (simp add: is_upper_def code_in_def)
  then show ?thesis by (simp add: lower_char_def)
next
  case False
  then show ?thesis by (simp add: lower_char_def)
qed

lemma lower_idem [simp]: "lower (lower s) = lower s"
  by (simp add: lower_def)

lemma lower_Nil [simp]: "lower [] = []"
  by (simp add: lower_def)

text \<open>\<open>String.prototype.toUpperCase\<close> on ASCII text.\<close>

definition upper_char :: "char \<Rightarrow> char" where
  "upper_char c = (if is_lower c then char_of (of_char c - 32 :: nat) else c)"

definition upper :: "string \<Rightarrow> string" where
  "upper s = map upper_char s"

text \<open>Decimal numerals: \<open>BigInt.prototype.toString\<close>, \<open>BigInt(text)\<close>.\<close>

definition digit_char :: "int \<Rightarrow> char" where
  "digit_char d = char_of (nat (48 + d))"

definition digit_val :: "char \<Rightarrow> int" where
  "digit_val c = int (of_char c) - 48"

function nat_digits :: "int \<Rightarrow> string" where
  "nat_digits n = (if n < 10 then [digit_char n] else nat_digits (n div 10) @ [digit_char (n mod 10)])"
  by pat_completeness auto
termination
  by (relation "measure (\<lambda>n. nat n)") auto

declare nat_digits.simps [simp del]

definition int_str :: "int \<Rightarrow> string" where
  "int_str n = (if n < 0 then CHR ''-'' # nat_digits (- n) else nat_digits n)"

definition digits_val :: "string \<Rightarrow> int" where
  "digits_val s = foldl (\<lambda>acc c. 10 * acc + digit_val c) 0 s"

lemma of_char_digit_char: "0 \<le> d \<Longrightarrow> d < 10 \<Longrightarrow> (of_char (digit_char d) :: nat) = nat (48 + d)"
  by (simp add: digit_char_def)

lemma digit_val_digit_char: "0 \<le> d \<Longrightarrow> d < 10 \<Longrightarrow> digit_val (digit_char d) = d"
  by (simp add: digit_val_def of_char_digit_char)

lemma is_digit_digit_char: "0 \<le> d \<Longrightarrow> d < 10 \<Longrightarrow> is_digit (digit_char d)"
  by (simp add: is_digit_def code_in_def of_char_digit_char) arith

lemma digits_val_snoc: "digits_val (s @ [c]) = 10 * digits_val s + digit_val c"
  by (simp add: digits_val_def)

lemma nat_digits_ne [simp]: "nat_digits n \<noteq> []"
  by (subst nat_digits.simps) simp

lemma nat_digits_all: "0 \<le> n \<Longrightarrow> list_all is_digit (nat_digits n)"
proof (induction n rule: nat_digits.induct)
  case (1 n)
  then show ?case
    by (subst nat_digits.simps) (auto simp: is_digit_digit_char)
qed

lemma digits_val_nat_digits: "0 \<le> n \<Longrightarrow> digits_val (nat_digits n) = n"
proof (induction n rule: nat_digits.induct)
  case (1 n)
  show ?case
  proof (cases "n < 10")
    case True
    with "1.prems" show ?thesis
      by (subst nat_digits.simps) (simp add: digits_val_def digit_val_digit_char)
  next
    case False
    with 1 have "digits_val (nat_digits (n div 10)) = n div 10" by simp
    with False show ?thesis
      by (subst nat_digits.simps) (simp add: digits_val_snoc digit_val_digit_char)
  qed
qed

lemma digit_val_nonneg: "is_digit c \<Longrightarrow> 0 \<le> digit_val c"
  by (simp add: is_digit_def code_in_def digit_val_def)

lemma digits_val_nonneg: "list_all is_digit s \<Longrightarrow> 0 \<le> digits_val s"
proof (induction s rule: rev_induct)
  case Nil
  then show ?case by (simp add: digits_val_def)
next
  case (snoc c s)
  then show ?case by (simp add: digits_val_snoc digit_val_nonneg)
qed

section \<open>Lists\<close>

text \<open>\<open>[...new Set(xs)]\<close>: the first occurrence of every element, in order.\<close>

fun unique_list :: "'a list \<Rightarrow> 'a list" where
  "unique_list [] = []"
| "unique_list (x # xs) = x # filter (\<lambda>y. y \<noteq> x) (unique_list xs)"

lemma set_unique_list [simp]: "set (unique_list xs) = set xs"
  by (induction xs) auto

lemma distinct_unique_list [simp]: "distinct (unique_list xs)"
  by (induction xs) auto

lemma unique_list_Nil_iff [simp]: "unique_list xs = [] \<longleftrightarrow> xs = []"
  by (cases xs) auto

text \<open>\<open>xs.join(sep)\<close>.\<close>

fun join :: "string \<Rightarrow> string list \<Rightarrow> string" where
  "join sep [] = []"
| "join sep [x] = x"
| "join sep (x # y # xs) = x @ sep @ join sep (y # xs)"

text \<open>\<open>Number.isSafeInteger\<close> on an integer.\<close>

definition isSafeInteger :: "int \<Rightarrow> bool" where
  "isSafeInteger n \<longleftrightarrow> - 9007199254740991 \<le> n \<and> n \<le> 9007199254740991"

end
