(* ===== verification/Canonical.thy ===== *)
theory Canonical
  imports Prelude
begin

text \<open>
  \<open>agent-kernel/src/canonical.ts\<close>: canonical JSON, hashes, stable identifiers and the
  checks on addresses, digests, base-unit amounts and timestamps.

  A JavaScript value is a \<open>json\<close>: integers are \<open>JNum\<close>, other finite numbers carry the
  text \<open>Number::toString\<close> gives them, and the values \<open>assertSerializable\<close> refuses have
  constructors of their own. An object is its list of own enumerable entries.

  What the code takes from its platform is the record \<open>jsenv\<close>: SHA-256 of
  \<open>node:crypto\<close>, the collation \<open>a.localeCompare(b) <= 0\<close>, \<open>Date.parse\<close>
  (\<open>None\<close> for \<open>NaN\<close>) and \<open>Date.prototype.toISOString\<close> on milliseconds.
\<close>

section \<open>The platform\<close>

type_synonym hex = string
type_synonym address = string
type_synonym iso_date = string

record jsenv =
  sha256 :: "string \<Rightarrow> string"
  collate :: "string \<Rightarrow> string \<Rightarrow> bool"
  date_parse :: "string \<Rightarrow> int option"
  to_iso :: "int \<Rightarrow> string"

section \<open>Values\<close>

datatype json =
    JUndefined
  | JNull
  | JBool bool
  | JNum int
  | JDecimal string
  | JNonFinite
  | JBigint int
  | JFunction
  | JStr string
  | JArr "json list"
  | JObj "(string \<times> json) list"

type_synonym fields = "(string \<times> json) list"

text \<open>A field that is present only when the optional value is: \<open>...(v ? { k: v } : {})\<close>.\<close>

definition opt_field :: "string \<Rightarrow> ('a \<Rightarrow> json) \<Rightarrow> 'a option \<Rightarrow> fields" where
  "opt_field k f v = (case v of None \<Rightarrow> [] | Some x \<Rightarrow> [(k, f x)])"

definition str_arr :: "string list \<Rightarrow> json" where
  "str_arr xs = JArr (map JStr xs)"

section \<open>assertSerializable\<close>

function assertSerializable :: "json \<Rightarrow> string \<Rightarrow> unit result"
  and assertEntries :: "json list \<Rightarrow> string \<Rightarrow> int \<Rightarrow> unit result"
  and assertFields :: "fields \<Rightarrow> string \<Rightarrow> unit result"
where
  "assertSerializable v path =
     (case v of
        JUndefined \<Rightarrow> Inl (Error (''undefined is not canonical at '' @ path))
      | JNonFinite \<Rightarrow> Inl (Error (''non-finite number at '' @ path))
      | JBigint _ \<Rightarrow> Inl (Error (''bigint must be encoded as a string at '' @ path))
      | JFunction \<Rightarrow> Inl (Error (''unsupported canonical value at '' @ path))
      | JArr xs \<Rightarrow> assertEntries xs path 0
      | JObj fs \<Rightarrow> assertFields fs path
      | _ \<Rightarrow> Inr ())"
| "assertEntries [] path i = Inr ()"
| "assertEntries (x # xs) path i =
     thn (assertSerializable x (path @ ''['' @ int_str i @ '']'')) (assertEntries xs path (i + 1))"
| "assertFields [] path = Inr ()"
| "assertFields ((k, x) # fs) path =
     thn (assertSerializable x (path @ ''.'' @ k)) (assertFields fs path)"
  by pat_completeness auto
termination
  by (relation "measure (\<lambda>x. case x of
        Inl (v, _) \<Rightarrow> 2 * size v
      | Inr (Inl (xs, _, _)) \<Rightarrow> Suc (2 * size_list size xs)
      | Inr (Inr (fs, _)) \<Rightarrow> Suc (2 * size_list (size_prod (\<lambda>_. 0) size) fs))") auto

declare assertSerializable.simps [simp del]

lemma assertSerializable_simps [simp]:
  "assertSerializable JUndefined path = Inl (Error (''undefined is not canonical at '' @ path))"
  "assertSerializable JNonFinite path = Inl (Error (''non-finite number at '' @ path))"
  "assertSerializable (JBigint b) path = Inl (Error (''bigint must be encoded as a string at '' @ path))"
  "assertSerializable JFunction path = Inl (Error (''unsupported canonical value at '' @ path))"
  "assertSerializable JNull path = Inr ()"
  "assertSerializable (JBool t) path = Inr ()"
  "assertSerializable (JNum n) path = Inr ()"
  "assertSerializable (JDecimal d) path = Inr ()"
  "assertSerializable (JStr s) path = Inr ()"
  "assertSerializable (JArr xs) path = assertEntries xs path 0"
  "assertSerializable (JObj fs) path = assertFields fs path"
  by (simp_all add: assertSerializable.simps)

text \<open>The predicate the check decides.\<close>

fun serializable :: "json \<Rightarrow> bool" where
  "serializable JUndefined = False"
| "serializable JNonFinite = False"
| "serializable (JBigint _) = False"
| "serializable JFunction = False"
| "serializable (JArr xs) = list_all serializable xs"
| "serializable (JObj fs) = list_all (\<lambda>p. serializable (snd p)) fs"
| "serializable _ = True"

lemma assertSerializable_iff:
  "assertSerializable v path = Inr () \<longleftrightarrow> serializable v"
  "assertEntries xs path i = Inr () \<longleftrightarrow> list_all serializable xs"
  "assertFields fs path = Inr () \<longleftrightarrow> list_all (\<lambda>p. serializable (snd p)) fs"
proof (induction v path and xs path i and fs path rule: assertSerializable_assertEntries_assertFields.induct)
  case (1 v path)
  then show ?case by (cases v) auto
qed (auto simp: thn_Inr_iff)

section \<open>normalize and JSON.stringify\<close>

text \<open>
  \<open>entries.sort(([a], [b]) => a.localeCompare(b))\<close>: the stable sort of the entries by key.
\<close>

fun insert_entry :: "(string \<Rightarrow> string \<Rightarrow> bool) \<Rightarrow> string \<times> 'a \<Rightarrow> (string \<times> 'a) list \<Rightarrow> (string \<times> 'a) list" where
  "insert_entry le p [] = [p]"
| "insert_entry le p (q # qs) = (if le (fst p) (fst q) then p # q # qs else q # insert_entry le p qs)"

fun sort_entries :: "(string \<Rightarrow> string \<Rightarrow> bool) \<Rightarrow> (string \<times> 'a) list \<Rightarrow> (string \<times> 'a) list" where
  "sort_entries le [] = []"
| "sort_entries le (p # ps) = insert_entry le p (sort_entries le ps)"

lemma set_insert_entry [simp]: "set (insert_entry le p ps) = insert p (set ps)"
  by (induction ps) auto

lemma set_sort_entries [simp]: "set (sort_entries le ps) = set ps"
  by (induction ps) auto

lemma size_in_fields: "(k, v) \<in> set fs \<Longrightarrow> size v < Suc (size_list (size_prod (\<lambda>_. 0) size) fs)"
  by (induction fs) auto

function normalize :: "(string \<Rightarrow> string \<Rightarrow> bool) \<Rightarrow> json \<Rightarrow> json" where
  "normalize le v =
     (case v of
        JArr xs \<Rightarrow> JArr (map (normalize le) xs)
      | JObj fs \<Rightarrow> JObj (map (\<lambda>p. (fst p, normalize le (snd p))) (sort_entries le fs))
      | _ \<Rightarrow> v)"
  by pat_completeness auto
termination
proof (relation "measure (\<lambda>(le, v). size v)", goal_cases)
  case 1
  then show ?case by simp
next
  case (2 le v xs x)
  then show ?case by (auto dest: size_list_estimation' [where f = size and y = "size x"] simp: less_Suc_eq_le)
next
  case (3 le v fs p)
  then show ?case using size_in_fields [of "fst p" "snd p" fs] by simp
qed

declare normalize.simps [simp del]

lemma normalize_simps [simp]:
  "normalize le (JArr xs) = JArr (map (normalize le) xs)"
  "normalize le (JObj fs) = JObj (map (\<lambda>p. (fst p, normalize le (snd p))) (sort_entries le fs))"
  "normalize le JUndefined = JUndefined"
  "normalize le JNull = JNull"
  "normalize le (JBool b) = JBool b"
  "normalize le (JNum n) = JNum n"
  "normalize le (JDecimal d) = JDecimal d"
  "normalize le JNonFinite = JNonFinite"
  "normalize le (JBigint i) = JBigint i"
  "normalize le JFunction = JFunction"
  "normalize le (JStr s) = JStr s"
  by (simp_all add: normalize.simps)

definition hex_char :: "nat \<Rightarrow> char" where
  "hex_char d = (if d < 10 then char_of (48 + d) else char_of (87 + d))"

definition quote_char :: "char \<Rightarrow> string" where
  "quote_char c =
     (let n = of_char c :: nat in
      if n = 34 then [char_of (92::nat), c]
      else if n = 92 then [c, c]
      else if n = 8 then [char_of (92::nat), CHR ''b'']
      else if n = 9 then [char_of (92::nat), CHR ''t'']
      else if n = 10 then [char_of (92::nat), CHR ''n'']
      else if n = 12 then [char_of (92::nat), CHR ''f'']
      else if n = 13 then [char_of (92::nat), CHR ''r'']
      else if n < 32 then char_of (92::nat) # ''u00'' @ [hex_char (n div 16), hex_char (n mod 16)]
      else [c])"

definition quote :: "string \<Rightarrow> string" where
  "quote s = char_of (34::nat) # concat (map quote_char s) @ [char_of (34::nat)]"

text \<open>
  \<open>JSON.stringify\<close> without indentation, on values \<open>assertSerializable\<close> accepts (on the
  others it is only defined so that the function is total).
\<close>

fun stringify :: "json \<Rightarrow> string" where
  "stringify JUndefined = ''undefined''"
| "stringify JNull = ''null''"
| "stringify (JBool b) = (if b then ''true'' else ''false'')"
| "stringify (JNum n) = int_str n"
| "stringify (JDecimal d) = d"
| "stringify JNonFinite = ''null''"
| "stringify (JBigint i) = int_str i"
| "stringify JFunction = ''undefined''"
| "stringify (JStr s) = quote s"
| "stringify (JArr xs) = ''['' @ join '','' (map stringify xs) @ '']''"
| "stringify (JObj fs) =
     ''{'' @ join '','' (map (\<lambda>p. quote (fst p) @ '':'' @ stringify (snd p)) fs) @ ''}''"

section \<open>Canonical text, digests and identifiers\<close>

definition canonicalJson :: "'z jsenv_scheme \<Rightarrow> json \<Rightarrow> string result" where
  "canonicalJson env v =
     thn (assertSerializable v ''$root'') (Inr (stringify (normalize (collate env) v)))"

definition sha256Hex :: "'z jsenv_scheme \<Rightarrow> string \<Rightarrow> hex" where
  "sha256Hex env s = ''0x'' @ sha256 env s"

definition hashCanonical :: "'z jsenv_scheme \<Rightarrow> json \<Rightarrow> hex result" where
  "hashCanonical env v = bnd (canonicalJson env v) (\<lambda>s. Inr (sha256Hex env s))"

text \<open>\<open>hash.slice(2, 18)\<close>.\<close>

definition stableId :: "'z jsenv_scheme \<Rightarrow> string \<Rightarrow> json \<Rightarrow> string result" where
  "stableId env prefix seed =
     bnd (hashCanonical env seed) (\<lambda>h. Inr (prefix @ ''_'' @ take 16 (drop 2 h)))"

definition nowIso :: "'z jsenv_scheme \<Rightarrow> int \<Rightarrow> iso_date" where
  "nowIso env now = to_iso env now"

text \<open>The all-zero digest literal of the code, \<open>("0x" + "00".repeat(32))\<close>.\<close>

definition zero_hash :: hex where
  "zero_hash = ''0x'' @ replicate 64 (CHR ''0'')"

definition safeStringEqual :: "string \<Rightarrow> string \<Rightarrow> bool" where
  "safeStringEqual a b \<longleftrightarrow> length a = length b \<and> a = b"

section \<open>Checks\<close>

definition hex_of_length :: "nat \<Rightarrow> string \<Rightarrow> bool" where
  "hex_of_length n s \<longleftrightarrow> take 2 s = ''0x'' \<and> length s = n + 2 \<and> list_all is_hex_digit (drop 2 s)"

definition assertAddress :: "string \<Rightarrow> string \<Rightarrow> unit result" where
  "assertAddress value field =
     throw_if (\<not> hex_of_length 40 value) (field @ '' must be an EVM address'') (Inr ())"

definition assertHex32 :: "string \<Rightarrow> string \<Rightarrow> unit result" where
  "assertHex32 value field =
     throw_if (\<not> hex_of_length 64 value) (field @ '' must be bytes32'') (Inr ())"

definition parseBaseUnits :: "string \<Rightarrow> string \<Rightarrow> bool \<Rightarrow> int result" where
  "parseBaseUnits value field allowZero =
     throw_if (\<not> (value \<noteq> [] \<and> list_all is_digit value))
       (field @ '' must be an unsigned base-unit integer'')
    (let parsed = digits_val value in
     throw_if (\<not> allowZero \<and> parsed = 0) (field @ '' must be greater than zero'')
    (Inr parsed))"

definition parseIso :: "'z jsenv_scheme \<Rightarrow> string \<Rightarrow> string \<Rightarrow> int result" where
  "parseIso env value field = require (date_parse env value) (field @ '' must be a valid ISO timestamp'')"

section \<open>Facts\<close>

lemma canonicalJson_Inr_iff [result_simps]:
  "canonicalJson env v = Inr s \<longleftrightarrow> serializable v \<and> s = stringify (normalize (collate env) v)"
  by (auto simp: canonicalJson_def thn_Inr_iff assertSerializable_iff)

lemma hashCanonical_Inr_iff:
  "hashCanonical env v = Inr h \<longleftrightarrow>
     serializable v \<and> h = sha256Hex env (stringify (normalize (collate env) v))"
  by (auto simp: hashCanonical_def result_simps)

lemma hashCanonical_total: "serializable v \<Longrightarrow> \<exists>h. hashCanonical env v = Inr h"
  by (simp add: hashCanonical_Inr_iff)

lemma stableId_Inr_iff:
  "stableId env p v = Inr i \<longleftrightarrow> (\<exists>h. hashCanonical env v = Inr h \<and> i = p @ ''_'' @ take 16 (drop 2 h))"
  by (auto simp: stableId_def result_simps)

lemma stableId_total: "serializable v \<Longrightarrow> \<exists>i. stableId env p v = Inr i"
  using hashCanonical_total [of v env] by (auto simp: stableId_Inr_iff)

lemma parseBaseUnits_Inr_iff:
  "parseBaseUnits value field allowZero = Inr n \<longleftrightarrow>
     value \<noteq> [] \<and> list_all is_digit value \<and> n = digits_val value \<and> (allowZero \<or> n \<noteq> 0)"
  by (auto simp: parseBaseUnits_def result_simps Let_def)

lemma parseBaseUnits_nonneg: "parseBaseUnits value field allowZero = Inr n \<Longrightarrow> 0 \<le> n"
  by (auto simp: parseBaseUnits_Inr_iff digits_val_nonneg)

lemma parseBaseUnits_pos: "parseBaseUnits v field False = Inr n \<Longrightarrow> 0 < n"
  using parseBaseUnits_nonneg [of v field False n] by (auto simp: parseBaseUnits_Inr_iff)

lemma parseBaseUnits_field_irrelevant:
  "parseBaseUnits value f1 False = Inr n \<Longrightarrow> parseBaseUnits value f2 z = Inr n"
  by (auto simp: parseBaseUnits_Inr_iff)

lemma parseBaseUnits_roundtrip: "0 \<le> n \<Longrightarrow> parseBaseUnits (int_str n) field True = Inr n"
  by (simp add: parseBaseUnits_Inr_iff int_str_def nat_digits_all digits_val_nat_digits)

lemma assertHex32_Inr_iff: "assertHex32 v f = Inr u \<longleftrightarrow> hex_of_length 64 v"
  by (cases u) (simp add: assertHex32_def result_simps)

lemma assertAddress_Inr_iff: "assertAddress v f = Inr u \<longleftrightarrow> hex_of_length 40 v"
  by (cases u) (simp add: assertAddress_def result_simps)

lemma parseIso_Inr_iff: "parseIso env v f = Inr t \<longleftrightarrow> date_parse env v = Some t"
  by (simp add: parseIso_def result_simps)

lemma safeStringEqual_iff [simp]: "safeStringEqual a b \<longleftrightarrow> a = b"
  by (auto simp: safeStringEqual_def)

lemma hex_of_length_zero_hash: "hex_of_length 64 zero_hash"
  by (simp add: zero_hash_def hex_of_length_def list_all_iff is_hex_digit_def is_digit_def code_in_def)

end
