(* ===== verification/CanonicalOrder.thy ===== *)
theory CanonicalOrder
  imports Canonical "HOL-Library.Multiset"
begin

text \<open>
  The contract of canonical JSON: two values that differ only in the order of object keys
  have one canonical text and so one digest, as long as the collation is a linear order.
\<close>

definition linear_collation :: "(string \<Rightarrow> string \<Rightarrow> bool) \<Rightarrow> bool" where
  "linear_collation le \<longleftrightarrow>
     (\<forall>a b. le a b \<or> le b a) \<and> (\<forall>a b. le a b \<longrightarrow> le b a \<longrightarrow> a = b) \<and>
     (\<forall>a b c. le a b \<longrightarrow> le b c \<longrightarrow> le a c)"

inductive same_value :: "json \<Rightarrow> json \<Rightarrow> bool" where
  same: "same_value v v"
| arr: "list_all2 same_value xs ys \<Longrightarrow> same_value (JArr xs) (JArr ys)"
| obj: "list_all2 (\<lambda>p q. fst p = fst q \<and> same_value (snd p) (snd q)) fs gs \<Longrightarrow>
     distinct (map fst fs) \<Longrightarrow> mset gs = mset hs \<Longrightarrow> same_value (JObj fs) (JObj hs)"

section \<open>Sorting entries\<close>

fun entries_sorted :: "(string \<Rightarrow> string \<Rightarrow> bool) \<Rightarrow> (string \<times> 'a) list \<Rightarrow> bool" where
  "entries_sorted le [] \<longleftrightarrow> True"
| "entries_sorted le (p # ps) \<longleftrightarrow> (\<forall>q \<in> set ps. le (fst p) (fst q)) \<and> entries_sorted le ps"

lemma linear_collationD:
  assumes "linear_collation le"
  shows "\<not> le a b \<Longrightarrow> le b a" "le a b \<Longrightarrow> le b a \<Longrightarrow> a = b" "le a b \<Longrightarrow> le b c \<Longrightarrow> le a c"
  using assms unfolding linear_collation_def by metis+

lemma insert_entry_sorted:
  assumes "linear_collation le" "entries_sorted le ps"
  shows "entries_sorted le (insert_entry le p ps)"
  using assms(2)
proof (induction ps)
  case Nil
  then show ?case by simp
next
  case (Cons q qs)
  show ?case
  proof (cases "le (fst p) (fst q)")
    case True
    with Cons.prems show ?thesis using linear_collationD(3) [OF assms(1) True] by simp
  next
    case False
    then have "le (fst q) (fst p)" by (rule linear_collationD(1) [OF assms(1)])
    with False Cons show ?thesis by simp
  qed
qed

lemma sort_entries_sorted: "linear_collation le \<Longrightarrow> entries_sorted le (sort_entries le ps)"
  by (induction ps) (simp_all add: insert_entry_sorted)

lemma mset_insert_entry [simp]: "mset (insert_entry le p ps) = add_mset p (mset ps)"
  by (induction ps) auto

lemma mset_sort_entries [simp]: "mset (sort_entries le ps) = mset ps"
  by (induction ps) auto

lemma sorted_entries_unique:
  assumes le: "linear_collation le" and "entries_sorted le ps" "entries_sorted le qs"
    "mset ps = mset qs" "distinct (map fst ps)"
  shows "ps = qs"
  using assms(2-)
proof (induction ps arbitrary: qs)
  case Nil
  then show ?case by simp
next
  case (Cons p ps)
  from Cons.prems(3) obtain q qs' where qs: "qs = q # qs'" by (cases qs) auto
  have sets: "set (p # ps) = set qs" by (metis Cons.prems(3) set_mset_mset)
  have "p = q"
  proof (rule ccontr)
    assume "p \<noteq> q"
    with sets qs have "p \<in> set qs'" "q \<in> set ps" by auto
    with Cons.prems(1,2) qs have "le (fst q) (fst p)" "le (fst p) (fst q)" by auto
    from linear_collationD(2) [OF le this(2,1)] have "fst p = fst q" .
    with \<open>q \<in> set ps\<close> Cons.prems(4) show False by auto
  qed
  with Cons qs show ?case by simp
qed

lemma sort_entries_permute:
  assumes "linear_collation le" "mset fs = mset hs" "distinct (map fst fs)"
  shows "sort_entries le fs = sort_entries le hs"
proof (rule sorted_entries_unique [OF assms(1)])
  show "mset (sort_entries le fs) = mset (sort_entries le hs)" using assms(2) by simp
  have "mset (map fst (sort_entries le fs)) = mset (map fst fs)" by simp
  with assms(3) show "distinct (map fst (sort_entries le fs))" by (metis mset_eq_imp_distinct_iff)
qed (rule sort_entries_sorted [OF assms(1)])+

lemma map_insert_entry:
  "map (\<lambda>p. (fst p, g (snd p))) (insert_entry le q ps) =
     insert_entry le (fst q, g (snd q)) (map (\<lambda>p. (fst p, g (snd p))) ps)"
  by (induction ps) auto

lemma map_sort_entries:
  "map (\<lambda>p. (fst p, g (snd p))) (sort_entries le ps) = sort_entries le (map (\<lambda>p. (fst p, g (snd p))) ps)"
  by (induction ps) (auto simp: map_insert_entry)

section \<open>Normal forms agree\<close>

lemma same_value_normalize:
  assumes "linear_collation le"
  shows "same_value v w \<Longrightarrow> normalize le v = normalize le w"
proof (induction rule: same_value.induct)
  case (same v)
  show ?case by simp
next
  case (arr xs ys)
  then have "map (normalize le) xs = map (normalize le) ys"
    by (induction rule: list_all2_induct) auto
  then show ?case by simp
next
  case (obj fs gs hs)
  let ?n = "map (\<lambda>p. (fst p, normalize le (snd p)))"
  from obj(1) have fg: "?n fs = ?n gs" by (induction rule: list_all2_induct) auto
  from obj(3) have "mset (?n gs) = mset (?n hs)" by simp
  moreover from obj(2) have "distinct (map fst (?n fs))" by (simp add: comp_def)
  ultimately have "sort_entries le (?n fs) = sort_entries le (?n hs)"
    using fg by (intro sort_entries_permute [OF assms]) simp_all
  then show ?case by (simp add: map_sort_entries)
qed

lemma same_value_serializable: "same_value v w \<Longrightarrow> serializable v = serializable w"
proof (induction rule: same_value.induct)
  case (same v)
  show ?case by simp
next
  case (arr xs ys)
  then have "list_all serializable xs = list_all serializable ys"
    by (induction rule: list_all2_induct) simp_all
  then show ?case by simp
next
  case (obj fs gs hs)
  from obj(1) have "list_all (\<lambda>p. serializable (snd p)) fs = list_all (\<lambda>p. serializable (snd p)) gs"
    by (induction rule: list_all2_induct) auto
  moreover from obj(3) have "set gs = set hs" by (rule mset_eq_setD)
  ultimately show ?case by (simp add: list_all_iff)
qed

lemma same_value_canonical:
  assumes "linear_collation (collate env)" "same_value v w"
  shows "canonicalJson env v = Inr s \<longleftrightarrow> canonicalJson env w = Inr s"
    "hashCanonical env v = Inr h \<longleftrightarrow> hashCanonical env w = Inr h"
  by (simp_all add: hashCanonical_Inr_iff canonicalJson_Inr_iff same_value_normalize [OF assms]
      same_value_serializable [OF assms(2)])

section \<open>A linear collation\<close>

text \<open>Code point order, the collation of the examples.\<close>

fun code_point_le :: "string \<Rightarrow> string \<Rightarrow> bool" where
  "code_point_le [] b = True"
| "code_point_le (c # a) [] = False"
| "code_point_le (c # a) (d # b) =
     (if c = d then code_point_le a b else (of_char c :: nat) < of_char d)"

lemma code_point_le_total: "code_point_le a b \<or> code_point_le b a"
  by (induction a b rule: code_point_le.induct) (auto simp: not_less le_less)

lemma code_point_le_antisym: "code_point_le a b \<Longrightarrow> code_point_le b a \<Longrightarrow> a = b"
  by (induction a b rule: code_point_le.induct) (auto split: if_splits elim: code_point_le.elims)

lemma code_point_le_trans: "code_point_le a b \<Longrightarrow> code_point_le b c \<Longrightarrow> code_point_le a c"
proof (induction a b arbitrary: c rule: code_point_le.induct)
  case (3 x a y b)
  then show ?case by (cases c) (auto split: if_splits)
qed simp_all

lemma code_point_le_linear: "linear_collation code_point_le"
  using code_point_le_total code_point_le_antisym code_point_le_trans unfolding linear_collation_def by blast

end
