(* ===== verification/KernelTypes.thy ===== *)
theory KernelTypes
  imports Canonical
begin

text \<open>
  \<open>agent-kernel/src/types.ts\<close>: the records and enumerations of the kernel state, and
  how each is written as a JavaScript value (\<open>.._json\<close>), which is what the code hashes.

  A field keeps the source's name after a prefix for its interface (record fields are
  global names in HOL). An optional field is an \<open>option\<close>, absent when \<open>None\<close>. A
  \<open>number\<close> is an \<open>int\<close>. A field of type \<open>unknown\<close> is a \<open>json\<close>. The enumerations
  list the source's values in its order and print as the source's literals.
\<close>

section \<open>Enumerations\<close>

datatype workspace_type = Individual | Organization
datatype authority_type = Eoa | Multisig | SmartAccount
datatype authority_mode = Observe | Propose | Prepare | ConfirmedExecution
datatype decision_value = ALLOW | BLOCK | REVIEW
datatype verification_value = Approved | Rejected | Review
datatype workspace_status = WsActive | WsPaused | WsRevoked
datatype member_status = MemActive | MemRevoked
datatype agent_status = AgPending | AgActive | AgPaused | AgRevoked
datatype path_status = PathDraft | PathActive | PathPaused | PathExpired | PathRevoked
datatype pact_status =
    PactDraft | PactProposed | PactCounterpartyVerified | PactPolicyApproved
  | PactAwaitingSignatures | PactAccepted | PactPaymentPrepared | PactAwaitingWallet
  | PactActive | PactPerforming | PactCompleted | PactSettled | PactClosed | PactBlocked
  | PactCancelled | PactFailed | PactDisputed | PactRectificationRequired | PactRectified
datatype workspace_role =
    Owner | PolicyAdmin | AgentAdmin | PaymentApprover | RiskReviewer | Auditor | GaiaResolver
datatype command_operation = SetAgentStatus | InstallPlugin | ResolveGaia | PausePath | RevokePath
datatype plugin_type =
    PlIdentity | PlCounterparty | PlQuote | PlCheckpoint | PlCompletion | PlRisk | PlGaia
datatype plugin_status = PlPending | PlActive | PlDisabled | PlRevoked
datatype checkpoint_type =
    CkAccepted | CkStarted | CkProgress | CkMilestone | CkDelivery | CkCompleted | CkFailed
datatype gaia_status =
    GaiaOpen | GaiaReview | GaiaResolved | GaiaDismissed | GaiaRectificationRequired | GaiaRectified
datatype gaia_decision =
    Dismiss | CloseAndReturnResidual | ReplacementPact | CompensatingPact | ManualReview
datatype remedy_type = RemReplacementPact | RemCompensatingPact | RemManualAction
datatype obligation_status = ObOpen | ObFulfilled | ObCancelled
datatype job_kind = EvaluateProposal | VerifyCheckpoint | OpenGaia
datatype job_state = JobQueued | JobRunning | JobCompleted | JobBlocked | JobReview | JobFailed
datatype reason_code =
    WORKSPACE_INACTIVE | AGENT_NOT_REGISTERED | AGENT_INACTIVE | AGENT_NOT_ASSIGNED_TO_PATH
  | PATH_NOT_FOUND | PATH_NOT_ACTIVE | PATH_NOT_YET_VALID | PATH_EXPIRED
  | ACTION_NOT_REGISTERED | ACTION_DISABLED | ACTION_NOT_ALLOWED | AUTHORITY_MODE_INSUFFICIENT
  | ASSET_NOT_ALLOWED | COUNTERPARTY_REQUIRED | COUNTERPARTY_NOT_ALLOWED
  | COUNTERPARTY_NOT_VERIFIED | PACT_LIMIT_EXCEEDED | ACTIVE_EXPOSURE_EXCEEDED
  | PERIOD_LIMIT_EXCEEDED | VELOCITY_LIMIT_EXCEEDED | DURATION_LIMIT_EXCEEDED
  | CONCURRENCY_LIMIT_EXCEEDED | PLUGIN_NOT_APPROVED | INVALID_AMOUNT | INVALID_DURATION
  | STALE_PATH_REVISION | CHECKPOINT_REJECTED | SIGNATURE_INVALID

fun workspace_type_str :: "workspace_type \<Rightarrow> string" where
  "workspace_type_str Individual = ''individual''"
| "workspace_type_str Organization = ''organization''"

fun authority_type_str :: "authority_type \<Rightarrow> string" where
  "authority_type_str Eoa = ''eoa''"
| "authority_type_str Multisig = ''multisig''"
| "authority_type_str SmartAccount = ''smart-account''"

fun authority_mode_str :: "authority_mode \<Rightarrow> string" where
  "authority_mode_str Observe = ''observe''"
| "authority_mode_str Propose = ''propose''"
| "authority_mode_str Prepare = ''prepare''"
| "authority_mode_str ConfirmedExecution = ''confirmed_execution''"

fun decision_str :: "decision_value \<Rightarrow> string" where
  "decision_str ALLOW = ''ALLOW''"
| "decision_str BLOCK = ''BLOCK''"
| "decision_str REVIEW = ''REVIEW''"

fun verification_str :: "verification_value \<Rightarrow> string" where
  "verification_str Approved = ''approved''"
| "verification_str Rejected = ''rejected''"
| "verification_str Review = ''review''"

fun workspace_status_str :: "workspace_status \<Rightarrow> string" where
  "workspace_status_str WsActive = ''active''"
| "workspace_status_str WsPaused = ''paused''"
| "workspace_status_str WsRevoked = ''revoked''"

fun member_status_str :: "member_status \<Rightarrow> string" where
  "member_status_str MemActive = ''active''"
| "member_status_str MemRevoked = ''revoked''"

fun agent_status_str :: "agent_status \<Rightarrow> string" where
  "agent_status_str AgPending = ''pending''"
| "agent_status_str AgActive = ''active''"
| "agent_status_str AgPaused = ''paused''"
| "agent_status_str AgRevoked = ''revoked''"

fun path_status_str :: "path_status \<Rightarrow> string" where
  "path_status_str PathDraft = ''draft''"
| "path_status_str PathActive = ''active''"
| "path_status_str PathPaused = ''paused''"
| "path_status_str PathExpired = ''expired''"
| "path_status_str PathRevoked = ''revoked''"

fun pact_status_str :: "pact_status \<Rightarrow> string" where
  "pact_status_str PactDraft = ''draft''"
| "pact_status_str PactProposed = ''proposed''"
| "pact_status_str PactCounterpartyVerified = ''counterparty_verified''"
| "pact_status_str PactPolicyApproved = ''policy_approved''"
| "pact_status_str PactAwaitingSignatures = ''awaiting_signatures''"
| "pact_status_str PactAccepted = ''accepted''"
| "pact_status_str PactPaymentPrepared = ''payment_prepared''"
| "pact_status_str PactAwaitingWallet = ''awaiting_wallet''"
| "pact_status_str PactActive = ''active''"
| "pact_status_str PactPerforming = ''performing''"
| "pact_status_str PactCompleted = ''completed''"
| "pact_status_str PactSettled = ''settled''"
| "pact_status_str PactClosed = ''closed''"
| "pact_status_str PactBlocked = ''blocked''"
| "pact_status_str PactCancelled = ''cancelled''"
| "pact_status_str PactFailed = ''failed''"
| "pact_status_str PactDisputed = ''disputed''"
| "pact_status_str PactRectificationRequired = ''rectification_required''"
| "pact_status_str PactRectified = ''rectified''"

fun role_str :: "workspace_role \<Rightarrow> string" where
  "role_str Owner = ''owner''"
| "role_str PolicyAdmin = ''policy_admin''"
| "role_str AgentAdmin = ''agent_admin''"
| "role_str PaymentApprover = ''payment_approver''"
| "role_str RiskReviewer = ''risk_reviewer''"
| "role_str Auditor = ''auditor''"
| "role_str GaiaResolver = ''gaia_resolver''"

fun operation_str :: "command_operation \<Rightarrow> string" where
  "operation_str SetAgentStatus = ''set_agent_status''"
| "operation_str InstallPlugin = ''install_plugin''"
| "operation_str ResolveGaia = ''resolve_gaia''"
| "operation_str PausePath = ''pause_path''"
| "operation_str RevokePath = ''revoke_path''"

fun plugin_type_str :: "plugin_type \<Rightarrow> string" where
  "plugin_type_str PlIdentity = ''identity''"
| "plugin_type_str PlCounterparty = ''counterparty''"
| "plugin_type_str PlQuote = ''quote''"
| "plugin_type_str PlCheckpoint = ''checkpoint''"
| "plugin_type_str PlCompletion = ''completion''"
| "plugin_type_str PlRisk = ''risk''"
| "plugin_type_str PlGaia = ''gaia''"

fun plugin_status_str :: "plugin_status \<Rightarrow> string" where
  "plugin_status_str PlPending = ''pending''"
| "plugin_status_str PlActive = ''active''"
| "plugin_status_str PlDisabled = ''disabled''"
| "plugin_status_str PlRevoked = ''revoked''"

fun checkpoint_type_str :: "checkpoint_type \<Rightarrow> string" where
  "checkpoint_type_str CkAccepted = ''accepted''"
| "checkpoint_type_str CkStarted = ''started''"
| "checkpoint_type_str CkProgress = ''progress''"
| "checkpoint_type_str CkMilestone = ''milestone''"
| "checkpoint_type_str CkDelivery = ''delivery''"
| "checkpoint_type_str CkCompleted = ''completed''"
| "checkpoint_type_str CkFailed = ''failed''"

fun gaia_status_str :: "gaia_status \<Rightarrow> string" where
  "gaia_status_str GaiaOpen = ''open''"
| "gaia_status_str GaiaReview = ''review''"
| "gaia_status_str GaiaResolved = ''resolved''"
| "gaia_status_str GaiaDismissed = ''dismissed''"
| "gaia_status_str GaiaRectificationRequired = ''rectification_required''"
| "gaia_status_str GaiaRectified = ''rectified''"

fun gaia_decision_str :: "gaia_decision \<Rightarrow> string" where
  "gaia_decision_str Dismiss = ''dismiss''"
| "gaia_decision_str CloseAndReturnResidual = ''close_and_return_residual''"
| "gaia_decision_str ReplacementPact = ''replacement_pact''"
| "gaia_decision_str CompensatingPact = ''compensating_pact''"
| "gaia_decision_str ManualReview = ''manual_review''"

fun reason_str :: "reason_code \<Rightarrow> string" where
  "reason_str WORKSPACE_INACTIVE = ''WORKSPACE_INACTIVE''"
| "reason_str AGENT_NOT_REGISTERED = ''AGENT_NOT_REGISTERED''"
| "reason_str AGENT_INACTIVE = ''AGENT_INACTIVE''"
| "reason_str AGENT_NOT_ASSIGNED_TO_PATH = ''AGENT_NOT_ASSIGNED_TO_PATH''"
| "reason_str PATH_NOT_FOUND = ''PATH_NOT_FOUND''"
| "reason_str PATH_NOT_ACTIVE = ''PATH_NOT_ACTIVE''"
| "reason_str PATH_NOT_YET_VALID = ''PATH_NOT_YET_VALID''"
| "reason_str PATH_EXPIRED = ''PATH_EXPIRED''"
| "reason_str ACTION_NOT_REGISTERED = ''ACTION_NOT_REGISTERED''"
| "reason_str ACTION_DISABLED = ''ACTION_DISABLED''"
| "reason_str ACTION_NOT_ALLOWED = ''ACTION_NOT_ALLOWED''"
| "reason_str AUTHORITY_MODE_INSUFFICIENT = ''AUTHORITY_MODE_INSUFFICIENT''"
| "reason_str ASSET_NOT_ALLOWED = ''ASSET_NOT_ALLOWED''"
| "reason_str COUNTERPARTY_REQUIRED = ''COUNTERPARTY_REQUIRED''"
| "reason_str COUNTERPARTY_NOT_ALLOWED = ''COUNTERPARTY_NOT_ALLOWED''"
| "reason_str COUNTERPARTY_NOT_VERIFIED = ''COUNTERPARTY_NOT_VERIFIED''"
| "reason_str PACT_LIMIT_EXCEEDED = ''PACT_LIMIT_EXCEEDED''"
| "reason_str ACTIVE_EXPOSURE_EXCEEDED = ''ACTIVE_EXPOSURE_EXCEEDED''"
| "reason_str PERIOD_LIMIT_EXCEEDED = ''PERIOD_LIMIT_EXCEEDED''"
| "reason_str VELOCITY_LIMIT_EXCEEDED = ''VELOCITY_LIMIT_EXCEEDED''"
| "reason_str DURATION_LIMIT_EXCEEDED = ''DURATION_LIMIT_EXCEEDED''"
| "reason_str CONCURRENCY_LIMIT_EXCEEDED = ''CONCURRENCY_LIMIT_EXCEEDED''"
| "reason_str PLUGIN_NOT_APPROVED = ''PLUGIN_NOT_APPROVED''"
| "reason_str INVALID_AMOUNT = ''INVALID_AMOUNT''"
| "reason_str INVALID_DURATION = ''INVALID_DURATION''"
| "reason_str STALE_PATH_REVISION = ''STALE_PATH_REVISION''"
| "reason_str CHECKPOINT_REJECTED = ''CHECKPOINT_REJECTED''"
| "reason_str SIGNATURE_INVALID = ''SIGNATURE_INVALID''"

fun job_kind_str :: "job_kind \<Rightarrow> string" where
  "job_kind_str EvaluateProposal = ''evaluate_proposal''"
| "job_kind_str VerifyCheckpoint = ''verify_checkpoint''"
| "job_kind_str OpenGaia = ''open_gaia''"

section \<open>Signed data\<close>

record typed_data =
  td_name :: string
  td_domain_version :: string
  td_chainId :: int
  td_verifyingContract :: address
  td_primaryType :: string
  td_types :: "(string \<times> string) list"
  td_message :: fields

record 'a signed_artifact =
  sg_artifact :: 'a
  sg_hash :: hex
  sg_typedData :: typed_data
  sg_signer :: address
  sg_signature :: hex
  sg_signedAt :: iso_date

section \<open>Workspaces and commands\<close>

record workspace_member =
  wm_address :: address
  wm_roles :: "workspace_role list"
  wm_status :: member_status
  wm_addedAt :: iso_date

record workspace =
  ws_version :: string
  ws_workspaceId :: string
  ws_workspaceType :: workspace_type
  ws_displayName :: string
  ws_principalId :: string
  ws_authorityAccount :: address
  ws_authorityType :: authority_type
  ws_members :: "workspace_member list"
  ws_status :: workspace_status
  ws_revision :: int
  ws_createdAt :: iso_date
  ws_updatedAt :: iso_date

definition member_json :: "workspace_member \<Rightarrow> json" where
  "member_json m = JObj
     [(''address'', JStr (wm_address m)),
      (''roles'', str_arr (map role_str (wm_roles m))),
      (''status'', JStr (member_status_str (wm_status m))),
      (''addedAt'', JStr (wm_addedAt m))]"

definition workspace_json :: "workspace \<Rightarrow> json" where
  "workspace_json w = JObj
     [(''version'', JStr (ws_version w)),
      (''workspaceId'', JStr (ws_workspaceId w)),
      (''workspaceType'', JStr (workspace_type_str (ws_workspaceType w))),
      (''displayName'', JStr (ws_displayName w)),
      (''principalId'', JStr (ws_principalId w)),
      (''authorityAccount'', JStr (ws_authorityAccount w)),
      (''authorityType'', JStr (authority_type_str (ws_authorityType w))),
      (''members'', JArr (map member_json (ws_members w))),
      (''status'', JStr (workspace_status_str (ws_status w))),
      (''revision'', JNum (ws_revision w)),
      (''createdAt'', JStr (ws_createdAt w)),
      (''updatedAt'', JStr (ws_updatedAt w))]"

record workspace_command =
  wc_version :: string
  wc_commandId :: string
  wc_workspaceId :: string
  wc_operation :: command_operation
  wc_payloadHash :: hex
  wc_workspaceRevision :: int
  wc_nonce :: int
  wc_issuedAt :: iso_date
  wc_expiresAt :: iso_date

section \<open>Agents\<close>

record agent =
  ag_version :: string
  ag_agentId :: string
  ag_workspaceId :: string
  ag_displayName :: string
  ag_description :: "string option"
  ag_operator :: address
  ag_identityKey :: string
  ag_runtimeCredentialHash :: hex
  ag_capabilities :: "string list"
  ag_permittedActionTypes :: "string list"
  ag_assignedPathIds :: "string list"
  ag_status :: agent_status
  ag_createdAt :: iso_date
  ag_expiresAt :: "iso_date option"
  ag_revision :: int

definition agent_json :: "agent \<Rightarrow> json" where
  "agent_json a = JObj
     ([(''version'', JStr (ag_version a)),
       (''agentId'', JStr (ag_agentId a)),
       (''workspaceId'', JStr (ag_workspaceId a)),
       (''displayName'', JStr (ag_displayName a))]
      @ opt_field ''description'' JStr (ag_description a) @
      [(''operator'', JStr (ag_operator a)),
       (''identityKey'', JStr (ag_identityKey a)),
       (''runtimeCredentialHash'', JStr (ag_runtimeCredentialHash a)),
       (''capabilities'', str_arr (ag_capabilities a)),
       (''permittedActionTypes'', str_arr (ag_permittedActionTypes a)),
       (''assignedPathIds'', str_arr (ag_assignedPathIds a)),
       (''status'', JStr (agent_status_str (ag_status a))),
       (''createdAt'', JStr (ag_createdAt a))]
      @ opt_field ''expiresAt'' JStr (ag_expiresAt a) @
      [(''revision'', JNum (ag_revision a))])"

section \<open>Paths\<close>

record identity_requirement =
  ir_provider :: string
  ir_requirement :: string
  ir_required :: bool
  ir_nameService :: "string option"
  ir_requireResolvedName :: "bool option"
  ir_requireForwardResolutionMatch :: "bool option"

definition identity_requirement_json :: "identity_requirement \<Rightarrow> json" where
  "identity_requirement_json r = JObj
     ([(''provider'', JStr (ir_provider r)),
       (''requirement'', JStr (ir_requirement r)),
       (''required'', JBool (ir_required r))]
      @ opt_field ''nameService'' JStr (ir_nameService r)
      @ opt_field ''requireResolvedName'' JBool (ir_requireResolvedName r)
      @ opt_field ''requireForwardResolutionMatch'' JBool (ir_requireForwardResolutionMatch r))"

record path_limits =
  pl_maxPerPactBaseUnits :: string
  pl_maxActiveExposureBaseUnits :: string
  pl_maxPerPeriodBaseUnits :: string
  pl_periodSeconds :: int
  pl_maxVelocityBaseUnitsPerSecond :: string
  pl_maxDurationSeconds :: int
  pl_maxConcurrentPacts :: int

definition path_limits_json :: "path_limits \<Rightarrow> json" where
  "path_limits_json l = JObj
     [(''maxPerPactBaseUnits'', JStr (pl_maxPerPactBaseUnits l)),
      (''maxActiveExposureBaseUnits'', JStr (pl_maxActiveExposureBaseUnits l)),
      (''maxPerPeriodBaseUnits'', JStr (pl_maxPerPeriodBaseUnits l)),
      (''periodSeconds'', JNum (pl_periodSeconds l)),
      (''maxVelocityBaseUnitsPerSecond'', JStr (pl_maxVelocityBaseUnitsPerSecond l)),
      (''maxDurationSeconds'', JNum (pl_maxDurationSeconds l)),
      (''maxConcurrentPacts'', JNum (pl_maxConcurrentPacts l))]"

record plugin_ref =
  pr_pluginId :: string
  pr_version :: string

record path =
  pa_version :: string
  pa_pathId :: string
  pa_workspaceId :: string
  pa_owner :: address
  pa_authorityAccount :: address
  pa_authorizedAgentIds :: "string list"
  pa_permittedActions :: "string list"
  pa_permittedAssets :: "address list"
  pa_permittedCounterparties :: "address list option"
  pa_identityRequirements :: "identity_requirement list"
  pa_approvedVerificationPlugins :: "plugin_ref list"
  pa_limits :: path_limits
  pa_authorityMode :: authority_mode
  pa_validFrom :: iso_date
  pa_expiresAt :: iso_date
  pa_status :: path_status
  pa_revision :: int
  pa_previousPathHash :: "hex option"
  pa_createdAt :: iso_date
  pa_updatedAt :: iso_date

definition path_json :: "path \<Rightarrow> json" where
  "path_json p = JObj
     ([(''version'', JStr (pa_version p)),
       (''pathId'', JStr (pa_pathId p)),
       (''workspaceId'', JStr (pa_workspaceId p)),
       (''owner'', JStr (pa_owner p)),
       (''authorityAccount'', JStr (pa_authorityAccount p)),
       (''authorizedAgentIds'', str_arr (pa_authorizedAgentIds p)),
       (''permittedActions'', str_arr (pa_permittedActions p)),
       (''permittedAssets'', str_arr (pa_permittedAssets p))]
      @ opt_field ''permittedCounterparties'' str_arr (pa_permittedCounterparties p) @
      [(''identityRequirements'', JArr (map identity_requirement_json (pa_identityRequirements p))),
       (''approvedVerificationPlugins'',
          JArr (map (\<lambda>r. JObj [(''pluginId'', JStr (pr_pluginId r)), (''version'', JStr (pr_version r))])
                 (pa_approvedVerificationPlugins p))),
       (''limits'', path_limits_json (pa_limits p)),
       (''authorityMode'', JStr (authority_mode_str (pa_authorityMode p))),
       (''validFrom'', JStr (pa_validFrom p)),
       (''expiresAt'', JStr (pa_expiresAt p)),
       (''status'', JStr (path_status_str (pa_status p))),
       (''revision'', JNum (pa_revision p))]
      @ opt_field ''previousPathHash'' JStr (pa_previousPathHash p) @
      [(''createdAt'', JStr (pa_createdAt p)),
       (''updatedAt'', JStr (pa_updatedAt p))])"
end
