(* ===== verification/PactTypes.thy ===== *)
theory PactTypes
  imports KernelTypes
begin

text \<open>
  \<open>agent-kernel/src/types.ts\<close>, second half: proposals, decisions, Pacts and their payment,
  Proof checkpoints, plugins, Gaia cases, jobs, events, and the kernel state they form.
\<close>

section \<open>Proposals and decisions\<close>

record proposal =
  pp_version :: string
  pp_proposalId :: string
  pp_workspaceId :: string
  pp_pathId :: string
  pp_agentId :: string
  pp_actionType :: string
  pp_counterparty :: "address option"
  pp_asset :: address
  pp_requestedAllocationBaseUnits :: string
  pp_requestedVelocityBaseUnitsPerSecond :: string
  pp_requestedDurationSeconds :: int
  pp_specification :: fields
  pp_evidencePolicyId :: string
  pp_requestedAt :: iso_date
  pp_idempotencyKey :: string

definition proposal_json :: "proposal \<Rightarrow> json" where
  "proposal_json p = JObj
     ([(''version'', JStr (pp_version p)),
       (''proposalId'', JStr (pp_proposalId p)),
       (''workspaceId'', JStr (pp_workspaceId p)),
       (''pathId'', JStr (pp_pathId p)),
       (''agentId'', JStr (pp_agentId p)),
       (''actionType'', JStr (pp_actionType p))]
      @ opt_field ''counterparty'' JStr (pp_counterparty p) @
      [(''asset'', JStr (pp_asset p)),
       (''requestedAllocationBaseUnits'', JStr (pp_requestedAllocationBaseUnits p)),
       (''requestedVelocityBaseUnitsPerSecond'', JStr (pp_requestedVelocityBaseUnitsPerSecond p)),
       (''requestedDurationSeconds'', JNum (pp_requestedDurationSeconds p)),
       (''specification'', JObj (pp_specification p)),
       (''evidencePolicyId'', JStr (pp_evidencePolicyId p)),
       (''requestedAt'', JStr (pp_requestedAt p)),
       (''idempotencyKey'', JStr (pp_idempotencyKey p))])"

record policy_snapshot =
  sn_activeExposureBaseUnits :: string
  sn_periodSpentBaseUnits :: string
  sn_activePacts :: int

definition snapshot_json :: "policy_snapshot \<Rightarrow> json" where
  "snapshot_json s = JObj
     [(''activeExposureBaseUnits'', JStr (sn_activeExposureBaseUnits s)),
      (''periodSpentBaseUnits'', JStr (sn_periodSpentBaseUnits s)),
      (''activePacts'', JNum (sn_activePacts s))]"

record decision =
  de_version :: string
  de_decisionId :: string
  de_proposalId :: string
  de_proposalHash :: hex
  de_workspaceId :: string
  de_pathId :: string
  de_pathHash :: hex
  de_result :: decision_value
  de_reasonCodes :: "reason_code list"
  de_summary :: string
  de_policySnapshot :: policy_snapshot
  de_evidenceHash :: hex
  de_decisionHash :: hex
  de_evaluatedAt :: iso_date

definition reasons_json :: "reason_code list \<Rightarrow> json" where
  "reasons_json rs = str_arr (map reason_str rs)"

definition decision_json :: "decision \<Rightarrow> json" where
  "decision_json d = JObj
     [(''version'', JStr (de_version d)),
      (''decisionId'', JStr (de_decisionId d)),
      (''proposalId'', JStr (de_proposalId d)),
      (''proposalHash'', JStr (de_proposalHash d)),
      (''workspaceId'', JStr (de_workspaceId d)),
      (''pathId'', JStr (de_pathId d)),
      (''pathHash'', JStr (de_pathHash d)),
      (''result'', JStr (decision_str (de_result d))),
      (''reasonCodes'', reasons_json (de_reasonCodes d)),
      (''policySnapshot'', snapshot_json (de_policySnapshot d)),
      (''evidenceHash'', JStr (de_evidenceHash d)),
      (''evaluatedAt'', JStr (de_evaluatedAt d)),
      (''summary'', JStr (de_summary d)),
      (''decisionHash'', JStr (de_decisionHash d))]"

record blocked_action =
  bl_version :: string
  bl_blockedActionId :: string
  bl_workspaceId :: string
  bl_pathId :: string
  bl_agentId :: string
  bl_proposalId :: string
  bl_actionType :: string
  bl_requestedAllocationBaseUnits :: string
  bl_reasonCodes :: "reason_code list"
  bl_decisionHash :: hex
  bl_at :: iso_date

record identity_snapshot =
  is_version :: string
  is_address :: address
  is_verified :: bool
  is_verificationProvider :: string
  is_verificationReference :: "string option"
  is_resolvedName :: "string option"
  is_forwardResolutionMatches :: "bool option"
  is_observedAt :: iso_date

definition identity_json :: "identity_snapshot \<Rightarrow> json" where
  "identity_json i = JObj
     ([(''version'', JStr (is_version i)),
       (''address'', JStr (is_address i)),
       (''verified'', JBool (is_verified i)),
       (''verificationProvider'', JStr (is_verificationProvider i))]
      @ opt_field ''verificationReference'' JStr (is_verificationReference i)
      @ opt_field ''resolvedName'' JStr (is_resolvedName i)
      @ opt_field ''forwardResolutionMatches'' JBool (is_forwardResolutionMatches i) @
      [(''observedAt'', JStr (is_observedAt i))])"

section \<open>Pacts and their payment\<close>

record payment_terms =
  pt_chainId :: int
  pt_vault :: address
  pt_token :: address
  pt_payer :: address
  pt_recipient :: address
  pt_maximumAllocationBaseUnits :: string
  pt_velocityBaseUnitsPerSecond :: string
  pt_lifespanSeconds :: int
  pt_residualRecipient :: address

definition payment_terms_json :: "payment_terms \<Rightarrow> json" where
  "payment_terms_json t = JObj
     [(''chainId'', JNum (pt_chainId t)),
      (''vault'', JStr (pt_vault t)),
      (''token'', JStr (pt_token t)),
      (''payer'', JStr (pt_payer t)),
      (''recipient'', JStr (pt_recipient t)),
      (''maximumAllocationBaseUnits'', JStr (pt_maximumAllocationBaseUnits t)),
      (''velocityBaseUnitsPerSecond'', JStr (pt_velocityBaseUnitsPerSecond t)),
      (''lifespanSeconds'', JNum (pt_lifespanSeconds t)),
      (''residualRecipient'', JStr (pt_residualRecipient t))]"

record opening_observation =
  oo_version :: string
  oo_transactionHash :: hex
  oo_chainId :: int
  oo_vault :: address
  oo_paycardId :: hex
  oo_metadataHash :: hex
  oo_payer :: address
  oo_recipient :: address
  oo_residualRecipient :: address
  oo_poolAllocationBaseUnits :: string
  oo_flowVelocityBaseUnitsPerSecond :: string
  oo_genesisTimestamp :: int
  oo_lifespanSeconds :: int
  oo_availableBalanceBaseUnits :: string
  oo_operationalStatus :: int
  oo_blockNumber :: int
  oo_observedAt :: iso_date

record settlement_observation =
  so_version :: string
  so_transactionHash :: hex
  so_chainId :: int
  so_vault :: address
  so_paycardId :: hex
  so_recipient :: address
  so_settledAmountBaseUnits :: string
  so_final :: bool
  so_blockNumber :: int
  so_observedAt :: iso_date

record open_rails =
  or_metadataHash :: hex
  or_paycardId :: hex
  or_genesisTimestamp :: int
  or_nonceChannel :: int
  or_nonceValue :: int
  or_preparedAt :: iso_date
  or_openingTxHash :: "hex option"
  or_openingObservation :: "opening_observation option"
  or_settlements :: "settlement_observation list option"

record pact =
  pc_version :: string
  pc_pactId :: string
  pc_workspaceId :: string
  pc_pathId :: string
  pc_pathRevision :: int
  pc_pathHash :: hex
  pc_proposalId :: string
  pc_proposalHash :: hex
  pc_decisionId :: string
  pc_decisionHash :: hex
  pc_termsHash :: hex
  pc_initiator :: address
  pc_agentId :: string
  pc_counterparty :: address
  pc_actionType :: string
  pc_specification :: fields
  pc_commercialTerms :: fields
  pc_paymentTerms :: payment_terms
  pc_evidencePolicyId :: string
  pc_evidencePolicyVersion :: string
  pc_evidencePolicyCodeDigest :: hex
  pc_completionPolicyId :: string
  pc_disputePolicyId :: string
  pc_requiresCounterpartySignature :: bool
  pc_status :: pact_status
  pc_revision :: int
  pc_openRails :: "open_rails option"
  pc_createdAt :: iso_date
  pc_updatedAt :: iso_date

record pact_event =
  pe_version :: string
  pe_eventId :: string
  pe_pactId :: string
  pe_workspaceId :: string
  pe_sequence :: int
  pe_type :: string
  pe_actor :: string
  pe_at :: iso_date
  pe_data :: fields

section \<open>Proofs: plugins, checkpoints, verification decisions\<close>

record plugin_manifest =
  mf_version :: string
  mf_pluginId :: string
  mf_pluginVersion :: string
  mf_name :: string
  mf_publisher :: address
  mf_pluginType :: plugin_type
  mf_supportedEvidenceTypes :: "string list"
  mf_deterministic :: bool
  mf_requiresNetworkAccess :: bool
  mf_externalDependencies :: "string list"
  mf_codeDigest :: hex
  mf_publisherSignature :: hex
  mf_status :: plugin_status
  mf_installedWorkspaceIds :: "string list"
  mf_createdAt :: iso_date

record checkpoint_units =
  un_type :: string
  un_completed :: string
  un_total :: "string option"

record checkpoint =
  ck_version :: string
  ck_checkpointId :: string
  ck_workspaceId :: string
  ck_pactId :: string
  ck_pathId :: string
  ck_paycardId :: "hex option"
  ck_termsHash :: hex
  ck_actor :: address
  ck_counterparty :: address
  ck_checkpointIndex :: int
  ck_checkpointType :: checkpoint_type
  ck_evidenceType :: string
  ck_evidenceHash :: hex
  ck_sourceCommitmentHash :: "hex option"
  ck_evidenceUri :: "string option"
  ck_units :: "checkpoint_units option"
  ck_observedAt :: iso_date
  ck_validUntil :: iso_date
  ck_submittedBy :: address
  ck_signature :: hex

record verification_decision =
  vd_version :: string
  vd_decisionId :: string
  vd_workspaceId :: string
  vd_pactId :: string
  vd_checkpointId :: string
  vd_pluginId :: string
  vd_pluginVersion :: string
  vd_decision :: verification_value
  vd_reasonCodes :: "string list"
  vd_evidenceHash :: hex
  vd_sourceCommitmentHash :: "hex option"
  vd_decisionHash :: hex
  vd_evaluatedAt :: iso_date
  vd_validUntil :: "iso_date option"

section \<open>Gaia\<close>

record payment_snapshot =
  ps_observedAt :: iso_date
  ps_availableBalanceBaseUnits :: "string option"
  ps_operationalStatus :: "string option"
  ps_latestSettlementTxHash :: "hex option"

record gaia_case =
  ga_version :: string
  ga_caseId :: string
  ga_workspaceId :: string
  ga_pactId :: string
  ga_pathId :: string
  ga_paycardId :: "hex option"
  ga_claimant :: address
  ga_respondent :: address
  ga_reasonCode :: string
  ga_evidenceCommitments :: "hex list"
  ga_paymentSnapshot :: payment_snapshot
  ga_requestedRemedy :: string
  ga_resolutionPolicyId :: string
  ga_claimHash :: hex
  ga_claimValidUntil :: iso_date
  ga_claimSignature :: hex
  ga_status :: gaia_status
  ga_decision :: "gaia_decision option"
  ga_resolutionSummary :: "string option"
  ga_createdAt :: iso_date
  ga_updatedAt :: iso_date

record obligation =
  ob_version :: string
  ob_obligationId :: string
  ob_caseId :: string
  ob_pactId :: string
  ob_workspaceId :: string
  ob_obligor :: address
  ob_beneficiary :: address
  ob_remedyType :: remedy_type
  ob_terms :: fields
  ob_status :: obligation_status
  ob_createdAt :: iso_date
  ob_fulfilledAt :: "iso_date option"

end
