(* ===== verification/KernelState.thy ===== *)
theory KernelState
  imports PactTypes
begin

text \<open>
  \<open>agent-kernel/src/types.ts\<close>, the last part (jobs, events, idempotency records and
  \<open>KernelStateV1\<close> itself), and \<open>emptyKernelState\<close> / \<open>normalizeKernelState\<close> of
  \<open>agent-kernel/src/store.ts\<close>. Every \<open>Record<string, X>\<close> of the state is an object in
  insertion order, so \<open>Object.values\<close> is \<open>ovals\<close>.
\<close>

record job =
  jb_version :: string
  jb_jobId :: string
  jb_workspaceId :: string
  jb_proposalId :: string
  jb_kind :: job_kind
  jb_state :: job_state
  jb_attempts :: int
  jb_lockedBy :: "string option"
  jb_lockUntil :: "iso_date option"
  jb_result :: "fields option"
  jb_error :: "string option"
  jb_createdAt :: iso_date
  jb_updatedAt :: iso_date

record kernel_event =
  ev_version :: string
  ev_eventId :: string
  ev_workspaceId :: string
  ev_subjectType :: string
  ev_subjectId :: string
  ev_type :: string
  ev_actor :: string
  ev_at :: iso_date
  ev_data :: fields

record idempotency_record =
  id_fingerprint :: hex
  id_result :: fields

record kstate =
  st_version :: string
  workspaces :: "workspace obj"
  workspaceArtifacts :: "workspace signed_artifact obj"
  agents :: "agent obj"
  agentArtifacts :: "agent signed_artifact obj"
  paths :: "path signed_artifact obj"
  pacts :: "pact obj"
  pactSignatures :: "pact signed_artifact list obj"
  pactEvents :: "pact_event list"
  proposals :: "proposal obj"
  decisions :: "decision obj"
  blockedActions :: "blocked_action list"
  plugins :: "plugin_manifest obj"
  checkpoints :: "checkpoint obj"
  verificationDecisions :: "verification_decision obj"
  gaiaCases :: "gaia_case obj"
  rectifications :: "obligation obj"
  jobs :: "job obj"
  events :: "kernel_event list"
  workspaceCommandNonces :: "int obj"
  idempotency :: "idempotency_record obj"

definition kernel_state_version :: string where
  "kernel_state_version = ''openrails-agent-kernel-state-v1''"

definition emptyKernelState :: kstate where
  "emptyKernelState = \<lparr>
     st_version = kernel_state_version,
     workspaces = [], workspaceArtifacts = [], agents = [], agentArtifacts = [],
     paths = [], pacts = [], pactSignatures = [], pactEvents = [], proposals = [],
     decisions = [], blockedActions = [], plugins = [], checkpoints = [],
     verificationDecisions = [], gaiaCases = [], rectifications = [], jobs = [],
     events = [], workspaceCommandNonces = [], idempotency = []\<rparr>"

text \<open>
  A state read back from storage has every field of the type (the spread over the empty
  state only fills in fields an older file lacks), so what is left of
  \<open>normalizeKernelState\<close> is its version check.
\<close>

definition normalizeKernelState :: "kstate \<Rightarrow> kstate result" where
  "normalizeKernelState s =
     throw_if (st_version s \<noteq> ''openrails-agent-kernel-state-v1'') ''unsupported kernel state version''
     (Inr s)"

lemma normalize_empty [simp]: "normalizeKernelState emptyKernelState = Inr emptyKernelState"
  by (simp add: normalizeKernelState_def emptyKernelState_def kernel_state_version_def)

lemma normalizeKernelState_Inr_iff [result_simps]:
  "normalizeKernelState s = Inr t \<longleftrightarrow> st_version s = ''openrails-agent-kernel-state-v1'' \<and> t = s"
  by (auto simp: normalizeKernelState_def result_simps)

end
