(* ===== verification/TypedData.thy ===== *)
theory TypedData
  imports PactTypes
begin

text \<open>
  \<open>agent-kernel/src/typedData.ts\<close> (and the constants of \<open>GIWA_SEPOLIA\<close> in
  \<open>agent-kernel/src/giwa.ts\<close>): the EIP-712 envelopes that wallets sign, the projection of
  a Pact onto its immutable terms, and the projection of a Gaia case onto its claim.

  An envelope is built from fields each of which may throw (hashing a value with an
  \<open>undefined\<close> inside does); \<open>collect_fields\<close> evaluates them in order.
\<close>

section \<open>Deployment constants\<close>

definition giwa_chainId :: int where
  "giwa_chainId = 91342"

definition giwa_vaultAddress :: address where
  "giwa_vaultAddress = ''0x623daf607A0C8F841a72012BCE19cfe9E5fbAbf1''"

section \<open>Envelopes\<close>

fun collect_fields :: "(string \<times> json result) list \<Rightarrow> fields result" where
  "collect_fields [] = Inr []"
| "collect_fields ((k, m) # r) = bnd m (\<lambda>v. bnd (collect_fields r) (\<lambda>vs. Inr ((k, v) # vs)))"

definition hashed :: "'z jsenv_scheme \<Rightarrow> json \<Rightarrow> json result" where
  "hashed env v = bnd (hashCanonical env v) (\<lambda>h. Inr (JStr h))"

definition envelope :: "string \<Rightarrow> (string \<times> string) list \<Rightarrow> fields \<Rightarrow> typed_data" where
  "envelope primaryType tys message = \<lparr>
     td_name = ''OpenRails Agent Kernel'', td_domain_version = ''1'',
     td_chainId = giwa_chainId, td_verifyingContract = giwa_vaultAddress,
     td_primaryType = primaryType, td_types = tys, td_message = message\<rparr>"

definition workspaceTypedData :: "'z jsenv_scheme \<Rightarrow> workspace \<Rightarrow> typed_data result" where
  "workspaceTypedData env w =
     bnd (collect_fields
       [(''workspaceIdHash'', hashed env (JStr (ws_workspaceId w))),
        (''principalIdHash'', hashed env (JStr (ws_principalId w))),
        (''authorityAccount'', Inr (JStr (ws_authorityAccount w))),
        (''authorityTypeHash'', hashed env (JStr (authority_type_str (ws_authorityType w)))),
        (''revision'', Inr (JNum (ws_revision w))),
        (''workspaceHash'', hashed env (workspace_json w))])
     (\<lambda>m. Inr (envelope ''WorkspaceAuthority''
       [(''workspaceIdHash'', ''bytes32''), (''principalIdHash'', ''bytes32''),
        (''authorityAccount'', ''address''), (''authorityTypeHash'', ''bytes32''),
        (''revision'', ''uint256''), (''workspaceHash'', ''bytes32'')] m))"

definition agentRegistrationTypedData :: "'z jsenv_scheme \<Rightarrow> agent \<Rightarrow> typed_data result" where
  "agentRegistrationTypedData env a =
     bnd (collect_fields
       [(''workspaceIdHash'', hashed env (JStr (ag_workspaceId a))),
        (''agentIdHash'', hashed env (JStr (ag_agentId a))),
        (''operator'', Inr (JStr (ag_operator a))),
        (''identityKeyHash'', hashed env (JStr (ag_identityKey a))),
        (''capabilitiesHash'', hashed env (str_arr (ag_capabilities a))),
        (''revision'', Inr (JNum (ag_revision a))),
        (''agentHash'', hashed env (agent_json a))])
     (\<lambda>m. Inr (envelope ''AgentRegistration''
       [(''workspaceIdHash'', ''bytes32''), (''agentIdHash'', ''bytes32''),
        (''operator'', ''address''), (''identityKeyHash'', ''bytes32''),
        (''capabilitiesHash'', ''bytes32''), (''revision'', ''uint256''),
        (''agentHash'', ''bytes32'')] m))"

definition pathTypedData :: "'z jsenv_scheme \<Rightarrow> path \<Rightarrow> typed_data result" where
  "pathTypedData env p =
     bnd (collect_fields
       [(''workspaceIdHash'', hashed env (JStr (pa_workspaceId p))),
        (''pathIdHash'', hashed env (JStr (pa_pathId p))),
        (''authorityAccount'', Inr (JStr (pa_authorityAccount p))),
        (''revision'', Inr (JNum (pa_revision p))),
        (''authorityModeHash'', hashed env (JStr (authority_mode_str (pa_authorityMode p)))),
        (''pathHash'', hashed env (path_json p)),
        (''expiresAtHash'', hashed env (JStr (pa_expiresAt p)))])
     (\<lambda>m. Inr (envelope ''OpenRailsPath''
       [(''workspaceIdHash'', ''bytes32''), (''pathIdHash'', ''bytes32''),
        (''authorityAccount'', ''address''), (''revision'', ''uint256''),
        (''authorityModeHash'', ''bytes32''), (''pathHash'', ''bytes32''),
        (''expiresAtHash'', ''bytes32'')] m))"

section \<open>Pact terms\<close>

definition pactTermsProjection :: "pact \<Rightarrow> json" where
  "pactTermsProjection p = JObj
     [(''version'', JStr ''openrails-pact-terms-v1''),
      (''pactId'', JStr (pc_pactId p)),
      (''workspaceId'', JStr (pc_workspaceId p)),
      (''pathId'', JStr (pc_pathId p)),
      (''pathRevision'', JNum (pc_pathRevision p)),
      (''pathHash'', JStr (pc_pathHash p)),
      (''proposalId'', JStr (pc_proposalId p)),
      (''proposalHash'', JStr (pc_proposalHash p)),
      (''decisionId'', JStr (pc_decisionId p)),
      (''decisionHash'', JStr (pc_decisionHash p)),
      (''initiator'', JStr (pc_initiator p)),
      (''agentId'', JStr (pc_agentId p)),
      (''counterparty'', JStr (pc_counterparty p)),
      (''actionType'', JStr (pc_actionType p)),
      (''specification'', JObj (pc_specification p)),
      (''commercialTerms'', JObj (pc_commercialTerms p)),
      (''paymentTerms'', payment_terms_json (pc_paymentTerms p)),
      (''evidencePolicyId'', JStr (pc_evidencePolicyId p)),
      (''evidencePolicyVersion'', JStr (pc_evidencePolicyVersion p)),
      (''evidencePolicyCodeDigest'', JStr (pc_evidencePolicyCodeDigest p)),
      (''completionPolicyId'', JStr (pc_completionPolicyId p)),
      (''disputePolicyId'', JStr (pc_disputePolicyId p)),
      (''requiresCounterpartySignature'', JBool (pc_requiresCounterpartySignature p))]"

definition pactTermsHash :: "'z jsenv_scheme \<Rightarrow> pact \<Rightarrow> hex result" where
  "pactTermsHash env p = hashCanonical env (pactTermsProjection p)"

definition assertPactTermsIntegrity :: "'z jsenv_scheme \<Rightarrow> pact \<Rightarrow> unit result" where
  "assertPactTermsIntegrity env p =
     bnd (pactTermsHash env p) (\<lambda>h.
       throw_if (h \<noteq> pc_termsHash p) ''Pact immutable terms hash mismatch'' (Inr ()))"

definition pactTypedData :: "'z jsenv_scheme \<Rightarrow> pact \<Rightarrow> typed_data result" where
  "pactTypedData env p =
     thn (assertPactTermsIntegrity env p)
     (bnd (collect_fields
       [(''workspaceIdHash'', hashed env (JStr (pc_workspaceId p))),
        (''pactIdHash'', hashed env (JStr (pc_pactId p))),
        (''pathIdHash'', hashed env (JStr (pc_pathId p))),
        (''pathHash'', Inr (JStr (pc_pathHash p))),
        (''proposalHash'', Inr (JStr (pc_proposalHash p))),
        (''decisionHash'', Inr (JStr (pc_decisionHash p))),
        (''initiator'', Inr (JStr (pc_initiator p))),
        (''counterparty'', Inr (JStr (pc_counterparty p))),
        (''actionTypeHash'', hashed env (JStr (pc_actionType p))),
        (''termsHash'', Inr (JStr (pc_termsHash p)))])
     (\<lambda>m. Inr (envelope ''OpenRailsPactTerms''
       [(''workspaceIdHash'', ''bytes32''), (''pactIdHash'', ''bytes32''),
        (''pathIdHash'', ''bytes32''), (''pathHash'', ''bytes32''),
        (''proposalHash'', ''bytes32''), (''decisionHash'', ''bytes32''),
        (''initiator'', ''address''), (''counterparty'', ''address''),
        (''actionTypeHash'', ''bytes32''), (''termsHash'', ''bytes32'')] m)))"

section \<open>Gaia claims, commands, checkpoints, plugin manifests\<close>

definition payment_snapshot_json :: "payment_snapshot \<Rightarrow> json" where
  "payment_snapshot_json s = JObj
     ([(''observedAt'', JStr (ps_observedAt s))]
      @ opt_field ''availableBalanceBaseUnits'' JStr (ps_availableBalanceBaseUnits s)
      @ opt_field ''operationalStatus'' JStr (ps_operationalStatus s)
      @ opt_field ''latestSettlementTxHash'' JStr (ps_latestSettlementTxHash s))"

text \<open>\<open>gaia.paycardId ? {..} : {}\<close> leaves the field out for an empty string as well.\<close>

definition truthy :: "string option \<Rightarrow> bool" where
  "truthy s \<longleftrightarrow> s \<noteq> None \<and> s \<noteq> Some []"

definition gaiaCaseClaimProjection :: "gaia_case \<Rightarrow> json" where
  "gaiaCaseClaimProjection g = JObj
     ([(''version'', JStr ''openrails-gaia-claim-v1''),
       (''caseId'', JStr (ga_caseId g)),
       (''workspaceId'', JStr (ga_workspaceId g)),
       (''pactId'', JStr (ga_pactId g)),
       (''pathId'', JStr (ga_pathId g))]
      @ (if truthy (ga_paycardId g) then opt_field ''paycardId'' JStr (ga_paycardId g) else []) @
      [(''claimant'', JStr (ga_claimant g)),
       (''respondent'', JStr (ga_respondent g)),
       (''reasonCode'', JStr (ga_reasonCode g)),
       (''evidenceCommitments'', str_arr (ga_evidenceCommitments g)),
       (''paymentSnapshot'', payment_snapshot_json (ga_paymentSnapshot g)),
       (''requestedRemedy'', JStr (ga_requestedRemedy g)),
       (''resolutionPolicyId'', JStr (ga_resolutionPolicyId g)),
       (''claimValidUntil'', JStr (ga_claimValidUntil g))])"

definition gaiaCaseClaimHash :: "'z jsenv_scheme \<Rightarrow> gaia_case \<Rightarrow> hex result" where
  "gaiaCaseClaimHash env g = hashCanonical env (gaiaCaseClaimProjection g)"

definition gaiaCaseClaimTypedData :: "'z jsenv_scheme \<Rightarrow> gaia_case \<Rightarrow> typed_data result" where
  "gaiaCaseClaimTypedData env g =
     bnd (gaiaCaseClaimHash env g) (\<lambda>h.
     throw_if (h \<noteq> ga_claimHash g) ''Gaia claim hash mismatch''
     (bnd (collect_fields
       [(''caseIdHash'', hashed env (JStr (ga_caseId g))),
        (''workspaceIdHash'', hashed env (JStr (ga_workspaceId g))),
        (''pactIdHash'', hashed env (JStr (ga_pactId g))),
        (''pathIdHash'', hashed env (JStr (ga_pathId g))),
        (''claimant'', Inr (JStr (ga_claimant g))),
        (''respondent'', Inr (JStr (ga_respondent g))),
        (''reasonCodeHash'', hashed env (JStr (ga_reasonCode g))),
        (''claimHash'', Inr (JStr (ga_claimHash g))),
        (''claimValidUntilHash'', hashed env (JStr (ga_claimValidUntil g)))])
     (\<lambda>m. Inr (envelope ''GaiaCaseClaim''
       [(''caseIdHash'', ''bytes32''), (''workspaceIdHash'', ''bytes32''),
        (''pactIdHash'', ''bytes32''), (''pathIdHash'', ''bytes32''),
        (''claimant'', ''address''), (''respondent'', ''address''),
        (''reasonCodeHash'', ''bytes32''), (''claimHash'', ''bytes32''),
        (''claimValidUntilHash'', ''bytes32'')] m))))"

definition workspaceCommandTypedData :: "'z jsenv_scheme \<Rightarrow> workspace_command \<Rightarrow> typed_data result" where
  "workspaceCommandTypedData env c =
     bnd (collect_fields
       [(''commandIdHash'', hashed env (JStr (wc_commandId c))),
        (''workspaceIdHash'', hashed env (JStr (wc_workspaceId c))),
        (''operationHash'', hashed env (JStr (operation_str (wc_operation c)))),
        (''payloadHash'', Inr (JStr (wc_payloadHash c))),
        (''workspaceRevision'', Inr (JNum (wc_workspaceRevision c))),
        (''nonce'', Inr (JNum (wc_nonce c))),
        (''issuedAtHash'', hashed env (JStr (wc_issuedAt c))),
        (''expiresAtHash'', hashed env (JStr (wc_expiresAt c)))])
     (\<lambda>m. Inr (envelope ''WorkspaceCommand''
       [(''commandIdHash'', ''bytes32''), (''workspaceIdHash'', ''bytes32''),
        (''operationHash'', ''bytes32''), (''payloadHash'', ''bytes32''),
        (''workspaceRevision'', ''uint256''), (''nonce'', ''uint256''),
        (''issuedAtHash'', ''bytes32''), (''expiresAtHash'', ''bytes32'')] m))"

definition units_json :: "checkpoint_units \<Rightarrow> json" where
  "units_json u = JObj
     ([(''type'', JStr (un_type u)), (''completed'', JStr (un_completed u))]
      @ opt_field ''total'' JStr (un_total u))"

text \<open>\<open>const { signature: _signature, ...unsigned } = checkpoint\<close>.\<close>

definition unsigned_checkpoint_json :: "checkpoint \<Rightarrow> json" where
  "unsigned_checkpoint_json c = JObj
     ([(''version'', JStr (ck_version c)),
       (''checkpointId'', JStr (ck_checkpointId c)),
       (''workspaceId'', JStr (ck_workspaceId c)),
       (''pactId'', JStr (ck_pactId c)),
       (''pathId'', JStr (ck_pathId c))]
      @ opt_field ''paycardId'' JStr (ck_paycardId c) @
      [(''termsHash'', JStr (ck_termsHash c)),
       (''actor'', JStr (ck_actor c)),
       (''counterparty'', JStr (ck_counterparty c)),
       (''checkpointIndex'', JNum (ck_checkpointIndex c)),
       (''checkpointType'', JStr (checkpoint_type_str (ck_checkpointType c))),
       (''evidenceType'', JStr (ck_evidenceType c)),
       (''evidenceHash'', JStr (ck_evidenceHash c))]
      @ opt_field ''sourceCommitmentHash'' JStr (ck_sourceCommitmentHash c)
      @ opt_field ''evidenceUri'' JStr (ck_evidenceUri c)
      @ opt_field ''units'' units_json (ck_units c) @
      [(''observedAt'', JStr (ck_observedAt c)),
       (''validUntil'', JStr (ck_validUntil c)),
       (''submittedBy'', JStr (ck_submittedBy c))])"

definition checkpointTypedData :: "'z jsenv_scheme \<Rightarrow> checkpoint \<Rightarrow> typed_data result" where
  "checkpointTypedData env c =
     bnd (collect_fields
       [(''workspaceIdHash'', hashed env (JStr (ck_workspaceId c))),
        (''pactIdHash'', hashed env (JStr (ck_pactId c))),
        (''pathIdHash'', hashed env (JStr (ck_pathId c))),
        (''termsHash'', Inr (JStr (ck_termsHash c))),
        (''paycardId'', Inr (JStr (case ck_paycardId c of Some p \<Rightarrow> p | None \<Rightarrow> zero_hash))),
        (''actor'', Inr (JStr (ck_actor c))),
        (''counterparty'', Inr (JStr (ck_counterparty c))),
        (''checkpointIndex'', Inr (JNum (ck_checkpointIndex c))),
        (''checkpointTypeHash'', hashed env (JStr (checkpoint_type_str (ck_checkpointType c)))),
        (''evidenceTypeHash'', hashed env (JStr (ck_evidenceType c))),
        (''evidenceHash'', Inr (JStr (ck_evidenceHash c))),
        (''checkpointHash'', hashed env (unsigned_checkpoint_json c)),
        (''validUntilHash'', hashed env (JStr (ck_validUntil c)))])
     (\<lambda>m. Inr (envelope ''ExecutionCheckpoint''
       [(''workspaceIdHash'', ''bytes32''), (''pactIdHash'', ''bytes32''),
        (''pathIdHash'', ''bytes32''), (''termsHash'', ''bytes32''),
        (''paycardId'', ''bytes32''), (''actor'', ''address''),
        (''counterparty'', ''address''), (''checkpointIndex'', ''uint256''),
        (''checkpointTypeHash'', ''bytes32''), (''evidenceTypeHash'', ''bytes32''),
        (''evidenceHash'', ''bytes32''), (''checkpointHash'', ''bytes32''),
        (''validUntilHash'', ''bytes32'')] m))"

text \<open>\<open>const { publisherSignature: _publisherSignature, ...unsignedManifest } = manifest\<close>.\<close>

definition unsigned_manifest_json :: "plugin_manifest \<Rightarrow> json" where
  "unsigned_manifest_json m = JObj
     [(''version'', JStr (mf_version m)),
      (''pluginId'', JStr (mf_pluginId m)),
      (''pluginVersion'', JStr (mf_pluginVersion m)),
      (''name'', JStr (mf_name m)),
      (''publisher'', JStr (mf_publisher m)),
      (''pluginType'', JStr (plugin_type_str (mf_pluginType m))),
      (''supportedEvidenceTypes'', str_arr (mf_supportedEvidenceTypes m)),
      (''deterministic'', JBool (mf_deterministic m)),
      (''requiresNetworkAccess'', JBool (mf_requiresNetworkAccess m)),
      (''externalDependencies'', str_arr (mf_externalDependencies m)),
      (''codeDigest'', JStr (mf_codeDigest m)),
      (''status'', JStr (plugin_status_str (mf_status m))),
      (''installedWorkspaceIds'', str_arr (mf_installedWorkspaceIds m)),
      (''createdAt'', JStr (mf_createdAt m))]"

definition verificationPluginTypedData :: "'z jsenv_scheme \<Rightarrow> plugin_manifest \<Rightarrow> typed_data result" where
  "verificationPluginTypedData env m =
     bnd (collect_fields
       [(''pluginIdHash'', hashed env (JStr (mf_pluginId m))),
        (''pluginVersionHash'', hashed env (JStr (mf_pluginVersion m))),
        (''publisher'', Inr (JStr (mf_publisher m))),
        (''codeDigest'', Inr (JStr (mf_codeDigest m))),
        (''manifestHash'', hashed env (unsigned_manifest_json m))])
     (\<lambda>msg. Inr (envelope ''VerificationPluginManifest''
       [(''pluginIdHash'', ''bytes32''), (''pluginVersionHash'', ''bytes32''),
        (''publisher'', ''address''), (''codeDigest'', ''bytes32''),
        (''manifestHash'', ''bytes32'')] msg))"

section \<open>Which fields the terms hash binds\<close>

text \<open>
  The mutable lifecycle of a Pact (\<open>status\<close>, \<open>revision\<close>, \<open>openRails\<close>, \<open>updatedAt\<close>)
  and the stored digest itself are outside the projection.
\<close>

lemma pactTermsProjection_update [simp]:
  "pactTermsProjection (p\<lparr>pc_status := s\<rparr>) = pactTermsProjection p"
  "pactTermsProjection (p\<lparr>pc_revision := r\<rparr>) = pactTermsProjection p"
  "pactTermsProjection (p\<lparr>pc_openRails := q\<rparr>) = pactTermsProjection p"
  "pactTermsProjection (p\<lparr>pc_updatedAt := u\<rparr>) = pactTermsProjection p"
  "pactTermsProjection (p\<lparr>pc_termsHash := h\<rparr>) = pactTermsProjection p"
  by (simp_all add: pactTermsProjection_def)

lemma assertPactTermsIntegrity_Inr_iff:
  "assertPactTermsIntegrity env p = Inr u \<longleftrightarrow> pactTermsHash env p = Inr (pc_termsHash p)"
  by (cases u) (auto simp: assertPactTermsIntegrity_def result_simps)

lemma pactTypedData_integrity:
  "pactTypedData env p = Inr td \<Longrightarrow> pactTermsHash env p = Inr (pc_termsHash p)"
  by (auto simp: pactTypedData_def result_simps assertPactTermsIntegrity_Inr_iff)

end
