(* ===== verification/ActionRegistry.thy ===== *)
theory ActionRegistry
  imports KernelTypes
begin

text \<open>
  \<open>agent-kernel/src/actionRegistry.ts\<close>: the authority ranks, the default action
  descriptors and the registry, a map from action type to descriptor that refuses to
  register one type with two different descriptors.
\<close>

datatype risk_class = RcRead | RcProposal | RcPrepare | RcFinancial | RcAdministrative
datatype executor = ExRuntime | ExWallet | ExSmartAccount | ExPublicCaller
datatype payment_effect = PeNone | PePrepareOnly | PeMovesValue

record action_descriptor =
  ad_version :: string
  ad_actionType :: string
  ad_description :: string
  ad_riskClass :: risk_class
  ad_minimumAuthorityMode :: authority_mode
  ad_executor :: executor
  ad_paymentEffect :: payment_effect
  ad_allowedTargets :: "address list"
  ad_allowedSelectors :: "hex list"
  ad_enabled :: bool

fun risk_class_str :: "risk_class \<Rightarrow> string" where
  "risk_class_str RcRead = ''read''"
| "risk_class_str RcProposal = ''proposal''"
| "risk_class_str RcPrepare = ''prepare''"
| "risk_class_str RcFinancial = ''financial''"
| "risk_class_str RcAdministrative = ''administrative''"

fun executor_str :: "executor \<Rightarrow> string" where
  "executor_str ExRuntime = ''runtime''"
| "executor_str ExWallet = ''wallet''"
| "executor_str ExSmartAccount = ''smart-account''"
| "executor_str ExPublicCaller = ''public-caller''"

fun payment_effect_str :: "payment_effect \<Rightarrow> string" where
  "payment_effect_str PeNone = ''none''"
| "payment_effect_str PePrepareOnly = ''prepare_only''"
| "payment_effect_str PeMovesValue = ''moves_value''"

definition action_json :: "action_descriptor \<Rightarrow> json" where
  "action_json a = JObj
     [(''version'', JStr (ad_version a)),
      (''actionType'', JStr (ad_actionType a)),
      (''description'', JStr (ad_description a)),
      (''riskClass'', JStr (risk_class_str (ad_riskClass a))),
      (''minimumAuthorityMode'', JStr (authority_mode_str (ad_minimumAuthorityMode a))),
      (''executor'', JStr (executor_str (ad_executor a))),
      (''paymentEffect'', JStr (payment_effect_str (ad_paymentEffect a))),
      (''allowedTargets'', str_arr (ad_allowedTargets a)),
      (''allowedSelectors'', str_arr (ad_allowedSelectors a)),
      (''enabled'', JBool (ad_enabled a))]"

fun authorityRank :: "authority_mode \<Rightarrow> int" where
  "authorityRank Observe = 0"
| "authorityRank Propose = 1"
| "authorityRank Prepare = 2"
| "authorityRank ConfirmedExecution = 3"

definition authorityModeSatisfies :: "authority_mode \<Rightarrow> authority_mode \<Rightarrow> bool" where
  "authorityModeSatisfies actual required \<longleftrightarrow> authorityRank actual \<ge> authorityRank required"

definition mk_action ::
    "string \<Rightarrow> string \<Rightarrow> risk_class \<Rightarrow> authority_mode \<Rightarrow> executor \<Rightarrow> payment_effect
     \<Rightarrow> address list \<Rightarrow> action_descriptor" where
  "mk_action ty d rc mode ex eff targets = \<lparr>
     ad_version = ''openrails-action-v1'', ad_actionType = ty, ad_description = d,
     ad_riskClass = rc, ad_minimumAuthorityMode = mode, ad_executor = ex,
     ad_paymentEffect = eff, ad_allowedTargets = targets, ad_allowedSelectors = [],
     ad_enabled = True\<rparr>"

definition DEFAULT_ACTIONS :: "action_descriptor list" where
  "DEFAULT_ACTIONS =
     [mk_action ''read_state'' ''Read Workspace, Agent, Path, Pact, checkpoint, or payment state.''
        RcRead Observe ExRuntime PeNone [],
      mk_action ''create_pact_proposal'' ''Create a non-authorizing Pact proposal.''
        RcProposal Propose ExRuntime PeNone [],
      mk_action ''request_quote'' ''Request or normalize non-authorizing commercial terms.''
        RcProposal Propose ExRuntime PeNone [],
      mk_action ''prepare_railsflow'' ''Prepare an unsigned bounded OpenRails RailsFlow.''
        RcPrepare Prepare ExWallet PePrepareOnly [''0x623daf607A0C8F841a72012BCE19cfe9E5fbAbf1''],
      mk_action ''recommend_settlement'' ''Recommend a public settlement checkpoint without redirecting funds.''
        RcPrepare Prepare ExPublicCaller PePrepareOnly [''0x623daf607A0C8F841a72012BCE19cfe9E5fbAbf1''],
      mk_action ''recommend_close'' ''Recommend residual closure through the fixed OpenRails Paycard terms.''
        RcPrepare Prepare ExWallet PePrepareOnly [''0x623daf607A0C8F841a72012BCE19cfe9E5fbAbf1''],
      mk_action ''open_payment'' ''Open an OpenRails Paycard after external-wallet confirmation.''
        RcFinancial ConfirmedExecution ExWallet PeMovesValue [''0x623daf607A0C8F841a72012BCE19cfe9E5fbAbf1''],
      mk_action ''submit_checkpoint'' ''Submit an execution checkpoint for plugin verification.''
        RcProposal Propose ExRuntime PeNone [],
      mk_action ''open_gaia_request'' ''Open a non-financial Gaia review request.''
        RcProposal Propose ExRuntime PeNone [],
      mk_action ''update_path'' ''Administrative Path revision. Agents may never self-authorize it.''
        RcAdministrative ConfirmedExecution ExWallet PeNone []]"

text \<open>\<open>/^[a-z][a-z0-9_]{2,63}$/\<close>.\<close>

definition valid_actionType :: "string \<Rightarrow> bool" where
  "valid_actionType s \<longleftrightarrow>
     (case s of [] \<Rightarrow> False
      | c # cs \<Rightarrow> is_lower c \<and> 2 \<le> length cs \<and> length cs \<le> 63 \<and>
          list_all (\<lambda>x. is_lower x \<or> is_digit x \<or> x = CHR ''_'') cs)"

type_synonym action_registry = "action_descriptor obj"

definition register_action :: "action_registry \<Rightarrow> action_descriptor \<Rightarrow> action_registry result" where
  "register_action reg a =
     throw_if (\<not> valid_actionType (ad_actionType a)) ''invalid actionType''
     (throw_if (\<exists>existing \<in> set_option (oget reg (ad_actionType a)).
                  stringify (action_json existing) \<noteq> stringify (action_json a))
        (''action '' @ ad_actionType a @ '' already registered with different terms'')
     (Inr (oset (ad_actionType a) a reg)))"

text \<open>\<open>new ActionRegistry(actions)\<close> registers the descriptors in order.\<close>

fun action_registry :: "action_registry \<Rightarrow> action_descriptor list \<Rightarrow> action_registry result" where
  "action_registry reg [] = Inr reg"
| "action_registry reg (a # as) = bnd (register_action reg a) (\<lambda>reg'. action_registry reg' as)"

definition get_action :: "action_registry \<Rightarrow> string \<Rightarrow> action_descriptor option" where
  "get_action reg ty = oget reg ty"

definition list_actions :: "action_registry \<Rightarrow> action_descriptor list" where
  "list_actions reg = ovals reg"

section \<open>Facts\<close>

lemma authorityModeSatisfies_refl [simp]: "authorityModeSatisfies m m"
  by (simp add: authorityModeSatisfies_def)

lemma authorityModeSatisfies_trans:
  "authorityModeSatisfies a b \<Longrightarrow> authorityModeSatisfies b c \<Longrightarrow> authorityModeSatisfies a c"
  by (simp add: authorityModeSatisfies_def)

lemma authorityRank_inj: "authorityRank a = authorityRank b \<Longrightarrow> a = b"
  by (cases a; cases b) simp_all

lemma register_action_Inr:
  assumes "register_action reg a = Inr reg'"
  shows "reg' = oset (ad_actionType a) a reg \<and> valid_actionType (ad_actionType a)"
  using assms by (simp add: register_action_def result_simps)

lemma register_action_get:
  "register_action reg a = Inr reg' \<Longrightarrow>
     get_action reg' ty = (if ty = ad_actionType a then Some a else get_action reg ty)"
  by (drule register_action_Inr) (simp add: get_action_def)

definition registry_keyed :: "action_registry \<Rightarrow> bool" where
  "registry_keyed reg \<longleftrightarrow>
     distinct (okeys reg) \<and>
     (\<forall>ty a. oget reg ty = Some a \<longrightarrow> ad_actionType a = ty \<and> valid_actionType ty)"

lemma registry_keyed_empty: "registry_keyed []"
  by (simp add: registry_keyed_def)

lemma register_action_keyed:
  "register_action reg a = Inr reg' \<Longrightarrow> registry_keyed reg \<Longrightarrow> registry_keyed reg'"
  by (drule register_action_Inr) (auto simp: registry_keyed_def distinct_okeys_oset)

lemma action_registry_keyed:
  "action_registry reg as = Inr reg' \<Longrightarrow> registry_keyed reg \<Longrightarrow> registry_keyed reg'"
proof (induction as arbitrary: reg)
  case Nil
  then show ?case by simp
next
  case (Cons a as)
  then show ?case by (auto simp: result_simps dest: register_action_keyed)
qed

end
