(* ===== verification/Plugins.thy ===== *)
theory Plugins
  imports KernelState TypedData ActionRegistry
begin

text \<open>
  \<open>KernelOptions\<close> of \<open>agent-kernel/src/runtime.ts\<close> and the verification plugin registry of
  \<open>agent-kernel/src/plugins.ts\<close>.

  The record \<open>kernel\<close> is the platform extended by what the kernel object holds and never
  changes during an operation: the signature verifier, the action registry, the plugin
  registry, the optional identity resolver and the optional chain verifier. The last four
  are caller-supplied code, so they are functions that may throw.
\<close>

record plugin_verdict =
  pv_decision :: verification_value
  pv_reasonCodes :: "string list"
  pv_sourceCommitmentHash :: "hex option"
  pv_validUntil :: "iso_date option"

record plugin =
  pg_manifest :: plugin_manifest
  pg_evaluate :: "checkpoint \<Rightarrow> kstate \<Rightarrow> int \<Rightarrow> plugin_verdict result"

record chain_verifier =
  cv_verifyOpening :: "pact \<Rightarrow> hex \<Rightarrow> hex \<Rightarrow> hex \<Rightarrow> opening_observation result"
  cv_verifySettlement :: "pact \<Rightarrow> hex \<Rightarrow> string \<Rightarrow> bool \<Rightarrow> settlement_observation result"

record kernel = jsenv +
  signatureVerifier :: "typed_data \<Rightarrow> hex \<Rightarrow> address \<Rightarrow> bool"
  actionRegistry :: action_registry
  pluginRegistry :: "plugin obj"
  identityResolver :: "(address \<Rightarrow> identity_snapshot result) option"
  chainVerifier :: "chain_verifier option"

section \<open>The registry\<close>

definition plugin_key :: "string \<Rightarrow> string \<Rightarrow> string" where
  "plugin_key pluginId version = pluginId @ ''@'' @ version"

definition plugin_bind :: "plugin obj \<Rightarrow> plugin \<Rightarrow> plugin obj result" where
  "plugin_bind reg p =
     (let key = plugin_key (mf_pluginId (pg_manifest p)) (mf_pluginVersion (pg_manifest p)) in
      throw_if (case oget reg key of None \<Rightarrow> False
                | Some current \<Rightarrow> mf_codeDigest (pg_manifest current) \<noteq> mf_codeDigest (pg_manifest p))
        ''plugin implementation digest conflict''
      (Inr (oset key p reg)))"

definition plugin_get :: "plugin obj \<Rightarrow> string \<Rightarrow> string \<Rightarrow> plugin option" where
  "plugin_get reg pluginId version = oget reg (plugin_key pluginId version)"

text \<open>The object literal \<open>core\<close> of \<open>evaluate\<close>, whose digest identifies the decision.\<close>

definition verification_core :: "checkpoint \<Rightarrow> string \<Rightarrow> string \<Rightarrow> plugin_verdict \<Rightarrow> iso_date \<Rightarrow> json" where
  "verification_core c pluginId version r evaluatedAt = JObj
     ([(''workspaceId'', JStr (ck_workspaceId c)),
       (''pactId'', JStr (ck_pactId c)),
       (''checkpointId'', JStr (ck_checkpointId c)),
       (''pluginId'', JStr pluginId),
       (''pluginVersion'', JStr version),
       (''decision'', JStr (verification_str (pv_decision r))),
       (''reasonCodes'', str_arr (pv_reasonCodes r)),
       (''evidenceHash'', JStr (ck_evidenceHash c))]
      @ (if truthy (pv_sourceCommitmentHash r)
         then opt_field ''sourceCommitmentHash'' JStr (pv_sourceCommitmentHash r) else []) @
      [(''evaluatedAt'', JStr evaluatedAt)]
      @ (if truthy (pv_validUntil r) then opt_field ''validUntil'' JStr (pv_validUntil r) else []))"

definition plugin_evaluate ::
    "kernel \<Rightarrow> kstate \<Rightarrow> checkpoint \<Rightarrow> string \<Rightarrow> string \<Rightarrow> int \<Rightarrow> verification_decision result" where
  "plugin_evaluate k s c pluginId version now =
     (case oget (plugins s) (plugin_key pluginId version) of
        None \<Rightarrow> Inl (Error ''verification plugin is not active'')
      | Some manifest \<Rightarrow>
     throw_if (mf_status manifest \<noteq> PlActive) ''verification plugin is not active''
    (throw_if (ck_workspaceId c \<notin> set (mf_installedWorkspaceIds manifest))
       ''verification plugin is not installed in the Workspace''
    (case plugin_get (pluginRegistry k) pluginId version of
        None \<Rightarrow> Inl (Error ''verification plugin implementation is unavailable'')
      | Some implementation \<Rightarrow>
     throw_if (mf_codeDigest (pg_manifest implementation) \<noteq> mf_codeDigest manifest)
       ''verification plugin digest mismatch''
    (throw_if (ck_evidenceType c \<notin> set (mf_supportedEvidenceTypes manifest))
       ''verification plugin does not support this evidence type''
    (bnd (pg_evaluate implementation c s now) (\<lambda>r.
     let evaluatedAt = nowIso k now;
         core = verification_core c pluginId version r evaluatedAt in
     bnd (stableId k ''verify'' core) (\<lambda>decisionId.
     bnd (hashCanonical k core) (\<lambda>decisionHash.
     Inr \<lparr>vd_version = ''openrails-verification-decision-v1'',
          vd_decisionId = decisionId,
          vd_workspaceId = ck_workspaceId c,
          vd_pactId = ck_pactId c,
          vd_checkpointId = ck_checkpointId c,
          vd_pluginId = pluginId,
          vd_pluginVersion = version,
          vd_decision = pv_decision r,
          vd_reasonCodes = pv_reasonCodes r,
          vd_evidenceHash = ck_evidenceHash c,
          vd_sourceCommitmentHash =
            (if truthy (pv_sourceCommitmentHash r) then pv_sourceCommitmentHash r else None),
          vd_decisionHash = decisionHash,
          vd_evaluatedAt = evaluatedAt,
          vd_validUntil = (if truthy (pv_validUntil r) then pv_validUntil r else None)\<rparr>))))))))"

definition createDevelopmentHashSyntaxPlugin :: "plugin_manifest \<Rightarrow> plugin" where
  "createDevelopmentHashSyntaxPlugin manifest = \<lparr>
     pg_manifest = manifest,
     pg_evaluate = (\<lambda>c s now.
       let syntacticallyValid = hex_of_length 64 (ck_evidenceHash c) in
       Inr \<lparr>pv_decision = (if syntacticallyValid then Review else Rejected),
            pv_reasonCodes = (if syntacticallyValid then [''DEV_HASH_SYNTAX_VALID_REQUIRES_REVIEW'']
                              else [''EVIDENCE_HASH_INVALID'']),
            pv_sourceCommitmentHash = None, pv_validUntil = None\<rparr>)\<rparr>"

section \<open>Facts\<close>

lemma plugin_bind_Inr:
  "plugin_bind reg p = Inr reg' \<Longrightarrow>
     reg' = oset (plugin_key (mf_pluginId (pg_manifest p)) (mf_pluginVersion (pg_manifest p))) p reg"
  by (simp add: plugin_bind_def Let_def result_simps)

text \<open>A bound implementation is never replaced by one with another digest.\<close>

lemma plugin_bind_digest_stable:
  assumes "plugin_bind reg p = Inr reg'" and "plugin_get reg i v = Some q"
  shows "\<exists>q'. plugin_get reg' i v = Some q' \<and>
           mf_codeDigest (pg_manifest q') = mf_codeDigest (pg_manifest q)"
  using assms by (auto simp: plugin_bind_def plugin_get_def Let_def result_simps)

lemma plugin_evaluate_Inr:
  assumes "plugin_evaluate k s c i v now = Inr d"
  shows "\<exists>m p r. oget (plugins s) (plugin_key i v) = Some m \<and> mf_status m = PlActive \<and>
           ck_workspaceId c \<in> set (mf_installedWorkspaceIds m) \<and>
           plugin_get (pluginRegistry k) i v = Some p \<and>
           mf_codeDigest (pg_manifest p) = mf_codeDigest m \<and>
           ck_evidenceType c \<in> set (mf_supportedEvidenceTypes m) \<and>
           pg_evaluate p c s now = Inr r \<and> vd_decision d = pv_decision r \<and>
           vd_evaluatedAt d = nowIso k now \<and> vd_checkpointId d = ck_checkpointId c \<and>
           vd_evidenceHash d = ck_evidenceHash c"
  using assms by (auto simp: plugin_evaluate_def Let_def result_simps split: option.splits)

lemma development_plugin_never_approves:
  "pg_evaluate (createDevelopmentHashSyntaxPlugin m) c s now = Inr r \<Longrightarrow> pv_decision r \<noteq> Approved"
  by (auto simp: createDevelopmentHashSyntaxPlugin_def Let_def split: if_splits)

end
