(* ===== verification/Evaluator.thy ===== *)
theory Evaluator
  imports Plugins
begin

text \<open>
  \<open>agent-kernel/src/evaluator.ts\<close>, the Baphomet policy engine: exposure and period
  accounting over the state, and \<open>evaluateProposal\<close>, which collects a reason code for every
  rule a proposal breaks and allows it when there is none.

  The reasons are pushed in the code's order. The body is split where the code's
  \<open>if (path)\<close> block begins: \<open>registration_reasons\<close> before it, \<open>path_reasons\<close> for
  the block's rules on the Path and the amounts, \<open>counterparty_reasons\<close> and
  \<open>identity_reasons\<close> for its end. \<open>push_if c r\<close> is \<open>if (c) reasons.push(r)\<close>.
\<close>

section \<open>Accounting\<close>

definition exposureReservedStatuses :: "pact_status list" where
  "exposureReservedStatuses =
     [PactAccepted, PactPaymentPrepared, PactAwaitingWallet, PactActive, PactPerforming,
      PactCompleted, PactDisputed, PactRectificationRequired]"

definition activePactsForPath :: "kstate \<Rightarrow> string \<Rightarrow> pact list" where
  "activePactsForPath s pathId =
     filter (\<lambda>p. pc_pathId p = pathId \<and> pc_status p \<in> set exposureReservedStatuses) (ovals (pacts s))"

fun sum_results :: "('a \<Rightarrow> int result) \<Rightarrow> 'a list \<Rightarrow> int \<Rightarrow> int result" where
  "sum_results f [] acc = Inr acc"
| "sum_results f (x # xs) acc = bnd (f x) (\<lambda>n. sum_results f xs (acc + n))"

definition activeExposure :: "kstate \<Rightarrow> string \<Rightarrow> int result" where
  "activeExposure s pathId =
     sum_results
       (\<lambda>p. parseBaseUnits (pt_maximumAllocationBaseUnits (pc_paymentTerms p)) ''pact maximum allocation'' True)
       (activePactsForPath s pathId) 0"

text \<open>\<open>Date.parse(event.at) >= start\<close> is false for \<open>NaN\<close>.\<close>

definition opened_in_period :: "'z jsenv_scheme \<Rightarrow> kstate \<Rightarrow> path \<Rightarrow> int \<Rightarrow> pact_event \<Rightarrow> bool" where
  "opened_in_period env s p start e \<longleftrightarrow>
     pe_workspaceId e = pa_workspaceId p \<and>
     pe_type e = ''PAYMENT_OPENED_CANONICAL'' \<and>
     (case oget (pacts s) (pe_pactId e) of None \<Rightarrow> False | Some q \<Rightarrow> pc_pathId q = pa_pathId p) \<and>
     (case date_parse env (pe_at e) of None \<Rightarrow> False | Some t \<Rightarrow> start \<le> t)"

definition event_allocation :: "pact_event \<Rightarrow> int result" where
  "event_allocation e =
     (case map_of (pe_data e) ''allocationBaseUnits'' of
        Some (JStr v) \<Rightarrow> parseBaseUnits v ''event allocation'' True
      | _ \<Rightarrow> Inr 0)"

definition periodSpent :: "'z jsenv_scheme \<Rightarrow> kstate \<Rightarrow> path \<Rightarrow> int \<Rightarrow> int result" where
  "periodSpent env s p nowMs =
     (let start = nowMs - pl_periodSeconds (pa_limits p) * 1000 in
      sum_results event_allocation (filter (opened_in_period env s p start) (pactEvents s)) 0)"

definition approvedPlugin :: "path \<Rightarrow> string \<Rightarrow> bool" where
  "approvedPlugin p pluginId \<longleftrightarrow>
     list_ex (\<lambda>r. pr_pluginId r = pluginId) (pa_approvedVerificationPlugins p)"

section \<open>The rules\<close>

definition push_if :: "bool \<Rightarrow> reason_code \<Rightarrow> reason_code list" where
  "push_if c r = (if c then [r] else [])"

definition registration_reasons ::
    "kstate \<Rightarrow> proposal \<Rightarrow> action_descriptor option \<Rightarrow> reason_code list" where
  "registration_reasons s pr action =
     (let workspace = oget (workspaces s) (pp_workspaceId pr);
          agent = oget (agents s) (pp_agentId pr);
          signedPath = oget (paths s) (pp_pathId pr) in
      push_if (case workspace of None \<Rightarrow> True | Some w \<Rightarrow> ws_status w \<noteq> WsActive) WORKSPACE_INACTIVE
      @ (case agent of
           None \<Rightarrow> [AGENT_NOT_REGISTERED]
         | Some a \<Rightarrow>
             push_if (ag_status a \<noteq> AgActive) AGENT_INACTIVE
             @ push_if (pp_pathId pr \<notin> set (ag_assignedPathIds a)) AGENT_NOT_ASSIGNED_TO_PATH)
      @ push_if (signedPath = None) PATH_NOT_FOUND
      @ (case action of
           None \<Rightarrow> [ACTION_NOT_REGISTERED]
         | Some d \<Rightarrow> push_if (\<not> ad_enabled d) ACTION_DISABLED))"

text \<open>The rules of the signed Path that need no amount.\<close>

definition authority_reasons ::
    "path \<Rightarrow> proposal \<Rightarrow> action_descriptor option \<Rightarrow> int \<Rightarrow> int \<Rightarrow> int \<Rightarrow> reason_code list" where
  "authority_reasons p pr action validFrom expiresAt nowMs =
     push_if (pa_status p \<noteq> PathActive) PATH_NOT_ACTIVE
     @ push_if (validFrom > nowMs) PATH_NOT_YET_VALID
     @ push_if (expiresAt \<le> nowMs) PATH_EXPIRED
     @ push_if (pp_agentId pr \<notin> set (pa_authorizedAgentIds p)) AGENT_NOT_ASSIGNED_TO_PATH
     @ push_if (pp_actionType pr \<notin> set (pa_permittedActions p)) ACTION_NOT_ALLOWED
     @ push_if (case action of None \<Rightarrow> False
             | Some d \<Rightarrow> \<not> authorityModeSatisfies (pa_authorityMode p) (ad_minimumAuthorityMode d))
         AUTHORITY_MODE_INSUFFICIENT
     @ push_if (\<not> list_ex (\<lambda>asset. lower asset = lower (pp_asset pr)) (pa_permittedAssets p)) ASSET_NOT_ALLOWED
     @ push_if (\<not> approvedPlugin p (pp_evidencePolicyId pr)) PLUGIN_NOT_APPROVED"

text \<open>\<open>try { x = parseBaseUnits(..) } catch { reasons.push("INVALID_AMOUNT") }\<close>, \<open>x\<close> starting at \<open>0n\<close>.\<close>

definition parsed_or_zero :: "int result \<Rightarrow> int" where
  "parsed_or_zero r = (case r of Inl _ \<Rightarrow> 0 | Inr n \<Rightarrow> n)"

definition amount_reasons :: "proposal \<Rightarrow> reason_code list" where
  "amount_reasons pr =
     push_if (\<not> passes (parseBaseUnits (pp_requestedAllocationBaseUnits pr) ''requested allocation'' False)) INVALID_AMOUNT
     @ push_if (\<not> passes (parseBaseUnits (pp_requestedVelocityBaseUnitsPerSecond pr) ''requested velocity'' False)) INVALID_AMOUNT
     @ push_if (\<not> isSafeInteger (pp_requestedDurationSeconds pr) \<or> pp_requestedDurationSeconds pr \<le> 0) INVALID_DURATION"

definition proposal_allocation :: "proposal \<Rightarrow> int" where
  "proposal_allocation pr =
     parsed_or_zero (parseBaseUnits (pp_requestedAllocationBaseUnits pr) ''requested allocation'' False)"

definition proposal_velocity :: "proposal \<Rightarrow> int" where
  "proposal_velocity pr =
     parsed_or_zero (parseBaseUnits (pp_requestedVelocityBaseUnitsPerSecond pr) ''requested velocity'' False)"

definition limit_reasons ::
    "path \<Rightarrow> proposal \<Rightarrow> int \<Rightarrow> int \<Rightarrow> int \<Rightarrow> reason_code list result" where
  "limit_reasons p pr exposure spent activePacts =
     (let limits = pa_limits p; allocation = proposal_allocation pr; velocity = proposal_velocity pr in
      bnd (parseBaseUnits (pl_maxPerPactBaseUnits limits) ''maxPerPact'' True) (\<lambda>maxPerPact.
      bnd (parseBaseUnits (pl_maxActiveExposureBaseUnits limits) ''maxActiveExposure'' True) (\<lambda>maxActiveExposure.
      bnd (parseBaseUnits (pl_maxPerPeriodBaseUnits limits) ''maxPerPeriod'' True) (\<lambda>maxPerPeriod.
      bnd (parseBaseUnits (pl_maxVelocityBaseUnitsPerSecond limits) ''maxVelocity'' True) (\<lambda>maxVelocity.
      Inr (push_if (allocation > maxPerPact) PACT_LIMIT_EXCEEDED
        @ push_if (exposure + allocation > maxActiveExposure) ACTIVE_EXPOSURE_EXCEEDED
        @ push_if (spent + allocation > maxPerPeriod) PERIOD_LIMIT_EXCEEDED
        @ push_if (velocity > maxVelocity) VELOCITY_LIMIT_EXCEEDED
        @ push_if (pp_requestedDurationSeconds pr > pl_maxDurationSeconds limits) DURATION_LIMIT_EXCEEDED
        @ push_if (activePacts \<ge> pl_maxConcurrentPacts limits) CONCURRENCY_LIMIT_EXCEEDED))))))"

text \<open>\<open>path.permittedCounterparties?.length\<close>: an absent or empty list permits everyone.\<close>

definition counterparty_reasons :: "path \<Rightarrow> proposal \<Rightarrow> reason_code list" where
  "counterparty_reasons p pr =
     (case pa_permittedCounterparties p of
        None \<Rightarrow> []
      | Some permitted \<Rightarrow>
          if permitted = [] then []
          else if \<not> truthy (pp_counterparty pr) then [COUNTERPARTY_REQUIRED]
          else push_if (\<not> list_ex (\<lambda>entry. Some (lower entry) = map_option lower (pp_counterparty pr)) permitted)
                 COUNTERPARTY_NOT_ALLOWED)"

definition requirement_reasons :: "identity_snapshot \<Rightarrow> identity_requirement \<Rightarrow> reason_code list" where
  "requirement_reasons i r =
     push_if (ir_provider r = ''dojang'' \<and> \<not> is_verified i) COUNTERPARTY_NOT_VERIFIED
     @ push_if ((ir_nameService r = Some ''up.id'' \<or> ir_requireResolvedName r = Some True)
              \<and> \<not> truthy (is_resolvedName i)) COUNTERPARTY_NOT_VERIFIED
     @ push_if (ir_requireForwardResolutionMatch r = Some True \<and> is_forwardResolutionMatches i \<noteq> Some True)
         COUNTERPARTY_NOT_VERIFIED"

definition identity_reasons ::
    "kernel \<Rightarrow> path \<Rightarrow> proposal \<Rightarrow> reason_code list \<times> identity_snapshot option" where
  "identity_reasons k p pr =
     (let requiredIdentity = filter ir_required (pa_identityRequirements p) in
      if requiredIdentity = [] then ([], None)
      else if \<not> truthy (pp_counterparty pr) then ([COUNTERPARTY_REQUIRED], None)
      else (case (identityResolver k, pp_counterparty pr) of
              (Some resolve, Some cp) \<Rightarrow>
                (case resolve cp of
                   Inl _ \<Rightarrow> ([COUNTERPARTY_NOT_VERIFIED], None)
                 | Inr i \<Rightarrow> (concat (map (requirement_reasons i) requiredIdentity), Some i))
            | _ \<Rightarrow> ([COUNTERPARTY_NOT_VERIFIED], None)))"

text \<open>The whole \<open>if (path)\<close> block: the reasons, the snapshot and the resolved identity.\<close>

definition path_block ::
    "kernel \<Rightarrow> kstate \<Rightarrow> proposal \<Rightarrow> action_descriptor option \<Rightarrow> path \<Rightarrow> int
     \<Rightarrow> (reason_code list \<times> policy_snapshot \<times> identity_snapshot option) result" where
  "path_block k s pr action p nowMs =
     bnd (parseIso k (pa_validFrom p) ''path validFrom'') (\<lambda>validFrom.
     bnd (parseIso k (pa_expiresAt p) ''path expiresAt'') (\<lambda>expiresAt.
     bnd (activeExposure s (pa_pathId p)) (\<lambda>exposure.
     bnd (periodSpent k s p nowMs) (\<lambda>spent.
     let activePacts = int (length (activePactsForPath s (pa_pathId p)));
         snapshot = \<lparr>sn_activeExposureBaseUnits = int_str exposure,
                     sn_periodSpentBaseUnits = int_str spent,
                     sn_activePacts = activePacts\<rparr> in
     bnd (limit_reasons p pr exposure spent activePacts) (\<lambda>limits.
     let (identityReasons, identity) = identity_reasons k p pr in
     Inr (authority_reasons p pr action validFrom expiresAt nowMs
          @ amount_reasons pr @ limits @ counterparty_reasons p pr @ identityReasons,
          snapshot, identity))))))"

definition empty_snapshot :: policy_snapshot where
  "empty_snapshot = \<lparr>sn_activeExposureBaseUnits = ''0'', sn_periodSpentBaseUnits = ''0'', sn_activePacts = 0\<rparr>"

definition collect_reasons ::
    "kernel \<Rightarrow> kstate \<Rightarrow> proposal \<Rightarrow> int
     \<Rightarrow> (reason_code list \<times> policy_snapshot \<times> identity_snapshot option) result" where
  "collect_reasons k s pr nowMs =
     (let action = get_action (actionRegistry k) (pp_actionType pr);
          reasons = registration_reasons s pr action in
      case oget (paths s) (pp_pathId pr) of
        None \<Rightarrow> Inr (reasons, empty_snapshot, None)
      | Some signedPath \<Rightarrow>
          bnd (path_block k s pr action (sg_artifact signedPath) nowMs)
            (\<lambda>(rs, snapshot, identity). Inr (reasons @ rs, snapshot, identity)))"

section \<open>The decision\<close>

definition evidence_json :: "proposal \<Rightarrow> identity_snapshot option \<Rightarrow> policy_snapshot \<Rightarrow> json" where
  "evidence_json pr identity snapshot = JObj
     ([(''proposal'', proposal_json pr)]
      @ opt_field ''identity'' identity_json identity @
      [(''snapshot'', snapshot_json snapshot)])"

definition decision_core ::
    "proposal \<Rightarrow> hex \<Rightarrow> hex \<Rightarrow> decision_value \<Rightarrow> reason_code list \<Rightarrow> policy_snapshot \<Rightarrow> hex \<Rightarrow> iso_date \<Rightarrow> json" where
  "decision_core pr proposalHash pathHash result reasons snapshot evidenceHash evaluatedAt = JObj
     [(''proposalId'', JStr (pp_proposalId pr)),
      (''proposalHash'', JStr proposalHash),
      (''workspaceId'', JStr (pp_workspaceId pr)),
      (''pathId'', JStr (pp_pathId pr)),
      (''pathHash'', JStr pathHash),
      (''result'', JStr (decision_str result)),
      (''reasonCodes'', reasons_json reasons),
      (''policySnapshot'', snapshot_json snapshot),
      (''evidenceHash'', JStr evidenceHash),
      (''evaluatedAt'', JStr evaluatedAt)]"

definition evaluateProposal ::
    "kernel \<Rightarrow> kstate \<Rightarrow> proposal \<Rightarrow> int \<Rightarrow> (decision \<times> identity_snapshot option) result" where
  "evaluateProposal k s pr nowMs =
     bnd (collect_reasons k s pr nowMs) (\<lambda>(reasons, snapshot, identity).
     let uniqueReasons = unique_list reasons;
         result = (if uniqueReasons = [] then ALLOW else BLOCK) in
     bnd (hashCanonical k (evidence_json pr identity snapshot)) (\<lambda>evidenceHash.
     let evaluatedAt = nowIso k nowMs in
     bnd (hashCanonical k (proposal_json pr)) (\<lambda>proposalHash.
     let pathHash = (case oget (paths s) (pp_pathId pr) of None \<Rightarrow> zero_hash | Some sp \<Rightarrow> sg_hash sp);
         core = decision_core pr proposalHash pathHash result uniqueReasons snapshot evidenceHash evaluatedAt in
     bnd (stableId k ''decision'' core) (\<lambda>decisionId.
     bnd (hashCanonical k core) (\<lambda>decisionHash.
     Inr (\<lparr>de_version = ''openrails-baphomet-decision-v1'',
           de_decisionId = decisionId,
           de_proposalId = pp_proposalId pr,
           de_proposalHash = proposalHash,
           de_workspaceId = pp_workspaceId pr,
           de_pathId = pp_pathId pr,
           de_pathHash = pathHash,
           de_result = result,
           de_reasonCodes = uniqueReasons,
           de_summary = (if result = ALLOW then ''Proposal is inside the active signed Path.''
                         else ''Proposal blocked: '' @ join '', '' (map reason_str uniqueReasons) @ ''.''),
           de_policySnapshot = snapshot,
           de_evidenceHash = evidenceHash,
           de_decisionHash = decisionHash,
           de_evaluatedAt = evaluatedAt\<rparr>, identity))))))"

end
