(* ===== verification/EvaluatorSpec.thy ===== *)
theory EvaluatorSpec
  imports Evaluator
begin

text \<open>
  The contract of the Baphomet engine, stated without reason codes: \<open>within_policy\<close> says
  when a proposal lies inside the active signed Path. The evaluator is shown to decide it:
  it allows a proposal exactly when the contract holds, and blocks it with a non-empty,
  duplicate-free list of reasons otherwise. The accounting functions are related to sums
  over the Pacts and events of the state.
\<close>

section \<open>The contract\<close>

definition requirement_met :: "identity_snapshot \<Rightarrow> identity_requirement \<Rightarrow> bool" where
  "requirement_met i r \<longleftrightarrow>
     (ir_provider r = ''dojang'' \<longrightarrow> is_verified i) \<and>
     (ir_nameService r = Some ''up.id'' \<or> ir_requireResolvedName r = Some True \<longrightarrow>
        truthy (is_resolvedName i)) \<and>
     (ir_requireForwardResolutionMatch r = Some True \<longrightarrow> is_forwardResolutionMatches i = Some True)"

definition identity_permits :: "kernel \<Rightarrow> path \<Rightarrow> proposal \<Rightarrow> bool" where
  "identity_permits k p pr \<longleftrightarrow>
     filter ir_required (pa_identityRequirements p) = [] \<or>
     (\<exists>cp resolve i. pp_counterparty pr = Some cp \<and> cp \<noteq> [] \<and> identityResolver k = Some resolve \<and>
        resolve cp = Inr i \<and>
        list_all (requirement_met i) (filter ir_required (pa_identityRequirements p)))"

definition counterparty_permitted :: "path \<Rightarrow> proposal \<Rightarrow> bool" where
  "counterparty_permitted p pr \<longleftrightarrow>
     (case pa_permittedCounterparties p of
        None \<Rightarrow> True
      | Some permitted \<Rightarrow> permitted = [] \<or>
          (\<exists>cp. pp_counterparty pr = Some cp \<and> cp \<noteq> [] \<and> lower cp \<in> lower ` set permitted))"

definition authority_permits :: "kernel \<Rightarrow> path \<Rightarrow> proposal \<Rightarrow> action_descriptor \<Rightarrow> int \<Rightarrow> bool" where
  "authority_permits k p pr action now \<longleftrightarrow>
     pa_status p = PathActive \<and>
     (\<exists>validFrom. date_parse k (pa_validFrom p) = Some validFrom \<and> validFrom \<le> now) \<and>
     (\<exists>expiresAt. date_parse k (pa_expiresAt p) = Some expiresAt \<and> now < expiresAt) \<and>
     pp_agentId pr \<in> set (pa_authorizedAgentIds p) \<and>
     pp_actionType pr \<in> set (pa_permittedActions p) \<and>
     authorityModeSatisfies (pa_authorityMode p) (ad_minimumAuthorityMode action) \<and>
     lower (pp_asset pr) \<in> lower ` set (pa_permittedAssets p) \<and>
     pp_evidencePolicyId pr \<in> pr_pluginId ` set (pa_approvedVerificationPlugins p)"

text \<open>An amount is a positive decimal; a limit is any decimal.\<close>

definition is_amount :: "string \<Rightarrow> bool" where
  "is_amount v \<longleftrightarrow> v \<noteq> [] \<and> list_all is_digit v \<and> digits_val v \<noteq> 0"

definition limits_permit :: "kernel \<Rightarrow> kstate \<Rightarrow> path \<Rightarrow> proposal \<Rightarrow> int \<Rightarrow> bool" where
  "limits_permit k s p pr now \<longleftrightarrow>
     is_amount (pp_requestedAllocationBaseUnits pr) \<and>
     is_amount (pp_requestedVelocityBaseUnitsPerSecond pr) \<and>
     isSafeInteger (pp_requestedDurationSeconds pr) \<and> 0 < pp_requestedDurationSeconds pr \<and>
     (\<exists>exposure spent.
        activeExposure s (pa_pathId p) = Inr exposure \<and>
        periodSpent k s p now = Inr spent \<and>
        (let limits = pa_limits p; allocation = digits_val (pp_requestedAllocationBaseUnits pr) in
         allocation \<le> digits_val (pl_maxPerPactBaseUnits limits) \<and>
         exposure + allocation \<le> digits_val (pl_maxActiveExposureBaseUnits limits) \<and>
         spent + allocation \<le> digits_val (pl_maxPerPeriodBaseUnits limits) \<and>
         digits_val (pp_requestedVelocityBaseUnitsPerSecond pr)
           \<le> digits_val (pl_maxVelocityBaseUnitsPerSecond limits) \<and>
         pp_requestedDurationSeconds pr \<le> pl_maxDurationSeconds limits \<and>
         int (length (activePactsForPath s (pa_pathId p))) < pl_maxConcurrentPacts limits))"

definition within_policy :: "kernel \<Rightarrow> kstate \<Rightarrow> proposal \<Rightarrow> int \<Rightarrow> bool" where
  "within_policy k s pr now \<longleftrightarrow>
     (\<exists>w a sp action.
        oget (workspaces s) (pp_workspaceId pr) = Some w \<and> ws_status w = WsActive \<and>
        oget (agents s) (pp_agentId pr) = Some a \<and> ag_status a = AgActive \<and>
        pp_pathId pr \<in> set (ag_assignedPathIds a) \<and>
        oget (paths s) (pp_pathId pr) = Some sp \<and>
        get_action (actionRegistry k) (pp_actionType pr) = Some action \<and> ad_enabled action \<and>
        authority_permits k (sg_artifact sp) pr action now \<and>
        limits_permit k s (sg_artifact sp) pr now \<and>
        counterparty_permitted (sg_artifact sp) pr \<and>
        identity_permits k (sg_artifact sp) pr)"

section \<open>Each group of rules decides its part\<close>

named_theorems rule_iffs \<open>a rule group pushes nothing exactly when its part of the contract holds\<close>

lemma push_if_Nil [simp]: "push_if c r = [] \<longleftrightarrow> \<not> c"
  by (simp add: push_if_def)

lemma set_push_if [simp]: "set (push_if c r) = (if c then {r} else {})"
  by (simp add: push_if_def)

lemma list_ex_image: "list_ex (\<lambda>x. f x = y) xs \<longleftrightarrow> y \<in> f ` set xs"
  by (auto simp: list_ex_iff)

lemma passes_amount: "passes (parseBaseUnits v f False) \<longleftrightarrow> is_amount v"
  by (auto simp: passes_iff parseBaseUnits_Inr_iff is_amount_def)

lemma parsed_or_zero_amount: "is_amount v \<Longrightarrow> parsed_or_zero (parseBaseUnits v f False) = digits_val v"
  by (auto simp: is_amount_def parsed_or_zero_def parseBaseUnits_def Let_def)

lemma registration_reasons_iff [rule_iffs]:
  "registration_reasons s pr action = [] \<longleftrightarrow>
     (\<exists>w. oget (workspaces s) (pp_workspaceId pr) = Some w \<and> ws_status w = WsActive) \<and>
     (\<exists>a. oget (agents s) (pp_agentId pr) = Some a \<and> ag_status a = AgActive \<and>
          pp_pathId pr \<in> set (ag_assignedPathIds a)) \<and>
     (\<exists>sp. oget (paths s) (pp_pathId pr) = Some sp) \<and>
     (\<exists>d. action = Some d \<and> ad_enabled d)"
  by (auto simp: registration_reasons_def Let_def split: option.splits)

lemma authority_reasons_iff [rule_iffs]:
  assumes "parseIso k (pa_validFrom p) f1 = Inr vf" and "parseIso k (pa_expiresAt p) f2 = Inr ex"
  shows "authority_reasons p pr (Some d) vf ex now = [] \<longleftrightarrow> authority_permits k p pr d now"
  using assms
  by (auto simp: authority_reasons_def authority_permits_def parseIso_Inr_iff list_ex_image approvedPlugin_def)

lemma amount_reasons_iff [rule_iffs]:
  "amount_reasons pr = [] \<longleftrightarrow>
     is_amount (pp_requestedAllocationBaseUnits pr) \<and>
     is_amount (pp_requestedVelocityBaseUnitsPerSecond pr) \<and>
     isSafeInteger (pp_requestedDurationSeconds pr) \<and> 0 < pp_requestedDurationSeconds pr"
  by (auto simp: amount_reasons_def passes_amount)

lemma limit_reasons_iff:
  assumes "limit_reasons p pr exposure spent n = Inr rs"
    and "is_amount (pp_requestedAllocationBaseUnits pr)"
    and "is_amount (pp_requestedVelocityBaseUnitsPerSecond pr)"
  shows "rs = [] \<longleftrightarrow>
    (let limits = pa_limits p; allocation = digits_val (pp_requestedAllocationBaseUnits pr) in
     allocation \<le> digits_val (pl_maxPerPactBaseUnits limits) \<and>
     exposure + allocation \<le> digits_val (pl_maxActiveExposureBaseUnits limits) \<and>
     spent + allocation \<le> digits_val (pl_maxPerPeriodBaseUnits limits) \<and>
     digits_val (pp_requestedVelocityBaseUnitsPerSecond pr)
       \<le> digits_val (pl_maxVelocityBaseUnitsPerSecond limits) \<and>
     pp_requestedDurationSeconds pr \<le> pl_maxDurationSeconds limits \<and>
     n < pl_maxConcurrentPacts limits)"
  using assms
  by (auto simp: limit_reasons_def Let_def bnd_Inr_iff parseBaseUnits_Inr_iff
      proposal_allocation_def proposal_velocity_def parsed_or_zero_amount)

lemma counterparty_reasons_iff [rule_iffs]:
  "counterparty_reasons p pr = [] \<longleftrightarrow> counterparty_permitted p pr"
  by (auto simp: counterparty_reasons_def counterparty_permitted_def truthy_def list_ex_image split: option.splits)

lemma requirement_reasons_iff [rule_iffs]: "requirement_reasons i r = [] \<longleftrightarrow> requirement_met i r"
  by (auto simp: requirement_reasons_def requirement_met_def)

lemma identity_reasons_iff [rule_iffs]: "fst (identity_reasons k p pr) = [] \<longleftrightarrow> identity_permits k p pr"
  by (auto simp: identity_reasons_def identity_permits_def Let_def truthy_def list_all_iff
      requirement_reasons_iff split: option.splits sum.splits)

lemma path_block_iff:
  assumes "path_block k s pr (Some d) p now = Inr (rs, sn, i)"
  shows "rs = [] \<longleftrightarrow>
     authority_permits k p pr d now \<and> limits_permit k s p pr now \<and>
     counterparty_permitted p pr \<and> identity_permits k p pr"
proof -
  from assms obtain vf ex e sp lr where
    b: "parseIso k (pa_validFrom p) ''path validFrom'' = Inr vf"
       "parseIso k (pa_expiresAt p) ''path expiresAt'' = Inr ex"
       "activeExposure s (pa_pathId p) = Inr e" "periodSpent k s p now = Inr sp"
       "limit_reasons p pr e sp (int (length (activePactsForPath s (pa_pathId p)))) = Inr lr"
    and rs: "rs = authority_reasons p pr (Some d) vf ex now @ amount_reasons pr @ lr
                  @ counterparty_reasons p pr @ fst (identity_reasons k p pr)"
    by (cases "identity_reasons k p pr") (auto simp: path_block_def Let_def bnd_Inr_iff)
  show ?thesis
  proof (cases "amount_reasons pr = []")
    case True
    then have am: "is_amount (pp_requestedAllocationBaseUnits pr)"
      "is_amount (pp_requestedVelocityBaseUnitsPerSecond pr)"
      by (simp_all add: rule_iffs)
    from True b(3,4) have "limits_permit k s p pr now \<longleftrightarrow> lr = []"
      by (auto simp: limits_permit_def limit_reasons_iff [OF b(5) am] rule_iffs)
    with True rs authority_reasons_iff [OF b(1,2)] show ?thesis by (auto simp: rule_iffs)
  next
    case False
    then have "\<not> limits_permit k s p pr now" by (auto simp: limits_permit_def rule_iffs)
    with False rs show ?thesis by simp
  qed
qed

lemma collect_reasons_iff:
  assumes "collect_reasons k s pr now = Inr (rs, sn, i)"
  shows "rs = [] \<longleftrightarrow> within_policy k s pr now"
proof (cases "registration_reasons s pr (get_action (actionRegistry k) (pp_actionType pr)) = []")
  case False
  with assms have "rs \<noteq> []"
    by (auto simp: collect_reasons_def Let_def bnd_Inr_iff split: option.splits)
  moreover from False have "\<not> within_policy k s pr now"
    by (auto simp: rule_iffs within_policy_def)
  ultimately show ?thesis by simp
next
  case True
  then obtain w a sp d where
    r: "oget (workspaces s) (pp_workspaceId pr) = Some w" "ws_status w = WsActive"
       "oget (agents s) (pp_agentId pr) = Some a" "ag_status a = AgActive"
       "pp_pathId pr \<in> set (ag_assignedPathIds a)" "oget (paths s) (pp_pathId pr) = Some sp"
       "get_action (actionRegistry k) (pp_actionType pr) = Some d" "ad_enabled d"
    by (auto simp: rule_iffs)
  with True assms obtain rs' where
    pb: "path_block k s pr (Some d) (sg_artifact sp) now = Inr (rs', sn, i)" and "rs = rs'"
    by (auto simp: collect_reasons_def Let_def bnd_Inr_iff)
  with path_block_iff [OF pb] r show ?thesis by (auto simp: within_policy_def)
qed

section \<open>The decision\<close>

lemma evaluateProposal_Inr:
  assumes "evaluateProposal k s pr now = Inr (d, i)"
  obtains rs sn eh where
    "collect_reasons k s pr now = Inr (rs, sn, i)"
    "de_reasonCodes d = unique_list rs"
    "de_result d = (if rs = [] then ALLOW else BLOCK)"
    "hashCanonical k (proposal_json pr) = Inr (de_proposalHash d)"
    "de_pathHash d = (case oget (paths s) (pp_pathId pr) of None \<Rightarrow> zero_hash | Some sp \<Rightarrow> sg_hash sp)"
    "hashCanonical k (evidence_json pr i sn) = Inr eh" "de_evidenceHash d = eh"
    "de_evaluatedAt d = nowIso k now" "de_proposalId d = pp_proposalId pr"
    "de_workspaceId d = pp_workspaceId pr" "de_pathId d = pp_pathId pr" "de_policySnapshot d = sn"
  using assms
  by (auto simp: evaluateProposal_def Let_def bnd_Inr_iff split: prod.splits if_splits)

lemma evaluateProposal_allow_iff:
  assumes "evaluateProposal k s pr now = Inr (d, i)"
  shows "de_result d = ALLOW \<longleftrightarrow> within_policy k s pr now"
  using assms by (rule evaluateProposal_Inr) (auto dest: collect_reasons_iff)

lemma evaluateProposal_block_reasons:
  assumes "evaluateProposal k s pr now = Inr (d, i)"
  shows "distinct (de_reasonCodes d) \<and>
     (de_result d = BLOCK \<longleftrightarrow> de_reasonCodes d \<noteq> []) \<and> de_result d \<in> {ALLOW, BLOCK}"
  using assms by (rule evaluateProposal_Inr) auto

section \<open>Accounting\<close>

lemma sum_results_Inr:
  "sum_results f xs acc = Inr t \<longleftrightarrow>
     (\<exists>ns. list_all2 (\<lambda>x n. f x = Inr n) xs ns \<and> t = acc + sum_list ns)"
proof (induction xs arbitrary: acc)
  case Nil
  then show ?case by auto
next
  case (Cons x xs)
  show ?case
    by (auto simp: bnd_Inr_iff Cons.IH list_all2_Cons1 algebra_simps)
       (metis list_all2_Cons sum_list.Cons group_cancel.add2)
qed

lemma sum_results_nonneg:
  assumes "sum_results f xs acc = Inr t" and "\<And>x n. f x = Inr n \<Longrightarrow> 0 \<le> n"
  shows "acc \<le> t"
  using assms(1)
proof (induction xs arbitrary: acc)
  case Nil
  then show ?case by simp
next
  case (Cons x xs)
  then obtain n where "f x = Inr n" "sum_results f xs (acc + n) = Inr t" by (auto simp: bnd_Inr_iff)
  then show ?case using Cons.IH [of "acc + n"] assms(2) [of x n] by simp
qed

lemma activeExposure_nonneg: "activeExposure s i = Inr e \<Longrightarrow> 0 \<le> e"
  unfolding activeExposure_def by (erule sum_results_nonneg) (rule parseBaseUnits_nonneg)

lemma event_allocation_nonneg: "event_allocation e = Inr n \<Longrightarrow> 0 \<le> n"
  by (auto simp: event_allocation_def dest: parseBaseUnits_nonneg split: option.splits json.splits)

lemma periodSpent_nonneg: "periodSpent env s p now = Inr t \<Longrightarrow> 0 \<le> t"
  unfolding periodSpent_def Let_def by (erule sum_results_nonneg) (rule event_allocation_nonneg)

end
