(* ===== verification/RuntimeBase.thy ===== *)
theory RuntimeBase
  imports EvaluatorSpec
begin

text \<open>
  The module-level helpers of \<open>agent-kernel/src/runtime.ts\<close>: lookups that throw, the
  structural checks on Workspaces, Agents, Proposals, Paths and Pacts, the checks that bind a
  chain observation to a Pact, the authorization of a Workspace command (the only writer of
  \<open>workspaceCommandNonces\<close>), and the two event logs.

  An operation of the kernel is a function from the draft state to the new draft and its
  result, or an exception; the store (theory \<open>Store\<close>) saves the draft only in the first
  case. The clock is read once per operation, as \<open>now\<close>.
\<close>

section \<open>Lookups\<close>

definition requireWorkspace :: "kstate \<Rightarrow> string \<Rightarrow> workspace result" where
  "requireWorkspace s i = require (oget (workspaces s) i) ''Workspace not found''"

definition requireAgent :: "kstate \<Rightarrow> string \<Rightarrow> agent result" where
  "requireAgent s i = require (oget (agents s) i) ''Agent not found''"

definition requirePath :: "kstate \<Rightarrow> string \<Rightarrow> path signed_artifact result" where
  "requirePath s i = require (oget (paths s) i) ''Path not found''"

definition requirePact :: "kstate \<Rightarrow> string \<Rightarrow> pact result" where
  "requirePact s i = require (oget (pacts s) i) ''Pact not found''"

definition assertAuthority :: "workspace \<Rightarrow> address \<Rightarrow> unit result" where
  "assertAuthority w signer =
     throw_if (lower (ws_authorityAccount w) \<noteq> lower signer) ''Workspace authority mismatch'' (Inr ())"

definition assertRevision :: "int \<Rightarrow> int \<Rightarrow> string \<Rightarrow> unit result" where
  "assertRevision actual expected label =
     throw_if (actual \<noteq> expected)
       (label @ '' revision conflict: expected '' @ int_str expected @ '', found '' @ int_str actual)
       (Inr ())"

definition sameAddress :: "address \<Rightarrow> address \<Rightarrow> bool" where
  "sameAddress left right \<longleftrightarrow> lower left = lower right"

lemma sameAddress_refl [simp]: "sameAddress a a"
  by (simp add: sameAddress_def)

lemma require_lookup_Inr [result_simps]:
  "requireWorkspace s i = Inr w \<longleftrightarrow> oget (workspaces s) i = Some w"
  "requireAgent s i = Inr a \<longleftrightarrow> oget (agents s) i = Some a"
  "requirePath s i = Inr p \<longleftrightarrow> oget (paths s) i = Some p"
  "requirePact s i = Inr q \<longleftrightarrow> oget (pacts s) i = Some q"
  by (simp_all add: requireWorkspace_def requireAgent_def requirePath_def requirePact_def require_Inr_iff)

lemma assertAuthority_Inr [result_simps]:
  "assertAuthority w a = Inr u \<longleftrightarrow> lower (ws_authorityAccount w) = lower a"
  by (cases u) (auto simp: assertAuthority_def throw_if_Inr_iff)

lemma assertRevision_Inr [result_simps]: "assertRevision a e l = Inr u \<longleftrightarrow> a = e"
  by (cases u) (auto simp: assertRevision_def throw_if_Inr_iff)

section \<open>Structural checks\<close>

text \<open>The character class \<open>[A-Za-z0-9._:-]\<close>, and \<open>/^[..]{lo,hi}$/\<close> over it.\<close>

definition id_char :: "char \<Rightarrow> bool" where
  "id_char c \<longleftrightarrow> is_lower c \<or> is_upper c \<or> is_digit c \<or> c \<in> set ''._:-''"

definition id_text :: "nat \<Rightarrow> nat \<Rightarrow> string \<Rightarrow> bool" where
  "id_text lo hi v \<longleftrightarrow> lo \<le> length v \<and> length v \<le> hi \<and> list_all id_char v"

definition assertWorkspaceId :: "string \<Rightarrow> unit result" where
  "assertWorkspaceId v = throw_if (\<not> id_text 3 96 v) ''invalid Workspace ID'' (Inr ())"

definition assertDomainId :: "string \<Rightarrow> string \<Rightarrow> unit result" where
  "assertDomainId v label = throw_if (\<not> id_text 3 128 v) (''invalid '' @ label) (Inr ())"

fun assertAll :: "('a \<Rightarrow> unit result) \<Rightarrow> 'a list \<Rightarrow> unit result" where
  "assertAll f [] = Inr ()"
| "assertAll f (x # xs) = thn (f x) (assertAll f xs)"

lemma assertAll_Inr [result_simps]: "assertAll f xs = Inr u \<longleftrightarrow> list_all (\<lambda>x. f x = Inr ()) xs"
  by (induction xs) (auto simp: thn_Inr_iff)

definition is_owner_member :: "address \<Rightarrow> workspace_member \<Rightarrow> bool" where
  "is_owner_member account m \<longleftrightarrow>
     wm_status m = MemActive \<and> Owner \<in> set (wm_roles m) \<and> lower (wm_address m) = lower account"

definition assertWorkspace :: "workspace \<Rightarrow> unit result" where
  "assertWorkspace w =
     throw_if (ws_version w \<noteq> ''openrails-workspace-v1'') ''unsupported Workspace version''
    (thn (assertWorkspaceId (ws_workspaceId w))
    (thn (assertDomainId (ws_principalId w) ''Principal ID'')
    (thn (assertAddress (ws_authorityAccount w) ''Workspace authority'')
    (throw_if (ws_authorityType w \<noteq> Eoa) ''Agent Kernel V1 supports EOA Workspace authorities only''
    (throw_if (\<not> isSafeInteger (ws_revision w) \<or> ws_revision w < 1) ''Workspace revision must be positive''
    (throw_if (ws_members w = []) ''Workspace requires at least one member''
    (throw_if (\<not> list_ex (is_owner_member (ws_authorityAccount w)) (ws_members w))
       ''Workspace authority must be an active owner member''
    (assertAll (\<lambda>m. assertAddress (wm_address m) ''Workspace member'') (ws_members w)))))))))"

definition assertAgent :: "'z jsenv_scheme \<Rightarrow> agent \<Rightarrow> unit result" where
  "assertAgent env a =
     throw_if (ag_version a \<noteq> ''openrails-agent-identity-v1'') ''unsupported Agent version''
    (thn (assertDomainId (ag_agentId a) ''Agent ID'')
    (thn (assertWorkspaceId (ag_workspaceId a))
    (thn (assertAddress (ag_operator a) ''Agent operator'')
    (thn (assertHex32 (ag_runtimeCredentialHash a) ''Agent runtimeCredentialHash'')
    (throw_if (\<not> isSafeInteger (ag_revision a) \<or> ag_revision a < 1) ''Agent revision must be positive''
    (if truthy (ag_expiresAt a)
     then bnd (parseIso env (the (ag_expiresAt a)) ''Agent expiresAt'') (\<lambda>e.
          bnd (parseIso env (ag_createdAt a) ''Agent createdAt'') (\<lambda>c.
          throw_if (e \<le> c) ''Agent expiry must be after creation'' (Inr ())))
     else Inr ()))))))"

definition assertProposal :: "'z jsenv_scheme \<Rightarrow> proposal \<Rightarrow> unit result" where
  "assertProposal env p =
     throw_if (pp_version p \<noteq> ''openrails-agent-proposal-v1'') ''unsupported Proposal version''
    (thn (assertDomainId (pp_proposalId p) ''Proposal ID'')
    (thn (assertWorkspaceId (pp_workspaceId p))
    (thn (assertDomainId (pp_pathId p) ''Path ID'')
    (thn (assertDomainId (pp_agentId p) ''Agent ID'')
    (thn (assertAddress (pp_asset p) ''Proposal asset'')
    (thn (if truthy (pp_counterparty p) then assertAddress (the (pp_counterparty p)) ''Proposal counterparty''
          else Inr ())
    (bnd (parseBaseUnits (pp_requestedAllocationBaseUnits p) ''requested allocation'' False) (\<lambda>_.
     bnd (parseBaseUnits (pp_requestedVelocityBaseUnitsPerSecond p) ''requested velocity'' False) (\<lambda>_.
     throw_if (\<not> isSafeInteger (pp_requestedDurationSeconds p) \<or> pp_requestedDurationSeconds p \<le> 0)
       ''Proposal duration must be positive''
    (bnd (parseIso env (pp_requestedAt p) ''Proposal requestedAt'') (\<lambda>_.
     throw_if (\<not> id_text 3 160 (pp_idempotencyKey p)) ''invalid Proposal idempotency key''
       (Inr ()))))))))))))"

definition assertPath :: "'z jsenv_scheme \<Rightarrow> path \<Rightarrow> unit result" where
  "assertPath env p =
     thn (assertDomainId (pa_pathId p) ''Path ID'')
    (thn (assertWorkspaceId (pa_workspaceId p))
    (thn (assertAddress (pa_owner p) ''Path owner'')
    (thn (assertAddress (pa_authorityAccount p) ''Path authority'')
    (throw_if (pa_revision p < 1 \<or> \<not> isSafeInteger (pa_revision p)) ''Path revision must be positive''
    (bnd (parseIso env (pa_validFrom p) ''Path validFrom'') (\<lambda>validFrom.
     bnd (parseIso env (pa_expiresAt p) ''Path expiresAt'') (\<lambda>expiresAt.
     throw_if (validFrom \<ge> expiresAt) ''Path validity window is invalid''
    (bnd (parseBaseUnits (pl_maxPerPactBaseUnits (pa_limits p)) ''maxPerPactBaseUnits'' False) (\<lambda>_.
     bnd (parseBaseUnits (pl_maxActiveExposureBaseUnits (pa_limits p)) ''maxActiveExposureBaseUnits'' False) (\<lambda>_.
     bnd (parseBaseUnits (pl_maxPerPeriodBaseUnits (pa_limits p)) ''maxPerPeriodBaseUnits'' False) (\<lambda>_.
     bnd (parseBaseUnits (pl_maxVelocityBaseUnitsPerSecond (pa_limits p)) ''maxVelocityBaseUnitsPerSecond'' False) (\<lambda>_.
     throw_if (\<not> isSafeInteger (pl_periodSeconds (pa_limits p)) \<or> pl_periodSeconds (pa_limits p) \<le> 0)
       ''periodSeconds must be positive''
    (throw_if (\<not> isSafeInteger (pl_maxDurationSeconds (pa_limits p)) \<or> pl_maxDurationSeconds (pa_limits p) \<le> 0)
       ''maxDurationSeconds must be positive''
    (throw_if (\<not> isSafeInteger (pl_maxConcurrentPacts (pa_limits p)) \<or> pl_maxConcurrentPacts (pa_limits p) \<le> 0)
       ''maxConcurrentPacts must be positive''
    (throw_if (pa_authorizedAgentIds p = []) ''Path requires at least one authorized Agent''
    (throw_if (pa_permittedActions p = []) ''Path requires permitted actions''
    (throw_if (pa_permittedAssets p = []) ''Path requires permitted assets''
     (Inr ()))))))))))))))))))"

definition assertPact :: "'z jsenv_scheme \<Rightarrow> pact \<Rightarrow> unit result" where
  "assertPact env p =
     thn (assertDomainId (pc_pactId p) ''Pact ID'')
    (thn (assertAddress (pc_initiator p) ''Pact initiator'')
    (thn (assertAddress (pc_counterparty p) ''Pact counterparty'')
    (thn (assertAddress (pt_payer (pc_paymentTerms p)) ''Pact payer'')
    (thn (assertAddress (pt_recipient (pc_paymentTerms p)) ''Pact recipient'')
    (thn (assertAddress (pt_token (pc_paymentTerms p)) ''Pact token'')
    (thn (assertAddress (pt_vault (pc_paymentTerms p)) ''Pact vault'')
    (thn (assertAddress (pt_residualRecipient (pc_paymentTerms p)) ''Pact residual recipient'')
    (bnd (parseBaseUnits (pt_maximumAllocationBaseUnits (pc_paymentTerms p)) ''Pact allocation'' False) (\<lambda>_.
     bnd (parseBaseUnits (pt_velocityBaseUnitsPerSecond (pc_paymentTerms p)) ''Pact velocity'' False) (\<lambda>_.
     throw_if (\<not> isSafeInteger (pt_lifespanSeconds (pc_paymentTerms p)) \<or> pt_lifespanSeconds (pc_paymentTerms p) \<le> 0)
       ''Pact lifespan must be positive''
    (assertPactTermsIntegrity env p)))))))))))"

lemma assertPact_integrity: "assertPact env p = Inr u \<Longrightarrow> pactTermsHash env p = Inr (pc_termsHash p)"
  by (auto simp: assertPact_def bnd_Inr_iff thn_Inr_iff throw_if_Inr_iff assertPactTermsIntegrity_Inr_iff)

section \<open>Eligibility for execution, and observations against terms\<close>

definition assertPactExecutionEligible ::
    "'z jsenv_scheme \<Rightarrow> kstate \<Rightarrow> pact \<Rightarrow> int \<Rightarrow> path signed_artifact result" where
  "assertPactExecutionEligible env s pact nowMs =
     thn (assertPact env pact)
    (bnd (requireWorkspace s (pc_workspaceId pact)) (\<lambda>workspace.
     throw_if (ws_status workspace \<noteq> WsActive) ''Pact Workspace is not active''
    (bnd (requireAgent s (pc_agentId pact)) (\<lambda>agent.
     throw_if (ag_workspaceId agent \<noteq> ws_workspaceId workspace \<or> ag_status agent \<noteq> AgActive)
       ''Pact Agent is not active in the Workspace''
    (bnd (requirePath s (pc_pathId pact)) (\<lambda>signedPath.
     let path = sg_artifact signedPath in
     throw_if (sg_hash signedPath \<noteq> pc_pathHash pact \<or> pa_revision path \<noteq> pc_pathRevision pact)
       ''Pact is bound to a stale Path revision''
    (throw_if (pa_status path \<noteq> PathActive) ''Pact Path is not active''
    (bnd (parseIso env (pa_validFrom path) ''Path validFrom'') (\<lambda>validFrom.
     throw_if (validFrom > nowMs) ''Pact Path is not yet valid''
    (bnd (parseIso env (pa_expiresAt path) ''Path expiresAt'') (\<lambda>expiresAt.
     throw_if (expiresAt \<le> nowMs) ''Pact Path has expired''
    (throw_if (pc_agentId pact \<notin> set (pa_authorizedAgentIds path)) ''Pact Agent is no longer authorized by the Path''
    (throw_if (pc_actionType pact \<notin> set (pa_permittedActions path)) ''Pact action is no longer authorized by the Path''
    (throw_if (\<not> list_ex (\<lambda>asset. sameAddress asset (pt_token (pc_paymentTerms pact))) (pa_permittedAssets path))
       ''Pact asset is no longer authorized by the Path''
    (throw_if (case pa_permittedCounterparties path of None \<Rightarrow> False
               | Some permitted \<Rightarrow> permitted \<noteq> [] \<and>
                   \<not> list_ex (\<lambda>entry. sameAddress entry (pc_counterparty pact)) permitted)
       ''Pact counterparty is no longer authorized by the Path''
     (Inr signedPath))))))))))))))))"

definition assertOpeningObservationMatchesPact ::
    "pact \<Rightarrow> hex \<Rightarrow> hex \<Rightarrow> hex \<Rightarrow> opening_observation \<Rightarrow> unit result" where
  "assertOpeningObservationMatchesPact pact metadataHash paycardId openingTxHash ob =
    (let t = pc_paymentTerms pact in
     throw_if (lower (oo_transactionHash ob) \<noteq> lower openingTxHash) ''Opening observation transaction hash mismatch''
    (throw_if (oo_chainId ob \<noteq> pt_chainId t) ''Opening observation chain mismatch''
    (throw_if (\<not> sameAddress (oo_vault ob) (pt_vault t)) ''Opening observation vault mismatch''
    (throw_if (oo_paycardId ob \<noteq> paycardId \<or> oo_metadataHash ob \<noteq> metadataHash)
       ''Opening observation payment binding mismatch''
    (throw_if (\<not> sameAddress (oo_payer ob) (pt_payer t)) ''Opening observation payer mismatch''
    (throw_if (\<not> sameAddress (oo_recipient ob) (pt_recipient t)) ''Opening observation recipient mismatch''
    (throw_if (\<not> sameAddress (oo_residualRecipient ob) (pt_residualRecipient t))
       ''Opening observation residual recipient mismatch''
    (throw_if (oo_poolAllocationBaseUnits ob \<noteq> pt_maximumAllocationBaseUnits t)
       ''Opening observation allocation mismatch''
    (throw_if (oo_flowVelocityBaseUnitsPerSecond ob \<noteq> pt_velocityBaseUnitsPerSecond t)
       ''Opening observation velocity mismatch''
    (throw_if (oo_lifespanSeconds ob \<noteq> pt_lifespanSeconds t) ''Opening observation lifespan mismatch''
    (throw_if (oo_operationalStatus ob \<noteq> 0) ''Canonical Paycard is not active''
    (bnd (parseBaseUnits (oo_availableBalanceBaseUnits ob) ''opening available balance'' True) (\<lambda>b.
     throw_if (b = 0) ''Canonical Paycard has no available balance''
     (Inr ()))))))))))))))"

definition assertSettlementObservationMatchesPact ::
    "pact \<Rightarrow> hex \<Rightarrow> string \<Rightarrow> settlement_observation \<Rightarrow> unit result" where
  "assertSettlementObservationMatchesPact pact txHash amount ob =
     (case pc_openRails pact of
        None \<Rightarrow> Inl (Error ''Pact has no prepared OpenRails payment'')
      | Some openRails \<Rightarrow>
     let t = pc_paymentTerms pact in
     throw_if (lower (so_transactionHash ob) \<noteq> lower txHash) ''Settlement observation transaction hash mismatch''
    (throw_if (so_chainId ob \<noteq> pt_chainId t) ''Settlement observation chain mismatch''
    (throw_if (\<not> sameAddress (so_vault ob) (pt_vault t)) ''Settlement observation vault mismatch''
    (throw_if (so_paycardId ob \<noteq> or_paycardId openRails) ''Settlement observation Paycard mismatch''
    (throw_if (\<not> sameAddress (so_recipient ob) (pt_recipient t)) ''Settlement observation recipient mismatch''
    (throw_if (so_settledAmountBaseUnits ob \<noteq> amount) ''Settlement observation amount mismatch''
     (Inr ())))))))"

section \<open>Workspace commands\<close>

definition command_nonce :: "kstate \<Rightarrow> string \<Rightarrow> int" where
  "command_nonce s workspaceId =
     (case oget (workspaceCommandNonces s) workspaceId of None \<Rightarrow> 0 | Some n \<Rightarrow> n)"

definition authorizeWorkspaceCommand ::
    "kernel \<Rightarrow> kstate \<Rightarrow> workspace_command \<Rightarrow> hex \<Rightarrow> command_operation \<Rightarrow> json \<Rightarrow> int
     \<Rightarrow> (kstate \<times> workspace) result" where
  "authorizeWorkspaceCommand k s command signature operation payload nowMs =
     bnd (requireWorkspace s (wc_workspaceId command)) (\<lambda>workspace.
     throw_if (ws_status workspace \<noteq> WsActive) ''Workspace is not active''
    (throw_if (wc_operation command \<noteq> operation) ''Workspace command operation mismatch''
    (bnd (hashCanonical k payload) (\<lambda>payloadHash.
     throw_if (wc_payloadHash command \<noteq> payloadHash) ''Workspace command payload hash mismatch''
    (throw_if (wc_workspaceRevision command \<noteq> ws_revision workspace) ''Workspace command revision is stale''
    (let expectedNonce = command_nonce s (ws_workspaceId workspace) in
     throw_if (\<not> isSafeInteger (wc_nonce command) \<or> wc_nonce command \<noteq> expectedNonce)
       (''Workspace command nonce mismatch: expected '' @ int_str expectedNonce)
    (bnd (parseIso k (wc_issuedAt command) ''command issuedAt'') (\<lambda>issuedAt.
     bnd (parseIso k (wc_expiresAt command) ''command expiresAt'') (\<lambda>expiresAt.
     throw_if (issuedAt > nowMs + 30000) ''Workspace command issuedAt is in the future''
    (throw_if (expiresAt \<le> nowMs) ''Workspace command expired''
    (throw_if (expiresAt - issuedAt > 15 * 60000) ''Workspace command lifetime exceeds 15 minutes''
    (bnd (workspaceCommandTypedData k command) (\<lambda>typedData.
     throw_if (\<not> signatureVerifier k typedData signature (ws_authorityAccount workspace))
       ''Workspace command signature is invalid''
     (Inr (s\<lparr>workspaceCommandNonces :=
               oset (ws_workspaceId workspace) (expectedNonce + 1) (workspaceCommandNonces s)\<rparr>,
           workspace)))))))))))))))"

section \<open>Event logs\<close>

definition new_event ::
    "string \<Rightarrow> string \<Rightarrow> string \<Rightarrow> string \<Rightarrow> string \<Rightarrow> string \<Rightarrow> iso_date \<Rightarrow> fields \<Rightarrow> kernel_event" where
  "new_event eventId workspaceId subjectType subjectId ty actor at data =
     \<lparr>ev_version = ''openrails-kernel-event-v1'', ev_eventId = eventId,
      ev_workspaceId = workspaceId, ev_subjectType = subjectType, ev_subjectId = subjectId,
      ev_type = ty, ev_actor = actor, ev_at = at, ev_data = data\<rparr>"

text \<open>\<open>event(state, { workspaceId, subjectType, subjectId, type, actor, at, data })\<close>.\<close>

definition log_event ::
    "kernel \<Rightarrow> kstate \<Rightarrow> string \<Rightarrow> string \<Rightarrow> string \<Rightarrow> string \<Rightarrow> string \<Rightarrow> iso_date \<Rightarrow> fields \<Rightarrow> kstate result" where
  "log_event k s workspaceId subjectType subjectId ty actor at data =
     bnd (stableId k ''event'' (JObj
       [(''workspaceId'', JStr workspaceId), (''subjectType'', JStr subjectType),
        (''subjectId'', JStr subjectId), (''type'', JStr ty), (''actor'', JStr actor),
        (''at'', JStr at), (''data'', JObj data), (''sequence'', JNum (int (length (events s))))]))
     (\<lambda>eventId. Inr (s\<lparr>events :=
        events s @ [new_event eventId workspaceId subjectType subjectId ty actor at data]\<rparr>))"

definition new_pact_event ::
    "string \<Rightarrow> pact \<Rightarrow> int \<Rightarrow> string \<Rightarrow> string \<Rightarrow> fields \<Rightarrow> iso_date \<Rightarrow> pact_event" where
  "new_pact_event eventId pact sequence ty actor data at =
     \<lparr>pe_version = ''openrails-pact-event-v1'', pe_eventId = eventId,
      pe_pactId = pc_pactId pact, pe_workspaceId = pc_workspaceId pact,
      pe_sequence = sequence, pe_type = ty, pe_actor = actor, pe_at = at, pe_data = data\<rparr>"

definition pact_event_sequence :: "kstate \<Rightarrow> pact \<Rightarrow> int" where
  "pact_event_sequence s pact =
     int (length (filter (\<lambda>e. pe_pactId e = pc_pactId pact) (pactEvents s)))"

definition log_pact_event ::
    "kernel \<Rightarrow> kstate \<Rightarrow> pact \<Rightarrow> string \<Rightarrow> string \<Rightarrow> fields \<Rightarrow> iso_date \<Rightarrow> kstate result" where
  "log_pact_event k s pact ty actor data at =
     (let sequence = pact_event_sequence s pact in
      bnd (stableId k ''pactevt'' (JObj
        [(''pactId'', JStr (pc_pactId pact)), (''sequence'', JNum sequence),
         (''type'', JStr ty), (''at'', JStr at)]))
      (\<lambda>eventId. Inr (s\<lparr>pactEvents :=
        pactEvents s @ [new_pact_event eventId pact sequence ty actor data at]\<rparr>)))"

section \<open>Facts\<close>

lemma authorizeWorkspaceCommand_Inr:
  assumes "authorizeWorkspaceCommand k s c sg op payload now = Inr (s', w)"
  shows "oget (workspaces s) (wc_workspaceId c) = Some w" "ws_status w = WsActive"
    "wc_operation c = op" "hashCanonical k payload = Inr (wc_payloadHash c)"
    "wc_workspaceRevision c = ws_revision w"
    "wc_nonce c = command_nonce s (ws_workspaceId w)"
    "\<exists>i e. date_parse k (wc_issuedAt c) = Some i \<and> date_parse k (wc_expiresAt c) = Some e \<and>
       i \<le> now + 30000 \<and> now < e \<and> e - i \<le> 900000"
    "\<exists>td. workspaceCommandTypedData k c = Inr td \<and> signatureVerifier k td sg (ws_authorityAccount w)"
    "s' = s\<lparr>workspaceCommandNonces := oset (ws_workspaceId w) (wc_nonce c + 1) (workspaceCommandNonces s)\<rparr>"
proof -
  from assms obtain td i e where
    "oget (workspaces s) (wc_workspaceId c) = Some w \<and> ws_status w = WsActive \<and>
     wc_operation c = op \<and> hashCanonical k payload = Inr (wc_payloadHash c) \<and>
     wc_workspaceRevision c = ws_revision w \<and> wc_nonce c = command_nonce s (ws_workspaceId w) \<and>
     date_parse k (wc_issuedAt c) = Some i \<and> date_parse k (wc_expiresAt c) = Some e \<and>
     i \<le> now + 30000 \<and> now < e \<and> e - i \<le> 900000 \<and>
     workspaceCommandTypedData k c = Inr td \<and> signatureVerifier k td sg (ws_authorityAccount w) \<and>
     s' = s\<lparr>workspaceCommandNonces := oset (ws_workspaceId w) (wc_nonce c + 1) (workspaceCommandNonces s)\<rparr>"
    unfolding authorizeWorkspaceCommand_def Let_def bnd_Inr_iff throw_if_Inr_iff
      require_lookup_Inr parseIso_Inr_iff by auto
  then show "oget (workspaces s) (wc_workspaceId c) = Some w" "ws_status w = WsActive"
    "wc_operation c = op" "hashCanonical k payload = Inr (wc_payloadHash c)"
    "wc_workspaceRevision c = ws_revision w"
    "wc_nonce c = command_nonce s (ws_workspaceId w)"
    "\<exists>i e. date_parse k (wc_issuedAt c) = Some i \<and> date_parse k (wc_expiresAt c) = Some e \<and>
       i \<le> now + 30000 \<and> now < e \<and> e - i \<le> 900000"
    "\<exists>td. workspaceCommandTypedData k c = Inr td \<and> signatureVerifier k td sg (ws_authorityAccount w)"
    "s' = s\<lparr>workspaceCommandNonces := oset (ws_workspaceId w) (wc_nonce c + 1) (workspaceCommandNonces s)\<rparr>"
    by blast+
qed

lemma new_event_simps [simp]:
  "ev_workspaceId (new_event i w st si ty ac at d) = w"
  "ev_type (new_event i w st si ty ac at d) = ty"
  "ev_actor (new_event i w st si ty ac at d) = ac"
  "ev_at (new_event i w st si ty ac at d) = at"
  "ev_data (new_event i w st si ty ac at d) = d"
  by (simp_all add: new_event_def)

lemma new_pact_event_simps [simp]:
  "pe_pactId (new_pact_event i p n ty ac d at) = pc_pactId p"
  "pe_workspaceId (new_pact_event i p n ty ac d at) = pc_workspaceId p"
  "pe_sequence (new_pact_event i p n ty ac d at) = n"
  "pe_type (new_pact_event i p n ty ac d at) = ty"
  "pe_actor (new_pact_event i p n ty ac d at) = ac"
  "pe_at (new_pact_event i p n ty ac d at) = at"
  "pe_data (new_pact_event i p n ty ac d at) = d"
  by (simp_all add: new_pact_event_def)

lemma log_event_Inr [result_simps]:
  "log_event k s w st si ty ac at d = Inr s' \<longleftrightarrow>
     (\<exists>i. stableId k ''event'' (JObj
       [(''workspaceId'', JStr w), (''subjectType'', JStr st), (''subjectId'', JStr si),
        (''type'', JStr ty), (''actor'', JStr ac), (''at'', JStr at), (''data'', JObj d),
        (''sequence'', JNum (int (length (events s))))]) = Inr i \<and>
      s' = s\<lparr>events := events s @ [new_event i w st si ty ac at d]\<rparr>)"
  by (auto simp: log_event_def bnd_Inr_iff)

lemma log_pact_event_Inr [result_simps]:
  "log_pact_event k s p ty ac d at = Inr s' \<longleftrightarrow>
     (\<exists>i. stableId k ''pactevt'' (JObj
        [(''pactId'', JStr (pc_pactId p)), (''sequence'', JNum (pact_event_sequence s p)),
         (''type'', JStr ty), (''at'', JStr at)]) = Inr i \<and>
      s' = s\<lparr>pactEvents := pactEvents s @ [new_pact_event i p (pact_event_sequence s p) ty ac d at]\<rparr>)"
  by (auto simp: log_pact_event_def Let_def bnd_Inr_iff)

text \<open>A Pact event is always recorded: what is hashed for its identifier is serializable.\<close>

lemma log_pact_event_total: "\<exists>s'. log_pact_event k s p ty ac d at = Inr s'"
proof -
  obtain i where "stableId k ''pactevt'' (JObj
      [(''pactId'', JStr (pc_pactId p)), (''sequence'', JNum (pact_event_sequence s p)),
       (''type'', JStr ty), (''at'', JStr at)]) = Inr i"
    using stableId_total [where v = "JObj
      [(''pactId'', JStr (pc_pactId p)), (''sequence'', JNum (pact_event_sequence s p)),
       (''type'', JStr ty), (''at'', JStr at)]"] by auto
  then show ?thesis by (simp only: log_pact_event_Inr) blast
qed

end
