(* ===== verification/RuntimeAuthority.thy ===== *)
theory RuntimeAuthority
  imports RuntimeBase
begin

text \<open>
  The authority operations of \<open>OpenRailsAgentKernel\<close> (\<open>agent-kernel/src/runtime.ts\<close>):
  preparing and registering Workspaces and Agents, Workspace commands, activating and
  revising Paths, changing an Agent's status, and installing verification plugins.
\<close>

section \<open>Workspace commands\<close>

definition prepareWorkspaceCommand ::
    "kernel \<Rightarrow> kstate \<Rightarrow> string \<Rightarrow> command_operation \<Rightarrow> json \<Rightarrow> int option \<Rightarrow> int
     \<Rightarrow> (workspace_command \<times> typed_data) result" where
  "prepareWorkspaceCommand k s workspaceId operation payload ttl now =
     bnd (requireWorkspace s workspaceId) (\<lambda>workspace.
     let ttlSeconds = (case ttl of None \<Rightarrow> 300 | Some t \<Rightarrow> t) in
     throw_if (\<not> isSafeInteger ttlSeconds \<or> ttlSeconds < 30 \<or> ttlSeconds > 900)
       ''Workspace command ttlSeconds must be between 30 and 900''
    (let issuedAt = nowIso k now in
     bnd (hashCanonical k payload) (\<lambda>payloadHash.
     let nonce = command_nonce s (ws_workspaceId workspace);
         expiresAt = to_iso k (now + ttlSeconds * 1000) in
     bnd (stableId k ''command'' (JObj
       [(''workspaceId'', JStr (ws_workspaceId workspace)),
        (''operation'', JStr (operation_str operation)),
        (''payloadHash'', JStr payloadHash),
        (''workspaceRevision'', JNum (ws_revision workspace)),
        (''nonce'', JNum nonce),
        (''issuedAt'', JStr issuedAt),
        (''expiresAt'', JStr expiresAt)])) (\<lambda>commandId.
     let command = \<lparr>wc_version = ''openrails-workspace-command-v1'', wc_commandId = commandId,
           wc_workspaceId = ws_workspaceId workspace, wc_operation = operation,
           wc_payloadHash = payloadHash, wc_workspaceRevision = ws_revision workspace,
           wc_nonce = nonce, wc_issuedAt = issuedAt, wc_expiresAt = expiresAt\<rparr> in
     bnd (workspaceCommandTypedData k command) (\<lambda>td. Inr (command, td))))))"

section \<open>Workspaces\<close>

definition prepareWorkspace ::
    "kernel \<Rightarrow> string \<Rightarrow> workspace_type \<Rightarrow> string \<Rightarrow> string \<Rightarrow> address \<Rightarrow> authority_type
     \<Rightarrow> workspace_member list option \<Rightarrow> int \<Rightarrow> (workspace \<times> hex \<times> typed_data) result" where
  "prepareWorkspace k workspaceId workspaceType displayName principalId authorityAccount authorityType members now =
     thn (assertWorkspaceId workspaceId)
    (thn (assertAddress authorityAccount ''Workspace authority'')
    (throw_if (authorityType \<noteq> Eoa) ''Agent Kernel V1 supports EOA Workspace authorities only''
    (let at = nowIso k now;
         workspace = \<lparr>ws_version = ''openrails-workspace-v1'', ws_workspaceId = workspaceId,
           ws_workspaceType = workspaceType, ws_displayName = displayName,
           ws_principalId = principalId, ws_authorityAccount = authorityAccount,
           ws_authorityType = authorityType,
           ws_members = (case members of Some ms \<Rightarrow> ms
             | None \<Rightarrow> [\<lparr>wm_address = authorityAccount, wm_roles = [Owner], wm_status = MemActive,
                         wm_addedAt = at\<rparr>]),
           ws_status = WsActive, ws_revision = 1, ws_createdAt = at, ws_updatedAt = at\<rparr> in
     bnd (hashCanonical k (workspace_json workspace)) (\<lambda>h.
     bnd (workspaceTypedData k workspace) (\<lambda>td. Inr (workspace, h, td))))))"

definition registerWorkspace ::
    "kernel \<Rightarrow> kstate \<Rightarrow> workspace \<Rightarrow> hex \<Rightarrow> int \<Rightarrow> (kstate \<times> workspace signed_artifact) result" where
  "registerWorkspace k s workspace signature now =
     thn (assertWorkspace workspace)
    (bnd (workspaceTypedData k workspace) (\<lambda>typedData.
     throw_if (\<not> signatureVerifier k typedData signature (ws_authorityAccount workspace))
       ''Workspace authority signature is invalid''
    (throw_if (oget (workspaces s) (ws_workspaceId workspace) \<noteq> None) ''Workspace already exists''
    (bnd (hashCanonical k (workspace_json workspace)) (\<lambda>h.
     let artifact = \<lparr>sg_artifact = workspace, sg_hash = h, sg_typedData = typedData,
           sg_signer = ws_authorityAccount workspace, sg_signature = signature,
           sg_signedAt = nowIso k now\<rparr>;
         s1 = s\<lparr>workspaces := oset (ws_workspaceId workspace) workspace (workspaces s),
                workspaceArtifacts := oset (ws_workspaceId workspace) artifact (workspaceArtifacts s)\<rparr> in
     bnd (log_event k s1 (ws_workspaceId workspace) ''workspace'' (ws_workspaceId workspace)
            ''WORKSPACE_REGISTERED'' (ws_authorityAccount workspace) (sg_signedAt artifact)
            [(''hash'', JStr h)]) (\<lambda>s2.
     Inr (s2, artifact)))))))"

section \<open>Agents\<close>

definition prepareAgentRegistration ::
    "kernel \<Rightarrow> agent \<Rightarrow> string list option \<Rightarrow> int \<Rightarrow> (agent \<times> hex \<times> typed_data) result" where
  "prepareAgentRegistration k input assigned now =
     thn (assertDomainId (ag_agentId input) ''Agent ID'')
    (thn (assertAddress (ag_operator input) ''Agent operator'')
    (let agent = input\<lparr>ag_version := ''openrails-agent-identity-v1'',
           ag_assignedPathIds := (case assigned of None \<Rightarrow> [] | Some ps \<Rightarrow> ps),
           ag_status := AgActive, ag_createdAt := nowIso k now, ag_revision := 1\<rparr> in
     bnd (hashCanonical k (agent_json agent)) (\<lambda>h.
     bnd (agentRegistrationTypedData k agent) (\<lambda>td. Inr (agent, h, td)))))"

definition registerAgent ::
    "kernel \<Rightarrow> kstate \<Rightarrow> agent \<Rightarrow> address \<Rightarrow> hex \<Rightarrow> int \<Rightarrow> (kstate \<times> agent) result" where
  "registerAgent k s agent authoritySigner signature now =
     thn (assertAgent k agent)
    (bnd (requireWorkspace s (ag_workspaceId agent)) (\<lambda>workspace.
     thn (assertAuthority workspace authoritySigner)
    (throw_if (oget (agents s) (ag_agentId agent) \<noteq> None) ''Agent already exists''
    (bnd (agentRegistrationTypedData k agent) (\<lambda>typedData.
     throw_if (\<not> signatureVerifier k typedData signature authoritySigner)
       ''Agent registration signature is invalid''
    (let signedAt = nowIso k now in
     bnd (hashCanonical k (agent_json agent)) (\<lambda>h.
     let s1 = s\<lparr>agents := oset (ag_agentId agent) agent (agents s),
               agentArtifacts := oset (ag_agentId agent)
                 \<lparr>sg_artifact = agent, sg_hash = h, sg_typedData = typedData,
                  sg_signer = authoritySigner, sg_signature = signature, sg_signedAt = signedAt\<rparr>
                 (agentArtifacts s)\<rparr> in
     bnd (log_event k s1 (ws_workspaceId workspace) ''agent'' (ag_agentId agent)
            ''AGENT_REGISTERED'' authoritySigner signedAt [(''agentHash'', JStr h)]) (\<lambda>s2.
     Inr (s2, agent)))))))))"

definition setAgentStatus ::
    "kernel \<Rightarrow> kstate \<Rightarrow> string \<Rightarrow> string \<Rightarrow> agent_status \<Rightarrow> workspace_command \<Rightarrow> hex \<Rightarrow> int
     \<Rightarrow> (kstate \<times> agent) result" where
  "setAgentStatus k s workspaceId agentId status command signature now =
     (let payload = JObj [(''workspaceId'', JStr workspaceId), (''agentId'', JStr agentId),
                          (''status'', JStr (agent_status_str status))] in
      bnd (authorizeWorkspaceCommand k s command signature SetAgentStatus payload now) (\<lambda>(s1, workspace).
      throw_if (ws_workspaceId workspace \<noteq> workspaceId) ''Workspace command target mismatch''
     (bnd (requireAgent s1 agentId) (\<lambda>agent.
      throw_if (ag_workspaceId agent \<noteq> ws_workspaceId workspace) ''Agent Workspace mismatch''
     (let agent' = agent\<lparr>ag_status := status, ag_revision := ag_revision agent + 1\<rparr>;
          s2 = s1\<lparr>agents := oset agentId agent' (agents s1)\<rparr> in
      bnd (log_event k s2 (ws_workspaceId workspace) ''agent'' (ag_agentId agent)
             (''AGENT_'' @ upper (agent_status_str status)) (ws_authorityAccount workspace) (nowIso k now)
             [(''revision'', JNum (ag_revision agent')), (''commandId'', JStr (wc_commandId command))]) (\<lambda>s3.
      Inr (s3, agent')))))))"

section \<open>Paths\<close>

definition preparePath :: "kernel \<Rightarrow> path \<Rightarrow> (path \<times> hex \<times> typed_data) result" where
  "preparePath k path =
     thn (assertPath k path)
    (bnd (hashCanonical k (path_json path)) (\<lambda>h.
     bnd (pathTypedData k path) (\<lambda>td. Inr (path, h, td))))"

text \<open>The first loop of \<open>activatePath\<close>: every authorized Agent is active in the Workspace.\<close>

definition agent_active_in :: "kstate \<Rightarrow> workspace \<Rightarrow> string \<Rightarrow> unit result" where
  "agent_active_in s workspace agentId =
     bnd (requireAgent s agentId) (\<lambda>agent.
     throw_if (ag_workspaceId agent \<noteq> ws_workspaceId workspace \<or> ag_status agent \<noteq> AgActive)
       (''Agent '' @ agentId @ '' is not active in this Workspace'') (Inr ()))"

text \<open>The second loop: the Path is added to the Agents' assignments.\<close>

fun assign_path :: "string \<Rightarrow> string list \<Rightarrow> agent obj \<Rightarrow> agent obj" where
  "assign_path pathId [] as = as"
| "assign_path pathId (i # is) as =
     (case oget as i of
        None \<Rightarrow> assign_path pathId is as
      | Some a \<Rightarrow> assign_path pathId is
          (if pathId \<in> set (ag_assignedPathIds a) then as
           else oset i (a\<lparr>ag_assignedPathIds := ag_assignedPathIds a @ [pathId]\<rparr>) as))"

definition path_succession :: "path \<Rightarrow> path signed_artifact option \<Rightarrow> unit result" where
  "path_succession path existing =
     (case existing of
        None \<Rightarrow> throw_if (pa_revision path \<noteq> 1) ''New Path revision must be 1'' (Inr ())
      | Some e \<Rightarrow>
          thn (assertRevision (pa_revision path) (pa_revision (sg_artifact e) + 1) ''Path'')
         (throw_if (pa_previousPathHash path \<noteq> Some (sg_hash e)) ''Path previous hash mismatch''
         (throw_if (pa_workspaceId path \<noteq> pa_workspaceId (sg_artifact e))
            ''Path Workspace cannot change across revisions''
         (throw_if (\<not> sameAddress (pa_owner path) (pa_owner (sg_artifact e)))
            ''Path owner cannot change across revisions''
         (throw_if (\<not> sameAddress (pa_authorityAccount path) (pa_authorityAccount (sg_artifact e)))
            ''Path authority cannot change across revisions''
          (Inr ()))))))"

definition activatePath ::
    "kernel \<Rightarrow> kstate \<Rightarrow> path \<Rightarrow> hex \<Rightarrow> int \<Rightarrow> (kstate \<times> path signed_artifact) result" where
  "activatePath k s path signature now =
     thn (assertPath k path)
    (bnd (pathTypedData k path) (\<lambda>typedData.
     throw_if (\<not> signatureVerifier k typedData signature (pa_authorityAccount path))
       ''Path authority signature is invalid''
    (bnd (requireWorkspace s (pa_workspaceId path)) (\<lambda>workspace.
     thn (assertAuthority workspace (pa_authorityAccount path))
    (throw_if (\<not> list_ex (is_owner_member (pa_owner path)) (ws_members workspace))
       ''Path owner must be an active Workspace owner''
    (thn (assertAll (agent_active_in s workspace) (pa_authorizedAgentIds path))
    (thn (path_succession path (oget (paths s) (pa_pathId path)))
    (bnd (hashCanonical k (path_json path)) (\<lambda>h.
     let signed = \<lparr>sg_artifact = path, sg_hash = h, sg_typedData = typedData,
           sg_signer = pa_authorityAccount path, sg_signature = signature, sg_signedAt = nowIso k now\<rparr>;
         s1 = s\<lparr>paths := oset (pa_pathId path) signed (paths s),
                agents := assign_path (pa_pathId path) (pa_authorizedAgentIds path) (agents s)\<rparr> in
     bnd (log_event k s1 (ws_workspaceId workspace) ''path'' (pa_pathId path)
            (if oget (paths s) (pa_pathId path) \<noteq> None then ''PATH_REVISED'' else ''PATH_ACTIVATED'')
            (pa_authorityAccount path) (sg_signedAt signed)
            [(''revision'', JNum (pa_revision path)), (''pathHash'', JStr h)]) (\<lambda>s2.
     Inr (s2, signed)))))))))))"

section \<open>Plugins\<close>

text \<open>\<open>/^[0-9]+\.[0-9]+\.[0-9]+(?:[-+][A-Za-z0-9.-]+)?$/\<close>.\<close>

definition semver_suffix :: "string \<Rightarrow> bool" where
  "semver_suffix s \<longleftrightarrow>
     (case s of [] \<Rightarrow> True
      | c # cs \<Rightarrow> c \<in> set ''-+'' \<and> cs \<noteq> [] \<and>
          list_all (\<lambda>x. is_lower x \<or> is_upper x \<or> is_digit x \<or> x \<in> set ''.-'') cs)"

fun semver_parts :: "nat \<Rightarrow> string \<Rightarrow> bool" where
  "semver_parts 0 s \<longleftrightarrow> takeWhile is_digit s \<noteq> [] \<and> semver_suffix (dropWhile is_digit s)"
| "semver_parts (Suc n) s \<longleftrightarrow> takeWhile is_digit s \<noteq> [] \<and>
     (case dropWhile is_digit s of [] \<Rightarrow> False | c # r \<Rightarrow> c = CHR ''.'' \<and> semver_parts n r)"

definition semver_like :: "string \<Rightarrow> bool" where
  "semver_like s = semver_parts (Suc (Suc 0)) s"

definition installPlugin ::
    "kernel \<Rightarrow> kstate \<Rightarrow> plugin_manifest \<Rightarrow> workspace_command \<Rightarrow> hex \<Rightarrow> int
     \<Rightarrow> (kstate \<times> plugin_manifest) result" where
  "installPlugin k s manifest command signature now =
     throw_if (mf_version manifest \<noteq> ''openrails-verification-plugin-v1'')
       ''unsupported verification plugin manifest version''
    (thn (assertDomainId (mf_pluginId manifest) ''plugin ID'')
    (throw_if (\<not> semver_like (mf_pluginVersion manifest)) ''pluginVersion must be semver-like''
    (thn (assertAddress (mf_publisher manifest) ''plugin publisher'')
    (thn (assertHex32 (mf_codeDigest manifest) ''plugin codeDigest'')
    (case mf_installedWorkspaceIds manifest of
       [workspaceId] \<Rightarrow>
    (bnd (verificationPluginTypedData k manifest) (\<lambda>td.
     throw_if (\<not> signatureVerifier k td (mf_publisherSignature manifest) (mf_publisher manifest))
       ''plugin publisher signature is invalid''
    (let payload = JObj [(''workspaceId'', JStr workspaceId), (''pluginId'', JStr (mf_pluginId manifest)),
           (''pluginVersion'', JStr (mf_pluginVersion manifest)), (''codeDigest'', JStr (mf_codeDigest manifest))] in
     bnd (authorizeWorkspaceCommand k s command signature InstallPlugin payload now) (\<lambda>(s1, workspace).
     throw_if (ws_workspaceId workspace \<noteq> workspaceId) ''Workspace command target mismatch''
    (let key = plugin_key (mf_pluginId manifest) (mf_pluginVersion manifest) in
     throw_if (case oget (plugins s1) key of None \<Rightarrow> False
               | Some existing \<Rightarrow> mf_codeDigest existing \<noteq> mf_codeDigest manifest)
       ''plugin version digest conflict''
    (bnd (log_event k (s1\<lparr>plugins := oset key manifest (plugins s1)\<rparr>) (ws_workspaceId workspace)
            ''plugin'' key ''PLUGIN_INSTALLED'' (ws_authorityAccount workspace) (nowIso k now)
            [(''codeDigest'', JStr (mf_codeDigest manifest)), (''publisher'', JStr (mf_publisher manifest)),
             (''commandId'', JStr (wc_commandId command))]) (\<lambda>s2.
     Inr (s2, manifest))))))))
     | _ \<Rightarrow> Inl (Error ''V1 plugin installation must target exactly one Workspace''))))))"

end
