(* ===== verification/RuntimeProposals.thy ===== *)
theory RuntimeProposals
  imports RuntimeBase
begin

text \<open>
  Proposals and jobs of \<open>OpenRailsAgentKernel\<close> (\<open>agent-kernel/src/runtime.ts\<close>):
  \<open>submitProposal\<close> with its idempotency records, and \<open>runNextJob\<close>, which evaluates one
  queued proposal. \<open>runNextJob\<close> chooses its candidate from the state it loads before its
  transaction, so that state is an argument of its own (\<open>before\<close>).
\<close>

section \<open>submitProposal\<close>

definition idempotency_key :: "proposal \<Rightarrow> string" where
  "idempotency_key p = pp_workspaceId p @ '':proposal:'' @ pp_idempotencyKey p"

definition new_job :: "string \<Rightarrow> proposal \<Rightarrow> iso_date \<Rightarrow> job" where
  "new_job jobId p at = \<lparr>jb_version = ''openrails-runtime-job-v1'', jb_jobId = jobId,
     jb_workspaceId = pp_workspaceId p, jb_proposalId = pp_proposalId p, jb_kind = EvaluateProposal,
     jb_state = JobQueued, jb_attempts = 0, jb_lockedBy = None, jb_lockUntil = None,
     jb_result = None, jb_error = None, jb_createdAt = at, jb_updatedAt = at\<rparr>"

definition submitProposal :: "kernel \<Rightarrow> kstate \<Rightarrow> proposal \<Rightarrow> int \<Rightarrow> (kstate \<times> proposal \<times> job) result" where
  "submitProposal k s p now =
     thn (assertProposal k p)
    (bnd (hashCanonical k (proposal_json p)) (\<lambda>fingerprint.
     let idempotencyKey = idempotency_key p in
     case oget (idempotency s) idempotencyKey of
       Some previous \<Rightarrow>
         throw_if (id_fingerprint previous \<noteq> fingerprint) ''idempotency conflict''
        (case (oget (proposals s) (pp_proposalId p),
               find (\<lambda>j. jb_proposalId j = pp_proposalId p) (ovals (jobs s))) of
           (Some previousProposal, Some previousJob) \<Rightarrow> Inr (s, previousProposal, previousJob)
         | _ \<Rightarrow> Inl (Error ''idempotency record is inconsistent''))
     | None \<Rightarrow>
        (case oget (proposals s) (pp_proposalId p) of
           Some existing \<Rightarrow>
             bnd (hashCanonical k (proposal_json existing)) (\<lambda>h.
             throw_if (h \<noteq> fingerprint) ''Proposal ID already exists with different payload''
             (Inl (Error ''Proposal ID already exists'')))
         | None \<Rightarrow>
             let at = nowIso k now in
             bnd (stableId k ''job'' (JObj [(''proposalId'', JStr (pp_proposalId p)),
                                            (''kind'', JStr ''evaluate_proposal'')])) (\<lambda>jobId.
             let job = new_job jobId p at;
                 s1 = s\<lparr>proposals := oset (pp_proposalId p) p (proposals s),
                        jobs := oset jobId job (jobs s),
                        idempotency := oset idempotencyKey
                          \<lparr>id_fingerprint = fingerprint,
                           id_result = [(''proposalId'', JStr (pp_proposalId p)), (''jobId'', JStr jobId)]\<rparr>
                          (idempotency s)\<rparr> in
             bnd (log_event k s1 (pp_workspaceId p) ''proposal'' (pp_proposalId p)
                    ''PROPOSAL_SUBMITTED'' (pp_agentId p) at
                    [(''actionType'', JStr (pp_actionType p)), (''jobId'', JStr jobId)]) (\<lambda>s2.
             Inr (s2, p, job))))))"

section \<open>runNextJob\<close>

definition set_job :: "kstate \<Rightarrow> string \<Rightarrow> job \<Rightarrow> kstate" where
  "set_job s i j = s\<lparr>jobs := oset i j (jobs s)\<rparr>"

fun error_message :: "js_error \<Rightarrow> string" where
  "error_message (Error m) = m"

text \<open>The \<open>catch\<close> block.\<close>

definition job_failed :: "kernel \<Rightarrow> kstate \<Rightarrow> string \<Rightarrow> job \<Rightarrow> js_error \<Rightarrow> int \<Rightarrow> kstate \<times> job" where
  "job_failed k s jobId job e now =
     (let j = job\<lparr>jb_state := JobFailed, jb_error := Some (error_message e), jb_updatedAt := nowIso k now\<rparr> in
      (set_job s jobId j, j))"

definition new_blocked_action :: "string \<Rightarrow> proposal \<Rightarrow> decision \<Rightarrow> blocked_action" where
  "new_blocked_action i p d = \<lparr>bl_version = ''openrails-blocked-action-v1'', bl_blockedActionId = i,
     bl_workspaceId = pp_workspaceId p, bl_pathId = pp_pathId p, bl_agentId = pp_agentId p,
     bl_proposalId = pp_proposalId p, bl_actionType = pp_actionType p,
     bl_requestedAllocationBaseUnits = pp_requestedAllocationBaseUnits p,
     bl_reasonCodes = de_reasonCodes d, bl_decisionHash = de_decisionHash d, bl_at = de_evaluatedAt d\<rparr>"

text \<open>
  The \<open>if / else if / else\<close> on the result: the state with the blocked action, if any,
  and the job with its final state and result.
\<close>

definition job_outcome ::
    "kernel \<Rightarrow> kstate \<Rightarrow> job \<Rightarrow> proposal \<Rightarrow> decision \<Rightarrow> identity_snapshot option \<Rightarrow> (kstate \<times> job) result" where
  "job_outcome k s job p d identity =
     (case de_result d of
        BLOCK \<Rightarrow>
          bnd (stableId k ''blocked'' (decision_json d)) (\<lambda>i.
          Inr (s\<lparr>blockedActions := blockedActions s @ [new_blocked_action i p d]\<rparr>,
               job\<lparr>jb_state := JobBlocked,
                   jb_result := Some [(''decisionId'', JStr (de_decisionId d)), (''blockedActionId'', JStr i)]\<rparr>))
      | REVIEW \<Rightarrow>
          Inr (s, job\<lparr>jb_state := JobReview, jb_result := Some [(''decisionId'', JStr (de_decisionId d))]\<rparr>)
      | ALLOW \<Rightarrow>
          Inr (s, job\<lparr>jb_state := JobCompleted,
                      jb_result := Some ([(''decisionId'', JStr (de_decisionId d))]
                                         @ opt_field ''identity'' identity_json identity)\<rparr>))"

text \<open>The transaction body for a queued job: the \<open>try\<close> block, its effects kept on failure.\<close>

definition job_body :: "kernel \<Rightarrow> kstate \<Rightarrow> string \<Rightarrow> job \<Rightarrow> int \<Rightarrow> kstate \<times> job" where
  "job_body k s jobId job now =
     (if jb_kind job \<noteq> EvaluateProposal
      then job_failed k s jobId job (Error (''unsupported job kind '' @ job_kind_str (jb_kind job))) now
      else case oget (proposals s) (jb_proposalId job) of
        None \<Rightarrow> job_failed k s jobId job (Error ''proposal is missing'') now
      | Some p \<Rightarrow>
        (case evaluateProposal k s p now of
           Inl e \<Rightarrow> job_failed k s jobId job e now
         | Inr (d, identity) \<Rightarrow>
             let s1 = s\<lparr>decisions := oset (de_decisionId d) d (decisions s)\<rparr> in
             (case job_outcome k s1 job p d identity of
                Inl e \<Rightarrow> job_failed k s1 jobId job e now
              | Inr (s2, job2) \<Rightarrow>
                  let job3 = job2\<lparr>jb_updatedAt := nowIso k now\<rparr>; s3 = set_job s2 jobId job3 in
                  (case log_event k s3 (pp_workspaceId p) ''proposal'' (pp_proposalId p)
                          (''BAPHOMET_'' @ decision_str (de_result d)) ''baphomet'' (de_evaluatedAt d)
                          [(''decisionId'', JStr (de_decisionId d)), (''reasonCodes'', reasons_json (de_reasonCodes d))] of
                     Inl e \<Rightarrow> job_failed k s3 jobId job3 e now
                   | Inr s4 \<Rightarrow> (s4, job3)))))"

definition next_queued :: "kstate \<Rightarrow> job option" where
  "next_queued s = find (\<lambda>j. jb_state j = JobQueued) (ovals (jobs s))"

definition lock_job :: "kernel \<Rightarrow> job \<Rightarrow> string \<Rightarrow> int \<Rightarrow> job" where
  "lock_job k job workerId now =
     job\<lparr>jb_state := JobRunning, jb_attempts := jb_attempts job + 1, jb_lockedBy := Some workerId,
         jb_lockUntil := Some (to_iso k (now + 60000)), jb_updatedAt := nowIso k now\<rparr>"

definition runNextJob :: "kernel \<Rightarrow> kstate \<Rightarrow> kstate \<Rightarrow> string \<Rightarrow> int \<Rightarrow> kstate \<times> job option" where
  "runNextJob k before s workerId now =
     (case next_queued before of
        None \<Rightarrow> (s, None)
      | Some candidate \<Rightarrow>
          (case oget (jobs s) (jb_jobId candidate) of
             None \<Rightarrow> (s, None)
           | Some job \<Rightarrow>
               if jb_state job \<noteq> JobQueued then (s, Some job)
               else let job1 = lock_job k job workerId now;
                        (s', job') = job_body k (set_job s (jb_jobId candidate) job1) (jb_jobId candidate) job1 now
                    in (s', Some job')))"

end
