(* ===== verification/RuntimePacts.thy ===== *)
theory RuntimePacts
  imports RuntimeBase
begin

text \<open>
  The Pact lifecycle of \<open>OpenRailsAgentKernel\<close> (\<open>agent-kernel/src/runtime.ts\<close>): creation
  from an allowed proposal, signatures, binding to an OpenRails payment, settlement.

  \<open>bindOpenRailsPayment\<close> with an opening transaction and \<open>recordPactSettlement\<close> read the
  state, call the chain verifier, and only then run their transaction, on a state that other
  operations may have changed meanwhile: the first state is \<open>before\<close>, the second \<open>s\<close>.
\<close>

section \<open>Creation\<close>

definition set_pact :: "kstate \<Rightarrow> string \<Rightarrow> pact \<Rightarrow> kstate" where
  "set_pact s i p = s\<lparr>pacts := oset i p (pacts s)\<rparr>"

record pact_input =
  pi_proposalId :: string
  pi_pactId :: string
  pi_commercialTerms :: fields
  pi_completionPolicyId :: string
  pi_disputePolicyId :: string
  pi_requiresCounterpartySignature :: "bool option"

text \<open>The plugin that the active Path approves for the proposal, installed and bound.\<close>

definition pact_plugin :: "kernel \<Rightarrow> kstate \<Rightarrow> workspace \<Rightarrow> path \<Rightarrow> proposal \<Rightarrow> (plugin_ref \<times> plugin_manifest) result" where
  "pact_plugin k s workspace path proposal =
     bnd (require (find (\<lambda>r. pr_pluginId r = pp_evidencePolicyId proposal) (pa_approvedVerificationPlugins path))
            ''Proposal evidence policy is not approved by the active Path'') (\<lambda>pluginRef.
     case oget (plugins s) (plugin_key (pr_pluginId pluginRef) (pr_version pluginRef)) of
       None \<Rightarrow> Inl (Error ''Pact evidence plugin is not active'')
     | Some manifest \<Rightarrow>
     throw_if (mf_status manifest \<noteq> PlActive) ''Pact evidence plugin is not active''
    (throw_if (ws_workspaceId workspace \<notin> set (mf_installedWorkspaceIds manifest))
       ''Pact evidence plugin is not installed in the Workspace''
    (throw_if (case plugin_get (pluginRegistry k) (pr_pluginId pluginRef) (pr_version pluginRef) of
                 None \<Rightarrow> True
               | Some impl \<Rightarrow> mf_codeDigest (pg_manifest impl) \<noteq> mf_codeDigest manifest)
       ''Pact evidence plugin implementation does not match its installed manifest''
     (Inr (pluginRef, manifest)))))"

definition draft_pact ::
    "pact_input \<Rightarrow> proposal \<Rightarrow> address \<Rightarrow> hex \<Rightarrow> decision \<Rightarrow> path signed_artifact \<Rightarrow> workspace \<Rightarrow> plugin_ref
     \<Rightarrow> plugin_manifest \<Rightarrow> iso_date \<Rightarrow> pact" where
  "draft_pact input proposal counterparty proposalHash decision signedPath workspace pluginRef manifest at = \<lparr>
     pc_version = ''openrails-pact-v1'', pc_pactId = pi_pactId input,
     pc_workspaceId = pp_workspaceId proposal, pc_pathId = pp_pathId proposal,
     pc_pathRevision = pa_revision (sg_artifact signedPath), pc_pathHash = sg_hash signedPath,
     pc_proposalId = pp_proposalId proposal, pc_proposalHash = proposalHash,
     pc_decisionId = de_decisionId decision, pc_decisionHash = de_decisionHash decision,
     pc_termsHash = zero_hash, pc_initiator = ws_authorityAccount workspace,
     pc_agentId = pp_agentId proposal, pc_counterparty = counterparty,
     pc_actionType = pp_actionType proposal, pc_specification = pp_specification proposal,
     pc_commercialTerms = pi_commercialTerms input,
     pc_paymentTerms = \<lparr>pt_chainId = giwa_chainId, pt_vault = giwa_vaultAddress,
       pt_token = pp_asset proposal, pt_payer = ws_authorityAccount workspace, pt_recipient = counterparty,
       pt_maximumAllocationBaseUnits = pp_requestedAllocationBaseUnits proposal,
       pt_velocityBaseUnitsPerSecond = pp_requestedVelocityBaseUnitsPerSecond proposal,
       pt_lifespanSeconds = pp_requestedDurationSeconds proposal,
       pt_residualRecipient = ws_authorityAccount workspace\<rparr>,
     pc_evidencePolicyId = pr_pluginId pluginRef, pc_evidencePolicyVersion = pr_version pluginRef,
     pc_evidencePolicyCodeDigest = mf_codeDigest manifest,
     pc_completionPolicyId = pi_completionPolicyId input, pc_disputePolicyId = pi_disputePolicyId input,
     pc_requiresCounterpartySignature =
       (case pi_requiresCounterpartySignature input of None \<Rightarrow> True | Some b \<Rightarrow> b),
     pc_status = PactAwaitingSignatures, pc_revision = 1, pc_openRails = None,
     pc_createdAt = at, pc_updatedAt = at\<rparr>"

definition createPactFromProposal ::
    "kernel \<Rightarrow> kstate \<Rightarrow> pact_input \<Rightarrow> int \<Rightarrow> (kstate \<times> pact) result" where
  "createPactFromProposal k s input now =
     bnd (require (oget (proposals s) (pi_proposalId input)) ''Proposal not found'') (\<lambda>proposal.
     throw_if (\<not> truthy (pp_counterparty proposal))
       ''Payable Pact requires the approved proposal counterparty''
    (throw_if (oget (pacts s) (pi_pactId input) \<noteq> None) ''Pact already exists''
    (bnd (requireWorkspace s (pp_workspaceId proposal)) (\<lambda>workspace.
     throw_if (ws_status workspace \<noteq> WsActive) ''Workspace is not active''
    (bnd (requireAgent s (pp_agentId proposal)) (\<lambda>agent.
     throw_if (ag_workspaceId agent \<noteq> ws_workspaceId workspace \<or> ag_status agent \<noteq> AgActive)
       ''Agent is not active in the Workspace''
    (bnd (evaluateProposal k s proposal now) (\<lambda>(decision, identity).
     let s1 = s\<lparr>decisions := oset (de_decisionId decision) decision (decisions s)\<rparr> in
     throw_if (de_result decision \<noteq> ALLOW)
       (''Proposal is not currently allowed by Baphomet: '' @ join '', '' (map reason_str (de_reasonCodes decision)))
    (bnd (requirePath s1 (pp_pathId proposal)) (\<lambda>signedPath.
     throw_if (de_pathHash decision \<noteq> sg_hash signedPath)
       ''Baphomet decision is stale for the active Path revision''
    (bnd (hashCanonical k (proposal_json proposal)) (\<lambda>proposalHash.
     throw_if (de_proposalHash decision \<noteq> proposalHash) ''Baphomet decision proposal hash mismatch''
    (bnd (pact_plugin k s1 workspace (sg_artifact signedPath) proposal) (\<lambda>(pluginRef, manifest).
     let at = nowIso k now;
         draft = draft_pact input proposal (the (pp_counterparty proposal)) proposalHash decision
                   signedPath workspace pluginRef manifest at in
     bnd (pactTermsHash k draft) (\<lambda>termsHash.
     let pact = draft\<lparr>pc_termsHash := termsHash\<rparr> in
     thn (assertPact k pact)
    (let s2 = (set_pact s1 (pi_pactId input) pact)
                \<lparr>pactSignatures := oset (pi_pactId input) [] (pactSignatures s1)\<rparr> in
     bnd (log_pact_event k s2 pact ''PACT_CREATED'' (pp_agentId proposal)
            [(''proposalId'', JStr (pp_proposalId proposal)), (''proposalHash'', JStr proposalHash),
             (''decisionId'', JStr (de_decisionId decision)), (''decisionHash'', JStr (de_decisionHash decision)),
             (''termsHash'', JStr termsHash)] at) (\<lambda>s3.
     Inr (s3, pact))))))))))))))))))"

section \<open>Signatures\<close>

definition preparePactSignature :: "kernel \<Rightarrow> pact \<Rightarrow> (pact \<times> hex \<times> typed_data) result" where
  "preparePactSignature k pact =
     thn (assertPact k pact) (bnd (pactTypedData k pact) (\<lambda>td. Inr (pact, pc_termsHash pact, td)))"

definition signed_by :: "address \<Rightarrow> pact signed_artifact list \<Rightarrow> bool" where
  "signed_by account sigs \<longleftrightarrow> list_ex (\<lambda>e. lower (sg_signer e) = lower account) sigs"

text \<open>\<open>state.pactSignatures[pact.pactId] ?? []\<close>.\<close>

definition pact_signatures :: "kstate \<Rightarrow> string \<Rightarrow> pact signed_artifact list" where
  "pact_signatures s i = (case oget (pactSignatures s) i of None \<Rightarrow> [] | Some l \<Rightarrow> l)"

definition signPact ::
    "kernel \<Rightarrow> kstate \<Rightarrow> string \<Rightarrow> address \<Rightarrow> hex \<Rightarrow> int \<Rightarrow> (kstate \<times> pact signed_artifact) result" where
  "signPact k s pactId signer signature now =
     bnd (requirePact s pactId) (\<lambda>pact.
     bnd (requireWorkspace s (pc_workspaceId pact)) (\<lambda>workspace.
     throw_if (\<not> (lower signer = lower (ws_authorityAccount workspace) \<or> lower signer = lower (pc_counterparty pact)))
       ''Pact signer is neither Workspace authority nor counterparty''
    (let signatures = pact_signatures s (pc_pactId pact) in
     case find (\<lambda>e. lower (sg_signer e) = lower signer) signatures of
       Some existing \<Rightarrow>
         throw_if (sg_hash existing \<noteq> pc_termsHash pact \<or> sg_signature existing \<noteq> signature)
           ''Pact signer already recorded a different signature''
         (Inr (s, existing))
     | None \<Rightarrow>
     throw_if (pc_status pact \<noteq> PactAwaitingSignatures) ''Pact is no longer accepting signatures''
    (bnd (pactTypedData k pact) (\<lambda>typedData.
     throw_if (\<not> signatureVerifier k typedData signature signer) ''Pact signature is invalid''
    (let signed = \<lparr>sg_artifact = pact, sg_hash = pc_termsHash pact, sg_typedData = typedData,
           sg_signer = signer, sg_signature = signature, sg_signedAt = nowIso k now\<rparr>;
         signatures' = signatures @ [signed];
         s1 = s\<lparr>pactSignatures := oset (pc_pactId pact) signatures' (pactSignatures s)\<rparr>;
         authoritySigned = signed_by (ws_authorityAccount workspace) signatures';
         counterpartySigned = signed_by (pc_counterparty pact) signatures' in
     if authoritySigned \<and> (\<not> pc_requiresCounterpartySignature pact \<or> counterpartySigned)
     then let pact' = pact\<lparr>pc_status := PactAccepted, pc_revision := pc_revision pact + 1,
                           pc_updatedAt := nowIso k now\<rparr> in
          bnd (log_pact_event k (set_pact s1 pactId pact') pact' ''PACT_ACCEPTED'' signer
                 [(''termsHash'', JStr (sg_hash signed)), (''signers'', str_arr (map sg_signer signatures'))]
                 (pc_updatedAt pact')) (\<lambda>s2. Inr (s2, signed))
     else bnd (log_pact_event k s1 pact ''PACT_SIGNATURE_ADDED'' signer
                 [(''termsHash'', JStr (sg_hash signed))] (sg_signedAt signed)) (\<lambda>s2. Inr (s2, signed))))))))"

section \<open>Binding to a payment\<close>

record bind_input =
  bi_pactId :: string
  bi_metadataHash :: hex
  bi_paycardId :: hex
  bi_actor :: address
  bi_genesisTimestamp :: "int option"
  bi_nonceChannel :: "int option"
  bi_nonceValue :: "int option"
  bi_openingTxHash :: "hex option"

definition nonneg_safe :: "int option \<Rightarrow> bool" where
  "nonneg_safe v \<longleftrightarrow> (case v of None \<Rightarrow> False | Some n \<Rightarrow> isSafeInteger n \<and> 0 \<le> n)"

definition bindPayment_prepare :: "kernel \<Rightarrow> kstate \<Rightarrow> bind_input \<Rightarrow> int \<Rightarrow> (kstate \<times> pact) result" where
  "bindPayment_prepare k s input now =
     throw_if (\<not> nonneg_safe (bi_genesisTimestamp input)) ''genesisTimestamp is required for payment preparation''
    (throw_if (\<not> nonneg_safe (bi_nonceChannel input)) ''nonceChannel is required for payment preparation''
    (throw_if (\<not> nonneg_safe (bi_nonceValue input)) ''nonceValue is required for payment preparation''
    (bnd (requirePact s (bi_pactId input)) (\<lambda>pact.
     bnd (assertPactExecutionEligible k s pact now) (\<lambda>_.
     throw_if (pc_status pact \<notin> {PactAccepted, PactPaymentPrepared, PactAwaitingWallet})
       ''Pact is not ready for OpenRails preparation''
    (let preparedAt = nowIso k now;
         pact' = pact\<lparr>pc_openRails := Some \<lparr>or_metadataHash = bi_metadataHash input,
             or_paycardId = bi_paycardId input, or_genesisTimestamp = the (bi_genesisTimestamp input),
             or_nonceChannel = the (bi_nonceChannel input), or_nonceValue = the (bi_nonceValue input),
             or_preparedAt = preparedAt, or_openingTxHash = None, or_openingObservation = None,
             or_settlements = Some []\<rparr>,
           pc_status := PactPaymentPrepared, pc_revision := pc_revision pact + 1,
           pc_updatedAt := preparedAt\<rparr> in
     bnd (log_pact_event k (set_pact s (bi_pactId input) pact') pact' ''PAYMENT_PREPARED'' (bi_actor input)
            [(''termsHash'', JStr (pc_termsHash pact)), (''metadataHash'', JStr (bi_metadataHash input)),
             (''paycardId'', JStr (bi_paycardId input)),
             (''genesisTimestamp'', JNum (the (bi_genesisTimestamp input))),
             (''nonceChannel'', JNum (the (bi_nonceChannel input))),
             (''nonceValue'', JNum (the (bi_nonceValue input))),
             (''allocationBaseUnits'', JStr (pt_maximumAllocationBaseUnits (pc_paymentTerms pact)))]
            (pc_updatedAt pact')) (\<lambda>s1. Inr (s1, pact'))))))))"

text \<open>Before the transaction: the observation of the opening, checked against the Pact as first read.\<close>

definition bindPayment_observe ::
    "kernel \<Rightarrow> kstate \<Rightarrow> bind_input \<Rightarrow> hex \<Rightarrow> int \<Rightarrow> opening_observation result" where
  "bindPayment_observe k before input openingTxHash now =
     bnd (require (chainVerifier k) ''Canonical OpenRails chain verifier is required to activate a Pact'') (\<lambda>verifier.
     bnd (requirePact before (bi_pactId input)) (\<lambda>pact.
     bnd (assertPactExecutionEligible k before pact now) (\<lambda>_.
     bnd (require (pc_openRails pact) ''Payment must be prepared before canonical opening verification'') (\<lambda>openRails.
     throw_if (or_metadataHash openRails \<noteq> bi_metadataHash input \<or> or_paycardId openRails \<noteq> bi_paycardId input)
       ''Opening transaction does not match the prepared Pact payment''
    (bnd (cv_verifyOpening verifier pact (bi_metadataHash input) (bi_paycardId input) openingTxHash) (\<lambda>ob.
     thn (assertOpeningObservationMatchesPact pact (bi_metadataHash input) (bi_paycardId input) openingTxHash ob)
     (Inr ob)))))))"

definition bindPayment_open ::
    "kernel \<Rightarrow> kstate \<Rightarrow> bind_input \<Rightarrow> hex \<Rightarrow> opening_observation \<Rightarrow> int \<Rightarrow> (kstate \<times> pact) result" where
  "bindPayment_open k s input openingTxHash ob now =
     bnd (requirePact s (bi_pactId input)) (\<lambda>pact.
     bnd (assertPactExecutionEligible k s pact now) (\<lambda>_.
     bnd (require (pc_openRails pact) ''Payment preparation disappeared before opening verification'') (\<lambda>openRails.
     throw_if (pc_status pact \<notin> {PactPaymentPrepared, PactAwaitingWallet})
       ''Pact is not awaiting canonical OpenRails opening''
    (throw_if (or_metadataHash openRails \<noteq> bi_metadataHash input \<or> or_paycardId openRails \<noteq> bi_paycardId input)
       ''Prepared payment changed during opening verification''
    (thn (assertOpeningObservationMatchesPact pact (bi_metadataHash input) (bi_paycardId input) openingTxHash ob)
    (let pact' = pact\<lparr>pc_openRails := Some (openRails\<lparr>or_openingTxHash := Some openingTxHash,
                                                     or_openingObservation := Some ob\<rparr>),
           pc_status := PactActive, pc_revision := pc_revision pact + 1, pc_updatedAt := nowIso k now\<rparr> in
     bnd (log_pact_event k (set_pact s (bi_pactId input) pact') pact' ''PAYMENT_OPENED_CANONICAL'' (bi_actor input)
            [(''termsHash'', JStr (pc_termsHash pact)), (''metadataHash'', JStr (bi_metadataHash input)),
             (''paycardId'', JStr (bi_paycardId input)), (''openingTxHash'', JStr openingTxHash),
             (''blockNumber'', JNum (oo_blockNumber ob)),
             (''allocationBaseUnits'', JStr (pt_maximumAllocationBaseUnits (pc_paymentTerms pact)))]
            (pc_updatedAt pact')) (\<lambda>s1. Inr (s1, pact'))))))))"

definition bindOpenRailsPayment ::
    "kernel \<Rightarrow> kstate \<Rightarrow> kstate \<Rightarrow> bind_input \<Rightarrow> int \<Rightarrow> (kstate \<times> pact) result" where
  "bindOpenRailsPayment k before s input now =
     thn (assertHex32 (bi_metadataHash input) ''metadataHash'')
    (thn (assertHex32 (bi_paycardId input) ''paycardId'')
    (if \<not> truthy (bi_openingTxHash input) then bindPayment_prepare k s input now
     else let openingTxHash = the (bi_openingTxHash input) in
       thn (assertHex32 openingTxHash ''openingTxHash'')
      (bnd (bindPayment_observe k before input openingTxHash now) (\<lambda>ob.
       bindPayment_open k s input openingTxHash ob now))))"

section \<open>Settlement\<close>

record settlement_input =
  si_pactId :: string
  si_actor :: string
  si_txHash :: hex
  si_settledAmountBaseUnits :: string
  si_final :: "bool option"

definition has_opening :: "pact \<Rightarrow> bool" where
  "has_opening p \<longleftrightarrow>
     (case pc_openRails p of None \<Rightarrow> False | Some r \<Rightarrow> or_openingObservation r \<noteq> None)"

definition settlement_observe :: "kernel \<Rightarrow> kstate \<Rightarrow> settlement_input \<Rightarrow> settlement_observation result" where
  "settlement_observe k before input =
     bnd (require (chainVerifier k) ''Canonical OpenRails chain verifier is required to record settlement'') (\<lambda>verifier.
     bnd (requirePact before (si_pactId input)) (\<lambda>pact.
     thn (assertPact k pact)
    (throw_if (\<not> has_opening pact) ''Pact has no canonically verified OpenRails opening''
    (bnd (cv_verifySettlement verifier pact (si_txHash input) (si_settledAmountBaseUnits input)
            (case si_final input of None \<Rightarrow> False | Some b \<Rightarrow> b)) (\<lambda>ob.
     thn (assertSettlementObservationMatchesPact pact (si_txHash input) (si_settledAmountBaseUnits input) ob)
     (Inr ob))))))"

definition add_settlement :: "settlement_observation \<Rightarrow> settlement_observation list \<Rightarrow> settlement_observation list" where
  "add_settlement ob l =
     (if list_ex (\<lambda>e. lower (so_transactionHash e) = lower (so_transactionHash ob)) l then l else l @ [ob])"

definition settlement_record ::
    "kernel \<Rightarrow> kstate \<Rightarrow> settlement_input \<Rightarrow> settlement_observation \<Rightarrow> int \<Rightarrow> (kstate \<times> pact) result" where
  "settlement_record k s input ob now =
     bnd (requirePact s (si_pactId input)) (\<lambda>pact.
     thn (assertPact k pact)
    (throw_if (\<not> has_opening pact) ''Canonical opening observation disappeared before settlement recording''
    (thn (assertSettlementObservationMatchesPact pact (si_txHash input) (si_settledAmountBaseUnits input) ob)
    (let openRails = the (pc_openRails pact);
         settlements = add_settlement ob (case or_settlements openRails of None \<Rightarrow> [] | Some l \<Rightarrow> l);
         pact' = pact\<lparr>pc_openRails := Some (openRails\<lparr>or_settlements := Some settlements\<rparr>),
           pc_status := (if so_final ob then PactSettled else pc_status pact),
           pc_revision := pc_revision pact + 1, pc_updatedAt := nowIso k now\<rparr> in
     bnd (log_pact_event k (set_pact s (si_pactId input) pact') pact'
            (if so_final ob then ''PACT_SETTLED_CANONICAL'' else ''SETTLEMENT_CONFIRMED_CANONICAL'') (si_actor input)
            [(''termsHash'', JStr (pc_termsHash pact)), (''txHash'', JStr (si_txHash input)),
             (''paycardId'', JStr (or_paycardId openRails)),
             (''settledAmountBaseUnits'', JStr (so_settledAmountBaseUnits ob)),
             (''blockNumber'', JNum (so_blockNumber ob))]
            (pc_updatedAt pact')) (\<lambda>s1. Inr (s1, pact'))))))"

definition recordPactSettlement ::
    "kernel \<Rightarrow> kstate \<Rightarrow> kstate \<Rightarrow> settlement_input \<Rightarrow> int \<Rightarrow> (kstate \<times> pact) result" where
  "recordPactSettlement k before s input now =
     thn (assertHex32 (si_txHash input) ''settlement txHash'')
    (bnd (parseBaseUnits (si_settledAmountBaseUnits input) ''settled amount'' False) (\<lambda>_.
     bnd (settlement_observe k before input) (\<lambda>ob.
     settlement_record k s input ob now)))"

end
