(* ===== verification/RuntimeProof.thy ===== *)
theory RuntimeProof
  imports RuntimePacts
begin

text \<open>
  Proof and Gaia operations of \<open>OpenRailsAgentKernel\<close> (\<open>agent-kernel/src/runtime.ts\<close>):
  submitting and verifying execution checkpoints, opening and resolving Gaia cases, the
  metadata that binds a Pact to its Paycard, and the read-only queries.
\<close>

section \<open>Checkpoints\<close>

definition checkpoint_precheck :: "kernel \<Rightarrow> checkpoint \<Rightarrow> int \<Rightarrow> unit result" where
  "checkpoint_precheck k c now =
     thn (assertHex32 (ck_evidenceHash c) ''checkpoint evidenceHash'')
    (thn (assertHex32 (ck_termsHash c) ''checkpoint termsHash'')
    (thn (if truthy (ck_paycardId c) then assertHex32 (the (ck_paycardId c)) ''checkpoint paycardId'' else Inr ())
    (bnd (parseIso k (ck_validUntil c) ''checkpoint validUntil'') (\<lambda>validUntil.
     throw_if (validUntil \<le> now) ''checkpoint signature expired'' (Inr ())))))"

definition bound_paycard :: "pact \<Rightarrow> hex option" where
  "bound_paycard p = map_option or_paycardId (pc_openRails p)"

definition checkpoint_index :: "kstate \<Rightarrow> pact \<Rightarrow> int" where
  "checkpoint_index s p = int (length (filter (\<lambda>c. ck_pactId c = pc_pactId p) (ovals (checkpoints s)))) + 1"

definition submitCheckpoint :: "kernel \<Rightarrow> kstate \<Rightarrow> checkpoint \<Rightarrow> int \<Rightarrow> (kstate \<times> checkpoint) result" where
  "submitCheckpoint k s checkpoint now =
     thn (checkpoint_precheck k checkpoint now)
    (bnd (requirePact s (ck_pactId checkpoint)) (\<lambda>pact.
     thn (assertPact k pact)
    (bnd (requireWorkspace s (pc_workspaceId pact)) (\<lambda>workspace.
     bnd (requireAgent s (pc_agentId pact)) (\<lambda>agent.
     throw_if (pc_workspaceId pact \<noteq> ck_workspaceId checkpoint \<or> pc_pathId pact \<noteq> ck_pathId checkpoint)
       ''checkpoint Pact binding mismatch''
    (throw_if (ck_termsHash checkpoint \<noteq> pc_termsHash pact) ''checkpoint Pact terms hash mismatch''
    (throw_if (lower (ck_counterparty checkpoint) \<noteq> lower (pc_counterparty pact)) ''checkpoint counterparty mismatch''
    (throw_if (truthy (bound_paycard pact) \<and> ck_paycardId checkpoint \<noteq> bound_paycard pact)
       ''checkpoint Paycard binding mismatch''
    (throw_if (pc_status pact \<notin> {PactActive, PactPerforming, PactDisputed}) ''Pact is not accepting checkpoints''
    (throw_if (oget (checkpoints s) (ck_checkpointId checkpoint) \<noteq> None) ''checkpoint already exists''
    (let expectedIndex = checkpoint_index s pact in
     throw_if (\<not> isSafeInteger (ck_checkpointIndex checkpoint) \<or> ck_checkpointIndex checkpoint \<noteq> expectedIndex)
       (''checkpoint index mismatch: expected '' @ int_str expectedIndex)
    (throw_if (lower (ck_submittedBy checkpoint)
         \<notin> set (map lower [ws_authorityAccount workspace, pc_counterparty pact, ag_operator agent]))
       ''checkpoint submitter is not a Pact participant or Agent operator''
    (throw_if (lower (ck_actor checkpoint) \<noteq> lower (ck_submittedBy checkpoint))
       ''checkpoint actor must match the signing submitter in V1''
    (bnd (checkpointTypedData k checkpoint) (\<lambda>typedData.
     throw_if (\<not> signatureVerifier k typedData (ck_signature checkpoint) (ck_submittedBy checkpoint))
       ''checkpoint signature is invalid''
    (let s1 = s\<lparr>checkpoints := oset (ck_checkpointId checkpoint) checkpoint (checkpoints s)\<rparr>;
         pact' = pact\<lparr>pc_status := (if pc_status pact = PactActive then PactPerforming else pc_status pact),
                      pc_revision := pc_revision pact + 1, pc_updatedAt := nowIso k now\<rparr> in
     bnd (log_pact_event k (set_pact s1 (ck_pactId checkpoint) pact') pact' ''CHECKPOINT_SUBMITTED''
            (ck_submittedBy checkpoint)
            [(''checkpointId'', JStr (ck_checkpointId checkpoint)),
             (''checkpointType'', JStr (checkpoint_type_str (ck_checkpointType checkpoint))),
             (''evidenceHash'', JStr (ck_evidenceHash checkpoint)),
             (''termsHash'', JStr (ck_termsHash checkpoint))]
            (ck_observedAt checkpoint)) (\<lambda>s2.
     Inr (s2, checkpoint))))))))))))))))))"

text \<open>The effect of a verification decision on the Pact.\<close>

definition verified_pact :: "pact \<Rightarrow> checkpoint \<Rightarrow> verification_decision \<Rightarrow> pact" where
  "verified_pact pact checkpoint d =
     (if vd_decision d = Rejected
      then pact\<lparr>pc_status := PactDisputed, pc_revision := pc_revision pact + 1,
                pc_updatedAt := vd_evaluatedAt d\<rparr>
      else if vd_decision d = Approved \<and> ck_checkpointType checkpoint = CkCompleted
      then pact\<lparr>pc_status := PactCompleted, pc_revision := pc_revision pact + 1,
                pc_updatedAt := vd_evaluatedAt d\<rparr>
      else pact)"

definition verifyCheckpoint ::
    "kernel \<Rightarrow> kstate \<Rightarrow> string \<Rightarrow> string \<Rightarrow> string \<Rightarrow> int \<Rightarrow> (kstate \<times> verification_decision) result" where
  "verifyCheckpoint k s checkpointId pluginId pluginVersion now =
     bnd (require (oget (checkpoints s) checkpointId) ''checkpoint not found'') (\<lambda>checkpoint.
     bnd (requirePact s (ck_pactId checkpoint)) (\<lambda>pact.
     throw_if (pluginId \<noteq> pc_evidencePolicyId pact \<or> pluginVersion \<noteq> pc_evidencePolicyVersion pact)
       ''verification plugin does not match the immutable Pact evidence policy''
    (case oget (plugins s) (plugin_key pluginId pluginVersion) of
       None \<Rightarrow> Inl (Error ''Pact verification plugin is not active'')
     | Some manifest \<Rightarrow>
     throw_if (mf_status manifest \<noteq> PlActive) ''Pact verification plugin is not active''
    (throw_if (mf_codeDigest manifest \<noteq> pc_evidencePolicyCodeDigest pact) ''Pact verification plugin digest changed''
    (throw_if (case plugin_get (pluginRegistry k) pluginId pluginVersion of
                 None \<Rightarrow> True
               | Some impl \<Rightarrow> mf_codeDigest (pg_manifest impl) \<noteq> pc_evidencePolicyCodeDigest pact)
       ''Pact verification implementation digest mismatch''
    (bnd (plugin_evaluate k s checkpoint pluginId pluginVersion now) (\<lambda>d.
     bnd (log_pact_event k
            (s\<lparr>verificationDecisions := oset (vd_decisionId d) d (verificationDecisions s)\<rparr>) pact
            (''CHECKPOINT_'' @ upper (verification_str (vd_decision d))) (''plugin:'' @ pluginId)
            [(''checkpointId'', JStr (ck_checkpointId checkpoint)), (''decisionId'', JStr (vd_decisionId d)),
             (''reasonCodes'', str_arr (vd_reasonCodes d))]
            (vd_evaluatedAt d)) (\<lambda>s1.
     Inr (set_pact s1 (ck_pactId checkpoint) (verified_pact pact checkpoint d), d)))))))))"

section \<open>Gaia cases\<close>

text \<open>
  The fields that the input type omits (\<open>version\<close>, \<open>status\<close>, \<open>createdAt\<close>,
  \<open>updatedAt\<close>, \<open>claimHash\<close>) are overwritten, so the input is a whole case here.
\<close>

definition gaia_precheck :: "kernel \<Rightarrow> gaia_case \<Rightarrow> int \<Rightarrow> unit result" where
  "gaia_precheck k input now =
     thn (assertDomainId (ga_caseId input) ''Gaia case ID'')
    (thn (assertWorkspaceId (ga_workspaceId input))
    (thn (assertDomainId (ga_pactId input) ''Pact ID'')
    (thn (assertDomainId (ga_pathId input) ''Path ID'')
    (thn (assertAddress (ga_claimant input) ''Gaia claimant'')
    (thn (assertAddress (ga_respondent input) ''Gaia respondent'')
    (thn (assertAll (\<lambda>c. assertHex32 c ''Gaia evidence commitment'') (ga_evidenceCommitments input))
    (bnd (parseIso k (ga_claimValidUntil input) ''Gaia claimValidUntil'') (\<lambda>validUntil.
     throw_if (validUntil \<le> now) ''Gaia claim signature expired'' (Inr ())))))))))"

definition openGaiaCase :: "kernel \<Rightarrow> kstate \<Rightarrow> gaia_case \<Rightarrow> int \<Rightarrow> (kstate \<times> gaia_case) result" where
  "openGaiaCase k s input now =
     thn (gaia_precheck k input now)
    (bnd (requirePact s (ga_pactId input)) (\<lambda>pact.
     thn (assertPact k pact)
    (bnd (requireWorkspace s (pc_workspaceId pact)) (\<lambda>workspace.
     throw_if (pc_workspaceId pact \<noteq> ga_workspaceId input \<or> pc_pathId pact \<noteq> ga_pathId input)
       ''Gaia Pact binding mismatch''
    (throw_if (truthy (bound_paycard pact) \<and> ga_paycardId input \<noteq> bound_paycard pact)
       ''Gaia Paycard binding mismatch''
    (let authority = lower (ws_authorityAccount workspace);
         counterparty = lower (pc_counterparty pact);
         claimant = lower (ga_claimant input) in
     throw_if (claimant \<noteq> authority \<and> claimant \<noteq> counterparty) ''Gaia claimant is not a Pact party''
    (let expectedRespondent = (if claimant = authority then counterparty else authority) in
     throw_if (lower (ga_respondent input) \<noteq> expectedRespondent)
       ''Gaia respondent is not the opposing Pact party''
    (throw_if (oget (gaiaCases s) (ga_caseId input) \<noteq> None) ''Gaia case already exists''
    (let at = nowIso k now;
         draft = input\<lparr>ga_version := ''openrails-gaia-case-v1'', ga_claimHash := zero_hash,
                       ga_status := GaiaOpen, ga_createdAt := at, ga_updatedAt := at\<rparr> in
     bnd (gaiaCaseClaimHash k draft) (\<lambda>claimHash.
     let gaia = draft\<lparr>ga_claimHash := claimHash\<rparr> in
     bnd (gaiaCaseClaimTypedData k gaia) (\<lambda>typedData.
     throw_if (\<not> signatureVerifier k typedData (ga_claimSignature gaia) (ga_claimant gaia))
       ''Gaia claim signature is invalid''
    (let s1 = s\<lparr>gaiaCases := oset (ga_caseId gaia) gaia (gaiaCases s)\<rparr>;
         pact' = pact\<lparr>pc_status := PactDisputed, pc_revision := pc_revision pact + 1, pc_updatedAt := at\<rparr> in
     bnd (log_pact_event k (set_pact s1 (ga_pactId input) pact') pact' ''GAIA_CASE_OPENED'' (ga_claimant input)
            [(''caseId'', JStr (ga_caseId gaia)), (''claimHash'', JStr claimHash),
             (''reasonCode'', JStr (ga_reasonCode gaia)), (''requestedRemedy'', JStr (ga_requestedRemedy gaia))] at)
     (\<lambda>s2. Inr (s2, gaia))))))))))))))"

record resolve_input =
  ri_caseId :: string
  ri_resolver :: address
  ri_decision :: gaia_decision
  ri_resolutionSummary :: string
  ri_rectificationTerms :: "fields option"

definition resolve_payload :: "resolve_input \<Rightarrow> json" where
  "resolve_payload input = JObj
     [(''caseId'', JStr (ri_caseId input)), (''resolver'', JStr (ri_resolver input)),
      (''decision'', JStr (gaia_decision_str (ri_decision input))),
      (''resolutionSummary'', JStr (ri_resolutionSummary input)),
      (''rectificationTerms'', JObj (case ri_rectificationTerms input of None \<Rightarrow> [] | Some t \<Rightarrow> t))]"

definition is_resolver :: "address \<Rightarrow> workspace_member \<Rightarrow> bool" where
  "is_resolver resolver m \<longleftrightarrow> lower (wm_address m) = lower resolver \<and> wm_status m = MemActive \<and>
     list_ex (\<lambda>r. r = Owner \<or> r = GaiaResolver) (wm_roles m)"

definition remedy_of :: "gaia_decision \<Rightarrow> remedy_type" where
  "remedy_of d = (if d = ReplacementPact then RemReplacementPact
                  else if d = CompensatingPact then RemCompensatingPact else RemManualAction)"

text \<open>\<open>{ action, paycardId: pact.openRails?.paycardId, ...terms }\<close>: a spread entry overwrites in place.\<close>

definition obligation_terms :: "resolve_input \<Rightarrow> pact \<Rightarrow> fields" where
  "obligation_terms input pact =
     (let terms = (case ri_rectificationTerms input of None \<Rightarrow> [] | Some t \<Rightarrow> t) in
      if ri_decision input = CloseAndReturnResidual
      then fold (\<lambda>(f, v). oset f v) terms
             [(''action'', JStr ''close_and_return_residual''),
              (''paycardId'', case bound_paycard pact of None \<Rightarrow> JUndefined | Some i \<Rightarrow> JStr i)]
      else terms)"

definition new_obligation :: "string \<Rightarrow> resolve_input \<Rightarrow> gaia_case \<Rightarrow> pact \<Rightarrow> obligation" where
  "new_obligation i input gaia pact = \<lparr>ob_version = ''openrails-rectification-obligation-v1'',
     ob_obligationId = i, ob_caseId = ga_caseId gaia, ob_pactId = ga_pactId gaia,
     ob_workspaceId = ga_workspaceId gaia, ob_obligor = ga_respondent gaia,
     ob_beneficiary = ga_claimant gaia, ob_remedyType = remedy_of (ri_decision input),
     ob_terms = obligation_terms input pact, ob_status = ObOpen,
     ob_createdAt = ga_updatedAt gaia, ob_fulfilledAt = None\<rparr>"

definition needs_rectification :: "gaia_decision \<Rightarrow> bool" where
  "needs_rectification d \<longleftrightarrow> d \<in> {ReplacementPact, CompensatingPact, CloseAndReturnResidual}"

definition resolveGaiaCase ::
    "kernel \<Rightarrow> kstate \<Rightarrow> resolve_input \<Rightarrow> workspace_command \<Rightarrow> hex \<Rightarrow> int
     \<Rightarrow> (kstate \<times> gaia_case \<times> obligation option) result" where
  "resolveGaiaCase k s input command signature now =
     bnd (require (oget (gaiaCases s) (ri_caseId input)) ''Gaia case not found'') (\<lambda>gaia.
     bnd (authorizeWorkspaceCommand k s command signature ResolveGaia (resolve_payload input) now) (\<lambda>(s1, workspace).
     throw_if (ws_workspaceId workspace \<noteq> ga_workspaceId gaia) ''Workspace command target mismatch''
    (throw_if (\<not> list_ex (is_resolver (ri_resolver input)) (ws_members workspace)) ''resolver lacks Gaia authority''
    (bnd (requirePact s1 (ga_pactId gaia)) (\<lambda>pact.
     let at = nowIso k now;
         gaia1 = gaia\<lparr>ga_decision := Some (ri_decision input),
                      ga_resolutionSummary := Some (ri_resolutionSummary input), ga_updatedAt := at\<rparr>;
         rectify = needs_rectification (ri_decision input) in
     bnd (stableId k ''rectify'' (JObj
            [(''caseId'', JStr (ga_caseId gaia)), (''decision'', JStr (gaia_decision_str (ri_decision input)))]))
       (\<lambda>obligationId.
     let gaia2 = gaia1\<lparr>ga_status := (if rectify then GaiaRectificationRequired
                 else if ri_decision input = Dismiss then GaiaDismissed else GaiaResolved)\<rparr>;
         ob = (if rectify then Some (new_obligation obligationId input gaia1 pact) else None);
         pact' = pact\<lparr>pc_status := (if rectify then PactRectificationRequired else pc_status pact),
                      pc_revision := pc_revision pact + 1, pc_updatedAt := at\<rparr>;
         s2 = s1\<lparr>gaiaCases := oset (ri_caseId input) gaia2 (gaiaCases s1),
                 rectifications := (case ob of None \<Rightarrow> rectifications s1
                                    | Some b \<Rightarrow> oset obligationId b (rectifications s1))\<rparr> in
     bnd (log_pact_event k (set_pact s2 (ga_pactId gaia) pact') pact' ''GAIA_RESOLVED'' (ri_resolver input)
            ([(''caseId'', JStr (ga_caseId gaia)), (''decision'', JStr (gaia_decision_str (ri_decision input))),
              (''commandId'', JStr (wc_commandId command))]
             @ opt_field ''obligationId'' JStr (map_option ob_obligationId ob)) at)
     (\<lambda>s3. Inr (s3, gaia2, ob))))))))"

section \<open>Metadata binding and queries\<close>

record metadata_binding =
  mb_workflowId :: string
  mb_metadataRef :: string
  mb_descriptionHash :: hex
  mb_salt :: string
  mb_pathHash :: hex
  mb_pactHash :: hex

definition openRailsMetadataBinding :: "kernel \<Rightarrow> kstate \<Rightarrow> string \<Rightarrow> int \<Rightarrow> metadata_binding result" where
  "openRailsMetadataBinding k s pactId now =
     bnd (requirePact s pactId) (\<lambda>pact.
     bnd (assertPactExecutionEligible k s pact now) (\<lambda>_.
     bnd (hashCanonical k (JObj
       [(''evidencePolicyId'', JStr (pc_evidencePolicyId pact)),
        (''evidencePolicyVersion'', JStr (pc_evidencePolicyVersion pact)),
        (''evidencePolicyCodeDigest'', JStr (pc_evidencePolicyCodeDigest pact))])) (\<lambda>evidencePolicyHash.
     Inr \<lparr>mb_workflowId = pc_pactId pact,
          mb_metadataRef = ''orpk1:'' @ int_str (pc_pathRevision pact) @ '':'' @ drop 2 (pc_pathHash pact)
            @ '':'' @ drop 2 (pc_decisionHash pact) @ '':'' @ drop 2 evidencePolicyHash,
          mb_descriptionHash = pc_termsHash pact, mb_salt = pc_termsHash pact,
          mb_pathHash = pc_pathHash pact, mb_pactHash = pc_termsHash pact\<rparr>)))"

definition listBlockedActions :: "kstate \<Rightarrow> string \<Rightarrow> blocked_action list" where
  "listBlockedActions s workspaceId = filter (\<lambda>b. bl_workspaceId b = workspaceId) (blockedActions s)"

end
