(* ===== verification/RuntimeEffects.thy ===== *)
theory RuntimeEffects
  imports RuntimeAuthority RuntimeProposals RuntimeProof
begin

text \<open>
  What a successful operation of the kernel has checked and what it has changed: one
  inversion lemma for every operation. The invariants rest on these, not on the definitions.
\<close>

section \<open>Authority operations\<close>

lemma registerWorkspace_Inr:
  assumes "registerWorkspace k s w sg now = Inr (s', r)"
  obtains h td e where
    "assertWorkspace w = Inr ()" "workspaceTypedData k w = Inr td"
    "signatureVerifier k td sg (ws_authorityAccount w)"
    "oget (workspaces s) (ws_workspaceId w) = None"
    "hashCanonical k (workspace_json w) = Inr h"
    "r = \<lparr>sg_artifact = w, sg_hash = h, sg_typedData = td, sg_signer = ws_authorityAccount w,
          sg_signature = sg, sg_signedAt = nowIso k now\<rparr>"
    "s' = s\<lparr>workspaces := oset (ws_workspaceId w) w (workspaces s),
            workspaceArtifacts := oset (ws_workspaceId w) r (workspaceArtifacts s),
            events := events s @ [e]\<rparr>"
  using assms unfolding registerWorkspace_def Let_def
  by (auto simp: result_simps)

lemma registerAgent_Inr:
  assumes "registerAgent k s a au sg now = Inr (s', r)"
  obtains w h td e where
    "assertAgent k a = Inr ()" "oget (workspaces s) (ag_workspaceId a) = Some w"
    "lower (ws_authorityAccount w) = lower au" "oget (agents s) (ag_agentId a) = None"
    "agentRegistrationTypedData k a = Inr td" "signatureVerifier k td sg au"
    "hashCanonical k (agent_json a) = Inr h" "r = a"
    "s' = s\<lparr>agents := oset (ag_agentId a) a (agents s),
            agentArtifacts := oset (ag_agentId a)
              \<lparr>sg_artifact = a, sg_hash = h, sg_typedData = td, sg_signer = au,
               sg_signature = sg, sg_signedAt = nowIso k now\<rparr> (agentArtifacts s),
            events := events s @ [e]\<rparr>"
  using assms unfolding registerAgent_def Let_def
  by (auto simp: result_simps)

lemma setAgentStatus_Inr:
  assumes "setAgentStatus k s wid aid st c sg now = Inr (s', r)"
  obtains w a s1 e where
    "authorizeWorkspaceCommand k s c sg SetAgentStatus
       (JObj [(''workspaceId'', JStr wid), (''agentId'', JStr aid), (''status'', JStr (agent_status_str st))]) now
       = Inr (s1, w)"
    "ws_workspaceId w = wid" "oget (agents s1) aid = Some a" "ag_workspaceId a = wid"
    "r = a\<lparr>ag_status := st, ag_revision := ag_revision a + 1\<rparr>"
    "s' = s1\<lparr>agents := oset aid r (agents s1), events := events s1 @ [e]\<rparr>"
  using assms unfolding setAgentStatus_def Let_def
  by (auto simp: result_simps split: prod.splits)

lemma activatePath_Inr:
  assumes "activatePath k s p sg now = Inr (s', r)"
  obtains w h td e where
    "assertPath k p = Inr ()" "pathTypedData k p = Inr td"
    "signatureVerifier k td sg (pa_authorityAccount p)"
    "oget (workspaces s) (pa_workspaceId p) = Some w"
    "lower (ws_authorityAccount w) = lower (pa_authorityAccount p)"
    "list_ex (is_owner_member (pa_owner p)) (ws_members w)"
    "list_all (\<lambda>i. agent_active_in s w i = Inr ()) (pa_authorizedAgentIds p)"
    "path_succession p (oget (paths s) (pa_pathId p)) = Inr ()"
    "hashCanonical k (path_json p) = Inr h"
    "r = \<lparr>sg_artifact = p, sg_hash = h, sg_typedData = td, sg_signer = pa_authorityAccount p,
          sg_signature = sg, sg_signedAt = nowIso k now\<rparr>"
    "s' = s\<lparr>paths := oset (pa_pathId p) r (paths s),
            agents := assign_path (pa_pathId p) (pa_authorizedAgentIds p) (agents s),
            events := events s @ [e]\<rparr>"
  using assms
  unfolding activatePath_def Let_def bnd_Inr_iff thn_Inr_iff throw_if_Inr_iff not_not
    require_lookup_Inr assertAuthority_Inr assertAll_Inr log_event_Inr sum.inject prod.inject
  by (elim exE conjE) (rule that, (assumption | simp)+)

lemma installPlugin_Inr:
  assumes "installPlugin k s m c sg now = Inr (s', r)"
  obtains wid w s1 td where
    "mf_installedWorkspaceIds m = [wid]" "verificationPluginTypedData k m = Inr td"
    "signatureVerifier k td (mf_publisherSignature m) (mf_publisher m)"
    "authorizeWorkspaceCommand k s c sg InstallPlugin
       (JObj [(''workspaceId'', JStr wid), (''pluginId'', JStr (mf_pluginId m)),
              (''pluginVersion'', JStr (mf_pluginVersion m)), (''codeDigest'', JStr (mf_codeDigest m))]) now
       = Inr (s1, w)"
    "ws_workspaceId w = wid"
    "\<not> (case oget (plugins s1) (plugin_key (mf_pluginId m) (mf_pluginVersion m)) of
          None \<Rightarrow> False | Some m' \<Rightarrow> mf_codeDigest m' \<noteq> mf_codeDigest m)"
    "r = m"
    "\<exists>e. s' = s1\<lparr>plugins := oset (plugin_key (mf_pluginId m) (mf_pluginVersion m)) m (plugins s1),
             events := events s1 @ [e]\<rparr>"
proof (cases "mf_installedWorkspaceIds m")
  case Nil
  with assms show ?thesis by (simp add: installPlugin_def bnd_Inr_iff thn_Inr_iff throw_if_Inr_iff)
next
  case (Cons wid r)
  with assms have [simp]: "mf_installedWorkspaceIds m = [wid]"
    by (cases r) (simp_all add: installPlugin_def bnd_Inr_iff thn_Inr_iff throw_if_Inr_iff)
  from assms show ?thesis
    unfolding installPlugin_def Let_def bnd_Inr_iff thn_Inr_iff throw_if_Inr_iff not_not
      log_event_Inr sum.inject prod.inject split_paired_Ex prod.case \<open>mf_installedWorkspaceIds m = [wid]\<close>
      list.case
    by (elim exE conjE) (rule that [OF \<open>mf_installedWorkspaceIds m = [wid]\<close>], (assumption | rule refl | (hypsubst, simp, (rule exI, rule refl)?))+)
qed

section \<open>Proposals\<close>

lemma submitProposal_Inr:
  assumes "submitProposal k s p now = Inr (s', q, j)"
  obtains (replay) previous where
    "oget (idempotency s) (idempotency_key p) = Some previous"
    "hashCanonical k (proposal_json p) = Inr (id_fingerprint previous)"
    "oget (proposals s) (pp_proposalId p) = Some q"
    "find (\<lambda>j. jb_proposalId j = pp_proposalId p) (ovals (jobs s)) = Some j"
    "s' = s"
  | (fresh) fp jobId e where
    "assertProposal k p = Inr ()" "hashCanonical k (proposal_json p) = Inr fp"
    "oget (idempotency s) (idempotency_key p) = None" "oget (proposals s) (pp_proposalId p) = None"
    "stableId k ''job'' (JObj [(''proposalId'', JStr (pp_proposalId p)),
                                (''kind'', JStr ''evaluate_proposal'')]) = Inr jobId"
    "q = p" "j = new_job jobId p (nowIso k now)"
    "s' = s\<lparr>proposals := oset (pp_proposalId p) p (proposals s), jobs := oset jobId j (jobs s),
            idempotency := oset (idempotency_key p)
              \<lparr>id_fingerprint = fp, id_result = [(''proposalId'', JStr (pp_proposalId p)), (''jobId'', JStr jobId)]\<rparr>
              (idempotency s),
            events := events s @ [e]\<rparr>"
  using assms unfolding submitProposal_def Let_def
  by (auto simp: result_simps split: option.splits)

section \<open>Pacts\<close>

lemma pact_event_sequence_update [simp]:
  "pact_event_sequence (s\<lparr>pacts := a\<rparr>) p = pact_event_sequence s p"
  "pact_event_sequence (s\<lparr>pactSignatures := b\<rparr>) p = pact_event_sequence s p"
  "pact_event_sequence (s\<lparr>decisions := c\<rparr>) p = pact_event_sequence s p"
  "pact_event_sequence (s\<lparr>checkpoints := d\<rparr>) p = pact_event_sequence s p"
  "pact_event_sequence (s\<lparr>verificationDecisions := v\<rparr>) p = pact_event_sequence s p"
  "pact_event_sequence (s\<lparr>gaiaCases := g\<rparr>) p = pact_event_sequence s p"
  "pact_event_sequence (s\<lparr>rectifications := r\<rparr>) p = pact_event_sequence s p"
  by (simp_all add: pact_event_sequence_def)

lemma pact_event_sequence_pact [simp]:
  "pact_event_sequence s (p\<lparr>pc_status := a\<rparr>) = pact_event_sequence s p"
  "pact_event_sequence s (p\<lparr>pc_revision := b\<rparr>) = pact_event_sequence s p"
  "pact_event_sequence s (p\<lparr>pc_openRails := c\<rparr>) = pact_event_sequence s p"
  "pact_event_sequence s (p\<lparr>pc_updatedAt := d\<rparr>) = pact_event_sequence s p"
  "pact_event_sequence s (p\<lparr>pc_termsHash := h\<rparr>) = pact_event_sequence s p"
  by (simp_all add: pact_event_sequence_def)

lemma createPactFromProposal_Inr:
  assumes "createPactFromProposal k s input now = Inr (s', p)"
  obtains proposal workspace agent decision identity signedPath ph ref manifest th draft i d where
    "oget (proposals s) (pi_proposalId input) = Some proposal"
    "truthy (pp_counterparty proposal)" "oget (pacts s) (pi_pactId input) = None"
    "oget (workspaces s) (pp_workspaceId proposal) = Some workspace" "ws_status workspace = WsActive"
    "oget (agents s) (pp_agentId proposal) = Some agent"
    "ag_workspaceId agent = ws_workspaceId workspace" "ag_status agent = AgActive"
    "evaluateProposal k s proposal now = Inr (decision, identity)"
    "de_result decision = ALLOW" "oget (paths s) (pp_pathId proposal) = Some signedPath"
    "de_pathHash decision = sg_hash signedPath"
    "hashCanonical k (proposal_json proposal) = Inr ph" "de_proposalHash decision = ph"
    "pact_plugin k (s\<lparr>decisions := oset (de_decisionId decision) decision (decisions s)\<rparr>) workspace
       (sg_artifact signedPath) proposal = Inr (ref, manifest)"
    "draft = draft_pact input proposal (the (pp_counterparty proposal)) ph decision signedPath workspace
               ref manifest (nowIso k now)"
    "pactTermsHash k draft = Inr th" "p = draft\<lparr>pc_termsHash := th\<rparr>" "assertPact k p = Inr ()"
    "s' = s\<lparr>decisions := oset (de_decisionId decision) decision (decisions s),
            pacts := oset (pi_pactId input) p (pacts s),
            pactSignatures := oset (pi_pactId input) [] (pactSignatures s),
            pactEvents := pactEvents s @ [new_pact_event i p (pact_event_sequence s p) ''PACT_CREATED''
              (pp_agentId proposal) d (nowIso k now)]\<rparr>"
proof -
  from assms show ?thesis
    unfolding createPactFromProposal_def Let_def bnd_Inr_iff thn_Inr_iff throw_if_Inr_iff not_not de_Morgan_disj
      require_lookup_Inr require_Inr_iff log_pact_event_Inr sum.inject prod.inject split_paired_Ex prod.case
    apply (elim exE conjE)
    apply (rule that)
    apply (assumption | rule refl | (hypsubst, simp add: set_pact_def, (rule exI, rule refl)?))+
    done
qed


lemma signPact_Inr:
  assumes "signPact k s i signer sg now = Inr (s', r)"
  obtains (existing) p w where
    "oget (pacts s) i = Some p" "oget (workspaces s) (pc_workspaceId p) = Some w"
    "find (\<lambda>e. lower (sg_signer e) = lower signer) (pact_signatures s (pc_pactId p)) = Some r"
    "sg_hash r = pc_termsHash p" "sg_signature r = sg" "s' = s"
  | (new) p w l td p' ty ev d where
    "oget (pacts s) i = Some p" "oget (workspaces s) (pc_workspaceId p) = Some w"
    "lower signer = lower (ws_authorityAccount w) \<or> lower signer = lower (pc_counterparty p)"
    "l = pact_signatures s (pc_pactId p)"
    "find (\<lambda>e. lower (sg_signer e) = lower signer) l = None"
    "pc_status p = PactAwaitingSignatures" "pactTypedData k p = Inr td" "signatureVerifier k td sg signer"
    "r = \<lparr>sg_artifact = p, sg_hash = pc_termsHash p, sg_typedData = td, sg_signer = signer,
          sg_signature = sg, sg_signedAt = nowIso k now\<rparr>"
    "signed_by (ws_authorityAccount w) (l @ [r]) \<and>
        (\<not> pc_requiresCounterpartySignature p \<or> signed_by (pc_counterparty p) (l @ [r])) \<and>
        p' = p\<lparr>pc_status := PactAccepted, pc_revision := pc_revision p + 1, pc_updatedAt := nowIso k now\<rparr>
      \<or> p' = p"
    "s' = s\<lparr>pactSignatures := oset (pc_pactId p) (l @ [r]) (pactSignatures s), pacts := oset i p' (pacts s),
            pactEvents := pactEvents s @ [new_pact_event ev p (pact_event_sequence s p) ty signer d (nowIso k now)]\<rparr>"
proof -
  let ?at = "nowIso k now"
  from assms obtain p w where pw: "oget (pacts s) i = Some p" "oget (workspaces s) (pc_workspaceId p) = Some w"
    and ok: "lower signer = lower (ws_authorityAccount w) \<or> lower signer = lower (pc_counterparty p)"
    by (auto simp: signPact_def result_simps)
  define l where "l = pact_signatures s (pc_pactId p)"
  show ?thesis
  proof (cases "find (\<lambda>e. lower (sg_signer e) = lower signer) l")
    case (Some e)
    with assms pw ok have "r = e" "sg_hash e = pc_termsHash p" "sg_signature e = sg" "s' = s"
      by (auto simp: signPact_def result_simps l_def)
    with pw Some show ?thesis by (intro existing [of p w]) (simp_all add: l_def)
  next
    case None
    with assms pw ok obtain td where td: "pc_status p = PactAwaitingSignatures" "pactTypedData k p = Inr td"
        "signatureVerifier k td sg signer"
      by (auto simp: signPact_def result_simps l_def)
    define r' where "r' = \<lparr>sg_artifact = p, sg_hash = pc_termsHash p, sg_typedData = td, sg_signer = signer,
          sg_signature = sg, sg_signedAt = ?at\<rparr>"
    have upd: "oset i p (pacts s) = pacts s" using pw(1) by (rule update_triv)
    show ?thesis
    proof (cases "signed_by (ws_authorityAccount w) (l @ [r']) \<and>
        (\<not> pc_requiresCounterpartySignature p \<or> signed_by (pc_counterparty p) (l @ [r']))")
      case True
      let ?p' = "p\<lparr>pc_status := PactAccepted, pc_revision := pc_revision p + 1, pc_updatedAt := ?at\<rparr>"
      from True assms pw ok None td have
        "bnd (log_pact_event k (set_pact (s\<lparr>pactSignatures := oset (pc_pactId p) (l @ [r']) (pactSignatures s)\<rparr>) i ?p')
           ?p' ''PACT_ACCEPTED'' signer
           [(''termsHash'', JStr (pc_termsHash p)), (''signers'', str_arr (map sg_signer (l @ [r'])))] ?at)
           (\<lambda>s2. Inr (s2, r')) = Inr (s', r)"
        by (simp add: signPact_def throw_if_def Let_def requirePact_def requireWorkspace_def
            l_def [symmetric] r'_def split: if_splits)
      then obtain ev where "r = r'" and s': "s' = s\<lparr>pactSignatures := oset (pc_pactId p) (l @ [r']) (pactSignatures s),
            pacts := oset i ?p' (pacts s),
            pactEvents := pactEvents s @ [new_pact_event ev ?p' (pact_event_sequence s p) ''PACT_ACCEPTED'' signer
              [(''termsHash'', JStr (pc_termsHash p)), (''signers'', str_arr (map sg_signer (l @ [r'])))] ?at]\<rparr>"
        unfolding bnd_Inr_iff log_pact_event_Inr set_pact_def by auto
      moreover have "new_pact_event ev ?p' = new_pact_event ev p"
        by (simp add: new_pact_event_def fun_eq_iff)
      ultimately show ?thesis using pw ok None td True l_def
        by (intro new [of p w l td ?p']) (simp_all add: r'_def)
    next
      case False
      with assms pw ok None td have
        "bnd (log_pact_event k (s\<lparr>pactSignatures := oset (pc_pactId p) (l @ [r']) (pactSignatures s)\<rparr>) p
           ''PACT_SIGNATURE_ADDED'' signer [(''termsHash'', JStr (pc_termsHash p))] ?at)
           (\<lambda>s2. Inr (s2, r')) = Inr (s', r)"
        by (simp add: signPact_def throw_if_def Let_def requirePact_def requireWorkspace_def
            l_def [symmetric] r'_def split: if_splits)
      then obtain ev where "r = r'" and s': "s' = s\<lparr>pactSignatures := oset (pc_pactId p) (l @ [r']) (pactSignatures s),
            pactEvents := pactEvents s @ [new_pact_event ev p (pact_event_sequence s p) ''PACT_SIGNATURE_ADDED'' signer
              [(''termsHash'', JStr (pc_termsHash p))] ?at]\<rparr>"
        unfolding bnd_Inr_iff log_pact_event_Inr by auto
      with pw ok None td upd l_def show ?thesis
        by (intro new [of p w l td p]) (simp_all add: r'_def)
    qed
  qed
qed

lemma new_pact_event_update [simp]:
  "new_pact_event i (p\<lparr>pc_status := a\<rparr>) = new_pact_event i p"
  "new_pact_event i (p\<lparr>pc_revision := b\<rparr>) = new_pact_event i p"
  "new_pact_event i (p\<lparr>pc_openRails := c\<rparr>) = new_pact_event i p"
  "new_pact_event i (p\<lparr>pc_updatedAt := d\<rparr>) = new_pact_event i p"
  by (simp_all add: new_pact_event_def fun_eq_iff)

lemma bindPayment_prepare_Inr:
  assumes "bindPayment_prepare k s input now = Inr (s', p')"
  obtains p sp ev d where
    "oget (pacts s) (bi_pactId input) = Some p"
    "assertPactExecutionEligible k s p now = Inr sp"
    "pc_status p \<in> {PactAccepted, PactPaymentPrepared, PactAwaitingWallet}"
    "p' = p\<lparr>pc_openRails := Some \<lparr>or_metadataHash = bi_metadataHash input,
             or_paycardId = bi_paycardId input, or_genesisTimestamp = the (bi_genesisTimestamp input),
             or_nonceChannel = the (bi_nonceChannel input), or_nonceValue = the (bi_nonceValue input),
             or_preparedAt = nowIso k now, or_openingTxHash = None, or_openingObservation = None,
             or_settlements = Some []\<rparr>,
           pc_status := PactPaymentPrepared, pc_revision := pc_revision p + 1,
           pc_updatedAt := nowIso k now\<rparr>"
    "s' = s\<lparr>pacts := oset (bi_pactId input) p' (pacts s),
            pactEvents := pactEvents s @ [new_pact_event ev p (pact_event_sequence s p)
              ''PAYMENT_PREPARED'' (bi_actor input) d (nowIso k now)]\<rparr>"
proof -
  from assms show ?thesis
    unfolding bindPayment_prepare_def Let_def bnd_Inr_iff thn_Inr_iff throw_if_Inr_iff not_not
      require_lookup_Inr log_pact_event_Inr sum.inject prod.inject set_pact_def
    apply (elim exE conjE)
    apply (rule that)
    apply (assumption | rule refl | (hypsubst, simp, (rule exI, rule refl)?))+
    done
qed

lemma bindPayment_observe_Inr:
  assumes "bindPayment_observe k before input tx now = Inr ob"
  shows "\<exists>v p. chainVerifier k = Some v \<and> oget (pacts before) (bi_pactId input) = Some p \<and>
     cv_verifyOpening v p (bi_metadataHash input) (bi_paycardId input) tx = Inr ob"
  using assms by (auto simp: bindPayment_observe_def result_simps)

lemma bindPayment_open_Inr:
  assumes "bindPayment_open k s input tx ob now = Inr (s', p')"
  obtains p sp r ev d where
    "oget (pacts s) (bi_pactId input) = Some p"
    "assertPactExecutionEligible k s p now = Inr sp"
    "pc_openRails p = Some r" "pc_status p \<in> {PactPaymentPrepared, PactAwaitingWallet}"
    "or_metadataHash r = bi_metadataHash input" "or_paycardId r = bi_paycardId input"
    "assertOpeningObservationMatchesPact p (bi_metadataHash input) (bi_paycardId input) tx ob = Inr ()"
    "p' = p\<lparr>pc_openRails := Some (r\<lparr>or_openingTxHash := Some tx, or_openingObservation := Some ob\<rparr>),
           pc_status := PactActive, pc_revision := pc_revision p + 1, pc_updatedAt := nowIso k now\<rparr>"
    "s' = s\<lparr>pacts := oset (bi_pactId input) p' (pacts s),
            pactEvents := pactEvents s @ [new_pact_event ev p (pact_event_sequence s p)
              ''PAYMENT_OPENED_CANONICAL'' (bi_actor input) d (nowIso k now)]\<rparr>"
proof -
  from assms show ?thesis
    unfolding bindPayment_open_def Let_def bnd_Inr_iff thn_Inr_iff throw_if_Inr_iff not_not de_Morgan_disj
      require_lookup_Inr require_Inr_iff log_pact_event_Inr sum.inject prod.inject set_pact_def
    apply (elim exE conjE)
    apply (rule that)
    apply (assumption | rule refl | (hypsubst, simp, (rule exI, rule refl)?))+
    done
qed

lemma settlement_record_Inr:
  assumes "settlement_record k s input ob now = Inr (s', p')"
  obtains p r ev d where
    "oget (pacts s) (si_pactId input) = Some p" "assertPact k p = Inr ()"
    "pc_openRails p = Some r" "or_openingObservation r \<noteq> None"
    "assertSettlementObservationMatchesPact p (si_txHash input) (si_settledAmountBaseUnits input) ob = Inr ()"
    "p' = p\<lparr>pc_openRails := Some (r\<lparr>or_settlements := Some (add_settlement ob
               (case or_settlements r of None \<Rightarrow> [] | Some l \<Rightarrow> l))\<rparr>),
           pc_status := (if so_final ob then PactSettled else pc_status p),
           pc_revision := pc_revision p + 1, pc_updatedAt := nowIso k now\<rparr>"
    "s' = s\<lparr>pacts := oset (si_pactId input) p' (pacts s),
            pactEvents := pactEvents s @ [new_pact_event ev p (pact_event_sequence s p)
              (if so_final ob then ''PACT_SETTLED_CANONICAL'' else ''SETTLEMENT_CONFIRMED_CANONICAL'')
              (si_actor input) d (nowIso k now)]\<rparr>"
proof -
  from assms obtain p where p: "oget (pacts s) (si_pactId input) = Some p" "has_opening p"
    by (auto simp: settlement_record_def result_simps)
  then obtain r where r: "pc_openRails p = Some r" "or_openingObservation r \<noteq> None"
    by (auto simp: has_opening_def split: option.splits)
  from assms p(1) have a: "assertPact k p = Inr ()"
    by (auto simp: settlement_record_def result_simps)
  from assms p(1) have b: "assertSettlementObservationMatchesPact p (si_txHash input) (si_settledAmountBaseUnits input) ob = Inr ()"
    by (auto simp: settlement_record_def result_simps)
  from assms p a b r show ?thesis
    unfolding settlement_record_def Let_def log_pact_event_Inr set_pact_def
    apply (simp only: requirePact_def require_simps bnd_simps thn_simps throw_if_simps not_True_eq_False
        bnd_Inr_iff log_pact_event_Inr sum.inject prod.inject option.sel)
    apply (elim exE conjE)
    apply (rule that)
    apply (assumption | rule refl | (hypsubst, simp, (rule exI, rule refl)?))+
    done
qed

section \<open>Checkpoints and Gaia\<close>

lemma submitCheckpoint_Inr:
  assumes "submitCheckpoint k s c now = Inr (s', r)"
  obtains p w a td p' ev d where
    "checkpoint_precheck k c now = Inr ()" "oget (pacts s) (ck_pactId c) = Some p" "assertPact k p = Inr ()"
    "oget (workspaces s) (pc_workspaceId p) = Some w" "oget (agents s) (pc_agentId p) = Some a"
    "pc_workspaceId p = ck_workspaceId c" "pc_pathId p = ck_pathId c" "ck_termsHash c = pc_termsHash p"
    "lower (ck_counterparty c) = lower (pc_counterparty p)"
    "\<not> (truthy (bound_paycard p) \<and> ck_paycardId c \<noteq> bound_paycard p)"
    "pc_status p \<in> {PactActive, PactPerforming, PactDisputed}"
    "oget (checkpoints s) (ck_checkpointId c) = None" "ck_checkpointIndex c = checkpoint_index s p"
    "lower (ck_submittedBy c) \<in> set (map lower [ws_authorityAccount w, pc_counterparty p, ag_operator a])"
    "lower (ck_actor c) = lower (ck_submittedBy c)" "checkpointTypedData k c = Inr td"
    "signatureVerifier k td (ck_signature c) (ck_submittedBy c)" "r = c"
    "p' = p\<lparr>pc_status := (if pc_status p = PactActive then PactPerforming else pc_status p),
            pc_revision := pc_revision p + 1, pc_updatedAt := nowIso k now\<rparr>"
    "s' = s\<lparr>checkpoints := oset (ck_checkpointId c) c (checkpoints s), pacts := oset (ck_pactId c) p' (pacts s),
            pactEvents := pactEvents s @ [new_pact_event ev p (pact_event_sequence s p)
              ''CHECKPOINT_SUBMITTED'' (ck_submittedBy c) d (ck_observedAt c)]\<rparr>"
proof -
  from assms show ?thesis
    unfolding submitCheckpoint_def Let_def bnd_Inr_iff thn_Inr_iff throw_if_Inr_iff not_not de_Morgan_disj
      require_lookup_Inr log_pact_event_Inr sum.inject prod.inject set_pact_def
    apply (elim exE conjE)
    apply (rule that)
    apply (assumption | rule refl | (hypsubst, simp, (rule exI, rule refl)?))+
    done
qed

lemma new_pact_event_verified [simp]: "new_pact_event i (verified_pact p c d) = new_pact_event i p"
  by (simp add: verified_pact_def)

lemma verifyCheckpoint_Inr:
  assumes "verifyCheckpoint k s ci pi pv now = Inr (s', d)"
  obtains c p m impl ev ty ac data where
    "oget (checkpoints s) ci = Some c" "oget (pacts s) (ck_pactId c) = Some p"
    "pi = pc_evidencePolicyId p" "pv = pc_evidencePolicyVersion p"
    "oget (plugins s) (plugin_key pi pv) = Some m" "mf_status m = PlActive"
    "mf_codeDigest m = pc_evidencePolicyCodeDigest p"
    "plugin_get (pluginRegistry k) pi pv = Some impl"
    "mf_codeDigest (pg_manifest impl) = pc_evidencePolicyCodeDigest p"
    "plugin_evaluate k s c pi pv now = Inr d"
    "ty = ''CHECKPOINT_'' @ upper (verification_str (vd_decision d))"
    "s' = s\<lparr>verificationDecisions := oset (vd_decisionId d) d (verificationDecisions s),
            pactEvents := pactEvents s @ [new_pact_event ev p (pact_event_sequence s p)
              ty ac data (vd_evaluatedAt d)],
            pacts := oset (ck_pactId c) (verified_pact p c d) (pacts s)\<rparr>"
proof -
  from assms obtain c p where c: "oget (checkpoints s) ci = Some c" "oget (pacts s) (ck_pactId c) = Some p"
    by (auto simp: verifyCheckpoint_def result_simps)
  with assms obtain m impl where m: "oget (plugins s) (plugin_key pi pv) = Some m"
      "plugin_get (pluginRegistry k) pi pv = Some impl"
    by (cases "oget (plugins s) (plugin_key pi pv)"; cases "plugin_get (pluginRegistry k) pi pv")
       (simp_all add: verifyCheckpoint_def throw_if_def requirePact_def split: if_splits)
  from assms c m that show ?thesis
    unfolding verifyCheckpoint_def
    apply (simp only: requirePact_def require_simps bnd_simps option.case throw_if_Inr_iff not_not
        de_Morgan_disj bnd_Inr_iff log_pact_event_Inr sum.inject prod.inject set_pact_def)
    apply (elim exE conjE)
    apply (rule that)
    apply (assumption | rule refl | (hypsubst, simp, (rule exI, rule refl)?))+
    done
qed

lemma openGaiaCase_Inr:
  assumes "openGaiaCase k s g now = Inr (s', r)"
  obtains p w h td p' ev d where
    "gaia_precheck k g now = Inr ()" "oget (pacts s) (ga_pactId g) = Some p" "assertPact k p = Inr ()"
    "oget (workspaces s) (pc_workspaceId p) = Some w" "pc_workspaceId p = ga_workspaceId g"
    "pc_pathId p = ga_pathId g"
    "\<not> (lower (ga_claimant g) \<noteq> lower (ws_authorityAccount w) \<and> lower (ga_claimant g) \<noteq> lower (pc_counterparty p))"
    "lower (ga_respondent g) = (if lower (ga_claimant g) = lower (ws_authorityAccount w)
       then lower (pc_counterparty p) else lower (ws_authorityAccount w))"
    "oget (gaiaCases s) (ga_caseId g) = None"
    "r = g\<lparr>ga_version := ''openrails-gaia-case-v1'', ga_claimHash := zero_hash, ga_status := GaiaOpen,
           ga_createdAt := nowIso k now, ga_updatedAt := nowIso k now, ga_claimHash := h\<rparr>"
    "gaiaCaseClaimTypedData k r = Inr td" "signatureVerifier k td (ga_claimSignature r) (ga_claimant r)"
    "p' = p\<lparr>pc_status := PactDisputed, pc_revision := pc_revision p + 1, pc_updatedAt := nowIso k now\<rparr>"
    "s' = s\<lparr>gaiaCases := oset (ga_caseId r) r (gaiaCases s), pacts := oset (ga_pactId g) p' (pacts s),
            pactEvents := pactEvents s @ [new_pact_event ev p (pact_event_sequence s p)
              ''GAIA_CASE_OPENED'' (ga_claimant g) d (nowIso k now)]\<rparr>"
proof -
  from assms show ?thesis
    unfolding openGaiaCase_def Let_def bnd_Inr_iff thn_Inr_iff throw_if_Inr_iff not_not de_Morgan_disj
      require_lookup_Inr log_pact_event_Inr sum.inject prod.inject set_pact_def
    apply (elim exE conjE)
    apply (rule that)
    apply (assumption | rule refl | (hypsubst, simp, (rule exI, rule refl)?))+
    done
qed

lemma resolveGaiaCase_Inr:
  assumes "resolveGaiaCase k s input c sg now = Inr (s', g', ob)"
  obtains g s1 w p p' i rs ev d where
    "oget (gaiaCases s) (ri_caseId input) = Some g"
    "authorizeWorkspaceCommand k s c sg ResolveGaia (resolve_payload input) now = Inr (s1, w)"
    "ws_workspaceId w = ga_workspaceId g" "list_ex (is_resolver (ri_resolver input)) (ws_members w)"
    "oget (pacts s1) (ga_pactId g) = Some p"
    "ga_status g' = (if needs_rectification (ri_decision input) then GaiaRectificationRequired
       else if ri_decision input = Dismiss then GaiaDismissed else GaiaResolved)"
    "ga_decision g' = Some (ri_decision input)"
    "ob = (if needs_rectification (ri_decision input)
           then Some (new_obligation i input (g\<lparr>ga_decision := Some (ri_decision input),
                 ga_resolutionSummary := Some (ri_resolutionSummary input), ga_updatedAt := nowIso k now\<rparr>) p)
           else None)"
    "p' = p\<lparr>pc_status := (if needs_rectification (ri_decision input) then PactRectificationRequired else pc_status p),
            pc_revision := pc_revision p + 1, pc_updatedAt := nowIso k now\<rparr>"
    "s' = s1\<lparr>gaiaCases := oset (ri_caseId input) g' (gaiaCases s1), rectifications := rs,
             pacts := oset (ga_pactId g) p' (pacts s1),
             pactEvents := pactEvents s1 @ [new_pact_event ev p (pact_event_sequence s1 p)
               ''GAIA_RESOLVED'' (ri_resolver input) d (nowIso k now)]\<rparr>"
proof -
  from assms show ?thesis
    unfolding resolveGaiaCase_def Let_def bnd_Inr_iff thn_Inr_iff throw_if_Inr_iff not_not
      require_lookup_Inr require_Inr_iff log_pact_event_Inr sum.inject prod.inject set_pact_def
      split_paired_Ex prod.case
    apply (elim exE conjE)
    apply (rule that)
    apply (assumption | rule refl | (hypsubst, simp, (rule exI, rule refl)?))+
    done
qed

lemma bindOpenRailsPayment_Inr:
  assumes "bindOpenRailsPayment k before s input now = Inr (s', p')"
  obtains (prepare) "bi_openingTxHash input = None \<or> bi_openingTxHash input = Some []"
      "hex_of_length 64 (bi_metadataHash input)" "hex_of_length 64 (bi_paycardId input)"
      "bindPayment_prepare k s input now = Inr (s', p')"
  | (open_payment) tx ob where "bi_openingTxHash input = Some tx" "hex_of_length 64 tx"
      "hex_of_length 64 (bi_metadataHash input)" "hex_of_length 64 (bi_paycardId input)"
      "bindPayment_observe k before input tx now = Inr ob"
      "bindPayment_open k s input tx ob now = Inr (s', p')"
  using assms
  by (cases "bi_openingTxHash input")
     (auto simp: bindOpenRailsPayment_def truthy_def Let_def result_simps assertHex32_Inr_iff split: if_splits)

lemma settlement_observe_Inr:
  assumes "settlement_observe k before input = Inr ob"
  shows "\<exists>v p. chainVerifier k = Some v \<and> oget (pacts before) (si_pactId input) = Some p \<and>
     cv_verifySettlement v p (si_txHash input) (si_settledAmountBaseUnits input)
       (case si_final input of None \<Rightarrow> False | Some b \<Rightarrow> b) = Inr ob"
  using assms by (auto simp: settlement_observe_def result_simps)

lemma recordPactSettlement_Inr:
  assumes "recordPactSettlement k before s input now = Inr (s', p')"
  obtains ob where "hex_of_length 64 (si_txHash input)"
      "\<exists>n. parseBaseUnits (si_settledAmountBaseUnits input) ''settled amount'' False = Inr n"
      "settlement_observe k before input = Inr ob" "settlement_record k s input ob now = Inr (s', p')"
  using assms by (auto simp: recordPactSettlement_def result_simps assertHex32_Inr_iff)

section \<open>Jobs\<close>

lemma oset_oset [simp]: "oset i v (oset i w ob) = oset i v ob"
  by (induction ob) auto

text \<open>What processing a job may touch.\<close>

definition job_frame :: "kstate \<Rightarrow> kstate \<Rightarrow> bool" where
  "job_frame s s' \<longleftrightarrow> (\<exists>js ds bs es. s' = s\<lparr>jobs := js, decisions := ds, blockedActions := bs, events := es\<rparr>)"

lemma job_frame_refl: "job_frame s s"
  unfolding job_frame_def
  by (intro exI [of _ "jobs s"] exI [of _ "decisions s"] exI [of _ "blockedActions s"] exI [of _ "events s"]) simp

lemma job_frame_trans: "job_frame s t \<Longrightarrow> job_frame t u \<Longrightarrow> job_frame s u"
  unfolding job_frame_def by (elim exE) (hypsubst, simp, blast)

lemma job_frame_update:
  "job_frame s (s\<lparr>jobs := a\<rparr>)" "job_frame s (s\<lparr>decisions := b\<rparr>)"
  "job_frame s (s\<lparr>blockedActions := c\<rparr>)" "job_frame s (s\<lparr>events := d\<rparr>)"
  unfolding job_frame_def
  by (intro exI [of _ a] exI [of _ "decisions s"] exI [of _ "blockedActions s"] exI [of _ "events s"], simp)
     (intro exI [of _ "jobs s"] exI [of _ b] exI [of _ "blockedActions s"] exI [of _ "events s"], simp,
      intro exI [of _ "jobs s"] exI [of _ "decisions s"] exI [of _ c] exI [of _ "events s"], simp,
      intro exI [of _ "jobs s"] exI [of _ "decisions s"] exI [of _ "blockedActions s"] exI [of _ d], simp)

definition job_finished :: "job_state \<Rightarrow> bool" where
  "job_finished st \<longleftrightarrow> st \<in> {JobCompleted, JobBlocked, JobReview, JobFailed}"

definition job_advanced :: "job \<Rightarrow> job \<Rightarrow> bool" where
  "job_advanced j j' \<longleftrightarrow> jb_jobId j' = jb_jobId j \<and> jb_proposalId j' = jb_proposalId j \<and>
     jb_attempts j' = jb_attempts j \<and> job_finished (jb_state j')"

lemma job_failed_effect:
  assumes "job_failed k s i j e now = (s', j')"
  shows "job_frame s s'" "jobs s' = oset i j' (jobs s)" "job_advanced j j'" "jb_state j' = JobFailed"
  using assms by (auto simp: job_failed_def set_job_def Let_def job_frame_update job_advanced_def job_finished_def)

lemma job_outcome_Inr:
  assumes "job_outcome k s j p d i = Inr (s', j')"
  shows "job_frame s s'" "jobs s' = jobs s" "job_advanced j j'"
    "jb_state j' = JobCompleted \<longleftrightarrow> de_result d = ALLOW"
  using assms
  by (auto simp: job_outcome_def bnd_Inr_iff job_frame_update job_frame_refl job_advanced_def job_finished_def
      split: decision_value.splits)

lemma job_body_effect:
  assumes "job_body k s i j now = (s', j')"
  shows "job_frame s s' \<and> jobs s' = oset i j' (jobs s) \<and> job_advanced j j' \<and>
    (jb_state j' = JobCompleted \<longrightarrow> (\<exists>p d ident. oget (proposals s) (jb_proposalId j) = Some p \<and>
       evaluateProposal k s p now = Inr (d, ident) \<and> de_result d = ALLOW))"
proof (cases "jb_kind j \<noteq> EvaluateProposal")
  case True
  with assms have "job_failed k s i j (Error (''unsupported job kind '' @ job_kind_str (jb_kind j))) now = (s', j')"
    by (simp add: job_body_def)
  from job_failed_effect [OF this] show ?thesis by simp
next
  case kind: False
  show ?thesis
  proof (cases "oget (proposals s) (jb_proposalId j)")
    case None
    with kind assms have "job_failed k s i j (Error ''proposal is missing'') now = (s', j')"
      by (simp add: job_body_def)
    from job_failed_effect [OF this] show ?thesis by simp
  next
    case pr: (Some p)
    show ?thesis
    proof (cases "evaluateProposal k s p now")
      case (Inl e)
      with pr kind assms have "job_failed k s i j e now = (s', j')" by (simp add: job_body_def)
      from job_failed_effect [OF this] show ?thesis by simp
    next
      case ev: (Inr r)
      obtain d ident where r: "r = (d, ident)" by (cases r)
      define s1 where "s1 = s\<lparr>decisions := oset (de_decisionId d) d (decisions s)\<rparr>"
      have s1: "job_frame s s1" "jobs s1 = jobs s" by (simp_all add: s1_def job_frame_update)
      show ?thesis
      proof (cases "job_outcome k s1 j p d ident")
        case (Inl e)
        with ev r pr kind assms have "job_failed k s1 i j e now = (s', j')"
          by (simp add: job_body_def s1_def)
        from job_failed_effect [OF this] s1 show ?thesis using job_frame_trans [OF s1(1)] by simp
      next
        case out: (Inr q)
        obtain s2 j2 where q: "q = (s2, j2)" by (cases q)
        define j3 where "j3 = j2\<lparr>jb_updatedAt := nowIso k now\<rparr>"
        define s3 where "s3 = set_job s2 i j3"
        from out q have oi: "job_outcome k s1 j p d ident = Inr (s2, j2)" by simp
        have o: "job_frame s1 s2" "jobs s2 = jobs s1" "job_advanced j j2"
            "jb_state j2 = JobCompleted \<longleftrightarrow> de_result d = ALLOW"
          by (rule job_outcome_Inr [OF oi])+
        have f3: "job_frame s s3" using s1(1) o(1) unfolding s3_def set_job_def
          by (blast intro: job_frame_trans job_frame_update)
        have js3: "jobs s3 = oset i j3 (jobs s)" by (simp add: s3_def set_job_def o(2) s1(2))
        have a3: "job_advanced j j3" using o(3) by (simp add: j3_def job_advanced_def)
        define lg where "lg = log_event k s3 (pp_workspaceId p) ''proposal'' (pp_proposalId p)
          (''BAPHOMET_'' @ decision_str (de_result d)) ''baphomet'' (de_evaluatedAt d)
          [(''decisionId'', JStr (de_decisionId d)), (''reasonCodes'', reasons_json (de_reasonCodes d))]"
        from ev r pr kind assms out q have fin:
          "(case lg of Inl e \<Rightarrow> job_failed k s3 i j3 e now | Inr s4 \<Rightarrow> (s4, j3)) = (s', j')"
          unfolding s3_def j3_def lg_def by (simp add: job_body_def s1_def Let_def)
        show ?thesis
        proof (cases lg)
          case (Inl e)
          with fin have "job_failed k s3 i j3 e now = (s', j')" by simp
          from job_failed_effect [OF this] f3 js3 a3 show ?thesis
            using job_frame_trans [OF f3] by (simp add: job_advanced_def)
        next
          case (Inr s4)
          with fin have eqs: "s' = s4" "j' = j3" by simp_all
          from Inr obtain es where s4: "s4 = s3\<lparr>events := es\<rparr>" unfolding lg_def log_event_Inr by blast
          have "job_frame s s4" unfolding s4 by (rule job_frame_trans [OF f3 job_frame_update(4)])
          with eqs js3 a3 o(4) pr ev r s4 show ?thesis by (auto simp: j3_def)
        qed
      qed
    qed
  qed
qed

lemma find_SomeD: "find P xs = Some x \<Longrightarrow> P x \<and> x \<in> set xs"
  by (metis find_Some_iff nth_mem)

lemma runNextJob_effect:
  assumes "runNextJob k before s w now = (s', r)"
  obtains (idle) "s' = s"
  | (processed) i j j1 j' where "oget (jobs s) i = Some j" "jb_state j = JobQueued" "r = Some j'"
      "j1 = lock_job k j w now" "job_frame s s'" "jobs s' = oset i j' (jobs s)" "job_advanced j1 j'"
      "jb_state j' = JobCompleted \<longrightarrow> (\<exists>p d ident. oget (proposals s) (jb_proposalId j) = Some p \<and>
         evaluateProposal k (set_job s i j1) p now = Inr (d, ident) \<and> de_result d = ALLOW)"
proof (cases "next_queued before")
  case None
  with assms idle show ?thesis by (simp add: runNextJob_def)
next
  case c: (Some c)
  show ?thesis
  proof (cases "oget (jobs s) (jb_jobId c)")
    case None
    with c assms idle show ?thesis by (simp add: runNextJob_def)
  next
    case j: (Some j)
    show ?thesis
    proof (cases "jb_state j = JobQueued")
      case False
      with c j assms idle show ?thesis by (simp add: runNextJob_def)
    next
      case q: True
      define j1 where "j1 = lock_job k j w now"
      from c j q assms obtain j' where body: "job_body k (set_job s (jb_jobId c) j1) (jb_jobId c) j1 now = (s', j')"
        and r: "r = Some j'"
        by (cases "job_body k (set_job s (jb_jobId c) j1) (jb_jobId c) j1 now")
           (simp add: runNextJob_def j1_def Let_def)
      from job_body_effect [OF body] show ?thesis
      proof (elim conjE)
        assume f: "job_frame (set_job s (jb_jobId c) j1) s'"
          and jb: "jobs s' = oset (jb_jobId c) j' (jobs (set_job s (jb_jobId c) j1))"
          and adv: "job_advanced j1 j'"
          and al: "jb_state j' = JobCompleted \<longrightarrow> (\<exists>p d ident.
             oget (proposals (set_job s (jb_jobId c) j1)) (jb_proposalId j1) = Some p \<and>
             evaluateProposal k (set_job s (jb_jobId c) j1) p now = Inr (d, ident) \<and> de_result d = ALLOW)"
        have "job_frame s s'" using f unfolding set_job_def by (blast intro: job_frame_trans job_frame_update)
        moreover from jb have "jobs s' = oset (jb_jobId c) j' (jobs s)" by (simp add: set_job_def)
        moreover from al have "jb_state j' = JobCompleted \<longrightarrow> (\<exists>p d ident. oget (proposals s) (jb_proposalId j) = Some p \<and>
         evaluateProposal k (set_job s (jb_jobId c) j1) p now = Inr (d, ident) \<and> de_result d = ALLOW)"
          by (simp add: set_job_def j1_def lock_job_def)
        ultimately show ?thesis using processed [OF j q r j1_def] adv by blast
      qed
    qed
  qed
qed

lemma runNextJob_frame: "runNextJob k before s w now = (s', r) \<Longrightarrow> job_frame s s'"
  by (erule runNextJob_effect) (simp_all add: job_frame_refl)

end
