(* ===== verification/KernelMachine.thy ===== *)
theory KernelMachine
  imports RuntimeEffects
begin

text \<open>
  The kernel as a state machine. \<open>kernel_op\<close> lists the transactional operations of
  \<open>OpenRailsAgentKernel\<close>, \<open>exec\<close> runs one of them on a state. \<open>reachable\<close> are the states
  a store that started empty can hold. An operation that reads the state before it opens
  its transaction gets that earlier read as \<open>before\<close>, and any reachable state may play
  that part: whatever the other callers did in between is covered.
\<close>

section \<open>Operations\<close>

datatype kernel_op =
    OpRegisterWorkspace workspace hex
  | OpRegisterAgent agent address hex
  | OpSetAgentStatus string string agent_status workspace_command hex
  | OpActivatePath path hex
  | OpSubmitProposal proposal
  | OpRunNextJob string
  | OpCreatePact pact_input
  | OpSignPact string address hex
  | OpBindPayment bind_input
  | OpRecordSettlement settlement_input
  | OpInstallPlugin plugin_manifest workspace_command hex
  | OpSubmitCheckpoint checkpoint
  | OpVerifyCheckpoint string string string
  | OpOpenGaia gaia_case
  | OpResolveGaia resolve_input workspace_command hex

definition state_of :: "(kstate \<times> 'a) result \<Rightarrow> kstate result" where
  "state_of r = bnd r (\<lambda>(s, _). Inr s)"

fun exec :: "kernel \<Rightarrow> kernel_op \<Rightarrow> kstate \<Rightarrow> int \<Rightarrow> kstate \<Rightarrow> kstate result" where
  "exec k (OpRegisterWorkspace w sg) before now s = state_of (registerWorkspace k s w sg now)"
| "exec k (OpRegisterAgent a au sg) before now s = state_of (registerAgent k s a au sg now)"
| "exec k (OpSetAgentStatus wi ai st c sg) before now s = state_of (setAgentStatus k s wi ai st c sg now)"
| "exec k (OpActivatePath p sg) before now s = state_of (activatePath k s p sg now)"
| "exec k (OpSubmitProposal p) before now s = state_of (submitProposal k s p now)"
| "exec k (OpRunNextJob w) before now s = Inr (fst (runNextJob k before s w now))"
| "exec k (OpCreatePact i) before now s = state_of (createPactFromProposal k s i now)"
| "exec k (OpSignPact i a sg) before now s = state_of (signPact k s i a sg now)"
| "exec k (OpBindPayment i) before now s = state_of (bindOpenRailsPayment k before s i now)"
| "exec k (OpRecordSettlement i) before now s = state_of (recordPactSettlement k before s i now)"
| "exec k (OpInstallPlugin m c sg) before now s = state_of (installPlugin k s m c sg now)"
| "exec k (OpSubmitCheckpoint c) before now s = state_of (submitCheckpoint k s c now)"
| "exec k (OpVerifyCheckpoint ci pi pv) before now s = state_of (verifyCheckpoint k s ci pi pv now)"
| "exec k (OpOpenGaia g) before now s = state_of (openGaiaCase k s g now)"
| "exec k (OpResolveGaia i c sg) before now s = state_of (resolveGaiaCase k s i c sg now)"

lemma state_of_Inr [result_simps]: "state_of r = Inr s \<longleftrightarrow> (\<exists>v. r = Inr (s, v))"
  by (cases r) (auto simp: state_of_def)

section \<open>Reachable states\<close>

inductive reachable :: "kernel \<Rightarrow> kstate \<Rightarrow> bool" for k where
  empty: "reachable k emptyKernelState"
| exec: "reachable k s \<Longrightarrow> reachable k before \<Longrightarrow> exec k op before now s = Inr s' \<Longrightarrow> reachable k s'"

inductive leads_to :: "kernel \<Rightarrow> kstate \<Rightarrow> kstate \<Rightarrow> bool" for k where
  here: "leads_to k s s"
| exec: "leads_to k s t \<Longrightarrow> reachable k before \<Longrightarrow> exec k op before now t = Inr u \<Longrightarrow> leads_to k s u"

lemma leads_to_reachable: "leads_to k s t \<Longrightarrow> reachable k s \<Longrightarrow> reachable k t"
  by (induction rule: leads_to.induct) (auto intro: reachable.exec)

lemma leads_to_invariant:
  assumes "leads_to k s t" "P s"
    and "\<And>op before now t u. P t \<Longrightarrow> exec k op before now t = Inr u \<Longrightarrow> P u"
  shows "P t"
  using assms by (induction rule: leads_to.induct) auto

section \<open>What an operation does to the Pacts\<close>

text \<open>A Pact that is rewritten keeps every field its terms hash binds, and the hash.\<close>

definition same_terms :: "pact \<Rightarrow> pact \<Rightarrow> bool" where
  "same_terms p q \<longleftrightarrow>
     (\<exists>st rv orl ua. q = p\<lparr>pc_status := st, pc_revision := rv, pc_openRails := orl, pc_updatedAt := ua\<rparr>)"

text \<open>What the chain verifier of the kernel said.\<close>

definition seen_opening :: "kernel \<Rightarrow> hex \<Rightarrow> hex \<Rightarrow> hex \<Rightarrow> opening_observation \<Rightarrow> bool" where
  "seen_opening k metadataHash paycardId tx ob \<longleftrightarrow>
     (\<exists>v p. chainVerifier k = Some v \<and> cv_verifyOpening v p metadataHash paycardId tx = Inr ob)"

definition seen_settlement :: "kernel \<Rightarrow> hex \<Rightarrow> string \<Rightarrow> settlement_observation \<Rightarrow> bool" where
  "seen_settlement k tx amount ob \<longleftrightarrow> (\<exists>v p f. chainVerifier k = Some v \<and> cv_verifySettlement v p tx amount f = Inr ob)"

inductive pact_rewrite :: "kernel \<Rightarrow> kstate \<Rightarrow> pact \<Rightarrow> pact \<Rightarrow> bool" for k s p where
  prepared: "pc_status p \<in> {PactAccepted, PactPaymentPrepared, PactAwaitingWallet} \<Longrightarrow>
     assertPactExecutionEligible k s p now = Inr sp \<Longrightarrow>
     or_openingObservation r = None \<Longrightarrow> or_settlements r = Some [] \<Longrightarrow>
     pact_rewrite k s p (p\<lparr>pc_openRails := Some r, pc_status := PactPaymentPrepared,
       pc_revision := pc_revision p + 1, pc_updatedAt := ua\<rparr>)"
| opened: "pc_status p \<in> {PactPaymentPrepared, PactAwaitingWallet} \<Longrightarrow>
     assertPactExecutionEligible k s p now = Inr sp \<Longrightarrow> pc_openRails p = Some r \<Longrightarrow>
     assertOpeningObservationMatchesPact p (or_metadataHash r) (or_paycardId r) tx ob = Inr () \<Longrightarrow>
     seen_opening k (or_metadataHash r) (or_paycardId r) tx ob \<Longrightarrow>
     pact_rewrite k s p (p\<lparr>pc_openRails := Some (r\<lparr>or_openingTxHash := Some tx, or_openingObservation := Some ob\<rparr>),
       pc_status := PactActive, pc_revision := pc_revision p + 1, pc_updatedAt := ua\<rparr>)"
| settled: "pc_openRails p = Some r \<Longrightarrow> or_openingObservation r \<noteq> None \<Longrightarrow>
     assertSettlementObservationMatchesPact p tx amount ob = Inr () \<Longrightarrow> seen_settlement k tx amount ob \<Longrightarrow>
     pact_rewrite k s p (p\<lparr>pc_openRails := Some (r\<lparr>or_settlements := Some (add_settlement ob
         (case or_settlements r of None \<Rightarrow> [] | Some l \<Rightarrow> l))\<rparr>),
       pc_status := (if so_final ob then PactSettled else pc_status p),
       pc_revision := pc_revision p + 1, pc_updatedAt := ua\<rparr>)"
| verified: "pact_rewrite k s p (verified_pact p c d)"
| disputed: "pact_rewrite k s p (p\<lparr>pc_status := PactDisputed, pc_revision := pc_revision p + 1, pc_updatedAt := ua\<rparr>)"
| resolved: "st \<in> {PactRectificationRequired, pc_status p} \<Longrightarrow>
     pact_rewrite k s p (p\<lparr>pc_status := st, pc_revision := pc_revision p + 1, pc_updatedAt := ua\<rparr>)"

inductive pact_effect :: "kernel \<Rightarrow> kstate \<Rightarrow> kstate \<Rightarrow> bool" for k s s' where
  untouched: "pacts s' = pacts s \<Longrightarrow> pactSignatures s' = pactSignatures s \<Longrightarrow>
     pactEvents s' = pactEvents s \<Longrightarrow> checkpoints s' = checkpoints s \<Longrightarrow> pact_effect k s s'"
| created: "oget (pacts s) (pc_pactId p) = None \<Longrightarrow> pc_status p = PactAwaitingSignatures \<Longrightarrow>
     pc_openRails p = None \<Longrightarrow> assertPact k p = Inr () \<Longrightarrow>
     oget (workspaces s) (pc_workspaceId p) \<noteq> None \<Longrightarrow>
     pacts s' = oset (pc_pactId p) p (pacts s) \<Longrightarrow>
     pactSignatures s' = oset (pc_pactId p) [] (pactSignatures s) \<Longrightarrow>
     pactEvents s' = pactEvents s @ [new_pact_event ev p (pact_event_sequence s p) ty ac d at] \<Longrightarrow>
     checkpoints s' = checkpoints s \<Longrightarrow> pact_effect k s s'"
| signed: "oget (pacts s) i = Some p \<Longrightarrow> oget (workspaces s) (pc_workspaceId p) = Some w \<Longrightarrow>
     lower signer = lower (ws_authorityAccount w) \<or> lower signer = lower (pc_counterparty p) \<Longrightarrow>
     l = pact_signatures s (pc_pactId p) \<Longrightarrow> \<forall>e \<in> set l. lower (sg_signer e) \<noteq> lower signer \<Longrightarrow>
     pc_status p = PactAwaitingSignatures \<Longrightarrow> pactTypedData k p = Inr td \<Longrightarrow>
     signatureVerifier k td sg signer \<Longrightarrow>
     r = \<lparr>sg_artifact = p, sg_hash = pc_termsHash p, sg_typedData = td, sg_signer = signer,
          sg_signature = sg, sg_signedAt = sat\<rparr> \<Longrightarrow>
     signed_by (ws_authorityAccount w) (l @ [r]) \<and>
        (\<not> pc_requiresCounterpartySignature p \<or> signed_by (pc_counterparty p) (l @ [r])) \<and>
        p' = p\<lparr>pc_status := PactAccepted, pc_revision := pc_revision p + 1, pc_updatedAt := ua\<rparr>
      \<or> p' = p \<Longrightarrow>
     pacts s' = oset i p' (pacts s) \<Longrightarrow>
     pactSignatures s' = oset (pc_pactId p) (l @ [r]) (pactSignatures s) \<Longrightarrow>
     pactEvents s' = pactEvents s @ [new_pact_event ev p (pact_event_sequence s p) ty ac d at] \<Longrightarrow>
     checkpoints s' = checkpoints s \<Longrightarrow> pact_effect k s s'"
| rewritten: "oget (pacts s) i = Some p \<Longrightarrow> pact_rewrite k s p p' \<Longrightarrow>
     pacts s' = oset i p' (pacts s) \<Longrightarrow> pactSignatures s' = pactSignatures s \<Longrightarrow>
     pactEvents s' = pactEvents s @ [new_pact_event ev p (pact_event_sequence s p) ty ac d at] \<Longrightarrow>
     checkpoints s' = checkpoints s \<Longrightarrow> pact_effect k s s'"
| performed: "oget (pacts s) (ck_pactId c) = Some p \<Longrightarrow>
     pc_status p \<in> {PactActive, PactPerforming, PactDisputed} \<Longrightarrow>
     oget (checkpoints s) (ck_checkpointId c) = None \<Longrightarrow> ck_checkpointIndex c = checkpoint_index s p \<Longrightarrow>
     ck_termsHash c = pc_termsHash p \<Longrightarrow>
     p' = p\<lparr>pc_status := (if pc_status p = PactActive then PactPerforming else pc_status p),
            pc_revision := pc_revision p + 1, pc_updatedAt := ua\<rparr> \<Longrightarrow>
     pacts s' = oset (ck_pactId c) p' (pacts s) \<Longrightarrow> pactSignatures s' = pactSignatures s \<Longrightarrow>
     pactEvents s' = pactEvents s @ [new_pact_event ev p (pact_event_sequence s p) ty ac d at] \<Longrightarrow>
     checkpoints s' = oset (ck_checkpointId c) c (checkpoints s) \<Longrightarrow> pact_effect k s s'"

inductive_cases pact_effectE: "pact_effect k s s'"

lemma command_frame:
  assumes "authorizeWorkspaceCommand k s c sg op payload now = Inr (s1, w)"
  shows "pacts s1 = pacts s" "pactSignatures s1 = pactSignatures s" "pactEvents s1 = pactEvents s"
    "checkpoints s1 = checkpoints s" "workspaces s1 = workspaces s" "paths s1 = paths s"
    "proposals s1 = proposals s" "jobs s1 = jobs s" "agents s1 = agents s" "plugins s1 = plugins s"
    "pact_event_sequence s1 p = pact_event_sequence s p" "workspaceArtifacts s1 = workspaceArtifacts s"
    "idempotency s1 = idempotency s" "gaiaCases s1 = gaiaCases s" "events s1 = events s"
  using authorizeWorkspaceCommand_Inr(9) [OF assms] by (simp_all add: pact_event_sequence_def)

lemma job_frame_fields:
  assumes "job_frame s s'"
  shows "pacts s' = pacts s" "pactSignatures s' = pactSignatures s" "pactEvents s' = pactEvents s"
    "checkpoints s' = checkpoints s" "workspaces s' = workspaces s" "paths s' = paths s"
    "proposals s' = proposals s" "agents s' = agents s" "plugins s' = plugins s"
    "idempotency s' = idempotency s" "workspaceCommandNonces s' = workspaceCommandNonces s"
    "st_version s' = st_version s"
  using assms by (auto simp: job_frame_def)

lemma exec_runNextJob: "exec k (OpRunNextJob w) before now s = Inr s' \<Longrightarrow> job_frame s s'"
  using runNextJob_frame [of k before s w now s' "snd (runNextJob k before s w now)"] by auto

lemmas authority_inversions = registerWorkspace_Inr registerAgent_Inr setAgentStatus_Inr
  activatePath_Inr installPlugin_Inr
lemmas pact_inversions = createPactFromProposal_Inr signPact_Inr bindOpenRailsPayment_Inr
  bindPayment_prepare_Inr bindPayment_open_Inr recordPactSettlement_Inr settlement_record_Inr
  submitCheckpoint_Inr verifyCheckpoint_Inr openGaiaCase_Inr resolveGaiaCase_Inr

lemma find_None_ball: "find P xs = None \<longleftrightarrow> (\<forall>x \<in> set xs. \<not> P x)"
  by (auto simp: find_None_iff)

section \<open>Every operation has one of these effects\<close>

lemma signPact_effect: "signPact k s i a sg now = Inr (s', r) \<Longrightarrow> pact_effect k s s'"
proof (erule signPact_Inr)
  fix p w l td p' ty ev d
  assume h: "oget (pacts s) i = Some p" "oget (workspaces s) (pc_workspaceId p) = Some w"
    "lower a = lower (ws_authorityAccount w) \<or> lower a = lower (pc_counterparty p)"
    "l = pact_signatures s (pc_pactId p)" "find (\<lambda>e. lower (sg_signer e) = lower a) l = None"
    "pc_status p = PactAwaitingSignatures" "pactTypedData k p = Inr td" "signatureVerifier k td sg a"
    "r = \<lparr>sg_artifact = p, sg_hash = pc_termsHash p, sg_typedData = td, sg_signer = a,
          sg_signature = sg, sg_signedAt = nowIso k now\<rparr>"
    "signed_by (ws_authorityAccount w) (l @ [r]) \<and>
        (\<not> pc_requiresCounterpartySignature p \<or> signed_by (pc_counterparty p) (l @ [r])) \<and>
        p' = p\<lparr>pc_status := PactAccepted, pc_revision := pc_revision p + 1, pc_updatedAt := nowIso k now\<rparr>
      \<or> p' = p"
    and s': "s' = s\<lparr>pactSignatures := oset (pc_pactId p) (l @ [r]) (pactSignatures s), pacts := oset i p' (pacts s),
            pactEvents := pactEvents s @ [new_pact_event ev p (pact_event_sequence s p) ty a d (nowIso k now)]\<rparr>"
  show "pact_effect k s s'"
    by (rule pact_effect.signed [OF h(1-4) h(5) [unfolded find_None_ball] h(6-10)]) (simp_all add: s')
qed (simp add: pact_effect.untouched)

lemma createPact_effect:
  assumes "createPactFromProposal k s input now = Inr (s', p)"
  shows "pact_effect k s s'"
proof -
  from assms obtain ac d where h: "oget (pacts s) (pc_pactId p) = None" "pc_status p = PactAwaitingSignatures"
      "pc_openRails p = None" "assertPact k p = Inr ()" "oget (workspaces s) (pc_workspaceId p) \<noteq> None"
      "pacts s' = oset (pc_pactId p) p (pacts s)" "pactSignatures s' = oset (pc_pactId p) [] (pactSignatures s)"
      and e: "\<exists>i. pactEvents s' = pactEvents s @ [new_pact_event i p (pact_event_sequence s p) ''PACT_CREATED''
              ac d (nowIso k now)]" and c: "checkpoints s' = checkpoints s"
    by (elim createPactFromProposal_Inr) (simp add: draft_pact_def, metis)
  from e obtain i where "pactEvents s' = pactEvents s @ [new_pact_event i p (pact_event_sequence s p) ''PACT_CREATED''
              ac d (nowIso k now)]" ..
  from pact_effect.created [OF h this c] show ?thesis .
qed

lemma bindOpenRailsPayment_effect:
  assumes "bindOpenRailsPayment k before s input now = Inr (s', p')"
  shows "pact_effect k s s'"
  using assms
proof (cases rule: bindOpenRailsPayment_Inr)
  case prepare
  from prepare(4) obtain p sp ev d where h: "oget (pacts s) (bi_pactId input) = Some p"
    "assertPactExecutionEligible k s p now = Inr sp"
    "pc_status p \<in> {PactAccepted, PactPaymentPrepared, PactAwaitingWallet}"
    and p': "p' = p\<lparr>pc_openRails := Some \<lparr>or_metadataHash = bi_metadataHash input,
             or_paycardId = bi_paycardId input, or_genesisTimestamp = the (bi_genesisTimestamp input),
             or_nonceChannel = the (bi_nonceChannel input), or_nonceValue = the (bi_nonceValue input),
             or_preparedAt = nowIso k now, or_openingTxHash = None, or_openingObservation = None,
             or_settlements = Some []\<rparr>,
           pc_status := PactPaymentPrepared, pc_revision := pc_revision p + 1,
           pc_updatedAt := nowIso k now\<rparr>"
    and s': "s' = s\<lparr>pacts := oset (bi_pactId input) p' (pacts s),
            pactEvents := pactEvents s @ [new_pact_event ev p (pact_event_sequence s p)
              ''PAYMENT_PREPARED'' (bi_actor input) d (nowIso k now)]\<rparr>"
    by (rule bindPayment_prepare_Inr)
  have "pact_rewrite k s p p'" unfolding p' by (rule pact_rewrite.prepared [OF h(3,2)]) simp_all
  from pact_effect.rewritten [OF h(1) this] show ?thesis by (simp add: s')
next
  case (open_payment tx ob)
  from open_payment(6) obtain p sp r ev d where h: "oget (pacts s) (bi_pactId input) = Some p"
    "assertPactExecutionEligible k s p now = Inr sp"
    "pc_openRails p = Some r" "pc_status p \<in> {PactPaymentPrepared, PactAwaitingWallet}"
    "or_metadataHash r = bi_metadataHash input" "or_paycardId r = bi_paycardId input"
    "assertOpeningObservationMatchesPact p (bi_metadataHash input) (bi_paycardId input) tx ob = Inr ()"
    and p': "p' = p\<lparr>pc_openRails := Some (r\<lparr>or_openingTxHash := Some tx, or_openingObservation := Some ob\<rparr>),
           pc_status := PactActive, pc_revision := pc_revision p + 1, pc_updatedAt := nowIso k now\<rparr>"
    and s': "s' = s\<lparr>pacts := oset (bi_pactId input) p' (pacts s),
            pactEvents := pactEvents s @ [new_pact_event ev p (pact_event_sequence s p)
              ''PAYMENT_OPENED_CANONICAL'' (bi_actor input) d (nowIso k now)]\<rparr>"
    by (rule bindPayment_open_Inr)
  from bindPayment_observe_Inr [OF open_payment(5)] have "seen_opening k (or_metadataHash r) (or_paycardId r) tx ob"
    by (auto simp: seen_opening_def h(5,6))
  then have "pact_rewrite k s p p'" unfolding p'
    by (intro pact_rewrite.opened [OF h(4,2,3)]) (use h(5-7) in simp)
  from pact_effect.rewritten [OF h(1) this] show ?thesis by (simp add: s')
qed

lemma recordPactSettlement_effect:
  assumes "recordPactSettlement k before s input now = Inr (s', p')"
  shows "pact_effect k s s'"
proof -
  from assms obtain ob where ob: "settlement_record k s input ob now = Inr (s', p')" "settlement_observe k before input = Inr ob"
    by (rule recordPactSettlement_Inr)
  from settlement_observe_Inr [OF ob(2)] have seen: "seen_settlement k (si_txHash input) (si_settledAmountBaseUnits input) ob"
    by (auto simp: seen_settlement_def)
  from ob(1) show ?thesis
  proof (rule settlement_record_Inr)
    fix p r ev d
    assume h: "oget (pacts s) (si_pactId input) = Some p" "assertPact k p = Inr ()"
      "pc_openRails p = Some r" "or_openingObservation r \<noteq> None"
      "assertSettlementObservationMatchesPact p (si_txHash input) (si_settledAmountBaseUnits input) ob = Inr ()"
      and p': "p' = p\<lparr>pc_openRails := Some (r\<lparr>or_settlements := Some (add_settlement ob
               (case or_settlements r of None \<Rightarrow> [] | Some l \<Rightarrow> l))\<rparr>),
           pc_status := (if so_final ob then PactSettled else pc_status p),
           pc_revision := pc_revision p + 1, pc_updatedAt := nowIso k now\<rparr>"
      and s': "s' = s\<lparr>pacts := oset (si_pactId input) p' (pacts s),
            pactEvents := pactEvents s @ [new_pact_event ev p (pact_event_sequence s p)
              (if so_final ob then ''PACT_SETTLED_CANONICAL'' else ''SETTLEMENT_CONFIRMED_CANONICAL'')
              (si_actor input) d (nowIso k now)]\<rparr>"
    have "pact_rewrite k s p p'" unfolding p' by (rule pact_rewrite.settled [OF h(3-5) seen])
    from pact_effect.rewritten [OF h(1) this] show ?thesis by (simp add: s')
  qed
qed

lemma submitCheckpoint_effect: "submitCheckpoint k s c now = Inr (s', r) \<Longrightarrow> pact_effect k s s'"
proof (erule submitCheckpoint_Inr)
  fix p w a td p' ev d
  assume h: "oget (pacts s) (ck_pactId c) = Some p" "pc_status p \<in> {PactActive, PactPerforming, PactDisputed}"
    "oget (checkpoints s) (ck_checkpointId c) = None" "ck_checkpointIndex c = checkpoint_index s p"
    "ck_termsHash c = pc_termsHash p"
    "p' = p\<lparr>pc_status := (if pc_status p = PactActive then PactPerforming else pc_status p),
            pc_revision := pc_revision p + 1, pc_updatedAt := nowIso k now\<rparr>"
    and s': "s' = s\<lparr>checkpoints := oset (ck_checkpointId c) c (checkpoints s), pacts := oset (ck_pactId c) p' (pacts s),
            pactEvents := pactEvents s @ [new_pact_event ev p (pact_event_sequence s p)
              ''CHECKPOINT_SUBMITTED'' (ck_submittedBy c) d (ck_observedAt c)]\<rparr>"
  show ?thesis by (rule pact_effect.performed [OF h]) (simp_all add: s')
qed

lemma verifyCheckpoint_effect: "verifyCheckpoint k s ci pi pv now = Inr (s', d) \<Longrightarrow> pact_effect k s s'"
  by (erule verifyCheckpoint_Inr, rule pact_effect.rewritten [OF _ pact_rewrite.verified], assumption) simp_all

lemma openGaiaCase_effect: "openGaiaCase k s g now = Inr (s', r) \<Longrightarrow> pact_effect k s s'"
  by (erule openGaiaCase_Inr, rule pact_effect.rewritten [OF _ pact_rewrite.disputed], assumption) simp_all

lemma resolveGaiaCase_effect:
  assumes "resolveGaiaCase k s input c sg now = Inr (s', g', ob)"
  shows "pact_effect k s s'"
  using assms
proof (rule resolveGaiaCase_Inr)
  fix g s1 w p p' i rs ev d
  assume g: "oget (gaiaCases s) (ri_caseId input) = Some g"
    and c: "authorizeWorkspaceCommand k s c sg ResolveGaia (resolve_payload input) now = Inr (s1, w)"
    and p: "oget (pacts s1) (ga_pactId g) = Some p"
    and p': "p' = p\<lparr>pc_status := (if needs_rectification (ri_decision input) then PactRectificationRequired else pc_status p),
            pc_revision := pc_revision p + 1, pc_updatedAt := nowIso k now\<rparr>"
    and s': "s' = s1\<lparr>gaiaCases := oset (ri_caseId input) g' (gaiaCases s1), rectifications := rs,
             pacts := oset (ga_pactId g) p' (pacts s1),
             pactEvents := pactEvents s1 @ [new_pact_event ev p (pact_event_sequence s1 p)
               ''GAIA_RESOLVED'' (ri_resolver input) d (nowIso k now)]\<rparr>"
  have "pact_rewrite k s p p'" unfolding p' by (rule pact_rewrite.resolved) simp
  from pact_effect.rewritten [OF _ this] p show ?thesis by (simp add: s' command_frame [OF c])
qed

lemma other_effects:
  "registerWorkspace k s w sg now = Inr (s', r1) \<Longrightarrow> pact_effect k s s'"
  "registerAgent k s a au sg now = Inr (s', r2) \<Longrightarrow> pact_effect k s s'"
  "setAgentStatus k s wi ai st c sg now = Inr (s', r3) \<Longrightarrow> pact_effect k s s'"
  "activatePath k s p sg now = Inr (s', r4) \<Longrightarrow> pact_effect k s s'"
  "submitProposal k s pr now = Inr (s', r5, r6) \<Longrightarrow> pact_effect k s s'"
  "installPlugin k s m c sg now = Inr (s', r8) \<Longrightarrow> pact_effect k s s'"
proof -
  show "registerWorkspace k s w sg now = Inr (s', r1) \<Longrightarrow> pact_effect k s s'"
    by (erule registerWorkspace_Inr) (simp add: pact_effect.untouched)
  show "registerAgent k s a au sg now = Inr (s', r2) \<Longrightarrow> pact_effect k s s'"
    by (erule registerAgent_Inr) (simp add: pact_effect.untouched)
  show "setAgentStatus k s wi ai st c sg now = Inr (s', r3) \<Longrightarrow> pact_effect k s s'"
    by (erule setAgentStatus_Inr) (simp add: pact_effect.untouched command_frame)
  show "activatePath k s p sg now = Inr (s', r4) \<Longrightarrow> pact_effect k s s'"
    by (erule activatePath_Inr) (simp add: pact_effect.untouched)
  show "submitProposal k s pr now = Inr (s', r5, r6) \<Longrightarrow> pact_effect k s s'"
    by (erule submitProposal_Inr) (simp_all add: pact_effect.untouched)
  show "installPlugin k s m c sg now = Inr (s', r8) \<Longrightarrow> pact_effect k s s'"
    by (erule installPlugin_Inr) (auto simp add: pact_effect.untouched command_frame)
qed

lemma exec_effect:
  assumes "exec k op before now s = Inr s'"
  shows "pact_effect k s s'"
proof (cases op)
  case (OpRunNextJob w)
  with assms exec_runNextJob show ?thesis
    by (blast intro: pact_effect.untouched job_frame_fields)
qed (use assms in \<open>auto simp: state_of_Inr dest: other_effects signPact_effect createPact_effect
      bindOpenRailsPayment_effect recordPactSettlement_effect submitCheckpoint_effect verifyCheckpoint_effect
      openGaiaCase_effect resolveGaiaCase_effect\<close>)

section \<open>Workspaces are registered once and never altered\<close>

lemma exec_workspaces:
  assumes "exec k op before now s = Inr s'" and w: "oget (workspaces s) i = Some w"
  shows "oget (workspaces s') i = Some w"
proof (cases op)
  case (OpRunNextJob wk)
  with assms exec_runNextJob show ?thesis by (metis job_frame_fields(5))
qed (use assms in \<open>auto simp: state_of_Inr command_frame
       elim!: authority_inversions submitProposal_Inr pact_inversions\<close>)

end
