(* ===== verification/PactInvariant.thy ===== *)
theory PactInvariant
  imports KernelMachine
begin

text \<open>
  What holds of every Pact in every reachable state: its terms hash is the digest of its
  terms, its signatures are verified signatures over those terms by distinct signers, it is
  accepted only when fully signed, it is active only on an opening observed on chain for
  exactly its terms, its settlements are distinct transactions. The proof is one induction
  over the steps of \<open>KernelMachine\<close>, by cases on their effect.
\<close>

section \<open>Terms under a rewrite\<close>

lemma pactTermsHash_update [simp]:
  "pactTermsHash env (p\<lparr>pc_status := a\<rparr>) = pactTermsHash env p"
  "pactTermsHash env (p\<lparr>pc_revision := b\<rparr>) = pactTermsHash env p"
  "pactTermsHash env (p\<lparr>pc_openRails := c\<rparr>) = pactTermsHash env p"
  "pactTermsHash env (p\<lparr>pc_updatedAt := d\<rparr>) = pactTermsHash env p"
  by (simp_all add: pactTermsHash_def)

lemma pactTypedData_update [simp]:
  "pactTypedData env (p\<lparr>pc_status := a\<rparr>) = pactTypedData env p"
  "pactTypedData env (p\<lparr>pc_revision := b\<rparr>) = pactTypedData env p"
  "pactTypedData env (p\<lparr>pc_openRails := c\<rparr>) = pactTypedData env p"
  "pactTypedData env (p\<lparr>pc_updatedAt := d\<rparr>) = pactTypedData env p"
  by (simp_all add: pactTypedData_def assertPactTermsIntegrity_def)

lemma assertPact_update [simp]:
  "assertPact env (p\<lparr>pc_status := a\<rparr>) = assertPact env p"
  "assertPact env (p\<lparr>pc_revision := b\<rparr>) = assertPact env p"
  "assertPact env (p\<lparr>pc_openRails := c\<rparr>) = assertPact env p"
  "assertPact env (p\<lparr>pc_updatedAt := d\<rparr>) = assertPact env p"
  by (simp_all add: assertPact_def assertPactTermsIntegrity_def)

lemma assertOpening_update [simp]:
  "assertOpeningObservationMatchesPact (p\<lparr>pc_status := a\<rparr>) = assertOpeningObservationMatchesPact p"
  "assertOpeningObservationMatchesPact (p\<lparr>pc_revision := b\<rparr>) = assertOpeningObservationMatchesPact p"
  "assertOpeningObservationMatchesPact (p\<lparr>pc_openRails := c\<rparr>) = assertOpeningObservationMatchesPact p"
  "assertOpeningObservationMatchesPact (p\<lparr>pc_updatedAt := d\<rparr>) = assertOpeningObservationMatchesPact p"
  by (simp_all add: assertOpeningObservationMatchesPact_def fun_eq_iff)

section \<open>The invariant\<close>

definition signature_ok :: "kernel \<Rightarrow> pact \<Rightarrow> pact signed_artifact \<Rightarrow> bool" where
  "signature_ok k p e \<longleftrightarrow>
     pactTypedData k p = Inr (sg_typedData e) \<and> sg_hash e = pc_termsHash p \<and>
     signatureVerifier k (sg_typedData e) (sg_signature e) (sg_signer e)"

definition signatures_ok :: "kernel \<Rightarrow> pact \<Rightarrow> pact signed_artifact list \<Rightarrow> bool" where
  "signatures_ok k p l \<longleftrightarrow> distinct (map (\<lambda>e. lower (sg_signer e)) l) \<and> (\<forall>e \<in> set l. signature_ok k p e)"

text \<open>All the signatures the Pact needs, by the accounts the code asks for.\<close>

definition fully_signed :: "workspace option \<Rightarrow> pact \<Rightarrow> pact signed_artifact list \<Rightarrow> bool" where
  "fully_signed w p l \<longleftrightarrow>
     (\<exists>w' \<in> set_option w. signed_by (ws_authorityAccount w') l) \<and>
     (pc_requiresCounterpartySignature p \<longrightarrow> signed_by (pc_counterparty p) l)"

definition needs_signatures :: "pact \<Rightarrow> bool" where
  "needs_signatures p \<longleftrightarrow> pc_openRails p \<noteq> None \<or>
     pc_status p \<in> {PactAccepted, PactPaymentPrepared, PactAwaitingWallet, PactActive, PactPerforming, PactSettled}"

definition settlement_matches :: "pact \<Rightarrow> open_rails \<Rightarrow> settlement_observation \<Rightarrow> bool" where
  "settlement_matches p r ob \<longleftrightarrow>
     so_chainId ob = pt_chainId (pc_paymentTerms p) \<and>
     sameAddress (so_vault ob) (pt_vault (pc_paymentTerms p)) \<and>
     so_paycardId ob = or_paycardId r \<and>
     sameAddress (so_recipient ob) (pt_recipient (pc_paymentTerms p))"

definition settlements_ok :: "pact \<Rightarrow> open_rails \<Rightarrow> bool" where
  "settlements_ok p r \<longleftrightarrow>
     (\<forall>l. or_settlements r = Some l \<longrightarrow>
        distinct (map (\<lambda>ob. lower (so_transactionHash ob)) l) \<and> (\<forall>ob \<in> set l. settlement_matches p r ob))"

text \<open>An opened payment was seen on chain with the Pact's own terms.\<close>

definition opening_ok :: "pact \<Rightarrow> open_rails \<Rightarrow> bool" where
  "opening_ok p r \<longleftrightarrow>
     (\<forall>ob. or_openingObservation r = Some ob \<longrightarrow>
        (\<exists>tx. or_openingTxHash r = Some tx \<and>
              assertOpeningObservationMatchesPact p (or_metadataHash r) (or_paycardId r) tx ob = Inr ()))"

definition before_opening :: "pact_status \<Rightarrow> bool" where
  "before_opening st \<longleftrightarrow> st \<in> {PactAwaitingSignatures, PactAccepted, PactPaymentPrepared, PactAwaitingWallet}"

definition payment_ok :: "pact \<Rightarrow> bool" where
  "payment_ok p \<longleftrightarrow>
     (\<forall>r. pc_openRails p = Some r \<longrightarrow> opening_ok p r \<and> settlements_ok p r \<and>
        pc_status p \<noteq> PactAwaitingSignatures \<and>
        (or_openingObservation r \<noteq> None \<longrightarrow> \<not> before_opening (pc_status p))) \<and>
     (pc_status p \<in> {PactActive, PactPerforming, PactSettled} \<longrightarrow> has_opening p)"

definition pact_inv :: "kernel \<Rightarrow> kstate \<Rightarrow> string \<Rightarrow> pact \<Rightarrow> bool" where
  "pact_inv k s i p \<longleftrightarrow>
     pc_pactId p = i \<and> assertPact k p = Inr () \<and>
     oget (workspaces s) (pc_workspaceId p) \<noteq> None \<and>
     signatures_ok k p (pact_signatures s i) \<and>
     (needs_signatures p \<longrightarrow> fully_signed (oget (workspaces s) (pc_workspaceId p)) p (pact_signatures s i)) \<and>
     payment_ok p"

definition pacts_inv :: "kernel \<Rightarrow> kstate \<Rightarrow> bool" where
  "pacts_inv k s \<longleftrightarrow> (\<forall>i p. oget (pacts s) i = Some p \<longrightarrow> pact_inv k s i p)"

section \<open>Its parts under a rewrite\<close>

named_theorems rewrite_simps \<open>parts of the invariant that a lifecycle update leaves alone\<close>

lemma signatures_ok_update [rewrite_simps]:
  "signatures_ok k (p\<lparr>pc_status := a\<rparr>) = signatures_ok k p"
  "signatures_ok k (p\<lparr>pc_revision := b\<rparr>) = signatures_ok k p"
  "signatures_ok k (p\<lparr>pc_openRails := c\<rparr>) = signatures_ok k p"
  "signatures_ok k (p\<lparr>pc_updatedAt := d\<rparr>) = signatures_ok k p"
  by (simp_all add: signatures_ok_def signature_ok_def fun_eq_iff)

lemma fully_signed_update [rewrite_simps]:
  "fully_signed w (p\<lparr>pc_status := a\<rparr>) = fully_signed w p"
  "fully_signed w (p\<lparr>pc_revision := b\<rparr>) = fully_signed w p"
  "fully_signed w (p\<lparr>pc_openRails := c\<rparr>) = fully_signed w p"
  "fully_signed w (p\<lparr>pc_updatedAt := d\<rparr>) = fully_signed w p"
  by (simp_all add: fully_signed_def fun_eq_iff)

lemma settlements_ok_update [rewrite_simps]:
  "settlements_ok (p\<lparr>pc_status := a\<rparr>) = settlements_ok p"
  "settlements_ok (p\<lparr>pc_revision := b\<rparr>) = settlements_ok p"
  "settlements_ok (p\<lparr>pc_openRails := c\<rparr>) = settlements_ok p"
  "settlements_ok (p\<lparr>pc_updatedAt := d\<rparr>) = settlements_ok p"
  "settlements_ok p (r\<lparr>or_openingTxHash := t\<rparr>) = settlements_ok p r"
  "settlements_ok p (r\<lparr>or_openingObservation := ob\<rparr>) = settlements_ok p r"
  by (simp_all add: settlements_ok_def settlement_matches_def fun_eq_iff)

lemma opening_ok_update [rewrite_simps]:
  "opening_ok (p\<lparr>pc_status := a\<rparr>) = opening_ok p"
  "opening_ok (p\<lparr>pc_revision := b\<rparr>) = opening_ok p"
  "opening_ok (p\<lparr>pc_openRails := c\<rparr>) = opening_ok p"
  "opening_ok (p\<lparr>pc_updatedAt := d\<rparr>) = opening_ok p"
  "opening_ok p (r\<lparr>or_settlements := l\<rparr>) = opening_ok p r"
  by (simp_all add: opening_ok_def fun_eq_iff)

lemma assertSettlement_matches:
  assumes "assertSettlementObservationMatchesPact p tx amount ob = Inr ()" "pc_openRails p = Some r"
  shows "settlement_matches p r ob"
  using assms by (simp add: assertSettlementObservationMatchesPact_def settlement_matches_def throw_if_Inr_iff Let_def)

lemma settlements_ok_add:
  assumes "settlements_ok p r" "settlement_matches p r ob"
  shows "settlements_ok p (r\<lparr>or_settlements := Some (add_settlement ob
            (case or_settlements r of None \<Rightarrow> [] | Some l \<Rightarrow> l))\<rparr>)"
proof -
  define l where "l = (case or_settlements r of None \<Rightarrow> [] | Some l \<Rightarrow> l)"
  from assms(1) have "distinct (map (\<lambda>ob. lower (so_transactionHash ob)) l)" "\<forall>ob \<in> set l. settlement_matches p r ob"
    by (cases "or_settlements r"; simp add: settlements_ok_def l_def)+
  with assms(2) show ?thesis unfolding l_def [symmetric]
    by (auto simp: settlements_ok_def add_settlement_def settlement_matches_def list_ex_iff)
qed

lemma payment_ok_past:
  assumes "payment_ok p" "st \<in> {PactCompleted, PactDisputed, PactRectificationRequired}"
  shows "payment_ok (p\<lparr>pc_status := st, pc_revision := n, pc_updatedAt := u\<rparr>)"
  using assms by (auto simp: payment_ok_def before_opening_def rewrite_simps)

lemma payment_ok_rewrite:
  assumes "pact_rewrite k s p p'" "payment_ok p"
  shows "payment_ok p'"
  using assms
proof (cases rule: pact_rewrite.cases)
  case (prepared now sp r ua)
  then show ?thesis by (simp add: payment_ok_def opening_ok_def settlements_ok_def)
next
  case (opened now sp r tx ob ua)
  with assms(2) have "settlements_ok p r" by (simp add: payment_ok_def)
  with opened show ?thesis
    by (simp add: payment_ok_def opening_ok_def has_opening_def before_opening_def rewrite_simps)
next
  case (settled r tx amount ob ua)
  with assms(2) have ok: "opening_ok p r" "settlements_ok p r" "\<not> before_opening (pc_status p)"
      "pc_status p \<noteq> PactAwaitingSignatures" by (simp_all add: payment_ok_def)
  from settlements_ok_add [OF ok(2) assertSettlement_matches [OF settled(4,2)]] ok settled
  show ?thesis by (auto simp: payment_ok_def has_opening_def before_opening_def rewrite_simps)
next
  case (verified c d)
  with assms(2) show ?thesis by (simp add: verified_pact_def payment_ok_past)
next
  case (disputed ua)
  with assms(2) show ?thesis by (simp add: payment_ok_past)
next
  case (resolved st ua)
  with assms(2) show ?thesis
    by (cases "st = PactRectificationRequired")
       (simp_all add: payment_ok_past, simp add: payment_ok_def has_opening_def rewrite_simps)
qed

section \<open>Every step keeps the invariant\<close>

definition workspaces_grow :: "kstate \<Rightarrow> kstate \<Rightarrow> bool" where
  "workspaces_grow s s' \<longleftrightarrow> (\<forall>i w. oget (workspaces s) i = Some w \<longrightarrow> oget (workspaces s') i = Some w)"

lemma pact_inv_frame:
  assumes "pact_inv k s i p" "workspaces_grow s s'" "pact_signatures s' i = pact_signatures s i"
  shows "pact_inv k s' i p"
  using assms by (auto simp: pact_inv_def workspaces_grow_def fully_signed_def)

lemma pact_inv_rewrite:
  assumes "pact_inv k s i p" "pact_rewrite k s p p'"
  shows "pact_inv k s i p'"
proof -
  have keep: "pc_pactId p' = pc_pactId p" "assertPact k p' = assertPact k p" "pc_workspaceId p' = pc_workspaceId p"
    "signatures_ok k p' = signatures_ok k p" "fully_signed w p' l = fully_signed w p l" for w l
    using assms(2) by (cases rule: pact_rewrite.cases; simp add: rewrite_simps verified_pact_def)+
  have "needs_signatures p' \<Longrightarrow> needs_signatures p"
    using assms(2) by (cases rule: pact_rewrite.cases) (auto simp: needs_signatures_def verified_pact_def split: if_splits)
  with assms(1) keep payment_ok_rewrite [OF assms(2)] show ?thesis by (simp add: pact_inv_def)
qed

lemma pact_inv_performed:
  assumes "pact_inv k s i p" "pc_status p \<in> {PactActive, PactPerforming, PactDisputed}"
  shows "pact_inv k s i (p\<lparr>pc_status := (if pc_status p = PactActive then PactPerforming else pc_status p),
            pc_revision := n, pc_updatedAt := u\<rparr>)"
  using assms
  by (auto simp: pact_inv_def payment_ok_def needs_signatures_def has_opening_def before_opening_def rewrite_simps)

lemma signatures_ok_snoc:
  assumes "signatures_ok k p l" "\<forall>e \<in> set l. lower (sg_signer e) \<noteq> lower (sg_signer r)" "signature_ok k p r"
  shows "signatures_ok k p (l @ [r])"
  using assms by (auto simp: signatures_ok_def)

lemma pact_inv_signed:
  assumes inv: "pact_inv k s i p" and w: "oget (workspaces s) (pc_workspaceId p) = Some w"
    and l: "l = pact_signatures s i" "\<forall>e \<in> set l. lower (sg_signer e) \<noteq> lower signer"
    and st: "pc_status p = PactAwaitingSignatures"
    and td: "pactTypedData k p = Inr td" "signatureVerifier k td sg signer"
    and r: "r = \<lparr>sg_artifact = p, sg_hash = pc_termsHash p, sg_typedData = td, sg_signer = signer,
          sg_signature = sg, sg_signedAt = sat\<rparr>"
    and p': "signed_by (ws_authorityAccount w) (l @ [r]) \<and>
        (\<not> pc_requiresCounterpartySignature p \<or> signed_by (pc_counterparty p) (l @ [r])) \<and>
        p' = p\<lparr>pc_status := PactAccepted, pc_revision := pc_revision p + 1, pc_updatedAt := ua\<rparr>
      \<or> p' = p"
    and s': "workspaces_grow s s'" "pact_signatures s' i = l @ [r]"
  shows "pact_inv k s' i p'"
proof -
  from inv st have nr: "pc_openRails p = None" by (auto simp: pact_inv_def payment_ok_def)
  have ok: "signatures_ok k p (l @ [r])"
    by (rule signatures_ok_snoc) (use inv l td r in \<open>simp_all add: pact_inv_def signature_ok_def\<close>)
  from s'(1) w have w': "oget (workspaces s') (pc_workspaceId p) = Some w" by (simp add: workspaces_grow_def)
  from p' show ?thesis
  proof
    assume "p' = p"
    with inv ok w' nr st s' show ?thesis by (simp add: pact_inv_def needs_signatures_def)
  next
    assume "signed_by (ws_authorityAccount w) (l @ [r]) \<and>
        (\<not> pc_requiresCounterpartySignature p \<or> signed_by (pc_counterparty p) (l @ [r])) \<and>
        p' = p\<lparr>pc_status := PactAccepted, pc_revision := pc_revision p + 1, pc_updatedAt := ua\<rparr>"
    with inv ok w' nr st s' show ?thesis
      by (auto simp: pact_inv_def fully_signed_def payment_ok_def rewrite_simps)
  qed
qed

lemma pact_signatures_oset:
  assumes "pactSignatures s' = oset i l (pactSignatures s)"
  shows "pact_signatures s' j = (if j = i then l else pact_signatures s j)"
  using assms by (simp add: pact_signatures_def)

lemma pacts_inv_update:
  assumes inv: "pacts_inv k s" and grow: "workspaces_grow s s'"
    and ps: "pacts s' = oset i p' (pacts s)" and p': "pact_inv k s' i p'"
    and sigs: "\<And>j. j \<noteq> i \<Longrightarrow> pact_signatures s' j = pact_signatures s j"
  shows "pacts_inv k s'"
proof -
  have "pact_inv k s' j q" if "oget (pacts s') j = Some q" for j q
  proof (cases "j = i")
    case True
    with that ps p' show ?thesis by simp
  next
    case False
    with that ps have "oget (pacts s) j = Some q" by simp
    with inv have "pact_inv k s j q" by (simp add: pacts_inv_def)
    from pact_inv_frame [OF this grow sigs [OF False]] show ?thesis .
  qed
  then show ?thesis by (simp add: pacts_inv_def)
qed

lemma pacts_inv_effect:
  assumes inv: "pacts_inv k s" and grow: "workspaces_grow s s'" and "pact_effect k s s'"
  shows "pacts_inv k s'"
  using assms(3)
proof (cases rule: pact_effect.cases)
  case untouched
  then have "pact_signatures s' j = pact_signatures s j" for j by (simp add: pact_signatures_def)
  with untouched inv show ?thesis
    by (auto simp: pacts_inv_def intro: pact_inv_frame [OF _ grow])
next
  case (created p ev ty ac d at)
  have "pact_inv k s' (pc_pactId p) p"
    using created grow
    by (auto simp: pact_inv_def pact_signatures_def signatures_ok_def needs_signatures_def payment_ok_def workspaces_grow_def)
  with created show ?thesis
    by (intro pacts_inv_update [OF inv grow]) (auto simp: pact_signatures_def)
next
  case (signed i p w signer l td r sg sat p' ua ev ty ac d at)
  from inv signed(1) have pi: "pact_inv k s i p" by (simp add: pacts_inv_def)
  then have i: "pc_pactId p = i" by (simp add: pact_inv_def)
  note sg = pact_signatures_oset [OF signed(12) [unfolded i]]
  have "pact_inv k s' i p'"
    by (rule pact_inv_signed [OF pi signed(2) signed(4) [unfolded i] signed(5-10) grow]) (simp add: sg)
  with signed sg show ?thesis
    by (intro pacts_inv_update [OF inv grow]) auto
next
  case (rewritten i p p' ev ty ac d at)
  from inv rewritten(1) have "pact_inv k s i p" by (simp add: pacts_inv_def)
  from pact_inv_rewrite [OF this rewritten(2)] rewritten(4) have "pact_inv k s' i p'"
    by (intro pact_inv_frame [OF _ grow]) (simp_all add: pact_signatures_def)
  with rewritten show ?thesis
    by (intro pacts_inv_update [OF inv grow]) (auto simp: pact_signatures_def)
next
  case (performed c p p' ua ev ty ac d at)
  from inv performed(1) have "pact_inv k s (ck_pactId c) p" by (simp add: pacts_inv_def)
  from pact_inv_performed [OF this performed(2)] performed(6,8) have "pact_inv k s' (ck_pactId c) p'"
    by (intro pact_inv_frame [OF _ grow]) (simp_all add: pact_signatures_def)
  with performed show ?thesis
    by (intro pacts_inv_update [OF inv grow]) (auto simp: pact_signatures_def)
qed

lemma exec_grow: "exec k op before now s = Inr s' \<Longrightarrow> workspaces_grow s s'"
  by (auto simp: workspaces_grow_def dest: exec_workspaces)

lemma pacts_inv_exec: "pacts_inv k s \<Longrightarrow> exec k op before now s = Inr s' \<Longrightarrow> pacts_inv k s'"
  by (rule pacts_inv_effect [OF _ exec_grow exec_effect])

lemma reachable_pacts_inv: "reachable k s \<Longrightarrow> pacts_inv k s"
proof (induction rule: reachable.induct)
  case empty
  show ?case by (simp add: pacts_inv_def emptyKernelState_def)
next
  case (exec s before op now s')
  then show ?case by (blast intro: pacts_inv_exec)
qed

lemma reachable_pact: "reachable k s \<Longrightarrow> oget (pacts s) i = Some p \<Longrightarrow> pact_inv k s i p"
  using reachable_pacts_inv by (auto simp: pacts_inv_def)

text \<open>Some stored signature of the account over the Pact's terms was accepted by the verifier.\<close>

definition has_verified_signature :: "kernel \<Rightarrow> kstate \<Rightarrow> pact \<Rightarrow> address \<Rightarrow> bool" where
  "has_verified_signature k s p account \<longleftrightarrow>
     (\<exists>e \<in> set (pact_signatures s (pc_pactId p)). sameAddress (sg_signer e) account \<and>
        pactTypedData k p = Inr (sg_typedData e) \<and>
        signatureVerifier k (sg_typedData e) (sg_signature e) (sg_signer e))"

lemma signed_by_verified:
  assumes "pact_inv k s i p" "signed_by account (pact_signatures s i)"
  shows "has_verified_signature k s p account"
  using assms
  by (auto simp: has_verified_signature_def pact_inv_def signed_by_def list_ex_iff signatures_ok_def
      signature_ok_def sameAddress_def)

end
