(* ===== verification/KernelHistory.thy ===== *)
theory KernelHistory
  imports PactInvariant
begin

text \<open>
  What holds along every run of the kernel: the two logs are numbered without gaps, a
  signed command is consumed once, Paths are revised only by a signed successor, a job is
  taken once, and a Pact, once written, keeps its terms.
\<close>

section \<open>Numbering\<close>

definition pact_log :: "kstate \<Rightarrow> string \<Rightarrow> pact_event list" where
  "pact_log s i = filter (\<lambda>e. pe_pactId e = i) (pactEvents s)"

definition pact_checkpoints :: "kstate \<Rightarrow> string \<Rightarrow> checkpoint list" where
  "pact_checkpoints s i = filter (\<lambda>c. ck_pactId c = i) (ovals (checkpoints s))"

definition events_numbered :: "kstate \<Rightarrow> bool" where
  "events_numbered s \<longleftrightarrow> (\<forall>i. map pe_sequence (pact_log s i) = map int [0..<length (pact_log s i)])"

definition checkpoints_numbered :: "kstate \<Rightarrow> bool" where
  "checkpoints_numbered s \<longleftrightarrow>
     (\<forall>i. map ck_checkpointIndex (pact_checkpoints s i) = map int [1..<Suc (length (pact_checkpoints s i))])"

lemma events_numbered_snoc:
  assumes "events_numbered s"
    "pactEvents s' = pactEvents s @ [new_pact_event ev p (pact_event_sequence s p) ty ac d at]"
  shows "events_numbered s'"
proof -
  have "pact_event_sequence s p = int (length (pact_log s (pc_pactId p)))"
    by (simp add: pact_event_sequence_def pact_log_def)
  with assms show ?thesis by (simp add: events_numbered_def pact_log_def)
qed

lemma events_numbered_effect: "events_numbered s \<Longrightarrow> pact_effect k s s' \<Longrightarrow> events_numbered s'"
  by (erule pact_effect.cases) (auto intro: events_numbered_snoc, simp add: events_numbered_def pact_log_def)

lemma reachable_events_numbered: "reachable k s \<Longrightarrow> events_numbered s"
  by (induction rule: reachable.induct)
     (simp add: events_numbered_def pact_log_def emptyKernelState_def, blast intro: events_numbered_effect exec_effect)

lemma checkpoints_numbered_snoc:
  assumes num: "checkpoints_numbered s" and fresh: "oget (checkpoints s) (ck_checkpointId c) = None"
    and idx: "ck_checkpointIndex c = checkpoint_index s p" "pc_pactId p = ck_pactId c"
    and s': "checkpoints s' = oset (ck_checkpointId c) c (checkpoints s)"
  shows "checkpoints_numbered s'"
proof -
  have "checkpoint_index s p = int (Suc (length (pact_checkpoints s (ck_pactId c))))"
    using idx(2) by (simp add: checkpoint_index_def pact_checkpoints_def)
  moreover have "pact_checkpoints s' i = pact_checkpoints s i @ (if ck_pactId c = i then [c] else [])" for i
    by (simp add: pact_checkpoints_def s' ovals_oset_fresh [OF fresh])
  ultimately show ?thesis using num idx(1) by (simp add: checkpoints_numbered_def)
qed

lemma checkpoints_numbered_effect:
  assumes "checkpoints_numbered s" "pacts_inv k s" "pact_effect k s s'"
  shows "checkpoints_numbered s'"
  using assms(3)
proof (cases rule: pact_effect.cases)
  case (performed c p p' ua ev ty ac d at)
  with assms(2) have "pc_pactId p = ck_pactId c" by (auto simp: pacts_inv_def pact_inv_def)
  with assms(1) performed show ?thesis by (blast intro: checkpoints_numbered_snoc)
qed (use assms(1) in \<open>simp_all add: checkpoints_numbered_def pact_checkpoints_def\<close>)

lemma reachable_checkpoints_numbered: "reachable k s \<Longrightarrow> checkpoints_numbered s"
proof (induction rule: reachable.induct)
  case empty
  show ?case by (simp add: checkpoints_numbered_def pact_checkpoints_def emptyKernelState_def)
next
  case (exec s before op now s')
  then show ?case by (blast intro: checkpoints_numbered_effect exec_effect reachable_pacts_inv)
qed

section \<open>Terms are immutable\<close>

lemma same_terms_refl: "same_terms p p"
  unfolding same_terms_def
  by (intro exI [of _ "pc_status p"] exI [of _ "pc_revision p"] exI [of _ "pc_openRails p"] exI [of _ "pc_updatedAt p"]) simp

lemma same_terms_trans: "same_terms p q \<Longrightarrow> same_terms q r \<Longrightarrow> same_terms p r"
  unfolding same_terms_def by (elim exE) (hypsubst, simp, blast)

lemma same_terms_updates:
  "same_terms p (p\<lparr>pc_status := a, pc_revision := b, pc_updatedAt := u\<rparr>)"
  "same_terms p (p\<lparr>pc_openRails := c, pc_status := a, pc_revision := b, pc_updatedAt := u\<rparr>)"
  unfolding same_terms_def
  by (intro exI [of _ a] exI [of _ b] exI [of _ "pc_openRails p"] exI [of _ u], simp)
     (intro exI [of _ a] exI [of _ b] exI [of _ c] exI [of _ u], simp)

lemma same_terms_fields:
  assumes "same_terms p q"
  shows "pc_pactId q = pc_pactId p" "pc_termsHash q = pc_termsHash p" "pc_paymentTerms q = pc_paymentTerms p"
    "pc_counterparty q = pc_counterparty p" "pactTermsHash env q = pactTermsHash env p"
    "pc_workspaceId q = pc_workspaceId p" "pactTermsProjection q = pactTermsProjection p"
  using assms by (auto simp: same_terms_def)

lemma pact_rewrite_same_terms: "pact_rewrite k s p q \<Longrightarrow> same_terms p q"
  by (erule pact_rewrite.cases) (auto simp: verified_pact_def same_terms_refl same_terms_updates)

lemma pact_effect_same_terms:
  assumes "pact_effect k s s'" "oget (pacts s) i = Some p"
  shows "\<exists>q. oget (pacts s') i = Some q \<and> same_terms p q"
  using assms(1)
proof (cases rule: pact_effect.cases)
  case (performed c p0 p' ua ev ty ac d at)
  then have "same_terms p0 p'" by (simp only: same_terms_updates)
  with performed assms(2) show ?thesis by (cases "ck_pactId c = i") (auto simp: same_terms_refl)
next
  case (rewritten j p0 p1 ev ty ac d at)
  then show ?thesis using assms(2) pact_rewrite_same_terms by (cases "j = i") (auto simp: same_terms_refl)
next
  case (signed j p0 w signer l td r sg sat p' ua ev ty ac d at)
  then have "same_terms p0 p'" by (auto simp: same_terms_refl same_terms_updates)
  with signed assms(2) show ?thesis by (cases "j = i") (auto simp: same_terms_refl)
qed (use assms(2) in \<open>auto simp: same_terms_refl same_terms_updates\<close>)

lemma leads_to_same_terms:
  assumes "leads_to k s t" "oget (pacts s) i = Some p"
  shows "\<exists>q. oget (pacts t) i = Some q \<and> same_terms p q"
  using assms
proof (induction rule: leads_to.induct)
  case (here s)
  then show ?case by (auto simp: same_terms_refl)
next
  case (exec s t before op now u)
  then obtain q where "oget (pacts t) i = Some q" "same_terms p q" by auto
  moreover from pact_effect_same_terms [OF exec_effect [OF exec.hyps(3)] this(1)] obtain r where
    "oget (pacts u) i = Some r" "same_terms q r" by auto
  ultimately show ?case by (blast intro: same_terms_trans)
qed

section \<open>Workspace commands\<close>

lemma exec_workspaces_old:
  assumes "exec k op before now s = Inr s'" "oget (workspaces s') i = Some w"
  shows "oget (workspaces s) i = Some w \<or> (\<exists>sg. op = OpRegisterWorkspace w sg \<and> ws_workspaceId w = i)"
proof (cases op)
  case (OpRegisterWorkspace x sg)
  with assms show ?thesis by (auto simp: state_of_Inr elim!: registerWorkspace_Inr split: if_splits)
next
  case (OpRunNextJob wk)
  with assms exec_runNextJob show ?thesis by (metis job_frame_fields(5))
qed (use assms in \<open>auto simp: state_of_Inr command_frame elim!: authority_inversions submitProposal_Inr pact_inversions\<close>)

lemma reachable_workspace_ids:
  "reachable k s \<Longrightarrow> oget (workspaces s) i = Some w \<Longrightarrow> ws_workspaceId w = i"
proof (induction arbitrary: i w rule: reachable.induct)
  case empty
  then show ?case by (simp add: emptyKernelState_def)
next
  case (exec s before op now s')
  from exec_workspaces_old [OF exec.hyps(3) exec.prems] exec.IH(1) show ?case by auto
qed

text \<open>The signed command an operation carries.\<close>

fun command_of :: "kernel_op \<Rightarrow> workspace_command option" where
  "command_of (OpSetAgentStatus wi ai st c sg) = Some c"
| "command_of (OpInstallPlugin m c sg) = Some c"
| "command_of (OpResolveGaia i c sg) = Some c"
| "command_of _ = None"

lemma nonce_authorized:
  assumes "authorizeWorkspaceCommand k s c sg op payload now = Inr (s1, w)"
  shows "wc_nonce c = command_nonce s (ws_workspaceId w)"
    "command_nonce s1 i = (if i = ws_workspaceId w then wc_nonce c + 1 else command_nonce s i)"
    "oget (workspaces s) (wc_workspaceId c) = Some w"
  using authorizeWorkspaceCommand_Inr(6,9,1) [OF assms] by (simp_all add: command_nonce_def)

lemma command_nonce_same: "workspaceCommandNonces s' = workspaceCommandNonces s \<Longrightarrow> command_nonce s' i = command_nonce s i"
  by (simp add: command_nonce_def)

lemma exec_command:
  assumes "exec k op before now s = Inr s'" "command_of op = Some c"
  shows "\<exists>w. oget (workspaces s) (wc_workspaceId c) = Some w \<and> wc_nonce c = command_nonce s (ws_workspaceId w) \<and>
     (\<forall>i. command_nonce s' i = (if i = ws_workspaceId w then wc_nonce c + 1 else command_nonce s i))"
proof -
  have "\<exists>sg o' payload s1 w. authorizeWorkspaceCommand k s c sg o' payload now = Inr (s1, w) \<and>
      workspaceCommandNonces s' = workspaceCommandNonces s1"
  proof (cases op)
    case (OpSetAgentStatus wi ai st c' sg)
    with assms obtain r where "setAgentStatus k s wi ai st c sg now = Inr (s', r)" by (auto simp: state_of_Inr)
    then show ?thesis by (rule setAgentStatus_Inr) (intro exI conjI, assumption, auto)
  next
    case (OpInstallPlugin m c' sg)
    with assms obtain r where "installPlugin k s m c sg now = Inr (s', r)" by (auto simp: state_of_Inr)
    then show ?thesis by (rule installPlugin_Inr) (intro exI conjI, assumption, auto)
  next
    case (OpResolveGaia i c' sg)
    with assms obtain g ob where "resolveGaiaCase k s i c sg now = Inr (s', g, ob)" by (auto simp: state_of_Inr)
    then show ?thesis by (rule resolveGaiaCase_Inr) (intro exI conjI, assumption, auto)
  qed (use assms in auto)
  then obtain sg o' payload s1 w where a: "authorizeWorkspaceCommand k s c sg o' payload now = Inr (s1, w)"
    "workspaceCommandNonces s' = workspaceCommandNonces s1" by blast
  from nonce_authorized [OF a(1)] command_nonce_same [OF a(2)] show ?thesis by auto
qed

lemma exec_no_command:
  assumes "exec k op before now s = Inr s'" "command_of op = None"
  shows "workspaceCommandNonces s' = workspaceCommandNonces s"
proof (cases op)
  case (OpRunNextJob wk)
  with assms exec_runNextJob show ?thesis by (metis job_frame_fields(11))
qed (use assms in \<open>auto simp: state_of_Inr elim!: authority_inversions submitProposal_Inr pact_inversions\<close>)

lemma exec_nonce_mono: "exec k op before now s = Inr s' \<Longrightarrow> command_nonce s i \<le> command_nonce s' i"
proof (cases "command_of op")
  case None
  moreover assume "exec k op before now s = Inr s'"
  ultimately show ?thesis by (simp add: command_nonce_same [OF exec_no_command])
next
  case (Some c)
  moreover assume "exec k op before now s = Inr s'"
  ultimately show ?thesis using exec_command [of k op before now s s' c] by auto
qed

lemma leads_to_nonce_mono: "leads_to k s t \<Longrightarrow> command_nonce s i \<le> command_nonce t i"
  by (induction rule: leads_to.induct) (auto dest: exec_nonce_mono [where i = i])

lemma leads_to_workspaces: "leads_to k s t \<Longrightarrow> oget (workspaces s) i = Some w \<Longrightarrow> oget (workspaces t) i = Some w"
  by (induction rule: leads_to.induct) (auto dest: exec_workspaces)

lemma command_spent:
  assumes r: "reachable k s" and e: "exec k op before now s = Inr s'" "command_of op = Some c"
    and l: "leads_to k s' t" and c': "command_of op' = Some c"
  shows "exec k op' before' now' t \<noteq> Inr u"
proof
  assume u: "exec k op' before' now' t = Inr u"
  from exec_command [OF e] obtain w where w: "oget (workspaces s) (wc_workspaceId c) = Some w"
      "command_nonce s' (ws_workspaceId w) = wc_nonce c + 1" by auto
  from leads_to_workspaces [OF l exec_workspaces [OF e(1) w(1)]]
  have "oget (workspaces t) (wc_workspaceId c) = Some w" .
  with exec_command [OF u c'] have "wc_nonce c = command_nonce t (ws_workspaceId w)" by auto
  with leads_to_nonce_mono [OF l, of "ws_workspaceId w"] w(2) show False by simp
qed

section \<open>Paths\<close>

definition path_inv :: "kernel \<Rightarrow> kstate \<Rightarrow> string \<Rightarrow> path signed_artifact \<Rightarrow> bool" where
  "path_inv k s i e \<longleftrightarrow>
     (let p = sg_artifact e in
      pa_pathId p = i \<and> assertPath k p = Inr () \<and> hashCanonical k (path_json p) = Inr (sg_hash e) \<and>
      pathTypedData k p = Inr (sg_typedData e) \<and> sg_signer e = pa_authorityAccount p \<and>
      signatureVerifier k (sg_typedData e) (sg_signature e) (sg_signer e) \<and>
      (\<exists>w \<in> set_option (oget (workspaces s) (pa_workspaceId p)).
         sameAddress (ws_authorityAccount w) (pa_authorityAccount p) \<and>
         list_ex (is_owner_member (pa_owner p)) (ws_members w)))"

lemma path_inv_frame:
  "path_inv k s i e \<Longrightarrow> workspaces_grow s s' \<Longrightarrow> path_inv k s' i e"
  by (fastforce simp: path_inv_def workspaces_grow_def Let_def)

lemma exec_paths:
  assumes "exec k op before now s = Inr s'" "oget (paths s') i = Some e"
  shows "oget (paths s) i = Some e \<or>
    path_inv k s i e \<and> path_succession (sg_artifact e) (oget (paths s) i) = Inr ()"
proof (cases op)
  case (OpActivatePath p sg)
  with assms(1) obtain r where "activatePath k s p sg now = Inr (s', r)" by (auto simp: state_of_Inr)
  then show ?thesis
    by (rule activatePath_Inr) (use assms(2) in \<open>auto simp: path_inv_def sameAddress_def split: if_splits\<close>)
next
  case (OpRunNextJob wk)
  with assms exec_runNextJob show ?thesis by (metis job_frame_fields(6))
qed (use assms in \<open>auto simp: state_of_Inr command_frame elim!: authority_inversions submitProposal_Inr pact_inversions\<close>)

lemma reachable_path:
  "reachable k s \<Longrightarrow> oget (paths s) i = Some e \<Longrightarrow> path_inv k s i e"
proof (induction arbitrary: e rule: reachable.induct)
  case empty
  then show ?case by (simp add: emptyKernelState_def)
next
  case (exec s before op now s')
  from exec_paths [OF exec.hyps(3) exec.prems] exec.IH(1) have "path_inv k s i e" by auto
  from path_inv_frame [OF this exec_grow [OF exec.hyps(3)]] show ?case .
qed

lemma exec_paths_kept:
  assumes "exec k op before now s = Inr s'" "oget (paths s) i = Some e"
  shows "\<exists>e'. oget (paths s') i = Some e' \<and> (e' = e \<or> path_succession (sg_artifact e') (Some e) = Inr ())"
proof (cases op)
  case (OpActivatePath p sg)
  with assms(1) obtain r where "activatePath k s p sg now = Inr (s', r)" by (auto simp: state_of_Inr)
  then show ?thesis
    by (rule activatePath_Inr) (use assms(2) in \<open>cases "pa_pathId p = i"; simp\<close>)
next
  case (OpRunNextJob wk)
  with assms exec_runNextJob show ?thesis by (metis job_frame_fields(6))
qed (use assms in \<open>auto simp: state_of_Inr command_frame elim!: authority_inversions submitProposal_Inr pact_inversions\<close>)

text \<open>How a later revision of a Path relates to an earlier one.\<close>

definition path_descends :: "path signed_artifact \<Rightarrow> path signed_artifact \<Rightarrow> bool" where
  "path_descends e e' \<longleftrightarrow>
     (e' = e \<or> pa_revision (sg_artifact e) < pa_revision (sg_artifact e')) \<and>
     pa_workspaceId (sg_artifact e') = pa_workspaceId (sg_artifact e) \<and>
     sameAddress (pa_owner (sg_artifact e')) (pa_owner (sg_artifact e)) \<and>
     sameAddress (pa_authorityAccount (sg_artifact e')) (pa_authorityAccount (sg_artifact e))"

lemma path_succession_Some:
  "path_succession p (Some e) = Inr () \<longleftrightarrow>
     pa_revision p = pa_revision (sg_artifact e) + 1 \<and> pa_previousPathHash p = Some (sg_hash e) \<and>
     pa_workspaceId p = pa_workspaceId (sg_artifact e) \<and> sameAddress (pa_owner p) (pa_owner (sg_artifact e)) \<and>
     sameAddress (pa_authorityAccount p) (pa_authorityAccount (sg_artifact e))"
  by (auto simp: path_succession_def result_simps)

lemma leads_to_paths:
  assumes "leads_to k s t" "oget (paths s) i = Some e"
  shows "\<exists>e'. oget (paths t) i = Some e' \<and> path_descends e e'"
  using assms
proof (induction rule: leads_to.induct)
  case (here s)
  then show ?case by (simp add: path_descends_def)
next
  case (exec s t before op now u)
  then obtain e' where e': "oget (paths t) i = Some e'" "path_descends e e'" by auto
  from exec_paths_kept [OF exec.hyps(3) e'(1)] obtain e2 where
    "oget (paths u) i = Some e2" "e2 = e' \<or> path_succession (sg_artifact e2) (Some e') = Inr ()" by auto
  with e'(2) show ?case by (auto simp: path_descends_def path_succession_Some sameAddress_def)
qed

end
