(* ===== verification/KernelJobs.thy ===== *)
theory KernelJobs
  imports KernelHistory
begin

text \<open>
  Jobs and idempotency along every run: a proposal's job is taken at most once and never
  left running, and submitting the same proposal again returns the first submission.
\<close>

section \<open>Jobs\<close>

definition job_ok :: "kstate \<Rightarrow> string \<Rightarrow> job \<Rightarrow> bool" where
  "job_ok s i j \<longleftrightarrow>
     jb_jobId j = i \<and> oget (proposals s) (jb_proposalId j) \<noteq> None \<and>
     (if jb_state j = JobQueued then jb_attempts j = 0 else jb_attempts j = 1 \<and> job_finished (jb_state j))"

definition jobs_inv :: "kstate \<Rightarrow> bool" where
  "jobs_inv s \<longleftrightarrow> (\<forall>i j. oget (jobs s) i = Some j \<longrightarrow> job_ok s i j) \<and> distinct (okeys (jobs s))"

lemma exec_proposals:
  assumes "exec k op before now s = Inr s'" "oget (proposals s) i = Some p"
  shows "oget (proposals s') i = Some p"
proof (cases op)
  case (OpRunNextJob wk)
  with assms exec_runNextJob show ?thesis by (metis job_frame_fields(7))
qed (use assms in \<open>auto simp: state_of_Inr command_frame
       elim!: authority_inversions submitProposal_Inr pact_inversions\<close>)

lemma exec_jobs_same:
  assumes "exec k op before now s = Inr s'" "\<And>w. op \<noteq> OpRunNextJob w" "\<And>p. op \<noteq> OpSubmitProposal p"
  shows "jobs s' = jobs s"
proof (cases op)
  case (OpRunNextJob wk)
  with assms(2) show ?thesis by blast
next
  case (OpSubmitProposal p)
  with assms(3) show ?thesis by blast
qed (use assms(1) in \<open>auto simp: state_of_Inr command_frame elim!: authority_inversions pact_inversions\<close>)

lemma job_ok_grow: "job_ok s i j \<Longrightarrow> exec k op before now s = Inr s' \<Longrightarrow> job_ok s' i j"
  using exec_proposals by (fastforce simp: job_ok_def)

lemma jobs_inv_update:
  assumes "jobs_inv s" "exec k op before now s = Inr s'" "jobs s' = oset i j (jobs s)" "job_ok s' i j"
  shows "jobs_inv s'"
  using assms job_ok_grow [OF _ assms(2)] by (auto simp: jobs_inv_def distinct_okeys_oset)

lemma jobs_inv_exec:
  assumes inv: "jobs_inv s" and e: "exec k op before now s = Inr s'"
  shows "jobs_inv s'"
proof (cases "(\<exists>w. op = OpRunNextJob w) \<or> (\<exists>p. op = OpSubmitProposal p)")
  case False
  with exec_jobs_same [OF e] have "jobs s' = jobs s" by auto
  with inv show ?thesis using job_ok_grow [OF _ e] by (simp add: jobs_inv_def)
next
  case True
  then show ?thesis
  proof (elim disjE exE)
    fix p assume op: "op = OpSubmitProposal p"
    with e obtain q j where "submitProposal k s p now = Inr (s', q, j)" by (auto simp: state_of_Inr)
    then show ?thesis
    proof (cases rule: submitProposal_Inr)
      case (replay previous)
      with inv show ?thesis by simp
    next
      case (fresh fp jobId ev)
      show ?thesis
        by (rule jobs_inv_update [OF inv e, of jobId j]) (simp_all add: fresh job_ok_def new_job_def fresh(8))
    qed
  next
    fix w assume op: "op = OpRunNextJob w"
    with e have "runNextJob k before s w now = (s', snd (runNextJob k before s w now))" by auto
    then show ?thesis
    proof (cases rule: runNextJob_effect)
      case idle
      with inv show ?thesis by simp
    next
      case (processed i j j1 j')
      from inv processed(1) have j: "job_ok s i j" by (simp add: jobs_inv_def)
      have "proposals s' = proposals s" by (rule job_frame_fields(7) [OF processed(5)])
      with j processed have "job_ok s' i j'"
        by (auto simp: job_ok_def job_advanced_def lock_job_def job_finished_def)
      from jobs_inv_update [OF inv e processed(6) this] show ?thesis .
    qed
  qed
qed

lemma reachable_jobs: "reachable k s \<Longrightarrow> jobs_inv s"
proof (induction rule: reachable.induct)
  case empty
  show ?case by (simp add: jobs_inv_def emptyKernelState_def)
next
  case (exec s before op now s')
  then show ?case by (blast intro: jobs_inv_exec)
qed

section \<open>Submitting again\<close>

lemma find_first:
  "\<forall>x \<in> set xs. \<not> P x \<Longrightarrow> P y \<Longrightarrow> find P (xs @ y # ys) = Some y"
  by (induction xs) auto

lemma find_new_job:
  assumes "\<forall>x \<in> set (ovals js). \<not> P x" "P j"
  shows "find P (ovals (oset i j js)) = Some j"
proof (cases "oget js i")
  case None
  then have "ovals (oset i j js) = ovals js @ j # []" by (simp add: ovals_oset_fresh)
  with find_first [OF assms, of "[]"] show ?thesis by simp
next
  case (Some u)
  then obtain xs ys where "ovals js = xs @ u # ys" "ovals (oset i j js) = xs @ j # ys"
    by (rule ovals_oset_split) blast
  with find_first [of xs P j ys] assms show ?thesis by simp
qed

lemma no_job_without_proposal:
  assumes "jobs_inv s" "oget (proposals s) i = None"
  shows "\<forall>j \<in> set (ovals (jobs s)). jb_proposalId j \<noteq> i"
proof
  fix j assume "j \<in> set (ovals (jobs s))"
  with assms(1) obtain n where "oget (jobs s) n = Some j"
    by (auto simp: jobs_inv_def set_ovals ran_def)
  with assms(1) have "job_ok s n j" by (simp add: jobs_inv_def)
  with assms(2) show "jb_proposalId j \<noteq> i" by (auto simp: job_ok_def)
qed

lemma submitProposal_again:
  assumes r: "reachable k s" and e: "submitProposal k s p now = Inr (s', q, j)"
  shows "submitProposal k s' p later = Inr (s', q, j)"
proof -
  from e have a: "assertProposal k p = Inr ()" by (auto simp: submitProposal_def result_simps)
  from e show ?thesis
  proof (cases rule: submitProposal_Inr)
    case (replay previous)
    with a show ?thesis by (simp add: submitProposal_def)
  next
    case (fresh fp jobId ev)
    have "find (\<lambda>j. jb_proposalId j = pp_proposalId p) (ovals (oset jobId j (jobs s))) = Some j"
      by (rule find_new_job)
         (use no_job_without_proposal [OF reachable_jobs [OF r] fresh(4)] fresh(7) in \<open>simp_all add: new_job_def\<close>)
    with fresh show ?thesis by (simp add: submitProposal_def)
  qed
qed

lemma submitProposal_conflict:
  assumes "assertProposal k p = Inr ()" "hashCanonical k (proposal_json p) = Inr fp"
    "oget (idempotency s) (idempotency_key p) = Some previous" "id_fingerprint previous \<noteq> fp"
  shows "submitProposal k s p now = Inl (Error ''idempotency conflict'')"
  using assms by (simp add: submitProposal_def)

end
