(* ===== verification/PactLifecycle.thy ===== *)
theory PactLifecycle
  imports KernelHistory
begin

text \<open>
  The Pact as an abstract state machine. \<open>status_step\<close> is the lifecycle graph that the
  handlers implement; every operation moves every Pact along it (a refinement of the kernel
  to the graph). A payment that was observed open is never replaced, and its settlements
  only grow.
\<close>

section \<open>The graph\<close>

text \<open>The statuses a Pact of the kernel can have, and those from which each can be entered.\<close>

definition live_statuses :: "pact_status list" where
  "live_statuses = [PactAwaitingSignatures, PactAccepted, PactPaymentPrepared, PactAwaitingWallet, PactActive,
     PactPerforming, PactCompleted, PactSettled, PactDisputed, PactRectificationRequired]"

definition opened_statuses :: "pact_status list" where
  "opened_statuses = [PactActive, PactPerforming, PactCompleted, PactSettled, PactDisputed, PactRectificationRequired]"

fun predecessors :: "pact_status \<Rightarrow> pact_status list" where
  "predecessors PactAccepted = [PactAwaitingSignatures]"
| "predecessors PactPaymentPrepared = [PactAccepted, PactAwaitingWallet]"
| "predecessors PactActive = [PactPaymentPrepared, PactAwaitingWallet]"
| "predecessors PactPerforming = [PactActive]"
| "predecessors PactSettled = opened_statuses"
| "predecessors PactCompleted = live_statuses"
| "predecessors PactDisputed = live_statuses"
| "predecessors PactRectificationRequired = live_statuses"
| "predecessors _ = []"

definition live :: "pact_status \<Rightarrow> bool" where
  "live st \<longleftrightarrow> st \<in> set live_statuses"

definition moves :: "pact_status \<Rightarrow> pact_status \<Rightarrow> bool" where
  "moves a b \<longleftrightarrow> a = b \<or> a \<in> set (predecessors b)"

lemma moves_refl [simp]: "moves a a"
  by (simp add: moves_def)

lemma moves_dispute: "live a \<Longrightarrow> b \<in> {PactCompleted, PactDisputed, PactRectificationRequired} \<Longrightarrow> moves a b"
  by (auto simp: moves_def live_def)

lemma moves_settle: "live a \<Longrightarrow> \<not> before_opening a \<Longrightarrow> moves a PactSettled"
  by (auto simp: moves_def live_def live_statuses_def opened_statuses_def before_opening_def)

lemma pact_rewrite_moves:
  assumes "pact_rewrite k s p p'" "live (pc_status p)" "payment_ok p"
  shows "moves (pc_status p) (pc_status p')"
  using assms(1)
proof (cases rule: pact_rewrite.cases)
  case (prepared now sp r ua)
  then show ?thesis by (auto simp: moves_def)
next
  case (opened now sp r tx ob ua)
  then show ?thesis by (auto simp: moves_def)
next
  case (settled r tx amount ob ua)
  with assms(3) have "\<not> before_opening (pc_status p)" by (simp add: payment_ok_def)
  with settled assms(2) moves_settle show ?thesis by simp
next
  case (verified c d)
  with assms(2) moves_dispute show ?thesis by (simp add: verified_pact_def)
next
  case (disputed ua)
  with assms(2) moves_dispute show ?thesis by simp
next
  case (resolved st ua)
  with assms(2) moves_dispute [of "pc_status p" PactRectificationRequired] show ?thesis by auto
qed

lemma pact_rewrite_live:
  assumes "pact_rewrite k s p p'" "live (pc_status p)"
  shows "live (pc_status p')"
  using assms by (cases rule: pact_rewrite.cases) (auto simp: live_def live_statuses_def verified_pact_def)

lemma pact_effect_moves:
  assumes "pact_effect k s s'" "oget (pacts s) i = Some p" "pact_inv k s i p" "live (pc_status p)"
  shows "\<exists>q. oget (pacts s') i = Some q \<and> moves (pc_status p) (pc_status q) \<and> live (pc_status q)"
  using assms(1)
proof (cases rule: pact_effect.cases)
  case (created p0 ev ty ac d at)
  with assms show ?thesis by (auto simp: moves_def)
next
  case (signed j p0 w signer l td r sg sat p' ua ev ty ac d at)
  then have "moves (pc_status p0) (pc_status p') \<and> (live (pc_status p0) \<longrightarrow> live (pc_status p'))"
    by (auto simp: moves_def live_def live_statuses_def)
  with signed assms show ?thesis by (cases "i = j") (auto simp: moves_def)
next
  case (rewritten j p0 p' ev ty ac d at)
  show ?thesis
  proof (cases "i = j")
    case True
    with rewritten assms have "p0 = p" by simp
    with rewritten True assms pact_rewrite_moves pact_rewrite_live show ?thesis
      by (auto simp: pact_inv_def)
  next
    case False
    with rewritten assms show ?thesis by (auto simp: moves_def)
  qed
next
  case (performed c p0 p' ua ev ty ac d at)
  then have "moves (pc_status p0) (pc_status p') \<and> live (pc_status p')"
    by (auto simp: moves_def live_def live_statuses_def)
  with performed assms show ?thesis by (cases "i = ck_pactId c") (auto simp: moves_def)
qed (use assms in \<open>auto simp: moves_def\<close>)

definition pacts_live :: "kstate \<Rightarrow> bool" where
  "pacts_live s \<longleftrightarrow> (\<forall>i p. oget (pacts s) i = Some p \<longrightarrow> live (pc_status p))"

lemma pacts_live_effect:
  assumes "pact_effect k s s'" "pacts_live s"
  shows "pacts_live s'"
  using assms(1)
proof (cases rule: pact_effect.cases)
  case (rewritten j p0 p' ev ty ac d at)
  with assms(2) pact_rewrite_live show ?thesis by (auto simp: pacts_live_def)
next
  case (signed j p0 w signer l td r sg sat p' ua ev ty ac d at)
  then have "live (pc_status p')" by (auto simp: live_def live_statuses_def)
  with signed assms(2) show ?thesis by (auto simp: pacts_live_def)
next
  case (performed c p0 p' ua ev ty ac d at)
  then have "live (pc_status p')" by (auto simp: live_def live_statuses_def)
  with performed assms(2) show ?thesis by (auto simp: pacts_live_def)
qed (use assms(2) in \<open>auto simp: pacts_live_def live_def live_statuses_def\<close>)

lemma reachable_live: "reachable k s \<Longrightarrow> pacts_live s"
proof (induction rule: reachable.induct)
  case empty
  show ?case by (simp add: pacts_live_def emptyKernelState_def)
next
  case (exec s before op now s')
  then show ?case by (blast intro: pacts_live_effect exec_effect)
qed

lemma exec_moves:
  assumes "reachable k s" "exec k op before now s = Inr s'" "oget (pacts s) i = Some p"
  shows "\<exists>q. oget (pacts s') i = Some q \<and> moves (pc_status p) (pc_status q)"
  using pact_effect_moves [OF exec_effect [OF assms(2)] assms(3) reachable_pact [OF assms(1,3)]]
    reachable_live [OF assms(1)] assms(3) by (auto simp: pacts_live_def)

section \<open>An opened payment\<close>

text \<open>\<open>q\<close> carries the payment \<open>p\<close> was opened with; settlements may have been appended.\<close>

definition keeps_payment :: "pact \<Rightarrow> pact \<Rightarrow> bool" where
  "keeps_payment p q \<longleftrightarrow>
     (\<exists>r r' more. pc_openRails p = Some r \<and> pc_openRails q = Some r' \<and>
        or_metadataHash r' = or_metadataHash r \<and> or_paycardId r' = or_paycardId r \<and>
        or_openingTxHash r' = or_openingTxHash r \<and> or_openingObservation r' = or_openingObservation r \<and>
        (case or_settlements r' of None \<Rightarrow> [] | Some l \<Rightarrow> l) =
        (case or_settlements r of None \<Rightarrow> [] | Some l \<Rightarrow> l) @ more)"

lemma keeps_payment_refl: "pc_openRails p = Some r \<Longrightarrow> pc_openRails q = Some r \<Longrightarrow> keeps_payment p q"
  by (simp add: keeps_payment_def)

lemma keeps_payment_trans: "keeps_payment p q \<Longrightarrow> keeps_payment q r \<Longrightarrow> keeps_payment p r"
  by (auto simp: keeps_payment_def)

lemma add_settlement_grows: "\<exists>more. add_settlement ob l = l @ more"
  by (simp add: add_settlement_def)

lemma pact_rewrite_keeps_payment:
  assumes "pact_rewrite k s p p'" "payment_ok p" "has_opening p"
  shows "keeps_payment p p'"
proof -
  from assms(3) obtain r where r: "pc_openRails p = Some r" "or_openingObservation r \<noteq> None"
    by (auto simp: has_opening_def split: option.splits)
  with assms(2) have nb: "\<not> before_opening (pc_status p)" by (simp add: payment_ok_def)
  from assms(1) show ?thesis
  proof (cases rule: pact_rewrite.cases)
    case (prepared now sp r' ua)
    with nb show ?thesis by (auto simp: before_opening_def)
  next
    case (opened now sp r' tx ob ua)
    with nb show ?thesis by (auto simp: before_opening_def)
  next
    case (settled r' tx amount ob ua)
    with r add_settlement_grows show ?thesis by (simp add: keeps_payment_def)
  next
    case (verified c d)
    with r show ?thesis by (auto simp: verified_pact_def intro: keeps_payment_refl)
  next
    case (disputed ua)
    with r show ?thesis by (auto intro: keeps_payment_refl)
  next
    case (resolved st ua)
    with r show ?thesis by (auto intro: keeps_payment_refl)
  qed
qed

lemma pact_effect_keeps_payment:
  assumes "pact_effect k s s'" "oget (pacts s) i = Some p" "pact_inv k s i p" "has_opening p"
  shows "\<exists>q. oget (pacts s') i = Some q \<and> keeps_payment p q"
proof -
  from assms(4) obtain r where r: "pc_openRails p = Some r" "or_openingObservation r \<noteq> None"
    by (auto simp: has_opening_def split: option.splits)
  with assms(3) have nb: "\<not> before_opening (pc_status p)" by (simp add: pact_inv_def payment_ok_def)
  from r(1) have refl: "keeps_payment p p" by (rule keeps_payment_refl) (rule r(1))
  from assms(1) show ?thesis
  proof (cases rule: pact_effect.cases)
    case (signed j p0 w signer l td rr sg sat p' ua ev ty ac d at)
    with nb assms(2) have "i \<noteq> j" by (auto simp: before_opening_def)
    with signed assms(2) refl show ?thesis by auto
  next
    case (rewritten j p0 p' ev ty ac d at)
    then show ?thesis
    proof (cases "i = j")
      case True
      with rewritten assms have "pact_rewrite k s p p'" by simp
      with assms(3,4) pact_rewrite_keeps_payment have "keeps_payment p p'" by (auto simp: pact_inv_def)
      with rewritten True show ?thesis by auto
    qed (use assms refl in auto)
  next
    case (performed c p0 p' ua ev ty ac d at)
    then show ?thesis using assms(2) r refl
      by (cases "i = ck_pactId c") (auto intro: keeps_payment_refl)
  qed (use assms(2) refl in auto)
qed

lemma leads_to_keeps_payment:
  assumes "leads_to k s t" "reachable k s" "oget (pacts s) i = Some p" "has_opening p"
  shows "\<exists>q. oget (pacts t) i = Some q \<and> keeps_payment p q"
  using assms
proof (induction rule: leads_to.induct)
  case (here s)
  then show ?case by (auto simp: has_opening_def split: option.splits intro: keeps_payment_refl)
next
  case (exec s t before op now u)
  then obtain q where q: "oget (pacts t) i = Some q" "keeps_payment p q" by blast
  with exec.prems have "has_opening q" by (auto simp: has_opening_def keeps_payment_def split: option.splits)
  from exec.hyps exec.prems leads_to_reachable have "reachable k t" by blast
  from pact_effect_keeps_payment [OF exec_effect [OF exec.hyps(3)] q(1) reachable_pact [OF this q(1)] \<open>has_opening q\<close>]
  obtain r where "oget (pacts u) i = Some r" "keeps_payment q r" by blast
  with q(2) show ?case by (blast intro: keeps_payment_trans)
qed

section \<open>Agents\<close>

lemma assign_path_status:
  assumes "oget as i = Some a"
  shows "\<exists>a'. oget (assign_path p is as) i = Some a' \<and> ag_status a' = ag_status a \<and>
     ag_workspaceId a' = ag_workspaceId a \<and> ag_operator a' = ag_operator a"
  using assms
proof (induction "is" arbitrary: as a)
  case Nil
  then show ?case by simp
next
  case (Cons j js)
  show ?case
  proof (cases "oget as j")
    case None
    with Cons show ?thesis by simp
  next
    case (Some b)
    let ?as = "if p \<in> set (ag_assignedPathIds b) then as else oset j (b\<lparr>ag_assignedPathIds := ag_assignedPathIds b @ [p]\<rparr>) as"
    have "\<exists>a1. oget ?as i = Some a1 \<and> ag_status a1 = ag_status a \<and> ag_workspaceId a1 = ag_workspaceId a \<and>
        ag_operator a1 = ag_operator a"
      using Some Cons.prems by auto
    then obtain a1 where "oget ?as i = Some a1" "ag_status a1 = ag_status a" "ag_workspaceId a1 = ag_workspaceId a"
        "ag_operator a1 = ag_operator a" by blast
    with Cons.IH [OF this(1)] Some show ?thesis by simp
  qed
qed

fun touches_agents :: "kernel_op \<Rightarrow> bool" where
  "touches_agents (OpRegisterAgent a au sg) = True"
| "touches_agents (OpSetAgentStatus wi ai st c sg) = True"
| "touches_agents (OpActivatePath p sg) = True"
| "touches_agents _ = False"

lemma exec_agents_same:
  assumes "exec k op before now s = Inr s'" "\<not> touches_agents op"
  shows "agents s' = agents s"
proof (cases op)
  case (OpRunNextJob wk)
  with assms exec_runNextJob show ?thesis by (metis job_frame_fields(8))
qed (use assms in \<open>auto simp: state_of_Inr command_frame
       elim!: authority_inversions submitProposal_Inr pact_inversions\<close>)

lemma exec_agents:
  assumes "exec k op before now s = Inr s'" "oget (agents s) i = Some a"
  shows "\<exists>a'. oget (agents s') i = Some a' \<and> ag_workspaceId a' = ag_workspaceId a \<and> ag_operator a' = ag_operator a \<and>
     (ag_status a' = ag_status a \<or>
      (\<exists>c sg. op = OpSetAgentStatus (ag_workspaceId a) i (ag_status a') c sg))"
proof (cases op)
  case (OpActivatePath p sg)
  with assms(1) obtain r where "activatePath k s p sg now = Inr (s', r)" by (auto simp: state_of_Inr)
  then show ?thesis
    by (rule activatePath_Inr) (use assign_path_status [OF assms(2)] in auto)
next
  case (OpRegisterAgent a0 au sg)
  with assms(1) obtain r where "registerAgent k s a0 au sg now = Inr (s', r)" by (auto simp: state_of_Inr)
  then show ?thesis by (rule registerAgent_Inr) (use assms(2) in auto)
next
  case (OpSetAgentStatus wi ai st c sg)
  with assms(1) obtain r where "setAgentStatus k s wi ai st c sg now = Inr (s', r)" by (auto simp: state_of_Inr)
  then show ?thesis
    by (rule setAgentStatus_Inr) (use assms(2) OpSetAgentStatus in \<open>auto simp: command_frame\<close>)
qed (use assms exec_agents_same [OF assms(1)] in simp_all)

lemma exec_status_signed:
  assumes "exec k (OpSetAgentStatus wi i st c sg) before now s = Inr s'"
  shows "\<exists>td w. oget (workspaces s) (wc_workspaceId c) = Some w \<and> workspaceCommandTypedData k c = Inr td \<and>
    signatureVerifier k td sg (ws_authorityAccount w)"
proof -
  from assms obtain r where "setAgentStatus k s wi i st c sg now = Inr (s', r)" by (auto simp: state_of_Inr)
  then show ?thesis
  proof (rule setAgentStatus_Inr)
    fix w a s1 e
    assume "authorizeWorkspaceCommand k s c sg SetAgentStatus
       (JObj [(''workspaceId'', JStr wi), (''agentId'', JStr i), (''status'', JStr (agent_status_str st))]) now
       = Inr (s1, w)"
    from authorizeWorkspaceCommand_Inr [OF this] show ?thesis by metis
  qed
qed

end
