(* ===== verification/Store.thy ===== *)
theory Store
  imports KernelJobs
begin

text \<open>
  \<open>agent-kernel/src/store.ts\<close>: the three implementations of \<open>KernelStore\<close>. The locale
  \<open>kernel_store\<close> is the contract the kernel relies on: a transaction whose operation
  throws leaves what a later \<open>load\<close> returns as it was, one whose operation returns makes it
  the draft. \<open>clone\<close> is the identity on values. Calls on one store run one at a time: the
  promise chain \<open>mutationTail\<close> (released in a \<open>finally\<close>) and the row lock of Postgres
  serialize them, so a run of a store is a list of transactions.
\<close>

section \<open>Implementations\<close>

type_synonym 'a operation = "kstate \<Rightarrow> (kstate \<times> 'a) result"

text \<open>\<open>SerializedStore.transact\<close>, over the subclass's \<open>load\<close> and \<open>save\<close>.\<close>

definition serialized_transact ::
    "('st \<Rightarrow> kstate result) \<Rightarrow> (kstate \<Rightarrow> 'st \<Rightarrow> 'st) \<Rightarrow> 'a operation \<Rightarrow> 'st \<Rightarrow> 'st \<times> 'a result" where
  "serialized_transact load save operation st =
     (case load st of
        Inl e \<Rightarrow> (st, Inl e)
      | Inr draft \<Rightarrow>
          (case operation draft of
             Inl e \<Rightarrow> (st, Inl e)
           | Inr (draft', r) \<Rightarrow> (save draft' st, Inr r)))"

subsection \<open>MemoryKernelStore\<close>

definition new_memory_store :: "kstate \<Rightarrow> kstate result" where
  "new_memory_store initial = normalizeKernelState initial"

definition memory_load :: "kstate \<Rightarrow> kstate result" where
  "memory_load st = Inr st"

definition memory_save :: "kstate \<Rightarrow> kstate \<Rightarrow> kstate" where
  "memory_save s st = s"

subsection \<open>JsonFileKernelStore\<close>

text \<open>
  A file holds the text of a state, or a text on which \<open>JSON.parse\<close> throws the given
  message. \<open>save\<close> is a sequence of steps of the file system; \<open>rename\<close> replaces its
  target in one step.
\<close>

datatype file_text = StateText kstate | OtherText string

datatype fs_step = WriteFile string file_text | Rename string string

fun fs_apply :: "fs_step \<Rightarrow> file_text obj \<Rightarrow> file_text obj" where
  "fs_apply (WriteFile f t) fs = oset f t fs"
| "fs_apply (Rename f g) fs =
     (case oget fs f of None \<Rightarrow> fs | Some t \<Rightarrow> oset g t (AList.delete f fs))"

definition json_load :: "string \<Rightarrow> file_text obj \<Rightarrow> kstate result" where
  "json_load filePath fs =
     (case oget fs filePath of
        None \<Rightarrow> Inr emptyKernelState
      | Some (OtherText msg) \<Rightarrow> Inl (Error msg)
      | Some (StateText s) \<Rightarrow> normalizeKernelState s)"

definition temporary_path :: "string \<Rightarrow> int \<Rightarrow> string" where
  "temporary_path filePath pid = filePath @ ''.'' @ int_str pid @ ''.tmp''"

text \<open>\<open>writeFile\<close> truncates the file before it fills it.\<close>

definition save_steps :: "string \<Rightarrow> int \<Rightarrow> kstate \<Rightarrow> fs_step list" where
  "save_steps filePath pid s =
     [WriteFile (temporary_path filePath pid) (OtherText ''Unexpected end of JSON input''),
      WriteFile (temporary_path filePath pid) (StateText s),
      Rename (temporary_path filePath pid) filePath]"

definition json_save :: "string \<Rightarrow> int \<Rightarrow> kstate \<Rightarrow> file_text obj \<Rightarrow> file_text obj" where
  "json_save filePath pid s fs = fold fs_apply (save_steps filePath pid s) fs"

subsection \<open>PostgresKernelStore\<close>

text \<open>The singleton row as committed, and as seen inside an open transaction.\<close>

record pg =
  pg_row :: "kstate option"
  pg_tx :: "kstate option option"

definition pg_begin :: "pg \<Rightarrow> pg" where
  "pg_begin d = d\<lparr>pg_tx := Some (pg_row d)\<rparr>"

definition pg_insert_default :: "pg \<Rightarrow> pg" where
  "pg_insert_default d =
     d\<lparr>pg_tx := map_option (\<lambda>r. case r of None \<Rightarrow> Some emptyKernelState | Some s \<Rightarrow> Some s) (pg_tx d)\<rparr>"

definition pg_select :: "pg \<Rightarrow> kstate option" where
  "pg_select d = (case pg_tx d of None \<Rightarrow> pg_row d | Some r \<Rightarrow> r)"

definition pg_update :: "kstate \<Rightarrow> pg \<Rightarrow> pg" where
  "pg_update s d = d\<lparr>pg_tx := map_option (map_option (\<lambda>_. s)) (pg_tx d)\<rparr>"

definition pg_commit :: "pg \<Rightarrow> pg" where
  "pg_commit d = (case pg_tx d of None \<Rightarrow> d | Some r \<Rightarrow> d\<lparr>pg_row := r, pg_tx := None\<rparr>)"

definition pg_rollback :: "pg \<Rightarrow> pg" where
  "pg_rollback d = d\<lparr>pg_tx := None\<rparr>"

definition pg_load :: "pg \<Rightarrow> kstate result" where
  "pg_load d = (case pg_row d of None \<Rightarrow> Inr emptyKernelState | Some s \<Rightarrow> normalizeKernelState s)"

definition pg_save :: "kstate \<Rightarrow> pg \<Rightarrow> pg" where
  "pg_save s d = d\<lparr>pg_row := Some s\<rparr>"

definition pg_transact :: "'a operation \<Rightarrow> pg \<Rightarrow> pg \<times> 'a result" where
  "pg_transact operation d =
     (let d1 = pg_insert_default (pg_begin d) in
      case bnd (normalizeKernelState (case pg_select d1 of None \<Rightarrow> emptyKernelState | Some s \<Rightarrow> s)) operation of
        Inl e \<Rightarrow> (pg_rollback d1, Inl e)
      | Inr (draft, r) \<Rightarrow> (pg_commit (pg_update draft d1), Inr r))"

section \<open>The contract\<close>

definition current_version :: "kstate \<Rightarrow> bool" where
  "current_version s \<longleftrightarrow> st_version s = kernel_state_version"

definition keeps_version :: "'a operation \<Rightarrow> bool" where
  "keeps_version f \<longleftrightarrow> (\<forall>s s' r. current_version s \<longrightarrow> f s = Inr (s', r) \<longrightarrow> current_version s')"

text \<open>A run of a store, and the same run on plain states.\<close>

primrec store_run :: "('a operation \<Rightarrow> 'st \<Rightarrow> 'st \<times> 'a result) \<Rightarrow> 'a operation list \<Rightarrow> 'st \<Rightarrow> 'st" where
  "store_run transact [] st = st"
| "store_run transact (f # fs) st = store_run transact fs (fst (transact f st))"

primrec state_run :: "'a operation list \<Rightarrow> kstate \<Rightarrow> kstate" where
  "state_run [] s = s"
| "state_run (f # fs) s = state_run fs (case f s of Inl e \<Rightarrow> s | Inr (s', r) \<Rightarrow> s')"

locale kernel_store =
  fixes load :: "'st \<Rightarrow> kstate result"
    and transact :: "'a operation \<Rightarrow> 'st \<Rightarrow> 'st \<times> 'a result"
    and ok :: "'st \<Rightarrow> bool"
  assumes load_ok: "ok st \<Longrightarrow> \<exists>s. load st = Inr s \<and> current_version s"
    and transact_throws: "ok st \<Longrightarrow> load st = Inr s \<Longrightarrow> operation s = Inl e \<Longrightarrow>
        ok (fst (transact operation st)) \<and> load (fst (transact operation st)) = Inr s \<and>
        snd (transact operation st) = Inl e"
    and transact_returns: "ok st \<Longrightarrow> load st = Inr s \<Longrightarrow> operation s = Inr (s', r) \<Longrightarrow> current_version s' \<Longrightarrow>
        ok (fst (transact operation st)) \<and> load (fst (transact operation st)) = Inr s' \<and>
        snd (transact operation st) = Inr r"
begin

lemma transact_refines:
  assumes "ok st" "load st = Inr s" "keeps_version f"
  shows "ok (fst (transact f st)) \<and>
     load (fst (transact f st)) = Inr (case f s of Inl e \<Rightarrow> s | Inr (s', r) \<Rightarrow> s') \<and>
     snd (transact f st) = (case f s of Inl e \<Rightarrow> Inl e | Inr (s', r) \<Rightarrow> Inr r)"
proof -
  from load_ok [OF assms(1)] assms(2) have v: "current_version s" by simp
  show ?thesis
  proof (cases "f s")
    case (Inl e)
    with transact_throws [where operation = f, OF assms(1,2)] show ?thesis by simp
  next
    case (Inr q)
    obtain s' r where q: "q = (s', r)" by (cases q)
    with assms(3) v Inr have "current_version s'" by (simp add: keeps_version_def)
    with transact_returns [where operation = f, OF assms(1,2)] Inr q show ?thesis by simp
  qed
qed

lemma store_run_refines:
  assumes "ok st" "load st = Inr s" "\<forall>f \<in> set fs. keeps_version f"
  shows "ok (store_run transact fs st) \<and> load (store_run transact fs st) = Inr (state_run fs s)"
  using assms
proof (induction fs arbitrary: st s)
  case Nil
  then show ?case by simp
next
  case (Cons f fs)
  from transact_refines [OF Cons.prems(1,2), of f] Cons.prems(3) Cons.IH show ?case by simp
qed

lemma store_run_invariant:
  assumes "ok st" "load st = Inr s" "\<forall>f \<in> set fs. keeps_version f" "P s"
    and step: "\<And>f t t' r. f \<in> set fs \<Longrightarrow> P t \<Longrightarrow> f t = Inr (t', r) \<Longrightarrow> P t'"
  shows "\<exists>t. load (store_run transact fs st) = Inr t \<and> P t"
proof -
  have "P (state_run fs s)" using assms(4) step
  proof (induction fs arbitrary: s)
    case Nil
    then show ?case by simp
  next
    case (Cons f fs)
    have "P (case f s of Inl e \<Rightarrow> s | Inr (s', r) \<Rightarrow> s')"
      using Cons.prems by (auto split: sum.splits)
    then have "P (state_run fs (case f s of Inl e \<Rightarrow> s | Inr (s', r) \<Rightarrow> s'))"
      by (rule Cons.IH) (erule (1) Cons.prems(2) [OF list.set_intros(2)])
    then show ?case by simp
  qed
  with store_run_refines [OF assms(1-3)] show ?thesis by blast
qed

end

section \<open>The implementations keep it\<close>

lemma serialized_transact_simps:
  "load st = Inr s \<Longrightarrow> operation s = Inl e \<Longrightarrow> serialized_transact load save operation st = (st, Inl e)"
  "load st = Inr s \<Longrightarrow> operation s = Inr (s', r) \<Longrightarrow> serialized_transact load save operation st = (save s' st, Inr r)"
  by (simp_all add: serialized_transact_def)

lemma normalize_current: "current_version s \<Longrightarrow> normalizeKernelState s = Inr s"
  by (simp add: normalizeKernelState_def current_version_def kernel_state_version_def)

lemma current_version_empty: "current_version emptyKernelState"
  by (simp add: current_version_def emptyKernelState_def)

definition memory_transact :: "'a operation \<Rightarrow> kstate \<Rightarrow> kstate \<times> 'a result" where
  "memory_transact = serialized_transact memory_load memory_save"

interpretation memory_store: kernel_store memory_load memory_transact current_version
  by unfold_locales (auto simp: memory_load_def memory_save_def memory_transact_def serialized_transact_def)

definition json_transact :: "string \<Rightarrow> int \<Rightarrow> 'a operation \<Rightarrow> file_text obj \<Rightarrow> file_text obj \<times> 'a result" where
  "json_transact filePath pid = serialized_transact (json_load filePath) (json_save filePath pid)"

definition json_ok :: "string \<Rightarrow> file_text obj \<Rightarrow> bool" where
  "json_ok filePath fs \<longleftrightarrow>
     (case oget fs filePath of None \<Rightarrow> True | Some (StateText s) \<Rightarrow> current_version s | Some (OtherText _) \<Rightarrow> False)"

lemma temporary_path_ne [simp]: "temporary_path f pid \<noteq> f" "f \<noteq> temporary_path f pid"
  by (simp_all add: temporary_path_def)

lemma json_load_save: "current_version s \<Longrightarrow> json_load f (json_save f pid s fs) = Inr s"
  by (simp add: json_save_def save_steps_def json_load_def normalize_current)

lemma json_ok_save: "current_version s \<Longrightarrow> json_ok f (json_save f pid s fs)"
  by (simp add: json_save_def save_steps_def json_ok_def)

lemma json_ok_load: "json_ok f fs \<Longrightarrow> \<exists>s. json_load f fs = Inr s \<and> current_version s"
  by (auto simp: json_ok_def json_load_def normalize_current current_version_empty split: option.splits file_text.splits)

interpretation json_store: kernel_store "json_load f" "json_transact f pid" "json_ok f" for f pid
  by unfold_locales
     (auto simp: json_transact_def serialized_transact_simps json_load_save json_ok_save dest: json_ok_load)

definition pg_ok :: "pg \<Rightarrow> bool" where
  "pg_ok d \<longleftrightarrow> pg_tx d = None \<and> (\<forall>s. pg_row d = Some s \<longrightarrow> current_version s)"

lemma pg_ok_load: "pg_ok d \<Longrightarrow> \<exists>s. pg_load d = Inr s \<and> current_version s"
  by (auto simp: pg_ok_def pg_load_def normalize_current current_version_empty split: option.splits)

lemma pg_transact_ok:
  assumes "pg_ok d" "pg_load d = Inr s"
  shows "pg_transact operation d =
    (case operation s of Inl e \<Rightarrow> (d, Inl e) | Inr (s', r) \<Rightarrow> (d\<lparr>pg_row := Some s'\<rparr>, Inr r))"
proof -
  from assms(1) obtain row where d: "d = \<lparr>pg_row = row, pg_tx = None\<rparr>" by (cases d) (simp add: pg_ok_def)
  from assms have n: "normalizeKernelState (case row of None \<Rightarrow> emptyKernelState | Some s \<Rightarrow> s) = Inr s"
    by (auto simp: d pg_load_def split: option.splits)
  show ?thesis
    by (cases row) (use n in \<open>auto simp: d pg_transact_def pg_begin_def pg_insert_default_def pg_select_def
        pg_update_def pg_commit_def pg_rollback_def split: sum.splits\<close>)
qed

interpretation pg_store: kernel_store pg_load pg_transact pg_ok
proof unfold_locales
  fix d assume "pg_ok d"
  then show "\<exists>s. pg_load d = Inr s \<and> current_version s" by (rule pg_ok_load)
next
  fix d s e and operation :: "'b operation"
  assume h: "pg_ok d" "pg_load d = Inr s" "operation s = Inl e"
  then show "pg_ok (fst (pg_transact operation d)) \<and> pg_load (fst (pg_transact operation d)) = Inr s \<and>
      snd (pg_transact operation d) = Inl e"
    by (simp add: pg_transact_ok)
next
  fix d s s' r and operation :: "'b operation"
  assume h: "pg_ok d" "pg_load d = Inr s" "operation s = Inr (s', r)" "current_version s'"
  then show "pg_ok (fst (pg_transact operation d)) \<and> pg_load (fst (pg_transact operation d)) = Inr s' \<and>
      snd (pg_transact operation d) = Inr r"
    by (simp add: pg_transact_ok) (simp add: pg_ok_def pg_load_def normalize_current)
qed

section \<open>A crash while the file is saved\<close>

lemma json_crash:
  assumes "json_load f fs = Inr old" "current_version s"
  shows "json_load f (fold fs_apply (take n (save_steps f pid s)) fs) \<in> {Inr old, Inr s}"
proof -
  have "n = 0 \<or> n = 1 \<or> n = 2 \<or> 3 \<le> n" by arith
  then have "take n (save_steps f pid s) \<in> {[], take 1 (save_steps f pid s), take 2 (save_steps f pid s), save_steps f pid s}"
    by (auto simp: save_steps_def take_Cons')
  with assms show ?thesis
    by (auto simp: save_steps_def json_load_def normalize_current)
qed

section \<open>The kernel on a store\<close>

text \<open>A kernel operation as the callback of a transaction.\<close>

definition kernel_operation :: "kernel \<Rightarrow> kernel_op \<times> kstate \<times> int \<Rightarrow> unit operation" where
  "kernel_operation k c s = (case c of (op, before, now) \<Rightarrow> bnd (exec k op before now s) (\<lambda>s'. Inr (s', ())))"

lemma command_frame_version:
  "authorizeWorkspaceCommand k s c sg op payload now = Inr (s1, w) \<Longrightarrow> st_version s1 = st_version s"
  by (drule authorizeWorkspaceCommand_Inr(9)) simp

lemma exec_version: "exec k op before now s = Inr s' \<Longrightarrow> st_version s' = st_version s"
proof (cases op)
  case (OpRunNextJob wk)
  moreover assume "exec k op before now s = Inr s'"
  ultimately show ?thesis using exec_runNextJob job_frame_fields(12) by metis
qed (auto simp: state_of_Inr command_frame_version
       elim!: authority_inversions submitProposal_Inr pact_inversions)

lemma kernel_operation_keeps_version: "keeps_version (kernel_operation k c)"
  by (cases c) (auto simp: keeps_version_def kernel_operation_def current_version_def bnd_Inr_iff dest: exec_version)

lemma kernel_operation_reachable:
  "reachable k s \<Longrightarrow> reachable k (fst (snd c)) \<Longrightarrow> kernel_operation k c s = Inr (s', r) \<Longrightarrow> reachable k s'"
  by (cases c) (auto simp: kernel_operation_def bnd_Inr_iff intro: reachable.exec)

section \<open>Empty stores\<close>

lemma memory_load_empty: "memory_load emptyKernelState = Inr emptyKernelState"
  by (simp add: memory_load_def)

lemma json_load_empty: "json_load f [] = Inr emptyKernelState"
  by (simp add: json_load_def)

lemma json_ok_empty: "json_ok f []"
  by (simp add: json_ok_def)

lemma pg_load_empty: "pg_load \<lparr>pg_row = None, pg_tx = None\<rparr> = Inr emptyKernelState"
  by (simp add: pg_load_def normalize_current current_version_empty)

lemma pg_ok_empty: "pg_ok \<lparr>pg_row = None, pg_tx = None\<rparr>"
  by (simp add: pg_ok_def)

end
