(* ===== verification/KernelServer.thy ===== *)
theory KernelServer
  imports Canonical
begin

text \<open>
  \<open>agent-kernel/src/server.ts\<close>: the operator HTTP service in front of the kernel. The
  kernel behind a route and behind the four \<open>GET\<close> queries is the record \<open>backend\<close>, over
  a state of its own, as are \<open>JSON.parse\<close> and \<open>decodeURIComponent\<close> (both may throw). A
  body is the list of its chunks.
\<close>

section \<open>Start-up\<close>

record server_env =
  ev_host :: "string option"
  ev_apiKey :: "string option"
  ev_maxBodyBytes :: "int option"
  ev_mutations :: "string option"
  ev_operatorDebug :: "string option"
  ev_allowRemote :: "string option"
  ev_privateKey :: "string option"
  ev_signerKey :: "string option"

record server_config =
  cf_host :: string
  cf_apiKey :: string
  cf_maxBodyBytes :: int
  cf_mutationsEnabled :: bool
  cf_operatorDebugEnabled :: bool

definition present :: "string option \<Rightarrow> bool" where
  "present v \<longleftrightarrow> v \<noteq> None \<and> v \<noteq> Some []"

definition loopbackHosts :: "string list" where
  "loopbackHosts = [''127.0.0.1'', ''::1'', ''localhost'']"

definition server_start :: "server_env \<Rightarrow> server_config result" where
  "server_start env =
    (let host = (case ev_host env of None \<Rightarrow> ''127.0.0.1'' | Some h \<Rightarrow> h);
         maxBodyBytes = (case ev_maxBodyBytes env of None \<Rightarrow> 262144 | Some n \<Rightarrow> n) in
     throw_if (host \<notin> set loopbackHosts \<and> ev_allowRemote env \<noteq> Some ''true'')
       ''Agent Kernel HTTP service refuses non-loopback binding unless OPENRAILS_AGENT_KERNEL_ALLOW_REMOTE_OPERATOR=true''
    (throw_if (\<not> isSafeInteger maxBodyBytes \<or> maxBodyBytes < 1024 \<or> maxBodyBytes > 1048576)
       ''OPENRAILS_AGENT_KERNEL_MAX_BODY_BYTES must be between 1024 and 1048576''
    (throw_if (\<not> present (ev_apiKey env)) ''OPENRAILS_AGENT_KERNEL_API_KEY is required''
    (throw_if (present (ev_privateKey env) \<or> present (ev_signerKey env))
       ''Agent Kernel refuses private-key environment variables''
    (Inr \<lparr>cf_host = host, cf_apiKey = the (ev_apiKey env), cf_maxBodyBytes = maxBodyBytes,
          cf_mutationsEnabled = (ev_mutations env = Some ''true''),
          cf_operatorDebugEnabled = (ev_operatorDebug env = Some ''true'')\<rparr>)))))"

section \<open>Requests\<close>

record http_request =
  rq_method :: "string option"
  rq_url :: "string option"
  rq_authorization :: "string option"
  rq_contentType :: "string option"
  rq_chunks :: "string list"

datatype 'v body = Health bool bool | Failure string | Payload 'v

type_synonym 'v response = "int \<times> 'v body"

record ('st, 'v) backend =
  bk_state :: "'st \<Rightarrow> 'v result"
  bk_query :: "string \<Rightarrow> string \<Rightarrow> 'st \<Rightarrow> 'v result"
  bk_call :: "string \<Rightarrow> json \<Rightarrow> 'st \<Rightarrow> 'st \<times> 'v result"
  bk_parse :: "string \<Rightarrow> json result"
  bk_decode :: "string \<Rightarrow> string result"

definition starts_with :: "string \<Rightarrow> string \<Rightarrow> bool" where
  "starts_with s prefix \<longleftrightarrow> take (length prefix) s = prefix"

text \<open>The \<open>for await\<close> loop over the chunks, with its running total.\<close>

fun read_chunks :: "int \<Rightarrow> string list \<Rightarrow> int \<Rightarrow> string \<Rightarrow> string result" where
  "read_chunks limit [] read acc = Inr acc"
| "read_chunks limit (c # cs) read acc =
     (let read' = read + int (length c) in
      throw_if (read' > limit) ''request body exceeds configured limit''
      (read_chunks limit cs read' (acc @ c)))"

definition json_body :: "server_config \<Rightarrow> ('st, 'v) backend \<Rightarrow> http_request \<Rightarrow> json result" where
  "json_body cf bk req =
     throw_if (present (rq_contentType req) \<and> \<not> starts_with (lower (the (rq_contentType req))) ''application/json'')
       ''content-type must be application/json''
    (bnd (read_chunks (cf_maxBodyBytes cf) (rq_chunks req) 0 []) (\<lambda>text.
     if rq_chunks req = [] then Inr (JObj []) else bk_parse bk text))"

definition authorized :: "server_config \<Rightarrow> http_request \<Rightarrow> bool" where
  "authorized cf req \<longleftrightarrow>
     (case rq_authorization req of
        None \<Rightarrow> False
      | Some v \<Rightarrow> starts_with v ''Bearer '' \<and> safeStringEqual (drop 7 v) (cf_apiKey cf))"

definition routes :: "string list" where
  "routes =
    [''POST /v1/workspaces/prepare'', ''POST /v1/workspaces/register'', ''POST /v1/workspaces/commands/prepare'',
     ''POST /v1/agents/prepare'', ''POST /v1/agents/register'', ''POST /v1/agents/status'',
     ''POST /v1/paths/prepare'', ''POST /v1/paths/activate'', ''POST /v1/proposals'', ''POST /v1/jobs/run-next'',
     ''POST /v1/pacts/from-proposal'', ''POST /v1/pacts/prepare-signature'', ''POST /v1/pacts/sign'',
     ''POST /v1/pacts/bind-openrails'', ''POST /v1/pacts/settlement'', ''POST /v1/plugins/install'',
     ''POST /v1/checkpoints'', ''POST /v1/checkpoints/verify'', ''POST /v1/gaia'', ''POST /v1/gaia/resolve'']"

definition queries :: "string list" where
  "queries = [''GET /v1/workspaces/'', ''GET /v1/agents/'', ''GET /v1/paths/'', ''GET /v1/pacts/'']"

definition request_method :: "http_request \<Rightarrow> string" where
  "request_method req = (case rq_method req of None \<Rightarrow> ''GET'' | Some m \<Rightarrow> m)"

definition request_key :: "http_request \<Rightarrow> string" where
  "request_key req = request_method req @ '' '' @
     takeWhile (\<lambda>c. c \<noteq> CHR ''?'') (case rq_url req of None \<Rightarrow> ''/'' | Some u \<Rightarrow> u)"

section \<open>The handler\<close>

text \<open>\<open>send(res, 200, v)\<close>, or the \<open>catch\<close> block.\<close>

definition reply :: "'v result \<Rightarrow> 'v response" where
  "reply r = (case r of Inl (Error m) \<Rightarrow> (400, Failure m) | Inr v \<Rightarrow> (200, Payload v))"

definition handle :: "server_config \<Rightarrow> ('st, 'v) backend \<Rightarrow> http_request \<Rightarrow> 'st \<Rightarrow> 'st \<times> 'v response" where
  "handle cf bk req st =
    (let key = request_key req in
     if key = ''GET /health'' then (st, 200, Health (cf_mutationsEnabled cf) (cf_operatorDebugEnabled cf))
     else if \<not> authorized cf req then (st, 401, Failure ''unauthorized'')
     else if request_method req = ''POST'' \<and> \<not> cf_mutationsEnabled cf
       then (st, 403, Failure ''http_mutations_disabled'')
     else if key = ''GET /v1/state''
       then (if cf_operatorDebugEnabled cf then (st, reply (bk_state bk st)) else (st, 404, Failure ''not_found''))
     else case find (starts_with key) queries of
       Some prefix \<Rightarrow>
         (st, reply (bnd (bk_decode bk (drop (length prefix) key)) (\<lambda>i. bk_query bk prefix i st)))
     | None \<Rightarrow>
         if key \<notin> set routes then (st, 404, Failure ''not_found'')
         else (case json_body cf bk req of
                 Inl e \<Rightarrow> (st, reply (Inl e))
               | Inr b \<Rightarrow> (let (st', r) = bk_call bk key b st in (st', reply r))))"

section \<open>Facts\<close>

lemma starts_with_append [simp]: "starts_with (p @ s) p"
  by (simp add: starts_with_def)

lemma starts_with_iff: "starts_with s p \<longleftrightarrow> (\<exists>r. s = p @ r)"
  by (metis append_take_drop_id append_eq_conv_conj starts_with_def)

lemma read_chunks_Inr:
  assumes "read_chunks limit cs n acc = Inr t"
  shows "t = acc @ concat cs \<and> (cs \<noteq> [] \<longrightarrow> n + int (length (concat cs)) \<le> limit)"
  using assms
proof (induction cs arbitrary: n acc)
  case Nil
  then show ?case by simp
next
  case (Cons c cs)
  then have "\<not> n + int (length c) > limit"
    and r: "read_chunks limit cs (n + int (length c)) (acc @ c) = Inr t"
    by (auto simp: throw_if_Inr_iff Let_def)
  with Cons.IH [OF r] show ?case by (cases cs) (auto simp: algebra_simps)
qed

lemma routes_are_posts: "key \<in> set routes \<Longrightarrow> starts_with key ''POST ''"
  by (auto simp: routes_def starts_with_def)

lemma space_split:
  assumes "CHR '' '' \<notin> set a" "CHR '' '' \<notin> set b" "a @ '' '' @ x = b @ '' '' @ y"
  shows "a = b"
  using assms
proof (induction a arbitrary: b)
  case Nil
  then show ?case by (cases b) auto
next
  case (Cons c a)
  then show ?case by (cases b) auto
qed

lemma handle_changes_state:
  assumes "handle cf bk req st = (st', r)" "st' \<noteq> st"
  shows "authorized cf req \<and> request_key req \<in> set routes \<and>
    (request_method req = ''POST'' \<longrightarrow> cf_mutationsEnabled cf) \<and>
    (\<exists>b v. json_body cf bk req = Inr b \<and> bk_call bk (request_key req) b st = (st', v) \<and> r = reply v)"
  using assms
  by (auto simp: handle_def Let_def split: if_splits option.splits sum.splits prod.splits)

lemma route_method:
  assumes "request_key req \<in> set routes" "CHR '' '' \<notin> set (request_method req)"
  shows "request_method req = ''POST''"
proof -
  from routes_are_posts [OF assms(1)] obtain r where "request_key req = ''POST'' @ '' '' @ r"
    by (auto simp: starts_with_iff)
  then show ?thesis
    unfolding request_key_def by (intro space_split [OF assms(2)]) simp_all
qed

lemma handle_guarded:
  assumes "handle cf bk req st = (st', r)" "st' \<noteq> st" "CHR '' '' \<notin> set (request_method req)"
  shows "authorized cf req \<and> request_method req = ''POST'' \<and> request_key req \<in> set routes \<and>
     cf_mutationsEnabled cf \<and>
     (rq_chunks req \<noteq> [] \<longrightarrow> int (length (concat (rq_chunks req))) \<le> cf_maxBodyBytes cf)"
proof -
  from handle_changes_state [OF assms(1,2)] obtain b where h: "authorized cf req" "request_key req \<in> set routes"
      "request_method req = ''POST'' \<longrightarrow> cf_mutationsEnabled cf" "json_body cf bk req = Inr b" by blast
  from h(4) obtain t where "read_chunks (cf_maxBodyBytes cf) (rq_chunks req) 0 [] = Inr t"
    by (auto simp: json_body_def throw_if_Inr_iff bnd_Inr_iff)
  from read_chunks_Inr [OF this] have "rq_chunks req \<noteq> [] \<longrightarrow> int (length (concat (rq_chunks req))) \<le> cf_maxBodyBytes cf"
    by simp
  with h(1-3) route_method [OF h(2) assms(3)] show ?thesis by blast
qed

section \<open>A request\<close>

text \<open>An authorized request to one of the routes, on a backend that counts its calls.\<close>

definition demo_config :: server_config where
  "demo_config = \<lparr>cf_host = ''127.0.0.1'', cf_apiKey = ''key'', cf_maxBodyBytes = 1024,
     cf_mutationsEnabled = True, cf_operatorDebugEnabled = False\<rparr>"

definition demo_request :: http_request where
  "demo_request = \<lparr>rq_method = Some ''POST'', rq_url = Some ''/v1/jobs/run-next?x=1'',
     rq_authorization = Some ''Bearer key'', rq_contentType = None, rq_chunks = [''{}'']\<rparr>"

definition demo_backend :: "(nat, nat) backend" where
  "demo_backend = \<lparr>bk_state = Inr, bk_query = (\<lambda>_ _. Inr), bk_call = (\<lambda>_ _ n. (n + 1, Inr n)),
     bk_parse = (\<lambda>_. Inr (JObj [])), bk_decode = Inr\<rparr>"

lemma demo_handle: "handle demo_config demo_backend demo_request 0 = (1, 200, Payload 0)"
  by (simp add: handle_def Let_def demo_config_def demo_backend_def demo_request_def request_key_def
      request_method_def authorized_def starts_with_def safeStringEqual_def queries_def routes_def
      json_body_def present_def throw_if_def bnd_def reply_def)

end
