(* ===== verification/Scenario.thy ===== *)
theory Scenario
  imports KernelJobs
begin

text \<open>
  A concrete kernel and a run of it, from the empty state to a settled Pact: the inputs at
  which the properties are applied. Its platform hashes everything to one digest, accepts
  every signature and knows two instants; every state is computed by the simplifier from
  the definitions of the model.
\<close>

section \<open>The kernel\<close>

definition addr :: "char \<Rightarrow> address" where
  "addr c = ''0x'' @ replicate 40 c"

definition demo_manifest :: plugin_manifest where
  "demo_manifest = \<lparr>mf_version = ''openrails-verification-plugin-v1'', mf_pluginId = ''plug'',
     mf_pluginVersion = ''1.0.0'', mf_name = ''Plug'', mf_publisher = addr (CHR ''d''),
     mf_pluginType = PlCheckpoint, mf_supportedEvidenceTypes = [''doc''], mf_deterministic = True,
     mf_requiresNetworkAccess = False, mf_externalDependencies = [], mf_codeDigest = zero_hash,
     mf_publisherSignature = ''0x'', mf_status = PlActive, mf_installedWorkspaceIds = [''ws1''],
     mf_createdAt = ''t0''\<rparr>"

definition demo_action :: action_descriptor where
  "demo_action = mk_action ''prepare_railsflow'' ''demo'' RcPrepare Prepare ExWallet PePrepareOnly []"

definition demo_opening :: "pact \<Rightarrow> hex \<Rightarrow> hex \<Rightarrow> hex \<Rightarrow> opening_observation" where
  "demo_opening p mh pid tx = \<lparr>oo_version = ''v1'', oo_transactionHash = tx,
     oo_chainId = pt_chainId (pc_paymentTerms p), oo_vault = pt_vault (pc_paymentTerms p),
     oo_paycardId = pid, oo_metadataHash = mh, oo_payer = pt_payer (pc_paymentTerms p),
     oo_recipient = pt_recipient (pc_paymentTerms p),
     oo_residualRecipient = pt_residualRecipient (pc_paymentTerms p),
     oo_poolAllocationBaseUnits = pt_maximumAllocationBaseUnits (pc_paymentTerms p),
     oo_flowVelocityBaseUnitsPerSecond = pt_velocityBaseUnitsPerSecond (pc_paymentTerms p),
     oo_genesisTimestamp = 0, oo_lifespanSeconds = pt_lifespanSeconds (pc_paymentTerms p),
     oo_availableBalanceBaseUnits = ''5'', oo_operationalStatus = 0, oo_blockNumber = 7, oo_observedAt = ''t0''\<rparr>"

definition demo_settlement :: "pact \<Rightarrow> hex \<Rightarrow> string \<Rightarrow> bool \<Rightarrow> settlement_observation" where
  "demo_settlement p tx amount f = \<lparr>so_version = ''v1'', so_transactionHash = tx,
     so_chainId = pt_chainId (pc_paymentTerms p), so_vault = pt_vault (pc_paymentTerms p),
     so_paycardId = zero_hash, so_recipient = pt_recipient (pc_paymentTerms p),
     so_settledAmountBaseUnits = amount, so_final = f, so_blockNumber = 9, so_observedAt = ''t0''\<rparr>"

definition demo :: kernel where
  "demo = \<lparr>sha256 = (\<lambda>_. replicate 64 (CHR ''0'')), collate = (\<lambda>_ _. True),
     date_parse = (\<lambda>s. if s = ''t0'' then Some 0 else if s = ''t9'' then Some 900000 else None),
     to_iso = (\<lambda>_. ''t0''), signatureVerifier = (\<lambda>_ _ _. True),
     actionRegistry = [(''prepare_railsflow'', demo_action)],
     pluginRegistry = [(''plug@1.0.0'', \<lparr>pg_manifest = demo_manifest, pg_evaluate = (\<lambda>_ _ _.
        Inr \<lparr>pv_decision = Approved, pv_reasonCodes = [''OK''], pv_sourceCommitmentHash = None,
             pv_validUntil = None\<rparr>)\<rparr>)],
     identityResolver = None,
     chainVerifier = Some \<lparr>cv_verifyOpening = (\<lambda>p mh pid tx. Inr (demo_opening p mh pid tx)),
                           cv_verifySettlement = (\<lambda>p tx a f. Inr (demo_settlement p tx a f))\<rparr>\<rparr>"

named_theorems demo_simps \<open>evaluation of the model on the demo kernel\<close>

lemma demo_hash [demo_simps]: "serializable v \<Longrightarrow> hashCanonical demo v = Inr zero_hash"
  by (auto simp: hashCanonical_Inr_iff sha256Hex_def demo_def zero_hash_def)

lemma demo_id [demo_simps]: "serializable v \<Longrightarrow> stableId demo p v = Inr (p @ ''_0000000000000000'')"
  by (simp add: stableId_def demo_hash zero_hash_def numeral_eq_Suc)

lemma demo_fields [demo_simps]:
  "date_parse demo = (\<lambda>s. if s = ''t0'' then Some 0 else if s = ''t9'' then Some 900000 else None)"
  "nowIso demo n = ''t0''" "to_iso demo n = ''t0''" "signatureVerifier demo a b c = True"
  "actionRegistry demo = [(''prepare_railsflow'', demo_action)]"
  "identityResolver demo = None"
  "plugin_get (pluginRegistry demo) ''plug'' ''1.0.0'' = Some \<lparr>pg_manifest = demo_manifest, pg_evaluate = (\<lambda>_ _ _.
        Inr \<lparr>pv_decision = Approved, pv_reasonCodes = [''OK''], pv_sourceCommitmentHash = None,
             pv_validUntil = None\<rparr>)\<rparr>"
  "chainVerifier demo = Some \<lparr>cv_verifyOpening = (\<lambda>p mh pid tx. Inr (demo_opening p mh pid tx)),
                           cv_verifySettlement = (\<lambda>p tx a f. Inr (demo_settlement p tx a f))\<rparr>"
  by (simp_all add: demo_def nowIso_def plugin_get_def plugin_key_def)

lemma addr_ok [demo_simps]: "is_hex_digit c \<Longrightarrow> assertAddress (addr c) l = Inr ()"
  by (simp add: assertAddress_def hex_of_length_def addr_def list_all_iff)

lemma hex_chars [demo_simps]:
  "is_hex_digit (CHR ''a'')" "is_hex_digit (CHR ''b'')" "is_hex_digit (CHR ''c'')" "is_hex_digit (CHR ''d'')"
  "is_hex_digit (CHR ''e'')"
  by (simp_all add: is_hex_digit_def is_digit_def code_in_def)

lemma addr_inject [demo_simps]: "addr c = addr d \<longleftrightarrow> c = d"
  by (simp add: addr_def)

lemma addr_nonempty [demo_simps]: "addr c \<noteq> []"
  by (simp add: addr_def)

lemma lower_x: "lower_char (CHR ''0'') = CHR ''0''" "lower_char (CHR ''x'') = CHR ''x''"
  by (simp_all add: lower_char_def is_upper_def code_in_def)

lemma lower_addr [demo_simps]: "\<not> is_upper c \<Longrightarrow> lower (addr c) = addr c"
  by (simp add: lower_def addr_def lower_x lower_char_def [of c])

lemma lower_chars [demo_simps]:
  "\<not> is_upper (CHR ''a'')" "\<not> is_upper (CHR ''b'')" "\<not> is_upper (CHR ''c'')" "\<not> is_upper (CHR ''d'')"
  "\<not> is_upper (CHR ''e'')"
  by (simp_all add: is_upper_def code_in_def)

lemma zero_hash_ok [demo_simps]: "assertHex32 zero_hash l = Inr ()" "zero_hash \<noteq> []"
  by (simp_all add: assertHex32_Inr_iff hex_of_length_zero_hash) (simp add: zero_hash_def)

lemma ids_ok [demo_simps]:
  "id_text 3 96 ''ws1''" "id_text 3 128 ''pr1''" "id_text 3 128 ''ag1''" "id_text 3 128 ''pa1''"
  "id_text 3 128 ''pp1''" "id_text 3 160 ''key''" "id_text 3 128 ''pc1''" "id_text 3 128 ''plug''"
  "id_text 3 128 ''ga1''"
  by (simp_all add: id_text_def id_char_def is_lower_def is_upper_def is_digit_def code_in_def)

lemma amounts_ok [demo_simps]:
  "parseBaseUnits ''1'' l z = Inr 1" "parseBaseUnits ''5'' l z = Inr 5" "parseBaseUnits ''9'' l z = Inr 9"
  by (simp_all add: parseBaseUnits_def digits_val_def digit_val_def is_digit_def code_in_def)

lemmas demo_checks [demo_simps] = assertWorkspaceId_def assertDomainId_def assertWorkspace_def is_owner_member_def
  isSafeInteger_def assertAgent_def truthy_def assertAuthority_def requireWorkspace_def requireAgent_def
  requirePath_def requirePact_def parseIso_def assertPath_def Let_def

lemmas demo_typed [demo_simps] = workspaceTypedData_def hashed_def str_arr_def workspace_json_def member_json_def
  agentRegistrationTypedData_def agent_json_def opt_field_def pathTypedData_def path_json_def
  identity_requirement_json_def path_limits_json_def verificationPluginTypedData_def unsigned_manifest_json_def
  workspaceCommandTypedData_def log_event_def

section \<open>Workspace, Agent, plugin, Path\<close>

definition demo_ws :: workspace where
  "demo_ws = \<lparr>ws_version = ''openrails-workspace-v1'', ws_workspaceId = ''ws1'', ws_workspaceType = Individual,
     ws_displayName = ''W'', ws_principalId = ''pr1'', ws_authorityAccount = addr (CHR ''a''), ws_authorityType = Eoa,
     ws_members = [\<lparr>wm_address = addr (CHR ''a''), wm_roles = [Owner], wm_status = MemActive, wm_addedAt = ''t0''\<rparr>],
     ws_status = WsActive, ws_revision = 1, ws_createdAt = ''t0'', ws_updatedAt = ''t0''\<rparr>"

text \<open>The state after an operation, for runs in which each one succeeds.\<close>

definition after_op :: "kernel_op \<Rightarrow> kstate \<Rightarrow> kstate" where
  "after_op op s = (case exec demo op s 0 s of Inl _ \<Rightarrow> s | Inr t \<Rightarrow> t)"

lemma after_opI: "\<exists>t. exec demo op s 0 s = Inr t \<Longrightarrow> exec demo op s 0 s = Inr (after_op op s)"
  by (auto simp: after_op_def)

lemma reachable_after: "reachable demo s \<Longrightarrow> exec demo op s 0 s = Inr t \<Longrightarrow> reachable demo t"
  by (rule reachable.exec)

lemma empty_fields [demo_simps]:
  "workspaces emptyKernelState = []" "agents emptyKernelState = []" "paths emptyKernelState = []"
  "plugins emptyKernelState = []" "proposals emptyKernelState = []" "pacts emptyKernelState = []"
  "pactSignatures emptyKernelState = []" "pactEvents emptyKernelState = []" "checkpoints emptyKernelState = []"
  "workspaceCommandNonces emptyKernelState = []" "idempotency emptyKernelState = []" "jobs emptyKernelState = []"
  "gaiaCases emptyKernelState = []" "decisions emptyKernelState = []"
  by (simp_all add: emptyKernelState_def)

definition op1 :: kernel_op where "op1 = OpRegisterWorkspace demo_ws ''0x''"
definition st1 :: kstate where "st1 = after_op op1 emptyKernelState"

lemma st1_run: "exec demo op1 emptyKernelState 0 emptyKernelState = Inr st1"
  unfolding st1_def by (rule after_opI) (simp add: op1_def state_of_def registerWorkspace_def demo_ws_def demo_simps)

lemma st1_reachable: "reachable demo st1"
  by (rule reachable_after [OF reachable.empty st1_run])

lemma st1_fields [demo_simps]:
  "workspaces st1 = [(''ws1'', demo_ws)]"
  "agents st1 = []"
  "paths st1 = []"
  "plugins st1 = []"
  "proposals st1 = []"
  "pacts st1 = []"
  "pactSignatures st1 = []"
  "pactEvents st1 = []"
  "checkpoints st1 = []"
  "workspaceCommandNonces st1 = []"
  "idempotency st1 = []"
  "jobs st1 = []"
  "gaiaCases st1 = []"
  "decisions st1 = []"
proof -
  from st1_run obtain r where r: "registerWorkspace demo emptyKernelState demo_ws ''0x'' 0 = Inr (st1, r)"
    by (auto simp: op1_def state_of_Inr)
  obtain a e where eq: "st1 = emptyKernelState\<lparr>workspaces := oset (ws_workspaceId demo_ws) demo_ws (workspaces emptyKernelState), workspaceArtifacts := a, events := e\<rparr>"
    using r by (elim registerWorkspace_Inr) blast
  show
  "workspaces st1 = [(''ws1'', demo_ws)]"
  "agents st1 = []"
  "paths st1 = []"
  "plugins st1 = []"
  "proposals st1 = []"
  "pacts st1 = []"
  "pactSignatures st1 = []"
  "pactEvents st1 = []"
  "checkpoints st1 = []"
  "workspaceCommandNonces st1 = []"
  "idempotency st1 = []"
  "jobs st1 = []"
  "gaiaCases st1 = []"
  "decisions st1 = []"
    by (simp_all add: eq demo_simps demo_ws_def)
qed

definition demo_agent :: agent where
  "demo_agent = \<lparr>ag_version = ''openrails-agent-identity-v1'', ag_agentId = ''ag1'', ag_workspaceId = ''ws1'',
     ag_displayName = ''A'', ag_description = None, ag_operator = addr (CHR ''c''), ag_identityKey = ''key'',
     ag_runtimeCredentialHash = zero_hash, ag_capabilities = [], ag_permittedActionTypes = [],
     ag_assignedPathIds = [], ag_status = AgActive, ag_createdAt = ''t0'', ag_expiresAt = None, ag_revision = 1\<rparr>"

definition op2 :: kernel_op where "op2 = OpRegisterAgent demo_agent (addr (CHR ''a'')) ''0x''"
definition st2 :: kstate where "st2 = after_op op2 st1"

lemma st2_run: "exec demo op2 st1 0 st1 = Inr st2"
  unfolding st2_def
  by (rule after_opI) (simp add: op2_def state_of_def registerAgent_def demo_agent_def demo_ws_def demo_simps)

lemma st2_reachable: "reachable demo st2"
  by (rule reachable_after [OF st1_reachable st2_run])

lemma st2_fields [demo_simps]:
  "workspaces st2 = [(''ws1'', demo_ws)]"
  "agents st2 = [(''ag1'', demo_agent)]"
  "paths st2 = []"
  "plugins st2 = []"
  "proposals st2 = []"
  "pacts st2 = []"
  "pactSignatures st2 = []"
  "pactEvents st2 = []"
  "checkpoints st2 = []"
  "workspaceCommandNonces st2 = []"
  "idempotency st2 = []"
  "jobs st2 = []"
  "gaiaCases st2 = []"
  "decisions st2 = []"
proof -
  from st2_run obtain r where r: "registerAgent demo st1 demo_agent (addr (CHR ''a'')) ''0x'' 0 = Inr (st2, r)"
    by (auto simp: op2_def state_of_Inr)
  obtain a e where eq: "st2 = st1\<lparr>agents := oset (ag_agentId demo_agent) demo_agent (agents st1), agentArtifacts := a, events := e\<rparr>"
    using r by (elim registerAgent_Inr) blast
  show
  "workspaces st2 = [(''ws1'', demo_ws)]"
  "agents st2 = [(''ag1'', demo_agent)]"
  "paths st2 = []"
  "plugins st2 = []"
  "proposals st2 = []"
  "pacts st2 = []"
  "pactSignatures st2 = []"
  "pactEvents st2 = []"
  "checkpoints st2 = []"
  "workspaceCommandNonces st2 = []"
  "idempotency st2 = []"
  "jobs st2 = []"
  "gaiaCases st2 = []"
  "decisions st2 = []"
    by (simp_all add: eq demo_simps demo_agent_def)
qed

text \<open>A Workspace command with the given nonce.\<close>

definition demo_command :: "command_operation \<Rightarrow> int \<Rightarrow> workspace_command" where
  "demo_command op n = \<lparr>wc_version = ''openrails-workspace-command-v1'', wc_commandId = ''cmd'',
     wc_workspaceId = ''ws1'', wc_operation = op, wc_payloadHash = zero_hash, wc_workspaceRevision = 1,
     wc_nonce = n, wc_issuedAt = ''t0'', wc_expiresAt = ''t9''\<rparr>"

lemma semver_ok [demo_simps]: "semver_like ''1.0.0''"
  by (simp add: semver_like_def is_digit_def code_in_def semver_suffix_def)

definition op3 :: kernel_op where "op3 = OpInstallPlugin demo_manifest (demo_command InstallPlugin 0) ''0x''"
definition st3 :: kstate where "st3 = after_op op3 st2"

lemma st3_run: "exec demo op3 st2 0 st2 = Inr st3"
  unfolding st3_def
  by (rule after_opI) (simp add: op3_def state_of_def installPlugin_def authorizeWorkspaceCommand_def command_nonce_def demo_command_def demo_manifest_def demo_ws_def plugin_key_def demo_simps)

lemma st3_reachable: "reachable demo st3"
  by (rule reachable_after [OF st2_reachable st3_run])

lemma st3_fields [demo_simps]:
  "workspaces st3 = [(''ws1'', demo_ws)]"
  "agents st3 = [(''ag1'', demo_agent)]"
  "paths st3 = []"
  "plugins st3 = [(''plug@1.0.0'', demo_manifest)]"
  "proposals st3 = []"
  "pacts st3 = []"
  "pactSignatures st3 = []"
  "pactEvents st3 = []"
  "checkpoints st3 = []"
  "workspaceCommandNonces st3 = [(''ws1'', 1)]"
  "idempotency st3 = []"
  "jobs st3 = []"
  "gaiaCases st3 = []"
  "decisions st3 = []"
proof -
  from st3_run obtain r where r: "installPlugin demo st2 demo_manifest (demo_command InstallPlugin 0) ''0x'' 0 = Inr (st3, r)"
    by (auto simp: op3_def state_of_Inr)
  obtain e where eq: "st3 = st2\<lparr>workspaceCommandNonces := oset ''ws1'' 1 (workspaceCommandNonces st2),
      plugins := oset ''plug@1.0.0'' demo_manifest (plugins st2), events := e\<rparr>"
    using r by (elim installPlugin_Inr) (drule authorizeWorkspaceCommand_Inr(9), auto simp: demo_command_def demo_manifest_def plugin_key_def)
  show
  "workspaces st3 = [(''ws1'', demo_ws)]"
  "agents st3 = [(''ag1'', demo_agent)]"
  "paths st3 = []"
  "plugins st3 = [(''plug@1.0.0'', demo_manifest)]"
  "proposals st3 = []"
  "pacts st3 = []"
  "pactSignatures st3 = []"
  "pactEvents st3 = []"
  "checkpoints st3 = []"
  "workspaceCommandNonces st3 = [(''ws1'', 1)]"
  "idempotency st3 = []"
  "jobs st3 = []"
  "gaiaCases st3 = []"
  "decisions st3 = []"
    by (simp_all add: eq demo_simps )
qed

text \<open>A branch of the run: the Agent is paused.\<close>

definition op_pause :: kernel_op where
  "op_pause = OpSetAgentStatus ''ws1'' ''ag1'' AgPaused (demo_command SetAgentStatus 1) ''0x''"
definition st_paused :: kstate where "st_paused = after_op op_pause st3"

lemma pause_run: "exec demo op_pause st3 0 st3 = Inr st_paused"
  unfolding st_paused_def
  by (rule after_opI) (simp add: op_pause_def state_of_def setAgentStatus_def authorizeWorkspaceCommand_def
      command_nonce_def demo_command_def demo_ws_def demo_agent_def log_event_def demo_simps)

definition demo_path :: path where
  "demo_path = \<lparr>pa_version = ''openrails-path-v1'', pa_pathId = ''pa1'', pa_workspaceId = ''ws1'',
     pa_owner = addr (CHR ''a''), pa_authorityAccount = addr (CHR ''a''), pa_authorizedAgentIds = [''ag1''],
     pa_permittedActions = [''prepare_railsflow''], pa_permittedAssets = [addr (CHR ''e'')],
     pa_permittedCounterparties = None, pa_identityRequirements = [],
     pa_approvedVerificationPlugins = [\<lparr>pr_pluginId = ''plug'', pr_version = ''1.0.0''\<rparr>],
     pa_limits = \<lparr>pl_maxPerPactBaseUnits = ''9'', pl_maxActiveExposureBaseUnits = ''9'', pl_maxPerPeriodBaseUnits = ''9'',
       pl_periodSeconds = 60, pl_maxVelocityBaseUnitsPerSecond = ''9'', pl_maxDurationSeconds = 100,
       pl_maxConcurrentPacts = 5\<rparr>,
     pa_authorityMode = Prepare, pa_validFrom = ''t0'', pa_expiresAt = ''t9'', pa_status = PathActive,
     pa_revision = 1, pa_previousPathHash = None, pa_createdAt = ''t0'', pa_updatedAt = ''t0''\<rparr>"

text \<open>The typed data of a successful envelope.\<close>

definition envelope_of :: "typed_data result \<Rightarrow> typed_data" where
  "envelope_of r = (case r of Inl _ \<Rightarrow> envelope [] [] [] | Inr td \<Rightarrow> td)"

definition demo_signed_path :: "path signed_artifact" where
  "demo_signed_path = \<lparr>sg_artifact = demo_path, sg_hash = zero_hash,
     sg_typedData = envelope_of (pathTypedData demo demo_path), sg_signer = addr (CHR ''a''),
     sg_signature = ''0x'', sg_signedAt = ''t0''\<rparr>"

lemma demo_path_json: "serializable (path_json demo_path)"
  by (simp add: demo_path_def path_json_def str_arr_def opt_field_def path_limits_json_def)

lemma demo_path_fields [demo_simps]: "pa_pathId demo_path = ''pa1''" "pa_authorityAccount demo_path = addr (CHR ''a'')"
  "pa_authorizedAgentIds demo_path = [''ag1'']"
  by (simp_all add: demo_path_def)

definition op4 :: kernel_op where "op4 = OpActivatePath demo_path ''0x''"
definition st4 :: kstate where "st4 = after_op op4 st3"

lemma st4_run: "exec demo op4 st3 0 st3 = Inr st4"
  unfolding st4_def
  by (rule after_opI) (simp add: op4_def state_of_def activatePath_def demo_path_def demo_ws_def demo_agent_def agent_active_in_def path_succession_def demo_simps)

lemma st4_reachable: "reachable demo st4"
  by (rule reachable_after [OF st3_reachable st4_run])

lemma st4_fields [demo_simps]:
  "workspaces st4 = [(''ws1'', demo_ws)]"
  "agents st4 = [(''ag1'', demo_agent\<lparr>ag_assignedPathIds := [''pa1'']\<rparr>)]"
  "paths st4 = [(''pa1'', demo_signed_path)]"
  "plugins st4 = [(''plug@1.0.0'', demo_manifest)]"
  "proposals st4 = []"
  "pacts st4 = []"
  "pactSignatures st4 = []"
  "pactEvents st4 = []"
  "checkpoints st4 = []"
  "workspaceCommandNonces st4 = [(''ws1'', 1)]"
  "idempotency st4 = []"
  "jobs st4 = []"
  "gaiaCases st4 = []"
  "decisions st4 = []"
proof -
  from st4_run obtain r where r: "activatePath demo st3 demo_path ''0x'' 0 = Inr (st4, r)"
    by (auto simp: op4_def state_of_Inr)
  obtain e where eq: "st4 = st3\<lparr>paths := oset ''pa1'' demo_signed_path (paths st3),
      agents := assign_path ''pa1'' [''ag1''] (agents st3), events := e\<rparr>"
    using r by (elim activatePath_Inr) (auto simp: demo_signed_path_def envelope_of_def demo_hash demo_path_json demo_fields demo_path_fields simp del: assign_path.simps)
  show
  "workspaces st4 = [(''ws1'', demo_ws)]"
  "agents st4 = [(''ag1'', demo_agent\<lparr>ag_assignedPathIds := [''pa1'']\<rparr>)]"
  "paths st4 = [(''pa1'', demo_signed_path)]"
  "plugins st4 = [(''plug@1.0.0'', demo_manifest)]"
  "proposals st4 = []"
  "pacts st4 = []"
  "pactSignatures st4 = []"
  "pactEvents st4 = []"
  "checkpoints st4 = []"
  "workspaceCommandNonces st4 = [(''ws1'', 1)]"
  "idempotency st4 = []"
  "jobs st4 = []"
  "gaiaCases st4 = []"
  "decisions st4 = []"
    by (simp_all add: eq demo_simps demo_agent_def)
qed

definition demo_proposal :: proposal where
  "demo_proposal = \<lparr>pp_version = ''openrails-agent-proposal-v1'', pp_proposalId = ''pp1'', pp_workspaceId = ''ws1'',
     pp_pathId = ''pa1'', pp_agentId = ''ag1'', pp_actionType = ''prepare_railsflow'',
     pp_counterparty = Some (addr (CHR ''b'')), pp_asset = addr (CHR ''e''),
     pp_requestedAllocationBaseUnits = ''5'', pp_requestedVelocityBaseUnitsPerSecond = ''1'',
     pp_requestedDurationSeconds = 5, pp_specification = [], pp_evidencePolicyId = ''plug'',
     pp_requestedAt = ''t0'', pp_idempotencyKey = ''key''\<rparr>"

lemma demo_proposal_json [demo_simps]: "hashCanonical demo (proposal_json demo_proposal) = Inr zero_hash"
  by (rule demo_hash) (simp add: demo_proposal_def proposal_json_def opt_field_def)

lemma demo_proposal_ok [demo_simps]: "assertProposal demo demo_proposal = Inr ()"
  by (simp add: assertProposal_def demo_proposal_def demo_simps)

definition demo_job :: job where
  "demo_job = new_job ''job_0000000000000000'' demo_proposal ''t0''"

lemma demo_key [demo_simps]: "idempotency_key demo_proposal = ''ws1:proposal:key''"
  by (simp add: idempotency_key_def demo_proposal_def)

lemma demo_proposal_id [demo_simps]: "pp_proposalId demo_proposal = ''pp1''"
  by (simp add: demo_proposal_def)

definition op5 :: kernel_op where "op5 = OpSubmitProposal demo_proposal"
definition st5 :: kstate where "st5 = after_op op5 st4"

lemma st5_run: "exec demo op5 st4 0 st4 = Inr st5"
  unfolding st5_def
  by (rule after_opI) (simp add: op5_def state_of_def submitProposal_def demo_simps)

lemma st5_reachable: "reachable demo st5"
  by (rule reachable_after [OF st4_reachable st5_run])

lemma st5_fields [demo_simps]:
  "workspaces st5 = [(''ws1'', demo_ws)]"
  "agents st5 = [(''ag1'', demo_agent\<lparr>ag_assignedPathIds := [''pa1'']\<rparr>)]"
  "paths st5 = [(''pa1'', demo_signed_path)]"
  "plugins st5 = [(''plug@1.0.0'', demo_manifest)]"
  "proposals st5 = [(''pp1'', demo_proposal)]"
  "pacts st5 = []"
  "pactSignatures st5 = []"
  "pactEvents st5 = []"
  "checkpoints st5 = []"
  "workspaceCommandNonces st5 = [(''ws1'', 1)]"
  "idempotency st5 = [(''ws1:proposal:key'', \<lparr>id_fingerprint = zero_hash,
     id_result = [(''proposalId'', JStr ''pp1''), (''jobId'', JStr ''job_0000000000000000'')]\<rparr>)]"
  "jobs st5 = [(''job_0000000000000000'', demo_job)]"
  "gaiaCases st5 = []"
  "decisions st5 = []"
proof -
  from st5_run obtain q j where r: "submitProposal demo st4 demo_proposal 0 = Inr (st5, q, j)"
    by (auto simp: op5_def state_of_Inr)
  obtain e where eq: "st5 = st4\<lparr>proposals := oset ''pp1'' demo_proposal (proposals st4),
      jobs := oset ''job_0000000000000000'' demo_job (jobs st4),
      idempotency := oset ''ws1:proposal:key'' \<lparr>id_fingerprint = zero_hash,
     id_result = [(''proposalId'', JStr ''pp1''), (''jobId'', JStr ''job_0000000000000000'')]\<rparr> (idempotency st4),
      events := e\<rparr>"
    using r by (elim submitProposal_Inr) (auto simp: demo_simps demo_job_def)
  show
  "workspaces st5 = [(''ws1'', demo_ws)]"
  "agents st5 = [(''ag1'', demo_agent\<lparr>ag_assignedPathIds := [''pa1'']\<rparr>)]"
  "paths st5 = [(''pa1'', demo_signed_path)]"
  "plugins st5 = [(''plug@1.0.0'', demo_manifest)]"
  "proposals st5 = [(''pp1'', demo_proposal)]"
  "pacts st5 = []"
  "pactSignatures st5 = []"
  "pactEvents st5 = []"
  "checkpoints st5 = []"
  "workspaceCommandNonces st5 = [(''ws1'', 1)]"
  "idempotency st5 = [(''ws1:proposal:key'', \<lparr>id_fingerprint = zero_hash,
     id_result = [(''proposalId'', JStr ''pp1''), (''jobId'', JStr ''job_0000000000000000'')]\<rparr>)]"
  "jobs st5 = [(''job_0000000000000000'', demo_job)]"
  "gaiaCases st5 = []"
  "decisions st5 = []"
    by (simp_all add: eq demo_simps )
qed

section \<open>The Pact\<close>

definition demo_input :: pact_input where
  "demo_input = \<lparr>pi_proposalId = ''pp1'', pi_pactId = ''pc1'', pi_commercialTerms = [],
     pi_completionPolicyId = ''cp'', pi_disputePolicyId = ''dp'', pi_requiresCounterpartySignature = None\<rparr>"

definition demo_pact :: pact where
  "demo_pact = \<lparr>pc_version = ''openrails-pact-v1'', pc_pactId = ''pc1'', pc_workspaceId = ''ws1'', pc_pathId = ''pa1'',
     pc_pathRevision = 1, pc_pathHash = zero_hash, pc_proposalId = ''pp1'', pc_proposalHash = zero_hash,
     pc_decisionId = ''decision_0000000000000000'', pc_decisionHash = zero_hash, pc_termsHash = zero_hash,
     pc_initiator = addr (CHR ''a''), pc_agentId = ''ag1'', pc_counterparty = addr (CHR ''b''),
     pc_actionType = ''prepare_railsflow'', pc_specification = [], pc_commercialTerms = [],
     pc_paymentTerms = \<lparr>pt_chainId = giwa_chainId, pt_vault = giwa_vaultAddress, pt_token = addr (CHR ''e''),
       pt_payer = addr (CHR ''a''), pt_recipient = addr (CHR ''b''), pt_maximumAllocationBaseUnits = ''5'',
       pt_velocityBaseUnitsPerSecond = ''1'', pt_lifespanSeconds = 5, pt_residualRecipient = addr (CHR ''a'')\<rparr>,
     pc_evidencePolicyId = ''plug'', pc_evidencePolicyVersion = ''1.0.0'', pc_evidencePolicyCodeDigest = zero_hash,
     pc_completionPolicyId = ''cp'', pc_disputePolicyId = ''dp'', pc_requiresCounterpartySignature = True,
     pc_status = PactAwaitingSignatures, pc_revision = 1, pc_openRails = None, pc_createdAt = ''t0'',
     pc_updatedAt = ''t0''\<rparr>"

lemma vault_ok [demo_simps]: "assertAddress giwa_vaultAddress l = Inr ()"
  by (simp add: assertAddress_def hex_of_length_def giwa_vaultAddress_def is_hex_digit_def is_digit_def code_in_def)

lemma pact_terms_json [demo_simps]: "serializable (pactTermsProjection (p\<lparr>pc_specification := [], pc_commercialTerms := []\<rparr>))"
  by (simp add: pactTermsProjection_def payment_terms_json_def)

lemma demo_terms [demo_simps]: "pactTermsHash demo demo_pact = Inr zero_hash"
  unfolding pactTermsHash_def
  by (rule demo_hash) (simp add: pactTermsProjection_def payment_terms_json_def demo_pact_def)

lemma demo_pact_ok [demo_simps]: "assertPact demo demo_pact = Inr ()"
  by (simp add: assertPact_def assertPactTermsIntegrity_def demo_simps) (simp add: demo_pact_def demo_simps)

text \<open>The proposal is inside the Path.\<close>

lemma zero_text: "int_str 0 = ''0''"
  by code_simp

lemma demo_reasons:
  "collect_reasons demo st5 demo_proposal 0 =
     Inr ([], \<lparr>sn_activeExposureBaseUnits = ''0'', sn_periodSpentBaseUnits = ''0'', sn_activePacts = 0\<rparr>, None)"
proof -
  have r: "registration_reasons st5 demo_proposal (Some demo_action) = []"
    by (simp add: registration_reasons_def demo_simps demo_proposal_def demo_ws_def demo_agent_def
        demo_action_def mk_action_def)
  have a: "get_action (actionRegistry demo) (pp_actionType demo_proposal) = Some demo_action"
    by (simp add: get_action_def demo_simps demo_proposal_def)
  have b: "path_block demo st5 demo_proposal (Some demo_action) demo_path 0 =
     Inr ([], \<lparr>sn_activeExposureBaseUnits = ''0'', sn_periodSpentBaseUnits = ''0'', sn_activePacts = 0\<rparr>, None)"
    by (simp add: path_block_def demo_simps activeExposure_def activePactsForPath_def periodSpent_def
        zero_text authority_reasons_def amount_reasons_def passes_def
        limit_reasons_def proposal_allocation_def proposal_velocity_def parsed_or_zero_def
        counterparty_reasons_def identity_reasons_def demo_path_def demo_proposal_def push_if_def
        demo_action_def mk_action_def authorityModeSatisfies_def approvedPlugin_def)
  have p: "oget (paths st5) (pp_pathId demo_proposal) = Some demo_signed_path"
    by (simp add: demo_simps demo_proposal_def)
  show ?thesis by (simp add: collect_reasons_def a r p b) (simp add: demo_signed_path_def b)
qed

lemma demo_allowed:
  "\<exists>d. evaluateProposal demo st5 demo_proposal 0 = Inr (d, None) \<and> de_result d = ALLOW \<and>
     de_decisionId d = ''decision_0000000000000000'' \<and> de_decisionHash d = zero_hash \<and>
     de_pathHash d = zero_hash \<and> de_proposalHash d = zero_hash"
proof -
  have p: "oget (paths st5) (pp_pathId demo_proposal) = Some demo_signed_path"
    by (simp add: demo_simps demo_proposal_def)
  have e: "hashCanonical demo (evidence_json demo_proposal None sn) = Inr zero_hash" for sn
    by (rule demo_hash) (simp add: evidence_json_def opt_field_def proposal_json_def snapshot_json_def demo_proposal_def)
  have c: "serializable (decision_core pr h1 h2 r rs sn h3 t)" for pr h1 h2 r rs sn h3 t
    by (simp add: decision_core_def reasons_json_def str_arr_def snapshot_json_def list_all_iff)
  show ?thesis
    by (simp add: evaluateProposal_def demo_reasons e demo_proposal_json p demo_id demo_hash c demo_fields)
       (simp add: demo_signed_path_def)
qed

definition op6 :: kernel_op where "op6 = OpCreatePact demo_input"
definition st6 :: kstate where "st6 = after_op op6 st5"

lemma op6_result:
  "\<exists>ds es. createPactFromProposal demo st5 demo_input 0 = Inr (st5\<lparr>decisions := ds,
     pacts := [(''pc1'', demo_pact)], pactSignatures := [(''pc1'', [])], pactEvents := es\<rparr>, demo_pact)"
proof -
  obtain d where d: "evaluateProposal demo st5 demo_proposal 0 = Inr (d, None)" "de_result d = ALLOW"
     "de_decisionId d = ''decision_0000000000000000''" "de_decisionHash d = zero_hash"
     "de_pathHash d = zero_hash" "de_proposalHash d = zero_hash"
    using demo_allowed by blast
  have pl: "pact_plugin demo (st5\<lparr>decisions := ds\<rparr>) demo_ws demo_path demo_proposal
      = Inr (\<lparr>pr_pluginId = ''plug'', pr_version = ''1.0.0''\<rparr>, demo_manifest)" for ds
    by (simp add: pact_plugin_def demo_path_def demo_proposal_def demo_simps plugin_key_def demo_manifest_def demo_ws_def)
  have dr: "draft_pact demo_input demo_proposal (addr (CHR ''b'')) zero_hash d demo_signed_path demo_ws
      \<lparr>pr_pluginId = ''plug'', pr_version = ''1.0.0''\<rparr> demo_manifest ''t0'' = demo_pact\<lparr>pc_termsHash := zero_hash\<rparr>"
    by (simp add: draft_pact_def demo_input_def demo_proposal_def demo_signed_path_def demo_path_def demo_ws_def
        demo_manifest_def d demo_pact_def)
  have th: "demo_pact\<lparr>pc_termsHash := zero_hash\<rparr> = demo_pact" by (simp add: demo_pact_def)
  have pp: "pp_counterparty demo_proposal = Some (addr (CHR ''b''))" "pp_workspaceId demo_proposal = ''ws1''"
    "pp_agentId demo_proposal = ''ag1''" "pp_pathId demo_proposal = ''pa1''"
    by (simp_all add: demo_proposal_def)
  have ip: "pi_proposalId demo_input = ''pp1''" "pi_pactId demo_input = ''pc1''" by (simp_all add: demo_input_def)
  have w: "ws_status demo_ws = WsActive" "ws_workspaceId demo_ws = ''ws1''"
    "ag_workspaceId demo_agent = ''ws1''" "ag_status demo_agent = AgActive" "sg_artifact demo_signed_path = demo_path"
    "sg_hash demo_signed_path = zero_hash" by (simp_all add: demo_ws_def demo_agent_def demo_signed_path_def)
  show ?thesis
    by (simp add: createPactFromProposal_def demo_simps pp ip w d pl dr th set_pact_def log_pact_event_def)
       (intro exI, rule refl)
qed

lemma st6_run: "exec demo op6 st5 0 st5 = Inr st6"
  unfolding st6_def by (rule after_opI) (use op6_result in \<open>auto simp: op6_def state_of_def\<close>)

lemma st6_reachable: "reachable demo st6"
  by (rule reachable_after [OF st5_reachable st6_run])

lemma st6_fields [demo_simps]:
  "workspaces st6 = [(''ws1'', demo_ws)]"
  "agents st6 = [(''ag1'', demo_agent\<lparr>ag_assignedPathIds := [''pa1'']\<rparr>)]"
  "paths st6 = [(''pa1'', demo_signed_path)]"
  "plugins st6 = [(''plug@1.0.0'', demo_manifest)]"
  "proposals st6 = [(''pp1'', demo_proposal)]"
  "pacts st6 = [(''pc1'', demo_pact)]"
  "pactSignatures st6 = [(''pc1'', [])]"
  "checkpoints st6 = []"
  "workspaceCommandNonces st6 = [(''ws1'', 1)]"
  "jobs st6 = [(''job_0000000000000000'', demo_job)]"
  "gaiaCases st6 = []"
proof -
  from op6_result obtain ds es where c: "createPactFromProposal demo st5 demo_input 0 = Inr (st5\<lparr>decisions := ds, pacts := [(''pc1'', demo_pact)], pactSignatures := [(''pc1'', [])], pactEvents := es\<rparr>, demo_pact)" by blast
  from st6_run c have eq: "st6 = st5\<lparr>decisions := ds, pacts := [(''pc1'', demo_pact)], pactSignatures := [(''pc1'', [])], pactEvents := es\<rparr>" by (simp add: op6_def state_of_def)
  show
  "workspaces st6 = [(''ws1'', demo_ws)]"
  "agents st6 = [(''ag1'', demo_agent\<lparr>ag_assignedPathIds := [''pa1'']\<rparr>)]"
  "paths st6 = [(''pa1'', demo_signed_path)]"
  "plugins st6 = [(''plug@1.0.0'', demo_manifest)]"
  "proposals st6 = [(''pp1'', demo_proposal)]"
  "pacts st6 = [(''pc1'', demo_pact)]"
  "pactSignatures st6 = [(''pc1'', [])]"
  "checkpoints st6 = []"
  "workspaceCommandNonces st6 = [(''ws1'', 1)]"
  "jobs st6 = [(''job_0000000000000000'', demo_job)]"
  "gaiaCases st6 = []"
    by (simp_all add: eq demo_simps )
qed

lemma demo_pact_fields [demo_simps]:
  "pc_pactId demo_pact = ''pc1''" "pc_workspaceId demo_pact = ''ws1''" "pc_agentId demo_pact = ''ag1''"
  "pc_pathId demo_pact = ''pa1''" "pc_pathHash demo_pact = zero_hash" "pc_pathRevision demo_pact = 1"
  "pc_actionType demo_pact = ''prepare_railsflow''" "pc_counterparty demo_pact = addr (CHR ''b'')"
  "pc_status demo_pact = PactAwaitingSignatures" "pc_termsHash demo_pact = zero_hash" "pc_revision demo_pact = 1"
  "pc_requiresCounterpartySignature demo_pact = True" "pc_openRails demo_pact = None"
  "pc_evidencePolicyId demo_pact = ''plug''" "pc_evidencePolicyVersion demo_pact = ''1.0.0''"
  "pc_evidencePolicyCodeDigest demo_pact = zero_hash" "pt_token (pc_paymentTerms demo_pact) = addr (CHR ''e'')"
  "pc_updatedAt demo_pact = ''t0''"
  by (simp_all add: demo_pact_def)

lemma demo_ws_fields [demo_simps]:
  "ws_authorityAccount demo_ws = addr (CHR ''a'')" "ws_status demo_ws = WsActive" "ws_workspaceId demo_ws = ''ws1''"
  "ws_revision demo_ws = 1"
  "ws_members demo_ws = [\<lparr>wm_address = addr (CHR ''a''), wm_roles = [Owner], wm_status = MemActive, wm_addedAt = ''t0''\<rparr>]"
  by (simp_all add: demo_ws_def)

lemma demo_agent_fields [demo_simps]:
  "ag_workspaceId demo_agent = ''ws1''" "ag_status demo_agent = AgActive" "ag_operator demo_agent = addr (CHR ''c'')"
  by (simp_all add: demo_agent_def)

definition demo_td :: typed_data where
  "demo_td = envelope_of (pactTypedData demo demo_pact)"

lemma demo_pact_typed [demo_simps]: "pactTypedData demo demo_pact = Inr demo_td"
  by (simp add: demo_td_def pactTypedData_def assertPactTermsIntegrity_def demo_simps envelope_of_def)

definition demo_sig :: "char \<Rightarrow> pact signed_artifact" where
  "demo_sig c = \<lparr>sg_artifact = demo_pact, sg_hash = zero_hash,
     sg_typedData = demo_td, sg_signer = addr c, sg_signature = ''0x'',
     sg_signedAt = ''t0''\<rparr>"

lemma demo_sig_fields [demo_simps]: "sg_signer (demo_sig c) = addr c" "sg_hash (demo_sig c) = zero_hash"
  by (simp_all add: demo_sig_def)

lemma signed_by_demo [demo_simps]: "signed_by a [] = False"
  "signed_by (addr c) (demo_sig d # l) = (lower (addr d) = lower (addr c) \<or> signed_by (addr c) l)"
  by (simp_all add: signed_by_def demo_sig_def)

definition op7 :: kernel_op where "op7 = OpSignPact ''pc1'' (addr (CHR ''a'')) ''0x''"
definition st7 :: kstate where "st7 = after_op op7 st6"

lemma op7_result:
  "\<exists>es. signPact demo st6 ''pc1'' (addr (CHR ''a'')) ''0x'' 0 = Inr (st6\<lparr>pactSignatures := [(''pc1'', [demo_sig (CHR ''a'')])], pactEvents := es\<rparr>, demo_sig (CHR ''a''))"
  by (simp add: signPact_def demo_simps pact_signatures_def demo_sig_def [symmetric] log_pact_event_def)
     (intro exI, rule refl)

lemma st7_run: "exec demo op7 st6 0 st6 = Inr st7"
  unfolding st7_def by (rule after_opI) (use op7_result in \<open>auto simp: op7_def state_of_def\<close>)

lemma st7_reachable: "reachable demo st7"
  by (rule reachable_after [OF st6_reachable st7_run])

lemma st7_fields [demo_simps]:
  "workspaces st7 = [(''ws1'', demo_ws)]"
  "agents st7 = [(''ag1'', demo_agent\<lparr>ag_assignedPathIds := [''pa1'']\<rparr>)]"
  "paths st7 = [(''pa1'', demo_signed_path)]"
  "plugins st7 = [(''plug@1.0.0'', demo_manifest)]"
  "proposals st7 = [(''pp1'', demo_proposal)]"
  "pacts st7 = [(''pc1'', demo_pact)]"
  "pactSignatures st7 = [(''pc1'', [demo_sig (CHR ''a'')])]"
  "checkpoints st7 = []"
  "workspaceCommandNonces st7 = [(''ws1'', 1)]"
  "jobs st7 = [(''job_0000000000000000'', demo_job)]"
  "gaiaCases st7 = []"
proof -
  from op7_result obtain es where c: "signPact demo st6 ''pc1'' (addr (CHR ''a'')) ''0x'' 0 = Inr (st6\<lparr>pactSignatures := [(''pc1'', [demo_sig (CHR ''a'')])], pactEvents := es\<rparr>, demo_sig (CHR ''a''))" by blast
  from st7_run c have eq: "st7 = st6\<lparr>pactSignatures := [(''pc1'', [demo_sig (CHR ''a'')])], pactEvents := es\<rparr>" by (simp add: op7_def state_of_def)
  show
  "workspaces st7 = [(''ws1'', demo_ws)]"
  "agents st7 = [(''ag1'', demo_agent\<lparr>ag_assignedPathIds := [''pa1'']\<rparr>)]"
  "paths st7 = [(''pa1'', demo_signed_path)]"
  "plugins st7 = [(''plug@1.0.0'', demo_manifest)]"
  "proposals st7 = [(''pp1'', demo_proposal)]"
  "pacts st7 = [(''pc1'', demo_pact)]"
  "pactSignatures st7 = [(''pc1'', [demo_sig (CHR ''a'')])]"
  "checkpoints st7 = []"
  "workspaceCommandNonces st7 = [(''ws1'', 1)]"
  "jobs st7 = [(''job_0000000000000000'', demo_job)]"
  "gaiaCases st7 = []"
    by (simp_all add: eq demo_simps )
qed

definition demo_accepted :: pact where
  "demo_accepted = demo_pact\<lparr>pc_status := PactAccepted, pc_revision := 2, pc_updatedAt := ''t0''\<rparr>"

definition op8 :: kernel_op where "op8 = OpSignPact ''pc1'' (addr (CHR ''b'')) ''0x''"
definition st8 :: kstate where "st8 = after_op op8 st7"

lemma op8_result:
  "\<exists>es. signPact demo st7 ''pc1'' (addr (CHR ''b'')) ''0x'' 0 = Inr (st7\<lparr>pactSignatures := [(''pc1'', [demo_sig (CHR ''a''), demo_sig (CHR ''b'')])], pacts := [(''pc1'', demo_accepted)], pactEvents := es\<rparr>, demo_sig (CHR ''b''))"
  by (simp add: signPact_def demo_simps pact_signatures_def demo_sig_def [symmetric] log_pact_event_def set_pact_def demo_accepted_def)
     (intro exI, rule refl)

lemma st8_run: "exec demo op8 st7 0 st7 = Inr st8"
  unfolding st8_def by (rule after_opI) (use op8_result in \<open>auto simp: op8_def state_of_def\<close>)

lemma st8_reachable: "reachable demo st8"
  by (rule reachable_after [OF st7_reachable st8_run])

lemma st8_fields [demo_simps]:
  "workspaces st8 = [(''ws1'', demo_ws)]"
  "agents st8 = [(''ag1'', demo_agent\<lparr>ag_assignedPathIds := [''pa1'']\<rparr>)]"
  "paths st8 = [(''pa1'', demo_signed_path)]"
  "plugins st8 = [(''plug@1.0.0'', demo_manifest)]"
  "proposals st8 = [(''pp1'', demo_proposal)]"
  "pacts st8 = [(''pc1'', demo_accepted)]"
  "pactSignatures st8 = [(''pc1'', [demo_sig (CHR ''a''), demo_sig (CHR ''b'')])]"
  "checkpoints st8 = []"
  "workspaceCommandNonces st8 = [(''ws1'', 1)]"
  "jobs st8 = [(''job_0000000000000000'', demo_job)]"
  "gaiaCases st8 = []"
proof -
  from op8_result obtain es where c: "signPact demo st7 ''pc1'' (addr (CHR ''b'')) ''0x'' 0 = Inr (st7\<lparr>pactSignatures := [(''pc1'', [demo_sig (CHR ''a''), demo_sig (CHR ''b'')])], pacts := [(''pc1'', demo_accepted)], pactEvents := es\<rparr>, demo_sig (CHR ''b''))" by blast
  from st8_run c have eq: "st8 = st7\<lparr>pactSignatures := [(''pc1'', [demo_sig (CHR ''a''), demo_sig (CHR ''b'')])], pacts := [(''pc1'', demo_accepted)], pactEvents := es\<rparr>" by (simp add: op8_def state_of_def)
  show
  "workspaces st8 = [(''ws1'', demo_ws)]"
  "agents st8 = [(''ag1'', demo_agent\<lparr>ag_assignedPathIds := [''pa1'']\<rparr>)]"
  "paths st8 = [(''pa1'', demo_signed_path)]"
  "plugins st8 = [(''plug@1.0.0'', demo_manifest)]"
  "proposals st8 = [(''pp1'', demo_proposal)]"
  "pacts st8 = [(''pc1'', demo_accepted)]"
  "pactSignatures st8 = [(''pc1'', [demo_sig (CHR ''a''), demo_sig (CHR ''b'')])]"
  "checkpoints st8 = []"
  "workspaceCommandNonces st8 = [(''ws1'', 1)]"
  "jobs st8 = [(''job_0000000000000000'', demo_job)]"
  "gaiaCases st8 = []"
    by (simp_all add: eq demo_simps )
qed

section \<open>Payment, performance, settlement\<close>

definition demo_bind :: "hex option \<Rightarrow> bind_input" where
  "demo_bind tx = \<lparr>bi_pactId = ''pc1'', bi_metadataHash = zero_hash, bi_paycardId = zero_hash,
     bi_actor = addr (CHR ''a''), bi_genesisTimestamp = Some 0, bi_nonceChannel = Some 0, bi_nonceValue = Some 0,
     bi_openingTxHash = tx\<rparr>"

definition demo_rails :: open_rails where
  "demo_rails = \<lparr>or_metadataHash = zero_hash, or_paycardId = zero_hash, or_genesisTimestamp = 0, or_nonceChannel = 0,
     or_nonceValue = 0, or_preparedAt = ''t0'', or_openingTxHash = None, or_openingObservation = None,
     or_settlements = Some []\<rparr>"

definition demo_prepared :: pact where
  "demo_prepared = demo_accepted\<lparr>pc_openRails := Some demo_rails, pc_status := PactPaymentPrepared,
     pc_revision := 3, pc_updatedAt := ''t0''\<rparr>"

lemma demo_signed_path_fields [demo_simps]: "sg_artifact demo_signed_path = demo_path" "sg_hash demo_signed_path = zero_hash"
  by (simp_all add: demo_signed_path_def)

lemma demo_accepted_fields [demo_simps]: "pc_status demo_accepted = PactAccepted" "pc_revision demo_accepted = 2"
  "pc_openRails demo_accepted = None"
  by (simp_all add: demo_accepted_def demo_simps)

lemma demo_prepared_fields [demo_simps]: "pc_status demo_prepared = PactPaymentPrepared" "pc_revision demo_prepared = 3"
  "pc_openRails demo_prepared = Some demo_rails"
  by (simp_all add: demo_prepared_def)

lemma demo_eligible:
  assumes "workspaces s = [(''ws1'', demo_ws)]" "agents s = [(''ag1'', demo_agent\<lparr>ag_assignedPathIds := [''pa1'']\<rparr>)]"
    "paths s = [(''pa1'', demo_signed_path)]"
  shows "assertPactExecutionEligible demo s demo_pact 0 = Inr demo_signed_path"
  using assms by (simp add: assertPactExecutionEligible_def demo_simps sameAddress_def)
    (simp add: demo_path_def demo_simps)

lemma eligible_update [demo_simps]:
  "assertPactExecutionEligible env s (p\<lparr>pc_status := a\<rparr>) n = assertPactExecutionEligible env s p n"
  "assertPactExecutionEligible env s (p\<lparr>pc_revision := b\<rparr>) n = assertPactExecutionEligible env s p n"
  "assertPactExecutionEligible env s (p\<lparr>pc_openRails := c\<rparr>) n = assertPactExecutionEligible env s p n"
  "assertPactExecutionEligible env s (p\<lparr>pc_updatedAt := d\<rparr>) n = assertPactExecutionEligible env s p n"
  by (simp_all add: assertPactExecutionEligible_def cong: option.case_cong)

lemma eligible8 [demo_simps]: "assertPactExecutionEligible demo st8 demo_accepted 0 = Inr demo_signed_path"
  unfolding demo_accepted_def by (simp add: demo_eligible demo_simps)

definition op9 :: kernel_op where "op9 = OpBindPayment (demo_bind None)"
definition st9 :: kstate where "st9 = after_op op9 st8"

lemma op9_result:
  "\<exists>es. bindOpenRailsPayment demo st8 st8 (demo_bind None) 0 = Inr (st8\<lparr>pacts := [(''pc1'', demo_prepared)], pactEvents := es\<rparr>, demo_prepared)"
  by (simp add: bindOpenRailsPayment_def bindPayment_prepare_def demo_bind_def nonneg_safe_def demo_simps log_pact_event_def set_pact_def demo_prepared_def demo_rails_def)
     (intro exI, rule refl)

lemma st9_run: "exec demo op9 st8 0 st8 = Inr st9"
  unfolding st9_def by (rule after_opI) (use op9_result in \<open>auto simp: op9_def state_of_def\<close>)

lemma st9_reachable: "reachable demo st9"
  by (rule reachable_after [OF st8_reachable st9_run])

lemma st9_fields [demo_simps]:
  "workspaces st9 = [(''ws1'', demo_ws)]"
  "agents st9 = [(''ag1'', demo_agent\<lparr>ag_assignedPathIds := [''pa1'']\<rparr>)]"
  "paths st9 = [(''pa1'', demo_signed_path)]"
  "plugins st9 = [(''plug@1.0.0'', demo_manifest)]"
  "proposals st9 = [(''pp1'', demo_proposal)]"
  "pacts st9 = [(''pc1'', demo_prepared)]"
  "pactSignatures st9 = [(''pc1'', [demo_sig (CHR ''a''), demo_sig (CHR ''b'')])]"
  "checkpoints st9 = []"
  "workspaceCommandNonces st9 = [(''ws1'', 1)]"
  "jobs st9 = [(''job_0000000000000000'', demo_job)]"
  "gaiaCases st9 = []"
proof -
  from op9_result obtain es where c: "bindOpenRailsPayment demo st8 st8 (demo_bind None) 0 = Inr (st8\<lparr>pacts := [(''pc1'', demo_prepared)], pactEvents := es\<rparr>, demo_prepared)" by blast
  from st9_run c have eq: "st9 = st8\<lparr>pacts := [(''pc1'', demo_prepared)], pactEvents := es\<rparr>" by (simp add: op9_def state_of_def)
  show
  "workspaces st9 = [(''ws1'', demo_ws)]"
  "agents st9 = [(''ag1'', demo_agent\<lparr>ag_assignedPathIds := [''pa1'']\<rparr>)]"
  "paths st9 = [(''pa1'', demo_signed_path)]"
  "plugins st9 = [(''plug@1.0.0'', demo_manifest)]"
  "proposals st9 = [(''pp1'', demo_proposal)]"
  "pacts st9 = [(''pc1'', demo_prepared)]"
  "pactSignatures st9 = [(''pc1'', [demo_sig (CHR ''a''), demo_sig (CHR ''b'')])]"
  "checkpoints st9 = []"
  "workspaceCommandNonces st9 = [(''ws1'', 1)]"
  "jobs st9 = [(''job_0000000000000000'', demo_job)]"
  "gaiaCases st9 = []"
    by (simp_all add: eq demo_simps )
qed

definition demo_active :: pact where
  "demo_active = demo_prepared\<lparr>pc_openRails := Some (demo_rails\<lparr>or_openingTxHash := Some zero_hash,
       or_openingObservation := Some (demo_opening demo_prepared zero_hash zero_hash zero_hash)\<rparr>),
     pc_status := PactActive, pc_revision := 4, pc_updatedAt := ''t0''\<rparr>"

lemma demo_rails_fields [demo_simps]: "or_metadataHash demo_rails = zero_hash" "or_paycardId demo_rails = zero_hash"
  "or_openingObservation demo_rails = None" "or_settlements demo_rails = Some []"
  by (simp_all add: demo_rails_def)

lemma demo_opening_ok [demo_simps]:
  "assertOpeningObservationMatchesPact demo_prepared zero_hash zero_hash zero_hash
     (demo_opening demo_prepared zero_hash zero_hash zero_hash) = Inr ()"
  by (simp add: assertOpeningObservationMatchesPact_def demo_opening_def demo_simps)

lemma eligible9 [demo_simps]: "assertPactExecutionEligible demo st9 demo_prepared 0 = Inr demo_signed_path"
  unfolding demo_prepared_def demo_accepted_def by (simp add: demo_eligible demo_simps)

definition op10 :: kernel_op where "op10 = OpBindPayment (demo_bind (Some zero_hash))"
definition st10 :: kstate where "st10 = after_op op10 st9"

lemma op10_result:
  "\<exists>es. bindOpenRailsPayment demo st9 st9 (demo_bind (Some zero_hash)) 0 = Inr (st9\<lparr>pacts := [(''pc1'', demo_active)], pactEvents := es\<rparr>, demo_active)"
  by (simp add: bindOpenRailsPayment_def bindPayment_observe_def bindPayment_open_def demo_bind_def demo_simps log_pact_event_def set_pact_def demo_active_def)
     (intro exI, rule refl)

lemma st10_run: "exec demo op10 st9 0 st9 = Inr st10"
  unfolding st10_def by (rule after_opI) (use op10_result in \<open>auto simp: op10_def state_of_def\<close>)

lemma st10_reachable: "reachable demo st10"
  by (rule reachable_after [OF st9_reachable st10_run])

lemma st10_fields [demo_simps]:
  "workspaces st10 = [(''ws1'', demo_ws)]"
  "agents st10 = [(''ag1'', demo_agent\<lparr>ag_assignedPathIds := [''pa1'']\<rparr>)]"
  "paths st10 = [(''pa1'', demo_signed_path)]"
  "plugins st10 = [(''plug@1.0.0'', demo_manifest)]"
  "proposals st10 = [(''pp1'', demo_proposal)]"
  "pacts st10 = [(''pc1'', demo_active)]"
  "pactSignatures st10 = [(''pc1'', [demo_sig (CHR ''a''), demo_sig (CHR ''b'')])]"
  "checkpoints st10 = []"
  "workspaceCommandNonces st10 = [(''ws1'', 1)]"
  "jobs st10 = [(''job_0000000000000000'', demo_job)]"
  "gaiaCases st10 = []"
proof -
  from op10_result obtain es where c: "bindOpenRailsPayment demo st9 st9 (demo_bind (Some zero_hash)) 0 = Inr (st9\<lparr>pacts := [(''pc1'', demo_active)], pactEvents := es\<rparr>, demo_active)" by blast
  from st10_run c have eq: "st10 = st9\<lparr>pacts := [(''pc1'', demo_active)], pactEvents := es\<rparr>" by (simp add: op10_def state_of_def)
  show
  "workspaces st10 = [(''ws1'', demo_ws)]"
  "agents st10 = [(''ag1'', demo_agent\<lparr>ag_assignedPathIds := [''pa1'']\<rparr>)]"
  "paths st10 = [(''pa1'', demo_signed_path)]"
  "plugins st10 = [(''plug@1.0.0'', demo_manifest)]"
  "proposals st10 = [(''pp1'', demo_proposal)]"
  "pacts st10 = [(''pc1'', demo_active)]"
  "pactSignatures st10 = [(''pc1'', [demo_sig (CHR ''a''), demo_sig (CHR ''b'')])]"
  "checkpoints st10 = []"
  "workspaceCommandNonces st10 = [(''ws1'', 1)]"
  "jobs st10 = [(''job_0000000000000000'', demo_job)]"
  "gaiaCases st10 = []"
    by (simp_all add: eq demo_simps )
qed

definition demo_checkpoint :: checkpoint where
  "demo_checkpoint = \<lparr>ck_version = ''openrails-execution-checkpoint-v1'', ck_checkpointId = ''ck1'',
     ck_workspaceId = ''ws1'', ck_pactId = ''pc1'', ck_pathId = ''pa1'', ck_paycardId = Some zero_hash,
     ck_termsHash = zero_hash, ck_actor = addr (CHR ''b''), ck_counterparty = addr (CHR ''b''),
     ck_checkpointIndex = 1, ck_checkpointType = CkCompleted, ck_evidenceType = ''doc'', ck_evidenceHash = zero_hash,
     ck_sourceCommitmentHash = None, ck_evidenceUri = None, ck_units = None, ck_observedAt = ''t0'',
     ck_validUntil = ''t9'', ck_submittedBy = addr (CHR ''b''), ck_signature = ''0x''\<rparr>"

definition demo_performing :: pact where
  "demo_performing = demo_active\<lparr>pc_status := PactPerforming, pc_revision := 5, pc_updatedAt := ''t0''\<rparr>"

lemma demo_active_fields [demo_simps]: "pc_status demo_active = PactActive" "pc_revision demo_active = 4"
  "pc_openRails demo_active = Some (demo_rails\<lparr>or_openingTxHash := Some zero_hash,
       or_openingObservation := Some (demo_opening demo_prepared zero_hash zero_hash zero_hash)\<rparr>)"
  "pc_workspaceId demo_active = ''ws1''" "pc_agentId demo_active = ''ag1''" "pc_pathId demo_active = ''pa1''"
  "pc_termsHash demo_active = zero_hash" "pc_counterparty demo_active = addr (CHR ''b'')"
  "assertPact demo demo_active = Inr ()" "pc_pactId demo_active = ''pc1''"
  "pc_evidencePolicyId demo_active = ''plug''" "pc_evidencePolicyVersion demo_active = ''1.0.0''"
  "pc_evidencePolicyCodeDigest demo_active = zero_hash"
  by (simp_all add: demo_active_def demo_prepared_def demo_accepted_def demo_simps)

definition op11 :: kernel_op where "op11 = OpSubmitCheckpoint demo_checkpoint"
definition st11 :: kstate where "st11 = after_op op11 st10"

lemma op11_result:
  "\<exists>es. submitCheckpoint demo st10 demo_checkpoint 0 = Inr (st10\<lparr>checkpoints := [(''ck1'', demo_checkpoint)], pacts := [(''pc1'', demo_performing)], pactEvents := es\<rparr>, demo_checkpoint)"
  by (simp add: submitCheckpoint_def checkpoint_precheck_def demo_checkpoint_def demo_simps bound_paycard_def checkpoint_index_def checkpointTypedData_def unsigned_checkpoint_json_def log_pact_event_def set_pact_def demo_performing_def)
     (intro exI, rule refl)

lemma st11_run: "exec demo op11 st10 0 st10 = Inr st11"
  unfolding st11_def by (rule after_opI) (use op11_result in \<open>auto simp: op11_def state_of_def\<close>)

lemma st11_reachable: "reachable demo st11"
  by (rule reachable_after [OF st10_reachable st11_run])

lemma st11_fields [demo_simps]:
  "workspaces st11 = [(''ws1'', demo_ws)]"
  "agents st11 = [(''ag1'', demo_agent\<lparr>ag_assignedPathIds := [''pa1'']\<rparr>)]"
  "paths st11 = [(''pa1'', demo_signed_path)]"
  "plugins st11 = [(''plug@1.0.0'', demo_manifest)]"
  "proposals st11 = [(''pp1'', demo_proposal)]"
  "pacts st11 = [(''pc1'', demo_performing)]"
  "pactSignatures st11 = [(''pc1'', [demo_sig (CHR ''a''), demo_sig (CHR ''b'')])]"
  "checkpoints st11 = [(''ck1'', demo_checkpoint)]"
  "workspaceCommandNonces st11 = [(''ws1'', 1)]"
  "jobs st11 = [(''job_0000000000000000'', demo_job)]"
  "gaiaCases st11 = []"
proof -
  from op11_result obtain es where c: "submitCheckpoint demo st10 demo_checkpoint 0 = Inr (st10\<lparr>checkpoints := [(''ck1'', demo_checkpoint)], pacts := [(''pc1'', demo_performing)], pactEvents := es\<rparr>, demo_checkpoint)" by blast
  from st11_run c have eq: "st11 = st10\<lparr>checkpoints := [(''ck1'', demo_checkpoint)], pacts := [(''pc1'', demo_performing)], pactEvents := es\<rparr>" by (simp add: op11_def state_of_def)
  show
  "workspaces st11 = [(''ws1'', demo_ws)]"
  "agents st11 = [(''ag1'', demo_agent\<lparr>ag_assignedPathIds := [''pa1'']\<rparr>)]"
  "paths st11 = [(''pa1'', demo_signed_path)]"
  "plugins st11 = [(''plug@1.0.0'', demo_manifest)]"
  "proposals st11 = [(''pp1'', demo_proposal)]"
  "pacts st11 = [(''pc1'', demo_performing)]"
  "pactSignatures st11 = [(''pc1'', [demo_sig (CHR ''a''), demo_sig (CHR ''b'')])]"
  "checkpoints st11 = [(''ck1'', demo_checkpoint)]"
  "workspaceCommandNonces st11 = [(''ws1'', 1)]"
  "jobs st11 = [(''job_0000000000000000'', demo_job)]"
  "gaiaCases st11 = []"
    by (simp_all add: eq demo_simps )
qed

definition demo_completed :: pact where
  "demo_completed = demo_performing\<lparr>pc_status := PactCompleted, pc_revision := 6, pc_updatedAt := ''t0''\<rparr>"

definition demo_verdict :: verification_decision where
  "demo_verdict = \<lparr>vd_version = ''openrails-verification-decision-v1'', vd_decisionId = ''verify_0000000000000000'',
     vd_workspaceId = ''ws1'', vd_pactId = ''pc1'', vd_checkpointId = ''ck1'', vd_pluginId = ''plug'',
     vd_pluginVersion = ''1.0.0'', vd_decision = Approved, vd_reasonCodes = [''OK''], vd_evidenceHash = zero_hash,
     vd_sourceCommitmentHash = None, vd_decisionHash = zero_hash, vd_evaluatedAt = ''t0'', vd_validUntil = None\<rparr>"

lemma demo_performing_fields [demo_simps]: "pc_status demo_performing = PactPerforming" "pc_revision demo_performing = 5"
  "pc_openRails demo_performing = Some (demo_rails\<lparr>or_openingTxHash := Some zero_hash,
       or_openingObservation := Some (demo_opening demo_prepared zero_hash zero_hash zero_hash)\<rparr>)"
  "pc_evidencePolicyId demo_performing = ''plug''" "pc_evidencePolicyVersion demo_performing = ''1.0.0''"
  "pc_evidencePolicyCodeDigest demo_performing = zero_hash" "assertPact demo demo_performing = Inr ()"
  "pc_paymentTerms demo_performing = pc_paymentTerms demo_pact" "pc_termsHash demo_performing = zero_hash"
  by (simp_all add: demo_performing_def demo_active_def demo_prepared_def demo_accepted_def demo_simps)

lemma demo_evaluate: "plugin_evaluate demo st11 demo_checkpoint ''plug'' ''1.0.0'' 0 = Inr demo_verdict"
  by (simp add: plugin_evaluate_def demo_simps plugin_key_def demo_manifest_def demo_checkpoint_def
      verification_core_def demo_verdict_def)

lemma demo_checkpoint_fields: "ck_pactId demo_checkpoint = ''pc1''" "ck_checkpointType demo_checkpoint = CkCompleted"
  by (simp_all add: demo_checkpoint_def)

lemma demo_manifest_fields: "mf_status demo_manifest = PlActive" "mf_codeDigest demo_manifest = zero_hash"
  by (simp_all add: demo_manifest_def)

definition op12 :: kernel_op where "op12 = OpVerifyCheckpoint ''ck1'' ''plug'' ''1.0.0''"
definition st12 :: kstate where "st12 = after_op op12 st11"

lemma op12_result:
  "\<exists>vs es. verifyCheckpoint demo st11 ''ck1'' ''plug'' ''1.0.0'' 0 = Inr (st11\<lparr>verificationDecisions := vs, pactEvents := es, pacts := [(''pc1'', demo_completed)]\<rparr>, demo_verdict)"
  by (simp add: verifyCheckpoint_def demo_evaluate demo_simps plugin_key_def log_pact_event_def set_pact_def verified_pact_def demo_completed_def demo_verdict_def demo_checkpoint_fields demo_manifest_fields)
     (intro exI, rule refl)

lemma st12_run: "exec demo op12 st11 0 st11 = Inr st12"
  unfolding st12_def by (rule after_opI) (use op12_result in \<open>auto simp: op12_def state_of_def\<close>)

lemma st12_reachable: "reachable demo st12"
  by (rule reachable_after [OF st11_reachable st12_run])

lemma st12_fields [demo_simps]:
  "workspaces st12 = [(''ws1'', demo_ws)]"
  "agents st12 = [(''ag1'', demo_agent\<lparr>ag_assignedPathIds := [''pa1'']\<rparr>)]"
  "paths st12 = [(''pa1'', demo_signed_path)]"
  "plugins st12 = [(''plug@1.0.0'', demo_manifest)]"
  "proposals st12 = [(''pp1'', demo_proposal)]"
  "pacts st12 = [(''pc1'', demo_completed)]"
  "pactSignatures st12 = [(''pc1'', [demo_sig (CHR ''a''), demo_sig (CHR ''b'')])]"
  "checkpoints st12 = [(''ck1'', demo_checkpoint)]"
  "workspaceCommandNonces st12 = [(''ws1'', 1)]"
  "jobs st12 = [(''job_0000000000000000'', demo_job)]"
  "gaiaCases st12 = []"
proof -
  from op12_result obtain vs es where c: "verifyCheckpoint demo st11 ''ck1'' ''plug'' ''1.0.0'' 0 = Inr (st11\<lparr>verificationDecisions := vs, pactEvents := es, pacts := [(''pc1'', demo_completed)]\<rparr>, demo_verdict)" by blast
  from st12_run c have eq: "st12 = st11\<lparr>verificationDecisions := vs, pactEvents := es, pacts := [(''pc1'', demo_completed)]\<rparr>" by (simp add: op12_def state_of_def)
  show
  "workspaces st12 = [(''ws1'', demo_ws)]"
  "agents st12 = [(''ag1'', demo_agent\<lparr>ag_assignedPathIds := [''pa1'']\<rparr>)]"
  "paths st12 = [(''pa1'', demo_signed_path)]"
  "plugins st12 = [(''plug@1.0.0'', demo_manifest)]"
  "proposals st12 = [(''pp1'', demo_proposal)]"
  "pacts st12 = [(''pc1'', demo_completed)]"
  "pactSignatures st12 = [(''pc1'', [demo_sig (CHR ''a''), demo_sig (CHR ''b'')])]"
  "checkpoints st12 = [(''ck1'', demo_checkpoint)]"
  "workspaceCommandNonces st12 = [(''ws1'', 1)]"
  "jobs st12 = [(''job_0000000000000000'', demo_job)]"
  "gaiaCases st12 = []"
    by (simp_all add: eq demo_simps )
qed

definition demo_settle :: settlement_input where
  "demo_settle = \<lparr>si_pactId = ''pc1'', si_actor = ''ops'', si_txHash = zero_hash,
     si_settledAmountBaseUnits = ''5'', si_final = Some True\<rparr>"

definition demo_settled :: pact where
  "demo_settled = demo_completed\<lparr>pc_openRails := Some (demo_rails\<lparr>or_openingTxHash := Some zero_hash,
       or_openingObservation := Some (demo_opening demo_prepared zero_hash zero_hash zero_hash),
       or_settlements := Some [demo_settlement demo_pact zero_hash ''5'' True]\<rparr>),
     pc_status := PactSettled, pc_revision := 7, pc_updatedAt := ''t0''\<rparr>"

lemma demo_completed_fields [demo_simps]: "pc_status demo_completed = PactCompleted" "pc_revision demo_completed = 6"
  "pc_openRails demo_completed = Some (demo_rails\<lparr>or_openingTxHash := Some zero_hash,
       or_openingObservation := Some (demo_opening demo_prepared zero_hash zero_hash zero_hash)\<rparr>)"
  "assertPact demo demo_completed = Inr ()" "pc_paymentTerms demo_completed = pc_paymentTerms demo_pact"
  "pc_termsHash demo_completed = zero_hash"
  by (simp_all add: demo_completed_def demo_simps)

lemma demo_settlement_pact [demo_simps]: "demo_settlement demo_completed = demo_settlement demo_pact"
  by (simp add: demo_settlement_def fun_eq_iff demo_simps)

lemma demo_settlement_ok [demo_simps]:
  "assertSettlementObservationMatchesPact demo_completed zero_hash ''5'' (demo_settlement demo_pact zero_hash ''5'' True) = Inr ()"
  by (simp add: assertSettlementObservationMatchesPact_def demo_simps demo_settlement_def)

lemma demo_final: "so_final (demo_settlement p tx a f) = f"
  by (simp add: demo_settlement_def)

definition op13 :: kernel_op where "op13 = OpRecordSettlement demo_settle"
definition st13 :: kstate where "st13 = after_op op13 st12"

lemma op13_result:
  "\<exists>es. recordPactSettlement demo st12 st12 demo_settle 0 = Inr (st12\<lparr>pacts := [(''pc1'', demo_settled)], pactEvents := es\<rparr>, demo_settled)"
  by (simp add: recordPactSettlement_def settlement_observe_def settlement_record_def demo_settle_def demo_simps has_opening_def log_pact_event_def set_pact_def demo_settled_def add_settlement_def demo_final)
     (intro exI, rule refl)

lemma st13_run: "exec demo op13 st12 0 st12 = Inr st13"
  unfolding st13_def by (rule after_opI) (use op13_result in \<open>auto simp: op13_def state_of_def\<close>)

lemma st13_reachable: "reachable demo st13"
  by (rule reachable_after [OF st12_reachable st13_run])

lemma st13_fields [demo_simps]:
  "workspaces st13 = [(''ws1'', demo_ws)]"
  "agents st13 = [(''ag1'', demo_agent\<lparr>ag_assignedPathIds := [''pa1'']\<rparr>)]"
  "paths st13 = [(''pa1'', demo_signed_path)]"
  "plugins st13 = [(''plug@1.0.0'', demo_manifest)]"
  "proposals st13 = [(''pp1'', demo_proposal)]"
  "pacts st13 = [(''pc1'', demo_settled)]"
  "pactSignatures st13 = [(''pc1'', [demo_sig (CHR ''a''), demo_sig (CHR ''b'')])]"
  "checkpoints st13 = [(''ck1'', demo_checkpoint)]"
  "workspaceCommandNonces st13 = [(''ws1'', 1)]"
  "jobs st13 = [(''job_0000000000000000'', demo_job)]"
  "gaiaCases st13 = []"
proof -
  from op13_result obtain es where c: "recordPactSettlement demo st12 st12 demo_settle 0 = Inr (st12\<lparr>pacts := [(''pc1'', demo_settled)], pactEvents := es\<rparr>, demo_settled)" by blast
  from st13_run c have eq: "st13 = st12\<lparr>pacts := [(''pc1'', demo_settled)], pactEvents := es\<rparr>" by (simp add: op13_def state_of_def)
  show
  "workspaces st13 = [(''ws1'', demo_ws)]"
  "agents st13 = [(''ag1'', demo_agent\<lparr>ag_assignedPathIds := [''pa1'']\<rparr>)]"
  "paths st13 = [(''pa1'', demo_signed_path)]"
  "plugins st13 = [(''plug@1.0.0'', demo_manifest)]"
  "proposals st13 = [(''pp1'', demo_proposal)]"
  "pacts st13 = [(''pc1'', demo_settled)]"
  "pactSignatures st13 = [(''pc1'', [demo_sig (CHR ''a''), demo_sig (CHR ''b'')])]"
  "checkpoints st13 = [(''ck1'', demo_checkpoint)]"
  "workspaceCommandNonces st13 = [(''ws1'', 1)]"
  "jobs st13 = [(''job_0000000000000000'', demo_job)]"
  "gaiaCases st13 = []"
    by (simp_all add: eq demo_simps )
qed

section \<open>The runs between the states\<close>

lemma st3_leads_to_st13: "leads_to demo st3 st13"
  by (intro leads_to.exec [OF _ st12_reachable st13_run] leads_to.exec [OF _ st11_reachable st12_run]
      leads_to.exec [OF _ st10_reachable st11_run] leads_to.exec [OF _ st9_reachable st10_run]
      leads_to.exec [OF _ st8_reachable st9_run] leads_to.exec [OF _ st7_reachable st8_run]
      leads_to.exec [OF _ st6_reachable st7_run] leads_to.exec [OF _ st5_reachable st6_run]
      leads_to.exec [OF _ st4_reachable st5_run] leads_to.exec [OF _ st3_reachable st4_run]
      leads_to.here)

lemma st3_leads_to_st4: "leads_to demo st3 st4"
  by (intro leads_to.exec [OF _ st3_reachable st4_run] leads_to.here)

lemma st6_leads_to_st8: "leads_to demo st6 st8"
  by (intro leads_to.exec [OF _ st7_reachable st8_run] leads_to.exec [OF _ st6_reachable st7_run] leads_to.here)

lemma st10_leads_to_st13: "leads_to demo st10 st13"
  by (intro leads_to.exec [OF _ st12_reachable st13_run] leads_to.exec [OF _ st11_reachable st12_run]
      leads_to.exec [OF _ st10_reachable st11_run] leads_to.here)

lemma op3_command: "command_of op3 = Some (demo_command InstallPlugin 0)"
  by (simp add: op3_def)

end
