(* ===== verification/JsNumber.thy ===== *)
theory JsNumber
  imports Prelude
begin

text \<open>
  Whole numbers as IEEE double values. \<open>dbl n\<close> is the double nearest to \<open>n\<close>, ties to the
  even significand: the value of \<open>Number(text)\<close> on a decimal numeral and, for whole
  arguments, of \<open>+\<close> (\<open>dbl (a + b)\<close>). Below \<open>2 ^ 53\<close> nothing is rounded.
\<close>

section \<open>Rounding\<close>

function dbl_shift :: "int \<Rightarrow> nat" where
  "dbl_shift n = (if n < 9007199254740992 then 0 else Suc (dbl_shift (n div 2)))"
  by pat_completeness auto
termination
  by (relation "measure nat") auto

declare dbl_shift.simps [simp del]

definition dbl_nonneg :: "int \<Rightarrow> int" where
  "dbl_nonneg n =
     (let u = 2 ^ dbl_shift n; q = n div u; r = n mod u in
      if 2 * r > u \<or> (2 * r = u \<and> odd q) then (q + 1) * u else q * u)"

definition dbl :: "int \<Rightarrow> int" where
  "dbl n = (if n < 0 then - dbl_nonneg (- n) else dbl_nonneg n)"

section \<open>Numerals\<close>

text \<open>
  \<open>Number(text)\<close> and \<open>BigInt(text)\<close> on decimal numerals, the only texts the event decoder
  writes for integer arguments. \<open>BigInt\<close> throws on a text that is no numeral; \<open>Number\<close>
  gives \<open>NaN\<close> there, for which \<open>to_number\<close> has no value.
\<close>

definition decimal :: "string \<Rightarrow> bool" where
  "decimal t \<longleftrightarrow> t \<noteq> [] \<and> list_all is_digit t"

definition to_number :: "string \<Rightarrow> int option" where
  "to_number t = (if decimal t then Some (dbl (digits_val t)) else None)"

definition to_bigint :: "string \<Rightarrow> int result" where
  "to_bigint t = (if decimal t then Inr (digits_val t) else Inl (Error ''Cannot convert to a BigInt''))"

lemma decimal_int_str: "0 \<le> n \<Longrightarrow> decimal (int_str n)"
  by (simp add: decimal_def int_str_def nat_digits_all)

lemma to_bigint_int_str: "0 \<le> n \<Longrightarrow> to_bigint (int_str n) = Inr n"
  by (simp add: to_bigint_def decimal_int_str) (simp add: int_str_def digits_val_nat_digits)

lemma to_number_int_str: "0 \<le> n \<Longrightarrow> to_number (int_str n) = Some (dbl n)"
  by (simp add: to_number_def decimal_int_str) (simp add: int_str_def digits_val_nat_digits)

section \<open>Facts\<close>

lemma dbl_exact_nonneg: "0 \<le> n \<Longrightarrow> n < 9007199254740992 \<Longrightarrow> dbl_nonneg n = n"
  by (simp add: dbl_nonneg_def dbl_shift.simps)

lemma dbl_exact: "isSafeInteger n \<Longrightarrow> dbl n = n"
  by (simp add: dbl_def isSafeInteger_def dbl_exact_nonneg)

lemma dbl_shift_lower: "9007199254740992 \<le> n \<Longrightarrow> 4503599627370496 * 2 ^ dbl_shift n \<le> n"
proof (induction n rule: dbl_shift.induct)
  case (1 n)
  show ?case
  proof (cases "9007199254740992 \<le> n div 2")
    case True
    with 1 have "4503599627370496 * 2 ^ dbl_shift (n div 2) \<le> n div 2" by simp
    with 1(2) show ?thesis by (subst dbl_shift.simps) simp
  next
    case False
    then have "dbl_shift (n div 2) = 0" by (simp add: dbl_shift.simps)
    with 1(2) show ?thesis by (subst dbl_shift.simps) simp
  qed
qed

text \<open>The relative error of one rounding is at most \<open>2 ^ -53\<close>.\<close>

lemma dbl_nonneg_error: "0 \<le> n \<Longrightarrow> \<bar>dbl_nonneg n - n\<bar> * 9007199254740992 \<le> n"
proof (cases "n < 9007199254740992")
  case True
  then show "0 \<le> n \<Longrightarrow> ?thesis" by (simp add: dbl_exact_nonneg)
next
  case False
  define u q r where "u = (2 :: int) ^ dbl_shift n" and "q = n div u" and "r = n mod u"
  have u: "0 < u" "4503599627370496 * u \<le> n"
    using False dbl_shift_lower [of n] by (simp_all add: u_def)
  have n: "n = q * u + r" "0 \<le> r" "r < u" using u by (simp_all add: q_def r_def)
  have "dbl_nonneg n = (if 2 * r > u \<or> (2 * r = u \<and> odd q) then (q + 1) * u else q * u)"
    by (simp only: dbl_nonneg_def Let_def u_def q_def r_def)
  then have "2 * \<bar>dbl_nonneg n - n\<bar> \<le> u"
    using n(2,3) by (auto simp: n(1) algebra_simps split: if_splits)
  with u show ?thesis by simp
qed

end
