(* ===== verification/StreamQueue.thy ===== *)
theory StreamQueue
  imports JsNumber
begin

text \<open>
  \<open>stream-gateway/state-store.ts\<close>, class \<open>StreamTerminationQueue\<close>: pending expirations in
  an array sorted by time. The interface \<open>expiry_queue\<close> is what the gateway relies on: a
  queue is a multiset of entries, \<open>schedule\<close> adds one, \<open>checkExpired\<close> takes out those that
  are due, earliest first.
\<close>

section \<open>The array\<close>

record entry =
  te_paycardId :: string
  te_expiresAt :: int

text \<open>
  The binary search of \<open>schedule\<close>. \<open>>>> 1\<close> works on the sum modulo \<open>2 ^ 32\<close>, so the
  loop is a partial function: on an array of more than \<open>2 ^ 31\<close> entries \<open>mid\<close> could fall
  below \<open>lo\<close>.
\<close>

partial_function (option) search :: "entry list \<Rightarrow> int \<Rightarrow> nat \<Rightarrow> nat \<Rightarrow> nat option" where
  "search q t lo hi =
     (if lo < hi then
        (let mid = ((lo + hi) mod 4294967296) div 2 in
         if te_expiresAt (q ! mid) \<le> t then search q t (Suc mid) hi else search q t lo mid)
      else Some lo)"

text \<open>\<open>queue.splice(lo, 0, entry)\<close>.\<close>

definition splice_in :: "nat \<Rightarrow> 'a \<Rightarrow> 'a list \<Rightarrow> 'a list" where
  "splice_in i x xs = take i xs @ x # drop i xs"

definition schedule :: "string \<Rightarrow> int \<Rightarrow> entry list \<Rightarrow> entry list option" where
  "schedule i t q =
     (case search q t 0 (length q) of
        None \<Rightarrow> None
      | Some lo \<Rightarrow> Some (splice_in lo \<lparr>te_paycardId = i, te_expiresAt = t\<rparr> q))"

fun checkExpired :: "int \<Rightarrow> entry list \<Rightarrow> string list \<times> entry list" where
  "checkExpired now [] = ([], [])"
| "checkExpired now (e # q) =
     (if te_expiresAt e \<le> now
      then (case checkExpired now q of (ids, rest) \<Rightarrow> (te_paycardId e # ids, rest))
      else ([], e # q))"

definition pendingCount :: "entry list \<Rightarrow> nat" where
  "pendingCount q = length q"

section \<open>The search\<close>

definition by_time :: "entry list \<Rightarrow> bool" where
  "by_time q \<longleftrightarrow> sorted (map te_expiresAt q)"

definition max_queue :: nat where
  "max_queue = 2147483648"

lemma by_time_nth: "by_time q \<Longrightarrow> i \<le> j \<Longrightarrow> j < length q \<Longrightarrow> te_expiresAt (q ! i) \<le> te_expiresAt (q ! j)"
  using sorted_nth_mono [of "map te_expiresAt q" i j] by (simp add: by_time_def)

lemma search_total:
  assumes "hi \<le> length q" "length q \<le> max_queue" "lo \<le> hi"
  shows "\<exists>n. search q t lo hi = Some n \<and> lo \<le> n \<and> n \<le> hi"
  using assms
proof (induction "hi - lo" arbitrary: lo hi rule: less_induct)
  case less
  show ?case
  proof (cases "lo < hi")
    case False
    with less.prems show ?thesis by (simp add: search.simps)
  next
    case True
    define mid where "mid = ((lo + hi) mod 4294967296) div 2"
    have "lo + hi < 4294967296" using True less.prems by (simp add: max_queue_def)
    then have mid: "lo \<le> mid" "mid < hi" using True by (simp_all add: mid_def)
    have up: "\<exists>n. search q t (Suc mid) hi = Some n \<and> Suc mid \<le> n \<and> n \<le> hi"
      by (rule less.hyps) (use mid less.prems in auto)
    have down: "\<exists>n. search q t lo mid = Some n \<and> lo \<le> n \<and> n \<le> mid"
      by (rule less.hyps) (use mid less.prems in auto)
    show ?thesis
      by (subst search.simps, unfold Let_def mid_def [symmetric])
        (use True up down mid in \<open>auto intro: le_trans\<close>)
  qed
qed

lemma search_correct:
  assumes "search q t lo hi = Some n" "by_time q" "hi \<le> length q" "length q \<le> max_queue" "lo \<le> hi"
    "\<forall>i < lo. te_expiresAt (q ! i) \<le> t" "\<forall>i. hi \<le> i \<longrightarrow> i < length q \<longrightarrow> t < te_expiresAt (q ! i)"
  shows "(\<forall>i < n. te_expiresAt (q ! i) \<le> t) \<and> (\<forall>i. n \<le> i \<longrightarrow> i < length q \<longrightarrow> t < te_expiresAt (q ! i))"
  using assms
proof (induction "hi - lo" arbitrary: lo hi rule: less_induct)
  case less
  show ?case
  proof (cases "lo < hi")
    case False
    with less.prems show ?thesis by (simp add: search.simps)
  next
    case True
    define mid where "mid = ((lo + hi) mod 4294967296) div 2"
    have "lo + hi < 4294967296" using True less.prems by (simp add: max_queue_def)
    then have mid: "lo \<le> mid" "mid < hi" using True by (simp_all add: mid_def)
    have step: "search q t lo hi =
        (if te_expiresAt (q ! mid) \<le> t then search q t (Suc mid) hi else search q t lo mid)"
      using True by (subst search.simps) (simp add: Let_def mid_def)
    show ?thesis
    proof (cases "te_expiresAt (q ! mid) \<le> t")
      case le: True
      have "\<forall>i < Suc mid. te_expiresAt (q ! i) \<le> t"
        using by_time_nth [OF less.prems(2), of _ mid] le mid less.prems(3) by (fastforce simp: less_Suc_eq_le)
      with le show ?thesis using less.hyps [of hi "Suc mid"] less.prems step mid by auto
    next
      case gt: False
      have "\<forall>i. mid \<le> i \<longrightarrow> i < length q \<longrightarrow> t < te_expiresAt (q ! i)"
        using by_time_nth [OF less.prems(2), of mid] gt by fastforce
      with gt show ?thesis using less.hyps [of mid lo] less.prems step mid by auto
    qed
  qed
qed

text \<open>The insertion is a stable one: behind every entry that expires at the same time.\<close>

lemma schedule_insort:
  assumes "by_time q" "length q \<le> max_queue"
  shows "schedule i t q =
    Some (filter (\<lambda>e. te_expiresAt e \<le> t) q @ \<lparr>te_paycardId = i, te_expiresAt = t\<rparr> # filter (\<lambda>e. t < te_expiresAt e) q)"
proof -
  from search_total [of "length q" q 0 t] assms(2) obtain n where
    n: "search q t 0 (length q) = Some n" "n \<le> length q" by auto
  with search_correct [OF n(1) assms(1) _ assms(2)] have
    lo: "\<forall>e \<in> set (take n q). te_expiresAt e \<le> t" and hi: "\<forall>e \<in> set (drop n q). t < te_expiresAt e"
    by (auto simp: in_set_conv_nth)
  have "filter (\<lambda>e. te_expiresAt e \<le> t) (take n q @ drop n q) = take n q"
    using lo hi unfolding filter_append by (auto simp: filter_id_conv filter_empty_conv)
  moreover have "filter (\<lambda>e. t < te_expiresAt e) (take n q @ drop n q) = drop n q"
    using lo hi unfolding filter_append by (auto simp: filter_id_conv filter_empty_conv)
  ultimately show ?thesis by (simp add: schedule_def n splice_in_def)
qed

lemma by_time_insort:
  assumes "by_time q"
  shows "by_time (filter (\<lambda>e. te_expiresAt e \<le> te_expiresAt x) q @ x # filter (\<lambda>e. te_expiresAt x < te_expiresAt e) q)"
proof -
  have "sorted (map te_expiresAt (filter P q))" for P
    using assms by (simp add: by_time_def sorted_filter)
  then show ?thesis by (auto simp: by_time_def sorted_append)
qed

section \<open>Expiry\<close>

lemma checkExpired_split:
  "by_time q \<Longrightarrow> checkExpired now q =
     (map te_paycardId (filter (\<lambda>e. te_expiresAt e \<le> now) q), filter (\<lambda>e. now < te_expiresAt e) q)"
proof (induction q)
  case Nil
  then show ?case by simp
next
  case (Cons e q)
  then have "by_time q" and le: "\<forall>x \<in> set q. te_expiresAt e \<le> te_expiresAt x" by (auto simp: by_time_def)
  show ?case
  proof (cases "te_expiresAt e \<le> now")
    case True
    with Cons.IH [OF \<open>by_time q\<close>] show ?thesis by simp
  next
    case False
    with le have "filter (\<lambda>x. te_expiresAt x \<le> now) q = []" "filter (\<lambda>x. now < te_expiresAt x) q = q"
      by (auto simp: filter_empty_conv filter_id_conv)
    with False show ?thesis by simp
  qed
qed

lemma by_time_filter: "by_time q \<Longrightarrow> by_time (filter P q)"
  by (simp add: by_time_def sorted_filter)

section \<open>The interface\<close>

locale expiry_queue =
  fixes empty :: 'q
    and push :: "string \<Rightarrow> int \<Rightarrow> 'q \<Rightarrow> 'q option"
    and pop_due :: "int \<Rightarrow> 'q \<Rightarrow> string list \<times> 'q"
    and entries :: "'q \<Rightarrow> entry list"
    and ok :: "'q \<Rightarrow> bool"
    and bound :: nat
  assumes empty_ok: "ok empty" "entries empty = []"
    and push_some: "ok q \<Longrightarrow> length (entries q) \<le> bound \<Longrightarrow> \<exists>q'. push i t q = Some q'"
    and push_ok: "ok q \<Longrightarrow> length (entries q) \<le> bound \<Longrightarrow> push i t q = Some q' \<Longrightarrow>
        ok q' \<and> length (entries q') = Suc (length (entries q)) \<and>
        set (entries q') = insert \<lparr>te_paycardId = i, te_expiresAt = t\<rparr> (set (entries q))"
    and pop_ok: "ok q \<Longrightarrow> pop_due now q = (ids, q') \<Longrightarrow>
        ok q' \<and> ids = map te_paycardId (filter (\<lambda>e. te_expiresAt e \<le> now) (entries q)) \<and>
        entries q' = filter (\<lambda>e. now < te_expiresAt e) (entries q)"
begin

primrec push_all :: "(string \<times> int) list \<Rightarrow> 'q \<Rightarrow> 'q option" where
  "push_all [] q = Some q"
| "push_all (p # ps) q = Option.bind (push (fst p) (snd p) q) (push_all ps)"

lemma push_all_total:
  assumes "ok q" "length (entries q) + length ps \<le> bound"
  shows "\<exists>q'. push_all ps q = Some q' \<and> ok q' \<and> length (entries q') = length (entries q) + length ps \<and>
     set (entries q') = set (map (\<lambda>p. \<lparr>te_paycardId = fst p, te_expiresAt = snd p\<rparr>) ps) \<union> set (entries q)"
  using assms
proof (induction ps arbitrary: q)
  case Nil
  then show ?case by simp
next
  case (Cons p ps)
  then have b: "length (entries q) \<le> bound" by simp
  from push_some [OF Cons.prems(1) b] obtain q1 where q1: "push (fst p) (snd p) q = Some q1" by blast
  from push_ok [OF Cons.prems(1) b q1] Cons.prems(2) Cons.IH [of q1] obtain q' where
    "push_all ps q1 = Some q'" "ok q'" "length (entries q') = Suc (length (entries q)) + length ps"
    "set (entries q') = set (map (\<lambda>p. \<lparr>te_paycardId = fst p, te_expiresAt = snd p\<rparr>) ps) \<union> set (entries q1)"
    by auto
  with q1 push_ok [OF Cons.prems(1) b q1] show ?case by auto
qed

text \<open>Every entry that was pushed is reported by the first sweep at or after its time, and not before.\<close>

lemma reported_when_due:
  assumes "ok q" "pop_due now q = (ids, q')" "e \<in> set (entries q)"
  shows "if te_expiresAt e \<le> now then te_paycardId e \<in> set ids \<and> e \<notin> set (entries q') else e \<in> set (entries q')"
  using pop_ok [OF assms(1,2)] assms(3) by auto

lemma sweep_twice:
  assumes "ok q" "pop_due now q = (ids, q')"
  shows "pop_due now q' = ([], q'') \<Longrightarrow> entries q'' = entries q'" "fst (pop_due now q') = []"
proof -
  obtain ids' q2 where p: "pop_due now q' = (ids', q2)" by (cases "pop_due now q'")
  from pop_ok [OF assms] have ok': "ok q'" "entries q' = filter (\<lambda>e. now < te_expiresAt e) (entries q)" by auto
  from pop_ok [OF ok'(1) p] ok'(2) show "fst (pop_due now q') = []" by (simp add: p filter_empty_conv)
  assume "pop_due now q' = ([], q'')"
  with pop_ok [OF ok'(1)] ok'(2) show "entries q'' = entries q'" by (simp add: filter_id_conv)
qed

end

interpretation termination_queue: expiry_queue "[]" schedule checkExpired "\<lambda>q. q" by_time max_queue
proof unfold_locales
  show "by_time []" by (simp add: by_time_def)
  show "([] :: entry list) = []" by simp
next
  fix q i t assume "by_time q" "length q \<le> max_queue"
  then show "\<exists>q'. schedule i t q = Some q'" by (simp add: schedule_insort)
next
  fix q i t q' assume h: "by_time q" "length q \<le> max_queue" "schedule i t q = Some q'"
  have len: "length (filter (\<lambda>e. te_expiresAt e \<le> t) q) + length (filter (\<lambda>e. t < te_expiresAt e) q) = length q"
    using sum_length_filter_compl [of "\<lambda>e. te_expiresAt e \<le> t" q] by (simp add: not_le)
  from h schedule_insort [OF h(1,2), of i t] have
    q': "q' = filter (\<lambda>e. te_expiresAt e \<le> t) q @ \<lparr>te_paycardId = i, te_expiresAt = t\<rparr> # filter (\<lambda>e. t < te_expiresAt e) q"
    by simp
  from by_time_insort [OF h(1), of "\<lparr>te_paycardId = i, te_expiresAt = t\<rparr>"] len
  show "by_time q' \<and> length q' = Suc (length q) \<and> set q' = insert \<lparr>te_paycardId = i, te_expiresAt = t\<rparr> (set q)"
    by (auto simp: q')
next
  fix q now ids q' assume "by_time q" "checkExpired now q = (ids, q')"
  then show "by_time q' \<and> ids = map te_paycardId (filter (\<lambda>e. te_expiresAt e \<le> now) q) \<and>
      q' = filter (\<lambda>e. now < te_expiresAt e) q"
    by (auto simp: checkExpired_split by_time_filter)
qed

end
