(* ===== verification/StreamStore.thy ===== *)
theory StreamStore
  imports JsNumber
begin

text \<open>
  \<open>stream-gateway/state-store.ts\<close>, the stream state and \<open>MemoryCacheStateStore\<close>: a \<open>Map\<close>
  from Paycard to state and an index from workflow to the set of its Paycards, both in
  insertion order. \<open>get\<close> hands out the stored object; where the gateway writes to it, the
  model writes the new value back under the same key. The locale \<open>stream_store\<close> is the
  interface \<open>StreamStateStore\<close>: a store is a finite map, and the workflow index agrees with it.
\<close>

section \<open>State of a stream\<close>

datatype paycard_status = StActive | StPendingSettlement | StTerminated

record stream =
  sm_paycardId :: string
  sm_payer :: string
  sm_recipient :: string
  sm_metadataHash :: string
  sm_workflowId :: "string option"
  sm_totalAllocation :: string
  sm_availableBalance :: string
  sm_projectedAvailableBalance :: "string option"
  sm_velocity :: string
  sm_genesis :: "int option"
  sm_lifespan :: "int option"
  sm_lastCheckpoint :: "int option"
  sm_status :: paycard_status

text \<open>\<open>None\<close> in a numeric field is \<open>NaN\<close>: every comparison with it is false.\<close>

definition expires_at :: "stream \<Rightarrow> int option" where
  "expires_at s =
     (case (sm_genesis s, sm_lifespan s) of (Some g, Some l) \<Rightarrow> Some (dbl (g + l)) | _ \<Rightarrow> None)"

section \<open>MemoryCacheStateStore\<close>

record memory_cache =
  mc_store :: "stream obj"
  mc_workflowIndex :: "string list obj"

definition empty_cache :: memory_cache where
  "empty_cache = \<lparr>mc_store = [], mc_workflowIndex = []\<rparr>"

text \<open>A workflow identifier counts where it is truthy.\<close>

definition workflow :: "stream \<Rightarrow> string option" where
  "workflow s = (if sm_workflowId s = Some [] then None else sm_workflowId s)"

definition set_add :: "string \<Rightarrow> string list \<Rightarrow> string list" where
  "set_add x xs = (if x \<in> set xs then xs else xs @ [x])"

definition index_add :: "string \<Rightarrow> string \<Rightarrow> string list obj \<Rightarrow> string list obj" where
  "index_add w i ix = oset w (set_add i (case oget ix w of None \<Rightarrow> [] | Some ids \<Rightarrow> ids)) ix"

text \<open>Taking a Paycard out of the set of a workflow: \<open>set\<close> leaves an empty set behind,
  \<open>delete\<close> and \<open>bindWorkflow\<close> remove it.\<close>

definition index_remove :: "string \<Rightarrow> string \<Rightarrow> string list obj \<Rightarrow> string list obj" where
  "index_remove w i ix = (case oget ix w of None \<Rightarrow> ix | Some ids \<Rightarrow> oset w (removeAll i ids) ix)"

definition index_drop :: "string \<Rightarrow> string \<Rightarrow> string list obj \<Rightarrow> string list obj" where
  "index_drop w i ix =
     (case oget ix w of
        None \<Rightarrow> ix
      | Some ids \<Rightarrow> if removeAll i ids = [] then AList.delete w ix else oset w (removeAll i ids) ix)"

definition index_state :: "string \<Rightarrow> stream \<Rightarrow> string list obj \<Rightarrow> string list obj" where
  "index_state i s ix = (case workflow s of None \<Rightarrow> ix | Some w \<Rightarrow> index_add w i ix)"

definition cache_set :: "string \<Rightarrow> stream \<Rightarrow> memory_cache \<Rightarrow> memory_cache" where
  "cache_set i s c =
     (let ix = (case Option.bind (oget (mc_store c) i) workflow of
                  None \<Rightarrow> mc_workflowIndex c
                | Some w \<Rightarrow> if Some w \<noteq> sm_workflowId s then index_remove w i (mc_workflowIndex c)
                           else mc_workflowIndex c) in
      \<lparr>mc_store = oset i s (mc_store c), mc_workflowIndex = index_state i s ix\<rparr>)"

definition cache_get :: "string \<Rightarrow> memory_cache \<Rightarrow> stream option" where
  "cache_get i c = oget (mc_store c) i"

definition cache_delete :: "string \<Rightarrow> memory_cache \<Rightarrow> memory_cache \<times> bool" where
  "cache_delete i c =
     (\<lparr>mc_store = AList.delete i (mc_store c),
       mc_workflowIndex =
         (case Option.bind (oget (mc_store c) i) workflow of
            None \<Rightarrow> mc_workflowIndex c | Some w \<Rightarrow> index_drop w i (mc_workflowIndex c))\<rparr>,
      oget (mc_store c) i \<noteq> None)"

definition cache_bindWorkflow :: "string \<Rightarrow> string option \<Rightarrow> memory_cache \<Rightarrow> memory_cache \<times> stream option" where
  "cache_bindWorkflow i w c =
     (case oget (mc_store c) i of
        None \<Rightarrow> (c, None)
      | Some s \<Rightarrow>
          (let ix = (case workflow s of None \<Rightarrow> mc_workflowIndex c | Some v \<Rightarrow> index_drop v i (mc_workflowIndex c));
               s' = s\<lparr>sm_workflowId := (if w = Some [] then None else w)\<rparr> in
           (\<lparr>mc_store = oset i s' (mc_store c), mc_workflowIndex = index_state i s' ix\<rparr>, Some s')))"

definition cache_getAll :: "memory_cache \<Rightarrow> stream list" where
  "cache_getAll c = ovals (mc_store c)"

definition cache_getActive :: "memory_cache \<Rightarrow> stream list" where
  "cache_getActive c = filter (\<lambda>s. sm_status s = StActive) (ovals (mc_store c))"

definition cache_getByWorkflow :: "string \<Rightarrow> memory_cache \<Rightarrow> stream list" where
  "cache_getByWorkflow w c =
     (case oget (mc_workflowIndex c) w of
        None \<Rightarrow> []
      | Some ids \<Rightarrow> List.map_filter (oget (mc_store c)) ids)"

definition cache_getActiveByWorkflow :: "string \<Rightarrow> memory_cache \<Rightarrow> stream list" where
  "cache_getActiveByWorkflow w c = filter (\<lambda>s. sm_status s = StActive) (cache_getByWorkflow w c)"

definition cache_getExpired :: "int \<Rightarrow> memory_cache \<Rightarrow> stream list" where
  "cache_getExpired now c =
     filter (\<lambda>s. sm_status s = StActive \<and> (case expires_at s of None \<Rightarrow> False | Some t \<Rightarrow> t \<le> now))
       (ovals (mc_store c))"

definition cache_size :: "memory_cache \<Rightarrow> nat" where
  "cache_size c = length (mc_store c)"

text \<open>A write to fields of the stored object, as the accrual tick does it: no re-indexing.\<close>

definition cache_poke :: "string \<Rightarrow> (stream \<Rightarrow> stream) \<Rightarrow> memory_cache \<Rightarrow> memory_cache" where
  "cache_poke i f c =
     (case oget (mc_store c) i of None \<Rightarrow> c | Some s \<Rightarrow> c\<lparr>mc_store := oset i (f s) (mc_store c)\<rparr>)"

section \<open>The index agrees with the map\<close>

definition members :: "string list obj \<Rightarrow> string \<Rightarrow> string set" where
  "members ix w = (case oget ix w of None \<Rightarrow> {} | Some ids \<Rightarrow> set ids)"

definition cache_ok :: "memory_cache \<Rightarrow> bool" where
  "cache_ok c \<longleftrightarrow>
     distinct (okeys (mc_store c)) \<and>
     (\<forall>w. members (mc_workflowIndex c) w = {i. Option.bind (oget (mc_store c) i) workflow = Some w})"

lemma distinct_okeys_delete: "distinct (okeys ob) \<Longrightarrow> distinct (okeys (AList.delete k ob))"
  by (simp add: okeys_def distinct_delete)

lemma oget_delete [simp]: "oget (AList.delete k ob) k' = (if k' = k then None else oget ob k')"
  by (simp add: delete_conv')

lemma set_set_add [simp]: "set (set_add x xs) = insert x (set xs)"
  by (auto simp: set_add_def)

lemma distinct_set_add [simp]: "distinct (set_add x xs) = distinct xs"
  by (auto simp: set_add_def)

lemma members_index_add: "members (index_add w i ix) v = (if v = w then insert i (members ix w) else members ix v)"
  by (auto simp: members_def index_add_def split: option.splits)

lemma members_index_remove: "members (index_remove w i ix) v = (if v = w then members ix w - {i} else members ix v)"
  by (auto simp: members_def index_remove_def split: option.splits)

lemma members_index_drop: "members (index_drop w i ix) v = (if v = w then members ix w - {i} else members ix v)"
  by (auto simp: members_def index_drop_def removeAll_filter_not_eq filter_empty_conv split: option.splits)

lemma members_index_state:
  "members (index_state i s ix) v = (if workflow s = Some v then insert i (members ix v) else members ix v)"
  by (auto simp: index_state_def members_index_add split: option.splits)

lemma workflow_Some: "workflow s = Some w \<longleftrightarrow> sm_workflowId s = Some w \<and> w \<noteq> []"
  by (auto simp: workflow_def)

lemma cache_ok_empty: "cache_ok empty_cache"
  by (simp add: cache_ok_def empty_cache_def members_def)

lemma members_ok: "cache_ok c \<Longrightarrow> i \<in> members (mc_workflowIndex c) v \<longleftrightarrow> Option.bind (oget (mc_store c) i) workflow = Some v"
  by (simp add: cache_ok_def)

text \<open>Storing a state keeps the invariant if, outside its new workflow, the index lost the key.\<close>

lemma cache_ok_store:
  assumes "cache_ok c"
    and "\<And>v j. j \<in> members ix v \<longleftrightarrow> j \<in> members (mc_workflowIndex c) v \<and> (j \<noteq> i \<or> workflow s = Some v \<and> keep)"
  shows "cache_ok \<lparr>mc_store = oset i s (mc_store c), mc_workflowIndex = index_state i s ix\<rparr>"
proof -
  have "members (index_state i s ix) v = {j. Option.bind (oget (oset i s (mc_store c)) j) workflow = Some v}" for v
    using members_ok [OF assms(1)] by (auto simp: members_index_state assms(2))
  with assms(1) show ?thesis by (simp add: cache_ok_def distinct_okeys_oset)
qed

lemma cache_ok_set: "cache_ok c \<Longrightarrow> cache_ok (cache_set i s c)"
proof -
  assume ok: "cache_ok c"
  show ?thesis
  proof (cases "Option.bind (oget (mc_store c) i) workflow")
    case None
    with members_ok [OF ok] show ?thesis
      unfolding cache_set_def Let_def by (intro cache_ok_store [OF ok, where keep = True]) auto
  next
    case (Some w)
    note mem = members_ok [OF ok]
    show ?thesis
    proof (cases "Some w = sm_workflowId s")
      case True
      from Some have "w \<noteq> []" by (auto simp: workflow_Some bind_eq_Some_conv)
      with True have "workflow s = Some w" by (auto simp: workflow_def)
      with Some mem have "j \<in> members (mc_workflowIndex c) v \<longleftrightarrow>
          j \<in> members (mc_workflowIndex c) v \<and> (j \<noteq> i \<or> workflow s = Some v \<and> True)" for j v
        by auto
      from cache_ok_store [OF ok this] True [symmetric] show ?thesis
        unfolding cache_set_def Let_def Some by simp
    next
      case False
      with Some mem have "j \<in> members (index_remove w i (mc_workflowIndex c)) v \<longleftrightarrow>
          j \<in> members (mc_workflowIndex c) v \<and> (j \<noteq> i \<or> workflow s = Some v \<and> False)" for j v
        by (auto simp: members_index_remove)
      from cache_ok_store [OF ok this] False Some show ?thesis
        unfolding cache_set_def Let_def by simp
    qed
  qed
qed

lemma cache_ok_delete: "cache_ok c \<Longrightarrow> cache_ok (fst (cache_delete i c))"
proof -
  assume ok: "cache_ok c"
  define ix where "ix = (case Option.bind (oget (mc_store c) i) workflow of
      None \<Rightarrow> mc_workflowIndex c | Some w \<Rightarrow> index_drop w i (mc_workflowIndex c))"
  have "members ix v = {j. j \<noteq> i \<and> Option.bind (oget (mc_store c) j) workflow = Some v}" for v
    using members_ok [OF ok] by (auto simp: ix_def members_index_drop split: option.splits)
  then have "members ix v = {j. Option.bind (oget (AList.delete i (mc_store c)) j) workflow = Some v}" for v
    by auto
  with ok show ?thesis by (simp add: cache_ok_def cache_delete_def ix_def distinct_okeys_delete)
qed

lemma cache_ok_bindWorkflow: "cache_ok c \<Longrightarrow> cache_ok (fst (cache_bindWorkflow i w c))"
proof (cases "oget (mc_store c) i")
  case None
  then show "cache_ok c \<Longrightarrow> ?thesis" by (simp add: cache_bindWorkflow_def)
next
  case (Some s)
  assume ok: "cache_ok c"
  define ix where "ix = (case workflow s of None \<Rightarrow> mc_workflowIndex c | Some v \<Rightarrow> index_drop v i (mc_workflowIndex c))"
  define t where "t = s\<lparr>sm_workflowId := (if w = Some [] then None else w)\<rparr>"
  have "j \<in> members ix v \<longleftrightarrow> j \<in> members (mc_workflowIndex c) v \<and> (j \<noteq> i \<or> workflow t = Some v \<and> False)" for j v
    using members_ok [OF ok] Some by (auto simp: ix_def members_index_drop split: option.splits)
  from cache_ok_store [OF ok this] Some show ?thesis
    by (simp add: cache_bindWorkflow_def Let_def ix_def t_def)
qed

lemma cache_ok_poke:
  assumes "cache_ok c" "\<And>s. sm_workflowId (f s) = sm_workflowId s"
  shows "cache_ok (cache_poke i f c)"
  using assms
  by (auto simp: cache_ok_def cache_poke_def distinct_okeys_oset workflow_def split: option.splits)

section \<open>Reading\<close>

lemma cache_get_set [simp]: "cache_get j (cache_set i s c) = (if j = i then Some s else cache_get j c)"
  by (simp add: cache_get_def cache_set_def Let_def)

lemma cache_get_delete [simp]:
  "cache_get j (fst (cache_delete i c)) = (if j = i then None else cache_get j c)"
  "snd (cache_delete i c) \<longleftrightarrow> cache_get i c \<noteq> None"
  by (simp_all add: cache_get_def cache_delete_def)

lemma cache_get_bindWorkflow:
  "cache_get j (fst (cache_bindWorkflow i w c)) =
     (if j = i then map_option (\<lambda>s. s\<lparr>sm_workflowId := (if w = Some [] then None else w)\<rparr>) (cache_get i c)
      else cache_get j c)"
  "snd (cache_bindWorkflow i w c) = cache_get i (fst (cache_bindWorkflow i w c))"
  by (auto simp: cache_get_def cache_bindWorkflow_def Let_def split: option.splits)

lemma cache_get_poke [simp]:
  "cache_get j (cache_poke i f c) = (if j = i then map_option f (cache_get i c) else cache_get j c)"
  by (auto simp: cache_get_def cache_poke_def split: option.splits)

lemma cache_get_empty [simp]: "cache_get i empty_cache = None"
  by (simp add: cache_get_def empty_cache_def)

lemma cache_getAll_set: "cache_ok c \<Longrightarrow> set (cache_getAll c) = {s. \<exists>i. cache_get i c = Some s}"
  by (auto simp: cache_getAll_def cache_get_def cache_ok_def set_ovals ran_def)

lemma cache_getByWorkflow_set:
  assumes "cache_ok c" "w \<noteq> []"
  shows "set (cache_getByWorkflow w c) = {s. \<exists>i. cache_get i c = Some s \<and> sm_workflowId s = Some w}"
proof -
  have "members (mc_workflowIndex c) w = {i. Option.bind (oget (mc_store c) i) workflow = Some w}"
    using assms(1) by (simp add: cache_ok_def)
  then show ?thesis
    using assms(2)
    by (auto simp: cache_getByWorkflow_def members_def cache_get_def List.map_filter_def bind_eq_Some_conv
        workflow_Some image_iff split: option.splits)
qed

section \<open>The interface\<close>

locale stream_store =
  fixes empty :: 'c
    and put :: "string \<Rightarrow> stream \<Rightarrow> 'c \<Rightarrow> 'c"
    and look :: "string \<Rightarrow> 'c \<Rightarrow> stream option"
    and remove :: "string \<Rightarrow> 'c \<Rightarrow> 'c"
    and bind :: "string \<Rightarrow> string option \<Rightarrow> 'c \<Rightarrow> 'c"
    and by_workflow :: "string \<Rightarrow> 'c \<Rightarrow> stream list"
    and ok :: "'c \<Rightarrow> bool"
  assumes ok_empty: "ok empty"
    and look_empty: "look i empty = None"
    and ok_put: "ok c \<Longrightarrow> ok (put i s c)"
    and look_put: "ok c \<Longrightarrow> look j (put i s c) = (if j = i then Some s else look j c)"
    and ok_remove: "ok c \<Longrightarrow> ok (remove i c)"
    and look_remove: "ok c \<Longrightarrow> look j (remove i c) = (if j = i then None else look j c)"
    and ok_bind: "ok c \<Longrightarrow> ok (bind i w c)"
    and look_bind: "ok c \<Longrightarrow> look j (bind i w c) =
        (if j = i then map_option (\<lambda>s. s\<lparr>sm_workflowId := (if w = Some [] then None else w)\<rparr>) (look i c)
         else look j c)"
    and by_workflow: "ok c \<Longrightarrow> v \<noteq> [] \<Longrightarrow>
        set (by_workflow v c) = {s. \<exists>i. look i c = Some s \<and> sm_workflowId s = Some v}"
begin

text \<open>Binding moves a stream from its old workflow to the new one and touches no other.\<close>

lemma bind_moves:
  assumes "ok c" "look i c = Some s" "w \<noteq> []"
  shows "s\<lparr>sm_workflowId := Some w\<rparr> \<in> set (by_workflow w (bind i (Some w) c))"
    and "v \<noteq> [] \<Longrightarrow> v \<noteq> w \<Longrightarrow> t \<in> set (by_workflow v (bind i (Some w) c)) \<longleftrightarrow>
           (\<exists>j. j \<noteq> i \<and> look j c = Some t \<and> sm_workflowId t = Some v)"
  using assms by (auto simp: by_workflow ok_bind look_bind split: if_splits)

lemma remove_put:
  assumes "ok c" "w \<noteq> []" "look i c = None"
  shows "set (by_workflow w (remove i (put i s c))) = set (by_workflow w c)"
proof -
  from assms(3) have "look j c = Some t \<Longrightarrow> j \<noteq> i" for j t by auto
  with assms show ?thesis by (auto simp: by_workflow ok_remove ok_put look_remove look_put)
qed

end

interpretation memory_cache: stream_store empty_cache cache_set cache_get "\<lambda>i c. fst (cache_delete i c)"
    "\<lambda>i w c. fst (cache_bindWorkflow i w c)" cache_getByWorkflow cache_ok
  by unfold_locales
     (simp_all add: cache_ok_empty cache_ok_set cache_ok_delete cache_ok_bindWorkflow cache_get_bindWorkflow
        cache_getByWorkflow_set)

section \<open>Order of the map\<close>

lemma cache_set_keys: "okeys (mc_store (cache_set i s c)) =
    (if i \<in> set (okeys (mc_store c)) then okeys (mc_store c) else okeys (mc_store c) @ [i])"
  by (simp add: cache_set_def Let_def okeys_oset)

end
