(* ===== verification/StreamFiles.thy ===== *)
theory StreamFiles
  imports StreamStore "HOL-Library.Product_Lexorder"
begin

text \<open>
  \<open>stream-gateway/state-store.ts\<close>: the durable store \<open>PersistentFileStateStore\<close> and the
  server's view \<open>PersistentStreamReader\<close> of its two files. A snapshot holds a list of
  states or a text \<open>JSON.parse\<close> rejects; the event log is its lines, each a record, blank or
  malformed, and the text behind the last newline. The locale \<open>durable_store\<close> extends the
  store interface by the event table and by a restart.
\<close>

section \<open>Files\<close>

record event_record =
  er_paycardId :: string
  er_eventName :: string
  er_workflowId :: "string option"
  er_metadataHash :: "string option"
  er_blockNumber :: int
  er_blockTimestamp :: "int option"
  er_transactionHash :: string
  er_logIndex :: int
  er_args :: "string obj"
  er_recordedAt :: int

datatype snapshot_text = SnapshotText "stream list" | BadSnapshot

datatype log_line = RecordLine event_record | BlankLine | BadLine

record log_file =
  lf_lines :: "log_line list"
  lf_tail :: log_line

record disk =
  dk_state :: "snapshot_text option"
  dk_events :: "log_file option"

definition all_lines :: "log_file \<Rightarrow> log_line list" where
  "all_lines f = lf_lines f @ [lf_tail f]"

text \<open>\<open>appendFileSync\<close> of a record and a newline: what stands behind the last newline becomes
  the head of the appended line.\<close>

definition append_record :: "event_record \<Rightarrow> log_file option \<Rightarrow> log_file" where
  "append_record r file =
     (case file of
        None \<Rightarrow> \<lparr>lf_lines = [RecordLine r], lf_tail = BlankLine\<rparr>
      | Some f \<Rightarrow> \<lparr>lf_lines = lf_lines f @ [if lf_tail f = BlankLine then RecordLine r else BadLine],
                  lf_tail = BlankLine\<rparr>)"

section \<open>PersistentFileStateStore\<close>

record file_store =
  fl_inner :: memory_cache
  fl_events :: "event_record list"
  fl_eventKeys :: "string list"
  fl_disk :: disk

definition eventKey :: "string \<Rightarrow> int \<Rightarrow> string" where
  "eventKey transactionHash logIndex = transactionHash @ '':'' @ int_str logIndex"

definition record_key :: "event_record \<Rightarrow> string" where
  "record_key r = eventKey (er_transactionHash r) (er_logIndex r)"

definition load_states :: "disk \<Rightarrow> memory_cache" where
  "load_states d =
     (case dk_state d of
        Some (SnapshotText states) \<Rightarrow> fold (\<lambda>s. cache_set (sm_paycardId s) s) states empty_cache
      | _ \<Rightarrow> empty_cache)"

fun load_line :: "log_line \<Rightarrow> event_record list \<times> string list \<Rightarrow> event_record list \<times> string list" where
  "load_line (RecordLine r) (es, ks) =
     (if record_key r \<in> set ks then (es, ks) else (es @ [r], ks @ [record_key r]))"
| "load_line BlankLine p = p"
| "load_line BadLine p = p"

definition load_events :: "disk \<Rightarrow> event_record list \<times> string list" where
  "load_events d = (case dk_events d of None \<Rightarrow> ([], []) | Some f \<Rightarrow> fold load_line (all_lines f) ([], []))"

definition open_file_store :: "disk \<Rightarrow> file_store" where
  "open_file_store d =
     \<lparr>fl_inner = load_states d, fl_events = fst (load_events d), fl_eventKeys = snd (load_events d), fl_disk = d\<rparr>"

definition persistSnapshot :: "file_store \<Rightarrow> file_store" where
  "persistSnapshot f = f\<lparr>fl_disk := (fl_disk f)\<lparr>dk_state := Some (SnapshotText (cache_getAll (fl_inner f)))\<rparr>\<rparr>"

definition file_set :: "string \<Rightarrow> stream \<Rightarrow> file_store \<Rightarrow> file_store" where
  "file_set i s f = persistSnapshot (f\<lparr>fl_inner := cache_set i s (fl_inner f)\<rparr>)"

definition file_get :: "string \<Rightarrow> file_store \<Rightarrow> stream option" where
  "file_get i f = cache_get i (fl_inner f)"

definition file_delete :: "string \<Rightarrow> file_store \<Rightarrow> file_store \<times> bool" where
  "file_delete i f =
     (let (c, deleted) = cache_delete i (fl_inner f); f' = f\<lparr>fl_inner := c\<rparr> in
      (if deleted then persistSnapshot f' else f', deleted))"

definition file_bindWorkflow :: "string \<Rightarrow> string option \<Rightarrow> file_store \<Rightarrow> file_store \<times> stream option" where
  "file_bindWorkflow i w f =
     (let (c, result) = cache_bindWorkflow i w (fl_inner f); f' = f\<lparr>fl_inner := c\<rparr> in
      (if result \<noteq> None then persistSnapshot f' else f', result))"

definition file_poke :: "string \<Rightarrow> (stream \<Rightarrow> stream) \<Rightarrow> file_store \<Rightarrow> file_store" where
  "file_poke i g f = f\<lparr>fl_inner := cache_poke i g (fl_inner f)\<rparr>"

definition file_getByWorkflow :: "string \<Rightarrow> file_store \<Rightarrow> stream list" where
  "file_getByWorkflow w f = cache_getByWorkflow w (fl_inner f)"

definition hasEvent :: "string \<Rightarrow> file_store \<Rightarrow> bool" where
  "hasEvent k f \<longleftrightarrow> k \<in> set (fl_eventKeys f)"

definition recordEvent :: "event_record \<Rightarrow> file_store \<Rightarrow> file_store \<times> bool" where
  "recordEvent r f =
     (if record_key r \<in> set (fl_eventKeys f) then (f, False)
      else (f\<lparr>fl_events := fl_events f @ [r], fl_eventKeys := fl_eventKeys f @ [record_key r],
              fl_disk := (fl_disk f)\<lparr>dk_events := Some (append_record r (dk_events (fl_disk f)))\<rparr>\<rparr>, True))"

text \<open>\<open>sort\<close> is stable; the comparator orders by block, then by log index.\<close>

definition chain_order :: "event_record \<Rightarrow> int \<times> int" where
  "chain_order e = (er_blockNumber e, er_logIndex e)"

definition getEvents :: "string \<Rightarrow> file_store \<Rightarrow> event_record list" where
  "getEvents i f = sort_key chain_order (filter (\<lambda>e. er_paycardId e = i) (fl_events f))"

section \<open>PersistentStreamReader\<close>

record stream_filter =
  sq_payer :: "string option"
  sq_recipient :: "string option"
  sq_workflowId :: "string option"
  sq_metadataHash :: "string option"
  sq_status :: "paycard_status option"

definition no_filter :: stream_filter where
  "no_filter = \<lparr>sq_payer = None, sq_recipient = None, sq_workflowId = None, sq_metadataHash = None, sq_status = None\<rparr>"

definition readStates :: "disk \<Rightarrow> stream list" where
  "readStates d = (case dk_state d of Some (SnapshotText states) \<Rightarrow> states | _ \<Rightarrow> [])"

definition line_record :: "log_line \<Rightarrow> event_record option" where
  "line_record l = (case l of RecordLine r \<Rightarrow> Some r | _ \<Rightarrow> None)"

definition readEvents :: "disk \<Rightarrow> event_record list" where
  "readEvents d = (case dk_events d of None \<Rightarrow> [] | Some f \<Rightarrow> List.map_filter line_record (all_lines f))"

definition eq_filter :: "string option \<Rightarrow> string option \<Rightarrow> bool" where
  "eq_filter a b \<longleftrightarrow>
     (case b of None \<Rightarrow> True | Some v \<Rightarrow> v = [] \<or> lower (case a of None \<Rightarrow> [] | Some x \<Rightarrow> x) = lower v)"

definition listStreams :: "stream_filter \<Rightarrow> disk \<Rightarrow> stream list" where
  "listStreams q d =
     filter (\<lambda>s. eq_filter (Some (sm_payer s)) (sq_payer q) \<and> eq_filter (Some (sm_recipient s)) (sq_recipient q) \<and>
        eq_filter (sm_workflowId s) (sq_workflowId q) \<and> eq_filter (Some (sm_metadataHash s)) (sq_metadataHash q) \<and>
        (case sq_status q of None \<Rightarrow> True | Some st \<Rightarrow> sm_status s = st)) (readStates d)"

definition getStream :: "string \<Rightarrow> disk \<Rightarrow> stream option" where
  "getStream i d = find (\<lambda>s. lower (sm_paycardId s) = lower i) (readStates d)"

definition getStreamHistory :: "string \<Rightarrow> disk \<Rightarrow> event_record list" where
  "getStreamHistory i d = sort_key chain_order (filter (\<lambda>e. lower (er_paycardId e) = lower i) (readEvents d))"

definition getWorkflow :: "string \<Rightarrow> disk \<Rightarrow> stream list \<times> event_record list" where
  "getWorkflow w d =
     (let streams = listStreams (no_filter\<lparr>sq_workflowId := Some w\<rparr>) d;
          ids = map (\<lambda>s. lower (sm_paycardId s)) streams in
      (streams,
       sort_key chain_order
         (filter (\<lambda>e. er_workflowId e = Some w \<or> lower (er_paycardId e) \<in> set ids) (readEvents d))))"

definition getByTransaction :: "string \<Rightarrow> disk \<Rightarrow> event_record list \<times> stream list" where
  "getByTransaction tx d =
     (let events = sort_key er_logIndex (filter (\<lambda>e. lower (er_transactionHash e) = lower tx) (readEvents d));
          ids = map (\<lambda>e. lower (er_paycardId e)) events in
      (events, filter (\<lambda>s. lower (sm_paycardId s) \<in> set ids) (readStates d)))"

section \<open>Loading the log\<close>

fun first_records :: "string list \<Rightarrow> event_record list \<Rightarrow> event_record list" where
  "first_records ks [] = []"
| "first_records ks (r # rs) =
     (if record_key r \<in> set ks then first_records ks rs
      else r # first_records (record_key r # ks) rs)"

lemma first_records_cong: "set ks = set ks' \<Longrightarrow> first_records ks rs = first_records ks' rs"
proof (induction rs arbitrary: ks ks')
  case (Cons r rs)
  then have "set (record_key r # ks) = set (record_key r # ks')" by simp
  from Cons.IH [OF Cons.prems] Cons.IH [OF this] Cons.prems show ?case by simp
qed simp

text \<open>A load keeps the first record of every key, in order.\<close>

lemma load_lines:
  "fold load_line ls (es, map record_key es) =
     (es @ first_records (map record_key es) (List.map_filter line_record ls),
      map record_key (es @ first_records (map record_key es) (List.map_filter line_record ls)))"
proof (induction ls arbitrary: es)
  case Nil
  then show ?case by (simp add: List.map_filter_simps)
next
  case (Cons l ls)
  show ?case
  proof (cases l)
    case (RecordLine r)
    show ?thesis
    proof (cases "record_key r \<in> set (map record_key es)")
      case True
      with Cons.IH [of es] RecordLine show ?thesis by (simp add: List.map_filter_simps line_record_def)
    next
      case False
      have "first_records (map record_key es @ [record_key r]) = first_records (record_key r # map record_key es)"
        by (rule ext, rule first_records_cong) simp
      with False Cons.IH [of "es @ [r]"] RecordLine show ?thesis
        by (simp add: List.map_filter_simps line_record_def)
    qed
  qed (use Cons.IH [of es] in \<open>simp_all add: List.map_filter_simps line_record_def\<close>)
qed

lemma load_events_read:
  "load_events d = (first_records [] (readEvents d), map record_key (first_records [] (readEvents d)))"
proof -
  have "fold load_line ls ([], []) = (first_records [] (List.map_filter line_record ls),
      map record_key (first_records [] (List.map_filter line_record ls)))" for ls
    using load_lines [of ls "[]"] by simp
  then show ?thesis
    by (cases "dk_events d") (simp_all only: load_events_def readEvents_def option.case first_records.simps list.map)
qed

lemma first_records_fresh: "r \<in> set (first_records ks rs) \<Longrightarrow> record_key r \<notin> set ks"
  by (induction ks rs rule: first_records.induct) (auto split: if_splits)

lemma first_records_distinct: "distinct (map record_key (first_records ks rs))"
proof (induction ks rs rule: first_records.induct)
  case (2 ks r rs)
  then show ?case using first_records_fresh [of _ "record_key r # ks" rs] by force
qed simp

lemma first_records_id:
  "distinct (map record_key rs) \<Longrightarrow> set (map record_key rs) \<inter> set ks = {} \<Longrightarrow> first_records ks rs = rs"
  by (induction rs arbitrary: ks) auto

section \<open>Loading the snapshot\<close>

lemma load_states_list:
  assumes "distinct (map sm_paycardId xs)"
  shows "mc_store (fold (\<lambda>s. cache_set (sm_paycardId s) s) xs empty_cache) = map (\<lambda>s. (sm_paycardId s, s)) xs"
  using assms
proof (induction xs rule: rev_induct)
  case Nil
  then show ?case by (simp add: empty_cache_def)
next
  case (snoc x xs)
  then have "oget (map (\<lambda>s. (sm_paycardId s, s)) xs) (sm_paycardId x) = None"
    by (auto simp: map_of_eq_None_iff comp_def)
  with snoc show ?case by (simp add: cache_set_def Let_def oset_fresh)
qed

lemma load_states_ok: "cache_ok (load_states d)"
proof -
  have "cache_ok c \<Longrightarrow> cache_ok (fold (\<lambda>s. cache_set (sm_paycardId s) s) xs c)" for xs c
    by (induction xs arbitrary: c) (simp_all add: cache_ok_set)
  then show ?thesis by (simp add: load_states_def cache_ok_empty split: option.splits snapshot_text.splits)
qed

lemma load_states_read:
  assumes "distinct (map sm_paycardId (readStates d))"
  shows "mc_store (load_states d) = map (\<lambda>s. (sm_paycardId s, s)) (readStates d)"
  using assms load_states_list
  by (auto simp: load_states_def readStates_def empty_cache_def split: option.splits snapshot_text.splits)

section \<open>The invariant of the files\<close>

text \<open>Accrual projections are not written to the snapshot.\<close>

definition strip :: "stream \<Rightarrow> stream" where
  "strip s = s\<lparr>sm_projectedAvailableBalance := None\<rparr>"

definition clean_tail :: "disk \<Rightarrow> bool" where
  "clean_tail d \<longleftrightarrow> (case dk_events d of None \<Rightarrow> True | Some f \<Rightarrow> lf_tail f = BlankLine)"

definition disk_ok :: "disk \<Rightarrow> bool" where
  "disk_ok d \<longleftrightarrow> distinct (map sm_paycardId (readStates d)) \<and> clean_tail d"

definition keyed :: "memory_cache \<Rightarrow> bool" where
  "keyed c \<longleftrightarrow> (\<forall>i s. cache_get i c = Some s \<longrightarrow> sm_paycardId s = i)"

definition file_ok :: "file_store \<Rightarrow> bool" where
  "file_ok f \<longleftrightarrow>
     cache_ok (fl_inner f) \<and> keyed (fl_inner f) \<and> clean_tail (fl_disk f) \<and>
     map strip (readStates (fl_disk f)) = map strip (cache_getAll (fl_inner f)) \<and>
     fl_events f = first_records [] (readEvents (fl_disk f)) \<and>
     fl_eventKeys f = map record_key (fl_events f)"

lemma keyed_ids:
  assumes "keyed c" "cache_ok c"
  shows "map sm_paycardId (cache_getAll c) = okeys (mc_store c)"
proof -
  have "sm_paycardId (snd p) = fst p" if "p \<in> set (mc_store c)" for p
  proof -
    from assms(2) have "distinct (map fst (mc_store c))" by (simp add: cache_ok_def okeys_def)
    with that have "cache_get (fst p) c = Some (snd p)" by (simp add: cache_get_def)
    with assms(1) show ?thesis by (simp add: keyed_def)
  qed
  then show ?thesis by (simp add: cache_getAll_def okeys_def ovals_def)
qed

lemma strip_fields [simp]: "sm_paycardId (strip s) = sm_paycardId s" "sm_workflowId (strip s) = sm_workflowId s"
    "sm_status (strip s) = sm_status s" "sm_availableBalance (strip s) = sm_availableBalance s"
    "sm_genesis (strip s) = sm_genesis s" "sm_lifespan (strip s) = sm_lifespan s" "strip (strip s) = strip s"
  by (simp_all add: strip_def)

lemma ids_strip: "map sm_paycardId (map strip xs) = map sm_paycardId xs"
  by simp

lemma file_ok_open:
  assumes "disk_ok d"
  shows "file_ok (open_file_store d)"
proof -
  have "mc_store (load_states d) = map (\<lambda>s. (sm_paycardId s, s)) (readStates d)"
    using assms by (simp add: disk_ok_def load_states_read)
  with assms show ?thesis
    by (auto simp: file_ok_def open_file_store_def load_states_ok keyed_def cache_get_def cache_getAll_def ovals_def
        comp_def disk_ok_def load_events_read dest!: map_of_SomeD)
qed

lemma file_ok_disk:
  assumes "file_ok f"
  shows "disk_ok (fl_disk f)"
proof -
  from assms have "map sm_paycardId (readStates (fl_disk f)) = okeys (mc_store (fl_inner f))"
    by (metis file_ok_def ids_strip keyed_ids)
  with assms show ?thesis by (simp add: disk_ok_def file_ok_def cache_ok_def)
qed

lemma readEvents_snapshot [simp]: "readEvents (d\<lparr>dk_state := x\<rparr>) = readEvents d"
  by (simp add: readEvents_def)

lemma readStates_log [simp]: "readStates (d\<lparr>dk_events := x\<rparr>) = readStates d"
  by (simp add: readStates_def)

lemma clean_tail_snapshot [simp]: "clean_tail (d\<lparr>dk_state := x\<rparr>) = clean_tail d"
  by (simp add: clean_tail_def)

lemma file_ok_persist:
  assumes "file_ok f" "cache_ok c" "keyed c"
  shows "file_ok (persistSnapshot (f\<lparr>fl_inner := c\<rparr>))"
  using assms by (simp add: file_ok_def persistSnapshot_def) (simp add: readStates_def)

lemma keyed_set: "keyed c \<Longrightarrow> sm_paycardId s = i \<Longrightarrow> keyed (cache_set i s c)"
  by (simp add: keyed_def)

lemma keyed_delete: "keyed c \<Longrightarrow> keyed (fst (cache_delete i c))"
  by (simp add: keyed_def)

lemma keyed_get: "keyed c \<Longrightarrow> cache_get i c = Some s \<Longrightarrow> sm_paycardId s = i"
  by (simp add: keyed_def)

lemma file_ok_set: "file_ok f \<Longrightarrow> sm_paycardId s = i \<Longrightarrow> file_ok (file_set i s f)"
  by (simp add: file_set_def file_ok_persist cache_ok_set keyed_set file_ok_def [of f])

lemma file_ok_delete: "file_ok f \<Longrightarrow> file_ok (fst (file_delete i f))"
proof -
  assume ok: "file_ok f"
  show ?thesis
  proof (cases "cache_get i (fl_inner f)")
    case None
    then have none: "oget (mc_store (fl_inner f)) i = None" by (simp add: cache_get_def)
    then have "AList.delete i (mc_store (fl_inner f)) = mc_store (fl_inner f)"
      by (simp add: delete_id map_of_eq_None_iff)
    with none have "fst (cache_delete i (fl_inner f)) = fl_inner f"
      by (simp add: cache_delete_def)
    with ok None show ?thesis
      by (simp add: file_delete_def case_prod_beta Let_def)
  next
    case (Some s)
    with ok show ?thesis
      by (simp add: file_delete_def case_prod_beta Let_def file_ok_persist cache_ok_delete keyed_delete file_ok_def [of f])
  qed
qed

lemma keyed_bind: "keyed c \<Longrightarrow> keyed (fst (cache_bindWorkflow i w c))"
  by (auto simp: keyed_def cache_get_bindWorkflow)

lemma file_ok_bindWorkflow: "file_ok f \<Longrightarrow> file_ok (fst (file_bindWorkflow i w f))"
proof -
  assume ok: "file_ok f"
  show ?thesis
  proof (cases "cache_get i (fl_inner f)")
    case None
    then have "cache_bindWorkflow i w (fl_inner f) = (fl_inner f, None)"
      by (simp add: cache_bindWorkflow_def cache_get_def)
    with ok show ?thesis by (simp add: file_bindWorkflow_def)
  next
    case (Some s)
    with ok show ?thesis
      by (simp add: file_bindWorkflow_def case_prod_beta Let_def file_ok_persist cache_ok_bindWorkflow keyed_bind
          cache_get_bindWorkflow file_ok_def [of f])
  qed
qed

lemma strip_getAll_poke:
  assumes "\<And>s. strip (g s) = strip s"
  shows "map strip (cache_getAll (cache_poke i g c)) = map strip (cache_getAll c)"
proof (cases "oget (mc_store c) i")
  case None
  then show ?thesis by (simp add: cache_poke_def)
next
  case (Some s)
  from ovals_oset_split [OF Some] obtain xs ys where
    "ovals (mc_store c) = xs @ s # ys" "\<And>v. ovals (oset i v (mc_store c)) = xs @ v # ys" by blast
  with Some assms show ?thesis by (simp add: cache_poke_def cache_getAll_def)
qed

lemma file_ok_poke:
  assumes "file_ok f" "\<And>s. strip (g s) = strip s"
  shows "file_ok (file_poke i g f)"
proof -
  have same: "sm_workflowId (g s) = sm_workflowId s" "sm_paycardId (g s) = sm_paycardId s" for s
    using assms(2) [of s] by (metis strip_fields(1,2))+
  with assms show ?thesis
    by (auto simp: file_ok_def file_poke_def cache_ok_poke strip_getAll_poke keyed_def split: if_splits)
qed

section \<open>Appending to the log\<close>

lemma map_filter_append: "List.map_filter h (xs @ ys) = List.map_filter h xs @ List.map_filter h ys"
  by (simp add: List.map_filter_def)

lemma readEvents_append:
  "clean_tail d \<Longrightarrow> readEvents (d\<lparr>dk_events := Some (append_record r (dk_events d))\<rparr>) = readEvents d @ [r]"
  by (auto simp: readEvents_def append_record_def clean_tail_def all_lines_def map_filter_append
      List.map_filter_simps line_record_def split: option.splits)

lemma first_records_snoc:
  "first_records ks (rs @ [r]) =
     first_records ks rs @ (if record_key r \<in> set ks \<union> set (map record_key (first_records ks rs)) then [] else [r])"
  by (induction ks rs rule: first_records.induct) auto

lemma file_ok_recordEvent: "file_ok f \<Longrightarrow> file_ok (fst (recordEvent r f))"
  by (auto simp: recordEvent_def file_ok_def readEvents_append first_records_snoc)
     (auto simp: clean_tail_def append_record_def split: option.splits)

section \<open>A restart\<close>

definition restart :: "file_store \<Rightarrow> file_store" where
  "restart f = open_file_store (fl_disk f)"

lemma file_ok_restart: "file_ok f \<Longrightarrow> file_ok (restart f)"
  by (simp add: restart_def file_ok_open file_ok_disk)

lemma restart_events: "file_ok f \<Longrightarrow> fl_events (restart f) = fl_events f \<and> fl_eventKeys (restart f) = fl_eventKeys f"
  by (simp add: restart_def open_file_store_def load_events_read file_ok_def)

lemma restart_getAll:
  "file_ok f \<Longrightarrow> map strip (cache_getAll (fl_inner (restart f))) = map strip (cache_getAll (fl_inner f))"
  using file_ok_restart [of f] by (simp add: file_ok_def restart_def open_file_store_def)

lemma cache_get_strip:
  assumes "keyed c" "cache_ok c"
  shows "map_option strip (cache_get i c) = find (\<lambda>s. sm_paycardId s = i) (map strip (cache_getAll c))"
proof -
  have id: "\<forall>p \<in> set (mc_store c). sm_paycardId (snd p) = fst p"
  proof
    fix p assume "p \<in> set (mc_store c)"
    moreover from assms(2) have "distinct (map fst (mc_store c))" by (simp add: cache_ok_def okeys_def)
    ultimately have "cache_get (fst p) c = Some (snd p)" by (simp add: cache_get_def)
    with assms(1) show "sm_paycardId (snd p) = fst p" by (simp add: keyed_def)
  qed
  have "map_option strip (map_of xs i) = find (\<lambda>s. sm_paycardId s = i) (map strip (ovals xs))"
    if "\<forall>p \<in> set xs. sm_paycardId (snd p) = fst p" for xs
    using that by (induction xs) auto
  from this [OF id] show ?thesis by (simp add: cache_get_def cache_getAll_def)
qed

lemma restart_get: "file_ok f \<Longrightarrow> map_option strip (file_get i (restart f)) = map_option strip (file_get i f)"
  using file_ok_restart [of f] restart_getAll [of f]
  by (simp add: file_get_def cache_get_strip file_ok_def)

section \<open>The interface\<close>

text \<open>The store laws hold of the files without the condition that a state is stored under its own identifier.\<close>

interpretation file_store: stream_store "open_file_store \<lparr>dk_state = None, dk_events = None\<rparr>" file_set file_get
    "\<lambda>i f. fst (file_delete i f)" "\<lambda>i w f. fst (file_bindWorkflow i w f)" file_getByWorkflow
    "\<lambda>f. cache_ok (fl_inner f)"
  by unfold_locales
     (simp_all add: open_file_store_def load_states_ok file_get_def load_states_def file_set_def persistSnapshot_def
        cache_ok_set file_delete_def case_prod_beta Let_def cache_ok_delete file_bindWorkflow_def
        cache_ok_bindWorkflow cache_get_bindWorkflow file_getByWorkflow_def cache_getByWorkflow_set cache_ok_empty)

locale durable_store =
  fixes record_event :: "event_record \<Rightarrow> 'c \<Rightarrow> 'c \<times> bool"
    and has_event :: "string \<Rightarrow> 'c \<Rightarrow> bool"
    and events_of :: "'c \<Rightarrow> event_record list"
    and reopen :: "'c \<Rightarrow> 'c"
    and ok :: "'c \<Rightarrow> bool"
  assumes record_ok: "ok c \<Longrightarrow> ok (fst (record_event r c))"
    and record_new: "ok c \<Longrightarrow> snd (record_event r c) \<longleftrightarrow> \<not> has_event (record_key r) c"
    and record_has: "ok c \<Longrightarrow> has_event k (fst (record_event r c)) \<longleftrightarrow> k = record_key r \<or> has_event k c"
    and record_events: "ok c \<Longrightarrow> events_of (fst (record_event r c)) =
        events_of c @ (if has_event (record_key r) c then [] else [r])"
    and has_events: "ok c \<Longrightarrow> has_event k c \<longleftrightarrow> k \<in> record_key ` set (events_of c)"
    and reopen_ok: "ok c \<Longrightarrow> ok (reopen c)"
    and reopen_events: "ok c \<Longrightarrow> events_of (reopen c) = events_of c"
begin

text \<open>An event is new once, also when the process restarts in between.\<close>

lemma recorded_once:
  assumes "ok c"
  shows "\<not> snd (record_event r (reopen (fst (record_event r c))))"
    and "fst (record_event r (reopen (fst (record_event r c)))) = reopen (fst (record_event r c)) \<Longrightarrow>
      events_of (fst (record_event r (reopen (fst (record_event r c))))) = events_of (fst (record_event r c))"
  using assms by (auto simp: record_new record_ok reopen_ok has_events reopen_events record_events)

lemma events_once:
  assumes "ok c" "distinct (map record_key (events_of c))"
  shows "distinct (map record_key (events_of (fst (record_event r c))))"
  using assms by (auto simp: record_events has_events)

end

interpretation event_table: durable_store recordEvent hasEvent fl_events restart file_ok
proof unfold_locales
  fix c r k assume ok: "file_ok c"
  then have keys: "fl_eventKeys c = map record_key (fl_events c)" by (simp add: file_ok_def)
  show "file_ok (fst (recordEvent r c))" using ok by (rule file_ok_recordEvent)
  show "snd (recordEvent r c) \<longleftrightarrow> \<not> hasEvent (record_key r) c" by (simp add: recordEvent_def hasEvent_def)
  show "hasEvent k (fst (recordEvent r c)) \<longleftrightarrow> k = record_key r \<or> hasEvent k c"
    by (auto simp: recordEvent_def hasEvent_def)
  show "fl_events (fst (recordEvent r c)) = fl_events c @ (if hasEvent (record_key r) c then [] else [r])"
    by (simp add: recordEvent_def hasEvent_def)
  show "hasEvent k c \<longleftrightarrow> k \<in> record_key ` set (fl_events c)" by (simp add: hasEvent_def keys)
  show "file_ok (restart c)" using ok by (rule file_ok_restart)
  show "fl_events (restart c) = fl_events c" using restart_events [OF ok] by simp
qed

section \<open>Sorting\<close>

lemma sorted_history: "sorted (map chain_order (getStreamHistory i d))"
  by (simp add: getStreamHistory_def)

lemma set_history: "set (getStreamHistory i d) = {e \<in> set (readEvents d). lower (er_paycardId e) = lower i}"
  by (simp add: getStreamHistory_def)

end
