(* ===== verification/StreamTimer.thy ===== *)
theory StreamTimer
  imports Prelude
begin

text \<open>
  \<open>stream-gateway/timer.ts\<close>: \<open>JitterResistantTimerLoop\<close>. The event loop's pending timeouts
  are a list of identifiers and due times; \<open>fire\<close> is one of them going off. Instants are
  whole milliseconds, as \<open>Date.now()\<close> returns them.
\<close>

section \<open>The loop\<close>

record timer =
  tm_intervalMs :: int
  tm_handle :: "nat option"
  tm_running :: bool
  tm_expectedTickMs :: int
  tm_timeouts :: "(nat \<times> int) list"
  tm_next :: nat

definition new_timer :: "int \<Rightarrow> timer result" where
  "new_timer intervalMs =
     throw_if (intervalMs \<le> 0) ''intervalMs must be positive''
       (Inr \<lparr>tm_intervalMs = intervalMs, tm_handle = None, tm_running = False, tm_expectedTickMs = 0,
             tm_timeouts = [], tm_next = 0\<rparr>)"

definition adjusted_delay :: "int \<Rightarrow> timer \<Rightarrow> int" where
  "adjusted_delay now t = (let drift = now - tm_expectedTickMs t in max 0 (tm_intervalMs t - drift))"

definition scheduleTick :: "int \<Rightarrow> timer \<Rightarrow> timer" where
  "scheduleTick now t =
     (if \<not> tm_running t then t
      else t\<lparr>tm_handle := Some (tm_next t),
             tm_timeouts := tm_timeouts t @ [(tm_next t, now + adjusted_delay now t)],
             tm_next := Suc (tm_next t)\<rparr>)"

text \<open>\<open>start\<close> reads the clock twice: for the expectation and for the delay.\<close>

definition start_timer :: "int \<Rightarrow> int \<Rightarrow> timer \<Rightarrow> timer" where
  "start_timer now now' t =
     (if tm_running t then t
      else scheduleTick now' (t\<lparr>tm_running := True, tm_expectedTickMs := now + tm_intervalMs t\<rparr>))"

definition clear_timeout :: "nat \<Rightarrow> timer \<Rightarrow> timer" where
  "clear_timeout h t = t\<lparr>tm_timeouts := filter (\<lambda>p. fst p \<noteq> h) (tm_timeouts t)\<rparr>"

definition stop_timer :: "timer \<Rightarrow> timer" where
  "stop_timer t =
     (let t' = t\<lparr>tm_running := False\<rparr> in
      case tm_handle t' of None \<Rightarrow> t' | Some h \<Rightarrow> (clear_timeout h t')\<lparr>tm_handle := None\<rparr>)"

text \<open>The timeout \<open>h\<close> goes off; \<open>callback\<close> is what the callback does to the loop (an exception
  of it is swallowed), \<open>now'\<close> the clock when the next tick is scheduled.\<close>

definition fire :: "nat \<Rightarrow> (timer \<Rightarrow> timer) \<Rightarrow> int \<Rightarrow> timer \<Rightarrow> timer" where
  "fire h callback now' t =
     (let t1 = clear_timeout h t in
      if \<not> tm_running t1 then t1
      else scheduleTick now' (callback (t1\<lparr>tm_expectedTickMs := tm_expectedTickMs t1 + tm_intervalMs t1\<rparr>)))"

section \<open>One pending tick\<close>

definition timer_ok :: "timer \<Rightarrow> bool" where
  "timer_ok t \<longleftrightarrow> 0 < tm_intervalMs t \<and>
     (if tm_running t then (\<exists>h due. tm_handle t = Some h \<and> tm_timeouts t = [(h, due)]) else tm_timeouts t = [])"

lemma timer_ok_new: "new_timer i = Inr t \<Longrightarrow> timer_ok t \<and> \<not> tm_running t"
  by (auto simp: new_timer_def throw_if_Inr_iff timer_ok_def)

lemma timer_ok_start: "timer_ok t \<Longrightarrow> timer_ok (start_timer now now' t)"
  by (auto simp: timer_ok_def start_timer_def scheduleTick_def)

lemma timer_ok_stop: "timer_ok t \<Longrightarrow> timer_ok (stop_timer t) \<and> tm_timeouts (stop_timer t) = []"
  by (cases "tm_handle t") (auto simp: timer_ok_def stop_timer_def clear_timeout_def Let_def split: if_splits)

lemma timer_ok_fire:
  assumes "timer_ok t" "(h, due) \<in> set (tm_timeouts t)" "callback = id \<or> callback = stop_timer"
  shows "timer_ok (fire h callback now' t)"
  using assms
  by (auto simp: timer_ok_def fire_def scheduleTick_def clear_timeout_def stop_timer_def Let_def
      split: if_splits option.splits)

section \<open>The cadence\<close>

text \<open>The instants of the ticks when the event loop delivers the \<open>n\<close>-th timeout late by the
  \<open>n\<close>-th entry of the list and the callback leaves the loop alone.\<close>

fun tick_times :: "int list \<Rightarrow> timer \<Rightarrow> int list" where
  "tick_times [] t = []"
| "tick_times (late # ls) t =
     (case tm_timeouts t of
        [] \<Rightarrow> []
      | (h, due) # _ \<Rightarrow> (due + late) # tick_times ls (fire h id (due + late) t))"

lemma enumerate_shift: "enumerate (Suc n) xs = map (\<lambda>(i, x). (Suc i, x)) (enumerate n xs)"
  by (induction xs arbitrary: n) auto

lemma tick_times_on_grid:
  assumes "tm_running t" "tm_timeouts t = [(h, due)]" "due = tm_expectedTickMs t + tm_intervalMs t"
    "list_all (\<lambda>l. 0 \<le> l \<and> l \<le> tm_intervalMs t) ls"
  shows "tick_times ls t = map (\<lambda>(n, l). due + int n * tm_intervalMs t + l) (enumerate 0 ls)"
  using assms
proof (induction ls arbitrary: t h due)
  case Nil
  then show ?case by simp
next
  case (Cons l ls)
  define u where "u = fire h id (due + l) t"
  have u: "tm_running u" "tm_intervalMs u = tm_intervalMs t" "tm_expectedTickMs u = due"
    "tm_timeouts u = [(tm_next t, due + tm_intervalMs t)]"
    using Cons.prems
    by (simp_all add: u_def fire_def scheduleTick_def clear_timeout_def adjusted_delay_def Let_def)
  have "tick_times ls u = map (\<lambda>(n, l). due + tm_intervalMs t + int n * tm_intervalMs u + l) (enumerate 0 ls)"
    by (rule Cons.IH [OF u(1,4)]) (use u Cons.prems in simp_all)
  with Cons.prems(2) show ?case
    by (simp add: u_def [symmetric] u(2) enumerate_shift [of 0] algebra_simps comp_def case_prod_beta)
qed

lemma started_on_grid:
  assumes "timer_ok t" "\<not> tm_running t"
  shows "tm_running (start_timer now now t)" "tm_intervalMs (start_timer now now t) = tm_intervalMs t"
    "tm_expectedTickMs (start_timer now now t) = now + tm_intervalMs t"
    "tm_timeouts (start_timer now now t) = [(tm_next t, now + 2 * tm_intervalMs t)]"
  using assms by (simp_all add: timer_ok_def start_timer_def scheduleTick_def adjusted_delay_def Let_def)

text \<open>Stopping leaves no timeout pending; while the timer runs, exactly one is.\<close>

lemma one_timeout_pending:
  assumes "timer_ok t"
  shows "tm_timeouts (stop_timer t) = [] \<and> length (tm_timeouts (start_timer now now' t)) = 1 \<and>
     (\<forall>h due. (h, due) \<in> set (tm_timeouts t) \<longrightarrow>
        length (tm_timeouts (fire h id now'' t)) = (if tm_running t then 1 else 0) \<and>
        tm_timeouts (fire h stop_timer now'' t) = [])"
  using timer_ok_stop [OF assms] timer_ok_start [OF assms, of now now'] assms
  by (auto simp: timer_ok_def start_timer_def scheduleTick_def fire_def clear_timeout_def stop_timer_def Let_def
      split: if_splits option.splits)

end
