(* ===== verification/ProviderPool.thy ===== *)
theory ProviderPool
  imports Prelude
begin

text \<open>
  \<open>stream-gateway/provider-pool.ts\<close>: \<open>ArcJsonRpcProviderPool\<close>. A provider is its index in
  the pool; the answers of the health probes are inputs.
\<close>

section \<open>The pool\<close>

record provider_entry =
  pe_url :: string
  pe_healthy :: bool
  pe_consecutiveFailures :: nat
  pe_lastCheckedMs :: int

record pool =
  pl_entries :: "provider_entry list"
  pl_cursor :: nat
  pl_polling :: bool
  pl_subscriptions :: "(nat \<times> string \<times> string list) list"
  pl_destroyed :: bool

definition max_failures :: nat where
  "max_failures = 3"

definition new_pool :: "string list \<Rightarrow> int \<Rightarrow> pool result" where
  "new_pool urls now =
     throw_if (urls = []) ''ArcJsonRpcProviderPool requires at least one RPC URL''
       (Inr \<lparr>pl_entries = map (\<lambda>u. \<lparr>pe_url = u, pe_healthy = True, pe_consecutiveFailures = 0, pe_lastCheckedMs = now\<rparr>) urls,
             pl_cursor = 0, pl_polling = True, pl_subscriptions = [], pl_destroyed = False\<rparr>)"

definition recovered :: "provider_entry \<Rightarrow> provider_entry" where
  "recovered e = e\<lparr>pe_healthy := True, pe_consecutiveFailures := 0\<rparr>"

definition getProvider :: "pool \<Rightarrow> pool \<times> nat" where
  "getProvider p =
     (let count = length (pl_entries p) in
      case find (\<lambda>i. pe_healthy (pl_entries p ! ((pl_cursor p + i) mod count))) [0..<count] of
        Some i \<Rightarrow> (let idx = (pl_cursor p + i) mod count in (p\<lparr>pl_cursor := (idx + 1) mod count\<rparr>, idx))
      | None \<Rightarrow> (p\<lparr>pl_entries := map recovered (pl_entries p), pl_cursor := 1 mod count\<rparr>, 0))"

text \<open>One probe of one provider: whether \<open>getBlockNumber\<close> answered.\<close>

definition probe :: "int \<Rightarrow> bool \<Rightarrow> provider_entry \<Rightarrow> provider_entry" where
  "probe now answered e =
     (if answered then (recovered e)\<lparr>pe_lastCheckedMs := now\<rparr>
      else (let n = Suc (pe_consecutiveFailures e) in
            e\<lparr>pe_consecutiveFailures := n,
              pe_healthy := (if n \<ge> max_failures then False else pe_healthy e),
              pe_lastCheckedMs := now\<rparr>))"

definition probeAll :: "int \<Rightarrow> bool list \<Rightarrow> pool \<Rightarrow> pool" where
  "probeAll now answers p = p\<lparr>pl_entries := map2 (probe now) answers (pl_entries p)\<rparr>"

definition subscribe :: "string \<Rightarrow> string list \<Rightarrow> pool \<Rightarrow> pool" where
  "subscribe address topics p =
     p\<lparr>pl_subscriptions := pl_subscriptions p @ map (\<lambda>i. (i, address, topics)) [0..<length (pl_entries p)]\<rparr>"

definition close_pool :: "pool \<Rightarrow> pool" where
  "close_pool p = p\<lparr>pl_subscriptions := [], pl_polling := False, pl_destroyed := True\<rparr>"

section \<open>Selection\<close>

definition pool_ok :: "pool \<Rightarrow> bool" where
  "pool_ok p \<longleftrightarrow> pl_entries p \<noteq> [] \<and> pl_cursor p < length (pl_entries p)"

lemma pool_ok_new: "new_pool urls now = Inr p \<Longrightarrow> pool_ok p"
  by (auto simp: new_pool_def throw_if_Inr_iff pool_ok_def)

lemma find_index:
  "find P [0..<n] = Some i \<longleftrightarrow> i < n \<and> P i \<and> (\<forall>j < i. \<not> P j)"
  by (auto simp: find_Some_iff intro: less_trans)

lemma cursor_offset:
  assumes "c < (n :: nat)" "k < n"
  shows "\<exists>i < n. (c + i) mod n = k"
proof (cases "c \<le> k")
  case True
  with assms show ?thesis by (intro exI [of _ "k - c"]) simp
next
  case False
  with assms show ?thesis by (intro exI [of _ "n + k - c"]) auto
qed

lemma getProvider_index:
  assumes "pool_ok p"
  shows "snd (getProvider p) < length (pl_entries p)"
  using assms by (auto simp: getProvider_def pool_ok_def Let_def split: option.splits)

lemma getProvider_pool:
  assumes "pool_ok p"
  shows "pool_ok (fst (getProvider p)) \<and> length (pl_entries (fst (getProvider p))) = length (pl_entries p)"
  using assms by (auto simp: getProvider_def pool_ok_def Let_def split: option.splits)

text \<open>The provider handed out is healthy whenever one of the pool is.\<close>

lemma getProvider_healthy:
  assumes "pool_ok p" "k < length (pl_entries p)" "pe_healthy (pl_entries p ! k)"
  shows "pe_healthy (pl_entries p ! snd (getProvider p)) \<and> pl_entries (fst (getProvider p)) = pl_entries p"
proof -
  define n where "n = length (pl_entries p)"
  from cursor_offset [of "pl_cursor p" n k] assms obtain i where i: "i < n" "(pl_cursor p + i) mod n = k"
    by (auto simp: pool_ok_def n_def)
  have "find (\<lambda>i. pe_healthy (pl_entries p ! ((pl_cursor p + i) mod n))) [0..<n] \<noteq> None"
    using i assms(3) by (auto simp: find_None_iff)
  then obtain j where j: "find (\<lambda>i. pe_healthy (pl_entries p ! ((pl_cursor p + i) mod n))) [0..<n] = Some j" by blast
  then have "pe_healthy (pl_entries p ! ((pl_cursor p + j) mod n))" by (simp add: find_index)
  with j show ?thesis by (simp add: getProvider_def n_def [symmetric] Let_def)
qed

text \<open>When every provider is down, all of them get another chance, starting with the first.\<close>

lemma getProvider_reset:
  assumes "\<forall>e \<in> set (pl_entries p). \<not> pe_healthy e" "pool_ok p"
  shows "snd (getProvider p) = 0 \<and> (\<forall>e \<in> set (pl_entries (fst (getProvider p))). pe_healthy e)"
proof -
  have "\<forall>i. \<not> pe_healthy (pl_entries p ! ((pl_cursor p + i) mod length (pl_entries p)))"
    using assms by (simp add: pool_ok_def)
  then have "find (\<lambda>i. pe_healthy (pl_entries p ! ((pl_cursor p + i) mod length (pl_entries p)))) [0..<length (pl_entries p)] = None"
    by (simp add: find_None_iff)
  then show ?thesis by (auto simp: getProvider_def Let_def recovered_def)
qed

section \<open>Rotation\<close>

fun take_providers :: "nat \<Rightarrow> pool \<Rightarrow> nat list" where
  "take_providers 0 p = []"
| "take_providers (Suc n) p = snd (getProvider p) # take_providers n (fst (getProvider p))"

lemma getProvider_all_healthy:
  assumes "pool_ok p" "\<forall>e \<in> set (pl_entries p). pe_healthy e"
  shows "getProvider p = (p\<lparr>pl_cursor := (pl_cursor p + 1) mod length (pl_entries p)\<rparr>, pl_cursor p)"
proof -
  have "find (\<lambda>i. pe_healthy (pl_entries p ! ((pl_cursor p + i) mod length (pl_entries p)))) [0..<length (pl_entries p)] = Some 0"
    using assms by (auto simp: find_index pool_ok_def)
  with assms show ?thesis by (simp add: getProvider_def Let_def pool_ok_def)
qed

lemma take_providers_rotation:
  assumes "pool_ok p" "\<forall>e \<in> set (pl_entries p). pe_healthy e"
  shows "take_providers n p = map (\<lambda>i. (pl_cursor p + i) mod length (pl_entries p)) [0..<n]"
  using assms
proof (induction n arbitrary: p)
  case 0
  then show ?case by simp
next
  case (Suc n)
  define q where "q = p\<lparr>pl_cursor := (pl_cursor p + 1) mod length (pl_entries p)\<rparr>"
  have q: "pool_ok q" "\<forall>e \<in> set (pl_entries q). pe_healthy e"
    using Suc.prems by (simp_all add: q_def pool_ok_def)
  have "take_providers (Suc n) p = pl_cursor p # take_providers n q"
    by (simp add: getProvider_all_healthy [OF Suc.prems] q_def)
  also have "\<dots> = pl_cursor p # map (\<lambda>i. (pl_cursor p + 1 + i) mod length (pl_entries p)) [0..<n]"
    by (simp add: Suc.IH [OF q]) (simp add: q_def mod_add_left_eq)
  finally show ?case
    using Suc.prems(1) by (simp add: upt_conv_Cons map_Suc_upt [symmetric] comp_def pool_ok_def del: upt_Suc)
qed

section \<open>Health\<close>

fun probes :: "(int \<times> bool) list \<Rightarrow> provider_entry \<Rightarrow> provider_entry" where
  "probes [] e = e"
| "probes (p # ps) e = probes ps (probe (fst p) (snd p) e)"

lemma probes_failures:
  "\<forall>p \<in> set ps. \<not> snd p \<Longrightarrow>
   pe_consecutiveFailures (probes ps e) = pe_consecutiveFailures e + length ps \<and>
   (pe_healthy (probes ps e) \<longleftrightarrow>
      pe_healthy e \<and> (ps = [] \<or> pe_consecutiveFailures e + length ps < max_failures))"
  by (induction ps arbitrary: e) (auto simp: probe_def Let_def)

lemma probes_append: "probes (ps @ qs) e = probes qs (probes ps e)"
  by (induction ps arbitrary: e) auto

lemma probe_answered: "pe_healthy (probe now True e) \<and> pe_consecutiveFailures (probe now True e) = 0"
  by (simp add: probe_def recovered_def)

end
