(* ===== verification/Webhook.thy ===== *)
theory Webhook
  imports Canonical
begin

text \<open>
  \<open>stream-gateway/webhook.ts\<close>: delivery with exponential backoff, and the middleware that
  checks a delivery's signature. Ed25519 is a parameter (signing and verifying), as are the
  answers of the remote endpoint and the jitter; delays are milliseconds in an ordered ring.
\<close>

section \<open>ExponentialBackoffRetryEngine\<close>

datatype fetch_result = Status int | NetworkFailure

definition status_ok :: "int \<Rightarrow> bool" where
  "status_ok n \<longleftrightarrow> 200 \<le> n \<and> n \<le> 299"

definition final_error :: "int \<Rightarrow> bool" where
  "final_error n \<longleftrightarrow> 400 \<le> n \<and> n < 500 \<and> n \<noteq> 429"

definition base_delay :: int where "base_delay = 500"
definition max_delay :: int where "max_delay = 30000"

definition backoff_delay :: "nat \<Rightarrow> 'n::linordered_idom \<Rightarrow> 'n" where
  "backoff_delay attempt jitter = min (of_int base_delay * 2 ^ attempt + jitter) (of_int max_delay)"

text \<open>What a delivery did: whether it succeeded, the requests it sent, the delays between them.\<close>

record 'n delivery =
  dv_delivered :: bool
  dv_requests :: "(string \<times> string \<times> string) list"
  dv_delays :: "'n list"

definition sent :: "string \<times> string \<times> string \<Rightarrow> 'n list \<Rightarrow> 'n delivery \<Rightarrow> 'n delivery" where
  "sent r ds d = d\<lparr>dv_requests := r # dv_requests d, dv_delays := ds @ dv_delays d\<rparr>"

text \<open>The loop with \<open>remaining\<close> attempts left, the next one being number \<open>attempt\<close>.\<close>

fun deliver_loop ::
    "(nat \<Rightarrow> fetch_result) \<Rightarrow> (nat \<Rightarrow> 'n::linordered_idom) \<Rightarrow> string \<times> string \<times> string \<Rightarrow> nat \<Rightarrow> nat \<Rightarrow> 'n delivery" where
  "deliver_loop answer jitter r attempt 0 = \<lparr>dv_delivered = False, dv_requests = [], dv_delays = []\<rparr>"
| "deliver_loop answer jitter r attempt (Suc remaining) =
     (let again = sent r (if remaining = 0 then [] else [backoff_delay attempt (jitter attempt)])
                    (deliver_loop answer jitter r (Suc attempt) remaining) in
      case answer attempt of
        Status n \<Rightarrow>
          if status_ok n then \<lparr>dv_delivered = True, dv_requests = [r], dv_delays = []\<rparr>
          else if final_error n then \<lparr>dv_delivered = False, dv_requests = [r], dv_delays = []\<rparr>
          else again
      | NetworkFailure \<Rightarrow> again)"

definition deliver ::
    "(nat \<Rightarrow> fetch_result) \<Rightarrow> (nat \<Rightarrow> 'n::linordered_idom) \<Rightarrow> string \<Rightarrow> json \<Rightarrow> (string \<Rightarrow> string) \<Rightarrow> int \<Rightarrow> 'n delivery" where
  "deliver answer jitter url payload signFn maxRetries =
     (let body = stringify payload in
      deliver_loop answer jitter (url, body, signFn body) 0 (nat maxRetries))"

section \<open>SignatureVerificationMiddleware\<close>

datatype header = NoHeader | OneHeader string | ManyHeaders "string list"

datatype request_body = NoBody | TextBody string | ParsedBody json

datatype middleware_result = Next | Reject int string

text \<open>\<open>verify body signature\<close> is \<open>crypto.verify\<close> under the public key; it may throw.\<close>

definition body_text :: "request_body \<Rightarrow> string" where
  "body_text b = (case b of TextBody t \<Rightarrow> t | ParsedBody v \<Rightarrow> stringify v | NoBody \<Rightarrow> stringify (JStr []))"

definition signature_middleware :: "(string \<Rightarrow> string \<Rightarrow> bool result) \<Rightarrow> header \<Rightarrow> request_body \<Rightarrow> middleware_result" where
  "signature_middleware verify h b =
     (case h of
        OneHeader signature \<Rightarrow>
          if signature = [] then Reject 401 ''Missing X-OpenRails-Signature header''
          else (case verify (body_text b) signature of
                  Inl _ \<Rightarrow> Reject 403 ''Signature verification failed''
                | Inr valid \<Rightarrow> if valid then Next else Reject 403 ''Invalid signature'')
      | _ \<Rightarrow> Reject 401 ''Missing X-OpenRails-Signature header'')"

text \<open>\<open>Ed25519GatewayKeyPair.verify\<close> is false where \<open>crypto.verify\<close> throws.\<close>

definition key_verify :: "(string \<Rightarrow> string \<Rightarrow> bool result) \<Rightarrow> string \<Rightarrow> string \<Rightarrow> bool" where
  "key_verify verify payload signature = (case verify payload signature of Inl _ \<Rightarrow> False | Inr v \<Rightarrow> v)"

section \<open>HeartbeatMonitor\<close>

definition ping :: "fetch_result \<Rightarrow> bool" where
  "ping r = (case r of Status n \<Rightarrow> status_ok n | NetworkFailure \<Rightarrow> False)"

section \<open>Facts on delivery\<close>

text \<open>The attempt at which the loop stops: the first answer that is final.\<close>

definition conclusive :: "fetch_result \<Rightarrow> bool" where
  "conclusive a \<longleftrightarrow> (case a of Status n \<Rightarrow> status_ok n \<or> final_error n | NetworkFailure \<Rightarrow> False)"

lemma find_map_Suc: "find P (map Suc xs) = map_option Suc (find (\<lambda>i. P (Suc i)) xs)"
  by (induction xs) auto

lemma find_upt_Suc: "find P [Suc 0..<Suc n] = map_option Suc (find (\<lambda>i. P (Suc i)) [0..<n])"
  by (simp only: find_map_Suc map_Suc_upt [symmetric])

lemma deliver_loop_step:
  "deliver_loop answer jitter r a (Suc n) =
     (if conclusive (answer a) then \<lparr>dv_delivered = (\<exists>k. answer a = Status k \<and> status_ok k), dv_requests = [r], dv_delays = []\<rparr>
      else sent r (if n = 0 then [] else [backoff_delay a (jitter a)]) (deliver_loop answer jitter r (Suc a) n))"
  by (auto simp: conclusive_def Let_def split: fetch_result.splits)

lemma deliver_loop_requests:
  "dv_requests (deliver_loop answer jitter r a n) =
     replicate (case find (\<lambda>i. conclusive (answer (a + i))) [0..<n] of None \<Rightarrow> n | Some i \<Rightarrow> Suc i) r"
proof (induction n arbitrary: a)
  case 0
  then show ?case by simp
next
  case (Suc n)
  have shift: "find (\<lambda>i. conclusive (answer (a + i))) [Suc 0..<Suc n] =
      map_option Suc (find (\<lambda>i. conclusive (answer (Suc a + i))) [0..<n])"
    using find_upt_Suc [of "\<lambda>i. conclusive (answer (a + i))" n] by (simp del: upt_Suc)
  have upt: "[0..<Suc n] = 0 # [Suc 0..<Suc n]" by (simp add: upt_conv_Cons del: upt_Suc)
  show ?case
  proof (cases "conclusive (answer a)")
    case True
    then show ?thesis unfolding deliver_loop_step upt by simp
  next
    case False
    then show ?thesis
      unfolding deliver_loop_step upt using Suc.IH [of "Suc a"]
      by (simp add: sent_def shift del: upt_Suc split: option.splits)
  qed
qed

lemma deliver_loop_delivered:
  "dv_delivered (deliver_loop answer jitter r a n) \<longleftrightarrow>
     (\<exists>i < n. (\<exists>k. answer (a + i) = Status k \<and> status_ok k) \<and> (\<forall>j < i. \<not> conclusive (answer (a + j))))"
proof (induction n arbitrary: a)
  case 0
  then show ?case by simp
next
  case (Suc n)
  have ok: "conclusive (answer a)" if "answer a = Status k" "status_ok k" for k
    using that by (simp add: conclusive_def)
  show ?case
  proof (cases "conclusive (answer a)")
    case True
    have "i = 0" if "\<forall>j < i. \<not> conclusive (answer (a + j))" for i
      using that True by (cases i) auto
    then have "(\<exists>i < Suc n. (\<exists>k. answer (a + i) = Status k \<and> status_ok k) \<and> (\<forall>j < i. \<not> conclusive (answer (a + j)))) \<longleftrightarrow>
        (\<exists>k. answer a = Status k \<and> status_ok k)"
      by (metis add.right_neutral not_less_zero zero_less_Suc)
    with True show ?thesis by (simp only: deliver_loop_step if_True delivery.select_convs)
  next
    case False
    with ok have no: "\<not> (\<exists>k. answer a = Status k \<and> status_ok k)" by blast
    show ?thesis
      unfolding deliver_loop_step using False no Suc.IH [of "Suc a"]
      by (simp add: sent_def Ex_less_Suc2 All_less_Suc2) blast
  qed
qed

lemma deliver_loop_delays:
  "dv_delays (deliver_loop answer jitter r a n) =
     map (\<lambda>i. backoff_delay (a + i) (jitter (a + i)))
       [0..<(case find (\<lambda>i. conclusive (answer (a + i))) [0..<n] of None \<Rightarrow> n - 1 | Some i \<Rightarrow> i)]"
proof (induction n arbitrary: a)
  case 0
  then show ?case by simp
next
  case (Suc n)
  have shift: "find (\<lambda>i. conclusive (answer (a + i))) [Suc 0..<Suc n] =
      map_option Suc (find (\<lambda>i. conclusive (answer (Suc a + i))) [0..<n])"
    using find_upt_Suc [of "\<lambda>i. conclusive (answer (a + i))" n] by (simp del: upt_Suc)
  have upt: "[0..<Suc m] = 0 # map Suc [0..<m]" for m by (simp add: map_Suc_upt upt_conv_Cons del: upt_Suc)
  show ?case
  proof (cases "conclusive (answer a)")
    case True
    then show ?thesis unfolding deliver_loop_step upt by simp
  next
    case False
    then show ?thesis
    proof (cases n)
      case 0
      with False show ?thesis unfolding deliver_loop_step by (simp add: sent_def)
    next
      case (Suc m)
      define fd where "fd = find (\<lambda>i. conclusive (answer (Suc a + i))) [0..<n]"
      have "find (\<lambda>i. conclusive (answer (a + i))) [0..<Suc n] = map_option Suc fd"
        unfolding fd_def shift [symmetric] using False by (simp add: upt_conv_Cons del: upt_Suc)
      moreover have "dv_delays (deliver_loop answer jitter r a (Suc n)) =
          backoff_delay a (jitter a) # map (\<lambda>i. backoff_delay (Suc a + i) (jitter (Suc a + i)))
            [0..<(case fd of None \<Rightarrow> n - 1 | Some i \<Rightarrow> i)]"
        unfolding deliver_loop_step using False Suc Suc.IH [of "Suc a", folded fd_def] by (simp add: sent_def)
      ultimately show ?thesis
        using Suc by (cases fd) (simp_all add: upt comp_def del: upt_Suc)
    qed
  qed
qed

lemma backoff_delay_bounds:
  assumes "0 \<le> jitter" "jitter \<le> of_int base_delay"
  shows "of_int base_delay \<le> backoff_delay a jitter" "backoff_delay a jitter \<le> of_int max_delay"
proof -
  have "(1 :: 'a) \<le> 2 ^ a" by simp
  then have "(500 :: 'a) * 1 \<le> 500 * 2 ^ a" by (intro mult_left_mono) simp_all
  with assms(1) have "(500 :: 'a) \<le> 500 * 2 ^ a + jitter" by linarith
  then show "of_int base_delay \<le> backoff_delay a jitter"
    by (simp add: backoff_delay_def base_delay_def max_delay_def)
  show "backoff_delay a jitter \<le> of_int max_delay" by (simp add: backoff_delay_def)
qed

section \<open>Facts on the middleware\<close>

lemma middleware_next:
  "signature_middleware verify h b = Next \<longleftrightarrow>
     (\<exists>s. h = OneHeader s \<and> s \<noteq> [] \<and> verify (body_text b) s = Inr True)"
  by (auto simp: signature_middleware_def split: header.splits sum.splits)

text \<open>A request passes exactly when its one signature header verifies over its body.\<close>

lemma middleware_checks_signature:
  shows "(signature_middleware verify h b = Next \<longleftrightarrow>
       (\<exists>s. h = OneHeader s \<and> s \<noteq> [] \<and> verify (body_text b) s = Inr True)) \<and>
     (signFn (stringify v) \<noteq> [] \<and> verify (stringify v) (signFn (stringify v)) = Inr True \<longrightarrow>
       signature_middleware verify (OneHeader (signFn (stringify v))) (ParsedBody v) = Next)"
  by (simp add: middleware_next body_text_def)

end
