(* ===== verification/RateLimiter.thy ===== *)
theory RateLimiter
  imports Prelude
begin

text \<open>
  \<open>server/rate-limiter.ts\<close>: one token bucket per key. Tokens are elements of an ordered
  field (fractions are not rounded), instants whole milliseconds.
\<close>

section \<open>TokenBucket\<close>

record 'n bucket =
  tb_tokens :: 'n
  tb_lastRefill :: int

definition new_bucket :: "'n \<Rightarrow> int \<Rightarrow> 'n bucket" where
  "new_bucket maxTokens now = \<lparr>tb_tokens = maxTokens, tb_lastRefill = now\<rparr>"

definition refill :: "'n::linordered_field \<Rightarrow> 'n \<Rightarrow> int \<Rightarrow> 'n bucket \<Rightarrow> 'n bucket" where
  "refill maxTokens refillRate now b =
     (let elapsed = of_int (now - tb_lastRefill b) / 1000 in
      \<lparr>tb_tokens = min maxTokens (tb_tokens b + elapsed * refillRate), tb_lastRefill = now\<rparr>)"

definition consume :: "'n::linordered_field \<Rightarrow> 'n \<Rightarrow> int \<Rightarrow> 'n bucket \<Rightarrow> 'n bucket \<times> bool" where
  "consume maxTokens refillRate now b =
     (let b' = refill maxTokens refillRate now b in
      if 1 \<le> tb_tokens b' then (b'\<lparr>tb_tokens := tb_tokens b' - 1\<rparr>, True) else (b', False))"

section \<open>createRateLimiter\<close>

datatype limiter_result = Proceed | TooMany int string

definition rate_limit ::
    "'n::linordered_field \<Rightarrow> 'n \<Rightarrow> string \<Rightarrow> int \<Rightarrow> 'n bucket obj \<Rightarrow> 'n bucket obj \<times> limiter_result" where
  "rate_limit maxTokens refillRate key now buckets =
     (let b = (case oget buckets key of None \<Rightarrow> new_bucket maxTokens now | Some b \<Rightarrow> b);
          (b', allowed) = consume maxTokens refillRate now b in
      (oset key b' buckets,
       if allowed then Proceed else TooMany 429 ''Rate limit exceeded. Try again later.''))"

text \<open>A trace of requests, each a key and its instant; the requests of one key that proceed.\<close>

fun served :: "'n::linordered_field \<Rightarrow> 'n \<Rightarrow> string \<Rightarrow> (string \<times> int) list \<Rightarrow> 'n bucket obj \<Rightarrow> nat" where
  "served m r k [] bs = 0"
| "served m r k (q # qs) bs =
     (let (bs', res) = rate_limit m r (fst q) (snd q) bs in
      (if fst q = k \<and> res = Proceed then 1 else 0) + served m r k qs bs')"

section \<open>One bucket\<close>

fun granted :: "'n::linordered_field \<Rightarrow> 'n \<Rightarrow> int list \<Rightarrow> 'n bucket \<Rightarrow> nat" where
  "granted m r [] b = 0"
| "granted m r (t # ts) b =
     (let (b', ok) = consume m r t b in (if ok then 1 else 0) + granted m r ts b')"

definition bucket_ok :: "'n::linordered_field \<Rightarrow> 'n bucket \<Rightarrow> bool" where
  "bucket_ok m b \<longleftrightarrow> 0 \<le> tb_tokens b \<and> tb_tokens b \<le> m"

lemma bucket_ok_new: "0 \<le> m \<Longrightarrow> bucket_ok m (new_bucket m t)"
  by (simp add: bucket_ok_def new_bucket_def)

lemma refill_ok:
  assumes "bucket_ok m b" "0 \<le> r" "tb_lastRefill b \<le> t"
  shows "bucket_ok m (refill m r t b)"
    and "tb_tokens (refill m r t b) \<le> tb_tokens b + of_int (t - tb_lastRefill b) / 1000 * r"
proof -
  have "0 \<le> of_int (t - tb_lastRefill b) / 1000 * r"
    using assms by (intro mult_nonneg_nonneg divide_nonneg_nonneg) simp_all
  with assms(1) show "bucket_ok m (refill m r t b)"
    by (simp add: bucket_ok_def refill_def Let_def)
  show "tb_tokens (refill m r t b) \<le> tb_tokens b + of_int (t - tb_lastRefill b) / 1000 * r"
    by (simp add: refill_def Let_def)
qed

lemma consume_ok:
  assumes "bucket_ok m b" "0 \<le> r" "tb_lastRefill b \<le> t" "consume m r t b = (b', ok)"
  shows "bucket_ok m b'" "tb_lastRefill b' = t"
    "(if ok then 1 else 0) + tb_tokens b' \<le> tb_tokens b + of_int (t - tb_lastRefill b) / 1000 * r"
proof -
  note q = refill_ok [OF assms(1-3)]
  have last: "tb_lastRefill (refill m r t b) = t" by (simp add: refill_def Let_def)
  from assms(4) have b': "b' = (if ok then (refill m r t b)\<lparr>tb_tokens := tb_tokens (refill m r t b) - 1\<rparr> else refill m r t b)"
    and ok: "ok \<longleftrightarrow> 1 \<le> tb_tokens (refill m r t b)"
    by (auto simp: consume_def Let_def split: if_splits)
  from q(1) ok show "bucket_ok m b'" unfolding bucket_ok_def b' by auto
  show "tb_lastRefill b' = t" by (simp add: b' last)
  from q(2) show "(if ok then 1 else 0) + tb_tokens b' \<le> tb_tokens b + of_int (t - tb_lastRefill b) / 1000 * r"
    by (simp add: b')
qed

lemma granted_bound:
  assumes "bucket_ok m b" "0 \<le> r" "sorted (tb_lastRefill b # ts)"
  shows "of_nat (granted m r ts b) \<le> tb_tokens b + of_int (last (tb_lastRefill b # ts) - tb_lastRefill b) / 1000 * r"
  using assms
proof (induction ts arbitrary: b)
  case Nil
  then show ?case by (simp add: bucket_ok_def)
next
  case (Cons t ts)
  obtain b' ok where c: "consume m r t b = (b', ok)" by (cases "consume m r t b")
  from Cons.prems(3) have le: "tb_lastRefill b \<le> t" by simp
  note step = consume_ok [OF Cons.prems(1,2) le c]
  have "of_nat (granted m r ts b') \<le> tb_tokens b' + of_int (last (t # ts) - t) / 1000 * r"
    using Cons.IH [OF step(1) Cons.prems(2)] Cons.prems(3) step(2) by simp
  with step(3) have "of_nat (granted m r (t # ts) b) \<le>
      tb_tokens b + of_int (t - tb_lastRefill b) / 1000 * r + of_int (last (t # ts) - t) / 1000 * r"
    by (simp add: c split: if_splits)
  then show ?case by (simp add: field_simps)
qed

section \<open>Keys are independent\<close>

lemma rate_limit_get:
  "oget (fst (rate_limit m r k t bs)) j =
     (if j = k then Some (fst (consume m r t (case oget bs k of None \<Rightarrow> new_bucket m t | Some b \<Rightarrow> b))) else oget bs j)"
  by (simp add: rate_limit_def Let_def case_prod_beta)

lemma rate_limit_result:
  "snd (rate_limit m r k t bs) = Proceed \<longleftrightarrow>
     snd (consume m r t (case oget bs k of None \<Rightarrow> new_bucket m t | Some b \<Rightarrow> b))"
  by (simp add: rate_limit_def Let_def case_prod_beta)

lemma served_granted:
  assumes "oget bs k = Some b"
  shows "served m r k qs bs = granted m r (map snd (filter (\<lambda>q. fst q = k) qs)) b"
  using assms
proof (induction qs arbitrary: bs b)
  case Nil
  then show ?case by simp
next
  case (Cons q qs)
  define bs' where "bs' = fst (rate_limit m r (fst q) (snd q) bs)"
  have s: "served m r k (q # qs) bs =
      (if fst q = k \<and> snd (rate_limit m r (fst q) (snd q) bs) = Proceed then 1 else 0) + served m r k qs bs'"
    by (simp add: bs'_def case_prod_beta Let_def)
  show ?case
  proof (cases "fst q = k")
    case True
    with Cons.prems have "oget bs' k = Some (fst (consume m r (snd q) b))"
      by (simp add: bs'_def rate_limit_get)
    from Cons.IH [OF this] True Cons.prems show ?thesis
      unfolding s by (simp add: rate_limit_result case_prod_beta Let_def)
  next
    case False
    with Cons.prems have "oget bs' k = Some b" by (simp add: bs'_def rate_limit_get)
    from Cons.IH [OF this] False show ?thesis unfolding s by simp
  qed
qed

lemma served_new:
  assumes "oget bs k = None" "map snd (filter (\<lambda>q. fst q = k) qs) = t # ts"
  shows "served m r k qs bs = granted m r (t # ts) (new_bucket m t)"
  using assms
proof (induction qs arbitrary: bs)
  case Nil
  then show ?case by simp
next
  case (Cons q qs)
  define bs' where "bs' = fst (rate_limit m r (fst q) (snd q) bs)"
  have s: "served m r k (q # qs) bs =
      (if fst q = k \<and> snd (rate_limit m r (fst q) (snd q) bs) = Proceed then 1 else 0) + served m r k qs bs'"
    by (simp add: bs'_def case_prod_beta Let_def)
  show ?case
  proof (cases "fst q = k")
    case True
    with Cons.prems have t: "snd q = t" "map snd (filter (\<lambda>q. fst q = k) qs) = ts" by simp_all
    with True Cons.prems have "oget bs' k = Some (fst (consume m r t (new_bucket m t)))"
      by (simp add: bs'_def rate_limit_get)
    from served_granted [OF this, of m r qs] True Cons.prems t show ?thesis
      unfolding s by (simp add: rate_limit_result case_prod_beta Let_def)
  next
    case False
    with Cons.prems have "oget bs' k = None" by (simp add: bs'_def rate_limit_get)
    from Cons.IH [OF this] Cons.prems(2) False show ?thesis unfolding s by simp
  qed
qed

lemma served_bound:
  assumes "oget bs k = None" "0 \<le> m" "0 \<le> r"
    and ts: "map snd (filter (\<lambda>q. fst q = k) qs) = t # ts" and "sorted (t # ts)"
  shows "of_nat (served m r k qs bs) \<le> m + of_int (last (t # ts) - t) / 1000 * r"
proof -
  have "of_nat (granted m r (t # ts) (new_bucket m t)) \<le>
      tb_tokens (new_bucket m t) + of_int (last (tb_lastRefill (new_bucket m t) # t # ts) - tb_lastRefill (new_bucket m t)) / 1000 * r"
    by (rule granted_bound [OF bucket_ok_new [OF assms(2)] assms(3)]) (use assms(5) in \<open>simp add: new_bucket_def\<close>)
  then show ?thesis using served_new [OF assms(1) ts, of m r] by (simp add: new_bucket_def)
qed

end
