(* ===== verification/StreamGateway.thy ===== *)
theory StreamGateway
  imports Canonical StreamQueue StreamFiles
begin

text \<open>
  \<open>stream-gateway/log-parser.ts\<close> and \<open>stream-gateway/index.ts\<close>: the gateway follows the
  contract's events. \<open>handleLog\<close> awaits the block of an event between its duplicate check
  and its effects, so it is two steps, \<open>begin_log\<close> and \<open>finish_log\<close>, with the event pending in
  between; steps of several logs interleave. The ABI decoder \<open>parseLog\<close> and the metadata
  hash are parameters. Times are milliseconds: \<open>nowSec\<close> is \<open>now / 1000\<close>, whole seconds
  compare with it as with its floor.
\<close>

section \<open>LogIngestionParser\<close>

datatype arg_value = BigValue int | TextValue string

record raw_log =
  rl_topics :: "string list"
  rl_data :: string
  rl_blockNumber :: int
  rl_transactionHash :: string
  rl_logIndex :: "int option"
  rl_index :: "int option"

record parsed_event =
  gv_eventName :: string
  gv_paycardId :: string
  gv_args :: "string obj"
  gv_blockNumber :: int
  gv_blockTimestamp :: "int option"
  gv_transactionHash :: string
  gv_logIndex :: int

text \<open>\<open>iface.parseLog\<close>: throws, returns \<open>null\<close>, or the event's name and named arguments.\<close>

type_synonym decoder = "string list \<Rightarrow> string \<Rightarrow> (string \<times> (string \<times> arg_value) list) option result"

definition arg_text :: "arg_value \<Rightarrow> string" where
  "arg_text v = (case v of BigValue n \<Rightarrow> int_str n | TextValue t \<Rightarrow> t)"

definition arg_object :: "(string \<times> arg_value) list \<Rightarrow> string obj" where
  "arg_object vs = fold (\<lambda>(k, v). oset k (arg_text v)) vs []"

definition or_default :: "'a option \<Rightarrow> 'a \<Rightarrow> 'a" where
  "or_default v d = (case v of None \<Rightarrow> d | Some x \<Rightarrow> x)"

definition parse_log :: "decoder \<Rightarrow> raw_log \<Rightarrow> parsed_event option" where
  "parse_log parseLog log =
     (case parseLog (rl_topics log) (rl_data log) of
        Inl _ \<Rightarrow> None
      | Inr None \<Rightarrow> None
      | Inr (Some (name, vs)) \<Rightarrow>
          (let args = arg_object vs in
           Some \<lparr>gv_eventName = name,
                 gv_paycardId = (case oget args ''paycardId'' of
                    Some i \<Rightarrow> i | None \<Rightarrow> (case rl_topics log of _ # t # _ \<Rightarrow> t | _ \<Rightarrow> ''0x'')),
                 gv_args = args, gv_blockNumber = rl_blockNumber log, gv_blockTimestamp = None,
                 gv_transactionHash = rl_transactionHash log,
                 gv_logIndex = (case rl_logIndex log of Some n \<Rightarrow> n | None \<Rightarrow> or_default (rl_index log) 0)\<rparr>))"

section \<open>The store behind the gateway\<close>

datatype any_store = InMemory memory_cache | Durable file_store

fun st_cache :: "any_store \<Rightarrow> memory_cache" where
  "st_cache (InMemory c) = c"
| "st_cache (Durable f) = fl_inner f"

fun st_set :: "string \<Rightarrow> stream \<Rightarrow> any_store \<Rightarrow> any_store" where
  "st_set i s (InMemory c) = InMemory (cache_set i s c)"
| "st_set i s (Durable f) = Durable (file_set i s f)"

definition st_get :: "string \<Rightarrow> any_store \<Rightarrow> stream option" where
  "st_get i st = cache_get i (st_cache st)"

fun st_bindWorkflow :: "string \<Rightarrow> string option \<Rightarrow> any_store \<Rightarrow> any_store \<times> stream option" where
  "st_bindWorkflow i w (InMemory c) = (let (c', r) = cache_bindWorkflow i w c in (InMemory c', r))"
| "st_bindWorkflow i w (Durable f) = (let (f', r) = file_bindWorkflow i w f in (Durable f', r))"

fun st_poke :: "string \<Rightarrow> (stream \<Rightarrow> stream) \<Rightarrow> any_store \<Rightarrow> any_store" where
  "st_poke i g (InMemory c) = InMemory (cache_poke i g c)"
| "st_poke i g (Durable f) = Durable (file_poke i g f)"

definition st_getActive :: "any_store \<Rightarrow> stream list" where
  "st_getActive st = cache_getActive (st_cache st)"

text \<open>The optional methods, called as \<open>store.hasEvent?.(key)\<close>.\<close>

fun st_hasEvent :: "string \<Rightarrow> any_store \<Rightarrow> bool" where
  "st_hasEvent k (InMemory c) = False"
| "st_hasEvent k (Durable f) = hasEvent k f"

fun st_recordEvent :: "event_record \<Rightarrow> any_store \<Rightarrow> any_store" where
  "st_recordEvent r (InMemory c) = InMemory c"
| "st_recordEvent r (Durable f) = Durable (fst (recordEvent r f))"

section \<open>StreamGateway\<close>

record gateway =
  gw_store :: any_store
  gw_queue :: "entry list"
  gw_processedLogKeys :: "string list"
  gw_pending :: "parsed_event list"
  gw_webhookUrls :: "string list"
  gw_sent :: "(string \<times> parsed_event) list"

definition registerWebhook :: "string \<Rightarrow> gateway \<Rightarrow> gateway" where
  "registerWebhook url g = g\<lparr>gw_webhookUrls := set_add url (gw_webhookUrls g)\<rparr>"

definition fanOutWebhook :: "parsed_event \<Rightarrow> gateway \<Rightarrow> gateway" where
  "fanOutWebhook e g = g\<lparr>gw_sent := gw_sent g @ map (\<lambda>url. (url, e)) (gw_webhookUrls g)\<rparr>"

text \<open>\<open>schedule\<close> has a result on every array a process can hold (\<open>schedule_insort\<close>).\<close>

definition enqueue :: "string \<Rightarrow> int \<Rightarrow> entry list \<Rightarrow> entry list" where
  "enqueue i t q = or_default (schedule i t q) q"

definition schedule_stream :: "stream \<Rightarrow> entry list \<Rightarrow> entry list" where
  "schedule_stream s q =
     (case (sm_lifespan s, expires_at s) of
        (Some l, Some t) \<Rightarrow> if l > 0 then enqueue (sm_paycardId s) t q else q
      | _ \<Rightarrow> q)"

text \<open>The part of \<open>start\<close> that rebuilds the queue from a store that was loaded.\<close>

definition start_gateway :: "any_store \<Rightarrow> string list \<Rightarrow> gateway" where
  "start_gateway st urls =
     \<lparr>gw_store = st, gw_queue = fold schedule_stream (st_getActive st) [], gw_processedLogKeys = [],
      gw_pending = [], gw_webhookUrls = urls, gw_sent = []\<rparr>"

definition event_key :: "parsed_event \<Rightarrow> string" where
  "event_key e = eventKey (gv_transactionHash e) (gv_logIndex e)"

definition toEventRecord :: "int \<Rightarrow> any_store \<Rightarrow> parsed_event \<Rightarrow> event_record" where
  "toEventRecord now st e =
     (let existing = st_get (gv_paycardId e) st in
      \<lparr>er_paycardId = gv_paycardId e, er_eventName = gv_eventName e,
       er_workflowId = Option.bind existing sm_workflowId,
       er_metadataHash = (case oget (gv_args e) ''metadataHash'' of
          Some h \<Rightarrow> Some h | None \<Rightarrow> map_option sm_metadataHash existing),
       er_blockNumber = gv_blockNumber e, er_blockTimestamp = gv_blockTimestamp e,
       er_transactionHash = gv_transactionHash e, er_logIndex = gv_logIndex e, er_args = gv_args e,
       er_recordedAt = now\<rparr>)"

definition arg :: "parsed_event \<Rightarrow> string \<Rightarrow> string \<Rightarrow> string" where
  "arg e k d = or_default (oget (gv_args e) k) d"

definition provisioned_stream :: "parsed_event \<Rightarrow> stream" where
  "provisioned_stream e =
     (let genesis = to_number (arg e ''genesisTimestamp'' ''0'');
          lifespan = to_number (arg e ''lifespanSeconds'' ''0'') in
      \<lparr>sm_paycardId = gv_paycardId e, sm_payer = arg e ''payer'' [], sm_recipient = arg e ''recipient'' [],
       sm_metadataHash = arg e ''metadataHash'' [], sm_workflowId = None,
       sm_totalAllocation = arg e ''poolAllocation'' ''0'', sm_availableBalance = arg e ''poolAllocation'' ''0'',
       sm_projectedAvailableBalance = None, sm_velocity = arg e ''flowVelocityPerSecond'' ''0'',
       sm_genesis = genesis, sm_lifespan = lifespan, sm_lastCheckpoint = genesis, sm_status = StActive\<rparr>)"

definition onPaycardProvisioned :: "parsed_event \<Rightarrow> gateway \<Rightarrow> gateway" where
  "onPaycardProvisioned e g =
     (let s = provisioned_stream e in
      g\<lparr>gw_store := st_set (gv_paycardId e) s (gw_store g), gw_queue := schedule_stream s (gw_queue g)\<rparr>)"

definition settled_stream :: "parsed_event \<Rightarrow> stream \<Rightarrow> stream result" where
  "settled_stream e s =
     bnd (to_bigint (arg e ''amountWithdrawn'' ''0'')) (\<lambda>withdrawn.
     bnd (to_bigint (sm_availableBalance s)) (\<lambda>current.
     let remaining = current - withdrawn in
     Inr (s\<lparr>sm_availableBalance := int_str (max 0 remaining),
            sm_lastCheckpoint := (case gv_blockTimestamp e of None \<Rightarrow> sm_lastCheckpoint s | Some t \<Rightarrow> Some t),
            sm_status := (if remaining \<le> 0 then StTerminated else sm_status s)\<rparr>)))"

definition onSettlementFlushed :: "parsed_event \<Rightarrow> gateway \<Rightarrow> gateway result" where
  "onSettlementFlushed e g =
     (case st_get (gv_paycardId e) (gw_store g) of
        None \<Rightarrow> Inr g
      | Some s \<Rightarrow> bnd (settled_stream e s) (\<lambda>s'. Inr (g\<lparr>gw_store := st_set (gv_paycardId e) s' (gw_store g)\<rparr>)))"

definition reclaimed_stream :: "stream \<Rightarrow> stream" where
  "reclaimed_stream s = s\<lparr>sm_availableBalance := ''0'', sm_status := StTerminated\<rparr>"

definition onResidualDeltaReclaimed :: "parsed_event \<Rightarrow> gateway \<Rightarrow> gateway" where
  "onResidualDeltaReclaimed e g =
     (case st_get (gv_paycardId e) (gw_store g) of
        None \<Rightarrow> g
      | Some s \<Rightarrow> g\<lparr>gw_store := st_set (gv_paycardId e) (reclaimed_stream s) (gw_store g)\<rparr>)"

definition dispatch :: "parsed_event \<Rightarrow> gateway \<Rightarrow> gateway result" where
  "dispatch e g =
     (if gv_eventName e = ''PaycardProvisioned'' then Inr (onPaycardProvisioned e g)
      else if gv_eventName e = ''SettlementFlushed'' then onSettlementFlushed e g
      else if gv_eventName e = ''ResidualDeltaReclaimed'' then Inr (onResidualDeltaReclaimed e g)
      else Inr g)"

subsection \<open>handleLog\<close>

text \<open>Up to the \<open>await\<close>: an event that is new becomes pending.\<close>

definition begin_log :: "decoder \<Rightarrow> raw_log \<Rightarrow> gateway \<Rightarrow> gateway" where
  "begin_log parseLog log g =
     (case parse_log parseLog log of
        None \<Rightarrow> g
      | Some e \<Rightarrow>
          if event_key e \<in> set (gw_processedLogKeys g) then g
          else if st_hasEvent (event_key e) (gw_store g)
            then g\<lparr>gw_processedLogKeys := gw_processedLogKeys g @ [event_key e]\<rparr>
          else g\<lparr>gw_processedLogKeys := gw_processedLogKeys g @ [event_key e], gw_pending := gw_pending g @ [e]\<rparr>)"

text \<open>After the \<open>await\<close>, the block's timestamp at hand: the event is recorded, applied and fanned
  out. An exception of a handler ends the call.\<close>

definition apply_event :: "int \<Rightarrow> parsed_event \<Rightarrow> gateway \<Rightarrow> gateway" where
  "apply_event now e g =
     (let g1 = g\<lparr>gw_store := st_recordEvent (toEventRecord now (gw_store g) e) (gw_store g)\<rparr> in
      case dispatch e g1 of Inl _ \<Rightarrow> g1 | Inr g2 \<Rightarrow> fanOutWebhook e g2)"

definition finish_log :: "nat \<Rightarrow> int option \<Rightarrow> int \<Rightarrow> gateway \<Rightarrow> gateway" where
  "finish_log n timestamp now g =
     (if n < length (gw_pending g)
      then apply_event now ((gw_pending g ! n)\<lparr>gv_blockTimestamp := timestamp\<rparr>)
             (g\<lparr>gw_pending := take n (gw_pending g) @ drop (Suc n) (gw_pending g)\<rparr>)
      else g)"

text \<open>\<open>getBlock\<close> rejects: the call ends, the key stays processed.\<close>

definition fail_log :: "nat \<Rightarrow> gateway \<Rightarrow> gateway" where
  "fail_log n g = g\<lparr>gw_pending := take n (gw_pending g) @ drop (Suc n) (gw_pending g)\<rparr>"

text \<open>\<open>backfill\<close>: the logs in chain order, one after the other; \<open>block\<close> gives the timestamps.\<close>

definition log_order :: "raw_log \<Rightarrow> int \<times> int" where
  "log_order l = (rl_blockNumber l, (case rl_index l of Some n \<Rightarrow> n | None \<Rightarrow> or_default (rl_logIndex l) 0))"

definition handle_alone :: "decoder \<Rightarrow> (int \<Rightarrow> int option) \<Rightarrow> int \<Rightarrow> raw_log \<Rightarrow> gateway \<Rightarrow> gateway" where
  "handle_alone parseLog block now log g =
     (let g1 = begin_log parseLog log g in
      if length (gw_pending g1) = length (gw_pending g) then g1
      else finish_log (length (gw_pending g)) (block (rl_blockNumber log)) now g1)"

definition backfill :: "decoder \<Rightarrow> (int \<Rightarrow> int option) \<Rightarrow> int \<Rightarrow> raw_log list \<Rightarrow> gateway \<Rightarrow> gateway \<times> nat" where
  "backfill parseLog block now logs g =
     (fold (handle_alone parseLog block now) (sort_key log_order logs) g, length logs)"

subsection \<open>The timer tick\<close>

text \<open>\<open>processAccruals\<close> for one stream; \<open>None\<close> is \<open>continue\<close>.\<close>

definition accrual :: "int \<Rightarrow> stream \<Rightarrow> string option result" where
  "accrual now s =
     (case sm_lastCheckpoint s of
        None \<Rightarrow> if sm_lifespan s = Some 0 then Inr None
                else bnd (to_bigint (sm_velocity s)) (\<lambda>_. Inl (Error ''NaN cannot be converted to a BigInt''))
      | Some c \<Rightarrow>
          if now \<le> 1000 * c then Inr None
          else if sm_lifespan s = Some 0 then Inr None
          else bnd (to_bigint (sm_velocity s)) (\<lambda>velocity.
               bnd (to_bigint (sm_availableBalance s)) (\<lambda>current.
               Inr (Some (int_str (max 0 (current - velocity * (now div 1000 - c))))))))"

fun accrue_all :: "int \<Rightarrow> stream list \<Rightarrow> any_store \<Rightarrow> any_store \<times> bool" where
  "accrue_all now [] st = (st, True)"
| "accrue_all now (s # ss) st =
     (case accrual now s of
        Inl _ \<Rightarrow> (st, False)
      | Inr None \<Rightarrow> accrue_all now ss st
      | Inr (Some p) \<Rightarrow>
          accrue_all now ss (st_poke (sm_paycardId s) (\<lambda>s. s\<lparr>sm_projectedAvailableBalance := Some p\<rparr>) st))"

definition processAccruals :: "int \<Rightarrow> gateway \<Rightarrow> gateway \<times> bool" where
  "processAccruals now g =
     (let (st, ok) = accrue_all now (st_getActive (gw_store g)) (gw_store g) in (g\<lparr>gw_store := st\<rparr>, ok))"

definition expired_event :: "string \<Rightarrow> parsed_event" where
  "expired_event i =
     \<lparr>gv_eventName = ''StreamExpiredPendingSettlement'', gv_paycardId = i,
      gv_args = [(''reason'', ''lifespan_elapsed'')], gv_blockNumber = 0, gv_blockTimestamp = None,
      gv_transactionHash = [], gv_logIndex = 0\<rparr>"

definition sweep_one :: "string \<Rightarrow> gateway \<Rightarrow> gateway" where
  "sweep_one i g =
     (case st_get i (gw_store g) of
        Some s \<Rightarrow>
          if sm_status s = StActive
          then fanOutWebhook (expired_event i)
                 (g\<lparr>gw_store := st_set i (s\<lparr>sm_status := StPendingSettlement\<rparr>) (gw_store g)\<rparr>)
          else g
      | None \<Rightarrow> g)"

definition sweepExpired :: "int \<Rightarrow> gateway \<Rightarrow> gateway" where
  "sweepExpired now g =
     (let (ids, q) = checkExpired (now div 1000) (gw_queue g) in fold sweep_one ids (g\<lparr>gw_queue := q\<rparr>))"

text \<open>The timer's callback; the loop swallows an exception of the accruals, the sweep is skipped then.\<close>

definition tick :: "int \<Rightarrow> gateway \<Rightarrow> gateway" where
  "tick now g = (let (g1, ok) = processAccruals now g in if ok then sweepExpired now g1 else g1)"

subsection \<open>Metadata\<close>

definition bindVerifiedMetadata ::
    "(json \<Rightarrow> string) \<Rightarrow> string \<Rightarrow> json \<Rightarrow> string option \<Rightarrow> gateway \<Rightarrow> (gateway \<times> stream) result" where
  "bindVerifiedMetadata hash i metadata workflowId g =
     bnd (require (st_get i (gw_store g)) ''Cannot bind metadata for unknown Paycard Stream'') (\<lambda>s.
     throw_if (hash metadata \<noteq> sm_metadataHash s) ''Cannot bind workflowId because metadataHash does not match stream''
     (let (st, r) = st_bindWorkflow i workflowId (gw_store g) in
      Inr (g\<lparr>gw_store := st\<rparr>, or_default r s)))"

end
