(* ===== verification/StreamInvariant.thy ===== *)
theory StreamInvariant
  imports StreamGateway
begin

text \<open>
  The gateway as a step relation, its reachable states and their invariant: the store is
  consistent, every stream holds numerals with its balance within its allocation, and every
  active stream with a lifespan has its expiration in the queue. What the environment has to
  provide is stated as \<open>decoder_ok\<close> (integer event arguments decode to non-negative numbers)
  and, in the steps, that an array stays below \<open>2 ^ 31\<close> entries.
\<close>

section \<open>Steps\<close>

inductive gw_step :: "decoder \<Rightarrow> gateway \<Rightarrow> gateway \<Rightarrow> bool" for d where
  begin_step: "gw_step d g (begin_log d log g)"
| finish_step: "length (gw_queue g) \<le> max_queue \<Longrightarrow> gw_step d g (finish_log n timestamp now g)"
| fail_step: "gw_step d g (fail_log n g)"
| tick_step: "gw_step d g (tick now g)"
| bind_step: "bindVerifiedMetadata hash i metadata w g = Inr (g', s) \<Longrightarrow> gw_step d g g'"
| register_step: "gw_step d g (registerWebhook url g)"

section \<open>The store\<close>

fun st_ok :: "any_store \<Rightarrow> bool" where
  "st_ok (InMemory c) \<longleftrightarrow> cache_ok c \<and> keyed c"
| "st_ok (Durable f) \<longleftrightarrow> file_ok f"

lemma st_ok_cache: "st_ok st \<Longrightarrow> cache_ok (st_cache st) \<and> keyed (st_cache st)"
  by (cases st) (auto simp: file_ok_def)

lemma st_get_set [simp]: "st_get j (st_set i s st) = (if j = i then Some s else st_get j st)"
  by (cases st) (simp_all add: st_get_def file_set_def persistSnapshot_def)

lemma st_get_poke [simp]: "st_get j (st_poke i f st) = (if j = i then map_option f (st_get i st) else st_get j st)"
  by (cases st) (simp_all add: st_get_def file_poke_def)

lemma st_get_recordEvent [simp]: "st_get j (st_recordEvent r st) = st_get j st"
  by (cases st) (simp_all add: st_get_def recordEvent_def)

lemma st_get_bind:
  "st_bindWorkflow i w st = (st', r) \<Longrightarrow> st_get j st' =
     (if j = i then map_option (\<lambda>s. s\<lparr>sm_workflowId := (if w = Some [] then None else w)\<rparr>) (st_get i st) else st_get j st)"
  by (cases st) (auto simp: st_get_def cache_get_bindWorkflow file_bindWorkflow_def persistSnapshot_def Let_def
      case_prod_beta split: if_splits)

lemma st_ok_set: "st_ok st \<Longrightarrow> sm_paycardId s = i \<Longrightarrow> st_ok (st_set i s st)"
  by (cases st) (simp_all add: cache_ok_set keyed_set file_ok_set)

lemma st_ok_poke:
  assumes "st_ok st" "\<And>s. strip (f s) = strip s"
  shows "st_ok (st_poke i f st)"
proof (cases st)
  case (InMemory c)
  have "sm_workflowId (f s) = sm_workflowId s" "sm_paycardId (f s) = sm_paycardId s" for s
    using assms(2) [of s] by (metis strip_fields(1,2))+
  with assms InMemory show ?thesis by (auto simp: cache_ok_poke keyed_def split: if_splits)
qed (use assms in \<open>simp add: file_ok_poke\<close>)

lemma st_ok_recordEvent: "st_ok st \<Longrightarrow> st_ok (st_recordEvent r st)"
  by (cases st) (simp_all add: file_ok_recordEvent)

lemma st_ok_bind: "st_ok st \<Longrightarrow> st_bindWorkflow i w st = (st', r) \<Longrightarrow> st_ok st'"
proof (cases st)
  case (InMemory c)
  then show "st_ok st \<Longrightarrow> st_bindWorkflow i w st = (st', r) \<Longrightarrow> st_ok st'"
    using cache_ok_bindWorkflow [of c i w] keyed_bind [of c i w] by (auto simp: case_prod_beta Let_def)
next
  case (Durable f)
  then show "st_ok st \<Longrightarrow> st_bindWorkflow i w st = (st', r) \<Longrightarrow> st_ok st'"
    using file_ok_bindWorkflow [of f i w] by (auto simp: case_prod_beta Let_def)
qed

lemma st_getActive_set:
  assumes "st_ok st"
  shows "s \<in> set (st_getActive st) \<longleftrightarrow> st_get (sm_paycardId s) st = Some s \<and> sm_status s = StActive"
proof -
  from st_ok_cache [OF assms] have c: "cache_ok (st_cache st)" "keyed (st_cache st)" by auto
  have "s \<in> set (cache_getAll (st_cache st)) \<longleftrightarrow> cache_get (sm_paycardId s) (st_cache st) = Some s"
    using cache_getAll_set [OF c(1)] keyed_get [OF c(2)] by auto
  then show ?thesis by (auto simp: st_getActive_def cache_getActive_def cache_getAll_def st_get_def)
qed

section \<open>Streams\<close>

text \<open>The fields are numerals, the instants numbers, the balance is within the allocation.\<close>

definition stream_wf :: "stream \<Rightarrow> bool" where
  "stream_wf s \<longleftrightarrow>
     decimal (sm_availableBalance s) \<and> decimal (sm_totalAllocation s) \<and> decimal (sm_velocity s) \<and>
     digits_val (sm_availableBalance s) \<le> digits_val (sm_totalAllocation s) \<and>
     sm_genesis s \<noteq> None \<and> sm_lifespan s \<noteq> None \<and> sm_lastCheckpoint s \<noteq> None"

definition uint_args :: "string list" where
  "uint_args = [''poolAllocation'', ''flowVelocityPerSecond'', ''genesisTimestamp'', ''lifespanSeconds'', ''amountWithdrawn'']"

definition event_wf :: "parsed_event \<Rightarrow> bool" where
  "event_wf e \<longleftrightarrow> list_all (\<lambda>k. case oget (gv_args e) k of None \<Rightarrow> True | Some t \<Rightarrow> decimal t) uint_args"

definition decoder_ok :: "decoder \<Rightarrow> bool" where
  "decoder_ok d \<longleftrightarrow>
     (\<forall>topics data name vs k v. d topics data = Inr (Some (name, vs)) \<longrightarrow> (k, v) \<in> set vs \<longrightarrow> k \<in> set uint_args \<longrightarrow>
        (\<exists>n. 0 \<le> n \<and> v = BigValue n))"

lemma arg_object_get: "oget (arg_object vs) k = map_option arg_text (map_of (rev vs) k)"
proof -
  have "oget (fold (\<lambda>(k, v). oset k (arg_text v)) vs ob) k =
      (case map_of (rev vs) k of None \<Rightarrow> oget ob k | Some v \<Rightarrow> Some (arg_text v))" for ob
    by (induction vs arbitrary: ob) (auto simp: map_add_def split: option.splits)
  from this [of "[]"] show ?thesis by (simp add: arg_object_def split: option.splits)
qed

lemma parse_log_wf:
  assumes "decoder_ok d" "parse_log d log = Some e"
  shows "event_wf e"
proof -
  from assms(2) obtain name vs where d: "d (rl_topics log) (rl_data log) = Inr (Some (name, vs))"
    and e: "gv_args e = arg_object vs"
    by (auto simp: parse_log_def Let_def split: sum.splits option.splits prod.splits)
  have "decimal t" if k: "k \<in> set uint_args" "oget (arg_object vs) k = Some t" for k t
  proof -
    from k(2) obtain v where v: "map_of (rev vs) k = Some v" "t = arg_text v" by (auto simp: arg_object_get)
    then have "(k, v) \<in> set vs" using map_of_SomeD by fastforce
    with assms(1) d k(1) obtain n where "0 \<le> n" "v = BigValue n" unfolding decoder_ok_def by blast
    with v(2) show ?thesis by (simp add: arg_text_def decimal_int_str)
  qed
  then show ?thesis by (auto simp: event_wf_def e list_all_iff split: option.splits)
qed

lemma arg_decimal: "event_wf e \<Longrightarrow> k \<in> set uint_args \<Longrightarrow> decimal (arg e k ''0'')"
  by (auto simp: event_wf_def arg_def or_default_def list_all_iff decimal_def is_digit_def code_in_def
      split: option.splits)

lemma to_bigint_arg: "event_wf e \<Longrightarrow> k \<in> set uint_args \<Longrightarrow> to_bigint (arg e k ''0'') = Inr (digits_val (arg e k ''0''))"
  by (simp add: to_bigint_def arg_decimal)

lemma provisioned_wf: "event_wf e \<Longrightarrow> stream_wf (provisioned_stream e)"
  by (simp add: stream_wf_def provisioned_stream_def Let_def arg_decimal to_number_def uint_args_def)

lemma settled_stream_wf:
  assumes "event_wf e" "stream_wf s"
  shows "settled_stream e s = Inr (s\<lparr>
      sm_availableBalance := int_str (max 0 (digits_val (sm_availableBalance s) - digits_val (arg e ''amountWithdrawn'' ''0''))),
      sm_lastCheckpoint := (case gv_blockTimestamp e of None \<Rightarrow> sm_lastCheckpoint s | Some t \<Rightarrow> Some t),
      sm_status := (if digits_val (sm_availableBalance s) \<le> digits_val (arg e ''amountWithdrawn'' ''0'')
                    then StTerminated else sm_status s)\<rparr>)"
  using assms to_bigint_arg [OF assms(1), of "''amountWithdrawn''"]
  by (simp add: settled_stream_def Let_def stream_wf_def to_bigint_def uint_args_def)

lemma digits_val_decimal: "decimal t \<Longrightarrow> 0 \<le> digits_val t"
  by (simp add: decimal_def digits_val_nonneg)

lemma digits_val_int_str: "0 \<le> n \<Longrightarrow> digits_val (int_str n) = n"
  by (simp add: int_str_def digits_val_nat_digits)

lemma settled_wf:
  assumes "event_wf e" "stream_wf s" "settled_stream e s = Inr s'"
  shows "stream_wf s' \<and> sm_paycardId s' = sm_paycardId s \<and> sm_genesis s' = sm_genesis s \<and> sm_lifespan s' = sm_lifespan s \<and>
     (sm_status s' = StActive \<longrightarrow> sm_status s = StActive)"
proof -
  have "0 \<le> digits_val (arg e ''amountWithdrawn'' ''0'')"
    by (intro digits_val_decimal arg_decimal assms(1)) (simp add: uint_args_def)
  moreover have "0 \<le> digits_val (sm_availableBalance s)"
    using assms(2) by (simp add: stream_wf_def digits_val_decimal)
  ultimately show ?thesis
    using assms(2,3) unfolding settled_stream_wf [OF assms(1,2)]
    by (auto simp: stream_wf_def decimal_int_str digits_val_int_str split: option.splits if_splits)
qed

lemma reclaimed_wf: "stream_wf s \<Longrightarrow> stream_wf (reclaimed_stream s)"
  by (auto simp: stream_wf_def reclaimed_stream_def decimal_def is_digit_def code_in_def digits_val_def digit_val_def
      intro: digits_val_nonneg [unfolded digits_val_def digit_val_def])

lemma accrual_wf:
  assumes "stream_wf s"
  shows "\<exists>p. accrual now s = Inr p"
  using assms by (auto simp: stream_wf_def accrual_def to_bigint_def)

lemma accrual_range:
  assumes "stream_wf s"
  shows "case accrual now s of
      Inr (Some p) \<Rightarrow> 0 \<le> digits_val p \<and> digits_val p \<le> digits_val (sm_availableBalance s)
    | Inr None \<Rightarrow> True
    | Inl _ \<Rightarrow> False"
proof -
  from assms obtain c where c: "sm_lastCheckpoint s = Some c" by (auto simp: stream_wf_def)
  have v: "0 \<le> digits_val (sm_velocity s)" "0 \<le> digits_val (sm_availableBalance s)"
    using assms by (simp_all add: stream_wf_def digits_val_decimal)
  have "c \<le> now div 1000" if "1000 * c < now" using that by linarith
  with v have "0 \<le> digits_val (sm_velocity s) * (now div 1000 - c)" if "1000 * c < now"
    using that by (intro mult_nonneg_nonneg) auto
  with assms c v show ?thesis
    by (auto simp: accrual_def stream_wf_def to_bigint_def digits_val_int_str)
qed

section \<open>The invariant\<close>

definition expiry_queued :: "entry list \<Rightarrow> stream \<Rightarrow> bool" where
  "expiry_queued q s \<longleftrightarrow>
     (sm_status s = StActive \<longrightarrow> (\<forall>l t. sm_lifespan s = Some l \<longrightarrow> 0 < l \<longrightarrow> expires_at s = Some t \<longrightarrow>
        \<lparr>te_paycardId = sm_paycardId s, te_expiresAt = t\<rparr> \<in> set q))"

definition gw_ok :: "gateway \<Rightarrow> bool" where
  "gw_ok g \<longleftrightarrow>
     st_ok (gw_store g) \<and> by_time (gw_queue g) \<and>
     (\<forall>i s. st_get i (gw_store g) = Some s \<longrightarrow> stream_wf s \<and> sm_paycardId s = i \<and> expiry_queued (gw_queue g) s) \<and>
     (\<forall>e \<in> set (gw_pending g). event_wf e \<and> event_key e \<in> set (gw_processedLogKeys g)) \<and>
     distinct (map event_key (gw_pending g))"

lemma gw_okD:
  assumes "gw_ok g"
  shows "st_ok (gw_store g)" "by_time (gw_queue g)"
    "st_get i (gw_store g) = Some s \<Longrightarrow> stream_wf s \<and> sm_paycardId s = i \<and> expiry_queued (gw_queue g) s"
    "e \<in> set (gw_pending g) \<Longrightarrow> event_wf e \<and> event_key e \<in> set (gw_processedLogKeys g)"
    "distinct (map event_key (gw_pending g))"
  using assms by (auto simp: gw_ok_def)

lemma gw_ok_pending: "gw_ok g \<Longrightarrow> set ps \<subseteq> set (gw_pending g) \<Longrightarrow> distinct (map event_key ps) \<Longrightarrow> gw_ok (g\<lparr>gw_pending := ps\<rparr>)"
  by (auto simp: gw_ok_def)

lemma enqueue_facts:
  assumes "by_time q" "length q \<le> max_queue"
  shows "by_time (enqueue i t q) \<and> set (enqueue i t q) = insert \<lparr>te_paycardId = i, te_expiresAt = t\<rparr> (set q) \<and>
    length (enqueue i t q) = Suc (length q)"
proof -
  from termination_queue.push_some [OF assms] obtain q' where q': "schedule i t q = Some q'" by blast
  from termination_queue.push_ok [OF assms q'] q' show ?thesis by (simp add: enqueue_def or_default_def)
qed

lemma schedule_stream_facts:
  assumes "by_time q" "length q \<le> max_queue"
  shows "by_time (schedule_stream s q)" "set q \<subseteq> set (schedule_stream s q)" "expiry_queued (schedule_stream s q) s"
    "length (schedule_stream s q) \<le> Suc (length q)"
  using enqueue_facts [OF assms] assms
  by (auto simp: schedule_stream_def expiry_queued_def split: option.splits)

lemma expiry_queued_mono: "expiry_queued q s \<Longrightarrow> set q \<subseteq> set q' \<Longrightarrow> expiry_queued q' s"
  by (auto simp: expiry_queued_def)

lemma expiry_queued_same:
  assumes "expiry_queued q s" "sm_paycardId s' = sm_paycardId s" "sm_genesis s' = sm_genesis s"
    "sm_lifespan s' = sm_lifespan s" "sm_status s' = StActive \<Longrightarrow> sm_status s = StActive"
  shows "expiry_queued q s'"
  using assms by (auto simp: expiry_queued_def expires_at_def)

text \<open>Replacing one stream by another that keeps its identity and expiration.\<close>

lemma gw_ok_store:
  assumes "gw_ok g" "stream_wf s" "sm_paycardId s = i" "expiry_queued (gw_queue g) s"
  shows "gw_ok (g\<lparr>gw_store := st_set i s (gw_store g)\<rparr>)"
  using assms by (auto simp: gw_ok_def st_ok_set)

lemma gw_ok_provisioned:
  assumes "gw_ok g" "event_wf e" "length (gw_queue g) \<le> max_queue"
  shows "gw_ok (onPaycardProvisioned e g)"
proof -
  define s where "s = provisioned_stream e"
  have id: "sm_paycardId s = gv_paycardId e" by (simp add: s_def provisioned_stream_def Let_def)
  note q = schedule_stream_facts [OF gw_okD(2) [OF assms(1)] assms(3), of s]
  show ?thesis
    using assms(1) q id provisioned_wf [OF assms(2)]
    by (auto simp: gw_ok_def onPaycardProvisioned_def Let_def s_def [symmetric] st_ok_set
        intro: expiry_queued_mono)
qed

lemma gw_ok_settlement:
  assumes "gw_ok g" "event_wf e"
  shows "\<exists>g'. onSettlementFlushed e g = Inr g' \<and> gw_ok g'"
proof (cases "st_get (gv_paycardId e) (gw_store g)")
  case None
  with assms show ?thesis by (simp add: onSettlementFlushed_def)
next
  case (Some s)
  note s = gw_okD(3) [OF assms(1) Some]
  then obtain s' where s': "settled_stream e s = Inr s'"
    using settled_stream_wf [OF assms(2)] by blast
  from settled_wf [OF assms(2) _ s'] s
  have "gw_ok (g\<lparr>gw_store := st_set (gv_paycardId e) s' (gw_store g)\<rparr>)"
    by (intro gw_ok_store assms(1)) (auto intro: expiry_queued_same)
  with Some s' show ?thesis by (simp add: onSettlementFlushed_def)
qed

lemma gw_ok_reclaimed:
  assumes "gw_ok g"
  shows "gw_ok (onResidualDeltaReclaimed e g)"
proof (cases "st_get (gv_paycardId e) (gw_store g)")
  case (Some s)
  note s = gw_okD(3) [OF assms Some]
  have "gw_ok (g\<lparr>gw_store := st_set (gv_paycardId e) (reclaimed_stream s) (gw_store g)\<rparr>)"
    using s by (intro gw_ok_store assms) (simp_all add: reclaimed_wf, simp_all add: reclaimed_stream_def expiry_queued_def)
  with Some show ?thesis by (simp add: onResidualDeltaReclaimed_def)
qed (use assms in \<open>simp add: onResidualDeltaReclaimed_def\<close>)

lemma gw_ok_fanOut [simp]: "gw_ok (fanOutWebhook e g) = gw_ok g"
  by (simp add: gw_ok_def fanOutWebhook_def)

lemma gw_ok_dispatch:
  assumes "gw_ok g" "event_wf e" "length (gw_queue g) \<le> max_queue"
  shows "\<exists>g'. dispatch e g = Inr g' \<and> gw_ok g'"
  using assms gw_ok_provisioned [OF assms] gw_ok_settlement [OF assms(1,2)] gw_ok_reclaimed [OF assms(1), of e]
  by (simp add: dispatch_def)

lemma gw_ok_apply:
  assumes "gw_ok g" "event_wf e" "length (gw_queue g) \<le> max_queue"
  shows "gw_ok (apply_event now e g)"
proof -
  define g1 where "g1 = g\<lparr>gw_store := st_recordEvent (toEventRecord now (gw_store g) e) (gw_store g)\<rparr>"
  have "gw_ok g1" using assms(1) by (simp add: gw_ok_def g1_def st_ok_recordEvent)
  from gw_ok_dispatch [OF this assms(2)] assms(3) obtain g2 where "dispatch e g1 = Inr g2" "gw_ok g2"
    by (auto simp: g1_def)
  then show ?thesis by (simp add: apply_event_def g1_def [symmetric] Let_def)
qed

lemma event_wf_timestamp [simp]: "event_wf (e\<lparr>gv_blockTimestamp := x\<rparr>) = event_wf e"
  by (simp add: event_wf_def)

lemma gw_ok_finish:
  assumes "gw_ok g" "length (gw_queue g) \<le> max_queue"
  shows "gw_ok (finish_log n timestamp now g)"
proof (cases "n < length (gw_pending g)")
  case True
  define ps where "ps = take n (gw_pending g) @ drop (Suc n) (gw_pending g)"
  have split: "gw_pending g = take n (gw_pending g) @ gw_pending g ! n # drop (Suc n) (gw_pending g)"
    using True by (simp add: id_take_nth_drop)
  have "distinct (map event_key (take n (gw_pending g) @ gw_pending g ! n # drop (Suc n) (gw_pending g)))"
    using gw_okD(5) [OF assms(1)] split by simp
  then have "distinct (map event_key ps)" by (simp add: ps_def)
  moreover have "set ps \<subseteq> set (gw_pending g)" by (auto simp: ps_def dest: in_set_takeD in_set_dropD)
  ultimately have "gw_ok (g\<lparr>gw_pending := ps\<rparr>)" using assms(1) by (intro gw_ok_pending)
  moreover have "event_wf (gw_pending g ! n)" using gw_okD(4) [OF assms(1)] True by simp
  ultimately show ?thesis
    using True assms(2) by (simp add: finish_log_def ps_def [symmetric] gw_ok_apply)
qed (use assms in \<open>simp add: finish_log_def\<close>)

lemma gw_ok_fail:
  assumes "gw_ok g"
  shows "gw_ok (fail_log n g)"
  unfolding fail_log_def
proof (rule gw_ok_pending [OF assms])
  show "set (take n (gw_pending g) @ drop (Suc n) (gw_pending g)) \<subseteq> set (gw_pending g)"
    by (auto dest: in_set_takeD in_set_dropD)
  have "distinct (take n xs @ drop (Suc n) xs)" if "distinct xs" for xs :: "string list"
    using that set_take_disj_set_drop_if_distinct [of xs n "Suc n"] by simp
  from this [OF gw_okD(5) [OF assms]]
  show "distinct (map event_key (take n (gw_pending g) @ drop (Suc n) (gw_pending g)))"
    by (simp add: take_map drop_map)
qed

lemma gw_ok_begin:
  assumes "decoder_ok d" "gw_ok g"
  shows "gw_ok (begin_log d log g)"
proof (cases "parse_log d log")
  case (Some e)
  from parse_log_wf [OF assms(1) Some] assms(2) show ?thesis
    by (auto simp: begin_log_def Some gw_ok_def)
qed (use assms in \<open>simp add: begin_log_def\<close>)

section \<open>The tick\<close>

lemma accrue_all_ok:
  assumes "st_ok st" "\<forall>s \<in> set ss. stream_wf s"
  shows "st_ok (fst (accrue_all now ss st)) \<and> snd (accrue_all now ss st) \<and>
     map_option strip (st_get i (fst (accrue_all now ss st))) = map_option strip (st_get i st)"
  using assms
proof (induction ss arbitrary: st)
  case Nil
  then show ?case by simp
next
  case (Cons s ss)
  from accrual_wf [of s now] Cons.prems obtain p where p: "accrual now s = Inr p" by auto
  show ?case
  proof (cases p)
    case None
    with p Cons show ?thesis by simp
  next
    case (Some v)
    define st' where "st' = st_poke (sm_paycardId s) (\<lambda>s. s\<lparr>sm_projectedAvailableBalance := Some v\<rparr>) st"
    have str: "strip (s\<lparr>sm_projectedAvailableBalance := Some v\<rparr>) = strip s" for s by (simp add: strip_def)
    have "st_ok st'" using Cons.prems(1) str unfolding st'_def by (rule st_ok_poke)
    moreover have "map_option strip (st_get i st') = map_option strip (st_get i st)"
      by (simp add: st'_def option.map_comp comp_def str)
    ultimately show ?thesis using p Some Cons.IH [of st'] Cons.prems(2) by (simp add: st'_def [symmetric])
  qed
qed

lemma stream_wf_strip [simp]: "stream_wf (strip s) = stream_wf s"
  by (simp add: stream_wf_def strip_def)

lemma expiry_queued_strip [simp]: "expiry_queued q (strip s) = expiry_queued q s"
  by (simp add: expiry_queued_def expires_at_def)

lemma gw_ok_same_streams:
  assumes "gw_ok g" "st_ok st" "\<And>i. map_option strip (st_get i st) = map_option strip (st_get i (gw_store g))"
  shows "gw_ok (g\<lparr>gw_store := st\<rparr>)"
proof -
  have "stream_wf s \<and> sm_paycardId s = i \<and> expiry_queued (gw_queue g) s" if s: "st_get i st = Some s" for i s
  proof -
    from assms(3) [of i] s obtain u where "st_get i (gw_store g) = Some u" "strip s = strip u"
      by (cases "st_get i (gw_store g)") auto
    with gw_okD(3) [OF assms(1)] show ?thesis
      by (metis expiry_queued_strip stream_wf_strip strip_fields(1))
  qed
  with assms show ?thesis by (auto simp: gw_ok_def)
qed

lemma getActive_wf:
  assumes "gw_ok g"
  shows "\<forall>s \<in> set (st_getActive (gw_store g)). stream_wf s"
  using gw_okD(3) [OF assms] st_getActive_set [OF gw_okD(1) [OF assms]] by blast

lemma processAccruals_ok:
  assumes "gw_ok g"
  shows "gw_ok (fst (processAccruals now g)) \<and> snd (processAccruals now g) \<and>
     gw_queue (fst (processAccruals now g)) = gw_queue g \<and> gw_pending (fst (processAccruals now g)) = gw_pending g \<and>
     gw_processedLogKeys (fst (processAccruals now g)) = gw_processedLogKeys g \<and>
     map_option strip (st_get i (gw_store (fst (processAccruals now g)))) = map_option strip (st_get i (gw_store g))"
proof -
  note a = accrue_all_ok [OF gw_okD(1) [OF assms] getActive_wf [OF assms], of now]
  have "fst (processAccruals now g) = g\<lparr>gw_store := fst (accrue_all now (st_getActive (gw_store g)) (gw_store g))\<rparr>"
    "snd (processAccruals now g) = snd (accrue_all now (st_getActive (gw_store g)) (gw_store g))"
    by (simp_all add: processAccruals_def case_prod_beta Let_def)
  with a gw_ok_same_streams [OF assms] show ?thesis by simp
qed

definition swept :: "string list \<Rightarrow> string \<Rightarrow> stream \<Rightarrow> stream" where
  "swept ids i s = (if i \<in> set ids \<and> sm_status s = StActive then s\<lparr>sm_status := StPendingSettlement\<rparr> else s)"

lemma sweep_one_facts:
  "gw_queue (sweep_one i g) = gw_queue g" "gw_pending (sweep_one i g) = gw_pending g"
  "gw_processedLogKeys (sweep_one i g) = gw_processedLogKeys g"
  "st_get j (gw_store (sweep_one i g)) = map_option (swept [i] j) (st_get j (gw_store g))"
  by (cases "st_get j (gw_store g)"; auto simp: sweep_one_def fanOutWebhook_def swept_def split: option.splits)+

lemma sweep_all_facts:
  "gw_queue (fold sweep_one ids g) = gw_queue g \<and> gw_pending (fold sweep_one ids g) = gw_pending g \<and>
   gw_processedLogKeys (fold sweep_one ids g) = gw_processedLogKeys g \<and>
   st_get j (gw_store (fold sweep_one ids g)) = map_option (swept ids j) (st_get j (gw_store g))"
proof (induction ids arbitrary: g)
  case Nil
  then show ?case by (simp add: swept_def option.map_ident)
next
  case (Cons i ids)
  have "swept ids j (swept [i] j s) = swept (i # ids) j s" for s by (simp add: swept_def)
  with Cons.IH [of "sweep_one i g"] show ?case
    by (simp add: sweep_one_facts option.map_comp comp_def)
qed

lemma st_ok_sweep: "st_ok (gw_store g) \<Longrightarrow> (\<And>j s. st_get j (gw_store g) = Some s \<Longrightarrow> sm_paycardId s = j) \<Longrightarrow>
    st_ok (gw_store (fold sweep_one ids g))"
proof (induction ids arbitrary: g)
  case (Cons i ids)
  have "st_ok (gw_store (sweep_one i g))"
    using Cons.prems by (auto simp: sweep_one_def fanOutWebhook_def st_ok_set split: option.splits)
  moreover have "sm_paycardId s = j" if "st_get j (gw_store (sweep_one i g)) = Some s" for j s
    using that Cons.prems(2) by (auto simp: sweep_one_facts swept_def split: if_splits)
  ultimately show ?case using Cons.IH by simp
qed simp

text \<open>After a sweep no stream whose lifespan has elapsed is active; the others are untouched.\<close>

lemma sweepExpired_facts:
  assumes "gw_ok g"
  shows "gw_ok (sweepExpired now g)"
    and "st_get i (gw_store (sweepExpired now g)) = Some s \<Longrightarrow> sm_status s = StActive \<Longrightarrow> sm_lifespan s = Some l \<Longrightarrow>
      0 < l \<Longrightarrow> expires_at s = Some t \<Longrightarrow> now div 1000 < t"
    and "gw_pending (sweepExpired now g) = gw_pending g" "gw_processedLogKeys (sweepExpired now g) = gw_processedLogKeys g"
proof -
  obtain ids q where c: "checkExpired (now div 1000) (gw_queue g) = (ids, q)" by (cases "checkExpired (now div 1000) (gw_queue g)")
  define g1 where "g1 = g\<lparr>gw_queue := q\<rparr>"
  have sw: "sweepExpired now g = fold sweep_one ids g1" by (simp add: sweepExpired_def c g1_def)
  note q = termination_queue.pop_ok [OF gw_okD(2) [OF assms] c]
  note f = sweep_all_facts [of ids g1]
  show "gw_pending (sweepExpired now g) = gw_pending g" "gw_processedLogKeys (sweepExpired now g) = gw_processedLogKeys g"
    using f by (simp_all add: sw g1_def)
  have get: "st_get j (gw_store (sweepExpired now g)) = map_option (swept ids j) (st_get j (gw_store g))" for j
    using sweep_all_facts [of ids g1 j] by (simp add: sw g1_def)
  have live: "\<lparr>te_paycardId = j, te_expiresAt = t\<rparr> \<in> set q"
    if "st_get j (gw_store (sweepExpired now g)) = Some s" "sm_status s = StActive" "sm_lifespan s = Some l" "0 < l"
      "expires_at s = Some t" for j s l t
  proof -
    from that(1) get [of j] obtain u where u: "st_get j (gw_store g) = Some u" "s = swept ids j u" by auto
    with that(2) have act: "s = u" "j \<notin> set ids" by (auto simp: swept_def split: if_splits)
    with gw_okD(3) [OF assms u(1)] that(2-5) have "\<lparr>te_paycardId = j, te_expiresAt = t\<rparr> \<in> set (gw_queue g)"
      by (auto simp: expiry_queued_def)
    with act(2) q show ?thesis by (force simp: not_le)
  qed
  show "st_get i (gw_store (sweepExpired now g)) = Some s \<Longrightarrow> sm_status s = StActive \<Longrightarrow> sm_lifespan s = Some l \<Longrightarrow>
      0 < l \<Longrightarrow> expires_at s = Some t \<Longrightarrow> now div 1000 < t"
    using live q by force
  have "st_ok (gw_store (sweepExpired now g))"
    unfolding sw using gw_okD(1,3) [OF assms] by (intro st_ok_sweep) (auto simp: g1_def)
  moreover have "stream_wf s \<and> sm_paycardId s = j \<and> expiry_queued q s"
    if s: "st_get j (gw_store (sweepExpired now g)) = Some s" for j s
  proof -
    from s get [of j] obtain u where u: "st_get j (gw_store g) = Some u" "s = swept ids j u" by auto
    with gw_okD(3) [OF assms u(1)] have "stream_wf s" "sm_paycardId s = j" by (auto simp: swept_def stream_wf_def)
    then show ?thesis using live [OF s] by (auto simp: expiry_queued_def)
  qed
  moreover have "gw_queue (sweepExpired now g) = q" using f by (simp add: sw g1_def)
  moreover have "by_time q" using q by blast
  ultimately show "gw_ok (sweepExpired now g)"
    using assms \<open>gw_pending (sweepExpired now g) = gw_pending g\<close>
      \<open>gw_processedLogKeys (sweepExpired now g) = gw_processedLogKeys g\<close>
    unfolding gw_ok_def by auto
qed

lemma tick_sweeps: "gw_ok g \<Longrightarrow> tick now g = sweepExpired now (fst (processAccruals now g))"
  using processAccruals_ok [of g now] by (simp add: tick_def case_prod_beta Let_def)

lemma gw_ok_tick: "gw_ok g \<Longrightarrow> gw_ok (tick now g)"
  using processAccruals_ok [of g now] by (simp add: tick_sweeps sweepExpired_facts(1))

section \<open>Reachable gateways\<close>

inductive gw_reachable :: "decoder \<Rightarrow> gateway \<Rightarrow> bool" for d where
  started: "st_ok st \<Longrightarrow> (\<And>i s. st_get i st = Some s \<Longrightarrow> stream_wf s) \<Longrightarrow> length (st_getActive st) \<le> max_queue \<Longrightarrow>
     gw_reachable d (start_gateway st urls)"
| stepped: "gw_reachable d g \<Longrightarrow> gw_step d g g' \<Longrightarrow> gw_reachable d g'"

lemma schedule_all_facts:
  assumes "by_time q" "length q + length ss \<le> max_queue"
  shows "by_time (fold schedule_stream ss q) \<and> set q \<subseteq> set (fold schedule_stream ss q) \<and>
     (\<forall>s \<in> set ss. expiry_queued (fold schedule_stream ss q) s)"
  using assms
proof (induction ss arbitrary: q)
  case Nil
  then show ?case by simp
next
  case (Cons s ss)
  then have "length q \<le> max_queue" by simp
  note h = schedule_stream_facts [OF Cons.prems(1) this, of s]
  from h(4) Cons.prems(2) have "length (schedule_stream s q) + length ss \<le> max_queue" by simp
  from Cons.IH [OF h(1) this] h(2,3) show ?case by (auto intro: expiry_queued_mono)
qed

lemma gw_ok_start:
  assumes "st_ok st" "\<And>i s. st_get i st = Some s \<Longrightarrow> stream_wf s" "length (st_getActive st) \<le> max_queue"
  shows "gw_ok (start_gateway st urls)"
proof -
  have "by_time []" by (simp add: by_time_def)
  note q = schedule_all_facts [OF this, of "st_getActive st"]
  have id: "sm_paycardId s = i" if "st_get i st = Some s" for i s
    using that st_ok_cache [OF assms(1)] keyed_get by (auto simp: st_get_def)
  have "expiry_queued (fold schedule_stream (st_getActive st) []) s" if s: "st_get i st = Some s" for i s
  proof (cases "sm_status s = StActive")
    case True
    with s id [OF s] st_getActive_set [OF assms(1)] q assms(3) show ?thesis by simp
  qed (simp add: expiry_queued_def)
  with q assms id show ?thesis by (auto simp: gw_ok_def start_gateway_def)
qed

lemma gw_ok_bind:
  assumes "gw_ok g" "bindVerifiedMetadata hash i metadata w g = Inr (g', s)"
  shows "gw_ok g'"
proof -
  from assms(2) obtain st r where st: "st_bindWorkflow i w (gw_store g) = (st, r)" and g': "g' = g\<lparr>gw_store := st\<rparr>"
    by (auto simp: bindVerifiedMetadata_def result_simps Let_def case_prod_beta)
      (metis prod.collapse)
  have "stream_wf u \<and> sm_paycardId u = j \<and> expiry_queued (gw_queue g) u" if u: "st_get j st = Some u" for j u
  proof -
    from u obtain v where v: "st_get j (gw_store g) = Some v" "u = v \<or> (\<exists>x. u = v\<lparr>sm_workflowId := x\<rparr>)"
      by (auto simp: st_get_bind [OF st] split: if_splits)
    from gw_okD(3) [OF assms(1) v(1)] v(2) show ?thesis
      by (auto simp: stream_wf_def intro: expiry_queued_same)
  qed
  with assms(1) st_ok_bind [OF gw_okD(1) [OF assms(1)] st] show ?thesis by (auto simp: gw_ok_def g')
qed

lemma gw_ok_step: "decoder_ok d \<Longrightarrow> gw_step d g g' \<Longrightarrow> gw_ok g \<Longrightarrow> gw_ok g'"
  by (erule gw_step.cases)
     (auto simp: gw_ok_begin gw_ok_finish gw_ok_fail gw_ok_tick gw_ok_bind registerWebhook_def gw_ok_def [of "g\<lparr>gw_webhookUrls := _\<rparr>"]
       dest: gw_okD)

lemma gw_reachable_ok:
  assumes "decoder_ok d" "gw_reachable d g"
  shows "gw_ok g"
  using assms(2)
proof (induction rule: gw_reachable.induct)
  case (started st urls)
  then show ?case by (rule gw_ok_start)
next
  case (stepped g g')
  then show ?case using gw_ok_step [OF assms(1)] by blast
qed

section \<open>Events are applied once\<close>

text \<open>Steps never forget a processed key.\<close>

lemma dispatch_keys: "dispatch e g = Inr g' \<Longrightarrow> gw_processedLogKeys g' = gw_processedLogKeys g \<and> gw_pending g' = gw_pending g"
  by (auto simp: dispatch_def onPaycardProvisioned_def onSettlementFlushed_def onResidualDeltaReclaimed_def Let_def
      result_simps split: if_splits option.splits)

lemma apply_keys: "gw_processedLogKeys (apply_event now e g) = gw_processedLogKeys g \<and> gw_pending (apply_event now e g) = gw_pending g"
  by (auto simp: apply_event_def Let_def fanOutWebhook_def dest!: dispatch_keys split: sum.splits)

lemma processAccruals_keys:
  "gw_processedLogKeys (fst (processAccruals now g)) = gw_processedLogKeys g \<and> gw_pending (fst (processAccruals now g)) = gw_pending g"
  by (simp add: processAccruals_def case_prod_beta Let_def)

lemma sweepExpired_keys:
  "gw_processedLogKeys (sweepExpired now g) = gw_processedLogKeys g \<and> gw_pending (sweepExpired now g) = gw_pending g"
proof -
  obtain ids q where "checkExpired (now div 1000) (gw_queue g) = (ids, q)" by (cases "checkExpired (now div 1000) (gw_queue g)")
  with sweep_all_facts [of ids "g\<lparr>gw_queue := q\<rparr>"] show ?thesis by (simp add: sweepExpired_def)
qed

lemma bind_keys: "bindVerifiedMetadata hash i metadata w g = Inr (g', s) \<Longrightarrow>
    gw_processedLogKeys g' = gw_processedLogKeys g \<and> gw_pending g' = gw_pending g"
  by (auto simp: bindVerifiedMetadata_def result_simps Let_def case_prod_beta)

lemma step_keeps_keys: "gw_step d g g' \<Longrightarrow> set (gw_processedLogKeys g) \<subseteq> set (gw_processedLogKeys g')"
  by (erule gw_step.cases)
     (auto simp: begin_log_def finish_log_def fail_log_def registerWebhook_def apply_keys tick_def Let_def
       case_prod_beta processAccruals_keys sweepExpired_keys dest: bind_keys split: option.splits if_splits)

inductive gw_leads :: "decoder \<Rightarrow> gateway \<Rightarrow> gateway \<Rightarrow> bool" for d where
  here: "gw_leads d g g"
| further: "gw_leads d g h \<Longrightarrow> gw_step d h h' \<Longrightarrow> gw_leads d g h'"

lemma leads_keeps_keys: "gw_leads d g g' \<Longrightarrow> set (gw_processedLogKeys g) \<subseteq> set (gw_processedLogKeys g')"
  by (induction rule: gw_leads.induct) (auto dest: step_keeps_keys)

lemma begin_again:
  assumes "parse_log d log = Some e" "event_key e \<in> set (gw_processedLogKeys g)"
  shows "begin_log d log g = g"
  using assms by (simp add: begin_log_def)

lemma begin_processes: "parse_log d log = Some e \<Longrightarrow> event_key e \<in> set (gw_processedLogKeys (begin_log d log g))"
  by (simp add: begin_log_def)

section \<open>The ledger\<close>

text \<open>What the events of one Paycard say of its balance and status.\<close>

definition uint_arg :: "parsed_event \<Rightarrow> string \<Rightarrow> int" where
  "uint_arg e k = digits_val (arg e k ''0'')"

definition ledger_event :: "parsed_event \<Rightarrow> (int \<times> paycard_status) option \<Rightarrow> (int \<times> paycard_status) option" where
  "ledger_event e l =
     (if gv_eventName e = ''PaycardProvisioned'' then Some (uint_arg e ''poolAllocation'', StActive)
      else if gv_eventName e = ''SettlementFlushed''
        then map_option (\<lambda>(b, st). (max 0 (b - uint_arg e ''amountWithdrawn''),
               if b \<le> uint_arg e ''amountWithdrawn'' then StTerminated else st)) l
      else if gv_eventName e = ''ResidualDeltaReclaimed'' then map_option (\<lambda>_. (0, StTerminated)) l
      else l)"

definition ledger_of :: "stream \<Rightarrow> int \<times> paycard_status" where
  "ledger_of s = (digits_val (sm_availableBalance s), sm_status s)"

definition ledger :: "string \<Rightarrow> gateway \<Rightarrow> (int \<times> paycard_status) option" where
  "ledger i g = map_option ledger_of (st_get i (gw_store g))"

lemma ledger_apply:
  assumes "gw_ok g" "event_wf e"
  shows "ledger i (apply_event now e g) = (if gv_paycardId e = i then ledger_event e (ledger i g) else ledger i g)"
proof -
  define g1 where "g1 = g\<lparr>gw_store := st_recordEvent (toEventRecord now (gw_store g) e) (gw_store g)\<rparr>"
  have get1: "st_get j (gw_store g1) = st_get j (gw_store g)" for j by (simp add: g1_def)
  have fan: "gw_store (fanOutWebhook e h) = gw_store h" for h by (simp add: fanOutWebhook_def)
  have ap: "apply_event now e g = (case dispatch e g1 of Inl _ \<Rightarrow> g1 | Inr g2 \<Rightarrow> fanOutWebhook e g2)"
    by (simp only: apply_event_def g1_def Let_def)
  show ?thesis
  proof (cases "gv_eventName e = ''SettlementFlushed''")
    case True
    show ?thesis
    proof (cases "st_get (gv_paycardId e) (gw_store g)")
      case None
      with True show ?thesis
        by (auto simp: ap dispatch_def onSettlementFlushed_def get1 fan ledger_def ledger_event_def)
    next
      case (Some s)
      with gw_okD(3) [OF assms(1)] have wf: "stream_wf s" by blast
      have "0 \<le> uint_arg e ''amountWithdrawn''"
        unfolding uint_arg_def by (intro digits_val_decimal arg_decimal assms(2)) (simp add: uint_args_def)
      with True Some show ?thesis
        by (auto simp: ap dispatch_def onSettlementFlushed_def get1 settled_stream_wf [OF assms(2) wf] fan ledger_def
            ledger_event_def ledger_of_def uint_arg_def digits_val_int_str)
    qed
  next
    case False
    then show ?thesis
      by (auto simp: ap dispatch_def onPaycardProvisioned_def onResidualDeltaReclaimed_def Let_def fan get1 ledger_def
          ledger_event_def ledger_of_def provisioned_stream_def reclaimed_stream_def uint_arg_def digits_val_def
          digit_val_def split: option.splits)
  qed
qed

lemma ledger_fold:
  assumes "gw_ok g" "\<forall>e \<in> set es. event_wf e" "length (gw_queue g) + length es \<le> max_queue"
  shows "ledger i (fold (apply_event now) es g) = fold ledger_event (filter (\<lambda>e. gv_paycardId e = i) es) (ledger i g)"
  using assms
proof (induction es arbitrary: g)
  case Nil
  then show ?case by simp
next
  case (Cons e es)
  define g1 where "g1 = apply_event now e g"
  have ok: "gw_ok g1" using Cons.prems by (simp add: g1_def gw_ok_apply)
  have "length (gw_queue g1) \<le> Suc (length (gw_queue g))"
    using schedule_stream_facts(4) [OF gw_okD(2) [OF Cons.prems(1)]] Cons.prems(3)
    by (auto simp: g1_def apply_event_def Let_def fanOutWebhook_def dispatch_def onPaycardProvisioned_def
        onSettlementFlushed_def onResidualDeltaReclaimed_def bnd_def split: sum.splits option.splits if_splits)
  with Cons.IH [OF ok] Cons.prems ledger_apply [OF Cons.prems(1), of e i now] show ?case
    by (simp add: g1_def)
qed

text \<open>A stream that was provisioned and then only settled: what is left is the pool less the withdrawals.\<close>

lemma ledger_settlements:
  assumes "\<forall>e \<in> set es. gv_eventName e = ''SettlementFlushed'' \<and> 0 \<le> uint_arg e ''amountWithdrawn''" "0 \<le> b"
  shows "\<exists>st'. fold ledger_event es (Some (b, st)) = Some (max 0 (b - (\<Sum>e\<leftarrow>es. uint_arg e ''amountWithdrawn'')), st')"
  using assms
proof (induction es arbitrary: b st)
  case Nil
  then show ?case by simp
next
  case (Cons e es)
  define w where "w = uint_arg e ''amountWithdrawn''"
  define S where "S = (\<Sum>e\<leftarrow>es. uint_arg e ''amountWithdrawn'')"
  have "0 \<le> S" unfolding S_def using Cons.prems(1) by (intro sum_list_nonneg) auto
  from Cons.prems(1) have step: "ledger_event e (Some (b, st)) = Some (max 0 (b - w), if b \<le> w then StTerminated else st)"
    by (simp add: ledger_event_def w_def)
  from Cons.IH [of "max 0 (b - w)" "if b \<le> w then StTerminated else st"] Cons.prems(1)
  obtain st' where "fold ledger_event es (Some (max 0 (b - w), if b \<le> w then StTerminated else st)) =
      Some (max 0 (max 0 (b - w) - S), st')" by (auto simp: S_def)
  moreover have "max 0 (max 0 (b - w) - S) = max 0 (b - (w + S))" using \<open>0 \<le> S\<close> by linarith
  ultimately show ?case using step by (simp add: w_def [symmetric] S_def [symmetric])
qed

end
