(* ===== verification/StreamScenario.thy ===== *)
theory StreamScenario
  imports Complex_Main StreamInvariant StreamTimer ProviderPool Webhook RateLimiter
begin

text \<open>
  A concrete gateway: one Paycard of 100 units over ten seconds from instant 5, settled once,
  on an empty durable store with one webhook.
\<close>

section \<open>Decoder and logs\<close>

definition demo_decoder :: decoder where
  "demo_decoder topics data =
     (if topics = [''P'', ''card''] then
        Inr (Some (''PaycardProvisioned'',
          [(''paycardId'', TextValue ''card''), (''payer'', TextValue ''alice''), (''recipient'', TextValue ''bob''),
           (''metadataHash'', TextValue ''0xm''), (''poolAllocation'', BigValue 100),
           (''flowVelocityPerSecond'', BigValue 10), (''genesisTimestamp'', BigValue 5), (''lifespanSeconds'', BigValue 10)]))
      else if topics = [''S'', ''card''] then
        Inr (Some (''SettlementFlushed'',
          [(''paycardId'', TextValue ''card''), (''recipient'', TextValue ''bob''), (''amountWithdrawn'', BigValue 30)]))
      else Inr None)"

definition demo_log :: "string \<Rightarrow> int \<Rightarrow> raw_log" where
  "demo_log kind n = \<lparr>rl_topics = [kind, ''card''], rl_data = ''0x'', rl_blockNumber = n, rl_transactionHash = ''0xt'',
     rl_logIndex = Some n, rl_index = None\<rparr>"

lemma demo_decoder_ok: "decoder_ok demo_decoder"
  unfolding decoder_ok_def
proof (intro allI impI)
  fix topics data name vs k v
  assume d: "demo_decoder topics data = Inr (Some (name, vs))" "(k, v) \<in> set vs" "k \<in> set uint_args"
  from d(1) consider "topics = [''P'', ''card'']" | "topics = [''S'', ''card'']"
    by (auto simp: demo_decoder_def split: if_splits)
  then show "\<exists>n. 0 \<le> n \<and> v = BigValue n"
    using d by cases (auto simp: demo_decoder_def uint_args_def)
qed

lemma int_str_demo:
  "int_str 100 = ''100''" "int_str 10 = ''10''" "int_str 5 = ''5''" "int_str 30 = ''30''" "int_str 70 = ''70''"
  by (simp_all add: int_str_def nat_digits.simps digit_char_def char_of_def bit_0)

definition provision_event :: parsed_event where
  "provision_event =
     \<lparr>gv_eventName = ''PaycardProvisioned'', gv_paycardId = ''card'',
      gv_args = [(''paycardId'', ''card''), (''payer'', ''alice''), (''recipient'', ''bob''), (''metadataHash'', ''0xm''),
        (''poolAllocation'', ''100''), (''flowVelocityPerSecond'', ''10''), (''genesisTimestamp'', ''5''),
        (''lifespanSeconds'', ''10'')],
      gv_blockNumber = 1, gv_blockTimestamp = None, gv_transactionHash = ''0xt'', gv_logIndex = 1\<rparr>"

definition settlement_event :: parsed_event where
  "settlement_event =
     \<lparr>gv_eventName = ''SettlementFlushed'', gv_paycardId = ''card'',
      gv_args = [(''paycardId'', ''card''), (''recipient'', ''bob''), (''amountWithdrawn'', ''30'')],
      gv_blockNumber = 2, gv_blockTimestamp = None, gv_transactionHash = ''0xt'', gv_logIndex = 2\<rparr>"

lemma demo_parse:
  "parse_log demo_decoder (demo_log ''P'' 1) = Some provision_event"
  "parse_log demo_decoder (demo_log ''S'' 2) = Some settlement_event"
  by (simp_all add: parse_log_def demo_decoder_def demo_log_def provision_event_def settlement_event_def
      arg_object_def arg_text_def int_str_demo Let_def)

lemma demo_events_wf: "event_wf provision_event" "event_wf settlement_event"
  using parse_log_wf [OF demo_decoder_ok] demo_parse by blast+

section \<open>A run\<close>

definition empty_disk :: disk where
  "empty_disk = \<lparr>dk_state = None, dk_events = None\<rparr>"

definition gw0 :: gateway where "gw0 = start_gateway (Durable (open_file_store empty_disk)) [''http://hook'']"
definition gw1 :: gateway where "gw1 = begin_log demo_decoder (demo_log ''P'' 1) gw0"
definition gw2 :: gateway where "gw2 = finish_log 0 (Some 6) 6000 gw1"
definition gw3 :: gateway where "gw3 = tick 7500 gw2"

lemma empty_store_ok: "st_ok (Durable (open_file_store empty_disk))"
  by (simp add: file_ok_open empty_disk_def disk_ok_def readStates_def clean_tail_def)

lemma empty_store_get: "st_get i (Durable (open_file_store empty_disk)) = None"
  by (simp add: st_get_def open_file_store_def load_states_def empty_disk_def)

lemma empty_store_active: "st_getActive (Durable (open_file_store empty_disk)) = []"
  by (simp add: st_getActive_def cache_getActive_def open_file_store_def load_states_def empty_disk_def empty_cache_def)

lemma gw0_reachable: "gw_reachable demo_decoder gw0"
  unfolding gw0_def by (rule gw_reachable.started) (simp_all only: empty_store_ok empty_store_get empty_store_active list.size simp_thms option.distinct zero_le)

lemma gw1_reachable: "gw_reachable demo_decoder gw1"
  unfolding gw1_def by (rule gw_reachable.stepped [OF gw0_reachable gw_step.begin_step])

lemma gw1_fields:
  "gw_queue gw1 = []" "gw_pending gw1 = [provision_event]" "gw_processedLogKeys gw1 = [event_key provision_event]"
  "gw_store gw1 = Durable (open_file_store empty_disk)"
proof -
  have no: "\<not> hasEvent k (open_file_store empty_disk)" for k
    by (simp add: hasEvent_def open_file_store_def load_events_def empty_disk_def)
  then show "gw_queue gw1 = []" "gw_pending gw1 = [provision_event]" "gw_processedLogKeys gw1 = [event_key provision_event]"
    "gw_store gw1 = Durable (open_file_store empty_disk)"
    by (simp_all add: gw1_def begin_log_def demo_parse gw0_def start_gateway_def empty_store_active)
qed

lemma gw2_reachable: "gw_reachable demo_decoder gw2"
  unfolding gw2_def
  by (rule gw_reachable.stepped [OF gw1_reachable gw_step.finish_step]) (simp add: gw1_fields max_queue_def)

lemma gw3_reachable: "gw_reachable demo_decoder gw3"
  unfolding gw3_def by (rule gw_reachable.stepped [OF gw2_reachable gw_step.tick_step])

definition demo_stream :: stream where
  "demo_stream = \<lparr>sm_paycardId = ''card'', sm_payer = ''alice'', sm_recipient = ''bob'', sm_metadataHash = ''0xm'',
     sm_workflowId = None, sm_totalAllocation = ''100'', sm_availableBalance = ''100'',
     sm_projectedAvailableBalance = None, sm_velocity = ''10'', sm_genesis = Some 5, sm_lifespan = Some 10,
     sm_lastCheckpoint = Some 5, sm_status = StActive\<rparr>"

lemma to_number_demo: "to_number ''5'' = Some 5" "to_number ''10'' = Some 10"
  using to_number_int_str [of 5] to_number_int_str [of 10] by (simp_all add: int_str_demo dbl_exact isSafeInteger_def)

lemma provisioned_demo: "provisioned_stream (provision_event\<lparr>gv_blockTimestamp := x\<rparr>) = demo_stream"
  by (simp add: provisioned_stream_def provision_event_def arg_def or_default_def demo_stream_def to_number_demo Let_def)

lemma dispatch_provision:
  "gv_eventName e = ''PaycardProvisioned'' \<Longrightarrow> dispatch e g = Inr (onPaycardProvisioned e g)"
  by (simp add: dispatch_def)

lemma gw2_get: "st_get ''card'' (gw_store gw2) = Some demo_stream"
proof -
  define e where "e = provision_event\<lparr>gv_blockTimestamp := Some 6\<rparr>"
  have e: "gv_eventName e = ''PaycardProvisioned''" "gv_paycardId e = ''card''" "provisioned_stream e = demo_stream"
    using provisioned_demo [of "Some 6"] by (simp_all add: e_def provision_event_def)
  have eq: "gw2 = apply_event 6000 e (gw1\<lparr>gw_pending := []\<rparr>)"
    by (simp add: gw2_def finish_log_def gw1_fields e_def)
  have "gw_store gw2 = st_set ''card'' demo_stream (st_recordEvent (toEventRecord 6000 (gw_store gw1) e) (gw_store gw1))"
    unfolding eq by (simp add: apply_event_def Let_def dispatch_provision [OF e(1)] onPaycardProvisioned_def e(2,3) fanOutWebhook_def)
  then show ?thesis by simp
qed

lemma gw2_keys: "gw_processedLogKeys gw2 = [event_key provision_event]"
  by (simp add: gw2_def finish_log_def apply_keys gw1_fields)

lemma demo_amounts:
  "gv_paycardId provision_event = ''card''" "gv_paycardId settlement_event = ''card''"
  "gv_eventName provision_event = ''PaycardProvisioned''" "gv_eventName settlement_event = ''SettlementFlushed''"
  "uint_arg provision_event ''poolAllocation'' = 100" "uint_arg settlement_event ''amountWithdrawn'' = 30"
  by (simp_all add: provision_event_def settlement_event_def uint_arg_def arg_def or_default_def digits_val_def
      digit_val_def)

lemma gw0_queue: "gw_queue gw0 = []"
  by (simp add: gw0_def start_gateway_def empty_store_active)

lemma gw1_leads_gw3: "gw_leads demo_decoder gw1 gw3"
proof -
  have "gw_leads demo_decoder gw1 gw2"
    unfolding gw2_def
    by (rule gw_leads.further [OF gw_leads.here gw_step.finish_step]) (simp add: gw1_fields max_queue_def)
  then show ?thesis unfolding gw3_def by (rule gw_leads.further [OF _ gw_step.tick_step])
qed

text \<open>No step turns a durable store into another kind.\<close>

fun is_durable :: "any_store \<Rightarrow> bool" where
  "is_durable (InMemory c) = False"
| "is_durable (Durable f) = True"

lemma durable_updates [simp]:
  "is_durable (st_set i s st) = is_durable st" "is_durable (st_poke i f st) = is_durable st"
  "is_durable (st_recordEvent r st) = is_durable st"
  by (cases st; simp)+

lemma durable_accrue: "is_durable (fst (accrue_all now ss st)) = is_durable st"
  by (induction ss arbitrary: st) (auto split: sum.splits option.splits)

lemma durable_sweep: "is_durable (gw_store (fold sweep_one ids g)) = is_durable (gw_store g)"
  by (induction ids arbitrary: g) (auto simp: sweep_one_def fanOutWebhook_def split: option.splits)

lemma durable_tick: "is_durable (gw_store (tick now g)) = is_durable (gw_store g)"
  by (simp add: tick_def processAccruals_def sweepExpired_def case_prod_beta Let_def durable_sweep durable_accrue)

lemma gw2_store: "is_durable (gw_store gw2)"
proof -
  define e where "e = provision_event\<lparr>gv_blockTimestamp := Some 6\<rparr>"
  have e: "gv_eventName e = ''PaycardProvisioned''" by (simp add: e_def provision_event_def)
  have eq: "gw2 = apply_event 6000 e (gw1\<lparr>gw_pending := []\<rparr>)"
    by (simp add: gw2_def finish_log_def gw1_fields e_def)
  show ?thesis
    unfolding eq
    by (simp add: apply_event_def Let_def dispatch_provision [OF e] onPaycardProvisioned_def fanOutWebhook_def gw1_fields)
qed

lemma gw3_durable: "\<exists>f. gw_store gw3 = Durable f"
  using durable_tick [of 7500 gw2] gw2_store by (cases "gw_store gw3") (simp_all add: gw3_def)

lemma gw2_queue: "gw_queue gw2 = [\<lparr>te_paycardId = ''card'', te_expiresAt = 15\<rparr>]"
proof -
  define e where "e = provision_event\<lparr>gv_blockTimestamp := Some 6\<rparr>"
  have e: "gv_eventName e = ''PaycardProvisioned''" "gv_paycardId e = ''card''" "provisioned_stream e = demo_stream"
    using provisioned_demo [of "Some 6"] by (simp_all add: e_def provision_event_def)
  have eq: "gw2 = apply_event 6000 e (gw1\<lparr>gw_pending := []\<rparr>)"
    by (simp add: gw2_def finish_log_def gw1_fields e_def)
  have "schedule ''card'' 15 [] = Some [\<lparr>te_paycardId = ''card'', te_expiresAt = 15\<rparr>]"
    using schedule_insort [of "[]" "''card''" 15] by (simp add: by_time_def max_queue_def)
  then have "schedule_stream demo_stream [] = [\<lparr>te_paycardId = ''card'', te_expiresAt = 15\<rparr>]"
    by (simp add: schedule_stream_def demo_stream_def expires_at_def dbl_exact isSafeInteger_def enqueue_def or_default_def)
  then show ?thesis
    unfolding eq
    by (simp add: apply_event_def Let_def dispatch_provision [OF e(1)] onPaycardProvisioned_def e(2,3) fanOutWebhook_def gw1_fields)
qed

lemma gw3_get: "\<exists>s. st_get ''card'' (gw_store gw3) = Some s \<and> sm_status s = StActive \<and> sm_lifespan s = Some 10"
proof -
  note ok = gw_reachable_ok [OF demo_decoder_ok gw2_reachable]
  have q: "gw_queue (fst (processAccruals 7500 gw2)) = [\<lparr>te_paycardId = ''card'', te_expiresAt = 15\<rparr>]"
    using processAccruals_ok [OF ok, of 7500] gw2_queue by simp
  have "gw_store gw3 = gw_store (fst (processAccruals 7500 gw2))"
    by (simp add: gw3_def tick_sweeps [OF ok] sweepExpired_def q)
  moreover from processAccruals_ok [OF ok, of 7500 "''card''"] gw2_get obtain s where
    "st_get ''card'' (gw_store (fst (processAccruals 7500 gw2))) = Some s" "strip s = strip demo_stream"
    by (cases "st_get ''card'' (gw_store (fst (processAccruals 7500 gw2)))") auto
  moreover from this(2) have "sm_status s = StActive" "sm_lifespan s = Some 10"
    by (metis strip_fields(3) demo_stream_def stream.select_convs, metis strip_fields(6) demo_stream_def stream.select_convs)
  ultimately show ?thesis by simp
qed

end
