(* ===== verification/JsDynamic.thy ===== *)
theory JsDynamic
  imports Canonical JsNumber
begin

text \<open>
  Values the code uses without knowing their type: the fields of a parsed request body or
  token. Property access throws on \<open>null\<close> and \<open>undefined\<close>; \<open>===\<close> on two parsed objects is
  false; the relational operators and \<open>BigInt\<close> are exact on numbers and decimal texts, and on
  the other operands, where JavaScript coerces, they are the fields of \<open>coercions\<close>.
\<close>

record coercions =
  co_less :: "json \<Rightarrow> json \<Rightarrow> bool"
  co_less_eq :: "json \<Rightarrow> json \<Rightarrow> bool"
  co_bigint :: "json \<Rightarrow> int option"

definition is_nullish :: "json \<Rightarrow> bool" where
  "is_nullish v \<longleftrightarrow> v = JUndefined \<or> v = JNull"

definition get_prop :: "json \<Rightarrow> string \<Rightarrow> json result" where
  "get_prop v k =
     (if is_nullish v then Inl (Error (''Cannot read properties of undefined (reading '' @ k @ '')''))
      else case v of JObj fs \<Rightarrow> Inr (case oget fs k of None \<Rightarrow> JUndefined | Some x \<Rightarrow> x) | _ \<Rightarrow> Inr JUndefined)"

text \<open>\<open>v?.k\<close>.\<close>

definition opt_prop :: "json \<Rightarrow> string \<Rightarrow> json" where
  "opt_prop v k = (case v of JObj fs \<Rightarrow> (case oget fs k of None \<Rightarrow> JUndefined | Some x \<Rightarrow> x) | _ \<Rightarrow> JUndefined)"

definition js_truthy :: "json \<Rightarrow> bool" where
  "js_truthy v =
     (case v of JUndefined \<Rightarrow> False | JNull \<Rightarrow> False | JBool b \<Rightarrow> b | JNum n \<Rightarrow> n \<noteq> 0
      | JBigint n \<Rightarrow> n \<noteq> 0 | JStr s \<Rightarrow> s \<noteq> [] | _ \<Rightarrow> True)"

definition is_reference :: "json \<Rightarrow> bool" where
  "is_reference v = (case v of JArr _ \<Rightarrow> True | JObj _ \<Rightarrow> True | JFunction \<Rightarrow> True | JNonFinite \<Rightarrow> True | _ \<Rightarrow> False)"

definition same :: "json \<Rightarrow> json \<Rightarrow> bool" where
  "same a b \<longleftrightarrow> a = b \<and> \<not> is_reference a"

definition js_less :: "coercions \<Rightarrow> json \<Rightarrow> json \<Rightarrow> bool" where
  "js_less co a b = (case (a, b) of (JNum m, JNum n) \<Rightarrow> m < n | _ \<Rightarrow> co_less co a b)"

definition at_most :: "coercions \<Rightarrow> json \<Rightarrow> json \<Rightarrow> bool" where
  "at_most co a b = (case (a, b) of (JNum m, JNum n) \<Rightarrow> m \<le> n | _ \<Rightarrow> co_less_eq co a b)"

definition bigint :: "coercions \<Rightarrow> json \<Rightarrow> int result" where
  "bigint co v =
     (case v of
        JNum n \<Rightarrow> Inr n
      | JBigint n \<Rightarrow> Inr n
      | JStr s \<Rightarrow> if decimal s then Inr (digits_val s) else require (co_bigint co v) ''Cannot convert to a BigInt''
      | _ \<Rightarrow> require (co_bigint co v) ''Cannot convert to a BigInt'')"

lemma same_str [simp]: "same (JStr a) v \<longleftrightarrow> v = JStr a" "same v (JStr a) \<longleftrightarrow> v = JStr a"
  by (auto simp: same_def is_reference_def)

lemma same_num [simp]: "same (JNum a) v \<longleftrightarrow> v = JNum a" "same v (JNum a) \<longleftrightarrow> v = JNum a"
  by (auto simp: same_def is_reference_def)

lemma js_less_num [simp]: "js_less co (JNum m) (JNum n) \<longleftrightarrow> m < n"
  by (simp add: js_less_def)

lemma at_most_num [simp]: "at_most co (JNum m) (JNum n) \<longleftrightarrow> m \<le> n"
  by (simp add: at_most_def)

lemma js_truthy_str [simp]: "js_truthy (JStr s) \<longleftrightarrow> s \<noteq> []"
  by (simp add: js_truthy_def)

lemma js_truthy_simps [simp]: "\<not> js_truthy JUndefined" "\<not> js_truthy JNull" "js_truthy (JObj fs)"
  by (simp_all add: js_truthy_def)

lemma prop_obj [simp]: "get_prop (JObj fs) k = Inr (case oget fs k of None \<Rightarrow> JUndefined | Some x \<Rightarrow> x)"
  by (simp add: get_prop_def is_nullish_def)

lemma prop_Inr_opt: "get_prop v k = Inr x \<Longrightarrow> opt_prop v k = x"
  by (auto simp: get_prop_def opt_prop_def split: if_splits json.splits)

text \<open>\<open>String.prototype.trim\<close> on characters below U+0100.\<close>

definition is_trim_space :: "char \<Rightarrow> bool" where
  "is_trim_space c \<longleftrightarrow> of_char c \<in> {9, 10, 11, 12, 13, 32, 160 :: nat}"

definition trim :: "string \<Rightarrow> string" where
  "trim s = rev (dropWhile is_trim_space (rev (dropWhile is_trim_space s)))"

lemma trim_id: "list_all (\<lambda>c. \<not> is_trim_space c) s \<Longrightarrow> trim s = s"
proof -
  assume a: "list_all (\<lambda>c. \<not> is_trim_space c) s"
  then have "dropWhile is_trim_space s = s" "dropWhile is_trim_space (rev s) = rev s"
    by (auto simp: dropWhile_eq_self_iff list_all_iff hd_rev)
  then show ?thesis by (simp add: trim_def)
qed

end
