(* ===== verification/JsonText.thy ===== *)
theory JsonText
  imports Canonical JsNumber
begin

text \<open>
  \<open>JSON.parse\<close> on texts of this development: a recursive descent with the nesting bounded by
  the length of the text. Two things are left to the engine's number and string tables and are
  the fields of \<open>json_engine\<close>: a number with a fraction or an exponent, read from the front of
  a text, and an escape \<open>\uXXXX\<close> beyond the characters of this development. Reading a text
  that \<open>JSON.stringify\<close> wrote uses neither. Keys that are array indices, which JavaScript
  would move to the front, are kept in place.
\<close>

record json_engine =
  read_decimal :: "string \<Rightarrow> (json \<times> string) option"
  wide_escape :: "nat \<Rightarrow> string option"

section \<open>Tokens\<close>

definition is_json_space :: "char \<Rightarrow> bool" where
  "is_json_space c \<longleftrightarrow> of_char c \<in> {9, 10, 13, 32 :: nat}"

definition skip_space :: "string \<Rightarrow> string" where
  "skip_space s = dropWhile is_json_space s"

definition hex_val :: "char \<Rightarrow> nat option" where
  "hex_val c =
     (let n = of_char c in
      if is_digit c then Some (n - 48)
      else if code_in 97 102 c then Some (n - 87)
      else if code_in 65 70 c then Some (n - 55) else None)"

definition hex4 :: "char \<Rightarrow> char \<Rightarrow> char \<Rightarrow> char \<Rightarrow> nat option" where
  "hex4 a b c d =
     (case (hex_val a, hex_val b, hex_val c, hex_val d) of
        (Some i, Some j, Some k, Some l) \<Rightarrow> Some (((i * 16 + j) * 16 + k) * 16 + l)
      | _ \<Rightarrow> None)"

definition simple_escape :: "char \<Rightarrow> char option" where
  "simple_escape c =
     map_of [(char_of (34::nat), char_of (34::nat)), (char_of (92::nat), char_of (92::nat)), (CHR ''/'', CHR ''/''),
       (CHR ''b'', char_of (8::nat)), (CHR ''f'', char_of (12::nat)), (CHR ''n'', char_of (10::nat)),
       (CHR ''r'', char_of (13::nat)), (CHR ''t'', char_of (9::nat))] c"

definition put_front :: "string \<Rightarrow> (string \<times> string) option \<Rightarrow> (string \<times> string) option" where
  "put_front p r = map_option (\<lambda>(s, rest). (p @ s, rest)) r"

text \<open>The rest of a string literal, after its opening quote.\<close>

fun parse_chars :: "json_engine \<Rightarrow> string \<Rightarrow> (string \<times> string) option" where
  "parse_chars en [] = None"
| "parse_chars en (c # s) =
     (if of_char c = (34 :: nat) then Some ([], s)
      else if of_char c = (92 :: nat) then
        (case s of
           [] \<Rightarrow> None
         | e # s' \<Rightarrow>
             (case simple_escape e of
                Some d \<Rightarrow> put_front [d] (parse_chars en s')
              | None \<Rightarrow>
                  (case (e = CHR ''u'', s') of
                     (True, w # x # y # z # s'') \<Rightarrow>
                       (case hex4 w x y z of
                          None \<Rightarrow> None
                        | Some n \<Rightarrow>
                            (case (if n < 256 then Some [char_of n] else wide_escape en n) of
                               None \<Rightarrow> None | Some p \<Rightarrow> put_front p (parse_chars en s'')))
                   | _ \<Rightarrow> None)))
      else if of_char c < (32 :: nat) then None
      else put_front [c] (parse_chars en s))"

text \<open>A number: whole numbers are read as doubles, \<open>-?(0|[1-9][0-9]*)\<close>.\<close>

definition parse_number :: "json_engine \<Rightarrow> string \<Rightarrow> (json \<times> string) option" where
  "parse_number en s =
     (let neg = (s \<noteq> [] \<and> hd s = CHR ''-''); t = (if neg then tl s else s);
          ds = takeWhile is_digit t; rest = dropWhile is_digit t in
      if ds = [] \<or> (hd ds = CHR ''0'' \<and> tl ds \<noteq> []) then None
      else if rest \<noteq> [] \<and> (hd rest = CHR ''.'' \<or> hd rest = CHR ''e'' \<or> hd rest = CHR ''E'') then read_decimal en s
      else Some (JNum (dbl (if neg then - digits_val ds else digits_val ds)), rest))"

definition literal :: "string \<Rightarrow> json \<Rightarrow> string \<Rightarrow> (json \<times> string) option" where
  "literal w v s = (if take (length w) s = w then Some (v, drop (length w) s) else None)"

section \<open>Values\<close>

fun parse_value :: "json_engine \<Rightarrow> nat \<Rightarrow> string \<Rightarrow> (json \<times> string) option"
  and parse_items :: "json_engine \<Rightarrow> nat \<Rightarrow> string \<Rightarrow> (json list \<times> string) option"
  and parse_members :: "json_engine \<Rightarrow> nat \<Rightarrow> fields \<Rightarrow> string \<Rightarrow> (fields \<times> string) option"
where
  "parse_value en 0 s = None"
| "parse_value en (Suc n) s =
     (case skip_space s of
        [] \<Rightarrow> None
      | c # r \<Rightarrow>
          if c = CHR ''{'' then
            (case skip_space r of
               [] \<Rightarrow> None
             | d # r' \<Rightarrow> if d = CHR ''}'' then Some (JObj [], r')
                 else map_option (\<lambda>(fs, rest). (JObj fs, rest)) (parse_members en n [] r))
          else if c = CHR ''['' then
            (case skip_space r of
               [] \<Rightarrow> None
             | d # r' \<Rightarrow> if d = CHR '']'' then Some (JArr [], r')
                 else map_option (\<lambda>(xs, rest). (JArr xs, rest)) (parse_items en n r))
          else if of_char c = (34 :: nat) then map_option (\<lambda>(t, rest). (JStr t, rest)) (parse_chars en r)
          else if c = CHR ''t'' then literal ''true'' (JBool True) (c # r)
          else if c = CHR ''f'' then literal ''false'' (JBool False) (c # r)
          else if c = CHR ''n'' then literal ''null'' JNull (c # r)
          else parse_number en (c # r))"
| "parse_items en 0 s = None"
| "parse_items en (Suc n) s =
     (case parse_value en n s of
        None \<Rightarrow> None
      | Some (v, r) \<Rightarrow>
          (case skip_space r of
             [] \<Rightarrow> None
           | c # r' \<Rightarrow>
               if c = CHR '','' then map_option (\<lambda>(vs, rest). (v # vs, rest)) (parse_items en n r')
               else if c = CHR '']'' then Some ([v], r') else None))"
| "parse_members en 0 acc s = None"
| "parse_members en (Suc n) acc s =
     (case skip_space s of
        [] \<Rightarrow> None
      | q # r \<Rightarrow>
          if of_char q \<noteq> (34 :: nat) then None
          else (case parse_chars en r of
            None \<Rightarrow> None
          | Some (k, r1) \<Rightarrow>
              (case skip_space r1 of
                 [] \<Rightarrow> None
               | c # r2 \<Rightarrow>
                   if c \<noteq> CHR '':'' then None
                   else (case parse_value en n r2 of
                     None \<Rightarrow> None
                   | Some (v, r3) \<Rightarrow>
                       (case skip_space r3 of
                          [] \<Rightarrow> None
                        | d # r4 \<Rightarrow>
                            if d = CHR '','' then parse_members en n (oset k v acc) r4
                            else if d = CHR ''}'' then Some (oset k v acc, r4) else None)))))"

definition json_parse :: "json_engine \<Rightarrow> string \<Rightarrow> json option" where
  "json_parse en s =
     (case parse_value en (2 * length s + 1) s of
        Some (v, r) \<Rightarrow> if skip_space r = [] then Some v else None
      | None \<Rightarrow> None)"

section \<open>Reading what was written\<close>

text \<open>Values that JSON text can carry exactly: whole doubles, distinct keys, no value that
  \<open>JSON.stringify\<close> drops.\<close>

fun textual :: "json \<Rightarrow> bool" where
  "textual JNull = True"
| "textual (JBool b) = True"
| "textual (JNum n) = isSafeInteger n"
| "textual (JStr s) = True"
| "textual (JArr xs) = list_all textual xs"
| "textual (JObj fs) = (distinct (map fst fs) \<and> list_all (\<lambda>p. textual (snd p)) fs)"
| "textual _ = False"

lemma put_front_Some [simp]: "put_front p (Some (s, r)) = Some (p @ s, r)"
  by (simp add: put_front_def)

lemma hex_val_char: "d < 16 \<Longrightarrow> hex_val (hex_char d) = Some d"
  by (simp add: hex_val_def hex_char_def is_digit_def code_in_def Let_def)

lemma hex4_byte: "n < 256 \<Longrightarrow> hex4 CHR ''0'' CHR ''0'' (hex_char (n div 16)) (hex_char (n mod 16)) = Some n"
proof -
  assume "n < 256"
  then have "n div 16 < 16" by linarith
  moreover have "hex_val CHR ''0'' = Some 0" by code_simp
  ultimately show ?thesis by (simp add: hex4_def hex_val_char)
qed

lemma simple_escapes [simp]:
  "simple_escape (char_of (34::nat)) = Some (char_of (34::nat))"
  "simple_escape (char_of (92::nat)) = Some (char_of (92::nat))"
  "simple_escape CHR ''b'' = Some (char_of (8::nat))" "simple_escape CHR ''t'' = Some (char_of (9::nat))"
  "simple_escape CHR ''n'' = Some (char_of (10::nat))" "simple_escape CHR ''f'' = Some (char_of (12::nat))"
  "simple_escape CHR ''r'' = Some (char_of (13::nat))" "simple_escape CHR ''u'' = None"
  by code_simp+

lemma char_code: "of_char c = (n :: nat) \<Longrightarrow> c = char_of n"
  by (metis char_of_char)

lemma parse_quote_char: "parse_chars en (quote_char c @ s) = put_front [c] (parse_chars en s)"
proof -
  let ?n = "of_char c :: nat"
  have bs: "of_char (char_of (92::nat) :: char) = (92 :: nat)" by simp
  have n: "?n < 256" by simp
  consider (special) "?n \<in> {34, 92, 8, 9, 10, 12, 13}" | (low) "?n \<notin> {34, 92, 8, 9, 10, 12, 13}" "?n < 32"
    | (plain) "?n \<notin> {34, 92}" "32 \<le> ?n" by fastforce
  then show ?thesis
  proof cases
    case special
    then have "c \<in> {char_of (34::nat), char_of (92::nat), char_of (8::nat), char_of (9::nat),
        char_of (10::nat), char_of (12::nat), char_of (13::nat)}"
      by (auto dest: char_code)
    then show ?thesis
      by (auto simp: quote_char_def)
  next
    case low
    then have "quote_char c = char_of (92::nat) # ''u00'' @ [hex_char (?n div 16), hex_char (?n mod 16)]"
      by (simp add: quote_char_def Let_def)
    then show ?thesis using hex4_byte [OF n] n by simp
  next
    case plain
    then have "quote_char c = [c]" by (simp add: quote_char_def Let_def)
    with plain show ?thesis by simp
  qed
qed

lemma parse_chars_quote: "parse_chars en (concat (map quote_char t) @ char_of (34::nat) # r) = Some (t, r)"
  by (induction t) (simp_all add: parse_quote_char)

definition ends :: "string \<Rightarrow> bool" where
  "ends r \<longleftrightarrow> r = [] \<or> hd r \<in> {CHR '','', CHR '']'', CHR ''}''}"

lemma ends_simps [simp]: "ends []" "ends (CHR '','' # r)" "ends (CHR '']'' # r)" "ends (CHR ''}'' # r)"
  by (simp_all add: ends_def)

lemma hd_nat_digits: "1 \<le> n \<Longrightarrow> hd (nat_digits n) \<noteq> CHR ''0''"
proof (induction n rule: nat_digits.induct)
  case (1 n)
  show ?case
  proof (cases "n < 10")
    case True
    then have "nat_digits n = [digit_char n]" by (simp add: nat_digits.simps)
    moreover have "of_char (digit_char n) \<noteq> (48 :: nat)" using True 1 by (simp add: of_char_digit_char)
    ultimately show ?thesis by auto
  next
    case False
    then have "nat_digits n = nat_digits (n div 10) @ [digit_char (n mod 10)]" by (subst nat_digits.simps) simp
    with False 1 show ?thesis by simp
  qed
qed

lemma digits_split:
  assumes "0 \<le> n" "ends r"
  shows "takeWhile is_digit (nat_digits n @ r) = nat_digits n" "dropWhile is_digit (nat_digits n @ r) = r"
proof -
  have d: "\<forall>c \<in> set (nat_digits n). is_digit c" using nat_digits_all [OF assms(1)] by (simp add: list_all_iff)
  have r: "r = [] \<or> \<not> is_digit (hd r)" using assms(2) by (auto simp: ends_def is_digit_def code_in_def)
  show "takeWhile is_digit (nat_digits n @ r) = nat_digits n" "dropWhile is_digit (nat_digits n @ r) = r"
    using d r by (cases r; simp add: takeWhile_append dropWhile_append)+
qed

lemma nat_digits_head: "0 \<le> n \<Longrightarrow> nat_digits n = ds \<Longrightarrow> is_digit (hd ds) \<and> (hd ds = CHR ''0'' \<longrightarrow> tl ds = [])"
proof -
  assume n: "0 \<le> n" "nat_digits n = ds"
  have "is_digit (hd ds)" using nat_digits_all [OF n(1)] n(2) by (cases ds) auto
  moreover have "tl ds = []" if "hd ds = CHR ''0''"
  proof -
    from that n have "n = 0" using hd_nat_digits [of n] by fastforce
    with n show ?thesis by (auto simp: nat_digits.simps)
  qed
  ultimately show ?thesis by blast
qed

lemma parse_number_int:
  assumes "isSafeInteger n" "ends r"
  shows "parse_number en (int_str n @ r) = Some (JNum n, r)"
proof -
  have r: "\<not> (r \<noteq> [] \<and> (hd r = CHR ''.'' \<or> hd r = CHR ''e'' \<or> hd r = CHR ''E''))"
    using assms(2) by (auto simp: ends_def)
  have "isSafeInteger m \<Longrightarrow> dbl m = m" for m by (rule dbl_exact)
  moreover have "hd (nat_digits n @ r) \<noteq> CHR ''-''" if "0 \<le> n"
    using nat_digits_head [OF that refl] by (auto simp: is_digit_def code_in_def)
  moreover have "\<not> (nat_digits m = [] \<or> hd (nat_digits m) = CHR ''0'' \<and> tl (nat_digits m) \<noteq> [])" if "0 \<le> m" for m
    using nat_digits_head [OF that refl] by auto
  ultimately show ?thesis
    using assms r digits_split [of n r] digits_split [of "- n" r]
    by (cases "n < 0") (auto simp: parse_number_def int_str_def Let_def digits_val_nat_digits)
qed

text \<open>The first character of a printed value decides the branch.\<close>

lemma int_str_head: "\<exists>c t. int_str n = c # t \<and> (is_digit c \<or> c = CHR ''-'')"
proof (cases "n < 0")
  case False
  then show ?thesis using nat_digits_head [of n] by (cases "nat_digits n") (auto simp: int_str_def)
qed (simp add: int_str_def)

lemma quote_mark_ne [simp]: "char_of (34::nat) \<noteq> CHR '']''" "char_of (34::nat) \<noteq> CHR ''}''"
  "char_of (34::nat) \<noteq> CHR ''{''" "char_of (34::nat) \<noteq> CHR ''[''"
  by code_simp+

lemma stringify_head: "textual v \<Longrightarrow>
    \<exists>c t. stringify v = c # t \<and> \<not> is_json_space c \<and> c \<noteq> CHR '']'' \<and> c \<noteq> CHR ''}''"
proof (cases v)
  case (JNum n)
  then show ?thesis using int_str_head [of n] by (auto simp: is_json_space_def is_digit_def code_in_def)
qed (auto simp: is_json_space_def quote_def)

lemma skip_space_head [simp]: "\<not> is_json_space c \<Longrightarrow> skip_space (c # s) = c # s"
  by (simp add: skip_space_def)

lemma skip_space_Nil [simp]: "skip_space [] = []"
  by (simp add: skip_space_def)

lemma json_punctuation [simp]: "\<not> is_json_space CHR '',''" "\<not> is_json_space CHR ''[''" "\<not> is_json_space CHR '']''"
  "\<not> is_json_space CHR ''{''" "\<not> is_json_space CHR ''}''" "\<not> is_json_space CHR '':''"
  "\<not> is_json_space (char_of (34::nat))" "\<not> is_json_space CHR ''t''" "\<not> is_json_space CHR ''f''" "\<not> is_json_space CHR ''n''"
  by (simp_all add: is_json_space_def)

fun items_fuel :: "nat list \<Rightarrow> nat" where
  "items_fuel [] = 0"
| "items_fuel (n # ns) = Suc (max n (items_fuel ns))"

fun fuel :: "json \<Rightarrow> nat" where
  "fuel (JArr xs) = Suc (items_fuel (map fuel xs))"
| "fuel (JObj fs) = Suc (items_fuel (map (\<lambda>p. fuel (snd p)) fs))"
| "fuel _ = 1"

definition reads_back :: "json_engine \<Rightarrow> json \<Rightarrow> bool" where
  "reads_back en v \<longleftrightarrow> (\<forall>m r. fuel v \<le> m \<longrightarrow> ends r \<longrightarrow> parse_value en m (stringify v @ r) = Some (v, r))"

lemma parse_items_join:
  assumes "\<forall>x \<in> set xs. reads_back en x" "xs \<noteq> []" "items_fuel (map fuel xs) \<le> m"
  shows "parse_items en m (join '','' (map stringify xs) @ CHR '']'' # r) = Some (xs, r)"
  using assms
proof (induction xs arbitrary: m)
  case (Cons x xs)
  then obtain n where m: "m = Suc n" "fuel x \<le> n" "items_fuel (map fuel xs) \<le> n" by (cases m) auto
  from Cons.prems have x: "ends s \<Longrightarrow> parse_value en n (stringify x @ s) = Some (x, s)" for s
    using m by (simp add: reads_back_def)
  show ?case
  proof (cases xs)
    case Nil
    with x m show ?thesis by simp
  next
    case (Cons y ys)
    with Cons.IH [of n] Cons.prems m have
      "parse_items en n (join '','' (map stringify xs) @ CHR '']'' # r) = Some (xs, r)" by simp
    with x m Cons show ?thesis by simp
  qed
qed simp

lemma parse_members_join:
  assumes "\<forall>p \<in> set fs. reads_back en (snd p)" "fs \<noteq> []" "items_fuel (map (\<lambda>p. fuel (snd p)) fs) \<le> m"
    "distinct (map fst (acc @ fs))"
  shows "parse_members en m acc
      (join '','' (map (\<lambda>p. quote (fst p) @ '':'' @ stringify (snd p)) fs) @ CHR ''}'' # r) = Some (acc @ fs, r)"
  using assms
proof (induction fs arbitrary: m acc)
  case (Cons p fs)
  obtain k v where p: "p = (k, v)" by (cases p)
  from Cons.prems p obtain n where m: "m = Suc n" "fuel v \<le> n" "items_fuel (map (\<lambda>p. fuel (snd p)) fs) \<le> n"
    by (cases m) auto
  from Cons.prems p have v: "ends s \<Longrightarrow> parse_value en n (stringify v @ s) = Some (v, s)" for s
    using m by (simp add: reads_back_def)
  from Cons.prems p have "oget acc k = None" by (auto simp: oget_keys okeys_def)
  then have acc: "oset k v acc = acc @ [(k, v)]" by (rule oset_fresh)
  have q: "of_char (char_of (34::nat) :: char) = (34 :: nat)" by simp
  show ?case
  proof (cases fs)
    case Nil
    with v m p acc show ?thesis by (simp add: quote_def parse_chars_quote)
  next
    case (Cons y ys)
    with Cons.IH [of n "acc @ [(k, v)]"] Cons.prems m p have
      "parse_members en n (acc @ [(k, v)])
        (join '','' (map (\<lambda>p. quote (fst p) @ '':'' @ stringify (snd p)) fs) @ CHR ''}'' # r) =
       Some ((acc @ [(k, v)]) @ fs, r)" by simp
    with v m p acc Cons show ?thesis by (simp add: quote_def parse_chars_quote)
  qed
qed simp

lemma join_head: "xs \<noteq> [] \<Longrightarrow> hd xs \<noteq> [] \<Longrightarrow> \<exists>t. join sep xs = hd (hd xs) # t"
  by (cases xs rule: remdups_adj.cases) (auto simp: neq_Nil_conv)

lemma reads_back_number: "isSafeInteger n \<Longrightarrow> reads_back en (JNum n)"
proof -
  assume n: "isSafeInteger n"
  obtain c t where c: "int_str n = c # t" "is_digit c \<or> c = CHR ''-''" using int_str_head by blast
  then have ne: "\<not> is_json_space c" "c \<noteq> CHR ''{''" "c \<noteq> CHR ''[''" "of_char c \<noteq> (34 :: nat)"
    "c \<noteq> CHR ''t''" "c \<noteq> CHR ''f''" "c \<noteq> CHR ''n''"
    by (auto simp: is_json_space_def is_digit_def code_in_def)
  have "parse_value en m (int_str n @ r) = Some (JNum n, r)" if "1 \<le> m" "ends r" for m r
  proof -
    from that obtain k where "m = Suc k" by (cases m) auto
    with ne c(1) parse_number_int [OF n that(2), of en] show ?thesis by simp
  qed
  then show ?thesis by (simp add: reads_back_def)
qed

lemma reads_back_simple:
  "reads_back en JNull" "reads_back en (JBool b)" "reads_back en (JStr t)"
proof -
  have *: "fuel v = 1 \<Longrightarrow> (\<And>k r. parse_value en (Suc k) (stringify v @ r) = Some (v, r)) \<Longrightarrow> reads_back en v" for v
    unfolding reads_back_def by (metis One_nat_def Suc_le_D)
  show "reads_back en JNull" by (rule *) (simp_all add: literal_def)
  show "reads_back en (JBool b)" by (rule *) (simp_all add: literal_def)
  show "reads_back en (JStr t)" by (rule *) (simp_all add: quote_def parse_chars_quote)
qed

lemma reads_back_array:
  assumes "\<forall>x \<in> set xs. reads_back en x" "list_all textual xs"
  shows "reads_back en (JArr xs)"
  unfolding reads_back_def
proof (intro allI impI)
  fix m r
  assume m: "fuel (JArr xs) \<le> m" and r: "ends r"
  then obtain k where k: "m = Suc k" "items_fuel (map fuel xs) \<le> k" by (cases m) auto
  show "parse_value en m (stringify (JArr xs) @ r) = Some (JArr xs, r)"
  proof (cases xs)
    case Nil
    with k show ?thesis by simp
  next
    case (Cons x ys)
    then obtain c t where c: "stringify x = c # t" "\<not> is_json_space c" "c \<noteq> CHR '']''"
      using assms(2) stringify_head [of x] by auto
    with Cons obtain u where "join '','' (map stringify xs) = c # u"
      using join_head [of "map stringify xs" "'',''"] by auto
    with k c parse_items_join [OF assms(1) _ k(2), of r] Cons show ?thesis by simp
  qed
qed

lemma reads_back_object:
  assumes "\<forall>p \<in> set fs. reads_back en (snd p)" "distinct (map fst fs)"
  shows "reads_back en (JObj fs)"
  unfolding reads_back_def
proof (intro allI impI)
  fix m r
  assume m: "fuel (JObj fs) \<le> m" and r: "ends r"
  then obtain k where k: "m = Suc k" "items_fuel (map (\<lambda>p. fuel (snd p)) fs) \<le> k" by (cases m) auto
  let ?j = "join '','' (map (\<lambda>p. quote (fst p) @ '':'' @ stringify (snd p)) fs)"
  show "parse_value en m (stringify (JObj fs) @ r) = Some (JObj fs, r)"
  proof (cases fs)
    case Nil
    with k show ?thesis by simp
  next
    case (Cons p gs)
    obtain u where u: "?j = char_of (34::nat) # u"
      using join_head [of "map (\<lambda>p. quote (fst p) @ '':'' @ stringify (snd p)) fs" "'',''"] Cons
      by (auto simp: quote_def)
    have "parse_members en k [] (?j @ CHR ''}'' # r) = Some (fs, r)"
      using parse_members_join [OF assms(1) _ k(2), of "[]" r] Cons assms(2) by simp
    with k u show ?thesis by simp
  qed
qed

lemma textual_reads_back: "textual v \<Longrightarrow> reads_back en v"
proof (induction v rule: stringify.induct)
  case (10 xs)
  then show ?case by (intro reads_back_array) (auto simp: list_all_iff)
next
  case (11 fs)
  then show ?case by (intro reads_back_object) (auto simp: list_all_iff)
qed (simp_all add: reads_back_number reads_back_simple)

lemma length_join: "xs \<noteq> [] \<Longrightarrow> length (join '','' xs) = sum_list (map length xs) + length xs - 1"
  by (induction "'',''" xs rule: join.induct) auto

lemma items_fuel_join:
  assumes "\<forall>x \<in> set xs. f x \<le> 2 * length (g x)" "xs \<noteq> []"
  shows "items_fuel (map f xs) \<le> 2 * length (join '','' (map g xs)) + 1"
  using assms
proof (induction xs)
  case (Cons x xs)
  then show ?case by (cases xs) auto
qed simp

lemma fuel_bound: "textual v \<Longrightarrow> fuel v \<le> 2 * length (stringify v)"
proof (induction v rule: stringify.induct)
  case (4 n)
  then show ?case using int_str_head [of n] by auto
next
  case (10 xs)
  then have "xs \<noteq> [] \<Longrightarrow> items_fuel (map fuel xs) \<le> 2 * length (join '','' (map stringify xs)) + 1"
    by (intro items_fuel_join) (auto simp: list_all_iff)
  then show ?case by (cases "xs = []") auto
next
  case (11 fs)
  let ?g = "\<lambda>p. quote (fst p) @ '':'' @ stringify (snd p)"
  from 11 have "fs \<noteq> [] \<Longrightarrow> items_fuel (map (\<lambda>p. fuel (snd p)) fs) \<le> 2 * length (join '','' (map ?g fs)) + 1"
    by (intro items_fuel_join) (fastforce simp: list_all_iff intro: trans_le_add2 le_SucI)+
  then show ?case by (cases "fs = []") auto
qed (auto simp: quote_def)

theorem json_parse_stringify:
  assumes "textual v"
  shows "json_parse en (stringify v) = Some v"
proof -
  have "parse_value en (2 * length (stringify v) + 1) (stringify v @ []) = Some (v, [])"
    using textual_reads_back [OF assms, of en] fuel_bound [OF assms] by (simp only: reads_back_def ends_simps)
  then have "parse_value en (2 * length (stringify v) + 1) (stringify v) = Some (v, [])"
    unfolding append_Nil2 .
  then show ?thesis unfolding json_parse_def by simp
qed

section \<open>The nesting bound\<close>

text \<open>More fuel never changes the outcome: every recursive call has used up a character.\<close>

definition decimals_shrink :: "json_engine \<Rightarrow> bool" where
  "decimals_shrink en \<longleftrightarrow> (\<forall>s v r. read_decimal en s = Some (v, r) \<longrightarrow> length r < length s)"

lemma skip_space_length: "length (skip_space s) \<le> length s"
  by (simp add: skip_space_def length_dropWhile_le)

lemma skip_space_Cons: "skip_space s = c # r \<Longrightarrow> length r < length s"
  using skip_space_length [of s] by simp

lemma put_front_Some_iff: "put_front p x = Some (t, r) \<longleftrightarrow> (\<exists>u. x = Some (u, r) \<and> t = p @ u)"
  by (auto simp: put_front_def)

lemma parse_chars_shrink: "parse_chars en s = Some (t, r) \<Longrightarrow> length r < length s"
proof (induction en s arbitrary: t rule: parse_chars.induct)
  case (2 en c s)
  then show ?case
    by (fastforce simp: put_front_Some_iff split: if_splits list.splits option.splits bool.splits)
qed simp

lemma literal_shrink: "literal w v s = Some (u, r) \<Longrightarrow> w \<noteq> [] \<Longrightarrow> s \<noteq> [] \<Longrightarrow> length r < length s"
  by (auto simp: literal_def split: if_splits)

lemma parse_number_shrink:
  assumes "decimals_shrink en" "parse_number en s = Some (v, r)"
  shows "length r < length s"
proof -
  define t where "t = (if s \<noteq> [] \<and> hd s = CHR ''-'' then tl s else s)"
  have l: "length (takeWhile is_digit t) + length (dropWhile is_digit t) = length t"
    by (metis length_append takeWhile_dropWhile_id)
  have s: "length t \<le> length s" by (simp add: t_def)
  from assms(2) have ne: "takeWhile is_digit t \<noteq> []"
    and "r = dropWhile is_digit t \<or> read_decimal en s = Some (v, r)"
    unfolding parse_number_def Let_def t_def [symmetric] by (simp_all split: if_splits)
  then consider "r = dropWhile is_digit t" | "read_decimal en s = Some (v, r)" by blast
  then show ?thesis
  proof cases
    case 1
    have "0 < length (takeWhile is_digit t)" using ne by blast
    with l s show ?thesis unfolding 1 by linarith
  next
    case 2
    with assms(1) show ?thesis by (simp add: decimals_shrink_def)
  qed
qed

lemma parse_shrink:
  "decimals_shrink en \<Longrightarrow> parse_value en n s = Some (v, r) \<Longrightarrow> length r < length s"
  "decimals_shrink en \<Longrightarrow> parse_items en n s = Some (xs, r) \<Longrightarrow> length r < length s"
  "decimals_shrink en \<Longrightarrow> parse_members en n acc s = Some (fs, r) \<Longrightarrow> length r < length s"
proof (induction en n s and en n s and en n acc s arbitrary: v r and xs r and fs r
    rule: parse_value_parse_items_parse_members.induct)
  case (2 en n s)
  then show ?case
    by (auto dest!: skip_space_Cons parse_chars_shrink literal_shrink parse_number_shrink
        split: list.splits if_splits) (metis dual_order.strict_trans less_SucI)+
next
  case (4 en n s)
  then show ?case
    by (fastforce dest!: skip_space_Cons split: option.splits list.splits if_splits)
next
  case (6 en n acc s)
  then show ?case
    by (fastforce dest!: skip_space_Cons parse_chars_shrink split: option.splits list.splits if_splits)
qed simp_all

lemma Suc_le_obtain:
  assumes "Suc n \<le> m"
  obtains k where "m = Suc k" "n \<le> k"
  using assms by (cases m) auto

lemma parse_enough:
  "decimals_shrink en \<Longrightarrow> 2 * length s + 1 \<le> n \<Longrightarrow> n \<le> m \<Longrightarrow> parse_value en m s = parse_value en n s"
  "decimals_shrink en \<Longrightarrow> 2 * length s + 2 \<le> n \<Longrightarrow> n \<le> m \<Longrightarrow> parse_items en m s = parse_items en n s"
  "decimals_shrink en \<Longrightarrow> 2 * length s + 2 \<le> n \<Longrightarrow> n \<le> m \<Longrightarrow> parse_members en m acc s = parse_members en n acc s"
proof (induction en n s and en n s and en n acc s arbitrary: m and m and m
    rule: parse_value_parse_items_parse_members.induct)
  case (2 en n s)
  obtain k where m: "m = Suc k" "n \<le> k" by (rule Suc_le_obtain [OF "2.prems"(3)])
  show ?case
  proof (cases "skip_space s")
    case (Cons c r)
    have r: "2 * length r + 2 \<le> n" using skip_space_Cons [OF Cons] "2.prems"(2) by linarith
    show ?thesis
    proof (cases "skip_space r")
      case Nil
      then show ?thesis unfolding m(1) by (simp add: Cons)
    next
      case (Cons d r')
      note c = \<open>skip_space s = c # r\<close>
      have "parse_members en k [] r = parse_members en n [] r" if "c = CHR ''{''" "d \<noteq> CHR ''}''"
        by (rule "2.IH"(1) [OF c that(1) Cons that(2) "2.prems"(1) r m(2)])
      moreover have "parse_items en k r = parse_items en n r" if "c \<noteq> CHR ''{''" "c = CHR ''[''" "d \<noteq> CHR '']''"
        by (rule "2.IH"(2) [OF c that(1,2) Cons that(3) "2.prems"(1) r m(2)])
      ultimately show ?thesis unfolding m(1) by (simp add: c Cons)
    qed
  qed (simp add: m(1))
next
  case (4 en n s)
  obtain k where m: "m = Suc k" "n \<le> k" by (rule Suc_le_obtain [OF "4.prems"(3)])
  have v: "parse_value en k s = parse_value en n s"
    by (rule "4.IH"(1) [OF "4.prems"(1) _ m(2)]) (use "4.prems"(2) in linarith)
  show ?case
  proof (cases "parse_value en n s")
    case (Some p)
    obtain u r where p: "p = (u, r)" by (cases p)
    show ?thesis
    proof (cases "skip_space r")
      case Nil
      then show ?thesis unfolding m(1) by (simp add: v Some p)
    next
      case (Cons c r')
      have "length r < length s" by (rule parse_shrink(1) [OF "4.prems"(1) Some [unfolded p]])
      moreover have "length r' < length r" using skip_space_Cons [OF Cons] .
      ultimately have l: "2 * length r' + 2 \<le> n" using "4.prems"(2) by linarith
      have "parse_items en k r' = parse_items en n r'" if "c = CHR '',''"
        by (rule "4.IH"(2) [OF Some p [symmetric] Cons that "4.prems"(1) l m(2)])
      then show ?thesis unfolding m(1) by (simp add: v Some p Cons)
    qed
  qed (simp add: m(1) v)
next
  case (6 en n acc s)
  obtain k where m: "m = Suc k" "n \<le> k" by (rule Suc_le_obtain [OF "6.prems"(3)])
  show ?case
  proof (cases "skip_space s")
    case (Cons q r)
    have rs: "length r < length s" by (rule skip_space_Cons [OF Cons])
    show ?thesis
    proof (cases "of_char q = (34 :: nat) \<and> parse_chars en r \<noteq> None")
      case True
      then obtain key r1 where key: "parse_chars en r = Some (key, r1)" and q: "\<not> of_char q \<noteq> (34 :: nat)" by auto
      have r1: "length r1 < length r" by (rule parse_chars_shrink [OF key])
      show ?thesis
      proof (cases "skip_space r1")
        case (Cons c r2)
        note c = this and s = \<open>skip_space s = q # r\<close>
        have r2: "length r2 < length r1" by (rule skip_space_Cons [OF c])
        have v: "parse_value en k r2 = parse_value en n r2" if "\<not> c \<noteq> CHR '':''"
          by (rule "6.IH"(1) [OF s q key refl c that "6.prems"(1) _ m(2)]) (use rs r1 r2 "6.prems"(2) in linarith)
        show ?thesis
        proof (cases "c = CHR '':'' \<and> parse_value en n r2 \<noteq> None")
          case True
          then obtain u r3 where u: "parse_value en n r2 = Some (u, r3)" and col: "\<not> c \<noteq> CHR '':''" by auto
          have r3: "length r3 < length r2" by (rule parse_shrink(1) [OF "6.prems"(1) u])
          show ?thesis
          proof (cases "skip_space r3")
            case (Cons d r4)
            have r4: "length r4 < length r3" by (rule skip_space_Cons [OF Cons])
            have "parse_members en k (oset key u acc) r4 = parse_members en n (oset key u acc) r4" if "d = CHR '',''"
              by (rule "6.IH"(2) [OF s q key refl c col u refl Cons that "6.prems"(1) _ m(2)])
                (use rs r1 r2 r3 r4 "6.prems"(2) in linarith)
            then show ?thesis unfolding m(1) using v [OF col] by (simp add: s q key c col u Cons)
          qed (use v [OF col] in \<open>simp add: m(1) s q key c col u\<close>)
        qed (use v in \<open>cases "parse_value en n r2"; auto simp: m(1) s q key c\<close>)
      qed (simp add: m(1) \<open>skip_space s = q # r\<close> key)
    next
      case False
      then show ?thesis unfolding m(1) by (cases "parse_chars en r") (auto simp: Cons)
    qed
  qed (simp add: m(1))
qed simp_all

lemma json_parse_bound:
  "decimals_shrink en \<Longrightarrow> 2 * length s + 1 \<le> n \<Longrightarrow>
    json_parse en s = (case parse_value en n s of Some (v, r) \<Rightarrow> if skip_space r = [] then Some v else None | None \<Rightarrow> None)"
  using parse_enough(1) [of en s "2 * length s + 1" n] by (simp add: json_parse_def)

end
