(* ===== verification/SdkNonce.thy ===== *)
theory SdkNonce
  imports JsNumber "HOL-Library.Word"
begin

text \<open>
  \<open>sdk/src/nonce.ts\<close>: channel selection and the nonce engine. A call of \<open>nextNonce\<close> runs in
  pieces, one per \<open>await\<close>, and the pieces of several calls interleave: a call is a record of
  its key, the promise it waits for and how far it is; the engine is the list of its calls
  with the cache and the lock table. The cache adapter is an interface (locale
  \<open>nonce_cache\<close>), of which the in-memory adapter is the instance.
\<close>

section \<open>Channel selection\<close>

text \<open>\<open>| 0\<close> and \<open><<\<close> are the 32-bit operations; a task type is its list of UTF-16 code units.\<close>

definition hash_step :: "32 word \<Rightarrow> 16 word \<Rightarrow> 32 word" where
  "hash_step hash c = word_of_int (sint (push_bit 5 hash) + sint hash + uint c)"

definition selectChannel :: "16 word list \<Rightarrow> int" where
  "selectChannel taskType = \<bar>sint (foldl hash_step 5381 taskType)\<bar> mod 256"

text \<open>The textbook hash: multiply by 33 and add.\<close>

fun djb2 :: "32 word \<Rightarrow> 16 word list \<Rightarrow> 32 word" where
  "djb2 h [] = h"
| "djb2 h (c # cs) = djb2 (33 * h + ucast c) cs"

lemma hash_step_djb2: "hash_step h c = 33 * h + ucast c"
proof -
  have "hash_step h c = push_bit 5 h + h + ucast c"
    by (simp add: hash_step_def)
  also have "push_bit 5 h = 32 * h"
    by (simp add: push_bit_eq_mult mult.commute)
  finally show ?thesis by (simp add: algebra_simps)
qed

lemma foldl_djb2: "foldl hash_step h cs = djb2 h cs"
  by (induction cs arbitrary: h) (simp_all add: hash_step_djb2)

section \<open>The cache adapter\<close>

type_synonym memory_nonces = "int obj"

definition memory_get :: "memory_nonces \<Rightarrow> string \<Rightarrow> int option" where
  "memory_get s key = oget s key"

definition memory_set :: "string \<Rightarrow> int \<Rightarrow> memory_nonces \<Rightarrow> memory_nonces" where
  "memory_set key v s = oset key v s"

definition memory_delete :: "string \<Rightarrow> memory_nonces \<Rightarrow> memory_nonces" where
  "memory_delete key s = AList.delete key s"

section \<open>The engine\<close>

datatype nonce_phase = Awaiting | Getting | Setting int | Returned int | Thrown

record nonce_call =
  nc_key :: string
  nc_prev :: "nat option"
  nc_phase :: nonce_phase
  nc_settled :: bool

record 's nonce_engine =
  ne_cache :: 's
  ne_locks :: "string \<rightharpoonup> nat"
  ne_calls :: "nonce_call list"

definition new_engine :: "'s \<Rightarrow> 's nonce_engine" where
  "new_engine adapter = \<lparr>ne_cache = adapter, ne_locks = Map.empty, ne_calls = []\<rparr>"

definition cacheKey :: "string \<Rightarrow> int \<Rightarrow> string" where
  "cacheKey account channel = ''nonce:'' @ lower account @ '':'' @ int_str channel"

text \<open>The promise \<open>next\<close> of the \<open>i\<close>-th call is named \<open>i\<close>; \<open>None\<close> is \<open>Promise.resolve()\<close>.\<close>

definition settled_promise :: "'s nonce_engine \<Rightarrow> nat option \<Rightarrow> bool" where
  "settled_promise e p = (case p of None \<Rightarrow> True | Some j \<Rightarrow> nc_settled (ne_calls e ! j))"

definition finished :: "nonce_call \<Rightarrow> bool" where
  "finished c = (case nc_phase c of Returned _ \<Rightarrow> True | Thrown \<Rightarrow> True | _ \<Rightarrow> False)"

definition update_call :: "nat \<Rightarrow> (nonce_call \<Rightarrow> nonce_call) \<Rightarrow> 's nonce_engine \<Rightarrow> 's nonce_engine" where
  "update_call i f e = e\<lparr>ne_calls := (ne_calls e)[i := f (ne_calls e ! i)]\<rparr>"

definition set_phase :: "nat \<Rightarrow> nonce_phase \<Rightarrow> 's nonce_engine \<Rightarrow> 's nonce_engine" where
  "set_phase i ph = update_call i (nc_phase_update (\<lambda>_. ph))"

text \<open>\<open>nextNonce\<close> up to its first \<open>await\<close>: the key's tail of the queue is replaced.\<close>

definition nextNonce :: "string \<Rightarrow> int \<Rightarrow> 's nonce_engine \<Rightarrow> 's nonce_engine" where
  "nextNonce account channel e =
     (let key = cacheKey account channel; next = length (ne_calls e) in
      e\<lparr>ne_locks := (ne_locks e)(key \<mapsto> next),
        ne_calls := ne_calls e @
          [\<lparr>nc_key = key, nc_prev = ne_locks e key, nc_phase = Awaiting, nc_settled = False\<rparr>]\<rparr>)"

text \<open>\<open>await previous\<close> returns once the promise it names is settled.\<close>

definition enter :: "nat \<Rightarrow> 's nonce_engine \<Rightarrow> 's nonce_engine option" where
  "enter i e =
     (let c = ne_calls e ! i in
      if nc_phase c = Awaiting \<and> settled_promise e (nc_prev c) then Some (set_phase i Getting e) else None)"

text \<open>The \<open>finally\<close> block, with the value or the exception the call ends with.\<close>

definition leave :: "nat \<Rightarrow> nonce_phase \<Rightarrow> 's nonce_engine \<Rightarrow> 's nonce_engine" where
  "leave i outcome e =
     (let key = nc_key (ne_calls e ! i); e' = set_phase i outcome e in
      if ne_locks e' key = Some i then e'\<lparr>ne_locks := (ne_locks e')(key := None)\<rparr> else e')"

definition read_nonce ::
    "('s \<Rightarrow> string \<Rightarrow> int option) \<Rightarrow> nat \<Rightarrow> 's nonce_engine \<Rightarrow> 's nonce_engine option" where
  "read_nonce get i e =
     (let c = ne_calls e ! i in
      case nc_phase c of
        Getting \<Rightarrow> Some (set_phase i
          (Setting (case get (ne_cache e) (nc_key c) of None \<Rightarrow> 0 | Some v \<Rightarrow> v)) e)
      | _ \<Rightarrow> None)"

definition write_nonce ::
    "(string \<Rightarrow> int \<Rightarrow> 's \<Rightarrow> 's) \<Rightarrow> nat \<Rightarrow> 's nonce_engine \<Rightarrow> 's nonce_engine option" where
  "write_nonce put i e =
     (let c = ne_calls e ! i in
      case nc_phase c of
        Setting current \<Rightarrow>
          Some (leave i (Returned current) (e\<lparr>ne_cache := put (nc_key c) (dbl (current + 1)) (ne_cache e)\<rparr>))
      | _ \<Rightarrow> None)"

text \<open>The adapter rejects: a read, a write that was lost, a write that took effect.\<close>

definition adapter_rejects ::
    "(string \<Rightarrow> int \<Rightarrow> 's \<Rightarrow> 's) \<Rightarrow> bool \<Rightarrow> nat \<Rightarrow> 's nonce_engine \<Rightarrow> 's nonce_engine option" where
  "adapter_rejects put effect i e =
     (let c = ne_calls e ! i in
      case nc_phase c of
        Getting \<Rightarrow> Some (leave i Thrown e)
      | Setting current \<Rightarrow>
          Some (leave i Thrown
            (if effect then e\<lparr>ne_cache := put (nc_key c) (dbl (current + 1)) (ne_cache e)\<rparr> else e))
      | _ \<Rightarrow> None)"

text \<open>\<open>previous.then(() => current)\<close> settles once both have.\<close>

definition settle_next :: "nat \<Rightarrow> 's nonce_engine \<Rightarrow> 's nonce_engine option" where
  "settle_next i e =
     (let c = ne_calls e ! i in
      if finished c \<and> settled_promise e (nc_prev c) \<and> \<not> nc_settled c
      then Some (update_call i (nc_settled_update (\<lambda>_. True)) e) else None)"

definition currentNonce ::
    "('s \<Rightarrow> string \<Rightarrow> int option) \<Rightarrow> string \<Rightarrow> int \<Rightarrow> 's nonce_engine \<Rightarrow> int" where
  "currentNonce get account channel e =
     (case get (ne_cache e) (cacheKey account channel) of None \<Rightarrow> 0 | Some v \<Rightarrow> v)"

section \<open>Steps\<close>

text \<open>\<open>nonce_work\<close>: the event loop continues some call. \<open>nonce_step\<close>: that, or a new call.\<close>

inductive nonce_work ::
    "('s \<Rightarrow> string \<Rightarrow> int option) \<Rightarrow> (string \<Rightarrow> int \<Rightarrow> 's \<Rightarrow> 's) \<Rightarrow>
     's nonce_engine \<Rightarrow> 's nonce_engine \<Rightarrow> bool"
  for get put where
  enters: "i < length (ne_calls e) \<Longrightarrow> enter i e = Some e' \<Longrightarrow> nonce_work get put e e'"
| reads: "i < length (ne_calls e) \<Longrightarrow> read_nonce get i e = Some e' \<Longrightarrow> nonce_work get put e e'"
| writes: "i < length (ne_calls e) \<Longrightarrow> write_nonce put i e = Some e' \<Longrightarrow> nonce_work get put e e'"
| rejects: "i < length (ne_calls e) \<Longrightarrow> adapter_rejects put effect i e = Some e' \<Longrightarrow>
     nonce_work get put e e'"
| settles: "i < length (ne_calls e) \<Longrightarrow> settle_next i e = Some e' \<Longrightarrow> nonce_work get put e e'"

inductive nonce_reachable ::
    "('s \<Rightarrow> string \<Rightarrow> int option) \<Rightarrow> (string \<Rightarrow> int \<Rightarrow> 's \<Rightarrow> 's) \<Rightarrow> 's \<Rightarrow> 's nonce_engine \<Rightarrow> bool"
  for get put adapter where
  start: "nonce_reachable get put adapter (new_engine adapter)"
| call: "nonce_reachable get put adapter e \<Longrightarrow>
     nonce_reachable get put adapter (nextNonce account channel e)"
| work: "nonce_reachable get put adapter e \<Longrightarrow> nonce_work get put e e' \<Longrightarrow>
     nonce_reachable get put adapter e'"

inductive_cases nonce_workE: "nonce_work get put e e'"

section \<open>The queue of a key\<close>

text \<open>All earlier calls of the same key are over.\<close>

definition clear_at :: "nonce_call list \<Rightarrow> nat \<Rightarrow> bool" where
  "clear_at cs i \<longleftrightarrow> (\<forall>j<i. nc_key (cs ! j) = nc_key (cs ! i) \<longrightarrow> finished (cs ! j))"

text \<open>\<open>n\<close> is the last call of the key \<open>k\<close> before \<open>m\<close>; \<open>None\<close>: all of them are over.\<close>

definition tail_at :: "nonce_call list \<Rightarrow> string \<Rightarrow> nat \<Rightarrow> nat option \<Rightarrow> bool" where
  "tail_at cs k m q \<longleftrightarrow>
     (case q of
        None \<Rightarrow> \<forall>j<m. nc_key (cs ! j) = k \<longrightarrow> finished (cs ! j)
      | Some n \<Rightarrow> n < m \<and> nc_key (cs ! n) = k \<and> (\<forall>j<m. n < j \<longrightarrow> nc_key (cs ! j) \<noteq> k))"

definition call_ok :: "nonce_call list \<Rightarrow> nat \<Rightarrow> bool" where
  "call_ok cs i \<longleftrightarrow>
     tail_at cs (nc_key (cs ! i)) i (nc_prev (cs ! i)) \<and>
     (nc_settled (cs ! i) \<longrightarrow> finished (cs ! i) \<and> clear_at cs i) \<and>
     (nc_phase (cs ! i) \<noteq> Awaiting \<longrightarrow> clear_at cs i)"

definition queue_ok :: "'s nonce_engine \<Rightarrow> bool" where
  "queue_ok e \<longleftrightarrow>
     (\<forall>k. tail_at (ne_calls e) k (length (ne_calls e)) (ne_locks e k)) \<and>
     (\<forall>k n. ne_locks e k = Some n \<longrightarrow> \<not> finished (ne_calls e ! n)) \<and>
     (\<forall>i<length (ne_calls e). call_ok (ne_calls e) i)"

text \<open>A continued call keeps its key and its promise, and a call that is over stays over.\<close>

definition calls_later :: "nonce_call list \<Rightarrow> nonce_call list \<Rightarrow> bool" where
  "calls_later cs cs' \<longleftrightarrow> length cs' = length cs \<and>
     (\<forall>i<length cs. nc_key (cs' ! i) = nc_key (cs ! i) \<and> nc_prev (cs' ! i) = nc_prev (cs ! i) \<and>
        (finished (cs ! i) \<longrightarrow> finished (cs' ! i)))"

lemma tail_at_later: "calls_later cs cs' \<Longrightarrow> m \<le> length cs \<Longrightarrow> tail_at cs k m q \<Longrightarrow> tail_at cs' k m q"
  by (cases q) (auto simp: tail_at_def calls_later_def)

lemma clear_at_later: "calls_later cs cs' \<Longrightarrow> i < length cs \<Longrightarrow> clear_at cs i \<Longrightarrow> clear_at cs' i"
  by (auto simp: clear_at_def calls_later_def)

lemma clear_at_tail:
  assumes "queue_ok e" "i < length (ne_calls e)" "settled_promise e (nc_prev (ne_calls e ! i))"
  shows "clear_at (ne_calls e) i"
proof (cases "nc_prev (ne_calls e ! i)")
  case None
  with assms show ?thesis by (auto simp: queue_ok_def call_ok_def tail_at_def clear_at_def)
next
  case (Some n)
  let ?cs = "ne_calls e"
  from assms Some have n: "n < i" "nc_key (?cs ! n) = nc_key (?cs ! i)"
    "\<And>j. j < i \<Longrightarrow> n < j \<Longrightarrow> nc_key (?cs ! j) \<noteq> nc_key (?cs ! i)"
    by (auto simp: queue_ok_def call_ok_def tail_at_def)
  from assms Some n(1) have "nc_settled (?cs ! n)" "call_ok ?cs n"
    by (auto simp: settled_promise_def queue_ok_def)
  then have "finished (?cs ! n)" "clear_at ?cs n" by (auto simp: call_ok_def)
  with n show ?thesis
    unfolding clear_at_def by (metis linorder_neqE_nat)
qed

lemma queue_ok_new: "queue_ok (new_engine s)"
  by (simp add: queue_ok_def new_engine_def tail_at_def)

lemma tail_at_append: "m \<le> length cs \<Longrightarrow> tail_at (cs @ ds) k m q = tail_at cs k m q"
  by (cases q) (auto simp: tail_at_def nth_append)

lemma clear_at_append: "i < length cs \<Longrightarrow> clear_at (cs @ ds) i = clear_at cs i"
  by (auto simp: clear_at_def nth_append)

lemma queue_ok_nextNonce:
  assumes "queue_ok e"
  shows "queue_ok (nextNonce account channel e)"
proof -
  let ?cs = "ne_calls e" and ?k = "cacheKey account channel"
  let ?c = "\<lparr>nc_key = ?k, nc_prev = ne_locks e ?k, nc_phase = Awaiting, nc_settled = False\<rparr>"
  have t: "tail_at ?cs k (length ?cs) (ne_locks e k)" for k
    using assms by (simp add: queue_ok_def)
  have nf: "n < length ?cs \<and> \<not> finished (?cs ! n)" if "ne_locks e k = Some n" for k n
    using assms t [of k] that by (auto simp: queue_ok_def tail_at_def)
  have "tail_at (?cs @ [?c]) k (Suc (length ?cs)) (if k = ?k then Some (length ?cs) else ne_locks e k)" for k
    using t [of k]
    by (cases "ne_locks e k") (auto simp: tail_at_def nth_append less_Suc_eq)
  moreover have "call_ok (?cs @ [?c]) i" if "i < Suc (length ?cs)" for i
  proof (cases "i = length ?cs")
    case True
    with t [of ?k] show ?thesis by (simp add: call_ok_def tail_at_append)
  next
    case False
    with that assms have "i < length ?cs" "call_ok ?cs i" by (auto simp: queue_ok_def)
    then show ?thesis by (simp add: call_ok_def nth_append tail_at_append clear_at_append)
  qed
  moreover have "\<not> finished ((?cs @ [?c]) ! n)"
    if "(if k = ?k then Some (length ?cs) else ne_locks e k) = Some n" for k n
    using that nf [of k n] by (auto simp: nth_append finished_def split: if_splits)
  ultimately show ?thesis
    by (auto simp: queue_ok_def nextNonce_def Let_def)
qed

lemma later_set:
  "i < length cs \<Longrightarrow> nc_key c = nc_key (cs ! i) \<Longrightarrow> nc_prev c = nc_prev (cs ! i) \<Longrightarrow>
    (finished (cs ! i) \<longrightarrow> finished c) \<Longrightarrow> calls_later cs (cs[i := c])"
  by (auto simp: calls_later_def nth_list_update)

text \<open>One call call_moves on; the lock table may drop the keys whose calls are all over.\<close>

lemma queue_ok_move:
  assumes ok: "queue_ok e" and i: "i < length (ne_calls e)"
    and e': "ne_calls e' = (ne_calls e)[i := c]"
    and c: "nc_key c = nc_key (ne_calls e ! i)" "nc_prev c = nc_prev (ne_calls e ! i)"
      "finished (ne_calls e ! i) \<longrightarrow> finished c" "nc_settled c \<longrightarrow> finished c"
    and cl: "clear_at (ne_calls e) i"
    and locks: "\<And>k. ne_locks e' k = (if ne_locks e k = Some i \<and> finished c then None else ne_locks e k)"
  shows "queue_ok e'"
proof -
  let ?cs = "ne_calls e" and ?cs' = "ne_calls e'"
  have l: "calls_later ?cs ?cs'" using i c by (simp add: e' later_set)
  have "call_ok ?cs' j" if "j < length ?cs" for j
  proof (cases "j = i")
    case True
    from ok i have "tail_at ?cs (nc_key (?cs ! i)) i (nc_prev (?cs ! i))"
      by (simp add: queue_ok_def call_ok_def)
    then have "tail_at ?cs' (nc_key c) i (nc_prev c)"
      using l i c by (simp add: tail_at_later)
    moreover have "clear_at ?cs' i" using l i cl by (rule clear_at_later)
    ultimately show ?thesis using True i c by (simp add: call_ok_def e')
  next
    case False
    with that ok have "call_ok ?cs j" by (simp add: queue_ok_def)
    with l that have "tail_at ?cs' (nc_key (?cs ! j)) j (nc_prev (?cs ! j))"
      "nc_settled (?cs ! j) \<longrightarrow> finished (?cs ! j) \<and> clear_at ?cs' j"
      "nc_phase (?cs ! j) \<noteq> Awaiting \<longrightarrow> clear_at ?cs' j"
      by (auto simp: call_ok_def tail_at_later clear_at_later)
    with False show ?thesis by (simp add: call_ok_def e')
  qed
  moreover have "tail_at ?cs' k (length ?cs') (ne_locks e' k)" for k
  proof -
    from ok have t: "tail_at ?cs k (length ?cs) (ne_locks e k)" by (simp add: queue_ok_def)
    with l have t': "tail_at ?cs' k (length ?cs) (ne_locks e k)" by (simp add: tail_at_later)
    show ?thesis
    proof (cases "ne_locks e k = Some i \<and> finished c")
      case False
      with locks [of k] have "ne_locks e' k = ne_locks e k" by simp
      with t' show ?thesis by (simp add: e')
    next
      case a: True
      with t have k: "nc_key (?cs ! i) = k" "\<And>j. j < length ?cs \<Longrightarrow> i < j \<Longrightarrow> nc_key (?cs ! j) \<noteq> k"
        by (auto simp: tail_at_def)
      have "finished (?cs' ! j)" if "j < length ?cs" "nc_key (?cs' ! j) = k" for j
        using that a k cl i by (cases j i rule: linorder_cases) (auto simp: e' clear_at_def)
      with a locks show ?thesis by (simp add: tail_at_def e')
    qed
  qed
  moreover have "\<not> finished (?cs' ! n)" if "ne_locks e' k = Some n" for k n
    using that ok locks [of k] i by (cases "n = i") (auto simp: queue_ok_def e' split: if_splits)
  ultimately show ?thesis by (simp add: queue_ok_def e')
qed

text \<open>What a continued call does: its new record and its effect on the cache.\<close>

definition moved ::
    "('s \<Rightarrow> string \<Rightarrow> int option) \<Rightarrow> (string \<Rightarrow> int \<Rightarrow> 's \<Rightarrow> 's) \<Rightarrow>
     's nonce_engine \<Rightarrow> 's nonce_engine \<Rightarrow> nonce_call \<Rightarrow> nonce_call \<Rightarrow> bool" where
  "moved get put e e' b c \<longleftrightarrow>
     ne_cache e' = ne_cache e \<and>
       (nc_phase c = nc_phase b \<and> \<not> nc_settled b \<and> nc_settled c \<or>
        nc_settled c = nc_settled b \<and>
          (nc_phase b = Awaiting \<and> nc_phase c = Getting \<or>
           nc_phase b = Getting \<and>
             nc_phase c = Setting (case get (ne_cache e) (nc_key b) of None \<Rightarrow> 0 | Some v \<Rightarrow> v) \<or>
           (nc_phase b = Getting \<or> (\<exists>v. nc_phase b = Setting v)) \<and> nc_phase c = Thrown)) \<or>
     (\<exists>v. nc_settled c = nc_settled b \<and> nc_phase b = Setting v \<and>
        (nc_phase c = Returned v \<or> nc_phase c = Thrown) \<and>
        ne_cache e' = put (nc_key b) (dbl (v + 1)) (ne_cache e))"

definition call_moves ::
    "('s \<Rightarrow> string \<Rightarrow> int option) \<Rightarrow> (string \<Rightarrow> int \<Rightarrow> 's \<Rightarrow> 's) \<Rightarrow>
     's nonce_engine \<Rightarrow> 's nonce_engine \<Rightarrow> nat \<Rightarrow> nonce_call \<Rightarrow> bool" where
  "call_moves get put e e' i c \<longleftrightarrow>
     i < length (ne_calls e) \<and> ne_calls e' = (ne_calls e)[i := c] \<and>
     nc_key c = nc_key (ne_calls e ! i) \<and> nc_prev c = nc_prev (ne_calls e ! i) \<and>
     (finished (ne_calls e ! i) \<longrightarrow> finished c) \<and> (nc_settled c \<longrightarrow> finished c) \<and>
     clear_at (ne_calls e) i \<and>
     (\<forall>k. ne_locks e' k = (if ne_locks e k = Some i \<and> finished c then None else ne_locks e k)) \<and>
     moved get put e e' (ne_calls e ! i) c"

lemma leave_simps [simp]:
  "ne_cache (leave i ph e) = ne_cache e"
  "ne_calls (leave i ph e) = (ne_calls e)[i := (ne_calls e ! i)\<lparr>nc_phase := ph\<rparr>]"
  "ne_locks (leave i ph e) k =
     (if ne_locks e k = Some i \<and> k = nc_key (ne_calls e ! i) then None else ne_locks e k)"
  by (auto simp: leave_def set_phase_def update_call_def Let_def)

lemma set_phase_simps [simp]:
  "ne_cache (set_phase i ph e) = ne_cache e"
  "ne_calls (set_phase i ph e) = (ne_calls e)[i := (ne_calls e ! i)\<lparr>nc_phase := ph\<rparr>]"
  "ne_locks (set_phase i ph e) = ne_locks e"
  by (auto simp: set_phase_def update_call_def)

lemma finished_simps [simp]:
  "\<not> finished (c\<lparr>nc_phase := Awaiting\<rparr>)" "\<not> finished (c\<lparr>nc_phase := Getting\<rparr>)"
  "\<not> finished (c\<lparr>nc_phase := Setting v\<rparr>)" "finished (c\<lparr>nc_phase := Returned v\<rparr>)"
  "finished (c\<lparr>nc_phase := Thrown\<rparr>)" "finished (c\<lparr>nc_settled := b\<rparr>) = finished c"
  by (simp_all add: finished_def)

lemma lock_key: "queue_ok e \<Longrightarrow> ne_locks e k = Some i \<Longrightarrow>
    i < length (ne_calls e) \<and> nc_key (ne_calls e ! i) = k \<and> \<not> finished (ne_calls e ! i)"
  unfolding queue_ok_def by (elim conjE, drule spec [of _ k], drule spec [of _ k]) (simp add: tail_at_def)

lemma busy_facts:
  assumes "queue_ok e" "i < length (ne_calls e)" "nc_phase (ne_calls e ! i) \<noteq> Awaiting"
    "\<not> finished (ne_calls e ! i)"
  shows "clear_at (ne_calls e) i" "\<not> nc_settled (ne_calls e ! i)"
  using assms by (auto simp: queue_ok_def call_ok_def)

lemma nonce_work_moves:
  assumes ok: "queue_ok e" and w: "nonce_work get put e e'"
  shows "\<exists>i c. call_moves get put e e' i c"
  using w
proof (cases rule: nonce_work.cases)
  case (enters i)
  then have b: "nc_phase (ne_calls e ! i) = Awaiting" and p: "settled_promise e (nc_prev (ne_calls e ! i))"
    and e': "e' = set_phase i Getting e"
    by (auto simp: enter_def Let_def split: if_splits)
  from b have nf: "\<not> finished (ne_calls e ! i)" by (simp add: finished_def)
  with ok enters(1) have "\<not> nc_settled (ne_calls e ! i)" by (auto simp: queue_ok_def call_ok_def)
  with nf b clear_at_tail [OF ok enters(1) p] have
    "call_moves get put e e' i ((ne_calls e ! i)\<lparr>nc_phase := Getting\<rparr>)"
    using enters(1) by (simp add: call_moves_def moved_def e')
  then show ?thesis by blast
next
  case (reads i)
  then have b: "nc_phase (ne_calls e ! i) = Getting"
    and e': "e' = set_phase i (Setting
      (case get (ne_cache e) (nc_key (ne_calls e ! i)) of None \<Rightarrow> 0 | Some v \<Rightarrow> v)) e"
    by (auto simp: read_nonce_def Let_def split: nonce_phase.splits)
  from b have "\<not> finished (ne_calls e ! i)" by (simp add: finished_def)
  with b busy_facts [OF ok reads(1)] have "call_moves get put e e' i ((ne_calls e ! i)\<lparr>nc_phase := Setting
      (case get (ne_cache e) (nc_key (ne_calls e ! i)) of None \<Rightarrow> 0 | Some v \<Rightarrow> v)\<rparr>)"
    using reads(1) by (simp add: call_moves_def moved_def e')
  then show ?thesis by blast
next
  case (writes i)
  then obtain v where b: "nc_phase (ne_calls e ! i) = Setting v"
    and e': "e' = leave i (Returned v) (e\<lparr>ne_cache := put (nc_key (ne_calls e ! i)) (dbl (v + 1)) (ne_cache e)\<rparr>)"
    by (auto simp: write_nonce_def Let_def split: nonce_phase.splits)
  from b have "\<not> finished (ne_calls e ! i)" by (simp add: finished_def)
  with b busy_facts [OF ok writes(1)] have "call_moves get put e e' i ((ne_calls e ! i)\<lparr>nc_phase := Returned v\<rparr>)"
    using writes(1) lock_key [OF ok] by (auto simp: call_moves_def moved_def e')
  then show ?thesis by blast
next
  case (rejects i effect)
  let ?b = "ne_calls e ! i"
  from rejects have b: "nc_phase ?b = Getting \<or> (\<exists>v. nc_phase ?b = Setting v)"
    and e': "e' = leave i Thrown e \<or> (\<exists>v. nc_phase ?b = Setting v \<and>
      e' = leave i Thrown (e\<lparr>ne_cache := put (nc_key ?b) (dbl (v + 1)) (ne_cache e)\<rparr>))"
    by (auto simp: adapter_rejects_def Let_def split: nonce_phase.splits if_splits)
  from b have "\<not> finished ?b" "nc_phase ?b \<noteq> Awaiting" by (auto simp: finished_def)
  with b e' busy_facts [OF ok rejects(1)] have "call_moves get put e e' i (?b\<lparr>nc_phase := Thrown\<rparr>)"
    using rejects(1) lock_key [OF ok] by (auto simp: call_moves_def moved_def)
  then show ?thesis by blast
next
  case (settles i)
  then have f: "finished (ne_calls e ! i)" and p: "settled_promise e (nc_prev (ne_calls e ! i))"
    and ns: "\<not> nc_settled (ne_calls e ! i)"
    and e': "e' = update_call i (nc_settled_update (\<lambda>_. True)) e"
    by (auto simp: settle_next_def Let_def split: if_splits)
  have "ne_locks e k \<noteq> Some i" for k using lock_key [OF ok] f by blast
  with f ns clear_at_tail [OF ok settles(1) p] have
    "call_moves get put e e' i ((ne_calls e ! i)\<lparr>nc_settled := True\<rparr>)"
    using settles(1) by (simp add: call_moves_def moved_def e' update_call_def)
  then show ?thesis by blast
qed

lemma queue_ok_moves: "queue_ok e \<Longrightarrow> call_moves get put e e' i c \<Longrightarrow> queue_ok e'"
  by (rule queue_ok_move [where i = i and c = c]) (auto simp: call_moves_def)

lemma queue_ok_reachable: "nonce_reachable get put s e \<Longrightarrow> queue_ok e"
  by (induction rule: nonce_reachable.induct)
    (auto intro: queue_ok_new queue_ok_nextNonce queue_ok_moves dest: nonce_work_moves)

section \<open>Every call is answered\<close>

definition phase_work :: "nonce_call \<Rightarrow> nat" where
  "phase_work c = (case nc_phase c of Awaiting \<Rightarrow> 3 | Getting \<Rightarrow> 2 | Setting _ \<Rightarrow> 1 | _ \<Rightarrow> 0) +
     (if nc_settled c then 0 else 1)"

definition work_left :: "'s nonce_engine \<Rightarrow> nat" where
  "work_left e = sum_list (map phase_work (ne_calls e))"

lemma call_moves_phase_work: "call_moves get put e e' i c \<Longrightarrow> phase_work c < phase_work (ne_calls e ! i)"
  by (auto simp: call_moves_def moved_def phase_work_def)

lemma sum_list_map_update_less:
  "i < length xs \<Longrightarrow> f x < (f (xs ! i) :: nat) \<Longrightarrow> sum_list (map f (xs[i := x])) < sum_list (map f xs)"
proof (induction xs arbitrary: i)
  case (Cons y ys)
  then show ?case by (cases i) auto
qed simp

lemma work_left_moves: "call_moves get put e e' i c \<Longrightarrow> work_left e' < work_left e"
  using call_moves_phase_work by (fastforce simp: work_left_def call_moves_def intro: sum_list_map_update_less)

lemma nonce_work_bounded:
  assumes "(nonce_work get put ^^ n) e e'" "queue_ok e"
  shows "n + work_left e' \<le> work_left e \<and> queue_ok e'"
  using assms
proof (induction n arbitrary: e')
  case (Suc n)
  then obtain e1 where e1: "(nonce_work get put ^^ n) e e1" "nonce_work get put e1 e'" by auto
  with Suc have "n + work_left e1 \<le> work_left e" "queue_ok e1" by auto
  moreover from nonce_work_moves [OF \<open>queue_ok e1\<close> e1(2)] obtain i c where "call_moves get put e1 e' i c" by blast
  ultimately show ?case using work_left_moves queue_ok_moves by fastforce
qed simp

lemma settled_or_work:
  assumes ok: "queue_ok e" and stuck: "\<And>e'. \<not> nonce_work get put e e'"
  shows "i < length (ne_calls e) \<Longrightarrow> nc_settled (ne_calls e ! i)"
proof (induction i rule: less_induct)
  case (less i)
  let ?c = "ne_calls e ! i"
  have p: "settled_promise e (nc_prev ?c)"
  proof (cases "nc_prev ?c")
    case (Some n)
    with ok less.prems have "n < i" by (auto simp: queue_ok_def call_ok_def tail_at_def)
    with less Some show ?thesis by (simp add: settled_promise_def)
  qed (simp add: settled_promise_def)
  show ?case
  proof (rule ccontr)
    assume ns: "\<not> nc_settled ?c"
    have "\<exists>e'. nonce_work get put e e'"
    proof (cases "nc_phase ?c")
      case Awaiting
      with p have "enter i e = Some (set_phase i Getting e)" by (simp add: enter_def)
      then show ?thesis using nonce_work.enters [OF less.prems] by blast
    next
      case Getting
      then have "\<exists>e'. read_nonce get i e = Some e'" by (simp add: read_nonce_def Let_def)
      then show ?thesis using nonce_work.reads [OF less.prems] by blast
    next
      case (Setting v)
      then have "\<exists>e'. write_nonce put i e = Some e'" by (simp add: write_nonce_def Let_def)
      then show ?thesis using nonce_work.writes [OF less.prems] by blast
    next
      case (Returned v)
      with p ns have "\<exists>e'. settle_next i e = Some e'" by (simp add: settle_next_def finished_def Let_def)
      then show ?thesis using nonce_work.settles [OF less.prems] by blast
    next
      case Thrown
      with p ns have "\<exists>e'. settle_next i e = Some e'" by (simp add: settle_next_def finished_def Let_def)
      then show ?thesis using nonce_work.settles [OF less.prems] by blast
    qed
    with stuck show False by blast
  qed
qed

lemma stuck_answered:
  assumes "queue_ok e" "\<And>e'. \<not> nonce_work get put e e'"
  shows "list_all finished (ne_calls e) \<and> ne_locks e = Map.empty"
proof -
  let ?cs = "ne_calls e"
  have f: "\<And>i. i < length ?cs \<Longrightarrow> finished (?cs ! i)"
    using settled_or_work [OF assms] assms(1) by (simp add: queue_ok_def call_ok_def)
  have "ne_locks e k = None" for k
    using f lock_key [OF assms(1), of k] by (cases "ne_locks e k") auto
  with f show ?thesis by (auto simp: list_all_length)
qed

section \<open>The nonces of a key\<close>

definition issued_by :: "string \<Rightarrow> nonce_call \<Rightarrow> int list" where
  "issued_by k c = (if nc_key c = k then (case nc_phase c of Returned v \<Rightarrow> [v] | _ \<Rightarrow> []) else [])"

text \<open>The nonces the calls of the key \<open>k\<close> returned, in the order of the calls.\<close>

definition issued :: "string \<Rightarrow> nonce_call list \<Rightarrow> int list" where
  "issued k cs = concat (map (issued_by k) cs)"

definition done_calls :: "string \<Rightarrow> nonce_call list \<Rightarrow> nat" where
  "done_calls k cs = length (filter (\<lambda>c. nc_key c = k \<and> finished c) cs)"

definition thrown :: "string \<Rightarrow> nonce_call list \<Rightarrow> bool" where
  "thrown k cs \<longleftrightarrow> (\<exists>c \<in> set cs. nc_key c = k \<and> nc_phase c = Thrown)"

definition cached :: "('s \<Rightarrow> string \<Rightarrow> int option) \<Rightarrow> 's \<Rightarrow> string \<Rightarrow> int" where
  "cached get s k = (case get s k of None \<Rightarrow> 0 | Some v \<Rightarrow> v)"

definition vals_ok :: "int \<Rightarrow> string \<Rightarrow> nonce_call list \<Rightarrow> int \<Rightarrow> bool" where
  "vals_ok base k cs cur \<longleftrightarrow>
     sorted_wrt (<) (issued k cs) \<and> (\<forall>v \<in> set (issued k cs). base \<le> v \<and> v < cur) \<and>
     base \<le> cur \<and> cur \<le> base + int (done_calls k cs) \<and>
     (\<forall>c \<in> set cs. \<forall>v. nc_key c = k \<longrightarrow> nc_phase c = Setting v \<longrightarrow> v = cur) \<and>
     (\<not> thrown k cs \<longrightarrow> cur = base + int (length (issued k cs)) \<and>
        issued k cs = map (\<lambda>n. base + int n) [0..<length (issued k cs)])"

lemmas vals_defs = issued_def issued_by_def done_calls_def thrown_def

lemma done_calls_le: "done_calls k cs \<le> length cs"
  by (simp add: done_calls_def)

lemma vals_ok_call: "vals_ok base k cs cur \<Longrightarrow> nc_phase c = Awaiting \<Longrightarrow> vals_ok base k (cs @ [c]) cur"
proof -
  assume v: "vals_ok base k cs cur" and c: "nc_phase c = Awaiting"
  have "issued k (cs @ [c]) = issued k cs" "done_calls k (cs @ [c]) = done_calls k cs"
    "thrown k (cs @ [c]) = thrown k cs"
    using c by (auto simp: vals_defs finished_def)
  with v c show ?thesis by (auto simp: vals_ok_def)
qed

text \<open>At most one call of a key is between its two awaits.\<close>

lemma only_busy:
  assumes "queue_ok e" "i < length (ne_calls e)" "\<not> finished (ne_calls e ! i)"
    "clear_at (ne_calls e) i" "j < length (ne_calls e)" "j \<noteq> i"
    "nc_key (ne_calls e ! j) = nc_key (ne_calls e ! i)"
  shows "if j < i then finished (ne_calls e ! j) else nc_phase (ne_calls e ! j) = Awaiting"
proof (cases "j < i")
  case True
  with assms show ?thesis by (auto simp: clear_at_def)
next
  case False
  with assms have "i < j" "call_ok (ne_calls e) j" by (auto simp: queue_ok_def)
  with assms False show ?thesis by (auto simp: call_ok_def clear_at_def)
qed

lemma split_busy:
  assumes "queue_ok e" "i < length (ne_calls e)" "\<not> finished (ne_calls e ! i)"
    "clear_at (ne_calls e) i"
  obtains xs ys where "ne_calls e = xs @ (ne_calls e ! i) # ys"
    "\<And>c. (ne_calls e)[i := c] = xs @ c # ys"
    "\<And>c. c \<in> set xs \<Longrightarrow> nc_key c = nc_key (ne_calls e ! i) \<Longrightarrow> finished c"
    "\<And>c. c \<in> set ys \<Longrightarrow> nc_key c = nc_key (ne_calls e ! i) \<Longrightarrow> nc_phase c = Awaiting"
proof (rule that [of "take i (ne_calls e)" "drop (Suc i) (ne_calls e)"])
  let ?cs = "ne_calls e"
  show "?cs = take i ?cs @ ?cs ! i # drop (Suc i) ?cs" using assms(2) by (rule id_take_nth_drop)
  show "?cs[i := c] = take i ?cs @ c # drop (Suc i) ?cs" for c using assms(2) by (rule upd_conv_take_nth_drop)
  show "finished c" if "c \<in> set (take i ?cs)" "nc_key c = nc_key (?cs ! i)" for c
    using that only_busy [OF assms] by (fastforce simp: in_set_conv_nth)
  show "nc_phase c = Awaiting" if c: "c \<in> set (drop (Suc i) ?cs)" "nc_key c = nc_key (?cs ! i)" for c
  proof -
    from c(1) obtain m where "m < length (drop (Suc i) ?cs)" "drop (Suc i) ?cs ! m = c"
      by (auto simp: in_set_conv_nth)
    then have "Suc i + m < length ?cs" "c = ?cs ! (Suc i + m)" by auto
    with only_busy [OF assms, of "Suc i + m"] c(2) show ?thesis by simp
  qed
qed

lemma split_any:
  assumes "i < length cs"
  obtains xs ys where "cs = xs @ (cs ! i) # ys" "\<And>c. cs[i := c] = xs @ c # ys"
  using that [OF id_take_nth_drop [OF assms] upd_conv_take_nth_drop [OF assms]] by blast

text \<open>Moves that leave the cache and the answers of the key alone.\<close>

lemma vals_ok_quiet:
  assumes "vals_ok base k (xs @ b # ys) cur" "nc_key c = nc_key b"
    "nc_key b = k \<Longrightarrow> \<not> finished b \<and> \<not> finished c \<or> nc_phase c = nc_phase b"
    "\<And>v. nc_key b = k \<Longrightarrow> nc_phase c = Setting v \<Longrightarrow> v = cur"
  shows "vals_ok base k (xs @ c # ys) cur"
proof -
  have i: "issued k (xs @ c # ys) = issued k (xs @ b # ys)"
    using assms(2,3) by (auto simp: vals_defs finished_def split: nonce_phase.splits)
  have d: "done_calls k (xs @ c # ys) = done_calls k (xs @ b # ys)"
    using assms(2,3) by (auto simp: done_calls_def finished_def)
  have t: "thrown k (xs @ c # ys) = thrown k (xs @ b # ys)"
    using assms(2,3) by (auto simp: thrown_def finished_def)
  show ?thesis
    using assms by (auto simp: vals_ok_def i d t)
qed

text \<open>A call throws, before or after its write took effect.\<close>

lemma vals_ok_throw:
  assumes "vals_ok base k (xs @ b # ys) cur" "nc_key b = k" "nc_key c = k" "\<not> finished b" "nc_phase c = Thrown"
    "\<And>d. d \<in> set xs \<Longrightarrow> nc_key d = k \<Longrightarrow> finished d" "\<And>d. d \<in> set ys \<Longrightarrow> nc_key d = k \<Longrightarrow> nc_phase d = Awaiting"
    "cur' = cur \<or> cur' = cur + 1"
  shows "vals_ok base k (xs @ c # ys) cur'"
proof -
  have i: "issued k (xs @ c # ys) = issued k (xs @ b # ys)"
    using assms(2-5) by (auto simp: vals_defs finished_def split: nonce_phase.splits)
  have d: "done_calls k (xs @ c # ys) = Suc (done_calls k (xs @ b # ys))"
    using assms(2-5) by (auto simp: done_calls_def finished_def)
  have t: "thrown k (xs @ c # ys)" using assms(3,5) by (auto simp: thrown_def)
  have "nc_phase d \<noteq> Setting v" if "d \<in> set (xs @ c # ys)" "nc_key d = k" for d v
    using that assms(5) assms(6,7) [of d] by (auto simp: finished_def)
  moreover have "sorted_wrt (<) (issued k (xs @ b # ys))"
    "\<forall>v \<in> set (issued k (xs @ b # ys)). base \<le> v \<and> v < cur'" "base \<le> cur'"
    "cur' \<le> base + int (Suc (done_calls k (xs @ b # ys)))"
    using assms(1,8) by (auto simp: vals_ok_def)
  ultimately show ?thesis using t by (simp add: vals_ok_def i d)
qed

lemma vals_ok_return:
  assumes "vals_ok base k (xs @ b # ys) cur" "nc_key b = k" "nc_key c = k" "nc_phase b = Setting cur"
    "nc_phase c = Returned cur"
    "\<And>d. d \<in> set xs \<Longrightarrow> nc_key d = k \<Longrightarrow> finished d" "\<And>d. d \<in> set ys \<Longrightarrow> nc_key d = k \<Longrightarrow> nc_phase d = Awaiting"
  shows "vals_ok base k (xs @ c # ys) (cur + 1)"
proof -
  have y: "issued k ys = []" using assms(7) by (auto simp: vals_defs)
  have b: "issued k (xs @ b # ys) = issued k xs"
    using y assms(2,4) by (simp add: issued_def issued_by_def)
  have i: "issued k (xs @ c # ys) = issued k xs @ [cur]"
    using y assms(3,5) by (simp add: issued_def issued_by_def)
  have d: "done_calls k (xs @ c # ys) = Suc (done_calls k (xs @ b # ys))"
    using assms(2-5) by (auto simp: done_calls_def finished_def)
  have t: "thrown k (xs @ c # ys) = thrown k (xs @ b # ys)"
    using assms(2-5) by (auto simp: thrown_def)
  from assms(1) have o: "sorted_wrt (<) (issued k xs)" "\<forall>v \<in> set (issued k xs). base \<le> v \<and> v < cur"
    "base \<le> cur" "cur \<le> base + int (done_calls k (xs @ b # ys))"
    "\<not> thrown k (xs @ b # ys) \<Longrightarrow> cur = base + int (length (issued k xs))"
    "\<not> thrown k (xs @ b # ys) \<Longrightarrow> issued k xs = map (\<lambda>n. base + int n) [0..<length (issued k xs)]"
    by (simp_all add: vals_ok_def b)
  have "nc_phase d \<noteq> Setting v" if "d \<in> set (xs @ c # ys)" "nc_key d = k" for d v
    using that assms(5) assms(6,7) [of d] by (auto simp: finished_def)
  moreover have "sorted_wrt (<) (issued k xs @ [cur])" "\<forall>v \<in> set (issued k xs @ [cur]). base \<le> v \<and> v < cur + 1"
    using o(1-3) by (auto simp: sorted_wrt_append)
  moreover have "cur + 1 \<le> base + int (done_calls k (xs @ c # ys))" using o(4) d by simp
  moreover have "\<not> thrown k (xs @ c # ys) \<Longrightarrow> cur + 1 = base + int (length (issued k xs @ [cur])) \<and>
      issued k xs @ [cur] = map (\<lambda>n. base + int n) [0..<length (issued k xs @ [cur])]"
    using o(5,6) t by simp
  ultimately show ?thesis using o(3) by (simp add: vals_ok_def i)
qed

lemma moved_cases:
  assumes "moved get put e e' b c" "\<not> finished b"
  obtains (quiet) "ne_cache e' = ne_cache e" "\<not> finished c"
      "\<And>u. nc_phase c = Setting u \<Longrightarrow> nc_phase b = Setting u \<or> u = cached get (ne_cache e) (nc_key b)"
    | (lost) "ne_cache e' = ne_cache e" "nc_phase c = Thrown"
    | (stored) v where "nc_phase b = Setting v" "nc_phase c = Returned v \<or> nc_phase c = Thrown"
      "ne_cache e' = put (nc_key b) (dbl (v + 1)) (ne_cache e)"
proof -
  have same: "nc_phase c = nc_phase b \<Longrightarrow> \<not> finished c" using assms(2) by (simp add: finished_def)
  show ?thesis
    using assms(1) unfolding moved_def
  proof (elim disjE conjE exE)
    assume "ne_cache e' = ne_cache e" "nc_phase c = nc_phase b"
    with same show ?thesis by (intro quiet) auto
  next
    assume "ne_cache e' = ne_cache e" "nc_phase c = Getting"
    then show ?thesis by (intro quiet) (auto simp: finished_def)
  next
    assume "ne_cache e' = ne_cache e"
      "nc_phase c = Setting (case get (ne_cache e) (nc_key b) of None \<Rightarrow> 0 | Some v \<Rightarrow> v)"
    then show ?thesis by (intro quiet) (auto simp: finished_def cached_def)
  qed (use lost stored in blast)+
qed

locale nonce_cache =
  fixes get :: "'s \<Rightarrow> string \<Rightarrow> int option" and put :: "string \<Rightarrow> int \<Rightarrow> 's \<Rightarrow> 's" and del :: "string \<Rightarrow> 's \<Rightarrow> 's"
  assumes get_put: "get (put key v s) k = (if k = key then Some v else get s k)"
    and get_del: "get (del key s) k = (if k = key then None else get s k)"
begin

lemma cached_put: "cached get (put key v s) k = (if k = key then v else cached get s k)"
  by (simp add: cached_def get_put)

lemma vals_ok_moves:
  assumes q: "queue_ok e" and m: "call_moves get put e e' i c"
    and v: "vals_ok base k (ne_calls e) (cached get (ne_cache e) k)"
    and small: "0 \<le> base" "base + int (length (ne_calls e)) \<le> 9007199254740991"
  shows "vals_ok base k (ne_calls e') (cached get (ne_cache e') k)"
proof -
  let ?b = "ne_calls e ! i" and ?cur = "cached get (ne_cache e) k"
  from m have i: "i < length (ne_calls e)" and e': "ne_calls e' = (ne_calls e)[i := c]"
    and key: "nc_key c = nc_key ?b" and cl: "clear_at (ne_calls e) i" and mv: "moved get put e e' ?b c"
    and fin: "finished ?b \<longrightarrow> finished c"
    by (auto simp: call_moves_def)
  show ?thesis
  proof (cases "nc_key ?b = k")
    case False
    obtain xs ys where xy: "ne_calls e = xs @ ?b # ys" "\<And>c. (ne_calls e)[i := c] = xs @ c # ys"
      by (rule split_any [OF i]) blast
    have "cached get (ne_cache e') k = ?cur" using mv False by (auto simp: moved_def cached_put)
    moreover have "vals_ok base k (xs @ c # ys) ?cur"
      by (rule vals_ok_quiet [of base k xs ?b]) (use v xy(1) key False in auto)
    ultimately show ?thesis by (simp add: e' xy(2))
  next
    case k: True
    show ?thesis
    proof (cases "finished ?b")
      case True
      obtain xs ys where xy: "ne_calls e = xs @ ?b # ys" "\<And>c. (ne_calls e)[i := c] = xs @ c # ys"
        by (rule split_any [OF i]) blast
      from mv True have "nc_phase c = nc_phase ?b" "cached get (ne_cache e') k = ?cur"
        by (auto simp: moved_def finished_def)
      moreover from True have "nc_phase ?b \<noteq> Setting u" for u by (auto simp: finished_def)
      moreover have "vals_ok base k (xs @ c # ys) ?cur"
        by (rule vals_ok_quiet [of base k xs ?b]) (use v xy(1) key calculation in auto)
      ultimately show ?thesis by (simp add: e' xy(2))
    next
      case nf: False
      from split_busy [OF q i nf cl] obtain xs ys where xy: "ne_calls e = xs @ ?b # ys"
        "\<And>c. (ne_calls e)[i := c] = xs @ c # ys"
        and xs: "\<And>d. d \<in> set xs \<Longrightarrow> nc_key d = k \<Longrightarrow> finished d"
        and ys: "\<And>d. d \<in> set ys \<Longrightarrow> nc_key d = k \<Longrightarrow> nc_phase d = Awaiting"
        unfolding k by blast
      have v': "vals_ok base k (xs @ ?b # ys) ?cur" using v xy(1) by simp
      have "done_calls k (ne_calls e) \<le> length (ne_calls e)" by (rule done_calls_le)
      moreover have "done_calls k (ne_calls e) \<noteq> length (ne_calls e)"
      proof
        assume "done_calls k (ne_calls e) = length (ne_calls e)"
        then have "\<forall>c \<in> set (ne_calls e). finished c"
          unfolding done_calls_def by (metis (mono_tags, lifting) length_filter_less nat_neq_iff)
        with nf i show False by simp
      qed
      ultimately have "isSafeInteger (?cur + 1)"
        using v small by (auto simp: vals_ok_def isSafeInteger_def)
      then have next_cur: "dbl (?cur + 1) = ?cur + 1" by (rule dbl_exact)
      have set: "u = ?cur" if "nc_phase ?b = Setting u" for u
        using v i k that by (auto simp: vals_ok_def)
      from mv nf show ?thesis
      proof (cases rule: moved_cases)
        case quiet
        have s: "u = ?cur" if "nc_phase c = Setting u" for u
          using quiet(3) [OF that] set [of u] k by auto
        have "vals_ok base k (xs @ c # ys) ?cur"
          by (rule vals_ok_quiet [OF v' key]) (use quiet nf s in auto)
        with quiet(1) show ?thesis by (simp add: e' xy(2))
      next
        case lost
        have "vals_ok base k (xs @ c # ys) ?cur"
          by (rule vals_ok_throw [OF v' k _ nf _ xs ys]) (use lost key k in auto)
        with lost(1) show ?thesis by (simp add: e' xy(2))
      next
        case (stored u)
        then have u: "u = ?cur" by (intro set)
        with stored next_cur k have cur: "cached get (ne_cache e') k = ?cur + 1" by (simp add: cached_put)
        from stored(2) show ?thesis
        proof
          assume "nc_phase c = Returned u"
          then have "vals_ok base k (xs @ c # ys) (?cur + 1)"
            by (intro vals_ok_return [OF v' k _ _ _ xs ys]) (use stored(1) key k u in auto)
          then show ?thesis by (simp add: e' xy(2) cur)
        next
          assume "nc_phase c = Thrown"
          then have "vals_ok base k (xs @ c # ys) (?cur + 1)"
            by (intro vals_ok_throw [OF v' k _ nf _ xs ys]) (use key k in auto)
          then show ?thesis by (simp add: e' xy(2) cur)
        qed
      qed
    qed
  qed
qed

lemma vals_ok_reachable:
  assumes "nonce_reachable get put s e" "0 \<le> cached get s k"
    "cached get s k + int (length (ne_calls e)) \<le> 9007199254740991"
  shows "vals_ok (cached get s k) k (ne_calls e) (cached get (ne_cache e) k)"
  using assms
proof (induction rule: nonce_reachable.induct)
  case start
  then show ?case by (simp add: new_engine_def vals_ok_def vals_defs)
next
  case (call e account channel)
  then show ?case by (simp add: nextNonce_def Let_def vals_ok_call)
next
  case (work e e')
  from work.hyps have q: "queue_ok e" by (auto intro: queue_ok_reachable)
  from nonce_work_moves [OF q work.hyps(2)] obtain i c where m: "call_moves get put e e' i c" by blast
  then have "length (ne_calls e') = length (ne_calls e)" by (simp add: call_moves_def)
  with work m q show ?case by (intro vals_ok_moves [OF q m]) auto
qed

lemma issued_in_order:
  assumes "nonce_reachable get put s e" "0 \<le> cached get s k"
    "cached get s k + int (length (ne_calls e)) \<le> 9007199254740991"
  shows "sorted_wrt (<) (issued k (ne_calls e))"
    "\<not> thrown k (ne_calls e) \<Longrightarrow>
      issued k (ne_calls e) = map (\<lambda>n. cached get s k + int n) [0..<length (issued k (ne_calls e))]"
    "v \<in> set (issued k (ne_calls e)) \<Longrightarrow> cached get s k \<le> v \<and> v < cached get (ne_cache e) k"
  using vals_ok_reachable [OF assms] by (auto simp: vals_ok_def)

end

interpretation memory_nonce: nonce_cache memory_get memory_set memory_delete
  by unfold_locales (auto simp: memory_get_def memory_set_def memory_delete_def delete_conv')

section \<open>Keys\<close>

lemma int_str_inject: "int_str a = int_str b \<longleftrightarrow> a = b"
proof
  have d: "hd (nat_digits n) \<noteq> CHR ''-''" if "0 \<le> n" for n
  proof -
    have "is_digit (hd (nat_digits n))"
      using nat_digits_all [OF that] by (cases "nat_digits n") auto
    then show ?thesis by (auto simp: is_digit_def code_in_def)
  qed
  have inj: "m = n" if "nat_digits m = nat_digits n" "0 \<le> m" "0 \<le> n" for m n
    using digits_val_nat_digits [OF that(2)] digits_val_nat_digits [OF that(3)] that(1) by metis
  assume eq: "int_str a = int_str b"
  show "a = b"
  proof (cases "a < 0"; cases "b < 0")
    assume "a < 0" "b < 0"
    with eq inj [of "- a" "- b"] show ?thesis by (simp add: int_str_def)
  next
    assume "\<not> a < 0" "\<not> b < 0"
    with eq inj [of a b] show ?thesis by (simp add: int_str_def)
  next
    assume "a < 0" "\<not> b < 0"
    with eq have "hd (nat_digits b) = CHR ''-''" by (simp add: int_str_def) (metis list.sel(1))
    with d \<open>\<not> b < 0\<close> show ?thesis by simp
  next
    assume "\<not> a < 0" "b < 0"
    with eq have "hd (nat_digits a) = CHR ''-''" by (simp add: int_str_def)
    with d \<open>\<not> a < 0\<close> show ?thesis by simp
  qed
qed simp

lemma int_str_no_colon: "CHR '':'' \<notin> set (int_str n)"
proof -
  have "CHR '':'' \<notin> set (nat_digits m)" if "0 \<le> m" for m
    using nat_digits_all [OF that] by (auto simp: list_all_iff is_digit_def code_in_def)
  then show ?thesis by (auto simp: int_str_def)
qed

lemma split_at_colon:
  "x \<notin> set xs \<Longrightarrow> x \<notin> set xs' \<Longrightarrow> xs @ x # ys = xs' @ x # ys' \<longleftrightarrow> xs = xs' \<and> ys = ys'"
proof (induction xs arbitrary: xs')
  case Nil
  then show ?case by (cases xs') auto
next
  case (Cons z xs)
  then show ?case by (cases xs') auto
qed

lemma cacheKey_inject: "cacheKey a m = cacheKey b n \<longleftrightarrow> lower a = lower b \<and> m = n"
proof
  assume "cacheKey a m = cacheKey b n"
  then have "rev (int_str m) @ CHR '':'' # rev (lower a) = rev (int_str n) @ CHR '':'' # rev (lower b)"
    by (simp add: cacheKey_def) (metis append.assoc append_Cons append_Nil rev.simps(2) rev_append rev_rev_ident)
  moreover have "CHR '':'' \<notin> set (rev (int_str m))" "CHR '':'' \<notin> set (rev (int_str n))"
    by (simp_all add: int_str_no_colon)
  ultimately have "rev (int_str m) = rev (int_str n) \<and> rev (lower a) = rev (lower b)"
    by (simp add: split_at_colon)
  then show "lower a = lower b \<and> m = n" by (simp add: int_str_inject)
qed (simp add: cacheKey_def)

section \<open>Schedules\<close>

text \<open>A schedule of the event loop, as data: \<open>run_nonces\<close> has a value when every step of it
  is possible where it stands.\<close>

datatype nonce_event =
  CallNext string int | Enters nat | Reads nat | Writes nat | Rejects bool nat | Settles nat

fun nonce_event_step ::
    "('s \<Rightarrow> string \<Rightarrow> int option) \<Rightarrow> (string \<Rightarrow> int \<Rightarrow> 's \<Rightarrow> 's) \<Rightarrow>
     nonce_event \<Rightarrow> 's nonce_engine \<Rightarrow> 's nonce_engine option" where
  "nonce_event_step get put (CallNext account channel) e = Some (nextNonce account channel e)"
| "nonce_event_step get put (Enters i) e = (if i < length (ne_calls e) then enter i e else None)"
| "nonce_event_step get put (Reads i) e = (if i < length (ne_calls e) then read_nonce get i e else None)"
| "nonce_event_step get put (Writes i) e = (if i < length (ne_calls e) then write_nonce put i e else None)"
| "nonce_event_step get put (Rejects b i) e =
     (if i < length (ne_calls e) then adapter_rejects put b i e else None)"
| "nonce_event_step get put (Settles i) e = (if i < length (ne_calls e) then settle_next i e else None)"

fun run_nonces ::
    "('s \<Rightarrow> string \<Rightarrow> int option) \<Rightarrow> (string \<Rightarrow> int \<Rightarrow> 's \<Rightarrow> 's) \<Rightarrow>
     nonce_event list \<Rightarrow> 's nonce_engine \<Rightarrow> 's nonce_engine option" where
  "run_nonces get put [] e = Some e"
| "run_nonces get put (ev # evs) e =
     (case nonce_event_step get put ev e of None \<Rightarrow> None | Some e' \<Rightarrow> run_nonces get put evs e')"

lemma nonce_event_reachable:
  "nonce_reachable get put s e \<Longrightarrow> nonce_event_step get put ev e = Some e' \<Longrightarrow> nonce_reachable get put s e'"
  by (cases ev) (auto split: if_splits intro: nonce_reachable.intros nonce_work.intros)

lemma run_nonces_reachable:
  "nonce_reachable get put s e \<Longrightarrow> run_nonces get put evs e = Some e' \<Longrightarrow> nonce_reachable get put s e'"
  by (induction evs arbitrary: e) (auto split: option.splits intro: nonce_event_reachable)

text \<open>Two calls of one key, in either case of the address, interleaved with a failing third.\<close>

definition demo_nonces :: "memory_nonces nonce_engine option" where
  "demo_nonces = run_nonces memory_get memory_set
     [CallNext ''0xAB'' 7, CallNext ''0xab'' 7, CallNext ''0xab'' 7, Enters 0, Reads 0, Writes 0, Settles 0,
      Enters 1, Reads 1, Rejects False 1, Settles 1, Enters 2, Reads 2, Writes 2] (new_engine [])"

end
