(* ===== verification/SdkCodec.thy ===== *)
theory SdkCodec
  imports Prelude "HOL-Library.Word"
begin

text \<open>
  \<open>sdk/src/serialization.ts\<close>, the byte level: Base64 with the URL-safe alphabet over UTF-8.
  A text is the list of its Unicode code points. The code runs on Node (\<open>Buffer\<close>) or in a
  browser (\<open>btoa\<close>, \<open>atob\<close>, \<open>TextEncoder\<close>, \<open>TextDecoder\<close>); \<open>platform\<close> says which. What
  \<open>Buffer.from(text, 'base64')\<close> makes of a text that is no Base64 at all is not documented:
  the argument of \<open>Node\<close> is that function.
\<close>

type_synonym byte = "8 word"

datatype platform = Node "string \<Rightarrow> byte list" | Browser

section \<open>Base64\<close>

definition b64_char :: "nat \<Rightarrow> char" where
  "b64_char i =
     (if i < 26 then char_of (65 + i)
      else if i < 52 then char_of (71 + i)
      else if i < 62 then char_of (i - 4)
      else if i = 62 then CHR ''+'' else CHR ''/'')"

definition b64_value :: "char \<Rightarrow> nat option" where
  "b64_value c =
     (let n = of_char c in
      if is_upper c then Some (n - 65)
      else if is_lower c then Some (n - 71)
      else if is_digit c then Some (n + 4)
      else if c = CHR ''+'' then Some 62
      else if c = CHR ''/'' then Some 63 else None)"

fun sextets :: "byte list \<Rightarrow> nat list" where
  "sextets [] = []"
| "sextets [a] = [unat a div 4, unat a mod 4 * 16]"
| "sextets [a, b] = [unat a div 4, unat a mod 4 * 16 + unat b div 16, unat b mod 16 * 4]"
| "sextets (a # b # c # bs) =
     [unat a div 4, unat a mod 4 * 16 + unat b div 16, unat b mod 16 * 4 + unat c div 64, unat c mod 64] @
     sextets bs"

fun unsextets :: "nat list \<Rightarrow> byte list" where
  "unsextets (i # j # k # l # ns) =
     of_nat (i * 4 + j div 16) # of_nat (j mod 16 * 16 + k div 4) # of_nat (k mod 4 * 64 + l) # unsextets ns"
| "unsextets [i, j, k] = [of_nat (i * 4 + j div 16), of_nat (j mod 16 * 16 + k div 4)]"
| "unsextets [i, j] = [of_nat (i * 4 + j div 16)]"
| "unsextets _ = []"

text \<open>\<open>Buffer.from(bytes).toString('base64')\<close> and \<open>btoa\<close>.\<close>

definition encodeBase64Bytes :: "byte list \<Rightarrow> string" where
  "encodeBase64Bytes bs =
     map b64_char (sextets bs) @ replicate ((3 - length bs mod 3) mod 3) (CHR ''='')"

definition pad_ok :: "string \<Rightarrow> bool" where
  "pad_ok s \<longleftrightarrow> length s mod 4 = 0 \<and> length (dropWhile (\<lambda>c. c \<noteq> CHR ''='') s) \<le> 2 \<and>
     list_all (\<lambda>c. c = CHR ''='') (dropWhile (\<lambda>c. c \<noteq> CHR ''='') s)"

definition b64_body :: "string \<Rightarrow> nat list option" where
  "b64_body s = those (map b64_value (takeWhile (\<lambda>c. c \<noteq> CHR ''='') s))"

definition is_ascii_space :: "char \<Rightarrow> bool" where
  "is_ascii_space c \<longleftrightarrow> of_char c \<in> {9, 10, 12, 13, 32 :: nat}"

text \<open>\<open>atob\<close> drops white space, allows the padding to be missing and throws on anything else.\<close>

definition atob :: "string \<Rightarrow> byte list option" where
  "atob text =
     (let s = filter (\<lambda>c. \<not> is_ascii_space c) text;
          t = (if pad_ok s then takeWhile (\<lambda>c. c \<noteq> CHR ''='') s else s) in
      if length t mod 4 = 1 then None else map_option unsextets (those (map b64_value t)))"

fun decodeBase64Bytes :: "platform \<Rightarrow> string \<Rightarrow> byte list option" where
  "decodeBase64Bytes (Node other) s =
     (case b64_body s of
        Some ns \<Rightarrow> if pad_ok s then Some (unsextets ns) else Some (other s)
      | None \<Rightarrow> Some (other s))"
| "decodeBase64Bytes Browser s = atob s"

definition replace_char :: "char \<Rightarrow> char \<Rightarrow> string \<Rightarrow> string" where
  "replace_char a b s = map (\<lambda>c. if c = a then b else c) s"

definition base64UrlEncodeBytes :: "byte list \<Rightarrow> string" where
  "base64UrlEncodeBytes bs =
     filter (\<lambda>c. c \<noteq> CHR ''='')
       (replace_char (CHR ''/'') (CHR ''_'') (replace_char (CHR ''+'') (CHR ''-'') (encodeBase64Bytes bs)))"

definition url_unescape :: "string \<Rightarrow> string" where
  "url_unescape token =
     (let base64 = replace_char (CHR ''_'') (CHR ''/'') (replace_char (CHR ''-'') (CHR ''+'') token);
          padLength = (4 - length base64 mod 4) mod 4 in
      base64 @ replicate padLength (CHR ''=''))"

definition base64UrlDecodeBytes :: "platform \<Rightarrow> string \<Rightarrow> byte list option" where
  "base64UrlDecodeBytes pf token = decodeBase64Bytes pf (url_unescape token)"

subsection \<open>Decoding what was encoded\<close>

lemma byte_nat [simp]: "n < 256 \<Longrightarrow> unat (of_nat n :: byte) = n"
  by (simp add: unsigned_of_nat take_bit_nat_eq_self)

lemma byte_less [simp]: "unat (b :: byte) < 256"
  using unsigned_less [of b, where 'a = nat] by simp

lemma byte_eqI: "n = unat (b :: byte) \<Longrightarrow> of_nat n = b"
  by simp

lemma b64_value_char: "i < 64 \<Longrightarrow> b64_value (b64_char i) = Some i"
  by (simp add: b64_value_def b64_char_def is_upper_def is_lower_def is_digit_def code_in_def Let_def) arith

lemma byte_parts [simp]:
  "unat (b :: byte) div 4 < 64" "unat (b :: byte) div 16 < 16" "unat (b :: byte) div 64 < 4"
  by (rule less_mult_imp_div_less, simp)+

lemma sextet_bounds:
  fixes i j :: nat
  shows "j < 16 \<Longrightarrow> i mod 4 * 16 + j < 64" "j < 4 \<Longrightarrow> i mod 16 * 4 + j < 64" "i mod 4 * 16 < 64" "i mod 16 * 4 < 64"
  using mod_less_divisor [of 4 i] mod_less_divisor [of 16 i] by linarith+

lemma byte_joins [simp]:
  "unat (b :: byte) div 16 div 16 = 0" "unat (b :: byte) div 16 mod 16 = unat b div 16"
  "unat (b :: byte) div 64 div 4 = 0" "unat (b :: byte) div 64 mod 4 = unat b div 64"
  by (simp_all add: div_less)

lemma sextets_bound: "list_all (\<lambda>i. i < 64) (sextets bs)"
  by (induction bs rule: sextets.induct) (simp_all add: sextet_bounds)

lemma length_sextets: "length (sextets bs) = (4 * length bs + 2) div 3"
  by (induction bs rule: sextets.induct) simp_all

lemma unsextets_sextets: "unsextets (sextets bs) = bs"
  by (induction bs rule: sextets.induct)
    (simp_all del: of_nat_add of_nat_mult add: byte_eqI)

lemma b64_char_plain: "i < 64 \<Longrightarrow> b64_char i \<notin> {CHR ''='', CHR ''-'', CHR ''_''} \<and> \<not> is_ascii_space (b64_char i)"
proof -
  assume i: "i < 64"
  have "b64_value CHR ''='' = None" "b64_value CHR ''-'' = None" "b64_value CHR ''_'' = None"
    by code_simp+
  moreover have "is_ascii_space c \<Longrightarrow> b64_value c = None" for c
    by (auto simp: is_ascii_space_def b64_value_def is_upper_def is_lower_def is_digit_def code_in_def)
  ultimately show ?thesis using b64_value_char [OF i] by force
qed

definition pad_of :: "byte list \<Rightarrow> nat" where
  "pad_of bs = (3 - length bs mod 3) mod 3"

lemma encodeBase64Bytes_pad:
  "encodeBase64Bytes bs = map b64_char (sextets bs) @ replicate (pad_of bs) (CHR ''='')"
  by (simp add: encodeBase64Bytes_def pad_of_def)

lemma pad_of_bounds: "pad_of bs \<le> 2" "(length (sextets bs) + pad_of bs) mod 4 = 0"
  "(4 - length (sextets bs) mod 4) mod 4 = pad_of bs" "length (sextets bs) mod 4 \<noteq> 1"
proof -
  let ?n = "length bs" and ?m = "length (sextets bs)"
  have "pad_of bs \<le> 2 \<and> (?m + pad_of bs) mod 4 = 0 \<and> (4 - ?m mod 4) mod 4 = pad_of bs \<and> ?m mod 4 \<noteq> 1"
  proof -
    consider "?n mod 3 = 0" | "?n mod 3 = 1" | "?n mod 3 = 2" by linarith
    then show ?thesis
    proof cases
      case 1
      then have "?m mod 4 = 0" unfolding length_sextets by presburger
      with 1 show ?thesis by (simp add: pad_of_def)
    next
      case 2
      then have "?m mod 4 = 2" unfolding length_sextets by presburger
      with 2 mod_add_left_eq [of ?m 4 2] show ?thesis by (simp add: pad_of_def)
    next
      case 3
      then have "?m mod 4 = 3" unfolding length_sextets by presburger
      with 3 mod_add_left_eq [of ?m 4 1] show ?thesis by (simp add: pad_of_def)
    qed
  qed
  then show "pad_of bs \<le> 2" "(length (sextets bs) + pad_of bs) mod 4 = 0"
    "(4 - length (sextets bs) mod 4) mod 4 = pad_of bs" "length (sextets bs) mod 4 \<noteq> 1" by auto
qed

lemma sextet_chars: "c \<in> set (map b64_char (sextets bs)) \<Longrightarrow>
    c \<noteq> CHR ''='' \<and> c \<noteq> CHR ''-'' \<and> c \<noteq> CHR ''_'' \<and> \<not> is_ascii_space c"
  using sextets_bound [of bs] b64_char_plain by (auto simp: list_all_iff)

lemma those_b64: "list_all (\<lambda>i. i < 64) ns \<Longrightarrow> those (map b64_value (map b64_char ns)) = Some ns"
  by (induction ns) (simp_all add: b64_value_char)

lemma takeWhile_pad:
  assumes "\<And>c. c \<in> set s \<Longrightarrow> c \<noteq> x"
  shows "takeWhile (\<lambda>c. c \<noteq> x) (s @ replicate n x) = s" "dropWhile (\<lambda>c. c \<noteq> x) (s @ replicate n x) = replicate n x"
  using assms by (cases n; auto simp: takeWhile_append dropWhile_append)+

lemma encoded_split:
  "takeWhile (\<lambda>c. c \<noteq> CHR ''='') (map b64_char (sextets bs) @ replicate n (CHR ''='')) = map b64_char (sextets bs)"
  "dropWhile (\<lambda>c. c \<noteq> CHR ''='') (map b64_char (sextets bs) @ replicate n (CHR ''='')) = replicate n (CHR ''='')"
  by (rule takeWhile_pad; use sextet_chars in blast)+

lemma pad_ok_encoded: "pad_ok (encodeBase64Bytes bs)"
  unfolding pad_ok_def encodeBase64Bytes_pad encoded_split
  using pad_of_bounds [of bs] by (simp add: list_all_iff)

lemma b64_body_encoded: "b64_body (encodeBase64Bytes bs) = Some (sextets bs)"
  by (simp only: b64_body_def encodeBase64Bytes_pad encoded_split those_b64 [OF sextets_bound])

lemma filter_encoded: "filter (\<lambda>c. \<not> is_ascii_space c) (encodeBase64Bytes bs) = encodeBase64Bytes bs"
  unfolding filter_id_conv encodeBase64Bytes_pad using sextet_chars [of _ bs]
  by (auto simp: is_ascii_space_def)

lemma decode_encoded: "decodeBase64Bytes pf (encodeBase64Bytes bs) = Some bs"
proof (cases pf)
  case (Node other)
  then show ?thesis by (simp add: b64_body_encoded pad_ok_encoded unsextets_sextets)
next
  case Browser
  have "takeWhile (\<lambda>c. c \<noteq> CHR ''='') (encodeBase64Bytes bs) = map b64_char (sextets bs)"
    by (simp only: encodeBase64Bytes_pad encoded_split)
  moreover have "those (map b64_value (map b64_char (sextets bs))) = Some (sextets bs)"
    by (rule those_b64 [OF sextets_bound])
  ultimately show ?thesis using Browser pad_of_bounds(4) [of bs]
    by (simp add: atob_def filter_encoded pad_ok_encoded unsextets_sextets del: map_map)
qed

lemma url_unescape_encoded: "url_unescape (base64UrlEncodeBytes bs) = encodeBase64Bytes bs"
proof -
  let ?r = "replace_char (CHR ''/'') (CHR ''_'') (replace_char (CHR ''+'') (CHR ''-'') (map b64_char (sextets bs)))"
  have a: "base64UrlEncodeBytes bs = ?r"
    using sextet_chars [of _ bs]
    by (auto simp: base64UrlEncodeBytes_def encodeBase64Bytes_pad replace_char_def filter_empty_conv filter_id_conv)
  have b: "replace_char (CHR ''_'') (CHR ''/'') (replace_char (CHR ''-'') (CHR ''+'') ?r) = map b64_char (sextets bs)"
    unfolding replace_char_def map_map
    by (rule map_cong [OF refl]) (use sextet_chars [of "b64_char _" bs] in force)
  show ?thesis
    unfolding a url_unescape_def b Let_def encodeBase64Bytes_pad by (simp add: pad_of_bounds(3))
qed

lemma base64Url_roundtrip: "base64UrlDecodeBytes pf (base64UrlEncodeBytes bs) = Some bs"
  by (simp add: base64UrlDecodeBytes_def url_unescape_encoded decode_encoded)

section \<open>UTF-8\<close>

text \<open>\<open>Buffer.from(text, 'utf-8')\<close> and \<open>TextEncoder\<close>; a lone surrogate is written as U+FFFD.\<close>

definition is_surrogate :: "nat \<Rightarrow> bool" where
  "is_surrogate c \<longleftrightarrow> 55296 \<le> c \<and> c < 57344"

definition utf8_char :: "nat \<Rightarrow> byte list" where
  "utf8_char cp =
     (let c = (if is_surrogate cp then 65533 else cp) in
      if c < 128 then [of_nat c]
      else if c < 2048 then [of_nat (192 + c div 64), of_nat (128 + c mod 64)]
      else if c < 65536 then
        [of_nat (224 + c div 4096), of_nat (128 + c div 64 mod 64), of_nat (128 + c mod 64)]
      else [of_nat (240 + c div 262144), of_nat (128 + c div 4096 mod 64), of_nat (128 + c div 64 mod 64),
            of_nat (128 + c mod 64)])"

definition utf8_encode :: "nat list \<Rightarrow> byte list" where
  "utf8_encode t = concat (map utf8_char t)"

text \<open>The decoder of the Encoding standard: a lead byte announces how many continuation bytes
  follow and the range of the first; a byte outside its range ends the sequence with U+FFFD and
  is read again.\<close>

definition utf8_lead :: "nat \<Rightarrow> (nat \<times> nat \<times> nat \<times> nat) option" where
  "utf8_lead b =
     (if 194 \<le> b \<and> b \<le> 223 then Some (1, 128, 191, b - 192)
      else if 224 \<le> b \<and> b \<le> 239 then
        Some (2, if b = 224 then 160 else 128, if b = 237 then 159 else 191, b - 224)
      else if 240 \<le> b \<and> b \<le> 244 then
        Some (3, if b = 240 then 144 else 128, if b = 244 then 143 else 191, b - 240)
      else None)"

fun utf8_tail :: "nat \<Rightarrow> nat \<Rightarrow> nat \<Rightarrow> nat \<Rightarrow> byte list \<Rightarrow> nat \<times> byte list" where
  "utf8_tail 0 lo hi v bs = (v, bs)"
| "utf8_tail (Suc n) lo hi v [] = (65533, [])"
| "utf8_tail (Suc n) lo hi v (b # bs) =
     (if lo \<le> unat b \<and> unat b \<le> hi then utf8_tail n 128 191 (v * 64 + (unat b - 128)) bs
      else (65533, b # bs))"

lemma utf8_tail_length: "length (snd (utf8_tail n lo hi v bs)) \<le> length bs"
  by (induction n lo hi v bs rule: utf8_tail.induct) auto

function utf8_decode :: "byte list \<Rightarrow> nat list" where
  "utf8_decode [] = []"
| "utf8_decode (b # bs) =
     (if unat b < 128 then unat b # utf8_decode bs
      else case utf8_lead (unat b) of
        None \<Rightarrow> 65533 # utf8_decode bs
      | Some (n, lo, hi, v) \<Rightarrow> (let (c, rest) = utf8_tail n lo hi v bs in c # utf8_decode rest))"
  by pat_completeness auto
termination
proof (relation "measure length", goal_cases)
  case (4 b bs p n q lo r hi v x c rest)
  then show ?case using utf8_tail_length [of n lo hi v bs] by (auto simp: less_Suc_eq_le dest: sym)
qed auto

definition scalar :: "nat \<Rightarrow> bool" where
  "scalar c \<longleftrightarrow> c < 1114112 \<and> \<not> is_surrogate c"

lemma cont_byte: "n < 64 \<Longrightarrow> unat (of_nat (128 + n) :: byte) = 128 + n"
  by (rule byte_nat) simp

lemma utf8_decode_lead:
  "128 \<le> unat b \<Longrightarrow> utf8_lead (unat b) = Some (n, lo, hi, v) \<Longrightarrow> utf8_tail n lo hi v bs = (c, rest) \<Longrightarrow>
    utf8_decode (b # bs) = c # utf8_decode rest"
  by simp

lemma utf8_tail_byte:
  "unat b = 128 + m \<Longrightarrow> lo \<le> 128 + m \<Longrightarrow> 128 + m \<le> hi \<Longrightarrow>
    utf8_tail (Suc n) lo hi v (b # bs) = utf8_tail n 128 191 (v * 64 + m) bs"
  by simp

lemma utf8_decode_2:
  assumes "2 \<le> h" "h < 32" "l < 64"
  shows "utf8_decode (of_nat (192 + h) # of_nat (128 + l) # bs) = (h * 64 + l) # utf8_decode bs"
proof (rule utf8_decode_lead)
  have b: "unat (of_nat (192 + h) :: byte) = 192 + h" using assms by (intro byte_nat) simp
  show "128 \<le> unat (of_nat (192 + h) :: byte)" unfolding b by simp
  show "utf8_lead (unat (of_nat (192 + h) :: byte)) = Some (Suc 0, 128, 191, h)"
    unfolding b using assms by (simp add: utf8_lead_def)
  show "utf8_tail (Suc 0) 128 191 h (of_nat (128 + l) # bs) = (h * 64 + l, bs)"
    using assms by (subst utf8_tail_byte [OF cont_byte]) simp_all
qed

lemma utf8_decode_3:
  assumes "h < 16" "m < 64" "l < 64" "h = 0 \<Longrightarrow> 32 \<le> m" "h = 13 \<Longrightarrow> m < 32"
  shows "utf8_decode (of_nat (224 + h) # of_nat (128 + m) # of_nat (128 + l) # bs) =
    ((h * 64 + m) * 64 + l) # utf8_decode bs"
proof (rule utf8_decode_lead)
  let ?lo = "if h = 0 then 160 else 128 :: nat" and ?hi = "if h = 13 then 159 else 191 :: nat"
  have b: "unat (of_nat (224 + h) :: byte) = 224 + h" using assms(1) by (intro byte_nat) simp
  show "128 \<le> unat (of_nat (224 + h) :: byte)" unfolding b by simp
  show "utf8_lead (unat (of_nat (224 + h) :: byte)) = Some (Suc (Suc 0), ?lo, ?hi, h)"
    unfolding b using assms(1) by (simp add: utf8_lead_def)
  show "utf8_tail (Suc (Suc 0)) ?lo ?hi h (of_nat (128 + m) # of_nat (128 + l) # bs) = ((h * 64 + m) * 64 + l, bs)"
  proof -
    have "?lo \<le> 128 + m" "128 + m \<le> ?hi" using assms by auto
    then have "utf8_tail (Suc (Suc 0)) ?lo ?hi h (of_nat (128 + m) # of_nat (128 + l) # bs) =
        utf8_tail (Suc 0) 128 191 (h * 64 + m) (of_nat (128 + l) # bs)"
      by (rule utf8_tail_byte [OF cont_byte [OF assms(2)]])
    also have "\<dots> = ((h * 64 + m) * 64 + l, bs)"
      using assms(3) by (subst utf8_tail_byte [OF cont_byte]) simp_all
    finally show ?thesis .
  qed
qed

lemma utf8_decode_4:
  assumes "h < 5" "k < 64" "m < 64" "l < 64" "h = 0 \<Longrightarrow> 16 \<le> k" "h = 4 \<Longrightarrow> k < 16"
  shows "utf8_decode (of_nat (240 + h) # of_nat (128 + k) # of_nat (128 + m) # of_nat (128 + l) # bs) =
    (((h * 64 + k) * 64 + m) * 64 + l) # utf8_decode bs"
proof (rule utf8_decode_lead)
  let ?lo = "if h = 0 then 144 else 128 :: nat" and ?hi = "if h = 4 then 143 else 191 :: nat"
  have b: "unat (of_nat (240 + h) :: byte) = 240 + h" using assms(1) by (intro byte_nat) simp
  show "128 \<le> unat (of_nat (240 + h) :: byte)" unfolding b by simp
  show "utf8_lead (unat (of_nat (240 + h) :: byte)) = Some (Suc (Suc (Suc 0)), ?lo, ?hi, h)"
    unfolding b using assms(1) by (simp add: utf8_lead_def)
  show "utf8_tail (Suc (Suc (Suc 0))) ?lo ?hi h (of_nat (128 + k) # of_nat (128 + m) # of_nat (128 + l) # bs) =
      (((h * 64 + k) * 64 + m) * 64 + l, bs)"
  proof -
    have "?lo \<le> 128 + k" "128 + k \<le> ?hi" using assms by auto
    then have "utf8_tail (Suc (Suc (Suc 0))) ?lo ?hi h (of_nat (128 + k) # of_nat (128 + m) # of_nat (128 + l) # bs) =
        utf8_tail (Suc (Suc 0)) 128 191 (h * 64 + k) (of_nat (128 + m) # of_nat (128 + l) # bs)"
      by (rule utf8_tail_byte [OF cont_byte [OF assms(2)]])
    also have "\<dots> = utf8_tail (Suc 0) 128 191 ((h * 64 + k) * 64 + m) (of_nat (128 + l) # bs)"
      using assms(3) by (intro utf8_tail_byte cont_byte) simp_all
    also have "\<dots> = (((h * 64 + k) * 64 + m) * 64 + l, bs)"
      using assms(4) by (subst utf8_tail_byte [OF cont_byte]) simp_all
    finally show ?thesis .
  qed
qed

lemma div_sixes: "c div 4096 = c div 64 div (64::nat)" "c div 262144 = c div 64 div 64 div (64::nat)"
  by (simp_all add: div_mult2_eq)

lemma join_sixes:
  "(c div 4096 * 64 + c div 64 mod 64) * 64 + c mod 64 = (c :: nat)"
  "((c div 262144 * 64 + c div 4096 mod 64) * 64 + c div 64 mod 64) * 64 + c mod 64 = (c :: nat)"
  by (simp_all only: div_sixes div_mult_mod_eq)

lemma utf8_decode_char:
  assumes "scalar c"
  shows "utf8_decode (utf8_char c @ bs) = c # utf8_decode bs"
proof -
  from assms have c: "c < 1114112" "\<not> is_surrogate c" by (auto simp: scalar_def)
  let ?l = "c mod 64" and ?m = "c div 64 mod 64" and ?k = "c div 4096 mod 64"
  consider "c < 128" | "128 \<le> c" "c < 2048" | "2048 \<le> c" "c < 65536" | "65536 \<le> c" by linarith
  then show ?thesis
  proof cases
    case 1
    with c show ?thesis by (simp add: utf8_char_def)
  next
    case 2
    then have "2 \<le> c div 64" "c div 64 < 32" by linarith+
    then have "utf8_decode (of_nat (192 + c div 64) # of_nat (128 + ?l) # bs) = (c div 64 * 64 + ?l) # utf8_decode bs"
      by (intro utf8_decode_2) simp_all
    with 2 c show ?thesis by (simp add: utf8_char_def Let_def del: of_nat_add)
  next
    case 3
    have "c div 4096 < 16" using 3 by linarith
    moreover have "32 \<le> ?m" if "c div 4096 = 0"
    proof -
      from 3 that have "c div 64 < 64" "32 \<le> c div 64" by linarith+
      then show ?thesis by simp
    qed
    moreover have "?m < 32" if "c div 4096 = 13"
    proof -
      from c(2) that have "c < 55296" unfolding is_surrogate_def by linarith
      then have "c div 64 < 864" by linarith
      moreover have "c div 64 = 13 * 64 + ?m" using that div_mult_mod_eq [of "c div 64" 64] div_sixes(1) [of c] by linarith
      ultimately show ?thesis by linarith
    qed
    ultimately have "utf8_decode (of_nat (224 + c div 4096) # of_nat (128 + ?m) # of_nat (128 + ?l) # bs) =
        ((c div 4096 * 64 + ?m) * 64 + ?l) # utf8_decode bs"
      by (intro utf8_decode_3) simp_all
    then show ?thesis unfolding join_sixes using 3 c by (simp add: utf8_char_def Let_def del: of_nat_add)
  next
    case 4
    have "c div 262144 < 5" using c by linarith
    moreover have k: "c div 4096 = c div 262144 * 64 + ?k"
      using div_mult_mod_eq [of "c div 4096" 64] by (simp add: div_sixes)
    moreover have "16 \<le> ?k" if "c div 262144 = 0"
    proof -
      from 4 have "16 \<le> c div 4096" by linarith
      with k that show ?thesis by linarith
    qed
    moreover have "?k < 16" if "c div 262144 = 4"
    proof -
      from c(1) have "c div 4096 < 272" by linarith
      with k that show ?thesis by linarith
    qed
    ultimately have "utf8_decode (of_nat (240 + c div 262144) # of_nat (128 + ?k) # of_nat (128 + ?m) #
        of_nat (128 + ?l) # bs) = (((c div 262144 * 64 + ?k) * 64 + ?m) * 64 + ?l) # utf8_decode bs"
      by (intro utf8_decode_4) simp_all
    then show ?thesis unfolding join_sixes using 4 c by (simp add: utf8_char_def Let_def del: of_nat_add)
  qed
qed

lemma utf8_roundtrip: "list_all scalar t \<Longrightarrow> utf8_decode (utf8_encode t) = t"
  by (induction t) (simp_all add: utf8_encode_def utf8_decode_char del: utf8_decode.simps(2))

definition base64UrlEncode :: "nat list \<Rightarrow> string" where
  "base64UrlEncode data = base64UrlEncodeBytes (utf8_encode data)"

text \<open>\<open>TextDecoder\<close> drops a leading byte order mark, \<open>Buffer\<close> keeps it.\<close>

fun decode_text :: "platform \<Rightarrow> byte list \<Rightarrow> nat list" where
  "decode_text (Node other) bs = utf8_decode bs"
| "decode_text Browser bs = utf8_decode (if take 3 bs = [239, 187, 191] then drop 3 bs else bs)"

definition base64UrlDecode :: "platform \<Rightarrow> string \<Rightarrow> nat list option" where
  "base64UrlDecode pf token = map_option (decode_text pf) (base64UrlDecodeBytes pf token)"

lemma no_mark:
  assumes "list_all scalar t" "t = [] \<or> hd t \<noteq> 65279"
  shows "take 3 (utf8_encode t) \<noteq> [239, 187, 191]"
proof
  assume "take 3 (utf8_encode t) = [239, 187, 191]"
  then obtain r where "utf8_encode t = [239, 187, 191] @ r" by (metis append_take_drop_id)
  with utf8_decode_3 [of 15 59 63 r] have "utf8_decode (utf8_encode t) = 65279 # utf8_decode r" by simp
  with assms show False by (simp add: utf8_roundtrip)
qed

lemma base64Url_text_roundtrip:
  "list_all scalar t \<Longrightarrow> t = [] \<or> hd t \<noteq> 65279 \<Longrightarrow> base64UrlDecode pf (base64UrlEncode t) = Some t"
  by (cases pf) (simp_all add: base64UrlDecode_def base64UrlEncode_def base64Url_roundtrip utf8_roundtrip no_mark)

end
