(* ===== verification/SdkEnvelope.thy ===== *)
theory SdkEnvelope
  imports SdkCodec JsonText
begin

text \<open>
  \<open>sdk/src/serialization.ts\<close>, the envelope level: \<open>Base64URL(JSON.stringify(payload))\<close>. The
  text of a token made by other software may hold characters this development has no strings
  for; what \<open>JSON.parse\<close> gives there is the field \<open>parse_wide\<close> of the host.
\<close>

record host = json_engine +
  platform_of :: platform
  parse_wide :: "nat list \<Rightarrow> json option"

definition code_points :: "string \<Rightarrow> nat list" where
  "code_points s = map of_char s"

section \<open>JSON.stringify on live objects\<close>

text \<open>Fields that are \<open>undefined\<close> or functions are left out, such array entries become
  \<open>null\<close>; a bigint throws.\<close>

definition unset :: "json \<Rightarrow> bool" where
  "unset v \<longleftrightarrow> v = JUndefined \<or> v = JFunction"

fun drop_unset :: "json \<Rightarrow> json" where
  "drop_unset (JArr xs) = JArr (map (\<lambda>x. if unset x then JNull else drop_unset x) xs)"
| "drop_unset (JObj fs) = JObj (map (\<lambda>p. (fst p, drop_unset (snd p))) (filter (\<lambda>p. \<not> unset (snd p)) fs))"
| "drop_unset v = v"

fun has_bigint :: "json \<Rightarrow> bool" where
  "has_bigint (JBigint n) = True"
| "has_bigint (JArr xs) = list_ex has_bigint xs"
| "has_bigint (JObj fs) = list_ex (\<lambda>p. has_bigint (snd p)) fs"
| "has_bigint v = False"

definition serializeEnvelope :: "json \<Rightarrow> string result" where
  "serializeEnvelope payload =
     throw_if (has_bigint payload) ''Failed to serialize envelope: Do not know how to serialize a BigInt''
       (Inr (base64UrlEncode (code_points (stringify (drop_unset payload)))))"

definition parse_text :: "'z host_scheme \<Rightarrow> nat list \<Rightarrow> json option" where
  "parse_text h t =
     (if list_all (\<lambda>c. c < 256) t then json_parse (json_engine.truncate h) (map char_of t) else parse_wide h t)"

definition deserializeEnvelope :: "'z host_scheme \<Rightarrow> string \<Rightarrow> json result" where
  "deserializeEnvelope h token =
     require (case base64UrlDecode (platform_of h) token of None \<Rightarrow> None | Some t \<Rightarrow> parse_text h t)
       ''Failed to deserialize envelope''"

section \<open>Round trip\<close>

lemma textual_set: "textual v \<Longrightarrow> \<not> unset v"
  by (cases v) (auto simp: unset_def)

lemma textual_plain: "textual v \<Longrightarrow> drop_unset v = v \<and> \<not> has_bigint v"
proof (induction v rule: drop_unset.induct)
  case (1 xs)
  have "map (\<lambda>x. if unset x then JNull else drop_unset x) xs = xs"
    by (rule map_idI) (use 1 textual_set in \<open>auto simp: list_all_iff\<close>)
  with 1 textual_set show ?case by (auto simp: list_all_iff list_ex_iff)
next
  case (2 fs)
  have "filter (\<lambda>p. \<not> unset (snd p)) fs = fs"
    using 2 textual_set by (auto simp: filter_id_conv list_all_iff)
  moreover have "map (\<lambda>p. (fst p, drop_unset (snd p))) fs = fs"
    by (rule map_idI) (use 2 textual_set in \<open>auto simp: list_all_iff\<close>)
  ultimately show ?case using 2 textual_set by (auto simp: list_all_iff list_ex_iff)
qed simp_all

lemma char_code_bound: "(of_char c :: nat) < 256"
  using of_char_mod_256 [of c, where 'a = nat] by (metis mod_less_divisor zero_less_numeral)

lemma code_points_small: "c \<in> set (code_points s) \<Longrightarrow> c < 256"
  using char_code_bound by (auto simp: code_points_def)

lemma code_points_text:
  "list_all scalar (code_points s)" "list_all (\<lambda>c. c < 256) (code_points s)"
  "code_points s = [] \<or> hd (code_points s) \<noteq> 65279" "map char_of (code_points s) = s"
proof -
  have b: "c \<in> set (code_points s) \<Longrightarrow> c < 256" for c by (rule code_points_small)
  then show "list_all (\<lambda>c. c < 256) (code_points s)" by (simp add: list_all_iff)
  from b show "list_all scalar (code_points s)" by (fastforce simp: list_all_iff scalar_def is_surrogate_def)
  show "code_points s = [] \<or> hd (code_points s) \<noteq> 65279"
    using b [of "hd (code_points s)"] by (cases "code_points s") auto
  show "map char_of (code_points s) = s" by (simp add: code_points_def comp_def)
qed

theorem envelope_roundtrip:
  assumes "textual v"
  shows "serializeEnvelope v = Inr (base64UrlEncode (code_points (stringify v)))"
    "deserializeEnvelope h (base64UrlEncode (code_points (stringify v))) = Inr v"
  using textual_plain [OF assms]
  by (simp_all add: serializeEnvelope_def deserializeEnvelope_def parse_text_def code_points_text
      base64Url_text_roundtrip json_parse_stringify [OF assms])

end
