(* ===== verification/SdkAccess.thy ===== *)
theory SdkAccess
  imports SdkEnvelope JsDynamic
begin

text \<open>
  \<open>sdk/src/access.ts\<close>: access credentials, signed statements that the holder of a Paycard may
  use one service for one scope. A credential that was parsed has fields of any type, so the
  fields are \<open>json\<close> and a missing one is \<open>JUndefined\<close>. The functions of the \<open>ethers\<close> package
  are the fields of the record \<open>ethers\<close>; the locale \<open>ethers_laws\<close> has what its documentation
  promises.
\<close>

section \<open>ethers\<close>

record access_domain =
  ad_chainId :: json
  ad_verifyingContract :: json

record access_value =
  av_paycardId :: json
  av_metadataHash :: json
  av_mode :: json
  av_service :: json
  av_serviceOriginHash :: json
  av_scopeHash :: json
  av_issuedAt :: json
  av_expiresAt :: json
  av_nonce :: json

text \<open>\<open>keccak_text\<close> is \<open>keccak256(toUtf8Bytes(text))\<close>; \<open>recover\<close> is \<open>verifyTypedData\<close> with the
  access types, \<open>None\<close> when it throws; \<open>sign\<close> is what the wallet of an address signs.\<close>

record ethers =
  isAddress :: "json \<Rightarrow> bool"
  get_address :: "json \<Rightarrow> string option"
  is_bytes32 :: "json \<Rightarrow> bool"
  keccak_text :: "string \<Rightarrow> string"
  recover :: "access_domain \<Rightarrow> access_value \<Rightarrow> json \<Rightarrow> string option"

definition ZeroAddress :: string where
  "ZeroAddress = ''0x'' @ replicate 40 (CHR ''0'')"

definition ZeroHash :: string where
  "ZeroHash = ''0x'' @ replicate 64 (CHR ''0'')"

section \<open>Credentials\<close>

record access_credential =
  ac_version :: json
  ac_chainId :: json
  ac_vault :: json
  ac_paycardId :: json
  ac_metadataHash :: json
  ac_mode :: json
  ac_service :: json
  ac_serviceOriginHash :: json
  ac_scopeHash :: json
  ac_issuedAt :: json
  ac_expiresAt :: json
  ac_nonce :: json
  ac_signer :: json
  ac_signature :: json

record access_params =
  ap_chainId :: json
  ap_vault :: json
  ap_paycardId :: json
  ap_metadataHash :: json
  ap_mode :: json
  ap_service :: json
  ap_serviceOrigin :: string
  ap_scope :: string
  ap_issuedAt :: json
  ap_expiresAt :: json
  ap_nonce :: json

definition hashOpenRailsAccessText :: "'z ethers_scheme \<Rightarrow> string \<Rightarrow> string" where
  "hashOpenRailsAccessText et v = keccak_text et v"

definition buildOpenRailsAccessDomain :: "json \<Rightarrow> json \<Rightarrow> access_domain" where
  "buildOpenRailsAccessDomain chainId vault = \<lparr>ad_chainId = chainId, ad_verifyingContract = vault\<rparr>"

text \<open>\<open>random\<close> is \<open>hexlify(randomBytes(32))\<close>.\<close>

definition buildOpenRailsAccessValue :: "'z ethers_scheme \<Rightarrow> string \<Rightarrow> access_params \<Rightarrow> access_value" where
  "buildOpenRailsAccessValue et random p =
     \<lparr>av_paycardId = ap_paycardId p, av_metadataHash = ap_metadataHash p, av_mode = ap_mode p,
      av_service = ap_service p,
      av_serviceOriginHash = JStr (hashOpenRailsAccessText et (ap_serviceOrigin p)),
      av_scopeHash = JStr (hashOpenRailsAccessText et (ap_scope p)),
      av_issuedAt = ap_issuedAt p, av_expiresAt = ap_expiresAt p,
      av_nonce = (if is_nullish (ap_nonce p) then JStr random else ap_nonce p)\<rparr>"

text \<open>A non-zero address: \<open>!isAddress(v) || v === ZeroAddress\<close> is the code's test.\<close>

definition bad_address :: "'z ethers_scheme \<Rightarrow> json \<Rightarrow> bool" where
  "bad_address et v \<longleftrightarrow> \<not> isAddress et v \<or> same v (JStr ZeroAddress)"

definition validateAccessParams :: "coercions \<Rightarrow> 'z ethers_scheme \<Rightarrow> access_params \<Rightarrow> unit result" where
  "validateAccessParams co et p =
     throw_if (at_most co (ap_expiresAt p) (ap_issuedAt p))
       ''OpenRails access credential expiresAt must be after issuedAt''
    (throw_if (bad_address et (ap_vault p)) ''OpenRails access credential vault must be a non-zero address''
    (throw_if (bad_address et (ap_service p)) ''OpenRails access credential service must be a non-zero address''
    (throw_if (\<not> is_bytes32 et (ap_paycardId p)) ''OpenRails access credential paycardId must be bytes32''
    (throw_if (\<not> is_bytes32 et (ap_metadataHash p)) ''OpenRails access credential metadataHash must be bytes32''
    (Inr ())))))"

definition shape_params :: "access_credential \<Rightarrow> access_params" where
  "shape_params c =
     \<lparr>ap_chainId = ac_chainId c, ap_vault = ac_vault c, ap_paycardId = ac_paycardId c,
      ap_metadataHash = ac_metadataHash c, ap_mode = ac_mode c, ap_service = ac_service c,
      ap_serviceOrigin = ''shape-only'', ap_scope = ''shape-only'', ap_issuedAt = ac_issuedAt c,
      ap_expiresAt = ac_expiresAt c, ap_nonce = ac_nonce c\<rparr>"

definition validateAccessCredentialShape ::
    "coercions \<Rightarrow> 'z ethers_scheme \<Rightarrow> access_credential \<Rightarrow> unit result" where
  "validateAccessCredentialShape co et c =
     throw_if (\<not> same (ac_version c) (JStr ''openrails-access-v1''))
       ''Unsupported OpenRails access credential version''
    (thn (validateAccessParams co et (shape_params c))
    (throw_if (bad_address et (ac_signer c)) ''OpenRails access credential signer must be a non-zero address''
    (throw_if (\<not> is_bytes32 et (ac_nonce c)) ''OpenRails access credential nonce must be bytes32''
    (throw_if (\<not> is_bytes32 et (ac_serviceOriginHash c))
       ''OpenRails access credential serviceOriginHash must be bytes32''
    (throw_if (\<not> is_bytes32 et (ac_scopeHash c)) ''OpenRails access credential scopeHash must be bytes32''
    (Inr ()))))))"

text \<open>\<open>createOpenRailsAccessCredential\<close> for the wallet of \<open>addr\<close>; \<open>sign\<close> is its
  \<open>signTypedData\<close>.\<close>

definition createOpenRailsAccessCredential ::
    "coercions \<Rightarrow> 'z ethers_scheme \<Rightarrow> (access_domain \<Rightarrow> access_value \<Rightarrow> string) \<Rightarrow> string \<Rightarrow> string \<Rightarrow>
     access_params \<Rightarrow> access_credential result" where
  "createOpenRailsAccessCredential co et sign addr random p =
     thn (validateAccessParams co et p)
       (let v = buildOpenRailsAccessValue et random p;
            signature = sign (buildOpenRailsAccessDomain (ap_chainId p) (ap_vault p)) v in
        Inr \<lparr>ac_version = JStr ''openrails-access-v1'', ac_chainId = ap_chainId p, ac_vault = ap_vault p,
             ac_paycardId = ap_paycardId p, ac_metadataHash = ap_metadataHash p, ac_mode = ap_mode p,
             ac_service = ap_service p, ac_serviceOriginHash = av_serviceOriginHash v,
             ac_scopeHash = av_scopeHash v, ac_issuedAt = ap_issuedAt p, ac_expiresAt = ap_expiresAt p,
             ac_nonce = av_nonce v, ac_signer = JStr addr, ac_signature = JStr signature\<rparr>)"

section \<open>Tokens\<close>

definition credential_json :: "access_credential \<Rightarrow> json" where
  "credential_json c = JObj
     [(''version'', ac_version c), (''chainId'', ac_chainId c), (''vault'', ac_vault c),
      (''paycardId'', ac_paycardId c), (''metadataHash'', ac_metadataHash c), (''mode'', ac_mode c),
      (''service'', ac_service c), (''serviceOriginHash'', ac_serviceOriginHash c),
      (''scopeHash'', ac_scopeHash c), (''issuedAt'', ac_issuedAt c), (''expiresAt'', ac_expiresAt c),
      (''nonce'', ac_nonce c), (''signer'', ac_signer c), (''signature'', ac_signature c)]"

text \<open>The parsed value seen as a credential; reading a field of \<open>null\<close> throws.\<close>

definition credential_of :: "json \<Rightarrow> access_credential result" where
  "credential_of v =
     (if is_nullish v then Inl (Error ''Cannot read properties of null'')
      else Inr \<lparr>ac_version = opt_prop v ''version'', ac_chainId = opt_prop v ''chainId'',
        ac_vault = opt_prop v ''vault'', ac_paycardId = opt_prop v ''paycardId'',
        ac_metadataHash = opt_prop v ''metadataHash'', ac_mode = opt_prop v ''mode'',
        ac_service = opt_prop v ''service'', ac_serviceOriginHash = opt_prop v ''serviceOriginHash'',
        ac_scopeHash = opt_prop v ''scopeHash'', ac_issuedAt = opt_prop v ''issuedAt'',
        ac_expiresAt = opt_prop v ''expiresAt'', ac_nonce = opt_prop v ''nonce'',
        ac_signer = opt_prop v ''signer'', ac_signature = opt_prop v ''signature''\<rparr>)"

definition serializeOpenRailsAccessCredential ::
    "coercions \<Rightarrow> 'z ethers_scheme \<Rightarrow> access_credential \<Rightarrow> string result" where
  "serializeOpenRailsAccessCredential co et c =
     thn (validateAccessCredentialShape co et c) (serializeEnvelope (credential_json c))"

definition deserializeOpenRailsAccessCredential ::
    "coercions \<Rightarrow> 'z ethers_scheme \<Rightarrow> 'h host_scheme \<Rightarrow> string \<Rightarrow> access_credential result" where
  "deserializeOpenRailsAccessCredential co et h token =
     bnd (deserializeEnvelope h token) (\<lambda>v.
     bnd (credential_of v) (\<lambda>c.
     thn (validateAccessCredentialShape co et c) (Inr c)))"

section \<open>Verification\<close>

definition credential_value :: "access_credential \<Rightarrow> access_value" where
  "credential_value c =
     \<lparr>av_paycardId = ac_paycardId c, av_metadataHash = ac_metadataHash c, av_mode = ac_mode c,
      av_service = ac_service c, av_serviceOriginHash = ac_serviceOriginHash c,
      av_scopeHash = ac_scopeHash c, av_issuedAt = ac_issuedAt c, av_expiresAt = ac_expiresAt c,
      av_nonce = ac_nonce c\<rparr>"

definition credential_domain :: "access_credential \<Rightarrow> access_domain" where
  "credential_domain c = buildOpenRailsAccessDomain (ac_chainId c) (ac_vault c)"

text \<open>\<open>text.toLowerCase()\<close> throws on a value that is no string.\<close>

definition lower_of :: "json \<Rightarrow> string result" where
  "lower_of v = (case v of JStr s \<Rightarrow> Inr (lower s) | _ \<Rightarrow> Inl (Error ''toLowerCase is not a function''))"

definition given :: "string option \<Rightarrow> bool" where
  "given s \<longleftrightarrow> (case s of None \<Rightarrow> False | Some t \<Rightarrow> t \<noteq> [])"

text \<open>\<open>clock\<close> is \<open>Math.floor(Date.now() / 1000)\<close>.\<close>

definition verifyOpenRailsAccessCredential ::
    "coercions \<Rightarrow> 'z ethers_scheme \<Rightarrow> int \<Rightarrow> access_credential \<Rightarrow>
     string option \<Rightarrow> string option \<Rightarrow> int option \<Rightarrow> string result" where
  "verifyOpenRailsAccessCredential co et clock c expectedServiceOrigin expectedScope now_option =
     thn (validateAccessCredentialShape co et c)
    (let now = (case now_option of None \<Rightarrow> clock | Some n \<Rightarrow> n) in
     throw_if (at_most co (ac_expiresAt c) (JNum now)) ''OpenRails access credential expired''
    (throw_if (js_less co (JNum (now + 60)) (ac_issuedAt c)) ''OpenRails access credential issued in the future''
    (throw_if (given expectedServiceOrigin \<and>
        \<not> same (ac_serviceOriginHash c) (JStr (hashOpenRailsAccessText et (the expectedServiceOrigin))))
       ''OpenRails access credential service origin mismatch''
    (throw_if (given expectedScope \<and>
        \<not> same (ac_scopeHash c) (JStr (hashOpenRailsAccessText et (the expectedScope))))
       ''OpenRails access credential scope mismatch''
    (bnd (require (recover et (credential_domain c) (credential_value c) (ac_signature c))
       ''invalid typed data or signature'') (\<lambda>recovered.
     bnd (lower_of (ac_signer c)) (\<lambda>signer.
     throw_if (lower recovered \<noteq> signer) ''OpenRails access credential signer mismatch''
     (Inr recovered))))))))"

section \<open>Headers\<close>

definition access_headers :: "string \<Rightarrow> access_credential \<Rightarrow> json obj" where
  "access_headers token c =
     [(''Authorization'', JStr (''OpenRails '' @ token)), (''X-OpenRails-Credential-Type'', JStr ''access-v1''),
      (''X-OpenRails-Paycard-Id'', ac_paycardId c), (''X-OpenRails-Metadata-Hash'', ac_metadataHash c),
      (''X-OpenRails-Mode'', ac_mode c)]"

text \<open>The argument is a credential (\<open>Inr\<close>) or a token (\<open>Inl\<close>).\<close>

definition buildOpenRailsAccessHeaders ::
    "coercions \<Rightarrow> 'z ethers_scheme \<Rightarrow> 'h host_scheme \<Rightarrow> string + access_credential \<Rightarrow> json obj result" where
  "buildOpenRailsAccessHeaders co et h credential =
     (case credential of
        Inl token \<Rightarrow> bnd (deserializeOpenRailsAccessCredential co et h token) (\<lambda>c. Inr (access_headers token c))
      | Inr c \<Rightarrow> bnd (serializeOpenRailsAccessCredential co et c) (\<lambda>token. Inr (access_headers token c)))"

section \<open>Documented behaviour of ethers\<close>

text \<open>\<open>isAddress\<close> holds of texts \<open>getAddress\<close> takes, \<open>isHexString(v, 32)\<close> of non-empty texts, and
  a Keccak digest is one of those.\<close>

definition ethers_ok :: "'z ethers_scheme \<Rightarrow> bool" where
  "ethers_ok et \<longleftrightarrow>
     (\<forall>v. isAddress et v \<longrightarrow> (\<exists>s a. v = JStr s \<and> get_address et v = Some a)) \<and>
     (\<forall>v. is_bytes32 et v \<longrightarrow> (\<exists>s. v = JStr s \<and> s \<noteq> [])) \<and>
     (\<forall>t. is_bytes32 et (JStr (keccak_text et t)))"

section \<open>Tokens in headers\<close>

lemma replace_char_set: "c \<in> set (replace_char a b s) \<Longrightarrow> c \<in> set s \<or> c = b"
  by (auto simp: replace_char_def split: if_splits)

lemma token_untrimmed: "list_all (\<lambda>c. \<not> is_trim_space c) (base64UrlEncodeBytes bs)"
proof -
  have v: "is_trim_space c \<Longrightarrow> b64_value c = None" for c
    by (auto simp: is_trim_space_def b64_value_def is_upper_def is_lower_def is_digit_def code_in_def)
  have "\<not> is_trim_space c" if "c \<in> set (map b64_char (sextets bs))" for c
    using that v sextets_bound [of bs] by (fastforce simp: list_all_iff dest: b64_value_char)
  moreover have "\<not> is_trim_space CHR ''-''" "\<not> is_trim_space CHR ''_''"
    by (simp_all add: is_trim_space_def)
  ultimately show ?thesis
    by (auto simp: base64UrlEncodeBytes_def encodeBase64Bytes_pad list_all_iff dest!: replace_char_set)
qed

lemma trim_token: "trim (base64UrlEncode t) = base64UrlEncode t"
  unfolding base64UrlEncode_def by (rule trim_id [OF token_untrimmed])

section \<open>A created credential travels\<close>

definition plain_params :: "access_params \<Rightarrow> bool" where
  "plain_params p \<longleftrightarrow> textual (ap_chainId p) \<and> textual (ap_mode p) \<and> textual (ap_issuedAt p) \<and>
     textual (ap_expiresAt p)"

lemma validateAccessParams_iff:
  "validateAccessParams co et p = Inr () \<longleftrightarrow>
     \<not> at_most co (ap_expiresAt p) (ap_issuedAt p) \<and> \<not> bad_address et (ap_vault p) \<and>
     \<not> bad_address et (ap_service p) \<and> is_bytes32 et (ap_paycardId p) \<and> is_bytes32 et (ap_metadataHash p)"
  by (auto simp: validateAccessParams_def result_simps)

lemma shape_iff:
  "validateAccessCredentialShape co et c = Inr () \<longleftrightarrow>
     ac_version c = JStr ''openrails-access-v1'' \<and> validateAccessParams co et (shape_params c) = Inr () \<and>
     \<not> bad_address et (ac_signer c) \<and> is_bytes32 et (ac_nonce c) \<and> is_bytes32 et (ac_serviceOriginHash c) \<and>
     is_bytes32 et (ac_scopeHash c)"
  by (auto simp: validateAccessCredentialShape_def result_simps)

lemma credential_of_json: "credential_of (credential_json c) = Inr c"
  by (simp add: credential_of_def credential_json_def is_nullish_def opt_prop_def)

lemma created_shape:
  assumes "createOpenRailsAccessCredential co et sign addr random p = Inr c" "ethers_ok et"
    "\<not> bad_address et (JStr addr)" "is_bytes32 et (av_nonce (buildOpenRailsAccessValue et random p))"
  shows "validateAccessCredentialShape co et c = Inr ()"
  using assms
  by (auto simp: createOpenRailsAccessCredential_def result_simps Let_def shape_iff shape_params_def
      validateAccessParams_iff buildOpenRailsAccessValue_def ethers_ok_def hashOpenRailsAccessText_def)

lemma bytes32_textual: "ethers_ok et \<Longrightarrow> is_bytes32 et v \<Longrightarrow> textual v"
  by (auto simp: ethers_ok_def dest!: spec [of _ v])

lemma address_textual: "ethers_ok et \<Longrightarrow> \<not> bad_address et v \<Longrightarrow> textual v"
  by (auto simp: ethers_ok_def bad_address_def dest!: spec [of _ v])

lemma created_textual:
  assumes "createOpenRailsAccessCredential co et sign addr random p = Inr c" "ethers_ok et" "plain_params p"
    "validateAccessCredentialShape co et c = Inr ()"
  shows "textual (credential_json c)"
  using assms bytes32_textual [OF assms(2)] address_textual [OF assms(2)]
  by (auto simp: createOpenRailsAccessCredential_def result_simps Let_def credential_json_def plain_params_def
      shape_iff shape_params_def validateAccessParams_iff)

lemma created_token:
  assumes "createOpenRailsAccessCredential co et sign addr random p = Inr c" "ethers_ok et" "plain_params p"
    "validateAccessCredentialShape co et c = Inr ()"
  obtains t where "serializeOpenRailsAccessCredential co et c = Inr (base64UrlEncode t)"
    "deserializeOpenRailsAccessCredential co et h (base64UrlEncode t) = Inr c"
  using envelope_roundtrip(1) [OF created_textual [OF assms]]
    envelope_roundtrip(2) [OF created_textual [OF assms], of h] assms(4)
  by (intro that) (auto simp: serializeOpenRailsAccessCredential_def deserializeOpenRailsAccessCredential_def
      credential_of_json)

end
