(* ===== verification/SdkLinks.thy ===== *)
theory SdkLinks
  imports SdkAccess
begin

text \<open>
  \<open>sdk/src/links.ts\<close>: the compact link format, a byte string of fixed-width integers,
  addresses, digests and length-prefixed UTF-8 texts. Texts are lists of code points, numbers
  are integers (the code refuses others). The reader's \<open>offset\<close> into its buffer is the list of
  the bytes from there on. A link in the older JSON format is not modelled.

  Writer and reader of one kind of value form an interface, the locale \<open>wire\<close>: what was
  written is read back, up to a normal form, and nothing behind it is consumed.
\<close>

section \<open>Artifacts\<close>

type_synonym points = "nat list"

datatype link_kind = Link_railsflow | Link_railscard

datatype link_mode = Mode_railsflow | Mode_bearer | Mode_recipient_bound

record flow_link =
  fl_mode :: link_mode
  fl_merchant :: string
  fl_recipient :: string
  fl_amount :: points
  fl_flowVelocityPerSecond :: points
  fl_lifespanSeconds :: int
  fl_workflowId :: "points option"
  fl_metadataRef :: "points option"
  fl_descriptionHash :: "string option"
  fl_expiresAt :: "int option"

text \<open>The payload of a signed link and of a card differ only in \<open>claimHint\<close>.\<close>

datatype link_payload = Flow_payload flow_link | Envelope_payload link_mode points "points option"

record link_artifact =
  la_kind :: link_kind
  la_chainId :: int
  la_vault :: string
  la_token :: string
  la_metadataHash :: string
  la_payload :: link_payload

definition payload_mode :: "link_payload \<Rightarrow> link_mode" where
  "payload_mode pl = (case pl of Flow_payload f \<Rightarrow> fl_mode f | Envelope_payload m _ _ \<Rightarrow> m)"

definition validateOpenRailsLinkArtifact :: "'z ethers_scheme \<Rightarrow> link_artifact \<Rightarrow> unit result" where
  "validateOpenRailsLinkArtifact et a =
     throw_if (bad_address et (JStr (la_vault a))) ''OpenRails link vault must be a non-zero address''
    (throw_if (bad_address et (JStr (la_token a))) ''OpenRails link token must be a non-zero address''
    (throw_if (\<not> is_bytes32 et (JStr (la_metadataHash a))) ''OpenRails link metadataHash must be bytes32''
    (throw_if (la_chainId a \<le> 0) ''OpenRails link chainId must be a positive integer''
    (case la_kind a of
       Link_railsflow \<Rightarrow>
         throw_if (payload_mode (la_payload a) \<noteq> Mode_railsflow) ''RailsFlow link payload mode mismatch''
        (case la_payload a of
           Envelope_payload _ t _ \<Rightarrow> throw_if (t = []) ''Signed RailsFlow link requires an envelopeToken'' (Inr ())
         | Flow_payload f \<Rightarrow>
             throw_if (bad_address et (JStr (fl_merchant f))) ''RailsFlow merchant must be a non-zero address''
            (throw_if (bad_address et (JStr (fl_recipient f))) ''RailsFlow recipient must be a non-zero address''
            (Inr ())))
     | Link_railscard \<Rightarrow>
         throw_if (payload_mode (la_payload a) \<notin> {Mode_bearer, Mode_recipient_bound})
           ''RailsCard link payload mode mismatch''
        (throw_if (case la_payload a of Envelope_payload _ t _ \<Rightarrow> t = [] | _ \<Rightarrow> True)
           ''RailsCard link requires an envelopeToken'' (Inr ()))))))"

section \<open>Hexadecimal\<close>

definition strip_0x :: "string \<Rightarrow> string" where
  "strip_0x s = (if take 2 s = ''0x'' then drop 2 s else s)"

definition hex_digit_val :: "char \<Rightarrow> nat" where
  "hex_digit_val c = (let n = of_char c in if is_digit c then n - 48 else if code_in 97 102 c then n - 87 else n - 55)"

fun hex_pairs :: "string \<Rightarrow> byte list" where
  "hex_pairs (a # b # s) = of_nat (16 * hex_digit_val a + hex_digit_val b) # hex_pairs s"
| "hex_pairs _ = []"

definition hexToBytes :: "string \<Rightarrow> nat \<Rightarrow> byte list result" where
  "hexToBytes hex n =
     (let s = strip_0x hex in
      throw_if (length s \<noteq> 2 * n \<or> s = [] \<or> \<not> list_all is_hex_digit s)
        (''Expected '' @ int_str (int n) @ '' bytes hex value'') (Inr (hex_pairs s)))"

definition byte_hex :: "byte \<Rightarrow> string" where
  "byte_hex b = [hex_char (unat b div 16), hex_char (unat b mod 16)]"

definition bytesToHex :: "byte list \<Rightarrow> string" where
  "bytesToHex bs = ''0x'' @ concat (map byte_hex bs)"

section \<open>The writer\<close>

type_synonym 'a writer = "'a \<Rightarrow> byte list result"

definition cat :: "byte list result \<Rightarrow> byte list result \<Rightarrow> byte list result" where
  "cat m n = bnd m (\<lambda>x. bnd n (\<lambda>y. Inr (x @ y)))"

definition writeUint8 :: "int writer" where
  "writeUint8 v = throw_if (v < 0 \<or> 255 < v) ''uint8 out of range'' (Inr [word_of_int v])"

text \<open>Shifts of values the guard has bounded; none of them reaches the sign bit.\<close>

definition writeUint32 :: "int writer" where
  "writeUint32 v =
     throw_if (v < 0 \<or> 4294967295 < v) ''uint32 out of range''
       (Inr (map (\<lambda>shift. word_of_int (drop_bit shift v)) [24, 16, 8, 0]))"

definition writeUint64 :: "int writer" where
  "writeUint64 v =
     throw_if (v < 0 \<or> 18446744073709551615 < v) ''uint64 out of range''
       (Inr (map (\<lambda>shift. word_of_int (drop_bit shift v)) [56, 48, 40, 32, 24, 16, 8, 0]))"

definition writeAddress :: "'z ethers_scheme \<Rightarrow> string writer" where
  "writeAddress et v = bnd (require (get_address et (JStr v)) ''invalid address'') (\<lambda>a. hexToBytes a 20)"

definition writeBytes32 :: "string writer" where
  "writeBytes32 v = hexToBytes v 32"

definition writeString :: "points writer" where
  "writeString v =
     (let bs = utf8_encode v; n = length bs in
      throw_if (65535 < n) ''Compact string too long'' (Inr ([of_nat (n div 256), of_nat (n mod 256)] @ bs)))"

definition writeOptionalString :: "points option writer" where
  "writeOptionalString v =
     (case v of Some t \<Rightarrow> if t = [] then writeUint8 0 else cat (writeUint8 1) (writeString t) | None \<Rightarrow> writeUint8 0)"

definition writeOptionalBytes32 :: "string option writer" where
  "writeOptionalBytes32 v =
     (case v of Some t \<Rightarrow> if t = [] then writeUint8 0 else cat (writeUint8 1) (writeBytes32 t) | None \<Rightarrow> writeUint8 0)"

definition writeOptionalUint64 :: "int option writer" where
  "writeOptionalUint64 v = (case v of Some n \<Rightarrow> cat (writeUint8 1) (writeUint64 n) | None \<Rightarrow> writeUint8 0)"

section \<open>The reader\<close>

type_synonym 'a reader = "byte list \<Rightarrow> ('a \<times> byte list) result"

definition rbind :: "'a reader \<Rightarrow> ('a \<Rightarrow> 'b reader) \<Rightarrow> 'b reader" where
  "rbind m f bs = bnd (m bs) (\<lambda>(v, rest). f v rest)"

definition rreturn :: "'a \<Rightarrow> 'a reader" where
  "rreturn v bs = Inr (v, bs)"

definition readBytes :: "nat \<Rightarrow> byte list reader" where
  "readBytes n bs = throw_if (length bs < n) ''Malformed compact OpenRails link payload'' (Inr (take n bs, drop n bs))"

definition readUint8 :: "int reader" where
  "readUint8 = rbind (readBytes 1) (\<lambda>b. rreturn (uint (b ! 0)))"

definition readUint32 :: "int reader" where
  "readUint32 = rbind (readBytes 4) (\<lambda>b. rreturn
     (uint (b ! 0) * 16777216 + push_bit 16 (uint (b ! 1)) + push_bit 8 (uint (b ! 2)) + uint (b ! 3)))"

definition readUint64 :: "int reader" where
  "readUint64 = rbind (readBytes 8) (\<lambda>b. rreturn (foldl (\<lambda>acc x. acc * 256 + uint x) 0 b))"

definition readAddress :: "'z ethers_scheme \<Rightarrow> string reader" where
  "readAddress et = rbind (readBytes 20) (\<lambda>b bs.
     bnd (require (get_address et (JStr (bytesToHex b))) ''invalid address'') (\<lambda>a. Inr (a, bs)))"

definition readBytes32 :: "string reader" where
  "readBytes32 = rbind (readBytes 32) (\<lambda>b. rreturn (bytesToHex b))"

text \<open>\<open>TextDecoder\<close> drops a leading byte order mark.\<close>

definition readString :: "points reader" where
  "readString = rbind (readBytes 2) (\<lambda>l. rbind (readBytes (unat (l ! 0) * 256 + unat (l ! 1))) (\<lambda>b.
     rreturn (decode_text Browser b)))"

definition read_optional :: "'a reader \<Rightarrow> 'a option reader" where
  "read_optional rd = rbind readUint8 (\<lambda>flag. if flag = 1 then rbind rd (\<lambda>v. rreturn (Some v)) else rreturn None)"

definition readOptionalString :: "points option reader" where
  "readOptionalString = read_optional readString"

definition readOptionalBytes32 :: "string option reader" where
  "readOptionalBytes32 = read_optional readBytes32"

definition readOptionalNumber :: "int option reader" where
  "readOptionalNumber = read_optional (rbind readUint64 (\<lambda>v. rreturn (dbl v)))"

section \<open>Links\<close>

definition is_flow_profile :: "link_artifact \<Rightarrow> bool" where
  "is_flow_profile a \<longleftrightarrow> la_kind a = Link_railsflow \<and> (case la_payload a of Flow_payload _ \<Rightarrow> True | _ \<Rightarrow> False)"

definition selectCompactProfile :: "link_artifact \<Rightarrow> string" where
  "selectCompactProfile a = (if is_flow_profile a then ''f'' else ''c'')"

definition writeCommonArtifact :: "'z ethers_scheme \<Rightarrow> link_artifact writer" where
  "writeCommonArtifact et a =
     cat (writeUint32 (la_chainId a)) (cat (writeAddress et (la_vault a))
       (cat (writeAddress et (la_token a)) (writeBytes32 (la_metadataHash a))))"

definition readCommonArtifact :: "'z ethers_scheme \<Rightarrow> (int \<times> string \<times> string \<times> string) reader" where
  "readCommonArtifact et =
     rbind readUint32 (\<lambda>c. rbind (readAddress et) (\<lambda>v. rbind (readAddress et) (\<lambda>t.
     rbind readBytes32 (\<lambda>m. rreturn (c, v, t, m)))))"

definition write_flow :: "'z ethers_scheme \<Rightarrow> flow_link writer" where
  "write_flow et f =
     cat (writeAddress et (fl_merchant f)) (cat (writeAddress et (fl_recipient f))
       (cat (writeString (fl_amount f)) (cat (writeString (fl_flowVelocityPerSecond f))
       (cat (writeUint64 (fl_lifespanSeconds f)) (cat (writeOptionalString (fl_metadataRef f))
       (cat (writeOptionalBytes32 (fl_descriptionHash f)) (cat (writeOptionalUint64 (fl_expiresAt f))
       (writeOptionalString (fl_workflowId f)))))))))"

definition read_flow :: "'z ethers_scheme \<Rightarrow> flow_link reader" where
  "read_flow et =
     rbind (readAddress et) (\<lambda>m. rbind (readAddress et) (\<lambda>r. rbind readString (\<lambda>a. rbind readString (\<lambda>v.
     rbind (rbind readUint64 (\<lambda>n. rreturn (dbl n))) (\<lambda>l. rbind readOptionalString (\<lambda>ref.
     rbind readOptionalBytes32 (\<lambda>d. rbind readOptionalNumber (\<lambda>x. rbind readOptionalString (\<lambda>w.
     rreturn \<lparr>fl_mode = Mode_railsflow, fl_merchant = m, fl_recipient = r, fl_amount = a,
       fl_flowVelocityPerSecond = v, fl_lifespanSeconds = l, fl_workflowId = w, fl_metadataRef = ref,
       fl_descriptionHash = d, fl_expiresAt = x\<rparr>)))))))))"

definition kindMode :: "link_kind \<Rightarrow> link_mode \<Rightarrow> int" where
  "kindMode k m = (if k = Link_railsflow then 0 else if m = Mode_bearer then 1 else 2)"

definition claim_artifact ::
    "(int \<times> string \<times> string \<times> string) \<Rightarrow> int \<Rightarrow> points \<Rightarrow> points option \<Rightarrow> link_artifact result" where
  "claim_artifact common k t hint =
     (let (c, v, tk, m) = common;
          make = (\<lambda>kind pl. \<lparr>la_kind = kind, la_chainId = c, la_vault = v, la_token = tk, la_metadataHash = m,
            la_payload = pl\<rparr>) in
      if k = 0 then Inr (make Link_railsflow (Envelope_payload Mode_railsflow t None))
      else if k = 1 \<or> k = 2 then
        Inr (make Link_railscard (Envelope_payload (if k = 1 then Mode_bearer else Mode_recipient_bound) t hint))
      else Inl (Error ''Unknown compact OpenRails claim mode''))"

definition artifact_bytes :: "'z ethers_scheme \<Rightarrow> link_artifact \<Rightarrow> byte list result" where
  "artifact_bytes et a =
     cat (writeCommonArtifact et a)
       (case la_payload a of
          Flow_payload f \<Rightarrow> write_flow et f
        | Envelope_payload m t hint \<Rightarrow>
            cat (writeUint8 (kindMode (la_kind a) m)) (cat (writeString t) (writeOptionalString hint)))"

text \<open>A validated artifact has no flow payload outside the flow profile.\<close>

definition serializeCompactOpenRailsLinkArtifact :: "'z ethers_scheme \<Rightarrow> link_artifact \<Rightarrow> string result" where
  "serializeCompactOpenRailsLinkArtifact et a =
     thn (validateOpenRailsLinkArtifact et a)
       (bnd (artifact_bytes et a) (\<lambda>bs.
        Inr (''orc1:'' @ selectCompactProfile a @ ''.'' @ base64UrlEncodeBytes bs)))"

definition read_artifact :: "'z ethers_scheme \<Rightarrow> string \<Rightarrow> link_artifact reader" where
  "read_artifact et profile =
     rbind (readCommonArtifact et) (\<lambda>common.
       if profile = ''f'' then
         rbind (read_flow et) (\<lambda>f. let (c, v, t, m) = common in
           rreturn \<lparr>la_kind = Link_railsflow, la_chainId = c, la_vault = v, la_token = t, la_metadataHash = m,
             la_payload = Flow_payload f\<rparr>)
       else
         rbind readUint8 (\<lambda>k. rbind readString (\<lambda>t. rbind readOptionalString (\<lambda>hint bs.
           bnd (claim_artifact common k t hint) (\<lambda>a. Inr (a, bs))))))"

definition deserializeCompactOpenRailsLinkArtifact ::
    "'z ethers_scheme \<Rightarrow> platform \<Rightarrow> string \<Rightarrow> link_artifact result" where
  "deserializeCompactOpenRailsLinkArtifact et pf token =
     throw_if (take 5 token \<noteq> ''orc1:'') ''Unsupported compact OpenRails link prefix''
    (let body = drop 5 token; profile = takeWhile (\<lambda>c. c \<noteq> CHR ''.'') body in
     throw_if (length profile = length body \<or> profile = []) ''Malformed compact OpenRails link token''
    (throw_if (profile \<noteq> ''f'' \<and> profile \<noteq> ''c'') ''Unknown compact OpenRails link profile''
    (bnd (require (base64UrlDecodeBytes pf (drop (Suc (length profile)) body)) ''invalid character'') (\<lambda>bs.
     bnd (read_artifact et profile bs) (\<lambda>(a, rest).
     throw_if (rest \<noteq> []) ''Compact OpenRails link has trailing bytes''
    (thn (validateOpenRailsLinkArtifact et a) (Inr a)))))))"

section \<open>Reading what was written\<close>

lemma cat_Inr_iff [result_simps]: "cat m n = Inr bs \<longleftrightarrow> (\<exists>x y. m = Inr x \<and> n = Inr y \<and> bs = x @ y)"
  by (auto simp: cat_def result_simps)

locale wire =
  fixes put :: "'a writer" and get :: "'a reader" and norm :: "'a \<Rightarrow> 'a"
  assumes reads_back: "put v = Inr bs \<Longrightarrow> get (bs @ rest) = Inr (norm v, rest)"
begin

lemma reads_all: "put v = Inr bs \<Longrightarrow> get bs = Inr (norm v, [])"
  using reads_back [of v bs "[]"] by simp

lemma then_read: "put v = Inr bs \<Longrightarrow> rbind get f (bs @ rest) = f (norm v) rest"
  by (simp add: rbind_def reads_back)

end

lemma readBytes_append: "length x = n \<Longrightarrow> readBytes n (x @ rest) = Inr (x, rest)"
  by (simp add: readBytes_def)

interpretation wire_uint8: wire writeUint8 readUint8 id
  by unfold_locales
    (auto simp: writeUint8_def readUint8_def rbind_def rreturn_def result_simps readBytes_def
      take_bit_int_eq_self uint_word_of_int_eq)

lemma uint_byte_of: "uint (word_of_int (drop_bit k v) :: byte) = v div 2 ^ k mod 256"
  by (simp add: uint_word_of_int_eq take_bit_eq_mod drop_bit_eq_div)

lemma big_endian:
  "foldl (\<lambda>acc x. acc * 256 + uint x) (v div 2 ^ (8 * n))
    (map (\<lambda>i. word_of_int (drop_bit (8 * i) v) :: byte) (rev [0..<n])) = (v :: int)"
proof (induction n)
  case (Suc n)
  have "2 ^ (8 * Suc n) = 2 ^ (8 * n) * (256 :: int)" by (simp add: power_add)
  then have "v div 2 ^ (8 * Suc n) = v div 2 ^ (8 * n) div 256"
    using zdiv_zmult2_eq [of 256 v "2 ^ (8 * n)"] by simp
  then have "v div 2 ^ (8 * Suc n) * 256 + uint (word_of_int (drop_bit (8 * n) v) :: byte) = v div 2 ^ (8 * n)"
    by (simp only: uint_byte_of div_mult_mod_eq)
  with Suc.IH show ?case by simp
qed simp

lemma shifts4: "[24, 16, 8, 0] = map (\<lambda>i. 8 * i) (rev [0..<(4::nat)])"
  and shifts8: "[56, 48, 40, 32, 24, 16, 8, 0] = map (\<lambda>i. 8 * i) (rev [0..<(8::nat)])"
  by (simp_all add: upt_rec)

lemma be_bytes4:
  assumes "0 \<le> v" "v \<le> 4294967295"
  shows "foldl (\<lambda>acc x. acc * 256 + uint x) 0 (map (\<lambda>shift. word_of_int (drop_bit shift v) :: byte) [24, 16, 8, 0]) = (v :: int)"
  using big_endian [of v 4] assms unfolding shifts4 by (simp add: comp_def)

lemma be_bytes8:
  assumes "0 \<le> v" "v \<le> 18446744073709551615"
  shows "foldl (\<lambda>acc x. acc * 256 + uint x) 0
    (map (\<lambda>shift. word_of_int (drop_bit shift v) :: byte) [56, 48, 40, 32, 24, 16, 8, 0]) = (v :: int)"
  using big_endian [of v 8] assms unfolding shifts8 by (simp add: comp_def)

interpretation wire_uint32: wire writeUint32 readUint32 id
proof
  fix v bs rest
  assume "writeUint32 v = Inr bs"
  then have v: "0 \<le> v" "v \<le> 4294967295"
    and bs: "bs = map (\<lambda>shift. word_of_int (drop_bit shift v)) [24, 16, 8, 0]"
    by (auto simp: writeUint32_def result_simps)
  show "readUint32 (bs @ rest) = Inr (id v, rest)"
    using be_bytes4 [OF v] unfolding readUint32_def rbind_def bs
    by (subst readBytes_append) (simp_all add: rreturn_def push_bit_eq_mult algebra_simps)
qed

interpretation wire_uint64: wire writeUint64 readUint64 id
proof
  fix v bs rest
  assume "writeUint64 v = Inr bs"
  then have v: "0 \<le> v" "v \<le> 18446744073709551615"
    and bs: "bs = map (\<lambda>shift. word_of_int (drop_bit shift v)) [56, 48, 40, 32, 24, 16, 8, 0]"
    by (auto simp: writeUint64_def result_simps)
  have "readBytes 8 (bs @ rest) = Inr (bs, rest)" by (rule readBytes_append) (simp add: bs)
  then show "readUint64 (bs @ rest) = Inr (id v, rest)"
    using be_bytes8 [OF v] by (simp only: readUint64_def rbind_def bs bnd_simps prod.case rreturn_def id_apply)
qed

subsection \<open>Digests, texts, addresses\<close>

text \<open>What a digest and a text become on the way.\<close>

definition norm_hex :: "string \<Rightarrow> string" where
  "norm_hex v = ''0x'' @ lower (strip_0x v)"

definition norm_text :: "points \<Rightarrow> points" where
  "norm_text t = decode_text Browser (utf8_encode t)"

lemma hex_digit_val_bound: "is_hex_digit c \<Longrightarrow> hex_digit_val c < 16"
  by (auto simp: is_hex_digit_def hex_digit_val_def is_digit_def code_in_def Let_def)

lemma hex_char_val:
  assumes "is_hex_digit c"
  shows "hex_char (hex_digit_val c) = lower_char c"
proof -
  let ?n = "of_char c :: nat"
  from assms consider "48 \<le> ?n" "?n \<le> 57" | "97 \<le> ?n" "?n \<le> 102" | "65 \<le> ?n" "?n \<le> 70"
    by (auto simp: is_hex_digit_def is_digit_def code_in_def)
  then show ?thesis
  proof cases
    case 1
    then have "hex_digit_val c = ?n - 48" "?n - 48 < 10" "48 + (?n - 48) = ?n" "\<not> is_upper c"
      by (auto simp: hex_digit_val_def is_digit_def is_upper_def code_in_def)
    then show ?thesis by (simp only: hex_char_def lower_char_def if_True if_False) simp
  next
    case 2
    then have "hex_digit_val c = ?n - 87" "\<not> ?n - 87 < 10" "87 + (?n - 87) = ?n" "\<not> is_upper c"
      by (auto simp: hex_digit_val_def is_digit_def is_upper_def code_in_def)
    then show ?thesis by (simp only: hex_char_def lower_char_def if_True if_False) simp
  next
    case 3
    then have "hex_digit_val c = ?n - 55" "\<not> ?n - 55 < 10" "87 + (?n - 55) = ?n + 32" "is_upper c"
      by (auto simp: hex_digit_val_def is_digit_def is_upper_def code_in_def)
    then show ?thesis by (simp only: hex_char_def lower_char_def if_True if_False)
  qed
qed

lemma byte_hex_pair:
  "is_hex_digit a \<Longrightarrow> is_hex_digit b \<Longrightarrow>
    byte_hex (of_nat (16 * hex_digit_val a + hex_digit_val b)) = [lower_char a, lower_char b]"
proof -
  assume ab: "is_hex_digit a" "is_hex_digit b"
  then have "16 * hex_digit_val a + hex_digit_val b < 256"
    using hex_digit_val_bound [of a] hex_digit_val_bound [of b] by linarith
  then have "unat (of_nat (16 * hex_digit_val a + hex_digit_val b) :: byte) = 16 * hex_digit_val a + hex_digit_val b"
    by (rule byte_nat)
  moreover have "hex_digit_val b < 16" by (rule hex_digit_val_bound [OF ab(2)])
  ultimately show ?thesis using ab by (simp only: byte_hex_def hex_char_val) (simp add: hex_char_val)
qed

lemma hex_pairs_text: "even (length s) \<Longrightarrow> list_all is_hex_digit s \<Longrightarrow>
    concat (map byte_hex (hex_pairs s)) = lower s \<and> length (hex_pairs s) = length s div 2"
  by (induction s rule: hex_pairs.induct) (simp_all add: byte_hex_pair lower_def del: of_nat_add of_nat_mult)

lemma hexToBytes_back: "hexToBytes v n = Inr bs \<Longrightarrow> length bs = n \<and> bytesToHex bs = norm_hex v"
  using hex_pairs_text [of "strip_0x v"]
  by (auto simp: hexToBytes_def result_simps Let_def bytesToHex_def norm_hex_def)

interpretation wire_bytes32: wire writeBytes32 readBytes32 norm_hex
proof
  fix v bs rest
  assume "writeBytes32 v = Inr bs"
  then have "length bs = 32" "bytesToHex bs = norm_hex v" by (auto simp: writeBytes32_def dest: hexToBytes_back)
  then show "readBytes32 (bs @ rest) = Inr (norm_hex v, rest)"
    by (simp add: readBytes32_def rbind_def rreturn_def readBytes_append)
qed

interpretation wire_string: wire writeString readString norm_text
proof
  fix v bs rest
  assume "writeString v = Inr bs"
  then have n: "length (utf8_encode v) \<le> 65535"
    and bs: "bs = [of_nat (length (utf8_encode v) div 256), of_nat (length (utf8_encode v) mod 256)] @ utf8_encode v"
    by (auto simp: writeString_def result_simps Let_def)
  let ?n = "length (utf8_encode v)"
  have "?n div 256 < 256" using n by linarith
  then have l: "unat (of_nat (?n div 256) :: byte) * 256 + unat (of_nat (?n mod 256) :: byte) = ?n"
    by (simp only: byte_nat mod_less_divisor zero_less_numeral div_mult_mod_eq)
  have "readBytes 2 (bs @ rest) = Inr ([of_nat (?n div 256), of_nat (?n mod 256)], utf8_encode v @ rest)"
    unfolding bs by (simp add: readBytes_def)
  moreover have "readBytes ?n (utf8_encode v @ rest) = Inr (utf8_encode v, rest)" by (rule readBytes_append) simp
  ultimately show "readString (bs @ rest) = Inr (norm_text v, rest)"
    using l by (simp add: readString_def rbind_def rreturn_def norm_text_def)
qed

interpretation wire_number: wire writeUint64 "rbind readUint64 (\<lambda>n. rreturn (dbl n))" dbl
proof
  fix v bs rest
  assume "writeUint64 v = Inr bs"
  then show "rbind readUint64 (\<lambda>n. rreturn (dbl n)) (bs @ rest) = Inr (dbl v, rest)"
    by (simp add: wire_uint64.then_read rreturn_def)
qed

text \<open>\<open>getAddress\<close> returns the checksummed form, which it takes back in either case of its
  letters.\<close>

definition addresses_ok :: "'z ethers_scheme \<Rightarrow> bool" where
  "addresses_ok et \<longleftrightarrow>
     (\<forall>v. isAddress et v \<longrightarrow> (\<exists>s a. v = JStr s \<and> get_address et v = Some a)) \<and>
     (\<forall>v a. get_address et v = Some a \<longrightarrow>
        hex_of_length 40 a \<and> isAddress et (JStr a) \<and> get_address et (JStr (norm_hex a)) = Some a)"

definition checksum :: "'z ethers_scheme \<Rightarrow> string \<Rightarrow> string" where
  "checksum et v = (case get_address et (JStr v) of Some a \<Rightarrow> a | None \<Rightarrow> v)"

lemma wire_address: "addresses_ok et \<Longrightarrow> wire (writeAddress et) (readAddress et) (checksum et)"
proof
  fix v bs rest
  assume et: "addresses_ok et" and "writeAddress et v = Inr bs"
  then obtain a where a: "get_address et (JStr v) = Some a" "hexToBytes a 20 = Inr bs"
    by (auto simp: writeAddress_def result_simps)
  then have "length bs = 20" "bytesToHex bs = norm_hex a" by (auto dest: hexToBytes_back)
  moreover have "get_address et (JStr (norm_hex a)) = Some a" using et a(1) by (simp add: addresses_ok_def)
  ultimately show "readAddress et (bs @ rest) = Inr (checksum et v, rest)"
    using a(1) by (simp add: readAddress_def rbind_def readBytes_append checksum_def)
qed

subsection \<open>Optional values\<close>

definition norm_option :: "('a \<Rightarrow> bool) \<Rightarrow> ('a \<Rightarrow> 'a) \<Rightarrow> 'a option \<Rightarrow> 'a option" where
  "norm_option absent f v = (case v of Some x \<Rightarrow> if absent x then None else Some (f x) | None \<Rightarrow> None)"

definition write_optional :: "('a \<Rightarrow> bool) \<Rightarrow> 'a writer \<Rightarrow> 'a option writer" where
  "write_optional absent put v =
     (case v of Some x \<Rightarrow> if absent x then writeUint8 0 else cat (writeUint8 1) (put x) | None \<Rightarrow> writeUint8 0)"

context wire
begin

lemma optional: "wire (write_optional absent put) (read_optional get) (norm_option absent norm)"
proof
  fix v bs rest
  assume w: "write_optional absent put v = Inr bs"
  show "read_optional get (bs @ rest) = Inr (norm_option absent norm v, rest)"
  proof (cases "norm_option absent norm v")
    case None
    with w have "writeUint8 0 = Inr bs"
      by (auto simp: write_optional_def norm_option_def split: option.splits if_splits)
    with None show ?thesis by (simp add: read_optional_def wire_uint8.then_read rreturn_def)
  next
    case (Some y)
    with w obtain x b1 b2 where x: "v = Some x" "\<not> absent x" "writeUint8 1 = Inr b1" "put x = Inr b2" "bs = b1 @ b2"
      by (auto simp: write_optional_def norm_option_def result_simps split: option.splits if_splits)
    then show ?thesis
      by (simp add: read_optional_def wire_uint8.then_read then_read rreturn_def norm_option_def)
  qed
qed

end

lemma write_optional_eqs:
  "writeOptionalString = write_optional (\<lambda>t. t = []) writeString"
  "writeOptionalBytes32 = write_optional (\<lambda>t. t = []) writeBytes32"
  "writeOptionalUint64 = write_optional (\<lambda>_. False) writeUint64"
  by (auto simp: fun_eq_iff writeOptionalString_def writeOptionalBytes32_def writeOptionalUint64_def
      write_optional_def split: option.splits)

interpretation wire_opt_string: wire writeOptionalString readOptionalString "norm_option (\<lambda>t. t = []) norm_text"
  unfolding write_optional_eqs readOptionalString_def by (rule wire_string.optional)

interpretation wire_opt_bytes32: wire writeOptionalBytes32 readOptionalBytes32 "norm_option (\<lambda>t. t = []) norm_hex"
  unfolding write_optional_eqs readOptionalBytes32_def by (rule wire_bytes32.optional)

interpretation wire_opt_number: wire writeOptionalUint64 readOptionalNumber "norm_option (\<lambda>_. False) dbl"
  unfolding write_optional_eqs readOptionalNumber_def by (rule wire_number.optional)

subsection \<open>Artifacts\<close>

text \<open>The normal form of a link: checksummed addresses, lower-case digests, no empty option.\<close>

abbreviation drop_empty :: "('b list \<Rightarrow> 'b list) \<Rightarrow> 'b list option \<Rightarrow> 'b list option" where
  "drop_empty f \<equiv> norm_option (\<lambda>t. t = []) f"

definition normal_flow :: "'z ethers_scheme \<Rightarrow> flow_link \<Rightarrow> flow_link" where
  "normal_flow et f =
     \<lparr>fl_mode = Mode_railsflow, fl_merchant = checksum et (fl_merchant f), fl_recipient = checksum et (fl_recipient f),
      fl_amount = norm_text (fl_amount f), fl_flowVelocityPerSecond = norm_text (fl_flowVelocityPerSecond f),
      fl_lifespanSeconds = dbl (fl_lifespanSeconds f), fl_workflowId = drop_empty norm_text (fl_workflowId f),
      fl_metadataRef = drop_empty norm_text (fl_metadataRef f),
      fl_descriptionHash = drop_empty norm_hex (fl_descriptionHash f),
      fl_expiresAt = norm_option (\<lambda>_. False) dbl (fl_expiresAt f)\<rparr>"

definition normal_artifact :: "'z ethers_scheme \<Rightarrow> link_artifact \<Rightarrow> link_artifact" where
  "normal_artifact et a =
     \<lparr>la_kind = la_kind a, la_chainId = la_chainId a, la_vault = checksum et (la_vault a),
      la_token = checksum et (la_token a), la_metadataHash = norm_hex (la_metadataHash a),
      la_payload = (case la_payload a of
          Flow_payload f \<Rightarrow> Flow_payload (normal_flow et f)
        | Envelope_payload m t hint \<Rightarrow> Envelope_payload m (norm_text t)
            (if la_kind a = Link_railsflow then None else drop_empty norm_text hint))\<rparr>"

lemma common_back:
  assumes "addresses_ok et" "writeCommonArtifact et a = Inr bs"
  shows "readCommonArtifact et (bs @ rest) =
    Inr ((la_chainId a, checksum et (la_vault a), checksum et (la_token a), norm_hex (la_metadataHash a)), rest)"
  using assms(2)
  by (auto simp: writeCommonArtifact_def readCommonArtifact_def result_simps rreturn_def
      wire_uint32.then_read wire.then_read [OF wire_address [OF assms(1)]] wire_bytes32.then_read)

lemma flow_back:
  assumes "addresses_ok et" "write_flow et f = Inr bs"
  shows "read_flow et (bs @ rest) = Inr (normal_flow et f, rest)"
  using assms(2)
  by (auto simp: write_flow_def read_flow_def normal_flow_def result_simps rreturn_def
      wire.then_read [OF wire_address [OF assms(1)]] wire_string.then_read wire_number.then_read
      wire_opt_string.then_read wire_opt_bytes32.then_read wire_opt_number.then_read)

lemma validated_modes:
  assumes "validateOpenRailsLinkArtifact et a = Inr ()"
  shows "la_kind a = Link_railsflow \<Longrightarrow> payload_mode (la_payload a) = Mode_railsflow"
    "la_kind a = Link_railscard \<Longrightarrow> \<exists>m t hint. la_payload a = Envelope_payload m t hint \<and> m \<in> {Mode_bearer, Mode_recipient_bound}"
  using assms
  by (auto simp: validateOpenRailsLinkArtifact_def result_simps payload_mode_def
      split: link_kind.splits link_payload.splits)

lemma artifact_back:
  assumes et: "addresses_ok et" and v: "validateOpenRailsLinkArtifact et a = Inr ()"
    and w: "artifact_bytes et a = Inr bs"
  shows "read_artifact et (selectCompactProfile a) bs = Inr (normal_artifact et a, [])"
proof -
  from w obtain b1 b2 where b1: "writeCommonArtifact et a = Inr b1" and bs: "bs = b1 @ b2"
    and b2: "(case la_payload a of Flow_payload f \<Rightarrow> write_flow et f
      | Envelope_payload m t hint \<Rightarrow>
          cat (writeUint8 (kindMode (la_kind a) m)) (cat (writeString t) (writeOptionalString hint))) = Inr b2"
    by (auto simp: artifact_bytes_def result_simps)
  note head = common_back [OF et b1, of b2]
  show ?thesis
  proof (cases "la_payload a")
    case (Flow_payload f)
    then have k: "la_kind a = Link_railsflow" using validated_modes(2) [OF v] by (cases "la_kind a") auto
    from Flow_payload b2 have "read_flow et (b2 @ []) = Inr (normal_flow et f, [])"
      by (intro flow_back [OF et]) simp
    with head Flow_payload k show ?thesis
      by (simp add: read_artifact_def selectCompactProfile_def is_flow_profile_def rbind_def bs rreturn_def
          normal_artifact_def)
  next
    case (Envelope_payload m t hint)
    with b2 obtain x y z where xyz: "writeUint8 (kindMode (la_kind a) m) = Inr x" "writeString t = Inr y"
      "writeOptionalString hint = Inr z" "b2 = x @ y @ z"
      by (auto simp: result_simps)
    have k: "la_kind a = Link_railsflow \<and> m = Mode_railsflow \<or> la_kind a = Link_railscard \<and> m \<in> {Mode_bearer, Mode_recipient_bound}"
      using validated_modes [OF v] Envelope_payload by (cases "la_kind a") (auto simp: payload_mode_def)
    have "read_artifact et ''c'' bs = bnd (claim_artifact (la_chainId a, checksum et (la_vault a), checksum et (la_token a),
        norm_hex (la_metadataHash a)) (kindMode (la_kind a) m) (norm_text t) (drop_empty norm_text hint)) (\<lambda>a. Inr (a, []))"
      using head wire_opt_string.reads_all [OF xyz(3)]
      by (simp add: read_artifact_def bs xyz(4) rbind_def wire_uint8.reads_back [OF xyz(1)]
          wire_string.reads_back [OF xyz(2)])
    then show ?thesis
      using k Envelope_payload
      by (auto simp: selectCompactProfile_def is_flow_profile_def claim_artifact_def kindMode_def normal_artifact_def)
  qed
qed

section \<open>Tokens\<close>

text \<open>Texts the decoder leaves alone, and integers a double holds.\<close>

definition plain_text :: "points \<Rightarrow> bool" where
  "plain_text t \<longleftrightarrow> list_all scalar t \<and> (t = [] \<or> hd t \<noteq> 65279)"

definition plain_link :: "link_artifact \<Rightarrow> bool" where
  "plain_link a \<longleftrightarrow>
     (case la_payload a of
        Flow_payload f \<Rightarrow>
          plain_text (fl_amount f) \<and> plain_text (fl_flowVelocityPerSecond f) \<and>
          pred_option plain_text (fl_workflowId f) \<and> pred_option plain_text (fl_metadataRef f) \<and>
          isSafeInteger (fl_lifespanSeconds f) \<and> pred_option isSafeInteger (fl_expiresAt f)
      | Envelope_payload m t hint \<Rightarrow> plain_text t \<and> pred_option plain_text hint)"

text \<open>No address of the link is the zero address in another spelling.\<close>

definition nonzero_link :: "'z ethers_scheme \<Rightarrow> link_artifact \<Rightarrow> bool" where
  "nonzero_link et a \<longleftrightarrow>
     checksum et (la_vault a) \<noteq> ZeroAddress \<and> checksum et (la_token a) \<noteq> ZeroAddress \<and>
     (case la_payload a of
        Flow_payload f \<Rightarrow> checksum et (fl_merchant f) \<noteq> ZeroAddress \<and> checksum et (fl_recipient f) \<noteq> ZeroAddress
      | _ \<Rightarrow> True)"

text \<open>\<open>isHexString(v, 32)\<close>.\<close>

definition digests_ok :: "'z ethers_scheme \<Rightarrow> bool" where
  "digests_ok et \<longleftrightarrow> (\<forall>v. is_bytes32 et v \<longleftrightarrow> (\<exists>s. v = JStr s \<and> hex_of_length 64 s))"

lemma norm_text_plain: "plain_text t \<Longrightarrow> norm_text t = t"
  by (simp add: norm_text_def plain_text_def utf8_roundtrip no_mark)

lemma checksum_valid:
  assumes "addresses_ok et" "isAddress et (JStr v)"
  shows "isAddress et (JStr (checksum et v))"
proof -
  from assms obtain a where "get_address et (JStr v) = Some a" unfolding addresses_ok_def by blast
  with assms(1) show ?thesis unfolding addresses_ok_def checksum_def by simp
qed

lemma good_checksum:
  "addresses_ok et \<Longrightarrow> \<not> bad_address et (JStr v) \<Longrightarrow> checksum et v \<noteq> ZeroAddress \<Longrightarrow>
    \<not> bad_address et (JStr (checksum et v))"
  by (simp add: bad_address_def checksum_valid)

lemma is_hex_lower: "is_hex_digit c \<Longrightarrow> is_hex_digit (lower_char c)"
  by (auto simp: is_hex_digit_def is_digit_def lower_char_def is_upper_def code_in_def of_char_lower)

lemma norm_hex_bytes32: "hex_of_length 64 s \<Longrightarrow> hex_of_length 64 (norm_hex s)"
  by (auto simp: hex_of_length_def norm_hex_def strip_0x_def lower_def list_all_iff is_hex_lower)

lemma normal_valid:
  assumes et: "addresses_ok et" "digests_ok et" and v: "validateOpenRailsLinkArtifact et a = Inr ()"
    and nz: "nonzero_link et a" and pl: "plain_link a"
  shows "validateOpenRailsLinkArtifact et (normal_artifact et a) = Inr ()"
proof -
  from v have "\<not> bad_address et (JStr (la_vault a))" "\<not> bad_address et (JStr (la_token a))"
    "is_bytes32 et (JStr (la_metadataHash a))" "\<not> la_chainId a \<le> 0"
    by (auto simp: validateOpenRailsLinkArtifact_def result_simps)
  moreover have "is_bytes32 et (JStr (norm_hex (la_metadataHash a)))"
    using et(2) calculation(3) norm_hex_bytes32 unfolding digests_ok_def by blast
  ultimately show ?thesis
    using v nz pl good_checksum [OF et(1)] norm_text_plain
    by (auto simp: validateOpenRailsLinkArtifact_def normal_artifact_def normal_flow_def nonzero_link_def
        plain_link_def payload_mode_def result_simps split: link_kind.splits link_payload.splits)
qed

lemma profile_cases: "selectCompactProfile a = ''f'' \<or> selectCompactProfile a = ''c''"
  by (simp add: selectCompactProfile_def)

lemma compact_roundtrip:
  assumes et: "addresses_ok et" "digests_ok et"
    and ser: "serializeCompactOpenRailsLinkArtifact et a = Inr token"
    and nz: "nonzero_link et a" and pl: "plain_link a"
  shows "deserializeCompactOpenRailsLinkArtifact et pf token = Inr (normal_artifact et a)"
proof -
  let ?p = "selectCompactProfile a"
  from ser obtain bs where v: "validateOpenRailsLinkArtifact et a = Inr ()" and w: "artifact_bytes et a = Inr bs"
    and t: "token = ''orc1:'' @ ?p @ ''.'' @ base64UrlEncodeBytes bs"
    by (auto simp: serializeCompactOpenRailsLinkArtifact_def result_simps)
  have "read_artifact et ?p bs = Inr (normal_artifact et a, [])" by (rule artifact_back [OF et(1) v w])
  moreover have "validateOpenRailsLinkArtifact et (normal_artifact et a) = Inr ()"
    by (rule normal_valid [OF et v nz pl])
  moreover have "takeWhile (\<lambda>c. c \<noteq> CHR ''.'') (?p @ ''.'' @ base64UrlEncodeBytes bs) = ?p"
    using profile_cases [of a] by auto
  ultimately show ?thesis
    using profile_cases [of a]
    by (auto simp: deserializeCompactOpenRailsLinkArtifact_def t base64Url_roundtrip)
qed

text \<open>On a plain link the normal form only rewrites the spelling of addresses and digests.\<close>

lemma normal_flow_plain:
  assumes "plain_link a" "la_payload a = Flow_payload f"
  shows "fl_amount (normal_flow et f) = fl_amount f"
    "fl_flowVelocityPerSecond (normal_flow et f) = fl_flowVelocityPerSecond f"
    "fl_lifespanSeconds (normal_flow et f) = fl_lifespanSeconds f" "fl_expiresAt (normal_flow et f) = fl_expiresAt f"
  using assms
  by (cases "fl_expiresAt f"; simp add: plain_link_def normal_flow_def norm_text_plain dbl_exact norm_option_def)+

end
