(* ===== verification/SdkRecovery.thy ===== *)
theory SdkRecovery
  imports SdkAccess
begin

text \<open>
  \<open>sdk/src/wallet.ts\<close>: finding the Paycards of a payer or recipient in the logs of the Vault,
  newest first, in chunks of blocks. The provider's answers are the record \<open>vault_node\<close>: the
  height of the chain, the logs of a block range with the topics the code asks for (already
  decoded, \<open>None\<close> for a log the interface does not know) and the registry row of a Paycard.
\<close>

section \<open>Data\<close>

datatype operational_status = Card_Active | Card_Terminated

record paycard_view =
  pv_payer :: string
  pv_recipient :: string
  pv_metadataHash :: string
  pv_totalAllocationPool :: int
  pv_availableBalance :: int
  pv_flowVelocityPerSecond :: int
  pv_genesisTimestamp :: int
  pv_lifespanSeconds :: int
  pv_lastCheckpointEpoch :: int
  pv_residualDeltaRecipient :: string
  pv_operationalStatus :: operational_status

record raw_row =
  rr_payer :: string
  rr_recipient :: string
  rr_metadataHash :: string
  rr_totalAllocationPool :: int
  rr_availableBalance :: int
  rr_flowVelocityPerSecond :: int
  rr_genesisTimestamp :: int
  rr_lifespanSeconds :: int
  rr_lastCheckpointEpoch :: int
  rr_residualDeltaRecipient :: string
  rr_operationalStatus :: int

record provisioned_args =
  pa_paycardId :: string
  pa_payer :: string
  pa_recipient :: string
  pa_metadataHash :: string
  pa_poolAllocation :: int
  pa_flowVelocityPerSecond :: int
  pa_genesisTimestamp :: int
  pa_lifespanSeconds :: int

record vault_log =
  vl_parsed :: "(string \<times> provisioned_args) option"
  vl_blockNumber :: int
  vl_transactionHash :: string
  vl_index :: int

record provisioning =
  pr_args :: provisioned_args
  pr_blockNumber :: int
  pr_transactionHash :: string
  pr_logIndex :: int

record recovered_card =
  rc_paycardId :: string
  rc_registry :: paycard_view
  rc_provisioned :: provisioning

record recover_options =
  ro_payer :: "string option"
  ro_recipient :: "string option"
  ro_metadataHash :: "string option"
  ro_fromBlock :: "int option"
  ro_toBlock :: "int option"
  ro_limit :: "int option"
  ro_chunkSize :: "int option"

record vault_node =
  vn_height :: int
  vn_logs :: "string option \<Rightarrow> string option \<Rightarrow> int \<Rightarrow> int \<Rightarrow> vault_log list result"
  vn_registry :: "string \<Rightarrow> raw_row result"

section \<open>Reading a row\<close>

definition readPaycard :: "vault_node \<Rightarrow> string \<Rightarrow> paycard_view result" where
  "readPaycard node paycardId =
     bnd (vn_registry node paycardId) (\<lambda>r. Inr
       \<lparr>pv_payer = rr_payer r, pv_recipient = rr_recipient r, pv_metadataHash = rr_metadataHash r,
        pv_totalAllocationPool = rr_totalAllocationPool r, pv_availableBalance = rr_availableBalance r,
        pv_flowVelocityPerSecond = rr_flowVelocityPerSecond r, pv_genesisTimestamp = dbl (rr_genesisTimestamp r),
        pv_lifespanSeconds = dbl (rr_lifespanSeconds r), pv_lastCheckpointEpoch = dbl (rr_lastCheckpointEpoch r),
        pv_residualDeltaRecipient = rr_residualDeltaRecipient r,
        pv_operationalStatus = (if rr_operationalStatus r = 0 then Card_Active else Card_Terminated)\<rparr>)"

text \<open>\<open>zeroPadValue(getAddress(address), 32)\<close>; an empty address asks for any.\<close>

definition encodeAddressTopic :: "'z ethers_scheme \<Rightarrow> string option \<Rightarrow> string option result" where
  "encodeAddressTopic et address =
     (if \<not> given address then Inr None
      else bnd (require (get_address et (JStr (the address))) ''invalid address'') (\<lambda>a.
        Inr (Some (''0x'' @ replicate 24 (CHR ''0'') @ drop 2 a))))"

definition assertRecoveryAddress :: "'z ethers_scheme \<Rightarrow> string option \<Rightarrow> string \<Rightarrow> unit result" where
  "assertRecoveryAddress et address name =
     throw_if (case address of None \<Rightarrow> False | Some a \<Rightarrow> \<not> isAddress et (JStr a)) (name @ '' must be an EVM address'')
       (Inr ())"

section \<open>The scan\<close>

type_synonym found = "recovered_card list \<times> string set"

definition provisioning_of :: "provisioned_args \<Rightarrow> vault_log \<Rightarrow> provisioning" where
  "provisioning_of args l =
     \<lparr>pr_args = args\<lparr>pa_genesisTimestamp := dbl (pa_genesisTimestamp args),
        pa_lifespanSeconds := dbl (pa_lifespanSeconds args)\<rparr>,
      pr_blockNumber = vl_blockNumber l, pr_transactionHash = vl_transactionHash l, pr_logIndex = vl_index l\<rparr>"

text \<open>One log, after the test of the limit. \<open>wanted\<close> is the lower-cased metadata filter.\<close>

definition take_log :: "vault_node \<Rightarrow> string option \<Rightarrow> vault_log \<Rightarrow> found \<Rightarrow> found result" where
  "take_log node wanted l st =
     (case vl_parsed l of
        None \<Rightarrow> Inr st
      | Some (event, args) \<Rightarrow>
          if event \<noteq> ''PaycardProvisioned'' then Inr st
          else if given wanted \<and> lower (pa_metadataHash args) \<noteq> the wanted then Inr st
          else
            let paycardKey = lower (pa_paycardId args) in
            if paycardKey \<in> snd st then Inr st
            else bnd (readPaycard node (pa_paycardId args)) (\<lambda>registry.
              if pv_payer registry = ZeroAddress then Inr st
              else Inr (fst st @ [\<lparr>rc_paycardId = pa_paycardId args, rc_registry = registry,
                rc_provisioned = provisioning_of args l\<rparr>], insert paycardKey (snd st))))"

fun scan_logs :: "vault_node \<Rightarrow> string option \<Rightarrow> int \<Rightarrow> vault_log list \<Rightarrow> found \<Rightarrow> found result" where
  "scan_logs node wanted limit [] st = Inr st"
| "scan_logs node wanted limit (l # ls) st =
     (if limit \<le> int (length (fst st)) then Inr st
      else bnd (take_log node wanted l st) (scan_logs node wanted limit ls))"

text \<open>The chunks, from the newest; \<open>chunkSize\<close> is positive.\<close>

function scan_chunks ::
    "vault_node \<Rightarrow> string option \<Rightarrow> string option \<Rightarrow> string option \<Rightarrow> int \<Rightarrow> int \<Rightarrow> int \<Rightarrow> int \<Rightarrow> found \<Rightarrow> found result" where
  "scan_chunks node payer recipient wanted limit chunkSize fromBlock chunkTo st =
     (if chunkTo < fromBlock \<or> limit \<le> int (length (fst st)) \<or> chunkSize \<le> 0 then Inr st
      else
        let chunkFrom = max fromBlock (chunkTo - chunkSize + 1) in
        bnd (vn_logs node payer recipient chunkFrom chunkTo) (\<lambda>logs.
        bnd (scan_logs node wanted limit (rev logs) st) (\<lambda>st'.
          if chunkFrom = fromBlock then Inr st'
          else scan_chunks node payer recipient wanted limit chunkSize fromBlock (chunkFrom - 1) st')))"
  by pat_completeness auto
termination
  by (relation "measure (\<lambda>(_, _, _, _, _, _, f, t, _). nat (t - f + 1))") auto

declare scan_chunks.simps [simp del]

definition opt_or :: "int option \<Rightarrow> int \<Rightarrow> int" where
  "opt_or v d = (case v of None \<Rightarrow> d | Some n \<Rightarrow> n)"

definition recoverPaycardsFromLogs ::
    "'z ethers_scheme \<Rightarrow> vault_node \<Rightarrow> string \<Rightarrow> recover_options \<Rightarrow> recovered_card list result" where
  "recoverPaycardsFromLogs et node hub opt =
     throw_if (\<not> isAddress et (JStr hub)) ''hubAddress must be an EVM address''
    (thn (assertRecoveryAddress et (ro_payer opt) ''payer'')
    (thn (assertRecoveryAddress et (ro_recipient opt) ''recipient'')
    (throw_if (\<not> given (ro_payer opt) \<and> \<not> given (ro_recipient opt)) ''payer or recipient is required''
    (throw_if (given (ro_metadataHash opt) \<and> \<not> is_bytes32 et (JStr (the (ro_metadataHash opt))))
       ''metadataHash must be a bytes32 hex string''
    (let fromBlock = opt_or (ro_fromBlock opt) 0; toBlock = opt_or (ro_toBlock opt) (vn_height node);
         limit = opt_or (ro_limit opt) 25; chunkSize = opt_or (ro_chunkSize opt) 5000 in
     throw_if (fromBlock < 0) ''fromBlock must be a non-negative integer''
    (throw_if (toBlock < fromBlock) ''toBlock must be an integer greater than or equal to fromBlock''
    (throw_if (limit \<le> 0) ''limit must be a positive integer''
    (throw_if (chunkSize \<le> 0) ''chunkSize must be a positive integer''
    (if min toBlock (vn_height node) < fromBlock then Inr []
     else
       bnd (encodeAddressTopic et (ro_payer opt)) (\<lambda>payer.
       bnd (encodeAddressTopic et (ro_recipient opt)) (\<lambda>recipient.
       bnd (scan_chunks node payer recipient (map_option lower (ro_metadataHash opt)) limit chunkSize fromBlock
         (min toBlock (vn_height node)) ([], {})) (\<lambda>st. Inr (fst st)))))))))))))"

section \<open>One chunk or many\<close>

text \<open>The logs of a longer range are those of its parts.\<close>

definition logs_split :: "vault_node \<Rightarrow> bool" where
  "logs_split node \<longleftrightarrow>
     (\<forall>p r a b c xs ys. a \<le> b \<longrightarrow> b < c \<longrightarrow> vn_logs node p r a b = Inr xs \<longrightarrow> vn_logs node p r (b + 1) c = Inr ys \<longrightarrow>
        vn_logs node p r a c = Inr (xs @ ys))"

lemma scan_logs_full: "limit \<le> int (length (fst st)) \<Longrightarrow> scan_logs node wanted limit ls st = Inr st"
  by (cases ls) simp_all

lemma scan_logs_append:
  "scan_logs node wanted limit (xs @ ys) st =
    bnd (scan_logs node wanted limit xs st) (scan_logs node wanted limit ys)"
proof (induction xs arbitrary: st)
  case (Cons l xs)
  then show ?case
    by (cases "take_log node wanted l st") (simp_all add: scan_logs_full)
qed simp

text \<open>Every chunk answers: then the chunked scan is the scan of the whole range at once.\<close>

lemma scan_chunks_whole:
  assumes split: "logs_split node" and answers: "\<And>a b. a \<le> b \<Longrightarrow> \<exists>xs. vn_logs node payer recipient a b = Inr xs"
    and size: "0 < chunkSize" and range: "fromBlock \<le> chunkTo"
    and logs: "vn_logs node payer recipient fromBlock chunkTo = Inr xs"
  shows "scan_chunks node payer recipient wanted limit chunkSize fromBlock chunkTo st =
    scan_logs node wanted limit (rev xs) st"
  using range logs
proof (induction "nat (chunkTo - fromBlock)" arbitrary: chunkTo st xs rule: less_induct)
  case less
  define f where "f = max fromBlock (chunkTo - chunkSize + 1)"
  show ?case
  proof (cases "limit \<le> int (length (fst st))")
    case True
    then show ?thesis by (subst scan_chunks.simps) (simp add: scan_logs_full)
  next
    case False
    have le: "f \<le> chunkTo" "fromBlock \<le> f" using size less.prems(1) by (simp_all add: f_def)
    obtain ys where ys: "vn_logs node payer recipient f chunkTo = Inr ys" using answers [OF le(1)] by blast
    have unfold: "scan_chunks node payer recipient wanted limit chunkSize fromBlock chunkTo st =
      bnd (scan_logs node wanted limit (rev ys) st) (\<lambda>st'. if f = fromBlock then Inr st'
          else scan_chunks node payer recipient wanted limit chunkSize fromBlock (f - 1) st')"
      using False size less.prems(1) ys by (subst scan_chunks.simps) (simp add: Let_def flip: f_def)
    show ?thesis
    proof (cases "f = fromBlock")
      case True
      with ys less.prems(2) unfold show ?thesis by (simp add: bnd_Inr_right)
    next
      case other: False
      have le': "fromBlock \<le> f - 1" using other le by simp
      obtain zs where zs: "vn_logs node payer recipient fromBlock (f - 1) = Inr zs" using answers [OF le'] by blast
      have "vn_logs node payer recipient (f - 1 + 1) chunkTo = Inr ys" "f - 1 < chunkTo" using ys le by simp_all
      then have "vn_logs node payer recipient fromBlock chunkTo = Inr (zs @ ys)"
        using split le' zs unfolding logs_split_def by blast
      with less.prems(2) have xs: "xs = zs @ ys" by simp
      have "scan_chunks node payer recipient wanted limit chunkSize fromBlock (f - 1) st' =
          scan_logs node wanted limit (rev zs) st'" for st'
        by (rule less.hyps [OF _ le' zs]) (use le le' in simp)
      with unfold other show ?thesis by (simp add: xs scan_logs_append)
    qed
  qed
qed

section \<open>What is found\<close>

text \<open>The answer, without the scan: of the logs newest first, those of the event, with the wanted
  metadata and a live row; of each Paycard the first; of these as many as asked for.\<close>

definition candidate :: "vault_node \<Rightarrow> string option \<Rightarrow> vault_log \<Rightarrow> recovered_card option" where
  "candidate node wanted l =
     (case vl_parsed l of
        None \<Rightarrow> None
      | Some (event, args) \<Rightarrow>
          if event = ''PaycardProvisioned'' \<and> (given wanted \<longrightarrow> lower (pa_metadataHash args) = the wanted)
          then (case readPaycard node (pa_paycardId args) of
              Inl _ \<Rightarrow> None
            | Inr registry \<Rightarrow> if pv_payer registry = ZeroAddress then None
                else Some \<lparr>rc_paycardId = pa_paycardId args, rc_registry = registry,
                  rc_provisioned = provisioning_of args l\<rparr>)
          else None)"

fun first_of_each :: "string set \<Rightarrow> recovered_card list \<Rightarrow> recovered_card list" where
  "first_of_each seen [] = []"
| "first_of_each seen (c # cs) =
     (if lower (rc_paycardId c) \<in> seen then first_of_each seen cs
      else c # first_of_each (insert (lower (rc_paycardId c)) seen) cs)"

fun candidates :: "vault_node \<Rightarrow> string option \<Rightarrow> vault_log list \<Rightarrow> recovered_card list" where
  "candidates node wanted [] = []"
| "candidates node wanted (l # ls) =
     (case candidate node wanted l of None \<Rightarrow> [] | Some c \<Rightarrow> [c]) @ candidates node wanted ls"

definition rows_answer :: "vault_node \<Rightarrow> bool" where
  "rows_answer node \<longleftrightarrow> (\<forall>i. \<exists>r. vn_registry node i = Inr r)"

lemma readPaycard_answers: "rows_answer node \<Longrightarrow> \<exists>r. readPaycard node i = Inr r"
proof -
  assume "rows_answer node"
  then obtain r where "vn_registry node i = Inr r" unfolding rows_answer_def by blast
  then show ?thesis by (simp add: readPaycard_def)
qed

lemma take_log_candidate:
  assumes "rows_answer node"
  shows "take_log node wanted l (acc, seen) = Inr
    (case candidate node wanted l of
       None \<Rightarrow> (acc, seen)
     | Some c \<Rightarrow> if lower (rc_paycardId c) \<in> seen then (acc, seen)
         else (acc @ [c], insert (lower (rc_paycardId c)) seen))"
proof (cases "vl_parsed l")
  case (Some p)
  obtain event args where p: "p = (event, args)" by (cases p)
  obtain r where r: "readPaycard node (pa_paycardId args) = Inr r" using readPaycard_answers [OF assms] by blast
  show ?thesis using Some p r by (simp add: take_log_def candidate_def Let_def)
qed (simp add: take_log_def candidate_def)

lemma scan_logs_found:
  assumes "rows_answer node" "int (length acc) \<le> limit"
  shows "\<exists>seen'. scan_logs node wanted limit ls (acc, seen) =
    Inr (acc @ take (nat (limit - int (length acc))) (first_of_each seen (candidates node wanted ls)), seen')"
  using assms(2)
proof (induction ls arbitrary: acc seen)
  case (Cons l ls)
  show ?case
  proof (cases "limit \<le> int (length acc)")
    case True
    with Cons.prems show ?thesis by (auto simp: scan_logs_full)
  next
    case False
    show ?thesis
    proof (cases "candidate node wanted l")
      case None
      with False Cons.IH [OF Cons.prems, of seen] show ?thesis
        by (simp add: take_log_candidate [OF assms(1)])
    next
      case (Some c)
      show ?thesis
      proof (cases "lower (rc_paycardId c) \<in> seen")
        case True
        with Some False Cons.IH [OF Cons.prems, of seen] show ?thesis
          by (simp add: take_log_candidate [OF assms(1)])
      next
        case fresh: False
        have "int (length (acc @ [c])) \<le> limit" using False by simp
        moreover have "nat (limit - int (length acc)) = Suc (nat (limit - int (length (acc @ [c]))))"
          using False by simp
        ultimately show ?thesis
          using Some False fresh Cons.IH [of "acc @ [c]" "insert (lower (rc_paycardId c)) seen"]
          by (simp add: take_log_candidate [OF assms(1)])
      qed
    qed
  qed
qed simp

lemma first_of_each_unseen: "c \<in> set (first_of_each seen cs) \<Longrightarrow> lower (rc_paycardId c) \<notin> seen \<and> c \<in> set cs"
proof (induction cs arbitrary: seen)
  case (Cons d ds)
  then show ?case by (cases "lower (rc_paycardId d) \<in> seen") auto
qed simp

lemma first_of_each_distinct: "distinct (map (\<lambda>c. lower (rc_paycardId c)) (first_of_each seen cs))"
proof (induction cs arbitrary: seen)
  case (Cons d ds)
  have "lower (rc_paycardId d) \<notin> (\<lambda>c. lower (rc_paycardId c)) ` set (first_of_each (insert (lower (rc_paycardId d)) seen) ds)"
    using first_of_each_unseen [of _ "insert (lower (rc_paycardId d)) seen" ds] by (metis image_iff insertI1)
  with Cons.IH show ?case by simp
qed simp

lemma first_of_each_covers:
  "c \<in> set cs \<Longrightarrow> lower (rc_paycardId c) \<in> seen \<union> (\<lambda>c. lower (rc_paycardId c)) ` set (first_of_each seen cs)"
proof (induction cs arbitrary: seen)
  case (Cons d ds)
  show ?case
  proof (cases "c = d")
    case False
    with Cons.prems have "c \<in> set ds" by simp
    with Cons.IH [of seen] Cons.IH [of "insert (lower (rc_paycardId d)) seen"] show ?thesis
      by (cases "lower (rc_paycardId d) \<in> seen") (simp_all add: disj_ac)
  qed simp
qed simp

lemma set_candidates: "c \<in> set (candidates node wanted ls) \<longleftrightarrow> (\<exists>l \<in> set ls. candidate node wanted l = Some c)"
  by (induction ls) (auto split: option.splits)

text \<open>The whole recovery: for a chain whose logs and rows answer, the chunk size does not matter, and the
  answer is the newest live provisioning of each Paycard.\<close>

definition requested :: "'z ethers_scheme \<Rightarrow> vault_node \<Rightarrow> recover_options \<Rightarrow> vault_log list result" where
  "requested et node opt =
     bnd (encodeAddressTopic et (ro_payer opt)) (\<lambda>payer.
     bnd (encodeAddressTopic et (ro_recipient opt)) (\<lambda>recipient.
       vn_logs node payer recipient (opt_or (ro_fromBlock opt) 0)
         (min (opt_or (ro_toBlock opt) (vn_height node)) (vn_height node))))"

definition logs_answer :: "vault_node \<Rightarrow> bool" where
  "logs_answer node \<longleftrightarrow> (\<forall>p r a b. a \<le> b \<longrightarrow> (\<exists>xs. vn_logs node p r a b = Inr xs))"

theorem recovery_whole:
  assumes node: "logs_split node" "logs_answer node" "rows_answer node"
    and answer: "recoverPaycardsFromLogs et node hub opt = Inr cards"
    and logs: "requested et node opt = Inr logs"
    and range: "opt_or (ro_fromBlock opt) 0 \<le> min (opt_or (ro_toBlock opt) (vn_height node)) (vn_height node)"
  shows "cards = take (nat (opt_or (ro_limit opt) 25))
    (first_of_each {} (candidates node (map_option lower (ro_metadataHash opt)) (rev logs)))"
proof -
  let ?from = "opt_or (ro_fromBlock opt) 0"
  let ?to = "min (opt_or (ro_toBlock opt) (vn_height node)) (vn_height node)"
  let ?wanted = "map_option lower (ro_metadataHash opt)"
  let ?limit = "opt_or (ro_limit opt) 25" and ?size = "opt_or (ro_chunkSize opt) 5000"
  obtain p r where p: "encodeAddressTopic et (ro_payer opt) = Inr p" "encodeAddressTopic et (ro_recipient opt) = Inr r"
    and l: "vn_logs node p r ?from ?to = Inr logs"
    using logs unfolding requested_def by (auto simp: result_simps)
  have pos: "0 < ?limit" "0 < ?size"
    and scan: "bnd (scan_chunks node p r ?wanted ?limit ?size ?from ?to ([], {})) (\<lambda>st. Inr (fst st)) = Inr cards"
    using answer p range unfolding recoverPaycardsFromLogs_def Let_def
    by (auto simp: result_simps)
  have "scan_chunks node p r ?wanted ?limit ?size ?from ?to ([], {}) = scan_logs node ?wanted ?limit (rev logs) ([], {})"
    using node(2) by (intro scan_chunks_whole [OF node(1) _ pos(2) range l]) (auto simp: logs_answer_def)
  moreover obtain seen' where "scan_logs node ?wanted ?limit (rev logs) ([], {}) =
      Inr (take (nat ?limit) (first_of_each {} (candidates node ?wanted (rev logs))), seen')"
    using scan_logs_found [OF node(3), of "[]" ?limit ?wanted "rev logs" "{}"] pos(1) by auto
  ultimately show ?thesis using scan by simp
qed

end
