(* ===== verification/ServerValidation.thy ===== *)
theory ServerValidation
  imports SdkAccess CanonicalOrder
begin

text \<open>
  \<open>server/validation.ts\<close> with \<open>sdk/src/metadata.ts\<close> and \<open>sdk/src/policy.ts\<close>: what the relay
  server checks of a request before it acts. A request body and a token are values of unknown
  type (\<open>JsDynamic\<close>). A validator returns a verdict, or throws where the code does.
\<close>

datatype 'a verdict = Accepted 'a | Refused string "string list"

type_synonym 'a check = "'a verdict result"

text \<open>\<open>if (c) return { ok: false, error: msg }\<close>, for a condition that may throw.\<close>

definition refuse_if :: "bool result \<Rightarrow> string \<Rightarrow> 'a check \<Rightarrow> 'a check" where
  "refuse_if c msg k = bnd c (\<lambda>b. if b then Inr (Refused msg []) else k)"

definition also_if :: "bool \<Rightarrow> bool result \<Rightarrow> bool result" where
  "also_if b m = (if b then m else Inr False)"

lemma refuse_if_Accepted [result_simps]:
  "refuse_if c msg k = Inr (Accepted v) \<longleftrightarrow> c = Inr False \<and> k = Inr (Accepted v)"
  by (cases c) (auto simp: refuse_if_def)

lemma also_if_False [result_simps]: "also_if b m = Inr False \<longleftrightarrow> (b \<longrightarrow> m = Inr False)"
  by (auto simp: also_if_def)

lemma refuse_if_simps [simp]:
  "refuse_if (Inr True) msg k = Inr (Refused msg [])" "refuse_if (Inr False) msg k = k"
  by (simp_all add: refuse_if_def)

section \<open>Metadata\<close>

text \<open>\<open>normalizeValue\<close>: keys in the order of \<open>sort()\<close>, \<open>undefined\<close> fields left out. Assigning
  \<open>normalized['__proto__']\<close> sets the prototype, so that field disappears as well.\<close>

definition proto_key :: string where
  "proto_key = ''__proto__''"

function normalizeValue :: "json \<Rightarrow> json" where
  "normalizeValue v =
     (case v of
        JArr xs \<Rightarrow> JArr (map normalizeValue xs)
      | JObj fs \<Rightarrow> JObj (map (\<lambda>p. (fst p, normalizeValue (snd p)))
          (filter (\<lambda>p. snd p \<noteq> JUndefined \<and> fst p \<noteq> proto_key) (sort_entries code_point_le fs)))
      | _ \<Rightarrow> v)"
  by pat_completeness auto
termination
proof (relation "measure size", goal_cases)
  case (2 v xs x)
  then show ?case by (auto dest: size_list_estimation' [where f = size and y = "size x"] simp: less_Suc_eq_le)
next
  case (3 v fs p)
  then show ?case using size_in_fields [of "fst p" "snd p" fs] by simp
qed simp

declare normalizeValue.simps [simp del]

definition canonicalizeMetadata :: "json \<Rightarrow> string" where
  "canonicalizeMetadata m = stringify (drop_unset (normalizeValue m))"

definition hashOpenRailsMetadata :: "'z ethers_scheme \<Rightarrow> json \<Rightarrow> string" where
  "hashOpenRailsMetadata et m = keccak_text et (canonicalizeMetadata m)"

section \<open>Policy\<close>

text \<open>\<open>evaluatePolicyEnvelope\<close>: the reasons to reject; none is approval.\<close>

definition over_limit :: "coercions \<Rightarrow> json \<Rightarrow> json \<Rightarrow> string \<Rightarrow> string list result" where
  "over_limit co limit amount reason =
     (if limit = JUndefined then Inr []
      else bnd (bigint co limit) (\<lambda>max. bnd (bigint co amount) (\<lambda>a. Inr (if a > max then [reason] else []))))"

definition evaluatePolicyEnvelope :: "coercions \<Rightarrow> json \<Rightarrow> json \<Rightarrow> int \<Rightarrow> string list result" where
  "evaluatePolicyEnvelope co intent policy nowSeconds =
     (if \<not> js_truthy policy then Inr []
      else
        let r1 = (if opt_prop policy ''expiresAt'' \<noteq> JUndefined \<and>
                    js_less co (opt_prop policy ''expiresAt'') (JNum nowSeconds) then [''policy_expired''] else []) in
        bnd (over_limit co (opt_prop policy ''maxAllocationPool'') (opt_prop intent ''totalAllocationPool'')
          ''allocation_exceeds_policy'') (\<lambda>r2.
        bnd (over_limit co (opt_prop policy ''maxFlowVelocityPerSecond'') (opt_prop intent ''flowVelocityPerSecond'')
          ''velocity_exceeds_policy'') (\<lambda>r3.
        let r4 = (if opt_prop policy ''maxLifespanSeconds'' \<noteq> JUndefined \<and>
                    js_less co (opt_prop policy ''maxLifespanSeconds'') (opt_prop intent ''lifespanSeconds'')
                  then [''lifespan_exceeds_policy''] else []);
            r5 = (if \<not> js_truthy (opt_prop policy ''allowWildcardRecipient'') \<and>
                    same (opt_prop intent ''recipient'') (JStr ZeroAddress)
                  then [''wildcard_recipient_disallowed''] else []) in
        Inr (r1 @ r2 @ r3 @ r4 @ r5))))"

section \<open>Opening a Paycard\<close>

record open_body =
  ob_envelopeToken :: json
  ob_claimRecipient :: json
  ob_policyEnvelope :: json
  ob_mode :: json
  ob_paycardId :: json
  ob_metadataHash :: json

record open_request =
  or_decoded :: json
  or_envelopeMode :: json
  or_isWildcard :: bool
  or_claimRecipient :: json
  or_workflowId :: json

definition bearer :: json where "bearer = JStr ''railscard_bearer''"
definition flow :: json where "flow = JStr ''railsflow''"
definition recipient_bound :: json where "recipient_bound = JStr ''railscard_recipient_bound''"

text \<open>\<open>new Set(modes).size > 1\<close>: modes come from different places, so two that are not
  primitives are different members.\<close>

definition conflicting :: "json list \<Rightarrow> bool" where
  "conflicting modes \<longleftrightarrow> (case modes of [] \<Rightarrow> False | m # ms \<Rightarrow> list_ex (\<lambda>x. \<not> same m x) ms)"

text \<open>\<open>getAddress(a) !== getAddress(b)\<close>.\<close>

definition addresses_differ :: "'z ethers_scheme \<Rightarrow> json \<Rightarrow> json \<Rightarrow> bool result" where
  "addresses_differ et a b =
     bnd (require (get_address et a) ''invalid address'') (\<lambda>x.
     bnd (require (get_address et b) ''invalid address'') (\<lambda>y. Inr (x \<noteq> y)))"

text \<open>The checks on the metadata of an envelope, when it has any.\<close>

definition check_metadata ::
    "'z ethers_scheme \<Rightarrow> json \<Rightarrow> json \<Rightarrow> json \<Rightarrow> string \<Rightarrow> 'a check \<Rightarrow> 'a check" where
  "check_metadata et metadata intent envelopeMode tokenAddress k =
     refuse_if (Inr (\<not> same (opt_prop metadata ''amount'') (opt_prop intent ''totalAllocationPool'')))
       ''metadata amount does not match intent totalAllocationPool''
    (refuse_if (Inr (\<not> same (opt_prop metadata ''flowVelocityPerSecond'') (opt_prop intent ''flowVelocityPerSecond'')))
       ''metadata flowVelocityPerSecond does not match intent''
    (refuse_if (Inr (\<not> same (opt_prop metadata ''lifespanSeconds'') (opt_prop intent ''lifespanSeconds'')))
       ''metadata lifespanSeconds does not match intent''
    (let expectedRecipient =
       (if envelopeMode = bearer then JStr ZeroAddress else opt_prop intent ''recipient'') in
     refuse_if (Inr (\<not> isAddress et (opt_prop metadata ''recipient''))) ''metadata recipient must be an address''
    (refuse_if (addresses_differ et (opt_prop metadata ''recipient'') expectedRecipient)
       ''metadata recipient does not match intent mode''
    (refuse_if (Inr (\<not> isAddress et (opt_prop metadata ''token''))) ''metadata token must be an address''
    (refuse_if (also_if (tokenAddress \<noteq> []) (addresses_differ et (opt_prop metadata ''token'') (JStr tokenAddress)))
       ''metadata token does not match relayer token'' k))))))"

definition check_mode ::
    "'z ethers_scheme \<Rightarrow> json \<Rightarrow> bool \<Rightarrow> json \<Rightarrow> json \<Rightarrow> 'a check \<Rightarrow> 'a check" where
  "check_mode et envelopeMode isWildcard claimRecipient metadata k =
     refuse_if (Inr (envelopeMode = bearer \<and> \<not> isWildcard)) ''Bearer RailsCard requires wildcard recipient''
    (refuse_if (Inr (envelopeMode = flow \<and> isWildcard)) ''RailsFlow requires fixed recipient''
    (refuse_if (Inr (envelopeMode = recipient_bound \<and> isWildcard))
       ''Recipient-bound RailsCard requires fixed recipient''
    (refuse_if (Inr (envelopeMode = bearer \<and> \<not> js_truthy claimRecipient)) ''Wildcard RailsCard requires claimRecipient''
    (refuse_if (Inr (envelopeMode = bearer \<and> bad_address et claimRecipient))
       ''Wildcard RailsCard claimRecipient must be a non-zero address''
    (refuse_if (Inr (envelopeMode = recipient_bound \<and> \<not> same (opt_prop metadata ''mode'') recipient_bound))
       ''Recipient-bound RailsCard mode must be metadata-bound'' k)))))"

definition validateOpenPaycardRequest ::
    "coercions \<Rightarrow> 'z ethers_scheme \<Rightarrow> 'h host_scheme \<Rightarrow> int \<Rightarrow> open_body \<Rightarrow> string \<Rightarrow> open_request check" where
  "validateOpenPaycardRequest co et h nowSeconds body tokenAddress =
     (if \<not> js_truthy (ob_envelopeToken body) then Inr (Refused ''Missing envelopeToken'' [])
      else case (case ob_envelopeToken body of JStr t \<Rightarrow> deserializeEnvelope h t
                 | _ \<Rightarrow> Inl (Error ''token.replace is not a function'')) of
        Inl _ \<Rightarrow> Inr (Refused ''Malformed envelopeToken'' [])
      | Inr decoded \<Rightarrow>
     bnd (get_prop decoded ''intent'') (\<lambda>intent.
     refuse_if (also_if (js_truthy (ob_paycardId body))
         (bnd (get_prop intent ''paycardId'') (\<lambda>i. Inr (\<not> same (ob_paycardId body) i))))
       ''OpenRails paycard header does not match envelope''
    (refuse_if (also_if (js_truthy (ob_metadataHash body))
         (bnd (get_prop intent ''metadataHash'') (\<lambda>i. Inr (\<not> same (ob_metadataHash body) i))))
       ''OpenRails metadata header does not match envelope''
    (refuse_if (bnd (get_prop intent ''nonceChannel'') (\<lambda>c.
         Inr (c = JUndefined \<or> opt_prop intent ''nonceValue'' = JUndefined)))
       ''Missing nonceChannel or nonceValue''
    (let metadataHash = opt_prop intent ''metadataHash''; metadata = opt_prop decoded ''metadata'' in
     refuse_if (Inr (\<not> js_truthy metadataHash \<or> same metadataHash (JStr ZeroHash))) ''Missing metadataHash''
    (refuse_if (Inr (js_truthy metadata \<and> \<not> same (JStr (hashOpenRailsMetadata et metadata)) metadataHash))
       ''metadata does not match metadataHash''
    (bnd (evaluatePolicyEnvelope co intent (ob_policyEnvelope body) nowSeconds) (\<lambda>reasons.
     if reasons \<noteq> [] then Inr (Refused ''Policy preflight rejected envelope'' reasons)
     else
       let modes = filter (\<lambda>m. m \<noteq> JUndefined)
             [opt_prop metadata ''mode'', opt_prop decoded ''mode'', ob_mode body];
           requested = (case modes of [] \<Rightarrow> JUndefined | m # _ \<Rightarrow> m);
           isWildcard = same (opt_prop intent ''recipient'') (JStr ZeroAddress);
           envelopeMode = (if requested = JUndefined then (if isWildcard then bearer else flow) else requested) in
       refuse_if (Inr (conflicting modes)) ''Conflicting envelope modes''
      (refuse_if (Inr (requested \<noteq> JUndefined \<and> requested \<notin> {flow, bearer, recipient_bound})) ''Unknown envelope mode''
      (check_mode et envelopeMode isWildcard (ob_claimRecipient body) metadata
      ((if js_truthy metadata then check_metadata et metadata intent envelopeMode tokenAddress else id)
      (Inr (Accepted \<lparr>or_decoded = decoded, or_envelopeMode = envelopeMode, or_isWildcard = isWildcard,
         or_claimRecipient = ob_claimRecipient body, or_workflowId = opt_prop metadata ''workflowId''\<rparr>)))))))))))))"

section \<open>Using a service\<close>

record access_request =
  aq_authorization :: "string option"
  aq_credentialType :: "string option"
  aq_paycardId :: "string option"
  aq_metadataHash :: "string option"
  aq_mode :: "string option"

record access_options =
  ao_chainId :: int
  ao_vault :: string
  ao_service :: string
  ao_serviceOrigin :: string
  ao_scope :: string
  ao_now :: "int option"

definition starts_openrails :: "string option \<Rightarrow> bool" where
  "starts_openrails a \<longleftrightarrow> (case a of None \<Rightarrow> False | Some s \<Rightarrow> take 10 s = ''OpenRails '')"

definition header_differs :: "string option \<Rightarrow> json \<Rightarrow> bool" where
  "header_differs header v \<longleftrightarrow> given header \<and> \<not> same (JStr (the header)) v"

definition validateOpenRailsAccessRequest ::
    "coercions \<Rightarrow> 'z ethers_scheme \<Rightarrow> 'h host_scheme \<Rightarrow> int \<Rightarrow> access_request \<Rightarrow> access_options \<Rightarrow>
     (access_credential \<times> string) check" where
  "validateOpenRailsAccessRequest co et h clock rq opt =
     refuse_if (Inr (\<not> starts_openrails (aq_authorization rq))) ''Missing OpenRails access credential''
    (refuse_if (Inr (given (aq_credentialType rq) \<and> the (aq_credentialType rq) \<noteq> ''access-v1''))
       ''Unsupported OpenRails credential type''
    (case deserializeOpenRailsAccessCredential co et h (trim (drop 10 (the (aq_authorization rq)))) of
       Inl _ \<Rightarrow> Inr (Refused ''Malformed OpenRails access credential'' [])
     | Inr c \<Rightarrow>
    refuse_if (Inr (\<not> same (ac_chainId c) (JNum (ao_chainId opt)))) ''OpenRails access credential chain mismatch''
   (refuse_if (addresses_differ et (ac_vault c) (JStr (ao_vault opt))) ''OpenRails access credential vault mismatch''
   (refuse_if (addresses_differ et (ac_service c) (JStr (ao_service opt)))
      ''OpenRails access credential service mismatch''
   (refuse_if (Inr (\<not> same (ac_serviceOriginHash c) (JStr (hashOpenRailsAccessText et (ao_serviceOrigin opt)))))
      ''OpenRails access credential service origin mismatch''
   (refuse_if (Inr (\<not> same (ac_scopeHash c) (JStr (hashOpenRailsAccessText et (ao_scope opt)))))
      ''OpenRails access credential scope mismatch''
   (refuse_if (Inr (\<not> given (aq_paycardId rq))) ''Missing OpenRails access paycard header''
   (refuse_if (Inr (\<not> given (aq_metadataHash rq))) ''Missing OpenRails access metadata header''
   (refuse_if (Inr (\<not> given (aq_mode rq))) ''Missing OpenRails access mode header''
   (refuse_if (Inr (header_differs (aq_paycardId rq) (ac_paycardId c))) ''OpenRails access paycard header mismatch''
   (refuse_if (Inr (header_differs (aq_metadataHash rq) (ac_metadataHash c)))
      ''OpenRails access metadata header mismatch''
   (refuse_if (Inr (header_differs (aq_mode rq) (ac_mode c))) ''OpenRails access mode header mismatch''
   (case verifyOpenRailsAccessCredential co et clock c (Some (ao_serviceOrigin opt)) (Some (ao_scope opt)) (ao_now opt) of
      Inl _ \<Rightarrow> Inr (Refused ''Invalid OpenRails access credential signature or lifetime'' [])
    | Inr signer \<Rightarrow> Inr (Accepted (c, signer)))))))))))))))"

section \<open>What an accepted credential says\<close>

lemma addresses_differ_False [result_simps]:
  "addresses_differ et a b = Inr False \<longleftrightarrow> (\<exists>x. get_address et a = Some x \<and> get_address et b = Some x)"
  by (auto simp: addresses_differ_def result_simps)

text \<open>The guards of an accepted request, as facts about the credential.\<close>

definition credential_in_force ::
    "coercions \<Rightarrow> 'z ethers_scheme \<Rightarrow> int \<Rightarrow> access_request \<Rightarrow> access_options \<Rightarrow> access_credential \<Rightarrow> bool" where
  "credential_in_force co et now rq opt c \<longleftrightarrow>
     ac_chainId c = JNum (ao_chainId opt) \<and>
     (\<exists>a. get_address et (ac_vault c) = Some a \<and> get_address et (JStr (ao_vault opt)) = Some a) \<and>
     (\<exists>a. get_address et (ac_service c) = Some a \<and> get_address et (JStr (ao_service opt)) = Some a) \<and>
     ac_serviceOriginHash c = JStr (keccak_text et (ao_serviceOrigin opt)) \<and>
     ac_scopeHash c = JStr (keccak_text et (ao_scope opt)) \<and>
     (\<exists>h. aq_paycardId rq = Some h \<and> ac_paycardId c = JStr h) \<and>
     (\<exists>h. aq_metadataHash rq = Some h \<and> ac_metadataHash c = JStr h) \<and>
     (\<exists>h. aq_mode rq = Some h \<and> ac_mode c = JStr h) \<and>
     \<not> at_most co (ac_expiresAt c) (JNum now) \<and> \<not> js_less co (JNum (now + 60)) (ac_issuedAt c)"

definition clock_now :: "int \<Rightarrow> access_options \<Rightarrow> int" where
  "clock_now clock opt = (case ao_now opt of None \<Rightarrow> clock | Some n \<Rightarrow> n)"

lemma verify_Inr_iff:
  "verifyOpenRailsAccessCredential co et clock c origin scope now = Inr a \<longleftrightarrow>
     validateAccessCredentialShape co et c = Inr () \<and>
     \<not> at_most co (ac_expiresAt c) (JNum (case now of None \<Rightarrow> clock | Some n \<Rightarrow> n)) \<and>
     \<not> js_less co (JNum ((case now of None \<Rightarrow> clock | Some n \<Rightarrow> n) + 60)) (ac_issuedAt c) \<and>
     (given origin \<longrightarrow> ac_serviceOriginHash c = JStr (keccak_text et (the origin))) \<and>
     (given scope \<longrightarrow> ac_scopeHash c = JStr (keccak_text et (the scope))) \<and>
     recover et (credential_domain c) (credential_value c) (ac_signature c) = Some a \<and>
     (\<exists>s. ac_signer c = JStr s \<and> lower a = lower s)"
  by (auto simp: verifyOpenRailsAccessCredential_def result_simps Let_def hashOpenRailsAccessText_def lower_of_def
      split: json.splits)

lemma deserialize_shape:
  "deserializeOpenRailsAccessCredential co et h token = Inr c \<Longrightarrow> validateAccessCredentialShape co et c = Inr ()"
  by (auto simp: deserializeOpenRailsAccessCredential_def result_simps)

lemma access_accepted_iff:
  "validateOpenRailsAccessRequest co et h clock rq opt = Inr (Accepted (c, a)) \<longleftrightarrow>
     starts_openrails (aq_authorization rq) \<and>
     (given (aq_credentialType rq) \<longrightarrow> the (aq_credentialType rq) = ''access-v1'') \<and>
     deserializeOpenRailsAccessCredential co et h (trim (drop 10 (the (aq_authorization rq)))) = Inr c \<and>
     given (aq_paycardId rq) \<and> given (aq_metadataHash rq) \<and> given (aq_mode rq) \<and>
     credential_in_force co et (clock_now clock opt) rq opt c \<and>
     recover et (credential_domain c) (credential_value c) (ac_signature c) = Some a \<and>
     (\<exists>s. ac_signer c = JStr s \<and> lower a = lower s)"
  (is "?l = ?r")
proof
  assume ?l
  then show ?r
    by (auto simp: validateOpenRailsAccessRequest_def refuse_if_Accepted addresses_differ_False header_differs_def
        credential_in_force_def hashOpenRailsAccessText_def verify_Inr_iff clock_now_def given_def
        split: sum.splits option.splits)
next
  assume r: ?r
  then have "validateAccessCredentialShape co et c = Inr ()" by (blast dest: deserialize_shape)
  with r have "verifyOpenRailsAccessCredential co et clock c (Some (ao_serviceOrigin opt)) (Some (ao_scope opt))
      (ao_now opt) = Inr a"
    by (auto simp: verify_Inr_iff credential_in_force_def clock_now_def)
  with r show ?l
    by (auto simp: validateOpenRailsAccessRequest_def refuse_if_Accepted addresses_differ_False header_differs_def
        credential_in_force_def hashOpenRailsAccessText_def given_def split: option.splits)
qed

text \<open>The headers of a request as the server reads them.\<close>

definition header_text :: "json obj \<Rightarrow> string \<Rightarrow> string option" where
  "header_text hs k = (case oget hs k of Some (JStr s) \<Rightarrow> Some s | _ \<Rightarrow> None)"

definition request_of :: "json obj \<Rightarrow> access_request" where
  "request_of hs =
     \<lparr>aq_authorization = header_text hs ''Authorization'',
      aq_credentialType = header_text hs ''X-OpenRails-Credential-Type'',
      aq_paycardId = header_text hs ''X-OpenRails-Paycard-Id'',
      aq_metadataHash = header_text hs ''X-OpenRails-Metadata-Hash'',
      aq_mode = header_text hs ''X-OpenRails-Mode''\<rparr>"

text \<open>The parameters of a credential are the ones a server expects at the instant \<open>now\<close>.\<close>

definition params_expected ::
    "coercions \<Rightarrow> 'z ethers_scheme \<Rightarrow> int \<Rightarrow> access_options \<Rightarrow> access_params \<Rightarrow> bool" where
  "params_expected co et now opt p \<longleftrightarrow>
     ap_chainId p = JNum (ao_chainId opt) \<and>
     (\<exists>a. get_address et (ap_vault p) = Some a \<and> get_address et (JStr (ao_vault opt)) = Some a) \<and>
     (\<exists>a. get_address et (ap_service p) = Some a \<and> get_address et (JStr (ao_service opt)) = Some a) \<and>
     ap_serviceOrigin p = ao_serviceOrigin opt \<and> ap_scope p = ao_scope opt \<and>
     \<not> at_most co (ap_expiresAt p) (JNum now) \<and> \<not> js_less co (JNum (now + 60)) (ap_issuedAt p)"

lemma created_accepted:
  assumes c: "createOpenRailsAccessCredential co et sign addr random p = Inr c" and et: "ethers_ok et"
    and p: "plain_params p" "ap_mode p = JStr m" "m \<noteq> []"
    and wallet: "\<And>d v. recover et d v (JStr (sign d v)) = Some addr" "\<not> bad_address et (JStr addr)"
    and nonce: "is_bytes32 et (av_nonce (buildOpenRailsAccessValue et random p))"
    and expected: "params_expected co et (clock_now clock opt) opt p"
  shows "\<exists>hs. buildOpenRailsAccessHeaders co et h (Inr c) = Inr hs \<and>
    validateOpenRailsAccessRequest co et h clock (request_of hs) opt = Inr (Accepted (c, addr))"
proof -
  have shape: "validateAccessCredentialShape co et c = Inr ()" by (rule created_shape [OF c et wallet(2) nonce])
  obtain t where t: "serializeOpenRailsAccessCredential co et c = Inr (base64UrlEncode t)"
    "deserializeOpenRailsAccessCredential co et h (base64UrlEncode t) = Inr c"
    by (rule created_token [OF c et p(1) shape])
  let ?hs = "access_headers (base64UrlEncode t) c"
  from c have cs: "ac_chainId c = ap_chainId p" "ac_vault c = ap_vault p" "ac_service c = ap_service p"
    "ac_mode c = JStr m" "ac_paycardId c = ap_paycardId p" "ac_metadataHash c = ap_metadataHash p"
    "ac_serviceOriginHash c = JStr (keccak_text et (ap_serviceOrigin p))"
    "ac_scopeHash c = JStr (keccak_text et (ap_scope p))" "ac_signer c = JStr addr"
    "ac_expiresAt c = ap_expiresAt p" "ac_issuedAt c = ap_issuedAt p"
    "recover et (credential_domain c) (credential_value c) (ac_signature c) = Some addr"
    using p(2) wallet(1)
    by (auto simp: createOpenRailsAccessCredential_def result_simps Let_def buildOpenRailsAccessValue_def
        hashOpenRailsAccessText_def credential_domain_def credential_value_def)
  from shape have "is_bytes32 et (ap_paycardId p)" "is_bytes32 et (ap_metadataHash p)"
    by (simp_all add: shape_iff validateAccessParams_iff shape_params_def cs)
  with et obtain i j where ij: "ap_paycardId p = JStr i" "i \<noteq> []" "ap_metadataHash p = JStr j" "j \<noteq> []"
    unfolding ethers_ok_def by metis
  have "validateOpenRailsAccessRequest co et h clock (request_of ?hs) opt = Inr (Accepted (c, addr))"
    unfolding access_accepted_iff using t(2) cs ij p(3) expected
    by (simp add: request_of_def header_text_def access_headers_def starts_openrails_def given_def trim_token
        credential_in_force_def params_expected_def)
  then show ?thesis using t(1) by (simp add: buildOpenRailsAccessHeaders_def)
qed

text \<open>Every recovered signature was made by \<open>createOpenRailsAccessCredential\<close> for the wallet of the
  recovered address; no text that was signed collides with one the server expects.\<close>

definition only_created ::
    "'z ethers_scheme \<Rightarrow> (string \<times> string \<times> access_params) set \<Rightarrow> bool" where
  "only_created et made \<longleftrightarrow>
     (\<forall>d v sg a. recover et d v sg = Some a \<longrightarrow>
        (\<exists>random p. (a, random, p) \<in> made \<and> d = buildOpenRailsAccessDomain (ap_chainId p) (ap_vault p) \<and>
           v = buildOpenRailsAccessValue et random p))"

definition no_collision :: "'z ethers_scheme \<Rightarrow> (string \<times> string \<times> access_params) set \<Rightarrow> access_options \<Rightarrow> bool" where
  "no_collision et made opt \<longleftrightarrow>
     (\<forall>(a, random, p) \<in> made.
        (keccak_text et (ap_serviceOrigin p) = keccak_text et (ao_serviceOrigin opt) \<longrightarrow>
           ap_serviceOrigin p = ao_serviceOrigin opt) \<and>
        (keccak_text et (ap_scope p) = keccak_text et (ao_scope opt) \<longrightarrow> ap_scope p = ao_scope opt))"

lemma accepted_created:
  assumes acc: "validateOpenRailsAccessRequest co et h clock rq opt = Inr (Accepted (c, a))"
    and made: "only_created et made" and k: "no_collision et made opt"
  shows "\<exists>random p. (a, random, p) \<in> made \<and> params_expected co et (clock_now clock opt) opt p \<and>
    (\<exists>i. aq_paycardId rq = Some i \<and> ap_paycardId p = JStr i) \<and>
    (\<exists>j. aq_metadataHash rq = Some j \<and> ap_metadataHash p = JStr j) \<and>
    (\<exists>m. aq_mode rq = Some m \<and> ap_mode p = JStr m)"
proof -
  from acc have f: "credential_in_force co et (clock_now clock opt) rq opt c"
    and r: "recover et (credential_domain c) (credential_value c) (ac_signature c) = Some a"
    by (auto simp: access_accepted_iff)
  from made r obtain random p where p: "(a, random, p) \<in> made"
    and dv: "credential_domain c = buildOpenRailsAccessDomain (ap_chainId p) (ap_vault p)"
      "credential_value c = buildOpenRailsAccessValue et random p"
    unfolding only_created_def by blast
  from dv have "ac_chainId c = ap_chainId p" "ac_vault c = ap_vault p" "ac_service c = ap_service p"
    "ac_mode c = ap_mode p" "ac_paycardId c = ap_paycardId p" "ac_metadataHash c = ap_metadataHash p"
    "ac_serviceOriginHash c = JStr (keccak_text et (ap_serviceOrigin p))"
    "ac_scopeHash c = JStr (keccak_text et (ap_scope p))"
    "ac_expiresAt c = ap_expiresAt p" "ac_issuedAt c = ap_issuedAt p"
    by (auto simp: credential_domain_def credential_value_def buildOpenRailsAccessDomain_def
        buildOpenRailsAccessValue_def hashOpenRailsAccessText_def)
  moreover have "keccak_text et (ap_serviceOrigin p) = keccak_text et (ao_serviceOrigin opt) \<longrightarrow>
      ap_serviceOrigin p = ao_serviceOrigin opt"
    "keccak_text et (ap_scope p) = keccak_text et (ao_scope opt) \<longrightarrow> ap_scope p = ao_scope opt"
    using k p by (auto simp: no_collision_def)
  ultimately have "params_expected co et (clock_now clock opt) opt p \<and>
    (\<exists>i. aq_paycardId rq = Some i \<and> ap_paycardId p = JStr i) \<and>
    (\<exists>j. aq_metadataHash rq = Some j \<and> ap_metadataHash p = JStr j) \<and>
    (\<exists>m. aq_mode rq = Some m \<and> ap_mode p = JStr m)"
    using f by (auto simp: credential_in_force_def params_expected_def)
  with p show ?thesis by blast
qed

section \<open>What an accepted opening says\<close>

definition within_limit :: "coercions \<Rightarrow> json \<Rightarrow> json \<Rightarrow> bool" where
  "within_limit co limit amount \<longleftrightarrow>
     limit = JUndefined \<or> (\<exists>max a. bigint co limit = Inr max \<and> bigint co amount = Inr a \<and> a \<le> max)"

text \<open>The policy a requester sent along is respected.\<close>

definition policy_respected :: "coercions \<Rightarrow> json \<Rightarrow> json \<Rightarrow> int \<Rightarrow> bool" where
  "policy_respected co intent policy now \<longleftrightarrow>
     (js_truthy policy \<longrightarrow>
        (opt_prop policy ''expiresAt'' = JUndefined \<or> \<not> js_less co (opt_prop policy ''expiresAt'') (JNum now)) \<and>
        within_limit co (opt_prop policy ''maxAllocationPool'') (opt_prop intent ''totalAllocationPool'') \<and>
        within_limit co (opt_prop policy ''maxFlowVelocityPerSecond'') (opt_prop intent ''flowVelocityPerSecond'') \<and>
        (opt_prop policy ''maxLifespanSeconds'' = JUndefined \<or>
           \<not> js_less co (opt_prop policy ''maxLifespanSeconds'') (opt_prop intent ''lifespanSeconds'')) \<and>
        (js_truthy (opt_prop policy ''allowWildcardRecipient'') \<or> opt_prop intent ''recipient'' \<noteq> JStr ZeroAddress))"

text \<open>Mode, recipient, claim recipient, metadata and its digest agree with the signed intent.\<close>

definition metadata_agrees :: "'z ethers_scheme \<Rightarrow> json \<Rightarrow> json \<Rightarrow> json \<Rightarrow> string \<Rightarrow> bool" where
  "metadata_agrees et metadata intent mode tokenAddress \<longleftrightarrow>
     opt_prop intent ''metadataHash'' = JStr (hashOpenRailsMetadata et metadata) \<and>
     opt_prop metadata ''amount'' = opt_prop intent ''totalAllocationPool'' \<and>
     opt_prop metadata ''flowVelocityPerSecond'' = opt_prop intent ''flowVelocityPerSecond'' \<and>
     opt_prop metadata ''lifespanSeconds'' = opt_prop intent ''lifespanSeconds'' \<and>
     (\<exists>a. get_address et (opt_prop metadata ''recipient'') = Some a \<and>
        get_address et (opt_prop intent ''recipient'') = Some a) \<and>
     isAddress et (opt_prop metadata ''token'') \<and>
     (tokenAddress \<noteq> [] \<longrightarrow> (\<exists>a. get_address et (opt_prop metadata ''token'') = Some a \<and>
        get_address et (JStr tokenAddress) = Some a))"

definition opening_consistent :: "'z ethers_scheme \<Rightarrow> open_body \<Rightarrow> string \<Rightarrow> open_request \<Rightarrow> bool" where
  "opening_consistent et body tokenAddress r \<longleftrightarrow>
     (let intent = opt_prop (or_decoded r) ''intent''; metadata = opt_prop (or_decoded r) ''metadata'';
          mode = or_envelopeMode r; hash = opt_prop intent ''metadataHash'' in
      mode \<in> {flow, bearer, recipient_bound} \<and>
      (\<forall>stated \<in> {opt_prop metadata ''mode'', opt_prop (or_decoded r) ''mode'', ob_mode body}.
         stated = JUndefined \<or> stated = mode) \<and>
      (or_isWildcard r \<longleftrightarrow> opt_prop intent ''recipient'' = JStr ZeroAddress) \<and> (mode = bearer \<longleftrightarrow> or_isWildcard r) \<and>
      or_claimRecipient r = ob_claimRecipient body \<and>
      (mode = bearer \<longrightarrow> isAddress et (or_claimRecipient r) \<and> or_claimRecipient r \<noteq> JStr ZeroAddress) \<and>
      (mode = recipient_bound \<longrightarrow> opt_prop metadata ''mode'' = recipient_bound) \<and>
      (js_truthy (ob_paycardId body) \<longrightarrow> opt_prop intent ''paycardId'' = ob_paycardId body) \<and>
      (js_truthy (ob_metadataHash body) \<longrightarrow> hash = ob_metadataHash body) \<and>
      opt_prop intent ''nonceChannel'' \<noteq> JUndefined \<and> opt_prop intent ''nonceValue'' \<noteq> JUndefined \<and>
      js_truthy hash \<and> hash \<noteq> JStr ZeroHash \<and>
      (js_truthy metadata \<longrightarrow> metadata_agrees et metadata intent mode tokenAddress))"

lemma over_limit_Nil: "over_limit co limit amount r = Inr [] \<longleftrightarrow> within_limit co limit amount"
  by (cases "bigint co limit"; cases "bigint co amount") (auto simp: over_limit_def within_limit_def)

lemma evaluatePolicy_Nil: "evaluatePolicyEnvelope co intent policy now = Inr [] \<longleftrightarrow> policy_respected co intent policy now"
proof (cases "js_truthy policy")
  case True
  have "evaluatePolicyEnvelope co intent policy now = Inr [] \<longleftrightarrow>
      \<not> (opt_prop policy ''expiresAt'' \<noteq> JUndefined \<and> js_less co (opt_prop policy ''expiresAt'') (JNum now)) \<and>
      over_limit co (opt_prop policy ''maxAllocationPool'') (opt_prop intent ''totalAllocationPool'')
        ''allocation_exceeds_policy'' = Inr [] \<and>
      over_limit co (opt_prop policy ''maxFlowVelocityPerSecond'') (opt_prop intent ''flowVelocityPerSecond'')
        ''velocity_exceeds_policy'' = Inr [] \<and>
      \<not> (opt_prop policy ''maxLifespanSeconds'' \<noteq> JUndefined \<and>
         js_less co (opt_prop policy ''maxLifespanSeconds'') (opt_prop intent ''lifespanSeconds'')) \<and>
      \<not> (\<not> js_truthy (opt_prop policy ''allowWildcardRecipient'') \<and> opt_prop intent ''recipient'' = JStr ZeroAddress)"
    using True unfolding evaluatePolicyEnvelope_def Let_def by (simp add: bnd_Inr_iff)
  with True show ?thesis unfolding over_limit_Nil policy_respected_def by blast
qed (simp add: evaluatePolicyEnvelope_def policy_respected_def)

lemma same_primitive: "same a b \<Longrightarrow> a = b"
  by (simp add: same_def)

lemma check_metadata_Accepted:
  "check_metadata et metadata intent mode tokenAddress k = Inr (Accepted r) \<Longrightarrow>
     same (JStr (hashOpenRailsMetadata et metadata)) (opt_prop intent ''metadataHash'') \<Longrightarrow>
     (mode = bearer \<Longrightarrow> opt_prop intent ''recipient'' = JStr ZeroAddress) \<Longrightarrow>
     metadata_agrees et metadata intent mode tokenAddress \<and> k = Inr (Accepted r)"
  by (auto simp: check_metadata_def metadata_agrees_def result_simps Let_def dest: same_primitive split: if_splits)

lemma check_mode_Accepted:
  "check_mode et mode isWildcard claim metadata k = Inr (Accepted r) \<longleftrightarrow>
     \<not> (mode = bearer \<and> \<not> isWildcard) \<and> \<not> (mode = flow \<and> isWildcard) \<and> \<not> (mode = recipient_bound \<and> isWildcard) \<and>
     \<not> (mode = bearer \<and> (\<not> js_truthy claim \<or> bad_address et claim)) \<and>
     \<not> (mode = recipient_bound \<and> \<not> same (opt_prop metadata ''mode'') recipient_bound) \<and> k = Inr (Accepted r)"
  by (auto simp: check_mode_def result_simps)

lemma modes_distinct [simp]: "bearer \<noteq> flow" "bearer \<noteq> recipient_bound" "flow \<noteq> recipient_bound"
  "flow \<noteq> bearer" "recipient_bound \<noteq> bearer" "recipient_bound \<noteq> flow"
  "bearer \<noteq> JUndefined" "flow \<noteq> JUndefined" "recipient_bound \<noteq> JUndefined"
  by (simp_all add: bearer_def flow_def recipient_bound_def)

text \<open>The mode that was asked for is every mode that was stated.\<close>

lemma stated_modes:
  assumes "\<not> conflicting (filter (\<lambda>m. m \<noteq> JUndefined) ms)"
    "requested = (case filter (\<lambda>m. m \<noteq> JUndefined) ms of [] \<Rightarrow> JUndefined | m # _ \<Rightarrow> m)" "x \<in> set ms"
  shows "x = JUndefined \<or> x = requested"
proof (cases "filter (\<lambda>m. m \<noteq> JUndefined) ms")
  case Nil
  with assms(3) show ?thesis by (auto simp: filter_empty_conv)
next
  case (Cons m rest)
  have "x = JUndefined \<or> x \<in> set (m # rest)" using assms(3) unfolding Cons [symmetric] by auto
  with assms(1,2) Cons show ?thesis by (auto simp: conflicting_def list_ex_iff dest: same_primitive)
qed

lemma refuse_also: "refuse_if (also_if b m) msg k = Inr (Accepted r) \<Longrightarrow> (b \<longrightarrow> m = Inr False) \<and> k = Inr (Accepted r)"
  by (simp add: refuse_if_Accepted also_if_False)

lemma refuse_plain: "refuse_if (Inr b) msg k = Inr (Accepted r) \<Longrightarrow> \<not> b \<and> k = Inr (Accepted r)"
  by (simp add: refuse_if_Accepted)

lemma header_agrees:
  assumes "bnd (get_prop intent k) (\<lambda>i. Inr (\<not> same v i)) = Inr False"
  shows "opt_prop intent k = v"
  using assms by (auto simp: bnd_Inr_iff dest: prop_Inr_opt same_primitive)

text \<open>The checks in order, once the token is decoded.\<close>

lemma policy_Accepted:
  "bnd m (\<lambda>reasons. if reasons \<noteq> [] then Inr (Refused msg reasons) else k) = Inr (Accepted r) \<longleftrightarrow>
     m = Inr [] \<and> k = Inr (Accepted r)"
  by (cases m) auto

lemma nonce_check:
  "bnd (get_prop intent ''nonceChannel'') (\<lambda>c. Inr (c = JUndefined \<or> v = JUndefined)) = Inr False \<Longrightarrow>
     opt_prop intent ''nonceChannel'' \<noteq> JUndefined \<and> v \<noteq> JUndefined"
  by (auto simp: bnd_Inr_iff dest: prop_Inr_opt)

lemma open_accepted:
  assumes "validateOpenPaycardRequest co et h now body tokenAddress = Inr (Accepted r)"
  shows "opening_consistent et body tokenAddress r \<and>
    policy_respected co (opt_prop (or_decoded r) ''intent'') (ob_policyEnvelope body) now \<and>
    (\<exists>t. ob_envelopeToken body = JStr t \<and> deserializeEnvelope h t = Inr (or_decoded r))"
proof -
  from assms obtain decoded where d: "(case ob_envelopeToken body of JStr t \<Rightarrow> deserializeEnvelope h t
      | _ \<Rightarrow> Inl (Error ''token.replace is not a function'')) = Inr decoded"
    by (auto simp: validateOpenPaycardRequest_def split: if_splits sum.splits)
  then obtain t where t: "ob_envelopeToken body = JStr t" "deserializeEnvelope h t = Inr decoded"
    by (auto split: json.splits)
  from assms d have tr: "js_truthy (ob_envelopeToken body)"
    by (auto simp: validateOpenPaycardRequest_def split: if_splits)
  define metadata where "metadata = opt_prop decoded ''metadata''"
  from assms d tr obtain intent where i: "get_prop decoded ''intent'' = Inr intent"
    by (auto simp: validateOpenPaycardRequest_def bnd_Inr_iff)
  then have intent: "opt_prop decoded ''intent'' = intent" by (rule prop_Inr_opt)
  define hash where "hash = opt_prop intent ''metadataHash''"
  define modes where "modes = [opt_prop metadata ''mode'', opt_prop decoded ''mode'', ob_mode body]"
  define requested where "requested = (case filter (\<lambda>m. m \<noteq> JUndefined) modes of [] \<Rightarrow> JUndefined | m # _ \<Rightarrow> m)"
  define wild where "wild = same (opt_prop intent ''recipient'') (JStr ZeroAddress)"
  define mode where "mode = (if requested = JUndefined then (if wild then bearer else flow) else requested)"
  define req where "req = \<lparr>or_decoded = decoded, or_envelopeMode = mode, or_isWildcard = wild,
    or_claimRecipient = ob_claimRecipient body, or_workflowId = opt_prop metadata ''workflowId''\<rparr>"
  note checks = assms [unfolded validateOpenPaycardRequest_def d sum.case, simplified tr not_True_eq_False if_False,
      unfolded i bnd_simps Let_def, folded hash_def metadata_def, folded modes_def, folded requested_def wild_def,
      folded mode_def, folded req_def, unfolded refuse_if_Accepted also_if_False policy_Accepted check_mode_Accepted]
  from checks have hd1: "js_truthy (ob_paycardId body) \<longrightarrow> opt_prop intent ''paycardId'' = ob_paycardId body"
    and hd2: "js_truthy (ob_metadataHash body) \<longrightarrow> hash = ob_metadataHash body"
    and nonce: "opt_prop intent ''nonceChannel'' \<noteq> JUndefined \<and> opt_prop intent ''nonceValue'' \<noteq> JUndefined"
    and hs: "js_truthy hash" "hash \<noteq> JStr ZeroHash"
    and bound: "js_truthy metadata \<longrightarrow> same (JStr (hashOpenRailsMetadata et metadata)) hash"
    and pol: "evaluatePolicyEnvelope co intent (ob_policyEnvelope body) now = Inr []"
    using header_agrees hash_def by (auto dest!: nonce_check)
  from checks have conf: "\<not> conflicting (filter (\<lambda>m. m \<noteq> JUndefined) modes)"
    and known: "requested = JUndefined \<or> requested \<in> {flow, bearer, recipient_bound}"
    and m1: "\<not> (mode = bearer \<and> \<not> wild)" "\<not> (mode = flow \<and> wild)" "\<not> (mode = recipient_bound \<and> wild)"
    and m2: "\<not> (mode = bearer \<and> (\<not> js_truthy (ob_claimRecipient body) \<or> bad_address et (ob_claimRecipient body)))"
    and m3: "\<not> (mode = recipient_bound \<and> \<not> same (opt_prop metadata ''mode'') recipient_bound)"
    and meta: "(if js_truthy metadata then check_metadata et metadata intent mode tokenAddress else id)
      (Inr (Accepted req)) = Inr (Accepted r)"
    by blast+
  have mode: "mode \<in> {flow, bearer, recipient_bound}" using known by (auto simp: mode_def)
  have wb: "mode = bearer \<longleftrightarrow> wild" using mode m1 by auto
  have wz: "wild \<longleftrightarrow> opt_prop intent ''recipient'' = JStr ZeroAddress" by (simp add: wild_def)
  have r: "r = req \<and> (js_truthy metadata \<longrightarrow> metadata_agrees et metadata intent mode tokenAddress)"
    using meta bound wb wz check_metadata_Accepted [of et metadata intent mode tokenAddress "Inr (Accepted req)" r]
    by (auto simp: hash_def split: if_splits)
  have stated: "x = JUndefined \<or> x = mode" if "x \<in> set modes" for x
    using stated_modes [OF conf requested_def that] by (auto simp: mode_def)
  show ?thesis
    using r t hd1 hd2 nonce hs mode wb wz m2 m3 stated pol
    unfolding opening_consistent_def evaluatePolicy_Nil Let_def
    by (auto simp: req_def intent hash_def metadata_def modes_def bad_address_def dest: same_primitive)
qed

end
