(* ===== verification/SdkScenario.thy ===== *)
theory SdkScenario
  imports ServerValidation SdkLinks SdkRecovery SdkNonce
begin

text \<open>
  A concrete \<open>ethers\<close> and concrete requests, at which the properties of the SDK and of the request
  checks are applied. Addresses are forty hexadecimal digits; the checksummed form is the one in
  lower case; the digest of a text is the last 64 digits of its bytes.
\<close>

section \<open>ethers\<close>

definition demo_digest :: "string \<Rightarrow> string" where
  "demo_digest t =
     (let s = concat (map (\<lambda>c. byte_hex (of_char c)) t) in
      ''0x'' @ replicate (64 - length s) (CHR ''0'') @ rev (take 64 (rev s)))"

definition demo_address :: "json \<Rightarrow> string option" where
  "demo_address v = (case v of JStr s \<Rightarrow> if hex_of_length 40 s then Some (lower s) else None | _ \<Rightarrow> None)"

text \<open>One wallet, whose signature is the word \<open>signed\<close>.\<close>

definition demo_wallet :: string where
  "demo_wallet = ''0x'' @ replicate 40 (CHR ''a'')"

definition demo_ethers :: "(access_domain \<Rightarrow> access_value \<Rightarrow> json \<Rightarrow> string option) \<Rightarrow> ethers" where
  "demo_ethers rec =
     \<lparr>isAddress = (\<lambda>v. demo_address v \<noteq> None), get_address = demo_address,
      is_bytes32 = (\<lambda>v. case v of JStr s \<Rightarrow> hex_of_length 64 s | _ \<Rightarrow> False),
      keccak_text = demo_digest, recover = rec\<rparr>"

lemma hex_char_digit: "n < 16 \<Longrightarrow> is_hex_digit (hex_char n)"
  by (auto simp: hex_char_def is_hex_digit_def is_digit_def code_in_def)

lemma byte_hex_digits: "list_all is_hex_digit (byte_hex b)"
  using byte_less [of b] by (simp add: byte_hex_def hex_char_digit less_mult_imp_div_less)

lemma demo_digest_ok: "hex_of_length 64 (demo_digest t)"
proof -
  let ?s = "concat (map (\<lambda>c. byte_hex (of_char c)) t)"
  have "list_all is_hex_digit ?s" using byte_hex_digits by (induction t) auto
  then have "list_all is_hex_digit (rev (take 64 (rev ?s)))" by (auto simp: list_all_iff dest!: in_set_takeD)
  moreover have "is_hex_digit (CHR ''0'')" by (simp add: is_hex_digit_def is_digit_def code_in_def)
  moreover have "64 - length ?s + min (length ?s) 64 = 64" by simp
  ultimately show ?thesis by (auto simp: demo_digest_def hex_of_length_def Let_def list_all_iff)
qed

lemma demo_ethers_ok: "ethers_ok (demo_ethers rec)" "addresses_ok (demo_ethers rec)" "digests_ok (demo_ethers rec)"
proof -
  show "ethers_ok (demo_ethers rec)"
    using demo_digest_ok
    by (auto simp: ethers_ok_def demo_ethers_def demo_address_def hex_of_length_def [of _ "[]"]
        split: json.splits if_splits)
  have "hex_of_length 40 (lower s) \<and> norm_hex (lower s) = lower s" if "hex_of_length 40 s" for s
  proof -
    from that have "take 2 s = ''0x''" by (simp add: hex_of_length_def)
    then have "s = ''0x'' @ drop 2 s" by (metis append_take_drop_id)
    then obtain t where t: "s = ''0x'' @ t" by blast
    have low: "lower_char CHR ''0'' = CHR ''0''" "lower_char CHR ''x'' = CHR ''x''"
      by (simp_all add: lower_char_def is_upper_def code_in_def)
    with that t show ?thesis
      by (auto simp: hex_of_length_def lower_def norm_hex_def strip_0x_def list_all_iff is_hex_lower)
  qed
  moreover have "demo_address v = Some a \<longleftrightarrow> (\<exists>s. v = JStr s \<and> hex_of_length 40 s \<and> a = lower s)" for v a
    by (auto simp: demo_address_def split: json.splits)
  ultimately show "addresses_ok (demo_ethers rec)"
    unfolding addresses_ok_def demo_ethers_def ethers.simps by (metis lower_idem not_Some_eq)
  show "digests_ok (demo_ethers rec)"
    by (auto simp: digests_ok_def demo_ethers_def split: json.splits)
qed

lemma demo_wallet_ok: "\<not> bad_address (demo_ethers rec) (JStr demo_wallet)"
  by (simp add: bad_address_def demo_ethers_def demo_address_def demo_wallet_def ZeroAddress_def hex_of_length_def
      list_all_iff is_hex_digit_def is_digit_def code_in_def)

section \<open>An access credential\<close>

definition demo_coercions :: coercions where
  "demo_coercions = \<lparr>co_less = (\<lambda>_ _. False), co_less_eq = (\<lambda>_ _. False), co_bigint = (\<lambda>_. None)\<rparr>"

definition demo_host :: host where
  "demo_host = \<lparr>read_decimal = (\<lambda>_. None), wide_escape = (\<lambda>_. None), platform_of = Browser, parse_wide = (\<lambda>_. None)\<rparr>"

definition demo_hash :: "char \<Rightarrow> string" where
  "demo_hash c = ''0x'' @ replicate 64 c"

definition demo_params :: access_params where
  "demo_params =
     \<lparr>ap_chainId = JNum 31337, ap_vault = JStr demo_wallet, ap_paycardId = JStr (demo_hash (CHR ''1'')),
      ap_metadataHash = JStr (demo_hash (CHR ''2'')), ap_mode = JStr ''railsflow'', ap_service = JStr demo_wallet,
      ap_serviceOrigin = ''http://localhost:3001'', ap_scope = ''GET /x'', ap_issuedAt = JNum 1000,
      ap_expiresAt = JNum 2000, ap_nonce = JStr (demo_hash (CHR ''3''))\<rparr>"

definition demo_options :: access_options where
  "demo_options = \<lparr>ao_chainId = 31337, ao_vault = demo_wallet, ao_service = demo_wallet,
     ao_serviceOrigin = ''http://localhost:3001'', ao_scope = ''GET /x'', ao_now = Some 1500\<rparr>"

text \<open>A verifier that takes every signature of the wallet, and one that takes only what was signed.\<close>

definition any_signature :: "access_domain \<Rightarrow> access_value \<Rightarrow> json \<Rightarrow> string option" where
  "any_signature d v sg = (if sg = JStr ''signed'' then Some demo_wallet else None)"

definition the_signature :: "access_domain \<Rightarrow> access_value \<Rightarrow> json \<Rightarrow> string option" where
  "the_signature d v sg =
     (if d = buildOpenRailsAccessDomain (ap_chainId demo_params) (ap_vault demo_params) \<and>
         v = buildOpenRailsAccessValue (demo_ethers any_signature) [] demo_params
      then any_signature d v sg else None)"

definition demo_credential :: access_credential where
  "demo_credential =
     \<lparr>ac_version = JStr ''openrails-access-v1'', ac_chainId = JNum 31337, ac_vault = JStr demo_wallet,
      ac_paycardId = JStr (demo_hash (CHR ''1'')), ac_metadataHash = JStr (demo_hash (CHR ''2'')),
      ac_mode = JStr ''railsflow'', ac_service = JStr demo_wallet,
      ac_serviceOriginHash = JStr (demo_digest ''http://localhost:3001''),
      ac_scopeHash = JStr (demo_digest ''GET /x''), ac_issuedAt = JNum 1000, ac_expiresAt = JNum 2000,
      ac_nonce = JStr (demo_hash (CHR ''3'')), ac_signer = JStr demo_wallet, ac_signature = JStr ''signed''\<rparr>"

lemma demo_hash_ok: "is_hex_digit c \<Longrightarrow> is_bytes32 (demo_ethers rec) (JStr (demo_hash c))"
  by (simp add: demo_ethers_def demo_hash_def hex_of_length_def list_all_iff)

lemma demo_digits [simp]: "is_hex_digit (CHR ''1'')" "is_hex_digit (CHR ''2'')" "is_hex_digit (CHR ''3'')"
  by (simp_all add: is_hex_digit_def is_digit_def code_in_def)

lemma demo_created:
  "createOpenRailsAccessCredential demo_coercions (demo_ethers rec) (\<lambda>_ _. ''signed'') demo_wallet [] demo_params =
     Inr demo_credential"
proof -
  have "validateAccessParams demo_coercions (demo_ethers rec) demo_params = Inr ()"
    by (simp add: validateAccessParams_iff demo_params_def demo_wallet_ok demo_hash_ok)
  then show ?thesis
    by (simp add: createOpenRailsAccessCredential_def demo_params_def demo_credential_def Let_def
        buildOpenRailsAccessValue_def is_nullish_def hashOpenRailsAccessText_def demo_ethers_def)
qed

lemma demo_expected: "params_expected demo_coercions (demo_ethers rec) (clock_now clock demo_options) demo_options demo_params"
  using demo_wallet_ok [of rec]
  by (auto simp: params_expected_def demo_params_def demo_options_def clock_now_def bad_address_def demo_ethers_def)

lemma demo_plain: "plain_params demo_params"
  by (simp add: plain_params_def demo_params_def isSafeInteger_def)

text \<open>The only signed message in the world is the demo credential.\<close>

lemma demo_only_created: "only_created (demo_ethers the_signature) {(demo_wallet, [], demo_params)}"
  by (auto simp: only_created_def the_signature_def any_signature_def demo_ethers_def buildOpenRailsAccessValue_def
      hashOpenRailsAccessText_def split: if_splits)

lemma demo_no_collision: "no_collision et {(demo_wallet, [], demo_params)} demo_options"
  by (simp add: no_collision_def demo_params_def demo_options_def)

section \<open>A link\<close>

definition text_points :: "string \<Rightarrow> points" where
  "text_points s = map of_char s"

definition demo_link :: link_artifact where
  "demo_link =
     \<lparr>la_kind = Link_railscard, la_chainId = 5042002, la_vault = ''0x'' @ replicate 40 (CHR ''A''), la_token = demo_wallet,
      la_metadataHash = demo_hash (CHR ''2''),
      la_payload = Envelope_payload Mode_bearer (text_points ''token'') (Some (text_points ''hint''))\<rparr>"

section \<open>A chain with two provisionings\<close>

definition demo_row :: raw_row where
  "demo_row =
     \<lparr>rr_payer = demo_wallet, rr_recipient = demo_wallet, rr_metadataHash = demo_hash (CHR ''2''),
      rr_totalAllocationPool = 100, rr_availableBalance = 60, rr_flowVelocityPerSecond = 1, rr_genesisTimestamp = 1000,
      rr_lifespanSeconds = 100, rr_lastCheckpointEpoch = 1040, rr_residualDeltaRecipient = demo_wallet,
      rr_operationalStatus = 0\<rparr>"

definition vault_demo_log :: "char \<Rightarrow> int \<Rightarrow> vault_log" where
  "vault_demo_log c block =
     \<lparr>vl_parsed = Some (''PaycardProvisioned'', \<lparr>pa_paycardId = demo_hash c, pa_payer = demo_wallet,
        pa_recipient = demo_wallet, pa_metadataHash = demo_hash (CHR ''2''), pa_poolAllocation = 100,
        pa_flowVelocityPerSecond = 1, pa_genesisTimestamp = 1000, pa_lifespanSeconds = 100\<rparr>),
      vl_blockNumber = block, vl_transactionHash = demo_hash (CHR ''4''), vl_index = 0\<rparr>"

definition demo_node :: vault_node where
  "demo_node =
     \<lparr>vn_height = 30,
      vn_logs = (\<lambda>_ _ a b. Inr (filter (\<lambda>l. a \<le> vl_blockNumber l \<and> vl_blockNumber l \<le> b)
        [vault_demo_log (CHR ''1'') 3, vault_demo_log (CHR ''2'') 9, vault_demo_log (CHR ''1'') 20])),
      vn_registry = (\<lambda>_. Inr demo_row)\<rparr>"

definition demo_recovery :: recover_options where
  "demo_recovery = \<lparr>ro_payer = Some demo_wallet, ro_recipient = None, ro_metadataHash = None, ro_fromBlock = None,
     ro_toBlock = None, ro_limit = Some 5, ro_chunkSize = Some 10\<rparr>"

lemma split_range:
  assumes "sorted (map f xs)" "a \<le> b" "b < (c :: int)"
  shows "filter (\<lambda>x. a \<le> f x \<and> f x \<le> b) xs @ filter (\<lambda>x. b + 1 \<le> f x \<and> f x \<le> c) xs =
    filter (\<lambda>x. a \<le> f x \<and> f x \<le> c) xs"
  using assms(1)
proof (induction xs)
  case (Cons x xs)
  then have le: "\<And>y. y \<in> set xs \<Longrightarrow> f x \<le> f y" by simp
  show ?case
  proof (cases "f x \<le> b")
    case True
    with assms(2,3) Cons show ?thesis by auto
  next
    case False
    with le have "filter (\<lambda>x. a \<le> f x \<and> f x \<le> b) xs = []" by (fastforce simp: filter_empty_conv)
    with False assms(2,3) Cons show ?thesis by auto
  qed
qed simp

lemma demo_node_ok: "logs_split demo_node" "logs_answer demo_node" "rows_answer demo_node"
proof -
  have "sorted (map vl_blockNumber [vault_demo_log (CHR ''1'') 3, vault_demo_log (CHR ''2'') 9, vault_demo_log (CHR ''1'') 20])"
    by (simp add: vault_demo_log_def)
  note split_range [OF this]
  then show "logs_split demo_node" unfolding logs_split_def demo_node_def by auto
qed (simp_all add: logs_answer_def rows_answer_def demo_node_def)

section \<open>Facts about the demonstrations\<close>

lemma same_demo_key: "cacheKey ''0xAB'' 7 = cacheKey ''0xab'' 7"
proof -
  have "lower ''0xAB'' = lower ''0xab''" by code_simp
  then show ?thesis by (simp add: cacheKey_def)
qed

lemma demo_nonces_value:
  "map_option (\<lambda>e. (map nc_phase (ne_calls e), issued (cacheKey ''0xab'' 7) (ne_calls e), length (ne_calls e))) demo_nonces =
     Some ([Returned 0, Thrown, Returned 1], [0, 1], 3)"
  by (simp add: demo_nonces_def new_engine_def nextNonce_def Let_def enter_def settled_promise_def set_phase_def
      update_call_def read_nonce_def write_nonce_def adapter_rejects_def settle_next_def leave_def memory_get_def memory_set_def
      issued_def issued_by_def same_demo_key dbl_exact isSafeInteger_def finished_def)

definition demo_access_request :: access_request where
  "demo_access_request = request_of (access_headers
     (base64UrlEncode (code_points (stringify (credential_json demo_credential)))) demo_credential)"

lemma demo_request_accepted:
  "validateOpenRailsAccessRequest demo_coercions (demo_ethers the_signature) demo_host 0 demo_access_request demo_options =
     Inr (Accepted (demo_credential, demo_wallet))"
proof -
  let ?et = "demo_ethers the_signature"
  have n: "is_bytes32 ?et (av_nonce (buildOpenRailsAccessValue ?et [] demo_params))"
    by (simp add: buildOpenRailsAccessValue_def demo_params_def is_nullish_def demo_hash_ok)
  have shape: "validateAccessCredentialShape demo_coercions ?et demo_credential = Inr ()"
    by (rule created_shape [OF demo_created demo_ethers_ok(1) demo_wallet_ok n])
  note t = envelope_roundtrip [OF created_textual [OF demo_created demo_ethers_ok(1) demo_plain shape]]
  have "deserializeOpenRailsAccessCredential demo_coercions ?et demo_host
      (base64UrlEncode (code_points (stringify (credential_json demo_credential)))) = Inr demo_credential"
    by (simp add: deserializeOpenRailsAccessCredential_def t(2) credential_of_json shape)
  moreover have "recover ?et (credential_domain demo_credential) (credential_value demo_credential)
      (ac_signature demo_credential) = Some demo_wallet"
    by (simp add: demo_ethers_def the_signature_def any_signature_def credential_domain_def credential_value_def
        demo_credential_def demo_params_def buildOpenRailsAccessValue_def is_nullish_def hashOpenRailsAccessText_def)
  moreover have "credential_in_force demo_coercions ?et (clock_now 0 demo_options) demo_access_request demo_options demo_credential"
    using demo_wallet_ok [of the_signature]
    by (auto simp: credential_in_force_def demo_credential_def demo_options_def clock_now_def demo_access_request_def
        request_of_def header_text_def access_headers_def bad_address_def demo_ethers_def)
  ultimately show ?thesis
    unfolding access_accepted_iff
    by (simp add: demo_access_request_def request_of_def header_text_def access_headers_def starts_openrails_def given_def
        trim_token demo_credential_def demo_hash_def)
qed

lemma demo_isAddress: "isAddress (demo_ethers rec) v \<longleftrightarrow> get_address (demo_ethers rec) v \<noteq> None"
  by (simp add: demo_ethers_def)

definition demo_intent :: json where
  "demo_intent = JObj [(''paycardId'', JStr (demo_hash (CHR ''1''))), (''metadataHash'', JStr (demo_hash (CHR ''2''))),
     (''recipient'', JStr demo_wallet), (''totalAllocationPool'', JStr ''100''), (''flowVelocityPerSecond'', JStr ''1''),
     (''lifespanSeconds'', JNum 100), (''nonceChannel'', JNum 0), (''nonceValue'', JNum 0)]"

definition demo_envelope :: json where
  "demo_envelope = JObj [(''envelopeSignature'', JStr ''signed''), (''intent'', demo_intent)]"

definition demo_open_body :: open_body where
  "demo_open_body =
     \<lparr>ob_envelopeToken = JStr (base64UrlEncode (code_points (stringify demo_envelope))), ob_claimRecipient = JUndefined,
      ob_policyEnvelope = JObj [(''maxAllocationPool'', JStr ''100'')], ob_mode = JUndefined,
      ob_paycardId = JStr (demo_hash (CHR ''1'')), ob_metadataHash = JUndefined\<rparr>"

definition demo_opened :: open_request where
  "demo_opened = \<lparr>or_decoded = demo_envelope, or_envelopeMode = flow, or_isWildcard = False,
     or_claimRecipient = JUndefined, or_workflowId = JUndefined\<rparr>"

lemma demo_envelope_token:
  "deserializeEnvelope h (base64UrlEncode (code_points (stringify demo_envelope))) = Inr demo_envelope"
  by (rule envelope_roundtrip) (simp add: demo_envelope_def demo_intent_def isSafeInteger_def)

lemma demo_opening_accepted:
  "validateOpenPaycardRequest demo_coercions et demo_host 0 demo_open_body demo_wallet = Inr (Accepted demo_opened)"
proof -
  have t: "base64UrlEncode (code_points (stringify demo_envelope)) \<noteq> []"
  proof
    assume "base64UrlEncode (code_points (stringify demo_envelope)) = []"
    moreover have "base64UrlDecode (platform_of demo_host) [] = Some []" "parse_text demo_host [] = None"
      by code_simp+
    ultimately show False
      using demo_envelope_token [of demo_host] by (simp add: deserializeEnvelope_def)
  qed
  have i: "opt_prop demo_envelope ''intent'' = demo_intent" "opt_prop demo_envelope ''metadata'' = JUndefined"
    "opt_prop demo_envelope ''mode'' = JUndefined" "get_prop demo_envelope ''intent'' = Inr demo_intent"
    by (simp_all add: demo_envelope_def opt_prop_def)
  have p: "evaluatePolicyEnvelope demo_coercions demo_intent (ob_policyEnvelope demo_open_body) 0 = Inr []"
    by (simp add: evaluatePolicyEnvelope_def demo_open_body_def opt_prop_def demo_intent_def over_limit_def bigint_def
        decimal_def is_digit_def code_in_def demo_wallet_def ZeroAddress_def)
  show ?thesis
    using t i p
    by (simp add: validateOpenPaycardRequest_def demo_open_body_def demo_envelope_token refuse_if_def also_if_def)
      (simp add: demo_intent_def opt_prop_def Let_def refuse_if_def conflicting_def check_mode_def demo_opened_def
        demo_hash_def ZeroHash_def demo_wallet_def ZeroAddress_def)
qed

end
