(* ===== verification/ServerBase.thy ===== *)
theory ServerBase
  imports ServerValidation SdkRecovery
begin

text \<open>
  \<open>server/index.ts\<close>, what its handlers share. A handler is an action: it takes the state of the
  world and returns a value or what was thrown, with the new state. The world is the state of the
  chain, of which nothing is known but the answers of the record \<open>chain_node\<close>, and the list of the
  calls the server sent with their outcomes. Since an answer may change the state of the chain,
  other requests may be served at every \<open>await\<close>. The collection \<open>after_rules\<close> computes
  what holds after an action.
\<close>

section \<open>Values that are thrown\<close>

record reject =
  rj_code :: "string option"
  rj_message :: "string option"

definition reject_of :: "js_error \<Rightarrow> reject" where
  "reject_of e = (case e of Error msg \<Rightarrow> \<lparr>rj_code = None, rj_message = Some msg\<rparr>)"

section \<open>The world\<close>

datatype chain_call =
    Call_open "json list" "int option"
  | Call_claim "json list" "int option"
  | Call_drip json
  | Call_flush string json
  | Call_mint json int
  | Rpc string "json list"

record receipt_log =
  rl_address :: string
  rl_parsed :: "(string \<times> int obj) option"

record tx_receipt =
  re_blockNumber :: int
  re_logs :: "receipt_log list"

text \<open>\<open>nd_send\<close> submits a transaction or a request that changes the chain, and gives its hash.\<close>

record 'c chain_node =
  nd_send :: "chain_call \<Rightarrow> 'c \<Rightarrow> (reject + string) \<times> 'c"
  nd_wait :: "string \<Rightarrow> 'c \<Rightarrow> (reject + tx_receipt) \<times> 'c"
  nd_registry :: "json \<Rightarrow> 'c \<Rightarrow> (reject + raw_row) \<times> 'c"
  nd_count :: "string \<Rightarrow> 'c \<Rightarrow> (reject + int) \<times> 'c"
  nd_timestamp :: "'c \<Rightarrow> (reject + int option) \<times> 'c"
  nd_signer :: "string \<Rightarrow> 'c \<Rightarrow> (reject + unit) \<times> 'c"
  nd_read :: "string \<Rightarrow> json list \<Rightarrow> 'c \<Rightarrow> (reject + int) \<times> 'c"
  nd_block :: "'c \<Rightarrow> (reject + int) \<times> 'c"
  nd_vault :: "'c \<Rightarrow> vault_node"

record 'c relay_world =
  wd_chain :: 'c
  wd_sent :: "(chain_call \<times> (reject + string)) list"

type_synonym ('c, 'a) action = "'c relay_world \<Rightarrow> (reject + 'a) \<times> 'c relay_world"

definition areturn :: "'a \<Rightarrow> ('c, 'a) action" where
  "areturn x w = (Inr x, w)"

definition athrow :: "reject \<Rightarrow> ('c, 'a) action" where
  "athrow e w = (Inl e, w)"

definition abind :: "('c, 'a) action \<Rightarrow> ('a \<Rightarrow> ('c, 'b) action) \<Rightarrow> ('c, 'b) action" where
  "abind m f w = (case m w of (Inl e, w') \<Rightarrow> (Inl e, w') | (Inr x, w') \<Rightarrow> f x w')"

definition acatch :: "('c, 'a) action \<Rightarrow> (reject \<Rightarrow> ('c, 'a) action) \<Rightarrow> ('c, 'a) action" where
  "acatch m g w = (case m w of (Inl e, w') \<Rightarrow> g e w' | (Inr x, w') \<Rightarrow> (Inr x, w'))"

definition of_result :: "'a result \<Rightarrow> ('c, 'a) action" where
  "of_result m = (case m of Inl e \<Rightarrow> athrow (reject_of e) | Inr x \<Rightarrow> areturn x)"

definition ask_chain :: "('c \<Rightarrow> (reject + 'a) \<times> 'c) \<Rightarrow> ('c, 'a) action" where
  "ask_chain q w = (let (r, c) = q (wd_chain w) in (r, w\<lparr>wd_chain := c\<rparr>))"

definition send_call :: "'c chain_node \<Rightarrow> chain_call \<Rightarrow> ('c, string) action" where
  "send_call nd call w =
     (let (r, c) = nd_send nd call (wd_chain w) in (r, w\<lparr>wd_chain := c, wd_sent := wd_sent w @ [(call, r)]\<rparr>))"

subsection \<open>What holds after an action\<close>

named_theorems after_rules \<open>what holds after the actions of a handler\<close>

definition after :: "('c, 'a) action \<Rightarrow> 'c relay_world \<Rightarrow> (reject + 'a \<Rightarrow> 'c relay_world \<Rightarrow> bool) \<Rightarrow> bool" where
  "after m w Q \<longleftrightarrow> Q (fst (m w)) (snd (m w))"

lemma after_areturn [after_rules]: "after (areturn x) w Q \<longleftrightarrow> Q (Inr x) w"
  by (simp add: after_def areturn_def)

lemma after_athrow [after_rules]: "after (athrow e) w Q \<longleftrightarrow> Q (Inl e) w"
  by (simp add: after_def athrow_def)

lemma after_abind [after_rules]:
  "after (abind m f) w Q \<longleftrightarrow> after m w (\<lambda>r w'. case r of Inl e \<Rightarrow> Q (Inl e) w' | Inr x \<Rightarrow> after (f x) w' Q)"
  by (auto simp: after_def abind_def split: prod.splits sum.splits)

lemma after_acatch [after_rules]:
  "after (acatch m g) w Q \<longleftrightarrow> after m w (\<lambda>r w'. case r of Inl e \<Rightarrow> after (g e) w' Q | Inr x \<Rightarrow> Q (Inr x) w')"
  by (auto simp: after_def acatch_def split: prod.splits sum.splits)

lemma after_of_result [after_rules]:
  "after (of_result m) w Q \<longleftrightarrow> (case m of Inl e \<Rightarrow> Q (Inl (reject_of e)) w | Inr x \<Rightarrow> Q (Inr x) w)"
  by (simp add: of_result_def after_rules split: sum.splits)

lemma after_if [after_rules]: "after (if c then m else n) w Q \<longleftrightarrow> (if c then after m w Q else after n w Q)"
  by simp

text \<open>Of an answer nothing is known, except that asking sends nothing; a call is recorded with
  its outcome.\<close>

lemma after_ask: "(\<And>r c. Q r (w\<lparr>wd_chain := c\<rparr>)) \<Longrightarrow> after (ask_chain q) w Q"
  by (simp add: after_def ask_chain_def split: prod.splits)

lemma after_send: "(\<And>r c. Q r (w\<lparr>wd_chain := c, wd_sent := wd_sent w @ [(call, r)]\<rparr>)) \<Longrightarrow> after (send_call nd call) w Q"
  by (simp add: after_def send_call_def split: prod.splits)

lemma after_mono: "after m w P \<Longrightarrow> (\<And>r w'. P r w' \<Longrightarrow> Q r w') \<Longrightarrow> after m w Q"
  by (simp add: after_def)

lemma after_apply: "after m w Q \<Longrightarrow> m w = (r, w') \<Longrightarrow> Q r w'"
  by (simp add: after_def)

section \<open>Requests and replies\<close>

record relay_request =
  rq_ip :: string
  rq_time :: int
  rq_headers :: "string obj"
  rq_body :: json
  rq_query :: json
  rq_params :: "string obj"

record http_reply =
  rp_status :: int
  rp_body :: json

definition reply_with :: "int \<Rightarrow> json \<Rightarrow> ('c, http_reply) action" where
  "reply_with status body = areturn \<lparr>rp_status = status, rp_body = body\<rparr>"

definition error_body :: "string \<Rightarrow> json" where
  "error_body msg = JObj [(''error'', JStr msg)]"

definition reply_error :: "int \<Rightarrow> string \<Rightarrow> ('c, http_reply) action" where
  "reply_error status msg = reply_with status (error_body msg)"

text \<open>\<open>catch (err) { res.status(500).json({ error: err.message }) }\<close>.\<close>

definition catch_500 :: "('c, http_reply) action \<Rightarrow> ('c, http_reply) action" where
  "catch_500 m = acatch m (\<lambda>e. reply_with 500 (JObj (opt_field ''error'' JStr (rj_message e))))"

definition request_header :: "relay_request \<Rightarrow> string \<Rightarrow> string option" where
  "request_header rq name = oget (rq_headers rq) (lower name)"

definition header_value :: "relay_request \<Rightarrow> string \<Rightarrow> json" where
  "header_value rq name = (case request_header rq name of None \<Rightarrow> JUndefined | Some s \<Rightarrow> JStr s)"

definition path_param :: "relay_request \<Rightarrow> string \<Rightarrow> string" where
  "path_param rq name = (case oget (rq_params rq) name of None \<Rightarrow> [] | Some s \<Rightarrow> s)"

section \<open>Conversions\<close>

text \<open>\<open>String(v)\<close> of values that are no texts or small whole numbers, and \<open>Number(v)\<close> where it is
  a whole number.\<close>

record server_values = coercions +
  co_text :: "json \<Rightarrow> string"
  co_whole :: "json \<Rightarrow> int option"

definition js_string :: "server_values \<Rightarrow> json \<Rightarrow> string" where
  "js_string sv v =
     (case v of
        JStr s \<Rightarrow> s
      | JNum n \<Rightarrow> if \<bar>n\<bar> < 10 ^ 21 then int_str n else co_text sv v
      | JUndefined \<Rightarrow> ''undefined''
      | JNull \<Rightarrow> ''null''
      | JBool b \<Rightarrow> if b then ''true'' else ''false''
      | _ \<Rightarrow> co_text sv v)"

text \<open>\<open>v.toString()\<close>.\<close>

definition to_string :: "server_values \<Rightarrow> json \<Rightarrow> string result" where
  "to_string sv v = throw_if (is_nullish v) ''Cannot read properties of undefined (reading 'toString')'' (Inr (js_string sv v))"

definition js_whole :: "server_values \<Rightarrow> json \<Rightarrow> int option" where
  "js_whole sv v = (case v of JNum n \<Rightarrow> Some n | _ \<Rightarrow> co_whole sv v)"

record server_ethers = ethers +
  parse_units :: "string \<Rightarrow> int option"
  verify_message :: "string \<Rightarrow> json \<Rightarrow> string option"
  wallet_address :: "string \<Rightarrow> string option"
  intent_digest :: "string \<Rightarrow> int \<Rightarrow> string \<Rightarrow> json \<Rightarrow> string option"
  intent_signer :: "string \<Rightarrow> int \<Rightarrow> string \<Rightarrow> json \<Rightarrow> json \<Rightarrow> string option"

section \<open>Configuration\<close>

text \<open>The environment and what the start-up found out. \<open>cf_maxLifespan\<close> is \<open>None\<close> for \<open>NaN\<close>.\<close>

record relay_config =
  cf_mode :: string
  cf_relayerFlag :: "string option"
  cf_providerUrl :: string
  cf_maxAllocation :: string
  cf_maxLifespan :: "int option"
  cf_maxVelocity :: string
  cf_serviceOrigin :: string
  cf_chainId :: int
  cf_hub :: string
  cf_usdc :: string
  cf_explorer :: string
  cf_relayerAddress :: string
  cf_hasWallet :: bool
  cf_demoFlag :: "string option"
  cf_demoKey :: "string option"
  cf_sellerAddress :: string
  cf_facilitatorUrl :: string

datatype capability =
  CanRelayOpen | CanMint | CanTimeTravel | CanAutoDrip | CanDemoFlush | CanGatewaySettle | CanUsePrivateKeySigning

definition arc_mode :: "relay_config \<Rightarrow> bool" where
  "arc_mode cf \<longleftrightarrow> cf_mode cf = ''arc-testnet''"

definition publicRelayerEnabled :: "relay_config \<Rightarrow> bool" where
  "publicRelayerEnabled cf \<longleftrightarrow> arc_mode cf \<and> cf_relayerFlag cf = Some ''true''"

definition currentCapabilities :: "relay_config \<Rightarrow> capability \<Rightarrow> bool" where
  "currentCapabilities cf c \<longleftrightarrow>
     (if \<not> arc_mode cf then True else if publicRelayerEnabled cf then c = CanRelayOpen else False)"

text \<open>The regular expression is anchored at the start only.\<close>

definition has_prefix :: "string \<Rightarrow> string \<Rightarrow> bool" where
  "has_prefix prefix s \<longleftrightarrow> take (length prefix) s = prefix"

definition isLoopbackProviderUrl :: "string \<Rightarrow> bool" where
  "isLoopbackProviderUrl url \<longleftrightarrow>
     list_ex (\<lambda>p. has_prefix p (lower url))
       [''http://127.0.0.1'', ''https://127.0.0.1'', ''http://localhost'', ''https://localhost'']"

definition isLocalSandboxMode :: "relay_config \<Rightarrow> bool" where
  "isLocalSandboxMode cf \<longleftrightarrow> cf_chainId cf = 31337 \<and> isLoopbackProviderUrl (cf_providerUrl cf)"

definition forbiddenCapability ::
    "relay_config \<Rightarrow> capability \<Rightarrow> string \<Rightarrow> ('c, http_reply) action \<Rightarrow> ('c, http_reply) action" where
  "forbiddenCapability cf c what k =
     (if currentCapabilities cf c then k
      else reply_error 403 (what @ '' is disabled in '' @ cf_mode cf @ '' dashboard mode''))"

section \<open>Addresses and amounts\<close>

definition requireAddress :: "server_values \<Rightarrow> 'z ethers_scheme \<Rightarrow> json \<Rightarrow> string \<Rightarrow> string result" where
  "requireAddress sv et value name =
     (let address = (if js_truthy value then js_string sv value else []) in
      throw_if (\<not> isAddress et (JStr address) \<or> address = ZeroAddress)
        (name @ '' must be a non-zero EVM address'') (Inr address))"

definition buildFlushAuthorizationMessage :: "server_values \<Rightarrow> relay_config \<Rightarrow> json \<Rightarrow> string" where
  "buildFlushAuthorizationMessage sv cf paycardId =
     join [char_of (10 :: nat)]
       [''OpenRails flush authorization'', ''chainId:'' @ int_str (cf_chainId cf), ''hub:'' @ cf_hub cf,
        ''paycardId:'' @ js_string sv paycardId]"

text \<open>The sum over the logs of the Vault that carry the event and the field.\<close>

definition log_amount :: "string \<Rightarrow> string \<Rightarrow> string \<Rightarrow> receipt_log \<Rightarrow> int" where
  "log_amount hub eventName amountField l =
     (if lower (rl_address l) \<noteq> lower hub then 0
      else case rl_parsed l of
          None \<Rightarrow> 0
        | Some (name, args) \<Rightarrow>
            if name = eventName then (case oget args amountField of None \<Rightarrow> 0 | Some n \<Rightarrow> n) else 0)"

definition extractVaultEventAmount :: "string \<Rightarrow> tx_receipt \<Rightarrow> string \<Rightarrow> string \<Rightarrow> string" where
  "extractVaultEventAmount hub rc eventName amountField =
     int_str (sum_list (map (log_amount hub eventName amountField) (re_logs rc)))"

definition parseRecoveryBlockParam :: "server_values \<Rightarrow> json \<Rightarrow> string \<Rightarrow> int option result" where
  "parseRecoveryBlockParam sv value name =
     (if value = JUndefined then Inr None
      else
        let raw = js_string sv value in
        throw_if (\<not> decimal raw) (name @ '' must be a non-negative integer'')
       (let parsed = dbl (digits_val raw) in
        throw_if (\<not> isSafeInteger parsed) (name @ '' is too large'') (Inr (Some parsed))))"

definition parseRecoveryLimitParam :: "server_values \<Rightarrow> json \<Rightarrow> int result" where
  "parseRecoveryLimitParam sv value =
     (if value = JUndefined then Inr 20
      else
        let raw = js_string sv value in
        throw_if (\<not> decimal raw) ''limit must be a positive integer''
       (let parsed = dbl (digits_val raw) in
        throw_if (parsed \<le> 0 \<or> 50 < parsed) ''limit must be between 1 and 50'' (Inr parsed)))"

definition parsePublicRelayerUnits :: "'z server_ethers_scheme \<Rightarrow> string \<Rightarrow> string \<Rightarrow> int result" where
  "parsePublicRelayerUnits et value name =
     (case parse_units et value of
        Some n \<Rightarrow> throw_if (n \<le> 0) (name @ '' must be a positive decimal USDC amount'') (Inr n)
      | None \<Rightarrow> Inl (Error (name @ '' must be a positive decimal USDC amount'')))"

definition allocation_name :: string where
  "allocation_name = ''OPENRAILS_PUBLIC_RELAYER_MAX_ALLOCATION_USDC''"

definition velocity_name :: string where
  "velocity_name = ''OPENRAILS_PUBLIC_RELAYER_MAX_VELOCITY_USDC_PER_SECOND''"

definition whole_json :: "int option \<Rightarrow> json" where
  "whole_json n = (case n of None \<Rightarrow> JNull | Some i \<Rightarrow> JNum i)"

definition publicRelayerCaps :: "'z server_ethers_scheme \<Rightarrow> relay_config \<Rightarrow> json result" where
  "publicRelayerCaps et cf =
     bnd (parsePublicRelayerUnits et (cf_maxAllocation cf) allocation_name) (\<lambda>maxAllocationBase.
     bnd (parsePublicRelayerUnits et (cf_maxVelocity cf) velocity_name) (\<lambda>maxVelocityBase.
     Inr (JObj [(''maxAllocationUsdc'', JStr (cf_maxAllocation cf)),
       (''maxAllocationBaseUnits'', JStr (int_str maxAllocationBase)),
       (''maxLifespanSeconds'', whole_json (cf_maxLifespan cf)),
       (''maxVelocityUsdcPerSecond'', JStr (cf_maxVelocity cf)),
       (''maxVelocityBaseUnitsPerSecond'', JStr (int_str maxVelocityBase))])))"

definition assertPublicRelayerConfig :: "'z server_ethers_scheme \<Rightarrow> relay_config \<Rightarrow> unit result" where
  "assertPublicRelayerConfig et cf =
     throw_if (case cf_maxLifespan cf of None \<Rightarrow> True | Some n \<Rightarrow> n \<le> 0)
       ''OPENRAILS_PUBLIC_RELAYER_MAX_LIFESPAN_SECONDS must be a positive integer''
    (bnd (parsePublicRelayerUnits et (cf_maxAllocation cf) allocation_name) (\<lambda>_.
     bnd (parsePublicRelayerUnits et (cf_maxVelocity cf) velocity_name) (\<lambda>_. Inr ())))"

text \<open>\<open>BigInt(v.toString())\<close>.\<close>

definition amount_of :: "server_values \<Rightarrow> json \<Rightarrow> int result" where
  "amount_of sv v = bnd (to_string sv v) (\<lambda>s. bigint (coercions.truncate sv) (JStr s))"

definition over_lifespan :: "relay_config \<Rightarrow> int option \<Rightarrow> bool" where
  "over_lifespan cf lifespan \<longleftrightarrow>
     (case lifespan of
        None \<Rightarrow> True
      | Some n \<Rightarrow> n < 0 \<or> (case cf_maxLifespan cf of None \<Rightarrow> False | Some m \<Rightarrow> m < n))"

definition validatePublicRelayerCaps ::
    "server_values \<Rightarrow> 'z server_ethers_scheme \<Rightarrow> relay_config \<Rightarrow> json \<Rightarrow> string list result" where
  "validatePublicRelayerCaps sv et cf intent =
     (if \<not> publicRelayerEnabled cf then Inr []
      else
        bnd (parsePublicRelayerUnits et (cf_maxAllocation cf) allocation_name) (\<lambda>maxAllocationBase.
        bnd (parsePublicRelayerUnits et (cf_maxVelocity cf) velocity_name) (\<lambda>maxVelocityBase.
        bnd (amount_of sv (opt_prop intent ''totalAllocationPool'')) (\<lambda>allocation.
        bnd (amount_of sv (opt_prop intent ''flowVelocityPerSecond'')) (\<lambda>velocity.
        Inr ((if allocation > maxAllocationBase
                then [''totalAllocationPool exceeds public relayer cap of '' @ cf_maxAllocation cf @ '' USDC''] else []) @
             (if over_lifespan cf (js_whole sv (opt_prop intent ''lifespanSeconds''))
                then [''lifespanSeconds exceeds public relayer cap of '' @
                      (case cf_maxLifespan cf of None \<Rightarrow> ''NaN'' | Some n \<Rightarrow> int_str n)] else []) @
             (if velocity > maxVelocityBase
                then [''flowVelocityPerSecond exceeds public relayer cap of '' @ cf_maxVelocity cf @ '' USDC/sec''] else [])))))))"

section \<open>Middleware\<close>

text \<open>\<open>envelopeHeaderParser\<close> on the parsed body, an object or an array; an array that gets a
  property is the object of its entries.\<close>

definition entries_of :: "json \<Rightarrow> json obj" where
  "entries_of v =
     (case v of
        JObj fs \<Rightarrow> fs
      | JArr xs \<Rightarrow> zip (map (\<lambda>i. int_str (int i)) [0..<length xs]) xs
      | _ \<Rightarrow> [])"

definition envelopeHeaderParser :: "string option \<Rightarrow> json \<Rightarrow> json" where
  "envelopeHeaderParser authHeader body =
     (if starts_openrails authHeader then
        let token = trim (drop 10 (the authHeader)) in
        if token \<noteq> [] then JObj (oset ''envelopeToken'' (JStr token) (entries_of body)) else body
      else body)"

text \<open>Whether a rejection is about the nonce; the message is searched in lower case.\<close>

fun contains_text :: "string \<Rightarrow> string \<Rightarrow> bool" where
  "contains_text pat s \<longleftrightarrow> has_prefix pat s \<or> (case s of [] \<Rightarrow> False | _ # t \<Rightarrow> contains_text pat t)"

definition isNonceError :: "reject \<Rightarrow> bool" where
  "isNonceError e \<longleftrightarrow>
     rj_code e = Some ''NONCE_EXPIRED'' \<or>
     (let msg = lower (case rj_message e of None \<Rightarrow> [] | Some m \<Rightarrow> m) in
      contains_text ''nonce too low'' msg \<or> contains_text ''nonce has already been used'' msg)"

section \<open>Facts\<close>

text \<open>The caps the public relayer enforces.\<close>

definition within_caps :: "server_values \<Rightarrow> 'z server_ethers_scheme \<Rightarrow> relay_config \<Rightarrow> json \<Rightarrow> bool" where
  "within_caps sv et cf intent \<longleftrightarrow>
     (\<exists>maxAllocation maxVelocity allocation velocity.
        parse_units et (cf_maxAllocation cf) = Some maxAllocation \<and> parse_units et (cf_maxVelocity cf) = Some maxVelocity \<and>
        amount_of sv (opt_prop intent ''totalAllocationPool'') = Inr allocation \<and> allocation \<le> maxAllocation \<and>
        amount_of sv (opt_prop intent ''flowVelocityPerSecond'') = Inr velocity \<and> velocity \<le> maxVelocity) \<and>
     \<not> over_lifespan cf (js_whole sv (opt_prop intent ''lifespanSeconds''))"

lemma parsePublicRelayerUnits_Inr [result_simps]:
  "parsePublicRelayerUnits et value name = Inr n \<longleftrightarrow> parse_units et value = Some n \<and> 0 < n"
  by (auto simp: parsePublicRelayerUnits_def result_simps not_le split: option.splits)

lemma caps_respected:
  "validatePublicRelayerCaps sv et cf intent = Inr [] \<Longrightarrow> publicRelayerEnabled cf \<Longrightarrow> within_caps sv et cf intent"
  by (auto simp: validatePublicRelayerCaps_def within_caps_def result_simps not_less split: if_splits)

end
