(* ===== verification/ServerOpen.thy ===== *)
theory ServerOpen
  imports ServerBase
begin

text \<open>
  \<open>server/index.ts\<close>, \<open>POST /api/paycard/open\<close>: the relay of a signed intent, with the proofs of
  \<open>sdk/src/proof.ts\<close> it answers with. The clock is read once per request.
\<close>

section \<open>Proofs\<close>

text \<open>\<open>buildSettlementIntentValue\<close>; the digest and the recovered signer of a typed value are
  \<open>intent_digest\<close> and \<open>intent_signer\<close>, which take the version of the domain, the chain and the
  contract.\<close>

definition settlement_fields :: "string list" where
  "settlement_fields =
     [''paycardId'', ''metadataHash'', ''recipient'', ''totalAllocationPool'', ''flowVelocityPerSecond'',
      ''genesisTimestamp'', ''lifespanSeconds'', ''residualDeltaRecipient'', ''nonceChannel'', ''nonceValue'']"

definition buildSettlementIntentValue :: "json \<Rightarrow> json" where
  "buildSettlementIntentValue intent = JObj (map (\<lambda>k. (k, opt_prop intent k)) settlement_fields)"

definition hashSettlementIntent ::
    "'z server_ethers_scheme \<Rightarrow> json \<Rightarrow> int \<Rightarrow> string \<Rightarrow> string \<Rightarrow> string result" where
  "hashSettlementIntent et intent chainId verifyingContract version =
     require (intent_digest et version chainId verifyingContract (buildSettlementIntentValue intent)) ''invalid typed data''"

definition inferEnvelopeMode :: "json \<Rightarrow> json" where
  "inferEnvelopeMode intent = (if opt_prop intent ''recipient'' = JStr ZeroAddress then bearer else flow)"

text \<open>\<open>a ?? b\<close>.\<close>

definition or_else :: "json \<Rightarrow> json \<Rightarrow> json" where
  "or_else a b = (if is_nullish a then b else a)"

text \<open>An absent \<open>mode\<close> takes the default of the parameter.\<close>

definition buildIntentProof ::
    "'z server_ethers_scheme \<Rightarrow> int \<Rightarrow> json \<Rightarrow> (int \<times> string) option \<Rightarrow> json \<Rightarrow> json result" where
  "buildIntentProof et clock envelope domain mode_arg =
     (let intent = opt_prop envelope ''intent''; metadata = opt_prop envelope ''metadata'';
          mode = (if mode_arg = JUndefined
            then or_else (opt_prop metadata ''mode'') (or_else (opt_prop envelope ''mode'') (inferEnvelopeMode intent))
            else mode_arg) in
      bnd (case domain of
             None \<Rightarrow> Inr (opt_prop envelope ''payerAddress'')
           | Some (chainId, hub) \<Rightarrow>
               bnd (require (intent_signer et ''2.0.0'' chainId hub (buildSettlementIntentValue intent)
                 (opt_prop envelope ''envelopeSignature'')) ''invalid typed data or signature'') (\<lambda>a. Inr (JStr a))) (\<lambda>payer.
      bnd (case domain of
             None \<Rightarrow> Inr JUndefined
           | Some (chainId, hub) \<Rightarrow> bnd (hashSettlementIntent et intent chainId hub ''2.0.0'') (\<lambda>d. Inr (JStr d))) (\<lambda>digest.
      Inr (JObj [(''version'', JStr ''openrails-proof-v1''), (''stage'', JStr ''signed_intent''),
        (''paycardId'', opt_prop intent ''paycardId''), (''payer'', payer), (''recipient'', opt_prop intent ''recipient''),
        (''metadataHash'', opt_prop intent ''metadataHash''), (''workflowId'', opt_prop metadata ''workflowId''),
        (''intentDigest'', digest), (''mode'', mode), (''createdAt'', JNum clock)]))))"

definition buildTransactionProof :: "int \<Rightarrow> json obj \<Rightarrow> json" where
  "buildTransactionProof clock params =
     JObj ([(''version'', JStr ''openrails-proof-v1''), (''createdAt'', JNum clock)] @ params)"

section \<open>Submission\<close>

definition open_args :: "open_request \<Rightarrow> json list" where
  "open_args r =
     (let intent = opt_prop (or_decoded r) ''intent'' in
      [opt_prop intent ''paycardId'', opt_prop intent ''metadataHash'',
       (if or_isWildcard r then or_claimRecipient r else opt_prop intent ''recipient''),
       opt_prop intent ''totalAllocationPool'', opt_prop intent ''flowVelocityPerSecond'',
       opt_prop intent ''genesisTimestamp'', opt_prop intent ''lifespanSeconds'',
       opt_prop intent ''residualDeltaRecipient'', opt_prop (or_decoded r) ''envelopeSignature'',
       opt_prop intent ''nonceChannel'', opt_prop intent ''nonceValue''])"

definition submit_call :: "open_request \<Rightarrow> int option \<Rightarrow> chain_call" where
  "submit_call r nonce = (if or_isWildcard r then Call_claim (open_args r) nonce else Call_open (open_args r) nonce)"

text \<open>One submission, and a second with a fresh nonce after a rejection for the nonce.\<close>

definition submit_open :: "'c chain_node \<Rightarrow> relay_config \<Rightarrow> open_request \<Rightarrow> ('c, string) action" where
  "submit_open nd cf r =
     acatch (send_call nd (submit_call r None)) (\<lambda>firstErr.
       if isNonceError firstErr then
         if \<not> cf_hasWallet cf then athrow (reject_of (Error ''Relayer wallet is unavailable''))
         else abind (ask_chain (nd_count nd (cf_relayerAddress cf))) (\<lambda>freshNonce.
           send_call nd (submit_call r (Some freshNonce)))
       else athrow firstErr)"

definition open_reply ::
    "'z server_ethers_scheme \<Rightarrow> relay_config \<Rightarrow> int \<Rightarrow> open_request \<Rightarrow> string \<Rightarrow> tx_receipt \<Rightarrow> raw_row \<Rightarrow> json result" where
  "open_reply et cf clock r hash rc row =
     (let decoded = or_decoded r; intent = opt_prop decoded ''intent'' in
      bnd (hashSettlementIntent et intent (cf_chainId cf) (cf_hub cf) ''1.0.0'') (\<lambda>digest.
      bnd (buildIntentProof et clock decoded (Some (cf_chainId cf, cf_hub cf)) (or_envelopeMode r)) (\<lambda>intentProof.
      Inr (JObj [(''success'', JBool True), (''txHash'', JStr hash), (''blockNumber'', JNum (re_blockNumber rc)),
        (''paycardId'', opt_prop intent ''paycardId''), (''mode'', or_envelopeMode r), (''workflowId'', or_workflowId r),
        (''proof'', buildTransactionProof clock
          [(''stage'', JStr ''opened_escrow''), (''paycardId'', opt_prop intent ''paycardId''), (''txHash'', JStr hash),
           (''blockNumber'', JNum (re_blockNumber rc)), (''payer'', JStr (rr_payer row)),
           (''recipient'', JStr (rr_recipient row)), (''amount'', JStr (int_str (rr_totalAllocationPool row))),
           (''metadataHash'', JStr (rr_metadataHash row)), (''workflowId'', or_workflowId r),
           (''intentDigest'', JStr digest), (''mode'', or_envelopeMode r)]),
        (''intentProof'', intentProof)]))))"

definition relay_opening ::
    "server_values \<Rightarrow> 'z server_ethers_scheme \<Rightarrow> 'c chain_node \<Rightarrow> relay_config \<Rightarrow> int \<Rightarrow> open_request \<Rightarrow> ('c, http_reply) action" where
  "relay_opening sv et nd cf clock r =
     (let intent = opt_prop (or_decoded r) ''intent'' in
      abind (of_result (validatePublicRelayerCaps sv et cf intent)) (\<lambda>capReasons.
      if capReasons \<noteq> [] then
        abind (of_result (publicRelayerCaps et cf)) (\<lambda>caps.
          reply_with 400 (JObj [(''error'', JStr ''Public relayer cap exceeded''), (''reasons'', str_arr capReasons),
            (''caps'', caps)]))
      else
        abind (submit_open nd cf r) (\<lambda>hash.
        abind (ask_chain (nd_wait nd hash)) (\<lambda>rc.
        abind (ask_chain (nd_registry nd (opt_prop intent ''paycardId''))) (\<lambda>row.
        abind (of_result (open_reply et cf clock r hash rc row)) (reply_with 200))))))"

text \<open>What the handler passes to the validator; the headers replace fields of the body.\<close>

definition open_body_of :: "relay_request \<Rightarrow> open_body" where
  "open_body_of rq =
     (let fields = envelopeHeaderParser (request_header rq ''Authorization'') (rq_body rq) in
      \<lparr>ob_envelopeToken = opt_prop fields ''envelopeToken'', ob_claimRecipient = opt_prop fields ''claimRecipient'',
       ob_policyEnvelope = opt_prop fields ''policyEnvelope'', ob_mode = opt_prop fields ''mode'',
       ob_paycardId = header_value rq ''X-OpenRails-Paycard-Id'',
       ob_metadataHash = header_value rq ''X-OpenRails-Metadata-Hash''\<rparr>)"

definition postOpen ::
    "server_values \<Rightarrow> 'z server_ethers_scheme \<Rightarrow> 'h host_scheme \<Rightarrow> 'c chain_node \<Rightarrow> relay_config \<Rightarrow> relay_request \<Rightarrow>
     ('c, http_reply) action" where
  "postOpen sv et h nd cf rq =
     catch_500 (forbiddenCapability cf CanRelayOpen ''Local relayer submission''
       (let clock = rq_time rq div 1000 in
        abind (of_result (validateOpenPaycardRequest (coercions.truncate sv) et h clock (open_body_of rq) (cf_usdc cf)))
          (\<lambda>v. case v of
            Refused msg reasons \<Rightarrow>
              reply_with 400 (JObj ([(''error'', JStr msg)] @
                (if reasons = [] then [] else [(''reasons'', str_arr reasons)])))
          | Accepted r \<Rightarrow> relay_opening sv et nd cf clock r)))"

section \<open>What is sent\<close>

text \<open>The calls an action sends, with their outcomes.\<close>

definition sent_by :: "('c, 'a) action \<Rightarrow> 'c relay_world \<Rightarrow> (chain_call \<times> (reject + string)) list" where
  "sent_by m w = drop (length (wd_sent w)) (wd_sent (snd (m w)))"

text \<open>An action only adds to what was sent.\<close>

definition appends :: "('c, 'a) action \<Rightarrow> bool" where
  "appends m \<longleftrightarrow> (\<forall>w. \<exists>new. wd_sent (snd (m w)) = wd_sent w @ new)"

definition sends_nothing :: "('c, 'a) action \<Rightarrow> bool" where
  "sends_nothing m \<longleftrightarrow> (\<forall>w. wd_sent (snd (m w)) = wd_sent w)"

lemma sends_nothing_intros [intro]:
  "sends_nothing (areturn x)" "sends_nothing (athrow e)" "sends_nothing (of_result m)" "sends_nothing (ask_chain q)"
  "sends_nothing (reply_with s b)" "sends_nothing (reply_error s msg)"
  by (auto simp: sends_nothing_def areturn_def athrow_def of_result_def ask_chain_def reply_with_def reply_error_def
      split: sum.splits prod.splits)

lemma sends_nothing_abind [intro]: "sends_nothing m \<Longrightarrow> (\<And>x. sends_nothing (f x)) \<Longrightarrow> sends_nothing (abind m f)"
  by (auto simp: sends_nothing_def abind_def split: sum.splits prod.splits) (metis snd_conv)+

lemma sends_nothing_catch [intro]: "sends_nothing m \<Longrightarrow> sends_nothing (catch_500 m)"
  by (auto simp: sends_nothing_def catch_500_def acatch_def reply_with_def areturn_def split: sum.splits prod.splits)
    (metis snd_conv)+

lemma sends_nothing_if [intro]: "(c \<Longrightarrow> sends_nothing m) \<Longrightarrow> (\<not> c \<Longrightarrow> sends_nothing n) \<Longrightarrow> sends_nothing (if c then m else n)"
  by simp

lemma sent_by_abind_quiet: "sends_nothing m \<Longrightarrow> m w = (Inr x, w') \<Longrightarrow> sent_by (abind m f) w = sent_by (f x) w'"
  by (auto simp: sends_nothing_def sent_by_def abind_def) (metis snd_conv)

lemma sent_by_abind_then_quiet:
  assumes "\<And>x. sends_nothing (f x)"
  shows "sent_by (abind m f) w = sent_by m w"
  using assms by (auto simp: sends_nothing_def sent_by_def abind_def split: sum.splits prod.splits)

lemma sent_by_catch: "sent_by (catch_500 m) w = sent_by m w"
  by (auto simp: sent_by_def catch_500_def acatch_def reply_with_def areturn_def split: sum.splits prod.splits)

lemma sent_by_quiet: "sends_nothing m \<Longrightarrow> sent_by m w = []"
  by (simp add: sent_by_def sends_nothing_def)

text \<open>A submission is attempted once, or twice when the first attempt was rejected for its nonce.\<close>

definition submitted :: "open_request \<Rightarrow> (chain_call \<times> (reject + string)) list \<Rightarrow> bool" where
  "submitted r calls \<longleftrightarrow>
     (\<exists>x. calls = [(submit_call r None, x)]) \<or>
     (\<exists>e n x. calls = [(submit_call r None, Inl e), (submit_call r (Some n), x)] \<and> isNonceError e)"

lemma submit_open_sends: "submitted r (sent_by (submit_open nd cf r) w)"
proof -
  note defs = sent_by_def submit_open_def acatch_def abind_def athrow_def ask_chain_def send_call_def
  obtain x c where s: "nd_send nd (submit_call r None) (wd_chain w) = (x, c)" by fastforce
  show ?thesis
  proof (cases x)
    case (Inr hash)
    with s show ?thesis by (simp add: defs submitted_def)
  next
    case (Inl e)
    show ?thesis
    proof (cases "isNonceError e \<and> cf_hasWallet cf")
      case True
      obtain y c' where q: "nd_count nd (cf_relayerAddress cf) c = (y, c')" by fastforce
      show ?thesis
      proof (cases y)
        case (Inr n)
        obtain z c'' where "nd_send nd (submit_call r (Some n)) c' = (z, c'')" by fastforce
        with s q Inl Inr True have "sent_by (submit_open nd cf r) w = [(submit_call r None, Inl e), (submit_call r (Some n), z)]"
          by (simp add: defs)
        with True show ?thesis unfolding submitted_def by blast
      qed (use s q Inl True in \<open>simp add: defs submitted_def\<close>)
    next
      case False
      with s Inl have "sent_by (submit_open nd cf r) w = [(submit_call r None, Inl e)]" by (auto simp: defs)
      then show ?thesis unfolding submitted_def by blast
    qed
  qed
qed

lemma abind_of_result [simp]:
  "abind (of_result (Inr x)) f = f x" "abind (of_result (Inl e)) f = athrow (reject_of e)"
  by (simp_all add: fun_eq_iff abind_def of_result_def areturn_def athrow_def)

lemma sent_by_athrow [simp]: "sent_by (athrow e) w = []"
  by (simp add: sent_by_def athrow_def)

lemma sent_by_reply [simp]: "sent_by (reply_with s b) w = []" "sent_by (reply_error s msg) w = []"
  by (rule sent_by_quiet, blast)+

lemma relay_opening_sends:
  assumes "sent_by (relay_opening sv et nd cf clock r) w \<noteq> []"
  shows "validatePublicRelayerCaps sv et cf (opt_prop (or_decoded r) ''intent'') = Inr [] \<and>
    submitted r (sent_by (relay_opening sv et nd cf clock r) w)"
proof (cases "validatePublicRelayerCaps sv et cf (opt_prop (or_decoded r) ''intent'')")
  case (Inl e)
  with assms show ?thesis by (simp add: relay_opening_def Let_def)
next
  case (Inr reasons)
  show ?thesis
  proof (cases "reasons = []")
    case True
    have "sent_by (relay_opening sv et nd cf clock r) w = sent_by (submit_open nd cf r) w"
      unfolding relay_opening_def Let_def Inr abind_of_result True
      by (simp only: simp_thms if_False) (rule sent_by_abind_then_quiet, intro sends_nothing_abind sends_nothing_intros)
    with Inr True submit_open_sends show ?thesis by metis
  next
    case False
    then have "sent_by (relay_opening sv et nd cf clock r) w = []"
      unfolding relay_opening_def Let_def Inr abind_of_result
      by (simp only: simp_thms if_True) (rule sent_by_quiet, intro sends_nothing_abind sends_nothing_intros)
    with assms show ?thesis by simp
  qed
qed

text \<open>The whole handler.\<close>

lemma postOpen_sends:
  assumes "sent_by (postOpen sv et h nd cf rq) w \<noteq> []"
  obtains r where "currentCapabilities cf CanRelayOpen"
    "validateOpenPaycardRequest (coercions.truncate sv) et h (rq_time rq div 1000) (open_body_of rq) (cf_usdc cf) =
       Inr (Accepted r)"
    "validatePublicRelayerCaps sv et cf (opt_prop (or_decoded r) ''intent'') = Inr []"
    "submitted r (sent_by (postOpen sv et h nd cf rq) w)"
proof -
  let ?v = "validateOpenPaycardRequest (coercions.truncate sv) et h (rq_time rq div 1000) (open_body_of rq) (cf_usdc cf)"
  note sends = assms [unfolded postOpen_def sent_by_catch forbiddenCapability_def Let_def]
  have cap: "currentCapabilities cf CanRelayOpen"
    using sends by (auto split: if_splits)
  show thesis
  proof (cases ?v)
    case (Inl e)
    with sends cap show thesis by simp
  next
    case (Inr v)
    show thesis
    proof (cases v)
      case (Refused msg reasons)
      with Inr sends cap show thesis by simp
    next
      case (Accepted r)
      have "sent_by (postOpen sv et h nd cf rq) w = sent_by (relay_opening sv et nd cf (rq_time rq div 1000) r) w"
        using Inr Accepted cap by (simp add: postOpen_def sent_by_catch forbiddenCapability_def Let_def)
      with that cap Inr Accepted relay_opening_sends assms show thesis by metis
    qed
  qed
qed

end
