(* ===== verification/ServerRoutes.thy ===== *)
theory ServerRoutes
  imports ServerOpen RateLimiter
begin

text \<open>
  \<open>server/index.ts\<close>, the other handlers that use the chain, and the dispatch of a request through
  the rate limiter to its handler.
\<close>

section \<open>Rows\<close>

definition row_missing :: "raw_row \<Rightarrow> bool" where
  "row_missing row \<longleftrightarrow> rr_payer row = ZeroAddress"

definition row_active :: "raw_row \<Rightarrow> bool" where
  "row_active row \<longleftrightarrow> dbl (rr_operationalStatus row) = 0"

definition row_json :: "string \<Rightarrow> raw_row \<Rightarrow> json" where
  "row_json paycardId row = JObj
     [(''paycardId'', JStr paycardId), (''payer'', JStr (rr_payer row)), (''recipient'', JStr (rr_recipient row)),
      (''metadataHash'', JStr (rr_metadataHash row)), (''totalAllocationPool'', JStr (int_str (rr_totalAllocationPool row))),
      (''availableBalance'', JStr (int_str (rr_availableBalance row))),
      (''flowVelocityPerSecond'', JStr (int_str (rr_flowVelocityPerSecond row))),
      (''genesisTimestamp'', JNum (dbl (rr_genesisTimestamp row))), (''lifespanSeconds'', JNum (dbl (rr_lifespanSeconds row))),
      (''lastCheckpointEpoch'', JNum (dbl (rr_lastCheckpointEpoch row))),
      (''residualDeltaRecipient'', JStr (rr_residualDeltaRecipient row)),
      (''operationalStatus'', JStr (if row_active row then ''Active'' else ''Terminated''))]"

section \<open>Reading\<close>

definition getConfig :: "'z server_ethers_scheme \<Rightarrow> relay_config \<Rightarrow> json result" where
  "getConfig et cf =
     (let localSandbox = isLocalSandboxMode cf; cap = (\<lambda>n c. (n, JBool (currentCapabilities cf c))) in
      bnd (if publicRelayerEnabled cf then publicRelayerCaps et cf else Inr JNull) (\<lambda>caps.
      Inr (JObj
        [(''networkMode'', JStr (if arc_mode cf then ''arc-testnet'' else ''local'')), (''chainId'', JNum (cf_chainId cf)),
         (''clearinghouseAddress'', JStr (cf_hub cf)), (''usdcAddress'', JStr (cf_usdc cf)),
         (''explorerBaseUrl'', JStr (cf_explorer cf)), (''relayerAddress'', JStr (cf_relayerAddress cf)),
         (''relayerMode'', JStr (if publicRelayerEnabled cf then ''public-alpha''
            else if localSandbox then ''local-sandbox'' else ''read-only'')),
         (''gasFeeBufferMultiplier'', JDecimal ''1.15''), (''localSandbox'', JBool localSandbox),
         (''exposesPrivateKeys'', JBool False),
         (''capabilities'', JObj [cap ''canRelayOpen'' CanRelayOpen, cap ''canMint'' CanMint,
            cap ''canTimeTravel'' CanTimeTravel, cap ''canAutoDrip'' CanAutoDrip, cap ''canDemoFlush'' CanDemoFlush,
            cap ''canGatewaySettle'' CanGatewaySettle, cap ''canUsePrivateKeySigning'' CanUsePrivateKeySigning]),
         (''publicRelayer'', JObj [(''enabled'', JBool (publicRelayerEnabled cf)), (''closeRequiresWallet'', JBool True),
            (''settleRequiresWallet'', JBool True), (''caps'', caps)]),
         (''presets'', JObj
           [(''agentAddress'', JStr (if localSandbox then ''0x70997970C51812dc3A010C7d01b50e0d17dc79C8'' else [])),
            (''merchantAddress'', JStr (if localSandbox then ''0x3C44CdDdB6a900fa2b585dd299e03d12FA4293BC'' else [])),
            (''recoveryAddress'', JStr (if localSandbox then ''0x90F79bf6EB2c4f870365E785982E1f101E93b906'' else []))])])))"

definition getPaycard :: "'c chain_node \<Rightarrow> relay_request \<Rightarrow> ('c, http_reply) action" where
  "getPaycard nd rq =
     catch_500 (let paycardId = path_param rq ''id'' in
       abind (ask_chain (nd_registry nd (JStr paycardId))) (\<lambda>row.
         if row_missing row then reply_error 404 ''Paycard not found'' else reply_with 200 (row_json paycardId row)))"

definition getBalance :: "'c chain_node \<Rightarrow> relay_request \<Rightarrow> ('c, http_reply) action" where
  "getBalance nd rq =
     catch_500 (abind (ask_chain (nd_read nd ''balanceOf'' [JStr (path_param rq ''address'')])) (\<lambda>balance.
       reply_with 200 (JObj [(''balance'', JStr (int_str balance))])))"

definition getAllowance :: "'z server_ethers_scheme \<Rightarrow> 'c chain_node \<Rightarrow> relay_config \<Rightarrow> relay_request \<Rightarrow> ('c, http_reply) action" where
  "getAllowance et nd cf rq =
     catch_500 (let owner = path_param rq ''owner'' in
       if \<not> isAddress et (JStr owner) then reply_error 400 ''Invalid owner address''
       else abind (ask_chain (nd_read nd ''allowance'' [JStr owner, JStr (cf_hub cf)])) (\<lambda>allowance.
         reply_with 200 (JObj [(''owner'', JStr owner), (''spender'', JStr (cf_hub cf)),
           (''allowance'', JStr (int_str allowance))])))"

definition getNonce :: "'z server_ethers_scheme \<Rightarrow> 'c chain_node \<Rightarrow> relay_request \<Rightarrow> ('c, http_reply) action" where
  "getNonce et nd rq =
     catch_500 (let payer = path_param rq ''payer''; channel = path_param rq ''channel'' in
       if \<not> isAddress et (JStr payer) then reply_error 400 ''Invalid payer address''
       else abind (ask_chain (nd_read nd ''accountNonceTracks'' [JStr payer, JStr channel])) (\<lambda>nonce.
         reply_with 200 (JObj [(''payer'', JStr payer), (''channel'', JStr channel), (''nonce'', JStr (int_str nonce))])))"

section \<open>Recovery\<close>

definition query_string :: "server_values \<Rightarrow> relay_request \<Rightarrow> string \<Rightarrow> string option" where
  "query_string sv rq k =
     (let v = opt_prop (rq_query rq) k in if js_truthy v then Some (js_string sv v) else None)"

definition recovered_json :: "recovered_card \<Rightarrow> json" where
  "recovered_json c =
     (let v = rc_registry c; p = rc_provisioned c; a = pr_args p in
      JObj
       [(''paycardId'', JStr (rc_paycardId c)),
        (''registry'', JObj [(''payer'', JStr (pv_payer v)), (''recipient'', JStr (pv_recipient v)),
          (''metadataHash'', JStr (pv_metadataHash v)), (''totalAllocationPool'', JStr (int_str (pv_totalAllocationPool v))),
          (''availableBalance'', JStr (int_str (pv_availableBalance v))),
          (''flowVelocityPerSecond'', JStr (int_str (pv_flowVelocityPerSecond v))),
          (''genesisTimestamp'', JNum (pv_genesisTimestamp v)), (''lifespanSeconds'', JNum (pv_lifespanSeconds v)),
          (''lastCheckpointEpoch'', JNum (pv_lastCheckpointEpoch v)),
          (''residualDeltaRecipient'', JStr (pv_residualDeltaRecipient v)),
          (''operationalStatus'', JStr (if pv_operationalStatus v = Card_Active then ''Active'' else ''Terminated''))]),
        (''provisioned'', JObj [(''paycardId'', JStr (pa_paycardId a)), (''payer'', JStr (pa_payer a)),
          (''recipient'', JStr (pa_recipient a)), (''metadataHash'', JStr (pa_metadataHash a)),
          (''poolAllocation'', JStr (int_str (pa_poolAllocation a))),
          (''flowVelocityPerSecond'', JStr (int_str (pa_flowVelocityPerSecond a))),
          (''genesisTimestamp'', JNum (pa_genesisTimestamp a)), (''lifespanSeconds'', JNum (pa_lifespanSeconds a)),
          (''blockNumber'', JNum (pr_blockNumber p)), (''transactionHash'', JStr (pr_transactionHash p)),
          (''logIndex'', JNum (pr_logIndex p))])])"

text \<open>The filters of a request, or the reason it is refused with.\<close>

definition recovery_filter_error ::
    "'z ethers_scheme \<Rightarrow> string option \<Rightarrow> string option \<Rightarrow> string option \<Rightarrow> string option" where
  "recovery_filter_error et payer recipient metadataHash =
     (if \<not> given payer \<and> \<not> given recipient then Some ''payer or recipient is required''
      else if given payer \<and> \<not> isAddress et (JStr (the payer)) then Some ''Invalid payer address''
      else if given recipient \<and> \<not> isAddress et (JStr (the recipient)) then Some ''Invalid recipient address''
      else if given metadataHash \<and> \<not> is_bytes32 et (JStr (the metadataHash))
        then Some ''metadataHash must be a bytes32 hex string''
      else None)"

text \<open>\<open>/must be|invalid|exceeds|required/i\<close>.\<close>

definition recovery_status :: "string \<Rightarrow> int" where
  "recovery_status message =
     (if list_ex (\<lambda>p. contains_text p (lower message)) [''must be'', ''invalid'', ''exceeds'', ''required''] then 400 else 500)"

definition checksum_field :: "'z ethers_scheme \<Rightarrow> string option \<Rightarrow> json result" where
  "checksum_field et a =
     (if given a then bnd (require (get_address et (JStr (the a))) ''invalid address'') (\<lambda>x. Inr (JStr x)) else Inr JUndefined)"

definition recovery_bounds ::
    "server_values \<Rightarrow> relay_request \<Rightarrow> int \<Rightarrow> (int \<times> int \<times> int) result" where
  "recovery_bounds sv rq latestBlock =
     bnd (parseRecoveryBlockParam sv (opt_prop (rq_query rq) ''fromBlock'') ''fromBlock'') (\<lambda>requestedFrom.
     bnd (parseRecoveryBlockParam sv (opt_prop (rq_query rq) ''toBlock'') ''toBlock'') (\<lambda>requestedTo.
     bnd (parseRecoveryLimitParam sv (opt_prop (rq_query rq) ''limit'')) (\<lambda>limit.
     Inr (opt_or requestedFrom (max 0 (latestBlock - 50000)), opt_or requestedTo latestBlock, limit))))"

definition recover_reply ::
    "'z server_ethers_scheme \<Rightarrow> relay_config \<Rightarrow> string option \<Rightarrow> string option \<Rightarrow> string option \<Rightarrow> int \<times> int \<times> int \<Rightarrow>
     recovered_card list \<Rightarrow> json result" where
  "recover_reply et cf payer recipient metadataHash bounds results =
     bnd (checksum_field et payer) (\<lambda>p.
     bnd (checksum_field et recipient) (\<lambda>r.
     Inr (JObj [(''chainId'', JNum (cf_chainId cf)), (''clearinghouseAddress'', JStr (cf_hub cf)),
       (''filters'', JObj [(''payer'', p), (''recipient'', r),
          (''metadataHash'', case metadataHash of None \<Rightarrow> JUndefined | Some m \<Rightarrow> JStr m)]),
       (''fromBlock'', JNum (fst bounds)), (''toBlock'', JNum (fst (snd bounds))), (''limit'', JNum (snd (snd bounds))),
       (''results'', JArr (map recovered_json results))])))"

definition vault_of :: "'c chain_node \<Rightarrow> ('c, vault_node) action" where
  "vault_of nd w = (Inr (nd_vault nd (wd_chain w)), w)"

definition getRecover ::
    "server_values \<Rightarrow> 'z server_ethers_scheme \<Rightarrow> 'c chain_node \<Rightarrow> relay_config \<Rightarrow> relay_request \<Rightarrow> ('c, http_reply) action" where
  "getRecover sv et nd cf rq =
     acatch
      (let payer = query_string sv rq ''payer''; recipient = query_string sv rq ''recipient'';
           metadataHash = query_string sv rq ''metadataHash'' in
       case recovery_filter_error et payer recipient metadataHash of
         Some msg \<Rightarrow> reply_error 400 msg
       | None \<Rightarrow>
           abind (ask_chain (nd_block nd)) (\<lambda>latestBlock.
           abind (of_result (recovery_bounds sv rq latestBlock)) (\<lambda>(fromBlock, toBlock, limit).
           if toBlock < fromBlock then reply_error 400 ''toBlock must be greater than or equal to fromBlock''
           else if toBlock - fromBlock > 250000 then reply_error 400 ''Recovery block range exceeds 250000 blocks''
           else
             abind (vault_of nd) (\<lambda>vault.
             abind (of_result (recoverPaycardsFromLogs et vault (cf_hub cf)
               \<lparr>ro_payer = payer, ro_recipient = recipient, ro_metadataHash = metadataHash, ro_fromBlock = Some fromBlock,
                ro_toBlock = Some toBlock, ro_limit = Some limit, ro_chunkSize = Some 5000\<rparr>)) (\<lambda>results.
             abind (of_result (recover_reply et cf payer recipient metadataHash (fromBlock, toBlock, limit) results))
               (reply_with 200))))))
      (\<lambda>e. let message = (case rj_message e of None \<Rightarrow> ''Paycard recovery failed''
              | Some m \<Rightarrow> if m = [] then ''Paycard recovery failed'' else m) in
        reply_error (recovery_status message) message)"

section \<open>Settlement and reclaim\<close>

definition settled_body :: "string \<Rightarrow> tx_receipt \<Rightarrow> json obj \<Rightarrow> json \<Rightarrow> json" where
  "settled_body hash rc amounts proof =
     JObj ([(''success'', JBool True), (''txHash'', JStr hash), (''blockNumber'', JNum (re_blockNumber rc))] @ amounts @
       [(''proof'', proof)])"

definition stage_proof :: "int \<Rightarrow> string \<Rightarrow> json \<Rightarrow> string \<Rightarrow> tx_receipt \<Rightarrow> json" where
  "stage_proof clock stage paycardId hash rc =
     buildTransactionProof clock [(''stage'', JStr stage), (''paycardId'', paycardId), (''txHash'', JStr hash),
       (''blockNumber'', JNum (re_blockNumber rc))]"

definition postDrip :: "'z server_ethers_scheme \<Rightarrow> 'c chain_node \<Rightarrow> relay_config \<Rightarrow> relay_request \<Rightarrow> ('c, http_reply) action" where
  "postDrip et nd cf rq =
     catch_500 (forbiddenCapability cf CanGatewaySettle ''Gateway drip settlement''
      (abind (of_result (get_prop (rq_body rq) ''paycardId'')) (\<lambda>paycardId.
       if \<not> js_truthy paycardId \<or> \<not> is_bytes32 et paycardId then reply_error 400 ''paycardId must be a bytes32 hex string''
       else
         abind (ask_chain (nd_registry nd paycardId)) (\<lambda>row.
         if row_missing row then reply_error 404 ''Paycard not found''
         else if \<not> row_active row then reply_error 400 ''Paycard is not active''
         else
           abind (send_call nd (Call_drip paycardId)) (\<lambda>hash.
           abind (ask_chain (nd_wait nd hash)) (\<lambda>rc.
           reply_with 200 (settled_body hash rc
             [(''settledAmount'', JStr (extractVaultEventAmount (cf_hub cf) rc ''SettlementFlushed'' ''amountWithdrawn''))]
             (stage_proof (rq_time rq div 1000) ''settlement'' paycardId hash rc))))))))"

text \<open>The signer of a flush: the wallet of the configured key, if it is the caller's, or the caller
  impersonated on the local chain. \<open>Inl\<close> is a refusal.\<close>

definition demo_signer ::
    "'z server_ethers_scheme \<Rightarrow> 'c chain_node \<Rightarrow> relay_config \<Rightarrow> string \<Rightarrow> ('c, string + string) action" where
  "demo_signer et nd cf recoveredSigner =
     (if cf_demoFlag cf = Some ''true'' \<and> given (cf_demoKey cf) then
        abind (of_result (require (wallet_address et (the (cf_demoKey cf))) ''invalid private key'')) (\<lambda>address.
          if lower address \<noteq> lower recoveredSigner
          then areturn (Inl ''Configured demo flush key does not match authorized caller'')
          else areturn (Inr address))
      else
        abind (send_call nd (Rpc ''hardhat_impersonateAccount'' [JStr recoveredSigner])) (\<lambda>_.
        abind (ask_chain (nd_signer nd recoveredSigner)) (\<lambda>_. areturn (Inr recoveredSigner))))"

definition flush_with ::
    "'z server_ethers_scheme \<Rightarrow> 'c chain_node \<Rightarrow> relay_config \<Rightarrow> int \<Rightarrow> json \<Rightarrow> string \<Rightarrow> ('c, http_reply) action" where
  "flush_with et nd cf clock paycardId recoveredSigner =
     abind (demo_signer et nd cf recoveredSigner) (\<lambda>s. case s of
         Inl msg \<Rightarrow> reply_error 403 msg
       | Inr signer \<Rightarrow>
           abind (send_call nd (Call_flush signer paycardId)) (\<lambda>hash.
           abind (ask_chain (nd_wait nd hash)) (\<lambda>rc.
           reply_with 200 (settled_body hash rc
             [(''recoveredAmount'', JStr (extractVaultEventAmount (cf_hub cf) rc ''ResidualDeltaReclaimed'' ''varianceSwept'')),
              (''settledAmount'', JStr (extractVaultEventAmount (cf_hub cf) rc ''SettlementFlushed'' ''amountWithdrawn''))]
             (stage_proof clock ''residual_reclaim'' paycardId hash rc)))))"

definition party_of :: "raw_row \<Rightarrow> string \<Rightarrow> bool" where
  "party_of row a \<longleftrightarrow> lower a = lower (rr_payer row) \<or> lower a = lower (rr_recipient row)"

definition postFlush ::
    "server_values \<Rightarrow> 'z server_ethers_scheme \<Rightarrow> 'c chain_node \<Rightarrow> relay_config \<Rightarrow> relay_request \<Rightarrow> ('c, http_reply) action" where
  "postFlush sv et nd cf rq =
     catch_500 (forbiddenCapability cf CanDemoFlush ''Demo residual flush''
      (abind (of_result (get_prop (rq_body rq) ''paycardId'')) (\<lambda>paycardId.
       let caller = opt_prop (rq_body rq) ''caller''; signature = opt_prop (rq_body rq) ''authorizationSignature'' in
       if \<not> js_truthy paycardId then reply_error 400 ''Missing paycardId''
       else if \<not> js_truthy caller \<or> \<not> js_truthy signature then reply_error 403 ''Flush requires caller authorization signature''
       else
         abind (ask_chain (nd_registry nd paycardId)) (\<lambda>row.
         if row_missing row then reply_error 404 ''Paycard not found''
         else
           abind (of_result (require (verify_message et (buildFlushAuthorizationMessage sv cf paycardId) signature)
             ''invalid signature'')) (\<lambda>recoveredSigner.
           abind (of_result (lower_of caller)) (\<lambda>callerLower.
           if lower recoveredSigner \<noteq> callerLower then reply_error 403 ''Flush authorization signer mismatch''
           else if \<not> party_of row recoveredSigner then reply_error 403 ''Caller is not payer or recipient for this paycard''
           else if \<not> isLocalSandboxMode cf then reply_error 403 ''Demo flush is available only in the local Hardhat sandbox. Submit flushResidualDelta from payer or recipient wallet.''
           else flush_with et nd cf (rq_time rq div 1000) paycardId recoveredSigner))))))"

section \<open>Sandbox\<close>

definition postMint :: "server_values \<Rightarrow> 'z server_ethers_scheme \<Rightarrow> 'c chain_node \<Rightarrow> relay_config \<Rightarrow> relay_request \<Rightarrow> ('c, http_reply) action" where
  "postMint sv et nd cf rq =
     catch_500 (forbiddenCapability cf CanMint ''Demo mint''
      (abind (of_result (get_prop (rq_body rq) ''address'')) (\<lambda>address.
       abind (of_result (to_string sv (opt_prop (rq_body rq) ''amount''))) (\<lambda>text.
       abind (of_result (require (parse_units et text) ''invalid FixedNumber string value'')) (\<lambda>mintAmount.
       abind (send_call nd (Call_mint address mintAmount)) (\<lambda>hash.
       abind (ask_chain (nd_wait nd hash)) (\<lambda>_.
       reply_with 200 (JObj [(''success'', JBool True), (''txHash'', JStr hash)]))))))))"

text \<open>\<open>Number(seconds)\<close>, where it is a whole number.\<close>

definition postIncreaseTime :: "server_values \<Rightarrow> 'c chain_node \<Rightarrow> relay_config \<Rightarrow> relay_request \<Rightarrow> ('c, http_reply) action" where
  "postIncreaseTime sv nd cf rq =
     catch_500 (forbiddenCapability cf CanTimeTravel ''Local time travel''
      (abind (of_result (get_prop (rq_body rq) ''seconds'')) (\<lambda>seconds.
       abind (send_call nd (Rpc ''evm_increaseTime''
         [case js_whole sv seconds of None \<Rightarrow> JNonFinite | Some n \<Rightarrow> JNum n])) (\<lambda>_.
       abind (send_call nd (Rpc ''evm_mine'' [])) (\<lambda>_.
       abind (ask_chain (nd_timestamp nd)) (\<lambda>t.
       reply_with 200 (JObj [(''success'', JBool True),
         (''newTimestamp'', case t of None \<Rightarrow> JUndefined | Some n \<Rightarrow> JNum n)])))))))"

section \<open>Protected resources\<close>

definition protected_scope :: string where
  "protected_scope = ''GET /api/demo/protected-resource''"

definition access_request_of :: "relay_request \<Rightarrow> access_request" where
  "access_request_of rq =
     \<lparr>aq_authorization = request_header rq ''Authorization'', aq_credentialType = request_header rq ''X-OpenRails-Credential-Type'',
      aq_paycardId = request_header rq ''X-OpenRails-Paycard-Id'',
      aq_metadataHash = request_header rq ''X-OpenRails-Metadata-Hash'', aq_mode = request_header rq ''X-OpenRails-Mode''\<rparr>"

definition access_options_of :: "relay_config \<Rightarrow> access_options" where
  "access_options_of cf =
     \<lparr>ao_chainId = cf_chainId cf, ao_vault = cf_hub cf, ao_service = cf_relayerAddress cf,
      ao_serviceOrigin = cf_serviceOrigin cf, ao_scope = protected_scope, ao_now = None\<rparr>"

definition getProtectedResource ::
    "server_values \<Rightarrow> 'z server_ethers_scheme \<Rightarrow> 'h host_scheme \<Rightarrow> 'c chain_node \<Rightarrow> relay_config \<Rightarrow> relay_request \<Rightarrow>
     ('c, http_reply) action" where
  "getProtectedResource sv et h nd cf rq =
     catch_500
      (if \<not> isLocalSandboxMode cf \<or> \<not> cf_hasWallet cf
       then reply_error 403 ''Protected demo resource is available only in local sandbox mode''
       else
         abind (of_result (validateOpenRailsAccessRequest (coercions.truncate sv) et h (rq_time rq div 1000)
           (access_request_of rq) (access_options_of cf))) (\<lambda>v. case v of
             Refused msg _ \<Rightarrow> reply_error 401 msg
           | Accepted (credential, signer) \<Rightarrow>
               abind (ask_chain (nd_registry nd (ac_paycardId credential))) (\<lambda>row.
               if row_missing row then reply_error 404 ''Paycard not found''
               else if ac_metadataHash credential \<noteq> JStr (rr_metadataHash row)
                 then reply_error 403 ''Credential metadataHash does not match Vault row''
               else if \<not> row_active row then reply_error 403 ''Paycard is not active''
               else if \<not> party_of row signer then reply_error 403 ''Credential signer is not payer or recipient''
               else reply_with 200 (JObj [(''success'', JBool True),
                 (''message'', JStr ''OpenRails protected demo resource unlocked''),
                 (''paycardId'', ac_paycardId credential), (''metadataHash'', ac_metadataHash credential),
                 (''mode'', ac_mode credential), (''signer'', JStr signer),
                 (''availableBalance'', JStr (int_str (rr_availableBalance row))), (''scope'', JStr protected_scope)]))))"

text \<open>The payment the third-party middleware of x402 attached to the request.\<close>

record x402_payment =
  xp_payer :: string
  xp_amount :: string
  xp_network :: string
  xp_transaction :: "string option"

definition x402_scope :: string where
  "x402_scope = ''GET /api/x402/openrails-artifact''"

definition x402_artifact :: "'z ethers_scheme \<Rightarrow> relay_config \<Rightarrow> x402_payment \<Rightarrow> json" where
  "x402_artifact et cf payment =
     (let settlementId = (case xp_transaction payment of None \<Rightarrow> [] | Some t \<Rightarrow> t);
          descriptionHash = keccak_text et (stringify (JObj
            [(''amount'', JStr (xp_amount payment)), (''network'', JStr (xp_network payment)), (''payer'', JStr (xp_payer payment)),
             (''scope'', JStr x402_scope), (''seller'', JStr (cf_sellerAddress cf)), (''settlementId'', JStr settlementId)]));
          metadata = JObj
            [(''version'', JStr ''openrails-metadata-v1''), (''mode'', JStr ''railsflow''), (''originator'', JStr (xp_payer payment)),
             (''recipient'', JStr (cf_sellerAddress cf)), (''token'', JStr (cf_usdc cf)), (''amount'', JStr (xp_amount payment)),
             (''flowVelocityPerSecond'', JStr ''0''), (''lifespanSeconds'', JNum 0),
             (''metadataRef'', JStr (''circle-x402:'' @ (if settlementId \<noteq> [] then settlementId else ''pending''))),
             (''descriptionHash'', JStr descriptionHash)] in
      JObj [(''artifactVersion'', JStr ''openrails-x402-artifact-v1''), (''chainId'', JNum (cf_chainId cf)),
        (''vaultAddress'', JStr (cf_hub cf)), (''tokenAddress'', JStr (cf_usdc cf)),
        (''serviceOrigin'', JStr (cf_serviceOrigin cf)), (''scope'', JStr x402_scope), (''metadata'', metadata),
        (''metadataHash'', JStr (hashOpenRailsMetadata et metadata)), (''vaultEscrowClaimed'', JBool False),
        (''openRailsSettlementStage'', JStr ''metadata_only''),
        (''nextAction'', JStr (''Redeem this artifact into a real Vault escrow: open a Paycard Stream with a separate '' @
          ''OpenRails wallet signature, binding metadataRef=circle-x402:<settlementId> '' @
          ''(non-custodial; buyer funds their own escrow). See `npm run smoke:x402:stream`.''))])"

definition getX402Artifact ::
    "'z server_ethers_scheme \<Rightarrow> relay_config \<Rightarrow> x402_payment option \<Rightarrow> ('c, http_reply) action" where
  "getX402Artifact et cf payment =
     (if \<not> arc_mode cf \<or> cf_chainId cf \<noteq> 5042002
      then reply_error 403 ''Circle x402 OpenRails artifacts require Arc testnet dashboard mode''
      else case payment of
          None \<Rightarrow> reply_error 502 ''Circle x402 payment metadata was not attached''
        | Some p \<Rightarrow>
            if \<not> isAddress et (JStr (xp_payer p)) then reply_error 502 ''Circle x402 payment payer is not an EVM address''
            else reply_with 200 (JObj [(''success'', JBool True),
              (''message'', JStr ''Circle x402 payment accepted; OpenRails artifact generated without Vault escrow''),
              (''x402'', JObj [(''payer'', JStr (xp_payer p)), (''amount'', JStr (xp_amount p)), (''network'', JStr (xp_network p)),
                 (''settlementId'', JStr (case xp_transaction p of None \<Rightarrow> [] | Some t \<Rightarrow> t)),
                 (''facilitatorUrl'', JStr (cf_facilitatorUrl cf))]),
              (''openrails'', x402_artifact et cf p)]))"

end
