(* ===== verification/ServerMachine.thy ===== *)
theory ServerMachine
  imports ServerRoutes Complex_Main
begin

text \<open>
  The relay server as a machine: every request goes through its middleware to its handler. What a
  request makes the server send to the chain is authorized (\<open>authorized_call\<close>) and bounded.
\<close>

section \<open>Dispatch\<close>

datatype endpoint =
    Ep_config | Ep_paycard | Ep_balance | Ep_allowance | Ep_nonce | Ep_recover | Ep_open | Ep_drip | Ep_flush
  | Ep_mint | Ep_increase_time | Ep_protected | Ep_x402 "x402_payment option"

text \<open>The routes behind \<open>apiLimiter\<close>.\<close>

definition limited :: "endpoint \<Rightarrow> bool" where
  "limited ep \<longleftrightarrow> ep \<in> {Ep_recover, Ep_open, Ep_drip, Ep_flush, Ep_mint, Ep_increase_time}"

record 'c relay_env =
  en_values :: server_values
  en_ethers :: server_ethers
  en_host :: host
  en_node :: "'c chain_node"
  en_config :: relay_config

definition handler :: "'c relay_env \<Rightarrow> endpoint \<Rightarrow> relay_request \<Rightarrow> ('c, http_reply) action" where
  "handler en ep rq =
     (let sv = en_values en; et = en_ethers en; h = en_host en; nd = en_node en; cf = en_config en in
      case ep of
        Ep_config \<Rightarrow> catch_500 (abind (of_result (getConfig et cf)) (reply_with 200))
      | Ep_paycard \<Rightarrow> getPaycard nd rq
      | Ep_balance \<Rightarrow> getBalance nd rq
      | Ep_allowance \<Rightarrow> getAllowance et nd cf rq
      | Ep_nonce \<Rightarrow> getNonce et nd rq
      | Ep_recover \<Rightarrow> getRecover sv et nd cf rq
      | Ep_open \<Rightarrow> postOpen sv et h nd cf rq
      | Ep_drip \<Rightarrow> postDrip et nd cf rq
      | Ep_flush \<Rightarrow> postFlush sv et nd cf rq
      | Ep_mint \<Rightarrow> postMint sv et nd cf rq
      | Ep_increase_time \<Rightarrow> postIncreaseTime sv nd cf rq
      | Ep_protected \<Rightarrow> getProtectedResource sv et h nd cf rq
      | Ep_x402 payment \<Rightarrow> getX402Artifact et cf payment)"

record 'c relay_state =
  rs_world :: "'c relay_world"
  rs_buckets :: "rat bucket obj"

text \<open>The reply; \<open>None\<close> when the handler let an exception escape.\<close>

definition run_handler ::
    "'c relay_env \<Rightarrow> endpoint \<Rightarrow> relay_request \<Rightarrow> 'c relay_state \<Rightarrow> http_reply option \<times> 'c relay_state" where
  "run_handler en ep rq st =
     (let (r, w) = handler en ep rq (rs_world st) in
      (case r of Inl _ \<Rightarrow> None | Inr reply \<Rightarrow> Some reply, st\<lparr>rs_world := w\<rparr>))"

definition serve ::
    "'c relay_env \<Rightarrow> endpoint \<Rightarrow> relay_request \<Rightarrow> 'c relay_state \<Rightarrow> http_reply option \<times> 'c relay_state" where
  "serve en ep rq st =
     (if limited ep then
        let (buckets, verdict) = rate_limit 20 5 (rq_ip rq) (rq_time rq) (rs_buckets st);
            st' = st\<lparr>rs_buckets := buckets\<rparr> in
        (case verdict of
           Proceed \<Rightarrow> run_handler en ep rq st'
         | TooMany status msg \<Rightarrow> (Some \<lparr>rp_status = status, rp_body = error_body msg\<rparr>, st'))
      else run_handler en ep rq st)"

definition calls_of :: "'c relay_state \<Rightarrow> (chain_call \<times> (reject + string)) list" where
  "calls_of st = wd_sent (rs_world st)"

text \<open>A run, and the number of calls the requests of one client made the server send.\<close>

fun serve_all :: "'c relay_env \<Rightarrow> (endpoint \<times> relay_request) list \<Rightarrow> 'c relay_state \<Rightarrow> 'c relay_state" where
  "serve_all en [] st = st"
| "serve_all en (q # qs) st = serve_all en qs (snd (serve en (fst q) (snd q) st))"

fun calls_for :: "string \<Rightarrow> 'c relay_env \<Rightarrow> (endpoint \<times> relay_request) list \<Rightarrow> 'c relay_state \<Rightarrow> nat" where
  "calls_for ip en [] st = 0"
| "calls_for ip en (q # qs) st =
     (let st' = snd (serve en (fst q) (snd q) st) in
      (if rq_ip (snd q) = ip then length (calls_of st') - length (calls_of st) else 0) + calls_for ip en qs st')"

section \<open>What a handler may send\<close>

definition sends :: "nat \<Rightarrow> (chain_call \<Rightarrow> bool) \<Rightarrow> ('c, 'a) action \<Rightarrow> bool" where
  "sends n P m \<longleftrightarrow>
     (\<forall>w. \<exists>new. wd_sent (snd (m w)) = wd_sent w @ new \<and> length new \<le> n \<and> (\<forall>c \<in> set new. P (fst c)))"

lemma sendsI:
  "(\<And>w. \<exists>new. wd_sent (snd (m w)) = wd_sent w @ new \<and> length new \<le> n \<and> (\<forall>c \<in> set new. P (fst c))) \<Longrightarrow> sends n P m"
  by (simp add: sends_def)

lemma sends_quiet: "sends_nothing m \<Longrightarrow> sends n P m"
  by (simp add: sends_def sends_nothing_def)

lemma sends_leaf [intro]: "sends n P (reply_with s b)" "sends n P (reply_error s msg)" "sends n P (areturn x)" "sends n P (athrow e)"
  by (rule sends_quiet, blast)+

lemma sends_if [intro]: "(c \<Longrightarrow> sends n P m) \<Longrightarrow> (\<not> c \<Longrightarrow> sends n P m') \<Longrightarrow> sends n P (if c then m else m')"
  by simp

lemma sends_result [intro]: "(\<And>x. M = Inr x \<Longrightarrow> sends n P (f x)) \<Longrightarrow> sends n P (abind (of_result M) f)"
  by (cases M) (auto intro: sends_leaf)

lemma sends_ask [intro]:
  assumes "\<And>x c c'. q c = (Inr x, c') \<Longrightarrow> sends n P (f x)"
  shows "sends n P (abind (ask_chain q) f)"
proof (rule sendsI, goal_cases)
  case (1 w)
  obtain r c where q: "q (wd_chain w) = (r, c)" by fastforce
  show ?case
  proof (cases r)
    case (Inr x)
    from assms [of "wd_chain w" x c] q Inr have "sends n P (f x)" by simp
    then show ?thesis using q Inr unfolding sends_def by (auto simp: abind_def ask_chain_def dest!: spec [of _ "w\<lparr>wd_chain := c\<rparr>"])
  qed (simp add: abind_def ask_chain_def q)
qed

lemma sends_send [intro]:
  assumes "P call" "\<And>x. sends n P (f x)"
  shows "sends (Suc n) P (abind (send_call nd call) f)"
proof (rule sendsI, goal_cases)
  case (1 w)
  obtain r c where q: "nd_send nd call (wd_chain w) = (r, c)" by fastforce
  let ?w = "w\<lparr>wd_chain := c, wd_sent := wd_sent w @ [(call, r)]\<rparr>"
  show ?case
  proof (cases r)
    case (Inl e)
    with q assms(1) show ?thesis by (intro exI [of _ "[(call, r)]"]) (simp add: abind_def send_call_def)
  next
    case (Inr x)
    from assms(2) [of x] obtain new where "wd_sent (snd (f x ?w)) = wd_sent ?w @ new" "length new \<le> n" "\<forall>c \<in> set new. P (fst c)"
      unfolding sends_def by blast
    with q Inr assms(1) show ?thesis
      by (intro exI [of _ "(call, r) # new"]) (simp add: abind_def send_call_def)
  qed
qed

lemma sends_abind:
  assumes "sends n P m" "\<And>x. sends k P (f x)"
  shows "sends (n + k) P (abind m f)"
proof (rule sendsI, goal_cases)
  case (1 w)
  obtain r w' where m: "m w = (r, w')" by fastforce
  from assms(1) m obtain new where new: "wd_sent w' = wd_sent w @ new" "length new \<le> n" "\<forall>c \<in> set new. P (fst c)"
    unfolding sends_def by (metis snd_conv)
  show ?case
  proof (cases r)
    case (Inl e)
    with m new show ?thesis by (intro exI [of _ new]) (simp add: abind_def)
  next
    case (Inr x)
    from assms(2) [of x] obtain more where "wd_sent (snd (f x w')) = wd_sent w' @ more" "length more \<le> k" "\<forall>c \<in> set more. P (fst c)"
      unfolding sends_def by blast
    with m new Inr show ?thesis by (intro exI [of _ "new @ more"]) (auto simp: abind_def)
  qed
qed

lemma sends_acatch:
  assumes "sends n P m" "\<And>e. sends k P (g e)"
  shows "sends (n + k) P (acatch m g)"
proof (rule sendsI, goal_cases)
  case (1 w)
  obtain r w' where m: "m w = (r, w')" by fastforce
  from assms(1) m obtain new where new: "wd_sent w' = wd_sent w @ new" "length new \<le> n" "\<forall>c \<in> set new. P (fst c)"
    unfolding sends_def by (metis snd_conv)
  show ?case
  proof (cases r)
    case (Inr x)
    with m new show ?thesis by (intro exI [of _ new]) (simp add: acatch_def)
  next
    case (Inl e)
    from assms(2) [of e] obtain more where "wd_sent (snd (g e w')) = wd_sent w' @ more" "length more \<le> k" "\<forall>c \<in> set more. P (fst c)"
      unfolding sends_def by blast
    with m new Inl show ?thesis by (intro exI [of _ "new @ more"]) (auto simp: acatch_def)
  qed
qed

lemma sends_one: "P call \<Longrightarrow> sends 1 P (send_call nd call)"
  by (auto simp: sends_def send_call_def split: prod.splits)

lemma abind_areturn [simp]: "abind (areturn x) f = f x"
  by (simp add: fun_eq_iff abind_def areturn_def)

lemma abind_athrow [simp]: "abind (athrow e) f = athrow e"
  by (simp add: fun_eq_iff abind_def athrow_def)

lemma abind_assoc: "abind (abind m f) g = abind m (\<lambda>x. abind (f x) g)"
  by (simp add: fun_eq_iff abind_def split: prod.splits sum.splits)

lemma abind_if: "abind (if c then m else n) f = (if c then abind m f else abind n f)"
  by simp

lemma sends_catch [intro]: "sends n P m \<Longrightarrow> sends n P (catch_500 m)"
  unfolding sends_def catch_500_def acatch_def reply_with_def areturn_def
  by (auto split: prod.splits sum.splits) (metis snd_conv)+

lemma sends_forbidden [intro]:
  "(currentCapabilities cf c \<Longrightarrow> sends n P k) \<Longrightarrow> sends n P (forbiddenCapability cf c what k)"
  by (simp add: forbiddenCapability_def sends_leaf)

lemma sends_mono: "sends n P m \<Longrightarrow> n \<le> k \<Longrightarrow> (\<And>c. P c \<Longrightarrow> Q c) \<Longrightarrow> sends k Q m"
  unfolding sends_def by (meson le_trans)

section \<open>Authorized calls\<close>

text \<open>What a relayed opening rests on.\<close>

definition opening_authorized :: "'c relay_env \<Rightarrow> relay_request \<Rightarrow> open_request \<Rightarrow> bool" where
  "opening_authorized en rq r \<longleftrightarrow>
     (let body = open_body_of rq; intent = opt_prop (or_decoded r) ''intent''; cf = en_config en in
      currentCapabilities cf CanRelayOpen \<and>
      (\<exists>t. ob_envelopeToken body = JStr t \<and> deserializeEnvelope (en_host en) t = Inr (or_decoded r)) \<and>
      opening_consistent (en_ethers en) body (cf_usdc cf) r \<and>
      policy_respected (coercions.truncate (en_values en)) intent (ob_policyEnvelope body) (rq_time rq div 1000) \<and>
      (publicRelayerEnabled cf \<longrightarrow> within_caps (en_values en) (en_ethers en) cf intent))"

text \<open>A flush is signed by a party of the Paycard, the caller.\<close>

definition flush_authorized :: "'c relay_env \<Rightarrow> relay_request \<Rightarrow> string \<Rightarrow> bool" where
  "flush_authorized en rq signer \<longleftrightarrow>
     (let cf = en_config en; paycardId = opt_prop (rq_body rq) ''paycardId'' in
      currentCapabilities cf CanDemoFlush \<and> isLocalSandboxMode cf \<and>
      (\<exists>a row c c'.
         verify_message (en_ethers en) (buildFlushAuthorizationMessage (en_values en) cf paycardId)
           (opt_prop (rq_body rq) ''authorizationSignature'') = Some a \<and> lower a = lower signer \<and>
         lower_of (opt_prop (rq_body rq) ''caller'') = Inr (lower a) \<and>
         nd_registry (en_node en) paycardId c = (Inr row, c') \<and> \<not> row_missing row \<and> party_of row a))"

definition authorized_call :: "'c relay_env \<Rightarrow> endpoint \<Rightarrow> relay_request \<Rightarrow> chain_call \<Rightarrow> bool" where
  "authorized_call en ep rq call \<longleftrightarrow>
     (case call of
        Call_open args n \<Rightarrow> ep = Ep_open \<and> (\<exists>r. opening_authorized en rq r \<and> call = submit_call r n)
      | Call_claim args n \<Rightarrow> ep = Ep_open \<and> (\<exists>r. opening_authorized en rq r \<and> call = submit_call r n)
      | Call_drip i \<Rightarrow>
          ep = Ep_drip \<and> currentCapabilities (en_config en) CanGatewaySettle \<and>
          (\<exists>row c c'. nd_registry (en_node en) i c = (Inr row, c') \<and> \<not> row_missing row \<and> row_active row)
      | Call_flush signer i \<Rightarrow> ep = Ep_flush \<and> i = opt_prop (rq_body rq) ''paycardId'' \<and> flush_authorized en rq signer
      | Call_mint _ _ \<Rightarrow> ep = Ep_mint \<and> currentCapabilities (en_config en) CanMint
      | Rpc method args \<Rightarrow>
          ep = Ep_flush \<and> (\<exists>signer. args = [JStr signer] \<and> flush_authorized en rq signer) \<or>
          ep = Ep_increase_time \<and> currentCapabilities (en_config en) CanTimeTravel)"

lemma submit_open_authorized:
  assumes "opening_authorized en rq r"
  shows "sends 2 (authorized_call en Ep_open rq) (submit_open nd cf r)"
proof -
  have c: "authorized_call en Ep_open rq (submit_call r n)" for n
    using assms by (auto simp: authorized_call_def submit_call_def)
  have "sends (1 + 1) (authorized_call en Ep_open rq) (submit_open nd cf r)"
    unfolding submit_open_def
    by (intro sends_acatch sends_one c sends_if sends_leaf sends_ask)
  then show ?thesis by (simp add: numeral_2_eq_2)
qed

lemma open_sends: "sends 2 (authorized_call en Ep_open rq) (handler en Ep_open rq)"
proof -
  have "sends 2 (authorized_call en Ep_open rq) (relay_opening (en_values en) (en_ethers en) (en_node en) (en_config en) clock r)"
    if acc: "currentCapabilities (en_config en) CanRelayOpen"
      "validateOpenPaycardRequest (coercions.truncate (en_values en)) (en_ethers en) (en_host en) (rq_time rq div 1000)
         (open_body_of rq) (cf_usdc (en_config en)) = Inr (Accepted r)" for clock r
  proof -
    have auth: "opening_authorized en rq r"
      if "validatePublicRelayerCaps (en_values en) (en_ethers en) (en_config en) (opt_prop (or_decoded r) ''intent'') = Inr []"
      using acc open_accepted [OF acc(2)] caps_respected [OF that] by (auto simp: opening_authorized_def Let_def)
    have rest: "sends (2 + 0) (authorized_call en Ep_open rq) (abind (submit_open (en_node en) (en_config en) r) f)"
      if "opening_authorized en rq r" "\<And>x. sends 0 (authorized_call en Ep_open rq) (f x)" for f :: "string \<Rightarrow> ('a, http_reply) action"
      using that by (intro sends_abind submit_open_authorized)
    show ?thesis
      unfolding relay_opening_def Let_def
      by (intro sends_result sends_if sends_leaf rest [simplified] sends_ask auth) simp_all
  qed
  then show ?thesis
    unfolding handler_def postOpen_def Let_def endpoint.case
    by (intro sends_catch sends_forbidden sends_result) (auto intro: sends_leaf split: verdict.splits)
qed

lemma drip_sends: "sends 2 (authorized_call en Ep_drip rq) (handler en Ep_drip rq)"
proof -
  have "sends (Suc (Suc 0)) (authorized_call en Ep_drip rq) (handler en Ep_drip rq)"
    unfolding handler_def postDrip_def Let_def endpoint.case
    by (intro sends_catch sends_forbidden sends_result sends_if sends_ask sends_send sends_leaf)
      (auto simp: authorized_call_def)
  then show ?thesis by (simp add: numeral_2_eq_2)
qed

lemma mint_sends: "sends 2 (authorized_call en Ep_mint rq) (handler en Ep_mint rq)"
proof -
  have "sends (Suc (Suc 0)) (authorized_call en Ep_mint rq) (handler en Ep_mint rq)"
    unfolding handler_def postMint_def Let_def endpoint.case
    by (intro sends_catch sends_forbidden sends_result sends_if sends_ask sends_send sends_leaf)
      (auto simp: authorized_call_def)
  then show ?thesis by (simp add: numeral_2_eq_2)
qed

lemma time_sends: "sends 2 (authorized_call en Ep_increase_time rq) (handler en Ep_increase_time rq)"
proof -
  have "sends (Suc (Suc 0)) (authorized_call en Ep_increase_time rq) (handler en Ep_increase_time rq)"
    unfolding handler_def postIncreaseTime_def Let_def endpoint.case
    by (intro sends_catch sends_forbidden sends_result sends_if sends_ask sends_send sends_leaf)
      (auto simp: authorized_call_def)
  then show ?thesis by (simp add: numeral_2_eq_2)
qed

lemma flush_with_sends:
  assumes "flush_authorized en rq a" "i = opt_prop (rq_body rq) ''paycardId''"
  shows "sends 2 (authorized_call en Ep_flush rq) (flush_with (en_ethers en) (en_node en) (en_config en) clock i a)"
proof -
  have same: "authorized_call en Ep_flush rq (Call_flush s i)" if "lower s = lower a" for s
    using assms that by (auto simp: authorized_call_def flush_authorized_def Let_def)
  have imp: "authorized_call en Ep_flush rq (Rpc ''hardhat_impersonateAccount'' [JStr a])"
    using assms by (auto simp: authorized_call_def)
  have "sends (Suc (Suc 0)) (authorized_call en Ep_flush rq) (flush_with (en_ethers en) (en_node en) (en_config en) clock i a)"
    unfolding flush_with_def demo_signer_def abind_if abind_assoc abind_areturn sum.case
    by (intro sends_if sends_result sends_leaf sends_send sends_ask same imp) simp_all
  then show ?thesis by (simp add: numeral_2_eq_2)
qed

lemma flush_authorizedI:
  assumes "get_prop (rq_body rq) ''paycardId'' = Inr i" "currentCapabilities (en_config en) CanDemoFlush"
    "isLocalSandboxMode (en_config en)" "nd_registry (en_node en) i c = (Inr row, c')" "\<not> row_missing row"
    "verify_message (en_ethers en) (buildFlushAuthorizationMessage (en_values en) (en_config en) i)
       (opt_prop (rq_body rq) ''authorizationSignature'') = Some a"
    "lower_of (opt_prop (rq_body rq) ''caller'') = Inr (lower a)" "party_of row a"
  shows "flush_authorized en rq a"
  using assms prop_Inr_opt [OF assms(1)] unfolding flush_authorized_def Let_def by blast

lemma flush_sends: "sends 2 (authorized_call en Ep_flush rq) (handler en Ep_flush rq)"
  unfolding handler_def postFlush_def Let_def endpoint.case
  by (intro sends_catch sends_forbidden sends_result sends_if sends_ask sends_leaf flush_with_sends)
    (auto simp: result_simps prop_Inr_opt intro: flush_authorizedI)

lemma recover_quiet: "sends 2 P (getRecover sv et nd cf rq)"
proof -
  have v: "sends 0 P (abind (vault_of nd) f)" if "\<And>x. sends 0 P (f x)" for f :: "vault_node \<Rightarrow> ('a, http_reply) action"
    using that by (auto simp: sends_def abind_def vault_of_def)
  have "sends (0 + 0) P (getRecover sv et nd cf rq)"
    unfolding getRecover_def Let_def
    by (rule sends_acatch; cases "recovery_filter_error et (query_string sv rq ''payer'') (query_string sv rq ''recipient'')
        (query_string sv rq ''metadataHash'')")
      (auto split: prod.splits intro!: sends_leaf sends_ask sends_result sends_if v)
  then show ?thesis by (rule sends_mono) simp_all
qed

lemma quiet_handlers:
  assumes "ep \<notin> {Ep_open, Ep_drip, Ep_flush, Ep_mint, Ep_increase_time}"
  shows "sends 2 P (handler en ep rq)"
proof (cases ep)
  case Ep_recover
  then show ?thesis by (simp add: handler_def recover_quiet)
next
  case Ep_protected
  then show ?thesis
    unfolding handler_def Let_def getProtectedResource_def
    by (auto intro!: sends_catch sends_if sends_leaf sends_result sends_ask split: verdict.splits)
next
  case (Ep_x402 payment)
  then show ?thesis
    by (auto simp: handler_def getX402Artifact_def Let_def split: option.splits intro: sends_leaf)
qed (use assms in \<open>auto simp: handler_def Let_def getPaycard_def getBalance_def getAllowance_def getNonce_def
    intro!: sends_catch sends_if sends_leaf sends_result sends_ask\<close>)

theorem handler_sends: "sends 2 (authorized_call en ep rq) (handler en ep rq)"
proof (cases "ep \<in> {Ep_open, Ep_drip, Ep_flush, Ep_mint, Ep_increase_time}")
  case True
  then show ?thesis using open_sends drip_sends flush_sends mint_sends time_sends by auto
qed (rule quiet_handlers)

section \<open>Serving\<close>

lemma unlimited_quiet: "\<not> limited ep \<Longrightarrow> sends 2 (\<lambda>_. False) (handler en ep rq)"
  by (rule quiet_handlers) (auto simp: limited_def)

lemma run_handler_calls:
  obtains new where "calls_of (snd (run_handler en ep rq st)) = calls_of st @ new" "length new \<le> 2"
    "\<forall>c \<in> set new. authorized_call en ep rq (fst c)" "limited ep \<or> new = []"
proof -
  have after: "calls_of (snd (run_handler en ep rq st)) = wd_sent (snd (handler en ep rq (rs_world st)))"
    by (simp add: run_handler_def calls_of_def case_prod_beta Let_def)
  show thesis
  proof (cases "limited ep")
    case True
    with handler_sends [of en ep rq] after that show thesis unfolding sends_def calls_of_def by metis
  next
    case False
    with unlimited_quiet [OF False, of en rq] after have "calls_of (snd (run_handler en ep rq st)) = calls_of st @ []"
      unfolding sends_def calls_of_def by (metis (full_types) append_Nil2 ex_in_conv set_empty)
    with that [of "[]"] show thesis by simp
  qed
qed

lemma run_handler_buckets [simp]: "rs_buckets (snd (run_handler en ep rq st)) = rs_buckets st"
  by (simp add: run_handler_def case_prod_beta Let_def)

text \<open>Whether a request reaches its handler through the limiter.\<close>

definition let_through :: "endpoint \<Rightarrow> relay_request \<Rightarrow> 'c relay_state \<Rightarrow> bool" where
  "let_through ep rq st \<longleftrightarrow> limited ep \<and> snd (rate_limit 20 5 (rq_ip rq) (rq_time rq) (rs_buckets st)) = Proceed"

lemma serve_calls:
  obtains new where "calls_of (snd (serve en ep rq st)) = calls_of st @ new" "length new \<le> 2"
    "\<forall>c \<in> set new. authorized_call en ep rq (fst c)" "let_through ep rq st \<or> new = []"
proof (cases "limited ep")
  case False
  show thesis
    by (rule run_handler_calls [of en ep rq st]) (use False that in \<open>simp add: serve_def\<close>)
next
  case True
  obtain bs verdict where rl: "rate_limit 20 5 (rq_ip rq) (rq_time rq) (rs_buckets st) = (bs, verdict)" by fastforce
  show thesis
  proof (cases verdict)
    case Proceed
    show thesis
      by (rule run_handler_calls [of en ep rq "st\<lparr>rs_buckets := bs\<rparr>"])
        (use True rl Proceed that in \<open>simp add: serve_def calls_of_def let_through_def\<close>)
  next
    case (TooMany status msg)
    with True rl that [of "[]"] show thesis by (simp add: serve_def calls_of_def)
  qed
qed

lemma serve_buckets:
  "rs_buckets (snd (serve en ep rq st)) =
     (if limited ep then fst (rate_limit 20 5 (rq_ip rq) (rq_time rq) (rs_buckets st)) else rs_buckets st)"
  by (auto simp: serve_def case_prod_beta Let_def split: limiter_result.splits)

lemma serve_length:
  "length (calls_of (snd (serve en ep rq st))) - length (calls_of st) \<le> (if let_through ep rq st then 2 else 0)"
  by (rule serve_calls [of en ep rq st]) auto

text \<open>The requests that pass the limiter, as it sees them.\<close>

fun limited_trace :: "(endpoint \<times> relay_request) list \<Rightarrow> (string \<times> int) list" where
  "limited_trace [] = []"
| "limited_trace (q # qs) = (if limited (fst q) then [(rq_ip (snd q), rq_time (snd q))] else []) @ limited_trace qs"

lemma calls_served: "calls_for ip en qs st \<le> 2 * served 20 5 ip (limited_trace qs) (rs_buckets st)"
proof (induction qs arbitrary: st)
  case (Cons q qs)
  let ?st = "snd (serve en (fst q) (snd q) st)"
  have "calls_for ip en (q # qs) st \<le>
      (if rq_ip (snd q) = ip \<and> let_through (fst q) (snd q) st then 2 else 0) +
      2 * served 20 5 ip (limited_trace qs) (rs_buckets ?st)"
    using Cons [of ?st] serve_length [of en "fst q" "snd q" st] by (auto simp: Let_def split: if_splits)
  also have "\<dots> = 2 * served 20 5 ip (limited_trace (q # qs)) (rs_buckets st)"
    by (cases "limited (fst q)") (auto simp: serve_buckets let_through_def case_prod_beta Let_def)
  finally show ?case .
qed simp

lemma calls_of_client_bounded:
  assumes "oget (rs_buckets st) ip = None"
    and ts: "map snd (filter (\<lambda>q. fst q = ip) (limited_trace qs)) = t # ts" and "sorted (t # ts)"
  shows "real (calls_for ip en qs st) \<le> 2 * (20 + real_of_int (last (t # ts) - t) / 1000 * 5)"
proof -
  let ?bound = "20 + (of_int (last (t # ts) - t) / 1000 * 5 :: rat)"
  have "real (served 20 5 ip (limited_trace qs) (rs_buckets st)) = of_rat (of_nat (served 20 5 ip (limited_trace qs) (rs_buckets st)))"
    by simp
  also have "\<dots> \<le> of_rat ?bound"
    using served_bound [OF assms(1) _ _ ts assms(3), of 20 5] unfolding of_rat_less_eq by simp
  also have "\<dots> = 20 + real_of_int (last (t # ts) - t) / 1000 * 5"
    by (simp only: of_rat_add of_rat_mult of_rat_divide of_rat_of_int_eq of_rat_numeral_eq)
  finally have "real (2 * served 20 5 ip (limited_trace qs) (rs_buckets st)) \<le> 2 * (20 + real_of_int (last (t # ts) - t) / 1000 * 5)"
    unfolding of_nat_mult of_nat_numeral by (rule mult_left_mono) simp
  with calls_served [of ip en qs st] show ?thesis by (meson of_nat_mono order_trans)
qed

text \<open>Every call of a run was made for a request of the run that authorizes it.\<close>

lemma serve_all_authorized:
  "c \<in> set (calls_of (serve_all en qs st)) \<Longrightarrow>
   c \<in> set (calls_of st) \<or> (\<exists>(ep, rq) \<in> set qs. authorized_call en ep rq (fst c))"
proof (induction qs arbitrary: st)
  case (Cons q qs)
  let ?st = "snd (serve en (fst q) (snd q) st)"
  obtain new where new: "calls_of ?st = calls_of st @ new" "\<forall>c \<in> set new. authorized_call en (fst q) (snd q) (fst c)"
    by (rule serve_calls [of en "fst q" "snd q" st])
  from Cons.IH [of ?st] Cons.prems
  have "c \<in> set (calls_of ?st) \<or> (\<exists>(ep, rq) \<in> set qs. authorized_call en ep rq (fst c))" by simp
  with new show ?case by (cases q) auto
qed simp

section \<open>Protected resources\<close>

text \<open>The resource is served to a party of an active Paycard that signed a credential for it.\<close>

definition resource_allowed :: "'c relay_env \<Rightarrow> relay_request \<Rightarrow> bool" where
  "resource_allowed en rq \<longleftrightarrow>
     isLocalSandboxMode (en_config en) \<and>
     (\<exists>credential signer row c c'.
        validateOpenRailsAccessRequest (coercions.truncate (en_values en)) (en_ethers en) (en_host en) (rq_time rq div 1000)
          (access_request_of rq) (access_options_of (en_config en)) = Inr (Accepted (credential, signer)) \<and>
        nd_registry (en_node en) (ac_paycardId credential) c = (Inr row, c') \<and> \<not> row_missing row \<and> row_active row \<and>
        ac_metadataHash credential = JStr (rr_metadataHash row) \<and> party_of row signer)"

lemma resource_only_to_parties:
  assumes "fst (serve en Ep_protected rq st) = Some reply" "rp_status reply = 200"
  shows "resource_allowed en rq"
  using assms
  by (auto simp: serve_def limited_def run_handler_def handler_def getProtectedResource_def catch_500_def acatch_def Let_def
      abind_def of_result_def ask_chain_def areturn_def athrow_def reply_error_def reply_with_def resource_allowed_def
      split: prod.splits sum.splits if_splits verdict.splits)

end
