(* ===== verification/ServerHistory.thy ===== *)
theory ServerHistory
  imports ServerBase StreamFiles
begin

text \<open>
  \<open>server/index.ts\<close>, the history routes: what the stream gateway left on disk, read through
  \<open>PersistentStreamReader\<close>, with a notice that the Vault alone is authoritative. A number that is
  \<open>NaN\<close> is \<open>null\<close> in the file.
\<close>

section \<open>Rendering\<close>

definition status_name :: "paycard_status \<Rightarrow> string" where
  "status_name s = (case s of StActive \<Rightarrow> ''Active'' | StPendingSettlement \<Rightarrow> ''PendingSettlement'' | StTerminated \<Rightarrow> ''Terminated'')"

definition stream_json :: "stream \<Rightarrow> json" where
  "stream_json s = JObj
     ([(''paycardId'', JStr (sm_paycardId s)), (''payer'', JStr (sm_payer s)), (''recipient'', JStr (sm_recipient s)),
       (''metadataHash'', JStr (sm_metadataHash s))] @ opt_field ''workflowId'' JStr (sm_workflowId s) @
      [(''totalAllocation'', JStr (sm_totalAllocation s)), (''availableBalance'', JStr (sm_availableBalance s))] @
      opt_field ''projectedAvailableBalance'' JStr (sm_projectedAvailableBalance s) @
      [(''velocity'', JStr (sm_velocity s)), (''genesis'', whole_json (sm_genesis s)), (''lifespan'', whole_json (sm_lifespan s)),
       (''lastCheckpoint'', whole_json (sm_lastCheckpoint s)), (''status'', JStr (status_name (sm_status s)))])"

definition event_json :: "event_record \<Rightarrow> json" where
  "event_json e = JObj
     ([(''paycardId'', JStr (er_paycardId e)), (''eventName'', JStr (er_eventName e))] @
      opt_field ''workflowId'' JStr (er_workflowId e) @ opt_field ''metadataHash'' JStr (er_metadataHash e) @
      [(''blockNumber'', JNum (er_blockNumber e))] @ opt_field ''blockTimestamp'' JNum (er_blockTimestamp e) @
      [(''transactionHash'', JStr (er_transactionHash e)), (''logIndex'', JNum (er_logIndex e)),
       (''args'', JObj (map (\<lambda>(k, v). (k, JStr v)) (er_args e))), (''recordedAt'', JNum (er_recordedAt e))])"

definition streams_json :: "stream list \<Rightarrow> json" where
  "streams_json ss = JArr (map stream_json ss)"

definition events_json :: "event_record list \<Rightarrow> json" where
  "events_json es = JArr (map event_json es)"

definition projection :: "json obj \<Rightarrow> json" where
  "projection rest = JObj
     ([(''authoritative'', JBool False),
       (''disclaimer'', JStr ''Non-authoritative projection from the stream gateway. The onchain Vault is the source of truth.'')]
      @ rest)"

definition json_reply :: "int \<Rightarrow> json \<Rightarrow> http_reply" where
  "json_reply status body = \<lparr>rp_status = status, rp_body = body\<rparr>"

section \<open>Routes\<close>

definition text_of :: "json \<Rightarrow> string option" where
  "text_of v = (case v of JStr s \<Rightarrow> if s = [] then None else Some s | _ \<Rightarrow> None)"

definition status_of_name :: "string \<Rightarrow> paycard_status option" where
  "status_of_name s =
     (if s = ''Active'' then Some StActive else if s = ''PendingSettlement'' then Some StPendingSettlement
      else if s = ''Terminated'' then Some StTerminated else None)"

definition nullish_or :: "json \<Rightarrow> json \<Rightarrow> json" where
  "nullish_or a b = (if is_nullish a then b else a)"

definition stream_query :: "json \<Rightarrow> stream_filter" where
  "stream_query q =
     \<lparr>sq_payer = text_of (opt_prop q ''payer''), sq_recipient = text_of (opt_prop q ''recipient''),
      sq_workflowId = text_of (nullish_or (opt_prop q ''workflow'') (opt_prop q ''workflowId'')),
      sq_metadataHash = text_of (opt_prop q ''metadataHash''),
      sq_status = Option.bind (text_of (opt_prop q ''status'')) status_of_name\<rparr>"

definition getStreams :: "'z ethers_scheme \<Rightarrow> disk \<Rightarrow> json \<Rightarrow> http_reply" where
  "getStreams et d q =
     (let f = stream_query q; status = text_of (opt_prop q ''status'') in
      if sq_metadataHash f \<noteq> None \<and> \<not> is_bytes32 et (JStr (the (sq_metadataHash f)))
      then json_reply 400 (error_body ''metadataHash must be a bytes32 hex string'')
      else if status \<noteq> None \<and> sq_status f = None
      then json_reply 400 (error_body ''Invalid status; expected one of Active, PendingSettlement, Terminated'')
      else
        let streams = listStreams f d in
        json_reply 200 (projection [(''count'', JNum (int (length streams))), (''streams'', streams_json streams)]))"

definition getHistory :: "'z ethers_scheme \<Rightarrow> disk \<Rightarrow> string \<Rightarrow> http_reply" where
  "getHistory et d paycardId =
     (if \<not> is_bytes32 et (JStr paycardId) then json_reply 400 (error_body ''Invalid paycardId; expected bytes32 hex'')
      else
        let state = getStream paycardId d; events = getStreamHistory paycardId d in
        if state = None \<and> events = []
        then json_reply 404 (JObj [(''error'', JStr ''No indexed history for this Paycard Stream''), (''paycardId'', JStr paycardId)])
        else json_reply 200 (projection
          [(''paycardId'', JStr paycardId), (''state'', case state of None \<Rightarrow> JNull | Some s \<Rightarrow> stream_json s),
           (''events'', events_json events)]))"

definition getWorkflowHistory :: "disk \<Rightarrow> string \<Rightarrow> http_reply" where
  "getWorkflowHistory d workflowId =
     (if workflowId = [] then json_reply 400 (error_body ''Missing workflowId'')
      else
        let (streams, events) = getWorkflow workflowId d in
        json_reply 200 (projection
          [(''workflowId'', JStr workflowId), (''streams'', streams_json streams), (''events'', events_json events)]))"

definition getTransaction :: "'z ethers_scheme \<Rightarrow> disk \<Rightarrow> string \<Rightarrow> http_reply" where
  "getTransaction et d hash =
     (if \<not> is_bytes32 et (JStr hash) then json_reply 400 (error_body ''Invalid transaction hash; expected 32-byte hex'')
      else
        let (events, streams) = getByTransaction hash d in
        if events = []
        then json_reply 404 (JObj [(''error'', JStr ''No indexed events for this transaction''), (''transactionHash'', JStr hash)])
        else json_reply 200 (projection
          [(''transactionHash'', JStr hash), (''events'', events_json events), (''streams'', streams_json streams)]))"

section \<open>Facts\<close>

text \<open>What a successful history names: the records of the Paycard in chain order, and no others.\<close>

lemma history_reply:
  assumes "rp_status (getHistory et d paycardId) = 200"
  shows "rp_body (getHistory et d paycardId) = projection
     [(''paycardId'', JStr paycardId), (''state'', case getStream paycardId d of None \<Rightarrow> JNull | Some s \<Rightarrow> stream_json s),
      (''events'', events_json (getStreamHistory paycardId d))]"
  using assms by (auto simp: getHistory_def json_reply_def Let_def split: if_splits)

lemma streams_reply:
  assumes "rp_status (getStreams et d q) = 200"
  shows "rp_body (getStreams et d q) = projection
     [(''count'', JNum (int (length (listStreams (stream_query q) d)))), (''streams'', streams_json (listStreams (stream_query q) d))]"
  using assms by (auto simp: getStreams_def json_reply_def Let_def split: if_splits)

text \<open>An unknown status is refused rather than ignored.\<close>

lemma known_status:
  assumes "rp_status (getStreams et d q) = 200" "text_of (opt_prop q ''status'') = Some s"
  obtains st where "sq_status (stream_query q) = Some st" "s = status_name st"
  using assms by (auto simp: getStreams_def json_reply_def Let_def stream_query_def status_of_name_def status_name_def split: if_splits)

end
