(* ===== verification/ServerInit.thy ===== *)
theory ServerInit
  imports ServerBase
begin

text \<open>
  \<open>server/index.ts\<close>, the start in the mode of the public chain, which ends with the configuration
  the handlers run on or does not start. The answers of the node and the deployment registry are
  parameters.
\<close>

section \<open>The environment\<close>

record relay_environment =
  ev_rpcUrl :: json
  ev_chainId :: json
  ev_usdc :: json
  ev_hub :: json
  ev_explorer :: json
  ev_relayerKey :: "string option"

text \<open>What the start learns from outside: the registry file, the two ways the node names its chain,
  the code at an address, and whether the compiled contract is there.\<close>

record relay_probe =
  pb_registry :: "json result"
  pb_network :: "int result"
  pb_chainId :: "json result"
  pb_code :: "string \<Rightarrow> string result"
  pb_artifact :: "unit result"

definition loadDeploymentRegistry :: "string option \<Rightarrow> (string \<Rightarrow> string option) \<Rightarrow> (string \<Rightarrow> json result) \<Rightarrow> json result" where
  "loadDeploymentRegistry registryPath read parse =
     (if \<not> given registryPath then Inr (JObj [])
      else case read (the registryPath) of
          None \<Rightarrow> Inl (Error (''Deployment registry not found: '' @ the registryPath))
        | Some text \<Rightarrow> parse text)"

section \<open>The start\<close>

definition logical_or :: "json \<Rightarrow> json \<Rightarrow> json" where
  "logical_or a b = (if js_truthy a then a else b)"

definition private_key_text :: "string \<Rightarrow> bool" where
  "private_key_text s \<longleftrightarrow>
     (let digits = (if has_prefix ''0x'' s then drop 2 s else s) in length digits = 64 \<and> list_all is_hex_digit digits)"

definition checked_chain ::
    "server_values \<Rightarrow> relay_environment \<Rightarrow> relay_probe \<Rightarrow> json \<Rightarrow> int result" where
  "checked_chain sv ev pb registry =
     (case js_whole sv (logical_or (ev_chainId ev) (logical_or (opt_prop registry ''chainId'') (JNum 0))) of
        None \<Rightarrow> Inl (Error ''ARC_CHAIN_ID or registry chainId is required for Arc testnet dashboard mode'')
      | Some expected \<Rightarrow>
          throw_if (expected \<le> 0) ''ARC_CHAIN_ID or registry chainId is required for Arc testnet dashboard mode''
         (bnd (pb_network pb) (\<lambda>chainId.
          bnd (pb_chainId pb) (\<lambda>probed.
          throw_if (chainId \<noteq> expected) (''Arc chain ID mismatch: expected '' @ int_str expected @ '', got '' @ int_str chainId)
         (throw_if (js_whole sv probed \<noteq> Some expected) ''Arc RPC chain ID mismatch''
         (Inr expected))))))"

definition relayer_of ::
    "'z server_ethers_scheme \<Rightarrow> relay_config \<Rightarrow> relay_environment \<Rightarrow> (string \<times> bool) result" where
  "relayer_of et cf ev =
     (if publicRelayerEnabled cf then
        bnd (assertPublicRelayerConfig et cf) (\<lambda>_.
        throw_if (case ev_relayerKey ev of None \<Rightarrow> True | Some k \<Rightarrow> \<not> private_key_text k)
          ''OPENRAILS_RELAYER_PRIVATE_KEY must be a 32-byte hex key when OPENRAILS_ENABLE_ARC_PUBLIC_RELAYER=true''
       (bnd (require (wallet_address et (the (ev_relayerKey ev))) ''invalid private key'') (\<lambda>a. Inr (a, True))))
      else Inr ([], False))"

definition has_code :: "relay_probe \<Rightarrow> string \<Rightarrow> string \<Rightarrow> unit result" where
  "has_code pb a what = bnd (pb_code pb a) (\<lambda>code. throw_if (code = ''0x'') (what @ '' address has no contract code'') (Inr ()))"

text \<open>The configuration given holds what the environment fixes; the rest is filled in.\<close>

definition initArcTestnetReadOnly ::
    "server_values \<Rightarrow> 'z server_ethers_scheme \<Rightarrow> relay_environment \<Rightarrow> relay_probe \<Rightarrow> relay_config \<Rightarrow> relay_config result" where
  "initArcTestnetReadOnly sv et ev pb cf =
     (let rpcUrl = logical_or (ev_rpcUrl ev) (JStr (cf_providerUrl cf)) in
      throw_if (\<not> js_truthy rpcUrl \<or> isLoopbackProviderUrl (js_string sv rpcUrl))
        ''Arc testnet dashboard mode requires a non-loopback ARC_RPC_URL or PROVIDER_URL''
     (bnd (pb_registry pb) (\<lambda>registry.
      bnd (checked_chain sv ev pb registry) (\<lambda>chainId.
      bnd (requireAddress sv et (logical_or (ev_usdc ev) (opt_prop registry ''arcUsdcAddress'')) ''Arc USDC address'') (\<lambda>usdc.
      bnd (requireAddress sv et (logical_or (ev_hub ev) (opt_prop registry ''arcOpenRailsHubV1'')) ''Arc OpenRails Hub address'') (\<lambda>hub.
      bnd (pb_artifact pb) (\<lambda>_.
      bnd (relayer_of et cf ev) (\<lambda>(relayer, wallet).
      bnd (has_code pb hub ''Arc OpenRails Hub'') (\<lambda>_.
      bnd (has_code pb usdc ''Arc USDC'') (\<lambda>_.
      Inr (cf\<lparr>cf_chainId := chainId, cf_usdc := usdc, cf_hub := hub,
              cf_explorer := js_string sv (logical_or (ev_explorer ev) (logical_or (opt_prop registry ''explorerBaseUrl'') (JStr []))),
              cf_relayerAddress := relayer, cf_hasWallet := wallet\<rparr>)))))))))))"

section \<open>What a started server may rely on\<close>

definition started :: "server_values \<Rightarrow> 'z server_ethers_scheme \<Rightarrow> relay_probe \<Rightarrow> relay_config \<Rightarrow> bool" where
  "started sv et pb cf \<longleftrightarrow>
     0 < cf_chainId cf \<and> pb_network pb = Inr (cf_chainId cf) \<and>
     isAddress et (JStr (cf_hub cf)) \<and> cf_hub cf \<noteq> ZeroAddress \<and> (\<exists>code. pb_code pb (cf_hub cf) = Inr code \<and> code \<noteq> ''0x'') \<and>
     isAddress et (JStr (cf_usdc cf)) \<and> cf_usdc cf \<noteq> ZeroAddress \<and> (\<exists>code. pb_code pb (cf_usdc cf) = Inr code \<and> code \<noteq> ''0x'') \<and>
     (publicRelayerEnabled cf \<longleftrightarrow> cf_hasWallet cf) \<and>
     (publicRelayerEnabled cf \<longrightarrow>
        (\<exists>lifespan allocation velocity.
           cf_maxLifespan cf = Some lifespan \<and> 0 < lifespan \<and>
           parse_units et (cf_maxAllocation cf) = Some allocation \<and> 0 < allocation \<and>
           parse_units et (cf_maxVelocity cf) = Some velocity \<and> 0 < velocity))"

lemma checked_chain_Inr:
  "checked_chain sv ev pb registry = Inr n \<Longrightarrow> 0 < n \<and> pb_network pb = Inr n"
  by (auto simp: checked_chain_def result_simps split: option.splits)

lemma requireAddress_Inr [result_simps]:
  "requireAddress sv et v name = Inr a \<longleftrightarrow>
     a = (if js_truthy v then js_string sv v else []) \<and> isAddress et (JStr a) \<and> a \<noteq> ZeroAddress"
  by (auto simp: requireAddress_def result_simps Let_def)

lemma relayer_of_Inr:
  assumes "relayer_of et cf ev = Inr (a, w)"
  shows "(publicRelayerEnabled cf \<longleftrightarrow> w) \<and>
    (publicRelayerEnabled cf \<longrightarrow>
      (\<exists>lifespan allocation velocity.
         cf_maxLifespan cf = Some lifespan \<and> 0 < lifespan \<and>
         parse_units et (cf_maxAllocation cf) = Some allocation \<and> 0 < allocation \<and>
         parse_units et (cf_maxVelocity cf) = Some velocity \<and> 0 < velocity))"
  using assms
  by (auto simp: relayer_of_def assertPublicRelayerConfig_def result_simps split: if_splits option.splits)

lemma has_code_Inr: "has_code pb a what = Inr u \<Longrightarrow> \<exists>code. pb_code pb a = Inr code \<and> code \<noteq> ''0x''"
  by (auto simp: has_code_def result_simps)

lemma enabled_update [simp]:
  "publicRelayerEnabled (cf\<lparr>cf_chainId := i, cf_usdc := u, cf_hub := h, cf_explorer := x, cf_relayerAddress := r, cf_hasWallet := w\<rparr>) =
   publicRelayerEnabled cf"
  by (simp add: publicRelayerEnabled_def arc_mode_def)

lemma init_started:
  assumes "initArcTestnetReadOnly sv et ev pb cf = Inr cf'"
  shows "started sv et pb cf'"
proof -
  from assms obtain registry chainId usdc hub relayer wallet u v explorer where
    c: "checked_chain sv ev pb registry = Inr chainId" and
    u: "isAddress et (JStr usdc)" "usdc \<noteq> ZeroAddress" and h: "isAddress et (JStr hub)" "hub \<noteq> ZeroAddress" and
    r: "relayer_of et cf ev = Inr (relayer, wallet)" and
    code: "has_code pb hub ''Arc OpenRails Hub'' = Inr u" "has_code pb usdc ''Arc USDC'' = Inr v" and
    cf': "cf' = cf\<lparr>cf_chainId := chainId, cf_usdc := usdc, cf_hub := hub, cf_explorer := explorer,
      cf_relayerAddress := relayer, cf_hasWallet := wallet\<rparr>"
    by (auto simp: initArcTestnetReadOnly_def result_simps Let_def)
  note facts = checked_chain_Inr [OF c] u h relayer_of_Inr [OF r] has_code_Inr [OF code(1)] has_code_Inr [OF code(2)]
  show ?thesis
    unfolding started_def cf' enabled_update using facts by simp
qed

end
