(* ===== verification/ServerScenario.thy ===== *)
theory ServerScenario
  imports ServerMachine SdkScenario
begin

text \<open>
  A relay in local mode on a chain that rejects the first transaction for its nonce, and requests
  to it, at which the properties of the server are applied.
\<close>

definition demo_values :: server_values where
  "demo_values = coercions.extend demo_coercions (server_values.fields (\<lambda>_. []) (\<lambda>_. None))"

text \<open>The digest of every intent is the same; a message is signed by the wallet with the word \<open>signed\<close>.\<close>

definition demo_server_ethers :: server_ethers where
  "demo_server_ethers = ethers.extend (demo_ethers any_signature)
     (server_ethers.fields (\<lambda>_. Some 1) (\<lambda>_ sg. if sg = JStr ''signed'' then Some demo_wallet else None) (\<lambda>_. Some demo_wallet)
       (\<lambda>_ _ _ _. Some (demo_hash (CHR ''5''))) (\<lambda>_ _ _ _ _. Some demo_wallet))"

definition nonce_rejection :: reject where
  "nonce_rejection = \<lparr>rj_code = Some ''NONCE_EXPIRED'', rj_message = Some ''nonce too low''\<rparr>"

text \<open>The state of the chain counts the transactions it was sent.\<close>

definition demo_chain :: "nat chain_node" where
  "demo_chain =
     \<lparr>nd_send = (\<lambda>_ c. (if c = 0 then Inl nonce_rejection else Inr (demo_hash (CHR ''4'')), Suc c)),
      nd_wait = (\<lambda>_ c. (Inr \<lparr>re_blockNumber = 7, re_logs = []\<rparr>, c)), nd_registry = (\<lambda>_ c. (Inr demo_row, c)),
      nd_count = (\<lambda>_ c. (Inr (int c), c)), nd_timestamp = (\<lambda>c. (Inr (Some 1500), c)), nd_signer = (\<lambda>_ c. (Inr (), c)),
      nd_read = (\<lambda>_ _ c. (Inr 0, c)), nd_block = (\<lambda>c. (Inr 30, c)), nd_vault = (\<lambda>_. demo_node)\<rparr>"

definition sandbox_config :: relay_config where
  "sandbox_config =
     \<lparr>cf_mode = ''local'', cf_relayerFlag = None, cf_providerUrl = ''http://127.0.0.1:8545'', cf_maxAllocation = ''1'',
      cf_maxLifespan = Some 3600, cf_maxVelocity = ''0.1'', cf_serviceOrigin = ''http://localhost:3001'', cf_chainId = 31337,
      cf_hub = demo_wallet, cf_usdc = demo_wallet, cf_explorer = [], cf_relayerAddress = demo_wallet, cf_hasWallet = True,
      cf_demoFlag = None, cf_demoKey = None, cf_sellerAddress = demo_wallet, cf_facilitatorUrl = []\<rparr>"

definition demo_relay :: "nat relay_env" where
  "demo_relay = \<lparr>en_values = demo_values, en_ethers = demo_server_ethers, en_host = demo_host, en_node = demo_chain,
     en_config = sandbox_config\<rparr>"

definition demo_start :: "nat relay_state" where
  "demo_start = \<lparr>rs_world = \<lparr>wd_chain = 0, wd_sent = []\<rparr>, rs_buckets = []\<rparr>"

text \<open>A request to open the Paycard of the demo envelope, and a flush of it signed with a word.\<close>

definition demo_open_request :: relay_request where
  "demo_open_request =
     \<lparr>rq_ip = ''::1'', rq_time = 0, rq_headers = [(''x-openrails-paycard-id'', demo_hash (CHR ''1''))],
      rq_body = JObj [(''envelopeToken'', JStr (base64UrlEncode (code_points (stringify demo_envelope)))),
        (''policyEnvelope'', JObj [(''maxAllocationPool'', JStr ''100'')])],
      rq_query = JObj [], rq_params = []\<rparr>"

definition demo_flush_request :: "string \<Rightarrow> relay_request" where
  "demo_flush_request word =
     \<lparr>rq_ip = ''::1'', rq_time = 1000, rq_headers = [],
      rq_body = JObj [(''paycardId'', JStr (demo_hash (CHR ''1''))), (''caller'', JStr demo_wallet), (''authorizationSignature'', JStr word)],
      rq_query = JObj [], rq_params = []\<rparr>"

lemma demo_relay_simps [simp]:
  "en_values demo_relay = demo_values" "en_ethers demo_relay = demo_server_ethers" "en_host demo_relay = demo_host"
  "en_node demo_relay = demo_chain" "en_config demo_relay = sandbox_config"
  "coercions.truncate demo_values = demo_coercions"
  by (simp_all add: demo_relay_def demo_values_def coercions.defs server_values.defs demo_coercions_def)

lemma sandbox_config_simps [simp]:
  "\<not> publicRelayerEnabled sandbox_config" "currentCapabilities sandbox_config c" "cf_usdc sandbox_config = demo_wallet"
  "cf_hasWallet sandbox_config" "cf_demoFlag sandbox_config = None" "cf_chainId sandbox_config = 31337"
  by (simp_all add: sandbox_config_def publicRelayerEnabled_def currentCapabilities_def arc_mode_def)

lemma demo_digest_simps [simp]:
  "intent_digest demo_server_ethers v c a i = Some (demo_hash (CHR ''5''))" "intent_signer demo_server_ethers v c a i sg = Some demo_wallet"
  "verify_message demo_server_ethers text sg = (if sg = JStr ''signed'' then Some demo_wallet else None)"
  by (simp_all add: demo_server_ethers_def ethers.defs server_ethers.defs demo_ethers_def)

lemma demo_sandbox: "isLocalSandboxMode sandbox_config"
  by code_simp

lemma demo_request_simps [simp]:
  "rq_time demo_open_request = 0" "rq_ip demo_open_request = ''::1''" "rq_time (demo_flush_request word) = 1000"
  "rq_ip (demo_flush_request word) = ''::1''"
  by (simp_all add: demo_open_request_def demo_flush_request_def)

lemma demo_open_fields: "open_body_of demo_open_request = demo_open_body"
proof -
  have "lower ''X-OpenRails-Paycard-Id'' = ''x-openrails-paycard-id''" "lower ''X-OpenRails-Metadata-Hash'' = ''x-openrails-metadata-hash''"
    "lower ''Authorization'' = ''authorization''"
    by code_simp+
  then show ?thesis
    by (simp add: open_body_of_def demo_open_body_def demo_open_request_def request_header_def header_value_def
        envelopeHeaderParser_def starts_openrails_def opt_prop_def)
qed

lemma demo_nonce_error: "isNonceError nonce_rejection"
  by (simp add: isNonceError_def nonce_rejection_def)

lemmas action_defs = abind_def acatch_def ask_chain_def send_call_def areturn_def athrow_def reply_with_def of_result_def

lemma demo_first_bucket: "rate_limit 20 5 ip t [] = (oset ip \<lparr>tb_tokens = 19, tb_lastRefill = t\<rparr> [], Proceed)" if "0 \<le> t"
  by (simp add: rate_limit_def Let_def new_bucket_def consume_def refill_def)

definition demo_submissions :: "(chain_call \<times> (reject + string)) list" where
  "demo_submissions =
     [(submit_call demo_opened None, Inl nonce_rejection), (submit_call demo_opened (Some 1), Inr (demo_hash (CHR ''4'')))]"

lemma demo_open_runs:
  assumes "rs_world st = \<lparr>wd_chain = 0, wd_sent = []\<rparr>"
  shows "rs_world (snd (run_handler demo_relay Ep_open demo_open_request st)) = \<lparr>wd_chain = 2, wd_sent = demo_submissions\<rparr>"
proof -
  have reply: "\<exists>body. open_reply demo_server_ethers sandbox_config 0 demo_opened hash rc demo_row = Inr body" for hash rc
    by (simp add: open_reply_def hashSettlementIntent_def buildIntentProof_def require_def Let_def)
  show ?thesis
    using reply [of "demo_hash (CHR ''4'')" "\<lparr>re_blockNumber = 7, re_logs = []\<rparr>"] assms
    by (auto simp: run_handler_def handler_def postOpen_def catch_500_def forbiddenCapability_def demo_open_fields
        demo_opening_accepted relay_opening_def validatePublicRelayerCaps_def submit_open_def action_defs Let_def
        demo_chain_def demo_nonce_error calls_of_def demo_submissions_def)
qed

definition demo_flush_calls :: "(chain_call \<times> (reject + string)) list" where
  "demo_flush_calls =
     [(Rpc ''hardhat_impersonateAccount'' [JStr demo_wallet], Inr (demo_hash (CHR ''4''))),
      (Call_flush demo_wallet (JStr (demo_hash (CHR ''1''))), Inr (demo_hash (CHR ''4'')))]"

lemma demo_not_zero: "demo_wallet \<noteq> ZeroAddress" "demo_wallet \<noteq> []" "demo_hash c \<noteq> []" "lower demo_wallet = demo_wallet"
  by (simp_all add: demo_wallet_def ZeroAddress_def demo_hash_def lower_def lower_char_def is_upper_def code_in_def)

lemma demo_flush_runs:
  assumes "rs_world st = \<lparr>wd_chain = 2, wd_sent = sent\<rparr>"
  shows "wd_sent (rs_world (snd (run_handler demo_relay Ep_flush (demo_flush_request word) st))) =
    (if word = ''signed'' then sent @ demo_flush_calls else sent)"
  using assms
  by (auto simp: run_handler_def handler_def postFlush_def catch_500_def forbiddenCapability_def demo_flush_request_def
      flush_with_def demo_signer_def demo_sandbox party_of_def row_missing_def demo_row_def demo_not_zero lower_of_def
      action_defs Let_def opt_prop_def get_prop_def is_nullish_def demo_chain_def demo_flush_calls_def require_def reply_error_def)

definition demo_run :: "(endpoint \<times> relay_request) list" where
  "demo_run = [(Ep_open, demo_open_request), (Ep_flush, demo_flush_request ''signed'')]"

lemma demo_run_calls: "calls_of (serve_all demo_relay demo_run demo_start) = demo_submissions @ demo_flush_calls"
proof -
  let ?bs = "oset ''::1'' \<lparr>tb_tokens = 19, tb_lastRefill = 0\<rparr> [] :: rat bucket obj"
  let ?st = "snd (serve demo_relay Ep_open demo_open_request demo_start)"
  have st: "rs_world ?st = \<lparr>wd_chain = 2, wd_sent = demo_submissions\<rparr>" "rs_buckets ?st = ?bs"
    using demo_open_runs [of "demo_start\<lparr>rs_buckets := ?bs\<rparr>"]
    by (simp_all add: serve_def limited_def demo_first_bucket demo_start_def)
  obtain bs where bs: "rate_limit 20 5 ''::1'' 1000 ?bs = (bs, Proceed)"
    by (simp add: rate_limit_def Let_def consume_def refill_def)
  have "calls_of (snd (serve demo_relay Ep_flush (demo_flush_request ''signed'') ?st)) = demo_submissions @ demo_flush_calls"
    using demo_flush_runs [of "?st\<lparr>rs_buckets := bs\<rparr>" demo_submissions "''signed''"] st bs
    by (simp add: serve_def limited_def calls_of_def)
  then show ?thesis by (simp add: demo_run_def)
qed

lemma demo_run_trace: "map snd (filter (\<lambda>q. fst q = ''::1'') (limited_trace demo_run)) = [0, 1000]"
  by (simp add: demo_run_def limited_def)

end
