(* ===== verification/WorkerBase.thy ===== *)
theory WorkerBase
  imports SdkEnvelope JsDynamic JsNumber
begin

text \<open>
  What the workers of \<open>src/workers\<close> share: requests and replies, the checks of headers and
  parameters, and actions. An action takes a state and returns a value or what it threw, with the
  new state, which is kept when it throws. \<open>meets P m Q I\<close> says what holds after an action: \<open>Q\<close> of its
  value, or \<open>I\<close> when it threw.
\<close>

section \<open>Actions\<close>

type_synonym ('s, 'a) io = "'s \<Rightarrow> 'a result \<times> 's"

definition io_return :: "'a \<Rightarrow> ('s, 'a) io" where
  "io_return x s = (Inr x, s)"

definition io_throw :: "js_error \<Rightarrow> ('s, 'a) io" where
  "io_throw e s = (Inl e, s)"

definition io_bind :: "('s, 'a) io \<Rightarrow> ('a \<Rightarrow> ('s, 'b) io) \<Rightarrow> ('s, 'b) io" where
  "io_bind m f s = (case m s of (Inl e, s') \<Rightarrow> (Inl e, s') | (Inr x, s') \<Rightarrow> f x s')"

definition io_then :: "('s, 'a) io \<Rightarrow> ('s, 'b) io \<Rightarrow> ('s, 'b) io" where
  "io_then m k = io_bind m (\<lambda>_. k)"

definition io_catch :: "('s, 'a) io \<Rightarrow> (js_error \<Rightarrow> ('s, 'a) io) \<Rightarrow> ('s, 'a) io" where
  "io_catch m g s = (case m s of (Inl e, s') \<Rightarrow> g e s' | (Inr x, s') \<Rightarrow> (Inr x, s'))"

definition io_of :: "'a result \<Rightarrow> ('s, 'a) io" where
  "io_of m s = (m, s)"

definition io_get :: "('s \<Rightarrow> 'a) \<Rightarrow> ('s, 'a) io" where
  "io_get f s = (Inr (f s), s)"

definition io_put :: "('s \<Rightarrow> 's) \<Rightarrow> ('s, unit) io" where
  "io_put f s = (Inr (), f s)"

text \<open>\<open>for (const x of xs)\<close>; an exception ends the loop.\<close>

fun io_each :: "('a \<Rightarrow> ('s, unit) io) \<Rightarrow> 'a list \<Rightarrow> ('s, unit) io" where
  "io_each f [] = io_return ()"
| "io_each f (x # xs) = io_then (f x) (io_each f xs)"

lemma io_simps [simp]:
  "io_bind (io_of (Inr x)) f = f x" "io_bind (io_of (Inl e)) f = io_throw e" "io_bind (io_return x) f = f x"
  "io_bind (io_throw e) f = io_throw e" "io_then (io_return u) k = k" "io_then (io_throw e) k = io_throw e"
  by (simp_all add: fun_eq_iff io_bind_def io_then_def io_of_def io_return_def io_throw_def)

section \<open>What holds after an action\<close>

named_theorems io_rules \<open>rules for what holds after an action\<close>

definition meets ::
    "('s \<Rightarrow> bool) \<Rightarrow> ('s, 'a) io \<Rightarrow> ('a \<Rightarrow> 's \<Rightarrow> bool) \<Rightarrow> ('s \<Rightarrow> bool) \<Rightarrow> bool" where
  "meets P m Q I \<longleftrightarrow> (\<forall>s. P s \<longrightarrow> (case m s of (Inr x, s') \<Rightarrow> Q x s' | (Inl _, s') \<Rightarrow> I s'))"

lemma meetsI: "(\<And>s. P s \<Longrightarrow> (case m s of (Inr x, s') \<Rightarrow> Q x s' | (Inl _, s') \<Rightarrow> I s')) \<Longrightarrow> meets P m Q I"
  by (simp add: meets_def)

lemma meetsD: "meets P m Q I \<Longrightarrow> P s \<Longrightarrow> m s = (Inr x, s') \<Longrightarrow> Q x s'"
  by (force simp: meets_def)

lemma meets_thrown: "meets P m Q I \<Longrightarrow> P s \<Longrightarrow> m s = (Inl e, s') \<Longrightarrow> I s'"
  by (force simp: meets_def)

lemma meets_state: "meets P m (\<lambda>_. I) I \<Longrightarrow> P s \<Longrightarrow> I (snd (m s))"
  by (cases "m s"; cases "fst (m s)") (auto dest: meetsD meets_thrown)

lemma meets_bind [io_rules]:
  "meets P m R I \<Longrightarrow> (\<And>x. meets (R x) (f x) Q I) \<Longrightarrow> meets P (io_bind m f) Q I"
  unfolding meets_def io_bind_def by (fastforce split: prod.splits sum.splits)

lemma meets_then [io_rules]: "meets P m (\<lambda>_. R) I \<Longrightarrow> meets R k Q I \<Longrightarrow> meets P (io_then m k) Q I"
  unfolding io_then_def by (rule meets_bind)

lemma meets_catch [io_rules]: "meets P m Q R \<Longrightarrow> (\<And>e. meets R (g e) Q I) \<Longrightarrow> meets P (io_catch m g) Q I"
  unfolding meets_def io_catch_def by (fastforce split: prod.splits sum.splits)

lemma meets_return [io_rules]: "(\<And>s. P s \<Longrightarrow> Q x s) \<Longrightarrow> meets P (io_return x) Q I"
  by (simp add: meets_def io_return_def)

lemma meets_throw [io_rules]: "(\<And>s. P s \<Longrightarrow> I s) \<Longrightarrow> meets P (io_throw e) Q I"
  by (simp add: meets_def io_throw_def)

lemma meets_of [io_rules]:
  "(\<And>x s. m = Inr x \<Longrightarrow> P s \<Longrightarrow> Q x s) \<Longrightarrow> (\<And>e s. m = Inl e \<Longrightarrow> P s \<Longrightarrow> I s) \<Longrightarrow> meets P (io_of m) Q I"
  by (auto simp: meets_def io_of_def split: sum.splits)

lemma meets_get [io_rules]: "(\<And>s. P s \<Longrightarrow> Q (f s) s) \<Longrightarrow> meets P (io_get f) Q I"
  by (simp add: meets_def io_get_def)

lemma meets_put [io_rules]: "(\<And>s. P s \<Longrightarrow> Q () (f s)) \<Longrightarrow> meets P (io_put f) Q I"
  by (simp add: meets_def io_put_def)

lemma meets_if [io_rules]: "(c \<Longrightarrow> meets P m Q I) \<Longrightarrow> (\<not> c \<Longrightarrow> meets P n Q I) \<Longrightarrow> meets P (if c then m else n) Q I"
  by simp

lemma meets_pre: "meets R m Q I \<Longrightarrow> (\<And>s. P s \<Longrightarrow> R s) \<Longrightarrow> meets P m Q I"
  by (simp add: meets_def)

lemma meets_post: "meets P m R J \<Longrightarrow> (\<And>x s. R x s \<Longrightarrow> Q x s) \<Longrightarrow> (\<And>s. J s \<Longrightarrow> I s) \<Longrightarrow> meets P m Q I"
  unfolding meets_def by (fastforce split: prod.splits sum.splits)

lemma meets_conj:
  "meets P m Q I \<Longrightarrow> meets P' m Q' I' \<Longrightarrow> meets (\<lambda>s. P s \<and> P' s) m (\<lambda>x s. Q x s \<and> Q' x s) (\<lambda>s. I s \<and> I' s)"
  unfolding meets_def by (fastforce split: prod.splits sum.splits)

lemma meets_with: "(\<And>s. P s \<Longrightarrow> meets (\<lambda>t. t = s) m Q I) \<Longrightarrow> meets P m Q I"
  by (simp add: meets_def)

lemma meets_bind_get: "(\<And>x. meets (\<lambda>s. P s \<and> x = f s) (m x) Q I) \<Longrightarrow> meets P (io_bind (io_get f) m) Q I"
  by (auto simp: meets_def io_bind_def io_get_def)

lemma meets_bind_of:
  "(\<And>x. m = Inr x \<Longrightarrow> meets P (f x) Q I) \<Longrightarrow> (\<And>s. P s \<Longrightarrow> I s) \<Longrightarrow> meets P (io_bind (io_of m) f) Q I"
  by (cases m) (simp_all add: meets_throw)

lemma meets_each:
  assumes "\<And>x. x \<in> set xs \<Longrightarrow> meets I (f x) (\<lambda>_. I) I"
  shows "meets I (io_each f xs) (\<lambda>_. I) I"
  using assms
  by (induction xs) (auto intro!: meets_return meets_then)

lemma meets_true: "meets P m (\<lambda>_ _. True) (\<lambda>_. True)"
  by (simp add: meets_def split: prod.splits sum.splits)

text \<open>A loop that establishes something of every element.\<close>

lemma meets_each_all:
  assumes "\<And>ys x zs. xs = ys @ x # zs \<Longrightarrow>
    meets (\<lambda>s. \<forall>y \<in> set ys. G y s) (f x) (\<lambda>_ s. \<forall>y \<in> set (ys @ [x]). G y s) I"
  shows "meets (\<lambda>_. True) (io_each f xs) (\<lambda>_ s. \<forall>y \<in> set xs. G y s) I"
proof -
  have "meets (\<lambda>s. \<forall>y \<in> set ys. G y s) (io_each f zs) (\<lambda>_ s. \<forall>y \<in> set xs. G y s) I" if "xs = ys @ zs" for ys zs
    using that
  proof (induction zs arbitrary: ys)
    case (Cons z zs)
    from Cons.IH [of "ys @ [z]"] assms [OF Cons.prems] Cons.prems show ?case by (simp add: meets_then)
  qed (simp add: meets_return)
  from this [of "[]" xs] show ?thesis by simp
qed

section \<open>Requests and replies\<close>

text \<open>The headers are in lower case; \<open>wq_body\<close> is \<open>None\<close> when the body is no JSON.\<close>

record worker_request =
  wq_method :: string
  wq_path :: string
  wq_headers :: "string obj"
  wq_query :: "string obj"
  wq_body :: "json option"

record worker_reply =
  wr_status :: int
  wr_body :: json

definition jsonResponse :: "(string \<times> json) list \<Rightarrow> int \<Rightarrow> worker_reply" where
  "jsonResponse body status = \<lparr>wr_status = status, wr_body = JObj body\<rparr>"

definition refusal :: "string \<Rightarrow> int \<Rightarrow> worker_reply" where
  "refusal msg status = jsonResponse [(''error'', JStr msg)] status"

definition header_or_empty :: "worker_request \<Rightarrow> string \<Rightarrow> string" where
  "header_or_empty rq name = (case oget (wq_headers rq) name of None \<Rightarrow> [] | Some v \<Rightarrow> v)"

definition bearer_token :: "worker_request \<Rightarrow> string" where
  "bearer_token rq =
     (let auth = header_or_empty rq ''authorization'' in
      if take 7 auth = ''Bearer '' then trim (drop 7 auth) else [])"

definition worker_authorized :: "string \<Rightarrow> worker_request \<Rightarrow> string option \<Rightarrow> bool" where
  "worker_authorized header rq secret \<longleftrightarrow>
     (case secret of
        None \<Rightarrow> False
      | Some s \<Rightarrow> s \<noteq> [] \<and> (bearer_token rq = s \<or> header_or_empty rq header = s))"

text \<open>\<open>Number(value)\<close> where it is a whole number.\<close>

definition readPositiveInt :: "(string \<Rightarrow> int option) \<Rightarrow> string option \<Rightarrow> int \<Rightarrow> int" where
  "readPositiveInt whole value fallback =
     (case Option.bind value whole of None \<Rightarrow> fallback | Some n \<Rightarrow> if 0 < n then n else fallback)"

definition isEvmAddress :: "string \<Rightarrow> bool" where
  "isEvmAddress s \<longleftrightarrow> hex_of_length 40 s"

definition isBytes32Hex :: "string \<Rightarrow> bool" where
  "isBytes32Hex s \<longleftrightarrow> hex_of_length 64 s"

text \<open>The envelope decoder of the workers, which run on the platform of a browser.\<close>

definition decodeEnvelope :: "'z host_scheme \<Rightarrow> string \<Rightarrow> json result" where
  "decodeEnvelope h token =
     require (Option.bind (base64UrlDecode Browser token) (parse_text h)) ''Could not decode envelopeToken''"

lemma readPositiveInt_pos: "0 < fallback \<Longrightarrow> 0 < readPositiveInt whole v fallback"
  by (simp add: readPositiveInt_def split: option.splits)

lemma decodes_serialized:
  assumes "textual v" "serializeEnvelope v = Inr token"
  shows "decodeEnvelope h token = Inr v"
proof -
  from envelope_roundtrip(1) [OF assms(1)] assms(2) have t: "token = base64UrlEncode (code_points (stringify v))" by simp
  have "base64UrlDecode Browser token = Some (code_points (stringify v))"
    unfolding t by (rule base64Url_text_roundtrip [OF code_points_text(1,3)])
  then show ?thesis
    using code_points_text(2,4) [of "stringify v"] json_parse_stringify [OF assms(1)]
    by (simp add: decodeEnvelope_def parse_text_def)
qed

end
