(* ===== verification/Indexer.thy ===== *)
theory Indexer
  imports WorkerBase "HOL-Library.AList" "HOL-Library.Product_Lexorder"
begin

text \<open>
  \<open>workers/indexer-worker/src/index.ts\<close>: a scheduled tick discovers vaults from the logs of the factory
  and ingests the logs of every watched vault, in chunks of blocks, into the tables of
  \<open>indexer-worker/schema.sql\<close>. Cursors advance after every chunk; a tick that fails keeps what it
  wrote. The clock is read once per tick, a block has one timestamp within a tick (so the cache of
  timestamps is not visible), the database does not fail, and a column of decimal text holds the
  number it denotes. Rows without an order come in the order they were inserted.
\<close>

section \<open>Logs\<close>

datatype hub_event =
    Provisioned (he_paycardId: string) (he_payer: string) (he_recipient: string) (he_metadataHash: string)
      (he_poolAllocation: int) (he_velocity: int) (he_genesis: int) (he_lifespan: int)
  | Settled (he_paycardId: string) (he_recipient: string) (he_amountWithdrawn: int)
  | Reclaimed (he_paycardId: string) (he_recoveryVault: string) (he_varianceSwept: int)

definition event_name :: "hub_event \<Rightarrow> string" where
  "event_name ev =
     (case ev of
        Provisioned _ _ _ _ _ _ _ _ \<Rightarrow> ''PaycardProvisioned''
      | Settled _ _ _ \<Rightarrow> ''SettlementFlushed''
      | Reclaimed _ _ _ \<Rightarrow> ''ResidualDeltaReclaimed'')"

text \<open>A log of the contract; \<open>parseLog\<close> gives nothing for other events.\<close>

record hub_log =
  hl_block :: int
  hl_index :: int
  hl_tx :: string
  hl_event :: "hub_event option"

record factory_log =
  fa_block :: int
  fa_parsed :: "(string \<times> string \<times> string) option"

definition serializeArgs :: "hub_event \<Rightarrow> json" where
  "serializeArgs ev = JObj
     (case ev of
        Provisioned i p r m a v g l \<Rightarrow>
          [(''paycardId'', JStr i), (''payer'', JStr p), (''recipient'', JStr r), (''metadataHash'', JStr m),
           (''poolAllocation'', JStr (int_str a)), (''flowVelocityPerSecond'', JStr (int_str v)),
           (''genesisTimestamp'', JStr (int_str g)), (''lifespanSeconds'', JStr (int_str l))]
      | Settled i r a \<Rightarrow> [(''paycardId'', JStr i), (''recipient'', JStr r), (''amountWithdrawn'', JStr (int_str a))]
      | Reclaimed i v a \<Rightarrow> [(''paycardId'', JStr i), (''recoveryVault'', JStr v), (''varianceSwept'', JStr (int_str a))])"

section \<open>Tables\<close>

record watched_vault =
  wv_address :: string
  wv_source :: string
  wv_owner :: "string option"
  wv_token :: "string option"
  wv_block :: int
  wv_created :: int

record event_row =
  xe_vault :: string
  xe_paycard :: string
  xe_name :: string
  xe_metadataHash :: "string option"
  xe_block :: int
  xe_time :: int
  xe_tx :: string
  xe_index :: int
  xe_args :: json
  xe_recordedAt :: int

record card_row =
  cd_payer :: string
  cd_recipient :: string
  cd_metadataHash :: string
  cd_total :: int
  cd_available :: int
  cd_velocity :: int
  cd_genesis :: int
  cd_lifespan :: int
  cd_lastCheckpoint :: int
  cd_status :: string
  cd_updatedAt :: int

record index_db =
  ix_vaults :: "watched_vault list"
  ix_cursors :: "int obj"
  ix_events :: "event_row list"
  ix_cards :: "((string \<times> string) \<times> card_row) list"

definition insert_vault :: "watched_vault \<Rightarrow> index_db \<Rightarrow> index_db \<times> bool" where
  "insert_vault w db =
     (if wv_address w \<in> wv_address ` set (ix_vaults db) then (db, False)
      else (db\<lparr>ix_vaults := ix_vaults db @ [w]\<rparr>, True))"

definition getCursor :: "index_db \<Rightarrow> string \<Rightarrow> int \<Rightarrow> int" where
  "getCursor db scanKey defaultBlock = (case oget (ix_cursors db) scanKey of None \<Rightarrow> defaultBlock | Some b \<Rightarrow> b)"

definition row_key :: "event_row \<Rightarrow> string \<times> int" where
  "row_key r = (xe_tx r, xe_index r)"

definition insert_event :: "event_row \<Rightarrow> index_db \<Rightarrow> index_db \<times> bool" where
  "insert_event r db =
     (if row_key r \<in> row_key ` set (ix_events db) then (db, False)
      else (db\<lparr>ix_events := ix_events db @ [r]\<rparr>, True))"

section \<open>A tick\<close>

text \<open>What the tick knows of the chain, and its counters.\<close>

record index_node =
  ni_head :: "int result"
  ni_factory :: "string \<Rightarrow> int \<Rightarrow> int \<Rightarrow> factory_log list result"
  ni_logs :: "string \<Rightarrow> int \<Rightarrow> int \<Rightarrow> hub_log list result"
  ni_time :: "int \<Rightarrow> int option result"

record index_config =
  ic_hub :: string
  ic_factory :: string
  ic_window :: "string option"
  ic_maxChunks :: "string option"
  ic_backfill :: "string option"
  ic_adminToken :: "string option"
  ic_whole :: "string \<Rightarrow> int option"

record index_run =
  tk_db :: index_db
  tk_chunks :: nat
  tk_vaults :: nat
  tk_events :: nat

type_synonym 'a indexing = "(index_run, 'a) io"

definition windowBlocks :: "index_config \<Rightarrow> int" where
  "windowBlocks cf = readPositiveInt (ic_whole cf) (ic_window cf) 9000"

definition maxChunks :: "index_config \<Rightarrow> nat" where
  "maxChunks cf = nat (readPositiveInt (ic_whole cf) (ic_maxChunks cf) 20)"

definition initialBackfill :: "index_config \<Rightarrow> int" where
  "initialBackfill cf = readPositiveInt (ic_whole cf) (ic_backfill cf) 50000"

definition setCursor :: "string \<Rightarrow> int \<Rightarrow> index_run \<Rightarrow> index_run" where
  "setCursor scanKey b tk = tk\<lparr>tk_db := (tk_db tk)\<lparr>ix_cursors := oset scanKey b (ix_cursors (tk_db tk))\<rparr>\<rparr>"

definition count_chunk :: "index_run \<Rightarrow> index_run" where
  "count_chunk tk = tk\<lparr>tk_chunks := Suc (tk_chunks tk)\<rparr>"

text \<open>The loop over chunks; its first argument is what is left of the budget \<open>maxChunks\<close>.\<close>

fun scan_range :: "nat \<Rightarrow> (int \<Rightarrow> int \<Rightarrow> unit indexing) \<Rightarrow> string \<Rightarrow> int \<Rightarrow> int \<Rightarrow> int \<Rightarrow> unit indexing" where
  "scan_range 0 chunk scanKey window head from = io_return ()"
| "scan_range (Suc left) chunk scanKey window head from =
     (if head < from then io_return ()
      else
        let to = min (from + window - 1) head in
        io_then (chunk from to)
       (io_then (io_put (setCursor scanKey to))
         (scan_range left chunk scanKey window head (to + 1))))"

definition with_budget :: "index_config \<Rightarrow> (nat \<Rightarrow> 'a indexing) \<Rightarrow> 'a indexing" where
  "with_budget cf m = io_bind (io_get (\<lambda>tk. maxChunks cf - tk_chunks tk)) m"

subsection \<open>Discovery\<close>

definition watch_vault :: "watched_vault \<Rightarrow> index_run \<Rightarrow> index_run" where
  "watch_vault w tk =
     (let (db, new) = insert_vault w (tk_db tk) in
      tk\<lparr>tk_db := db, tk_vaults := tk_vaults tk + (if new then 1 else 0)\<rparr>)"

definition seed_vault :: "index_config \<Rightarrow> int \<Rightarrow> index_run \<Rightarrow> index_run" where
  "seed_vault cf now tk = tk\<lparr>tk_db := fst (insert_vault
     \<lparr>wv_address = lower (ic_hub cf), wv_source = ''canonical'', wv_owner = None, wv_token = None, wv_block = 0,
      wv_created = now\<rparr> (tk_db tk))\<rparr>"

definition take_factory_log :: "int \<Rightarrow> factory_log \<Rightarrow> unit indexing" where
  "take_factory_log now l =
     (case fa_parsed l of
        None \<Rightarrow> io_return ()
      | Some (vaultAddress, owner, token) \<Rightarrow>
          io_put (watch_vault
            \<lparr>wv_address = lower vaultAddress, wv_source = ''factory'', wv_owner = Some (lower owner),
             wv_token = Some (lower token), wv_block = fa_block l, wv_created = now\<rparr>))"

definition factory_chunk :: "index_config \<Rightarrow> index_node \<Rightarrow> int \<Rightarrow> int \<Rightarrow> int \<Rightarrow> unit indexing" where
  "factory_chunk cf nd now from to =
     io_bind (io_of (ni_factory nd (lower (ic_factory cf)) from to)) (\<lambda>logs.
     io_then (io_put count_chunk) (io_each (take_factory_log now) logs))"

definition factory_key :: "index_config \<Rightarrow> string" where
  "factory_key cf = ''factory:'' @ lower (ic_factory cf)"

definition discover :: "index_config \<Rightarrow> index_node \<Rightarrow> int \<Rightarrow> int \<Rightarrow> unit indexing" where
  "discover cf nd now head =
     io_bind (io_get (\<lambda>tk. getCursor (tk_db tk) (factory_key cf) (max 0 (head - initialBackfill cf)))) (\<lambda>from.
     with_budget cf (\<lambda>left. scan_range left (factory_chunk cf nd now) (factory_key cf) (windowBlocks cf) head from))"

subsection \<open>Ingestion\<close>

definition blockTimestamp :: "index_node \<Rightarrow> int \<Rightarrow> int \<Rightarrow> int result" where
  "blockTimestamp nd now b =
     bnd (ni_time nd b) (\<lambda>t. Inr (case t of None \<Rightarrow> now div 1000 | Some s \<Rightarrow> s))"

definition event_row_of :: "int \<Rightarrow> int \<Rightarrow> string \<Rightarrow> hub_log \<Rightarrow> hub_event \<Rightarrow> event_row" where
  "event_row_of now ts vault l ev =
     \<lparr>xe_vault = vault, xe_paycard = lower (he_paycardId ev), xe_name = event_name ev,
      xe_metadataHash = (case ev of Provisioned _ _ _ m _ _ _ _ \<Rightarrow> Some (lower m) | _ \<Rightarrow> None), xe_block = hl_block l,
      xe_time = ts, xe_tx = lower (hl_tx l), xe_index = hl_index l, xe_args = serializeArgs ev, xe_recordedAt = now\<rparr>"

text \<open>What an event does to the state of the Paycards.\<close>

definition apply_card ::
    "int \<Rightarrow> int \<Rightarrow> string \<Rightarrow> hub_event \<Rightarrow> ((string \<times> string) \<times> card_row) list \<Rightarrow> ((string \<times> string) \<times> card_row) list" where
  "apply_card now ts vault ev cards =
     (let key = (vault, lower (he_paycardId ev)) in
      case ev of
        Provisioned _ p r m a v g l \<Rightarrow>
          AList.update key
            \<lparr>cd_payer = lower p, cd_recipient = lower r, cd_metadataHash = lower m, cd_total = a, cd_available = a,
             cd_velocity = v, cd_genesis = dbl g, cd_lifespan = dbl l, cd_lastCheckpoint = dbl g,
             cd_status = ''Active'', cd_updatedAt = now\<rparr> cards
      | Settled _ _ withdrawn \<Rightarrow>
          (case map_of cards key of
             None \<Rightarrow> cards
           | Some c \<Rightarrow>
               let remaining = cd_available c - withdrawn; clamped = (if 0 < remaining then remaining else 0) in
               AList.update key
                 (c\<lparr>cd_available := clamped, cd_lastCheckpoint := ts,
                    cd_status := (if clamped = 0 then ''Terminated'' else ''Active''), cd_updatedAt := now\<rparr>) cards)
      | Reclaimed _ _ _ \<Rightarrow>
          (case map_of cards key of
             None \<Rightarrow> cards
           | Some c \<Rightarrow> AList.update key (c\<lparr>cd_available := 0, cd_status := ''Terminated'', cd_updatedAt := now\<rparr>) cards))"

definition record_event :: "int \<Rightarrow> int \<Rightarrow> string \<Rightarrow> hub_log \<Rightarrow> hub_event \<Rightarrow> index_run \<Rightarrow> index_run" where
  "record_event now ts vault l ev tk =
     (let (db, new) = insert_event (event_row_of now ts vault l ev) (tk_db tk) in
      if new then tk\<lparr>tk_db := db\<lparr>ix_cards := apply_card now ts vault ev (ix_cards db)\<rparr>, tk_events := Suc (tk_events tk)\<rparr>
      else tk)"

definition ingest :: "index_node \<Rightarrow> int \<Rightarrow> string \<Rightarrow> hub_log \<Rightarrow> unit indexing" where
  "ingest nd now vault l =
     (case hl_event l of
        None \<Rightarrow> io_return ()
      | Some ev \<Rightarrow>
          io_bind (io_of (blockTimestamp nd now (hl_block l))) (\<lambda>ts.
          io_put (record_event now ts vault l ev)))"

definition log_position :: "hub_log \<Rightarrow> int \<times> int" where
  "log_position l = (hl_block l, hl_index l)"

definition vault_chunk :: "index_node \<Rightarrow> int \<Rightarrow> string \<Rightarrow> int \<Rightarrow> int \<Rightarrow> unit indexing" where
  "vault_chunk nd now vault from to =
     io_bind (io_of (ni_logs nd vault from to)) (\<lambda>logs.
     io_then (io_put count_chunk) (io_each (ingest nd now vault) (sort_key log_position logs)))"

definition first_block :: "index_config \<Rightarrow> int \<Rightarrow> watched_vault \<Rightarrow> int" where
  "first_block cf head v = (if 0 < wv_block v then wv_block v else max 0 (head - initialBackfill cf))"

definition scan_vault :: "index_config \<Rightarrow> index_node \<Rightarrow> int \<Rightarrow> int \<Rightarrow> watched_vault \<Rightarrow> unit indexing" where
  "scan_vault cf nd now head v =
     io_bind (io_get (\<lambda>tk. getCursor (tk_db tk) (wv_address v) (first_block cf head v))) (\<lambda>from.
     with_budget cf (\<lambda>left.
       scan_range left (vault_chunk nd now (wv_address v)) (wv_address v) (windowBlocks cf) head from))"

text \<open>A vault that is reached without budget is left alone by \<open>scan_range\<close>.\<close>

definition run_phases :: "index_config \<Rightarrow> index_node \<Rightarrow> int \<Rightarrow> int \<Rightarrow> unit indexing" where
  "run_phases cf nd now head =
     io_then (io_put (seed_vault cf now))
    (io_then (discover cf nd now head)
    (io_bind (io_get (\<lambda>tk. ix_vaults (tk_db tk))) (io_each (scan_vault cf nd now head))))"

definition runTick :: "index_config \<Rightarrow> index_node \<Rightarrow> int \<Rightarrow> index_db \<Rightarrow> int result \<times> index_run" where
  "runTick cf nd now db =
     io_bind (io_of (ni_head nd)) (\<lambda>head. io_then (run_phases cf nd now head) (io_return head))
       \<lparr>tk_db = db, tk_chunks = 0, tk_vaults = 0, tk_events = 0\<rparr>"

text \<open>The scheduler runs ticks, each with its own view of the chain, and ignores how they end.\<close>

definition run_ticks :: "index_config \<Rightarrow> (index_node \<times> int) list \<Rightarrow> index_db \<Rightarrow> index_db" where
  "run_ticks cf ticks db = fold (\<lambda>(nd, now) d. tk_db (snd (runTick cf nd now d))) ticks db"

end
