(* ===== verification/IndexerInvariant.thy ===== *)
theory IndexerInvariant
  imports Indexer "HOL-Library.Multiset"
begin

text \<open>
  What the indexer's tables hold of one vault: a prefix, in chain order, of the logs of the vault from
  the block it is watched from, and the ledger of that prefix, whatever ticks fail, overlap or run
  out of budget. A chain without reorganisations is the list of all its logs, of which a node knows
  those up to its head. The predicate \<open>indexes\<close> relates the tables to a position in that list.
\<close>

section \<open>The chain\<close>

definition log_key :: "hub_log \<Rightarrow> string \<times> int" where
  "log_key l = (lower (hl_tx l), hl_index l)"

text \<open>All logs of every vault, now and later: in order, and told apart by transaction and index.\<close>

definition chain_ok :: "(string \<Rightarrow> hub_log list) \<Rightarrow> bool" where
  "chain_ok L \<longleftrightarrow>
     (\<forall>v. sorted (map log_position (L v)) \<and> distinct (map log_position (L v))) \<and>
     (\<forall>v l v' l'. l \<in> set (L v) \<longrightarrow> l' \<in> set (L v') \<longrightarrow> log_key l = log_key l' \<longrightarrow> v = v' \<and> l = l')"

definition blocks :: "int \<Rightarrow> int \<Rightarrow> hub_log \<Rightarrow> bool" where
  "blocks a b l \<longleftrightarrow> a \<le> hl_block l \<and> hl_block l \<le> b"

text \<open>A node may refuse to answer; when it answers it gives the logs of the range in some order.\<close>

definition answers :: "(string \<Rightarrow> hub_log list) \<Rightarrow> index_node \<Rightarrow> bool" where
  "answers L nd \<longleftrightarrow> (\<forall>v a b xs. ni_logs nd v a b = Inr xs \<longrightarrow> mset xs = mset (filter (blocks a b) (L v)))"

text \<open>The logs of a vault that carry an event, from a block on.\<close>

definition events_from :: "(string \<Rightarrow> hub_log list) \<Rightarrow> string \<Rightarrow> int \<Rightarrow> hub_log list" where
  "events_from L v s = filter (\<lambda>l. hl_event l \<noteq> None \<and> s \<le> hl_block l) (L v)"

section \<open>The ledger of a Paycard\<close>

definition event_ledger :: "string \<Rightarrow> hub_event \<Rightarrow> (int \<times> string) option \<Rightarrow> (int \<times> string) option" where
  "event_ledger i ev l =
     (if lower (he_paycardId ev) \<noteq> i then l
      else case ev of
          Provisioned _ _ _ _ a _ _ _ \<Rightarrow> Some (a, ''Active'')
        | Settled _ _ w \<Rightarrow> map_option (\<lambda>(b, _). (max 0 (b - w), if b \<le> w then ''Terminated'' else ''Active'')) l
        | Reclaimed _ _ _ \<Rightarrow> map_option (\<lambda>_. (0, ''Terminated'')) l)"

definition card_ledger :: "string \<Rightarrow> string \<Rightarrow> index_db \<Rightarrow> (int \<times> string) option" where
  "card_ledger v i db = map_option (\<lambda>c. (cd_available c, cd_status c)) (map_of (ix_cards db) (v, i))"

definition events_ledger :: "string \<Rightarrow> hub_log list \<Rightarrow> (int \<times> string) option" where
  "events_ledger i ls = fold (\<lambda>l. event_ledger i (the (hl_event l))) ls None"

lemma events_ledger_snoc: "events_ledger i (ls @ [l]) = event_ledger i (the (hl_event l)) (events_ledger i ls)"
  by (simp add: events_ledger_def)

lemma apply_card_ledger:
  "map_option (\<lambda>c. (cd_available c, cd_status c)) (map_of (apply_card now ts v ev cards) (w, i)) =
     (if w = v then event_ledger i ev (map_option (\<lambda>c. (cd_available c, cd_status c)) (map_of cards (w, i)))
      else map_option (\<lambda>c. (cd_available c, cd_status c)) (map_of cards (w, i)))"
  by (cases ev)
    (auto simp: apply_card_def event_ledger_def update_conv' Let_def split: option.splits)

section \<open>A prefix of the chain\<close>

definition row_for :: "string \<Rightarrow> hub_log \<Rightarrow> event_row \<Rightarrow> bool" where
  "row_for v l r \<longleftrightarrow>
     (case hl_event l of
        None \<Rightarrow> False
      | Some ev \<Rightarrow>
          xe_vault r = v \<and> xe_paycard r = lower (he_paycardId ev) \<and> xe_name r = event_name ev \<and>
          xe_block r = hl_block l \<and> row_key r = log_key l \<and> xe_args r = serializeArgs ev)"

definition vault_rows :: "string \<Rightarrow> index_db \<Rightarrow> event_row list" where
  "vault_rows v db = filter (\<lambda>r. xe_vault r = v) (ix_events db)"

text \<open>No row comes from outside the chain.\<close>

definition rows_of_chain :: "(string \<Rightarrow> hub_log list) \<Rightarrow> index_db \<Rightarrow> bool" where
  "rows_of_chain L db \<longleftrightarrow>
     (\<forall>r \<in> set (ix_events db). \<exists>l \<in> set (L (xe_vault r)). row_key r = log_key l)"

definition holds_prefix :: "(string \<Rightarrow> hub_log list) \<Rightarrow> string \<Rightarrow> int \<Rightarrow> nat \<Rightarrow> index_db \<Rightarrow> bool" where
  "holds_prefix L v s n db \<longleftrightarrow>
     list_all2 (row_for v) (take n (events_from L v s)) (vault_rows v db) \<and>
     (\<forall>i. card_ledger v i db = events_ledger i (take n (events_from L v s)))"

text \<open>What is not taken in yet lies behind the block.\<close>

definition complete_to :: "(string \<Rightarrow> hub_log list) \<Rightarrow> string \<Rightarrow> int \<Rightarrow> nat \<Rightarrow> int \<Rightarrow> bool" where
  "complete_to L v s n b \<longleftrightarrow> (\<forall>l \<in> set (drop n (events_from L v s)). b < hl_block l)"

definition watched_from :: "string \<Rightarrow> int \<Rightarrow> index_db \<Rightarrow> bool" where
  "watched_from v s db \<longleftrightarrow>
     v \<in> wv_address ` set (ix_vaults db) \<and>
     (\<forall>w \<in> set (ix_vaults db). wv_address w = v \<longrightarrow> oget (ix_cursors db) v = None \<longrightarrow> 0 < s \<and> wv_block w = s)"

definition indexes :: "(string \<Rightarrow> hub_log list) \<Rightarrow> string \<Rightarrow> int \<Rightarrow> nat \<Rightarrow> index_db \<Rightarrow> bool" where
  "indexes L v s n db \<longleftrightarrow>
     rows_of_chain L db \<and> watched_from v s db \<and> holds_prefix L v s n db \<and>
     (\<forall>c. oget (ix_cursors db) v = Some c \<longrightarrow> s \<le> c \<and> complete_to L v s n c)"

subsection \<open>Facts on the order of logs\<close>

lemma events_from_sorted: "chain_ok L \<Longrightarrow> sorted (map log_position (events_from L v s))"
  by (simp add: chain_ok_def events_from_def sorted_filter)

lemma events_from_blocks: "chain_ok L \<Longrightarrow> sorted (map hl_block (events_from L v s))"
  using events_from_sorted [of L v s]
  by (induction "events_from L v s") (auto simp: log_position_def less_eq_prod_def sorted_wrt_map intro: sorted_wrt_mono_rel [rotated])

lemma events_from_in: "l \<in> set (events_from L v s) \<Longrightarrow> l \<in> set (L v) \<and> s \<le> hl_block l"
  by (auto simp: events_from_def)

lemma sorted_split:
  assumes "sorted (map f xs)" "a \<le> b + (1 :: int)"
  shows "xs = filter (\<lambda>x. f x < a) xs @ filter (\<lambda>x. a \<le> f x \<and> f x \<le> b) xs @ filter (\<lambda>x. b < f x) xs"
  using assms(1)
proof (induction xs)
  case (Cons x xs)
  then have ge: "\<And>y. y \<in> set xs \<Longrightarrow> f x \<le> f y" by simp
  show ?case
  proof (cases "f x < a")
    case True
    with assms(2) Cons show ?thesis by simp
  next
    case False
    with ge have none: "filter (\<lambda>x. f x < a) xs = []" by (force simp: filter_empty_conv)
    show ?thesis
    proof (cases "f x \<le> b")
      case True
      with False Cons none show ?thesis by simp
    next
      case late: False
      with ge have "filter (\<lambda>x. a \<le> f x \<and> f x \<le> b) xs = []" by (force simp: filter_empty_conv)
      with late False Cons none show ?thesis by simp
    qed
  qed
qed simp

lemma chunk_order:
  assumes "chain_ok L" "mset xs = mset (filter (blocks a b) (L v))"
  shows "sort_key log_position xs = filter (blocks a b) (L v)"
proof (rule sort_key_inj_key_eq [OF assms(2)])
  from assms(1) have d: "distinct (map log_position (filter (blocks a b) (L v)))" and
    "sorted (map log_position (filter (blocks a b) (L v)))"
    by (auto simp: chain_ok_def distinct_map sorted_filter intro: inj_on_subset)
  then show "sorted (map log_position (filter (blocks a b) (L v)))" by simp
  from d have "inj_on log_position (set (filter (blocks a b) (L v)))" by (simp only: distinct_map)
  then show "inj_on log_position (set xs)" using assms(2) by (metis set_mset_mset)
qed

section \<open>One log\<close>

lemma complete_to_mono: "complete_to L v s n b \<Longrightarrow> n \<le> n' \<Longrightarrow> complete_to L v s n' b"
  unfolding complete_to_def using set_drop_subset_set_drop [of n n'] by (blast intro: subsetD)

lemma insert_event_fields:
  "ix_vaults (fst (insert_event r db)) = ix_vaults db" "ix_cursors (fst (insert_event r db)) = ix_cursors db"
  "ix_cards (fst (insert_event r db)) = ix_cards db"
  by (simp_all add: insert_event_def)

lemma record_event_known:
  assumes "row_key (event_row_of now ts v l ev) \<in> row_key ` set (ix_events (tk_db tk))"
  shows "record_event now ts v l ev tk = tk"
  using assms by (simp add: record_event_def insert_event_def)

lemma record_event_new:
  assumes "row_key (event_row_of now ts v l ev) \<notin> row_key ` set (ix_events (tk_db tk))"
  shows "tk_db (record_event now ts v l ev tk) =
    (tk_db tk)\<lparr>ix_events := ix_events (tk_db tk) @ [event_row_of now ts v l ev],
      ix_cards := apply_card now ts v ev (ix_cards (tk_db tk))\<rparr>"
  using assms by (simp add: record_event_def insert_event_def)

lemma row_of_event [simp]: "row_key (event_row_of now ts v l ev) = log_key l" "xe_vault (event_row_of now ts v l ev) = v"
  by (simp_all add: row_key_def log_key_def event_row_of_def)

lemma row_for_event: "hl_event l = Some ev \<Longrightarrow> row_for v l (event_row_of now ts v l ev)"
  by (simp add: row_for_def row_key_def log_key_def event_row_of_def)

lemma record_event_chain:
  assumes "rows_of_chain L (tk_db tk)" "l \<in> set (L v)"
  shows "rows_of_chain L (tk_db (record_event now ts v l ev tk))"
  using assms
  by (cases "row_key (event_row_of now ts v l ev) \<in> row_key ` set (ix_events (tk_db tk))")
    (auto simp: record_event_known record_event_new rows_of_chain_def)

text \<open>A log of the vault is new exactly when it is not in the prefix.\<close>

lemma known_in_prefix:
  assumes "chain_ok L" "indexes L v s n db" "k < length (events_from L v s)" "events_from L v s ! k = l"
  shows "log_key l \<in> row_key ` set (ix_events db) \<longleftrightarrow> k < n"
proof -
  let ?Q = "events_from L v s"
  have pre: "list_all2 (row_for v) (take n ?Q) (vault_rows v db)" using assms(2) by (simp add: indexes_def holds_prefix_def)
  have in_L: "l \<in> set (L v)" using assms(3,4) events_from_in nth_mem by metis
  have d: "distinct ?Q" using assms(1) by (simp add: chain_ok_def events_from_def distinct_map)
  show ?thesis
  proof
    assume "log_key l \<in> row_key ` set (ix_events db)"
    then obtain r where r: "r \<in> set (ix_events db)" "row_key r = log_key l" by auto
    with assms(2) obtain l' where l': "l' \<in> set (L (xe_vault r))" "row_key r = log_key l'"
      by (auto simp: indexes_def rows_of_chain_def)
    with assms(1) in_L r(2) have "xe_vault r = v" by (metis chain_ok_def)
    with r(1) have "r \<in> set (vault_rows v db)" by (simp add: vault_rows_def)
    with pre obtain m where m: "m < length (take n ?Q)" "row_for v (take n ?Q ! m) r"
      by (metis in_set_conv_nth list_all2_conv_all_nth)
    then have q: "take n ?Q ! m = ?Q ! m" "row_key r = log_key (?Q ! m)"
      by (auto simp: row_for_def split: option.splits)
    moreover have "?Q ! m \<in> set (L v)" using m(1) events_from_in nth_mem by (metis length_take min_less_iff_conj)
    ultimately have "?Q ! m = l" using assms(1) in_L r(2) by (metis chain_ok_def)
    with d assms(3,4) m(1) show "k < n" by (metis length_take min_less_iff_conj nth_eq_iff_index_eq)
  next
    assume "k < n"
    with assms(3,4) have k: "k < length (take n ?Q)" "take n ?Q ! k = l" by simp_all
    from list_all2_nthD [OF pre k(1)] k(2) have "row_for v l (vault_rows v db ! k)" by simp
    moreover have "k < length (vault_rows v db)" using k(1) list_all2_lengthD [OF pre] by metis
    ultimately have "vault_rows v db ! k \<in> set (ix_events db)" "row_key (vault_rows v db ! k) = log_key l"
      by (auto simp: vault_rows_def row_for_def split: option.splits dest: nth_mem)
    then show "log_key l \<in> row_key ` set (ix_events db)" by (metis image_eqI)
  qed
qed

lemma record_own:
  assumes "chain_ok L" "indexes L v s n (tk_db tk)" "k \<le> n" "k < length (events_from L v s)"
    and l: "events_from L v s ! k = l" "hl_event l = Some ev"
  shows "indexes L v s (max n (Suc k)) (tk_db (record_event now ts v l ev tk))"
proof (cases "k < n")
  case True
  with known_in_prefix [OF assms(1,2,4) l(1)] have "record_event now ts v l ev tk = tk"
    by (intro record_event_known) simp
  moreover from True have "max n (Suc k) = n" by simp
  ultimately show ?thesis using assms(2) by simp
next
  case False
  with assms(3) have k: "k = n" by simp
  let ?Q = "events_from L v s"
  have new: "row_key (event_row_of now ts v l ev) \<notin> row_key ` set (ix_events (tk_db tk))"
    using known_in_prefix [OF assms(1,2,4) l(1)] k by simp
  have t: "take (Suc n) ?Q = take n ?Q @ [l]" using assms(4) l(1) k by (simp add: take_Suc_conv_app_nth)
  have in_L: "l \<in> set (L v)" using assms(4) l(1) events_from_in nth_mem by metis
  note old = assms(2) [unfolded indexes_def holds_prefix_def]
  have "list_all2 (row_for v) (take (Suc n) ?Q) (vault_rows v (tk_db (record_event now ts v l ev tk)))"
    unfolding record_event_new [OF new] t using old row_for_event [OF l(2)]
    by (auto simp: vault_rows_def intro: list_all2_appendI)
  moreover have "card_ledger v i (tk_db (record_event now ts v l ev tk)) = events_ledger i (take (Suc n) ?Q)" for i
    unfolding record_event_new [OF new] t events_ledger_snoc using old l(2)
    by (simp add: card_ledger_def apply_card_ledger)
  moreover have "watched_from v s (tk_db (record_event now ts v l ev tk))"
    unfolding record_event_new [OF new] using old by (simp add: watched_from_def)
  moreover have "oget (ix_cursors (tk_db (record_event now ts v l ev tk))) v = Some c \<Longrightarrow> s \<le> c \<and> complete_to L v s (Suc n) c" for c
    unfolding record_event_new [OF new] using old complete_to_mono [of L v s n c "Suc n"] by simp
  moreover have "rows_of_chain L (tk_db (record_event now ts v l ev tk))"
    using old in_L by (intro record_event_chain) simp_all
  ultimately show ?thesis using k unfolding indexes_def holds_prefix_def by (simp add: max_def)
qed

lemma record_other:
  assumes "indexes L v s n (tk_db tk)" "l \<in> set (L w)" "w \<noteq> v"
  shows "indexes L v s n (tk_db (record_event now ts w l ev tk))"
proof -
  have "rows_of_chain L (tk_db (record_event now ts w l ev tk))"
    using assms(1,2) by (intro record_event_chain) (simp_all add: indexes_def)
  with assms show ?thesis
    by (cases "row_key (event_row_of now ts w l ev) \<in> row_key ` set (ix_events (tk_db tk))")
      (auto simp: record_event_known record_event_new indexes_def holds_prefix_def watched_from_def vault_rows_def
        card_ledger_def apply_card_ledger)
qed

section \<open>Chunks\<close>

definition known :: "(string \<Rightarrow> hub_log list) \<Rightarrow> string \<Rightarrow> int \<Rightarrow> index_run \<Rightarrow> bool" where
  "known L v s tk \<longleftrightarrow> (\<exists>n. indexes L v s n (tk_db tk))"

definition taken :: "(string \<Rightarrow> hub_log list) \<Rightarrow> string \<Rightarrow> int \<Rightarrow> nat \<Rightarrow> index_run \<Rightarrow> bool" where
  "taken L v s m tk \<longleftrightarrow> (\<exists>n. m \<le> n \<and> indexes L v s n (tk_db tk))"

definition reached :: "(string \<Rightarrow> hub_log list) \<Rightarrow> string \<Rightarrow> int \<Rightarrow> int \<Rightarrow> index_run \<Rightarrow> bool" where
  "reached L v s b tk \<longleftrightarrow> (\<exists>n. indexes L v s n (tk_db tk) \<and> complete_to L v s n b)"

lemma known_taken: "taken L v s m tk \<Longrightarrow> known L v s tk"
  by (auto simp: taken_def known_def)

lemma known_reached: "reached L v s b tk \<Longrightarrow> known L v s tk"
  by (auto simp: reached_def known_def)

lemma ingest_segment:
  assumes ok: "chain_ok L" and Q: "events_from L v s = pre @ filter (\<lambda>l. hl_event l \<noteq> None) xs @ post"
  shows "meets (taken L v s (length pre)) (io_each (ingest nd now v) xs)
    (\<lambda>_. taken L v s (length pre + length (filter (\<lambda>l. hl_event l \<noteq> None) xs))) (known L v s)"
  using Q
proof (induction xs arbitrary: pre)
  case Nil
  then show ?case by (simp add: meets_return)
next
  case (Cons x xs)
  show ?case
  proof (cases "hl_event x")
    case None
    then have "ingest nd now v x = io_return ()" by (simp add: ingest_def)
    with None Cons show ?thesis by simp
  next
    case (Some ev)
    let ?Q = "events_from L v s"
    from Cons.prems Some have q: "?Q = (pre @ [x]) @ filter (\<lambda>l. hl_event l \<noteq> None) xs @ post" by simp
    then have k: "length pre < length ?Q" "?Q ! length pre = x" by simp_all
    have one: "taken L v s (Suc (length pre)) (record_event now ts v x ev tk)" if t: "taken L v s (length pre) tk" for ts tk
    proof -
      from t obtain n where "length pre \<le> n" "indexes L v s n (tk_db tk)" by (auto simp: taken_def)
      from record_own [OF ok this(2,1) k Some] show ?thesis unfolding taken_def by (meson max.cobounded2)
    qed
    have "meets (taken L v s (length pre)) (ingest nd now v x) (\<lambda>_. taken L v s (length (pre @ [x]))) (known L v s)"
      unfolding ingest_def Some option.case
      by (cases "blockTimestamp nd now (hl_block x)") (auto simp: one intro: meets_throw meets_put known_taken)
    from meets_then [OF this Cons.IH [OF q]] Some show ?thesis by simp
  qed
qed

lemma chunk_reaches:
  assumes ok: "chain_ok L" "answers L nd" and r: "s \<le> from" "from \<le> to + 1"
  shows "meets (reached L v s (from - 1)) (vault_chunk nd now v from to) (\<lambda>_. reached L v s to) (known L v s)"
proof -
  let ?Q = "events_from L v s" and ?C = "filter (blocks from to) (L v)"
  let ?lt = "filter (\<lambda>l. hl_block l < from) ?Q" and ?gt = "filter (\<lambda>l. to < hl_block l) ?Q"
  have mid: "filter (\<lambda>l. from \<le> hl_block l \<and> hl_block l \<le> to) ?Q = filter (\<lambda>l. hl_event l \<noteq> None) ?C"
    using r(1) by (auto simp: events_from_def blocks_def intro!: filter_cong)
  have Q: "?Q = ?lt @ filter (\<lambda>l. hl_event l \<noteq> None) ?C @ ?gt"
    using sorted_split [OF events_from_blocks [OF ok(1)] r(2), of v s] by (simp only: mid)
  have start: "taken L v s (length ?lt) tk" if "reached L v s (from - 1) tk" for tk
  proof -
    from that obtain n where n: "indexes L v s n (tk_db tk)" "complete_to L v s n (from - 1)" by (auto simp: reached_def)
    have "length ?lt \<le> n"
    proof (rule ccontr)
      assume "\<not> length ?lt \<le> n"
      then have lt: "n < length ?lt" by simp
      have "length ?lt \<le> length ?Q" by simp
      with lt have "?Q ! n \<in> set (drop n ?Q)" by (metis Cons_nth_drop_Suc less_le_trans list.set_intros(1))
      with n(2) have "from \<le> hl_block (?Q ! n)" by (auto simp: complete_to_def)
      moreover have "?Q ! n = ?lt ! n" using lt Q by (metis nth_append)
      moreover have "?lt ! n \<in> set ?lt" using lt by (rule nth_mem)
      ultimately show False by simp
    qed
    with n(1) show ?thesis by (auto simp: taken_def)
  qed
  have stop: "reached L v s to tk" if "taken L v s (length ?lt + length (filter (\<lambda>l. hl_event l \<noteq> None) ?C)) tk" for tk
  proof -
    from that obtain n where n: "length ?lt + length (filter (\<lambda>l. hl_event l \<noteq> None) ?C) \<le> n" "indexes L v s n (tk_db tk)"
      by (auto simp: taken_def)
    have "drop (length ?lt + length (filter (\<lambda>l. hl_event l \<noteq> None) ?C)) ?Q = ?gt"
      by (subst Q) simp
    with n(1) have "set (drop n ?Q) \<subseteq> set ?gt" by (metis set_drop_subset_set_drop)
    with n(2) show ?thesis by (auto simp: reached_def complete_to_def)
  qed
  have "meets (reached L v s (from - 1)) (io_each (ingest nd now v) ?C) (\<lambda>_. reached L v s to) (known L v s)"
    by (rule meets_post [OF meets_pre [OF ingest_segment [OF ok(1) Q] start]]) (simp_all add: stop)
  moreover have "meets (reached L v s (from - 1)) (io_put count_chunk) (\<lambda>_. reached L v s (from - 1)) (known L v s)"
    by (rule meets_put) (simp add: reached_def count_chunk_def)
  ultimately have all: "meets (reached L v s (from - 1)) (io_then (io_put count_chunk) (io_each (ingest nd now v) ?C))
      (\<lambda>_. reached L v s to) (known L v s)"
    by (intro meets_then)
  show ?thesis
  proof (cases "ni_logs nd v from to")
    case (Inr xs)
    with ok have "sort_key log_position xs = ?C" by (intro chunk_order) (auto simp: answers_def)
    with all Inr show ?thesis by (simp add: vault_chunk_def)
  qed (simp add: vault_chunk_def meets_throw known_reached)
qed

lemma set_cursor_own:
  assumes "reached L v s b tk" "s \<le> b"
  shows "known L v s (setCursor v b tk)" "reached L v s b (setCursor v b tk)"
proof -
  from assms obtain n where n: "indexes L v s n (tk_db tk)" "complete_to L v s n b" by (auto simp: reached_def)
  with assms(2) have "indexes L v s n (tk_db (setCursor v b tk))"
    by (auto simp: indexes_def setCursor_def rows_of_chain_def watched_from_def holds_prefix_def vault_rows_def card_ledger_def)
  with n(2) show "known L v s (setCursor v b tk)" "reached L v s b (setCursor v b tk)"
    by (auto simp: known_def reached_def)
qed

lemma set_cursor_other: "known L v s tk \<Longrightarrow> k \<noteq> v \<Longrightarrow> known L v s (setCursor k b tk)"
  by (auto simp: known_def indexes_def setCursor_def rows_of_chain_def watched_from_def holds_prefix_def vault_rows_def
      card_ledger_def)

lemma scan_own:
  assumes ok: "chain_ok L" "answers L nd" and w: "1 \<le> window" and "s \<le> from"
  shows "meets (reached L v s (from - 1)) (scan_range left (vault_chunk nd now v) v window head from)
    (\<lambda>_. known L v s) (known L v s)"
  using assms(4)
proof (induction left arbitrary: "from")
  case 0
  then show ?case by (simp add: meets_return known_reached)
next
  case (Suc left)
  show ?case
  proof (cases "head < from")
    case True
    then show ?thesis by (simp add: meets_return known_reached)
  next
    case False
    let ?to = "min (from + window - 1) head"
    have to: "from \<le> ?to" "s \<le> ?to" "s \<le> ?to + 1" using False w Suc.prems by simp_all
    have "meets (reached L v s ?to) (io_put (setCursor v ?to)) (\<lambda>_. reached L v s ?to) (known L v s)"
      using set_cursor_own to(2) by (intro meets_put)
    then show ?thesis
      using False chunk_reaches [OF ok Suc.prems, of ?to v now] Suc.IH [OF to(3)] to(1)
      by (auto simp: Let_def intro!: meets_then)
  qed
qed

lemma scan_other:
  assumes ok: "answers L nd" and "w \<noteq> v"
  shows "meets (known L v s) (scan_range left (vault_chunk nd now w) w window head from) (\<lambda>_. known L v s) (known L v s)"
proof -
  have one: "meets (known L v s) (ingest nd now w l) (\<lambda>_. known L v s) (known L v s)" if l: "l \<in> set (L w)" for l
  proof -
    have "known L v s (record_event now ts w l ev tk)" if "known L v s tk" for ts ev tk
      using that record_other [where l = l and w = w] l assms(2) by (fastforce simp: known_def)
    then show ?thesis
      by (cases "hl_event l"; cases "blockTimestamp nd now (hl_block l)")
        (auto simp: ingest_def intro: meets_return meets_throw meets_put)
  qed
  have chunk: "meets (known L v s) (vault_chunk nd now w a b) (\<lambda>_. known L v s) (known L v s)" for a b
  proof (cases "ni_logs nd w a b")
    case (Inr xs)
    with ok have "set xs = set (filter (blocks a b) (L w))"
      by (intro mset_eq_setD) (auto simp: answers_def)
    then have "meets (known L v s) (io_each (ingest nd now w) (sort_key log_position xs)) (\<lambda>_. known L v s) (known L v s)"
      by (intro meets_each one) auto
    moreover have "meets (known L v s) (io_put count_chunk) (\<lambda>_. known L v s) (known L v s)"
      by (rule meets_put) (simp add: known_def count_chunk_def)
    ultimately show ?thesis using Inr by (simp add: vault_chunk_def meets_then)
  qed (simp add: vault_chunk_def meets_throw)
  show ?thesis
    using set_cursor_other [OF _ assms(2)] chunk
    by (induction left arbitrary: "from")
      (auto simp: Let_def intro!: meets_return meets_then [where R = "known L v s"] meets_put)
qed

section \<open>Ticks\<close>

definition watching :: "watched_vault list \<Rightarrow> index_run \<Rightarrow> bool" where
  "watching vs tk \<longleftrightarrow> ix_vaults (tk_db tk) = vs"

lemma scan_keeps_vaults:
  "meets (watching vs) (scan_range left (vault_chunk nd now w) k window head from) (\<lambda>_. watching vs) (watching vs)"
proof -
  have rec: "watching vs (record_event now ts w l ev tk) = watching vs tk" for ts l ev tk
    by (simp add: watching_def record_event_def insert_event_def Let_def)
  have "meets (watching vs) (ingest nd now w l) (\<lambda>_. watching vs) (watching vs)" for l
    unfolding ingest_def
    by (cases "hl_event l"; cases "blockTimestamp nd now (hl_block l)")
      (auto simp: rec intro: meets_return meets_throw meets_put)
  then have each: "meets (watching vs) (io_each (ingest nd now w) xs) (\<lambda>_. watching vs) (watching vs)" for xs
    by (rule meets_each)
  have "meets (watching vs) (vault_chunk nd now w a b) (\<lambda>_. watching vs) (watching vs)" for a b
    by (cases "ni_logs nd w a b")
      (auto simp: vault_chunk_def watching_def count_chunk_def intro!: meets_throw meets_then [OF _ each] meets_put)
  then show ?thesis
    by (induction left arbitrary: "from")
      (auto simp: Let_def watching_def setCursor_def intro!: meets_return meets_then [where R = "watching vs"] meets_put)
qed

lemma start_reached:
  assumes "known L v s tk" "watching vs tk" "w \<in> set vs" "wv_address w = v"
  shows "reached L v s (getCursor (tk_db tk) v (first_block cf head w) - 1) tk" "s \<le> getCursor (tk_db tk) v (first_block cf head w)"
proof -
  from assms(1) obtain n where n: "indexes L v s n (tk_db tk)" by (auto simp: known_def)
  have "s \<le> getCursor (tk_db tk) v (first_block cf head w) \<and>
    complete_to L v s n (getCursor (tk_db tk) v (first_block cf head w) - 1)"
  proof (cases "oget (ix_cursors (tk_db tk)) v")
    case None
    with n assms(2-4) have "0 < s" "wv_block w = s" by (auto simp: indexes_def watched_from_def watching_def)
    then have "first_block cf head w = s" by (simp add: first_block_def)
    with None show ?thesis
      by (auto simp: getCursor_def complete_to_def dest!: in_set_dropD dest: events_from_in)
  next
    case (Some c)
    with n show ?thesis by (fastforce simp: getCursor_def indexes_def complete_to_def)
  qed
  with n show "reached L v s (getCursor (tk_db tk) v (first_block cf head w) - 1) tk"
    "s \<le> getCursor (tk_db tk) v (first_block cf head w)"
    by (auto simp: reached_def)
qed

lemma windowBlocks_pos: "1 \<le> windowBlocks cf"
  using readPositiveInt_pos [of 9000 "ic_whole cf" "ic_window cf"] by (simp add: windowBlocks_def)

lemma scan_vault_known:
  assumes ok: "chain_ok L" "answers L nd" and w: "w \<in> set vs"
  shows "meets (\<lambda>tk. known L v s tk \<and> watching vs tk) (scan_vault cf nd now head w)
    (\<lambda>_ tk. known L v s tk \<and> watching vs tk) (\<lambda>tk. known L v s tk \<and> watching vs tk)"
  unfolding scan_vault_def with_budget_def
proof (intro meets_bind_get, goal_cases)
  case (1 "from" left)
  let ?m = "scan_range left (vault_chunk nd now (wv_address w)) (wv_address w) (windowBlocks cf) head from"
  have "meets (\<lambda>tk. known L v s tk \<and> watching vs tk \<and>
      from = getCursor (tk_db tk) (wv_address w) (first_block cf head w)) ?m (\<lambda>_. known L v s) (known L v s)"
  proof (cases "wv_address w = v")
    case True
    show ?thesis
    proof (cases "s \<le> from")
      case ge: True
      show ?thesis
        unfolding True
        by (rule meets_pre [OF scan_own [OF ok windowBlocks_pos ge]]) (auto intro: start_reached(1) [OF _ _ w True])
    next
      case False
      with start_reached(2) [OF _ _ w True] True show ?thesis by (force simp: meets_def)
    qed
  next
    case False
    from scan_other [OF ok(2) this] show ?thesis by (rule meets_pre) simp
  qed
  from meets_conj [OF this scan_keeps_vaults] show ?case by (rule meets_pre) simp
qed

lemma insert_vault_known:
  assumes "indexes L v s n db"
  shows "indexes L v s n (fst (insert_vault w db))"
  using assms
  by (auto simp: insert_vault_def indexes_def rows_of_chain_def watched_from_def holds_prefix_def vault_rows_def card_ledger_def)

lemma discover_known:
  assumes "factory_key cf \<noteq> v"
  shows "meets (known L v s) (discover cf nd now head) (\<lambda>_. known L v s) (known L v s)"
proof -
  have put: "meets (known L v s) (io_put f) (\<lambda>_. known L v s) (known L v s)"
    if "\<And>tk. known L v s tk \<Longrightarrow> known L v s (f tk)" for f
    using that by (rule meets_put)
  have "known L v s (watch_vault w tk)" if "known L v s tk" for w tk
    using that insert_vault_known [of L v s _ "tk_db tk" w] by (force simp: known_def watch_vault_def case_prod_beta Let_def)
  then have "meets (known L v s) (take_factory_log now l) (\<lambda>_. known L v s) (known L v s)" for l
    by (auto simp: take_factory_log_def split: option.splits intro!: meets_return put)
  then have "meets (known L v s) (io_each (take_factory_log now) logs) (\<lambda>_. known L v s) (known L v s)" for logs
    by (rule meets_each)
  then have "meets (known L v s) (factory_chunk cf nd now a b) (\<lambda>_. known L v s) (known L v s)" for a b
    by (cases "ni_factory nd (lower (ic_factory cf)) a b")
      (auto simp: factory_chunk_def known_def count_chunk_def intro!: meets_throw meets_then [where R = "known L v s"] put)
  then have scan: "meets (known L v s) (scan_range left (factory_chunk cf nd now) (factory_key cf) window head from)
      (\<lambda>_. known L v s) (known L v s)" for left window "from"
    using set_cursor_other [OF _ assms]
    by (induction left arbitrary: "from") (auto simp: Let_def intro!: meets_return meets_then [where R = "known L v s"] put)
  show ?thesis
    unfolding discover_def with_budget_def by (intro meets_bind_get meets_pre [OF scan]) simp
qed

lemma phases_known:
  assumes ok: "chain_ok L" "answers L nd" "factory_key cf \<noteq> v"
  shows "meets (known L v s) (run_phases cf nd now head) (\<lambda>_. known L v s) (known L v s)"
proof -
  have seed: "meets (known L v s) (io_put (seed_vault cf now)) (\<lambda>_. known L v s) (known L v s)"
    using insert_vault_known by (intro meets_put) (force simp: known_def seed_vault_def)
  have "meets (\<lambda>tk. known L v s tk \<and> watching vs tk) (io_each (scan_vault cf nd now head) vs)
      (\<lambda>_ tk. known L v s tk \<and> watching vs tk) (\<lambda>tk. known L v s tk \<and> watching vs tk)" for vs
    by (intro meets_each scan_vault_known ok)
  then have "meets (\<lambda>tk. known L v s tk \<and> vs = ix_vaults (tk_db tk)) (io_each (scan_vault cf nd now head) vs)
      (\<lambda>_. known L v s) (known L v s)" for vs
    by (rule meets_post [OF meets_pre]) (auto simp: watching_def)
  then show ?thesis
    unfolding run_phases_def by (intro meets_then [OF seed] meets_then [OF discover_known [OF ok(3)]] meets_bind_get)
qed

lemma tick_known:
  assumes ok: "chain_ok L" "answers L nd" "factory_key cf \<noteq> v" and db: "indexes L v s n db"
  shows "\<exists>n'. indexes L v s n' (tk_db (snd (runTick cf nd now db)))"
proof -
  let ?tk = "\<lparr>tk_db = db, tk_chunks = 0, tk_vaults = 0, tk_events = 0\<rparr>"
  have start: "known L v s ?tk" using db by (auto simp: known_def)
  show ?thesis
  proof (cases "ni_head nd")
    case (Inl e)
    with db show ?thesis by (auto simp: runTick_def io_throw_def)
  next
    case (Inr head)
    have "meets (known L v s) (io_then (run_phases cf nd now head) (io_return head)) (\<lambda>_. known L v s) (known L v s)"
      by (intro meets_then [OF phases_known [OF ok]] meets_return)
    from meets_state [OF this start] Inr show ?thesis by (simp add: runTick_def known_def)
  qed
qed

text \<open>The tables hold a prefix of the chain after any ticks.\<close>

lemma ticks_known:
  assumes "chain_ok L" "\<And>nd now. (nd, now) \<in> set ticks \<Longrightarrow> answers L nd" "factory_key cf \<noteq> v" "indexes L v s n db"
  shows "\<exists>n'. indexes L v s n' (run_ticks cf ticks db)"
  using assms
proof (induction ticks arbitrary: db n)
  case (Cons t ticks)
  obtain nd now where t: "t = (nd, now)" by (cases t)
  from Cons.prems(2) t have "answers L nd" by auto
  from tick_known [OF Cons.prems(1) this Cons.prems(3,4)]
  obtain n' where "indexes L v s n' (tk_db (snd (runTick cf nd now db)))" by blast
  moreover have "answers L nd'" if "(nd', now') \<in> set ticks" for nd' now' using that Cons.prems(2) by (meson list.set_intros(2))
  ultimately show ?case using Cons.IH [OF Cons.prems(1) _ Cons.prems(3)] by (fastforce simp: run_ticks_def t)
qed (auto simp: run_ticks_def)

text \<open>A vault that was just found holds the empty prefix.\<close>

lemma fresh_vault:
  assumes "rows_of_chain L db" "watched_from v s db" "vault_rows v db = []" "\<forall>i. map_of (ix_cards db) (v, i) = None"
    "oget (ix_cursors db) v = None"
  shows "indexes L v s 0 db"
  using assms by (simp add: indexes_def holds_prefix_def card_ledger_def events_ledger_def)

section \<open>Progress\<close>

definition caught_up :: "index_config \<Rightarrow> int \<Rightarrow> watched_vault \<Rightarrow> index_db \<Rightarrow> bool" where
  "caught_up cf head w db \<longleftrightarrow>
     (case oget (ix_cursors db) (wv_address w) of None \<Rightarrow> head < first_block cf head w | Some c \<Rightarrow> head \<le> c)"

definition spent :: "index_config \<Rightarrow> index_run \<Rightarrow> bool" where
  "spent cf tk \<longleftrightarrow> maxChunks cf \<le> tk_chunks tk"

definition at_cursor :: "string \<Rightarrow> int option \<Rightarrow> nat \<Rightarrow> index_run \<Rightarrow> bool" where
  "at_cursor k c m tk \<longleftrightarrow> oget (ix_cursors (tk_db tk)) k = c \<and> m \<le> tk_chunks tk"

lemma chunk_counts:
  "meets (at_cursor k c m) (vault_chunk nd now v a b) (\<lambda>_. at_cursor k c (Suc m)) (\<lambda>_. True)"
proof -
  have "at_cursor k c n (record_event now ts v l ev tk) = at_cursor k c n tk" for n ts l ev tk
    by (simp add: at_cursor_def record_event_def insert_event_def Let_def)
  then have "meets (at_cursor k c n) (ingest nd now v l) (\<lambda>_. at_cursor k c n) (at_cursor k c n)" for n l
    unfolding ingest_def
    by (cases "hl_event l"; cases "blockTimestamp nd now (hl_block l)") (auto intro: meets_return meets_throw meets_put)
  then have "meets (at_cursor k c n) (io_each (ingest nd now v) xs) (\<lambda>_. at_cursor k c n) (\<lambda>_. True)" for n xs
    by (rule meets_post [OF meets_each]) simp_all
  moreover have "meets (at_cursor k c m) (io_put count_chunk) (\<lambda>_. at_cursor k c (Suc m)) (\<lambda>_. True)"
    by (rule meets_put) (simp add: at_cursor_def count_chunk_def)
  ultimately show ?thesis
    by (cases "ni_logs nd v a b") (auto simp: vault_chunk_def intro!: meets_throw meets_then)
qed

lemma scan_other_cursor:
  assumes "k \<noteq> w"
  shows "meets (at_cursor k c m) (scan_range left (vault_chunk nd now w) w window head from)
    (\<lambda>_. at_cursor k c m) (\<lambda>_. True)"
proof (induction left arbitrary: "from")
  case (Suc left)
  have "meets (at_cursor k c m) (vault_chunk nd now w from b) (\<lambda>_. at_cursor k c m) (\<lambda>_. True)" for b
    by (rule meets_post [OF chunk_counts]) (simp_all add: at_cursor_def)
  moreover have "meets (at_cursor k c m) (io_put (setCursor w b)) (\<lambda>_. at_cursor k c m) (\<lambda>_. True)" for b
    using assms by (intro meets_put) (simp add: at_cursor_def setCursor_def)
  ultimately show ?case using Suc by (auto simp: Let_def intro!: meets_return meets_then)
qed (simp add: meets_return)

text \<open>Scanning a vault uses up the budget or reaches the head.\<close>

lemma scan_reaches:
  assumes "1 \<le> window"
  shows "meets (\<lambda>tk. M \<le> left + tk_chunks tk \<and> (head < from \<longrightarrow> head < from0 \<and> oget (ix_cursors (tk_db tk)) v = None \<or>
        (\<exists>c. oget (ix_cursors (tk_db tk)) v = Some c \<and> head \<le> c)))
    (scan_range left (vault_chunk nd now v) v window head from)
    (\<lambda>_ tk. M \<le> tk_chunks tk \<or> head < from0 \<and> oget (ix_cursors (tk_db tk)) v = None \<or>
        (\<exists>c. oget (ix_cursors (tk_db tk)) v = Some c \<and> head \<le> c)) (\<lambda>_. True)"
proof (induction left arbitrary: "from")
  case 0
  then show ?case by (auto intro!: meets_return)
next
  case (Suc left)
  show ?case
  proof (cases "head < from")
    case True
    then show ?thesis by (auto intro!: meets_return)
  next
    case False
    let ?to = "min (from + window - 1) head"
    have "meets (\<lambda>tk. M \<le> Suc left + tk_chunks tk) (vault_chunk nd now v from ?to)
        (\<lambda>_ tk. M \<le> left + tk_chunks tk) (\<lambda>_. True)"
    proof (rule meets_with, goal_cases)
      case (1 tk)
      show ?case
        by (rule meets_post [OF meets_pre [OF chunk_counts [of v "oget (ix_cursors (tk_db tk)) v" "tk_chunks tk"]]])
          (use 1 in \<open>auto simp: at_cursor_def\<close>)
    qed
    moreover have "meets (\<lambda>tk. M \<le> left + tk_chunks tk) (io_put (setCursor v ?to))
        (\<lambda>_ tk. M \<le> left + tk_chunks tk \<and> (head < ?to + 1 \<longrightarrow> head < from0 \<and> oget (ix_cursors (tk_db tk)) v = None \<or>
          (\<exists>c. oget (ix_cursors (tk_db tk)) v = Some c \<and> head \<le> c))) (\<lambda>_. True)"
      by (rule meets_put) (auto simp: setCursor_def)
    ultimately have "meets (\<lambda>tk. M \<le> Suc left + tk_chunks tk)
        (io_then (vault_chunk nd now v from ?to) (io_then (io_put (setCursor v ?to))
          (scan_range left (vault_chunk nd now v) v window head (?to + 1))))
        (\<lambda>_ tk. M \<le> tk_chunks tk \<or> head < from0 \<and> oget (ix_cursors (tk_db tk)) v = None \<or>
          (\<exists>c. oget (ix_cursors (tk_db tk)) v = Some c \<and> head \<le> c)) (\<lambda>_. True)"
      using meets_then [OF _ meets_then [OF _ Suc]] by blast
    then have "meets (\<lambda>tk. M \<le> Suc left + tk_chunks tk) (scan_range (Suc left) (vault_chunk nd now v) v window head from)
        (\<lambda>_ tk. M \<le> tk_chunks tk \<or> head < from0 \<and> oget (ix_cursors (tk_db tk)) v = None \<or>
          (\<exists>c. oget (ix_cursors (tk_db tk)) v = Some c \<and> head \<le> c)) (\<lambda>_. True)"
      using False by (simp add: Let_def)
    then show ?thesis by (rule meets_pre) simp
  qed
qed

definition served_vault :: "index_config \<Rightarrow> int \<Rightarrow> watched_vault \<Rightarrow> index_run \<Rightarrow> bool" where
  "served_vault cf head w tk \<longleftrightarrow> spent cf tk \<or> caught_up cf head w (tk_db tk)"

lemma scan_vault_serves:
  "meets (\<lambda>_. True) (scan_vault cf nd now head w) (\<lambda>_. served_vault cf head w) (\<lambda>_. True)"
  unfolding scan_vault_def with_budget_def
proof (intro meets_bind_get, goal_cases)
  case (1 "from" left)
  note scan = scan_reaches [OF windowBlocks_pos, of "maxChunks cf" left head "from" "first_block cf head w" "wv_address w" nd now]
  show ?case
    by (rule meets_post [OF meets_pre [OF scan [of cf]]])
      (auto simp: served_vault_def spent_def caught_up_def getCursor_def split: option.splits)
qed

lemma scan_vault_keeps_served:
  assumes "wv_address u \<noteq> wv_address w"
  shows "meets (served_vault cf head u) (scan_vault cf nd now head w) (\<lambda>_. served_vault cf head u) (\<lambda>_. True)"
proof (rule meets_with, goal_cases)
  case (1 tk)
  let ?c = "oget (ix_cursors (tk_db tk)) (wv_address u)"
  have "meets (at_cursor (wv_address u) ?c (tk_chunks tk)) (scan_vault cf nd now head w)
      (\<lambda>_. at_cursor (wv_address u) ?c (tk_chunks tk)) (\<lambda>_. True)"
    unfolding scan_vault_def with_budget_def
    by (intro meets_bind_get meets_pre [OF scan_other_cursor [OF assms]]) simp
  then show ?case
    by (rule meets_post [OF meets_pre]) (use 1 in \<open>auto simp: at_cursor_def served_vault_def spent_def caught_up_def\<close>)
qed

lemma vaults_served:
  assumes "distinct (map wv_address vs)"
  shows "meets (\<lambda>_. True) (io_each (scan_vault cf nd now head) vs) (\<lambda>_ tk. \<forall>w \<in> set vs. served_vault cf head w tk) (\<lambda>_. True)"
proof (rule meets_each_all)
  fix ys x zs assume vs: "vs = ys @ x # zs"
  have "meets (served_vault cf head y) (scan_vault cf nd now head x) (\<lambda>_. served_vault cf head y) (\<lambda>_. True)" if "y \<in> set ys" for y
    using assms that vs by (intro scan_vault_keeps_served) (auto simp: image_iff)
  then have "meets (\<lambda>s. \<forall>y \<in> set ys. served_vault cf head y s) (scan_vault cf nd now head x)
      (\<lambda>_ s. \<forall>y \<in> set ys. served_vault cf head y s) (\<lambda>_. True)"
    by (fastforce simp: meets_def split: prod.splits sum.splits)
  from meets_conj [OF this scan_vault_serves [of cf nd now head x]]
  show "meets (\<lambda>s. \<forall>y \<in> set ys. served_vault cf head y s) (scan_vault cf nd now head x)
      (\<lambda>_ s. \<forall>y \<in> set (ys @ [x]). served_vault cf head y s) (\<lambda>_. True)"
    by (rule meets_post [OF meets_pre]) auto
qed

definition distinct_vaults :: "index_run \<Rightarrow> bool" where
  "distinct_vaults tk \<longleftrightarrow> distinct (map wv_address (ix_vaults (tk_db tk)))"

lemma discover_distinct: "meets distinct_vaults (discover cf nd now head) (\<lambda>_. distinct_vaults) (\<lambda>_. True)"
proof -
  have put: "meets distinct_vaults (io_put f) (\<lambda>_. distinct_vaults) (\<lambda>_. True)"
    if "\<And>tk. distinct_vaults tk \<Longrightarrow> distinct_vaults (f tk)" for f
    using that by (rule meets_put)
  have "meets distinct_vaults (take_factory_log now l) (\<lambda>_. distinct_vaults) distinct_vaults" for l
    by (auto simp: take_factory_log_def distinct_vaults_def watch_vault_def insert_vault_def split: option.splits
        intro!: meets_return meets_put)
  then have each: "meets distinct_vaults (io_each (take_factory_log now) logs) (\<lambda>_. distinct_vaults) (\<lambda>_. True)" for logs
    by (rule meets_post [OF meets_each]) simp_all
  have "meets distinct_vaults (factory_chunk cf nd now a b) (\<lambda>_. distinct_vaults) (\<lambda>_. True)" for a b
    by (cases "ni_factory nd (lower (ic_factory cf)) a b")
      (auto simp: factory_chunk_def distinct_vaults_def count_chunk_def
        intro!: meets_throw meets_then [OF _ each] meets_put)
  then have scan: "meets distinct_vaults (scan_range left (factory_chunk cf nd now) (factory_key cf) window head from)
      (\<lambda>_. distinct_vaults) (\<lambda>_. True)" for left window "from"
    by (induction left arbitrary: "from")
      (auto simp: Let_def distinct_vaults_def setCursor_def
        intro!: meets_return meets_then [where R = distinct_vaults] put)
  show ?thesis
    unfolding discover_def with_budget_def by (intro meets_bind_get meets_pre [OF scan]) simp
qed

text \<open>A tick that does not fail uses up its budget or brings every watched vault up to the head.\<close>

lemma tick_progress:
  assumes "distinct (map wv_address (ix_vaults db))" "runTick cf nd now db = (Inr head, tk)"
  shows "spent cf tk \<or> (\<forall>w \<in> set (ix_vaults (tk_db tk)). caught_up cf head w (tk_db tk))"
proof -
  let ?tk = "\<lparr>tk_db = db, tk_chunks = 0, tk_vaults = 0, tk_events = 0\<rparr>"
  have seed: "meets distinct_vaults (io_put (seed_vault cf now)) (\<lambda>_. distinct_vaults) (\<lambda>_. True)"
    by (rule meets_put) (simp add: distinct_vaults_def seed_vault_def insert_vault_def)
  have scan: "meets (\<lambda>tk. distinct_vaults tk \<and> vs = ix_vaults (tk_db tk)) (io_each (scan_vault cf nd now head) vs)
      (\<lambda>_ tk. \<forall>w \<in> set (ix_vaults (tk_db tk)). served_vault cf head w tk) (\<lambda>_. True)" for vs
  proof (cases "distinct (map wv_address vs)")
    case True
    have "meets (watching vs) (scan_vault cf nd now head w) (\<lambda>_. watching vs) (watching vs)" for w
      unfolding scan_vault_def with_budget_def by (intro meets_bind_get meets_pre [OF scan_keeps_vaults]) simp
    then have "meets (watching vs) (io_each (scan_vault cf nd now head) vs) (\<lambda>_. watching vs) (watching vs)"
      by (rule meets_each)
    from meets_conj [OF this vaults_served [OF True]] show ?thesis
      by (rule meets_post [OF meets_pre]) (auto simp: watching_def)
  next
    case False
    then show ?thesis by (force simp: meets_def distinct_vaults_def)
  qed
  have all: "meets distinct_vaults (io_then (run_phases cf nd now head) (io_return head))
      (\<lambda>_ tk. \<forall>w \<in> set (ix_vaults (tk_db tk)). served_vault cf head w tk) (\<lambda>_. True)"
    unfolding run_phases_def
    by (intro meets_then [where R = "\<lambda>tk. \<forall>w \<in> set (ix_vaults (tk_db tk)). served_vault cf head w tk"]
        meets_then [OF seed] meets_then [OF discover_distinct] meets_bind_get scan meets_return)
  from assms(2) obtain head' where h: "ni_head nd = Inr head'" "(io_then (run_phases cf nd now head') (io_return head')) ?tk = (Inr head, tk)"
    by (cases "ni_head nd") (auto simp: runTick_def io_throw_def)
  have "head' = head" using h(2)
    by (auto simp: io_then_def io_bind_def io_return_def split: prod.splits sum.splits)
  with meetsD [OF all, of ?tk head tk] h(2) assms(1) show ?thesis by (auto simp: distinct_vaults_def served_vault_def)
qed

text \<open>With budget left, the prefix covers every log up to the head.\<close>

lemma tick_complete:
  assumes ok: "chain_ok L" "answers L nd" "factory_key cf \<noteq> v" "indexes L v s n db"
    and run: "distinct (map wv_address (ix_vaults db))" "runTick cf nd now db = (Inr head, tk)" "\<not> spent cf tk"
  obtains n' where "indexes L v s n' (tk_db tk)" "complete_to L v s n' head"
proof -
  from tick_known [OF ok] run(2) obtain n' where n': "indexes L v s n' (tk_db tk)" by (metis snd_conv)
  then obtain w where w: "w \<in> set (ix_vaults (tk_db tk))" "wv_address w = v" by (auto simp: indexes_def watched_from_def)
  with tick_progress [OF run(1,2)] run(3) have c: "caught_up cf head w (tk_db tk)" by blast
  have "complete_to L v s n' head"
  proof (cases "oget (ix_cursors (tk_db tk)) v")
    case None
    with n' w have "0 < s" "wv_block w = s" by (auto simp: indexes_def watched_from_def)
    with None c w(2) have "head < s" by (simp add: caught_up_def first_block_def)
    then show ?thesis by (fastforce simp: complete_to_def dest: in_set_dropD events_from_in)
  next
    case (Some b)
    with c w(2) have "head \<le> b" by (simp add: caught_up_def)
    with n' Some show ?thesis by (fastforce simp: indexes_def complete_to_def)
  qed
  with n' that show thesis by blast
qed

end
