(* ===== verification/IndexerGateway.thy ===== *)
theory IndexerGateway
  imports IndexerInvariant StreamInvariant
begin

text \<open>
  The indexer and the stream gateway project the same events in two ways. They agree on the balance
  and the status of every Paycard.
\<close>

definition status_text :: "paycard_status \<Rightarrow> string" where
  "status_text st = (case st of StActive \<Rightarrow> ''Active'' | StPendingSettlement \<Rightarrow> ''PendingSettlement'' | StTerminated \<Rightarrow> ''Terminated'')"

text \<open>One event as the indexer and as the gateway parse it.\<close>

definition same_event :: "hub_event \<Rightarrow> parsed_event \<Rightarrow> bool" where
  "same_event ev p \<longleftrightarrow>
     gv_eventName p = event_name ev \<and> gv_paycardId p = lower (he_paycardId ev) \<and>
     (case ev of
        Provisioned _ _ _ _ a _ _ _ \<Rightarrow> uint_arg p ''poolAllocation'' = a \<and> 0 \<le> a
      | Settled _ _ w \<Rightarrow> uint_arg p ''amountWithdrawn'' = w \<and> 0 \<le> w
      | Reclaimed _ _ _ \<Rightarrow> True)"

fun plain_ledger :: "(int \<times> paycard_status) option \<Rightarrow> bool" where
  "plain_ledger None \<longleftrightarrow> True"
| "plain_ledger (Some (b, st)) \<longleftrightarrow> 0 \<le> b \<and> (st = StActive \<or> st = StTerminated \<and> b = 0)"

abbreviation named :: "(int \<times> paycard_status) option \<Rightarrow> (int \<times> string) option" where
  "named \<equiv> map_option (\<lambda>(b, st). (b, status_text st))"

lemma one_event_agrees:
  assumes "same_event ev p" "plain_ledger l"
  shows "event_ledger i ev (named l) = named (if gv_paycardId p = i then ledger_event p l else l)"
    and "plain_ledger (if gv_paycardId p = i then ledger_event p l else l)"
proof -
  note defs = same_event_def event_ledger_def ledger_event_def event_name_def status_text_def
  have "event_ledger i ev (named l) = named (if gv_paycardId p = i then ledger_event p l else l) \<and>
    plain_ledger (if gv_paycardId p = i then ledger_event p l else l)"
  proof (cases l)
    case None
    with assms(1) show ?thesis by (cases ev) (simp_all add: defs)
  next
    case (Some q)
    obtain b st where "q = (b, st)" by (cases q)
    with Some assms(2) have l: "l = Some (b, st)" "0 \<le> b" "st = StActive \<or> st = StTerminated \<and> b = 0" by simp_all
    show ?thesis
    proof (cases "gv_paycardId p = i")
      case True
      with assms(1) l show ?thesis by (cases ev) (auto simp: defs max_def)
    next
      case False
      with assms(1) l show ?thesis by (cases ev) (simp_all add: defs)
    qed
  qed
  then show "event_ledger i ev (named l) = named (if gv_paycardId p = i then ledger_event p l else l)"
    "plain_ledger (if gv_paycardId p = i then ledger_event p l else l)" by blast+
qed

lemma projections_agree:
  assumes "list_all2 same_event evs ps"
  shows "fold (event_ledger i) evs None = named (fold ledger_event (filter (\<lambda>p. gv_paycardId p = i) ps) None)"
proof -
  have "fold (event_ledger i) evs (named l) = named (fold ledger_event (filter (\<lambda>p. gv_paycardId p = i) ps) l)"
    if "plain_ledger l" for l
    using assms that
  proof (induction evs ps arbitrary: l rule: list_all2_induct)
    case (Cons ev evs p ps)
    from Cons.IH [OF one_event_agrees(2) [OF Cons.hyps(1) Cons.prems, of i]] one_event_agrees(1) [OF Cons.hyps(1) Cons.prems, of i]
    show ?case by (cases "gv_paycardId p = i") simp_all
  qed simp
  from this [of None] show ?thesis by simp
qed

text \<open>What the tables of the indexer say of a Paycard is what a gateway that saw the same events says.\<close>

lemma index_agrees_with_gateway:
  assumes "indexes L v s n db" "list_all2 same_event (map (\<lambda>l. the (hl_event l)) (take n (events_from L v s))) ps"
    "\<forall>p \<in> set ps. event_wf p" "gw_ok g" "ledger i g = None" "length (gw_queue g) + length ps \<le> max_queue"
  shows "card_ledger v i db = named (ledger i (fold (apply_event now) ps g))"
proof -
  have "card_ledger v i db = fold (event_ledger i) (map (\<lambda>l. the (hl_event l)) (take n (events_from L v s))) None"
    using assms(1) by (simp add: indexes_def holds_prefix_def events_ledger_def fold_map comp_def)
  with projections_agree [OF assms(2)] ledger_fold [OF assms(4), of ps i now] assms(3,5,6) show ?thesis by simp
qed

end
