(* ===== verification/IndexerRoutes.thy ===== *)
theory IndexerRoutes
  imports Indexer
begin

text \<open>
  The HTTP side of \<open>indexer-worker/src/index.ts\<close>: reading the tables, and the tick an administrator
  can ask for. A reply to \<open>OPTIONS\<close> has no body, shown as \<open>undefined\<close>.
\<close>

section \<open>Rows\<close>

definition nullable :: "string option \<Rightarrow> json" where
  "nullable v = (case v of None \<Rightarrow> JNull | Some s \<Rightarrow> JStr s)"

definition mapStreamRow :: "(string \<times> string) \<times> card_row \<Rightarrow> json" where
  "mapStreamRow r =
     (let c = snd r in JObj
       [(''vaultAddress'', JStr (fst (fst r))), (''paycardId'', JStr (snd (fst r))), (''payer'', JStr (cd_payer c)),
        (''recipient'', JStr (cd_recipient c)), (''metadataHash'', JStr (cd_metadataHash c)),
        (''totalAllocation'', JStr (int_str (cd_total c))), (''availableBalance'', JStr (int_str (cd_available c))),
        (''velocity'', JStr (int_str (cd_velocity c))), (''genesis'', JNum (cd_genesis c)), (''lifespan'', JNum (cd_lifespan c)),
        (''lastCheckpoint'', JNum (cd_lastCheckpoint c)), (''status'', JStr (cd_status c)), (''updatedAt'', JNum (cd_updatedAt c))])"

definition mapEventRow :: "event_row \<Rightarrow> json" where
  "mapEventRow e = JObj
     [(''eventName'', JStr (xe_name e)), (''blockNumber'', JNum (xe_block e)), (''blockTimestamp'', JNum (xe_time e)),
      (''transactionHash'', JStr (xe_tx e)), (''logIndex'', JNum (xe_index e)), (''args'', xe_args e)]"

definition disclaimed :: "(string \<times> json) list \<Rightarrow> int \<Rightarrow> worker_reply" where
  "disclaimed rest status = jsonResponse
     ([(''authoritative'', JBool False),
       (''disclaimer'', JStr ''Non-authoritative projection from the OpenRails indexer worker. The onchain Vault is the source of truth.'')]
      @ rest) status"

section \<open>Handlers\<close>

definition handleVaults :: "index_db \<Rightarrow> worker_reply" where
  "handleVaults db =
     (let rows = sort_key wv_created (ix_vaults db) in
      disclaimed
        [(''count'', JNum (int (length rows))),
         (''vaults'', JArr (map (\<lambda>w. JObj
            [(''vaultAddress'', JStr (wv_address w)), (''discoverySource'', JStr (wv_source w)),
             (''ownerAddress'', nullable (wv_owner w)), (''tokenAddress'', nullable (wv_token w)),
             (''discoveredAtBlock'', JNum (wv_block w))]) rows))] 200)"

text \<open>A parameter counts when it is there and not empty.\<close>

definition param :: "worker_request \<Rightarrow> string \<Rightarrow> string option" where
  "param rq name = (case oget (wq_query rq) name of None \<Rightarrow> None | Some v \<Rightarrow> if v = [] then None else Some v)"

definition given_as :: "string option \<Rightarrow> string \<Rightarrow> bool" where
  "given_as p v \<longleftrightarrow> (case p of None \<Rightarrow> True | Some x \<Rightarrow> lower x = v)"

definition stream_matches :: "worker_request \<Rightarrow> (string \<times> string) \<times> card_row \<Rightarrow> bool" where
  "stream_matches rq r \<longleftrightarrow>
     given_as (param rq ''vaultAddress'') (fst (fst r)) \<and> given_as (param rq ''paycardId'') (snd (fst r)) \<and>
     given_as (param rq ''payer'') (cd_payer (snd r)) \<and> given_as (param rq ''recipient'') (cd_recipient (snd r)) \<and>
     given_as (param rq ''metadataHash'') (cd_metadataHash (snd r)) \<and>
     (case param rq ''status'' of None \<Rightarrow> True | Some st \<Rightarrow> cd_status (snd r) = st) \<and>
     param rq ''workflowId'' = None"

definition invalid_param :: "worker_request \<Rightarrow> string \<Rightarrow> (string \<Rightarrow> bool) \<Rightarrow> bool" where
  "invalid_param rq name ok \<longleftrightarrow> (case param rq name of None \<Rightarrow> False | Some v \<Rightarrow> \<not> ok v)"

definition handleStreams :: "worker_request \<Rightarrow> index_db \<Rightarrow> worker_reply" where
  "handleStreams rq db =
     (if invalid_param rq ''vaultAddress'' isEvmAddress then refusal ''Invalid vaultAddress'' 400
      else if invalid_param rq ''paycardId'' isBytes32Hex then refusal ''Invalid paycardId'' 400
      else if invalid_param rq ''metadataHash'' isBytes32Hex then refusal ''Invalid metadataHash'' 400
      else if invalid_param rq ''status'' (\<lambda>s. s \<in> {''Active'', ''Terminated''}) then refusal ''Invalid status'' 400
      else
        let rows = take 200 (sort_key (\<lambda>r. - cd_updatedAt (snd r)) (filter (stream_matches rq) (ix_cards db))) in
        disclaimed [(''count'', JNum (int (length rows))), (''streams'', JArr (map mapStreamRow rows))] 200)"

definition card_of :: "string \<Rightarrow> string \<Rightarrow> index_db \<Rightarrow> ((string \<times> string) \<times> card_row) option" where
  "card_of v i db = find (\<lambda>r. fst r = (v, i)) (ix_cards db)"

definition handleStreamHistory :: "string \<Rightarrow> string \<Rightarrow> index_db \<Rightarrow> worker_reply" where
  "handleStreamHistory vaultAddress paycardId db =
     (if \<not> isEvmAddress vaultAddress then refusal ''Invalid vaultAddress'' 400
      else if \<not> isBytes32Hex paycardId then refusal ''Invalid paycardId'' 400
      else
        let va = lower vaultAddress; pid = lower paycardId; state = card_of va pid db;
            events = sort_key (\<lambda>e. (xe_block e, xe_index e)) (filter (\<lambda>e. xe_vault e = va \<and> xe_paycard e = pid) (ix_events db)) in
        disclaimed
          [(''vaultAddress'', JStr va), (''paycardId'', JStr pid),
           (''state'', case state of None \<Rightarrow> JNull | Some r \<Rightarrow> mapStreamRow r), (''events'', JArr (map mapEventRow events))]
          (if state = None \<and> events = [] then 404 else 200))"

definition handleWorkflowNotSupported :: "string \<Rightarrow> worker_reply" where
  "handleWorkflowNotSupported workflowId = disclaimed
     [(''workflowId'', JStr workflowId), (''streams'', JArr []), (''events'', JArr []),
      (''note'', JStr ''workflowId binding is not available from on-chain events alone (it requires the off-chain bindVerifiedMetadata step stream-gateway uses); not yet implemented in this indexer.'')]
     501"

definition handleTransaction :: "string \<Rightarrow> index_db \<Rightarrow> worker_reply" where
  "handleTransaction hash db =
     (if \<not> isBytes32Hex hash then refusal ''Invalid transaction hash'' 400
      else
        let h = lower hash; events = sort_key xe_index (filter (\<lambda>e. xe_tx e = h) (ix_events db)) in
        if events = [] then disclaimed [(''transactionHash'', JStr h), (''events'', JArr []), (''streams'', JArr [])] 404
        else
          let pairs = unique_list (map (\<lambda>e. (xe_vault e, xe_paycard e)) events) in
          disclaimed
            [(''transactionHash'', JStr h), (''events'', JArr (map mapEventRow events)),
             (''streams'', JArr (map mapStreamRow (List.map_filter (\<lambda>(va, pid). card_of va pid db) pairs)))] 200)"

section \<open>Dispatch\<close>

fun path_segments :: "string \<Rightarrow> string list" where
  "path_segments [] = [[]]"
| "path_segments (c # cs) =
     (if c = CHR ''/'' then [] # path_segments cs
      else case path_segments cs of [] \<Rightarrow> [[c]] | s # ss \<Rightarrow> (c # s) # ss)"

definition history_path :: "string \<Rightarrow> (string \<times> string) option" where
  "history_path p =
     (case path_segments p of
        [root, streams, va, pid, leaf] \<Rightarrow>
          if root = [] \<and> streams = ''streams'' \<and> isEvmAddress va \<and> isBytes32Hex pid \<and> leaf = ''history''
          then Some (va, pid) else None
      | _ \<Rightarrow> None)"

definition index_get :: "(string \<Rightarrow> string option) \<Rightarrow> string \<Rightarrow> worker_request \<Rightarrow> index_db \<Rightarrow> worker_reply" where
  "index_get decodeURIComponent path rq db =
     (if path = ''/vaults'' then handleVaults db
      else if path = ''/streams'' then handleStreams rq db
      else case history_path path of
          Some (va, pid) \<Rightarrow> handleStreamHistory va pid db
        | None \<Rightarrow>
            if take 11 path = ''/workflows/'' \<and> drop 11 path \<noteq> [] then
              (case decodeURIComponent (drop 11 path) of
                 None \<Rightarrow> refusal ''URI malformed'' 500
               | Some w \<Rightarrow> handleWorkflowNotSupported w)
            else if take 14 path = ''/transactions/'' \<and> isBytes32Hex (drop 14 path)
            then handleTransaction (drop 14 path) db
            else refusal ''Not Found'' 404)"

definition tick_reply :: "int result \<Rightarrow> index_run \<Rightarrow> worker_reply" where
  "tick_reply r tk =
     (case r of
        Inl (Error msg) \<Rightarrow> refusal msg 500
      | Inr head \<Rightarrow> jsonResponse
          [(''success'', JBool True), (''vaultsDiscovered'', JNum (int (tk_vaults tk))),
           (''eventsIngested'', JNum (int (tk_events tk))), (''chunksUsed'', JNum (int (tk_chunks tk))), (''head'', JNum head)] 200)"

definition index_fetch ::
    "(string \<Rightarrow> string option) \<Rightarrow> index_config \<Rightarrow> index_node \<Rightarrow> int \<Rightarrow> worker_request \<Rightarrow> index_db \<Rightarrow> worker_reply \<times> index_db" where
  "index_fetch decodeURIComponent cf nd now rq db =
     (if wq_method rq = ''OPTIONS'' then (\<lparr>wr_status = 204, wr_body = JUndefined\<rparr>, db)
      else if wq_path rq = ''/tick'' then
        (if wq_method rq \<noteq> ''POST'' then (refusal ''Only POST requests allowed'' 405, db)
         else if \<not> (case ic_adminToken cf of None \<Rightarrow> False | Some t \<Rightarrow> t \<noteq> [])
           then (refusal ''Indexer admin token is not configured'' 503, db)
         else if \<not> worker_authorized ''x-openrails-admin-token'' rq (ic_adminToken cf) then (refusal ''Unauthorized'' 401, db)
         else let (r, tk) = runTick cf nd now db in (tick_reply r tk, tk_db tk))
      else if wq_method rq \<noteq> ''GET'' then (refusal ''Only GET requests allowed'' 405, db)
      else (index_get decodeURIComponent (wq_path rq) rq db, db))"

section \<open>Facts\<close>

text \<open>Only an authorized \<open>POST /tick\<close> changes the tables.\<close>

lemma fetch_changes:
  assumes "snd (index_fetch decodeURIComponent cf nd now rq db) \<noteq> db"
  shows "wq_path rq = ''/tick'' \<and> wq_method rq = ''POST'' \<and>
    worker_authorized ''x-openrails-admin-token'' rq (ic_adminToken cf)"
  using assms by (auto simp: index_fetch_def split: if_splits)

text \<open>A Paycard is looked up by vault and identifier together.\<close>

lemma streams_of_vault:
  assumes "r \<in> set (ix_cards db)" "stream_matches rq r" "param rq ''vaultAddress'' = Some va" "param rq ''paycardId'' = Some i"
  shows "fst r = (lower va, lower i)"
  using assms(2-4) by (cases r) (auto simp: stream_matches_def given_as_def)

end
