(* ===== verification/Settler.thy ===== *)
theory Settler
  imports WorkerBase
begin

text \<open>
  \<open>workers/reconciliation-worker/src/index.ts\<close>, the settler: it settles the active Paycards it finds on
  the chain, or, in its old mode, those with unsettled rows in the table \<open>plays\<close>. The chain is a
  state of which the records of answers are all that is known. Rows come in the order they were
  inserted, the database does not fail, and the clock is read once per run.
\<close>

section \<open>The chain\<close>

record settle_row =
  sw_operationalStatus :: int
  sw_availableBalance :: int
  sw_flowVelocityPerSecond :: int
  sw_genesisTimestamp :: int
  sw_lifespanSeconds :: int
  sw_lastCheckpointEpoch :: int

record 'c settler_node =
  sn_block :: "'c \<Rightarrow> int result \<times> 'c"
  sn_provisioned :: "int \<Rightarrow> int \<Rightarrow> 'c \<Rightarrow> string list result \<times> 'c"
  sn_registry :: "string \<Rightarrow> 'c \<Rightarrow> settle_row result \<times> 'c"
  sn_settle :: "string \<Rightarrow> 'c \<Rightarrow> string result \<times> 'c"
  sn_wait :: "string \<Rightarrow> 'c \<Rightarrow> unit result \<times> 'c"

record settler_config =
  sc_signerKey :: "string option"
  sc_adminToken :: "string option"
  sc_batchLimit :: "string option"
  sc_maxAttempts :: "string option"
  sc_mode :: "string option"
  sc_window :: "string option"
  sc_minAccrued :: "int result"
  sc_whole :: "string \<Rightarrow> int option"

section \<open>The table of plays\<close>

datatype play_state = Play_pending | Play_settled | Play_skipped | Play_locked

record play =
  pl_source :: "string option"
  pl_paycard :: string
  pl_mbid :: string
  pl_wallet :: string
  pl_time :: int
  pl_state :: play_state
  pl_attempts :: int
  pl_error :: "string option"
  pl_updated :: int

text \<open>\<open>UPDATE plays SET .. WHERE paycard_id = ? AND settled = ?\<close>, and the number of rows changed.\<close>

definition update_plays :: "(play \<Rightarrow> bool) \<Rightarrow> (play \<Rightarrow> play) \<Rightarrow> play list \<Rightarrow> play list" where
  "update_plays P f = map (\<lambda>p. if P p then f p else p)"

definition of_card :: "string \<Rightarrow> play_state \<Rightarrow> play \<Rightarrow> bool" where
  "of_card paycardId st p \<longleftrightarrow> pl_paycard p = paycardId \<and> pl_state p = st"

section \<open>State of a run\<close>

text \<open>The settlements sent are recorded with what became of the submission, those confirmed in
  \<open>st_confirmed\<close>.\<close>

record 'c settling =
  sg_chain :: 'c
  sg_plays :: "play list"
  sg_sent :: "(string \<times> string result) list"
  sg_confirmed :: "string list"
  sg_settled :: int
  sg_skipped :: int
  sg_errors :: int

definition ask :: "('c \<Rightarrow> 'a result \<times> 'c) \<Rightarrow> ('c settling, 'a) io" where
  "ask q s = (let (r, c) = q (sg_chain s) in (r, s\<lparr>sg_chain := c\<rparr>))"

text \<open>\<open>processDripSettle\<close> and \<open>wait\<close>.\<close>

definition submit_settle :: "'c settler_node \<Rightarrow> string \<Rightarrow> ('c settling, string) io" where
  "submit_settle nd paycardId s =
     (let (r, c) = sn_settle nd paycardId (sg_chain s) in
      (r, s\<lparr>sg_chain := c, sg_sent := sg_sent s @ [(paycardId, r)]\<rparr>))"

definition settle_card :: "'c settler_node \<Rightarrow> string \<Rightarrow> ('c settling, unit) io" where
  "settle_card nd paycardId =
     io_bind (submit_settle nd paycardId) (\<lambda>hash.
     io_then (ask (sn_wait nd hash))
       (io_put (\<lambda>s. s\<lparr>sg_confirmed := sg_confirmed s @ [paycardId]\<rparr>)))"

section \<open>settleActiveRails\<close>

definition accrued :: "int \<Rightarrow> settle_row \<Rightarrow> int" where
  "accrued now r =
     (let end = sw_genesisTimestamp r + sw_lifespanSeconds r;
          upto = (if now < end then now else end);
          elapsed = (if upto > sw_lastCheckpointEpoch r then upto - sw_lastCheckpointEpoch r else 0);
          amount = sw_flowVelocityPerSecond r * elapsed in
      if amount > sw_availableBalance r then sw_availableBalance r else amount)"

definition worth_settling :: "int \<Rightarrow> int \<Rightarrow> settle_row \<Rightarrow> bool" where
  "worth_settling now minAccruedBase r \<longleftrightarrow>
     sw_operationalStatus r = 0 \<and> sw_availableBalance r \<noteq> 0 \<and>
     (sw_lifespanSeconds r = 0 \<or> minAccruedBase \<le> accrued now r)"

definition skip_one :: "'c settling \<Rightarrow> 'c settling" where
  "skip_one s = s\<lparr>sg_skipped := sg_skipped s + 1\<rparr>"

definition settle_one :: "'c settler_node \<Rightarrow> int \<Rightarrow> int \<Rightarrow> string \<Rightarrow> ('c settling, unit) io" where
  "settle_one nd now minAccruedBase paycardId =
     io_catch
      (io_bind (ask (sn_registry nd paycardId)) (\<lambda>r.
       if \<not> worth_settling now minAccruedBase r then io_put skip_one
       else io_then (settle_card nd paycardId) (io_put (\<lambda>s. s\<lparr>sg_settled := sg_settled s + 1\<rparr>))))
      (\<lambda>_. io_put (\<lambda>s. s\<lparr>sg_errors := sg_errors s + 1\<rparr>))"

text \<open>\<open>break\<close> ends the loop; once the limit is reached the remaining rounds do nothing.\<close>

definition within_batch :: "int \<Rightarrow> (string \<Rightarrow> ('c settling, unit) io) \<Rightarrow> string \<Rightarrow> ('c settling, unit) io" where
  "within_batch batchLimit f paycardId =
     io_bind (io_get sg_settled) (\<lambda>settled. if batchLimit \<le> settled then io_return () else f paycardId)"

definition settleActiveRails :: "settler_config \<Rightarrow> 'c settler_node \<Rightarrow> int \<Rightarrow> ('c settling, unit) io" where
  "settleActiveRails cf nd now =
     (let batchLimit = readPositiveInt (sc_whole cf) (sc_batchLimit cf) 25;
          windowBlocks = readPositiveInt (sc_whole cf) (sc_window cf) 9000 in
      io_bind (io_of (sc_minAccrued cf)) (\<lambda>minAccruedBase.
      io_bind (ask (sn_block nd)) (\<lambda>latest.
      io_bind (ask (sn_provisioned nd (max 0 (latest - windowBlocks)) latest)) (\<lambda>ids.
      io_each (within_batch batchLimit (settle_one nd now minAccruedBase)) (unique_list ids)))))"

section \<open>reconcileFromD1\<close>

definition set_plays :: "(play list \<Rightarrow> play list) \<Rightarrow> ('c settling, unit) io" where
  "set_plays f = io_put (\<lambda>s. s\<lparr>sg_plays := f (sg_plays s)\<rparr>)"

definition lockable :: "int \<Rightarrow> string \<Rightarrow> play \<Rightarrow> bool" where
  "lockable maxAttempts paycardId p \<longleftrightarrow> of_card paycardId Play_pending p \<and> pl_attempts p < maxAttempts"

definition lock_play :: "int \<Rightarrow> play \<Rightarrow> play" where
  "lock_play now p = p\<lparr>pl_state := Play_locked, pl_attempts := pl_attempts p + 1, pl_updated := now\<rparr>"

definition finish_play :: "play_state \<Rightarrow> string option \<Rightarrow> int \<Rightarrow> play \<Rightarrow> play" where
  "finish_play st err now p = p\<lparr>pl_state := st, pl_error := err, pl_updated := now\<rparr>"

definition fail_play :: "int \<Rightarrow> string \<Rightarrow> int \<Rightarrow> play \<Rightarrow> play" where
  "fail_play maxAttempts message now p =
     finish_play (if maxAttempts \<le> pl_attempts p then Play_skipped else Play_pending) (Some message) now p"

definition error_text :: "nat \<Rightarrow> string \<Rightarrow> js_error \<Rightarrow> string" where
  "error_text n fallback e = (case e of Error msg \<Rightarrow> if take n msg = [] then fallback else take n msg)"

definition settle_locked :: "'c settler_node \<Rightarrow> int \<Rightarrow> int \<Rightarrow> string \<Rightarrow> ('c settling, unit) io" where
  "settle_locked nd now maxAttempts paycardId =
     io_catch
      (io_bind (ask (sn_registry nd paycardId)) (\<lambda>r.
       if sw_operationalStatus r \<noteq> 0 then
         set_plays (update_plays (of_card paycardId Play_locked)
           (finish_play Play_skipped (Some (''inactive status '' @ int_str (sw_operationalStatus r))) now))
       else
         io_then (settle_card nd paycardId)
           (set_plays (update_plays (of_card paycardId Play_locked) (finish_play Play_settled None now)))))
      (\<lambda>e. set_plays (update_plays (of_card paycardId Play_locked)
         (fail_play maxAttempts (error_text 500 ''settlement failed'' e) now)))"

definition reconcile_card :: "'c settler_node \<Rightarrow> int \<Rightarrow> int \<Rightarrow> string \<Rightarrow> ('c settling, unit) io" where
  "reconcile_card nd now maxAttempts paycardId =
     (if \<not> isBytes32Hex paycardId then
        set_plays (update_plays (of_card paycardId Play_pending) (finish_play Play_skipped (Some ''invalid paycardId'') now))
      else
        io_bind (io_get (\<lambda>s. list_ex (lockable maxAttempts paycardId) (sg_plays s))) (\<lambda>changes.
        io_then (set_plays (update_plays (lockable maxAttempts paycardId) (lock_play now)))
          (if changes then settle_locked nd now maxAttempts paycardId else io_return ())))"

definition pending_cards :: "int \<Rightarrow> int \<Rightarrow> play list \<Rightarrow> string list" where
  "pending_cards maxAttempts batchLimit ps =
     take (nat batchLimit) (unique_list (map pl_paycard
       (filter (\<lambda>p. pl_state p = Play_pending \<and> pl_attempts p < maxAttempts) ps)))"

definition reconcileFromD1 :: "settler_config \<Rightarrow> 'c settler_node \<Rightarrow> int \<Rightarrow> ('c settling, unit) io" where
  "reconcileFromD1 cf nd now =
     (let maxAttempts = readPositiveInt (sc_whole cf) (sc_maxAttempts cf) 5;
          batchLimit = readPositiveInt (sc_whole cf) (sc_batchLimit cf) 10 in
      io_bind (io_get (\<lambda>s. pending_cards maxAttempts batchLimit (sg_plays s)))
        (io_each (reconcile_card nd now maxAttempts)))"

definition reconcileStreams :: "settler_config \<Rightarrow> 'c settler_node \<Rightarrow> int \<Rightarrow> ('c settling, unit) io" where
  "reconcileStreams cf nd now =
     (if (case sc_signerKey cf of None \<Rightarrow> True | Some k \<Rightarrow> k = []) then io_return ()
      else if lower (case sc_mode cf of None \<Rightarrow> ''chain'' | Some m \<Rightarrow> if m = [] then ''chain'' else m) = ''d1''
      then reconcileFromD1 cf nd now
      else settleActiveRails cf nd now)"

end
