(* ===== verification/SettlerInvariant.thy ===== *)
theory SettlerInvariant
  imports Settler
begin

text \<open>
  The settler sends a settlement at most once per Paycard and run, only for Paycards worth settling,
  and confirms at most as many as its limit. In the old mode a play is marked settled only after a
  confirmed settlement of its Paycard, no play stays locked, and every play is settled or skipped
  after finitely many runs.
\<close>

section \<open>Settling what is active\<close>

definition seen_worth :: "'c settler_node \<Rightarrow> int \<Rightarrow> int \<Rightarrow> string \<Rightarrow> bool" where
  "seen_worth nd now m i \<longleftrightarrow> (\<exists>r c c'. sn_registry nd i c = (Inr r, c') \<and> worth_settling now m r)"

text \<open>What was sent and confirmed since the state \<open>s0\<close>, among the Paycards \<open>done\<close>.\<close>

definition settled_since :: "'c settling \<Rightarrow> 'c settler_node \<Rightarrow> int \<Rightarrow> int \<Rightarrow> int \<Rightarrow> string set \<Rightarrow> 'c settling \<Rightarrow> bool" where
  "settled_since s0 nd now m limit done s \<longleftrightarrow>
     (\<exists>new cs.
        sg_sent s = sg_sent s0 @ new \<and> sg_confirmed s = sg_confirmed s0 @ cs \<and> sg_plays s = sg_plays s0 \<and>
        distinct (map fst new) \<and> fst ` set new \<subseteq> done \<and> (\<forall>i \<in> fst ` set new. seen_worth nd now m i) \<and>
        set cs \<subseteq> fst ` set new \<and> distinct cs \<and>
        sg_settled s = sg_settled s0 + int (length cs) \<and> (sg_settled s0 \<le> limit \<longrightarrow> sg_settled s \<le> limit))"

lemma settled_since_mono: "settled_since s0 nd now m limit A s \<Longrightarrow> A \<subseteq> B \<Longrightarrow> settled_since s0 nd now m limit B s"
  unfolding settled_since_def by (elim exE, rule exI, rule exI) auto

lemma settle_one_steps:
  fixes s :: "'c settling"
  assumes "settled_since s0 nd now m limit A s" "i \<notin> A" "sg_settled s < limit"
  shows "settled_since s0 nd now m limit (insert i A) (snd (settle_one nd now m i s)) \<and>
    (\<exists>u. fst (settle_one nd now m i s) = Inr u)"
proof -
  note defs = settle_one_def settle_card_def submit_settle_def io_catch_def io_bind_def io_then_def io_put_def ask_def
  obtain new cs where old: "sg_sent s = sg_sent s0 @ new" "sg_confirmed s = sg_confirmed s0 @ cs" "sg_plays s = sg_plays s0"
      "distinct (map fst new)" "fst ` set new \<subseteq> A" "\<forall>i \<in> fst ` set new. seen_worth nd now m i"
      "set cs \<subseteq> fst ` set new" "distinct cs" "sg_settled s = sg_settled s0 + int (length cs)"
    using assms(1) by (auto simp: settled_since_def)
  then have fresh: "i \<notin> set cs" "i \<notin> fst ` set new" using assms(2) by blast+
  obtain r c where q: "sn_registry nd i (sg_chain s) = (r, c)" by fastforce
  have same: "settled_since s0 nd now m limit (insert i A) (s\<lparr>sg_chain := c', sg_skipped := a, sg_errors := b\<rparr>)"
    for c' :: 'c and a b
    by (rule settled_since_mono [OF _ subset_insertI]) (use assms(1) in \<open>simp add: settled_since_def\<close>)
  show ?thesis
  proof (cases "\<exists>row. r = Inr row \<and> worth_settling now m row")
    case False
    then show ?thesis
      using q same [where c' = c and a = "sg_skipped s"] same [where c' = c and b = "sg_errors s"]
      by (cases r) (auto simp: defs skip_one_def)
  next
    case True
    then obtain row where row: "r = Inr row" "worth_settling now m row" by blast
    with q have worth: "seen_worth nd now m i" by (auto simp: seen_worth_def)
    obtain x c1 where x: "sn_settle nd i c = (x, c1)" by fastforce
    have sent: "settled_since s0 nd now m limit (insert i A) t"
      if "sg_sent t = sg_sent s @ [(i, y)]" "sg_confirmed t = sg_confirmed s" "sg_plays t = sg_plays s" "sg_settled t = sg_settled s"
      for t :: "'c settling" and y
      using old assms(2,3) worth fresh that
      unfolding settled_since_def
      by (intro exI [of _ "new @ [(i, y)]"] exI [of _ cs]) auto
    have confirmed: "settled_since s0 nd now m limit (insert i A) t"
      if "sg_sent t = sg_sent s @ [(i, y)]" "sg_confirmed t = sg_confirmed s @ [i]" "sg_plays t = sg_plays s"
        "sg_settled t = sg_settled s + 1"
      for t :: "'c settling" and y
      using old assms(2,3) worth fresh that
      unfolding settled_since_def
      by (intro exI [of _ "new @ [(i, y)]"] exI [of _ "cs @ [i]"]) auto
    show ?thesis
    proof (cases x)
      case (Inl e)
      with q row x sent show ?thesis by (simp add: defs)
    next
      case (Inr hash)
      obtain y c2 where y: "sn_wait nd hash c1 = (y, c2)" by fastforce
      show ?thesis
        by (cases y) (use q row x y Inr sent confirmed in \<open>simp_all add: defs\<close>)
    qed
  qed
qed

lemma settle_each:
  assumes "settled_since s0 nd now m limit A s" "set ids \<inter> A = {}" "distinct ids"
  shows "settled_since s0 nd now m limit (A \<union> set ids) (snd (io_each (within_batch limit (settle_one nd now m)) ids s))"
  using assms
proof (induction ids arbitrary: s A)
  case Nil
  then show ?case by (simp add: io_return_def)
next
  case (Cons i ids)
  show ?case
  proof (cases "limit \<le> sg_settled s")
    case True
    have "settled_since s0 nd now m limit (insert i A) s" by (rule settled_since_mono [OF Cons.prems(1)]) blast
    from Cons.IH [OF this] Cons.prems(2,3) True show ?thesis
      by (simp add: io_then_def io_bind_def within_batch_def io_get_def io_return_def)
  next
    case False
    then have lt: "sg_settled s < limit" by simp
    have "i \<notin> A" using Cons.prems(2) by simp
    note step = settle_one_steps [OF Cons.prems(1) this lt]
    obtain x s' where x: "settle_one nd now m i s = (x, s')" by fastforce
    with step obtain u where s': "settle_one nd now m i s = (Inr u, s')" "settled_since s0 nd now m limit (insert i A) s'"
      by auto
    from Cons.IH [OF s'(2)] Cons.prems(2,3) False s'(1) show ?thesis
      by (simp add: io_then_def io_bind_def within_batch_def io_get_def)
  qed
qed

lemma settler_run:
  assumes "snd (settleActiveRails cf nd now s) = s'" "sg_settled s = 0"
  obtains new cs m where "sg_sent s' = sg_sent s @ new" "sg_confirmed s' = sg_confirmed s @ cs" "sg_plays s' = sg_plays s"
    "distinct (map fst new)" "\<forall>i \<in> fst ` set new. seen_worth nd now m i"
    "set cs \<subseteq> fst ` set new" "distinct cs" "int (length cs) \<le> readPositiveInt (sc_whole cf) (sc_batchLimit cf) 25"
proof -
  let ?limit = "readPositiveInt (sc_whole cf) (sc_batchLimit cf) 25"
  have pos: "0 < ?limit" by (rule readPositiveInt_pos) simp
  have start: "settled_since s nd now m ?limit {} (s\<lparr>sg_chain := c\<rparr>)" for m c
    by (simp add: settled_since_def)
  have "\<exists>m A. settled_since s nd now m ?limit A s'"
  proof (cases "sc_minAccrued cf")
    case (Inl e)
    with assms(1) start [of _ "sg_chain s"] show ?thesis by (auto simp: settleActiveRails_def io_throw_def)
  next
    case (Inr m)
    obtain x c where x: "sn_block nd (sg_chain s) = (x, c)" by fastforce
    show ?thesis
    proof (cases x)
      case (Inl e)
      with assms(1) Inr x start [of m c] show ?thesis
        by (auto simp: settleActiveRails_def io_bind_def ask_def Let_def)
    next
      case x': (Inr latest)
      obtain y c' where y: "sn_provisioned nd (max 0 (latest - readPositiveInt (sc_whole cf) (sc_window cf) 9000)) latest c = (y, c')"
        by fastforce
      show ?thesis
      proof (cases y)
        case (Inl e)
        with assms(1) Inr x x' y start [of m c'] show ?thesis
          by (auto simp: settleActiveRails_def io_bind_def ask_def Let_def)
      next
        case y': (Inr ids)
        have "s' = snd (io_each (within_batch ?limit (settle_one nd now m)) (unique_list ids) (s\<lparr>sg_chain := c'\<rparr>))"
          using assms(1) Inr x x' y y' by (simp add: settleActiveRails_def io_bind_def ask_def Let_def)
        with settle_each [OF start [of m c'], of "unique_list ids"] show ?thesis by auto
      qed
    qed
  qed
  then obtain m A where "settled_since s nd now m ?limit A s'" by blast
  with that assms(2) pos show thesis by (auto simp: settled_since_def)
qed

section \<open>Settling plays\<close>

text \<open>What a run does to a play: nothing, or it settles or skips it, or it counts an attempt.\<close>

definition play_step :: "int \<Rightarrow> string \<Rightarrow> play \<Rightarrow> play \<Rightarrow> bool" where
  "play_step maxAttempts i p p' \<longleftrightarrow>
     pl_paycard p' = pl_paycard p \<and> pl_source p' = pl_source p \<and> pl_wallet p' = pl_wallet p \<and>
     (if of_card i Play_pending p then
        pl_state p' = Play_settled \<or> pl_state p' = Play_skipped \<or>
        pl_state p' = Play_pending \<and> pl_attempts p' = pl_attempts p + 1 \<and> pl_attempts p' < maxAttempts
      else p' = p)"

text \<open>Between runs: nothing is locked, what is pending has attempts left, what is settled was
  confirmed.\<close>

definition tame_play :: "int \<Rightarrow> string list \<Rightarrow> play \<Rightarrow> bool" where
  "tame_play maxAttempts confirmed p \<longleftrightarrow>
     pl_state p \<noteq> Play_locked \<and> (pl_state p = Play_pending \<longrightarrow> pl_attempts p < maxAttempts) \<and>
     (pl_state p = Play_settled \<longrightarrow> pl_paycard p \<in> set confirmed)"

definition tame :: "int \<Rightarrow> 'c settling \<Rightarrow> bool" where
  "tame maxAttempts s \<longleftrightarrow> (\<forall>p \<in> set (sg_plays s). tame_play maxAttempts (sg_confirmed s) p)"

definition run_from :: "int \<Rightarrow> string \<Rightarrow> play list \<Rightarrow> 'c settling \<Rightarrow> bool" where
  "run_from maxAttempts i ps s \<longleftrightarrow> list_all2 (play_step maxAttempts i) ps (sg_plays s) \<and> tame maxAttempts s"

text \<open>While a Paycard is being settled its rows are locked.\<close>

definition locking :: "int \<Rightarrow> int \<Rightarrow> string \<Rightarrow> play list \<Rightarrow> 'c settling \<Rightarrow> bool" where
  "locking maxAttempts now i ps s \<longleftrightarrow>
     sg_plays s = update_plays (lockable maxAttempts i) (lock_play now) ps \<and>
     (\<forall>p \<in> set ps. tame_play maxAttempts (sg_confirmed s) p)"

lemmas play_defs = tame_play_def play_step_def lockable_def of_card_def lock_play_def finish_play_def fail_play_def

lemma one_play_finished:
  fixes now :: int and err :: "string option"
  assumes "tame_play m cs p" "st = Play_settled \<and> i \<in> set cs \<or> st = Play_skipped"
  defines "p1 \<equiv> (if lockable m i p then lock_play now p else p)"
  defines "p2 \<equiv> (if of_card i Play_locked p1 then finish_play st err now p1 else p1)"
  shows "play_step m i p p2 \<and> tame_play m cs p2"
  using assms(1,2) unfolding p2_def p1_def
  by (cases "pl_paycard p = i"; cases "pl_state p") (auto simp: play_defs)

lemma one_play_failed:
  fixes now :: int and msg i :: string
  assumes "tame_play m cs p"
  defines "p1 \<equiv> (if lockable m i p then lock_play now p else p)"
  defines "p2 \<equiv> (if of_card i Play_locked p1 then fail_play m msg now p1 else p1)"
  shows "play_step m i p p2 \<and> tame_play m cs p2"
  using assms(1) unfolding p2_def p1_def
  by (cases "pl_paycard p = i"; cases "pl_state p") (simp_all add: play_defs)

lemma run_from_map:
  assumes "sg_plays s = map f ps" "\<And>p. p \<in> set ps \<Longrightarrow> play_step m i p (f p) \<and> tame_play m (sg_confirmed s) (f p)"
  shows "run_from m i ps s"
  using assms by (auto simp: run_from_def tame_def list_all2_map2 list_all2_same)

lemma finish_locked:
  assumes "locking m now i ps s" "st = Play_settled \<and> i \<in> set (sg_confirmed s) \<or> st = Play_skipped"
  shows "run_from m i ps (s\<lparr>sg_plays := update_plays (of_card i Play_locked) (finish_play st err now) (sg_plays s)\<rparr>)"
proof (rule run_from_map [where f = "\<lambda>p. let p1 = if lockable m i p then lock_play now p else p in if of_card i Play_locked p1 then finish_play st err now p1 else p1"], goal_cases)
  case 1
  show ?case using assms(1) by (simp add: locking_def update_plays_def comp_def Let_def)
next
  case (2 p)
  with assms(1) have "tame_play m (sg_confirmed s) p" by (simp add: locking_def)
  from one_play_finished [OF this assms(2)] show ?case by (simp add: Let_def)
qed

lemma fail_locked:
  assumes "locking m now i ps s"
  shows "run_from m i ps (s\<lparr>sg_plays := update_plays (of_card i Play_locked) (fail_play m msg now) (sg_plays s)\<rparr>)"
proof (rule run_from_map [where f = "\<lambda>p. let p1 = if lockable m i p then lock_play now p else p in if of_card i Play_locked p1 then fail_play m msg now p1 else p1"], goal_cases)
  case 1
  show ?case using assms(1) by (simp add: locking_def update_plays_def comp_def Let_def)
next
  case (2 p)
  with assms(1) have "tame_play m (sg_confirmed s) p" by (simp add: locking_def)
  from one_play_failed [OF this] show ?case by (simp add: Let_def)
qed

lemma meets_ask: "(\<And>s r c. P s \<Longrightarrow> P (s\<lparr>sg_chain := c\<rparr>)) \<Longrightarrow> meets P (ask q) (\<lambda>_. P) P"
  by (auto simp: meets_def ask_def split: prod.splits sum.splits)

lemma locking_chain: "locking m now i ps (s\<lparr>sg_chain := c\<rparr>) = locking m now i ps s"
  "locking m now i ps (s\<lparr>sg_chain := c, sg_sent := x\<rparr>) = locking m now i ps s"
  by (simp_all add: locking_def)

lemma settle_card_locking:
  "meets (locking m now i ps) (settle_card nd i) (\<lambda>_ s. locking m now i ps s \<and> i \<in> set (sg_confirmed s)) (locking m now i ps)"
proof -
  have "meets (locking m now i ps) (submit_settle nd i) (\<lambda>_. locking m now i ps) (locking m now i ps)"
    by (auto simp: meets_def submit_settle_def locking_chain split: prod.splits sum.splits)
  moreover have "meets (locking m now i ps) (io_put (\<lambda>s. s\<lparr>sg_confirmed := sg_confirmed s @ [i]\<rparr>))
      (\<lambda>_ s. locking m now i ps s \<and> i \<in> set (sg_confirmed s)) (locking m now i ps)"
    by (rule meets_put) (auto simp: locking_def tame_play_def)
  ultimately show ?thesis
    unfolding settle_card_def
    by (intro meets_bind [where R = "\<lambda>_. locking m now i ps"] meets_then [where R = "locking m now i ps"] meets_ask)
      (simp_all add: locking_chain)
qed

lemma settle_locked_runs:
  "meets (locking m now i ps) (settle_locked nd now m i) (\<lambda>_. run_from m i ps) (\<lambda>_. False)"
  unfolding settle_locked_def
proof (rule meets_catch [where R = "locking m now i ps"], goal_cases)
  case 1
  have fin: "meets (locking m now i ps) (io_then (settle_card nd i)
      (set_plays (update_plays (of_card i Play_locked) (finish_play Play_settled None now)))) (\<lambda>_. run_from m i ps) (locking m now i ps)"
    unfolding set_plays_def by (intro meets_then [OF settle_card_locking] meets_put finish_locked) simp_all
  have skip: "meets (locking m now i ps) (set_plays (update_plays (of_card i Play_locked) (finish_play Play_skipped e now)))
      (\<lambda>_. run_from m i ps) (locking m now i ps)" for e
    unfolding set_plays_def by (intro meets_put finish_locked) simp_all
  show ?case
    by (intro meets_bind [where R = "\<lambda>_. locking m now i ps"] meets_ask meets_if fin skip) (simp add: locking_chain)
next
  case (2 e)
  show ?case unfolding set_plays_def by (intro meets_put fail_locked)
qed

lemma reconcile_card_runs:
  "meets (\<lambda>s. sg_plays s = ps \<and> tame m s) (reconcile_card nd now m i) (\<lambda>_. run_from m i ps) (\<lambda>_. False)"
proof (cases "isBytes32Hex i")
  case False
  have "meets (\<lambda>s. sg_plays s = ps \<and> tame m s)
      (set_plays (update_plays (of_card i Play_pending) (finish_play Play_skipped (Some ''invalid paycardId'') now)))
      (\<lambda>_. run_from m i ps) (\<lambda>_. False)"
    unfolding set_plays_def
  proof (intro meets_put run_from_map [where f = "\<lambda>p. if of_card i Play_pending p then finish_play Play_skipped (Some ''invalid paycardId'') now p else p"], goal_cases)
    case (1 s)
    then show ?case by (simp add: update_plays_def)
  next
    case (2 s p)
    then show ?case by (auto simp: tame_def play_defs)
  qed
  with False show ?thesis by (simp add: reconcile_card_def)
next
  case True
  have lock: "meets (\<lambda>s. sg_plays s = ps \<and> tame m s) (set_plays (update_plays (lockable m i) (lock_play now)))
      (\<lambda>_. locking m now i ps) (\<lambda>_. False)"
    unfolding set_plays_def by (rule meets_put) (auto simp: locking_def tame_def)
  have idle: "run_from m i ps s" if "locking m now i ps s" "\<not> list_ex (lockable m i) ps" for s :: "'a settling"
  proof -
    have "update_plays (lockable m i) (lock_play now) ps = ps"
      unfolding update_plays_def by (rule map_idI) (use that(2) in \<open>auto simp: list_ex_iff\<close>)
    with that show ?thesis
      by (intro run_from_map [where f = "\<lambda>p. p"]) (auto simp: locking_def list_ex_iff play_defs)
  qed
  show ?thesis
    unfolding reconcile_card_def
    using True
  proof (simp, intro meets_bind_get, goal_cases)
    case (1 changes)
    show ?case
    proof (cases "changes = list_ex (lockable m i) ps")
      case same: True
      have "meets (\<lambda>s. sg_plays s = ps \<and> tame m s)
         (io_then (set_plays (update_plays (lockable m i) (lock_play now))) (if changes then settle_locked nd now m i else io_return ()))
         (\<lambda>_. run_from m i ps) (\<lambda>_. False)"
        by (intro meets_then [OF lock] meets_if settle_locked_runs meets_return) (use same idle in auto)
      then show ?thesis by (rule meets_pre) simp
    next
      case False
      then show ?thesis by (auto simp: meets_def)
    qed
  qed
qed

section \<open>Runs\<close>

text \<open>The attempts that pending plays have left.\<close>

definition attempts_left :: "int \<Rightarrow> play \<Rightarrow> nat" where
  "attempts_left m p = (if pl_state p = Play_pending then nat (m - pl_attempts p) else 0)"

definition total_left :: "int \<Rightarrow> play list \<Rightarrow> nat" where
  "total_left m ps = sum_list (map (attempts_left m) ps)"

lemma play_step_left:
  assumes "play_step m i p p'"
  shows "attempts_left m p' \<le> attempts_left m p" "lockable m i p \<Longrightarrow> attempts_left m p' < attempts_left m p"
  using assms by (auto simp: play_defs attempts_left_def split: if_splits)

lemma total_left_le: "list_all2 (play_step m i) ps ps' \<Longrightarrow> total_left m ps' \<le> total_left m ps"
  unfolding total_left_def by (induction rule: list_all2_induct) (auto dest: play_step_left(1))

lemma total_left_less:
  "list_all2 (play_step m i) ps ps' \<Longrightarrow> p \<in> set ps \<Longrightarrow> lockable m i p \<Longrightarrow> total_left m ps' < total_left m ps"
proof (induction rule: list_all2_induct)
  case (Cons q qs q' qs')
  from total_left_le [OF Cons.hyps(2)] play_step_left [OF Cons.hyps(1)] Cons show ?case
    by (cases "p = q") (fastforce simp: total_left_def)+
qed simp

lemma reconcile_each:
  assumes "tame m s"
  shows "\<exists>u s'. io_each (reconcile_card nd now m) is s = (Inr u, s') \<and> tame m s' \<and>
    total_left m (sg_plays s') \<le> total_left m (sg_plays s) \<and>
    (is \<noteq> [] \<longrightarrow> (\<exists>p \<in> set (sg_plays s). lockable m (hd is) p) \<longrightarrow> total_left m (sg_plays s') < total_left m (sg_plays s))"
  using assms
proof (induction "is" arbitrary: s)
  case Nil
  then show ?case by (simp add: io_return_def)
next
  case (Cons i "is")
  obtain x s1 where x: "reconcile_card nd now m i s = (x, s1)" by fastforce
  note run = reconcile_card_runs [of "sg_plays s" m nd now i]
  from meets_thrown [OF run] x Cons.prems obtain u where u: "x = Inr u" by (cases x) auto
  with meetsD [OF run] x Cons.prems have r: "list_all2 (play_step m i) (sg_plays s) (sg_plays s1)" "tame m s1"
    by (auto simp: run_from_def)
  from Cons.IH [OF r(2)] obtain u' s2 where s2: "io_each (reconcile_card nd now m) is s1 = (Inr u', s2)" "tame m s2"
    "total_left m (sg_plays s2) \<le> total_left m (sg_plays s1)" by blast
  with x u have "io_each (reconcile_card nd now m) (i # is) s = (Inr u', s2)" by (simp add: io_then_def io_bind_def)
  with s2 total_left_le [OF r(1)] total_left_less [OF r(1)] show ?case by fastforce
qed

text \<open>One run: it always completes, and counts down while something is pending.\<close>

lemma reconcile_run:
  fixes cf :: settler_config
  defines "m \<equiv> readPositiveInt (sc_whole cf) (sc_maxAttempts cf) 5"
  assumes "tame m s"
  shows "\<exists>u s'. reconcileFromD1 cf nd now s = (Inr u, s') \<and> tame m s' \<and>
    total_left m (sg_plays s') \<le> total_left m (sg_plays s) - (if total_left m (sg_plays s) = 0 then 0 else 1)"
proof -
  let ?batch = "readPositiveInt (sc_whole cf) (sc_batchLimit cf) 10"
  let ?is = "pending_cards m ?batch (sg_plays s)"
  from reconcile_each [OF assms(2), of nd now ?is] obtain u s' where
    s': "io_each (reconcile_card nd now m) ?is s = (Inr u, s')" "tame m s'"
      "total_left m (sg_plays s') \<le> total_left m (sg_plays s)"
      "?is \<noteq> [] \<Longrightarrow> \<exists>p \<in> set (sg_plays s). lockable m (hd ?is) p \<Longrightarrow> total_left m (sg_plays s') < total_left m (sg_plays s)"
    by blast
  have run: "reconcileFromD1 cf nd now s = (Inr u, s')"
    using s'(1) by (simp add: reconcileFromD1_def Let_def io_bind_def io_get_def m_def)
  have "total_left m (sg_plays s') < total_left m (sg_plays s)" if "total_left m (sg_plays s) \<noteq> 0"
  proof -
    from that obtain p where "p \<in> set (sg_plays s)" "attempts_left m p \<noteq> 0"
      unfolding total_left_def by (metis (no_types, lifting) sum_list_eq_0_iff image_iff list.set_map)
    then have "pl_paycard p \<in> pl_paycard ` set (filter (\<lambda>p. pl_state p = Play_pending \<and> pl_attempts p < m) (sg_plays s))"
      by (auto simp: attempts_left_def split: if_splits)
    moreover have "0 < nat ?batch" using readPositiveInt_pos [of 10 "sc_whole cf" "sc_batchLimit cf"] by simp
    ultimately have ne: "?is \<noteq> []" by (auto simp: pending_cards_def filter_empty_conv)
    then have "hd ?is \<in> set ?is" by simp
    then have "\<exists>p \<in> set (sg_plays s). lockable m (hd ?is) p"
      by (force simp: pending_cards_def lockable_def of_card_def dest!: in_set_takeD)
    with s'(4) ne show ?thesis by blast
  qed
  with run s'(2,3) show ?thesis by (cases "total_left m (sg_plays s) = 0") fastforce+
qed

definition reconcile_runs :: "settler_config \<Rightarrow> ('c settler_node \<times> int) list \<Rightarrow> 'c settling \<Rightarrow> 'c settling" where
  "reconcile_runs cf runs s = fold (\<lambda>(nd, now) t. snd (reconcileFromD1 cf nd now t)) runs s"

lemma runs_finish:
  fixes cf :: settler_config
  defines "m \<equiv> readPositiveInt (sc_whole cf) (sc_maxAttempts cf) 5"
  assumes "tame m s"
  shows "tame m (reconcile_runs cf runs s) \<and>
    total_left m (sg_plays (reconcile_runs cf runs s)) \<le> total_left m (sg_plays s) - length runs"
  using assms(2)
proof (induction runs arbitrary: s)
  case Nil
  then show ?case by (simp add: reconcile_runs_def)
next
  case (Cons r runs)
  obtain nd now where r: "r = (nd, now)" by (cases r)
  from reconcile_run [of cf s nd now] Cons.prems obtain s' where s': "snd (reconcileFromD1 cf nd now s) = s'" "tame m s'"
    "total_left m (sg_plays s') \<le> total_left m (sg_plays s) - (if total_left m (sg_plays s) = 0 then 0 else 1)"
    unfolding m_def by fastforce
  have "reconcile_runs cf (r # runs) s = reconcile_runs cf runs s'" by (simp add: reconcile_runs_def r s'(1))
  with Cons.IH [OF s'(2)] s'(3) show ?case by (auto split: if_splits)
qed

lemma plays_finished:
  assumes "tame m s" "total_left m (sg_plays s) = 0" "p \<in> set (sg_plays s)"
  shows "pl_state p = Play_skipped \<or> pl_state p = Play_settled \<and> pl_paycard p \<in> set (sg_confirmed s)"
proof -
  have "attempts_left m p = 0" using assms(2,3) by (simp add: total_left_def)
  with assms(1,3) show ?thesis
    by (cases "pl_state p") (auto simp: tame_def tame_play_def attempts_left_def)
qed

end
