(* ===== verification/SettlerRelay.thy ===== *)
theory SettlerRelay
  imports Settler ServerBase
begin

text \<open>
  \<open>workers/reconciliation-worker/src/index.ts\<close>, the gasless relay: the keeper submits what a payer
  signed and pays for it. \<open>fetch\<close> returns the promise of a relay without awaiting it, so what a
  relay throws outside its own handlers escapes the \<open>catch\<close> of \<open>fetch\<close>; it is \<open>Inl\<close> here.
\<close>

section \<open>Calls\<close>

datatype keeper_call =
    Keeper_permit "json list"
  | Keeper_open "json list"
  | Keeper_claim "json list"

text \<open>\<open>kn_dry\<close> is \<open>staticCall\<close>: it tells whether the call would succeed and sends nothing.\<close>

record 'c keeper_node =
  kn_dry :: "keeper_call \<Rightarrow> 'c \<Rightarrow> unit result \<times> 'c"
  kn_send :: "keeper_call \<Rightarrow> 'c \<Rightarrow> string result \<times> 'c"
  kn_wait :: "string \<Rightarrow> 'c \<Rightarrow> unit result \<times> 'c"

record 'c keeper =
  kp_chain :: 'c
  kp_calls :: "(keeper_call \<times> string result) list"

record keeper_config =
  kc_relayClaims :: "string option"
  kc_signerKey :: "string option"
  kc_usdc :: "string option"

definition keeper_ask :: "('c \<Rightarrow> 'a result \<times> 'c) \<Rightarrow> ('c keeper, 'a) io" where
  "keeper_ask q s = (let (r, c) = q (kp_chain s) in (r, s\<lparr>kp_chain := c\<rparr>))"

definition keeper_send :: "'c keeper_node \<Rightarrow> keeper_call \<Rightarrow> ('c keeper, string) io" where
  "keeper_send nd call s =
     (let (r, c) = kn_send nd call (kp_chain s) in (r, s\<lparr>kp_chain := c, kp_calls := kp_calls s @ [(call, r)]\<rparr>))"

section \<open>Envelopes\<close>

definition zero_recipient :: "server_values \<Rightarrow> json \<Rightarrow> bool" where
  "zero_recipient sv v \<longleftrightarrow> lower (js_string sv v) = ZeroAddress"

definition bearer_card :: "server_values \<Rightarrow> json \<Rightarrow> bool" where
  "bearer_card sv env0 \<longleftrightarrow>
     opt_prop env0 ''mode'' = JStr ''railscard_bearer'' \<or> zero_recipient sv (opt_prop (opt_prop env0 ''intent'') ''recipient'')"

definition token_envelope :: "'h host_scheme \<Rightarrow> json \<Rightarrow> json result" where
  "token_envelope h token =
     (case token of JStr s \<Rightarrow> decodeEnvelope h s | _ \<Rightarrow> Inl (Error ''token.replace is not a function''))"

definition bigint_of :: "server_values \<Rightarrow> json \<Rightarrow> json result" where
  "bigint_of sv v = bnd (bigint (coercions.truncate sv) v) (\<lambda>n. Inr (JBigint n))"

definition permit_args :: "server_values \<Rightarrow> json \<Rightarrow> json list result" where
  "permit_args sv p =
     bnd (bigint_of sv (opt_prop p ''value'')) (\<lambda>value.
     bnd (bigint_of sv (opt_prop p ''deadline'')) (\<lambda>deadline.
     Inr [opt_prop p ''owner'', opt_prop p ''spender'', value, deadline, opt_prop p ''v'', opt_prop p ''r'', opt_prop p ''s'']))"

definition hub_args :: "server_values \<Rightarrow> json \<Rightarrow> json \<Rightarrow> json list result" where
  "hub_args sv env0 recipient =
     (let i = opt_prop env0 ''intent'' in
      bnd (bigint_of sv (opt_prop i ''totalAllocationPool'')) (\<lambda>pool.
      bnd (bigint_of sv (opt_prop i ''flowVelocityPerSecond'')) (\<lambda>velocity.
      bnd (bigint_of sv (opt_prop i ''genesisTimestamp'')) (\<lambda>genesis.
      bnd (bigint_of sv (opt_prop i ''lifespanSeconds'')) (\<lambda>lifespan.
      bnd (bigint_of sv (opt_prop i ''nonceChannel'')) (\<lambda>nonceChannel.
      bnd (bigint_of sv (opt_prop i ''nonceValue'')) (\<lambda>nonceValue.
      Inr [opt_prop i ''paycardId'', opt_prop i ''metadataHash'', recipient, pool, velocity, genesis, lifespan,
           opt_prop i ''residualDeltaRecipient'', opt_prop env0 ''envelopeSignature'', nonceChannel, nonceValue,
           opt_prop env0 ''payerAddress''])))))))"

section \<open>Relays\<close>

definition empty_text :: "string option \<Rightarrow> bool" where
  "empty_text v \<longleftrightarrow> (case v of None \<Rightarrow> True | Some s \<Rightarrow> s = [])"

definition relay_disabled :: "keeper_config \<Rightarrow> bool" where
  "relay_disabled kc \<longleftrightarrow> lower (case kc_relayClaims kc of None \<Rightarrow> ''true'' | Some v \<Rightarrow> v) = ''false''"

text \<open>The checks both relays begin with; the envelope, or why it is refused.\<close>

definition opened_envelope :: "'h host_scheme \<Rightarrow> keeper_config \<Rightarrow> worker_request \<Rightarrow> (worker_reply + json \<times> json) result" where
  "opened_envelope h kc rq =
     (if relay_disabled kc then Inr (Inl (refusal ''Claim relay is disabled'' 503))
      else if empty_text (kc_signerKey kc) then Inr (Inl (refusal ''Relay signer is not configured'' 503))
      else case wq_body rq of
          None \<Rightarrow> Inr (Inl (refusal ''Invalid JSON body'' 400))
        | Some body \<Rightarrow>
            bnd (get_prop body ''envelopeToken'') (\<lambda>token.
            if \<not> js_truthy token then Inr (Inl (refusal ''Missing envelopeToken'' 400))
            else case token_envelope h token of
                Inl _ \<Rightarrow> Inr (Inl (refusal ''Could not decode envelopeToken'' 400))
              | Inr env0 \<Rightarrow>
                  bnd (get_prop env0 ''intent'') (\<lambda>i.
                  if \<not> js_truthy (opt_prop i ''paycardId'') \<or> \<not> js_truthy (opt_prop env0 ''envelopeSignature'')
                  then Inr (Inl (refusal ''Envelope is missing an intent or signature'' 400))
                  else Inr (Inr (body, env0)))))"

text \<open>The last part of both relays: a dry run, then the call.\<close>

definition sponsor ::
    "'c keeper_node \<Rightarrow> keeper_call \<Rightarrow> string \<Rightarrow> string \<Rightarrow> string \<Rightarrow> (string \<Rightarrow> worker_reply) \<Rightarrow> ('c keeper, worker_reply) io" where
  "sponsor nd call what revert failed reply =
     io_bind (io_catch (io_then (keeper_ask (kn_dry nd call)) (io_return None))
       (\<lambda>e. io_return (Some (refusal (what @ '' not currently valid: '' @ error_text 300 revert e) 409)))) (\<lambda>refused.
     case refused of
       Some r \<Rightarrow> io_return r
     | None \<Rightarrow>
         io_catch
          (io_bind (keeper_send nd call) (\<lambda>hash.
           io_then (keeper_ask (kn_wait nd hash)) (io_return (reply hash))))
          (\<lambda>e. io_return (refusal (error_text 300 failed e) 502)))"

definition sponsored_reply :: "json \<Rightarrow> json \<Rightarrow> string \<Rightarrow> worker_reply" where
  "sponsored_reply env0 recipient hash = jsonResponse
     [(''txHash'', JStr hash), (''paycardId'', opt_prop (opt_prop env0 ''intent'') ''paycardId''), (''recipient'', recipient),
      (''mode'', opt_prop env0 ''mode'')] 200"

text \<open>A permit that does not go through does not stop a claim.\<close>

definition claim_permit :: "server_values \<Rightarrow> 'c keeper_node \<Rightarrow> json \<Rightarrow> ('c keeper, unit) io" where
  "claim_permit sv nd p =
     io_catch
      (io_bind (io_of (permit_args sv p)) (\<lambda>args.
       io_then (keeper_ask (kn_dry nd (Keeper_permit args)))
      (io_bind (keeper_send nd (Keeper_permit args)) (\<lambda>hash. keeper_ask (kn_wait nd hash)))))
      (\<lambda>_. io_return ())"

definition relayClaim ::
    "server_values \<Rightarrow> 'z ethers_scheme \<Rightarrow> 'h host_scheme \<Rightarrow> 'c keeper_node \<Rightarrow> keeper_config \<Rightarrow> unit result \<Rightarrow>
     worker_request \<Rightarrow> ('c keeper, worker_reply) io" where
  "relayClaim sv et h nd kc wallet rq =
     io_bind (io_of (opened_envelope h kc rq)) (\<lambda>opened. case opened of
       Inl r \<Rightarrow> io_return r
     | Inr (body, env0) \<Rightarrow>
         let bearer = bearer_card sv env0;
             claimRecipient = (if bearer then opt_prop body ''claimRecipient''
               else opt_prop (opt_prop env0 ''intent'') ''recipient'') in
         if bearer \<and> \<not> js_truthy claimRecipient then io_return (refusal ''Bearer card requires a claimRecipient address'' 400)
         else if \<not> isAddress et claimRecipient then io_return (refusal ''Invalid claimRecipient address'' 400)
         else
           io_bind (io_of (require (get_address et claimRecipient) ''invalid address'')) (\<lambda>recipient.
           io_then (io_of wallet)
          (if js_truthy (opt_prop env0 ''permit'') \<and> empty_text (kc_usdc kc)
           then io_return (refusal ''USDC address not configured for permit'' 503)
           else
             io_then (if js_truthy (opt_prop env0 ''permit'') then claim_permit sv nd (opt_prop env0 ''permit'') else io_return ())
            (io_bind (io_of (hub_args sv env0 (JStr recipient))) (\<lambda>args.
             sponsor nd (if bearer then Keeper_claim args else Keeper_open args) ''Claim'' ''claim would revert''
               ''relay submit failed'' (sponsored_reply env0 (JStr recipient)))))))"

text \<open>A permit that does not go through stops an opening.\<close>

definition open_permit :: "server_values \<Rightarrow> 'c keeper_node \<Rightarrow> json \<Rightarrow> ('c keeper, worker_reply option) io" where
  "open_permit sv nd p =
     io_bind (io_catch
       (io_bind (io_of (permit_args sv p)) (\<lambda>args. io_then (keeper_ask (kn_dry nd (Keeper_permit args))) (io_return (Inr args))))
       (\<lambda>e. case e of Error msg \<Rightarrow> io_return (Inl (refusal (''Permit not valid: '' @ take 240 msg) 409)))) (\<lambda>dry. case dry of
         Inl r \<Rightarrow> io_return (Some r)
       | Inr args \<Rightarrow>
           io_catch
            (io_bind (keeper_send nd (Keeper_permit args)) (\<lambda>hash. io_then (keeper_ask (kn_wait nd hash)) (io_return None)))
            (\<lambda>e. io_return (Some (refusal (error_text 300 ''permit submit failed'' e) 502))))"

definition relayOpen ::
    "server_values \<Rightarrow> 'h host_scheme \<Rightarrow> 'c keeper_node \<Rightarrow> keeper_config \<Rightarrow> unit result \<Rightarrow>
     worker_request \<Rightarrow> ('c keeper, worker_reply) io" where
  "relayOpen sv h nd kc wallet rq =
     io_bind (io_of (opened_envelope h kc rq)) (\<lambda>opened. case opened of
       Inl r \<Rightarrow> io_return r
     | Inr (body, env0) \<Rightarrow>
         let recipient = opt_prop (opt_prop env0 ''intent'') ''recipient''; permit = opt_prop body ''permit'' in
         if zero_recipient sv recipient
         then io_return (refusal ''relay-open needs a fixed recipient; use /relay-claim for bearer cards'' 400)
         else
           io_then (io_of wallet)
          (if js_truthy permit \<and> empty_text (kc_usdc kc) then io_return (refusal ''USDC address not configured for permit'' 503)
           else
             io_bind (if js_truthy permit then open_permit sv nd permit else io_return None) (\<lambda>refused. case refused of
               Some r \<Rightarrow> io_return r
             | None \<Rightarrow>
                 io_bind (io_of (hub_args sv env0 recipient)) (\<lambda>args.
                 sponsor nd (Keeper_open args) ''Open'' ''open would revert'' ''relay open failed''
                   (sponsored_reply env0 recipient)))))"

section \<open>Dispatch\<close>

definition settler_fetch ::
    "server_values \<Rightarrow> 'z ethers_scheme \<Rightarrow> 'h host_scheme \<Rightarrow> 'c keeper_node \<Rightarrow> 'c settler_node \<Rightarrow> keeper_config \<Rightarrow> settler_config \<Rightarrow>
     unit result \<Rightarrow> int \<Rightarrow> worker_request \<Rightarrow> 'c keeper \<times> 'c settling \<Rightarrow> worker_reply result \<times> 'c keeper \<times> 'c settling" where
  "settler_fetch sv et h nd sn kc cf wallet now rq st =
     (let k = fst st; s = snd st;
          post = (\<lambda>next. if wq_method rq \<noteq> ''POST'' then (Inr (refusal ''Only POST requests allowed'' 405), st) else next) in
      if wq_method rq = ''OPTIONS'' then (Inr \<lparr>wr_status = 204, wr_body = JUndefined\<rparr>, st)
      else if wq_path rq = ''/relay-claim'' then
        post (let (r, k') = relayClaim sv et h nd kc wallet rq k in (r, k', s\<lparr>sg_chain := kp_chain k'\<rparr>))
      else if wq_path rq = ''/relay-open'' then
        post (let (r, k') = relayOpen sv h nd kc wallet rq k in (r, k', s\<lparr>sg_chain := kp_chain k'\<rparr>))
      else if wq_path rq = ''/reconcile'' then
        post
         (if empty_text (sc_adminToken cf) then (Inr (refusal ''Reconciliation admin token is not configured'' 503), st)
          else if \<not> worker_authorized ''x-openrails-admin-token'' rq (sc_adminToken cf) then (Inr (refusal ''Unauthorized'' 401), st)
          else
            let (r, s') = reconcileStreams cf sn now s in
            (case r of
               Inl (Error msg) \<Rightarrow> Inr (refusal msg 500)
             | Inr _ \<Rightarrow> Inr (jsonResponse [(''success'', JBool True), (''message'', JStr ''Reconciliation triggered successfully'')] 200),
             k\<lparr>kp_chain := sg_chain s'\<rparr>, s'))
      else (Inr (refusal ''Not Found'' 404), st))"

section \<open>What a relay sends\<close>

text \<open>A hub call goes out at most once, after its dry run, and the reply tells what became of it.\<close>

definition dry_run_passed :: "'c keeper_node \<Rightarrow> keeper_call \<Rightarrow> bool" where
  "dry_run_passed nd call \<longleftrightarrow> (\<exists>c. fst (kn_dry nd call c) = Inr ())"

lemma dry_run_passedI: "kn_dry nd call c = (Inr u, c') \<Longrightarrow> dry_run_passed nd call"
  by (auto simp: dry_run_passed_def intro!: exI [of _ c])

definition sponsored :: "'c keeper_node \<Rightarrow> keeper_call \<Rightarrow> (keeper_call \<times> string result) list \<Rightarrow> worker_reply \<Rightarrow> 'c keeper \<Rightarrow> bool" where
  "sponsored nd call before r s \<longleftrightarrow>
     (kp_calls s = before \<and> wr_status r = 409) \<or>
     (\<exists>res. kp_calls s = before @ [(call, res)] \<and> dry_run_passed nd call \<and>
        (wr_status r = 502 \<or> wr_status r = 200 \<and> (\<exists>hash. res = Inr hash)))"

lemma wr_status_simps [simp]:
  "wr_status (jsonResponse b n) = n" "wr_status (refusal m n) = n" "wr_status (sponsored_reply e a h) = 200"
  by (simp_all add: jsonResponse_def refusal_def sponsored_reply_def)

lemma meets_keeper_ask [io_rules]:
  "(\<And>x s c. P s \<Longrightarrow> q (kp_chain s) = (Inr x, c) \<Longrightarrow> Q x (s\<lparr>kp_chain := c\<rparr>)) \<Longrightarrow>
   (\<And>e s c. P s \<Longrightarrow> q (kp_chain s) = (Inl e, c) \<Longrightarrow> I (s\<lparr>kp_chain := c\<rparr>)) \<Longrightarrow> meets P (keeper_ask q) Q I"
  by (auto simp: meets_def keeper_ask_def split: prod.splits sum.splits)

lemma meets_keeper_send [io_rules]:
  "(\<And>x s c. P s \<Longrightarrow> Q x (s\<lparr>kp_chain := c, kp_calls := kp_calls s @ [(call, Inr x)]\<rparr>)) \<Longrightarrow>
   (\<And>e s c. P s \<Longrightarrow> I (s\<lparr>kp_chain := c, kp_calls := kp_calls s @ [(call, Inl e)]\<rparr>)) \<Longrightarrow>
   meets P (keeper_send nd call) Q I"
  by (auto simp: meets_def keeper_send_def split: prod.splits sum.splits)

lemma sponsor_sends:
  assumes "\<And>hash. wr_status (reply hash) = 200"
  shows "meets (\<lambda>s. kp_calls s = before) (sponsor nd call what revert failed reply) (sponsored nd call before) (\<lambda>_. False)"
proof -
  have dry: "meets (\<lambda>s. kp_calls s = before)
      (io_catch (io_then (keeper_ask (kn_dry nd call)) (io_return None))
        (\<lambda>e. io_return (Some (refusal (what @ '' not currently valid: '' @ error_text 300 revert e) 409))))
      (\<lambda>v s. kp_calls s = before \<and>
        (case v of None \<Rightarrow> dry_run_passed nd call | Some r \<Rightarrow> wr_status r = 409)) (\<lambda>_. False)"
    by (rule meets_catch [where R = "\<lambda>s. kp_calls s = before"],
        rule meets_then [where R = "\<lambda>s. kp_calls s = before \<and> dry_run_passed nd call"])
       (auto intro!: meets_keeper_ask meets_return dest: dry_run_passedI)
  have run: "meets (\<lambda>s. kp_calls s = before \<and> dry_run_passed nd call)
      (io_catch (io_bind (keeper_send nd call) (\<lambda>hash. io_then (keeper_ask (kn_wait nd hash)) (io_return (reply hash))))
        (\<lambda>e. io_return (refusal (error_text 300 failed e) 502))) (sponsored nd call before) (\<lambda>_. False)"
    by (rule meets_catch [where R = "\<lambda>s. dry_run_passed nd call \<and> (\<exists>res. kp_calls s = before @ [(call, res)])"],
        rule meets_bind [where R = "\<lambda>h s. dry_run_passed nd call \<and> kp_calls s = before @ [(call, Inr h)]"])
       (auto intro!: meets_keeper_ask meets_keeper_send meets_return meets_then
          [where R = "\<lambda>s. dry_run_passed nd call \<and> (\<exists>h. kp_calls s = before @ [(call, Inr h)])"]
          simp: sponsored_def assms)
  show ?thesis
    unfolding sponsor_def
  proof (rule meets_bind [OF dry])
    fix v
    show "meets (\<lambda>s. kp_calls s = before \<and> (case v of None \<Rightarrow> dry_run_passed nd call | Some r \<Rightarrow> wr_status r = 409))
      (case v of None \<Rightarrow> io_catch (io_bind (keeper_send nd call) (\<lambda>hash. io_then (keeper_ask (kn_wait nd hash)) (io_return (reply hash))))
        (\<lambda>e. io_return (refusal (error_text 300 failed e) 502)) | Some r \<Rightarrow> io_return r) (sponsored nd call before) (\<lambda>_. False)"
      using run by (cases v) (auto intro!: meets_return simp: sponsored_def)
  qed
qed

text \<open>
  What a relay of an envelope may send, \<open>ps\<close> for the permit and \<open>hs\<close> for the hub: at most one permit,
  with the fields of the permit attached, then at most one hub call, among \<open>allowed\<close>, whose dry run
  passed; a reply 200 stands for a hub call submitted.
\<close>

definition relay_sends ::
    "server_values \<Rightarrow> 'c keeper_node \<Rightarrow> json \<Rightarrow> keeper_call set \<Rightarrow> (keeper_call \<times> string result) list \<Rightarrow>
     worker_reply result \<Rightarrow> 'c keeper \<Rightarrow> bool" where
  "relay_sends sv nd permit allowed before res s \<longleftrightarrow>
     (\<exists>ps hs. kp_calls s = before @ ps @ hs \<and> length ps \<le> 1 \<and> length hs \<le> 1 \<and>
        (\<forall>c \<in> fst ` set ps. \<exists>args. permit_args sv permit = Inr args \<and> c = Keeper_permit args) \<and>
        (\<forall>c \<in> fst ` set hs. c \<in> allowed \<and> dry_run_passed nd c) \<and>
        (\<forall>r. res = Inr r \<longrightarrow> wr_status r = 200 \<longrightarrow> (\<exists>c hash. hs = [(c, Inr hash)])) \<and>
        (\<forall>r. res = Inr r \<longrightarrow> hs \<noteq> [] \<longrightarrow> wr_status r \<in> {200, 502}) \<and>
        (\<forall>e. res = Inl e \<longrightarrow> hs = []))"

definition permits_sent :: "server_values \<Rightarrow> json \<Rightarrow> (keeper_call \<times> string result) list \<Rightarrow> 'c keeper \<Rightarrow> bool" where
  "permits_sent sv permit before s \<longleftrightarrow>
     (\<exists>ps. kp_calls s = before @ ps \<and> length ps \<le> 1 \<and>
        (\<forall>c \<in> fst ` set ps. \<exists>args. permit_args sv permit = Inr args \<and> c = Keeper_permit args))"

lemma permits_none: "kp_calls s = before \<Longrightarrow> permits_sent sv permit before s"
  by (auto simp: permits_sent_def)

lemma permits_refused:
  "permits_sent sv permit before s \<Longrightarrow> (\<forall>r. res = Inr r \<longrightarrow> wr_status r \<noteq> 200) \<Longrightarrow> relay_sends sv nd permit allowed before res s"
  unfolding permits_sent_def relay_sends_def
  by (elim exE, rule exI, rule exI [of _ "[]"]) auto

lemma sponsored_sends:
  assumes "permits_sent sv permit before t" "sponsored nd call (kp_calls t) r s" "call \<in> allowed"
  shows "relay_sends sv nd permit allowed before (Inr r) s"
proof -
  from assms(1) obtain ps where ps: "kp_calls t = before @ ps" "length ps \<le> 1"
      "\<forall>c \<in> fst ` set ps. \<exists>args. permit_args sv permit = Inr args \<and> c = Keeper_permit args"
    by (auto simp: permits_sent_def)
  from assms(2) show ?thesis
    unfolding sponsored_def
  proof (elim disjE exE conjE)
    assume "kp_calls s = kp_calls t" "wr_status r = 409"
    with assms(1) show ?thesis by (intro permits_refused) (auto simp: permits_sent_def)
  next
    fix res
    assume "kp_calls s = kp_calls t @ [(call, res)]" "dry_run_passed nd call" "wr_status r = 502"
    with ps assms(3) show ?thesis
      unfolding relay_sends_def by (intro exI [of _ ps] exI [of _ "[(call, res)]"]) auto
  next
    fix res hash
    assume "kp_calls s = kp_calls t @ [(call, res)]" "dry_run_passed nd call" "wr_status r = 200" "res = Inr hash"
    with ps assms(3) show ?thesis
      unfolding relay_sends_def by (intro exI [of _ ps] exI [of _ "[(call, res)]"]) auto
  qed
qed

lemma meets_sponsor:
  assumes "call \<in> allowed" "\<And>hash. wr_status (reply hash) = 200"
  shows "meets (permits_sent sv permit before) (sponsor nd call what revert failed reply)
    (\<lambda>r. relay_sends sv nd permit allowed before (Inr r)) I"
proof (rule meets_with)
  fix t :: "'a keeper"
  assume t: "permits_sent sv permit before t"
  show "meets (\<lambda>u. u = t) (sponsor nd call what revert failed reply) (\<lambda>r. relay_sends sv nd permit allowed before (Inr r)) I"
    by (rule meets_pre [OF meets_post [OF sponsor_sends [of reply "kp_calls t", OF assms(2)]]])
       (auto intro: sponsored_sends [OF t _ assms(1)])
qed

lemma opened_envelope_refuses: "opened_envelope h kc rq = Inr (Inl r) \<Longrightarrow> wr_status r \<noteq> 200"
  by (auto simp: opened_envelope_def bnd_def split: if_splits option.splits sum.splits)

definition claim_calls :: "server_values \<Rightarrow> 'z ethers_scheme \<Rightarrow> json \<Rightarrow> json \<Rightarrow> keeper_call set" where
  "claim_calls sv et body env0 =
     {c. \<exists>who args. hub_args sv env0 (JStr who) = Inr args \<and>
        (if bearer_card sv env0
         then get_address et (opt_prop body ''claimRecipient'') = Some who \<and> c = Keeper_claim args
         else get_address et (opt_prop (opt_prop env0 ''intent'') ''recipient'') = Some who \<and> c = Keeper_open args)}"

definition open_calls :: "server_values \<Rightarrow> json \<Rightarrow> keeper_call set" where
  "open_calls sv env0 =
     {c. \<not> zero_recipient sv (opt_prop (opt_prop env0 ''intent'') ''recipient'') \<and>
        (\<exists>args. hub_args sv env0 (opt_prop (opt_prop env0 ''intent'') ''recipient'') = Inr args \<and> c = Keeper_open args)}"

lemma claim_permit_sends:
  "meets (\<lambda>s. kp_calls s = before) (claim_permit sv nd p) (\<lambda>_. permits_sent sv p before) (permits_sent sv p before)"
  unfolding claim_permit_def
proof (rule meets_catch [where R = "permits_sent sv p before"])
  show "meets (\<lambda>s. kp_calls s = before) (io_bind (io_of (permit_args sv p)) (\<lambda>args.
      io_then (keeper_ask (kn_dry nd (Keeper_permit args)))
        (io_bind (keeper_send nd (Keeper_permit args)) (\<lambda>hash. keeper_ask (kn_wait nd hash)))))
      (\<lambda>_. permits_sent sv p before) (permits_sent sv p before)"
  proof (rule meets_bind [where R = "\<lambda>args s. permit_args sv p = Inr args \<and> kp_calls s = before"])
    fix args
    show "meets (\<lambda>s. permit_args sv p = Inr args \<and> kp_calls s = before)
        (io_then (keeper_ask (kn_dry nd (Keeper_permit args)))
          (io_bind (keeper_send nd (Keeper_permit args)) (\<lambda>hash. keeper_ask (kn_wait nd hash))))
        (\<lambda>_. permits_sent sv p before) (permits_sent sv p before)"
      by (rule meets_then [where R = "\<lambda>s. permit_args sv p = Inr args \<and> kp_calls s = before"],
          rule meets_keeper_ask, simp, simp add: permits_none,
          rule meets_bind [where R = "\<lambda>_. permits_sent sv p before"])
         (auto intro!: meets_keeper_ask meets_keeper_send simp: permits_sent_def)
  qed (auto intro!: meets_of simp: permits_none)
qed (simp add: meets_return)

lemma open_permit_sends:
  "meets (\<lambda>s. kp_calls s = before) (open_permit sv nd p)
     (\<lambda>v s. permits_sent sv p before s \<and> (\<forall>r. v = Some r \<longrightarrow> wr_status r \<noteq> 200)) (permits_sent sv p before)"
  unfolding open_permit_def
proof (rule meets_bind [where R = "\<lambda>v s. kp_calls s = before \<and>
    (case v of Inl r \<Rightarrow> wr_status r \<noteq> 200 | Inr args \<Rightarrow> permit_args sv p = Inr args)"])
  show "meets (\<lambda>s. kp_calls s = before)
      (io_catch (io_bind (io_of (permit_args sv p)) (\<lambda>args. io_then (keeper_ask (kn_dry nd (Keeper_permit args))) (io_return (Inr args))))
        (\<lambda>e. case e of Error msg \<Rightarrow> io_return (Inl (refusal (''Permit not valid: '' @ take 240 msg) 409))))
      (\<lambda>v s. kp_calls s = before \<and> (case v of Inl r \<Rightarrow> wr_status r \<noteq> 200 | Inr args \<Rightarrow> permit_args sv p = Inr args))
      (permits_sent sv p before)"
    by (rule meets_catch [where R = "\<lambda>s. kp_calls s = before"],
        rule meets_bind [where R = "\<lambda>args s. permit_args sv p = Inr args \<and> kp_calls s = before"], simp add: meets_of,
        rule meets_then [where R = "\<lambda>s. kp_calls s = before \<and> permit_args sv p = Inr _"])
       (auto intro!: meets_keeper_ask meets_return split: js_error.splits)
next
  fix v
  show "meets (\<lambda>s. kp_calls s = before \<and> (case v of Inl r \<Rightarrow> wr_status r \<noteq> 200 | Inr args \<Rightarrow> permit_args sv p = Inr args))
      (case v of Inl r \<Rightarrow> io_return (Some r)
       | Inr args \<Rightarrow> io_catch
           (io_bind (keeper_send nd (Keeper_permit args)) (\<lambda>hash. io_then (keeper_ask (kn_wait nd hash)) (io_return None)))
           (\<lambda>e. io_return (Some (refusal (error_text 300 ''permit submit failed'' e) 502))))
      (\<lambda>v s. permits_sent sv p before s \<and> (\<forall>r. v = Some r \<longrightarrow> wr_status r \<noteq> 200)) (permits_sent sv p before)"
  proof (cases v)
    case (Inr args)
    then show ?thesis
      by (simp, intro meets_catch [where R = "permits_sent sv p before"]
          meets_bind [where R = "\<lambda>_. permits_sent sv p before"] meets_then [where R = "permits_sent sv p before"])
         (auto intro!: meets_keeper_ask meets_keeper_send meets_return simp: permits_sent_def)
  qed (auto intro!: meets_return simp: permits_none)
qed

lemma meets_refused_after:
  "(\<And>r. m = Inr r \<Longrightarrow> wr_status r \<noteq> 200) \<Longrightarrow>
   meets (permits_sent sv permit before) (io_of m)
     (\<lambda>r. relay_sends sv nd permit allowed before (Inr r)) (\<lambda>s. \<exists>e. relay_sends sv nd permit allowed before (Inl e) s)"
  by (auto simp: meets_def io_of_def intro!: permits_refused split: sum.splits)

lemma io_return_of: "io_return r = io_of (Inr r)"
  by (simp add: fun_eq_iff io_return_def io_of_def)

text \<open>A relay after its envelope has been opened.\<close>

lemma hub_step:
  assumes "\<And>args. hub = Inr args \<Longrightarrow> call args \<in> allowed" "\<And>hash. wr_status (reply hash) = 200"
  shows "meets (permits_sent sv permit before) (io_bind (io_of hub) (\<lambda>args. sponsor nd (call args) what revert failed reply))
    (\<lambda>r. relay_sends sv nd permit allowed before (Inr r)) (\<lambda>s. \<exists>e. relay_sends sv nd permit allowed before (Inl e) s)"
proof (rule meets_bind [where R = "\<lambda>args s. call args \<in> allowed \<and> permits_sent sv permit before s"])
  show "meets (permits_sent sv permit before) (io_of hub) (\<lambda>args s. call args \<in> allowed \<and> permits_sent sv permit before s)
    (\<lambda>s. \<exists>e. relay_sends sv nd permit allowed before (Inl e) s)"
    by (rule meets_of) (auto intro: assms(1) permits_refused)
next
  fix args
  show "meets (\<lambda>s. call args \<in> allowed \<and> permits_sent sv permit before s) (sponsor nd (call args) what revert failed reply)
    (\<lambda>r. relay_sends sv nd permit allowed before (Inr r)) (\<lambda>s. \<exists>e. relay_sends sv nd permit allowed before (Inl e) s)"
    by (cases "call args \<in> allowed") (auto intro!: meets_sponsor assms(2) simp: meets_def [of "\<lambda>_. False"])
qed

abbreviation relays ::
    "server_values \<Rightarrow> 'c keeper_node \<Rightarrow> json \<Rightarrow> keeper_call set \<Rightarrow> (keeper_call \<times> string result) list \<Rightarrow> ('c keeper, worker_reply) io \<Rightarrow> bool" where
  "relays sv nd permit allowed before m \<equiv> meets (\<lambda>s. kp_calls s = before) m
     (\<lambda>r. relay_sends sv nd permit allowed before (Inr r)) (\<lambda>s. \<exists>e. relay_sends sv nd permit allowed before (Inl e) s)"

lemma relays_of: "(\<And>r. m = Inr r \<Longrightarrow> wr_status r \<noteq> 200) \<Longrightarrow> relays sv nd permit allowed before (io_of m)"
  by (rule meets_pre [OF meets_refused_after]) (auto simp: permits_none)

lemma relays_return: "wr_status r \<noteq> 200 \<Longrightarrow> relays sv nd permit allowed before (io_return r)"
  unfolding io_return_of by (rule relays_of) simp

lemma relays_bind_of:
  "(\<And>x. m = Inr x \<Longrightarrow> relays sv nd permit allowed before (k x)) \<Longrightarrow> relays sv nd permit allowed before (io_bind (io_of m) k)"
  by (cases m) (auto intro!: meets_throw permits_refused simp: permits_none)

lemma relays_then_of:
  "relays sv nd permit allowed before k \<Longrightarrow> relays sv nd permit allowed before (io_then (io_of m) k)"
  unfolding io_then_def by (rule relays_bind_of)

lemma relays_then:
  "relays sv nd permit allowed before k" if
  "meets (\<lambda>s. kp_calls s = before) m (\<lambda>_. permits_sent sv permit before) (permits_sent sv permit before)"
  "meets (permits_sent sv permit before) n (\<lambda>r. relay_sends sv nd permit allowed before (Inr r))
     (\<lambda>s. \<exists>e. relay_sends sv nd permit allowed before (Inl e) s)"
  "k = io_then m n"
  unfolding that(3)
  by (rule meets_then [OF meets_post [OF that(1)] that(2)]) (auto intro: permits_refused)

lemma opened_relays:
  assumes "\<And>body env0. opened_envelope h kc rq = Inr (Inr (body, env0)) \<Longrightarrow> relays sv nd permit allowed before (k body env0)"
  shows "relays sv nd permit allowed before (io_bind (io_of (opened_envelope h kc rq)) (\<lambda>opened. case opened of
       Inl r \<Rightarrow> io_return r | Inr (body, env0) \<Rightarrow> k body env0))"
  by (rule relays_bind_of) (auto intro!: relays_return assms dest: opened_envelope_refuses split: sum.splits)

definition claim_permit_of :: "'h host_scheme \<Rightarrow> keeper_config \<Rightarrow> worker_request \<Rightarrow> json" where
  "claim_permit_of h kc rq = (case opened_envelope h kc rq of Inr (Inr (body, env0)) \<Rightarrow> opt_prop env0 ''permit'' | _ \<Rightarrow> JUndefined)"

definition claims_of :: "server_values \<Rightarrow> 'z ethers_scheme \<Rightarrow> 'h host_scheme \<Rightarrow> keeper_config \<Rightarrow> worker_request \<Rightarrow> keeper_call set" where
  "claims_of sv et h kc rq = (case opened_envelope h kc rq of Inr (Inr (body, env0)) \<Rightarrow> claim_calls sv et body env0 | _ \<Rightarrow> {})"

theorem relayClaim_relays:
  "relays sv nd (claim_permit_of h kc rq) (claims_of sv et h kc rq) before (relayClaim sv et h nd kc wallet rq)"
  unfolding relayClaim_def
proof (rule opened_relays)
  fix body env0
  assume op: "opened_envelope h kc rq = Inr (Inr (body, env0))"
  define who where "who = (if bearer_card sv env0 then opt_prop body ''claimRecipient'' else opt_prop (opt_prop env0 ''intent'') ''recipient'')"
  have hub: "meets (permits_sent sv (opt_prop env0 ''permit'') before)
      (io_bind (io_of (hub_args sv env0 (JStr recipient))) (\<lambda>args.
         sponsor nd (if bearer_card sv env0 then Keeper_claim args else Keeper_open args) ''Claim'' ''claim would revert''
           ''relay submit failed'' (sponsored_reply env0 (JStr recipient))))
      (\<lambda>r. relay_sends sv nd (opt_prop env0 ''permit'') (claim_calls sv et body env0) before (Inr r))
      (\<lambda>s. \<exists>e. relay_sends sv nd (opt_prop env0 ''permit'') (claim_calls sv et body env0) before (Inl e) s)"
    if "require (get_address et who) ''invalid address'' = Inr recipient" for recipient
    using that by (intro hub_step) (auto simp: who_def claim_calls_def require_def split: option.splits if_splits)
  have permit: "meets (\<lambda>s. kp_calls s = before)
      (if js_truthy (opt_prop env0 ''permit'') then claim_permit sv nd (opt_prop env0 ''permit'') else io_return ())
      (\<lambda>_. permits_sent sv (opt_prop env0 ''permit'') before) (permits_sent sv (opt_prop env0 ''permit'') before)"
    by (auto intro!: claim_permit_sends meets_return permits_none)
  show "relays sv nd (claim_permit_of h kc rq) (claims_of sv et h kc rq) before
     (let bearer = bearer_card sv env0;
          claimRecipient = if bearer then opt_prop body ''claimRecipient'' else opt_prop (opt_prop env0 ''intent'') ''recipient''
      in if bearer \<and> \<not> js_truthy claimRecipient then io_return (refusal ''Bearer card requires a claimRecipient address'' 400)
         else if \<not> isAddress et claimRecipient then io_return (refusal ''Invalid claimRecipient address'' 400)
         else io_bind (io_of (require (get_address et claimRecipient) ''invalid address'')) (\<lambda>recipient.
           io_then (io_of wallet)
            (if js_truthy (opt_prop env0 ''permit'') \<and> empty_text (kc_usdc kc)
             then io_return (refusal ''USDC address not configured for permit'' 503)
             else io_then (if js_truthy (opt_prop env0 ''permit'') then claim_permit sv nd (opt_prop env0 ''permit'') else io_return ())
               (io_bind (io_of (hub_args sv env0 (JStr recipient))) (\<lambda>args.
                 sponsor nd (if bearer then Keeper_claim args else Keeper_open args) ''Claim'' ''claim would revert''
                   ''relay submit failed'' (sponsored_reply env0 (JStr recipient)))))))"
    unfolding Let_def claim_permit_of_def claims_of_def op sum.case prod.case who_def [symmetric]
    by (intro meets_if relays_return relays_bind_of relays_then_of relays_then [OF permit hub]) simp_all
qed

definition open_permit_of :: "'h host_scheme \<Rightarrow> keeper_config \<Rightarrow> worker_request \<Rightarrow> json" where
  "open_permit_of h kc rq = (case opened_envelope h kc rq of Inr (Inr (body, env0)) \<Rightarrow> opt_prop body ''permit'' | _ \<Rightarrow> JUndefined)"

definition opens_of :: "server_values \<Rightarrow> 'h host_scheme \<Rightarrow> keeper_config \<Rightarrow> worker_request \<Rightarrow> keeper_call set" where
  "opens_of sv h kc rq = (case opened_envelope h kc rq of Inr (Inr (body, env0)) \<Rightarrow> open_calls sv env0 | _ \<Rightarrow> {})"

theorem relayOpen_relays:
  "relays sv nd (open_permit_of h kc rq) (opens_of sv h kc rq) before (relayOpen sv h nd kc wallet rq)"
  unfolding relayOpen_def
proof (rule opened_relays)
  fix body env0
  assume op: "opened_envelope h kc rq = Inr (Inr (body, env0))"
  define who where "who = opt_prop (opt_prop env0 ''intent'') ''recipient''"
  define permit where "permit = opt_prop body ''permit''"
  have hub: "meets (permits_sent sv permit before)
      (io_bind (io_of (hub_args sv env0 who)) (\<lambda>args. sponsor nd (Keeper_open args) ''Open'' ''open would revert''
         ''relay open failed'' (sponsored_reply env0 who)))
      (\<lambda>r. relay_sends sv nd permit (open_calls sv env0) before (Inr r))
      (\<lambda>s. \<exists>e. relay_sends sv nd permit (open_calls sv env0) before (Inl e) s)"
    if "\<not> zero_recipient sv who"
    using that by (intro hub_step) (auto simp: who_def open_calls_def)
  have step: "meets (\<lambda>s. kp_calls s = before) (if js_truthy permit then open_permit sv nd permit else io_return None)
      (\<lambda>v s. permits_sent sv permit before s \<and> (\<forall>r. v = Some r \<longrightarrow> wr_status r \<noteq> 200)) (permits_sent sv permit before)"
    by (auto intro!: open_permit_sends meets_return permits_none)
  have all: "relays sv nd permit (open_calls sv env0) before
      (io_bind (if js_truthy permit then open_permit sv nd permit else io_return None) (\<lambda>refused. case refused of
         Some r \<Rightarrow> io_return r
       | None \<Rightarrow> io_bind (io_of (hub_args sv env0 who)) (\<lambda>args.
           sponsor nd (Keeper_open args) ''Open'' ''open would revert'' ''relay open failed'' (sponsored_reply env0 who))))"
    if z: "\<not> zero_recipient sv who"
  proof (rule meets_bind)
    show "meets (\<lambda>s. kp_calls s = before) (if js_truthy permit then open_permit sv nd permit else io_return None)
      (\<lambda>v s. permits_sent sv permit before s \<and> (\<forall>r. v = Some r \<longrightarrow> wr_status r \<noteq> 200))
      (\<lambda>s. \<exists>e. relay_sends sv nd permit (open_calls sv env0) before (Inl e) s)"
      by (rule meets_post [OF step]) (auto intro: permits_refused)
    fix v
    show "meets (\<lambda>s. permits_sent sv permit before s \<and> (\<forall>r. v = Some r \<longrightarrow> wr_status r \<noteq> 200))
      (case v of Some r \<Rightarrow> io_return r
       | None \<Rightarrow> io_bind (io_of (hub_args sv env0 who)) (\<lambda>args.
           sponsor nd (Keeper_open args) ''Open'' ''open would revert'' ''relay open failed'' (sponsored_reply env0 who)))
      (\<lambda>r. relay_sends sv nd permit (open_calls sv env0) before (Inr r))
      (\<lambda>s. \<exists>e. relay_sends sv nd permit (open_calls sv env0) before (Inl e) s)"
      using hub [OF z] by (cases v) (auto intro!: meets_return permits_refused)
  qed
  show "relays sv nd (open_permit_of h kc rq) (opens_of sv h kc rq) before
     (let recipient = opt_prop (opt_prop env0 ''intent'') ''recipient''; permit = opt_prop body ''permit'' in
      if zero_recipient sv recipient
      then io_return (refusal ''relay-open needs a fixed recipient; use /relay-claim for bearer cards'' 400)
      else io_then (io_of wallet)
       (if js_truthy permit \<and> empty_text (kc_usdc kc) then io_return (refusal ''USDC address not configured for permit'' 503)
        else io_bind (if js_truthy permit then open_permit sv nd permit else io_return None) (\<lambda>refused. case refused of
            Some r \<Rightarrow> io_return r
          | None \<Rightarrow> io_bind (io_of (hub_args sv env0 recipient)) (\<lambda>args.
              sponsor nd (Keeper_open args) ''Open'' ''open would revert'' ''relay open failed'' (sponsored_reply env0 recipient)))))"
    unfolding Let_def open_permit_of_def opens_of_def op sum.case prod.case who_def [symmetric] permit_def [symmetric]
    by (intro meets_if relays_return relays_then_of all) simp_all
qed

section \<open>What a request does\<close>

lemma relays_sends:
  assumes "relays sv nd permit allowed (kp_calls s) m" "m s = (res, s')"
  shows "relay_sends sv nd permit allowed (kp_calls s) res s'"
proof (cases res)
  case (Inl e)
  with meets_thrown [OF assms(1), of s] assms(2) obtain e' where "relay_sends sv nd permit allowed (kp_calls s) (Inl e') s'" by auto
  with Inl show ?thesis by (auto simp: relay_sends_def)
next
  case (Inr r)
  with meetsD [OF assms(1), of s] assms(2) show ?thesis by auto
qed

text \<open>The permits and hub calls that a request asks for.\<close>

definition asked_permit :: "'h host_scheme \<Rightarrow> keeper_config \<Rightarrow> worker_request \<Rightarrow> json" where
  "asked_permit h kc rq =
     (if wq_path rq = ''/relay-claim'' then claim_permit_of h kc rq
      else if wq_path rq = ''/relay-open'' then open_permit_of h kc rq else JUndefined)"

definition asked_calls :: "server_values \<Rightarrow> 'z ethers_scheme \<Rightarrow> 'h host_scheme \<Rightarrow> keeper_config \<Rightarrow> worker_request \<Rightarrow> keeper_call set" where
  "asked_calls sv et h kc rq =
     (if wq_method rq \<noteq> ''POST'' then {}
      else if wq_path rq = ''/relay-claim'' then claims_of sv et h kc rq
      else if wq_path rq = ''/relay-open'' then opens_of sv h kc rq else {})"

lemma relay_sends_none: "kp_calls s' = before \<Longrightarrow> (\<forall>r. res = Inr r \<longrightarrow> wr_status r \<noteq> 200) \<Longrightarrow> relay_sends sv nd permit allowed before res s'"
  by (rule permits_refused) (auto intro: permits_none)

theorem settler_fetch_relays:
  assumes "settler_fetch sv et h nd sn kc cf wallet now rq (k, s) = (res, k', s')" "wq_path rq \<noteq> ''/reconcile''"
  shows "relay_sends sv nd (asked_permit h kc rq) (asked_calls sv et h kc rq) (kp_calls k) res k'"
    and "sg_sent s' = sg_sent s"
proof -
  have claim: "relay_sends sv nd (claim_permit_of h kc rq) (claims_of sv et h kc rq) (kp_calls k) res k'"
    if "relayClaim sv et h nd kc wallet rq k = (res, k')"
    by (rule relays_sends [OF relayClaim_relays that])
  have "open": "relay_sends sv nd (open_permit_of h kc rq) (opens_of sv h kc rq) (kp_calls k) res k'"
    if "relayOpen sv h nd kc wallet rq k = (res, k')"
    by (rule relays_sends [OF relayOpen_relays that])
  show "relay_sends sv nd (asked_permit h kc rq) (asked_calls sv et h kc rq) (kp_calls k) res k'"
    using assms claim "open"
    by (auto simp: settler_fetch_def asked_permit_def asked_calls_def Let_def intro!: relay_sends_none
        split: if_splits prod.splits)
  show "sg_sent s' = sg_sent s"
    using assms by (auto simp: settler_fetch_def Let_def split: if_splits prod.splits)
qed

theorem settler_fetch_reconciles:
  assumes "settler_fetch sv et h nd sn kc cf wallet now rq (k, s) = (res, k', s')" "sg_sent s' \<noteq> sg_sent s"
  shows "wq_method rq = ''POST'' \<and> wq_path rq = ''/reconcile'' \<and>
    worker_authorized ''x-openrails-admin-token'' rq (sc_adminToken cf) \<and> kp_calls k' = kp_calls k"
  using assms by (auto simp: settler_fetch_def Let_def split: if_splits prod.splits sum.splits)

end
