(* ===== verification/Faucet.thy ===== *)
theory Faucet
  imports WorkerBase ServerBase
begin

text \<open>
  \<open>workers/faucet-worker/src/index.ts\<close>: a faucet that sends a small amount of USDC, once per cooldown
  to an address and to an IP, and so many times per day. Its memory is a key-value namespace whose
  entries expire; the namespace, the token contract, the day of an instant, \<open>Number\<close> and the amounts
  parsed from the configuration are parameters. A request is handled without another in between;
  \<open>fetch\<close> returns the promise of a handler without awaiting it, so what it throws is \<open>Inl\<close>. A number
  that is not one is written \<open>null\<close> by \<open>JSON.stringify\<close>.
\<close>

section \<open>State\<close>

record ('k, 'c) faucet_api =
  fx_get :: "string \<Rightarrow> int \<Rightarrow> 'k \<Rightarrow> string option result"
  fx_put :: "string \<Rightarrow> string \<Rightarrow> int \<Rightarrow> int \<Rightarrow> 'k \<Rightarrow> unit result \<times> 'k"
  fx_balance :: "string \<Rightarrow> 'c \<Rightarrow> int result \<times> 'c"
  fx_transfer :: "string \<Rightarrow> int \<Rightarrow> 'c \<Rightarrow> string result \<times> 'c"
  fx_wait :: "string \<Rightarrow> 'c \<Rightarrow> unit result \<times> 'c"
  fx_signer :: "string result"
  fx_day :: "int \<Rightarrow> string"
  fx_units :: "int \<Rightarrow> string"
  fx_number :: "string \<Rightarrow> int option"

record faucet_config =
  fg_signerKey :: "string option"
  fg_adminToken :: "string option"
  fg_drip :: "string option"
  fg_dripAmount :: "int result"
  fg_maxBalance :: "int result"
  fg_maxDrips :: "string option"
  fg_cooldown :: "string option"
  fg_enabled :: "string option"

record ('k, 'c) faucet =
  fq_kv :: 'k
  fq_chain :: 'c
  fq_transfers :: "(string \<times> int \<times> string result) list"

definition kv_get :: "('k, 'c) faucet_api \<Rightarrow> int \<Rightarrow> string \<Rightarrow> (('k, 'c) faucet, string option) io" where
  "kv_get fx now key s = (fx_get fx key now (fq_kv s), s)"

definition kv_put :: "('k, 'c) faucet_api \<Rightarrow> int \<Rightarrow> string \<Rightarrow> string \<Rightarrow> int \<Rightarrow> (('k, 'c) faucet, unit) io" where
  "kv_put fx now key v ttl s = (let (r, k) = fx_put fx key v ttl now (fq_kv s) in (r, s\<lparr>fq_kv := k\<rparr>))"

definition token_ask :: "('c \<Rightarrow> 'a result \<times> 'c) \<Rightarrow> (('k, 'c) faucet, 'a) io" where
  "token_ask q s = (let (r, c) = q (fq_chain s) in (r, s\<lparr>fq_chain := c\<rparr>))"

definition token_transfer :: "('k, 'c) faucet_api \<Rightarrow> string \<Rightarrow> int \<Rightarrow> (('k, 'c) faucet, string) io" where
  "token_transfer fx to amount s =
     (let (r, c) = fx_transfer fx to amount (fq_chain s) in
      (r, s\<lparr>fq_chain := c, fq_transfers := fq_transfers s @ [(to, amount, r)]\<rparr>))"

text \<open>\<open>Promise.all\<close>: both run, and the first failure is thrown.\<close>

definition io_both :: "('s, unit) io \<Rightarrow> ('s, unit) io \<Rightarrow> ('s, unit) io" where
  "io_both m n s = (case m s of (r, s') \<Rightarrow> (case n s' of (r', s'') \<Rightarrow> (bnd r (\<lambda>_. r'), s'')))"

section \<open>handleFund\<close>

definition addrKey :: "string \<Rightarrow> string" where
  "addrKey address = ''addr:'' @ lower address"

definition ipKey :: "string \<Rightarrow> string" where
  "ipKey ip = ''ip:'' @ ip"

definition dayKey :: "string \<Rightarrow> string" where
  "dayKey d = ''day:'' @ d"

definition cooldownSeconds :: "('k, 'c) faucet_api \<Rightarrow> faucet_config \<Rightarrow> int" where
  "cooldownSeconds fx cf = readPositiveInt (fx_number fx) (fg_cooldown cf) 86400"

definition maxDripsPerDay :: "('k, 'c) faucet_api \<Rightarrow> faucet_config \<Rightarrow> int" where
  "maxDripsPerDay fx cf = readPositiveInt (fx_number fx) (fg_maxDrips cf) 500"

definition faucet_enabled :: "faucet_config \<Rightarrow> bool" where
  "faucet_enabled cf \<longleftrightarrow> lower (case fg_enabled cf of None \<Rightarrow> ''true'' | Some v \<Rightarrow> v) \<noteq> ''false''"

definition given_text :: "string option \<Rightarrow> bool" where
  "given_text v \<longleftrightarrow> (case v of None \<Rightarrow> False | Some s \<Rightarrow> s \<noteq> [])"

definition request_ip :: "worker_request \<Rightarrow> string" where
  "request_ip rq = (let ip = header_or_empty rq ''cf-connecting-ip'' in if ip = [] then ''unknown'' else ip)"

text \<open>The address a request asks for, or why it is refused.\<close>

definition requested_address ::
    "server_values \<Rightarrow> 'z ethers_scheme \<Rightarrow> faucet_config \<Rightarrow> worker_request \<Rightarrow> (worker_reply + string) result" where
  "requested_address sv et cf rq =
     (if \<not> faucet_enabled cf then Inr (Inl (refusal ''Faucet is disabled'' 503))
      else if \<not> given_text (fg_signerKey cf) then Inr (Inl (refusal ''Faucet signer is not configured'' 503))
      else case wq_body rq of
          None \<Rightarrow> Inr (Inl (refusal ''Invalid JSON body'' 400))
        | Some body \<Rightarrow>
            bnd (get_prop body ''address'') (\<lambda>v.
            if \<not> js_truthy v \<or> \<not> isEvmAddress (js_string sv v) then Inr (Inl (refusal ''Invalid or missing address'' 400))
            else bnd (require (get_address et v) ''invalid address'') (\<lambda>a. Inr (Inr a))))"

definition cooling_reply :: "('k, 'c) faucet_api \<Rightarrow> int \<Rightarrow> int \<Rightarrow> string \<Rightarrow> string \<Rightarrow> worker_reply" where
  "cooling_reply fx cooldown now label stored = jsonResponse
     [(''error'', JStr (''Faucet cooldown active for this '' @ label)),
      (''retryAfterSeconds'', case fx_number fx stored of
         None \<Rightarrow> JNull | Some claimedAt \<Rightarrow> JNum (max 0 (cooldown - (now - claimedAt))))] 429"

definition cooldown_reply ::
    "('k, 'c) faucet_api \<Rightarrow> int \<Rightarrow> int \<Rightarrow> string option \<Rightarrow> string option \<Rightarrow> worker_reply option" where
  "cooldown_reply fx cooldown now addrCooldown ipCooldown =
     (if given_text addrCooldown then Some (cooling_reply fx cooldown now ''address'' (the addrCooldown))
      else if given_text ipCooldown then Some (cooling_reply fx cooldown now ''IP'' (the ipCooldown))
      else None)"

text \<open>\<open>raw ? Number(raw) : 0\<close>; \<open>None\<close> is \<open>NaN\<close>, which is not at least the cap.\<close>

definition day_count :: "('k, 'c) faucet_api \<Rightarrow> string option \<Rightarrow> int option" where
  "day_count fx raw = (if given_text raw then fx_number fx (the raw) else Some 0)"

definition next_count :: "int option \<Rightarrow> string" where
  "next_count n = (case n of None \<Rightarrow> ''NaN'' | Some k \<Rightarrow> int_str (k + 1))"

definition fund_address ::
    "('k, 'c) faucet_api \<Rightarrow> faucet_config \<Rightarrow> int \<Rightarrow> string \<Rightarrow> string \<Rightarrow> string \<Rightarrow> int option \<Rightarrow> (('k, 'c) faucet, worker_reply) io" where
  "fund_address fx cf now address ip day todayCount =
     io_bind (io_of (fx_signer fx)) (\<lambda>signer.
     io_bind (io_of (fg_maxBalance cf)) (\<lambda>maxBalance.
     io_bind (token_ask (fx_balance fx address)) (\<lambda>recipientBalance.
     if maxBalance \<le> recipientBalance then io_return (jsonResponse
       [(''skipped'', JBool True), (''reason'', JStr ''already funded''), (''balance'', JStr (fx_units fx recipientBalance))] 200)
     else
       io_bind (io_of (fg_dripAmount cf)) (\<lambda>dripAmount.
       io_bind (token_ask (fx_balance fx signer)) (\<lambda>faucetBalance.
       if faucetBalance < dripAmount then io_return (jsonResponse
         [(''error'', JStr ''Faucet needs a top-up''), (''faucetAddress'', JStr signer),
          (''balance'', JStr (fx_units fx faucetBalance))] 503)
       else
         io_catch
          (io_bind (token_transfer fx address dripAmount) (\<lambda>hash.
           io_then (token_ask (fx_wait fx hash))
          (io_then (io_both (kv_put fx now (addrKey address) (int_str now) (cooldownSeconds fx cf))
            (io_both (kv_put fx now (ipKey ip) (int_str now) (cooldownSeconds fx cf))
              (kv_put fx now (dayKey day) (next_count todayCount) 172800)))
          (io_return (jsonResponse
            [(''txHash'', JStr hash), (''amount'', JStr (case fg_drip cf of None \<Rightarrow> ''0.05'' | Some d \<Rightarrow> d))] 200)))))
          (\<lambda>e. case e of Error msg \<Rightarrow> io_return
            (refusal (if take 300 msg = [] then ''faucet transfer failed'' else take 300 msg) 502)))))))"

text \<open>The cooldowns of the address and of the IP, then the cap of the day; \<open>clock\<close> is \<open>Date.now()\<close>.\<close>

definition fund_cooldowns :: "('k, 'c) faucet_api \<Rightarrow> faucet_config \<Rightarrow> int \<Rightarrow> string \<Rightarrow> string \<Rightarrow> (('k, 'c) faucet, worker_reply option) io" where
  "fund_cooldowns fx cf now address ip =
     io_bind (kv_get fx now (addrKey address)) (\<lambda>addrCooldown.
     io_bind (if ip \<noteq> ''unknown'' then kv_get fx now (ipKey ip) else io_return None) (\<lambda>ipCooldown.
     io_return (cooldown_reply fx (cooldownSeconds fx cf) now addrCooldown ipCooldown)))"

definition fund_below_cap :: "('k, 'c) faucet_api \<Rightarrow> faucet_config \<Rightarrow> int \<Rightarrow> string \<Rightarrow> string \<Rightarrow> (('k, 'c) faucet, worker_reply) io" where
  "fund_below_cap fx cf clock address ip =
     io_bind (kv_get fx (clock div 1000) (dayKey (fx_day fx clock))) (\<lambda>raw.
     if (case day_count fx raw of None \<Rightarrow> False | Some n \<Rightarrow> maxDripsPerDay fx cf \<le> n)
     then io_return (refusal ''Daily faucet cap reached, try again tomorrow'' 429)
     else fund_address fx cf (clock div 1000) address ip (fx_day fx clock) (day_count fx raw))"

definition handleFund ::
    "server_values \<Rightarrow> 'z ethers_scheme \<Rightarrow> ('k, 'c) faucet_api \<Rightarrow> faucet_config \<Rightarrow> int \<Rightarrow> worker_request \<Rightarrow> (('k, 'c) faucet, worker_reply) io" where
  "handleFund sv et fx cf clock rq =
     io_bind (io_of (requested_address sv et cf rq)) (\<lambda>requested. case requested of
       Inl r \<Rightarrow> io_return r
     | Inr address \<Rightarrow>
         io_bind (fund_cooldowns fx cf (clock div 1000) address (request_ip rq)) (\<lambda>cooling. case cooling of
           Some r \<Rightarrow> io_return r
         | None \<Rightarrow> fund_below_cap fx cf clock address (request_ip rq)))"

section \<open>handleStatus and fetch\<close>

definition handleStatus ::
    "('k, 'c) faucet_api \<Rightarrow> faucet_config \<Rightarrow> int \<Rightarrow> worker_request \<Rightarrow> (('k, 'c) faucet, worker_reply) io" where
  "handleStatus fx cf clock rq =
     (if \<not> given_text (fg_adminToken cf) then io_return (refusal ''Faucet admin token is not configured'' 503)
      else if \<not> worker_authorized ''x-openrails-admin-token'' rq (fg_adminToken cf) then io_return (refusal ''Unauthorized'' 401)
      else if \<not> given_text (fg_signerKey cf) then io_return (refusal ''Faucet signer is not configured'' 503)
      else
        io_bind (io_of (fx_signer fx)) (\<lambda>signer.
        io_bind (token_ask (fx_balance fx signer)) (\<lambda>balance.
        io_bind (kv_get fx (clock div 1000) (dayKey (fx_day fx clock))) (\<lambda>raw.
        io_return (jsonResponse
          [(''faucetAddress'', JStr signer), (''balanceUsdc'', JStr (fx_units fx balance)),
           (''todayDripCount'', case day_count fx raw of None \<Rightarrow> JNull | Some n \<Rightarrow> JNum n),
           (''maxDripsPerDay'', JNum (maxDripsPerDay fx cf)), (''enabled'', JBool (faucet_enabled cf))] 200)))))"

definition faucet_fetch ::
    "server_values \<Rightarrow> 'z ethers_scheme \<Rightarrow> ('k, 'c) faucet_api \<Rightarrow> faucet_config \<Rightarrow> int \<Rightarrow> worker_request \<Rightarrow> (('k, 'c) faucet, worker_reply) io" where
  "faucet_fetch sv et fx cf clock rq =
     (if wq_method rq = ''OPTIONS'' then io_return \<lparr>wr_status = 204, wr_body = JUndefined\<rparr>
      else if wq_path rq = ''/fund'' then
        (if wq_method rq \<noteq> ''POST'' then io_return (refusal ''Only POST requests allowed'' 405) else handleFund sv et fx cf clock rq)
      else if wq_path rq = ''/status'' then
        (if wq_method rq \<noteq> ''GET'' then io_return (refusal ''Only GET requests allowed'' 405) else handleStatus fx cf clock rq)
      else io_return (refusal ''Not Found'' 404))"

section \<open>Requests in a row\<close>

definition paid :: "worker_reply result \<Rightarrow> bool" where
  "paid r \<longleftrightarrow> (case r of Inl _ \<Rightarrow> False | Inr reply \<Rightarrow> opt_prop (wr_body reply) ''txHash'' \<noteq> JUndefined)"

text \<open>The instant, address, IP and day of a paid request.\<close>

record grant =
  gn_clock :: int
  gn_address :: string
  gn_ip :: string
  gn_day :: string

definition grants_of ::
    "server_values \<Rightarrow> 'z ethers_scheme \<Rightarrow> ('k, 'c) faucet_api \<Rightarrow> faucet_config \<Rightarrow> int \<Rightarrow> worker_request \<Rightarrow> worker_reply result \<Rightarrow> grant list" where
  "grants_of sv et fx cf clock rq r =
     (case requested_address sv et cf rq of
        Inr (Inr a) \<Rightarrow> if paid r then [\<lparr>gn_clock = clock, gn_address = lower a, gn_ip = request_ip rq, gn_day = fx_day fx clock\<rparr>] else []
      | _ \<Rightarrow> [])"

fun serve_faucet ::
    "server_values \<Rightarrow> 'z ethers_scheme \<Rightarrow> ('k, 'c) faucet_api \<Rightarrow> faucet_config \<Rightarrow> (int \<times> worker_request) list \<Rightarrow>
     ('k, 'c) faucet \<Rightarrow> grant list \<times> ('k, 'c) faucet" where
  "serve_faucet sv et fx cf [] s = ([], s)"
| "serve_faucet sv et fx cf ((clock, rq) # rqs) s =
     (let (r, s') = faucet_fetch sv et fx cf clock rq s; (gs, s'') = serve_faucet sv et fx cf rqs s' in
      (grants_of sv et fx cf clock rq r @ gs, s''))"

end
