(* ===== verification/FaucetInvariant.thy ===== *)
theory FaucetInvariant
  imports Faucet
begin

text \<open>
  The faucet keeps its promises: the payments it confirmed are spaced by the cooldown, per address and
  per known IP, and stay below the cap of the day. A payment after which a write failed is answered
  502 and is not among them; what it did write leaves the invariant intact.
\<close>

section \<open>The namespace\<close>

text \<open>\<open>held\<close> tells what a namespace holds, and until when: a read that succeeds gives what has not
  expired, a write that fails changes nothing.\<close>

definition kv_ok :: "('k, 'c) faucet_api \<Rightarrow> ('k \<Rightarrow> string \<Rightarrow> (string \<times> int) option) \<Rightarrow> bool" where
  "kv_ok fx held \<longleftrightarrow>
     (\<forall>key now k x. fx_get fx key now k = Inr x \<longrightarrow>
        x = (case held k key of None \<Rightarrow> None | Some (v, e) \<Rightarrow> if now < e then Some v else None)) \<and>
     (\<forall>key v ttl now k k' u. fx_put fx key v ttl now k = (Inr u, k') \<longrightarrow> held k' = (held k)(key \<mapsto> (v, now + ttl))) \<and>
     (\<forall>key v ttl now k k' e. fx_put fx key v ttl now k = (Inl e, k') \<longrightarrow> held k' = held k)"

text \<open>\<open>Number\<close> reads back the decimal of a safe integer, instants of one day lie within it, and the
  configured cap is a safe integer.\<close>

definition clock_ok :: "('k, 'c) faucet_api \<Rightarrow> faucet_config \<Rightarrow> bool" where
  "clock_ok fx cf \<longleftrightarrow> (\<forall>n. isSafeInteger n \<longrightarrow> fx_number fx (int_str n) = Some n) \<and>
     (\<forall>t t'. fx_day fx t = fx_day fx t' \<longrightarrow> t div 86400000 = t' div 86400000) \<and> isSafeInteger (maxDripsPerDay fx cf)"

section \<open>What a request writes\<close>

definition fresh_entry :: "('k, 'c) faucet_api \<Rightarrow> faucet_config \<Rightarrow> int \<Rightarrow> string \<Rightarrow> int option \<Rightarrow> string \<Rightarrow> string \<times> int" where
  "fresh_entry fx cf now day n key =
     (if key = dayKey day then (next_count n, now + 172800) else (int_str now, now + cooldownSeconds fx cf))"

definition writes ::
    "('k, 'c) faucet_api \<Rightarrow> faucet_config \<Rightarrow> int \<Rightarrow> string \<Rightarrow> string \<Rightarrow> string \<Rightarrow> int option \<Rightarrow> bool \<Rightarrow>
     (string \<Rightarrow> (string \<times> int) option) \<Rightarrow> (string \<Rightarrow> (string \<times> int) option) \<Rightarrow> bool" where
  "writes fx cf now a ip day n whole h h' \<longleftrightarrow>
     (\<exists>U. U \<subseteq> {addrKey a, ipKey ip, dayKey day} \<and> (whole \<longrightarrow> U = {addrKey a, ipKey ip, dayKey day}) \<and>
        h' = (\<lambda>key. if key \<in> U then Some (fresh_entry fx cf now day n key) else h key))"

lemma keys_differ [simp]:
  "addrKey a \<noteq> ipKey ip" "ipKey ip \<noteq> addrKey a" "addrKey a \<noteq> dayKey d" "dayKey d \<noteq> addrKey a"
  "ipKey ip \<noteq> dayKey d" "dayKey d \<noteq> ipKey ip" "dayKey d = dayKey d' \<longleftrightarrow> d = d'" "ipKey ip = ipKey ip' \<longleftrightarrow> ip = ip'"
  "addrKey a = addrKey a' \<longleftrightarrow> lower a = lower a'"
  by (simp_all add: addrKey_def ipKey_def dayKey_def)

lemma kv_ok_put:
  assumes "kv_ok fx held"
  shows "fx_put fx key v ttl now k = (Inr u, k') \<Longrightarrow> held k' = (held k)(key \<mapsto> (v, now + ttl))"
    and "fx_put fx key v ttl now k = (Inl e, k') \<Longrightarrow> held k' = held k"
  using assms unfolding kv_ok_def by blast+

lemma kv_ok_get:
  "kv_ok fx held \<Longrightarrow> fx_get fx key now k = Inr x \<Longrightarrow>
     x = (case held k key of None \<Rightarrow> None | Some (v, e) \<Rightarrow> if now < e then Some v else None)"
  unfolding kv_ok_def by blast

lemma kv_put_held:
  assumes "kv_ok fx held" "kv_put fx now key v ttl s = (r, s')"
  shows "held (fq_kv s') = (if r = Inr () then (held (fq_kv s))(key \<mapsto> (v, now + ttl)) else held (fq_kv s))"
proof -
  obtain q k where q: "fx_put fx key v ttl now (fq_kv s) = (q, k)" by fastforce
  with assms(2) have "r = q" "fq_kv s' = k" by (auto simp: kv_put_def)
  with q have "fx_put fx key v ttl now (fq_kv s) = (r, fq_kv s')" by simp
  then show ?thesis using kv_ok_put [OF assms(1)] by (cases r) auto
qed

lemma writes_none: "writes fx cf now a ip day n False h h"
  unfolding writes_def by (rule exI [of _ "{}"]) auto

lemma writes_weaken: "writes fx cf now a ip day n whole h h' \<Longrightarrow> writes fx cf now a ip day n False h h'"
  unfolding writes_def by blast

lemma claims_written:
  assumes "kv_ok fx held"
    "io_both (kv_put fx now (addrKey a) (int_str now) (cooldownSeconds fx cf))
       (io_both (kv_put fx now (ipKey ip) (int_str now) (cooldownSeconds fx cf))
         (kv_put fx now (dayKey day) (next_count n) 172800)) s = (r, s')"
  shows "writes fx cf now a ip day n (\<exists>u. r = Inr u) (held (fq_kv s)) (held (fq_kv s'))"
proof -
  obtain r1 s1 where 1: "kv_put fx now (addrKey a) (int_str now) (cooldownSeconds fx cf) s = (r1, s1)" by fastforce
  obtain r2 s2 where 2: "kv_put fx now (ipKey ip) (int_str now) (cooldownSeconds fx cf) s1 = (r2, s2)" by fastforce
  obtain r3 s3 where 3: "kv_put fx now (dayKey day) (next_count n) 172800 s2 = (r3, s3)" by fastforce
  from assms(2) 1 2 3 have r: "r = bnd r1 (\<lambda>_. bnd r2 (\<lambda>_. r3))" "s' = s3" by (simp_all add: io_both_def)
  note held = kv_put_held [OF assms(1) 1] kv_put_held [OF assms(1) 2] kv_put_held [OF assms(1) 3]
  let ?U = "(if r1 = Inr () then {addrKey a} else {}) \<union> (if r2 = Inr () then {ipKey ip} else {}) \<union>
    (if r3 = Inr () then {dayKey day} else {})"
  show ?thesis
    unfolding writes_def
  proof (intro exI [of _ ?U] conjI impI)
    show "?U = {addrKey a, ipKey ip, dayKey day}" if "\<exists>u. r = Inr u"
      using that r(1) by (cases r1; cases r2; cases r3) (auto simp: bnd_def)
    show "held (fq_kv s') = (\<lambda>key. if key \<in> ?U then Some (fresh_entry fx cf now day n key) else held (fq_kv s) key)"
      by (rule ext) (auto simp: held r(2) fresh_entry_def)
  qed auto
qed

lemma unpaid_refusal [simp]: "\<not> paid (Inr (refusal m n))" "\<not> paid (Inl e)"
  by (simp_all add: paid_def refusal_def jsonResponse_def opt_prop_def is_nullish_def)

lemma token_asks:
  "meets (\<lambda>s. held (fq_kv s) = h) (token_ask q) (\<lambda>_ s. held (fq_kv s) = h) (\<lambda>s. held (fq_kv s) = h)"
  "meets (\<lambda>s. held (fq_kv s) = h) (token_transfer fx to amount) (\<lambda>_ s. held (fq_kv s) = h) (\<lambda>s. held (fq_kv s) = h)"
  by (auto simp: meets_def token_ask_def token_transfer_def split: prod.splits sum.splits)

lemma fund_address_writes:
  assumes "kv_ok fx held"
  shows "meets (\<lambda>s. held (fq_kv s) = h) (fund_address fx cf now a ip day n)
    (\<lambda>r s. writes fx cf now a ip day n (paid (Inr r)) h (held (fq_kv s))) (\<lambda>s. held (fq_kv s) = h)"
proof -
  let ?puts = "io_both (kv_put fx now (addrKey a) (int_str now) (cooldownSeconds fx cf))
    (io_both (kv_put fx now (ipKey ip) (int_str now) (cooldownSeconds fx cf)) (kv_put fx now (dayKey day) (next_count n) 172800))"
  let ?W = "\<lambda>b s. writes fx cf now a ip day n b h (held (fq_kv s))"
  have puts: "meets (\<lambda>s. held (fq_kv s) = h) ?puts (\<lambda>_. ?W True) (?W False)"
  proof (rule meetsI)
    fix s :: "('a, 'b) faucet"
    assume s: "held (fq_kv s) = h"
    obtain r s' where r: "?puts s = (r, s')" by fastforce
    from claims_written [OF assms r] s r show "case ?puts s of (Inr x, t) \<Rightarrow> ?W True t | (Inl e, t) \<Rightarrow> ?W False t"
      by (cases r) auto
  qed
  have unpaid: "\<not> paid (Inr (jsonResponse [(''skipped'', x), (''reason'', y), (''balance'', z)] c))"
    "\<not> paid (Inr (jsonResponse [(''error'', x), (''faucetAddress'', y), (''balance'', z)] c))" for x y z c
    by (simp_all add: paid_def jsonResponse_def opt_prop_def is_nullish_def)
  have paid_tx: "paid (Inr (jsonResponse [(''txHash'', JStr x), (''amount'', y)] c))" for x y c
    by (simp add: paid_def jsonResponse_def opt_prop_def)
  have pay: "meets (\<lambda>s. held (fq_kv s) = h)
      (io_catch
        (io_bind (token_transfer fx a dripAmount) (\<lambda>hash. io_then (token_ask (fx_wait fx hash)) (io_then ?puts
          (io_return (jsonResponse [(''txHash'', JStr hash), (''amount'', amount)] 200)))))
        (\<lambda>e. case e of Error msg \<Rightarrow> io_return
            (refusal (if take 300 msg = [] then ''faucet transfer failed'' else take 300 msg) 502)))
      (\<lambda>r. ?W (paid (Inr r))) (\<lambda>s. held (fq_kv s) = h)" for dripAmount amount
  proof (rule meets_catch [where R = "?W False"])
    show "meets (\<lambda>s. held (fq_kv s) = h)
      (io_bind (token_transfer fx a dripAmount) (\<lambda>hash. io_then (token_ask (fx_wait fx hash)) (io_then ?puts
          (io_return (jsonResponse [(''txHash'', JStr hash), (''amount'', amount)] 200)))))
      (\<lambda>r. ?W (paid (Inr r))) (?W False)"
      by (rule meets_bind [OF meets_post [OF token_asks(2)]], assumption, simp add: writes_none,
          rule meets_then [OF meets_post [OF token_asks(1)]], assumption, simp add: writes_none,
          rule meets_then [OF puts])
         (auto intro!: meets_return simp: paid_tx)
    show "meets (?W False) (case e of Error msg \<Rightarrow> io_return
            (refusal (if take 300 msg = [] then ''faucet transfer failed'' else take 300 msg) 502))
      (\<lambda>r. ?W (paid (Inr r))) (\<lambda>s. held (fq_kv s) = h)" for e
      by (cases e) (auto intro!: meets_return)
  qed
  show ?thesis
    unfolding fund_address_def
    by (intro meets_bind_of meets_bind [OF token_asks(1)] meets_if meets_return pay)
       (auto simp: unpaid writes_none)
qed

section \<open>What a request does\<close>

definition lookup :: "(string \<Rightarrow> (string \<times> int) option) \<Rightarrow> string \<Rightarrow> int \<Rightarrow> string option" where
  "lookup h key now = (case h key of None \<Rightarrow> None | Some (v, e) \<Rightarrow> if now < e then Some v else None)"

text \<open>The checks that a payment, or an attempt at one, has passed.\<close>

definition unclaimed :: "int \<Rightarrow> string \<Rightarrow> string \<Rightarrow> (string \<Rightarrow> (string \<times> int) option) \<Rightarrow> bool" where
  "unclaimed now a ip h \<longleftrightarrow>
     \<not> given_text (lookup h (addrKey a) now) \<and> (ip \<noteq> ''unknown'' \<longrightarrow> \<not> given_text (lookup h (ipKey ip) now))"

definition below_cap :: "('k, 'c) faucet_api \<Rightarrow> faucet_config \<Rightarrow> int \<Rightarrow> string \<Rightarrow> (string \<Rightarrow> (string \<times> int) option) \<Rightarrow> bool" where
  "below_cap fx cf now day h \<longleftrightarrow>
     (\<forall>n. day_count fx (lookup h (dayKey day) now) = Some n \<longrightarrow> n < maxDripsPerDay fx cf)"

definition fund_step ::
    "('k, 'c) faucet_api \<Rightarrow> faucet_config \<Rightarrow> int \<Rightarrow> string \<Rightarrow> string \<Rightarrow>
     (string \<Rightarrow> (string \<times> int) option) \<Rightarrow> worker_reply result \<Rightarrow> (string \<Rightarrow> (string \<times> int) option) \<Rightarrow> bool" where
  "fund_step fx cf clock a ip h r h' \<longleftrightarrow>
     (let now = clock div 1000; day = fx_day fx clock in
      h' = h \<and> \<not> paid r \<or>
      unclaimed now a ip h \<and> below_cap fx cf now day h \<and>
      writes fx cf now a ip day (day_count fx (lookup h (dayKey day) now)) (paid r) h h')"

lemma meets_kv_get:
  "kv_ok fx held \<Longrightarrow> meets (\<lambda>s. held (fq_kv s) = h) (kv_get fx now key)
     (\<lambda>x s. x = lookup h key now \<and> held (fq_kv s) = h) (\<lambda>s. held (fq_kv s) = h)"
  by (auto simp: meets_def kv_get_def lookup_def dest!: kv_ok_get split: sum.splits)

lemma meets_known: "(\<And>s. P s \<Longrightarrow> b) \<Longrightarrow> (b \<Longrightarrow> meets P m Q I) \<Longrightarrow> meets P m Q I"
  by (cases b) (auto simp: meets_def)

lemma meets_and: "meets (\<lambda>s. P s \<and> b) m Q I \<longleftrightarrow> (b \<longrightarrow> meets P m Q I)"
  by (cases b) (auto simp: meets_def)

lemma cooldowns_checked:
  assumes "kv_ok fx held"
  shows "meets (\<lambda>s. held (fq_kv s) = h) (fund_cooldowns fx cf now a ip)
    (\<lambda>v s. held (fq_kv s) = h \<and> (case v of None \<Rightarrow> unclaimed now a ip h | Some r \<Rightarrow> \<not> paid (Inr r))) (\<lambda>s. held (fq_kv s) = h)"
proof -
  have cool: "\<not> paid (Inr (cooling_reply fx cd n l v))" for cd n l v
    by (simp add: cooling_reply_def paid_def jsonResponse_def opt_prop_def)
  have ip: "meets (\<lambda>s. x = lookup h (addrKey a) now \<and> held (fq_kv s) = h) (if ip \<noteq> ''unknown'' then kv_get fx now (ipKey ip) else io_return None)
    (\<lambda>y s. x = lookup h (addrKey a) now \<and> (ip \<noteq> ''unknown'' \<longrightarrow> y = lookup h (ipKey ip) now) \<and> held (fq_kv s) = h)
    (\<lambda>s. held (fq_kv s) = h)" for x
    by (rule meets_known [of _ "x = lookup h (addrKey a) now"])
       (auto intro!: meets_return meets_post [OF meets_kv_get [OF assms]])
  show ?thesis
    unfolding fund_cooldowns_def
    by (rule meets_bind [OF meets_kv_get [OF assms] meets_bind [OF ip]], rule meets_return)
       (auto simp: cool unclaimed_def cooldown_reply_def split: option.splits if_splits)
qed

lemma below_cap_funded:
  assumes "kv_ok fx held" "unclaimed (clock div 1000) a ip h"
  shows "meets (\<lambda>s. held (fq_kv s) = h) (fund_below_cap fx cf clock a ip)
    (\<lambda>r s. fund_step fx cf clock a ip h (Inr r) (held (fq_kv s))) (\<lambda>s. held (fq_kv s) = h)"
  unfolding fund_below_cap_def
proof (rule meets_bind [OF meets_kv_get [OF assms(1)]], goal_cases)
  case (1 raw)
  show ?case
  proof (rule meets_known [of _ "raw = lookup h (dayKey (fx_day fx clock)) (clock div 1000)"])
    assume raw: "raw = lookup h (dayKey (fx_day fx clock)) (clock div 1000)"
    have "meets (\<lambda>s. held (fq_kv s) = h) (fund_address fx cf (clock div 1000) a ip (fx_day fx clock) (day_count fx raw))
        (\<lambda>r s. fund_step fx cf clock a ip h (Inr r) (held (fq_kv s))) (\<lambda>s. held (fq_kv s) = h)"
      if "\<not> (case day_count fx raw of None \<Rightarrow> False | Some n \<Rightarrow> maxDripsPerDay fx cf \<le> n)"
      using that assms(2) raw
      by (intro meets_post [OF fund_address_writes [OF assms(1)]])
         (auto simp: fund_step_def below_cap_def Let_def split: option.splits)
    then show ?thesis by (auto intro!: meets_return simp: fund_step_def elim: meets_pre)
  qed simp
qed

lemma handleFund_steps:
  assumes "kv_ok fx held" "requested_address sv et cf rq = Inr (Inr a)"
  shows "meets (\<lambda>s. held (fq_kv s) = h) (handleFund sv et fx cf clock rq)
    (\<lambda>r s. fund_step fx cf clock a (request_ip rq) h (Inr r) (held (fq_kv s))) (\<lambda>s. held (fq_kv s) = h)"
  unfolding handleFund_def assms(2) io_simps sum.case
proof (rule meets_bind [OF cooldowns_checked [OF assms(1)]])
  fix v
  show "meets (\<lambda>s. held (fq_kv s) = h \<and> (case v of None \<Rightarrow> unclaimed (clock div 1000) a (request_ip rq) h | Some r \<Rightarrow> \<not> paid (Inr r)))
    (case v of None \<Rightarrow> fund_below_cap fx cf clock a (request_ip rq) | Some r \<Rightarrow> io_return r)
    (\<lambda>r s. fund_step fx cf clock a (request_ip rq) h (Inr r) (held (fq_kv s))) (\<lambda>s. held (fq_kv s) = h)"
  proof (cases v)
    case None
    then show ?thesis
      using below_cap_funded [OF assms(1), of clock a "request_ip rq" h] by (simp add: meets_and)
  qed (auto intro!: meets_return simp: fund_step_def)
qed

section \<open>Requests in a row\<close>

definition kept :: "(string \<Rightarrow> (string \<times> int) option) \<Rightarrow> string \<Rightarrow> int \<Rightarrow> bool" where
  "kept h key t \<longleftrightarrow> (\<exists>v e. h key = Some (v, e) \<and> v \<noteq> [] \<and> t \<le> e)"

definition grant_recorded :: "('k, 'c) faucet_api \<Rightarrow> faucet_config \<Rightarrow> (string \<Rightarrow> (string \<times> int) option) \<Rightarrow> grant \<Rightarrow> bool" where
  "grant_recorded fx cf h g \<longleftrightarrow>
     (let t = gn_clock g div 1000 in
      kept h (''addr:'' @ gn_address g) (t + cooldownSeconds fx cf) \<and>
      (gn_ip g \<noteq> ''unknown'' \<longrightarrow> kept h (ipKey (gn_ip g)) (t + cooldownSeconds fx cf)) \<and>
      kept h (dayKey (gn_day g)) (t + 172800))"

definition of_day :: "string \<Rightarrow> grant list \<Rightarrow> int" where
  "of_day d gs = int (length (filter (\<lambda>g. gn_day g = d) gs))"

definition day_counted :: "int \<Rightarrow> grant list \<Rightarrow> (string \<Rightarrow> (string \<times> int) option) \<Rightarrow> bool" where
  "day_counted cap gs h \<longleftrightarrow>
     (\<forall>d v e. h (dayKey d) = Some (v, e) \<longrightarrow> (\<exists>n. v = int_str n \<and> of_day d gs \<le> n \<and> n \<le> cap))"

definition faucet_ok :: "('k, 'c) faucet_api \<Rightarrow> faucet_config \<Rightarrow> grant list \<Rightarrow> int \<Rightarrow> (string \<Rightarrow> (string \<times> int) option) \<Rightarrow> bool" where
  "faucet_ok fx cf gs clock h \<longleftrightarrow>
     (\<forall>g \<in> set gs. gn_clock g \<le> clock \<and> gn_day g = fx_day fx (gn_clock g) \<and> grant_recorded fx cf h g) \<and>
     day_counted (maxDripsPerDay fx cf) gs h"

text \<open>Two grants are apart when they share an address or a known IP.\<close>

definition apart :: "int \<Rightarrow> grant \<Rightarrow> grant \<Rightarrow> bool" where
  "apart cooldown g g' \<longleftrightarrow>
     (gn_address g = gn_address g' \<or> gn_ip g = gn_ip g' \<and> gn_ip g \<noteq> ''unknown'') \<longrightarrow>
     gn_clock g div 1000 + cooldown \<le> gn_clock g' div 1000"

lemma int_str_given [simp]: "int_str n \<noteq> []"
proof -
  have "nat_digits m \<noteq> []" for m by (subst nat_digits.simps) simp
  then show ?thesis by (simp add: int_str_def)
qed

lemma kept_lapsed: "kept h key t \<Longrightarrow> \<not> given_text (lookup h key now) \<Longrightarrow> t \<le> now"
  by (auto simp: kept_def lookup_def given_text_def split: if_splits)

lemma unclaimed_apart:
  assumes "grant_recorded fx cf h g" "unclaimed (gn_clock g' div 1000) a (gn_ip g') h" "gn_address g' = lower a"
  shows "apart (cooldownSeconds fx cf) g g'"
  unfolding apart_def
proof (intro impI, elim disjE conjE)
  assume "gn_address g = gn_address g'"
  with assms show "gn_clock g div 1000 + cooldownSeconds fx cf \<le> gn_clock g' div 1000"
    by (intro kept_lapsed [of h "addrKey a"]) (simp_all add: grant_recorded_def unclaimed_def addrKey_def Let_def)
next
  assume "gn_ip g = gn_ip g'" "gn_ip g \<noteq> ''unknown''"
  with assms show "gn_clock g div 1000 + cooldownSeconds fx cf \<le> gn_clock g' div 1000"
    by (intro kept_lapsed [of h "ipKey (gn_ip g')"]) (simp_all add: grant_recorded_def unclaimed_def Let_def)
qed

lemma clock_okD:
  assumes "clock_ok fx cf"
  shows "0 \<le> n \<Longrightarrow> n \<le> maxDripsPerDay fx cf \<Longrightarrow> fx_number fx (int_str n) = Some n" "fx_day fx t = fx_day fx t' \<Longrightarrow> t div 86400000 = t' div 86400000"
proof -
  assume "0 \<le> n" "n \<le> maxDripsPerDay fx cf"
  moreover have "isSafeInteger (maxDripsPerDay fx cf)" using assms unfolding clock_ok_def by blast
  ultimately have "isSafeInteger n" by (simp add: isSafeInteger_def)
  then show "fx_number fx (int_str n) = Some n" using assms unfolding clock_ok_def by blast
next
  assume "fx_day fx t = fx_day fx t'"
  then show "t div 86400000 = t' div 86400000" using assms unfolding clock_ok_def by blast
qed

lemma same_day_kept:
  assumes "clock_ok fx cf" "fx_day fx t = fx_day fx t'" "kept h key (t div 1000 + 172800)"
  obtains v e where "h key = Some (v, e)" "lookup h key (t' div 1000) = Some v" "v \<noteq> []"
proof -
  from assms(3) obtain v e where h: "h key = Some (v, e)" "v \<noteq> []" "t div 1000 + 172800 \<le> e" by (auto simp: kept_def)
  have "t div 86400000 = t' div 86400000" by (rule clock_okD(2) [OF assms(1,2)])
  then have "t' < t + 86400000" using mult_div_mod_eq [of 86400000 t] mult_div_mod_eq [of 86400000 t']
      pos_mod_bound [of 86400000 t'] pos_mod_sign [of 86400000 t] by linarith
  then have "t' div 1000 \<le> (t + 86400000) div 1000" by (intro zdiv_mono1) simp_all
  then have "t' div 1000 < t div 1000 + 172800" by simp
  with h that show thesis by (simp add: lookup_def)
qed

lemma of_day_pos: "of_day d gs \<noteq> 0 \<Longrightarrow> \<exists>g \<in> set gs. gn_day g = d"
  by (auto simp: of_day_def filter_empty_conv)

text \<open>The count a request reads is at least what was paid on the day.\<close>

lemma countedD: "faucet_ok fx cf gs t h \<Longrightarrow> h (dayKey d) = Some (v, e) \<Longrightarrow>
     \<exists>n. v = int_str n \<and> of_day d gs \<le> n \<and> n \<le> maxDripsPerDay fx cf"
  unfolding faucet_ok_def day_counted_def by blast

lemma count_read:
  assumes "clock_ok fx cf" "faucet_ok fx cf gs clock0 h"
  obtains n where "day_count fx (lookup h (dayKey (fx_day fx clock)) (clock div 1000)) = Some n" "of_day (fx_day fx clock) gs \<le> n"
proof (cases "of_day (fx_day fx clock) gs = 0")
  case True
  have "\<exists>n \<ge> 0. day_count fx (lookup h (dayKey (fx_day fx clock)) (clock div 1000)) = Some n"
  proof (cases "given_text (lookup h (dayKey (fx_day fx clock)) (clock div 1000))")
    case given: True
    then obtain v e where "h (dayKey (fx_day fx clock)) = Some (v, e)" "lookup h (dayKey (fx_day fx clock)) (clock div 1000) = Some v"
      by (auto simp: given_text_def lookup_def split: option.splits if_splits)
    moreover from countedD [OF assms(2) this(1)] obtain n where n: "v = int_str n" "of_day (fx_day fx clock) gs \<le> n"
      "n \<le> maxDripsPerDay fx cf" by blast
    ultimately show ?thesis using clock_okD(1) [OF assms(1), of n] given True by (auto simp: day_count_def)
  qed (simp add: day_count_def)
  with True that show thesis by auto
next
  case False
  from of_day_pos [OF this] obtain g where g: "g \<in> set gs" "gn_day g = fx_day fx clock" by blast
  with assms(2) have "fx_day fx (gn_clock g) = fx_day fx clock"
      "kept h (dayKey (fx_day fx clock)) (gn_clock g div 1000 + 172800)"
    by (auto simp: faucet_ok_def grant_recorded_def Let_def)
  from same_day_kept [OF assms(1) this] obtain v e where
    v: "h (dayKey (fx_day fx clock)) = Some (v, e)" "lookup h (dayKey (fx_day fx clock)) (clock div 1000) = Some v" "v \<noteq> []" .
  from countedD [OF assms(2) v(1)] obtain n where n: "v = int_str n" "of_day (fx_day fx clock) gs \<le> n"
      "n \<le> maxDripsPerDay fx cf" by blast
  moreover have "0 \<le> of_day (fx_day fx clock) gs" by (simp add: of_day_def)
  ultimately show thesis using v clock_okD(1) [OF assms(1), of n] that [of n] by (simp add: day_count_def given_text_def)
qed

lemma writes_keep:
  assumes "writes fx cf now a ip day (Some n) whole h h'" "kept h key t"
  shows "t \<le> now + cooldownSeconds fx cf \<Longrightarrow> key \<noteq> dayKey day \<Longrightarrow> kept h' key t"
    and "t \<le> now + 172800 \<Longrightarrow> key = dayKey d \<Longrightarrow> kept h' key t"
  using assms by (auto simp: writes_def kept_def fresh_entry_def next_count_def split: if_splits)

lemma writes_whole:
  assumes "writes fx cf now a ip day n True h h'" "key \<in> {addrKey a, ipKey ip, dayKey day}" "n \<noteq> None"
  shows "kept h' key (now + (if key = dayKey day then 172800 else cooldownSeconds fx cf))"
  using assms by (auto simp: writes_def kept_def fresh_entry_def next_count_def split: if_splits)

lemma written_day:
  assumes "writes fx cf now a ip day (Some n) whole h h'" "h' (dayKey d) = Some (v, e)"
  shows "v = int_str (n + 1) \<and> d = day \<or> h (dayKey d) = Some (v, e) \<and> \<not> (d = day \<and> whole)"
proof -
  from assms(1) obtain U where U: "U \<subseteq> {addrKey a, ipKey ip, dayKey day}" "whole \<longrightarrow> dayKey day \<in> U"
      "h' = (\<lambda>key. if key \<in> U then Some (fresh_entry fx cf now day (Some n) key) else h key)"
    by (auto simp: writes_def)
  show ?thesis
  proof (cases "dayKey d \<in> U")
    case True
    with U(1) have "d = day" by auto
    with True U(3) assms(2) show ?thesis by (simp add: fresh_entry_def next_count_def)
  qed (use U(2,3) assms(2) in auto)
qed

text \<open>One request.\<close>

definition grant_of :: "('k, 'c) faucet_api \<Rightarrow> int \<Rightarrow> string \<Rightarrow> string \<Rightarrow> grant" where
  "grant_of fx clock a ip = \<lparr>gn_clock = clock, gn_address = lower a, gn_ip = ip, gn_day = fx_day fx clock\<rparr>"

lemma fund_step_ok:
  assumes ok: "clock_ok fx cf" "faucet_ok fx cf gs clock0 h" "clock0 \<le> clock" and step: "fund_step fx cf clock a ip h r h'"
  defines "new \<equiv> (if paid r then [grant_of fx clock a ip] else [])"
  shows "faucet_ok fx cf (gs @ new) clock h'"
    and "\<forall>g' \<in> set new. (\<forall>g \<in> set gs. apart (cooldownSeconds fx cf) g g') \<and> of_day (gn_day g') gs < maxDripsPerDay fx cf"
proof -
  let ?now = "clock div 1000" and ?day = "fx_day fx clock"
  obtain n where n: "day_count fx (lookup h (dayKey ?day) ?now) = Some n" "of_day ?day gs \<le> n"
    using count_read [OF ok(1,2), of clock] by blast
  have old: "gn_clock g div 1000 \<le> ?now" if "g \<in> set gs" for g
    using that ok(2,3) by (intro zdiv_mono1) (auto simp: faucet_ok_def intro: order_trans)
  consider (same) "h' = h" "\<not> paid r" |
    (wrote) "unclaimed ?now a ip h" "n < maxDripsPerDay fx cf" "writes fx cf ?now a ip ?day (Some n) (paid r) h h'"
    using step n(1) by (auto simp: fund_step_def below_cap_def Let_def)
  then show "faucet_ok fx cf (gs @ new) clock h'"
  proof cases
    case same
    with ok(2,3) show ?thesis by (auto simp: new_def faucet_ok_def)
  next
    case wrote
    have "grant_recorded fx cf h' g" if g: "g \<in> set gs" for g
    proof -
      from ok(2) g have r: "grant_recorded fx cf h g" by (simp add: faucet_ok_def)
      have claim: "kept h' key (gn_clock g div 1000 + cooldownSeconds fx cf)"
        if "kept h key (gn_clock g div 1000 + cooldownSeconds fx cf)" "key \<noteq> dayKey ?day" for key
        by (rule writes_keep(1) [OF wrote(3) that(1) _ that(2)]) (use old [OF g] in simp)
      have day: "kept h' (dayKey d) (gn_clock g div 1000 + 172800)" if "kept h (dayKey d) (gn_clock g div 1000 + 172800)" for d
        by (rule writes_keep(2) [OF wrote(3) that]) (use old [OF g] in simp_all)
      have "''addr:'' @ gn_address g \<noteq> dayKey ?day" by (simp add: dayKey_def)
      with r show ?thesis unfolding grant_recorded_def Let_def by (intro conjI impI claim day) simp_all
    qed
    moreover have "grant_recorded fx cf h' g" if "g \<in> set new" for g
    proof -
      from that have g: "paid r" "g = grant_of fx clock a ip" by (auto simp: new_def split: if_splits)
      note whole = writes_whole [OF wrote(3) [unfolded g(1) [THEN eqTrueI]]]
      from whole [of "addrKey a"] whole [of "ipKey ip"] whole [of "dayKey ?day"] show ?thesis
        unfolding grant_recorded_def Let_def g(2) grant_of_def by simp (simp add: addrKey_def)
    qed
    moreover have "day_counted (maxDripsPerDay fx cf) (gs @ new) h'"
      unfolding day_counted_def
    proof (intro allI impI)
      fix d v e assume d: "h' (dayKey d) = Some (v, e)"
      have "of_day d (gs @ new) \<le> of_day d gs + (if d = ?day \<and> paid r then 1 else 0)"
        by (simp add: of_day_def new_def grant_of_def)
      moreover have "v = int_str (n + 1) \<and> d = ?day \<or> h (dayKey d) = Some (v, e) \<and> \<not> (d = ?day \<and> paid r)"
        using written_day [OF wrote(3) d] .
      ultimately show "\<exists>m. v = int_str m \<and> of_day d (gs @ new) \<le> m \<and> m \<le> maxDripsPerDay fx cf"
      proof (elim disjE conjE)
        assume "v = int_str (n + 1)" "d = ?day" "of_day d (gs @ new) \<le> of_day d gs + (if d = ?day \<and> paid r then 1 else 0)"
        with n(2) wrote(2) show ?thesis by (intro exI [of _ "n + 1"]) (auto split: if_splits)
      next
        assume a: "h (dayKey d) = Some (v, e)" "\<not> (d = ?day \<and> paid r)"
          "of_day d (gs @ new) \<le> of_day d gs + (if d = ?day \<and> paid r then 1 else 0)"
        from countedD [OF ok(2) a(1)] obtain m where "v = int_str m" "of_day d gs \<le> m" "m \<le> maxDripsPerDay fx cf" by blast
        moreover have "of_day d (gs @ new) \<le> of_day d gs" using a(2,3) by (simp split: if_splits)
        ultimately show ?thesis by (intro exI [of _ m]) simp
      qed
    qed
    ultimately show ?thesis using ok(2,3) by (auto simp: faucet_ok_def new_def grant_of_def)
  qed
  show "\<forall>g' \<in> set new. (\<forall>g \<in> set gs. apart (cooldownSeconds fx cf) g g') \<and> of_day (gn_day g') gs < maxDripsPerDay fx cf"
  proof (cases "paid r")
    case True
    with step n(1) have "unclaimed ?now a ip h" "n < maxDripsPerDay fx cf" by (auto simp: fund_step_def below_cap_def Let_def)
    with n(2) ok(2) show ?thesis
      by (auto simp: new_def grant_of_def faucet_ok_def intro!: unclaimed_apart [of fx cf h])
  qed (simp add: new_def)
qed

text \<open>Every request, whatever its route.\<close>

lemma fetch_step:
  assumes "kv_ok fx held" "faucet_fetch sv et fx cf clock rq s = (r, s')"
  shows "(grants_of sv et fx cf clock rq r = [] \<and> held (fq_kv s') = held (fq_kv s)) \<or>
    (\<exists>a. grants_of sv et fx cf clock rq r = (if paid r then [grant_of fx clock a (request_ip rq)] else []) \<and>
       fund_step fx cf clock a (request_ip rq) (held (fq_kv s)) r (held (fq_kv s')))"
proof (cases "wq_path rq = ''/fund'' \<and> wq_method rq = ''POST''")
  case True
  with assms(2) have fund: "handleFund sv et fx cf clock rq s = (r, s')" by (simp add: faucet_fetch_def)
  show ?thesis
  proof (cases "\<exists>a. requested_address sv et cf rq = Inr (Inr a)")
    case True
    then obtain a where a: "requested_address sv et cf rq = Inr (Inr a)" by blast
    note steps = handleFund_steps [OF assms(1) a, of "held (fq_kv s)" clock]
    have "fund_step fx cf clock a (request_ip rq) (held (fq_kv s)) r (held (fq_kv s'))"
      using meetsD [OF steps refl] meets_thrown [OF steps refl] fund by (cases r) (auto simp: fund_step_def)
    with a show ?thesis by (auto simp: grants_of_def grant_of_def)
  next
    case False
    then consider e where "requested_address sv et cf rq = Inl e" | q where "requested_address sv et cf rq = Inr (Inl q)"
      by (cases "requested_address sv et cf rq"; cases "projr (requested_address sv et cf rq)") auto
    then show ?thesis using fund by cases (simp_all add: grants_of_def handleFund_def io_throw_def io_return_def)
  qed
next
  case False
  have "fst (faucet_fetch sv et fx cf clock rq s) = r" "snd (faucet_fetch sv et fx cf clock rq s) = s'" using assms(2) by simp_all
  moreover have "meets (\<lambda>t. held (fq_kv t) = held (fq_kv s)) (faucet_fetch sv et fx cf clock rq)
      (\<lambda>q t. held (fq_kv t) = held (fq_kv s) \<and> \<not> paid (Inr q)) (\<lambda>t. held (fq_kv t) = held (fq_kv s))"
  proof -
    have unpaid: "\<not> paid (Inr \<lparr>wr_status = n, wr_body = JUndefined\<rparr>)"
      "\<not> paid (Inr (jsonResponse [(''faucetAddress'', x), (''balanceUsdc'', y), (''todayDripCount'', z),
           (''maxDripsPerDay'', u), (''enabled'', w)] n))" for n x y z u w
      by (simp_all add: paid_def opt_prop_def jsonResponse_def)
    note get = meets_post [OF meets_kv_get [OF assms(1)], where Q = "\<lambda>_ t. held (fq_kv t) = held (fq_kv s)"
        and I = "\<lambda>t. held (fq_kv t) = held (fq_kv s)"]
    show ?thesis
      unfolding faucet_fetch_def handleStatus_def
      using False
      by (intro meets_if meets_return meets_bind_of meets_bind [OF token_asks(1)] meets_bind [OF get]) (auto simp: unpaid)
  qed
  ultimately have "held (fq_kv s') = held (fq_kv s) \<and> \<not> paid r"
    using meetsD [of _ _ _ _ s] meets_thrown [of _ _ _ _ s] assms(2) by (cases r) fastforce+
  then show ?thesis by (auto simp: grants_of_def split: sum.splits)
qed

lemma serve_faucet_ok:
  assumes "kv_ok fx held" "clock_ok fx cf" "sorted (clock0 # map fst rqs)" "faucet_ok fx cf gs clock0 (held (fq_kv s))"
    "sorted_wrt (apart (cooldownSeconds fx cf)) gs" "\<forall>d. of_day d gs \<le> maxDripsPerDay fx cf"
  shows "sorted_wrt (apart (cooldownSeconds fx cf)) (gs @ fst (serve_faucet sv et fx cf rqs s)) \<and>
    (\<forall>d. of_day d (gs @ fst (serve_faucet sv et fx cf rqs s)) \<le> maxDripsPerDay fx cf)"
  using assms(3-6)
proof (induction rqs arbitrary: gs s clock0)
  case (Cons q rqs)
  obtain clock rq where q: "q = (clock, rq)" by (cases q)
  obtain r s' where f: "faucet_fetch sv et fx cf clock rq s = (r, s')" by fastforce
  let ?new = "grants_of sv et fx cf clock rq r"
  from Cons.prems(1) q have clock: "clock0 \<le> clock" "sorted (clock # map fst rqs)" by auto
  have new: "faucet_ok fx cf (gs @ ?new) clock (held (fq_kv s'))"
    "\<forall>g' \<in> set ?new. (\<forall>g \<in> set gs. apart (cooldownSeconds fx cf) g g') \<and> of_day (gn_day g') gs < maxDripsPerDay fx cf"
    "length ?new \<le> 1"
    using fetch_step [OF assms(1) f] fund_step_ok [OF assms(2) Cons.prems(2) clock(1)] Cons.prems(2) clock(1)
    by (fastforce simp: faucet_ok_def)+
  have "sorted_wrt (apart (cooldownSeconds fx cf)) (gs @ ?new)"
    using new(2,3) Cons.prems(3) by (cases ?new) (auto simp: sorted_wrt_append)
  moreover have "\<forall>d. of_day d (gs @ ?new) \<le> maxDripsPerDay fx cf"
    using new(2,3) Cons.prems(4) by (cases ?new) (auto simp: of_day_def)
  ultimately show ?case
    using Cons.IH [OF clock(2) new(1)] q f by (simp add: case_prod_beta)
qed simp

end
