(* ===== verification/ListenSession.thy ===== *)
theory ListenSession
  imports SettlerRelay
begin

text \<open>
  \<open>workers/music-scrobble-worker/src/openSession.ts\<close>: a listening session is a Paycard Stream to an
  artist. With an envelope token the listener has signed it and the relayer only submits it; without
  one the relayer signs and pays itself. The calls are those of \<open>SettlerRelay\<close>; the network, the nonce
  of an account and the relayer's signature are answers of the node and of the wallet.
\<close>

section \<open>Parameters\<close>

record 'c session_node = "'c keeper_node" +
  kn_network :: "'c \<Rightarrow> int result \<times> 'c"
  kn_nonce :: "string \<Rightarrow> int \<Rightarrow> 'c \<Rightarrow> int result \<times> 'c"

text \<open>The relayer's wallet: its address, how it signs an intent, and the hash of a packed Paycard identifier.\<close>

record session_wallet =
  sx_address :: "string result"
  sx_sign :: "string \<Rightarrow> int \<Rightarrow> string \<Rightarrow> json \<Rightarrow> string result"
  sx_paycardHash :: "string \<Rightarrow> int \<Rightarrow> int \<Rightarrow> string \<Rightarrow> string result"

record session_params =
  sp_hub :: string
  sp_listener :: json
  sp_artistWallet :: string
  sp_budget :: int
  sp_velocity :: int
  sp_lifespan :: int
  sp_envelopeToken :: json

text \<open>The values the two ways compute for the call.\<close>

record session_open =
  lo_paycardId :: json
  lo_metadataHash :: json
  lo_recipient :: string
  lo_pool :: int
  lo_velocity :: int
  lo_genesis :: int
  lo_lifespan :: int
  lo_residual :: string
  lo_signature :: json
  lo_nonceChannel :: int
  lo_nonceValue :: int
  lo_payer :: string

definition session_args :: "session_open \<Rightarrow> json list" where
  "session_args o1 =
     [lo_paycardId o1, lo_metadataHash o1, JStr (lo_recipient o1), JBigint (lo_pool o1), JBigint (lo_velocity o1),
      JBigint (lo_genesis o1), JBigint (lo_lifespan o1), JStr (lo_residual o1), lo_signature o1,
      JBigint (lo_nonceChannel o1), JBigint (lo_nonceValue o1), JStr (lo_payer o1)]"

section \<open>The listener's envelope\<close>

definition checked_address :: "'z ethers_scheme \<Rightarrow> json \<Rightarrow> string result" where
  "checked_address et v = require (get_address et v) ''invalid address''"

text \<open>\<open>Number(v)\<close> where the encoder of typed data takes only whole numbers.\<close>

definition whole_field :: "server_values \<Rightarrow> json \<Rightarrow> json result" where
  "whole_field sv v = bnd (require (js_whole sv v) ''invalid BigNumberish value'') (\<lambda>n. Inr (JNum n))"

definition text_field :: "server_values \<Rightarrow> json \<Rightarrow> json result" where
  "text_field sv v = bnd (to_string sv v) (\<lambda>s. Inr (JStr s))"

definition verificationIntent :: "server_values \<Rightarrow> json \<Rightarrow> json result" where
  "verificationIntent sv i =
     bnd (text_field sv (opt_prop i ''totalAllocationPool'')) (\<lambda>pool.
     bnd (text_field sv (opt_prop i ''flowVelocityPerSecond'')) (\<lambda>velocity.
     bnd (whole_field sv (opt_prop i ''genesisTimestamp'')) (\<lambda>genesis.
     bnd (whole_field sv (opt_prop i ''lifespanSeconds'')) (\<lambda>lifespan.
     bnd (whole_field sv (opt_prop i ''nonceChannel'')) (\<lambda>nonceChannel.
     bnd (whole_field sv (opt_prop i ''nonceValue'')) (\<lambda>nonceValue.
     Inr (JObj
       [(''paycardId'', opt_prop i ''paycardId''), (''metadataHash'', opt_prop i ''metadataHash''),
        (''recipient'', opt_prop i ''recipient''), (''totalAllocationPool'', pool), (''flowVelocityPerSecond'', velocity),
        (''genesisTimestamp'', genesis), (''lifespanSeconds'', lifespan),
        (''residualDeltaRecipient'', opt_prop i ''residualDeltaRecipient''), (''nonceChannel'', nonceChannel),
        (''nonceValue'', nonceValue)])))))))"

definition envelope_fields :: "server_values \<Rightarrow> 'z ethers_scheme \<Rightarrow> json \<Rightarrow> session_open result" where
  "envelope_fields sv et envelope =
     bnd (get_prop envelope ''intent'') (\<lambda>i.
     throw_if (\<not> js_truthy i \<or> \<not> js_truthy (opt_prop envelope ''envelopeSignature'') \<or> \<not> js_truthy (opt_prop envelope ''payerAddress''))
       ''Invalid cryptographic envelope: missing intent, signature, or payerAddress''
    (bnd (checked_address et (opt_prop envelope ''payerAddress'')) (\<lambda>payer.
     bnd (checked_address et (opt_prop i ''recipient'')) (\<lambda>recipient.
     bnd (bigint (coercions.truncate sv) (opt_prop i ''totalAllocationPool'')) (\<lambda>pool.
     bnd (bigint (coercions.truncate sv) (opt_prop i ''flowVelocityPerSecond'')) (\<lambda>velocity.
     bnd (bigint (coercions.truncate sv) (opt_prop i ''genesisTimestamp'')) (\<lambda>genesis.
     bnd (bigint (coercions.truncate sv) (opt_prop i ''lifespanSeconds'')) (\<lambda>lifespan.
     bnd (checked_address et (opt_prop i ''residualDeltaRecipient'')) (\<lambda>residual.
     bnd (bigint (coercions.truncate sv) (opt_prop i ''nonceChannel'')) (\<lambda>nonceChannel.
     bnd (bigint (coercions.truncate sv) (opt_prop i ''nonceValue'')) (\<lambda>nonceValue.
     Inr \<lparr>lo_paycardId = opt_prop i ''paycardId'', lo_metadataHash = opt_prop i ''metadataHash'', lo_recipient = recipient,
       lo_pool = pool, lo_velocity = velocity, lo_genesis = genesis, lo_lifespan = lifespan, lo_residual = residual,
       lo_signature = opt_prop envelope ''envelopeSignature'', lo_nonceChannel = nonceChannel, lo_nonceValue = nonceValue,
       lo_payer = payer\<rparr>)))))))))))"

text \<open>The verifications of an envelope, in the order of the code.\<close>

definition lower_json :: "json \<Rightarrow> string result" where
  "lower_json v = (case v of JStr s \<Rightarrow> Inr (lower s) | _ \<Rightarrow> Inl (Error ''toLowerCase is not a function''))"

definition verify_session ::
    "server_values \<Rightarrow> 'z server_ethers_scheme \<Rightarrow> session_params \<Rightarrow> int \<Rightarrow> json \<Rightarrow> session_open \<Rightarrow> unit result" where
  "verify_session sv et p chainId i o1 =
     bnd (verificationIntent sv i) (\<lambda>vi.
     bnd (require (intent_signer et ''2.0.0'' chainId (sp_hub p) vi (lo_signature o1)) ''invalid signature'') (\<lambda>recoveredSigner.
     throw_if (lower recoveredSigner \<noteq> lower (lo_payer o1))
       (''Signature verification failed: recovered '' @ recoveredSigner @ '' does not match payer '' @ lo_payer o1)
    (bnd (lower_json (sp_listener p)) (\<lambda>listener.
     throw_if (lower (lo_payer o1) \<noteq> listener) (''Listener address mismatch: envelope payer '' @ lo_payer o1)
    (throw_if (lower (lo_recipient o1) \<noteq> lower (sp_artistWallet p))
       (''Artist wallet mismatch: envelope recipient '' @ lo_recipient o1)
    (throw_if (lo_pool o1 \<noteq> sp_budget p) (''Budget mismatch: envelope pool '' @ int_str (lo_pool o1)) (Inr ())))))))"

definition listener_open ::
    "server_values \<Rightarrow> 'z server_ethers_scheme \<Rightarrow> 'h host_scheme \<Rightarrow> ('c, 'n) session_node_scheme \<Rightarrow> session_params \<Rightarrow>
     ('c keeper, session_open) io" where
  "listener_open sv et h nd p =
     io_bind (io_of (token_envelope h (sp_envelopeToken p))) (\<lambda>envelope.
     io_bind (io_of (envelope_fields sv et envelope)) (\<lambda>o1.
     io_bind (keeper_ask (kn_network nd)) (\<lambda>chainId.
     io_then (io_of (verify_session sv et p chainId (opt_prop envelope ''intent'') o1)) (io_return o1))))"

section \<open>The relayer's own session\<close>

definition demo_token :: string where
  "demo_token = ''0x3600000000000000000000000000000000000000''"

definition rawMetadata :: "session_params \<Rightarrow> string \<Rightarrow> string \<Rightarrow> json" where
  "rawMetadata p payer recipient = JObj
     [(''version'', JStr ''openrails-metadata-v1''), (''mode'', JStr ''railsflow''), (''originator'', JStr payer),
      (''recipient'', JStr recipient), (''token'', JStr demo_token), (''amount'', JStr (int_str (sp_budget p))),
      (''flowVelocityPerSecond'', JStr (int_str (sp_velocity p))), (''lifespanSeconds'', JNum (dbl (sp_lifespan p))),
      (''metadataRef'', JStr ''openrails-scrobble-sidecar-demo'')]"

definition own_intent :: "session_open \<Rightarrow> json" where
  "own_intent o1 = JObj
     [(''paycardId'', lo_paycardId o1), (''metadataHash'', lo_metadataHash o1), (''recipient'', JStr (lo_recipient o1)),
      (''totalAllocationPool'', JStr (int_str (lo_pool o1))), (''flowVelocityPerSecond'', JStr (int_str (lo_velocity o1))),
      (''genesisTimestamp'', JNum (dbl (lo_genesis o1))), (''lifespanSeconds'', JNum (dbl (lo_lifespan o1))),
      (''residualDeltaRecipient'', JStr (lo_residual o1)), (''nonceChannel'', JNum (dbl (lo_nonceChannel o1))),
      (''nonceValue'', JNum (dbl (lo_nonceValue o1)))]"

definition relayer_open ::
    "'z ethers_scheme \<Rightarrow> session_wallet \<Rightarrow> ('c, 'n) session_node_scheme \<Rightarrow> int \<Rightarrow> session_params \<Rightarrow> ('c keeper, session_open) io" where
  "relayer_open et wallet nd clock p =
     io_bind (io_of (sx_address wallet)) (\<lambda>payer.
     io_bind (io_of (checked_address et (JStr (sp_artistWallet p)))) (\<lambda>recipient.
     io_bind (keeper_ask (kn_nonce nd payer 0)) (\<lambda>nonceValue.
     let metadataHash = keccak_text et (stringify (rawMetadata p payer recipient)) in
     io_bind (io_of (sx_paycardHash wallet payer 0 nonceValue metadataHash)) (\<lambda>paycardId.
     let o1 = \<lparr>lo_paycardId = JStr paycardId, lo_metadataHash = JStr metadataHash, lo_recipient = recipient,
       lo_pool = sp_budget p, lo_velocity = sp_velocity p, lo_genesis = clock div 1000, lo_lifespan = sp_lifespan p,
       lo_residual = payer, lo_signature = JUndefined, lo_nonceChannel = 0, lo_nonceValue = nonceValue, lo_payer = payer\<rparr> in
     io_bind (keeper_ask (kn_network nd)) (\<lambda>chainId.
     io_bind (io_of (sx_sign wallet ''2.0.0'' chainId (sp_hub p) (own_intent o1))) (\<lambda>signature.
     io_return (o1\<lparr>lo_signature := JStr signature\<rparr>)))))))"

section \<open>openListeningSession\<close>

definition submit_session :: "('c, 'n) session_node_scheme \<Rightarrow> session_params \<Rightarrow> session_open \<Rightarrow> ('c keeper, json) io" where
  "submit_session nd p o1 =
     (let call = Keeper_open (session_args o1) in
      io_then (io_catch (keeper_ask (kn_dry nd call))
        (\<lambda>e. case e of Error msg \<Rightarrow> io_throw (Error (''On-chain precheck failed for openPaycardChannel: '' @ msg))))
     (io_bind (keeper_send (keeper_node.truncate nd) call) (\<lambda>hash.
      io_then (keeper_ask (kn_wait nd hash))
     (io_return (JObj [(''paycardId'', lo_paycardId o1), (''vaultAddress'', JStr (sp_hub p)), (''txHash'', JStr hash),
        (''mode'', JStr (if js_truthy (sp_envelopeToken p) then ''non-custodial'' else ''self-funded-fallback''))])))))"

definition openListeningSession ::
    "server_values \<Rightarrow> 'z server_ethers_scheme \<Rightarrow> 'h host_scheme \<Rightarrow> session_wallet \<Rightarrow> ('c, 'n) session_node_scheme \<Rightarrow> int \<Rightarrow>
     session_params \<Rightarrow> ('c keeper, json) io" where
  "openListeningSession sv et h wallet nd clock p =
     io_then (io_of (sx_address wallet))
    (io_bind (if js_truthy (sp_envelopeToken p) then listener_open sv et h nd p else relayer_open et wallet nd clock p)
      (submit_session nd p))"

section \<open>What a session sends\<close>

text \<open>What the listener signed, when there is a token: this payer, for this listener, artist and budget.\<close>

definition listener_signed ::
    "server_values \<Rightarrow> 'z server_ethers_scheme \<Rightarrow> 'h host_scheme \<Rightarrow> session_params \<Rightarrow> session_open \<Rightarrow> bool" where
  "listener_signed sv et h p o1 \<longleftrightarrow>
     (\<exists>envelope chainId vi signer.
        token_envelope h (sp_envelopeToken p) = Inr envelope \<and> envelope_fields sv et envelope = Inr o1 \<and>
        verificationIntent sv (opt_prop envelope ''intent'') = Inr vi \<and>
        intent_signer et ''2.0.0'' chainId (sp_hub p) vi (lo_signature o1) = Some signer \<and>
        lower signer = lower (lo_payer o1) \<and> lower_json (sp_listener p) = Inr (lower (lo_payer o1)) \<and>
        lower (lo_recipient o1) = lower (sp_artistWallet p) \<and> lo_pool o1 = sp_budget p)"

definition relayer_pays :: "session_wallet \<Rightarrow> session_params \<Rightarrow> session_open \<Rightarrow> bool" where
  "relayer_pays wallet p o1 \<longleftrightarrow>
     sx_address wallet = Inr (lo_payer o1) \<and> lo_residual o1 = lo_payer o1 \<and> lo_pool o1 = sp_budget p"

definition session_terms ::
    "server_values \<Rightarrow> 'z server_ethers_scheme \<Rightarrow> 'h host_scheme \<Rightarrow> session_wallet \<Rightarrow> session_params \<Rightarrow> session_open \<Rightarrow> bool" where
  "session_terms sv et h wallet p o1 \<longleftrightarrow>
     (if js_truthy (sp_envelopeToken p) then listener_signed sv et h p o1 else relayer_pays wallet p o1)"

lemma verify_session_Inr:
  "verify_session sv et p chainId i o1 = Inr u \<Longrightarrow>
     \<exists>vi signer. verificationIntent sv i = Inr vi \<and>
       intent_signer et ''2.0.0'' chainId (sp_hub p) vi (lo_signature o1) = Some signer \<and>
       lower signer = lower (lo_payer o1) \<and> lower_json (sp_listener p) = Inr (lower (lo_payer o1)) \<and>
       lower (lo_recipient o1) = lower (sp_artistWallet p) \<and> lo_pool o1 = sp_budget p"
  by (auto simp: verify_session_def bnd_def throw_if_def require_def split: sum.splits if_splits option.splits)

definition session_sends :: "(session_open \<Rightarrow> bool) \<Rightarrow> (keeper_call \<times> string result) list \<Rightarrow> json result \<Rightarrow> 'c keeper \<Rightarrow> bool" where
  "session_sends T before r s \<longleftrightarrow>
     kp_calls s = before \<and> (\<exists>e. r = Inl e) \<or>
     (\<exists>o1 q. T o1 \<and> kp_calls s = before @ [(Keeper_open (session_args o1), q)] \<and> (\<forall>b. r = Inr b \<longrightarrow> (\<exists>hash. q = Inr hash)))"

abbreviation quiet :: "(keeper_call \<times> string result) list \<Rightarrow> 'c keeper \<Rightarrow> bool" where
  "quiet before s \<equiv> kp_calls s = before"

lemma quiet_ask: "meets (quiet before) (keeper_ask q) (\<lambda>_. quiet before) (quiet before)"
  by (rule meets_keeper_ask) simp_all

lemma listener_open_terms:
  "meets (quiet before) (listener_open sv et h nd p) (\<lambda>o1 s. quiet before s \<and> listener_signed sv et h p o1) (quiet before)"
  unfolding listener_open_def
proof (intro meets_bind_of meets_bind [OF quiet_ask])
  fix envelope o1 chainId
  assume a: "token_envelope h (sp_envelopeToken p) = Inr envelope" "envelope_fields sv et envelope = Inr o1"
  show "meets (quiet before) (io_then (io_of (verify_session sv et p chainId (opt_prop envelope ''intent'') o1)) (io_return o1))
    (\<lambda>o1 s. quiet before s \<and> listener_signed sv et h p o1) (quiet before)"
    unfolding io_then_def
    by (intro meets_bind_of meets_return) (auto simp: listener_signed_def a dest!: verify_session_Inr)
qed simp_all

lemma relayer_open_terms:
  "meets (quiet before) (relayer_open et wallet nd clock p) (\<lambda>o1 s. quiet before s \<and> relayer_pays wallet p o1) (quiet before)"
  unfolding relayer_open_def Let_def
  by (intro meets_bind_of meets_bind [OF quiet_ask] meets_return) (auto simp: relayer_pays_def)

lemma submit_session_sends:
  assumes "T o1"
  shows "meets (quiet before) (submit_session nd p o1) (\<lambda>b. session_sends T before (Inr b)) (\<lambda>s. \<exists>e. session_sends T before (Inl e) s)"
proof -
  let ?call = "Keeper_open (session_args o1)"
  let ?I = "\<lambda>s. \<exists>e. session_sends T before (Inl e) s"
  have dry: "meets (quiet before) (io_catch (keeper_ask (kn_dry nd ?call))
      (\<lambda>e. case e of Error msg \<Rightarrow> io_throw (Error (''On-chain precheck failed for openPaycardChannel: '' @ msg))))
      (\<lambda>_. quiet before) ?I"
    by (rule meets_catch [OF quiet_ask]) (auto intro!: meets_throw simp: session_sends_def split: js_error.splits)
  have send: "meets (quiet before) (keeper_send (keeper_node.truncate nd) ?call)
      (\<lambda>hash s. kp_calls s = before @ [(?call, Inr hash)]) ?I"
    using assms by (intro meets_keeper_send) (auto simp: session_sends_def)
  have wait: "meets (\<lambda>s. kp_calls s = before @ [(?call, Inr hash)]) (keeper_ask (kn_wait nd hash))
      (\<lambda>_ s. kp_calls s = before @ [(?call, Inr hash)]) ?I" for hash
    using assms by (intro meets_keeper_ask) (auto simp: session_sends_def)
  show ?thesis
    unfolding submit_session_def Let_def
    by (intro meets_then [OF dry] meets_bind [OF send] meets_then [OF wait] meets_return)
       (use assms in \<open>auto simp: session_sends_def\<close>)
qed

lemma session_runs:
  "meets (quiet before) (openListeningSession sv et h wallet nd clock p)
     (\<lambda>b. session_sends (session_terms sv et h wallet p) before (Inr b))
     (\<lambda>s. \<exists>e. session_sends (session_terms sv et h wallet p) before (Inl e) s)"
proof -
  let ?T = "session_terms sv et h wallet p"
  let ?I = "\<lambda>s. \<exists>e. session_sends ?T before (Inl e) s"
  have terms: "meets (quiet before) (if js_truthy (sp_envelopeToken p) then listener_open sv et h nd p else relayer_open et wallet nd clock p)
      (\<lambda>o1 s. quiet before s \<and> ?T o1) ?I"
    by (cases "js_truthy (sp_envelopeToken p)")
       (auto intro: meets_post [OF listener_open_terms] meets_post [OF relayer_open_terms] simp: session_terms_def session_sends_def)
  have submit: "meets (\<lambda>s. quiet before s \<and> ?T o1) (submit_session nd p o1) (\<lambda>b. session_sends ?T before (Inr b)) ?I" for o1
    by (cases "?T o1") (auto intro: submit_session_sends simp: meets_def [of "\<lambda>_. False"])
  show ?thesis
    unfolding openListeningSession_def io_then_def
    by (intro meets_bind_of meets_bind [OF terms submit]) (auto simp: session_sends_def)
qed

end
