(* ===== verification/Scrobble.thy ===== *)
theory Scrobble
  imports ListenSession SettlerInvariant
begin

text \<open>
  \<open>workers/music-scrobble-worker/src/index.ts\<close>: artists are registered, listening sessions opened, and
  scrobbles recorded as pending rows of the table \<open>plays\<close> (\<open>workers/schema.sql\<close>) that the settler of
  \<open>Settler\<close> works off. The registry and the conversion of a bound value to a text column are
  parameters; everything a handler throws becomes a reply of status 500.
\<close>

section \<open>State\<close>

record 'k scrobble_env =
  se_get :: "json \<Rightarrow> 'k \<Rightarrow> string option result"
  se_put :: "string \<Rightarrow> string \<Rightarrow> 'k \<Rightarrow> unit result \<times> 'k"
  se_column :: "json \<Rightarrow> string result"
  se_secret :: "string option"
  se_relayerKey :: "string option"
  se_hub :: string

record ('k, 'c) scrobbler =
  sb_registry :: 'k
  sb_keeper :: "'c keeper"
  sb_plays :: "play list"

definition registry_put :: "'k scrobble_env \<Rightarrow> string \<Rightarrow> string \<Rightarrow> (('k, 'c) scrobbler, unit) io" where
  "registry_put ev key v s = (let (r, k) = se_put ev key v (sb_registry s) in (r, s\<lparr>sb_registry := k\<rparr>))"

definition registry_get :: "'k scrobble_env \<Rightarrow> json \<Rightarrow> (('k, 'c) scrobbler, string option) io" where
  "registry_get ev key s = (se_get ev key (sb_registry s), s)"

definition with_keeper :: "('c keeper, 'a) io \<Rightarrow> (('k, 'c) scrobbler, 'a) io" where
  "with_keeper m s = (let (r, k) = m (sb_keeper s) in (r, s\<lparr>sb_keeper := k\<rparr>))"

text \<open>\<open>INSERT OR IGNORE\<close>; \<open>source_event_id\<close> is unique where it is not null.\<close>

definition insert_play :: "play \<Rightarrow> play list \<Rightarrow> play list" where
  "insert_play p ps = (if pl_source p \<noteq> None \<and> pl_source p \<in> pl_source ` set ps then ps else ps @ [p])"

section \<open>Routes\<close>

definition scrobble_authorized :: "'k scrobble_env \<Rightarrow> worker_request \<Rightarrow> bool" where
  "scrobble_authorized ev rq \<longleftrightarrow> worker_authorized ''x-openrails-webhook-secret'' rq (se_secret ev)"

definition body_or_null :: "worker_request \<Rightarrow> json" where
  "body_or_null rq = (case wq_body rq of None \<Rightarrow> JNull | Some b \<Rightarrow> b)"

definition put_artist :: "server_values \<Rightarrow> 'k scrobble_env \<Rightarrow> worker_request \<Rightarrow> (('k, 'c) scrobbler, worker_reply) io" where
  "put_artist sv ev rq =
     (let mbid = drop 8 (wq_path rq); wallet = opt_prop (body_or_null rq) ''wallet'' in
      if \<not> scrobble_authorized ev rq then io_return (refusal ''Unauthorized'' 401)
      else if mbid = [] then io_return (refusal ''Missing mbid'' 400)
      else if \<not> js_truthy wallet \<or> \<not> isEvmAddress (js_string sv wallet)
      then io_return (refusal ''Invalid or missing wallet address'' 400)
      else
        io_bind (io_of (lower_json wallet)) (\<lambda>w.
        io_then (registry_put ev mbid w) (io_return (jsonResponse [(''mbid'', JStr mbid), (''wallet'', JStr w)] 200))))"

definition or_text :: "json \<Rightarrow> string \<Rightarrow> json" where
  "or_text v d = (if is_nullish v then JStr d else v)"

text \<open>The parameters of a session; its numbers are read inside the inner \<open>try\<close>.\<close>

definition session_params_of :: "server_values \<Rightarrow> 'k scrobble_env \<Rightarrow> json \<Rightarrow> string \<Rightarrow> session_params result" where
  "session_params_of sv ev body artistWallet =
     bnd (bigint (coercions.truncate sv) (or_text (opt_prop body ''budgetUsdc'') ''5000000'')) (\<lambda>budget.
     bnd (bigint (coercions.truncate sv) (or_text (opt_prop body ''velocityPerSecond'') ''1000'')) (\<lambda>velocity.
     bnd (bigint (coercions.truncate sv) (or_text (opt_prop body ''lifespanSeconds'') ''3600'')) (\<lambda>lifespan.
     Inr \<lparr>sp_hub = se_hub ev, sp_listener = opt_prop body ''listenerAddress'', sp_artistWallet = artistWallet, sp_budget = budget,
       sp_velocity = velocity, sp_lifespan = lifespan, sp_envelopeToken = opt_prop body ''envelopeToken''\<rparr>)))"

definition error_reply :: "js_error \<Rightarrow> (('k, 'c) scrobbler, worker_reply) io" where
  "error_reply e = (case e of Error msg \<Rightarrow> io_return (refusal msg 500))"

definition post_session ::
    "server_values \<Rightarrow> 'z server_ethers_scheme \<Rightarrow> 'h host_scheme \<Rightarrow> session_wallet \<Rightarrow> ('c, 'n) session_node_scheme \<Rightarrow>
     'k scrobble_env \<Rightarrow> int \<Rightarrow> worker_request \<Rightarrow> (('k, 'c) scrobbler, worker_reply) io" where
  "post_session sv et h wallet nd ev clock rq =
     (let body = body_or_null rq; listener = opt_prop body ''listenerAddress''; mbid = opt_prop body ''artistMbid'' in
      if \<not> scrobble_authorized ev rq then io_return (refusal ''Unauthorized'' 401)
      else if \<not> js_truthy listener \<or> \<not> js_truthy mbid then io_return (refusal ''Missing listenerAddress or artistMbid'' 400)
      else if \<not> isEvmAddress (js_string sv listener) then io_return (refusal ''Invalid listenerAddress'' 400)
      else
        io_bind (registry_get ev mbid) (\<lambda>artistWallet.
        if empty_text artistWallet
        then io_return (refusal (''Artist MBID '' @ [CHR 0x27] @ js_string sv mbid @ [CHR 0x27] @ '' is not registered.'') 404)
        else if empty_text (se_relayerKey ev) then io_return (refusal ''Relayer secret key is not configured'' 503)
        else
          io_catch
           (io_bind (io_of (session_params_of sv ev body (the artistWallet))) (\<lambda>p.
            io_bind (with_keeper (openListeningSession sv et h wallet nd clock p)) (\<lambda>r.
            io_return \<lparr>wr_status = 200, wr_body = r\<rparr>)))
           error_reply))"

definition source_event :: "json \<Rightarrow> string option result" where
  "source_event v =
     (if is_nullish v then Inr None
      else case v of
          JStr s \<Rightarrow> Inr (if trim s = [] then None else Some (trim s))
        | _ \<Rightarrow> Inl (Error ''payload.event?.trim is not a function''))"

definition new_play :: "string option \<Rightarrow> string \<Rightarrow> string \<Rightarrow> string \<Rightarrow> int \<Rightarrow> play" where
  "new_play source paycardId mbid wallet timestamp =
     \<lparr>pl_source = source, pl_paycard = paycardId, pl_mbid = mbid, pl_wallet = wallet, pl_time = timestamp,
      pl_state = Play_pending, pl_attempts = 0, pl_error = None, pl_updated = timestamp\<rparr>"

definition post_scrobble ::
    "server_values \<Rightarrow> 'k scrobble_env \<Rightarrow> int \<Rightarrow> worker_request \<Rightarrow> (('k, 'c) scrobbler, worker_reply) io" where
  "post_scrobble sv ev clock rq =
     (if empty_text (se_secret ev) then io_return (refusal ''Webhook secret is not configured'' 503)
      else if \<not> scrobble_authorized ev rq then io_return (refusal ''Unauthorized'' 401)
      else
        io_bind (io_of (require (wq_body rq) ''Unexpected token in JSON'')) (\<lambda>payload.
        io_bind (io_of (get_prop payload ''track'')) (\<lambda>track.
        let mbid = opt_prop track ''mbid''; paycardId = opt_prop payload ''paycardId'';
            artist = or_text (opt_prop track ''artist'') ''Unknown Artist'' in
        if \<not> js_truthy mbid then io_return (refusal ''Missing artist MusicBrainz ID (mbid)'' 400)
        else if \<not> js_truthy paycardId then io_return (refusal ''Missing OpenRails paycardId'' 400)
        else if \<not> isBytes32Hex (js_string sv paycardId)
        then io_return (refusal ''Invalid OpenRails paycardId; expected bytes32 hex'' 400)
        else
          io_bind (registry_get ev mbid) (\<lambda>artistWallet.
          if empty_text artistWallet then io_return (refusal (''Artist '' @ [CHR 0x27] @ js_string sv artist @ [CHR 0x27] @
            '' (MBID: '' @ js_string sv mbid @ '') is not registered in the Payee Registry.'') 404)
          else if \<not> isEvmAddress (the artistWallet)
          then io_return (refusal ''Registered artist wallet is not a valid EVM address'' 502)
          else
            io_bind (io_of (source_event (opt_prop payload ''event''))) (\<lambda>sourceEventId.
            io_bind (io_of (se_column ev paycardId)) (\<lambda>card.
            io_bind (io_of (se_column ev mbid)) (\<lambda>mb.
            io_then (io_put (\<lambda>s. s\<lparr>sb_plays := insert_play
              (new_play sourceEventId card mb (the artistWallet) (clock div 1000)) (sb_plays s)\<rparr>))
            (io_return (jsonResponse
              [(''success'', JBool True), (''message'', JStr ''Scrobble royalty logged successfully''),
               (''details'', JObj [(''artist'', artist), (''mbid'', mbid), (''wallet'', JStr (the artistWallet)),
                 (''paycardId'', paycardId),
                 (''sourceEventId'', case sourceEventId of None \<Rightarrow> JNull | Some i \<Rightarrow> JStr i)])] 200)))))))))"

definition scrobble_fetch ::
    "server_values \<Rightarrow> 'z server_ethers_scheme \<Rightarrow> 'h host_scheme \<Rightarrow> session_wallet \<Rightarrow> ('c, 'n) session_node_scheme \<Rightarrow>
     'k scrobble_env \<Rightarrow> int \<Rightarrow> worker_request \<Rightarrow> (('k, 'c) scrobbler, worker_reply) io" where
  "scrobble_fetch sv et h wallet nd ev clock rq =
     (if wq_method rq = ''OPTIONS'' then io_return \<lparr>wr_status = 204, wr_body = JUndefined\<rparr>
      else io_catch
       (if take 8 (wq_path rq) = ''/artist/'' \<and> wq_method rq = ''PUT'' then put_artist sv ev rq
        else if wq_path rq = ''/session/open'' \<and> wq_method rq = ''POST'' then post_session sv et h wallet nd ev clock rq
        else if wq_path rq = ''/webhook/scrobble'' \<and> wq_method rq = ''POST'' then post_scrobble sv ev clock rq
        else io_return (refusal ''Not Found'' 404))
       error_reply)"

end
