(* ===== verification/Royalties.thy ===== *)
theory Royalties
  imports Scrobble
begin

text \<open>
  The scrobble worker and the settler share the table \<open>plays\<close>. Requests and runs interleave; no play
  is lost or recorded twice, a finished play stays as it is, and every play is finished after enough
  runs: settled and confirmed, or skipped.
\<close>

section \<open>What a request sends\<close>

lemma error_reply_plays: "(\<And>s. P s \<Longrightarrow> Q s) \<Longrightarrow> meets P (error_reply e) (\<lambda>_. Q) I"
  by (cases e) (simp add: error_reply_def meets_return)

text \<open>A session is opened for an authorized request, on the terms of its parameters and of the
  registered artist.\<close>

definition session_opened ::
    "server_values \<Rightarrow> 'z server_ethers_scheme \<Rightarrow> 'h host_scheme \<Rightarrow> session_wallet \<Rightarrow> 'k scrobble_env \<Rightarrow> worker_request \<Rightarrow> 'k \<Rightarrow>
     (keeper_call \<times> string result) list \<Rightarrow> ('k, 'c) scrobbler \<Rightarrow> bool" where
  "session_opened sv et h wallet ev rq k before s \<longleftrightarrow>
     wq_method rq = ''POST'' \<and> wq_path rq = ''/session/open'' \<and> scrobble_authorized ev rq \<and>
     (\<exists>artist p o1 q. se_get ev (opt_prop (body_or_null rq) ''artistMbid'') k = Inr (Some artist) \<and>
        session_params_of sv ev (body_or_null rq) artist = Inr p \<and> session_terms sv et h wallet p o1 \<and>
        kp_calls (sb_keeper s) = before @ [(Keeper_open (session_args o1), q)])"

abbreviation calls_are :: "(keeper_call \<times> string result) list \<Rightarrow> 'k \<Rightarrow> ('k, 'c) scrobbler \<Rightarrow> bool" where
  "calls_are before k s \<equiv> kp_calls (sb_keeper s) = before \<and> sb_registry s = k"

lemma meets_registry_get:
  "meets (calls_are before k) (registry_get ev key) (\<lambda>x s. se_get ev key k = Inr x \<and> calls_are before k s) (calls_are before k)"
  by (auto simp: meets_def registry_get_def split: sum.splits)

lemma meets_with_keeper:
  assumes "meets (\<lambda>t. kp_calls t = before) m (\<lambda>x t. Q x t) (\<lambda>t. \<exists>e. R e t)"
  shows "meets (calls_are before k) (with_keeper m) (\<lambda>x s. Q x (sb_keeper s)) (\<lambda>s. \<exists>e. R e (sb_keeper s))"
  using assms by (fastforce simp: meets_def with_keeper_def split: prod.splits sum.splits)

lemma other_routes_send:
  "meets (\<lambda>s. kp_calls (sb_keeper s) = before) (put_artist sv ev rq) (\<lambda>_ s. kp_calls (sb_keeper s) = before)
     (\<lambda>s. kp_calls (sb_keeper s) = before)"
  "meets (\<lambda>s. kp_calls (sb_keeper s) = before) (post_scrobble sv ev clock rq) (\<lambda>_ s. kp_calls (sb_keeper s) = before)
     (\<lambda>s. kp_calls (sb_keeper s) = before)"
proof -
  let ?P = "\<lambda>s. kp_calls (sb_keeper s) = before"
  have reg: "meets ?P (registry_put ev key v) (\<lambda>_. ?P) ?P" "meets ?P (registry_get ev key') (\<lambda>_. ?P) ?P"
    "meets ?P (io_put (\<lambda>s. s\<lparr>sb_plays := f (sb_plays s)\<rparr>)) (\<lambda>_. ?P) ?P" for key v key' f
    by (auto simp: meets_def registry_put_def registry_get_def io_put_def split: prod.splits sum.splits)
  show "meets ?P (put_artist sv ev rq) (\<lambda>_. ?P) ?P"
    unfolding put_artist_def Let_def by (intro meets_if meets_return meets_bind_of meets_then [OF reg(1)])
  show "meets ?P (post_scrobble sv ev clock rq) (\<lambda>_. ?P) ?P"
    unfolding post_scrobble_def Let_def
    by (intro meets_if meets_return meets_bind_of meets_bind [OF reg(2)] meets_then [OF reg(3)])
qed

lemma post_session_sends:
  assumes rq: "wq_method rq = ''POST''" "wq_path rq = ''/session/open''"
    and S_def: "S = (\<lambda>s. kp_calls (sb_keeper s) = before \<or> session_opened sv et h wallet ev rq k before s)"
  shows "meets (calls_are before k) (post_session sv et h wallet nd ev clock rq) (\<lambda>_. S) S"
proof -
  have quiet: "calls_are before k s \<Longrightarrow> S s" for s by (simp add: S_def)
  have sent: "S s" if "session_sends (session_terms sv et h wallet p) before r (sb_keeper s)" "scrobble_authorized ev rq"
      "se_get ev (opt_prop (body_or_null rq) ''artistMbid'') k = Inr (Some artist)"
      "session_params_of sv ev (body_or_null rq) artist = Inr p" for s p r artist
    using that(1) unfolding session_sends_def
  proof (elim disjE exE conjE)
    fix o1 q
    assume o1: "session_terms sv et h wallet p o1" "kp_calls (sb_keeper s) = before @ [(Keeper_open (session_args o1), q)]"
    have "session_opened sv et h wallet ev rq k before s"
      unfolding session_opened_def by (intro conjI exI [of _ artist] exI [of _ p] exI [of _ o1] exI [of _ q] rq that(2-4) o1)
    then show ?thesis by (simp add: S_def)
  qed (simp add: S_def)
  have run: "meets (calls_are before k)
      (io_bind (io_of (session_params_of sv ev (body_or_null rq) artist)) (\<lambda>p.
       io_bind (with_keeper (openListeningSession sv et h wallet nd clock p)) (\<lambda>r. io_return \<lparr>wr_status = 200, wr_body = r\<rparr>)))
      (\<lambda>_. S) S"
    if "scrobble_authorized ev rq" "se_get ev (opt_prop (body_or_null rq) ''artistMbid'') k = Inr (Some artist)" for artist
  proof (rule meets_bind_of)
    fix p assume p: "session_params_of sv ev (body_or_null rq) artist = Inr p"
    show "meets (calls_are before k)
        (io_bind (with_keeper (openListeningSession sv et h wallet nd clock p)) (\<lambda>r. io_return \<lparr>wr_status = 200, wr_body = r\<rparr>)) (\<lambda>_. S) S"
      by (rule meets_bind [OF meets_post [OF meets_with_keeper [OF session_runs]]], assumption)
         (use sent [OF _ that p] in \<open>auto intro!: meets_return\<close>)
  qed (simp add: quiet)
  have after: "meets (\<lambda>s. se_get ev (opt_prop (body_or_null rq) ''artistMbid'') k = Inr x \<and> calls_are before k s)
      (if empty_text x then io_return r1
       else if b then io_return r2
       else io_catch
           (io_bind (io_of (session_params_of sv ev (body_or_null rq) (the x))) (\<lambda>p.
            io_bind (with_keeper (openListeningSession sv et h wallet nd clock p)) (\<lambda>r. io_return \<lparr>wr_status = 200, wr_body = r\<rparr>)))
           error_reply) (\<lambda>_. S) S"
    if "scrobble_authorized ev rq" for x r1 r2 b
  proof (cases x)
    case (Some artist)
    show ?thesis
    proof (cases "se_get ev (opt_prop (body_or_null rq) ''artistMbid'') k = Inr x")
      case True
      with Some have get: "se_get ev (opt_prop (body_or_null rq) ''artistMbid'') k = Inr (Some artist)" by simp
      show ?thesis
        unfolding Some option.sel get
        by (intro meets_if meets_return meets_catch [OF meets_pre [OF run [OF that get]]] error_reply_plays) (auto simp: quiet)
    qed (simp add: meets_def)
  qed (auto simp: empty_text_def quiet intro!: meets_return)
  show ?thesis
    unfolding post_session_def Let_def
    by (intro meets_if meets_return meets_bind [OF meets_post [OF meets_registry_get] after]) (auto simp: quiet)
qed

lemma fetch_sends:
  assumes "scrobble_fetch sv et h wallet nd ev clock rq s = (r, s')"
  shows "kp_calls (sb_keeper s') = kp_calls (sb_keeper s) \<or>
    session_opened sv et h wallet ev rq (sb_registry s) (kp_calls (sb_keeper s)) s'"
proof -
  let ?P = "calls_are (kp_calls (sb_keeper s)) (sb_registry s)"
  let ?S = "\<lambda>t. kp_calls (sb_keeper t) = kp_calls (sb_keeper s) \<or>
    session_opened sv et h wallet ev rq (sb_registry s) (kp_calls (sb_keeper s)) t"
  have routes: "meets ?P
      (if take 8 (wq_path rq) = ''/artist/'' \<and> wq_method rq = ''PUT'' then put_artist sv ev rq
       else if wq_path rq = ''/session/open'' \<and> wq_method rq = ''POST'' then post_session sv et h wallet nd ev clock rq
       else if wq_path rq = ''/webhook/scrobble'' \<and> wq_method rq = ''POST'' then post_scrobble sv ev clock rq
       else io_return (refusal ''Not Found'' 404)) (\<lambda>_. ?S) ?S"
    by (intro meets_if meets_return post_session_sends [OF _ _ refl]
        meets_pre [OF meets_post [OF other_routes_send(1) [of "kp_calls (sb_keeper s)"]]]
        meets_pre [OF meets_post [OF other_routes_send(2) [of "kp_calls (sb_keeper s)"]]]) simp_all
  have "meets ?P (scrobble_fetch sv et h wallet nd ev clock rq) (\<lambda>_. ?S) ?S"
    unfolding scrobble_fetch_def
    by (intro meets_if meets_return meets_catch [OF routes] error_reply_plays) simp_all
  from meets_state [OF this, of s] assms show ?thesis by simp
qed

section \<open>What a request records\<close>

definition records :: "play list \<Rightarrow> ('k, 'c) scrobbler \<Rightarrow> bool" where
  "records ps s \<longleftrightarrow> sb_plays s = ps \<or> (\<exists>src card mb w t. sb_plays s = insert_play (new_play src card mb w t) ps)"

abbreviation plays_are :: "play list \<Rightarrow> ('k, 'c) scrobbler \<Rightarrow> bool" where
  "plays_are ps s \<equiv> sb_plays s = ps"

lemma plays_untouched:
  "meets (plays_are ps) (registry_get ev key) (\<lambda>_. plays_are ps) (plays_are ps)"
  "meets (plays_are ps) (registry_put ev mb w) (\<lambda>_. plays_are ps) (plays_are ps)"
  "meets (plays_are ps) (with_keeper m) (\<lambda>_. plays_are ps) (plays_are ps)"
  by (auto simp: meets_def registry_get_def registry_put_def with_keeper_def split: prod.splits sum.splits)

lemma put_artist_plays: "meets (plays_are ps) (put_artist sv ev rq) (\<lambda>_. plays_are ps) (plays_are ps)"
  unfolding put_artist_def Let_def
  by (intro meets_if meets_return meets_bind_of meets_then [OF plays_untouched(2)]) simp_all

lemma post_session_plays:
  "meets (plays_are ps) (post_session sv et h wallet nd ev clock rq) (\<lambda>_. plays_are ps) (plays_are ps)"
proof -
  have open_session: "meets (plays_are ps)
      (io_bind (io_of (session_params_of sv ev body artist)) (\<lambda>p.
       io_bind (with_keeper (openListeningSession sv et h wallet nd clock p)) (\<lambda>r. io_return \<lparr>wr_status = 200, wr_body = r\<rparr>)))
      (\<lambda>_. plays_are ps) (plays_are ps)" for body artist
    by (intro meets_bind_of meets_bind [OF plays_untouched(3)] meets_return) simp_all
  show ?thesis
    unfolding post_session_def Let_def
    by (intro meets_if meets_return meets_bind [OF plays_untouched(1)] meets_catch [OF open_session] error_reply_plays) simp_all
qed

lemma post_scrobble_plays: "meets (plays_are ps) (post_scrobble sv ev clock rq) (\<lambda>_. records ps) (plays_are ps)"
proof -
  have insert: "meets (plays_are ps)
      (io_then (io_put (\<lambda>s. s\<lparr>sb_plays := insert_play (new_play src card mb w t) (sb_plays s)\<rparr>)) (io_return r))
      (\<lambda>_. records ps) (plays_are ps)" for src card mb w t r
    by (rule meets_then [where R = "records ps"], rule meets_put, simp add: records_def, blast) (simp add: meets_return)
  show ?thesis
    unfolding post_scrobble_def Let_def
    by (intro meets_if meets_return meets_bind_of meets_bind [OF plays_untouched(1)] insert) (simp_all add: records_def)
qed

lemma fetch_records:
  "meets (plays_are ps) (scrobble_fetch sv et h wallet nd ev clock rq) (\<lambda>_. records ps) (\<lambda>_. False)"
proof -
  note catch = meets_catch [where R = "plays_are ps" and Q = "\<lambda>_. records ps" and I = "\<lambda>_. False"]
  have fail: "meets (plays_are ps) (error_reply e) (\<lambda>_. records ps) (\<lambda>_. False)" for e
    by (rule error_reply_plays) (simp add: records_def)
  have routes: "meets (plays_are ps)
      (if take 8 (wq_path rq) = ''/artist/'' \<and> wq_method rq = ''PUT'' then put_artist sv ev rq
       else if wq_path rq = ''/session/open'' \<and> wq_method rq = ''POST'' then post_session sv et h wallet nd ev clock rq
       else if wq_path rq = ''/webhook/scrobble'' \<and> wq_method rq = ''POST'' then post_scrobble sv ev clock rq
       else io_return (refusal ''Not Found'' 404)) (\<lambda>_. records ps) (plays_are ps)"
    by (intro meets_if post_scrobble_plays meets_post [OF put_artist_plays] meets_post [OF post_session_plays] meets_return)
       (simp_all add: records_def)
  show ?thesis
    unfolding scrobble_fetch_def
    by (intro meets_if catch [OF routes fail] meets_return) (simp add: records_def)
qed

section \<open>Runs of the settler\<close>

text \<open>A play keeps what it records, and once finished it does not change.\<close>

definition play_later :: "play \<Rightarrow> play \<Rightarrow> bool" where
  "play_later p p' \<longleftrightarrow>
     pl_source p' = pl_source p \<and> pl_paycard p' = pl_paycard p \<and> pl_wallet p' = pl_wallet p \<and>
     (pl_state p = Play_settled \<or> pl_state p = Play_skipped \<longrightarrow> p' = p)"

abbreviation plays_later :: "play list \<Rightarrow> play list \<Rightarrow> bool" where
  "plays_later \<equiv> list_all2 play_later"

lemma plays_later_refl: "plays_later ps ps"
  by (rule list.rel_refl) (simp add: play_later_def)

lemma plays_later_trans: "plays_later ps qs \<Longrightarrow> plays_later qs rs \<Longrightarrow> plays_later ps rs"
  by (rule list_all2_trans) (auto simp: play_later_def)

lemma plays_later_sources: "plays_later ps qs \<Longrightarrow> map pl_source qs = map pl_source ps"
  by (induction rule: list_all2_induct) (simp_all add: play_later_def)

lemma play_step_later: "play_step m i p p' \<Longrightarrow> play_later p p'"
  by (auto simp: play_step_def play_later_def of_card_def split: if_splits)

lemma reconcile_later:
  fixes cf :: settler_config and nd :: "'c settler_node"
  defines "m \<equiv> readPositiveInt (sc_whole cf) (sc_maxAttempts cf) 5"
  assumes "tame m s"
  shows "plays_later (sg_plays s) (sg_plays (snd (reconcileFromD1 cf nd now s)))"
proof -
  let ?P = "\<lambda>t :: 'c settling. tame m t \<and> plays_later (sg_plays s) (sg_plays t)"
  have "meets ?P (reconcile_card nd now m i) (\<lambda>_. ?P) ?P" for i
  proof (rule meets_with)
    fix t :: "'c settling"
    assume t: "?P t"
    show "meets (\<lambda>u. u = t) (reconcile_card nd now m i) (\<lambda>_. ?P) ?P"
    proof (rule meets_pre [OF meets_post [OF reconcile_card_runs [of "sg_plays t" m nd now i]]])
      fix x and u :: "'c settling"
      assume "run_from m i (sg_plays t) u"
      then have "tame m u" "plays_later (sg_plays t) (sg_plays u)"
        by (auto simp: run_from_def elim: list_all2_mono intro: play_step_later)
      with t show "?P u" using plays_later_trans [of "sg_plays s" "sg_plays t" "sg_plays u"] by blast
    qed (use t in simp_all)
  qed
  then have each: "meets ?P (io_each (reconcile_card nd now m) is) (\<lambda>_. ?P) ?P" for "is" by (rule meets_each)
  have "meets ?P (reconcileFromD1 cf nd now) (\<lambda>_. ?P) ?P"
    unfolding reconcileFromD1_def Let_def m_def [symmetric] by (rule meets_bind_get, rule meets_pre [OF each]) simp
  from meets_state [OF this] assms(2) show ?thesis by (simp add: plays_later_refl)
qed

section \<open>Requests and runs interleaved\<close>

datatype ('k, 'c) royalty_event =
    Asked "'c session_node" int worker_request
  | Ran "'c settler_node" int

record ('k, 'c) royalty_system =
  ry_worker :: "('k, 'c) scrobbler"
  ry_settler :: "'c settling"

text \<open>Both workers see the one table.\<close>

definition royalty_step ::
    "server_values \<Rightarrow> server_ethers \<Rightarrow> host \<Rightarrow> session_wallet \<Rightarrow> 'k scrobble_env \<Rightarrow> settler_config \<Rightarrow>
     ('k, 'c) royalty_event \<Rightarrow> ('k, 'c) royalty_system \<Rightarrow> ('k, 'c) royalty_system" where
  "royalty_step sv et h wallet ev cf e y =
     (case e of
        Asked nd clock rq \<Rightarrow>
          let sb = snd (scrobble_fetch sv et h wallet nd ev clock rq ((ry_worker y)\<lparr>sb_plays := sg_plays (ry_settler y)\<rparr>)) in
          \<lparr>ry_worker = sb, ry_settler = (ry_settler y)\<lparr>sg_plays := sb_plays sb\<rparr>\<rparr>
      | Ran nd now \<Rightarrow> y\<lparr>ry_settler := snd (reconcileFromD1 cf nd now (ry_settler y))\<rparr>)"

definition royalty_plays :: "('k, 'c) royalty_system \<Rightarrow> play list" where
  "royalty_plays y = sg_plays (ry_settler y)"

definition maxAttempts :: "settler_config \<Rightarrow> int" where
  "maxAttempts cf = readPositiveInt (sc_whole cf) (sc_maxAttempts cf) 5"

definition sources_distinct :: "play list \<Rightarrow> bool" where
  "sources_distinct ps \<longleftrightarrow> distinct (filter (\<lambda>x. x \<noteq> None) (map pl_source ps))"

definition grows :: "play list \<Rightarrow> play list \<Rightarrow> bool" where
  "grows ps qs \<longleftrightarrow> length ps \<le> length qs \<and> plays_later ps (take (length ps) qs)"

lemma grows_refl: "grows ps ps"
  by (simp add: grows_def plays_later_refl)

lemma grows_trans: "grows ps qs \<Longrightarrow> grows qs rs \<Longrightarrow> grows ps rs"
proof -
  assume a: "grows ps qs" "grows qs rs"
  then have "plays_later (take (length ps) qs) (take (length ps) (take (length qs) rs))"
    by (intro list_all2_takeI) (simp add: grows_def)
  with a show ?thesis by (auto simp: grows_def min_def intro: plays_later_trans split: if_splits)
qed

lemma royalty_step_ok:
  fixes y :: "('k, 'c) royalty_system"
  assumes "tame (maxAttempts cf) (ry_settler y)" "sources_distinct (royalty_plays y)"
    and y'_def: "y' = royalty_step sv et h wallet ev cf e y"
  shows "tame (maxAttempts cf) (ry_settler y') \<and> sources_distinct (royalty_plays y') \<and> grows (royalty_plays y) (royalty_plays y')"
proof (cases e)
  case (Ran nd now)
  from reconcile_run [of cf "ry_settler y" nd now] assms(1) have "tame (maxAttempts cf) (ry_settler y')"
    by (force simp: y'_def royalty_step_def Ran maxAttempts_def)
  moreover have later: "plays_later (royalty_plays y) (royalty_plays y')"
    using reconcile_later [of cf "ry_settler y" nd now] assms(1) by (simp add: y'_def royalty_step_def Ran royalty_plays_def maxAttempts_def)
  ultimately show ?thesis
    using assms(2) plays_later_sources [OF later] list_all2_lengthD [OF later] by (simp add: sources_distinct_def grows_def)
next
  case (Asked nd clock rq)
  let ?sb = "snd (scrobble_fetch sv et h wallet nd ev clock rq ((ry_worker y)\<lparr>sb_plays := royalty_plays y\<rparr>))"
  note fetch = fetch_records [of "royalty_plays y" sv et h wallet nd ev clock rq]
  obtain r sb where r: "scrobble_fetch sv et h wallet nd ev clock rq ((ry_worker y)\<lparr>sb_plays := royalty_plays y\<rparr>) = (r, sb)"
    by fastforce
  have rec: "records (royalty_plays y) sb"
  proof (cases r)
    case (Inl e)
    with r have "scrobble_fetch sv et h wallet nd ev clock rq ((ry_worker y)\<lparr>sb_plays := royalty_plays y\<rparr>) = (Inl e, sb)" by simp
    from meets_thrown [OF fetch _ this] show ?thesis by simp
  next
    case (Inr b)
    with r have "scrobble_fetch sv et h wallet nd ev clock rq ((ry_worker y)\<lparr>sb_plays := royalty_plays y\<rparr>) = (Inr b, sb)" by simp
    from meetsD [OF fetch _ this] show ?thesis by simp
  qed
  have y': "ry_settler y' = (ry_settler y)\<lparr>sg_plays := sb_plays sb\<rparr>"
    using r by (simp add: y'_def royalty_step_def Asked royalty_plays_def)
  have pos: "0 < maxAttempts cf" by (simp add: maxAttempts_def readPositiveInt_pos)
  have fresh: "pl_state (new_play a b c d t) = Play_pending" "pl_attempts (new_play a b c d t) = 0" for a b c d t
    by (simp_all add: new_play_def)
  from rec consider (same) "sb_plays sb = royalty_plays y" |
    (new) p where "pl_state p = Play_pending" "pl_attempts p = 0" "sb_plays sb = royalty_plays y @ [p]"
      "pl_source p \<noteq> None \<longrightarrow> pl_source p \<notin> pl_source ` set (royalty_plays y)"
    unfolding records_def
  proof (elim disjE exE)
    fix src card mb w t
    assume i: "sb_plays sb = insert_play (new_play src card mb w t) (royalty_plays y)"
    show thesis
    proof (cases "sb_plays sb = royalty_plays y")
      case False
      with i new [of "new_play src card mb w t"] fresh show thesis by (auto simp: insert_play_def split: if_splits)
    qed (rule same)
  qed (rule same)
  then show ?thesis
  proof cases
    case same
    with y' assms(1,2) show ?thesis by (auto simp: tame_def royalty_plays_def grows_refl)
  next
    case new
    with y' assms(1,2) pos show ?thesis
      by (auto simp: tame_def royalty_plays_def tame_play_def sources_distinct_def grows_def plays_later_refl)
  qed
qed

definition royalty_run ::
    "server_values \<Rightarrow> server_ethers \<Rightarrow> host \<Rightarrow> session_wallet \<Rightarrow> 'k scrobble_env \<Rightarrow> settler_config \<Rightarrow>
     ('k, 'c) royalty_event list \<Rightarrow> ('k, 'c) royalty_system \<Rightarrow> ('k, 'c) royalty_system" where
  "royalty_run sv et h wallet ev cf es y = fold (royalty_step sv et h wallet ev cf) es y"

lemma royalty_run_ok:
  assumes "tame (maxAttempts cf) (ry_settler y)" "sources_distinct (royalty_plays y)"
  shows "tame (maxAttempts cf) (ry_settler (royalty_run sv et h wallet ev cf es y)) \<and>
    sources_distinct (royalty_plays (royalty_run sv et h wallet ev cf es y)) \<and>
    grows (royalty_plays y) (royalty_plays (royalty_run sv et h wallet ev cf es y))"
  using assms
proof (induction es arbitrary: y)
  case (Cons e es)
  from royalty_step_ok [OF Cons.prems refl] Cons.IH show ?case by (fastforce simp: royalty_run_def intro: grows_trans)
qed (simp add: royalty_run_def grows_refl)

lemma runs_of_settler:
  "ry_settler (royalty_run sv et h wallet ev cf (map (\<lambda>(nd, now). Ran nd now) runs) y) = reconcile_runs cf runs (ry_settler y)"
  by (induction runs arbitrary: y) (auto simp: royalty_run_def reconcile_runs_def royalty_step_def)

text \<open>Whatever happened before, enough runs without a request in between finish every play.\<close>

lemma royalties_finish:
  fixes y :: "('k, 'c) royalty_system"
  assumes start: "tame (maxAttempts cf) (ry_settler y)" "sources_distinct (royalty_plays y)"
    and enough: "total_left (maxAttempts cf) (royalty_plays (royalty_run sv et h wallet ev cf es y)) \<le> length runs"
    and p: "p \<in> set (royalty_plays (royalty_run sv et h wallet ev cf (es @ map (\<lambda>(nd, now). Ran nd now) runs) y))"
  shows "pl_state p = Play_skipped \<or> pl_state p = Play_settled \<and>
    pl_paycard p \<in> set (sg_confirmed (ry_settler (royalty_run sv et h wallet ev cf (es @ map (\<lambda>(nd, now). Ran nd now) runs) y)))"
proof -
  let ?y = "royalty_run sv et h wallet ev cf es y"
  let ?s = "reconcile_runs cf runs (ry_settler ?y)"
  have fin: "ry_settler (royalty_run sv et h wallet ev cf (es @ map (\<lambda>(nd, now). Ran nd now) runs) y) = ?s"
    using runs_of_settler [of sv et h wallet ev cf runs ?y] by (simp add: royalty_run_def)
  have t: "tame (maxAttempts cf) (ry_settler ?y)" using royalty_run_ok [OF start] by blast
  from runs_finish [of cf "ry_settler ?y" runs] t enough
  have "tame (maxAttempts cf) ?s" "total_left (maxAttempts cf) (sg_plays ?s) = 0"
    by (simp_all add: maxAttempts_def royalty_plays_def)
  from plays_finished [OF this] p show ?thesis by (simp add: fin royalty_plays_def)
qed

text \<open>And no play is lost on the way.\<close>

lemma grows_in:
  assumes "p \<in> set ps" "grows ps qs"
  obtains p' where "p' \<in> set qs" "play_later p p'"
proof -
  from assms(1) obtain i where i: "i < length ps" "p = ps ! i" by (auto simp: in_set_conv_nth)
  with assms(2) have "play_later p (qs ! i)" "i < length qs" by (auto simp: grows_def list_all2_conv_all_nth)
  with that show thesis by (meson nth_mem)
qed

lemma royalties_settle:
  fixes y :: "('k, 'c) royalty_system"
  defines "final \<equiv> \<lambda>sv et h wallet ev cf es runs. royalty_run sv et h wallet ev cf (es @ map (\<lambda>(nd, now). Ran nd now) runs) y"
  assumes "royalty_plays y = []"
    and "total_left (maxAttempts cf) (royalty_plays (royalty_run sv et h wallet ev cf es y)) \<le> length runs"
    and p: "p \<in> set (royalty_plays (royalty_run sv et h wallet ev cf es y))"
  obtains p' where "p' \<in> set (royalty_plays (final sv et h wallet ev cf es runs))" "play_later p p'"
    "pl_state p' = Play_skipped \<or> pl_state p' = Play_settled \<and>
       pl_paycard p' \<in> set (sg_confirmed (ry_settler (final sv et h wallet ev cf es runs)))"
proof -
  have start: "tame (maxAttempts cf) (ry_settler y)" "sources_distinct (royalty_plays y)"
    using assms(2) by (simp_all add: tame_def royalty_plays_def sources_distinct_def)
  let ?y = "royalty_run sv et h wallet ev cf es y" and ?z = "final sv et h wallet ev cf es runs"
  have z: "?z = royalty_run sv et h wallet ev cf (map (\<lambda>(nd, now). Ran nd now) runs) ?y"
    by (simp add: final_def royalty_run_def)
  from royalty_run_ok [OF start] have "tame (maxAttempts cf) (ry_settler ?y)" "sources_distinct (royalty_plays ?y)" by blast+
  from royalty_run_ok [OF this] have "grows (royalty_plays ?y) (royalty_plays ?z)" unfolding z by blast
  with p obtain p' where p': "p' \<in> set (royalty_plays ?z)" "play_later p p'"
    by (rule grows_in)
  from royalties_finish [OF start assms(3) p'(1) [unfolded final_def]] that [OF p'] show thesis by (simp add: final_def)
qed

end
