(* ===== verification/X402Gateway.thy ===== *)
theory X402Gateway
  imports WorkerBase ServerBase
begin

text \<open>
  \<open>workers/x402-gateway-worker/src/index.ts\<close>: a resource behind a payment. The middleware that checks
  and settles the payment is a third party's, written for Express; \<open>runExpressMiddleware\<close> runs it on
  shims and decides from what it does whether it answered by itself or let the request pass. What the
  middleware does is a trace of actions on the shims, up to the moment the worker goes on. The request
  shim is shared, so a payment attached late is still seen. The payment holds no \<open>BigInt\<close>. The copies
  of the metadata functions in this file are the text of \<open>sdk/src/metadata.ts\<close>.
\<close>

section \<open>The adapter\<close>

datatype mw_action =
    Set_header string string
  | Write_head int "string obj option"
  | Set_status int
  | End_body "string option"
  | Send_json json
  | Attach_payment json
  | Call_next
  | Throws string
  | Returned_plain
  | Fulfilled
  | Async_rejected string

record mw_response =
  xr_status :: int
  xr_headers :: "string obj"
  xr_text :: string

datatype mw_outcome = Responded mw_response | Passed

record mw_state =
  mw_result :: "mw_outcome option"
  mw_status :: int
  mw_headers :: "string obj"
  mw_body :: "string option"
  mw_payment :: json

definition cors_headers :: "string obj" where
  "cors_headers =
     [(''access-control-allow-origin'', ''*''), (''access-control-allow-methods'', ''GET, POST, OPTIONS''),
      (''access-control-allow-headers'',
       ''Content-Type, Authorization, X-Payment, X-Payment-Response, Payment-Signature, Payment-Required, Payment-Response''),
      (''access-control-expose-headers'', ''Payment-Required, Payment-Response, X-Payment-Response'')]"

text \<open>Names of headers are compared without regard to case.\<close>

definition set_header :: "string \<Rightarrow> string \<Rightarrow> string obj \<Rightarrow> string obj" where
  "set_header k v hs = oset (lower k) v hs"

definition mw_start :: mw_state where
  "mw_start = \<lparr>mw_result = None, mw_status = 200, mw_headers = set_header ''content-type'' ''application/json'' cors_headers,
     mw_body = None, mw_payment = JUndefined\<rparr>"

definition safeResolve :: "mw_outcome \<Rightarrow> mw_state \<Rightarrow> mw_state" where
  "safeResolve r m = (case mw_result m of None \<Rightarrow> m\<lparr>mw_result := Some r\<rparr> | Some _ \<Rightarrow> m)"

definition text_or_empty :: "string option \<Rightarrow> string" where
  "text_or_empty t = (case t of None \<Rightarrow> [] | Some s \<Rightarrow> s)"

definition shim_response :: "mw_state \<Rightarrow> mw_outcome" where
  "shim_response m = Responded \<lparr>xr_status = mw_status m, xr_headers = mw_headers m, xr_text = text_or_empty (mw_body m)\<rparr>"

definition shim_end :: "bool \<Rightarrow> string option \<Rightarrow> mw_state \<Rightarrow> mw_state" where
  "shim_end isPaidRequest body m =
     (let m' = m\<lparr>mw_body := body\<rparr> in if isPaidRequest then m' else safeResolve (shim_response m') m')"

definition middleware_error :: "string \<Rightarrow> mw_outcome" where
  "middleware_error msg = Responded
     \<lparr>xr_status = 502, xr_headers = set_header ''content-type'' ''application/json'' cors_headers,
      xr_text = stringify (JObj [(''error'', JStr (''Middleware error: '' @ msg))])\<rparr>"

fun shim_step :: "bool \<Rightarrow> mw_action \<Rightarrow> mw_state \<Rightarrow> mw_state" where
  "shim_step paid (Set_header k v) m = m\<lparr>mw_headers := set_header k v (mw_headers m)\<rparr>"
| "shim_step paid (Write_head st hs) m =
     m\<lparr>mw_status := st,
       mw_headers := fold (\<lambda>(k, v). set_header k v) (case hs of None \<Rightarrow> [] | Some l \<Rightarrow> l) (mw_headers m)\<rparr>"
| "shim_step paid (Set_status st) m = m\<lparr>mw_status := st\<rparr>"
| "shim_step paid (End_body body) m = shim_end paid body m"
| "shim_step paid (Send_json v) m =
     shim_end paid (if v = JUndefined then None else Some (stringify (drop_unset v))) m"
| "shim_step paid (Attach_payment v) m = m\<lparr>mw_payment := v\<rparr>"
| "shim_step paid Call_next m = safeResolve Passed m"
| "shim_step paid (Throws msg) m = safeResolve (middleware_error msg) m"
| "shim_step paid (Async_rejected msg) m = safeResolve (middleware_error msg) m"
| "shim_step paid Fulfilled m = (if js_truthy (mw_payment m) then safeResolve Passed m else safeResolve (shim_response m) m)"
| "shim_step paid Returned_plain m =
     (if js_truthy (mw_payment m) then safeResolve Passed m
      else case mw_body m of None \<Rightarrow> m | Some _ \<Rightarrow> safeResolve (shim_response m) m)"

definition isPaidRequest :: "worker_request \<Rightarrow> bool" where
  "isPaidRequest rq \<longleftrightarrow> oget (wq_headers rq) ''payment-signature'' \<noteq> None \<or> oget (wq_headers rq) ''x-payment'' \<noteq> None"

definition runExpressMiddleware :: "worker_request \<Rightarrow> mw_action list \<Rightarrow> mw_state" where
  "runExpressMiddleware rq trace = fold (shim_step (isPaidRequest rq)) trace mw_start"

section \<open>handleX402Artifact\<close>

record x402_env =
  xe_chainId :: json
  xe_usdc :: string
  xe_hub :: string
  xe_price :: string
  xe_network :: string
  xe_facilitator :: string
  xe_seller :: string

definition worker_scope :: string where
  "worker_scope = ''GET /api/x402/openrails-artifact''"

definition settlement_id :: "json \<Rightarrow> json" where
  "settlement_id payment = (let t = opt_prop payment ''transaction'' in if is_nullish t then JStr [] else t)"

definition descriptionHash_of :: "'z ethers_scheme \<Rightarrow> x402_env \<Rightarrow> json \<Rightarrow> string" where
  "descriptionHash_of et env payment = keccak_text et (stringify (drop_unset (JObj
     [(''amount'', opt_prop payment ''amount''), (''network'', opt_prop payment ''network''),
      (''payer'', opt_prop payment ''payer''), (''scope'', JStr worker_scope), (''seller'', JStr (xe_seller env)),
      (''settlementId'', settlement_id payment)])))"

definition artifact_metadata :: "server_values \<Rightarrow> 'z ethers_scheme \<Rightarrow> x402_env \<Rightarrow> json \<Rightarrow> json" where
  "artifact_metadata sv et env payment = JObj
     [(''version'', JStr ''openrails-metadata-v1''), (''mode'', JStr ''railsflow''),
      (''originator'', opt_prop payment ''payer''), (''recipient'', JStr (xe_seller env)), (''token'', JStr (xe_usdc env)),
      (''amount'', opt_prop payment ''amount''), (''flowVelocityPerSecond'', JStr ''0''), (''lifespanSeconds'', JNum 0),
      (''metadataRef'', JStr (if js_truthy (settlement_id payment) then ''circle-x402:'' @ js_string sv (settlement_id payment)
         else ''circle-x402:pending'')),
      (''descriptionHash'', JStr (descriptionHash_of et env payment))]"

definition next_action :: string where
  "next_action = ''Redeem this artifact into a real Vault escrow: open a Paycard Stream with a separate '' @
     ''OpenRails wallet signature, binding metadataRef=circle-x402:<settlementId> '' @
     ''(non-custodial; buyer funds their own escrow). See `npm run smoke:x402:stream`.''"

definition artifact_body :: "server_values \<Rightarrow> 'z ethers_scheme \<Rightarrow> x402_env \<Rightarrow> json \<Rightarrow> json" where
  "artifact_body sv et env payment =
     (let metadata = artifact_metadata sv et env payment in JObj
       [(''success'', JBool True),
        (''message'', JStr ''Circle x402 payment accepted; OpenRails artifact generated without Vault escrow''),
        (''x402'', JObj
          [(''payer'', opt_prop payment ''payer''), (''amount'', opt_prop payment ''amount''),
           (''network'', opt_prop payment ''network''), (''settlementId'', settlement_id payment),
           (''facilitatorUrl'', JStr (xe_facilitator env))]),
        (''openrails'', JObj
          [(''artifactVersion'', JStr ''openrails-x402-artifact-v1''), (''chainId'', xe_chainId env),
           (''vaultAddress'', JStr (xe_hub env)), (''tokenAddress'', JStr (xe_usdc env)),
           (''serviceOrigin'', JStr ''https://openrails-x402-gateway.workers.dev''), (''scope'', JStr worker_scope),
           (''metadata'', metadata), (''metadataHash'', JStr (hashOpenRailsMetadata et metadata)),
           (''vaultEscrowClaimed'', JBool False), (''openRailsSettlementStage'', JStr ''metadata_only''),
           (''nextAction'', JStr next_action)])])"

text \<open>A reply of the gateway: made by the middleware, or a value of its own with extra headers.\<close>

datatype x402_reply = From_middleware mw_response | Own worker_reply "string obj"

text \<open>\<open>None\<close>: the middleware never came to an end, and neither does the request.\<close>

definition handleX402Artifact ::
    "server_values \<Rightarrow> 'z ethers_scheme \<Rightarrow> x402_env \<Rightarrow> worker_request \<Rightarrow> mw_action list \<Rightarrow> x402_reply option" where
  "handleX402Artifact sv et env rq trace =
     (let m = runExpressMiddleware rq trace; payment = mw_payment m in
      case mw_result m of
        None \<Rightarrow> None
      | Some (Responded r) \<Rightarrow> Some (From_middleware r)
      | Some Passed \<Rightarrow>
          Some (if \<not> js_truthy payment then Own (refusal ''Circle x402 payment metadata was not attached'' 502) []
                else if \<not> isAddress et (opt_prop payment ''payer'')
                then Own (refusal ''Circle x402 payment payer is not an EVM address'' 502) []
                else Own \<lparr>wr_status = 200, wr_body = artifact_body sv et env payment\<rparr> (mw_headers m)))"

definition handleHealth :: "x402_env \<Rightarrow> worker_reply" where
  "handleHealth env = jsonResponse
     [(''status'', JStr ''ok''), (''service'', JStr ''openrails-x402-gateway''), (''chainId'', xe_chainId env),
      (''hubAddress'', JStr (xe_hub env)), (''sellerAddress'', JStr (xe_seller env)),
      (''facilitatorUrl'', JStr (xe_facilitator env)), (''price'', JStr (xe_price env))] 200"

definition x402_fetch ::
    "server_values \<Rightarrow> 'z ethers_scheme \<Rightarrow> x402_env \<Rightarrow> worker_request \<Rightarrow> mw_action list \<Rightarrow> x402_reply option" where
  "x402_fetch sv et env rq trace =
     (if wq_method rq = ''OPTIONS'' then Some (Own \<lparr>wr_status = 204, wr_body = JUndefined\<rparr> [])
      else if wq_path rq = ''/'' \<or> wq_path rq = ''/health'' then Some (Own (handleHealth env) [])
      else if wq_path rq = ''/api/x402/openrails-artifact'' then
        (if wq_method rq \<noteq> ''GET'' then Some (Own (refusal ''Only GET requests allowed'' 405) [])
         else handleX402Artifact sv et env rq trace)
      else Some (Own (refusal ''Not Found'' 404) []))"

section \<open>What lets a request pass\<close>

lemma resolved_stays: "mw_result m = Some r \<Longrightarrow> mw_result (fold (shim_step paid) trace m) = Some r"
proof (induction trace arbitrary: m)
  case (Cons a trace)
  have "mw_result (shim_step paid a m) = Some r"
    using Cons.prems by (cases a) (simp_all add: shim_end_def safeResolve_def Let_def split: option.splits)
  with Cons.IH show ?case by simp
qed simp

lemma fold_unresolved:
  assumes "mw_result (fold (shim_step paid) trace m) = None"
  shows "mw_result m = None"
proof (rule ccontr)
  assume "mw_result m \<noteq> None"
  then obtain r where "mw_result m = Some r" by blast
  from resolved_stays [OF this] assms show False by simp
qed

text \<open>The action that decided the outcome.\<close>

lemma deciding_action:
  assumes "mw_result (fold (shim_step paid) trace m) = Some r" "mw_result m = None"
  obtains pre a post where "trace = pre @ a # post" "mw_result (fold (shim_step paid) pre m) = None"
    "mw_result (shim_step paid a (fold (shim_step paid) pre m)) = Some r"
  using assms
proof (induction trace arbitrary: m thesis)
  case (Cons a trace)
  show ?case
  proof (cases "mw_result (shim_step paid a m)")
    case None
    from Cons.IH [OF _ _ None] Cons.prems(2) obtain pre b post where
      "trace = pre @ b # post" "mw_result (fold (shim_step paid) pre (shim_step paid a m)) = None"
      "mw_result (shim_step paid b (fold (shim_step paid) pre (shim_step paid a m))) = Some r"
      by (metis fold_simps(2))
    with Cons.prems(1) [of "a # pre" b post] show thesis by simp
  next
    case (Some q)
    with resolved_stays [OF Some, of paid trace] Cons.prems(2) have "q = r" by simp
    with Cons.prems(1) [of "[]" a trace] Cons.prems(3) Some show thesis by simp
  qed
qed simp

lemma passing_action:
  "mw_result m = None \<Longrightarrow> mw_result (shim_step paid a m) = Some Passed \<Longrightarrow>
     a = Call_next \<or> js_truthy (mw_payment m) \<and> (a = Fulfilled \<or> a = Returned_plain)"
  by (cases a) (auto simp: shim_end_def safeResolve_def shim_response_def middleware_error_def Let_def split: if_splits option.splits)

lemma payment_attached:
  "mw_payment (fold (shim_step paid) trace m) = mw_payment m \<or> Attach_payment (mw_payment (fold (shim_step paid) trace m)) \<in> set trace"
proof (induction trace arbitrary: m)
  case (Cons a trace)
  have "mw_payment (shim_step paid a m) = mw_payment m \<or> a = Attach_payment (mw_payment (shim_step paid a m))"
    by (cases a) (auto simp: shim_end_def safeResolve_def Let_def split: option.splits)
  with Cons.IH [of "shim_step paid a m"] show ?case by auto
qed simp

definition is_artifact :: "x402_reply \<Rightarrow> bool" where
  "is_artifact r \<longleftrightarrow> (case r of From_middleware _ \<Rightarrow> False | Own w _ \<Rightarrow> opt_prop (wr_body w) ''openrails'' \<noteq> JUndefined)"

text \<open>An artifact is handed out only after the middleware let the request pass, for the payment it
  attached, and names its payer, amount and settlement.\<close>

lemma artifact_was_paid:
  assumes "x402_fetch sv et env rq trace = Some r" "is_artifact r"
  obtains payment where "Attach_payment payment \<in> set trace" "js_truthy payment" "isAddress et (opt_prop payment ''payer'')"
    "\<exists>hs. r = Own \<lparr>wr_status = 200, wr_body = artifact_body sv et env payment\<rparr> hs"
    "Call_next \<in> set trace \<or> Fulfilled \<in> set trace \<or> Returned_plain \<in> set trace"
    "\<And>pre a post. trace = pre @ a # post \<Longrightarrow> mw_result (runExpressMiddleware rq pre) = None \<or> mw_result (runExpressMiddleware rq pre) = Some Passed"
proof -
  let ?m = "runExpressMiddleware rq trace"
  let ?p = "mw_payment ?m"
  note defs = is_artifact_def refusal_def jsonResponse_def handleHealth_def opt_prop_def
  have passed: "mw_result ?m = Some Passed" "js_truthy ?p" "isAddress et (opt_prop ?p ''payer'')"
    "\<exists>hs. r = Own \<lparr>wr_status = 200, wr_body = artifact_body sv et env ?p\<rparr> hs"
    using assms
    by (auto simp: x402_fetch_def handleX402Artifact_def Let_def is_artifact_def refusal_def jsonResponse_def handleHealth_def
        opt_prop_def [of "JObj _"] opt_prop_def [of JUndefined] split: if_splits option.splits mw_outcome.splits)
  have att: "Attach_payment ?p \<in> set trace"
    using payment_attached [of "isPaidRequest rq" trace mw_start] passed(2)
    by (auto simp: runExpressMiddleware_def mw_start_def js_truthy_def)
  have "mw_result mw_start = None" by (simp add: mw_start_def)
  with passed(1) obtain pre a post where t: "trace = pre @ a # post"
      "mw_result (fold (shim_step (isPaidRequest rq)) pre mw_start) = None"
      "mw_result (shim_step (isPaidRequest rq) a (fold (shim_step (isPaidRequest rq)) pre mw_start)) = Some Passed"
    unfolding runExpressMiddleware_def by (rule deciding_action)
  from passing_action [OF t(2,3)] t(1) have via: "Call_next \<in> set trace \<or> Fulfilled \<in> set trace \<or> Returned_plain \<in> set trace" by auto
  have first: "mw_result (runExpressMiddleware rq pre) = None \<or> mw_result (runExpressMiddleware rq pre) = Some Passed"
    if "trace = pre @ a # post" for pre a post
    using that passed(1) resolved_stays [of "runExpressMiddleware rq pre" _ "isPaidRequest rq" "a # post"]
    by (cases "mw_result (runExpressMiddleware rq pre)") (auto simp: runExpressMiddleware_def)
  from that [OF att passed(2,3,4) via first] show thesis .
qed

text \<open>A request without a payment header on which the middleware answers first gets that answer.\<close>

lemma challenge_is_returned:
  assumes "\<not> isPaidRequest rq" "trace = pre @ End_body body # post" "mw_result (runExpressMiddleware rq pre) = None"
    "wq_method rq = ''GET''" "wq_path rq = ''/api/x402/openrails-artifact''"
  shows "x402_fetch sv et env rq trace = Some (From_middleware
    \<lparr>xr_status = mw_status (runExpressMiddleware rq pre), xr_headers = mw_headers (runExpressMiddleware rq pre), xr_text = text_or_empty body\<rparr>)"
proof -
  let ?m = "runExpressMiddleware rq pre"
  have "mw_result (shim_step False (End_body body) ?m) = Some (shim_response (?m\<lparr>mw_body := body\<rparr>))"
    using assms(3) by (simp add: shim_end_def safeResolve_def Let_def)
  from resolved_stays [OF this, of False post] assms
  have "mw_result (runExpressMiddleware rq trace) = Some (shim_response (?m\<lparr>mw_body := body\<rparr>))"
    by (simp add: runExpressMiddleware_def)
  with assms(4,5) show ?thesis by (simp add: x402_fetch_def handleX402Artifact_def Let_def shim_response_def)
qed

end
