(* ===== verification/WorkerScenario.thy ===== *)
theory WorkerScenario
  imports IndexerGateway Royalties FaucetInvariant X402Gateway ServerScenario StreamScenario
begin

text \<open>
  Concrete runs of the workers, at which their properties are applied: a vault with three logs and
  an indexer that misses one tick, a scrobble and its settlement, a relayed opening, a listening
  session, a faucet and a paid request.
\<close>

section \<open>Indexer\<close>

definition demo_card_log :: "int \<Rightarrow> hub_event option \<Rightarrow> hub_log" where
  "demo_card_log n ev = \<lparr>hl_block = n, hl_index = 0, hl_tx = ''0xt'' @ int_str n, hl_event = ev\<rparr>"

definition demo_card_opened :: hub_event where
  "demo_card_opened = Provisioned ''card'' ''alice'' ''bob'' ''0xm'' 100 10 5 10"

definition demo_card_settled :: hub_event where
  "demo_card_settled = Settled ''card'' ''bob'' 30"

definition demo_chain_logs :: "string \<Rightarrow> hub_log list" where
  "demo_chain_logs v = (if v = ''0xv'' then
     [demo_card_log 5 (Some demo_card_opened), demo_card_log 7 None, demo_card_log 9 (Some demo_card_settled)] else [])"

definition demo_index_node :: "int result \<Rightarrow> index_node" where
  "demo_index_node head = \<lparr>ni_head = head, ni_factory = (\<lambda>_ _ _. Inr []),
     ni_logs = (\<lambda>v a b. Inr (rev (filter (blocks a b) (demo_chain_logs v)))), ni_time = (\<lambda>b. Inr (Some (1000 + b)))\<rparr>"

definition demo_index_config :: index_config where
  "demo_index_config = \<lparr>ic_hub = ''0xh'', ic_factory = ''0xf'', ic_window = None, ic_maxChunks = None, ic_backfill = None,
     ic_adminToken = None, ic_whole = (\<lambda>_. None)\<rparr>"

definition demo_index_db :: index_db where
  "demo_index_db = \<lparr>ix_vaults = [\<lparr>wv_address = ''0xv'', wv_source = ''factory'', wv_owner = None, wv_token = None, wv_block = 5,
     wv_created = 0\<rparr>], ix_cursors = [], ix_events = [], ix_cards = []\<rparr>"

definition demo_ticks :: "(index_node \<times> int) list" where
  "demo_ticks = [(demo_index_node (Inr 6), 0), (demo_index_node (Inl (Error ''down'')), 1), (demo_index_node (Inr 20), 2)]"

lemma demo_chain_ok: "chain_ok demo_chain_logs"
proof -
  have "lower (''0xt'' @ int_str 5) \<noteq> lower (''0xt'' @ int_str 7)" "lower (''0xt'' @ int_str 5) \<noteq> lower (''0xt'' @ int_str 9)"
    "lower (''0xt'' @ int_str 7) \<noteq> lower (''0xt'' @ int_str 9)" by code_simp+
  then show ?thesis
    by (auto simp: chain_ok_def demo_chain_logs_def demo_card_log_def log_position_def log_key_def split: if_splits)
qed

lemma demo_answers: "answers demo_chain_logs (demo_index_node head)"
  by (simp add: answers_def demo_index_node_def)

lemma demo_fresh: "indexes demo_chain_logs ''0xv'' 5 0 demo_index_db"
  by (rule fresh_vault)
    (simp_all add: rows_of_chain_def watched_from_def vault_rows_def demo_index_db_def)

lemma demo_not_factory: "factory_key demo_index_config \<noteq> ''0xv''"
  by (simp add: factory_key_def)

lemma demo_ticks_answer: "(nd, now) \<in> set demo_ticks \<Longrightarrow> answers demo_chain_logs nd"
  by (auto simp: demo_ticks_def demo_answers)

lemma demo_index_rows:
  "map xe_name (ix_events (run_ticks demo_index_config demo_ticks demo_index_db)) = [''PaycardProvisioned'', ''SettlementFlushed'']"
  "map (\<lambda>(k, c). (k, cd_available c)) (ix_cards (run_ticks demo_index_config demo_ticks demo_index_db)) = [((''0xv'', ''card''), 70)]"
  by code_simp+

lemma demo_last_tick:
  "fst (runTick demo_index_config (demo_index_node (Inr 20)) 2 demo_index_db) = Inr 20"
  "tk_chunks (snd (runTick demo_index_config (demo_index_node (Inr 20)) 2 demo_index_db)) = 3"
  "maxChunks demo_index_config = 20"
  by code_simp+

lemma demo_same_events: "list_all2 same_event [demo_card_opened, demo_card_settled] [provision_event, settlement_event]"
  by code_simp

section \<open>An envelope for the keeper\<close>

definition keeper_envelope :: json where
  "keeper_envelope = JObj
     [(''payerAddress'', JStr demo_wallet), (''envelopeSignature'', JStr ''signed''),
      (''intent'', JObj
        [(''paycardId'', JStr (demo_hash (CHR ''1''))), (''metadataHash'', JStr (demo_hash (CHR ''2''))),
         (''recipient'', JStr demo_wallet), (''totalAllocationPool'', JStr ''100''), (''flowVelocityPerSecond'', JStr ''1''),
         (''genesisTimestamp'', JNum 7), (''lifespanSeconds'', JNum 100), (''residualDeltaRecipient'', JStr demo_wallet),
         (''nonceChannel'', JNum 0), (''nonceValue'', JNum 3)])]"

definition keeper_token :: string where
  "keeper_token = base64UrlEncode (code_points (stringify keeper_envelope))"

lemma keeper_token_decodes: "decodeEnvelope h keeper_token = Inr keeper_envelope"
proof -
  have "textual keeper_envelope" by (simp add: keeper_envelope_def isSafeInteger_def)
  from decodes_serialized [OF this envelope_roundtrip(1) [OF this]] show ?thesis by (simp add: keeper_token_def)
qed

lemma keeper_token_given: "keeper_token \<noteq> []"
proof
  assume "keeper_token = []"
  moreover have "decodeEnvelope demo_host [] \<noteq> Inr keeper_envelope" by code_simp
  ultimately show False using keeper_token_decodes [of demo_host] by simp
qed

text \<open>The state of the chain counts the transactions.\<close>

definition demo_keeper_node :: "nat session_node" where
  "demo_keeper_node = \<lparr>kn_dry = (\<lambda>_ c. (Inr (), c)), kn_send = (\<lambda>_ c. (Inr ''0xh'', Suc c)), kn_wait = (\<lambda>_ c. (Inr (), c)),
     kn_network = (\<lambda>c. (Inr 5042, c)), kn_nonce = (\<lambda>_ _ c. (Inr 0, c))\<rparr>"

definition demo_keeper :: "nat keeper" where
  "demo_keeper = \<lparr>kp_chain = 0, kp_calls = []\<rparr>"

definition demo_keeper_config :: keeper_config where
  "demo_keeper_config = \<lparr>kc_relayClaims = None, kc_signerKey = Some ''key'', kc_usdc = None\<rparr>"

definition demo_settler_config :: settler_config where
  "demo_settler_config = \<lparr>sc_signerKey = Some ''key'', sc_adminToken = Some ''secret'', sc_batchLimit = None, sc_maxAttempts = None,
     sc_mode = None, sc_window = None, sc_minAccrued = Inr 500, sc_whole = (\<lambda>_. None)\<rparr>"

definition demo_settler_node :: "nat settler_node" where
  "demo_settler_node = \<lparr>sn_block = (\<lambda>c. (Inr 30, c)), sn_provisioned = (\<lambda>_ _ c. (Inr [], c)),
     sn_registry = (\<lambda>_ c. (Inr \<lparr>sw_operationalStatus = 0, sw_availableBalance = 70, sw_flowVelocityPerSecond = 10,
       sw_genesisTimestamp = 5, sw_lifespanSeconds = 10, sw_lastCheckpointEpoch = 5\<rparr>, c)),
     sn_settle = (\<lambda>_ c. (if c = 0 then Inl (Error ''busy'') else Inr ''0xs'', Suc c)), sn_wait = (\<lambda>_ c. (Inr (), c))\<rparr>"

definition demo_settling :: "nat settling" where
  "demo_settling = \<lparr>sg_chain = 0, sg_plays = [], sg_sent = [], sg_confirmed = [], sg_settled = 0, sg_skipped = 0, sg_errors = 0\<rparr>"

definition demo_relay_request :: worker_request where
  "demo_relay_request = \<lparr>wq_method = ''POST'', wq_path = ''/relay-open'', wq_headers = [], wq_query = [],
     wq_body = Some (JObj [(''envelopeToken'', JStr keeper_token)])\<rparr>"

definition demo_hub_args :: "json list" where
  "demo_hub_args =
     [JStr (demo_hash (CHR ''1'')), JStr (demo_hash (CHR ''2'')), JStr demo_wallet, JBigint 100, JBigint 1, JBigint 7, JBigint 100,
      JStr demo_wallet, JStr ''signed'', JBigint 0, JBigint 3, JStr demo_wallet]"

lemma demo_bigints:
  "bigint_of demo_values (JStr ''100'') = Inr (JBigint 100)" "bigint_of demo_values (JStr ''1'') = Inr (JBigint 1)"
  "bigint_of demo_values (JNum n) = Inr (JBigint n)"
  by (code_simp, code_simp, simp add: bigint_of_def bigint_def)

lemma demo_hub_args_of: "hub_args demo_values keeper_envelope (JStr demo_wallet) = Inr demo_hub_args"
  by (simp add: hub_args_def keeper_envelope_def opt_prop_def demo_bigints demo_hub_args_def)

lemma demo_envelope_opened:
  "opened_envelope demo_host demo_keeper_config demo_relay_request =
     Inr (Inr (JObj [(''envelopeToken'', JStr keeper_token)], keeper_envelope))"
proof -
  have "\<not> relay_disabled demo_keeper_config" "\<not> empty_text (kc_signerKey demo_keeper_config)" by code_simp+
  then show ?thesis
    using keeper_token_given
    by (simp add: opened_envelope_def demo_relay_request_def get_prop_def is_nullish_def js_truthy_def token_envelope_def
        keeper_token_decodes)
      (simp add: keeper_envelope_def opt_prop_def js_truthy_def demo_hash_def)
qed

lemma demo_relay_run:
  "settler_fetch demo_values demo_server_ethers demo_host (keeper_node.truncate demo_keeper_node) demo_settler_node
     demo_keeper_config demo_settler_config (Inr ()) 0 demo_relay_request (demo_keeper, demo_settling) =
   (Inr (sponsored_reply keeper_envelope (JStr demo_wallet) ''0xh''),
    \<lparr>kp_chain = 1, kp_calls = [(Keeper_open demo_hub_args, Inr ''0xh'')]\<rparr>, demo_settling\<lparr>sg_chain := 1\<rparr>)"
proof -
  have r: "opt_prop (opt_prop keeper_envelope ''intent'') ''recipient'' = JStr demo_wallet"
    "opt_prop (JObj [(''envelopeToken'', JStr keeper_token)]) ''permit'' = JUndefined"
    by (simp_all add: keeper_envelope_def opt_prop_def)
  have z: "\<not> zero_recipient demo_values (JStr demo_wallet)"
    using demo_not_zero by (simp add: zero_recipient_def js_string_def)
  have p: "wq_path demo_relay_request = ''/relay-open''" "wq_method demo_relay_request = ''POST''"
    by (simp_all add: demo_relay_request_def)
  show ?thesis
    by (simp add: settler_fetch_def p relayOpen_def demo_envelope_opened r z js_truthy_def demo_hub_args_of)
      (simp add: io_bind_def io_then_def io_return_def io_catch_def sponsor_def keeper_ask_def keeper_send_def demo_keeper_node_def
        keeper_node.defs demo_keeper_def demo_settling_def)
qed

section \<open>Sessions and scrobbles\<close>

definition demo_scrobble_env :: "unit scrobble_env" where
  "demo_scrobble_env = \<lparr>se_get = (\<lambda>_ _. Inr (Some demo_wallet)), se_put = (\<lambda>_ _ k. (Inr (), k)),
     se_column = (\<lambda>v. case v of JStr s \<Rightarrow> Inr s | _ \<Rightarrow> Inl (Error ''D1_TYPE_ERROR'')), se_secret = Some ''s'',
     se_relayerKey = Some ''key'', se_hub = demo_wallet\<rparr>"

definition demo_session_wallet :: session_wallet where
  "demo_session_wallet = \<lparr>sx_address = Inr ''0xr'', sx_sign = (\<lambda>_ _ _ _. Inr ''own''), sx_paycardHash = (\<lambda>_ _ _ _. Inr ''0xp'')\<rparr>"

definition demo_scrobbler :: "(unit, nat) scrobbler" where
  "demo_scrobbler = \<lparr>sb_registry = (), sb_keeper = demo_keeper, sb_plays = []\<rparr>"

definition demo_worker_post :: "string \<Rightarrow> (string \<times> json) list \<Rightarrow> worker_request" where
  "demo_worker_post path posted = \<lparr>wq_method = ''POST'', wq_path = path, wq_headers = [(''x-openrails-webhook-secret'', ''s'')],
     wq_query = [], wq_body = Some (JObj posted)\<rparr>"

definition demo_session_request :: worker_request where
  "demo_session_request = demo_worker_post ''/session/open''
     [(''listenerAddress'', JStr demo_wallet), (''artistMbid'', JStr ''mb''), (''budgetUsdc'', JStr ''100''),
      (''envelopeToken'', JStr keeper_token)]"

definition demo_scrobble_request :: worker_request where
  "demo_scrobble_request = demo_worker_post ''/webhook/scrobble''
     [(''event'', JStr ''e1''), (''track'', JObj [(''mbid'', JStr ''mb'')]), (''paycardId'', JStr (demo_hash (CHR ''1'')))]"

definition demo_session_params :: session_params where
  "demo_session_params = \<lparr>sp_hub = demo_wallet, sp_listener = JStr demo_wallet, sp_artistWallet = demo_wallet, sp_budget = 100,
     sp_velocity = 1000, sp_lifespan = 3600, sp_envelopeToken = JStr keeper_token\<rparr>"

lemma demo_posts_authorized: "scrobble_authorized demo_scrobble_env (demo_worker_post path posted)"
  by (simp add: scrobble_authorized_def demo_scrobble_env_def demo_worker_post_def worker_authorized_def header_or_empty_def)

lemma demo_evm: "isEvmAddress demo_wallet" "isBytes32Hex (demo_hash (CHR ''1''))"
  by code_simp+

lemma demo_session_params_of:
  "session_params_of demo_values demo_scrobble_env (body_or_null demo_session_request) demo_wallet = Inr demo_session_params"
proof -
  have "bigint demo_coercions (JStr ''100'') = Inr 100" "bigint demo_coercions (JStr ''1000'') = Inr 1000"
    "bigint demo_coercions (JStr ''3600'') = Inr 3600" by code_simp+
  then show ?thesis
    by (simp add: session_params_of_def body_or_null_def demo_session_request_def demo_worker_post_def opt_prop_def or_text_def
        is_nullish_def demo_session_params_def demo_scrobble_env_def)
qed

definition demo_listener_open :: session_open where
  "demo_listener_open = \<lparr>lo_paycardId = JStr (demo_hash (CHR ''1'')), lo_metadataHash = JStr (demo_hash (CHR ''2'')),
     lo_recipient = demo_wallet, lo_pool = 100, lo_velocity = 1, lo_genesis = 7, lo_lifespan = 100, lo_residual = demo_wallet,
     lo_signature = JStr ''signed'', lo_nonceChannel = 0, lo_nonceValue = 3, lo_payer = demo_wallet\<rparr>"

lemma demo_envelope_fields: "envelope_fields demo_values demo_server_ethers keeper_envelope = Inr demo_listener_open"
proof -
  have "bigint demo_coercions (JStr ''100'') = Inr 100" "bigint demo_coercions (JStr ''1'') = Inr 1"
    "get_address demo_server_ethers (JStr demo_wallet) = Some demo_wallet" by code_simp+
  moreover have "bigint demo_coercions (JNum n) = Inr n" for n by (simp add: bigint_def)
  ultimately show ?thesis
    using demo_not_zero
    by (simp add: envelope_fields_def keeper_envelope_def get_prop_def is_nullish_def opt_prop_def js_truthy_def throw_if_def
        checked_address_def require_def demo_listener_open_def)
qed

lemma demo_session_verified:
  "verify_session demo_values demo_server_ethers demo_session_params 5042 (opt_prop keeper_envelope ''intent'') demo_listener_open = Inr ()"
  by (simp add: verify_session_def verificationIntent_def text_field_def to_string_def whole_field_def js_whole_def require_def
      keeper_envelope_def opt_prop_def is_nullish_def throw_if_def demo_listener_open_def demo_session_params_def lower_json_def)

lemma demo_session_run:
  "kp_calls (sb_keeper (snd (scrobble_fetch demo_values demo_server_ethers demo_host demo_session_wallet demo_keeper_node
     demo_scrobble_env 0 demo_session_request demo_scrobbler))) = [(Keeper_open (session_args demo_listener_open), Inr ''0xh'')]"
proof -
  have q: "wq_path demo_session_request = ''/session/open''" "wq_method demo_session_request = ''POST''"
    "scrobble_authorized demo_scrobble_env demo_session_request"
    "opt_prop (body_or_null demo_session_request) ''listenerAddress'' = JStr demo_wallet"
    "opt_prop (body_or_null demo_session_request) ''artistMbid'' = JStr ''mb''"
    using demo_posts_authorized
    by (simp_all add: demo_session_request_def demo_worker_post_def body_or_null_def opt_prop_def)
  have v: "js_string demo_values (JStr t) = t" for t by (simp add: js_string_def)
  have e: "\<not> empty_text (Some demo_wallet)" "\<not> empty_text (se_relayerKey demo_scrobble_env)"
    using demo_not_zero by (simp_all add: empty_text_def demo_scrobble_env_def)
  have g: "se_get demo_scrobble_env x y = Inr (Some demo_wallet)" for x y by (simp add: demo_scrobble_env_def)
  have p: "sp_envelopeToken demo_session_params = JStr keeper_token" "js_truthy (JStr keeper_token)" "js_truthy (JStr ''mb'')"
    "js_truthy (JStr demo_wallet)" "sx_address demo_session_wallet = Inr ''0xr''"
    using keeper_token_given demo_not_zero by (simp_all add: demo_session_params_def js_truthy_def demo_session_wallet_def)
  have open_run: "fst (openListeningSession demo_values demo_server_ethers demo_host demo_session_wallet demo_keeper_node 0
      demo_session_params demo_keeper) \<noteq> Inl x \<and>
    snd (openListeningSession demo_values demo_server_ethers demo_host demo_session_wallet demo_keeper_node 0
      demo_session_params demo_keeper) = \<lparr>kp_chain = 1, kp_calls = [(Keeper_open (session_args demo_listener_open), Inr ''0xh'')]\<rparr>" for x
    by (simp add: openListeningSession_def p io_then_def listener_open_def token_envelope_def keeper_token_decodes demo_envelope_fields)
      (simp add: io_bind_def io_return_def io_of_def io_catch_def keeper_ask_def demo_keeper_node_def demo_session_verified
        keeper_token_given submit_session_def keeper_send_def keeper_node.defs demo_keeper_def io_then_def Let_def)
  then obtain b where b: "openListeningSession demo_values demo_server_ethers demo_host demo_session_wallet demo_keeper_node 0
      demo_session_params demo_keeper = (Inr b, \<lparr>kp_chain = 1, kp_calls = [(Keeper_open (session_args demo_listener_open), Inr ''0xh'')]\<rparr>)"
    by (metis prod.collapse sum.exhaust)
  show ?thesis
    by (simp add: scrobble_fetch_def q post_session_def p v e demo_evm demo_not_zero Let_def)
      (simp add: io_bind_def io_return_def io_of_def io_catch_def registry_get_def g
        demo_session_params_of with_keeper_def demo_scrobbler_def b e)
qed

definition demo_play :: play where
  "demo_play = new_play (Some ''e1'') (demo_hash (CHR ''1'')) ''mb'' demo_wallet 5"

definition demo_royalties :: "(unit, nat) royalty_system" where
  "demo_royalties = \<lparr>ry_worker = demo_scrobbler, ry_settler = demo_settling\<rparr>"

lemma demo_scrobble_run:
  "royalty_plays (royalty_run demo_values demo_server_ethers demo_host demo_session_wallet demo_scrobble_env demo_settler_config
     [Asked demo_keeper_node 5000 demo_scrobble_request] demo_royalties) = [demo_play]"
  "ry_settler (royalty_run demo_values demo_server_ethers demo_host demo_session_wallet demo_scrobble_env demo_settler_config
     [Asked demo_keeper_node 5000 demo_scrobble_request] demo_royalties) = demo_settling\<lparr>sg_plays := [demo_play]\<rparr>"
proof -
  have q: "wq_path demo_scrobble_request = ''/webhook/scrobble''" "wq_method demo_scrobble_request = ''POST''"
    "scrobble_authorized demo_scrobble_env demo_scrobble_request" "\<not> empty_text (se_secret demo_scrobble_env)"
    "wq_body demo_scrobble_request = Some (JObj [(''event'', JStr ''e1''), (''track'', JObj [(''mbid'', JStr ''mb'')]),
       (''paycardId'', JStr (demo_hash (CHR ''1'')))])"
    using demo_posts_authorized
    by (simp_all add: demo_scrobble_request_def demo_worker_post_def empty_text_def demo_scrobble_env_def)
  have t: "trim ''e1'' = ''e1''" "js_truthy (JStr (demo_hash (CHR ''1'')))" "\<not> empty_text (Some demo_wallet)"
    "js_truthy (JStr ''mb'')" "js_string demo_values (JStr x) = x" for x
    using demo_not_zero by (code_simp, simp_all add: js_truthy_def empty_text_def js_string_def)
  have g: "se_get demo_scrobble_env x y = Inr (Some demo_wallet)" "se_column demo_scrobble_env (JStr z) = Inr z" for x y z
    by (simp_all add: demo_scrobble_env_def)
  have "sb_plays (snd (scrobble_fetch demo_values demo_server_ethers demo_host demo_session_wallet demo_keeper_node
     demo_scrobble_env 5000 demo_scrobble_request demo_scrobbler)) = [demo_play]"
    by (simp add: scrobble_fetch_def q post_scrobble_def require_def get_prop_def is_nullish_def opt_prop_def t demo_evm Let_def)
      (simp add: io_bind_def io_then_def io_return_def io_of_def io_put_def io_catch_def registry_get_def source_event_def
        is_nullish_def opt_prop_def t g demo_evm demo_scrobbler_def insert_play_def demo_play_def demo_hash_def)
  then have fetch: "sb_plays (snd (scrobble_fetch demo_values demo_server_ethers demo_host demo_session_wallet demo_keeper_node
     demo_scrobble_env 5000 demo_scrobble_request (demo_scrobbler\<lparr>sb_plays := []\<rparr>))) = [demo_play]"
    by (simp add: demo_scrobbler_def)
  then show "royalty_plays (royalty_run demo_values demo_server_ethers demo_host demo_session_wallet demo_scrobble_env demo_settler_config
     [Asked demo_keeper_node 5000 demo_scrobble_request] demo_royalties) = [demo_play]"
    "ry_settler (royalty_run demo_values demo_server_ethers demo_host demo_session_wallet demo_scrobble_env demo_settler_config
     [Asked demo_keeper_node 5000 demo_scrobble_request] demo_royalties) = demo_settling\<lparr>sg_plays := [demo_play]\<rparr>"
    by (simp_all add: royalty_run_def royalty_step_def royalty_plays_def demo_royalties_def demo_settling_def Let_def)
qed

text \<open>The first settlement fails, the second goes through.\<close>

definition demo_runs :: "(nat settler_node \<times> int) list" where
  "demo_runs = map (\<lambda>i. (demo_settler_node, i)) [6, 7, 8, 9, 10]"

lemma demo_settled:
  "map (\<lambda>p. (pl_state p, pl_attempts p)) (sg_plays (reconcile_runs demo_settler_config demo_runs (demo_settling\<lparr>sg_plays := [demo_play]\<rparr>))) =
     [(Play_settled, 2)]"
  "sg_sent (reconcile_runs demo_settler_config demo_runs (demo_settling\<lparr>sg_plays := [demo_play]\<rparr>)) =
     [(demo_hash (CHR ''1''), Inl (Error ''busy'')), (demo_hash (CHR ''1''), Inr ''0xs'')]"
  "maxAttempts demo_settler_config = 5" "total_left 5 [demo_play] = 5"
  by code_simp+

section \<open>Faucet\<close>

definition demo_number :: "string \<Rightarrow> int option" where
  "demo_number s =
     (if s \<noteq> [] \<and> hd s = CHR ''-'' then (if decimal (tl s) then Some (- digits_val (tl s)) else None)
      else if decimal s then Some (digits_val s) else None)"

type_synonym demo_kv = "(string \<times> string \<times> int) list"

definition demo_faucet_api :: "(demo_kv, unit) faucet_api" where
  "demo_faucet_api = \<lparr>
     fx_get = (\<lambda>key now kv. Inr (case map_of kv key of None \<Rightarrow> None | Some (v, e) \<Rightarrow> if now < e then Some v else None)),
     fx_put = (\<lambda>key v ttl now kv. (Inr (), (key, v, now + ttl) # kv)),
     fx_balance = (\<lambda>a c. (Inr (if a = ''0xf'' then 1000000 else 0), c)), fx_transfer = (\<lambda>_ _ c. (Inr ''0xh'', c)),
     fx_wait = (\<lambda>_ c. (Inr (), c)), fx_signer = Inr ''0xf'', fx_day = (\<lambda>t. int_str (t div 86400000)), fx_units = int_str,
     fx_number = demo_number\<rparr>"

definition demo_faucet_config :: faucet_config where
  "demo_faucet_config = \<lparr>fg_signerKey = Some ''key'', fg_adminToken = None, fg_drip = None, fg_dripAmount = Inr 50000,
     fg_maxBalance = Inr 100000, fg_maxDrips = Some ''2'', fg_cooldown = Some ''60'', fg_enabled = None\<rparr>"

definition demo_faucet :: "(demo_kv, unit) faucet" where
  "demo_faucet = \<lparr>fq_kv = [], fq_chain = (), fq_transfers = []\<rparr>"

definition demo_fund_request :: "string \<Rightarrow> worker_request" where
  "demo_fund_request ip = \<lparr>wq_method = ''POST'', wq_path = ''/fund'', wq_headers = [(''cf-connecting-ip'', ip)], wq_query = [],
     wq_body = Some (JObj [(''address'', JStr demo_wallet)])\<rparr>"

text \<open>The second request comes too early, the third comes late enough, the fourth finds the cap.\<close>

definition demo_fund_requests :: "(int \<times> worker_request) list" where
  "demo_fund_requests = [(0, demo_fund_request ''1''), (10000, demo_fund_request ''2''), (70000, demo_fund_request ''2''),
     (140000, demo_fund_request ''3'')]"

lemma demo_number_int_str: "demo_number (int_str n) = Some n"
proof (cases "n < 0")
  case True
  then have "decimal (nat_digits (- n))" "digits_val (nat_digits (- n)) = - n"
    using decimal_int_str [of "- n"] by (simp_all add: int_str_def digits_val_nat_digits)
  with True show ?thesis by (simp add: demo_number_def int_str_def)
next
  case False
  then have d: "decimal (int_str n)" "digits_val (int_str n) = n"
    using decimal_int_str [of n] by (simp_all add: int_str_def digits_val_nat_digits)
  have "hd (int_str n) \<noteq> CHR ''-''"
  proof
    assume h: "hd (int_str n) = CHR ''-''"
    have "is_digit (hd (int_str n))" using d(1) by (cases "int_str n") (simp_all add: decimal_def)
    with h show False by (simp add: is_digit_def code_in_def)
  qed
  with d show ?thesis by (simp add: demo_number_def)
qed

lemma demo_faucet_ok:
  "kv_ok demo_faucet_api map_of" "clock_ok demo_faucet_api demo_faucet_config"
proof -
  show "kv_ok demo_faucet_api map_of" by (auto simp: kv_ok_def demo_faucet_api_def split: option.splits)
  have "t div 86400000 = t' div 86400000" if "int_str (t div 86400000) = int_str (t' div 86400000)" for t t'
    using that demo_number_int_str by (metis option.inject)
  moreover have "isSafeInteger (maxDripsPerDay demo_faucet_api demo_faucet_config)" by code_simp
  ultimately show "clock_ok demo_faucet_api demo_faucet_config"
    by (simp add: clock_ok_def demo_faucet_api_def demo_number_int_str)
qed

lemma demo_fund_grants:
  "map gn_clock (fst (serve_faucet demo_values demo_server_ethers demo_faucet_api demo_faucet_config demo_fund_requests demo_faucet)) =
     [0, 70000]"
  "cooldownSeconds demo_faucet_api demo_faucet_config = 60"
  by code_simp+

section \<open>A paid request\<close>

definition demo_x402_env :: x402_env where
  "demo_x402_env = \<lparr>xe_chainId = JNum 5042, xe_usdc = ''0xu'', xe_hub = ''0xh'', xe_price = ''$0.01'', xe_network = ''arc'',
     xe_facilitator = ''http://f'', xe_seller = ''0xs''\<rparr>"

definition demo_payment :: json where
  "demo_payment = JObj [(''payer'', JStr demo_wallet), (''amount'', JStr ''10000''), (''transaction'', JStr ''tx'')]"

definition demo_paid_request :: "string obj \<Rightarrow> worker_request" where
  "demo_paid_request hs = \<lparr>wq_method = ''GET'', wq_path = ''/api/x402/openrails-artifact'', wq_headers = hs, wq_query = [], wq_body = None\<rparr>"

definition demo_paid_trace :: "mw_action list" where
  "demo_paid_trace = [Set_header ''Payment-Response'' ''r'', Attach_payment demo_payment, Call_next, Fulfilled]"

end
