(* ===== verification/KernelScope.thy ===== *)
theory KernelScope
  imports PactLifecycle KernelJobs
begin

text \<open>
  Every operation of the kernel acts in one Workspace: what belongs to another one, its Agents, Paths,
  Proposals, Pacts, checkpoints and command nonce, is untouched. Installed plugins are not among
  these, since one manifest serves all Workspaces.
\<close>

section \<open>What belongs to a Workspace\<close>

definition entries :: "('v \<Rightarrow> string) \<Rightarrow> string \<Rightarrow> 'v obj \<Rightarrow> string \<Rightarrow> 'v option" where
  "entries f w ob i = (case oget ob i of Some v \<Rightarrow> if f v = w then Some v else None | None \<Rightarrow> None)"

definition same_for :: "string \<Rightarrow> kstate \<Rightarrow> kstate \<Rightarrow> bool" where
  "same_for w s s' \<longleftrightarrow>
     oget (workspaces s') w = oget (workspaces s) w \<and>
     entries ag_workspaceId w (agents s') = entries ag_workspaceId w (agents s) \<and>
     entries (\<lambda>p. pa_workspaceId (sg_artifact p)) w (paths s') = entries (\<lambda>p. pa_workspaceId (sg_artifact p)) w (paths s) \<and>
     entries pp_workspaceId w (proposals s') = entries pp_workspaceId w (proposals s) \<and>
     entries pc_workspaceId w (pacts s') = entries pc_workspaceId w (pacts s) \<and>
     entries ck_workspaceId w (checkpoints s') = entries ck_workspaceId w (checkpoints s) \<and>
     command_nonce s' w = command_nonce s w"

lemma same_for_refl [simp]: "same_for w s s"
  by (simp add: same_for_def)

lemma same_for_trans: "same_for w s t \<Longrightarrow> same_for w t u \<Longrightarrow> same_for w s u"
  by (simp add: same_for_def)

lemma entries_oset [simp]:
  "f v \<noteq> w \<Longrightarrow> (case oget ob i of None \<Rightarrow> True | Some u \<Rightarrow> f u \<noteq> w) \<Longrightarrow> entries f w (oset i v ob) = entries f w ob"
  by (rule ext) (auto simp: entries_def split: option.splits)

lemma entries_assign:
  assumes "\<And>i a. i \<in> set is \<Longrightarrow> oget as i = Some a \<Longrightarrow> ag_workspaceId a \<noteq> w"
  shows "entries ag_workspaceId w (assign_path p is as) = entries ag_workspaceId w as"
  using assms
proof (induction "is" arbitrary: as)
  case (Cons i "is")
  show ?case
  proof (cases "oget as i")
    case None
    have "entries ag_workspaceId w (assign_path p is as) = entries ag_workspaceId w as"
      by (rule Cons.IH) (use Cons.prems in auto)
    with None show ?thesis by simp
  next
    case (Some a)
    let ?as = "if p \<in> set (ag_assignedPathIds a) then as else oset i (a\<lparr>ag_assignedPathIds := ag_assignedPathIds a @ [p]\<rparr>) as"
    have a: "ag_workspaceId a \<noteq> w" by (rule Cons.prems [OF _ Some]) simp
    have "ag_workspaceId b \<noteq> w" if "j \<in> set is" "oget ?as j = Some b" for j b
      using that Cons.prems [of j b] a by (auto split: if_splits)
    from Cons.IH [OF this] Some a show ?thesis by simp
  qed
qed simp

section \<open>The Workspace of an operation\<close>

definition pact_workspace :: "kstate \<Rightarrow> string \<Rightarrow> string option" where
  "pact_workspace s i = map_option pc_workspaceId (oget (pacts s) i)"

fun op_workspace :: "kernel_op \<Rightarrow> kstate \<Rightarrow> string option" where
  "op_workspace (OpRegisterWorkspace w sg) s = Some (ws_workspaceId w)"
| "op_workspace (OpRegisterAgent a au sg) s = Some (ag_workspaceId a)"
| "op_workspace (OpSetAgentStatus wi ai st c sg) s = Some wi"
| "op_workspace (OpActivatePath p sg) s = Some (pa_workspaceId p)"
| "op_workspace (OpSubmitProposal p) s = Some (pp_workspaceId p)"
| "op_workspace (OpRunNextJob w) s = None"
| "op_workspace (OpCreatePact i) s = map_option pp_workspaceId (oget (proposals s) (pi_proposalId i))"
| "op_workspace (OpSignPact i a sg) s = pact_workspace s i"
| "op_workspace (OpBindPayment i) s = pact_workspace s (bi_pactId i)"
| "op_workspace (OpRecordSettlement i) s = pact_workspace s (si_pactId i)"
| "op_workspace (OpInstallPlugin m c sg) s =
     (case mf_installedWorkspaceIds m of [] \<Rightarrow> None | w # ws \<Rightarrow> Some w)"
| "op_workspace (OpSubmitCheckpoint c) s = pact_workspace s (ck_pactId c)"
| "op_workspace (OpVerifyCheckpoint ci pi pv) s =
     Option.bind (oget (checkpoints s) ci) (\<lambda>c. pact_workspace s (ck_pactId c))"
| "op_workspace (OpOpenGaia g) s = pact_workspace s (ga_pactId g)"
| "op_workspace (OpResolveGaia i c sg) s =
     Option.bind (oget (gaiaCases s) (ri_caseId i)) (\<lambda>g. Some (ga_workspaceId g))"

text \<open>Pacts and cases are stored under their identifiers, and a case names the Workspace of its Pact.\<close>

definition scoped :: "kstate \<Rightarrow> bool" where
  "scoped s \<longleftrightarrow> (\<forall>i p. oget (pacts s) i = Some p \<longrightarrow> pc_pactId p = i) \<and>
     (\<forall>i w. oget (workspaces s) i = Some w \<longrightarrow> ws_workspaceId w = i) \<and>
     (\<forall>i g. oget (gaiaCases s) i = Some g \<longrightarrow> pact_workspace s (ga_pactId g) = Some (ga_workspaceId g))"

lemma pact_rewrite_ids: "pact_rewrite k s p q \<Longrightarrow> pc_pactId q = pc_pactId p \<and> pc_workspaceId q = pc_workspaceId p"
  using same_terms_fields [OF pact_rewrite_same_terms [of k s p q]] by simp

lemma pact_effect_keyed:
  assumes "pact_effect k s s'" "\<forall>i p. oget (pacts s) i = Some p \<longrightarrow> pc_pactId p = i"
  shows "\<forall>i p. oget (pacts s') i = Some p \<longrightarrow> pc_pactId p = i"
  using assms(1)
proof (cases rule: pact_effect.cases)
  case (rewritten i p p' ev ty ac d at)
  with assms(2) pact_rewrite_ids [OF rewritten(2)] show ?thesis by simp
next
  case (signed i p w signer l td r sg sat p' ua ev ty ac d at)
  then have "pc_pactId p' = pc_pactId p" by auto
  with signed assms(2) show ?thesis by simp
qed (use assms(2) in simp_all)

lemma pact_workspace_kept: "exec k op before now s = Inr s' \<Longrightarrow> pact_workspace s i = Some w \<Longrightarrow> pact_workspace s' i = Some w"
  using pact_effect_same_terms [OF exec_effect, of k op before now s s' i] same_terms_fields
  by (fastforce simp: pact_workspace_def)

lemma exec_gaia:
  assumes "exec k op before now s = Inr s'" "oget (gaiaCases s') i = Some g"
  shows "(\<exists>g0. oget (gaiaCases s) i = Some g0 \<and> ga_pactId g = ga_pactId g0 \<and> ga_workspaceId g = ga_workspaceId g0) \<or>
    pact_workspace s (ga_pactId g) = Some (ga_workspaceId g)"
proof (cases op)
  case (OpRunNextJob wk)
  with assms exec_runNextJob have "gaiaCases s' = gaiaCases s" by (fastforce simp: job_frame_def)
  with assms(2) show ?thesis by auto
next
  case (OpOpenGaia g1)
  with assms(1) obtain r where "openGaiaCase k s g1 now = Inr (s', r)" by (auto simp: state_of_Inr)
  then show ?thesis
    by (rule openGaiaCase_Inr) (use assms(2) in \<open>auto simp: pact_workspace_def split: if_splits\<close>)
next
  case (OpResolveGaia r1 c sg)
  with assms(1) obtain g' ob where r: "resolveGaiaCase k s r1 c sg now = Inr (s', g', ob)" by (auto simp: state_of_Inr)
  then have "\<exists>g0. oget (gaiaCases s) (ri_caseId r1) = Some g0 \<and> ga_pactId g' = ga_pactId g0 \<and> ga_workspaceId g' = ga_workspaceId g0"
    by (auto simp: resolveGaiaCase_def result_simps Let_def)
  with r show ?thesis
    by (auto elim!: resolveGaiaCase_Inr simp: command_frame) (use assms(2) in \<open>auto simp: command_frame split: if_splits\<close>)
qed (use assms in \<open>auto simp: state_of_Inr command_frame elim!: authority_inversions submitProposal_Inr pact_inversions\<close>)

lemma scoped_exec:
  assumes "exec k op before now s = Inr s'" "scoped s"
  shows "scoped s'"
  unfolding scoped_def
proof (intro conjI)
  show "\<forall>i p. oget (pacts s') i = Some p \<longrightarrow> pc_pactId p = i"
    using assms(2) by (intro pact_effect_keyed [OF exec_effect [OF assms(1)]]) (simp add: scoped_def)
  show "\<forall>i w. oget (workspaces s') i = Some w \<longrightarrow> ws_workspaceId w = i"
    using exec_workspaces_old [OF assms(1)] assms(2) unfolding scoped_def by metis
  show "\<forall>i g. oget (gaiaCases s') i = Some g \<longrightarrow> pact_workspace s' (ga_pactId g) = Some (ga_workspaceId g)"
    using exec_gaia [OF assms(1)] assms(2) pact_workspace_kept [OF assms(1)] unfolding scoped_def by metis
qed

lemma scoped_empty [simp]: "scoped emptyKernelState"
  by (simp add: scoped_def emptyKernelState_def)

lemma scoped_pact: "scoped s \<Longrightarrow> oget (pacts s) i = Some p \<Longrightarrow> pc_pactId p = i"
  by (simp add: scoped_def)

section \<open>One Workspace per operation\<close>

lemma pact_ops_same_for:
  assumes "pact_workspace s i = Some w0" "w0 \<noteq> w" "oget (pacts s) i = Some p" "pc_workspaceId p' = pc_workspaceId p"
  shows "entries pc_workspaceId w (oset i p' (pacts s)) = entries pc_workspaceId w (pacts s)"
  using assms by (intro entries_oset) (auto simp: pact_workspace_def)

lemma same_forI:
  assumes "workspaces s' = workspaces s" "agents s' = agents s" "paths s' = paths s" "proposals s' = proposals s"
    "entries pc_workspaceId w (pacts s') = entries pc_workspaceId w (pacts s)"
    "entries ck_workspaceId w (checkpoints s') = entries ck_workspaceId w (checkpoints s)"
    "workspaceCommandNonces s' = workspaceCommandNonces s"
  shows "same_for w s s'"
  using assms by (simp add: same_for_def command_nonce_def)

lemma pact_op_same_for:
  assumes e: "exec k op before now s = Inr s'" and i: "op_workspace op s \<noteq> Some w"
    and op: "op = OpCreatePact ci \<or> op = OpSignPact i1 a sg \<or> op = OpBindPayment bi \<or> op = OpRecordSettlement si \<or>
       op = OpVerifyCheckpoint vi pi pv \<or> op = OpOpenGaia g"
  shows "same_for w s s'"
proof -
  have "entries pc_workspaceId w (pacts s') = entries pc_workspaceId w (pacts s)"
    using op e i
    by (elim disjE)
       (auto simp: state_of_Inr draft_pact_def pact_workspace_def verified_pact_def Let_def
         elim!: pact_inversions intro!: entries_oset split: if_splits)
  moreover have "workspaces s' = workspaces s" "agents s' = agents s" "paths s' = paths s" "proposals s' = proposals s"
      "checkpoints s' = checkpoints s" "workspaceCommandNonces s' = workspaceCommandNonces s"
    using op e by (elim disjE; auto simp: state_of_Inr elim!: pact_inversions)+
  ultimately show ?thesis by (intro same_forI) simp_all
qed

lemma exec_same_for:
  assumes e: "exec k op before now s = Inr s'" and s: "scoped s" and i: "op_workspace op s \<noteq> Some w"
  shows "same_for w s s'"
proof (cases op)
  case (OpRegisterWorkspace w1 sg)
  with e obtain r where "registerWorkspace k s w1 sg now = Inr (s', r)" by (auto simp: state_of_Inr)
  then show ?thesis by (rule registerWorkspace_Inr) (use i OpRegisterWorkspace in \<open>simp add: same_for_def command_nonce_def\<close>)
next
  case (OpRegisterAgent a au sg)
  with e obtain r where "registerAgent k s a au sg now = Inr (s', r)" by (auto simp: state_of_Inr)
  then show ?thesis
    by (rule registerAgent_Inr) (use i OpRegisterAgent in \<open>simp add: same_for_def command_nonce_def\<close>)
next
  case (OpSetAgentStatus wi ai st c sg)
  with e obtain r where r: "setAgentStatus k s wi ai st c sg now = Inr (s', r)" by (auto simp: state_of_Inr)
  then show ?thesis
  proof (rule setAgentStatus_Inr)
    fix w1 a s1 ev
    assume h: "authorizeWorkspaceCommand k s c sg SetAgentStatus
       (JObj [(''workspaceId'', JStr wi), (''agentId'', JStr ai), (''status'', JStr (agent_status_str st))]) now = Inr (s1, w1)"
      "ws_workspaceId w1 = wi" "oget (agents s1) ai = Some a" "ag_workspaceId a = wi"
      "r = a\<lparr>ag_status := st, ag_revision := ag_revision a + 1\<rparr>"
      "s' = s1\<lparr>agents := oset ai r (agents s1), events := events s1 @ [ev]\<rparr>"
    from i OpSetAgentStatus have "wi \<noteq> w" by simp
    with h nonce_authorized(2) [OF h(1), of w] show ?thesis
      by (simp add: same_for_def command_frame [OF h(1)]) (simp add: command_nonce_def)
  qed
next
  case (OpActivatePath p sg)
  with e obtain r where "activatePath k s p sg now = Inr (s', r)" by (auto simp: state_of_Inr)
  then show ?thesis
  proof (rule activatePath_Inr)
    fix w1 h td ev
    assume h: "oget (workspaces s) (pa_workspaceId p) = Some w1"
      "list_all (\<lambda>i. agent_active_in s w1 i = Inr ()) (pa_authorizedAgentIds p)"
      "path_succession p (oget (paths s) (pa_pathId p)) = Inr ()"
      "r = \<lparr>sg_artifact = p, sg_hash = h, sg_typedData = td, sg_signer = pa_authorityAccount p,
          sg_signature = sg, sg_signedAt = nowIso k now\<rparr>"
      "s' = s\<lparr>paths := oset (pa_pathId p) r (paths s),
            agents := assign_path (pa_pathId p) (pa_authorizedAgentIds p) (agents s), events := events s @ [ev]\<rparr>"
    from i OpActivatePath have w: "pa_workspaceId p \<noteq> w" by simp
    have "ws_workspaceId w1 = pa_workspaceId p" using s h(1) by (simp add: scoped_def)
    with h(2) w have "\<And>i a. i \<in> set (pa_authorizedAgentIds p) \<Longrightarrow> oget (agents s) i = Some a \<Longrightarrow> ag_workspaceId a \<noteq> w"
      by (auto simp: list_all_iff agent_active_in_def result_simps)
    from entries_assign [OF this] have "entries ag_workspaceId w (agents s') = entries ag_workspaceId w (agents s)"
      by (simp add: h(5))
    moreover have "entries (\<lambda>p. pa_workspaceId (sg_artifact p)) w (paths s') = entries (\<lambda>p. pa_workspaceId (sg_artifact p)) w (paths s)"
      using w h(3) by (auto simp: h(4,5) path_succession_def result_simps split: option.splits)
    ultimately show ?thesis by (simp add: same_for_def h(5) command_nonce_def)
  qed
next
  case (OpSubmitProposal p)
  with e obtain q j where "submitProposal k s p now = Inr (s', q, j)" by (auto simp: state_of_Inr)
  then show ?thesis
    by (rule submitProposal_Inr) (use i OpSubmitProposal in \<open>simp_all add: same_for_def command_nonce_def\<close>)
next
  case (OpRunNextJob wk)
  with e exec_runNextJob have "job_frame s s'" by blast
  from job_frame_fields [OF this] show ?thesis by (simp add: same_forI)
next
  case (OpInstallPlugin m c sg)
  with e obtain r where "installPlugin k s m c sg now = Inr (s', r)" by (auto simp: state_of_Inr)
  then show ?thesis
  proof (rule installPlugin_Inr)
    fix wid w1 s1 td
    assume h: "mf_installedWorkspaceIds m = [wid]" "authorizeWorkspaceCommand k s c sg InstallPlugin
       (JObj [(''workspaceId'', JStr wid), (''pluginId'', JStr (mf_pluginId m)),
              (''pluginVersion'', JStr (mf_pluginVersion m)), (''codeDigest'', JStr (mf_codeDigest m))]) now = Inr (s1, w1)"
      "ws_workspaceId w1 = wid"
      "\<exists>e. s' = s1\<lparr>plugins := oset (plugin_key (mf_pluginId m) (mf_pluginVersion m)) m (plugins s1), events := events s1 @ [e]\<rparr>"
    from i OpInstallPlugin h(1) have "wid \<noteq> w" by simp
    with h nonce_authorized(2) [OF h(2), of w] show ?thesis
      by (auto simp: same_for_def command_frame [OF h(2)]) (simp_all add: command_nonce_def)
  qed
next
  case (OpSubmitCheckpoint c)
  with e obtain r where "submitCheckpoint k s c now = Inr (s', r)" by (auto simp: state_of_Inr)
  then show ?thesis
    by (rule submitCheckpoint_Inr)
       (use i OpSubmitCheckpoint in \<open>auto simp: same_for_def command_nonce_def pact_workspace_def intro!: entries_oset\<close>)
next
  case (OpResolveGaia r1 c sg)
  with e obtain g' ob where r: "resolveGaiaCase k s r1 c sg now = Inr (s', g', ob)" by (auto simp: state_of_Inr)
  then show ?thesis
  proof (rule resolveGaiaCase_Inr)
    fix g s1 w1 p p' i1 rs ev d
    assume h: "oget (gaiaCases s) (ri_caseId r1) = Some g"
      "authorizeWorkspaceCommand k s c sg ResolveGaia (resolve_payload r1) now = Inr (s1, w1)"
      "ws_workspaceId w1 = ga_workspaceId g" "oget (pacts s1) (ga_pactId g) = Some p"
      "p' = p\<lparr>pc_status := (if needs_rectification (ri_decision r1) then PactRectificationRequired else pc_status p),
            pc_revision := pc_revision p + 1, pc_updatedAt := nowIso k now\<rparr>"
      "s' = s1\<lparr>gaiaCases := oset (ri_caseId r1) g' (gaiaCases s1), rectifications := rs,
             pacts := oset (ga_pactId g) p' (pacts s1),
             pactEvents := pactEvents s1 @ [new_pact_event ev p (pact_event_sequence s1 p)
               ''GAIA_RESOLVED'' (ri_resolver r1) d (nowIso k now)]\<rparr>"
    from i OpResolveGaia h(1) have w: "ga_workspaceId g \<noteq> w" by simp
    from s h(1) have "pact_workspace s (ga_pactId g) = Some (ga_workspaceId g)" by (simp add: scoped_def)
    with h(4) w have "pc_workspaceId p \<noteq> w" by (auto simp: pact_workspace_def command_frame [OF h(2)])
    with h(3-6) w nonce_authorized(2) [OF h(2), of w] show ?thesis
      by (simp add: same_for_def command_frame [OF h(2)]) (simp add: command_nonce_def command_frame [OF h(2)] )
  qed
qed (use e i in \<open>blast intro: pact_op_same_for\<close>)+

lemma reachable_scoped: "reachable k s \<Longrightarrow> scoped s"
  by (induction rule: reachable.induct) (auto intro: scoped_empty scoped_exec)

end
