(* ===== verification/PactEvidence.thy ===== *)
theory PactEvidence
  imports PactLifecycle
begin

text \<open>
  What a Pact holds of the chain was said by the chain verifier: its opening and every settlement.
  \<open>E\<close> and \<open>S\<close> stand for what is accepted as such a statement about a Pact, so that a host may change its verifier.
\<close>

definition rails_settlements :: "open_rails \<Rightarrow> settlement_observation list" where
  "rails_settlements r = (case or_settlements r of None \<Rightarrow> [] | Some l \<Rightarrow> l)"

definition rails_seen ::
    "(string \<Rightarrow> hex \<Rightarrow> hex \<Rightarrow> hex \<Rightarrow> opening_observation \<Rightarrow> bool) \<Rightarrow> (string \<Rightarrow> hex \<Rightarrow> string \<Rightarrow> settlement_observation \<Rightarrow> bool) \<Rightarrow> pact \<Rightarrow> bool" where
  "rails_seen E S p \<longleftrightarrow> (\<forall>r. pc_openRails p = Some r \<longrightarrow>
     (\<forall>ob. or_openingObservation r = Some ob \<longrightarrow>
        (\<exists>tx. or_openingTxHash r = Some tx \<and> E (pc_pactId p) (or_metadataHash r) (or_paycardId r) tx ob)) \<and>
     (\<forall>ob \<in> set (rails_settlements r). \<exists>tx amount. S (pc_pactId p) tx amount ob))"

definition all_seen ::
    "(string \<Rightarrow> hex \<Rightarrow> hex \<Rightarrow> hex \<Rightarrow> opening_observation \<Rightarrow> bool) \<Rightarrow> (string \<Rightarrow> hex \<Rightarrow> string \<Rightarrow> settlement_observation \<Rightarrow> bool) \<Rightarrow> kstate \<Rightarrow> bool" where
  "all_seen E S s \<longleftrightarrow> (\<forall>i p. oget (pacts s) i = Some p \<longrightarrow> rails_seen E S p)"

lemma rails_seen_update [simp]:
  "rails_seen E S (p\<lparr>pc_status := a\<rparr>) = rails_seen E S p"
  "rails_seen E S (p\<lparr>pc_revision := b\<rparr>) = rails_seen E S p"
  "rails_seen E S (p\<lparr>pc_updatedAt := d\<rparr>) = rails_seen E S p"
  by (simp_all add: rails_seen_def)

lemma pact_rewrite_seen:
  assumes "pact_rewrite k s p q" "rails_seen E S p"
    "\<And>j mh i tx ob. seen_opening k mh i tx ob \<Longrightarrow> E j mh i tx ob" "\<And>j tx n ob. seen_settlement k tx n ob \<Longrightarrow> S j tx n ob"
  shows "rails_seen E S q"
  using assms(1)
proof (cases rule: pact_rewrite.cases)
  case (opened now sp r tx ob ua)
  with assms(2,3) show ?thesis by (simp add: rails_seen_def rails_settlements_def)
next
  case (settled r tx amount ob ua)
  then have q: "pc_openRails q = Some (r\<lparr>or_settlements := Some (add_settlement ob (rails_settlements r))\<rparr>)" by (simp add: rails_settlements_def)
  have "set (add_settlement ob (rails_settlements r)) \<subseteq> insert ob (set (rails_settlements r))" by (auto simp: add_settlement_def)
  moreover have "S (pc_pactId p) tx amount ob" by (rule assms(4) [OF settled(5)])
  moreover have "\<forall>x \<in> set (rails_settlements r). \<exists>tx amount. S (pc_pactId p) tx amount x" using assms(2) settled(2) by (simp add: rails_seen_def)
  ultimately have "\<forall>x \<in> set (add_settlement ob (rails_settlements r)). \<exists>tx amount. S (pc_pactId p) tx amount x" by blast
  moreover from settled(1) have "pc_pactId q = pc_pactId p" by simp
  ultimately show ?thesis using assms(2) settled(2) by (simp add: rails_seen_def q rails_settlements_def [of "r\<lparr>or_settlements := l\<rparr>" for l])
qed (use assms(2) in \<open>simp_all add: rails_seen_def rails_settlements_def verified_pact_def\<close>)

lemma all_seen_oset: "all_seen E S s \<Longrightarrow> rails_seen E S p \<Longrightarrow> pacts s' = oset i p (pacts s) \<Longrightarrow> all_seen E S s'"
  by (simp add: all_seen_def)

lemma all_seenD: "all_seen E S s \<Longrightarrow> oget (pacts s) i = Some p \<Longrightarrow> rails_seen E S p"
  by (simp add: all_seen_def)

lemma exec_seen:
  assumes "exec k op before now s = Inr s'" "all_seen E S s"
    "\<And>j mh i tx ob. seen_opening k mh i tx ob \<Longrightarrow> E j mh i tx ob" "\<And>j tx n ob. seen_settlement k tx n ob \<Longrightarrow> S j tx n ob"
  shows "all_seen E S s'"
  using exec_effect [OF assms(1)]
proof (cases rule: pact_effect.cases)
  case untouched
  with assms(2) show ?thesis by (simp add: all_seen_def)
next
  case (created p ev ty ac d at)
  then have "rails_seen E S p" by (simp add: rails_seen_def)
  from all_seen_oset [OF assms(2) this created(6)] show ?thesis .
next
  case (signed i p w signer l td r sg sat p' ua ev ty ac d at)
  from all_seenD [OF assms(2) signed(1)] signed(10) have "rails_seen E S p'" by auto
  from all_seen_oset [OF assms(2) this signed(11)] show ?thesis .
next
  case (rewritten i p p' ev ty ac d at)
  from pact_rewrite_seen [OF rewritten(2) all_seenD [OF assms(2) rewritten(1)] assms(3,4)] have "rails_seen E S p'" .
  from all_seen_oset [OF assms(2) this rewritten(3)] show ?thesis .
next
  case (performed c p p' ua ev ty ac d at)
  from all_seenD [OF assms(2) performed(1)] performed(6) have "rails_seen E S p'" by simp
  from all_seen_oset [OF assms(2) this performed(7)] show ?thesis .
qed

text \<open>The payment of a Pact is as its status says, whatever the kernel.\<close>

definition payments_ok :: "kstate \<Rightarrow> bool" where
  "payments_ok s \<longleftrightarrow> (\<forall>i p. oget (pacts s) i = Some p \<longrightarrow> payment_ok p)"

lemma payments_ok_oset: "payments_ok s \<Longrightarrow> payment_ok p \<Longrightarrow> pacts s' = oset i p (pacts s) \<Longrightarrow> payments_ok s'"
  by (simp add: payments_ok_def)

lemma payments_okD: "payments_ok s \<Longrightarrow> oget (pacts s) i = Some p \<Longrightarrow> payment_ok p"
  by (simp add: payments_ok_def)

lemma exec_payments:
  assumes "exec k op before now s = Inr s'" "payments_ok s"
  shows "payments_ok s'"
  using exec_effect [OF assms(1)]
proof (cases rule: pact_effect.cases)
  case untouched
  with assms(2) show ?thesis by (simp add: payments_ok_def)
next
  case (created p ev ty ac d at)
  then have "payment_ok p" by (simp add: payment_ok_def)
  from payments_ok_oset [OF assms(2) this created(6)] show ?thesis .
next
  case (signed i p w signer l td r sg sat p' ua ev ty ac d at)
  from payments_okD [OF assms(2) signed(1)] signed(6,10) have "payment_ok p'" by (auto simp: payment_ok_def)
  from payments_ok_oset [OF assms(2) this signed(11)] show ?thesis .
next
  case (rewritten i p p' ev ty ac d at)
  from payment_ok_rewrite [OF rewritten(2) payments_okD [OF assms(2) rewritten(1)]] have "payment_ok p'" .
  from payments_ok_oset [OF assms(2) this rewritten(3)] show ?thesis .
next
  case (performed c p p' ua ev ty ac d at)
  from payments_okD [OF assms(2) performed(1)] performed(2,6) have "payment_ok p'"
    by (auto simp: payment_ok_def has_opening_def before_opening_def rewrite_simps)
  from payments_ok_oset [OF assms(2) this performed(7)] show ?thesis .
qed

lemma all_seen_empty: "all_seen E S emptyKernelState"
  by (simp add: all_seen_def emptyKernelState_def)

lemma reachable_seen: "reachable k s \<Longrightarrow> all_seen (\<lambda>_. seen_opening k) (\<lambda>_. seen_settlement k) s"
  by (induction rule: reachable.induct) (auto intro: exec_seen all_seen_empty)

end
