(* ===== verification/GasokChain.thy ===== *)
theory GasokChain
  imports RuntimeEffects ServerValidation
begin

text \<open>
  \<open>apps/gasok-web/server/index.mjs\<close>, the parts that read the chain: the retries, the chain verifier
  and the receipt plugin the server gives to the Agent Kernel. The node answers a question by the
  number of the attempt, so a question may fail, or have an older gasok_answer, any number of times; a log
  carries what the decoder makes of it (\<open>None\<close> when it throws). Block numbers and amounts are exact.
\<close>

section \<open>The chain\<close>

datatype vault_event = Provisioned hex | Flushed hex int

record giwa_log =
  gl_address :: address
  gl_event :: "vault_event option"

record giwa_receipt =
  gr_success :: bool
  gr_transactionHash :: hex
  gr_blockNumber :: int
  gr_blockHash :: hex
  gr_logs :: "giwa_log list"

record giwa_card =
  gc_payer :: address
  gc_recipient :: address
  gc_metadataHash :: hex
  gc_totalAllocationPool :: int
  gc_availableBalance :: int
  gc_flowVelocityPerSecond :: int
  gc_genesisTimestamp :: int
  gc_lifespanSeconds :: int
  gc_residualDeltaRecipient :: address
  gc_operationalStatus :: int

record flushed_log =
  fl_transactionHash :: "hex option"
  fl_blockNumber :: "int option"
  fl_logIndex :: "int option"
  fl_paycardId :: "hex option"

text \<open>\<open>gn_registry\<close> reads at a block, or at the latest one; \<open>gn_openings\<close> and \<open>gn_flushes\<close> are \<open>getLogs\<close>
  from a block on, and \<open>gn_blockTime\<close> the timestamp of the block of a hash.\<close>

record giwa_node =
  gn_receipt :: "hex \<Rightarrow> nat \<Rightarrow> giwa_receipt result"
  gn_registry :: "hex \<Rightarrow> int option \<Rightarrow> nat \<Rightarrow> giwa_card result"
  gn_blockTime :: "hex \<Rightarrow> nat \<Rightarrow> int result"
  gn_blockNumber :: "nat \<Rightarrow> int result"
  gn_openings :: "hex \<Rightarrow> int \<Rightarrow> nat \<Rightarrow> hex option list result"
  gn_flushes :: "int \<Rightarrow> nat \<Rightarrow> flushed_log list result"
  gn_nonce :: "address \<Rightarrow> int \<Rightarrow> int result"
  gn_latestTime :: "int result"

section \<open>retryRpc\<close>

text \<open>The rounds from \<open>attempt\<close> on, \<open>left\<close> of them; \<open>reason\<close> the message of \<open>lastError\<close>.\<close>

fun retry_rounds :: "string \<Rightarrow> (nat \<Rightarrow> 'a result) \<Rightarrow> nat \<Rightarrow> nat \<Rightarrow> nat \<Rightarrow> string \<Rightarrow> 'a result" where
  "retry_rounds label op attempts attempt 0 reason =
     Inl (Error (label @ '' failed after '' @ int_str (int attempts) @ '' attempts: '' @ reason))"
| "retry_rounds label op attempts attempt (Suc left) reason =
     (case op attempt of
        Inr x \<Rightarrow> Inr x
      | Inl (Error msg) \<Rightarrow> retry_rounds label op attempts (Suc attempt) left msg)"

definition retryRpc :: "string \<Rightarrow> (nat \<Rightarrow> 'a result) \<Rightarrow> 'a result" where
  "retryRpc label op = retry_rounds label op 30 1 30 ''undefined''"

text \<open>The message of a failure.\<close>

definition message_of :: "'a result \<Rightarrow> string" where
  "message_of r = (case r of Inl (Error msg) \<Rightarrow> msg | Inr x \<Rightarrow> [])"

lemma retry_rounds_find:
  "retry_rounds label op attempts k left reason = (case find (\<lambda>n. \<not> isl (op n)) [k..<k + left] of
     Some n \<Rightarrow> op n
   | None \<Rightarrow> Inl (Error (label @ '' failed after '' @ int_str (int attempts) @ '' attempts: '' @
       (if left = 0 then reason else message_of (op (k + left - 1))))))"
proof (induction label op attempts k left reason rule: retry_rounds.induct)
  case (2 label op attempts k left reason)
  have "[k..<k + Suc left] = k # [Suc k..<Suc k + left]" by (simp add: upt_conv_Cons)
  then have step: "find (\<lambda>n. \<not> isl (op n)) [k..<k + Suc left] =
      (if \<not> isl (op k) then Some k else find (\<lambda>n. \<not> isl (op n)) [Suc k..<Suc k + left])" by (simp only: find.simps)
  show ?case
  proof (cases "op k")
    case (Inl e)
    obtain msg where e: "e = Error msg" by (cases e)
    from 2 [OF Inl e] show ?thesis
      unfolding step by (cases "left = 0") (simp_all add: Inl e message_of_def cong: option.case_cong)
  qed (simp add: step del: upt_Suc add_Suc_right)
qed simp

lemma retryRpc_find:
  "retryRpc label op = (case find (\<lambda>n. \<not> isl (op n)) [1..<31] of
     Some n \<Rightarrow> op n
   | None \<Rightarrow> Inl (Error (label @ '' failed after 30 attempts: '' @ message_of (op 30))))"
proof -
  have "int_str 30 = ''30''" by code_simp
  then show ?thesis by (simp add: retryRpc_def retry_rounds_find del: upt_Suc cong: option.case_cong)
qed

section \<open>Vault logs\<close>

definition of_vault :: "giwa_log \<Rightarrow> bool" where
  "of_vault l \<longleftrightarrow> lower (gl_address l) = lower giwa_vaultAddress"

definition provisions :: "hex \<Rightarrow> giwa_log \<Rightarrow> bool" where
  "provisions paycardId l \<longleftrightarrow> of_vault l \<and>
     (case gl_event l of Some (Provisioned i) \<Rightarrow> lower i = lower paycardId | _ \<Rightarrow> False)"

definition flushed_amount :: "hex \<Rightarrow> giwa_log \<Rightarrow> int" where
  "flushed_amount paycardId l =
     (if of_vault l then
        (case gl_event l of Some (Flushed i n) \<Rightarrow> if lower i = lower paycardId then n else 0 | _ \<Rightarrow> 0)
      else 0)"

definition flushed_in :: "hex \<Rightarrow> giwa_receipt \<Rightarrow> int" where
  "flushed_in paycardId r = sum_list (map (flushed_amount paycardId) (gr_logs r))"

section \<open>The chain verifier\<close>

text \<open>\<open>0x0000000000000000000000000000000000000000\<close> as payer: the state is not visible yet.\<close>

definition visible_card :: "hex \<Rightarrow> giwa_card \<Rightarrow> giwa_card result" where
  "visible_card metadataHash pcd =
     throw_if (lower (gc_payer pcd) = lower ZeroAddress) ''Paycard state is not visible at the receipt block yet''
    (throw_if (lower (gc_metadataHash pcd) \<noteq> lower metadataHash) ''Paycard metadata is not consistent yet''
    (Inr pcd))"

definition opening_of :: "'z jsenv_scheme \<Rightarrow> giwa_receipt \<Rightarrow> giwa_card \<Rightarrow> int \<Rightarrow> hex \<Rightarrow> hex \<Rightarrow> opening_observation" where
  "opening_of env receipt pcd timestamp paycardId metadataHash = \<lparr>
     oo_version = ''openrails-opening-observation-v1'', oo_transactionHash = gr_transactionHash receipt,
     oo_chainId = giwa_chainId, oo_vault = giwa_vaultAddress, oo_paycardId = paycardId,
     oo_metadataHash = metadataHash, oo_payer = gc_payer pcd, oo_recipient = gc_recipient pcd,
     oo_residualRecipient = gc_residualDeltaRecipient pcd,
     oo_poolAllocationBaseUnits = int_str (gc_totalAllocationPool pcd),
     oo_flowVelocityBaseUnitsPerSecond = int_str (gc_flowVelocityPerSecond pcd),
     oo_genesisTimestamp = gc_genesisTimestamp pcd, oo_lifespanSeconds = gc_lifespanSeconds pcd,
     oo_availableBalanceBaseUnits = int_str (gc_availableBalance pcd),
     oo_operationalStatus = gc_operationalStatus pcd, oo_blockNumber = gr_blockNumber receipt,
     oo_observedAt = to_iso env (timestamp * 1000)\<rparr>"

definition verifyOpening :: "'z jsenv_scheme \<Rightarrow> giwa_node \<Rightarrow> hex \<Rightarrow> hex \<Rightarrow> hex \<Rightarrow> opening_observation result" where
  "verifyOpening env nd metadataHash paycardId openingTxHash =
     bnd (retryRpc ''GIWA opening receipt'' (gn_receipt nd openingTxHash)) (\<lambda>receipt.
     throw_if (\<not> gr_success receipt) ''GIWA opening transaction reverted''
    (throw_if (\<not> list_ex (provisions paycardId) (gr_logs receipt))
       ''PaycardProvisioned event was not found in the GIWA receipt''
    (bnd (retryRpc ''GIWA opening state'' (\<lambda>n.
       bnd (gn_registry nd paycardId (Some (gr_blockNumber receipt)) n) (visible_card metadataHash))) (\<lambda>pcd.
     bnd (retryRpc ''GIWA opening block'' (gn_blockTime nd (gr_blockHash receipt))) (\<lambda>timestamp.
     Inr (opening_of env receipt pcd timestamp paycardId metadataHash))))))"

text \<open>The sum of the settlements recorded so far; \<open>BigInt\<close> of an amount that is no numeral throws.\<close>

fun settled_sum :: "coercions \<Rightarrow> settlement_observation list \<Rightarrow> int \<Rightarrow> int result" where
  "settled_sum co [] acc = Inr acc"
| "settled_sum co (e # es) acc =
     bnd (bigint co (JStr (so_settledAmountBaseUnits e))) (\<lambda>n. settled_sum co es (acc + n))"

definition chain_final :: "giwa_card \<Rightarrow> bool" where
  "chain_final pcd \<longleftrightarrow> gc_operationalStatus pcd = 1 \<or> gc_availableBalance pcd = 0"

definition recorded_settlements :: "open_rails \<Rightarrow> settlement_observation list" where
  "recorded_settlements r = (case or_settlements r of None \<Rightarrow> [] | Some l \<Rightarrow> l)"

definition verifySettlement ::
    "'z jsenv_scheme \<Rightarrow> coercions \<Rightarrow> giwa_node \<Rightarrow> pact \<Rightarrow> hex \<Rightarrow> string \<Rightarrow> settlement_observation result" where
  "verifySettlement env co nd pact txHash settledAmount =
     bnd (retryRpc ''GIWA settlement receipt'' (gn_receipt nd txHash)) (\<lambda>receipt.
     throw_if (\<not> gr_success receipt) ''GIWA settlement transaction reverted''
    (throw_if (\<not> truthy (bound_paycard pact)) ''Pact has no Paycard binding''
    (let r = the (pc_openRails pact); amount = flushed_in (or_paycardId r) receipt in
     throw_if (int_str amount \<noteq> settledAmount) ''GIWA settlement event amount does not match the requested observation''
    (bnd (settled_sum co (recorded_settlements r) 0) (\<lambda>previouslySettled.
     bnd (bigint co (JStr (pt_maximumAllocationBaseUnits (pc_paymentTerms pact)))) (\<lambda>allocation.
     let eventFinal = allocation \<le> previouslySettled + amount in
     bnd (retryRpc ''GIWA settlement state'' (\<lambda>n.
       bnd (gn_registry nd (or_paycardId r) None n) (\<lambda>pcd.
       throw_if (eventFinal \<and> \<not> chain_final pcd) ''Final Paycard state has not propagated yet'' (Inr pcd)))) (\<lambda>pcd.
     bnd (retryRpc ''GIWA settlement block'' (gn_blockTime nd (gr_blockHash receipt))) (\<lambda>timestamp.
     Inr \<lparr>so_version = ''openrails-settlement-observation-v1'', so_transactionHash = gr_transactionHash receipt,
          so_chainId = giwa_chainId, so_vault = giwa_vaultAddress, so_paycardId = or_paycardId r,
          so_recipient = gc_recipient pcd, so_settledAmountBaseUnits = int_str amount, so_final = eventFinal,
          so_blockNumber = gr_blockNumber receipt, so_observedAt = to_iso env (timestamp * 1000)\<rparr>))))))))"

definition giwa_verifier :: "'z jsenv_scheme \<Rightarrow> coercions \<Rightarrow> giwa_node \<Rightarrow> chain_verifier" where
  "giwa_verifier env co nd = \<lparr>
     cv_verifyOpening = (\<lambda>pact metadataHash paycardId tx. verifyOpening env nd metadataHash paycardId tx),
     cv_verifySettlement = (\<lambda>pact tx amount final. verifySettlement env co nd pact tx amount)\<rparr>"

section \<open>The receipt plugin\<close>

definition gasok_plugin_id :: string where
  "gasok_plugin_id = ''giwa_receipt_v1''"

definition gasok_plugin_version :: string where
  "gasok_plugin_version = ''1.0.0''"

definition implementationManifest :: "'z jsenv_scheme \<Rightarrow> string \<Rightarrow> hex \<Rightarrow> plugin_manifest" where
  "implementationManifest env rpcUrl digest = \<lparr>
     mf_version = ''openrails-verification-plugin-v1'', mf_pluginId = gasok_plugin_id,
     mf_pluginVersion = gasok_plugin_version, mf_name = ''GIWA Paycard receipt verifier'', mf_publisher = ZeroAddress,
     mf_pluginType = PlCheckpoint, mf_supportedEvidenceTypes = [''giwa_transaction_receipt''],
     mf_deterministic = True, mf_requiresNetworkAccess = True, mf_externalDependencies = [rpcUrl],
     mf_codeDigest = digest, mf_publisherSignature = ''0x'', mf_status = PlActive, mf_installedWorkspaceIds = [],
     mf_createdAt = to_iso env 0\<rparr>"

definition receipt_verdict :: "verification_value \<Rightarrow> string \<Rightarrow> hex option \<Rightarrow> plugin_verdict" where
  "receipt_verdict d reason source = \<lparr>pv_decision = d, pv_reasonCodes = [reason], pv_sourceCommitmentHash = source,
     pv_validUntil = None\<rparr>"

text \<open>\<open>evaluate\<close>: it asks once and turns every failure into a rejection.\<close>

definition receipt_evaluate :: "giwa_node \<Rightarrow> checkpoint \<Rightarrow> plugin_verdict" where
  "receipt_evaluate nd checkpoint =
     (if \<not> truthy (ck_paycardId checkpoint) then receipt_verdict Rejected ''PAYCARD_BINDING_REQUIRED'' None
      else case gn_receipt nd (ck_evidenceHash checkpoint) 1 of
          Inl _ \<Rightarrow> receipt_verdict Rejected ''GIWA_RECEIPT_NOT_FOUND'' None
        | Inr receipt \<Rightarrow>
            if \<not> gr_success receipt then receipt_verdict Rejected ''GIWA_RECEIPT_REVERTED'' None
            else if list_ex (provisions (the (ck_paycardId checkpoint))) (gr_logs receipt)
            then receipt_verdict Approved ''GIWA_PAYCARD_RECEIPT_CONFIRMED'' (Some (ck_evidenceHash checkpoint))
            else receipt_verdict Rejected ''GIWA_PAYCARD_EVENT_NOT_FOUND'' (Some (ck_evidenceHash checkpoint)))"

definition giwa_plugin :: "'z jsenv_scheme \<Rightarrow> string \<Rightarrow> hex \<Rightarrow> giwa_node \<Rightarrow> plugin" where
  "giwa_plugin env rpcUrl digest nd = \<lparr>pg_manifest = implementationManifest env rpcUrl digest,
     pg_evaluate = (\<lambda>checkpoint s now. Inr (receipt_evaluate nd checkpoint))\<rparr>"

text \<open>The kernel of the server, at the chain as a request finds it; it has no identity resolver.\<close>

record gasok_platform =
  gp_kernel :: kernel
  gp_coercions :: coercions
  gp_rpcUrl :: string
  gp_digest :: hex

definition gasok_kernel :: "gasok_platform \<Rightarrow> giwa_node \<Rightarrow> kernel" where
  "gasok_kernel g nd = (gp_kernel g)\<lparr>
     pluginRegistry := [(plugin_key gasok_plugin_id gasok_plugin_version,
       giwa_plugin (gp_kernel g) (gp_rpcUrl g) (gp_digest g) nd)],
     identityResolver := None,
     chainVerifier := Some (giwa_verifier (gp_kernel g) (gp_coercions g) nd)\<rparr>"

end
