(* ===== verification/GasokServer.thy ===== *)
theory GasokServer
  imports GasokChain WorkerBase KernelServer
begin

text \<open>
  \<open>apps/gasok-web/server/index.mjs\<close>: the server of the GasOK application. A wallet signs a challenge
  and gets a session; within it, the server runs the operations of its Agent Kernel, for the
  Workspaces of that wallet only. A request is its route with a body of the shape the route expects,
  and is handled without another in between; a reply is the value the server writes as JSON. The clock
  is read once per request; random bytes, the functions of \<open>viem\<close>, \<open>decodeURIComponent\<close> and the host of
  an origin are given. Static files are not modelled.
\<close>

section \<open>State\<close>

record gasok_session =
  gs_address :: address
  gs_expiresAt :: int

record gasok_challenge =
  gc_message :: string
  gc_expiresAt :: int

record draft_intent =
  di_genesisTimestamp :: int
  di_lifespanSeconds :: int
  di_nonceChannel :: int
  di_nonceValue :: int

record payment_draft =
  pd_pactId :: string
  pd_payer :: address
  pd_metadata :: json
  pd_metadataHash :: hex
  pd_paycardId :: hex
  pd_terms :: payment_terms
  pd_intent :: draft_intent
  pd_issuedAt :: iso_date
  pd_validUntil :: iso_date
  pd_expiresAt :: int

record rate_window =
  rw_startedAt :: int
  rw_count :: int

record gasok =
  gk_state :: kstate
  gk_rate :: "rate_window obj"
  gk_challenges :: "gasok_challenge obj"
  gk_sessions :: "gasok_session obj"
  gk_drafts :: "payment_draft obj"

definition gasok_start :: "kstate \<Rightarrow> gasok" where
  "gasok_start s = \<lparr>gk_state = s, gk_rate = [], gk_challenges = [], gk_sessions = [], gk_drafts = []\<rparr>"

text \<open>What the server takes from its libraries: \<open>gx_paycard\<close> is \<open>keccak256\<close> of the encoded arguments.\<close>

record gasok_libs = gasok_platform +
  gx_getAddress :: "string \<Rightarrow> address option"
  gx_verifyMessage :: "address \<Rightarrow> string \<Rightarrow> hex \<Rightarrow> bool result"
  gx_keccak :: "string \<Rightarrow> hex"
  gx_paycard :: "address \<Rightarrow> int \<Rightarrow> int \<Rightarrow> hex \<Rightarrow> string \<Rightarrow> hex"
  gx_decode :: "string \<Rightarrow> string result"
  gx_secureCookies :: bool

section \<open>Requests and replies\<close>

record workspace_draft =
  wd_workspaceId :: string
  wd_workspaceType :: workspace_type
  wd_displayName :: string
  wd_principalId :: string
  wd_authorityAccount :: address
  wd_authorityType :: authority_type
  wd_members :: "workspace_member list option"

datatype gasok_call =
    Get_health
  | Get_challenge "string option"
  | Get_session
  | Post_verify string hex
  | Get_state string
  | Get_metadata string
  | Get_pact string
  | Prepare_workspace workspace_draft
  | Register_workspace workspace hex
  | Prepare_agent agent "string list option"
  | Register_agent agent address hex
  | Prepare_path path
  | Activate_path path hex
  | Prepare_plugin string address
  | Prepare_command string
  | Install_plugin plugin_manifest workspace_command hex
  | Evaluate_proposal proposal
  | Create_pact pact_input
  | Sign_pact string address hex
  | Draft_payment string
  | Prepare_payment bind_input
  | Recover_opening string
  | Confirm_opening bind_input
  | Prepare_checkpoint checkpoint
  | Submit_checkpoint checkpoint
  | Recover_settlements string
  | Record_settlement settlement_input
  | Unknown_route string string

text \<open>\<open>gq_originHost\<close> is the host of the origin, \<open>None\<close> when it is no URL; \<open>gq_parsed\<close> what \<open>JSON.parse\<close>
  made of the body.\<close>

record gasok_request =
  gq_call :: gasok_call
  gq_origin :: "string option"
  gq_originHost :: "string option"
  gq_host :: "string option"
  gq_cookie :: "string option"
  gq_remote :: "string option"
  gq_chunks :: "string list"
  gq_parsed :: "unit result"
  gq_random :: string

definition live_path :: "string \<Rightarrow> string" where
  "live_path p = ''/api/live/'' @ p"

text \<open>Method and path of a call.\<close>

fun gasok_route :: "gasok_call \<Rightarrow> string \<times> string" where
  "gasok_route Get_health = (''GET'', ''/api/health'')"
| "gasok_route (Get_challenge a) = (''GET'', ''/api/session/challenge'')"
| "gasok_route Get_session = (''GET'', ''/api/session'')"
| "gasok_route (Post_verify a sg) = (''POST'', ''/api/session/verify'')"
| "gasok_route (Get_state i) = (''GET'', live_path (''state/'' @ i))"
| "gasok_route (Get_metadata i) = (''GET'', live_path (''pacts/'' @ i @ ''/metadata''))"
| "gasok_route (Get_pact i) = (''GET'', live_path (''pacts/'' @ i))"
| "gasok_route (Prepare_workspace w) = (''POST'', live_path ''workspaces/prepare'')"
| "gasok_route (Register_workspace w sg) = (''POST'', live_path ''workspaces/register'')"
| "gasok_route (Prepare_agent a ps) = (''POST'', live_path ''agents/prepare'')"
| "gasok_route (Register_agent a au sg) = (''POST'', live_path ''agents/register'')"
| "gasok_route (Prepare_path p) = (''POST'', live_path ''paths/prepare'')"
| "gasok_route (Activate_path p sg) = (''POST'', live_path ''paths/activate'')"
| "gasok_route (Prepare_plugin w p) = (''POST'', live_path ''plugins/prepare'')"
| "gasok_route (Prepare_command w) = (''POST'', live_path ''plugins/prepare-command'')"
| "gasok_route (Install_plugin m c sg) = (''POST'', live_path ''plugins/install'')"
| "gasok_route (Evaluate_proposal p) = (''POST'', live_path ''proposals/evaluate'')"
| "gasok_route (Create_pact i) = (''POST'', live_path ''pacts/create'')"
| "gasok_route (Sign_pact i a sg) = (''POST'', live_path ''pacts/sign'')"
| "gasok_route (Draft_payment i) = (''POST'', live_path ''payments/draft'')"
| "gasok_route (Prepare_payment i) = (''POST'', live_path ''payments/prepare'')"
| "gasok_route (Recover_opening i) = (''POST'', live_path ''payments/recover-opening'')"
| "gasok_route (Confirm_opening i) = (''POST'', live_path ''payments/confirm-opening'')"
| "gasok_route (Prepare_checkpoint c) = (''POST'', live_path ''checkpoints/prepare'')"
| "gasok_route (Submit_checkpoint c) = (''POST'', live_path ''checkpoints/submit-and-verify'')"
| "gasok_route (Recover_settlements i) = (''POST'', live_path ''settlements/recover'')"
| "gasok_route (Record_settlement i) = (''POST'', live_path ''settlements/record'')"
| "gasok_route (Unknown_route m p) = (m, p)"

record state_view =
  sv_workspace :: "workspace option"
  sv_agents :: "agent list"
  sv_paths :: "path signed_artifact list"
  sv_plugins :: "plugin_manifest list"
  sv_proposals :: "proposal list"
  sv_decisions :: "decision list"
  sv_blockedActions :: "blocked_action list"
  sv_pacts :: "pact list"
  sv_checkpoints :: "checkpoint list"
  sv_verificationDecisions :: "verification_decision list"
  sv_events :: "kernel_event list"

record recovered_settlement =
  rs_transactionHash :: hex
  rs_settledAmountBaseUnits :: string
  rs_final :: bool
  rs_alreadyRecorded :: bool

datatype gasok_value =
    V_error string
  | V_health int
  | V_challenge address string iso_date
  | V_authenticated address string
  | V_session "address option"
  | V_state state_view
  | V_binding metadata_binding
  | V_pact pact
  | V_prepared_workspace workspace hex typed_data
  | V_workspace "workspace signed_artifact"
  | V_prepared_agent agent hex typed_data
  | V_agent agent
  | V_prepared_path path hex typed_data
  | V_path "path signed_artifact"
  | V_prepared_plugin plugin_manifest typed_data hex
  | V_command json workspace_command typed_data
  | V_plugin plugin_manifest
  | V_evaluated proposal job "decision option" "blocked_action option" bool
  | V_created pact pact hex typed_data
  | V_signed "pact signed_artifact"
  | V_draft payment_draft
  | V_opening pact hex hex int
  | V_prepared_checkpoint checkpoint typed_data
  | V_verified checkpoint verification_decision "pact option"
  | V_settled pact "recovered_settlement list"
  | V_settlements pact "recovered_settlement list" bool bool

type_synonym gasok_reply = "int \<times> gasok_value"

type_synonym 'a gasoking = "(gasok, 'a) io"

definition gasok_refuse :: "int \<Rightarrow> string \<Rightarrow> gasok_reply gasoking" where
  "gasok_refuse status error = io_return (status, V_error error)"

definition gasok_answer :: "gasok_value \<Rightarrow> gasok_reply gasoking" where
  "gasok_answer v = io_return (200, v)"

section \<open>Guards\<close>

definition rateLimit :: "string option \<Rightarrow> int \<Rightarrow> bool gasoking" where
  "rateLimit remote now g =
     (let key = (case remote of None \<Rightarrow> ''unknown'' | Some a \<Rightarrow> a);
          fresh = g\<lparr>gk_rate := oset key \<lparr>rw_startedAt = now, rw_count = 1\<rparr> (gk_rate g)\<rparr> in
      case oget (gk_rate g) key of
        None \<Rightarrow> (Inr True, fresh)
      | Some current \<Rightarrow>
          if now - rw_startedAt current > 60000 then (Inr True, fresh)
          else (Inr (rw_count current + 1 \<le> 180),
                g\<lparr>gk_rate := oset key (current\<lparr>rw_count := rw_count current + 1\<rparr>) (gk_rate g)\<rparr>))"

fun body_size :: "string list \<Rightarrow> int \<Rightarrow> unit result" where
  "body_size [] read = Inr ()"
| "body_size (c # cs) read =
     throw_if (read + int (length c) > 262144) ''request body exceeds 256 KiB'' (body_size cs (read + int (length c)))"

definition gasok_body :: "gasok_request \<Rightarrow> unit result" where
  "gasok_body rq = thn (body_size (gq_chunks rq) 0) (if gq_chunks rq = [] then Inr () else gq_parsed rq)"

definition sameOrigin :: "gasok_request \<Rightarrow> bool" where
  "sameOrigin rq \<longleftrightarrow>
     (case gq_origin rq of None \<Rightarrow> True
      | Some o1 \<Rightarrow> o1 = [] \<or> (gq_originHost rq \<noteq> None \<and> gq_originHost rq = gq_host rq))"

text \<open>\<open>split(';')\<close>, and the part before and after the first \<open>=\<close>.\<close>

fun split_cookie :: "string \<Rightarrow> string \<Rightarrow> string list" where
  "split_cookie [] acc = [rev acc]"
| "split_cookie (c # cs) acc = (if c = CHR '';'' then rev acc # split_cookie cs [] else split_cookie cs (c # acc))"

fun cookie_parts :: "(string \<Rightarrow> string result) \<Rightarrow> string list \<Rightarrow> string obj \<Rightarrow> string obj result" where
  "cookie_parts dec [] out = Inr out"
| "cookie_parts dec (p # ps) out =
     (let name = takeWhile (\<lambda>c. c \<noteq> CHR ''='') p in
      if name = p then cookie_parts dec ps out
      else bnd (dec (trim (drop (Suc (length name)) p))) (\<lambda>v. cookie_parts dec ps (oset (trim name) v out)))"

definition cookies :: "'x gasok_libs_scheme \<Rightarrow> gasok_request \<Rightarrow> string obj result" where
  "cookies gx rq =
     (case gq_cookie rq of None \<Rightarrow> Inr []
      | Some source \<Rightarrow> if source = [] then Inr [] else cookie_parts (gx_decode gx) (split_cookie source []) [])"

definition sessionCookieName :: string where
  "sessionCookieName = ''openrails_gasok_session''"

definition activeSession :: "'x gasok_libs_scheme \<Rightarrow> gasok_request \<Rightarrow> int \<Rightarrow> gasok_session option gasoking" where
  "activeSession gx rq now =
     io_bind (io_of (cookies gx rq)) (\<lambda>cs.
     case oget cs sessionCookieName of
       None \<Rightarrow> io_return None
     | Some token \<Rightarrow>
         if token = [] then io_return None
         else io_bind (io_get (\<lambda>g. oget (gk_sessions g) token)) (\<lambda>found. case found of
             None \<Rightarrow> io_return None
           | Some session \<Rightarrow>
               if gs_expiresAt session \<le> now
               then io_then (io_put (\<lambda>g. g\<lparr>gk_sessions := AList.delete token (gk_sessions g)\<rparr>)) (io_return None)
               else io_return (Some session)))"

section \<open>Sessions\<close>

definition sessionTtlMs :: int where
  "sessionTtlMs = 3600000"

definition challengeTtlMs :: int where
  "challengeTtlMs = 300000"

text \<open>The token is hexadecimal, so \<open>encodeURIComponent\<close> leaves it as it is.\<close>

definition sessionCookie :: "'x gasok_libs_scheme \<Rightarrow> string \<Rightarrow> string" where
  "sessionCookie gx token = sessionCookieName @ ''='' @ token @ ''; HttpOnly; SameSite=Strict; Path=/api; Max-Age='' @
     int_str (sessionTtlMs div 1000) @ (if gx_secureCookies gx then ''; Secure'' else [])"

definition newline :: string where
  "newline = [CHR 0x0A]"

definition challengeMessage :: "'x gasok_libs_scheme \<Rightarrow> address \<Rightarrow> string \<Rightarrow> int \<Rightarrow> string" where
  "challengeMessage gx address nonce expiresAt = join newline
     [''OpenRails GASOK live session'', [], ''Address: '' @ address, ''Chain ID: '' @ int_str giwa_chainId,
      ''Nonce: '' @ nonce, ''Expires: '' @ to_iso (gp_kernel gx) expiresAt, [],
      ''This signature authenticates same-origin API requests. It does not authorize a transaction or transfer value.'']"

definition get_challenge :: "'x gasok_libs_scheme \<Rightarrow> gasok_request \<Rightarrow> int \<Rightarrow> string option \<Rightarrow> gasok_reply gasoking" where
  "get_challenge gx rq now rawAddress =
     (if \<not> truthy rawAddress then gasok_refuse 400 ''address_required''
      else case gx_getAddress gx (the rawAddress) of
          None \<Rightarrow> gasok_refuse 400 ''invalid_address''
        | Some address \<Rightarrow>
            let expiresAt = now + challengeTtlMs; message = challengeMessage gx address (gq_random rq) expiresAt in
            io_then (io_put (\<lambda>g. g\<lparr>gk_challenges :=
              oset (lower address) \<lparr>gc_message = message, gc_expiresAt = expiresAt\<rparr> (gk_challenges g)\<rparr>))
           (gasok_answer (V_challenge address message (to_iso (gp_kernel gx) expiresAt))))"

definition post_verify :: "'x gasok_libs_scheme \<Rightarrow> gasok_request \<Rightarrow> int \<Rightarrow> string \<Rightarrow> hex \<Rightarrow> gasok_reply gasoking" where
  "post_verify gx rq now rawAddress signature =
     (case gx_getAddress gx rawAddress of
        None \<Rightarrow> gasok_refuse 400 ''invalid_address''
      | Some address \<Rightarrow>
          io_bind (io_get (\<lambda>g. oget (gk_challenges g) (lower address))) (\<lambda>found. case found of
            None \<Rightarrow> gasok_refuse 400 ''session_challenge_expired''
          | Some challenge \<Rightarrow>
              if gc_expiresAt challenge \<le> now then gasok_refuse 400 ''session_challenge_expired''
              else
                io_bind (io_of (gx_verifyMessage gx address (gc_message challenge) signature)) (\<lambda>valid.
                if \<not> valid then gasok_refuse 401 ''session_signature_invalid''
                else
                  io_then (io_put (\<lambda>g. g\<lparr>gk_challenges := AList.delete (lower address) (gk_challenges g),
                    gk_sessions := oset (gq_random rq) \<lparr>gs_address = address, gs_expiresAt = now + sessionTtlMs\<rparr> (gk_sessions g)\<rparr>))
                 (gasok_answer (V_authenticated address (sessionCookie gx (gq_random rq)))))))"

section \<open>The kernel within a request\<close>

text \<open>An operation of the kernel is a transaction: it saves its draft, or throws and saves nothing.\<close>

definition kernel_call :: "(kstate \<Rightarrow> (kstate \<times> 'a) result) \<Rightarrow> 'a gasoking" where
  "kernel_call f g =
     (case f (gk_state g) of Inl e \<Rightarrow> (Inl e, g) | Inr (s, v) \<Rightarrow> (Inr v, g\<lparr>gk_state := s\<rparr>))"

definition kernel_read :: "(kstate \<Rightarrow> 'a) \<Rightarrow> 'a gasoking" where
  "kernel_read f = io_get (\<lambda>g. f (gk_state g))"

definition gasok_check :: "bool \<Rightarrow> string \<Rightarrow> unit gasoking" where
  "gasok_check ok msg = io_of (throw_if (\<not> ok) msg (Inr ()))"

definition assertWorkspaceSession :: "string \<Rightarrow> address \<Rightarrow> bool \<Rightarrow> workspace option gasoking" where
  "assertWorkspaceSession workspaceId sessionAddress allowMissing =
     io_bind (kernel_read (\<lambda>s. oget (workspaces s) workspaceId)) (\<lambda>found. case found of
       None \<Rightarrow> if allowMissing then io_return None else io_throw (Error ''Workspace not found'')
     | Some w \<Rightarrow> io_then (gasok_check (sameAddress (ws_authorityAccount w) sessionAddress) ''Session is not the Workspace authority'')
         (io_return (Some w)))"

definition owns_workspace :: "string \<Rightarrow> address \<Rightarrow> unit gasoking" where
  "owns_workspace workspaceId a = io_bind (assertWorkspaceSession workspaceId a False) (\<lambda>_. io_return ())"

definition assertPactSession :: "string \<Rightarrow> address \<Rightarrow> pact gasoking" where
  "assertPactSession pactId sessionAddress =
     io_bind (kernel_read (\<lambda>s. oget (pacts s) pactId)) (\<lambda>found. case found of
       None \<Rightarrow> io_throw (Error ''Pact not found'')
     | Some pact \<Rightarrow> io_then (owns_workspace (pc_workspaceId pact) sessionAddress) (io_return pact))"

section \<open>State\<close>

definition safeState :: "kstate \<Rightarrow> string \<Rightarrow> state_view" where
  "safeState s w = \<lparr>
     sv_workspace = oget (workspaces s) w,
     sv_agents = filter (\<lambda>e. ag_workspaceId e = w) (ovals (agents s)),
     sv_paths = filter (\<lambda>e. pa_workspaceId (sg_artifact e) = w) (ovals (paths s)),
     sv_plugins = filter (\<lambda>e. w \<in> set (mf_installedWorkspaceIds e)) (ovals (plugins s)),
     sv_proposals = filter (\<lambda>e. pp_workspaceId e = w) (ovals (proposals s)),
     sv_decisions = filter (\<lambda>e. de_workspaceId e = w) (ovals (decisions s)),
     sv_blockedActions = filter (\<lambda>e. bl_workspaceId e = w) (blockedActions s),
     sv_pacts = filter (\<lambda>e. pc_workspaceId e = w) (ovals (pacts s)),
     sv_checkpoints = filter (\<lambda>e. ck_workspaceId e = w) (ovals (checkpoints s)),
     sv_verificationDecisions = filter (\<lambda>e. vd_workspaceId e = w) (ovals (verificationDecisions s)),
     sv_events = filter (\<lambda>e. ev_workspaceId e = w) (events s)\<rparr>"

section \<open>Payment drafts\<close>

definition draft_metadata :: "pact \<Rightarrow> metadata_binding \<Rightarrow> int \<Rightarrow> json" where
  "draft_metadata pact b expiresAt = (let t = pc_paymentTerms pact in JObj
     [(''version'', JStr ''openrails-metadata-v1''), (''mode'', JStr ''railsflow''), (''originator'', JStr (pt_payer t)),
      (''recipient'', JStr (pt_recipient t)), (''token'', JStr (pt_token t)),
      (''amount'', JStr (pt_maximumAllocationBaseUnits t)),
      (''flowVelocityPerSecond'', JStr (pt_velocityBaseUnitsPerSecond t)), (''lifespanSeconds'', JNum (pt_lifespanSeconds t)),
      (''workflowId'', JStr (mb_workflowId b)), (''metadataRef'', JStr (mb_metadataRef b)),
      (''descriptionHash'', JStr (mb_descriptionHash b)), (''expiresAt'', JNum expiresAt)])"

text \<open>The other fields of the intent are those of \<open>pd_terms\<close>.\<close>

definition createPaymentDraft :: "'x gasok_libs_scheme \<Rightarrow> giwa_node \<Rightarrow> int \<Rightarrow> pact \<Rightarrow> address \<Rightarrow> payment_draft gasoking" where
  "createPaymentDraft gx nd now pact a =
     io_bind (kernel_read (\<lambda>s. openRailsMetadataBinding (gasok_kernel (gasok_platform.truncate gx) nd) s (pc_pactId pact) now)) (\<lambda>binding.
     io_bind (io_of binding) (\<lambda>b.
     io_bind (io_of (gn_nonce nd a 0)) (\<lambda>nonceValue.
     io_bind (io_of (gn_latestTime nd)) (\<lambda>timestamp.
     let genesisTimestamp = timestamp + 15;
         lifespanSeconds = pt_lifespanSeconds (pc_paymentTerms pact);
         metadata = draft_metadata pact b (genesisTimestamp + lifespanSeconds);
         metadataHash = gx_keccak gx (canonicalizeMetadata metadata);
         paycardId = gx_paycard gx a 0 nonceValue metadataHash (mb_salt b);
         draft = \<lparr>pd_pactId = pc_pactId pact, pd_payer = a, pd_metadata = metadata, pd_metadataHash = metadataHash,
           pd_paycardId = paycardId, pd_terms = pc_paymentTerms pact,
           pd_intent = \<lparr>di_genesisTimestamp = genesisTimestamp, di_lifespanSeconds = lifespanSeconds, di_nonceChannel = 0,
             di_nonceValue = nonceValue\<rparr>,
           pd_issuedAt = nowIso (gp_kernel gx) now,
           pd_validUntil = to_iso (gp_kernel gx) ((genesisTimestamp + lifespanSeconds) * 1000),
           pd_expiresAt = (genesisTimestamp + lifespanSeconds) * 1000\<rparr> in
     io_then (io_put (\<lambda>g. g\<lparr>gk_drafts := oset (lower paycardId) draft (gk_drafts g)\<rparr>)) (io_return draft)))))"

definition reusable_draft :: "pact \<Rightarrow> address \<Rightarrow> int \<Rightarrow> payment_draft \<Rightarrow> bool" where
  "reusable_draft pact a now d \<longleftrightarrow> pd_pactId d = pc_pactId pact \<and> sameAddress (pd_payer d) a \<and> now < pd_expiresAt d"

definition draft_payment :: "'x gasok_libs_scheme \<Rightarrow> giwa_node \<Rightarrow> int \<Rightarrow> address \<Rightarrow> string \<Rightarrow> gasok_reply gasoking" where
  "draft_payment gx nd now a pactId =
     io_bind (assertPactSession pactId a) (\<lambda>pact.
     if pc_status pact \<notin> {PactAccepted, PactPaymentPrepared, PactAwaitingWallet}
     then io_throw (Error (''Pact is not ready for a payment draft ('' @ pact_status_str (pc_status pact) @ '')''))
     else
       io_bind (io_get (\<lambda>g. find (reusable_draft pact a now) (ovals (gk_drafts g)))) (\<lambda>found. case found of
         Some d \<Rightarrow> gasok_answer (V_draft d)
       | None \<Rightarrow> io_bind (createPaymentDraft gx nd now pact a) (\<lambda>d. gasok_answer (V_draft d))))"

text \<open>Whether a preparation is the draft the server issued.\<close>

definition draft_matches :: "address \<Rightarrow> bind_input \<Rightarrow> payment_draft \<Rightarrow> bool" where
  "draft_matches a i d \<longleftrightarrow> pd_pactId d = bi_pactId i \<and> sameAddress (pd_payer d) a \<and> pd_metadataHash d = bi_metadataHash i"

definition draft_timing :: "bind_input \<Rightarrow> payment_draft \<Rightarrow> bool" where
  "draft_timing i d \<longleftrightarrow> bi_genesisTimestamp i = Some (di_genesisTimestamp (pd_intent d)) \<and>
     bi_nonceChannel i = Some (di_nonceChannel (pd_intent d)) \<and> bi_nonceValue i = Some (di_nonceValue (pd_intent d))"

definition bind_payment :: "kernel \<Rightarrow> int \<Rightarrow> bind_input \<Rightarrow> pact gasoking" where
  "bind_payment k now i = kernel_call (\<lambda>s. bindOpenRailsPayment k s s i now)"

definition prepare_payment :: "kernel \<Rightarrow> int \<Rightarrow> address \<Rightarrow> bind_input \<Rightarrow> gasok_reply gasoking" where
  "prepare_payment k now a i =
     io_bind (assertPactSession (bi_pactId i) a) (\<lambda>_.
     io_then (gasok_check (sameAddress (bi_actor i) a) ''Payment actor must match the authenticated wallet'')
    (io_bind (io_get (\<lambda>g. oget (gk_drafts g) (lower (bi_paycardId i)))) (\<lambda>found.
     io_then (gasok_check (case found of None \<Rightarrow> False | Some d \<Rightarrow> now < pd_expiresAt d)
       ''The server-issued payment draft is missing or expired'')
    (io_then (gasok_check (draft_matches a i (the found)) ''Payment preparation does not match the server-issued draft'')
    (io_then (gasok_check (draft_timing i (the found)) ''Payment nonce or timing does not match the server-issued draft'')
    (io_bind (bind_payment k now i) (\<lambda>p. gasok_answer (V_pact p))))))))"

definition drop_draft :: "hex \<Rightarrow> unit gasoking" where
  "drop_draft paycardId = io_put (\<lambda>g. g\<lparr>gk_drafts := AList.delete (lower paycardId) (gk_drafts g)\<rparr>)"

definition confirm_opening :: "kernel \<Rightarrow> int \<Rightarrow> address \<Rightarrow> bind_input \<Rightarrow> gasok_reply gasoking" where
  "confirm_opening k now a i =
     io_bind (assertPactSession (bi_pactId i) a) (\<lambda>_.
     io_then (gasok_check (sameAddress (bi_actor i) a) ''Opening observer actor must match the authenticated wallet'')
    (io_bind (io_get (\<lambda>g. oget (gk_drafts g) (lower (bi_paycardId i)))) (\<lambda>found.
     io_then (gasok_check (case found of None \<Rightarrow> False
         | Some d \<Rightarrow> pd_pactId d = bi_pactId i \<and> pd_metadataHash d = bi_metadataHash i)
       ''Opening observation does not match the server-issued draft'')
    (io_bind (bind_payment k now i) (\<lambda>p.
     io_then (drop_draft (bi_paycardId i)) (gasok_answer (V_pact p)))))))"

text \<open>\<open>getLogs\<close> covers the last 10000 blocks.\<close>

definition recent_block :: "int \<Rightarrow> int" where
  "recent_block latest = (if latest > 10000 then latest - 10000 else 0)"

definition opened_reply :: "pact \<Rightarrow> hex \<Rightarrow> open_rails \<Rightarrow> gasok_reply gasoking" where
  "opened_reply pact tx r = gasok_answer (V_opening pact tx (or_paycardId r) (or_genesisTimestamp r))"

definition recover_opening :: "kernel \<Rightarrow> giwa_node \<Rightarrow> int \<Rightarrow> address \<Rightarrow> string \<Rightarrow> gasok_reply gasoking" where
  "recover_opening k nd now a pactId =
     io_bind (assertPactSession pactId a) (\<lambda>pact.
     if \<not> truthy (bound_paycard pact) then io_throw (Error ''The Pact has no prepared Paycard to recover'')
     else let r = the (pc_openRails pact) in
     if pc_status pact = PactActive \<and> truthy (or_openingTxHash r) then opened_reply pact (the (or_openingTxHash r)) r
     else
       io_bind (io_of (retryRpc ''latest GIWA block'' (gn_blockNumber nd))) (\<lambda>latest.
       io_bind (io_of (retryRpc ''PaycardProvisioned event search'' (gn_openings nd (or_paycardId r) (recent_block latest)))) (\<lambda>logs.
       let opening = (if logs = [] then None else last logs) in
       if \<not> truthy opening then io_throw (Error ''No canonical Paycard opening was found for the prepared Pact'')
       else
         io_bind (bind_payment k now \<lparr>bi_pactId = pc_pactId pact, bi_metadataHash = or_metadataHash r,
           bi_paycardId = or_paycardId r, bi_actor = a, bi_genesisTimestamp = None, bi_nonceChannel = None,
           bi_nonceValue = None, bi_openingTxHash = opening\<rparr>) (\<lambda>p.
         io_then (drop_draft (or_paycardId r)) (opened_reply p (the opening) r)))))"

end
