(* ===== verification/GasokRoutes.thy ===== *)
theory GasokRoutes
  imports GasokServer "HOL-Library.Product_Lexorder"
begin

text \<open>
  \<open>apps/gasok-web/server/index.mjs\<close>, the other half: proposals, checkpoints, settlements and the dispatch
  of a request. \<open>BigInt\<close> of an amount and the order of \<open>sort\<close> are as in the source.
\<close>

section \<open>Proposals\<close>

text \<open>At most twenty rounds of the job queue, while the job of the proposal waits.\<close>

primrec evaluate_rounds :: "kernel \<Rightarrow> int \<Rightarrow> nat \<Rightarrow> job \<Rightarrow> job gasoking" where
  "evaluate_rounds k now 0 job = io_return job"
| "evaluate_rounds k now (Suc n) job =
     (if jb_state job \<notin> {JobQueued, JobRunning} then io_return job
      else
        io_then (kernel_call (\<lambda>s. Inr (runNextJob k s s ''gasok-web'' now)))
       (io_bind (kernel_read (\<lambda>s. oget (jobs s) (jb_jobId job))) (\<lambda>found.
        evaluate_rounds k now n (case found of None \<Rightarrow> job | Some j \<Rightarrow> j))))"

text \<open>\<open>job.result?.decisionId\<close>, where it is a text.\<close>

definition decision_of :: "job \<Rightarrow> kstate \<Rightarrow> decision option" where
  "decision_of job s =
     (case Option.bind (jb_result job) (\<lambda>r. oget r ''decisionId'') of
        Some (JStr i) \<Rightarrow> oget (decisions s) i
      | _ \<Rightarrow> None)"

definition evaluated_value :: "proposal \<Rightarrow> job \<Rightarrow> string \<Rightarrow> kstate \<Rightarrow> gasok_value" where
  "evaluated_value p job proposalId s = V_evaluated p job (decision_of job s)
     (find (\<lambda>b. bl_proposalId b = proposalId) (blockedActions s))
     (list_ex (\<lambda>q. pc_proposalId q = proposalId) (ovals (pacts s)))"

definition gasok_token :: address where
  "gasok_token = ''0x162BCaEb04D4c82403c925d3AC9bEC8FFc1C07De''"

text \<open>The bounds of the demonstration; \<open>amount\<close> is \<open>BigInt(input.requestedAllocationBaseUnits)\<close>.\<close>

definition demonstration_bounds :: "coercions \<Rightarrow> address \<Rightarrow> proposal \<Rightarrow> unit result" where
  "demonstration_bounds co a p =
     throw_if (\<not> (pp_counterparty p \<noteq> None \<and> sameAddress (the (pp_counterparty p)) a)) ''The safe live route is self-recipient only''
    (throw_if (\<not> sameAddress (pp_asset p) gasok_token) ''The live route only supports orUSD''
    (throw_if (pp_actionType p \<noteq> ''open_payment'') ''The live route only supports open_payment proposals''
    (bnd (bigint co (JStr (pp_requestedAllocationBaseUnits p))) (\<lambda>amount.
     throw_if (amount \<le> 0 \<or> amount > 2000000000) ''Requested allocation is outside the bounded live demonstration range''
    (throw_if (pp_requestedDurationSeconds p \<noteq> 30) ''The live demonstration duration must be 30 seconds'' (Inr ()))))))"

definition evaluate_proposal :: "kernel \<Rightarrow> coercions \<Rightarrow> int \<Rightarrow> address \<Rightarrow> proposal \<Rightarrow> gasok_reply gasoking" where
  "evaluate_proposal k co now a p =
     io_then (owns_workspace (pp_workspaceId p) a)
    (io_then (io_of (demonstration_bounds co a p))
    (io_bind (kernel_call (\<lambda>s. submitProposal k s p now)) (\<lambda>(q, job0).
     io_bind (evaluate_rounds k now 20 job0) (\<lambda>job.
     if jb_state job = JobFailed
     then io_throw (Error (''Baphomet evaluation failed: '' @ (case jb_error job of None \<Rightarrow> ''unknown evaluator error'' | Some e \<Rightarrow> e)))
     else if jb_state job \<in> {JobQueued, JobRunning}
     then io_throw (Error (''Baphomet evaluation did not complete. Job state: '' @
       (if jb_state job = JobQueued then ''queued'' else ''running'')))
     else io_bind (kernel_read (evaluated_value q job (pp_proposalId p))) gasok_answer))))"

section \<open>Pacts and checkpoints\<close>

definition create_pact :: "kernel \<Rightarrow> int \<Rightarrow> address \<Rightarrow> pact_input \<Rightarrow> gasok_reply gasoking" where
  "create_pact k now a i =
     io_bind (kernel_read (\<lambda>s. oget (proposals s) (pi_proposalId i))) (\<lambda>found. case found of
       None \<Rightarrow> io_throw (Error ''Proposal not found'')
     | Some proposal \<Rightarrow>
         io_then (owns_workspace (pp_workspaceId proposal) a)
        (io_then (gasok_check (pi_requiresCounterpartySignature i = Some False)
           ''The self-recipient test route uses one explicit Workspace signature'')
        (io_bind (kernel_call (\<lambda>s. createPactFromProposal k s i now)) (\<lambda>p.
         io_bind (io_of (preparePactSignature k p)) (\<lambda>(p', h, td). gasok_answer (V_created p p' h td))))))"

definition sign_pact :: "kernel \<Rightarrow> int \<Rightarrow> address \<Rightarrow> string \<Rightarrow> address \<Rightarrow> hex \<Rightarrow> gasok_reply gasoking" where
  "sign_pact k now a pactId signer signature =
     io_bind (assertPactSession pactId a) (\<lambda>_.
     io_then (gasok_check (sameAddress signer a) ''Pact signer must match the authenticated wallet'')
    (io_bind (kernel_call (\<lambda>s. signPact k s pactId signer signature now)) (\<lambda>r. gasok_answer (V_signed r))))"

definition prepare_checkpoint :: "kernel \<Rightarrow> address \<Rightarrow> checkpoint \<Rightarrow> gasok_reply gasoking" where
  "prepare_checkpoint k a c =
     io_bind (assertPactSession (ck_pactId c) a) (\<lambda>_.
     io_then (gasok_check (sameAddress (ck_actor c) a \<and> sameAddress (ck_submittedBy c) a)
       ''Checkpoint signer must match the authenticated wallet'')
    (let c' = c\<lparr>ck_signature := ''0x''\<rparr> in
     io_bind (io_of (checkpointTypedData k c')) (\<lambda>td. gasok_answer (V_prepared_checkpoint c' td))))"

definition submit_checkpoint :: "kernel \<Rightarrow> int \<Rightarrow> address \<Rightarrow> checkpoint \<Rightarrow> gasok_reply gasoking" where
  "submit_checkpoint k now a c =
     io_bind (assertPactSession (ck_pactId c) a) (\<lambda>_.
     io_then (gasok_check (sameAddress (ck_submittedBy c) a) ''Checkpoint signer must match the authenticated wallet'')
    (io_bind (kernel_call (\<lambda>s. submitCheckpoint k s c now)) (\<lambda>c'.
     io_bind (kernel_call (\<lambda>s. verifyCheckpoint k s (ck_checkpointId c') gasok_plugin_id gasok_plugin_version now)) (\<lambda>d.
     io_bind (kernel_read (\<lambda>s. oget (pacts s) (ck_pactId c'))) (\<lambda>p. gasok_answer (V_verified c' d p))))))"

section \<open>Settlements\<close>

definition record_settlement :: "kernel \<Rightarrow> int \<Rightarrow> settlement_input \<Rightarrow> pact gasoking" where
  "record_settlement k now i = kernel_call (\<lambda>s. recordPactSettlement k s s i now)"

definition post_settlement :: "kernel \<Rightarrow> int \<Rightarrow> address \<Rightarrow> settlement_input \<Rightarrow> gasok_reply gasoking" where
  "post_settlement k now a i =
     io_bind (assertPactSession (si_pactId i) a) (\<lambda>_.
     io_then (gasok_check (sameAddress (si_actor i) a) ''Settlement actor must match the authenticated wallet'')
    (io_bind (kernel_read (\<lambda>s. list_ex (\<lambda>d. vd_pactId d = si_pactId i \<and> vd_decision d = Approved)
       (ovals (verificationDecisions s)))) (\<lambda>proofApproved.
     io_then (gasok_check proofApproved ''An approved Proof checkpoint is required before settlement can be recorded'')
    (io_bind (record_settlement k now (i\<lparr>si_final := None\<rparr>)) (\<lambda>p. gasok_answer (V_pact p))))))"

text \<open>Logs of the Paycard in the order of the chain.\<close>

definition flush_position :: "flushed_log \<Rightarrow> int \<times> int" where
  "flush_position l = (case fl_blockNumber l of None \<Rightarrow> 0 | Some n \<Rightarrow> n, case fl_logIndex l of None \<Rightarrow> 0 | Some n \<Rightarrow> n)"

definition flush_of_card :: "hex \<Rightarrow> flushed_log \<Rightarrow> bool" where
  "flush_of_card paycardId l \<longleftrightarrow> (case fl_paycardId l of None \<Rightarrow> False | Some i \<Rightarrow> lower i = lower paycardId)"

definition card_flushes :: "hex \<Rightarrow> flushed_log list \<Rightarrow> flushed_log list" where
  "card_flushes paycardId logs = sort_key flush_position (filter (flush_of_card paycardId) logs)"

text \<open>The loop over the logs; \<open>recorded\<close> are the transactions known, \<open>done\<close> what was recovered so far.\<close>

fun recover_flushes ::
    "kernel \<Rightarrow> giwa_node \<Rightarrow> int \<Rightarrow> address \<Rightarrow> hex \<Rightarrow> flushed_log list \<Rightarrow> pact \<Rightarrow> string set \<Rightarrow> recovered_settlement list
     \<Rightarrow> (pact \<times> recovered_settlement list) gasoking" where
  "recover_flushes k nd now a paycardId [] pact recorded found = io_return (pact, found)"
| "recover_flushes k nd now a paycardId (l # ls) pact recorded found =
     (if \<not> truthy (fl_transactionHash l) \<or> lower (the (fl_transactionHash l)) \<in> recorded
      then recover_flushes k nd now a paycardId ls pact recorded found
      else let tx = the (fl_transactionHash l) in
        io_bind (io_of (retryRpc ''recoverable settlement receipt'' (gn_receipt nd tx))) (\<lambda>receipt.
        if \<not> gr_success receipt \<or> flushed_in paycardId receipt = 0
        then recover_flushes k nd now a paycardId ls pact recorded found
        else let amount = int_str (flushed_in paycardId receipt) in
          io_bind (record_settlement k now \<lparr>si_pactId = pc_pactId pact, si_actor = a, si_txHash = tx,
            si_settledAmountBaseUnits = amount, si_final = None\<rparr>) (\<lambda>pact'.
          recover_flushes k nd now a paycardId ls pact' (insert (lower tx) recorded)
            (found @ [\<lparr>rs_transactionHash = tx, rs_settledAmountBaseUnits = amount,
              rs_final = (pc_status pact' = PactSettled), rs_alreadyRecorded = False\<rparr>]))))"

definition recovered_of :: "settlement_observation \<Rightarrow> recovered_settlement" where
  "recovered_of e = \<lparr>rs_transactionHash = so_transactionHash e, rs_settledAmountBaseUnits = so_settledAmountBaseUnits e,
     rs_final = so_final e, rs_alreadyRecorded = True\<rparr>"

definition opening_block :: "open_rails \<Rightarrow> int \<Rightarrow> int" where
  "opening_block r latest = (case or_openingObservation r of Some ob \<Rightarrow> oo_blockNumber ob | None \<Rightarrow> recent_block latest)"

definition recover_settlements :: "kernel \<Rightarrow> giwa_node \<Rightarrow> int \<Rightarrow> address \<Rightarrow> string \<Rightarrow> gasok_reply gasoking" where
  "recover_settlements k nd now a pactId =
     io_bind (assertPactSession pactId a) (\<lambda>pact.
     if \<not> truthy (bound_paycard pact) then io_throw (Error ''The Pact has no canonical Paycard binding'')
     else let r = the (pc_openRails pact); existing = recorded_settlements r in
     if pc_status pact = PactSettled \<and> existing \<noteq> [] then gasok_answer (V_settled pact [recovered_of (last existing)])
     else
       io_bind (io_of (retryRpc ''latest GIWA settlement block'' (gn_blockNumber nd))) (\<lambda>latest.
       io_bind (io_of (retryRpc ''SettlementFlushed event search'' (gn_flushes nd (opening_block r latest)))) (\<lambda>logs.
       io_bind (recover_flushes k nd now a (or_paycardId r) (card_flushes (or_paycardId r) logs) pact
         ((\<lambda>e. lower (so_transactionHash e)) ` set existing) []) (\<lambda>(pact', found).
       io_bind (io_of (retryRpc ''current GIWA Paycard state'' (gn_registry nd (or_paycardId r) None))) (\<lambda>pcd.
       gasok_answer (V_settlements pact' found (chain_final pcd) (\<not> chain_final pcd \<and> pc_status pact' \<noteq> PactSettled)))))))"

section \<open>Dispatch\<close>

definition gasok_plugins :: "'x gasok_libs_scheme \<Rightarrow> int \<Rightarrow> address \<Rightarrow> string \<Rightarrow> plugin_manifest" where
  "gasok_plugins gx now a workspaceId = (implementationManifest (gp_kernel gx) (gp_rpcUrl gx) (gp_digest gx))
     \<lparr>mf_publisher := a, mf_publisherSignature := ''0x'', mf_installedWorkspaceIds := [workspaceId],
      mf_createdAt := nowIso (gp_kernel gx) now\<rparr>"

definition install_payload :: "'x gasok_libs_scheme \<Rightarrow> string \<Rightarrow> json" where
  "install_payload gx workspaceId = JObj
     [(''workspaceId'', JStr workspaceId), (''pluginId'', JStr gasok_plugin_id),
      (''pluginVersion'', JStr gasok_plugin_version), (''codeDigest'', JStr (gp_digest gx))]"

definition prepare_agent :: "kernel \<Rightarrow> int \<Rightarrow> address \<Rightarrow> agent \<Rightarrow> string list option \<Rightarrow> gasok_reply gasoking" where
  "prepare_agent k now a agent assigned =
     io_then (owns_workspace (ag_workspaceId agent) a)
    (io_then (gasok_check (sameAddress (ag_operator agent) a)
       ''Agent operator must match the authenticated wallet for the live demonstration'')
    (io_bind (io_of (prepareAgentRegistration k agent assigned now)) (\<lambda>(ag, h, td). gasok_answer (V_prepared_agent ag h td))))"

definition register_agent :: "kernel \<Rightarrow> int \<Rightarrow> address \<Rightarrow> agent \<Rightarrow> address \<Rightarrow> hex \<Rightarrow> gasok_reply gasoking" where
  "register_agent k now a agent authoritySigner signature =
     io_then (owns_workspace (ag_workspaceId agent) a)
    (io_then (gasok_check (sameAddress authoritySigner a \<and> sameAddress (ag_operator agent) a)
       ''Agent registration is outside the authenticated wallet scope'')
    (io_bind (kernel_call (\<lambda>s. registerAgent k s agent authoritySigner signature now)) (\<lambda>r. gasok_answer (V_agent r))))"

definition install_plugin :: "kernel \<Rightarrow> int \<Rightarrow> address \<Rightarrow> plugin_manifest \<Rightarrow> workspace_command \<Rightarrow> hex \<Rightarrow> gasok_reply gasoking" where
  "install_plugin k now a manifest command signature =
     io_bind (kernel_read (\<lambda>s. Option.bind (case mf_installedWorkspaceIds manifest of [] \<Rightarrow> None | w # _ \<Rightarrow> Some w)
       (\<lambda>w. oget (workspaces s) w))) (\<lambda>found. case found of
       None \<Rightarrow> io_throw (Error ''Workspace not found'')
     | Some w \<Rightarrow>
         io_then (gasok_check (sameAddress (ws_authorityAccount w) a) ''Session is not the Workspace authority'')
        (io_then (gasok_check (sameAddress (mf_publisher manifest) a) ''Plugin publisher must match the authenticated wallet'')
        (io_bind (kernel_call (\<lambda>s. installPlugin k s manifest command signature now)) (\<lambda>m. gasok_answer (V_plugin m)))))"

text \<open>The routes under \<open>/api/live/\<close>, for the wallet \<open>a\<close> of the session.\<close>

fun live_route :: "'x gasok_libs_scheme \<Rightarrow> giwa_node \<Rightarrow> int \<Rightarrow> address \<Rightarrow> gasok_call \<Rightarrow> gasok_reply gasoking" where
  "live_route gx nd now a (Get_state w) =
     io_bind (assertWorkspaceSession w a True) (\<lambda>_. io_bind (kernel_read (\<lambda>s. safeState s w)) (\<lambda>v. gasok_answer (V_state v)))"
| "live_route gx nd now a (Get_metadata i) =
     io_bind (assertPactSession i a) (\<lambda>_.
     io_bind (kernel_read (\<lambda>s. openRailsMetadataBinding (gasok_kernel (gasok_platform.truncate gx) nd) s i now)) (\<lambda>b.
     io_bind (io_of b) (\<lambda>v. gasok_answer (V_binding v))))"
| "live_route gx nd now a (Get_pact i) = io_bind (assertPactSession i a) (\<lambda>p. gasok_answer (V_pact p))"
| "live_route gx nd now a (Prepare_workspace w) =
     io_then (gasok_check (sameAddress (wd_authorityAccount w) a) ''Workspace authority must match the authenticated wallet'')
    (io_bind (io_of (prepareWorkspace (gasok_kernel (gasok_platform.truncate gx) nd) (wd_workspaceId w) (wd_workspaceType w)
        (wd_displayName w) (wd_principalId w) (wd_authorityAccount w) (wd_authorityType w) (wd_members w) now))
      (\<lambda>(ws, h, td). gasok_answer (V_prepared_workspace ws h td)))"
| "live_route gx nd now a (Register_workspace w sg) =
     io_then (gasok_check (sameAddress (ws_authorityAccount w) a) ''Workspace authority must match the authenticated wallet'')
    (io_bind (kernel_call (\<lambda>s. registerWorkspace (gasok_kernel (gasok_platform.truncate gx) nd) s w sg now)) (\<lambda>r. gasok_answer (V_workspace r)))"
| "live_route gx nd now a (Prepare_agent ag ps) = prepare_agent (gasok_kernel (gasok_platform.truncate gx) nd) now a ag ps"
| "live_route gx nd now a (Register_agent ag au sg) = register_agent (gasok_kernel (gasok_platform.truncate gx) nd) now a ag au sg"
| "live_route gx nd now a (Prepare_path p) =
     io_then (owns_workspace (pa_workspaceId p) a)
    (io_then (gasok_check (sameAddress (pa_owner p) a \<and> sameAddress (pa_authorityAccount p) a)
       ''Path authority must match the authenticated wallet'')
    (io_bind (io_of (preparePath (gasok_kernel (gasok_platform.truncate gx) nd) p)) (\<lambda>(q, h, td). gasok_answer (V_prepared_path q h td))))"
| "live_route gx nd now a (Activate_path p sg) =
     io_then (owns_workspace (pa_workspaceId p) a)
    (io_then (gasok_check (sameAddress (pa_authorityAccount p) a) ''Path authority must match the authenticated wallet'')
    (io_bind (kernel_call (\<lambda>s. activatePath (gasok_kernel (gasok_platform.truncate gx) nd) s p sg now)) (\<lambda>r. gasok_answer (V_path r))))"
| "live_route gx nd now a (Prepare_plugin w publisher) =
     io_then (owns_workspace w a)
    (io_then (gasok_check (sameAddress publisher a) ''Plugin publisher must match the authenticated wallet'')
    (let m = gasok_plugins gx now a w in
     io_bind (io_of (verificationPluginTypedData (gp_kernel gx) m)) (\<lambda>td. gasok_answer (V_prepared_plugin m td (gp_digest gx)))))"
| "live_route gx nd now a (Prepare_command w) =
     io_then (owns_workspace w a)
    (io_bind (kernel_read (\<lambda>s. prepareWorkspaceCommand (gasok_kernel (gasok_platform.truncate gx) nd) s w InstallPlugin
       (install_payload gx w) None now)) (\<lambda>r.
     io_bind (io_of r) (\<lambda>(c, td). gasok_answer (V_command (install_payload gx w) c td))))"
| "live_route gx nd now a (Install_plugin m c sg) = install_plugin (gasok_kernel (gasok_platform.truncate gx) nd) now a m c sg"
| "live_route gx nd now a (Evaluate_proposal p) =
     evaluate_proposal (gasok_kernel (gasok_platform.truncate gx) nd) (gp_coercions gx) now a p"
| "live_route gx nd now a (Create_pact i) = create_pact (gasok_kernel (gasok_platform.truncate gx) nd) now a i"
| "live_route gx nd now a (Sign_pact i signer sg) = sign_pact (gasok_kernel (gasok_platform.truncate gx) nd) now a i signer sg"
| "live_route gx nd now a (Draft_payment i) = draft_payment gx nd now a i"
| "live_route gx nd now a (Prepare_payment i) = prepare_payment (gasok_kernel (gasok_platform.truncate gx) nd) now a i"
| "live_route gx nd now a (Recover_opening i) = recover_opening (gasok_kernel (gasok_platform.truncate gx) nd) nd now a i"
| "live_route gx nd now a (Confirm_opening i) = confirm_opening (gasok_kernel (gasok_platform.truncate gx) nd) now a i"
| "live_route gx nd now a (Prepare_checkpoint c) = prepare_checkpoint (gasok_kernel (gasok_platform.truncate gx) nd) a c"
| "live_route gx nd now a (Submit_checkpoint c) = submit_checkpoint (gasok_kernel (gasok_platform.truncate gx) nd) now a c"
| "live_route gx nd now a (Recover_settlements i) = recover_settlements (gasok_kernel (gasok_platform.truncate gx) nd) nd now a i"
| "live_route gx nd now a (Record_settlement i) = post_settlement (gasok_kernel (gasok_platform.truncate gx) nd) now a i"
| "live_route gx nd now a _ = gasok_refuse 404 ''not_found''"

definition is_live :: "gasok_call \<Rightarrow> bool" where
  "is_live c \<longleftrightarrow> starts_with (snd (gasok_route c)) ''/api/live/''"

definition gasok_api :: "'x gasok_libs_scheme \<Rightarrow> giwa_node \<Rightarrow> int \<Rightarrow> gasok_request \<Rightarrow> gasok_reply gasoking" where
  "gasok_api gx nd now rq =
     (if \<not> sameOrigin rq then gasok_refuse 403 ''cross_origin_request_rejected''
      else
        io_bind (rateLimit (gq_remote rq) now) (\<lambda>allowed.
        if \<not> allowed then gasok_refuse 429 ''rate_limit_exceeded''
        else
          io_then (io_of (if fst (gasok_route (gq_call rq)) = ''POST'' then gasok_body rq else Inr ()))
         (case gq_call rq of
            Get_health \<Rightarrow> io_bind (io_of (gn_blockNumber nd 1)) (\<lambda>n. gasok_answer (V_health n))
          | Get_challenge raw \<Rightarrow> get_challenge gx rq now raw
          | Post_verify raw sg \<Rightarrow> post_verify gx rq now raw sg
          | Get_session \<Rightarrow> io_bind (activeSession gx rq now) (\<lambda>session. gasok_answer (V_session (map_option gs_address session)))
          | call \<Rightarrow>
              io_bind (activeSession gx rq now) (\<lambda>session.
              if is_live call then
                (case session of
                   None \<Rightarrow> gasok_refuse 401 ''wallet_session_required''
                 | Some s \<Rightarrow> live_route gx nd now (gs_address s) call)
              else gasok_refuse 404 ''not_found''))))"

text \<open>The handler of the server: what \<open>api\<close> throws is answered with 400.\<close>

definition gasok_serve :: "'x gasok_libs_scheme \<Rightarrow> giwa_node \<Rightarrow> int \<Rightarrow> gasok_request \<Rightarrow> gasok \<Rightarrow> gasok_reply \<times> gasok" where
  "gasok_serve gx nd now rq g =
     (case gasok_api gx nd now rq g of
        (Inr r, g') \<Rightarrow> (r, g')
      | (Inl (Error msg), g') \<Rightarrow> ((400, V_error msg), g'))"

end
