(* ===== verification/GasokInvariant.thy ===== *)
theory GasokInvariant
  imports GasokRoutes KernelScope PactEvidence
begin

text \<open>
  What a request to the GasOK server may change: nothing of the kernel without a session, and within
  one only the Workspaces of its wallet. What the sessions rest on: a challenge the wallet signed.
\<close>

section \<open>The Workspaces of a wallet\<close>

definition owns :: "address \<Rightarrow> string \<Rightarrow> kstate \<Rightarrow> bool" where
  "owns a w s \<longleftrightarrow> (\<exists>ws. oget (workspaces s) w = Some ws \<and> sameAddress (ws_authorityAccount ws) a)"

definition owns_pact :: "address \<Rightarrow> string \<Rightarrow> kstate \<Rightarrow> bool" where
  "owns_pact a i s \<longleftrightarrow> (\<exists>w. pact_workspace s i = Some w \<and> owns a w s)"

definition within_own :: "address \<Rightarrow> kstate \<Rightarrow> kstate \<Rightarrow> bool" where
  "within_own a s s' \<longleftrightarrow> (\<forall>w. \<not> owns a w s' \<longrightarrow> same_for w s s') \<and>
     (\<forall>w ws. oget (workspaces s) w = Some ws \<longrightarrow> oget (workspaces s') w = Some ws)"

lemma within_own_refl [simp]: "within_own a s s"
  by (simp add: within_own_def)

lemma owns_exec: "exec k op before now s = Inr s' \<Longrightarrow> owns a w s \<Longrightarrow> owns a w s'"
  using exec_workspaces by (fastforce simp: owns_def)

lemma owns_pact_exec: "exec k op before now s = Inr s' \<Longrightarrow> owns_pact a i s \<Longrightarrow> owns_pact a i s'"
  using owns_exec pact_workspace_kept unfolding owns_pact_def by metis

lemma within_own_exec:
  assumes "within_own a s0 s" "scoped s" "exec k op before now s = Inr s'"
    "\<And>w. op_workspace op s = Some w \<Longrightarrow> owns a w s'"
  shows "within_own a s0 s'"
  unfolding within_own_def
proof (intro conjI allI impI)
  fix w assume w: "\<not> owns a w s'"
  with owns_exec [OF assms(3)] assms(1) have "same_for w s0 s" by (auto simp: within_own_def)
  moreover from w assms(4) have "same_for w s s'" by (intro exec_same_for [OF assms(3,2)]) auto
  ultimately show "same_for w s0 s'" by (rule same_for_trans)
next
  fix w ws assume "oget (workspaces s0) w = Some ws"
  with assms(1) have "oget (workspaces s) w = Some ws" by (simp add: within_own_def)
  with exec_workspaces [OF assms(3)] show "oget (workspaces s') w = Some ws" by blast
qed

section \<open>Within a request\<close>

text \<open>\<open>X\<close> is what is known of the kernel's state besides; sessions and challenges stay as they are.\<close>

inductive kernel_runs :: "kernel \<Rightarrow> kstate \<Rightarrow> kstate \<Rightarrow> bool" for k s where
  none: "kernel_runs k s s"
| step: "kernel_runs k s t \<Longrightarrow> exec k op t now t = Inr u \<Longrightarrow> kernel_runs k s u"

definition own_inv ::
    "kernel \<Rightarrow> address \<Rightarrow> gasok \<Rightarrow> (kstate \<Rightarrow> bool) \<Rightarrow> gasok \<Rightarrow> bool" where
  "own_inv k a g0 X g \<longleftrightarrow> scoped (gk_state g) \<and> within_own a (gk_state g0) (gk_state g) \<and> X (gk_state g) \<and>
     kernel_runs k (gk_state g0) (gk_state g) \<and>
     gk_challenges g = gk_challenges g0 \<and> gk_sessions g = gk_sessions g0"

abbreviation kept_own :: "kernel \<Rightarrow> address \<Rightarrow> gasok \<Rightarrow> gasok \<Rightarrow> bool" where
  "kept_own k a g0 \<equiv> own_inv k a g0 (\<lambda>_. True)"

abbreviation acts_own :: "kernel \<Rightarrow> address \<Rightarrow> gasok \<Rightarrow> (kstate \<Rightarrow> bool) \<Rightarrow> 'a gasoking \<Rightarrow> bool" where
  "acts_own k a g0 X m \<equiv> meets (own_inv k a g0 X) m (\<lambda>_. kept_own k a g0) (kept_own k a g0)"

lemma own_weaken: "own_inv k a g0 X g \<Longrightarrow> kept_own k a g0 g"
  by (simp add: own_inv_def)

text \<open>An operation of the kernel on a Workspace of the wallet; \<open>Y\<close> is what it establishes.\<close>

lemma own_call:
  assumes "\<And>s s' v. X s \<Longrightarrow> scoped s \<Longrightarrow> f s = Inr (s', v) \<Longrightarrow>
    (\<exists>op now. exec k op s now s = Inr s' \<and> (\<forall>w. op_workspace op s = Some w \<longrightarrow> owns a w s')) \<and> Y v s'"
  shows "meets (own_inv k a g0 X) (kernel_call f) (\<lambda>v. own_inv k a g0 (Y v)) (kept_own k a g0)"
proof (rule meetsI)
  fix g assume g: "own_inv k a g0 X g"
  show "case kernel_call f g of (Inr v, g') \<Rightarrow> own_inv k a g0 (Y v) g' | (Inl e, g') \<Rightarrow> kept_own k a g0 g'"
  proof (cases "f (gk_state g)")
    case (Inl e)
    with g show ?thesis by (simp add: kernel_call_def own_inv_def)
  next
    case (Inr p)
    obtain s' v where p: "p = (s', v)" by (cases p)
    from g have x: "X (gk_state g)" "scoped (gk_state g)" "within_own a (gk_state g0) (gk_state g)"
      "kernel_runs k (gk_state g0) (gk_state g)" by (simp_all add: own_inv_def)
    from assms [OF x(1,2) Inr [unfolded p]] obtain op now where
      e: "exec k op (gk_state g) now (gk_state g) = Inr s'" "\<forall>w. op_workspace op (gk_state g) = Some w \<longrightarrow> owns a w s'"
      and y: "Y v s'" by blast
    have "within_own a (gk_state g0) s'" by (rule within_own_exec [OF x(3,2) e(1)]) (use e(2) in blast)
    moreover have "scoped s'" by (rule scoped_exec [OF e(1) x(2)])
    moreover have "kernel_runs k (gk_state g0) s'" by (rule kernel_runs.step [OF x(4) e(1)])
    ultimately show ?thesis using g y Inr p by (simp add: kernel_call_def own_inv_def)
  qed
qed

lemma own_exec_call:
  assumes "\<And>s s' v. X s \<Longrightarrow> f s = Inr (s', v) \<Longrightarrow> exec k op s now s = Inr s'"
    "\<And>s s' w. X s \<Longrightarrow> exec k op s now s = Inr s' \<Longrightarrow> op_workspace op s = Some w \<Longrightarrow> owns a w s'"
  shows "acts_own k a g0 X (kernel_call f)"
  by (rule own_call [where Y = "\<lambda>_ _. True"]) (use assms in blast)

lemma own_read: "(\<And>s. X s \<Longrightarrow> scoped s \<Longrightarrow> Y (f s) s) \<Longrightarrow> meets (own_inv k a g0 X) (kernel_read f) (\<lambda>v. own_inv k a g0 (Y v)) (kept_own k a g0)"
  unfolding kernel_read_def by (rule meets_get) (auto simp: own_inv_def)

lemma own_of: "(\<And>x. m = Inr x \<Longrightarrow> acts_own k a g0 X (f x)) \<Longrightarrow> acts_own k a g0 X (io_bind (io_of m) f)"
  by (rule meets_bind_of) (auto dest: own_weaken)

lemma own_of_then: "acts_own k a g0 X m \<Longrightarrow> acts_own k a g0 X (io_then (io_of r) m)"
  unfolding io_then_def by (rule own_of)

lemma own_check: "(ok \<Longrightarrow> acts_own k a g0 X m) \<Longrightarrow> acts_own k a g0 X (io_then (gasok_check ok msg) m)"
  by (cases ok) (auto simp: gasok_check_def throw_if_def io_then_def intro!: meets_throw dest: own_weaken)

lemma own_return: "acts_own k a g0 X (io_return r)"
  by (rule meets_return) (rule own_weaken)

lemma own_reply: "acts_own k a g0 X (gasok_answer v)" "acts_own k a g0 X (gasok_refuse n msg)"
  by (simp_all add: gasok_answer_def gasok_refuse_def own_return)

lemma own_throw: "acts_own k a g0 X (io_throw e)"
  by (rule meets_throw) (rule own_weaken)

lemma own_get: "(\<And>x. acts_own k a g0 X (f x)) \<Longrightarrow> acts_own k a g0 X (io_bind (io_get q) f)"
  by (rule meets_bind_get) (rule meets_pre, assumption, simp)

lemma own_owns_workspace:
  assumes "acts_own k a g0 (\<lambda>s. X s \<and> owns a w s) m"
  shows "acts_own k a g0 X (io_then (owns_workspace w a) m)"
proof -
  have "meets (own_inv k a g0 X) (owns_workspace w a) (\<lambda>_. own_inv k a g0 (\<lambda>s. X s \<and> owns a w s)) (kept_own k a g0)"
    unfolding owns_workspace_def assertWorkspaceSession_def
    by (rule meetsI)
       (auto simp: io_bind_def io_then_def kernel_read_def io_get_def gasok_check_def io_of_def throw_if_def io_throw_def
         io_return_def own_inv_def owns_def split: option.splits)
  then show ?thesis by (rule meets_then) (rule assms)
qed

lemma own_assertPact:
  assumes "\<And>p. acts_own k a g0 (\<lambda>s. oget (pacts s) i = Some p \<and> pc_pactId p = i \<and> owns_pact a i s) (f p)"
  shows "acts_own k a g0 X (io_bind (assertPactSession i a) f)"
proof (rule meets_bind [OF _ assms])
  show "meets (own_inv k a g0 X) (assertPactSession i a)
      (\<lambda>p. own_inv k a g0 (\<lambda>s. oget (pacts s) i = Some p \<and> pc_pactId p = i \<and> owns_pact a i s)) (kept_own k a g0)"
    unfolding assertPactSession_def owns_workspace_def assertWorkspaceSession_def
    by (rule meetsI)
       (auto simp: io_bind_def io_then_def kernel_read_def io_get_def gasok_check_def io_of_def throw_if_def io_throw_def
         io_return_def own_inv_def owns_def owns_pact_def pact_workspace_def scoped_pact split: option.splits)
qed

lemmas own_rules = own_check own_of own_return own_reply own_throw own_get own_owns_workspace own_assertPact

section \<open>The routes\<close>

lemma own_op:
  assumes "\<And>s s' v. X s \<Longrightarrow> f s = Inr (s', v) \<Longrightarrow> exec k op s now s = Inr s'"
    "\<And>s s' w. X s \<Longrightarrow> exec k op s now s = Inr s' \<Longrightarrow> op_workspace op s = Some w \<Longrightarrow> owns a w s'"
    "\<And>v. acts_own k a g0 (\<lambda>_. True) (h v)"
  shows "acts_own k a g0 X (io_bind (kernel_call f) h)"
  by (rule meets_bind [OF own_exec_call assms(3)]) (use assms(1,2) in blast)+

lemma own_op_in:
  assumes "\<And>s s' v. X s \<Longrightarrow> f s = Inr (s', v) \<Longrightarrow> exec k op s now s = Inr s'"
    "\<And>s w. X s \<Longrightarrow> op_workspace op s = Some w \<Longrightarrow> owns a w s"
    "\<And>v. acts_own k a g0 (\<lambda>_. True) (h v)"
  shows "acts_own k a g0 X (io_bind (kernel_call f) h)"
  by (rule own_op [OF assms(1) _ assms(3)]) (use assms(2) owns_exec in blast)+

lemma owns_pact_target: "owns_pact a i s \<Longrightarrow> pact_workspace s i = Some w \<Longrightarrow> owns a w s"
  by (simp add: owns_pact_def)

lemma own_prepared: "acts_own k a g0 X (case p of (x, y) \<Rightarrow> gasok_answer (c x y))"
  "acts_own k a g0 X (case q of (x, y, z) \<Rightarrow> gasok_answer (d x y z))"
  by (cases p; simp add: own_reply) (cases q; simp add: own_reply)

lemma own_registrations:
  "acts_own (gasok_kernel (gasok_platform.truncate gx) nd) a g0 (\<lambda>_. True) (live_route gx nd now a (Register_workspace w sg))"
  "acts_own (gasok_kernel (gasok_platform.truncate gx) nd) a g0 (\<lambda>_. True) (live_route gx nd now a (Register_agent ag au sg))"
  "acts_own (gasok_kernel (gasok_platform.truncate gx) nd) a g0 (\<lambda>_. True) (live_route gx nd now a (Activate_path p sg))"
proof -
  let ?k = "gasok_kernel (gasok_platform.truncate gx) nd"
  show "acts_own ?k a g0 (\<lambda>_. True) (live_route gx nd now a (Register_workspace w sg))"
    unfolding live_route.simps
  proof (intro own_check own_op [where k = ?k and op = "OpRegisterWorkspace w sg" and now = now] own_reply)
    fix s s' w' assume "sameAddress (ws_authorityAccount w) a" "exec ?k (OpRegisterWorkspace w sg) s now s = Inr s'"
      "op_workspace (OpRegisterWorkspace w sg) s = Some w'"
    then show "owns a w' s'" by (auto simp: owns_def state_of_Inr elim!: registerWorkspace_Inr)
  qed (simp add: state_of_Inr)
  show "acts_own (gasok_kernel (gasok_platform.truncate gx) nd) a g0 (\<lambda>_. True) (live_route gx nd now a (Register_agent ag au sg))"
    unfolding live_route.simps register_agent_def
    by (intro own_owns_workspace own_check own_op_in [where k = ?k and op = "OpRegisterAgent ag au sg" and now = now] own_reply)
       (auto simp: state_of_Inr)
  show "acts_own (gasok_kernel (gasok_platform.truncate gx) nd) a g0 (\<lambda>_. True) (live_route gx nd now a (Activate_path p sg))"
    unfolding live_route.simps
    by (intro own_owns_workspace own_check own_op_in [where k = ?k and op = "OpActivatePath p sg" and now = now] own_reply)
       (auto simp: state_of_Inr)
qed

lemma own_bind_payment:
  assumes "bi_pactId b = i" "\<And>v. acts_own k a g0 (\<lambda>_. True) (h v)"
  shows "acts_own k a g0 (\<lambda>s. X s \<and> owns_pact a i s) (io_bind (bind_payment k now b) h)"
  unfolding bind_payment_def
  by (intro own_op_in [where k = k and op = "OpBindPayment b" and now = now] assms(2))
     (use assms(1) in \<open>auto simp: state_of_Inr dest: owns_pact_target\<close>)

lemma own_put: "(\<And>g. gk_state (f g) = gk_state g \<and> gk_challenges (f g) = gk_challenges g \<and> gk_sessions (f g) = gk_sessions g) \<Longrightarrow>
    acts_own k a g0 X m \<Longrightarrow> acts_own k a g0 X (io_then (io_put f) m)"
  by (rule meets_then [where R = "own_inv k a g0 X"]) (auto intro!: meets_put simp: own_inv_def)

lemma own_drop_draft: "acts_own k a g0 X m \<Longrightarrow> acts_own k a g0 X (io_then (drop_draft i) m)"
  unfolding drop_draft_def by (rule own_put) simp_all

lemma own_pacts:
  "acts_own k a g0 (\<lambda>_. True) (sign_pact k now a i signer sg)"
  "acts_own k a g0 (\<lambda>_. True) (prepare_payment k now a b)"
  "acts_own k a g0 (\<lambda>_. True) (confirm_opening k now a b)"
  "acts_own k a g0 (\<lambda>_. True) (recover_opening k nd now a i)"
proof -
  show "acts_own k a g0 (\<lambda>_. True) (sign_pact k now a i signer sg)"
    unfolding sign_pact_def
    by (intro own_assertPact own_check own_op_in [where k = k and op = "OpSignPact i signer sg" and now = now] own_reply)
       (auto simp: state_of_Inr dest: owns_pact_target)
  show "acts_own k a g0 (\<lambda>_. True) (prepare_payment k now a b)"
    unfolding prepare_payment_def
    by (intro own_assertPact own_check own_get own_reply
        own_bind_payment [where X = "\<lambda>s. oget (pacts s) (bi_pactId b) = Some p \<and> pc_pactId p = bi_pactId b" for p, unfolded conj_assoc])
       (rule refl)
  show "acts_own k a g0 (\<lambda>_. True) (confirm_opening k now a b)"
    unfolding confirm_opening_def
    by (intro own_assertPact own_check own_get own_reply own_drop_draft
        own_bind_payment [where X = "\<lambda>s. oget (pacts s) (bi_pactId b) = Some p \<and> pc_pactId p = bi_pactId b" for p, unfolded conj_assoc])
       (rule refl)
  have bind: "acts_own k a g0 (\<lambda>s. oget (pacts s) i = Some p \<and> pc_pactId p = i \<and> owns_pact a i s) (io_bind (bind_payment k now b') h)"
    if "bi_pactId b' = pc_pactId p" "\<And>v. acts_own k a g0 (\<lambda>_. True) (h v)" for p b' and h :: "pact \<Rightarrow> gasok_reply gasoking"
    unfolding bind_payment_def
    by (intro own_op_in [where k = k and op = "OpBindPayment b'" and now = now] that(2))
       (use that(1) in \<open>auto simp: state_of_Inr dest: owns_pact_target\<close>)
  show "acts_own k a g0 (\<lambda>_. True) (recover_opening k nd now a i)"
    unfolding recover_opening_def Let_def opened_reply_def
    by (intro own_assertPact meets_if own_throw own_reply own_of bind own_drop_draft) simp
qed

lemma own_read_bind:
  assumes "\<And>v. acts_own k a g0 (\<lambda>s. X s \<and> v = f s) (h v)"
  shows "acts_own k a g0 X (io_bind (kernel_read f) h)"
  by (rule meets_bind [OF own_read [where Y = "\<lambda>v s. X s \<and> v = f s"] assms]) simp

lemma own_option: "acts_own k a g0 X m \<Longrightarrow> (\<And>v. x = Some v \<Longrightarrow> acts_own k a g0 X (f v)) \<Longrightarrow> acts_own k a g0 X (case x of None \<Rightarrow> m | Some v \<Rightarrow> f v)"
  by (cases x) simp_all

lemma own_create_pact: "acts_own k a g0 (\<lambda>_. True) (create_pact k now a i)"
  unfolding create_pact_def
  by (intro own_read_bind own_option own_throw own_owns_workspace own_check
      own_op_in [where k = k and op = "OpCreatePact i" and now = now] own_of own_prepared)
     (auto simp: state_of_Inr)

lemma own_evaluate_rounds:
  assumes "\<And>v. acts_own k a g0 (\<lambda>_. True) (h v)"
  shows "acts_own k a g0 (\<lambda>_. True) (io_bind (evaluate_rounds k now n job) h)"
proof (rule meets_bind [OF _ assms])
  have run: "acts_own k a g0 (\<lambda>_. True) (kernel_call (\<lambda>s. Inr (runNextJob k s s ''gasok-web'' now)))"
    by (rule own_exec_call [where k = k and op = "OpRunNextJob ''gasok-web''" and now = now]) auto
  show "acts_own k a g0 (\<lambda>_. True) (evaluate_rounds k now n job)"
  proof (induction n arbitrary: job)
    case (Suc n)
    show ?case unfolding evaluate_rounds.simps
      by (intro meets_if own_return meets_then [OF run] own_read_bind) (rule meets_pre [OF Suc], rule own_weaken)
  qed (simp add: own_return)
qed

lemma own_evaluate: "acts_own k a g0 (\<lambda>_. True) (evaluate_proposal k co now a p)"
proof -
  have job: "acts_own k a g0 (\<lambda>_. True) (case r of (q, job0) \<Rightarrow> io_bind (evaluate_rounds k now 20 job0) (h q))"
    if "\<And>q job. acts_own k a g0 (\<lambda>_. True) (h q job)" for r :: "proposal \<times> job" and h :: "proposal \<Rightarrow> job \<Rightarrow> gasok_reply gasoking"
    by (cases r) (simp add: own_evaluate_rounds that)
  show ?thesis
    unfolding evaluate_proposal_def
    by (intro own_owns_workspace own_of_then own_op_in [where k = k and op = "OpSubmitProposal p" and now = now]
        job meets_if own_throw own_read_bind own_reply)
       (auto simp: state_of_Inr)
qed

lemma own_submit_checkpoint: "acts_own k a g0 (\<lambda>_. True) (submit_checkpoint k now a c)"
proof -
  let ?Y = "\<lambda>c' s. oget (checkpoints s) (ck_checkpointId c') = Some c' \<and> owns_pact a (ck_pactId c') s"
  have submitted: "meets (own_inv k a g0 (\<lambda>s. oget (pacts s) (ck_pactId c) = Some p \<and> pc_pactId p = ck_pactId c \<and> owns_pact a (ck_pactId c) s))
      (kernel_call (\<lambda>s. submitCheckpoint k s c now)) (\<lambda>c'. own_inv k a g0 (?Y c')) (kept_own k a g0)" for p
  proof (rule own_call)
    fix s s' c'
    assume x: "oget (pacts s) (ck_pactId c) = Some p \<and> pc_pactId p = ck_pactId c \<and> owns_pact a (ck_pactId c) s"
      and r: "submitCheckpoint k s c now = Inr (s', c')"
    from r have e: "exec k (OpSubmitCheckpoint c) s now s = Inr s'" by (simp add: state_of_Inr)
    from r have c': "c' = c" "oget (checkpoints s') (ck_checkpointId c) = Some c" by (auto elim!: submitCheckpoint_Inr)
    from x have o1: "owns_pact a (ck_pactId c) s" by simp
    have "op_workspace (OpSubmitCheckpoint c) s = Some w \<longrightarrow> owns a w s'" for w
      using owns_pact_target [OF o1] owns_exec [OF e] by simp
    with e c' owns_pact_exec [OF e o1] show
      "(\<exists>op now. exec k op s now s = Inr s' \<and> (\<forall>w. op_workspace op s = Some w \<longrightarrow> owns a w s')) \<and> ?Y c' s'"
      by blast
  qed
  have verify: "acts_own k a g0 (?Y c') (io_bind (kernel_call (\<lambda>s. verifyCheckpoint k s (ck_checkpointId c') gasok_plugin_id gasok_plugin_version now)) h)"
    if "\<And>d. acts_own k a g0 (\<lambda>_. True) (h d)" for c' and h :: "verification_decision \<Rightarrow> gasok_reply gasoking"
    by (intro own_op_in [where k = k and op = "OpVerifyCheckpoint (ck_checkpointId c') gasok_plugin_id gasok_plugin_version" and now = now] that)
       (auto simp: state_of_Inr dest: owns_pact_target)
  show ?thesis
    unfolding submit_checkpoint_def
    by (intro own_assertPact own_check meets_bind [OF submitted] verify own_read_bind own_reply)
qed

lemma own_settle:
  assumes "si_pactId si = i"
  shows "meets (own_inv k a g0 (owns_pact a i)) (record_settlement k now si) (\<lambda>p. own_inv k a g0 (owns_pact a (pc_pactId p))) (kept_own k a g0)"
  unfolding record_settlement_def
proof (rule own_call)
  fix s s' p'
  assume x: "owns_pact a i s" and sc: "scoped s" and r: "recordPactSettlement k s s si now = Inr (s', p')"
  from r have e: "exec k (OpRecordSettlement si) s now s = Inr s'" by (simp add: state_of_Inr)
  from r obtain q where "oget (pacts s) (si_pactId si) = Some q" "pc_pactId p' = pc_pactId q"
    by (auto elim!: recordPactSettlement_Inr settlement_record_Inr)
  with scoped_pact [OF sc] assms have "pc_pactId p' = i" by simp
  with owns_pact_exec [OF e x] have "owns_pact a (pc_pactId p') s'" by simp
  moreover have "op_workspace (OpRecordSettlement si) s = Some w \<longrightarrow> owns a w s'" for w
    using owns_pact_target [OF x] owns_exec [OF e] assms by simp
  ultimately show "(\<exists>op now. exec k op s now s = Inr s' \<and> (\<forall>w. op_workspace op s = Some w \<longrightarrow> owns a w s')) \<and>
      owns_pact a (pc_pactId p') s'" using e by blast
qed

lemma own_recover_flushes:
  "meets (own_inv k a g0 (owns_pact a (pc_pactId p))) (recover_flushes k nd now a i ls p recorded found) (\<lambda>_. kept_own k a g0) (kept_own k a g0)"
proof (induction ls arbitrary: p recorded found)
  case (Cons l ls)
  have step: "meets (own_inv k a g0 (owns_pact a (pc_pactId p))) (io_bind (record_settlement k now si) f) (\<lambda>_. kept_own k a g0) (kept_own k a g0)"
    if "si_pactId si = pc_pactId p" "\<And>q. meets (own_inv k a g0 (owns_pact a (pc_pactId q))) (f q) (\<lambda>_. kept_own k a g0) (kept_own k a g0)"
    for si and f :: "pact \<Rightarrow> (pact \<times> recovered_settlement list) gasoking"
    by (rule meets_bind [OF own_settle [OF that(1)] that(2)])
  show ?case unfolding recover_flushes.simps Let_def
    by (intro meets_if Cons own_of step) simp
qed (simp add: own_return)

lemma own_settlements:
  "acts_own k a g0 (\<lambda>_. True) (post_settlement k now a si)"
  "acts_own k a g0 (\<lambda>_. True) (recover_settlements k nd now a i)"
proof -
  have post: "meets (own_inv k a g0 X) (io_bind (record_settlement k now (si\<lparr>si_final := None\<rparr>)) h) (\<lambda>_. kept_own k a g0) (kept_own k a g0)"
    if "\<And>s. X s \<Longrightarrow> owns_pact a (si_pactId si) s" "\<And>p. acts_own k a g0 (owns_pact a (pc_pactId p)) (h p)"
    for X and h :: "pact \<Rightarrow> gasok_reply gasoking"
    by (rule meets_bind [OF meets_pre [OF own_settle [where i = "si_pactId si"]] that(2)]) (use that(1) in \<open>auto simp: own_inv_def\<close>)
  show "acts_own k a g0 (\<lambda>_. True) (post_settlement k now a si)"
    unfolding post_settlement_def
    by (intro own_assertPact own_check own_read_bind post own_reply) simp
  have recover: "meets (own_inv k a g0 X) (io_bind (recover_flushes k nd now a j ls p known found) h) (\<lambda>_. kept_own k a g0) (kept_own k a g0)"
    if "\<And>s. X s \<Longrightarrow> owns_pact a (pc_pactId p) s" "\<And>r. acts_own k a g0 (\<lambda>_. True) (h r)"
    for X p j ls known found and h :: "pact \<times> recovered_settlement list \<Rightarrow> gasok_reply gasoking"
    by (rule meets_bind [OF meets_pre [OF own_recover_flushes] that(2)]) (use that(1) in \<open>auto simp: own_inv_def\<close>)
  have pair: "acts_own k a g0 X (case r of (x, y) \<Rightarrow> h x y)" if "\<And>x y. acts_own k a g0 X (h x y)"
    for X and r :: "pact \<times> recovered_settlement list" and h :: "pact \<Rightarrow> recovered_settlement list \<Rightarrow> gasok_reply gasoking"
    using that by (cases r) simp
  show "acts_own k a g0 (\<lambda>_. True) (recover_settlements k nd now a i)"
    unfolding recover_settlements_def Let_def
    by (intro own_assertPact meets_if own_throw own_reply own_of recover pair) simp
qed

lemma own_createPaymentDraft:
  assumes "\<And>d. acts_own k a g0 X (h d)"
  shows "acts_own k a g0 X (io_bind (createPaymentDraft gx nd now p a) h)"
proof (rule meets_bind [OF _ assms])
  show "meets (own_inv k a g0 X) (createPaymentDraft gx nd now p a) (\<lambda>_. own_inv k a g0 X) (kept_own k a g0)"
    unfolding createPaymentDraft_def Let_def kernel_read_def
    by (intro meets_bind_get meets_bind_of meets_then [where R = "own_inv k a g0 X"] meets_put meets_return)
       (auto simp: own_inv_def)
qed

lemma own_preparations:
  "acts_own k a g0 (\<lambda>_. True) (prepare_agent k now a ag ps)"
  "acts_own k a g0 (\<lambda>_. True) (prepare_checkpoint k a c)"
  "acts_own k a g0 (\<lambda>_. True) (draft_payment gx nd now a i)"
  unfolding prepare_agent_def prepare_checkpoint_def draft_payment_def Let_def
  by (intro own_assertPact own_owns_workspace own_check own_of own_prepared own_reply meets_if own_throw own_get own_option
      own_createPaymentDraft)+

lemma own_install_plugin: "acts_own k a g0 (\<lambda>_. True) (install_plugin k now a m c sg)"
proof -
  have install: "acts_own k a g0 X (io_bind (kernel_call (\<lambda>s. installPlugin k s m c sg now)) h)"
    if "\<And>s w. X s \<Longrightarrow> op_workspace (OpInstallPlugin m c sg) s = Some w \<Longrightarrow> owns a w s" "\<And>r. acts_own k a g0 (\<lambda>_. True) (h r)"
    for X and h :: "plugin_manifest \<Rightarrow> gasok_reply gasoking"
    by (intro own_op_in [where k = k and op = "OpInstallPlugin m c sg" and now = now] that) (auto simp: state_of_Inr)
  show ?thesis
    unfolding install_plugin_def
    by (intro own_read_bind own_option own_throw own_check install own_reply)
       (auto simp: owns_def Option.bind_eq_Some_conv split: list.splits)
qed

lemma own_reads:
  "acts_own (gasok_kernel (gasok_platform.truncate gx) nd) a g0 (\<lambda>_. True) (live_route gx nd now a (Get_state w))"
  "acts_own (gasok_kernel (gasok_platform.truncate gx) nd) a g0 (\<lambda>_. True) (live_route gx nd now a (Get_metadata i))"
  "acts_own (gasok_kernel (gasok_platform.truncate gx) nd) a g0 (\<lambda>_. True) (live_route gx nd now a (Get_pact i))"
  "acts_own (gasok_kernel (gasok_platform.truncate gx) nd) a g0 (\<lambda>_. True) (live_route gx nd now a (Prepare_workspace wd))"
  "acts_own (gasok_kernel (gasok_platform.truncate gx) nd) a g0 (\<lambda>_. True) (live_route gx nd now a (Prepare_path p))"
  "acts_own (gasok_kernel (gasok_platform.truncate gx) nd) a g0 (\<lambda>_. True) (live_route gx nd now a (Prepare_plugin w publisher))"
  "acts_own (gasok_kernel (gasok_platform.truncate gx) nd) a g0 (\<lambda>_. True) (live_route gx nd now a (Prepare_command w))"
proof -
  have missing: "meets (own_inv (gasok_kernel (gasok_platform.truncate gx) nd) a g0 X) (io_bind (assertWorkspaceSession w a True) h) (\<lambda>_. kept_own (gasok_kernel (gasok_platform.truncate gx) nd) a g0) (kept_own (gasok_kernel (gasok_platform.truncate gx) nd) a g0)"
    if "\<And>x. acts_own (gasok_kernel (gasok_platform.truncate gx) nd) a g0 (\<lambda>_. True) (h x)" for X and h :: "workspace option \<Rightarrow> gasok_reply gasoking"
  proof (rule meets_bind [OF _ that])
    show "meets (own_inv (gasok_kernel (gasok_platform.truncate gx) nd) a g0 X) (assertWorkspaceSession w a True) (\<lambda>_. kept_own (gasok_kernel (gasok_platform.truncate gx) nd) a g0) (kept_own (gasok_kernel (gasok_platform.truncate gx) nd) a g0)"
      unfolding assertWorkspaceSession_def
      by (intro own_read_bind own_option own_check own_return meets_if own_throw)
  qed
  show "acts_own (gasok_kernel (gasok_platform.truncate gx) nd) a g0 (\<lambda>_. True) (live_route gx nd now a (Get_state w))"
    unfolding live_route.simps by (intro missing own_read_bind own_reply)
qed (unfold live_route.simps Let_def, (intro own_assertPact own_owns_workspace own_check own_of own_prepared own_reply own_read_bind)+)

lemma own_live_route: "acts_own (gasok_kernel (gasok_platform.truncate gx) nd) a g0 (\<lambda>_. True) (live_route gx nd now a c)"
  by (cases c; (simp only: own_reads own_registrations)?)
     (simp_all only: live_route.simps own_preparations own_install_plugin own_evaluate own_create_pact own_pacts
        own_submit_checkpoint own_settlements own_reply)

section \<open>The server\<close>

text \<open>What a request may do: forget an expired session, issue a challenge, open a session for a signed
  challenge, or act in the Workspaces of the wallet of the session its cookie names.\<close>

definition live_session :: "'x gasok_libs_scheme \<Rightarrow> gasok_request \<Rightarrow> int \<Rightarrow> gasok \<Rightarrow> gasok_session \<Rightarrow> bool" where
  "live_session gx rq now g session \<longleftrightarrow> (\<exists>cs token. cookies gx rq = Inr cs \<and> oget cs sessionCookieName = Some token \<and>
     oget (gk_sessions g) token = Some session \<and> now < gs_expiresAt session)"

definition sessions_within :: "gasok \<Rightarrow> gasok \<Rightarrow> bool" where
  "sessions_within g g' \<longleftrightarrow> gk_challenges g' = gk_challenges g \<and>
     (\<forall>t s. oget (gk_sessions g') t = Some s \<longrightarrow> oget (gk_sessions g) t = Some s)"

inductive gasok_change :: "'x gasok_libs_scheme \<Rightarrow> giwa_node \<Rightarrow> int \<Rightarrow> gasok_request \<Rightarrow> gasok \<Rightarrow> gasok \<Rightarrow> bool" for gx nd now rq g g' where
  quiet: "gk_state g' = gk_state g \<Longrightarrow> sessions_within g g' \<Longrightarrow> gasok_change gx nd now rq g g'"
| issued: "sameOrigin rq \<Longrightarrow> gq_call rq = Get_challenge (Some raw) \<Longrightarrow> gx_getAddress gx raw = Some a \<Longrightarrow>
    gk_state g' = gk_state g \<Longrightarrow> gk_sessions g' = gk_sessions g \<Longrightarrow>
    gk_challenges g' = oset (lower a) \<lparr>gc_message = challengeMessage gx a (gq_random rq) (now + challengeTtlMs),
      gc_expiresAt = now + challengeTtlMs\<rparr> (gk_challenges g) \<Longrightarrow> gasok_change gx nd now rq g g'"
| opened: "sameOrigin rq \<Longrightarrow> gq_call rq = Post_verify raw sg \<Longrightarrow> gx_getAddress gx raw = Some a \<Longrightarrow>
    oget (gk_challenges g) (lower a) = Some c \<Longrightarrow> now < gc_expiresAt c \<Longrightarrow>
    gx_verifyMessage gx a (gc_message c) sg = Inr True \<Longrightarrow>
    gk_state g' = gk_state g \<Longrightarrow> gk_challenges g' = AList.delete (lower a) (gk_challenges g) \<Longrightarrow>
    gk_sessions g' = oset (gq_random rq) \<lparr>gs_address = a, gs_expiresAt = now + sessionTtlMs\<rparr> (gk_sessions g) \<Longrightarrow>
    gasok_change gx nd now rq g g'"
| acted: "sameOrigin rq \<Longrightarrow> live_session gx rq now g session \<Longrightarrow> scoped (gk_state g') \<Longrightarrow>
    within_own (gs_address session) (gk_state g) (gk_state g') \<Longrightarrow>
    kernel_runs (gasok_kernel (gasok_platform.truncate gx) nd) (gk_state g) (gk_state g') \<Longrightarrow> sessions_within g g' \<Longrightarrow> gasok_change gx nd now rq g g'"

definition same_but_rate :: "gasok \<Rightarrow> gasok \<Rightarrow> bool" where
  "same_but_rate g g' \<longleftrightarrow> gk_state g' = gk_state g \<and> gk_sessions g' = gk_sessions g \<and> gk_challenges g' = gk_challenges g"

lemma same_but_rate_quiet: "same_but_rate g g' \<Longrightarrow> gasok_change gx nd now rq g g'"
  by (rule quiet) (simp_all add: same_but_rate_def sessions_within_def)

lemma rateLimit_same: "meets (\<lambda>g'. g' = g) (rateLimit r now) (\<lambda>_. same_but_rate g) (same_but_rate g)"
  by (auto simp: meets_def rateLimit_def Let_def same_but_rate_def split: option.splits)

lemma get_challenge_change:
  assumes "sameOrigin rq" "gq_call rq = Get_challenge raw"
  shows "meets (same_but_rate g) (get_challenge gx rq now raw) (\<lambda>_. gasok_change gx nd now rq g) (gasok_change gx nd now rq g)"
proof (rule meetsI)
  fix g1 assume g1: "same_but_rate g g1"
  show "case get_challenge gx rq now raw g1 of (Inr x, g') \<Rightarrow> gasok_change gx nd now rq g g' | (Inl e, g') \<Rightarrow> gasok_change gx nd now rq g g'"
  proof (cases "truthy raw \<and> gx_getAddress gx (the raw) \<noteq> None")
    case True
    then obtain x a where "raw = Some x" "gx_getAddress gx x = Some a" by (cases raw) (auto simp: truthy_def)
    with assms g1 True show ?thesis
      by (auto simp: get_challenge_def Let_def io_then_def io_bind_def io_put_def gasok_answer_def io_return_def same_but_rate_def
          intro!: issued)
  next
    case False
    with g1 show ?thesis
      by (auto simp: get_challenge_def gasok_refuse_def io_return_def same_but_rate_quiet)
  qed
qed

lemma post_verify_change:
  assumes "sameOrigin rq" "gq_call rq = Post_verify raw sg"
  shows "meets (same_but_rate g) (post_verify gx rq now raw sg) (\<lambda>_. gasok_change gx nd now rq g) (gasok_change gx nd now rq g)"
proof (rule meetsI)
  fix g1 assume g1: "same_but_rate g g1"
  then have eq: "gk_challenges g1 = gk_challenges g" by (simp add: same_but_rate_def)
  show "case post_verify gx rq now raw sg g1 of (Inr x, g') \<Rightarrow> gasok_change gx nd now rq g g' | (Inl e, g') \<Rightarrow> gasok_change gx nd now rq g g'"
  proof (cases "\<exists>a c. gx_getAddress gx raw = Some a \<and> oget (gk_challenges g) (lower a) = Some c \<and> now < gc_expiresAt c \<and>
      gx_verifyMessage gx a (gc_message c) sg = Inr True")
    case True
    with assms g1 eq show ?thesis
      by (auto simp: post_verify_def io_then_def io_bind_def io_get_def io_of_def io_put_def gasok_answer_def io_return_def same_but_rate_def
          intro!: opened)
  next
    case False
    with g1 eq show ?thesis
      by (auto simp: post_verify_def gasok_refuse_def io_return_def io_bind_def io_get_def io_of_def io_throw_def not_less
          intro!: same_but_rate_quiet split: option.splits sum.splits)
  qed
qed

lemma activeSession_change:
  "meets (same_but_rate g) (activeSession gx rq now)
     (\<lambda>r g'. gk_state g' = gk_state g \<and> sessions_within g g' \<and> (\<forall>s. r = Some s \<longrightarrow> live_session gx rq now g s))
     (gasok_change gx nd now rq g)"
proof (rule meetsI)
  fix g1 assume g1: "same_but_rate g g1"
  then show "case activeSession gx rq now g1 of
      (Inr r, g') \<Rightarrow> gk_state g' = gk_state g \<and> sessions_within g g' \<and> (\<forall>s. r = Some s \<longrightarrow> live_session gx rq now g s)
    | (Inl e, g') \<Rightarrow> gasok_change gx nd now rq g g'"
    by (auto simp: activeSession_def io_bind_def io_then_def io_of_def io_get_def io_put_def io_throw_def io_return_def
        same_but_rate_quiet sessions_within_def live_session_def same_but_rate_def delete_conv' split: sum.splits option.splits if_splits)
qed

lemma live_route_change:
  assumes "scoped (gk_state g)" "sameOrigin rq" "live_session gx rq now g session"
  shows "meets (\<lambda>g'. gk_state g' = gk_state g \<and> sessions_within g g') (live_route gx nd now (gs_address session) c)
     (\<lambda>_. gasok_change gx nd now rq g) (gasok_change gx nd now rq g)"
proof (rule meets_with)
  fix g1 assume g1: "gk_state g1 = gk_state g \<and> sessions_within g g1"
  let ?kept = "kept_own (gasok_kernel (gasok_platform.truncate gx) nd) (gs_address session) g1"
  have acts: "?kept g2 \<Longrightarrow> gasok_change gx nd now rq g g2" for g2
    using g1 by (intro acted [OF assms(2,3)]) (simp_all add: own_inv_def sessions_within_def)
  have "meets ?kept (live_route gx nd now (gs_address session) c) (\<lambda>_. gasok_change gx nd now rq g) (gasok_change gx nd now rq g)"
    by (rule meets_post [OF own_live_route]) (auto intro: acts)
  then show "meets (\<lambda>g'. g' = g1) (live_route gx nd now (gs_address session) c) (\<lambda>_. gasok_change gx nd now rq g) (gasok_change gx nd now rq g)"
    by (rule meets_pre) (use g1 assms(1) in \<open>simp add: own_inv_def kernel_runs.none\<close>)
qed

lemma session_branch:
  assumes "\<And>r. meets (\<lambda>g'. gk_state g' = gk_state g \<and> sessions_within g g' \<and> (\<forall>s. r = Some s \<longrightarrow> live_session gx rq now g s)) (h r)
    (\<lambda>_. gasok_change gx nd now rq g) (gasok_change gx nd now rq g)"
  shows "meets (same_but_rate g) (io_bind (activeSession gx rq now) h) (\<lambda>_. gasok_change gx nd now rq g) (gasok_change gx nd now rq g)"
  by (rule meets_bind [OF activeSession_change assms])

lemma quiet_return:
  "meets (\<lambda>g'. gk_state g' = gk_state g \<and> sessions_within g g' \<and> Q g') (io_return v) (\<lambda>_. gasok_change gx nd now rq g) (gasok_change gx nd now rq g)"
  by (rule meets_return) (simp add: quiet)

lemma live_branch:
  assumes "scoped (gk_state g)" "sameOrigin rq"
  shows "meets (same_but_rate g) (io_bind (activeSession gx rq now) (\<lambda>session. if b then
      (case session of None \<Rightarrow> gasok_refuse n m | Some s \<Rightarrow> live_route gx nd now (gs_address s) c) else gasok_refuse n' m'))
    (\<lambda>_. gasok_change gx nd now rq g) (gasok_change gx nd now rq g)"
proof (rule session_branch)
  fix r
  let ?P = "\<lambda>g'. gk_state g' = gk_state g \<and> sessions_within g g' \<and> (\<forall>s. r = Some s \<longrightarrow> live_session gx rq now g s)"
  have no: "meets ?P (gasok_refuse i e) (\<lambda>_. gasok_change gx nd now rq g) (gasok_change gx nd now rq g)" for i e
    unfolding gasok_refuse_def by (rule quiet_return)
  have yes: "meets ?P (live_route gx nd now (gs_address s) c) (\<lambda>_. gasok_change gx nd now rq g) (gasok_change gx nd now rq g)" if "r = Some s" for s
  proof (cases "live_session gx rq now g s")
    case True
    show ?thesis by (rule meets_pre [OF live_route_change [OF assms True]]) simp
  next
    case False
    with that show ?thesis by (simp add: meets_def)
  qed
  show "meets ?P (if b then (case r of None \<Rightarrow> gasok_refuse n m | Some s \<Rightarrow> live_route gx nd now (gs_address s) c) else gasok_refuse n' m')
      (\<lambda>_. gasok_change gx nd now rq g) (gasok_change gx nd now rq g)"
  proof (cases r)
    case None
    show ?thesis unfolding None option.case by (intro meets_if no [unfolded None])
  next
    case (Some s)
    show ?thesis unfolding Some option.case by (intro meets_if no [unfolded Some] yes [OF Some, unfolded Some])
  qed
qed

lemma gasok_api_change:
  assumes "scoped (gk_state g)"
  shows "meets (\<lambda>g'. g' = g) (gasok_api gx nd now rq) (\<lambda>_. gasok_change gx nd now rq g) (gasok_change gx nd now rq g)"
proof (cases "sameOrigin rq")
  case False
  then show ?thesis
    unfolding gasok_api_def gasok_refuse_def by (auto intro!: meets_return same_but_rate_quiet simp: same_but_rate_def)
next
  case True
  let ?J = "gasok_change gx nd now rq g"
  have no: "meets (same_but_rate g) (gasok_refuse n m) (\<lambda>_. ?J) ?J" for n m
    unfolding gasok_refuse_def by (rule meets_return) (rule same_but_rate_quiet)
  have health: "meets (same_but_rate g) (io_bind (io_of r) (\<lambda>n. gasok_answer (V_health n))) (\<lambda>_. ?J) ?J" for r
    unfolding gasok_answer_def by (intro meets_bind_of meets_return same_but_rate_quiet)
  have session: "meets (same_but_rate g) (io_bind (activeSession gx rq now) (\<lambda>session. gasok_answer (f session))) (\<lambda>_. ?J) ?J" for f
    unfolding gasok_answer_def by (intro session_branch quiet_return)
  note branches = health session live_branch [OF assms True]
  have rate: "meets (\<lambda>g'. g' = g) (rateLimit r now) (\<lambda>_. same_but_rate g) ?J" for r
    by (rule meets_post [OF rateLimit_same]) (auto intro: same_but_rate_quiet)
  have call: "meets (same_but_rate g) (case gq_call rq of
            Get_health \<Rightarrow> io_bind (io_of (gn_blockNumber nd 1)) (\<lambda>n. gasok_answer (V_health n))
          | Get_challenge raw \<Rightarrow> get_challenge gx rq now raw
          | Post_verify raw sg \<Rightarrow> post_verify gx rq now raw sg
          | Get_session \<Rightarrow> io_bind (activeSession gx rq now) (\<lambda>session. gasok_answer (V_session (map_option gs_address session)))
          | call \<Rightarrow>
              io_bind (activeSession gx rq now) (\<lambda>session.
              if is_live call then
                (case session of
                   None \<Rightarrow> gasok_refuse 401 ''wallet_session_required''
                 | Some s \<Rightarrow> live_route gx nd now (gs_address s) call)
              else gasok_refuse 404 ''not_found'')) (\<lambda>_. ?J) ?J"
    by (cases "gq_call rq") (simp_all only: gasok_call.case branches get_challenge_change [OF True] post_verify_change [OF True])
  have "meets (\<lambda>g'. g' = g) (io_bind (rateLimit (gq_remote rq) now) (\<lambda>allowed.
      if \<not> allowed then gasok_refuse 429 ''rate_limit_exceeded'' else io_then (io_of m) k)) (\<lambda>_. ?J) ?J"
    if "meets (same_but_rate g) k (\<lambda>_. ?J) ?J" for m :: "unit result" and k
    by (rule meets_bind [OF rate]) (auto simp: io_then_def intro: no that same_but_rate_quiet intro!: meets_bind_of)
  from this [OF call] True show ?thesis unfolding gasok_api_def by simp
qed

lemma gasok_serve_change:
  assumes "scoped (gk_state g)" "gasok_serve gx nd now rq g = (r, g')"
  shows "gasok_change gx nd now rq g g'"
proof -
  have "snd (gasok_api gx nd now rq g) = g'"
    using assms(2) by (auto simp: gasok_serve_def split: prod.splits sum.splits js_error.splits)
  with meets_state [OF gasok_api_change [OF assms(1), of gx nd now rq] refl] show ?thesis by simp
qed

end
