(* ===== verification/GasokRuns.thy ===== *)
theory GasokRuns
  imports GasokInvariant
begin

text \<open>
  Histories of the GasOK server: requests in the order they are handled, and restarts, which keep the
  stored kernel state and forget sessions, challenges and drafts.
\<close>

section \<open>Histories\<close>

datatype gasok_event =
    Handled giwa_node int gasok_request
  | Restarted

fun gasok_step :: "'x gasok_libs_scheme \<Rightarrow> gasok_event \<Rightarrow> gasok \<Rightarrow> gasok" where
  "gasok_step gx (Handled nd now rq) g = snd (gasok_serve gx nd now rq g)"
| "gasok_step gx Restarted g = gasok_start (gk_state g)"

definition gasok_run :: "'x gasok_libs_scheme \<Rightarrow> kstate \<Rightarrow> gasok_event list \<Rightarrow> gasok" where
  "gasok_run gx s0 es = fold (gasok_step gx) es (gasok_start s0)"

lemma gasok_run_Nil [simp]: "gasok_run gx s0 [] = gasok_start s0"
  by (simp add: gasok_run_def)

lemma gasok_run_snoc [simp]: "gasok_run gx s0 (es @ [e]) = gasok_step gx e (gasok_run gx s0 es)"
  by (simp add: gasok_run_def)

lemma gasok_step_change: "scoped (gk_state g) \<Longrightarrow> gasok_change gx nd now rq g (gasok_step gx (Handled nd now rq) g)"
  by (cases "gasok_serve gx nd now rq g") (simp add: gasok_serve_change)

lemma gasok_change_scoped: "gasok_change gx nd now rq g g' \<Longrightarrow> scoped (gk_state g) \<Longrightarrow> scoped (gk_state g')"
  by (cases rule: gasok_change.cases) auto

lemma gasok_run_scoped:
  assumes "scoped s0"
  shows "scoped (gk_state (gasok_run gx s0 es))"
proof (induction es rule: rev_induct)
  case Nil
  from assms show ?case by (simp add: gasok_start_def)
next
  case (snoc e es)
  then show ?case
    by (cases e) (simp_all add: gasok_start_def gasok_change_scoped [OF gasok_step_change, unfolded gasok_step.simps])
qed

section \<open>The kernel\<close>

lemma run_changes_own:
  assumes "scoped s0" "gk_state (snd (gasok_serve gx nd now rq (gasok_run gx s0 es))) \<noteq> gk_state (gasok_run gx s0 es)"
  shows "sameOrigin rq \<and> (\<exists>session. live_session gx rq now (gasok_run gx s0 es) session \<and>
    within_own (gs_address session) (gk_state (gasok_run gx s0 es)) (gk_state (snd (gasok_serve gx nd now rq (gasok_run gx s0 es)))))"
  using gasok_step_change [OF gasok_run_scoped [OF assms(1)], where gx = gx and nd = nd and now = now and rq = rq] assms(2)
  by (cases rule: gasok_change.cases) auto

section \<open>The evidence of the Pacts\<close>

lemma served_seen:
  assumes "kernel_runs k s t" "all_seen E S s"
    "\<And>j mh i tx ob. seen_opening k mh i tx ob \<Longrightarrow> E j mh i tx ob" "\<And>j tx n ob. seen_settlement k tx n ob \<Longrightarrow> S j tx n ob"
  shows "all_seen E S t"
  using assms(1)
proof induction
  case none
  show ?case by (rule assms(2))
next
  case (step t u op now)
  show ?case by (rule exec_seen [OF step.hyps(2) step.IH assms(3,4)])
qed

lemma served_payments: "kernel_runs k s t \<Longrightarrow> payments_ok s \<Longrightarrow> payments_ok t"
  by (induction rule: kernel_runs.induct) (auto intro: exec_payments)

lemma reachable_payments: "reachable k s \<Longrightarrow> payments_ok s"
  using reachable_pact by (auto simp: payments_ok_def pact_inv_def)

text \<open>The chain as some request of the history found it.\<close>

definition nodes_of :: "gasok_event list \<Rightarrow> giwa_node set" where
  "nodes_of es = {nd. \<exists>now rq. Handled nd now rq \<in> set es}"

lemma nodes_of_Nil [simp]: "nodes_of [] = {}"
  by (simp add: nodes_of_def)

lemma nodes_of_mono: "nd \<in> nodes_of es \<Longrightarrow> nd \<in> nodes_of (es @ [e])"
  by (auto simp: nodes_of_def)

lemma nodes_of_last: "nd \<in> nodes_of (es @ [Handled nd now rq])"
  by (auto simp: nodes_of_def)

text \<open>What the Pact \<open>j\<close> held in the file the server started from, or what the verifier said since.\<close>

definition opening_shown ::
    "'x gasok_libs_scheme \<Rightarrow> kstate \<Rightarrow> gasok_event list \<Rightarrow> string \<Rightarrow> hex \<Rightarrow> hex \<Rightarrow> hex \<Rightarrow> opening_observation \<Rightarrow> bool" where
  "opening_shown gx s0 es j mh i tx ob \<longleftrightarrow> (\<exists>nd \<in> nodes_of es. verifyOpening (gp_kernel gx) nd mh i tx = Inr ob) \<or>
     (\<exists>p r. oget (pacts s0) j = Some p \<and> pc_openRails p = Some r \<and> or_openingObservation r = Some ob)"

definition settlement_shown ::
    "'x gasok_libs_scheme \<Rightarrow> kstate \<Rightarrow> gasok_event list \<Rightarrow> string \<Rightarrow> hex \<Rightarrow> string \<Rightarrow> settlement_observation \<Rightarrow> bool" where
  "settlement_shown gx s0 es j tx amount ob \<longleftrightarrow>
     (\<exists>nd \<in> nodes_of es. \<exists>p. verifySettlement (gp_kernel gx) (gp_coercions gx) nd p tx amount = Inr ob) \<or>
     (\<exists>p r. oget (pacts s0) j = Some p \<and> pc_openRails p = Some r \<and> ob \<in> set (rails_settlements r))"

lemma kernel_seen:
  "seen_opening (gasok_kernel (gasok_platform.truncate gx) nd) mh i tx ob \<longleftrightarrow> verifyOpening (gp_kernel gx) nd mh i tx = Inr ob"
  "seen_settlement (gasok_kernel (gasok_platform.truncate gx) nd) tx amount so \<longleftrightarrow>
     (\<exists>p. verifySettlement (gp_kernel gx) (gp_coercions gx) nd p tx amount = Inr so)"
  by (simp_all add: seen_opening_def seen_settlement_def gasok_kernel_def giwa_verifier_def gasok_platform.defs)

lemma all_seen_mono:
  "all_seen E S s \<Longrightarrow> (\<And>j mh i tx ob. E j mh i tx ob \<Longrightarrow> E' j mh i tx ob) \<Longrightarrow>
   (\<And>j tx n ob. S j tx n ob \<Longrightarrow> S' j tx n ob) \<Longrightarrow> all_seen E' S' s"
  unfolding all_seen_def rails_seen_def by blast

lemma start_seen:
  assumes "scoped s0" "payments_ok s0"
  shows "all_seen (opening_shown gx s0 []) (settlement_shown gx s0 []) s0"
  unfolding all_seen_def rails_seen_def
proof (intro allI impI conjI ballI)
  fix i p r
  assume p: "oget (pacts s0) i = Some p" "pc_openRails p = Some r"
  have i: "pc_pactId p = i" by (rule scoped_pact [OF assms(1) p(1)])
  {
    fix ob assume ob: "or_openingObservation r = Some ob"
    from payments_okD [OF assms(2) p(1)] p(2) ob obtain tx where "or_openingTxHash r = Some tx"
      by (auto simp: payment_ok_def opening_ok_def)
    then show "\<exists>tx. or_openingTxHash r = Some tx \<and> opening_shown gx s0 [] (pc_pactId p) (or_metadataHash r) (or_paycardId r) tx ob"
      using p ob i by (auto simp: opening_shown_def)
  next
    fix ob assume "ob \<in> set (rails_settlements r)"
    then show "\<exists>tx amount. settlement_shown gx s0 [] (pc_pactId p) tx amount ob"
      using p i by (auto simp: settlement_shown_def)
  }
qed

lemma gasok_change_served:
  "gasok_change gx nd now rq g g' \<Longrightarrow> kernel_runs (gasok_kernel (gasok_platform.truncate gx) nd) (gk_state g) (gk_state g')"
  by (cases rule: gasok_change.cases) (auto intro: kernel_runs.none)

lemma run_step_served:
  assumes "scoped s0"
  shows "kernel_runs (gasok_kernel (gasok_platform.truncate gx) nd) (gk_state (gasok_run gx s0 es))
    (gk_state (gasok_run gx s0 (es @ [Handled nd now rq])))"
  unfolding gasok_run_snoc by (rule gasok_change_served [OF gasok_step_change [OF gasok_run_scoped [OF assms]]])

lemma run_seen:
  assumes "scoped s0" "payments_ok s0"
  shows "all_seen (opening_shown gx s0 es) (settlement_shown gx s0 es) (gk_state (gasok_run gx s0 es))"
proof (induction es rule: rev_induct)
  case Nil
  show ?case by (simp add: gasok_start_def start_seen [OF assms])
next
  case (snoc e es)
  have kept: "all_seen (opening_shown gx s0 (es @ [e])) (settlement_shown gx s0 (es @ [e])) (gk_state (gasok_run gx s0 es))"
    by (rule all_seen_mono [OF snoc]) (auto simp: opening_shown_def settlement_shown_def dest: nodes_of_mono)
  show ?case
  proof (cases e)
    case Restarted
    with kept show ?thesis by (simp add: gasok_start_def)
  next
    case (Handled nd now rq)
    show ?thesis unfolding Handled
      by (rule served_seen [OF run_step_served [OF assms(1)] kept [unfolded Handled]])
         (auto simp: kernel_seen opening_shown_def settlement_shown_def intro: nodes_of_last)
  qed
qed

lemma run_payments:
  assumes "scoped s0" "payments_ok s0"
  shows "payments_ok (gk_state (gasok_run gx s0 es))"
proof (induction es rule: rev_induct)
  case Nil
  from assms show ?case by (simp add: gasok_start_def)
next
  case (snoc e es)
  show ?case
  proof (cases e)
    case Restarted
    with snoc show ?thesis by (simp add: gasok_start_def)
  next
    case (Handled nd now rq)
    show ?thesis unfolding Handled by (rule served_payments [OF run_step_served [OF assms(1)] snoc])
  qed
qed

text \<open>What the verifier saw: the vault's event in a receipt, and the registry at its block.\<close>

definition card_carries :: "pact \<Rightarrow> hex \<Rightarrow> giwa_card \<Rightarrow> bool" where
  "card_carries p metadataHash c \<longleftrightarrow> (let t = pc_paymentTerms p in
     lower (gc_metadataHash c) = lower metadataHash \<and> sameAddress (gc_payer c) (pt_payer t) \<and>
     sameAddress (gc_recipient c) (pt_recipient t) \<and> sameAddress (gc_residualDeltaRecipient c) (pt_residualRecipient t) \<and>
     int_str (gc_totalAllocationPool c) = pt_maximumAllocationBaseUnits t \<and>
     int_str (gc_flowVelocityPerSecond c) = pt_velocityBaseUnitsPerSecond t \<and>
     gc_lifespanSeconds c = pt_lifespanSeconds t \<and> gc_operationalStatus c = 0)"

definition opened_on_chain :: "giwa_node \<Rightarrow> pact \<Rightarrow> open_rails \<Rightarrow> bool" where
  "opened_on_chain nd p r \<longleftrightarrow> (\<exists>tx n receipt m c. or_openingTxHash r = Some tx \<and> gn_receipt nd tx n = Inr receipt \<and>
     gr_success receipt \<and> lower (gr_transactionHash receipt) = lower tx \<and> (\<exists>l \<in> set (gr_logs receipt). provisions (or_paycardId r) l) \<and>
     gn_registry nd (or_paycardId r) (Some (gr_blockNumber receipt)) m = Inr c \<and> card_carries p (or_metadataHash r) c)"

definition flushed_on_chain :: "giwa_node \<Rightarrow> hex \<Rightarrow> settlement_observation \<Rightarrow> bool" where
  "flushed_on_chain nd paycardId ob \<longleftrightarrow> (\<exists>tx n receipt. gn_receipt nd tx n = Inr receipt \<and> gr_success receipt \<and>
     gr_transactionHash receipt = so_transactionHash ob \<and> int_str (flushed_in paycardId receipt) = so_settledAmountBaseUnits ob)"

lemma retry_rounds_Inr: "retry_rounds label op k n left reason = Inr x \<Longrightarrow> \<exists>m. op m = Inr x"
  by (induction label op k n left reason rule: retry_rounds.induct) (auto split: sum.splits js_error.splits)

lemma retryRpc_Inr: "retryRpc label op = Inr x \<Longrightarrow> \<exists>m. op m = Inr x"
  unfolding retryRpc_def by (rule retry_rounds_Inr)

lemma verifyOpening_shows:
  assumes "verifyOpening env nd (or_metadataHash r) (or_paycardId r) tx = Inr ob"
    "assertOpeningObservationMatchesPact p (or_metadataHash r) (or_paycardId r) tx ob = Inr ()" "or_openingTxHash r = Some tx"
  shows "opened_on_chain nd p r"
proof -
  from assms(1) obtain receipt c t where h: "retryRpc ''GIWA opening receipt'' (gn_receipt nd tx) = Inr receipt" "gr_success receipt"
    "list_ex (provisions (or_paycardId r)) (gr_logs receipt)"
    "retryRpc ''GIWA opening state'' (\<lambda>n. bnd (gn_registry nd (or_paycardId r) (Some (gr_blockNumber receipt)) n)
       (visible_card (or_metadataHash r))) = Inr c" "ob = opening_of env receipt c t (or_paycardId r) (or_metadataHash r)"
    by (auto simp: verifyOpening_def result_simps)
  from retryRpc_Inr [OF h(1)] obtain n where n: "gn_receipt nd tx n = Inr receipt" ..
  from retryRpc_Inr [OF h(4)] obtain m where m: "gn_registry nd (or_paycardId r) (Some (gr_blockNumber receipt)) m = Inr c"
    "lower (gc_metadataHash c) = lower (or_metadataHash r)"
    by (auto simp: result_simps visible_card_def)
  from assms(2) have "card_carries p (or_metadataHash r) c" "lower (gr_transactionHash receipt) = lower tx"
    using m(2) by (simp_all add: h(5) opening_of_def card_carries_def assertOpeningObservationMatchesPact_def Let_def result_simps)
  with n m(1) h(2,3) assms(3) show ?thesis by (auto simp: opened_on_chain_def list_ex_iff)
qed

lemma verifySettlement_shows:
  assumes "verifySettlement env co nd p tx amount = Inr ob"
  shows "flushed_on_chain nd (so_paycardId ob) ob"
proof -
  from assms obtain receipt where h: "retryRpc ''GIWA settlement receipt'' (gn_receipt nd tx) = Inr receipt" "gr_success receipt"
    "so_transactionHash ob = gr_transactionHash receipt" "so_settledAmountBaseUnits ob = int_str (flushed_in (so_paycardId ob) receipt)"
    by (auto simp: verifySettlement_def Let_def result_simps)
  from retryRpc_Inr [OF h(1)] h(2-4) show ?thesis by (auto simp: flushed_on_chain_def)
qed

lemma run_pact_on_chain:
  assumes "scoped s0" "payments_ok s0" "oget (pacts (gk_state (gasok_run gx s0 es))) i = Some p" "pc_openRails p = Some r"
  shows "(\<forall>ob. or_openingObservation r = Some ob \<longrightarrow> (\<exists>nd \<in> nodes_of es. opened_on_chain nd p r) \<or>
      (\<exists>q r0. oget (pacts s0) i = Some q \<and> pc_openRails q = Some r0 \<and> or_openingObservation r0 = Some ob)) \<and>
    (\<forall>ob \<in> set (rails_settlements r). (\<exists>nd \<in> nodes_of es. flushed_on_chain nd (or_paycardId r) ob) \<or>
      (\<exists>q r0. oget (pacts s0) i = Some q \<and> pc_openRails q = Some r0 \<and> ob \<in> set (rails_settlements r0)))"
proof (intro conjI allI impI ballI)
  have i: "pc_pactId p = i" by (rule scoped_pact [OF gasok_run_scoped [OF assms(1)] assms(3)])
  from all_seenD [OF run_seen [OF assms(1,2)] assms(3)] assms(4) i
  have seen: "or_openingObservation r = Some ob \<Longrightarrow>
      \<exists>tx. or_openingTxHash r = Some tx \<and> opening_shown gx s0 es i (or_metadataHash r) (or_paycardId r) tx ob"
    "so \<in> set (rails_settlements r) \<Longrightarrow> \<exists>tx amount. settlement_shown gx s0 es i tx amount so" for ob so
    by (auto simp: rails_seen_def)
  from payments_okD [OF run_payments [OF assms(1,2)] assms(3)] assms(4) have ok: "opening_ok p r" "settlements_ok p r"
    by (auto simp: payment_ok_def)
  {
    fix ob assume ob: "or_openingObservation r = Some ob"
    from seen(1) [OF ob] obtain tx where tx: "or_openingTxHash r = Some tx"
      "opening_shown gx s0 es i (or_metadataHash r) (or_paycardId r) tx ob" by blast
    from ok(1) ob tx(1) have "assertOpeningObservationMatchesPact p (or_metadataHash r) (or_paycardId r) tx ob = Inr ()"
      by (auto simp: opening_ok_def)
    with tx show "(\<exists>nd \<in> nodes_of es. opened_on_chain nd p r) \<or>
        (\<exists>q r0. oget (pacts s0) i = Some q \<and> pc_openRails q = Some r0 \<and> or_openingObservation r0 = Some ob)"
      by (auto simp: opening_shown_def intro: verifyOpening_shows)
  next
    fix ob assume ob: "ob \<in> set (rails_settlements r)"
    with ok(2) have "so_paycardId ob = or_paycardId r"
      by (cases "or_settlements r") (auto simp: settlements_ok_def settlement_matches_def rails_settlements_def)
    with seen(2) [OF ob] show "(\<exists>nd \<in> nodes_of es. flushed_on_chain nd (or_paycardId r) ob) \<or>
        (\<exists>q r0. oget (pacts s0) i = Some q \<and> pc_openRails q = Some r0 \<and> ob \<in> set (rails_settlements r0))"
      by (auto simp: settlement_shown_def dest!: verifySettlement_shows)
  }
qed

section \<open>Challenges and sessions\<close>

text \<open>The challenge \<open>c\<close> stored under \<open>l\<close> was issued to a wallet by a request of the history.\<close>

definition was_issued :: "'x gasok_libs_scheme \<Rightarrow> gasok_event list \<Rightarrow> string \<Rightarrow> gasok_challenge \<Rightarrow> bool" where
  "was_issued gx es l c \<longleftrightarrow> (\<exists>nd now rq raw a. Handled nd now rq \<in> set es \<and> sameOrigin rq \<and>
     gq_call rq = Get_challenge (Some raw) \<and> gx_getAddress gx raw = Some a \<and> l = lower a \<and>
     c = \<lparr>gc_message = challengeMessage gx a (gq_random rq) (now + challengeTtlMs), gc_expiresAt = now + challengeTtlMs\<rparr>)"

text \<open>The session was opened by a request of the history that signed such a challenge in time.\<close>

definition was_opened :: "'x gasok_libs_scheme \<Rightarrow> gasok_event list \<Rightarrow> string \<Rightarrow> gasok_session \<Rightarrow> bool" where
  "was_opened gx es token s \<longleftrightarrow> (\<exists>es1 nd now rq es2 raw sg c. es = es1 @ Handled nd now rq # es2 \<and> sameOrigin rq \<and>
     gq_call rq = Post_verify raw sg \<and> gx_getAddress gx raw = Some (gs_address s) \<and> token = gq_random rq \<and>
     gs_expiresAt s = now + sessionTtlMs \<and> was_issued gx es1 (lower (gs_address s)) c \<and> now < gc_expiresAt c \<and>
     gx_verifyMessage gx (gs_address s) (gc_message c) sg = Inr True)"

lemma was_issued_mono: "was_issued gx es l c \<Longrightarrow> was_issued gx (es @ [e]) l c"
  by (fastforce simp: was_issued_def)

lemma was_opened_mono: "was_opened gx es t s \<Longrightarrow> was_opened gx (es @ [e]) t s"
  unfolding was_opened_def by (metis append_Cons append_assoc)

lemma was_opened_last:
  "sameOrigin rq \<Longrightarrow> gq_call rq = Post_verify raw sg \<Longrightarrow> gx_getAddress gx raw = Some (gs_address s) \<Longrightarrow> token = gq_random rq \<Longrightarrow>
   gs_expiresAt s = now + sessionTtlMs \<Longrightarrow> was_issued gx es (lower (gs_address s)) c \<Longrightarrow> now < gc_expiresAt c \<Longrightarrow>
   gx_verifyMessage gx (gs_address s) (gc_message c) sg = Inr True \<Longrightarrow> was_opened gx (es @ [Handled nd now rq]) token s"
  unfolding was_opened_def by blast

lemma run_sessions:
  assumes "scoped s0"
  shows "(\<forall>l c. oget (gk_challenges (gasok_run gx s0 es)) l = Some c \<longrightarrow> was_issued gx es l c) \<and>
   (\<forall>t s. oget (gk_sessions (gasok_run gx s0 es)) t = Some s \<longrightarrow> was_opened gx es t s)"
proof (induction es rule: rev_induct)
  case Nil
  show ?case by (simp add: gasok_start_def)
next
  case (snoc e es)
  let ?g = "gasok_run gx s0 es"
  from snoc have issued: "oget (gk_challenges ?g) l = Some c \<Longrightarrow> was_issued gx (es @ [e]) l c" for l c
    by (blast intro: was_issued_mono)
  from snoc have opened: "oget (gk_sessions ?g) t = Some s \<Longrightarrow> was_opened gx (es @ [e]) t s" for t s
    by (blast intro: was_opened_mono)
  show ?case
  proof (cases e)
    case Restarted
    then show ?thesis by (simp add: gasok_start_def)
  next
    case (Handled nd now rq)
    have "gasok_change gx nd now rq ?g (gasok_step gx e ?g)"
      unfolding Handled by (rule gasok_step_change [OF gasok_run_scoped [OF assms(1)]])
    then show ?thesis
    proof (cases rule: gasok_change.cases)
      case quiet
      with issued opened show ?thesis by (simp add: sessions_within_def)
    next
      case (issued raw a)
      have "was_issued gx (es @ [e]) (lower a) \<lparr>gc_message = challengeMessage gx a (gq_random rq) (now + challengeTtlMs),
          gc_expiresAt = now + challengeTtlMs\<rparr>"
        unfolding was_issued_def Handled by (rule exI [of _ nd], rule exI [of _ now], rule exI [of _ rq]) (use issued(1-3) in auto)
      with issued \<open>\<And>l c. oget (gk_challenges ?g) l = Some c \<Longrightarrow> was_issued gx (es @ [e]) l c\<close> opened show ?thesis by auto
    next
      case (opened raw sg a c)
      have "was_opened gx (es @ [e]) (gq_random rq) \<lparr>gs_address = a, gs_expiresAt = now + sessionTtlMs\<rparr>"
        unfolding Handled using opened snoc by (intro was_opened_last [of rq raw sg _ _ _ _ _ c]) simp_all
      with opened issued \<open>\<And>t s. oget (gk_sessions ?g) t = Some s \<Longrightarrow> was_opened gx (es @ [e]) t s\<close> show ?thesis
        by (auto simp: delete_conv')
    next
      case (acted session)
      with issued opened show ?thesis by (simp add: sessions_within_def)
    qed
  qed
qed

end
