(* ===== verification/GasokScenario.thy ===== *)
theory GasokScenario
  imports GasokRuns Scenario
begin

text \<open>
  A concrete GasOK server, at the state in which the Pact of \<open>Scenario\<close> is prepared: its wallet signs in and
  recovers the opening of the payment from a chain that answers at the third attempt.
\<close>

section \<open>Platform and chain\<close>

definition demo_gasok_libs :: gasok_libs where
  "demo_gasok_libs = \<lparr>gp_kernel = demo,
     gp_coercions = \<lparr>co_less = (\<lambda>_ _. False), co_less_eq = (\<lambda>_ _. False), co_bigint = (\<lambda>_. None)\<rparr>,
     gp_rpcUrl = ''http://giwa'', gp_digest = zero_hash, gx_getAddress = Some,
     gx_verifyMessage = (\<lambda>a m s. Inr (s = ''0xsigned'')), gx_keccak = (\<lambda>_. zero_hash),
     gx_paycard = (\<lambda>_ _ _ _ _. zero_hash), gx_decode = Inr, gx_secureCookies = False\<rparr>"

definition demo_giwa_receipt :: giwa_receipt where
  "demo_giwa_receipt = \<lparr>gr_success = True, gr_transactionHash = zero_hash, gr_blockNumber = 7, gr_blockHash = ''0xb'',
     gr_logs = [\<lparr>gl_address = giwa_vaultAddress, gl_event = Some (Provisioned zero_hash)\<rparr>]\<rparr>"

definition demo_giwa_card :: giwa_card where
  "demo_giwa_card = \<lparr>gc_payer = addr (CHR ''a''), gc_recipient = addr (CHR ''b''), gc_metadataHash = zero_hash,
     gc_totalAllocationPool = 5, gc_availableBalance = 5, gc_flowVelocityPerSecond = 1, gc_genesisTimestamp = 0,
     gc_lifespanSeconds = 5, gc_residualDeltaRecipient = addr (CHR ''a''), gc_operationalStatus = 0\<rparr>"

definition demo_giwa_node :: giwa_node where
  "demo_giwa_node = \<lparr>
     gn_receipt = (\<lambda>tx n. if n < 3 then Inl (Error ''not found'') else Inr demo_giwa_receipt),
     gn_registry = (\<lambda>i b n. Inr demo_giwa_card), gn_blockTime = (\<lambda>b n. Inr 0), gn_blockNumber = (\<lambda>n. Inr 9),
     gn_openings = (\<lambda>i from n. Inr [Some zero_hash]), gn_flushes = (\<lambda>from n. Inr []),
     gn_nonce = (\<lambda>a c. Inr 0), gn_latestTime = Inr 0\<rparr>"

abbreviation demo_gasok_kernel :: kernel where
  "demo_gasok_kernel \<equiv> gasok_kernel (gasok_platform.truncate demo_gasok_libs) demo_giwa_node"

lemma demo_gasok_kernel_fields:
  "sha256 demo_gasok_kernel = sha256 demo" "collate demo_gasok_kernel = collate demo"
  "date_parse demo_gasok_kernel = date_parse demo" "to_iso demo_gasok_kernel = to_iso demo"
  "chainVerifier demo_gasok_kernel = Some (giwa_verifier demo (gp_coercions demo_gasok_libs) demo_giwa_node)"
  "nowIso demo_gasok_kernel n = ''t0''"
  by (simp_all add: gasok_kernel_def gasok_platform.defs demo_gasok_libs_def nowIso_def demo_simps)

lemma demo_gasok_hash: "serializable v \<Longrightarrow> hashCanonical demo_gasok_kernel v = Inr zero_hash"
  by (auto simp: hashCanonical_Inr_iff sha256Hex_def demo_gasok_kernel_fields demo_def zero_hash_def)

lemma demo_gasok_id: "serializable v \<Longrightarrow> stableId demo_gasok_kernel p v = Inr (p @ ''_0000000000000000'')"
  by (simp add: stableId_def demo_gasok_hash zero_hash_def numeral_eq_Suc)

lemma demo_gasok_terms: "pactTermsHash demo_gasok_kernel demo_pact = Inr zero_hash"
  unfolding pactTermsHash_def
  by (rule demo_gasok_hash) (simp add: pactTermsProjection_def payment_terms_json_def demo_pact_def)

lemma demo_gasok_pact: "assertPact demo_gasok_kernel demo_pact = Inr ()"
  by (simp add: assertPact_def assertPactTermsIntegrity_def demo_gasok_terms demo_gasok_kernel_fields demo_simps)
     (simp add: demo_pact_def demo_simps)

lemma demo_gasok_eligible: "assertPactExecutionEligible demo_gasok_kernel st9 demo_prepared 2 = Inr demo_signed_path"
  unfolding demo_prepared_def demo_accepted_def
  by (simp add: assertPactExecutionEligible_def demo_simps sameAddress_def demo_gasok_kernel_fields demo_gasok_pact)
     (simp add: demo_path_def demo_simps)

section \<open>The opening\<close>

definition demo_seen_opening :: opening_observation where
  "demo_seen_opening = opening_of demo demo_giwa_receipt demo_giwa_card 0 zero_hash zero_hash"

lemma demo_verifyOpening: "verifyOpening demo demo_giwa_node zero_hash zero_hash zero_hash = Inr demo_seen_opening"
proof -
  have "lower (addr (CHR ''a'')) \<noteq> lower ZeroAddress" by code_simp
  then show ?thesis
    by (simp add: verifyOpening_def retryRpc_def numeral_eq_Suc demo_giwa_node_def demo_seen_opening_def
        demo_giwa_receipt_def provisions_def of_vault_def visible_card_def demo_giwa_card_def)
qed

definition demo_recovered :: pact where
  "demo_recovered = demo_prepared\<lparr>pc_openRails := Some (demo_rails\<lparr>or_openingTxHash := Some zero_hash,
       or_openingObservation := Some demo_seen_opening\<rparr>),
     pc_status := PactActive, pc_revision := 4, pc_updatedAt := ''t0''\<rparr>"

definition demo_recover_input :: bind_input where
  "demo_recover_input = \<lparr>bi_pactId = ''pc1'', bi_metadataHash = zero_hash, bi_paycardId = zero_hash, bi_actor = addr (CHR ''a''),
     bi_genesisTimestamp = None, bi_nonceChannel = None, bi_nonceValue = None, bi_openingTxHash = Some zero_hash\<rparr>"

lemma demo_seen_matches: "assertOpeningObservationMatchesPact demo_prepared zero_hash zero_hash zero_hash demo_seen_opening = Inr ()"
proof -
  have "int_str 5 = ''5''" "int_str 1 = ''1''" by code_simp+
  then show ?thesis
    by (simp add: assertOpeningObservationMatchesPact_def demo_seen_opening_def opening_of_def demo_giwa_receipt_def
        demo_giwa_card_def demo_prepared_def demo_accepted_def demo_pact_def sameAddress_def demo_simps)
qed

lemma demo_bound:
  "\<exists>es. bindOpenRailsPayment demo_gasok_kernel st9 st9 demo_recover_input 2 =
     Inr (st9\<lparr>pacts := [(''pc1'', demo_recovered)], pactEvents := es\<rparr>, demo_recovered)"
  by (simp add: bindOpenRailsPayment_def bindPayment_observe_def bindPayment_open_def demo_recover_input_def demo_simps
      demo_gasok_id demo_gasok_eligible demo_gasok_kernel_fields giwa_verifier_def demo_verifyOpening demo_seen_matches
      log_pact_event_def set_pact_def demo_recovered_def)
     (intro exI, rule refl)

section \<open>Three requests\<close>

definition demo_gasok_request :: "gasok_call \<Rightarrow> string option \<Rightarrow> string \<Rightarrow> gasok_request" where
  "demo_gasok_request c cookie random = \<lparr>gq_call = c, gq_origin = None, gq_originHost = None, gq_host = Some ''host'',
     gq_cookie = cookie, gq_remote = None, gq_chunks = [''{}''], gq_parsed = Inr (), gq_random = random\<rparr>"

definition demo_challenge_request :: gasok_request where
  "demo_challenge_request = demo_gasok_request (Get_challenge (Some (addr (CHR ''a'')))) None ''n1''"

definition demo_verify_request :: gasok_request where
  "demo_verify_request = demo_gasok_request (Post_verify (addr (CHR ''a'')) ''0xsigned'') None ''tok''"

definition demo_recover_request :: gasok_request where
  "demo_recover_request = demo_gasok_request (Recover_opening ''pc1'') (Some ''openrails_gasok_session=tok'') ''x''"

definition demo_sign_in :: "gasok_event list" where
  "demo_sign_in = [Handled demo_giwa_node 0 demo_challenge_request, Handled demo_giwa_node 1 demo_verify_request]"

definition demo_gasok_challenge :: gasok_challenge where
  "demo_gasok_challenge = \<lparr>gc_message = challengeMessage demo_gasok_libs (addr (CHR ''a'')) ''n1'' 300000, gc_expiresAt = 300000\<rparr>"

definition demo_gasok_session :: gasok_session where
  "demo_gasok_session = \<lparr>gs_address = addr (CHR ''a''), gs_expiresAt = 3600001\<rparr>"

lemmas gasok_handling = gasok_serve_def gasok_api_def io_bind_def io_then_def io_of_def io_get_def io_put_def io_return_def
  io_throw_def rateLimit_def Let_def sameOrigin_def gasok_body_def throw_if_def gasok_answer_def gasok_refuse_def

lemma demo_gasok_libs_fields:
  "gx_getAddress demo_gasok_libs a = Some a" "gx_verifyMessage demo_gasok_libs a m s = Inr (s = ''0xsigned'')"
  by (simp_all add: demo_gasok_libs_def)

lemma demo_challenged:
  "gasok_step demo_gasok_libs (Handled demo_giwa_node 0 demo_challenge_request) (gasok_start s) =
     (gasok_start s)\<lparr>gk_rate := [(''unknown'', \<lparr>rw_startedAt = 0, rw_count = 1\<rparr>)],
       gk_challenges := [(addr (CHR ''a''), demo_gasok_challenge)]\<rparr>"
  by (simp add: gasok_handling demo_challenge_request_def demo_gasok_request_def gasok_start_def get_challenge_def truthy_def
      demo_gasok_libs_fields demo_simps challengeTtlMs_def demo_gasok_challenge_def)

definition demo_signed_in :: "kstate \<Rightarrow> gasok" where
  "demo_signed_in s = (gasok_start s)\<lparr>gk_rate := [(''unknown'', \<lparr>rw_startedAt = 0, rw_count = 2\<rparr>)],
     gk_sessions := [(''tok'', demo_gasok_session)]\<rparr>"

lemma demo_sign_in_run: "gasok_run demo_gasok_libs s demo_sign_in = demo_signed_in s"
  unfolding demo_sign_in_def gasok_run_def fold_simps comp_def demo_challenged
  by (simp add: gasok_handling demo_verify_request_def demo_gasok_request_def gasok_start_def post_verify_def
      demo_gasok_libs_fields demo_simps sessionTtlMs_def demo_gasok_session_def demo_gasok_challenge_def demo_signed_in_def)

lemma demo_cookie: "cookies demo_gasok_libs demo_recover_request = Inr [(sessionCookieName, ''tok'')]"
proof -
  have "cookie_parts Inr (split_cookie ''openrails_gasok_session=tok'' []) [] = Inr [(sessionCookieName, ''tok'')]" by code_simp
  then show ?thesis by (simp add: cookies_def demo_recover_request_def demo_gasok_request_def demo_gasok_libs_def)
qed

lemma demo_bind_recovered:
  assumes "gk_state g = st9"
  shows "\<exists>es. bind_payment demo_gasok_kernel 2 demo_recover_input g =
    (Inr demo_recovered, g\<lparr>gk_state := st9\<lparr>pacts := [(''pc1'', demo_recovered)], pactEvents := es\<rparr>\<rparr>)"
  using demo_bound assms by (auto simp: bind_payment_def kernel_call_def)

lemma demo_recover:
  assumes "gk_state g = st9" "gk_drafts g = []"
  shows "\<exists>es. recover_opening demo_gasok_kernel demo_giwa_node 2 (addr (CHR ''a'')) ''pc1'' g =
     (Inr (200, V_opening demo_recovered zero_hash zero_hash 0),
      g\<lparr>gk_state := st9\<lparr>pacts := [(''pc1'', demo_recovered)], pactEvents := es\<rparr>\<rparr>)"
proof -
  from demo_bind_recovered [OF assms(1)] obtain es where es: "bind_payment demo_gasok_kernel 2 demo_recover_input g =
    (Inr demo_recovered, g\<lparr>gk_state := st9\<lparr>pacts := [(''pc1'', demo_recovered)], pactEvents := es\<rparr>\<rparr>)" by blast
  have p: "pc_workspaceId demo_prepared = ''ws1''" "pc_pactId demo_prepared = ''pc1''"
    by (simp_all add: demo_prepared_def demo_accepted_def demo_simps)
  have a: "assertPactSession ''pc1'' (addr (CHR ''a'')) g = (Inr demo_prepared, g)"
    by (simp add: assertPactSession_def owns_workspace_def assertWorkspaceSession_def kernel_read_def gasok_check_def
        io_bind_def io_then_def io_of_def io_get_def io_return_def throw_if_def assms(1) demo_simps p sameAddress_def)
  have b: "retryRpc l (gn_blockNumber demo_giwa_node) = Inr 9" "retryRpc l (gn_openings demo_giwa_node i n) = Inr [Some zero_hash]" for l i n
    by (simp_all add: retryRpc_def numeral_eq_Suc demo_giwa_node_def)
  have i: "\<lparr>bi_pactId = ''pc1'', bi_metadataHash = zero_hash, bi_paycardId = zero_hash, bi_actor = addr (CHR ''a''),
     bi_genesisTimestamp = None, bi_nonceChannel = None, bi_nonceValue = None, bi_openingTxHash = Some zero_hash\<rparr> = demo_recover_input"
    by (simp add: demo_recover_input_def)
  have r: "bound_paycard demo_prepared = Some zero_hash" "or_genesisTimestamp demo_rails = 0"
    by (simp_all add: bound_paycard_def demo_simps demo_rails_def)
  have z: "truthy (Some zero_hash)" by (simp add: truthy_def demo_simps)
  show ?thesis
    by (simp add: recover_opening_def io_bind_def [of "assertPactSession i x" for i x] a)
       (simp add: r z b p demo_simps io_bind_def io_of_def io_then_def i es drop_draft_def io_put_def opened_reply_def gasok_answer_def
         io_return_def assms, rule exI [of _ es], cases g, use assms(2) in simp)
qed

lemma demo_recovered_run:
  "\<exists>es. gasok_serve demo_gasok_libs demo_giwa_node 2 demo_recover_request (demo_signed_in st9) =
     ((200, V_opening demo_recovered zero_hash zero_hash 0),
      (demo_signed_in st9)\<lparr>gk_rate := [(''unknown'', \<lparr>rw_startedAt = 0, rw_count = 3\<rparr>)],
        gk_state := st9\<lparr>pacts := [(''pc1'', demo_recovered)], pactEvents := es\<rparr>\<rparr>)"
proof -
  let ?g = "(demo_signed_in st9)\<lparr>gk_rate := [(''unknown'', \<lparr>rw_startedAt = 0, rw_count = 3\<rparr>)]\<rparr>"
  have g: "gk_state ?g = st9" "gk_drafts ?g = []" by (simp_all add: demo_signed_in_def gasok_start_def)
  have s: "activeSession demo_gasok_libs demo_recover_request 2 ?g = (Inr (Some demo_gasok_session), ?g)"
    by (simp add: activeSession_def demo_cookie io_bind_def io_of_def io_get_def io_return_def demo_signed_in_def demo_gasok_session_def)
  have r: "rateLimit None 2 (demo_signed_in st9) = (Inr True, ?g)"
    by (simp add: rateLimit_def demo_signed_in_def Let_def)
  have l: "is_live (Recover_opening ''pc1'')" by (simp add: is_live_def live_path_def starts_with_def)
  have q: "sameOrigin demo_recover_request" "gq_remote demo_recover_request = None"
    "gq_call demo_recover_request = Recover_opening ''pc1''" "gasok_body demo_recover_request = Inr ()"
    by (simp_all add: sameOrigin_def demo_recover_request_def demo_gasok_request_def gasok_body_def throw_if_def)
  have a: "gs_address demo_gasok_session = addr (CHR ''a'')" by (simp add: demo_gasok_session_def)
  from demo_recover [OF g] show ?thesis
    by (auto simp: gasok_serve_def gasok_api_def io_bind_def io_then_def io_of_def r s l q a)
qed

text \<open>The history up to the recovery, and the Pact at its end.\<close>

definition demo_gasok_history :: "gasok_event list" where
  "demo_gasok_history = demo_sign_in @ [Handled demo_giwa_node 2 demo_recover_request]"

lemma demo_gasok_end:
  "oget (pacts (gk_state (gasok_run demo_gasok_libs st9 demo_gasok_history))) ''pc1'' = Some demo_recovered"
  using demo_recovered_run by (auto simp: demo_gasok_history_def demo_sign_in_run)

end
