(* ===== verification/Spec2Isabelle.thy ===== *)
theory Spec2Isabelle
  imports Prelude Canonical CanonicalOrder KernelTypes PactTypes KernelState TypedData ActionRegistry Plugins
    Evaluator EvaluatorSpec RuntimeBase RuntimeAuthority RuntimeProposals RuntimePacts RuntimeProof
    RuntimeEffects KernelMachine PactInvariant KernelHistory KernelJobs PactLifecycle Store KernelServer Scenario
    JsNumber StreamQueue StreamStore StreamFiles StreamTimer ProviderPool Webhook RateLimiter StreamGateway
    StreamInvariant StreamScenario JsDynamic JsonText SdkNonce SdkCodec SdkEnvelope SdkAccess SdkLinks SdkRecovery
    ServerValidation SdkScenario ServerBase ServerOpen ServerRoutes ServerMachine ServerHistory ServerInit ServerScenario
    WorkerBase Indexer IndexerInvariant IndexerGateway IndexerRoutes Settler SettlerInvariant SettlerRelay
    Faucet FaucetInvariant ListenSession Scrobble Royalties X402Gateway WorkerScenario
    KernelScope PactEvidence GasokChain GasokServer GasokRoutes GasokInvariant GasokRuns GasokScenario
begin

text \<open>
  OpenRails: the Agent Kernel (\<open>src/agent-kernel\<close>), the stream gateway (\<open>src/stream-gateway\<close>)
  the relay server (\<open>src/server\<close>), the SDK (\<open>src/sdk\<close>), the workers (\<open>src/workers\<close>) and the
  server of the GasOK application (\<open>src/apps/gasok-web/server\<close>), modelled from their sources.

  \<^bold>\<open>The program.\<close> The Agent Kernel is the authority between software agents and payments. A
  Workspace (one external authority account) registers Agents, activates Paths (signed policy
  envelopes with limits) and installs verification plugins; every administrative command is a
  signed message with a nonce. An Agent submits a proposal; a job evaluates it (\<open>Baphomet\<close>); an
  allowed proposal becomes a Pact, which the parties sign, which is bound to an OpenRails payment
  that a chain verifier observes, and which is then performed through signed checkpoints, disputed
  (\<open>Gaia\<close>) and settled. State lives in a store behind a transaction interface (memory, file,
  Postgres); an operator HTTP service exposes the operations. The stream gateway follows the payment
  contract's events, keeps a projection of every Paycard stream in a store with a workflow index,
  marks expired streams and delivers signed webhooks. The SDK signs payment intents and access
  credentials, packs them into tokens and links, hands out nonces and finds Paycards in the logs of
  the chain; the server checks such tokens before it relays a payment or unlocks a resource, limits
  the rate of every client, and in its sandbox mints, settles and reclaims for demonstrations. The workers
  run at the edge: one indexes the events of every vault into a database, one settles Paycards and pays
  for what payers signed, one opens listening sessions and records scrobbles that the settler turns into
  royalties, one hands out test funds, and one puts a payment in front of an artifact. The
  GasOK server is a host of the Agent Kernel: a wallet signs in and runs the kernel's operations for its own
  Workspaces, with a verifier and a plugin that read the chain.

  \<^bold>\<open>Theories of the kernel.\<close>
  \<^item> \<open>Prelude\<close>: results of functions that throw, string-keyed objects in insertion order, ASCII
    and decimal text, the collection \<open>result_simps\<close>.
  \<^item> \<open>Canonical\<close>, \<open>CanonicalOrder\<close>: \<open>canonical.ts\<close>; canonical JSON and the identity of the text of
    values that differ in the order of keys only.
  \<^item> \<open>KernelTypes\<close>, \<open>PactTypes\<close>, \<open>KernelState\<close>: \<open>types.ts\<close> and the empty state of \<open>store.ts\<close>.
    A union of literals is a datatype, an interface a record, an optional field an \<open>option\<close>.
  \<^item> \<open>TypedData\<close>, \<open>ActionRegistry\<close>, \<open>Plugins\<close>: the files of the same names. \<open>Plugins\<close> also holds
    the record \<open>kernel\<close> of the kernel's parameters.
  \<^item> \<open>Evaluator\<close>: \<open>evaluator.ts\<close>, the rules in the order of the code. \<open>EvaluatorSpec\<close>: the
    declarative policy \<open>within_policy\<close> and the equivalence.
  \<^item> \<open>RuntimeBase\<close>, \<open>RuntimeAuthority\<close>, \<open>RuntimeProposals\<close>, \<open>RuntimePacts\<close>, \<open>RuntimeProof\<close>:
    \<open>runtime.ts\<close>, one function per operation, from the state before the transaction and the
    instant to the new state and the result, or the exception. \<open>RuntimeEffects\<close>: one inversion
    lemma per operation.
  \<^item> \<open>KernelMachine\<close>: the fifteen operations as \<open>kernel_op\<close>, their dispatcher \<open>exec\<close>, reachable
    states, and what an operation does to the Pacts (\<open>pact_effect\<close>). \<open>PactInvariant\<close>,
    \<open>PactLifecycle\<close>, \<open>KernelHistory\<close>, \<open>KernelJobs\<close>: the invariants proved over it. \<open>PactEvidence\<close>: what a
    Pact holds of the chain was said by the verifier. \<open>KernelScope\<close>: an operation acts in one Workspace.
  \<^item> \<open>Store\<close>: \<open>store.ts\<close>; the locale \<open>kernel_store\<close> is the contract of a transaction, interpreted on
    the three stores. \<open>KernelServer\<close>: \<open>server.ts\<close>. \<open>Scenario\<close>: a run of a concrete kernel from the
    empty state to a settled Pact, at which the properties are applied.

  \<^bold>\<open>Theories of the stream gateway and the server.\<close>
  \<^item> \<open>JsNumber\<close>: whole doubles. \<open>StreamQueue\<close>, \<open>StreamStore\<close>, \<open>StreamFiles\<close>: the classes of
    \<open>state-store.ts\<close>; the locales \<open>expiry_queue\<close>, \<open>stream_store\<close> and \<open>durable_store\<close> are their
    contracts, interpreted on the queue, the memory cache and the files.
  \<^item> \<open>StreamTimer\<close>, \<open>ProviderPool\<close>, \<open>Webhook\<close>: \<open>timer.ts\<close>, \<open>provider-pool.ts\<close>, \<open>webhook.ts\<close>.
  \<^item> \<open>StreamGateway\<close>: \<open>log-parser.ts\<close> and the handlers of \<open>index.ts\<close>. \<open>StreamInvariant\<close>: the gateway as
    a step relation in which the block lookups of several logs interleave, its invariant and the
    ledger it follows. \<open>StreamScenario\<close>: a concrete gateway.
  \<^item> \<open>RateLimiter\<close>: \<open>server/rate-limiter.ts\<close>.

  \<^bold>\<open>Theories of the SDK and of the request checks.\<close>
  \<^item> \<open>JsDynamic\<close>, \<open>JsonText\<close>: values of unknown type, and \<open>JSON.parse\<close> with fuel, proved to read
    back what \<open>JSON.stringify\<close> wrote and to need no more fuel than twice the length of the text.
  \<^item> \<open>SdkNonce\<close>: \<open>nonce.ts\<close>; calls queue on a promise chain per key, as a step relation over the event
    loop; the locale \<open>nonce_cache\<close> is the contract of the cache adapter.
  \<^item> \<open>SdkCodec\<close>, \<open>SdkEnvelope\<close>: \<open>serialization.ts\<close>, Base64, UTF-8 and tokens, with their round trips.
  \<^item> \<open>SdkAccess\<close>: \<open>access.ts\<close>. \<open>SdkLinks\<close>: the compact links of \<open>links.ts\<close>; the locale \<open>wire\<close> relates a
    writer to its reader and is interpreted on every field. \<open>SdkRecovery\<close>: \<open>wallet.ts\<close>, the search for
    Paycards.
  \<^item> \<open>ServerValidation\<close>: \<open>server/validation.ts\<close> with \<open>metadata.ts\<close> and \<open>policy.ts\<close>. \<open>SdkScenario\<close>: a concrete
    \<open>ethers\<close>, credential, envelope, link and chain.

  \<^bold>\<open>Theories of the server.\<close> A handler of \<open>server/index.ts\<close> is an action on the state of the chain and
  the list of the calls sent to it; the chain answers through the record \<open>chain_node\<close>, and may change
  at every answer.
  \<^item> \<open>ServerBase\<close>: actions, requests, configuration, caps. \<open>ServerOpen\<close>: the relayed opening with the
    proofs of \<open>client.ts\<close> and \<open>proof.ts\<close>. \<open>ServerRoutes\<close>: the other handlers that use the chain.
    \<open>ServerHistory\<close>: the handlers that read the gateway's files. \<open>ServerInit\<close>: the start in the mode of
    the public chain.
  \<^item> \<open>ServerMachine\<close>: the dispatch through the rate limiter, and the rules for what an action sends.
    \<open>ServerScenario\<close>: a concrete relay and requests to it.

  \<^bold>\<open>Theories of the workers.\<close> An operation of a worker is an action that may throw (\<open>io\<close> of \<open>WorkerBase\<close>); its
  Hoare triples \<open>meets\<close> and their rules carry the proofs.
  \<^item> \<open>Indexer\<close>, \<open>IndexerRoutes\<close>: \<open>workers/indexer-worker\<close>. \<open>IndexerInvariant\<close>: what the tables hold after any
    ticks. \<open>IndexerGateway\<close>: agreement with the stream gateway.
  \<^item> \<open>Settler\<close>, \<open>SettlerRelay\<close>: \<open>workers/reconciliation-worker\<close>. \<open>SettlerInvariant\<close>: plays and settlements.
  \<^item> \<open>ListenSession\<close>, \<open>Scrobble\<close>: \<open>workers/music-scrobble-worker\<close>. \<open>Royalties\<close>: scrobbles and settler runs
    interleaved on one table of plays.
  \<^item> \<open>Faucet\<close>, \<open>FaucetInvariant\<close>: \<open>workers/faucet-worker\<close>. \<open>X402Gateway\<close>: \<open>workers/x402-gateway-worker\<close>.
  \<^item> \<open>WorkerScenario\<close>: a concrete chain, keeper, session, faucet and payment.

  \<^bold>\<open>Theories of the GasOK server.\<close> \<open>apps/gasok-web/server/index.mjs\<close>; requests are handled one after another, each
  with the chain as it finds it (\<open>giwa_node\<close>, which answers by the number of the attempt), their bodies have the
  shape the route expects, and a reply is the value that is sent.
  \<^item> \<open>GasokChain\<close>: retries, the chain verifier, the receipt plugin, the kernel of the server.
  \<^item> \<open>GasokServer\<close>: sessions, guards, payment drafts and openings. \<open>GasokRoutes\<close>: the other routes and the
    dispatch.
  \<^item> \<open>GasokInvariant\<close>: what one request may change, by \<open>meets\<close> triples. \<open>GasokRuns\<close>: histories with restarts, the
    sessions and the payments in them. \<open>GasokScenario\<close>: a concrete server and three requests.

  \<^bold>\<open>Parameters.\<close> SHA-256, \<open>localeCompare\<close>, \<open>Date.parse\<close>, \<open>toISOString\<close>, the signature verifier, the
  plugins, the identity resolver and the chain verifier are fields of \<open>kernel\<close>; the ABI decoder,
  Ed25519, the metadata hash, the answers of remote endpoints and the clock are arguments. Where a
  property needs something of them it says so: a linear collation, a decoder that yields
  non-negative numbers for integer arguments, a jitter within its range.

  \<^bold>\<open>Bounds.\<close> Instants and counters are unbounded integers; numbers of the source that are checked
  with \<open>Number.isSafeInteger\<close> are checked by \<open>isSafeInteger\<close>. Only \<open>JSON.parse\<close> runs on fuel, twice the
  length of the text, which is proved to be enough; other loops are structural, have a measure, or (the binary search of the queue, whose midpoint is computed modulo
  \<open>2 ^ 32\<close>) are partial and proved to return on arrays of at most \<open>2 ^ 31\<close> entries.

  \<^bold>\<open>Properties.\<close> C1 to C9: authority, Pact terms, signatures, payments, policy, Paths.
  C10 to C13: numbering, separation of Workspaces, lifecycle, verification.
  C14 to C17: stores, files, canonical text, HTTP service.
  C18 to C24: queue, index, restart, duplicate logs, ledger, balances.
  C25: what the server sends to the chain. C26 to C30:
  nonces, credentials, links, recovery. C31 to C36: the workers.
  C37 to C40: the GasOK server.

  \<^bold>\<open>Not modelled.\<close> The promise chain that serializes transactions (they run one at a time here), JSON
  text on disk below the level of parsable and unparsable, sockets and timeouts, fractions of
  doubles (tokens and delays are exact), \<open>NaN\<close> in the expiration queue, the getters and
  \<open>exportAuditBundle\<close>, which only read, the deployment of the sandbox's contracts. Contracts, user interfaces, scripts and the
  tools of the MCP server are listed in the manifest.
\<close>

section \<open>Authority\<close>

text \<open>C1. A signed Workspace command takes effect at most once: after it was accepted in a
  reachable state, no operation that carries it succeeds in any later state.\<close>

theorem command_takes_effect_once:
  assumes "reachable k s" "exec k op before now s = Inr s'" "command_of op = Some c"
    "leads_to k s' t" "command_of op' = Some c"
  shows "\<exists>e. exec k op' before' now' t = Inl e"
proof (cases "exec k op' before' now' t")
  case (Inr u)
  with command_spent [OF assms, of before' now' u] show ?thesis by simp
qed simp

theorem command_takes_effect_once_witness:
  "\<exists>e. exec demo op3 st3 0 st13 = Inl e"
  by (rule command_takes_effect_once [OF st2_reachable st3_run op3_command st3_leads_to_st13 op3_command])

text \<open>C2. The terms of a Pact are immutable: whatever happens after it was written, the Pact
  is still there with the same terms, the same terms hash, and that hash is the digest of
  the terms.\<close>

theorem pact_terms_immutable:
  assumes "reachable k s" "oget (pacts s) i = Some p" "leads_to k s t"
  shows "\<exists>q. oget (pacts t) i = Some q \<and> pactTermsProjection q = pactTermsProjection p \<and>
     pc_termsHash q = pc_termsHash p \<and> pactTermsHash k q = Inr (pc_termsHash p)"
proof -
  from leads_to_same_terms [OF assms(3,2)] obtain q where q: "oget (pacts t) i = Some q" "same_terms p q" by blast
  from reachable_pact [OF leads_to_reachable [OF assms(3,1)] q(1)] have "pactTermsHash k q = Inr (pc_termsHash q)"
    by (auto simp: pact_inv_def dest: assertPact_integrity)
  with q same_terms_fields [OF q(2)] show ?thesis by auto
qed

theorem pact_terms_immutable_witness:
  "\<exists>q. oget (pacts st13) ''pc1'' = Some q \<and> pactTermsProjection q = pactTermsProjection demo_active \<and>
     pc_termsHash q = pc_termsHash demo_active \<and> pactTermsHash demo q = Inr (pc_termsHash demo_active)"
  by (rule pact_terms_immutable [OF st10_reachable _ st10_leads_to_st13]) (simp add: demo_simps)

text \<open>C3. A Pact that is accepted, under payment, active, performing or settled carries a
  signature of the Workspace authority over the typed data of its terms, and one of the
  counterparty where the Pact asks for it; each of them was accepted by the verifier.\<close>

theorem accepted_pact_is_signed:
  assumes "reachable k s" "oget (pacts s) i = Some p"
    "pc_status p \<in> {PactAccepted, PactPaymentPrepared, PactAwaitingWallet, PactActive, PactPerforming, PactSettled}"
  shows "\<exists>w. oget (workspaces s) (pc_workspaceId p) = Some w \<and>
     has_verified_signature k s p (ws_authorityAccount w) \<and>
     (pc_requiresCounterpartySignature p \<longrightarrow> has_verified_signature k s p (pc_counterparty p))"
proof -
  from reachable_pact [OF assms(1,2)] have inv: "pact_inv k s i p" .
  with assms(3) have "fully_signed (oget (workspaces s) (pc_workspaceId p)) p (pact_signatures s i)"
    by (auto simp: pact_inv_def needs_signatures_def)
  with signed_by_verified [OF inv] show ?thesis by (auto simp: fully_signed_def)
qed

theorem accepted_pact_is_signed_witness:
  "\<exists>w. oget (workspaces st13) (pc_workspaceId demo_settled) = Some w \<and>
     has_verified_signature demo st13 demo_settled (ws_authorityAccount w) \<and>
     (pc_requiresCounterpartySignature demo_settled \<longrightarrow>
        has_verified_signature demo st13 demo_settled (pc_counterparty demo_settled))"
  by (rule accepted_pact_is_signed [OF st13_reachable, of "''pc1''"]) (simp_all add: demo_simps demo_settled_def)

section \<open>Payment\<close>

text \<open>C4. A Pact is active, performing or settled only on a payment that the chain verifier
  observed open with exactly the Pact's chain, vault, parties, allocation, velocity and
  lifespan, under the stored metadata hash, Paycard and transaction.\<close>

theorem active_pact_was_opened:
  assumes "reachable k s" "oget (pacts s) i = Some p" "pc_status p \<in> {PactActive, PactPerforming, PactSettled}"
  shows "\<exists>r ob tx. pc_openRails p = Some r \<and> or_openingObservation r = Some ob \<and> or_openingTxHash r = Some tx \<and>
     seen_opening k (or_metadataHash r) (or_paycardId r) tx ob \<and>
     assertOpeningObservationMatchesPact p (or_metadataHash r) (or_paycardId r) tx ob = Inr ()"
proof -
  from reachable_pact [OF assms(1,2)] have ok: "payment_ok p" by (simp add: pact_inv_def)
  with assms(3) have "has_opening p" by (auto simp: payment_ok_def)
  then obtain r ob where "pc_openRails p = Some r" "or_openingObservation r = Some ob"
    by (auto simp: has_opening_def split: option.splits)
  with ok all_seenD [OF reachable_seen [OF assms(1)] assms(2)] show ?thesis
    by (fastforce simp: payment_ok_def opening_ok_def rails_seen_def)
qed

theorem active_pact_was_opened_witness:
  "\<exists>r ob tx. pc_openRails demo_active = Some r \<and> or_openingObservation r = Some ob \<and> or_openingTxHash r = Some tx \<and>
     seen_opening demo (or_metadataHash r) (or_paycardId r) tx ob \<and>
     assertOpeningObservationMatchesPact demo_active (or_metadataHash r) (or_paycardId r) tx ob = Inr ()"
  by (rule active_pact_was_opened [OF st10_reachable, of "''pc1''"]) (simp_all add: demo_simps)

text \<open>C5. A payment once observed open is never replaced: in every later state the Pact keeps
  its metadata hash, Paycard, opening transaction and observation, and its settlements
  only grow at the end.\<close>

theorem opened_payment_is_kept:
  assumes "reachable k s" "oget (pacts s) i = Some p" "has_opening p" "leads_to k s t"
  shows "\<exists>q r r' more. oget (pacts t) i = Some q \<and> pc_openRails p = Some r \<and> pc_openRails q = Some r' \<and>
     or_metadataHash r' = or_metadataHash r \<and> or_paycardId r' = or_paycardId r \<and>
     or_openingTxHash r' = or_openingTxHash r \<and> or_openingObservation r' = or_openingObservation r \<and>
     (case or_settlements r' of None \<Rightarrow> [] | Some l \<Rightarrow> l) = (case or_settlements r of None \<Rightarrow> [] | Some l \<Rightarrow> l) @ more"
  using leads_to_keeps_payment [OF assms(4,1,2,3)] by (auto simp: keeps_payment_def)

theorem opened_payment_is_kept_witness:
  "\<exists>q r r' more. oget (pacts st13) ''pc1'' = Some q \<and> pc_openRails demo_active = Some r \<and> pc_openRails q = Some r' \<and>
     or_metadataHash r' = or_metadataHash r \<and> or_paycardId r' = or_paycardId r \<and>
     or_openingTxHash r' = or_openingTxHash r \<and> or_openingObservation r' = or_openingObservation r \<and>
     (case or_settlements r' of None \<Rightarrow> [] | Some l \<Rightarrow> l) = (case or_settlements r of None \<Rightarrow> [] | Some l \<Rightarrow> l) @ more"
  by (rule opened_payment_is_kept [OF st10_reachable _ _ st10_leads_to_st13])
     (simp_all add: demo_simps has_opening_def)

text \<open>C6. The settlements recorded for a Pact are distinct transactions, each observed on the
  Pact's chain, vault and Paycard, in favour of its recipient.\<close>

theorem settlements_are_distinct:
  assumes "reachable k s" "oget (pacts s) i = Some p" "pc_openRails p = Some r" "or_settlements r = Some l"
  shows "distinct (map (\<lambda>ob. lower (so_transactionHash ob)) l) \<and>
     list_all (\<lambda>ob. so_chainId ob = pt_chainId (pc_paymentTerms p) \<and>
        sameAddress (so_vault ob) (pt_vault (pc_paymentTerms p)) \<and> so_paycardId ob = or_paycardId r \<and>
        sameAddress (so_recipient ob) (pt_recipient (pc_paymentTerms p))) l"
  using reachable_pact [OF assms(1,2)] assms(3,4)
  by (auto simp: pact_inv_def payment_ok_def settlements_ok_def settlement_matches_def list_all_iff)

theorem settlements_are_distinct_witness:
  "distinct (map (\<lambda>ob. lower (so_transactionHash ob)) [demo_settlement demo_pact zero_hash ''5'' True]) \<and>
     list_all (\<lambda>ob. so_chainId ob = pt_chainId (pc_paymentTerms demo_settled) \<and>
        sameAddress (so_vault ob) (pt_vault (pc_paymentTerms demo_settled)) \<and>
        so_paycardId ob = or_paycardId (the (pc_openRails demo_settled)) \<and>
        sameAddress (so_recipient ob) (pt_recipient (pc_paymentTerms demo_settled)))
       [demo_settlement demo_pact zero_hash ''5'' True]"
  by (rule settlements_are_distinct [OF st13_reachable, of "''pc1''"]) (simp_all add: demo_simps demo_settled_def)

section \<open>Policy\<close>

text \<open>C7. The Baphomet evaluator decides the policy contract: it allows a proposal exactly when
  the proposal is within the active signed Path, and blocks it otherwise with a non-empty
  list of distinct reasons.\<close>

theorem evaluator_decides_policy:
  assumes "evaluateProposal k s pr now = Inr (d, i)"
  shows "(de_result d = ALLOW \<longleftrightarrow> within_policy k s pr now) \<and>
     (de_result d = BLOCK \<longleftrightarrow> de_reasonCodes d \<noteq> []) \<and> distinct (de_reasonCodes d) \<and> de_result d \<noteq> REVIEW"
  using evaluateProposal_allow_iff [OF assms] evaluateProposal_block_reasons [OF assms] by auto

theorem evaluator_decides_policy_witness:
  "\<exists>d :: decision. de_result d = ALLOW \<and> (de_result d = ALLOW \<longleftrightarrow> within_policy demo st5 demo_proposal 0) \<and>
     (de_result d = BLOCK \<longleftrightarrow> de_reasonCodes d \<noteq> []) \<and> distinct (de_reasonCodes d) \<and> de_result d \<noteq> REVIEW"
proof -
  from demo_allowed obtain d where "evaluateProposal demo st5 demo_proposal 0 = Inr (d, None)" "de_result d = ALLOW"
    by blast
  with evaluator_decides_policy [OF this(1)] show ?thesis by - (rule exI [of _ d], simp)
qed





section \<open>Histories\<close>

text \<open>C10. The records of a Pact are complete and in order: its checkpoints carry the indices 1, 2, .., n
  and its event log the numbers 0, 1, .., m - 1, without gap or repetition.\<close>

theorem pact_records_are_numbered:
  assumes "reachable k s"
  shows "map ck_checkpointIndex (filter (\<lambda>c. ck_pactId c = i) (ovals (checkpoints s))) =
       map int [1..<Suc (length (filter (\<lambda>c. ck_pactId c = i) (ovals (checkpoints s))))] \<and>
     map pe_sequence (filter (\<lambda>e. pe_pactId e = i) (pactEvents s)) =
       map int [0..<length (filter (\<lambda>e. pe_pactId e = i) (pactEvents s))]"
  using reachable_checkpoints_numbered [OF assms] reachable_events_numbered [OF assms]
  by (simp only: checkpoints_numbered_def pact_checkpoints_def events_numbered_def pact_log_def)

theorem pact_records_are_numbered_witness:
  "map ck_checkpointIndex (filter (\<lambda>c. ck_pactId c = ''pc1'') (ovals (checkpoints st13))) =
       map int [1..<Suc (length (filter (\<lambda>c. ck_pactId c = ''pc1'') (ovals (checkpoints st13))))] \<and>
     map pe_sequence (filter (\<lambda>e. pe_pactId e = ''pc1'') (pactEvents st13)) =
       map int [0..<length (filter (\<lambda>e. pe_pactId e = ''pc1'') (pactEvents st13))]"
  by (rule pact_records_are_numbered [OF st13_reachable])

text \<open>C11. An operation acts in one Workspace: whatever it is, the authority account, Agents, Paths, Proposals, Pacts,
  checkpoints and command nonce of every other Workspace stay as they were.\<close>

theorem operations_touch_one_workspace:
  assumes "reachable k s" "exec k op before now s = Inr s'" "op_workspace op s \<noteq> Some w"
  shows "same_for w s s'"
  by (rule exec_same_for [OF assms(2) reachable_scoped [OF assms(1)] assms(3)])

theorem operations_touch_one_workspace_witness: "same_for ''ws2'' st9 st10"
  by (rule operations_touch_one_workspace [OF st9_reachable st10_run])
     (simp add: op10_def demo_bind_def pact_workspace_def demo_simps demo_prepared_def demo_accepted_def)

text \<open>C12. Every operation moves every Pact along the lifecycle graph \<open>predecessors\<close>: it stays
  as it is or enters a status from one of that status's predecessors. No Pact disappears.\<close>

theorem operations_follow_lifecycle:
  assumes "reachable k s" "exec k op before now s = Inr s'" "oget (pacts s) i = Some p"
  shows "\<exists>q. oget (pacts s') i = Some q \<and>
     (pc_status q = pc_status p \<or> pc_status p \<in> set (predecessors (pc_status q)))"
  using exec_moves [OF assms] by (auto simp: moves_def)

theorem operations_follow_lifecycle_witness:
  "\<exists>q. oget (pacts st10) ''pc1'' = Some q \<and>
     (pc_status q = pc_status demo_prepared \<or> pc_status demo_prepared \<in> set (predecessors (pc_status q)))"
  by (rule operations_follow_lifecycle [OF st9_reachable st10_run]) (simp add: demo_simps)

text \<open>An Agent's status changes only through \<open>setAgentStatus\<close> naming that Agent, its
  Workspace and the new status, under a command signed by the Workspace authority; its
  Workspace and operator never change.\<close>

theorem agent_status_needs_command:
  assumes "exec k op before now s = Inr s'" "oget (agents s) i = Some a"
  shows "\<exists>a'. oget (agents s') i = Some a' \<and> ag_workspaceId a' = ag_workspaceId a \<and> ag_operator a' = ag_operator a \<and>
     (ag_status a' \<noteq> ag_status a \<longrightarrow>
        (\<exists>c sg td w. op = OpSetAgentStatus (ag_workspaceId a) i (ag_status a') c sg \<and>
           oget (workspaces s) (wc_workspaceId c) = Some w \<and> workspaceCommandTypedData k c = Inr td \<and>
           signatureVerifier k td sg (ws_authorityAccount w)))"
proof -
  from exec_agents [OF assms] obtain a' where a': "oget (agents s') i = Some a'"
      "ag_workspaceId a' = ag_workspaceId a" "ag_operator a' = ag_operator a"
      "ag_status a' = ag_status a \<or> (\<exists>c sg. op = OpSetAgentStatus (ag_workspaceId a) i (ag_status a') c sg)" by blast
  have "\<exists>c sg td w. op = OpSetAgentStatus (ag_workspaceId a) i (ag_status a') c sg \<and>
      oget (workspaces s) (wc_workspaceId c) = Some w \<and> workspaceCommandTypedData k c = Inr td \<and>
      signatureVerifier k td sg (ws_authorityAccount w)" if "ag_status a' \<noteq> ag_status a"
  proof -
    from that a'(4) obtain c sg where op: "op = OpSetAgentStatus (ag_workspaceId a) i (ag_status a') c sg" by blast
    from exec_status_signed [OF assms(1) [unfolded op]] op show ?thesis by blast
  qed
  with a'(1-3) show ?thesis by blast
qed

theorem agent_status_needs_command_witness:
  "\<exists>a'. oget (agents st_paused) ''ag1'' = Some a' \<and> ag_workspaceId a' = ag_workspaceId demo_agent \<and>
     ag_operator a' = ag_operator demo_agent \<and>
     (ag_status a' \<noteq> ag_status demo_agent \<longrightarrow>
        (\<exists>c sg td w. op_pause = OpSetAgentStatus (ag_workspaceId demo_agent) ''ag1'' (ag_status a') c sg \<and>
           oget (workspaces st3) (wc_workspaceId c) = Some w \<and> workspaceCommandTypedData demo c = Inr td \<and>
           signatureVerifier demo td sg (ws_authorityAccount w)))"
  by (rule agent_status_needs_command [OF pause_run]) (simp add: demo_simps)

section \<open>Jobs and proposals\<close>

text \<open>A job is processed at most once: every stored job is either queued and untouched or
  was taken exactly once and has a final state; none is left running.\<close>

theorem jobs_run_once:
  assumes "reachable k s" "oget (jobs s) i = Some j"
  shows "jb_jobId j = i \<and>
     (jb_state j = JobQueued \<and> jb_attempts j = 0 \<or>
      jb_state j \<in> {JobCompleted, JobBlocked, JobReview, JobFailed} \<and> jb_attempts j = 1)"
  using reachable_jobs [OF assms(1)] assms(2) by (auto simp: jobs_inv_def job_ok_def job_finished_def split: if_splits)

theorem jobs_run_once_witness:
  "jb_jobId demo_job = ''job_0000000000000000'' \<and>
     (jb_state demo_job = JobQueued \<and> jb_attempts demo_job = 0 \<or>
      jb_state demo_job \<in> {JobCompleted, JobBlocked, JobReview, JobFailed} \<and> jb_attempts demo_job = 1)"
  by (rule jobs_run_once [OF st5_reachable]) (simp add: demo_simps)

text \<open>Submitting is idempotent: the same proposal submitted again, at any time, returns the
  same proposal and job and changes nothing.\<close>

theorem submission_is_idempotent:
  assumes "reachable k s" "submitProposal k s p now = Inr (s', q, j)"
  shows "submitProposal k s' p later = Inr (s', q, j)"
  by (rule submitProposal_again [OF assms])

theorem submission_is_idempotent_witness:
  "\<exists>q j. submitProposal demo st5 demo_proposal 7 = Inr (st5, q, j)"
proof -
  from st5_run obtain q j where "submitProposal demo st4 demo_proposal 0 = Inr (st5, q, j)"
    by (auto simp: op5_def state_of_Inr)
  from submission_is_idempotent [OF st4_reachable this] show ?thesis by blast
qed

section \<open>Proof\<close>

text \<open>C13. A checkpoint is verified only by the plugin the Pact committed to: same identifier,
  version and code digest, active, installed in the Workspace, supporting the evidence
  type. The Pact then becomes disputed on a rejection, completed on an approved completion
  checkpoint, and otherwise keeps its status.\<close>

theorem verification_by_committed_plugin:
  assumes "verifyCheckpoint k s ci pid pv now = Inr (s', d)"
  shows "\<exists>c p m impl q. oget (checkpoints s) ci = Some c \<and> oget (pacts s) (ck_pactId c) = Some p \<and>
     pid = pc_evidencePolicyId p \<and> pv = pc_evidencePolicyVersion p \<and>
     oget (plugins s) (plugin_key pid pv) = Some m \<and> mf_status m = PlActive \<and>
     mf_codeDigest m = pc_evidencePolicyCodeDigest p \<and>
     plugin_get (pluginRegistry k) pid pv = Some impl \<and>
     mf_codeDigest (pg_manifest impl) = pc_evidencePolicyCodeDigest p \<and>
     ck_workspaceId c \<in> set (mf_installedWorkspaceIds m) \<and> ck_evidenceType c \<in> set (mf_supportedEvidenceTypes m) \<and>
     oget (pacts s') (ck_pactId c) = Some q \<and>
     pc_status q = (if vd_decision d = Rejected then PactDisputed
       else if vd_decision d = Approved \<and> ck_checkpointType c = CkCompleted then PactCompleted else pc_status p)"
  using assms
proof (cases rule: verifyCheckpoint_Inr)
  case (1 c p m impl ev ty ac data)
  from plugin_evaluate_Inr [OF 1(10)] 1(5) have
    "ck_workspaceId c \<in> set (mf_installedWorkspaceIds m)" "ck_evidenceType c \<in> set (mf_supportedEvidenceTypes m)"
    by auto
  with 1 show ?thesis by (auto simp: verified_pact_def)
qed

theorem verification_by_committed_plugin_witness:
  "\<exists>s' :: kstate. \<exists>c p m impl q. oget (checkpoints st11) ''ck1'' = Some c \<and> oget (pacts st11) (ck_pactId c) = Some p \<and>
     ''plug'' = pc_evidencePolicyId p \<and> ''1.0.0'' = pc_evidencePolicyVersion p \<and>
     oget (plugins st11) (plugin_key ''plug'' ''1.0.0'') = Some m \<and> mf_status m = PlActive \<and>
     mf_codeDigest m = pc_evidencePolicyCodeDigest p \<and>
     plugin_get (pluginRegistry demo) ''plug'' ''1.0.0'' = Some impl \<and>
     mf_codeDigest (pg_manifest impl) = pc_evidencePolicyCodeDigest p \<and>
     ck_workspaceId c \<in> set (mf_installedWorkspaceIds m) \<and> ck_evidenceType c \<in> set (mf_supportedEvidenceTypes m) \<and>
     oget (pacts s') (ck_pactId c) = Some q \<and>
     pc_status q = (if vd_decision demo_verdict = Rejected then PactDisputed
       else if vd_decision demo_verdict = Approved \<and> ck_checkpointType c = CkCompleted then PactCompleted else pc_status p)"
proof -
  from op12_result obtain s' where "verifyCheckpoint demo st11 ''ck1'' ''plug'' ''1.0.0'' 0 = Inr (s', demo_verdict)"
    by blast
  from verification_by_committed_plugin [OF this] show ?thesis by - (rule exI [of _ s'], assumption)
qed

section \<open>Storage\<close>



text \<open>C15. A crash at any point while the file store saves leaves a file that loads either the
  state before or the state after, never a torn one.\<close>

theorem file_save_is_atomic:
  assumes "json_load f fs = Inr old" "current_version s"
  shows "json_load f (fold fs_apply (take n (save_steps f pid s)) fs) \<in> {Inr old, Inr s}"
  by (rule json_crash [OF assms])

theorem file_save_is_atomic_witness:
  "json_load ''f'' (fold fs_apply (take 1 (save_steps ''f'' 1 emptyKernelState)) []) \<in> {Inr emptyKernelState, Inr emptyKernelState}"
  by (rule file_save_is_atomic) (simp_all add: json_load_empty current_version_empty)

section \<open>Canonical text and the service\<close>



text \<open>C17. The HTTP service changes the kernel's state only for an authorized request to one of
  its \<open>POST\<close> routes, with mutations enabled and a body within the configured limit.\<close>

theorem http_changes_are_guarded:
  assumes "handle cf bk req st = (st', r)" "st' \<noteq> st" "CHR '' '' \<notin> set (request_method req)"
  shows "authorized cf req \<and> request_method req = ''POST'' \<and> request_key req \<in> set routes \<and>
     cf_mutationsEnabled cf \<and>
     (rq_chunks req \<noteq> [] \<longrightarrow> int (length (concat (rq_chunks req))) \<le> cf_maxBodyBytes cf)"
  using handle_guarded [OF assms] by blast


theorem http_changes_are_guarded_witness:
  "authorized demo_config demo_request \<and> request_method demo_request = ''POST'' \<and>
     request_key demo_request \<in> set routes \<and> cf_mutationsEnabled demo_config \<and>
     int (length (concat (rq_chunks demo_request))) \<le> cf_maxBodyBytes demo_config"
  using http_changes_are_guarded [OF demo_handle] by (simp add: demo_request_def request_method_def)

section \<open>Stream gateway\<close>

text \<open>C18. The binary search of the expiration queue, its 32-bit midpoint included, returns on every
  sorted array of at most \<open>2 ^ 31\<close> entries, and inserts stably: behind the entries that expire
  no later, before all others.\<close>

theorem schedule_is_stable_insertion:
  assumes "sorted (map te_expiresAt q)" "length q \<le> 2147483648"
  shows "schedule i t q =
     Some (filter (\<lambda>e. te_expiresAt e \<le> t) q @ \<lparr>te_paycardId = i, te_expiresAt = t\<rparr> # filter (\<lambda>e. t < te_expiresAt e) q)"
  using schedule_insort [of q i t] assms by (simp add: by_time_def max_queue_def)

theorem schedule_is_stable_insertion_witness:
  "schedule ''c'' 2 [\<lparr>te_paycardId = ''a'', te_expiresAt = 2\<rparr>, \<lparr>te_paycardId = ''b'', te_expiresAt = 3\<rparr>] =
     Some [\<lparr>te_paycardId = ''a'', te_expiresAt = 2\<rparr>, \<lparr>te_paycardId = ''c'', te_expiresAt = 2\<rparr>,
           \<lparr>te_paycardId = ''b'', te_expiresAt = 3\<rparr>]"
  using schedule_is_stable_insertion [of "[\<lparr>te_paycardId = ''a'', te_expiresAt = 2\<rparr>, \<lparr>te_paycardId = ''b'', te_expiresAt = 3\<rparr>]" "''c''" 2]
  by simp

text \<open>C19. Every expiration that was scheduled is reported by the first check at or after its time,
  with the due ones in front in the order of their times, and not before.\<close>

theorem scheduled_expirations_are_reported:
  assumes "sorted (map te_expiresAt q)" "length q \<le> 2147483648" "schedule i t q = Some q'"
    "checkExpired now q' = (ids, rest)"
  shows "(if t \<le> now then i \<in> set ids else \<lparr>te_paycardId = i, te_expiresAt = t\<rparr> \<in> set rest) \<and>
     ids = map te_paycardId (filter (\<lambda>e. te_expiresAt e \<le> now) q') \<and> rest = filter (\<lambda>e. now < te_expiresAt e) q' \<and>
     sorted (map te_expiresAt rest)"
proof -
  have q: "by_time q" "length q \<le> max_queue" using assms by (simp_all add: by_time_def max_queue_def)
  from termination_queue.push_ok [OF q assms(3)] have q': "by_time q'" "\<lparr>te_paycardId = i, te_expiresAt = t\<rparr> \<in> set q'"
    by auto
  from termination_queue.pop_ok [OF q'(1) assms(4)] q'(2) show ?thesis by (auto simp: by_time_def image_iff)
qed

theorem scheduled_expirations_are_reported_witness:
  "''a'' \<in> set [''a''] \<and>
     [''a''] = map te_paycardId (filter (\<lambda>e. te_expiresAt e \<le> 5) [\<lparr>te_paycardId = ''a'', te_expiresAt = 4\<rparr>]) \<and>
     [] = filter (\<lambda>e. 5 < te_expiresAt e) [\<lparr>te_paycardId = ''a'', te_expiresAt = 4\<rparr>]"
  using scheduled_expirations_are_reported [of "[]" "''a''" 4 "[\<lparr>te_paycardId = ''a'', te_expiresAt = 4\<rparr>]" 5 "[''a'']" "[]"]
    schedule_insort [of "[]" "''a''" 4]
  by (simp add: by_time_def max_queue_def)

text \<open>C20. The workflow index of the gateway's store, kept through provisions, settlements, ticks and
  rebindings, is the inverse of the streams' workflow fields.\<close>

theorem workflow_index_agrees:
  assumes "decoder_ok d" "gw_reachable d g" "w \<noteq> []"
  shows "set (cache_getByWorkflow w (st_cache (gw_store g))) =
     {s. \<exists>i. st_get i (gw_store g) = Some s \<and> sm_workflowId s = Some w}"
proof -
  from gw_reachable_ok [OF assms(1,2)] have "cache_ok (st_cache (gw_store g))"
    using gw_okD(1) st_ok_cache by blast
  from memory_cache.by_workflow [OF this assms(3)] show ?thesis by (simp add: st_get_def)
qed

theorem workflow_index_agrees_witness:
  "set (cache_getByWorkflow ''w'' (st_cache (gw_store gw3))) =
     {s. \<exists>i. st_get i (gw_store gw3) = Some s \<and> sm_workflowId s = Some ''w''}"
  by (rule workflow_index_agrees [OF demo_decoder_ok gw3_reachable]) simp

text \<open>C21. A restart of the durable store loses nothing that is authoritative: whatever the gateway did,
  the store opened again on its files holds the same streams, projections aside, and the same
  events with the same keys.\<close>

theorem restart_preserves_store:
  assumes "decoder_ok d" "gw_reachable d g" "gw_store g = Durable f"
  shows "map_option strip (file_get i (open_file_store (fl_disk f))) = map_option strip (file_get i f) \<and>
     map strip (cache_getAll (fl_inner (open_file_store (fl_disk f)))) = map strip (cache_getAll (fl_inner f)) \<and>
     fl_events (open_file_store (fl_disk f)) = fl_events f \<and> fl_eventKeys (open_file_store (fl_disk f)) = fl_eventKeys f \<and>
     distinct (map record_key (fl_events f))"
proof -
  from gw_reachable_ok [OF assms(1,2)] gw_okD(1) assms(3) have f: "file_ok f" by force
  from restart_get [OF f] restart_getAll [OF f] restart_events [OF f] f show ?thesis
    by (auto simp: restart_def file_ok_def first_records_distinct)
qed

theorem restart_preserves_store_witness:
  "\<exists>f. gw_store gw3 = Durable f \<and> fl_events (open_file_store (fl_disk f)) = fl_events f \<and>
     map_option strip (file_get ''card'' (open_file_store (fl_disk f))) = map_option strip (file_get ''card'' f)"
proof -
  obtain f where "gw_store gw3 = Durable f" using gw3_durable by blast
  with restart_preserves_store [OF demo_decoder_ok gw3_reachable this] show ?thesis by blast
qed

text \<open>C22. A log is taken up once: however deliveries, block lookups, ticks and rebindings interleave,
  delivering it again changes nothing.\<close>

theorem logs_are_taken_once:
  assumes "parse_log d lg = Some e" "gw_leads d (begin_log d lg g) g'"
    "parse_log d lg' = Some e'" "eventKey (gv_transactionHash e') (gv_logIndex e') = eventKey (gv_transactionHash e) (gv_logIndex e)"
  shows "begin_log d lg' g' = g'"
  using begin_again [OF assms(3)] leads_keeps_keys [OF assms(2)] begin_processes [OF assms(1), of g] assms(4)
  by (auto simp: event_key_def)

theorem logs_are_taken_once_witness:
  "begin_log demo_decoder (demo_log ''P'' 1) gw3 = gw3"
  by (rule logs_are_taken_once [OF demo_parse(1) gw1_leads_gw3 [unfolded gw1_def] demo_parse(1) refl])

text \<open>After a tick at \<open>now\<close> milliseconds no stream is active whose lifespan has elapsed.\<close>

theorem tick_leaves_no_expired_stream:
  assumes "decoder_ok d" "gw_reachable d g" "st_get i (gw_store (tick now g)) = Some s" "sm_status s = StActive"
    "sm_lifespan s = Some l" "0 < l"
  shows "\<exists>t. expires_at s = Some t \<and> now < 1000 * t"
proof -
  from gw_reachable_ok [OF assms(1,2)] have ok: "gw_ok g" .
  then have ok': "gw_ok (fst (processAccruals now g))" using processAccruals_ok by blast
  from gw_okD(3) [OF gw_ok_tick [OF ok] assms(3)] obtain t where t: "expires_at s = Some t"
    by (auto simp: stream_wf_def expires_at_def)
  from sweepExpired_facts(2) [OF ok', of i now s l t] assms t have "now div 1000 < t"
    by (simp add: tick_sweeps [OF ok])
  with t show ?thesis by auto
qed

theorem tick_leaves_no_expired_stream_witness:
  "\<exists>t s. st_get ''card'' (gw_store (tick 7500 gw2)) = Some s \<and> sm_status s = StActive \<and>
     expires_at s = Some t \<and> 7500 < 1000 * t"
proof -
  obtain s where s: "st_get ''card'' (gw_store gw3) = Some s" "sm_status s = StActive" "sm_lifespan s = Some 10"
    using gw3_get by blast
  from tick_leaves_no_expired_stream [OF demo_decoder_ok gw2_reachable s(1) [unfolded gw3_def] s(2,3)] s(1,2)
  show ?thesis by (auto simp: gw3_def)
qed

text \<open>C23. Applying a sequence of events moves the balance and status of every Paycard as the ledger of
  its own events says: provision opens with the pool, a settlement takes its amount, the last
  unit or a reclaim terminates; events of other Paycards do not interfere.\<close>

theorem gateway_follows_ledger:
  assumes "decoder_ok d" "gw_reachable d g" "\<forall>e \<in> set es. event_wf e"
    "length (gw_queue g) + length es \<le> 2147483648"
  shows "map_option ledger_of (st_get i (gw_store (fold (apply_event now) es g))) =
     fold ledger_event (filter (\<lambda>e. gv_paycardId e = i) es) (map_option ledger_of (st_get i (gw_store g)))"
  using ledger_fold [OF gw_reachable_ok [OF assms(1,2)] assms(3)] assms(4) by (simp add: ledger_def max_queue_def)

theorem gateway_follows_ledger_witness:
  "map_option ledger_of (st_get ''card'' (gw_store (fold (apply_event 0) [provision_event, settlement_event] gw0))) =
     fold ledger_event (filter (\<lambda>e. gv_paycardId e = ''card'') [provision_event, settlement_event])
       (map_option ledger_of (st_get ''card'' (gw_store gw0)))"
  by (rule gateway_follows_ledger [OF demo_decoder_ok gw0_reachable])
     (simp_all add: demo_events_wf gw0_queue)

text \<open>A stream that is opened with a pool and then settled any number of times holds the pool less
  all withdrawals, at least zero.\<close>

theorem settlements_sum_up:
  assumes "decoder_ok d" "gw_reachable d g" "event_wf p" "gv_eventName p = ''PaycardProvisioned''"
    "\<forall>e \<in> set es. event_wf e \<and> gv_eventName e = ''SettlementFlushed'' \<and> gv_paycardId e = gv_paycardId p"
    "length (gw_queue g) + length (p # es) \<le> 2147483648"
  shows "\<exists>s. st_get (gv_paycardId p) (gw_store (fold (apply_event now) (p # es) g)) = Some s \<and>
     digits_val (sm_availableBalance s) =
       max 0 (uint_arg p ''poolAllocation'' - (\<Sum>e\<leftarrow>es. uint_arg e ''amountWithdrawn''))"
proof -
  have nonneg: "0 \<le> uint_arg e k" if "event_wf e" "k \<in> set uint_args" for e k
    unfolding uint_arg_def by (intro digits_val_decimal arg_decimal that)
  have "filter (\<lambda>e. gv_paycardId e = gv_paycardId p) (p # es) = p # es"
    using assms(5) by (simp add: filter_id_conv)
  with ledger_fold [OF gw_reachable_ok [OF assms(1,2)], of "p # es" "gv_paycardId p" now] assms
  have "ledger (gv_paycardId p) (fold (apply_event now) (p # es) g) =
      fold ledger_event es (Some (uint_arg p ''poolAllocation'', StActive))"
    by (simp add: max_queue_def ledger_event_def)
  moreover obtain st' where "fold ledger_event es (Some (uint_arg p ''poolAllocation'', StActive)) =
      Some (max 0 (uint_arg p ''poolAllocation'' - (\<Sum>e\<leftarrow>es. uint_arg e ''amountWithdrawn'')), st')"
    using ledger_settlements [of es "uint_arg p ''poolAllocation''" StActive] assms(3,5) nonneg
    by (auto simp: uint_args_def)
  ultimately show ?thesis by (auto simp: ledger_def ledger_of_def)
qed

theorem settlements_sum_up_witness:
  "\<exists>s. st_get ''card'' (gw_store (fold (apply_event 0) [provision_event, settlement_event] gw0)) = Some s \<and>
     digits_val (sm_availableBalance s) = 70"
proof -
  have "gv_paycardId provision_event = ''card''" "uint_arg provision_event ''poolAllocation'' = 100"
      "uint_arg settlement_event ''amountWithdrawn'' = 30" by (simp_all add: demo_amounts)
  with settlements_sum_up [OF demo_decoder_ok gw0_reachable demo_events_wf(1), of "[settlement_event]" 0] show ?thesis
    by (simp add: demo_events_wf demo_amounts gw0_queue)
qed

text \<open>C24. In every reachable state the balance of every stream is a numeral between zero and its
  allocation, and the accrual tick projects it into the same range without touching it.\<close>

theorem balances_within_allocation:
  assumes "decoder_ok d" "gw_reachable d g" "st_get i (gw_store g) = Some s"
  shows "0 \<le> digits_val (sm_availableBalance s) \<and>
     digits_val (sm_availableBalance s) \<le> digits_val (sm_totalAllocation s) \<and>
     map_option strip (st_get i (gw_store (fst (processAccruals now g)))) = Some (strip s) \<and>
     (case accrual now s of
        Inr (Some p) \<Rightarrow> 0 \<le> digits_val p \<and> digits_val p \<le> digits_val (sm_availableBalance s)
      | Inr None \<Rightarrow> True
      | Inl _ \<Rightarrow> False)"
proof -
  note ok = gw_reachable_ok [OF assms(1,2)]
  from gw_okD(3) [OF ok assms(3)] have wf: "stream_wf s" by blast
  from processAccruals_ok [OF ok, of now i] assms(3) accrual_range [OF wf, of now] wf show ?thesis
    by (auto simp: stream_wf_def digits_val_decimal)
qed

theorem balances_within_allocation_witness:
  "0 \<le> digits_val (sm_availableBalance demo_stream) \<and>
     digits_val (sm_availableBalance demo_stream) \<le> digits_val (sm_totalAllocation demo_stream) \<and>
     map_option strip (st_get ''card'' (gw_store (fst (processAccruals 7500 gw2)))) = Some (strip demo_stream) \<and>
     (case accrual 7500 demo_stream of
        Inr (Some p) \<Rightarrow> 0 \<le> digits_val p \<and> digits_val p \<le> digits_val (sm_availableBalance demo_stream)
      | Inr None \<Rightarrow> True
      | Inl _ \<Rightarrow> False)"
  by (rule balances_within_allocation [OF demo_decoder_ok gw2_reachable gw2_get])

text \<open>The timer does not drift: however late the event loop delivers each timeout, up to one
  interval, the n-th tick comes at \<open>start + (n + 2) * interval\<close> plus its own lateness only.\<close>

theorem ticks_do_not_drift:
  assumes "new_timer interval = Inr t" "\<forall>l \<in> set late. 0 \<le> l \<and> l \<le> interval"
  shows "tick_times late (start_timer now now t) =
     map (\<lambda>(n, l). now + (int n + 2) * interval + l) (enumerate 0 late)"
proof -
  from timer_ok_new [OF assms(1)] have t: "timer_ok t" "\<not> tm_running t" by simp_all
  have i: "tm_intervalMs t = interval" using assms(1) by (auto simp: new_timer_def throw_if_Inr_iff)
  note s = started_on_grid [OF t, of now]
  from tick_times_on_grid [OF s(1,4)] s(2,3) assms(2) i show ?thesis
    by (simp add: list_all_iff algebra_simps)
qed

theorem ticks_do_not_drift_witness:
  "tick_times [3, 0, 7] (start_timer 0 0 \<lparr>tm_intervalMs = 100, tm_handle = None, tm_running = False,
       tm_expectedTickMs = 0, tm_timeouts = [], tm_next = 0\<rparr>) = [203, 300, 407]"
  using ticks_do_not_drift [of 100 "\<lparr>tm_intervalMs = 100, tm_handle = None, tm_running = False,
       tm_expectedTickMs = 0, tm_timeouts = [], tm_next = 0\<rparr>" "[3, 0, 7]" 0]
  by (simp add: new_timer_def)

text \<open>The pool hands out a healthy provider whenever it has one, goes round all of them when all
  are healthy, and resets when none is.\<close>

theorem pool_selects_healthy:
  assumes "new_pool urls now = Inr p0" "length es = length urls" "c < length urls"
  shows "let p = p0\<lparr>pl_entries := es, pl_cursor := c\<rparr>; (p', k) = getProvider p in
     k < length urls \<and> pl_cursor p' < length urls \<and>
     (if \<exists>e \<in> set es. pe_healthy e then pe_healthy (es ! k) \<and> pl_entries p' = es
      else k = 0 \<and> (\<exists>e. e \<in> set (pl_entries p')) \<and> list_all pe_healthy (pl_entries p')) \<and>
     (list_all pe_healthy es \<longrightarrow> take_providers n p = map (\<lambda>i. (c + i) mod length urls) [0..<n])"
proof -
  define p where "p = p0\<lparr>pl_entries := es, pl_cursor := c\<rparr>"
  have ok: "pool_ok p" using assms by (auto simp: p_def pool_ok_def)
  have e: "pl_entries p = es" "pl_cursor p = c" by (simp_all add: p_def)
  note i = getProvider_index [OF ok] and q = getProvider_pool [OF ok]
  have healthy: "pe_healthy (es ! snd (getProvider p)) \<and> pl_entries (fst (getProvider p)) = es"
    if "\<exists>x \<in> set es. pe_healthy x"
    using that getProvider_healthy [OF ok] by (metis e(1) in_set_conv_nth)
  have reset: "snd (getProvider p) = 0 \<and> list_all pe_healthy (pl_entries (fst (getProvider p)))"
    if "\<not> (\<exists>x \<in> set es. pe_healthy x)"
    using that getProvider_reset [OF _ ok] by (simp add: e list_all_iff)
  have ne: "\<exists>x. x \<in> set (pl_entries (fst (getProvider p)))"
    using q by (metis list.set_intros(1) neq_Nil_conv pool_ok_def)
  have rot: "take_providers n p = map (\<lambda>i. (c + i) mod length urls) [0..<n]" if "list_all pe_healthy es"
    using that take_providers_rotation [OF ok, of n] assms(2) by (simp add: e list_all_iff)
  from i q healthy reset ne rot assms(2) show ?thesis
    unfolding p_def [symmetric] Let_def case_prod_beta by (auto simp: e pool_ok_def)
qed

theorem pool_selects_healthy_witness:
  "snd (getProvider \<lparr>pl_entries = [\<lparr>pe_url = ''u'', pe_healthy = False, pe_consecutiveFailures = 3, pe_lastCheckedMs = 0\<rparr>,
       \<lparr>pe_url = ''v'', pe_healthy = True, pe_consecutiveFailures = 0, pe_lastCheckedMs = 0\<rparr>],
     pl_cursor = 0, pl_polling = True, pl_subscriptions = [], pl_destroyed = False\<rparr>) = 1"
proof -
  let ?es = "[\<lparr>pe_url = ''u'', pe_healthy = False, pe_consecutiveFailures = 3, pe_lastCheckedMs = 0\<rparr>,
    \<lparr>pe_url = ''v'', pe_healthy = True, pe_consecutiveFailures = 0, pe_lastCheckedMs = 0\<rparr>]"
  let ?p = "\<lparr>pl_entries = ?es, pl_cursor = 0, pl_polling = True, pl_subscriptions = [], pl_destroyed = False\<rparr>"
  obtain p' k where g: "getProvider ?p = (p', k)" by (cases "getProvider ?p")
  have "k < 2 \<and> pe_healthy (?es ! k)"
    using pool_selects_healthy [of "[''u'', ''v'']" 0 _ ?es 0 0] g by (simp add: new_pool_def Let_def split: if_splits)
  then have "k = 1" by (cases k) auto
  with g show ?thesis by simp
qed

text \<open>A webhook delivery stops: it sends at most \<open>maxRetries\<close> requests, all the same signed
  body, one fewer delays than requests at most, each between half a second and thirty seconds;
  and it succeeds exactly when an attempt is answered 2xx before any final client error.\<close>

theorem delivery_is_bounded:
  assumes "\<And>n. 0 \<le> jitter n \<and> jitter n \<le> (500 :: 'n::linordered_idom)"
  shows "let d = deliver answer jitter url payload signFn maxRetries in
     length (dv_requests d) \<le> nat maxRetries \<and> length (dv_delays d) \<le> length (dv_requests d) \<and>
     list_all (\<lambda>q. q = (url, stringify payload, signFn (stringify payload))) (dv_requests d) \<and>
     list_all (\<lambda>x. 500 \<le> x \<and> x \<le> 30000) (dv_delays d) \<and>
     (dv_delivered d \<longleftrightarrow> (\<exists>i < nat maxRetries. (\<exists>k. answer i = Status k \<and> status_ok k) \<and>
        (\<forall>j < i. \<not> conclusive (answer j))))"
proof -
  let ?r = "(url, stringify payload, signFn (stringify payload))"
  have d: "deliver answer jitter url payload signFn maxRetries = deliver_loop answer jitter ?r 0 (nat maxRetries)"
    by (simp add: deliver_def Let_def)
  have "i < n" if "find P [0..<n] = Some i" for P i n
    using that by (auto simp: find_Some_iff)
  then have le: "length (dv_requests (deliver_loop answer jitter ?r 0 n)) \<le> n"
      "length (dv_delays (deliver_loop answer jitter ?r 0 n)) \<le> length (dv_requests (deliver_loop answer jitter ?r 0 n))" for n
    unfolding deliver_loop_requests deliver_loop_delays by (auto simp: Suc_le_eq split: option.splits)
  have bounds: "(500 :: 'n) \<le> backoff_delay a (jitter a)" "backoff_delay a (jitter a) \<le> 30000" for a
    using backoff_delay_bounds [of "jitter a" a] assms [of a] by (simp_all add: base_delay_def max_delay_def)
  show ?thesis
    unfolding Let_def d
    using le [of "nat maxRetries"] deliver_loop_delivered [of answer jitter ?r 0 "nat maxRetries"] bounds
    by (simp add: deliver_loop_requests deliver_loop_delays list_all_iff)
qed

theorem delivery_is_bounded_witness:
  "let d = deliver (\<lambda>n. if n = 2 then Status 204 else Status 503) (\<lambda>_. 100 :: int) ''u'' JNull (\<lambda>_. ''sig'') 5 in
     length (dv_requests d) \<le> 5 \<and> length (dv_delays d) \<le> length (dv_requests d)"
  using delivery_is_bounded [of "\<lambda>_. 100 :: int" "\<lambda>n. if n = 2 then Status 204 else Status 503" "''u''" JNull "\<lambda>_. ''sig''" 5]
  by (simp add: Let_def)

section \<open>Server\<close>

text \<open>The rate limiter lets at most \<open>maxTokens\<close> requests of one key proceed plus \<open>refillRate\<close> per
  second of the time they span, whatever the other keys do.\<close>

theorem rate_is_limited:
  assumes "0 \<le> (m :: 'n::linordered_field)" "0 \<le> r" "map snd (filter (\<lambda>q. fst q = k) qs) = t # ts" "sorted (t # ts)"
  shows "of_nat (served m r k qs []) \<le> m + of_int (last (t # ts) - t) / 1000 * r"
  using served_bound [OF _ assms] by simp

theorem rate_is_limited_witness:
  "rat_of_nat (served (1 :: rat) 2 ''a'' [(''a'', 0), (''b'', 1), (''a'', 2), (''a'', 1000)] []) \<le> 3"
  using rate_is_limited [of "1 :: rat" 2 "''a''" "[(''a'', 0), (''b'', 1), (''a'', 2), (''a'', 1000)]" 0 "[2, 1000]"]
  by (simp del: served.simps)

text \<open>The requests of one client, whatever other clients do, make the server send at most forty calls to
  the chain plus ten per second of the time they span.\<close>

theorem relayed_calls_are_bounded:
  assumes "oget (rs_buckets st) ip = None" "map snd (filter (\<lambda>q. fst q = ip) (limited_trace qs)) = t # ts" "sorted (t # ts)"
  shows "real (calls_for ip en qs st) \<le> 2 * (20 + real_of_int (last (t # ts) - t) / 1000 * 5)"
  by (rule calls_of_client_bounded [OF assms])

theorem relayed_calls_are_bounded_witness:
  "real (calls_for ''::1'' demo_relay demo_run demo_start) \<le> 50"
  using relayed_calls_are_bounded [of demo_start "''::1''" demo_run 0 "[1000]" demo_relay] demo_run_trace
  by (simp add: demo_start_def)

text \<open>C25. Everything the server sends to the chain was asked for by a request that authorizes it: an
  opening by a token whose intent, metadata, policy and caps agree, a flush by the signature of a
  party of the Paycard, and the calls of the sandbox only where the sandbox is enabled.\<close>

theorem relay_calls_are_authorized:
  assumes "calls_of st = []" "call \<in> set (calls_of (serve_all en qs st))"
  shows "\<exists>(ep, rq) \<in> set qs. authorized_call en ep rq (fst call)"
  using serve_all_authorized [OF assms(2)] assms(1) by simp

theorem relay_calls_are_authorized_witness:
  "length (calls_of (serve_all demo_relay demo_run demo_start)) = 4 \<and>
   (\<exists>(ep, rq) \<in> set demo_run. authorized_call demo_relay ep rq (Call_flush demo_wallet (JStr (demo_hash (CHR ''1'')))))"
proof -
  let ?call = "(Call_flush demo_wallet (JStr (demo_hash (CHR ''1''))), Inr (demo_hash (CHR ''4'')))"
  have "calls_of demo_start = []" by (simp add: calls_of_def demo_start_def)
  moreover have "?call \<in> set (calls_of (serve_all demo_relay demo_run demo_start))"
    by (simp add: demo_run_calls demo_flush_calls_def)
  ultimately show ?thesis
    using relay_calls_are_authorized [of demo_start ?call demo_relay demo_run]
    by (simp add: demo_run_calls demo_flush_calls_def demo_submissions_def)
qed

section \<open>SDK and request checks\<close>

text \<open>C26. Whatever the interleaving of calls, reads, writes and failures of the cache, the nonces one
  account and channel gets are strictly increasing, start at the cached value and stay below the next
  one; when no call of that key failed they are consecutive. So no nonce is given out twice.\<close>

theorem nonces_are_issued_in_order:
  assumes "nonce_reachable memory_get memory_set s e" "0 \<le> cached memory_get s k"
    "cached memory_get s k + int (length (ne_calls e)) \<le> 9007199254740991"
  shows "sorted_wrt (<) (issued k (ne_calls e)) \<and>
    (\<not> thrown k (ne_calls e) \<longrightarrow>
       issued k (ne_calls e) = map (\<lambda>n. cached memory_get s k + int n) [0..<length (issued k (ne_calls e))]) \<and>
    (\<forall>v \<in> set (issued k (ne_calls e)). cached memory_get s k \<le> v \<and> v < cached memory_get (ne_cache e) k)"
  using memory_nonce.issued_in_order [OF assms] by blast

theorem nonces_are_issued_in_order_witness:
  "\<exists>e. demo_nonces = Some e \<and> issued (cacheKey ''0xab'' 7) (ne_calls e) = [0, 1] \<and>
     sorted_wrt (<) (issued (cacheKey ''0xab'' 7) (ne_calls e))"
proof -
  obtain e where e: "demo_nonces = Some e" "issued (cacheKey ''0xab'' 7) (ne_calls e) = [0, 1]" "length (ne_calls e) = 3"
    using demo_nonces_value by (cases demo_nonces) auto
  then have "nonce_reachable memory_get memory_set [] e"
    unfolding demo_nonces_def by (blast intro: run_nonces_reachable nonce_reachable.start)
  from nonces_are_issued_in_order [OF this, of "cacheKey ''0xab'' 7"] e show ?thesis
    by (auto simp: cached_def memory_get_def)
qed

text \<open>Every nonce call is answered: the event loop can continue some call until all of them have
  returned or thrown and every lock is released, and it does so within a bounded number of steps.\<close>

theorem nonce_calls_are_answered:
  assumes "nonce_reachable get put s e" "(nonce_work get put ^^ n) e e'"
  shows "n + work_left e' \<le> work_left e \<and>
    (list_all finished (ne_calls e') \<and> ne_locks e' = Map.empty \<or> (\<exists>e''. nonce_work get put e' e''))"
  using nonce_work_bounded [OF assms(2) queue_ok_reachable [OF assms(1)]] stuck_answered [of e' get put] by blast

theorem nonce_calls_are_answered_witness:
  "nonce_reachable memory_get memory_set [] (nextNonce ''0xab'' 7 (new_engine [])) \<and>
   work_left (nextNonce ''0xab'' 7 (new_engine [])) = 4 \<and>
   (\<exists>e''. nonce_work memory_get memory_set (nextNonce ''0xab'' 7 (new_engine [])) e'')"
proof -
  have r: "nonce_reachable memory_get memory_set [] (nextNonce ''0xab'' 7 (new_engine []))"
    by (intro nonce_reachable.intros)
  have "work_left (nextNonce ''0xab'' 7 (new_engine [])) = 4"
    by (simp add: work_left_def nextNonce_def Let_def new_engine_def phase_work_def)
  moreover have "\<not> list_all finished (ne_calls (nextNonce ''0xab'' 7 (new_engine [])))"
    by (simp add: nextNonce_def Let_def new_engine_def finished_def)
  ultimately show ?thesis using r nonce_calls_are_answered [OF r, of 0] by auto
qed



text \<open>C28. Conversely a credential issued with the parameters a service expects survives JSON, Base64 and
  the headers, and the service accepts it and names its signer.\<close>

theorem issued_credential_is_accepted:
  assumes "createOpenRailsAccessCredential co et sign signer random p = Inr c" "ethers_ok et" "plain_params p"
    "ap_mode p = JStr m" "m \<noteq> []" "\<And>d v. recover et d v (JStr (sign d v)) = Some signer" "\<not> bad_address et (JStr signer)"
    "is_bytes32 et (av_nonce (buildOpenRailsAccessValue et random p))"
    "params_expected co et (clock_now clock opt) opt p"
  shows "\<exists>hs. buildOpenRailsAccessHeaders co et h (Inr c) = Inr hs \<and>
    validateOpenRailsAccessRequest co et h clock (request_of hs) opt = Inr (Accepted (c, signer))"
  by (rule created_accepted [OF assms])

theorem issued_credential_is_accepted_witness:
  "\<exists>hs. buildOpenRailsAccessHeaders demo_coercions (demo_ethers any_signature) demo_host (Inr demo_credential) = Inr hs \<and>
    validateOpenRailsAccessRequest demo_coercions (demo_ethers any_signature) demo_host 0 (request_of hs) demo_options =
      Inr (Accepted (demo_credential, demo_wallet))"
proof (rule issued_credential_is_accepted [OF demo_created demo_ethers_ok(1) demo_plain _ _ _ demo_wallet_ok _ demo_expected])
  show "ap_mode demo_params = JStr ''railsflow''" by (simp add: demo_params_def)
  show "recover (demo_ethers any_signature) d v (JStr ''signed'') = Some demo_wallet" for d v
    by (simp add: demo_ethers_def any_signature_def)
  show "is_bytes32 (demo_ethers any_signature)
      (av_nonce (buildOpenRailsAccessValue (demo_ethers any_signature) [] demo_params))"
    by (simp add: buildOpenRailsAccessValue_def demo_params_def is_nullish_def demo_hash_ok)
qed simp



text \<open>An opening request is accepted only when its token decodes, its mode, recipient, claim
  recipient, headers and metadata agree with the signed intent, and its policy allows the intent.\<close>

theorem accepted_opening_is_consistent:
  assumes "validateOpenPaycardRequest co et h now body tokenAddress = Inr (Accepted r)"
  shows "opening_consistent et body tokenAddress r \<and>
    policy_respected co (opt_prop (or_decoded r) ''intent'') (ob_policyEnvelope body) now \<and>
    (\<exists>t. ob_envelopeToken body = JStr t \<and> deserializeEnvelope h t = Inr (or_decoded r))"
  by (rule open_accepted [OF assms])

theorem accepted_opening_is_consistent_witness:
  "\<exists>r. validateOpenPaycardRequest demo_coercions (demo_ethers any_signature) demo_host 0 demo_open_body demo_wallet = Inr (Accepted r) \<and>
     or_envelopeMode r = flow \<and> opening_consistent (demo_ethers any_signature) demo_open_body demo_wallet r"
proof -
  have "validateOpenPaycardRequest demo_coercions (demo_ethers any_signature) demo_host 0 demo_open_body demo_wallet =
      Inr (Accepted demo_opened)"
    by (rule demo_opening_accepted)
  from accepted_opening_is_consistent [OF this] this show ?thesis by (auto simp: demo_opened_def)
qed



section \<open>Workers\<close>



text \<open>The indexer catches up: a tick that completes with budget to spare has taken in every event of the
  vault up to the head of the chain.\<close>

theorem index_catches_up:
  assumes "chain_ok L" "answers L nd" "factory_key cf \<noteq> v" "indexes L v s n db" "distinct (map wv_address (ix_vaults db))"
    "runTick cf nd now db = (Inr head, tk)" "tk_chunks tk < maxChunks cf"
  shows "\<exists>n'. indexes L v s n' (tk_db tk) \<and> (\<forall>l \<in> set (drop n' (events_from L v s)). head < hl_block l)"
proof -
  have "\<not> spent cf tk" using assms(7) by (simp add: spent_def)
  from tick_complete [OF assms(1-6) this] show ?thesis by (auto simp: complete_to_def)
qed

theorem index_catches_up_witness:
  "\<exists>n tk. runTick demo_index_config (demo_index_node (Inr 20)) 2 demo_index_db = (Inr 20, tk) \<and>
     indexes demo_chain_logs ''0xv'' 5 n (tk_db tk) \<and> (\<forall>l \<in> set (drop n (events_from demo_chain_logs ''0xv'' 5)). 20 < hl_block l)"
proof -
  obtain tk where tk: "runTick demo_index_config (demo_index_node (Inr 20)) 2 demo_index_db = (Inr 20, tk)"
      "tk_chunks tk < maxChunks demo_index_config"
    using demo_last_tick by (metis prod.collapse less_numeral_extra numeral_less_iff semiring_norm(76,78,80,81))
  have "distinct (map wv_address (ix_vaults demo_index_db))" by (simp add: demo_index_db_def)
  from index_catches_up [OF demo_chain_ok demo_answers demo_not_factory demo_fresh this tk] tk(1) show ?thesis by blast
qed

text \<open>The indexer and the stream gateway agree: for the events taken in, balance and status of every
  Paycard in the indexer's table are those the gateway arrives at from the same events.\<close>

theorem indexer_agrees_with_gateway:
  assumes "indexes L v s n db" "list_all2 same_event (map (\<lambda>l. the (hl_event l)) (take n (events_from L v s))) ps"
    "\<forall>p \<in> set ps. event_wf p" "decoder_ok d" "gw_reachable d g" "ledger i g = None" "length (gw_queue g) + length ps \<le> 2147483648"
  shows "card_ledger v i db = map_option (\<lambda>(b, st). (b, status_text st)) (ledger i (fold (apply_event now) ps g))"
  using index_agrees_with_gateway [OF assms(1-3) gw_reachable_ok [OF assms(4,5)] assms(6)] assms(7) by (simp add: max_queue_def)

theorem indexer_agrees_with_gateway_witness:
  "card_ledger ''0xv'' ''card'' (run_ticks demo_index_config demo_ticks demo_index_db) =
     map_option (\<lambda>(b, st). (b, status_text st)) (ledger ''card'' (fold (apply_event 0) [provision_event, settlement_event] gw0))"
proof -
  obtain n where n: "indexes demo_chain_logs ''0xv'' 5 n (run_ticks demo_index_config demo_ticks demo_index_db)"
    using ticks_known [of demo_chain_logs demo_ticks, OF demo_chain_ok _ demo_not_factory demo_fresh] demo_ticks_answer by blast
  have "length (vault_rows ''0xv'' (run_ticks demo_index_config demo_ticks demo_index_db)) = 2" by code_simp
  moreover have e: "events_from demo_chain_logs ''0xv'' 5 = [demo_card_log 5 (Some demo_card_opened), demo_card_log 9 (Some demo_card_settled)]"
    by (simp add: events_from_def demo_chain_logs_def demo_card_log_def)
  ultimately have "take n (events_from demo_chain_logs ''0xv'' 5) = events_from demo_chain_logs ''0xv'' 5"
    using n by (auto simp: indexes_def holds_prefix_def dest!: list_all2_lengthD)
  then have same: "list_all2 same_event (map (\<lambda>l. the (hl_event l)) (take n (events_from demo_chain_logs ''0xv'' 5))) [provision_event, settlement_event]"
    using demo_same_events by (simp add: e demo_card_log_def)
  have "ledger ''card'' gw0 = None" by (simp add: ledger_def gw0_def start_gateway_def empty_store_get)
  from indexer_agrees_with_gateway [OF n same _ demo_decoder_ok gw0_reachable this, of 0]
  show ?thesis by (simp add: demo_events_wf gw0_queue)
qed



text \<open>C31. The keeper sponsors only what was signed: a request makes it send at most one permit, with the fields
  of the permit attached, and at most one call to the hub, whose dry run passed and whose arguments are those of
  the decoded envelope, for its recipient, or for a bearer card the claimant named; a reply 200 stands
  for a call that was submitted. Settlements are sent only for an authorized reconciliation.\<close>

theorem keeper_sponsors_envelopes:
  assumes "settler_fetch sv et h nd sn kc cf wallet now rq (k, s) = (res, k', s')"
  shows "(sg_sent s' \<noteq> sg_sent s \<longrightarrow> wq_path rq = ''/reconcile'' \<and> worker_authorized ''x-openrails-admin-token'' rq (sc_adminToken cf)) \<and>
    (wq_path rq \<noteq> ''/reconcile'' \<longrightarrow> relay_sends sv nd (asked_permit h kc rq) (asked_calls sv et h kc rq) (kp_calls k) res k')"
  using settler_fetch_relays(1) [OF assms] settler_fetch_reconciles [OF assms] by blast

theorem keeper_sponsors_envelopes_witness:
  "relay_sends demo_values (keeper_node.truncate demo_keeper_node) (asked_permit demo_host demo_keeper_config demo_relay_request)
     (asked_calls demo_values demo_server_ethers demo_host demo_keeper_config demo_relay_request) []
     (Inr (sponsored_reply keeper_envelope (JStr demo_wallet) ''0xh''))
     \<lparr>kp_chain = 1, kp_calls = [(Keeper_open demo_hub_args, Inr ''0xh'')]\<rparr>"
  using keeper_sponsors_envelopes [OF demo_relay_run]
  by (simp add: demo_relay_request_def demo_keeper_def)







section \<open>The GasOK server\<close>



text \<open>C38. A session was signed for: every token the server accepts was handed out to a request whose signature
  of the challenge verified, for a challenge an earlier request of the same origin had asked for, for the same
  address and less than five minutes before.\<close>

theorem gasok_sessions_are_signed:
  assumes "reachable k s" "oget (gk_sessions (gasok_run gx s es)) token = Some session"
  shows "\<exists>es1 es2 nd now rq nd0 now0 rq0 raw raw0 sg a.
    es = es1 @ Handled nd now rq # es2 \<and> gq_call rq = Post_verify raw sg \<and> sameOrigin rq \<and>
    gx_getAddress gx raw = Some (gs_address session) \<and> token = gq_random rq \<and> gs_expiresAt session = now + sessionTtlMs \<and>
    Handled nd0 now0 rq0 \<in> set es1 \<and> gq_call rq0 = Get_challenge (Some raw0) \<and> sameOrigin rq0 \<and>
    gx_getAddress gx raw0 = Some a \<and> sameAddress a (gs_address session) \<and> now < now0 + challengeTtlMs \<and>
    gx_verifyMessage gx (gs_address session) (challengeMessage gx a (gq_random rq0) (now0 + challengeTtlMs)) sg = Inr True"
proof -
  from run_sessions [OF reachable_scoped [OF assms(1)], of gx es] assms(2) have "was_opened gx es token session" by blast
  then obtain es1 nd now rq es2 raw sg c where o: "es = es1 @ Handled nd now rq # es2" "sameOrigin rq"
    "gq_call rq = Post_verify raw sg" "gx_getAddress gx raw = Some (gs_address session)" "token = gq_random rq"
    "gs_expiresAt session = now + sessionTtlMs" "was_issued gx es1 (lower (gs_address session)) c" "now < gc_expiresAt c"
    "gx_verifyMessage gx (gs_address session) (gc_message c) sg = Inr True" unfolding was_opened_def by blast
  from o(7) obtain nd0 now0 rq0 raw0 a where i: "Handled nd0 now0 rq0 \<in> set es1" "sameOrigin rq0"
    "gq_call rq0 = Get_challenge (Some raw0)" "gx_getAddress gx raw0 = Some a" "lower (gs_address session) = lower a"
    "c = \<lparr>gc_message = challengeMessage gx a (gq_random rq0) (now0 + challengeTtlMs), gc_expiresAt = now0 + challengeTtlMs\<rparr>"
    unfolding was_issued_def by blast
  have "sameAddress a (gs_address session)" using i(5) by (simp add: sameAddress_def)
  with o i show ?thesis by (intro exI conjI) (auto intro!: o(1))
qed

theorem gasok_sessions_are_signed_witness:
  "\<exists>es1 es2 nd now rq raw sg. demo_sign_in = es1 @ Handled nd now rq # es2 \<and> gq_call rq = Post_verify raw sg \<and>
     ''tok'' = gq_random rq \<and> now = 1"
proof -
  have "oget (gk_sessions (gasok_run demo_gasok_libs st9 demo_sign_in)) ''tok'' = Some demo_gasok_session"
    by (simp add: demo_sign_in_run demo_signed_in_def)
  from gasok_sessions_are_signed [OF st9_reachable this] show ?thesis
    by (fastforce simp: demo_gasok_session_def sessionTtlMs_def)
qed

text \<open>C39. The payments of the GasOK server are on the chain: an active, performing or settled Pact was opened by a
  successful transaction with the vault's event for its Paycard, whose card in the registry at that block carries
  the Pact's terms, and every settlement it lists is the amount flushed by a successful transaction; unless the
  file the server started from held them already.\<close>

theorem gasok_payments_are_on_chain:
  assumes "reachable k s" "oget (pacts (gk_state (gasok_run gx s es))) i = Some p"
    "pc_status p \<in> {PactActive, PactPerforming, PactSettled}"
  shows "\<exists>r ob. pc_openRails p = Some r \<and> or_openingObservation r = Some ob \<and>
    ((\<exists>nd \<in> nodes_of es. opened_on_chain nd p r) \<or>
     (\<exists>q r0. oget (pacts s) i = Some q \<and> pc_openRails q = Some r0 \<and> or_openingObservation r0 = Some ob)) \<and>
    (\<forall>so \<in> set (rails_settlements r). (\<exists>nd \<in> nodes_of es. flushed_on_chain nd (or_paycardId r) so) \<or>
     (\<exists>q r0. oget (pacts s) i = Some q \<and> pc_openRails q = Some r0 \<and> so \<in> set (rails_settlements r0)))"
proof -
  note start = reachable_scoped [OF assms(1)] reachable_payments [OF assms(1)]
  from payments_okD [OF run_payments [OF start] assms(2)] assms(3) have "has_opening p" by (auto simp: payment_ok_def)
  then obtain r ob where r: "pc_openRails p = Some r" "or_openingObservation r = Some ob"
    by (auto simp: has_opening_def split: option.splits)
  with run_pact_on_chain [OF start assms(2) r(1)] show ?thesis by blast
qed

theorem gasok_payments_are_on_chain_witness:
  "\<exists>r nd. pc_openRails demo_recovered = Some r \<and> nd \<in> nodes_of demo_gasok_history \<and> opened_on_chain nd demo_recovered r"
proof -
  have "pc_status demo_recovered \<in> {PactActive, PactPerforming, PactSettled}" by (simp add: demo_recovered_def)
  from gasok_payments_are_on_chain [OF st9_reachable demo_gasok_end this]
  show ?thesis by (auto simp: demo_simps)
qed

text \<open>C40. A question to the chain is asked until it is answered, at most thirty times: the result is the first
  answer, and when there is none the error names the question and the reason of the last attempt.\<close>

theorem retry_returns_first_answer:
  "retryRpc label op = (case find (\<lambda>n. \<not> isl (op n)) [1..<31] of
     Some n \<Rightarrow> op n
   | None \<Rightarrow> Inl (Error (label @ '' failed after 30 attempts: '' @ message_of (op 30))))"
  by (rule retryRpc_find)

end
